(* ===== verification/Avb_Prelude.thy ===== *)
theory Avb_Prelude
  imports Main "HOL-Library.Word"
begin

text \<open>
  Shared vocabulary of the development: the machine integer types of the XCore target,
  searches over fixed-size C arrays (held as lists), byte-buffer writes, and two generic
  interfaces that several components provide: a codec of fixed width between values and
  network bytes, and a state machine whose steps keep an invariant.
  Plain \<open>char\<close> is unsigned on the XCore ABI, so every byte is an \<open>8 word\<close>.
\<close>

unbundle bit_operations_syntax

type_synonym u8 = "8 word"
type_synonym u16 = "16 word"
type_synonym u32 = "32 word"
type_synonym u64 = "64 word"

named_theorems wire_simps \<open>evaluation of byte-level encoders and decoders\<close>
named_theorems step_inv \<open>one step of a component keeps its invariant\<close>

section \<open>Searching a fixed-size array\<close>

text \<open>
  \<open>find_idx\<close> is the loop that stops at the first matching slot, \<open>find_last_idx\<close> the loop
  that runs to the end and keeps the last matching slot.
\<close>

primrec find_idx :: "('a \<Rightarrow> bool) \<Rightarrow> 'a list \<Rightarrow> nat option" where
  "find_idx P [] = None"
| "find_idx P (x # xs) = (if P x then Some 0 else map_option Suc (find_idx P xs))"

primrec find_last_idx :: "('a \<Rightarrow> bool) \<Rightarrow> 'a list \<Rightarrow> nat option" where
  "find_last_idx P [] = None"
| "find_last_idx P (x # xs) =
     (case find_last_idx P xs of
        Some j \<Rightarrow> Some (Suc j)
      | None \<Rightarrow> if P x then Some 0 else None)"

lemma find_idx_None: "find_idx P xs = None \<longleftrightarrow> (\<forall>x\<in>set xs. \<not> P x)"
  by (induction xs) auto

lemma find_idx_SomeD:
  "find_idx P xs = Some i \<Longrightarrow> i < length xs \<and> P (xs ! i) \<and> (\<forall>j<i. \<not> P (xs ! j))"
proof (induction xs arbitrary: i)
  case (Cons x xs)
  then show ?case
    by (auto split: if_splits simp: nth_Cons' less_Suc_eq_0_disj)
qed simp

lemma find_idx_less: "find_idx P xs = Some i \<Longrightarrow> i < length xs"
  by (drule find_idx_SomeD) simp

lemma find_idx_holds: "find_idx P xs = Some i \<Longrightarrow> P (xs ! i)"
  by (drule find_idx_SomeD) simp

lemma find_idx_SomeI:
  "i < length xs \<Longrightarrow> P (xs ! i) \<Longrightarrow> (\<forall>j<i. \<not> P (xs ! j)) \<Longrightarrow> find_idx P xs = Some i"
proof (induction xs arbitrary: i)
  case (Cons x xs)
  show ?case
  proof (cases i)
    case 0
    with Cons.prems show ?thesis by simp
  next
    case (Suc k)
    from Cons.prems Suc have "\<not> P x" by (metis nth_Cons_0 zero_less_Suc)
    moreover have "find_idx P xs = Some k"
      using Cons.prems Suc by (intro Cons.IH) auto
    ultimately show ?thesis using Suc by simp
  qed
qed simp

lemma find_idx_exists:
  assumes "i < length xs" and "P (xs ! i)"
  shows "\<exists>j. find_idx P xs = Some j"
proof (cases "find_idx P xs")
  case None
  with assms show ?thesis by (auto simp: find_idx_None)
qed simp

lemma find_last_idx_None: "find_last_idx P xs = None \<longleftrightarrow> (\<forall>x\<in>set xs. \<not> P x)"
  by (induction xs) (auto split: option.splits)

lemma find_last_idx_SomeD:
  "find_last_idx P xs = Some i \<Longrightarrow> i < length xs \<and> P (xs ! i)"
  by (induction xs arbitrary: i) (auto split: option.splits if_splits)

text \<open>An array element changed in place.\<close>

definition modify_nth :: "nat \<Rightarrow> ('a \<Rightarrow> 'a) \<Rightarrow> 'a list \<Rightarrow> 'a list" where
  "modify_nth i f xs = xs[i := f (xs ! i)]"

lemma length_modify_nth [simp]: "length (modify_nth i f xs) = length xs"
  by (simp add: modify_nth_def)

lemma nth_modify_nth_same [simp]: "i < length xs \<Longrightarrow> modify_nth i f xs ! i = f (xs ! i)"
  by (simp add: modify_nth_def)

lemma nth_modify_nth_other [simp]: "i \<noteq> j \<Longrightarrow> modify_nth i f xs ! j = xs ! j"
  by (simp add: modify_nth_def)

lemma modify_nth_beyond: "\<not> i < length xs \<Longrightarrow> modify_nth i f xs = xs"
  by (simp add: modify_nth_def list_update_beyond not_less)

lemma list_all_modify_nth:
  "list_all P xs \<Longrightarrow> (i < length xs \<Longrightarrow> P (xs ! i) \<Longrightarrow> P (f (xs ! i))) \<Longrightarrow> list_all P (modify_nth i f xs)"
  by (cases "i < length xs") (auto simp: list_all_length modify_nth_def nth_list_update)

lemma list_all_replicate_iff [simp]: "list_all P (replicate n x) \<longleftrightarrow> n = 0 \<or> P x"
  by (auto simp: list_all_iff)

lemma list_all_nth: "list_all P xs \<Longrightarrow> i < length xs \<Longrightarrow> P (xs ! i)"
  by (simp add: list_all_length)

lemma length_filter_update:
  "i < length xs \<Longrightarrow> int (length (filter P (xs[i := y]))) =
     int (length (filter P xs)) - (if P (xs ! i) then 1 else 0) + (if P y then 1 else 0)"
proof (induction xs arbitrary: i)
  case (Cons x xs)
  show ?case
  proof (cases i)
    case (Suc k)
    with Cons.prems have "k < length xs" by simp
    from Cons.IH [OF this] Suc show ?thesis by (auto split: if_splits)
  qed simp
qed simp

text \<open>Positions and levels of a ring of \<open>n\<close> places.\<close>

lemma ring_index: "(p :: nat) < n \<Longrightarrow> k < n \<Longrightarrow> (p + k) mod n = (if p + k < n then p + k else p + k - n)"
  by (simp add: mod_if)

lemma ring_level: "(d :: nat) < n \<Longrightarrow> w < n \<Longrightarrow> (w + n - d) mod n = (if d \<le> w then w - d else w + n - d)"
  by (auto simp: mod_if)

section \<open>Byte buffers\<close>

text \<open>A block copy of \<open>bs\<close> into a buffer at offset \<open>off\<close>, and a block read.\<close>

definition put_bytes :: "nat \<Rightarrow> 'a list \<Rightarrow> 'a list \<Rightarrow> 'a list" where
  "put_bytes off bs buf = take off buf @ bs @ drop (off + length bs) buf"

definition get_bytes :: "nat \<Rightarrow> nat \<Rightarrow> 'a list \<Rightarrow> 'a list" where
  "get_bytes off n buf = take n (drop off buf)"

lemma length_put_bytes [simp]:
  "off + length bs \<le> length buf \<Longrightarrow> length (put_bytes off bs buf) = length buf"
  by (simp add: put_bytes_def)

lemma nth_put_bytes:
  assumes "off + length bs \<le> length buf"
  shows "put_bytes off bs buf ! i =
    (if off \<le> i \<and> i < off + length bs then bs ! (i - off) else buf ! i)"
proof -
  have "length (take off buf) = off" using assms by simp
  then show ?thesis using assms
    by (auto simp: put_bytes_def nth_append min_def)
qed

lemma get_put_bytes_same:
  "off + length bs \<le> length buf \<Longrightarrow> n = length bs \<Longrightarrow> get_bytes off n (put_bytes off bs buf) = bs"
  by (simp add: get_bytes_def put_bytes_def)

lemma length_get_bytes [simp]:
  "off + n \<le> length buf \<Longrightarrow> length (get_bytes off n buf) = n"
  by (simp add: get_bytes_def)

lemma nth_get_bytes:
  "off + n \<le> length buf \<Longrightarrow> i < n \<Longrightarrow> get_bytes off n buf ! i = buf ! (off + i)"
  by (simp add: get_bytes_def)

lemma get_put_bytes_other:
  assumes "off + length bs \<le> length buf" and "o2 + n \<le> length buf"
    and "o2 + n \<le> off \<or> off + length bs \<le> o2"
  shows "get_bytes o2 n (put_bytes off bs buf) = get_bytes o2 n buf"
  using assms by (intro nth_equalityI) (auto simp: nth_get_bytes nth_put_bytes)

lemma get_bytes_drop: "get_bytes off n (drop k f) = get_bytes (k + off) n f"
  by (simp add: get_bytes_def add.commute)

lemma get_bytes_take: "off + n \<le> k \<Longrightarrow> get_bytes off n (take k f) = get_bytes off n f"
  by (simp add: get_bytes_def drop_take min_def)

text \<open>
  A packet writer stores a list of fields one after the other. When the fields stay inside
  the buffer and do not overlap, every one of them is read back, and what lies outside all
  of them is unchanged.
\<close>

primrec put_fields :: "(nat \<times> 'a list) list \<Rightarrow> 'a list \<Rightarrow> 'a list" where
  "put_fields [] buf = buf"
| "put_fields (f # fs) buf = put_fields fs (put_bytes (fst f) (snd f) buf)"

definition field_apart :: "nat \<Rightarrow> nat \<Rightarrow> nat \<times> 'a list \<Rightarrow> bool" where
  "field_apart off n f \<longleftrightarrow> fst f + length (snd f) \<le> off \<or> off + n \<le> fst f"

primrec fields_ok :: "nat \<Rightarrow> (nat \<times> 'a list) list \<Rightarrow> bool" where
  "fields_ok n [] = True"
| "fields_ok n (f # fs) = (fst f + length (snd f) \<le> n \<and>
     list_all (field_apart (fst f) (length (snd f))) fs \<and> fields_ok n fs)"

lemma length_put_fields: "fields_ok (length buf) fs \<Longrightarrow> length (put_fields fs buf) = length buf"
  by (induction fs arbitrary: buf) auto

lemma put_fields_other:
  "fields_ok (length buf) fs \<Longrightarrow> off + n \<le> length buf \<Longrightarrow> list_all (field_apart off n) fs \<Longrightarrow>
     get_bytes off n (put_fields fs buf) = get_bytes off n buf"
proof (induction fs arbitrary: buf)
  case (Cons f fs)
  then have "get_bytes off n (put_bytes (fst f) (snd f) buf) = get_bytes off n buf"
    by (intro get_put_bytes_other) (auto simp: field_apart_def)
  with Cons show ?case by simp
qed simp

lemma put_fields_read:
  "fields_ok (length buf) fs \<Longrightarrow> f \<in> set fs \<Longrightarrow>
     get_bytes (fst f) (length (snd f)) (put_fields fs buf) = snd f"
proof (induction fs arbitrary: buf)
  case (Cons g fs)
  show ?case
  proof (cases "f \<in> set fs")
    case True
    with Cons show ?thesis by simp
  next
    case False
    with Cons.prems have f: "f = g" by simp
    let ?b = "put_bytes (fst g) (snd g) buf"
    have "get_bytes (fst g) (length (snd g)) (put_fields fs ?b) = get_bytes (fst g) (length (snd g)) ?b"
      using Cons.prems by (intro put_fields_other) auto
    also have "\<dots> = snd g" using Cons.prems by (intro get_put_bytes_same) auto
    finally show ?thesis using f by simp
  qed
qed simp

lemma get_bytes_one: "i < length buf \<Longrightarrow> get_bytes i 1 buf = [buf ! i]"
  by (simp add: get_bytes_def take_Suc_conv_app_nth [of 0] hd_drop_conv_nth take_Suc)

lemma put_fields_nth_other:
  "fields_ok (length buf) fs \<Longrightarrow> i < length buf \<Longrightarrow> list_all (field_apart i 1) fs \<Longrightarrow>
     put_fields fs buf ! i = buf ! i"
  using put_fields_other [of buf fs i 1] by (simp add: get_bytes_one length_put_fields del: One_nat_def)

text \<open>The bit-field store \<open>SET_BITS(p, lo, hi, val)\<close> of the protocol headers.\<close>

definition set_bits :: "nat \<Rightarrow> nat \<Rightarrow> u8 \<Rightarrow> u8 \<Rightarrow> u8" where
  "set_bits lo hi val b = (b AND NOT (push_bit lo (mask (hi - lo + 1)))) OR push_bit lo val"

section \<open>Codecs of fixed width\<close>

text \<open>
  A codec writes a value as \<open>width\<close> bytes and reads it back. What its clients rely on
  is that a field written anywhere inside a buffer is read back unchanged, that two
  values with the same bytes are equal, and that writing one field leaves the others.
\<close>

locale wire_codec =
  fixes enc :: "'v \<Rightarrow> u8 list"
    and dec :: "u8 list \<Rightarrow> 'v"
    and valid :: "'v \<Rightarrow> bool"
    and width :: nat
  assumes enc_length: "length (enc v) = width"
    and dec_enc: "valid v \<Longrightarrow> dec (enc v) = v"
begin

lemma enc_inject: "valid v \<Longrightarrow> valid w \<Longrightarrow> enc v = enc w \<longleftrightarrow> v = w"
  using dec_enc by metis

lemma field_readback:
  "valid v \<Longrightarrow> off + width \<le> length buf \<Longrightarrow>
     dec (get_bytes off width (put_bytes off (enc v) buf)) = v"
  by (simp add: get_put_bytes_same enc_length dec_enc)

lemma field_frame:
  "off + width \<le> length buf \<Longrightarrow> o2 + n \<le> length buf \<Longrightarrow>
     o2 + n \<le> off \<or> off + width \<le> o2 \<Longrightarrow>
     get_bytes o2 n (put_bytes off (enc v) buf) = get_bytes o2 n buf"
  by (simp add: get_put_bytes_other enc_length)

end

section \<open>State machines that keep an invariant\<close>

text \<open>
  A component is driven by events (packets, periodic calls, API calls). The provider
  shows that its start state satisfies the invariant and that every event keeps it; the
  client gets the invariant after any sequence of events.
\<close>

locale event_machine =
  fixes step :: "'e \<Rightarrow> 's \<Rightarrow> 's"
    and inv :: "'s \<Rightarrow> bool"
  assumes step_keeps: "inv s \<Longrightarrow> inv (step e s)"
begin

lemma run_keeps: "inv s \<Longrightarrow> inv (fold step es s)"
  by (induction es arbitrary: s) (auto intro: step_keeps)

end

text \<open>A machine that also has an allowed event set, for environments with a precondition.\<close>

locale guarded_machine =
  fixes step :: "'e \<Rightarrow> 's \<Rightarrow> 's"
    and inv :: "'s \<Rightarrow> bool"
    and ok :: "'e \<Rightarrow> bool"
  assumes guarded_keeps: "inv s \<Longrightarrow> ok e \<Longrightarrow> inv (step e s)"
begin

lemma guarded_run: "inv s \<Longrightarrow> list_all ok es \<Longrightarrow> inv (fold step es s)"
  by (induction es arbitrary: s) (auto intro: guarded_keeps)

end

sublocale event_machine \<subseteq> guarded: guarded_machine step inv "\<lambda>_. True"
  by unfold_locales (rule step_keeps)

end
