(* ===== verification/Misc_Timer.thy ===== *)
theory Misc_Timer
  imports Avb_Prelude
begin

text \<open>
  The software timers of \<open>module_avb_util/src/misc_timer.xc\<close>. The free-running 100 MHz
  reference counter is the environment: every operation that reads it takes the value it
  reads as the argument \<open>now\<close>.
\<close>

record avb_timer =
  tmr_timeout :: u32
  tmr_period :: u32
  tmr_active :: int
  timeout_multiplier :: int

definition TICKS_PER_CENTISECOND :: u32 where
  "TICKS_PER_CENTISECOND = 100000 * 10"

definition timeafter :: "u32 \<Rightarrow> u32 \<Rightarrow> bool" where
  "timeafter A B \<longleftrightarrow> sint (B - A) < 0"

definition init_avb_timer :: "int \<Rightarrow> avb_timer \<Rightarrow> avb_timer" where
  "init_avb_timer mult t = t\<lparr>tmr_active := 0, timeout_multiplier := mult\<rparr>"

definition start_avb_timer :: "u32 \<Rightarrow> u32 \<Rightarrow> avb_timer \<Rightarrow> avb_timer" where
  "start_avb_timer now period_cs t =
     t\<lparr>tmr_period := period_cs * TICKS_PER_CENTISECOND,
       tmr_timeout := now + period_cs * TICKS_PER_CENTISECOND,
       tmr_active := timeout_multiplier t\<rparr>"

definition avb_timer_expired :: "u32 \<Rightarrow> avb_timer \<Rightarrow> bool \<times> avb_timer" where
  "avb_timer_expired now t =
     (if tmr_active t = 0 then (False, t)
      else
        let t' = (if timeafter now (tmr_timeout t)
                  then t\<lparr>tmr_active := tmr_active t - 1, tmr_timeout := now + tmr_period t\<rparr>
                  else t)
        in (tmr_active t' = 0, t'))"

definition stop_avb_timer :: "avb_timer \<Rightarrow> avb_timer" where
  "stop_avb_timer t = t\<lparr>tmr_active := 0\<rparr>"

section \<open>Polling a timer\<close>

text \<open>\<open>poll_timer\<close> reads the timer at each of the given times and collects the answers.\<close>

fun poll_timer :: "u32 list \<Rightarrow> avb_timer \<Rightarrow> bool list \<times> avb_timer" where
  "poll_timer [] t = ([], t)"
| "poll_timer (now # rest) t =
     (let (e, t') = avb_timer_expired now t; (es, t'') = poll_timer rest t' in (e # es, t''))"

lemma expired_fires: "avb_timer_expired now t = (True, t') \<Longrightarrow> tmr_active t' = 0"
  by (auto simp: avb_timer_expired_def Let_def split: if_splits)

lemma expired_inactive [simp]: "tmr_active t = 0 \<Longrightarrow> avb_timer_expired now t = (False, t)"
  by (simp add: avb_timer_expired_def)

lemma expired_active_nonneg:
  "0 \<le> tmr_active t \<Longrightarrow> avb_timer_expired now t = (e, t') \<Longrightarrow> 0 \<le> tmr_active t'"
  by (auto simp: avb_timer_expired_def Let_def split: if_splits)

lemma poll_inactive: "tmr_active t = 0 \<Longrightarrow> poll_timer ts t = (replicate (length ts) False, t)"
  by (induction ts) auto

lemma poll_counts_le_one: "count_list (fst (poll_timer ts t)) True \<le> 1"
proof (induction ts arbitrary: t)
  case (Cons now rest)
  obtain e t' where e: "avb_timer_expired now t = (e, t')" by fastforce
  show ?case
  proof (cases e)
    case True
    with e have "tmr_active t' = 0" by (auto dest: expired_fires)
    then have "poll_timer rest t' = (replicate (length rest) False, t')" by (rule poll_inactive)
    moreover have "count_list (replicate n False) True = 0" for n by (induction n) auto
    ultimately show ?thesis using e by simp
  next
    case False
    with e Cons.IH [of t'] show ?thesis by (simp add: case_prod_unfold Let_def)
  qed
qed simp

text \<open>
  A timer that has been started reports its expiry at most once, however often and
  whenever it is polled afterwards, until it is started again.
\<close>

theorem timer_fires_at_most_once:
  "count_list (fst (poll_timer ts (start_avb_timer now period_cs t))) True \<le> 1"
  by (rule poll_counts_le_one)

lemma start_stop_never_fires:
  "fst (avb_timer_expired now' (stop_avb_timer (start_avb_timer now p t))) = False"
  by (simp add: stop_avb_timer_def)

end
