(* ===== verification/Avb_1722_Common.thy ===== *)
theory Avb_1722_Common
  imports Avb_Prelude
begin

text \<open>
  The byte-order helpers of \<open>module_avb_1722/src/avb_1722_common.c\<close> and the shared 1722.1
  code of \<open>module_avb_1722_1/src/avb_1722_1_common.c\<close>: the comparison of a wire GUID with
  a host one, the integer logarithm and the control header. A \<open>guid_t\<close> is a union of a
  64-bit integer and eight bytes; the target is little endian, so byte \<open>c[i]\<close> holds bits
  \<open>8i..8i+7\<close>.
\<close>

section \<open>Byte order\<close>

definition ntoh_16 :: "u8 list \<Rightarrow> u16" where
  "ntoh_16 x = push_bit 8 (ucast (x ! 0)) OR ucast (x ! 1)"

definition ntoh_32 :: "u8 list \<Rightarrow> u32" where
  "ntoh_32 x = push_bit 24 (ucast (x ! 0)) OR push_bit 16 (ucast (x ! 1))
             OR push_bit 8 (ucast (x ! 2)) OR ucast (x ! 3)"

definition hton_16 :: "u16 \<Rightarrow> u8 list" where
  "hton_16 v = [ucast (drop_bit 8 v AND 0xFF), ucast (v AND 0xFF)]"

definition hton_32 :: "u32 \<Rightarrow> u8 list" where
  "hton_32 v = [ucast (drop_bit 24 v), ucast (drop_bit 16 v), ucast (drop_bit 8 v), ucast v]"

text \<open>\<open>get_64\<close> and \<open>set_64\<close> are the two loops over \<open>i = 0..7\<close>, as written.\<close>

definition get_64 :: "u8 list \<Rightarrow> u8 list \<Rightarrow> u8 list" where
  "get_64 g c = fold (\<lambda>i g. g[7 - i := c ! i]) [0..<8] g"

definition set_64 :: "u8 list \<Rightarrow> u8 list \<Rightarrow> u8 list" where
  "set_64 g c = fold (\<lambda>i g. g[i := c ! (7 - i)]) [0..<8] g"

text \<open>The two views of \<open>guid_t\<close>.\<close>

definition guid_c :: "u64 \<Rightarrow> u8 list" where
  "guid_c l = map (\<lambda>i. ucast (drop_bit (8 * i) l)) [0..<8]"

primrec guid_l :: "u8 list \<Rightarrow> u64" where
  "guid_l [] = 0"
| "guid_l (b # bs) = ucast b OR push_bit 8 (guid_l bs)"

lemma upt_8: "[0..<8] = [0, 1, 2, 3, 4, 5, 6, 7::nat]"
  by (simp add: upt_rec)

lemma length_8_cases:
  "length c = 8 \<Longrightarrow> \<exists>a0 a1 a2 a3 a4 a5 a6 a7. c = [a0, a1, a2, a3, a4, a5, a6, a7]"
  by (auto simp: numeral_eq_Suc length_Suc_conv)

lemma get_64_rev: "length g = 8 \<Longrightarrow> length c = 8 \<Longrightarrow> get_64 g c = rev c"
  by (drule length_8_cases, drule length_8_cases) (auto simp: get_64_def upt_8)

lemma set_64_rev: "length g = 8 \<Longrightarrow> length c = 8 \<Longrightarrow> set_64 g c = rev c"
  by (drule length_8_cases, drule length_8_cases) (auto simp: set_64_def upt_8)

lemma length_guid_c [simp]: "length (guid_c l) = 8"
  by (simp add: guid_c_def)

lemma nth_guid_c: "i < 8 \<Longrightarrow> guid_c l ! i = ucast (drop_bit (8 * i) l)"
  by (simp add: guid_c_def)

lemma bit_ucast_u8: "bit (ucast (b :: u8) :: 'a::len word) n \<longleftrightarrow> n < LENGTH('a) \<and> bit b n"
  by (simp add: bit_ucast_iff)

lemma bit_u8_less: "bit (b :: u8) n \<Longrightarrow> n < 8"
  using bit_imp_le_length [of b n] by simp

lemma bit_u8_ge: "8 \<le> n \<Longrightarrow> \<not> bit (b :: u8) n"
  using bit_u8_less by force

lemma bit_guid_l:
  "length c \<le> 8 \<Longrightarrow> bit (guid_l c) n \<longleftrightarrow> n div 8 < length c \<and> bit (c ! (n div 8)) (n mod 8)"
proof (induction c arbitrary: n)
  case (Cons b c)
  show ?case
  proof (cases "n < 8")
    case True
    then show ?thesis by (simp add: bit_or_iff bit_push_bit_iff bit_ucast_iff)
  next
    case False
    then have n: "n div 8 = Suc ((n - 8) div 8)" "n mod 8 = (n - 8) mod 8"
      by (simp_all add: le_div_geq le_mod_geq)
    have "\<not> bit b n" using False by (auto dest: bit_u8_less)
    moreover have "bit (guid_l c) (n - 8) \<longleftrightarrow>
        (n - 8) div 8 < length c \<and> bit (c ! ((n - 8) div 8)) ((n - 8) mod 8)"
      using Cons by simp
    moreover have "(n - 8) div 8 < length c \<Longrightarrow> n < 64" using Cons.prems False by auto
    ultimately show ?thesis using False
      by (auto simp: bit_or_iff bit_push_bit_iff bit_ucast_iff n)
  qed
qed simp

lemma bit_guid_c: "i < 8 \<Longrightarrow> n < 8 \<Longrightarrow> bit (guid_c l ! i) n \<longleftrightarrow> bit l (8 * i + n)"
  by (simp add: nth_guid_c bit_ucast_iff bit_drop_bit_eq)

lemma guid_l_c [simp]: "guid_l (guid_c l) = l"
  by (rule bit_word_eqI) (simp add: bit_guid_l bit_guid_c less_mult_imp_div_less)

lemma guid_c_inject: "guid_c a = guid_c b \<longleftrightarrow> a = b"
  by (metis guid_l_c)

lemma guid_c_l: "length c = 8 \<Longrightarrow> guid_c (guid_l c) = c"
  by (intro nth_equalityI bit_word_eqI) (simp_all add: bit_guid_c bit_guid_l)

lemma low_byte_16: "(0xFF :: u16) = mask 8"
  by (simp add: mask_eq_exp_minus_1)

lemma ntoh_hton_16: "ntoh_16 (hton_16 v) = v"
  by (rule bit_word_eqI)
    (auto simp: ntoh_16_def hton_16_def low_byte_16 bit_or_iff bit_push_bit_iff bit_ucast_iff
      bit_and_iff bit_drop_bit_eq bit_mask_iff)

lemma ntoh_hton_32: "ntoh_32 (hton_32 v) = v"
proof (rule bit_word_eqI)
  fix n assume "n < LENGTH(32)"
  then consider "n < 8" | "8 \<le> n" "n < 16" | "16 \<le> n" "n < 24" | "24 \<le> n" "n < 32" by fastforce
  then show "bit (ntoh_32 (hton_32 v)) n = bit v n"
    by cases (auto simp: ntoh_32_def hton_32_def bit_or_iff bit_push_bit_iff bit_ucast_iff
      bit_drop_bit_eq)
qed

lemma low_byte_32: "(0xff :: u32) = mask 8"
  by (simp add: mask_eq_exp_minus_1)

lemma length_hton_16 [simp]: "length (hton_16 v) = 2"
  by (simp add: hton_16_def)

lemma length_hton_32 [simp]: "length (hton_32 v) = 4"
  by (simp add: hton_32_def)

text \<open>Byte \<open>i\<close> of a word in the memory of the target.\<close>

definition octet :: "u32 \<Rightarrow> nat \<Rightarrow> u8" where
  "octet w i = ucast (drop_bit (8 * i) w)"

definition of_octets :: "u8 \<Rightarrow> u8 \<Rightarrow> u8 \<Rightarrow> u8 \<Rightarrow> u32" where
  "of_octets b0 b1 b2 b3 =
     ucast b0 OR push_bit 8 (ucast b1) OR push_bit 16 (ucast b2) OR push_bit 24 (ucast b3)"

lemma bit_octet: "bit (octet w i) n \<longleftrightarrow> n < 8 \<and> bit w (8 * i + n)"
  by (auto simp: octet_def bit_ucast_iff bit_drop_bit_eq dest: bit_u8_less)

lemma of_octets_octet: "of_octets (octet w 0) (octet w 1) (octet w 2) (octet w 3) = w"
proof (rule bit_word_eqI)
  fix n assume "n < LENGTH(32)"
  then consider "n < 8" | "8 \<le> n" "n < 16" | "16 \<le> n" "n < 24" | "24 \<le> n" "n < 32" by fastforce
  then show "bit (of_octets (octet w 0) (octet w 1) (octet w 2) (octet w 3)) n = bit w n"
    by cases (auto simp: of_octets_def bit_or_iff bit_push_bit_iff bit_ucast_iff bit_octet)
qed

lemma of_octets_high: "of_octets 0 0 (octet w 2) (octet w 3) = w AND NOT (mask 16)"
proof (rule bit_word_eqI)
  fix n assume "n < LENGTH(32)"
  then consider "n < 8" | "8 \<le> n" "n < 16" | "16 \<le> n" "n < 24" | "24 \<le> n" "n < 32" by fastforce
  then show "bit (of_octets 0 0 (octet w 2) (octet w 3)) n = bit (w AND NOT (mask 16)) n"
    by cases (auto simp: of_octets_def bit_or_iff bit_and_iff bit_not_iff bit_mask_iff bit_push_bit_iff bit_ucast_iff bit_octet)
qed

text \<open>
  A GUID on the wire is the eight bytes most significant first: \<open>set_64\<close> of its \<open>c\<close>
  array into the packet, \<open>get_64\<close> from the packet into the \<open>c\<close> array.
\<close>

definition guid_to_wire :: "u64 \<Rightarrow> u8 list" where
  "guid_to_wire l = set_64 (replicate 8 0) (guid_c l)"

definition guid_from_wire :: "u8 list \<Rightarrow> u64" where
  "guid_from_wire b = guid_l (get_64 (replicate 8 0) b)"

lemma length_guid_to_wire [simp]: "length (guid_to_wire l) = 8"
  by (simp add: guid_to_wire_def set_64_rev)

lemma guid_from_to_wire [simp]: "guid_from_wire (guid_to_wire l) = l"
  by (simp add: guid_from_wire_def guid_to_wire_def set_64_rev get_64_rev)

lemma guid_to_from_wire: "length b = 8 \<Longrightarrow> guid_to_wire (guid_from_wire b) = b"
  by (simp add: guid_from_wire_def guid_to_wire_def set_64_rev get_64_rev guid_c_l)

interpretation net16: wire_codec hton_16 ntoh_16 "\<lambda>_. True" 2
  by unfold_locales (simp_all add: ntoh_hton_16)

interpretation net32: wire_codec hton_32 ntoh_32 "\<lambda>_. True" 4
  by unfold_locales (simp_all add: ntoh_hton_32)

interpretation net64: wire_codec guid_to_wire guid_from_wire "\<lambda>_. True" 8
  by unfold_locales simp_all

section \<open>Shared 1722.1 code\<close>

text \<open>\<open>compare_guid\<close> compares a wire GUID with the bytes of a host one.\<close>

definition compare_guid :: "u8 list \<Rightarrow> u64 \<Rightarrow> bool" where
  "compare_guid a b = (\<forall>i \<in> set [0..<8]. a ! i = guid_c b ! (7 - i))"

lemma compare_guid_iff: "length a = 8 \<Longrightarrow> compare_guid a b \<longleftrightarrow> guid_from_wire a = b"
proof -
  assume a: "length a = 8"
  have "compare_guid a b \<longleftrightarrow> a = guid_to_wire b"
    using length_8_cases [OF a] length_8_cases [OF length_guid_c [of b]]
    by (auto simp: compare_guid_def guid_to_wire_def set_64_rev upt_8)
  then show ?thesis using a by (metis guid_from_to_wire guid_to_from_wire)
qed

text \<open>
  \<open>qlog2\<close> returns the exponent of a power of two and \<open>-1\<close> for every other value. Its loop
  does not end on 0, which the test before it excludes, so the loop is a partial function.
\<close>

partial_function (option) qlog2_loop :: "u32 \<Rightarrow> int \<Rightarrow> (u32 \<times> int) option" where
  "qlog2_loop n l =
     (if n AND 1 = 0 then qlog2_loop (drop_bit 1 n) (l + 1) else Some (n, l))"

definition qlog2 :: "u32 \<Rightarrow> int option" where
  "qlog2 n =
     (if n = 0 then Some (- 1)
      else case qlog2_loop n 0 of
             None \<Rightarrow> None
           | Some (n', l) \<Rightarrow> Some (if drop_bit 1 n' \<noteq> 0 then - 1 else l))"

lemma and_one_even: "(n :: u32) AND 1 = 0 \<longleftrightarrow> even n"
  by (simp add: and_one_eq even_iff_mod_2_eq_zero)

lemma even_unat: "even (unat (n :: u32)) \<longleftrightarrow> even n"
proof -
  have "unat (n mod 2) = unat n mod 2" by (simp add: unat_mod)
  then show ?thesis by (metis even_iff_mod_2_eq_zero unat_0 unat_eq_zero)
qed

lemma drop_bit_1_even:
  assumes "even (n :: u32)" and "n \<noteq> 0"
  shows "unat n = 2 * unat (drop_bit 1 n)" and "drop_bit 1 n \<noteq> 0"
    and "unat (drop_bit 1 n) < unat n"
proof -
  have d: "unat (drop_bit 1 n) = unat n div 2" by (simp add: drop_bit_eq_div unat_div)
  have e: "even (unat n)" using assms(1) by (simp add: even_unat)
  have pos: "0 < unat n" using assms(2) by (simp add: unat_gt_0)
  from d pos show "unat (drop_bit 1 n) < unat n" by simp
  from d e show two: "unat n = 2 * unat (drop_bit 1 n)" by simp
  with pos have "0 < unat (drop_bit 1 n)" by simp
  then show "drop_bit 1 n \<noteq> 0" by (simp add: unat_gt_0)
qed

text \<open>With a nonzero argument the loop ends, and it ends in an odd number.\<close>

lemma qlog2_loop_total:
  "n \<noteq> 0 \<Longrightarrow> \<exists>m k. qlog2_loop n l = Some (m, l + int k) \<and> odd m \<and> unat n = 2 ^ k * unat m"
proof (induction "unat n" arbitrary: n l rule: less_induct)
  case less
  show ?case
  proof (cases "even n")
    case True
    note h = drop_bit_1_even [OF True less.prems]
    obtain m k where mk: "qlog2_loop (drop_bit 1 n) (l + 1) = Some (m, l + 1 + int k)" "odd m"
        "unat (drop_bit 1 n) = 2 ^ k * unat m"
      using less.hyps [OF h(3,2)] by blast
    have "qlog2_loop n l = qlog2_loop (drop_bit 1 n) (l + 1)"
      using True by (subst qlog2_loop.simps) (simp add: and_one_even)
    with mk h(1) show ?thesis
      by (intro exI [of _ m] exI [of _ "Suc k"]) simp
  next
    case False
    then show ?thesis
      by (intro exI [of _ n] exI [of _ 0]) (subst qlog2_loop.simps, simp add: and_one_even)
  qed
qed

text \<open>The reference: search the exponents 0 to 31.\<close>

definition log2_ref :: "u32 \<Rightarrow> int" where
  "log2_ref n = (case find_idx (\<lambda>k. n = 2 ^ k) [0..<32] of Some k \<Rightarrow> int k | None \<Rightarrow> - 1)"

lemma unat_pow2: "k < LENGTH('a) \<Longrightarrow> unat ((2 :: 'a::len word) ^ k) = 2 ^ k"
proof -
  assume "k < LENGTH('a)"
  then have "(2::nat) ^ k < 2 ^ LENGTH('a)" by (rule power_strict_increasing) simp
  moreover have "(2 :: 'a word) ^ k = word_of_nat (2 ^ k)" by simp
  ultimately show ?thesis by (simp only: unat_of_nat mod_less)
qed

lemma unat_pow2_32: "k < 32 \<Longrightarrow> unat ((2::u32) ^ k) = 2 ^ k"
  by (rule unat_pow2) simp

lemma odd_factor_pow2: "odd (m::nat) \<Longrightarrow> 2 ^ j = 2 ^ k * m \<Longrightarrow> m = 1 \<and> j = k"
proof -
  assume m: "odd m" and e: "(2::nat) ^ j = 2 ^ k * m"
  have "m dvd 2 ^ j" using e by simp
  moreover have "coprime m (2 ^ j)" using m by (simp add: coprime_commute)
  ultimately have "m = 1" by (metis coprime_common_divisor_nat dvd_refl)
  with e show ?thesis by simp
qed

lemma log2_ref_pow: "k < 32 \<Longrightarrow> n = 2 ^ k \<Longrightarrow> log2_ref n = int k"
proof -
  assume k: "k < 32" and n: "n = 2 ^ k"
  have "find_idx (\<lambda>k. n = 2 ^ k) [0..<32] = Some k"
  proof (rule find_idx_SomeI)
    show "\<forall>j<k. n \<noteq> 2 ^ ([0..<32] ! j)"
    proof (intro allI impI)
      fix j assume j: "j < k"
      then have "(2::nat) ^ j \<noteq> 2 ^ k" by simp
      then show "n \<noteq> 2 ^ ([0..<32] ! j)" using j k n
        by (metis add_0 less_trans nth_upt unat_pow2_32)
    qed
  qed (use k n in simp_all)
  then show ?thesis by (simp add: log2_ref_def)
qed

text \<open>
  \<open>qlog2\<close> terminates on every argument and returns the exponent of a power of two and
  -1 for any other value, as the search through all exponents does.
\<close>

theorem qlog2_correct: "qlog2 n = Some (log2_ref n)"
proof (cases "n = 0")
  case True
  then show ?thesis by (simp add: qlog2_def log2_ref_def upt_rec)
next
  case False
  then obtain m k where mk: "qlog2_loop n 0 = Some (m, int k)" "odd m" "unat n = 2 ^ k * unat m"
    using qlog2_loop_total [of n 0] by auto
  have um: "odd (unat m)" using mk(2) by (simp add: even_unat)
  have one: "drop_bit 1 m = 0 \<longleftrightarrow> m = 1"
    using um by (auto simp: drop_bit_eq_div word_unat_eq_iff unat_div elim!: oddE)
  show ?thesis
  proof (cases "m = 1")
    case True
    have "k < 32"
    proof -
      have "(2::nat) ^ k < 2 ^ 32" using mk(3) True unsigned_less [of n, where 'a = nat] by simp
      then show ?thesis by (simp only: power_strict_increasing_iff)
    qed
    moreover from this have "n = 2 ^ k" using mk(3) True by (simp add: word_unat_eq_iff unat_pow2_32)
    ultimately show ?thesis using False mk one True by (simp add: qlog2_def log2_ref_pow)
  next
    case m1: False
    have "n \<noteq> 2 ^ x" if "x < 32" for x
    proof
      assume "n = 2 ^ x"
      then have "2 ^ x = 2 ^ k * unat m" using mk(3) that by (metis unat_pow2_32)
      then have "unat m = 1" using odd_factor_pow2 [OF um] by blast
      with m1 show False by (simp add: word_unat_eq_iff)
    qed
    then have "find_idx (\<lambda>k. n = 2 ^ k) [0..<32] = None" by (auto simp: find_idx_None)
    then show ?thesis using False mk one m1 by (simp add: qlog2_def log2_ref_def)
  qed
qed

section \<open>Packet headers\<close>

text \<open>
  A frame is its byte list: the Ethernet header takes bytes 0 to 13 (destination, source,
  type) and the 1722 control header starts at byte 14. The setters are the \<open>SET_BITS\<close>
  macros of \<open>avb_1722_1_protocol.h\<close> on the byte they name; \<open>set_byte\<close> applies one in place.
\<close>

definition set_byte :: "nat \<Rightarrow> (u8 \<Rightarrow> u8) \<Rightarrow> u8 list \<Rightarrow> u8 list" where
  "set_byte i f buf = buf[i := f (buf ! i)]"

lemma length_set_byte [simp]: "length (set_byte i f buf) = length buf"
  by (simp add: set_byte_def)

lemma nth_set_byte_same [simp]: "i < length buf \<Longrightarrow> set_byte i f buf ! i = f (buf ! i)"
  by (simp add: set_byte_def)

lemma nth_set_byte_other [simp]: "i \<noteq> j \<Longrightarrow> set_byte i f buf ! j = buf ! j"
  by (simp add: set_byte_def)

definition AVB_1722_ETHERTYPE :: u16 where
  "AVB_1722_ETHERTYPE = 0x22f0"

definition ether_hdr_dest :: nat where "ether_hdr_dest = 0"
definition ether_hdr_src :: nat where "ether_hdr_src = 6"
definition ether_hdr_len :: nat where "ether_hdr_len = 14"

definition avb_1722_1_create_1722_1_header ::
  "u8 list \<Rightarrow> u8 list \<Rightarrow> u8 \<Rightarrow> u8 \<Rightarrow> u8 \<Rightarrow> u32 \<Rightarrow> u8 list \<Rightarrow> u8 list" where
  "avb_1722_1_create_1722_1_header my_mac_addr dest_addr subtype message_type valid_time_status data_len hdr =
     (let h1 = fold (\<lambda>i h. h[i := dest_addr ! i, 6 + i := my_mac_addr ! i]) [0..<6] hdr;
          h2 = h1[12 := ucast (drop_bit 8 AVB_1722_ETHERTYPE), 13 := ucast (AVB_1722_ETHERTYPE AND 0xff)];
          h3 = set_byte 14 (set_bits 7 7 1) h2;
          h4 = set_byte 14 (set_bits 0 6 subtype) h3;
          h5 = set_byte 15 (set_bits 7 7 0) h4;
          h6 = set_byte 15 (set_bits 4 6 0) h5;
          h7 = set_byte 15 (set_bits 0 3 message_type) h6;
          h8 = set_byte 16 (set_bits 3 7 valid_time_status) h7;
          h9 = set_byte 16 (set_bits 0 2 (ucast (drop_bit 8 data_len))) h8
      in set_byte 17 (set_bits 0 7 (ucast (data_len AND 0xff))) h9)"

text \<open>The header's getters, on the byte list that starts at the control header.\<close>

definition get_1722_1_subtype :: "u8 list \<Rightarrow> u8" where
  "get_1722_1_subtype pkt = (pkt ! 0) AND 0x7f"

definition get_1722_1_msg_type :: "u8 list \<Rightarrow> u8" where
  "get_1722_1_msg_type pkt = (pkt ! 1) AND 0x0f"

definition get_1722_1_valid_time :: "u8 list \<Rightarrow> u8" where
  "get_1722_1_valid_time pkt = drop_bit 3 ((pkt ! 2) AND 0xf8)"

definition get_1722_1_datalength :: "u8 list \<Rightarrow> u32" where
  "get_1722_1_datalength pkt = push_bit 8 (ucast ((pkt ! 2) AND 0x7)) + ucast (pkt ! 3)"

lemma upt_6: "[0..<6] = [0, 1, 2, 3, 4, 5::nat]"
  by (simp add: upt_rec)

lemma length_1722_1_header [simp]:
  "length (avb_1722_1_create_1722_1_header m d s t v n hdr) = length hdr"
  by (simp add: avb_1722_1_create_1722_1_header_def Let_def upt_6)

lemma bit_u8_mask: "bit (b AND mask k :: u8) n \<longleftrightarrow> bit b n \<and> n < k"
  by (auto simp: bit_and_iff bit_mask_iff dest: bit_imp_le_length)

lemma u8_lits: "(0x7f::u8) = mask 7" "(0x0f::u8) = mask 4" "(0x7::u8) = mask 3"
  "(0xf8::u8) = push_bit 3 (mask 5)" "(0x3::u8) = mask 2"
  by (simp_all add: mask_eq_exp_minus_1)

lemma bit_set_bits:
  "lo \<le> hi \<Longrightarrow> bit (set_bits lo hi val b) n \<longleftrightarrow>
     n < 8 \<and> ((bit b n \<and> \<not> (lo \<le> n \<and> n \<le> hi)) \<or> (lo \<le> n \<and> bit val (n - lo)))"
  by (auto simp: set_bits_def bit_or_iff bit_and_iff bit_not_iff bit_push_bit_iff bit_mask_iff
      dest: bit_u8_less)

lemma bit_small: "(w :: 'a::len word) < 2 ^ k \<Longrightarrow> bit w n \<Longrightarrow> n < k"
proof -
  assume w: "w < 2 ^ k" and b: "bit w n"
  show "n < k"
  proof (rule ccontr)
    assume "\<not> n < k"
    moreover have n: "n < LENGTH('a)" using b by (rule bit_imp_le_length)
    ultimately have k: "k \<le> n" "k < LENGTH('a)" by simp_all
    then have "unat ((2 :: 'a word) ^ k) = 2 ^ k" by (simp add: unat_pow2)
    with w have "unat w < 2 ^ k" by (simp add: word_less_nat_alt)
    then have "take_bit k (unat w) = unat w" by (rule take_bit_nat_eq_self)
    then have "\<not> bit (unat w) n" using k by (metis bit_take_bit_iff not_less)
    with b show False by (simp add: bit_unsigned_iff)
  qed
qed

lemma header_fields:
  assumes "subtype < 2 ^ 7" "message_type < 2 ^ 4" "status < 2 ^ 5" "data_len < 2 ^ 11"
    and "length dest = 6" "length my_mac = 6" "18 \<le> length buf"
    and "f = avb_1722_1_create_1722_1_header my_mac dest subtype message_type status data_len buf"
  shows "get_1722_1_subtype (drop 14 f) = subtype \<and>
         get_1722_1_msg_type (drop 14 f) = message_type \<and>
         get_1722_1_valid_time (drop 14 f) = status \<and>
         get_1722_1_datalength (drop 14 f) = data_len \<and>
         get_bytes 0 6 f = dest \<and> get_bytes 6 6 f = my_mac \<and>
         ntoh_16 (get_bytes 12 2 f) = AVB_1722_ETHERTYPE"
proof -
  note f = assms(8) [unfolded avb_1722_1_create_1722_1_header_def Let_def upt_6]
  have lf: "length f = length buf" using assms(8) by simp
  have n14: "f ! 14 = set_bits 0 6 subtype (set_bits 7 7 1 (buf ! 14))"
    and n15: "f ! 15 = set_bits 0 3 message_type (set_bits 4 6 0 (set_bits 7 7 0 (buf ! 15)))"
    and n16: "f ! 16 = set_bits 0 2 (ucast (drop_bit 8 data_len)) (set_bits 3 7 status (buf ! 16))"
    and n17: "f ! 17 = set_bits 0 7 (ucast (data_len AND 0xff)) (buf ! 17)"
    and n12: "f ! 12 = ucast (drop_bit 8 AVB_1722_ETHERTYPE)"
    and n13: "f ! 13 = ucast (AVB_1722_ETHERTYPE AND 0xff)"
    using assms(7) unfolding f by simp_all
  have dst: "get_bytes 0 6 f = dest" and src: "get_bytes 6 6 f = my_mac"
  proof -
    have "\<forall>i \<in> {0, 1, 2, 3, 4, 5}. f ! i = dest ! i \<and> f ! (6 + i) = my_mac ! i"
      using assms(5-7) unfolding f by (cases "buf = []") simp_all
    moreover have "i < 6 \<Longrightarrow> i \<in> {0, 1, 2, 3, 4, 5}" for i :: nat by auto
    ultimately have "i < 6 \<Longrightarrow> f ! i = dest ! i \<and> f ! (6 + i) = my_mac ! i" for i by blast
    then show "get_bytes 0 6 f = dest" "get_bytes 6 6 f = my_mac"
      using assms(5-7) lf by (auto intro!: nth_equalityI simp: nth_get_bytes)
  qed
  have et: "ntoh_16 (get_bytes 12 2 f) = AVB_1722_ETHERTYPE"
    using assms(7) lf by (simp add: ntoh_16_def nth_get_bytes n12 n13 AVB_1722_ETHERTYPE_def)
  have sub: "get_1722_1_subtype (drop 14 f) = subtype"
    using assms(7) lf by (auto intro!: bit_word_eqI simp: get_1722_1_subtype_def u8_lits n14
      bit_u8_mask bit_set_bits dest: bit_small [OF assms(1)])
  have msg: "get_1722_1_msg_type (drop 14 f) = message_type"
    using assms(7) lf by (auto intro!: bit_word_eqI simp: get_1722_1_msg_type_def u8_lits n15
      bit_u8_mask bit_set_bits dest: bit_small [OF assms(2)])
  have vt: "get_1722_1_valid_time (drop 14 f) = status"
    using assms(7) lf by (auto intro!: bit_word_eqI simp: get_1722_1_valid_time_def u8_lits n16
      bit_u8_mask bit_set_bits bit_drop_bit_eq bit_and_iff bit_push_bit_iff bit_mask_iff
      bit_ucast_iff dest: bit_small [OF assms(3)] bit_small [OF assms(4)])
  have dl: "get_1722_1_datalength (drop 14 f) = data_len"
  proof (rule bit_word_eqI)
    fix n assume "n < LENGTH(32)"
    have "get_1722_1_datalength (drop 14 f) =
        push_bit 8 (ucast (f ! 16 AND mask 3)) OR ucast (f ! 17)"
      using assms(7) lf unfolding get_1722_1_datalength_def u8_lits
      by (subst disjunctive_add_eq_or)
        (auto intro!: bit_word_eqI simp: bit_and_iff bit_push_bit_iff bit_ucast_iff bit_u8_ge)
    then have split: "bit (get_1722_1_datalength (drop 14 f)) n \<longleftrightarrow>
        (8 \<le> n \<and> n < 32 \<and> bit (f ! 16) (n - 8) \<and> n - 8 < 3) \<or> bit (f ! 17) n"
      by (auto simp: bit_or_iff bit_push_bit_iff bit_ucast_iff bit_u8_mask dest: bit_u8_less)
    show "bit (get_1722_1_datalength (drop 14 f)) n = bit data_len n"
    proof (cases "n < 8")
      case True
      then show ?thesis
        by (simp add: split n17 bit_set_bits bit_ucast_iff bit_and_iff low_byte_32 bit_mask_iff)
    next
      case False
      then have "n - 8 < 8 \<Longrightarrow> n < 32" by simp
      moreover have "bit data_len n \<Longrightarrow> n < 11" by (rule bit_small [OF assms(4)])
      ultimately show ?thesis using False
        by (auto simp: split n16 bit_u8_ge bit_set_bits bit_ucast_iff bit_drop_bit_eq)
    qed
  qed
  show ?thesis using dst src et sub msg vt dl by blast
qed
text \<open>
  Every field written into a 1722.1 control header is read back by its getter when it
  fits its bit field (7-bit subtype, 4-bit message type, 5-bit status, 11-bit length), and
  the Ethernet header carries the destination, the own address and the 1722 ethertype.
\<close>

theorem header_roundtrip:
  assumes "subtype < 2 ^ 7" "message_type < 2 ^ 4" "status < 2 ^ 5" "data_len < 2 ^ 11"
    and "length dest = 6" "length my_mac = 6" "18 \<le> length buf"
    and "f = avb_1722_1_create_1722_1_header my_mac dest subtype message_type status data_len buf"
  shows "get_1722_1_subtype (drop 14 f) = subtype \<and>
         get_1722_1_msg_type (drop 14 f) = message_type \<and>
         get_1722_1_valid_time (drop 14 f) = status \<and>
         get_1722_1_datalength (drop 14 f) = data_len \<and>
         get_bytes 0 6 f = dest \<and> get_bytes 6 6 f = my_mac \<and>
         ntoh_16 (get_bytes 12 2 f) = AVB_1722_ETHERTYPE"
  using assms by (rule header_fields)

theorem header_roundtrip_witness:
  "get_1722_1_datalength (drop 14 (avb_1722_1_create_1722_1_header [1, 2, 3, 4, 5, 6]
     [0x91, 0xe0, 0xf0, 1, 0, 0] 0x7c 9 0 44 (replicate 20 255))) = 44"
  using header_roundtrip [where subtype = "0x7c" and message_type = 9 and status = 0
      and data_len = 44 and dest = "[0x91, 0xe0, 0xf0, 1, 0, 0]" and my_mac = "[1, 2, 3, 4, 5, 6]"
      and buf = "replicate 20 255", OF _ _ _ _ _ _ _ refl]
  by simp

end
