(* ===== verification/Maap.thy ===== *)
theory Maap
  imports Misc_Timer Avb_1722_Common
begin

text \<open>
  The MAAP address allocation of \<open>module_avb_1722_maap/src/avb_1722_maap.c\<close>. The statics of
  the file are one state record; every public function is one operation on it. Frames sent
  and calls of the application hook \<open>avb_talker_on_source_address_reserved\<close> are the outputs
  of an operation, in order. The random number generator of module_random is not part of
  the repository: it is the parameter \<open>rnd\<close>, which returns a number and its next state.
  The structure member \<open>timeout\<close> is never used and has no field here.
\<close>

datatype maap_state_t = MAAP_DISABLED | MAAP_PROBING | MAAP_RESERVED

record 'r maap_st =
  ma_base :: "u8 list"
  ma_range :: int
  ma_probe_count :: int
  ma_immediately :: bool
  ma_state :: maap_state_t
  ma_my_mac_addr :: "u8 list"
  ma_random_gen :: 'r
  ma_timer :: avb_timer
  ma_timeout_val :: u32
  ma_buf :: "u8 list"

datatype maap_out =
    MaapTx "u8 list"
  | SourceAddressReserved int "u8 list"

definition MAAP_PROBE :: u8 where "MAAP_PROBE = 1"
definition MAAP_DEFEND :: u8 where "MAAP_DEFEND = 2"
definition MAAP_ANNOUNCE :: u8 where "MAAP_ANNOUNCE = 3"

lemmas maap_msg_defs = MAAP_PROBE_def MAAP_DEFEND_def MAAP_ANNOUNCE_def

definition MAAP_ALLOCATION_POOL_BASE_ADDR :: "u8 list" where
  "MAAP_ALLOCATION_POOL_BASE_ADDR = [0x91, 0xE0, 0xF0, 0x00, 0x00, 0x00]"

definition MAAP_ALLOCATION_POOL_SIZE :: int where "MAAP_ALLOCATION_POOL_SIZE = 0xFE00"

definition maap_dest_addr :: "u8 list" where
  "maap_dest_addr = [0x91, 0xE0, 0xF0, 0x00, 0xFF, 0x00]"

text \<open>A C \<open>int\<close> stored into a byte keeps its low eight bits; \<open>byte_hi\<close> is \<open>x >> 8\<close>.\<close>

definition byte_lo :: "int \<Rightarrow> u8" where "byte_lo x = word_of_int x"
definition byte_hi :: "int \<Rightarrow> u8" where "byte_hi x = word_of_int (x div 256)"

section \<open>The packet\<close>

text \<open>
  The packet structure starts at byte 14 of the frame: subtype 14, message type 15, version
  and length 16 and 17, request start 26 to 31, requested count 32 and 33, conflict start 34
  to 39, conflict count 40 and 41. The buffer is static, so a byte that is not written keeps
  the value of the frame before.
\<close>

definition create_maap_packet ::
  "u8 \<Rightarrow> u8 list \<Rightarrow> 'r maap_st \<Rightarrow> u8 list \<Rightarrow> u8 list \<Rightarrow> int \<Rightarrow> u8 list \<Rightarrow> int \<Rightarrow> u8 list" where
  "create_maap_packet message_type src_addr st buf request_addr request_count conflict_addr conflict_count =
     (let b1 = buf[12 := ucast (drop_bit 8 AVB_1722_ETHERTYPE), 13 := ucast (AVB_1722_ETHERTYPE AND 0xff)];
          b2 = set_byte 14 (set_bits 7 7 1) b1;
          b3 = set_byte 14 (set_bits 0 6 0x7e) b2;
          b4 = set_byte 15 (set_bits 4 6 0) b3;
          b5 = set_byte 16 (set_bits 3 7 1) b4;
          b6 = set_byte 17 (set_bits 0 7 28) (set_byte 16 (set_bits 0 2 0) b5);
          b7 = set_byte 15 (set_bits 0 3 message_type) b6;
          b8 = fold (\<lambda>i b. b[6 + i := ma_my_mac_addr st ! i]) [0..<6] b7
      in if message_type = MAAP_DEFEND
         then let b9 = fold (\<lambda>i b. b[i := src_addr ! i, 26 + i := request_addr ! i,
                                       34 + i := conflict_addr ! i]) [0..<6] b8
              in b9[32 := byte_hi request_count, 33 := byte_lo request_count,
                    40 := byte_hi conflict_count, 41 := byte_lo conflict_count]
         else let b9 = fold (\<lambda>i b. b[i := maap_dest_addr ! i, 26 + i := ma_base st ! i,
                                       34 + i := 0]) [0..<6] b8
              in b9[32 := byte_hi (ma_range st), 33 := byte_lo (ma_range st), 40 := 0, 41 := 0])"

text \<open>The getters, on the bytes that start at the packet structure.\<close>

definition get_maap_subtype :: "u8 list \<Rightarrow> u8" where "get_maap_subtype p = (p ! 0) AND 0x7f"
definition get_maap_msg_type :: "u8 list \<Rightarrow> u8" where "get_maap_msg_type p = (p ! 1) AND 0x0f"

definition get_maap_requested_count :: "u8 list \<Rightarrow> int" where
  "get_maap_requested_count p = uint (p ! 19) + uint (p ! 18) * 256"

definition get_maap_conflict_count :: "u8 list \<Rightarrow> int" where
  "get_maap_conflict_count p = uint (p ! 27) + uint (p ! 26) * 256"

definition maap_request_start :: "u8 list \<Rightarrow> u8 list" where
  "maap_request_start p = get_bytes 12 6 p"

definition maap_conflict_start :: "u8 list \<Rightarrow> u8 list" where
  "maap_conflict_start p = get_bytes 20 6 p"

section \<open>Requests\<close>

definition avb_1722_maap_init :: "u8 list \<Rightarrow> 'r \<Rightarrow> 'r maap_st \<Rightarrow> 'r maap_st" where
  "avb_1722_maap_init macaddr seed st =
     st\<lparr>ma_state := MAAP_DISABLED, ma_my_mac_addr := macaddr, ma_random_gen := seed,
        ma_timer := init_avb_timer 1 (ma_timer st)\<rparr>"

text \<open>
  The random start address is drawn for the range that the state holds when the call
  begins; \<open>num_addr\<close> is stored after it. The remainder is an unsigned one; a stored range
  of exactly the pool size divides by zero in C and is outside the model's use.
\<close>

definition random_base :: "('r \<Rightarrow> u32 \<times> 'r) \<Rightarrow> 'r maap_st \<Rightarrow> 'r maap_st" where
  "random_base rnd st =
     (let (r, g) = rnd (ma_random_gen st);
          range_offset = uint (r mod word_of_int (MAAP_ALLOCATION_POOL_SIZE - ma_range st))
      in st\<lparr>ma_random_gen := g,
            ma_base := (ma_base st)[4 := byte_hi range_offset, 5 := byte_lo range_offset]\<rparr>)"

definition avb_1722_maap_request_addresses ::
  "('r \<Rightarrow> u32 \<times> 'r) \<Rightarrow> u32 \<Rightarrow> int \<Rightarrow> u8 list option \<Rightarrow> 'r maap_st \<Rightarrow> 'r maap_st" where
  "avb_1722_maap_request_addresses rnd now num_addr start_address st =
     (let s1 = (case start_address of
                  Some a \<Rightarrow> st\<lparr>ma_base := fold (\<lambda>i b. b[i := a ! i]) [0..<6] (ma_base st)\<rparr>
                | None \<Rightarrow> random_base rnd st);
          s2 = (if num_addr \<noteq> - 1 then s1\<lparr>ma_range := num_addr\<rparr> else s1);
          tv = 50 + ucast (ma_base s2 ! 5 AND 7)
      in s2\<lparr>ma_state := MAAP_PROBING, ma_probe_count := 3, ma_immediately := True,
            ma_timeout_val := tv, ma_timer := start_avb_timer now tv (ma_timer s2)\<rparr>)"

definition avb_1722_maap_rerequest_addresses ::
  "('r \<Rightarrow> u32 \<times> 'r) \<Rightarrow> u32 \<Rightarrow> 'r maap_st \<Rightarrow> 'r maap_st" where
  "avb_1722_maap_rerequest_addresses rnd now st =
     (if ma_state st \<noteq> MAAP_DISABLED
      then avb_1722_maap_request_addresses rnd now (- 1) None st else st)"

definition avb_1722_maap_relinquish_addresses :: "'r maap_st \<Rightarrow> 'r maap_st" where
  "avb_1722_maap_relinquish_addresses st = st\<lparr>ma_state := MAAP_DISABLED\<rparr>"

section \<open>The periodic handler\<close>

text \<open>The test \<open>immediately || avb_timer_expired(&maap_timer)\<close> polls the timer only when needed.\<close>

definition maap_due :: "u32 \<Rightarrow> 'r maap_st \<Rightarrow> bool \<times> 'r maap_st" where
  "maap_due now st =
     (if ma_immediately st then (True, st)
      else let (e, t) = avb_timer_expired now (ma_timer st) in (e, st\<lparr>ma_timer := t\<rparr>))"

text \<open>The address that the hook is given for source \<open>i\<close>.\<close>

definition maap_nth_addr :: "u8 list \<Rightarrow> int \<Rightarrow> u8 list" where
  "maap_nth_addr base i =
     (let lower_two_bytes = uint (base ! 4) * 256 + uint (base ! 5) + i
      in take 4 base @ [byte_hi lower_two_bytes, byte_lo lower_two_bytes])"

definition maap_send :: "u8 \<Rightarrow> 'r maap_st \<Rightarrow> 'r maap_st" where
  "maap_send message_type st =
     st\<lparr>ma_buf := create_maap_packet message_type [] st (ma_buf st) [] 0 [] 0\<rparr>"

definition avb_1722_maap_periodic :: "u32 \<Rightarrow> 'r maap_st \<Rightarrow> 'r maap_st \<times> maap_out list" where
  "avb_1722_maap_periodic now st =
     (case ma_state st of
        MAAP_DISABLED \<Rightarrow> (st, [])
      | MAAP_PROBING \<Rightarrow>
          (let (fire, s1) = maap_due now st
           in if \<not> fire then (s1, [])
              else
                let s2 = maap_send MAAP_PROBE (s1\<lparr>ma_immediately := False\<rparr>);
                    s3 = s2\<lparr>ma_probe_count := ma_probe_count s2 - 1\<rparr>
                in if ma_probe_count s3 = 0
                   then
                     let tv = 300 + ucast (ma_base s3 ! 5 AND 0x1F);
                         t = start_avb_timer now tv (init_avb_timer 10 (ma_timer s3))
                     in (s3\<lparr>ma_state := MAAP_RESERVED, ma_immediately := True,
                            ma_timeout_val := tv, ma_timer := t\<rparr>,
                         MaapTx (ma_buf s3)
                         # map (\<lambda>i. SourceAddressReserved i (maap_nth_addr (ma_base s3) i))
                               [0..ma_range s3 - 1])
                   else (s3\<lparr>ma_timer := start_avb_timer now (ma_timeout_val s3) (ma_timer s3)\<rparr>,
                         [MaapTx (ma_buf s3)]))
      | MAAP_RESERVED \<Rightarrow>
          (let (fire, s1) = maap_due now st
           in if \<not> fire then (s1, [])
              else
                let s2 = maap_send MAAP_ANNOUNCE s1
                in (if \<not> ma_immediately s2
                    then s2\<lparr>ma_timer := start_avb_timer now (ma_timeout_val s2) (ma_timer s2)\<rparr>
                    else s2\<lparr>ma_immediately := False\<rparr>,
                    [MaapTx (ma_buf s2)])))"

section \<open>Received packets\<close>

definition maap_compare_mac :: "'r maap_st \<Rightarrow> u8 list \<Rightarrow> bool" where
  "maap_compare_mac st src_addr =
     list_ex (\<lambda>i. ma_my_mac_addr st ! (5 - i) < src_addr ! (5 - i)) [0..<6]"

text \<open>
  \<open>maap_conflict\<close> is called with or without the two output pointers. Without them the answer
  is \<open>Conflict\<close>; with them it is \<open>ConflictAt\<close>, the count and, in the reserved state only, the
  address (in the probing state the caller's array stays unwritten and unread).
\<close>

datatype maap_hit = NoConflict | Conflict | ConflictAt "u8 list option" int

definition maap_addr16 :: "u8 list \<Rightarrow> int" where
  "maap_addr16 a = uint (a ! 5) + uint (a ! 4) * 256"

definition maap_conflict :: "'r maap_st \<Rightarrow> u8 list \<Rightarrow> int \<Rightarrow> bool \<Rightarrow> maap_hit" where
  "maap_conflict st remote_addr remote_count out =
     (if list_ex (\<lambda>i. remote_addr ! i \<noteq> ma_base st ! i) [0..<4] then NoConflict
      else
        let my_addr_lo = maap_addr16 (ma_base st);
            my_addr_hi = my_addr_lo + ma_range st;
            conflict_lo = maap_addr16 remote_addr;
            conflict_hi = conflict_lo + remote_count;
            addr_at = (\<lambda>first. if ma_state st = MAAP_RESERVED
                               then Some (take 4 (ma_base st) @ [byte_hi first, byte_lo first])
                               else None)
        in if my_addr_lo \<ge> conflict_lo \<and> my_addr_lo < conflict_hi
           then
             let first_conflict_addr = my_addr_lo
             in if out
                then ConflictAt (addr_at first_conflict_addr)
                       (if my_addr_hi < conflict_hi then my_addr_hi - first_conflict_addr
                        else conflict_hi - first_conflict_addr)
                else Conflict
           else if conflict_lo > my_addr_lo \<and> conflict_lo < my_addr_hi
           then
             let first_conflict_addr = my_addr_lo + (conflict_lo - my_addr_lo)
             in if out
                then ConflictAt (addr_at first_conflict_addr)
                       (if conflict_hi \<le> my_addr_hi then remote_count
                        else my_addr_hi - first_conflict_addr)
                else Conflict
           else NoConflict)"

definition maap_restart :: "('r \<Rightarrow> u32 \<times> 'r) \<Rightarrow> u32 \<Rightarrow> 'r maap_st \<Rightarrow> 'r maap_st" where
  "maap_restart rnd now st = avb_1722_maap_request_addresses rnd now (- 1) None st"

text \<open>The tail that a DEFEND falls through to with its conflict fields.\<close>

definition maap_announced ::
  "('r \<Rightarrow> u32 \<times> 'r) \<Rightarrow> u32 \<Rightarrow> u8 list \<Rightarrow> u8 list \<Rightarrow> int \<Rightarrow> 'r maap_st \<Rightarrow> 'r maap_st" where
  "maap_announced rnd now src_addr test_addr test_count st =
     (if maap_conflict st test_addr test_count False = NoConflict then st
      else if ma_state st = MAAP_RESERVED \<and> maap_compare_mac st src_addr then st
      else maap_restart rnd now st)"

definition avb_1722_maap_process_packet ::
  "('r \<Rightarrow> u32 \<times> 'r) \<Rightarrow> u32 \<Rightarrow> u8 list \<Rightarrow> u8 list \<Rightarrow> 'r maap_st \<Rightarrow> 'r maap_st \<times> maap_out list" where
  "avb_1722_maap_process_packet rnd now buf src_addr st =
     (if get_maap_subtype buf \<noteq> 0x7e then (st, [])
      else if ma_state st = MAAP_DISABLED then (st, [])
      else
        let msg_type = get_maap_msg_type buf;
            test_addr = maap_request_start buf;
            test_count = get_maap_requested_count buf
        in if msg_type = MAAP_PROBE then
             (case maap_conflict st test_addr test_count True of
                ConflictAt addr count \<Rightarrow>
                  if ma_state st = MAAP_PROBING
                  then (if maap_compare_mac st src_addr then (st, []) else (maap_restart rnd now st, []))
                  else
                    let b = create_maap_packet MAAP_DEFEND src_addr st (ma_buf st)
                              test_addr test_count (the addr) count
                    in (st\<lparr>ma_buf := b\<rparr>, [MaapTx b])
              | _ \<Rightarrow> (st, []))
           else if msg_type = MAAP_DEFEND then
             (maap_announced rnd now src_addr (maap_conflict_start buf)
                (get_maap_conflict_count buf) st, [])
           else if msg_type = MAAP_ANNOUNCE then
             (maap_announced rnd now src_addr test_addr test_count st, [])
           else (st, []))"

section \<open>Addresses and ranges\<close>

lemma uint_byte_lo: "uint (byte_lo x) = x mod 256"
  by (simp add: byte_lo_def uint_word_of_int)

lemma uint_byte_hi: "uint (byte_hi x) = (x div 256) mod 256"
  by (simp add: byte_hi_def uint_word_of_int)

lemma two_byte_mod: "uint (byte_lo x) + uint (byte_hi x) * 256 = x mod 65536"
  using zmod_zmult2_eq [of 256 x 256] by (simp add: uint_byte_lo uint_byte_hi)

lemma two_byte_value: "0 \<le> x \<Longrightarrow> x < 65536 \<Longrightarrow> uint (byte_lo x) + uint (byte_hi x) * 256 = x"
  by (simp add: uint_byte_lo uint_byte_hi)

lemma maap_addr16_range: "0 \<le> maap_addr16 a \<and> maap_addr16 a < 65536"
proof -
  have "uint (a ! 5) < 2 ^ LENGTH(8)" "uint (a ! 4) < 2 ^ LENGTH(8)" by (rule uint_lt2p)+
  moreover have "0 \<le> uint (a ! 5)" "0 \<le> uint (a ! 4)" by simp_all
  ultimately show ?thesis by (simp add: maap_addr16_def)
qed

lemma maap_addr16_at:
  "4 \<le> length b \<Longrightarrow> 0 \<le> x \<Longrightarrow> x < 65536 \<Longrightarrow>
     maap_addr16 (take 4 b @ [byte_hi x, byte_lo x]) = x"
  using two_byte_value [of x] by (simp add: maap_addr16_def nth_append min_def)

lemma take4_differ:
  "4 \<le> length a \<Longrightarrow> 4 \<le> length b \<Longrightarrow> list_ex (\<lambda>i. a ! i \<noteq> b ! i) [0..<4] \<longleftrightarrow> take 4 a \<noteq> take 4 b"
  by (auto simp: list_ex_iff list_eq_iff_nth_eq)

definition maap_own :: "'r maap_st \<Rightarrow> int set" where
  "maap_own st = {maap_addr16 (ma_base st) ..< maap_addr16 (ma_base st) + ma_range st}"

definition maap_asked :: "u8 list \<Rightarrow> int \<Rightarrow> int set" where
  "maap_asked a n = {maap_addr16 a ..< maap_addr16 a + n}"

lemma overlap_iff:
  "0 < r \<Longrightarrow> 0 < n \<Longrightarrow>
     {m ..< m + r} \<inter> {c ..< c + n} \<noteq> {} \<longleftrightarrow> (m \<ge> c \<and> m < c + n) \<or> (c > m \<and> c < (m :: int) + r)"
proof -
  assume "0 < r" "0 < n"
  have "{m ..< m + r} \<inter> {c ..< c + n} = {max m c ..< min (m + r) (c + n)}" by auto
  then show ?thesis using \<open>0 < r\<close> \<open>0 < n\<close> by auto
qed

lemma maap_conflict_iff:
  assumes "4 \<le> length a" "4 \<le> length (ma_base st)" "0 < ma_range st" "0 < n"
  shows "maap_conflict st a n out \<noteq> NoConflict \<longleftrightarrow>
           take 4 a = take 4 (ma_base st) \<and> maap_own st \<inter> maap_asked a n \<noteq> {}"
  using overlap_iff [of "ma_range st" n "maap_addr16 (ma_base st)" "maap_addr16 a"] assms
  by (auto simp: maap_conflict_def Let_def take4_differ maap_own_def maap_asked_def)

lemma maap_conflict_at:
  assumes "ma_state st = MAAP_RESERVED" "length a = 6" "length (ma_base st) = 6"
    and "0 < ma_range st" "0 < n"
  shows "case maap_conflict st a n True of
           NoConflict \<Rightarrow> take 4 a \<noteq> take 4 (ma_base st) \<or> maap_own st \<inter> maap_asked a n = {}
         | Conflict \<Rightarrow> False
         | ConflictAt addr c \<Rightarrow>
             take 4 a = take 4 (ma_base st) \<and> 0 < c \<and>
             (\<exists>x. addr = Some x \<and> take 4 x = take 4 (ma_base st) \<and>
                  maap_asked x c = maap_own st \<inter> maap_asked a n)"
proof (cases "maap_conflict st a n True")
  case NoConflict
  then show ?thesis using maap_conflict_iff [of a st n True] assms by simp
next
  case Conflict
  then show ?thesis by (auto simp: maap_conflict_def Let_def split: if_splits)
next
  case (ConflictAt addr c)
  let ?m = "maap_addr16 (ma_base st)" and ?a = "maap_addr16 a"
  have same: "take 4 a = take 4 (ma_base st)"
    using ConflictAt assms by (auto simp: maap_conflict_def Let_def take4_differ split: if_splits)
  define x where "x = max ?m ?a"
  have x: "0 \<le> x" "x < 65536" using maap_addr16_range [of a] maap_addr16_range [of "ma_base st"]
    by (auto simp: x_def)
  have addr: "addr = Some (take 4 (ma_base st) @ [byte_hi x, byte_lo x])"
    and c: "c = min (?m + ma_range st) (?a + n) - x" "0 < c"
    using ConflictAt assms by (auto simp: maap_conflict_def Let_def x_def split: if_splits)
  have "maap_addr16 (take 4 (ma_base st) @ [byte_hi x, byte_lo x]) = x"
    using x assms(3) by (intro maap_addr16_at) simp_all
  then have "maap_asked (take 4 (ma_base st) @ [byte_hi x, byte_lo x]) c =
      maap_own st \<inter> maap_asked a n"
    by (auto simp: maap_asked_def maap_own_def c x_def)
  then show ?thesis using ConflictAt same addr c(2) assms(3) by auto
qed

text \<open>
  The conflict test of a reserved station is exact: it reports a conflict precisely when
  the prefix matches and the two address ranges intersect, and the start address and count
  it returns for the DEFEND packet describe exactly the intersection.
\<close>

theorem maap_conflict_exact:
  assumes "ma_state st = MAAP_RESERVED" "length a = 6" "length (ma_base st) = 6"
    and "0 < ma_range st" "0 < n"
  shows "case maap_conflict st a n True of
           NoConflict \<Rightarrow> take 4 a \<noteq> take 4 (ma_base st) \<or> maap_own st \<inter> maap_asked a n = {}
         | Conflict \<Rightarrow> False
         | ConflictAt addr c \<Rightarrow>
             take 4 a = take 4 (ma_base st) \<and> 0 < c \<and>
             (\<exists>x. addr = Some x \<and> take 4 x = take 4 (ma_base st) \<and>
                  maap_asked x c = maap_own st \<inter> maap_asked a n)"
  using assms by (rule maap_conflict_at)

definition maap_example :: "unit maap_st" where
  "maap_example =
     \<lparr>ma_base = [0x91, 0xE0, 0xF0, 0, 1, 4], ma_range = 8, ma_probe_count = 0,
      ma_immediately = False, ma_state = MAAP_RESERVED,
      ma_my_mac_addr = [0, 0x22, 0x97, 0, 1, 2], ma_random_gen = (),
      ma_timer = \<lparr>tmr_timeout = 0, tmr_period = 0, tmr_active = 0, timeout_multiplier = 1\<rparr>,
      ma_timeout_val = 304, ma_buf = replicate 64 0\<rparr>"

lemma maap_example_sel [simp]:
  "ma_base maap_example = [0x91, 0xE0, 0xF0, 0, 1, 4]" "ma_range maap_example = 8"
  "ma_state maap_example = MAAP_RESERVED" "ma_buf maap_example = replicate 64 0"
  "ma_my_mac_addr maap_example = [0, 0x22, 0x97, 0, 1, 2]"
  by (simp_all add: maap_example_def)

theorem maap_conflict_exact_witness:
  "maap_asked [0x91, 0xE0, 0xF0, 0, 1, 10] 2 =
     maap_own maap_example \<inter> maap_asked [0x91, 0xE0, 0xF0, 0, 1, 10] 16"
  using maap_conflict_exact [of maap_example "[0x91, 0xE0, 0xF0, 0, 1, 10]" 16]
  by (simp add: maap_conflict_def Let_def upt_rec maap_addr16_def maap_asked_def byte_hi_def byte_lo_def)

section \<open>Choosing a start address\<close>

lemma random_base_addr:
  assumes "length (ma_base st) = 6" and "0 \<le> ma_range st" and "ma_range st < MAAP_ALLOCATION_POOL_SIZE"
  shows "maap_addr16 (ma_base (random_base rnd st)) =
           uint (fst (rnd (ma_random_gen st))) mod (MAAP_ALLOCATION_POOL_SIZE - ma_range st)"
proof -
  obtain r g where rg: "rnd (ma_random_gen st) = (r, g)" by fastforce
  let ?k = "MAAP_ALLOCATION_POOL_SIZE - ma_range st"
  have k: "0 < ?k" "?k \<le> 0xFE00" using assms by (simp_all add: MAAP_ALLOCATION_POOL_SIZE_def)
  have "uint (word_of_int k :: u32) = k" if "0 < k" "k \<le> 0xFE00" for k
    using that by (simp add: uint_word_of_int)
  then have "uint (word_of_int ?k :: u32) = ?k" using k by blast
  then have u: "uint (r mod word_of_int ?k) = uint r mod ?k" by (simp add: uint_mod)
  have "0 \<le> uint r mod ?k" "uint r mod ?k < 65536"
    using k(2) pos_mod_bound [OF k(1), of "uint r"] pos_mod_sign [OF k(1), of "uint r"] by linarith+
  then show ?thesis using assms(1) two_byte_value [of "uint r mod ?k"]
    by (simp add: random_base_def rg Let_def maap_addr16_def u del: of_int_diff)
qed

text \<open>
  A re-request (after a conflict or by the API) draws a start address for which the whole
  range, every address of it, lies inside the MAAP pool, whatever the generator returns.
\<close>

theorem rerequest_stays_in_pool:
  assumes "length (ma_base st) = 6" and "ma_state st \<noteq> MAAP_DISABLED"
    and "0 \<le> ma_range st" and "ma_range st < MAAP_ALLOCATION_POOL_SIZE"
  shows "maap_own (avb_1722_maap_rerequest_addresses rnd now st) \<subseteq> {0 ..< MAAP_ALLOCATION_POOL_SIZE} \<and>
         take 4 (ma_base (avb_1722_maap_rerequest_addresses rnd now st)) = take 4 (ma_base st)"
proof -
  let ?s = "avb_1722_maap_rerequest_addresses rnd now st"
  have b: "ma_base ?s = ma_base (random_base rnd st)" and r: "ma_range ?s = ma_range st"
    using assms(2) by (simp_all add: avb_1722_maap_rerequest_addresses_def random_base_def
        avb_1722_maap_request_addresses_def Let_def split: prod.split)
  have "maap_addr16 (ma_base ?s) < MAAP_ALLOCATION_POOL_SIZE - ma_range st"
    using assms(4) by (simp add: b random_base_addr [OF assms(1,3,4)])
  moreover have "0 \<le> maap_addr16 (ma_base ?s)" using maap_addr16_range by blast
  ultimately have "maap_own ?s \<subseteq> {0 ..< MAAP_ALLOCATION_POOL_SIZE}"
    by (auto simp: maap_own_def r)
  moreover have "take 4 (ma_base ?s) = take 4 (ma_base st)"
    by (simp add: b random_base_def Let_def split: prod.split)
  ultimately show ?thesis by blast
qed

theorem rerequest_stays_in_pool_witness:
  "maap_own (avb_1722_maap_rerequest_addresses (\<lambda>g. (0xFFFFFFFF, g)) 7 maap_example)
     \<subseteq> {0 ..< MAAP_ALLOCATION_POOL_SIZE}"
  using rerequest_stays_in_pool [of maap_example "\<lambda>g. (0xFFFFFFFF, g)" 7]
  by (simp add: MAAP_ALLOCATION_POOL_SIZE_def)

text \<open>
  The first request is different: \<open>avb_1722_maap_request_addresses\<close> draws the start address
  before it stores the number of addresses, so the range used for the draw is the old one. A
  station that asks for 16 addresses can be given a range that leaves the pool.
\<close>

theorem first_request_can_leave_pool:
  "\<exists>rnd. \<not> maap_own (avb_1722_maap_request_addresses rnd 0 16 None
             (maap_example\<lparr>ma_state := MAAP_DISABLED, ma_range := 0\<rparr>))
           \<subseteq> {0 ..< MAAP_ALLOCATION_POOL_SIZE}"
proof -
  let ?rnd = "\<lambda>g :: unit. (0xFDFF :: u32, g)"
  let ?st = "maap_example\<lparr>ma_state := MAAP_DISABLED, ma_range := 0\<rparr>"
  have "maap_addr16 (ma_base (random_base ?rnd ?st)) = 0xFDFF"
    by (subst random_base_addr) (simp_all add: MAAP_ALLOCATION_POOL_SIZE_def)
  then have "0xFE00 \<in> maap_own (avb_1722_maap_request_addresses ?rnd 0 16 None ?st)"
    by (simp add: maap_own_def avb_1722_maap_request_addresses_def Let_def)
  then show ?thesis
    by (intro exI [of _ ?rnd]) (auto simp: MAAP_ALLOCATION_POOL_SIZE_def)
qed

section \<open>What a frame says\<close>

lemma length_create_maap_packet [simp]:
  "length (create_maap_packet mt src st buf ra rc ca cc) = length buf"
  by (simp add: create_maap_packet_def Let_def upt_6)

lemma get_6_eq:
  assumes "off + 6 \<le> length f" "length a = 6"
    and "f ! off = a ! 0 \<and> f ! (off + 1) = a ! 1 \<and> f ! (off + 2) = a ! 2 \<and>
         f ! (off + 3) = a ! 3 \<and> f ! (off + 4) = a ! 4 \<and> f ! (off + 5) = a ! 5"
  shows "get_bytes off 6 f = a"
proof (rule nth_equalityI)
  fix i
  assume "i < length (get_bytes off 6 f)"
  then have i: "i < 6" using assms(1) by simp
  then have "i \<in> {0, 1, 2, 3, 4, 5}" by auto
  with assms(3) have "f ! (off + i) = a ! i" by auto
  with assms(1) i show "get_bytes off 6 f ! i = a ! i" by (simp add: nth_get_bytes)
qed (use assms in simp)

text \<open>The bytes that every message sets in the same way.\<close>

lemma maap_packet_header:
  assumes "length buf = 64" and "mt < 2 ^ 4"
    and f: "f = create_maap_packet mt src st buf ra rc ca cc"
  shows "get_maap_subtype (drop 14 f) = 0x7e" and "get_maap_msg_type (drop 14 f) = mt"
proof -
  have lf: "length f = 64" using assms by simp
  note f' = f [unfolded create_maap_packet_def Let_def upt_6]
  have ne: "buf \<noteq> []" using assms(1) by auto
  define v :: u8 where "v = 0x7e"
  have n14: "f ! 14 = set_bits 0 6 v (set_bits 7 7 1 (buf ! 14))"
    using assms(1) ne unfolding f' v_def by simp
  have n15: "f ! 15 = set_bits 0 3 mt (set_bits 4 6 0 (buf ! 15))"
    using assms(1) ne unfolding f' by simp
  have k: "v < 2 ^ 7" by (simp add: v_def)
  show "get_maap_subtype (drop 14 f) = 0x7e" unfolding v_def [symmetric]
    using lf by (auto intro!: bit_word_eqI simp: get_maap_subtype_def u8_lits n14
      bit_u8_mask bit_set_bits dest: bit_small [OF k])
  show "get_maap_msg_type (drop 14 f) = mt"
    using lf by (auto intro!: bit_word_eqI simp: get_maap_msg_type_def u8_lits n15
      bit_u8_mask bit_set_bits dest: bit_small [OF assms(2)])
qed

lemma maap_packet_defend:
  assumes "length buf = 64" "length src = 6" "length ra = 6" "length ca = 6"
    and f: "f = create_maap_packet MAAP_DEFEND src st buf ra rc ca cc"
  shows "get_bytes 0 6 f = src" and "maap_request_start (drop 14 f) = ra"
    and "maap_conflict_start (drop 14 f) = ca"
    and "get_maap_requested_count (drop 14 f) = rc mod 65536"
    and "get_maap_conflict_count (drop 14 f) = cc mod 65536"
proof -
  have lf: "length f = 64" using assms by simp
  note f' = f [unfolded create_maap_packet_def Let_def upt_6]
  have ne: "buf \<noteq> []" using assms(1) by auto
  show "get_bytes 0 6 f = src"
    by (rule get_6_eq) (use assms(1,2) ne lf in \<open>simp_all add: f' flip: numeral_2_eq_2\<close>)
  show "maap_request_start (drop 14 f) = ra"
    unfolding maap_request_start_def get_bytes_drop
    by (rule get_6_eq) (use assms(1,3) ne lf in \<open>simp_all add: f'\<close>)
  show "maap_conflict_start (drop 14 f) = ca"
    unfolding maap_conflict_start_def get_bytes_drop
    by (rule get_6_eq) (use assms(1,4) ne lf in \<open>simp_all add: f'\<close>)
  have "f ! 32 = byte_hi rc \<and> f ! 33 = byte_lo rc \<and> f ! 40 = byte_hi cc \<and> f ! 41 = byte_lo cc"
    using assms(1) ne by (simp add: f')
  then show "get_maap_requested_count (drop 14 f) = rc mod 65536"
    "get_maap_conflict_count (drop 14 f) = cc mod 65536"
    using lf by (simp_all add: get_maap_requested_count_def get_maap_conflict_count_def two_byte_mod)
qed

lemma maap_packet_claim:
  assumes "length buf = 64" "length (ma_base st) = 6" "mt \<noteq> MAAP_DEFEND"
    and f: "f = create_maap_packet mt src st buf ra rc ca cc"
  shows "get_bytes 0 6 f = maap_dest_addr" and "maap_request_start (drop 14 f) = ma_base st"
    and "get_maap_requested_count (drop 14 f) = ma_range st mod 65536"
proof -
  have lf: "length f = 64" using assms by simp
  note f' = f [unfolded create_maap_packet_def Let_def upt_6]
  have ne: "buf \<noteq> []" using assms(1) by auto
  show "get_bytes 0 6 f = maap_dest_addr"
    by (rule get_6_eq) (use assms(1,3) ne lf in \<open>simp_all add: f' maap_dest_addr_def flip: numeral_2_eq_2\<close>)
  show "maap_request_start (drop 14 f) = ma_base st"
    unfolding maap_request_start_def get_bytes_drop
    by (rule get_6_eq) (use assms(1-3) ne lf in \<open>simp_all add: f'\<close>)
  have "f ! 32 = byte_hi (ma_range st) \<and> f ! 33 = byte_lo (ma_range st)"
    using assms(1,3) ne by (simp add: f')
  then show "get_maap_requested_count (drop 14 f) = ma_range st mod 65536"
    using lf by (simp add: get_maap_requested_count_def two_byte_mod)
qed

section \<open>Defending a range\<close>

text \<open>
  C7. A station that holds a range answers a conflicting PROBE with exactly one frame: a
  DEFEND to the sender that repeats the request and names exactly the part of the range it
  owns, and it keeps its range and state.
\<close>

theorem maap_defends:
  assumes "ma_state st = MAAP_RESERVED" "length (ma_base st) = 6" "length (ma_buf st) = 64"
    and "length src = 6" "28 \<le> length pkt" "0 < ma_range st" "ma_range st < 65536"
    and "get_maap_subtype pkt = 0x7e" "get_maap_msg_type pkt = MAAP_PROBE"
    and "0 < get_maap_requested_count pkt"
    and "take 4 (maap_request_start pkt) = take 4 (ma_base st)"
    and "maap_own st \<inter> maap_asked (maap_request_start pkt) (get_maap_requested_count pkt) \<noteq> {}"
  shows "\<exists>f. avb_1722_maap_process_packet rnd now pkt src st = (st\<lparr>ma_buf := f\<rparr>, [MaapTx f]) \<and>
             get_bytes 0 6 f = src \<and> get_maap_msg_type (drop 14 f) = MAAP_DEFEND \<and>
             maap_request_start (drop 14 f) = maap_request_start pkt \<and>
             get_maap_requested_count (drop 14 f) = get_maap_requested_count pkt \<and>
             maap_asked (maap_conflict_start (drop 14 f)) (get_maap_conflict_count (drop 14 f)) =
               maap_own st \<inter> maap_asked (maap_request_start pkt) (get_maap_requested_count pkt)"
proof -
  let ?a = "maap_request_start pkt" and ?n = "get_maap_requested_count pkt"
  have la: "length ?a = 6" using assms(5) by (simp add: maap_request_start_def)
  have n: "0 \<le> ?n" "?n < 65536"
    using uint_lt2p [of "pkt ! 19"] uint_lt2p [of "pkt ! 18"] assms(10)
    by (simp_all add: get_maap_requested_count_def)
  obtain addr c where hit: "maap_conflict st ?a ?n True = ConflictAt addr c" "0 < c"
      "maap_asked (the addr) c = maap_own st \<inter> maap_asked ?a ?n" "length (the addr) = 6"
      "c < 65536"
  proof -
    have "maap_conflict st ?a ?n True \<noteq> NoConflict"
      using assms(10-12) la assms(2,6) by (simp add: maap_conflict_iff)
    moreover have "maap_conflict st ?a ?n True = ConflictAt addr c \<Longrightarrow>
        c < 65536 \<and> length (the addr) = 6" for addr c
      using assms(1,2,7) n(2) maap_addr16_range [of ?a] maap_addr16_range [of "ma_base st"]
      by (auto simp: maap_conflict_def Let_def split: if_splits)
    moreover note ex = maap_conflict_at [OF assms(1) la assms(2,6,10)]
    ultimately obtain addr c where e: "maap_conflict st ?a ?n True = ConflictAt addr c"
        "c < 65536" "length (the addr) = 6"
      by (cases "maap_conflict st ?a ?n True") simp_all
    with ex obtain x where "0 < c" "addr = Some x" "maap_asked x c = maap_own st \<inter> maap_asked ?a ?n"
      by auto
    with e show thesis by (intro that [of addr c]) simp_all
  qed
  define f where "f = create_maap_packet MAAP_DEFEND src st (ma_buf st) ?a ?n (the addr) c"
  have "avb_1722_maap_process_packet rnd now pkt src st = (st\<lparr>ma_buf := f\<rparr>, [MaapTx f])"
    using assms(1,8,9) hit(1)
    by (simp add: avb_1722_maap_process_packet_def Let_def f_def)
  moreover note maap_packet_header(2) [OF assms(3) _ f_def]
    maap_packet_defend [OF assms(3,4) la hit(4) f_def]
  ultimately show ?thesis using hit n
    by (intro exI [of _ f]) (simp add: MAAP_DEFEND_def)
qed

definition maap_probe_example :: "u8 list" where
  "maap_probe_example = [0xfe, 0x01, 0x08, 28, 0, 0, 0, 0, 0, 0, 0, 0,
     0x91, 0xE0, 0xF0, 0, 1, 10, 0, 16, 0, 0, 0, 0, 0, 0, 0, 0]"

theorem maap_defends_witness:
  "\<exists>f. avb_1722_maap_process_packet (\<lambda>g. (0, g)) 5 maap_probe_example [0, 1, 2, 3, 4, 5] maap_example =
        (maap_example\<lparr>ma_buf := f\<rparr>, [MaapTx f])"
proof -
  have p: "maap_request_start maap_probe_example = [0x91, 0xE0, 0xF0, 0, 1, 10]"
      "get_maap_requested_count maap_probe_example = 16"
      "get_maap_subtype maap_probe_example = 0x7e" "get_maap_msg_type maap_probe_example = MAAP_PROBE"
    by (simp_all add: maap_request_start_def get_bytes_def maap_probe_example_def
      get_maap_requested_count_def get_maap_subtype_def get_maap_msg_type_def MAAP_PROBE_def)
  have "266 \<in> maap_own maap_example \<inter> maap_asked [0x91, 0xE0, 0xF0, 0, 1, 10] 16"
    by (simp add: maap_own_def maap_asked_def maap_addr16_def)
  then have "maap_own maap_example \<inter> maap_asked [0x91, 0xE0, 0xF0, 0, 1, 10] 16 \<noteq> {}" by blast
  then show ?thesis
    using maap_defends [of maap_example "[0, 1, 2, 3, 4, 5]" maap_probe_example "\<lambda>g. (0, g)" 5]
    by (auto simp: p) (simp_all add: maap_probe_example_def)
qed

section \<open>Acquiring a range\<close>

lemma expired_multiplier_one:
  "tmr_active t = 1 \<Longrightarrow> timeafter now (tmr_timeout t) \<Longrightarrow> fst (avb_timer_expired now t)"
  by (simp add: avb_timer_expired_def Let_def)

lemma expired_keeps_multiplier [simp]:
  "timeout_multiplier (snd (avb_timer_expired now t)) = timeout_multiplier t"
  by (simp add: avb_timer_expired_def Let_def)

lemma start_timer_sel [simp]:
  "tmr_active (start_avb_timer now p t) = timeout_multiplier t"
  "tmr_timeout (start_avb_timer now p t) = now + p * TICKS_PER_CENTISECOND"
  "timeout_multiplier (start_avb_timer now p t) = timeout_multiplier t"
  by (simp_all add: start_avb_timer_def)

lemma init_timer_sel [simp]:
  "timeout_multiplier (init_avb_timer m t) = m" "tmr_active (init_avb_timer m t) = 0"
  by (simp_all add: init_avb_timer_def)

text \<open>One firing of the periodic handler in the probing state, before the last and at the last.\<close>

definition maap_probe_due :: "u32 \<Rightarrow> 'r maap_st \<Rightarrow> bool" where
  "maap_probe_due now st \<longleftrightarrow> ma_immediately st \<or>
     (tmr_active (ma_timer st) = 1 \<and> timeafter now (tmr_timeout (ma_timer st)))"

definition maap_probe_frame :: "'r maap_st \<Rightarrow> u8 list" where
  "maap_probe_frame st = create_maap_packet MAAP_PROBE [] st (ma_buf st) [] 0 [] 0"

lemma maap_due_fires:
  assumes "maap_probe_due now st"
  obtains t where "maap_due now st = (True, st\<lparr>ma_timer := t\<rparr>)"
    "timeout_multiplier t = timeout_multiplier (ma_timer st)"
proof (cases "ma_immediately st")
  case True
  then show thesis using that [of "ma_timer st"] by (simp add: maap_due_def)
next
  case False
  then have "fst (avb_timer_expired now (ma_timer st))"
    using assms by (simp add: maap_probe_due_def expired_multiplier_one)
  then show thesis using False that [of "snd (avb_timer_expired now (ma_timer st))"]
    by (simp add: maap_due_def Let_def case_prod_unfold)
qed

lemma create_maap_packet_cong:
  "ma_my_mac_addr s = ma_my_mac_addr st \<Longrightarrow> ma_base s = ma_base st \<Longrightarrow> ma_range s = ma_range st \<Longrightarrow>
     create_maap_packet mt src s buf ra rc ca cc = create_maap_packet mt src st buf ra rc ca cc"
  by (simp add: create_maap_packet_def Let_def)

lemma maap_probe_again:
  assumes "ma_state st = MAAP_PROBING" "maap_probe_due now st" "ma_probe_count st \<noteq> 1"
  shows "\<exists>t. avb_1722_maap_periodic now st =
           (st\<lparr>ma_immediately := False, ma_probe_count := ma_probe_count st - 1,
               ma_buf := maap_probe_frame st, ma_timer := start_avb_timer now (ma_timeout_val st) t\<rparr>,
            [MaapTx (maap_probe_frame st)]) \<and>
           timeout_multiplier t = timeout_multiplier (ma_timer st)"
proof -
  obtain t where t: "maap_due now st = (True, st\<lparr>ma_timer := t\<rparr>)"
      "timeout_multiplier t = timeout_multiplier (ma_timer st)"
    using maap_due_fires [OF assms(2)] by blast
  show ?thesis using assms(1,3) t
    by (intro exI [of _ t])
      (simp add: avb_1722_maap_periodic_def Let_def maap_send_def maap_probe_frame_def
        create_maap_packet_def cong: if_cong)
qed

lemma maap_probe_last:
  assumes "ma_state st = MAAP_PROBING" "maap_probe_due now st" "ma_probe_count st = 1"
  shows "ma_state (fst (avb_1722_maap_periodic now st)) = MAAP_RESERVED"
    and "ma_base (fst (avb_1722_maap_periodic now st)) = ma_base st"
    and "ma_range (fst (avb_1722_maap_periodic now st)) = ma_range st"
    and "snd (avb_1722_maap_periodic now st) = MaapTx (maap_probe_frame st)
           # map (\<lambda>i. SourceAddressReserved i (maap_nth_addr (ma_base st) i)) [0..ma_range st - 1]"
    and "timeout_multiplier (ma_timer (fst (avb_1722_maap_periodic now st))) = 10"
proof -
  obtain t where t: "maap_due now st = (True, st\<lparr>ma_timer := t\<rparr>)"
      "timeout_multiplier t = timeout_multiplier (ma_timer st)"
    using maap_due_fires [OF assms(2)] by blast
  show "ma_state (fst (avb_1722_maap_periodic now st)) = MAAP_RESERVED"
    "ma_base (fst (avb_1722_maap_periodic now st)) = ma_base st"
    "ma_range (fst (avb_1722_maap_periodic now st)) = ma_range st"
    "snd (avb_1722_maap_periodic now st) = MaapTx (maap_probe_frame st)
       # map (\<lambda>i. SourceAddressReserved i (maap_nth_addr (ma_base st) i)) [0..ma_range st - 1]"
    "timeout_multiplier (ma_timer (fst (avb_1722_maap_periodic now st))) = 10"
    using assms(1,3) t
    by (simp_all add: avb_1722_maap_periodic_def Let_def maap_send_def maap_probe_frame_def
        create_maap_packet_def cong: if_cong)
qed

text \<open>
  C6. After a request for \<open>n\<close> addresses, three firings of the periodic handler send three
  PROBE frames and then hold the range: the state is RESERVED with the base chosen by the
  request, and every one of the \<open>n\<close> addresses is reported to the application once, in order.
\<close>

theorem maap_acquires:
  assumes "timeout_multiplier (ma_timer st) = 1" and "n \<noteq> - 1"
    and s1: "s1 = avb_1722_maap_request_addresses rnd t0 n start st"
    and r1: "(s2, o2) = avb_1722_maap_periodic p1 s1"
    and r2: "(s3, o3) = avb_1722_maap_periodic p2 s2"
    and r3: "(s4, o4) = avb_1722_maap_periodic p3 s3"
    and "timeafter p2 (p1 + ma_timeout_val s1 * TICKS_PER_CENTISECOND)"
    and "timeafter p3 (p2 + ma_timeout_val s1 * TICKS_PER_CENTISECOND)"
  shows "ma_state s4 = MAAP_RESERVED \<and> ma_base s4 = ma_base s1 \<and> ma_range s4 = n \<and>
         o2 = [MaapTx (maap_probe_frame s1)] \<and> o3 = [MaapTx (maap_probe_frame s2)] \<and>
         o4 = MaapTx (maap_probe_frame s3)
              # map (\<lambda>i. SourceAddressReserved i (maap_nth_addr (ma_base s1) i)) [0..n - 1]"
proof -
  have tm: "timeout_multiplier (ma_timer s1) = 1"
    using assms(1) by (simp add: s1 avb_1722_maap_request_addresses_def random_base_def Let_def
        split: option.split prod.split)
  have s1': "ma_state s1 = MAAP_PROBING" "ma_probe_count s1 = 3" "ma_range s1 = n" "maap_probe_due p1 s1"
    using assms(2) by (simp_all add: s1 avb_1722_maap_request_addresses_def Let_def maap_probe_due_def)
  from maap_probe_again [OF s1'(1,4)] s1' tm r1 obtain t1 where
    s2: "s2 = s1\<lparr>ma_immediately := False, ma_probe_count := 2, ma_buf := maap_probe_frame s1,
            ma_timer := start_avb_timer p1 (ma_timeout_val s1) t1\<rparr>"
      "o2 = [MaapTx (maap_probe_frame s1)]" "timeout_multiplier t1 = 1" by auto
  have s2': "ma_state s2 = MAAP_PROBING" "ma_probe_count s2 = 2" "maap_probe_due p2 s2"
    using s1' s2 assms(7) by (simp_all add: maap_probe_due_def)
  from maap_probe_again [OF s2'(1,3)] s2' s2(1,3) r2 obtain t2 where
    s3: "s3 = s2\<lparr>ma_probe_count := 1, ma_buf := maap_probe_frame s2,
            ma_timer := start_avb_timer p2 (ma_timeout_val s1) t2\<rparr>"
      "o3 = [MaapTx (maap_probe_frame s2)]" "timeout_multiplier t2 = 1" by auto
  have s3': "ma_state s3 = MAAP_PROBING" "ma_probe_count s3 = 1" "maap_probe_due p3 s3"
    "ma_base s3 = ma_base s1" "ma_range s3 = n"
    using s1' s2' s2(1) s3 assms(8) by (simp_all add: maap_probe_due_def)
  note last = maap_probe_last [OF s3'(1,3,2)]
  have s4: "s4 = fst (avb_1722_maap_periodic p3 s3)" "o4 = snd (avb_1722_maap_periodic p3 s3)"
    using r3 by (simp_all add: prod_eq_iff)
  show ?thesis using last s3' s2(2) s3(2) by (simp only: s4 simp_thms)
qed

theorem maap_acquires_witness:
  "snd (avb_1722_maap_periodic 200000000 (fst (avb_1722_maap_periodic 100000000
     (fst (avb_1722_maap_periodic 1 (avb_1722_maap_request_addresses (\<lambda>g. (0, g)) 0 2
       (Some [0x91, 0xE0, 0xF0, 0, 1, 0]) maap_example))))))
   = MaapTx (maap_probe_frame (fst (avb_1722_maap_periodic 100000000
        (fst (avb_1722_maap_periodic 1 (avb_1722_maap_request_addresses (\<lambda>g. (0, g)) 0 2
          (Some [0x91, 0xE0, 0xF0, 0, 1, 0]) maap_example))))))
     # [SourceAddressReserved 0 [0x91, 0xE0, 0xF0, 0, 1, 0], SourceAddressReserved 1 [0x91, 0xE0, 0xF0, 0, 1, 1]]"
proof -
  let ?s1 = "avb_1722_maap_request_addresses (\<lambda>g. (0, g)) 0 2 (Some [0x91, 0xE0, 0xF0, 0, 1, 0]) maap_example"
  have base: "ma_base ?s1 = [0x91, 0xE0, 0xF0, 0, 1, 0]" and tv: "ma_timeout_val ?s1 = 50"
    by (simp_all add: avb_1722_maap_request_addresses_def Let_def upt_6)
  have tm: "timeout_multiplier (ma_timer maap_example) = 1" by (simp add: maap_example_def)
  have late: "timeafter 100000000 (1 + ma_timeout_val ?s1 * TICKS_PER_CENTISECOND)"
     "timeafter 200000000 (100000000 + ma_timeout_val ?s1 * TICKS_PER_CENTISECOND)"
    by (simp_all add: tv timeafter_def TICKS_PER_CENTISECOND_def)
  show ?thesis
    using maap_acquires [OF tm _ refl prod.collapse prod.collapse prod.collapse late]
    by (simp add: base maap_nth_addr_def byte_hi_def byte_lo_def upto_rec1)
qed

section \<open>The invariant\<close>

text \<open>All operations of the component as events of one machine.\<close>

datatype maap_event =
    MaapRequest u32 int "u8 list option"
  | MaapRerequest u32
  | MaapRelinquish
  | MaapPeriodic u32
  | MaapPacket u32 "u8 list" "u8 list"

fun maap_step :: "('r \<Rightarrow> u32 \<times> 'r) \<Rightarrow> maap_event \<Rightarrow> 'r maap_st \<Rightarrow> 'r maap_st" where
  "maap_step rnd (MaapRequest now n start) st = avb_1722_maap_request_addresses rnd now n start st"
| "maap_step rnd (MaapRerequest now) st = avb_1722_maap_rerequest_addresses rnd now st"
| "maap_step rnd MaapRelinquish st = avb_1722_maap_relinquish_addresses st"
| "maap_step rnd (MaapPeriodic now) st = fst (avb_1722_maap_periodic now st)"
| "maap_step rnd (MaapPacket now pkt src) st = fst (avb_1722_maap_process_packet rnd now pkt src st)"

definition maap_ok :: "'r maap_st \<Rightarrow> bool" where
  "maap_ok st \<longleftrightarrow>
     length (ma_base st) = 6 \<and> take 4 (ma_base st) = take 4 MAAP_ALLOCATION_POOL_BASE_ADDR \<and>
     length (ma_buf st) = 64 \<and> 0 \<le> ma_range st \<and>
     (ma_state st = MAAP_PROBING \<longrightarrow> ma_probe_count st \<in> {1, 2, 3})"

text \<open>The API asks for a non-negative number of addresses and a start inside the pool.\<close>

fun maap_event_ok :: "maap_event \<Rightarrow> bool" where
  "maap_event_ok (MaapRequest now n start) =
     ((n = - 1 \<or> 0 \<le> n) \<and>
      (case start of None \<Rightarrow> True
       | Some a \<Rightarrow> take 4 a = take 4 MAAP_ALLOCATION_POOL_BASE_ADDR \<and> 6 \<le> length a))"
| "maap_event_ok _ = True"

lemma copy_6: "length b = 6 \<Longrightarrow> 6 \<le> length a \<Longrightarrow> fold (\<lambda>i b. b[i := a ! i]) [0..<6] b = take 6 a"
  by (rule nth_equalityI) (auto simp: upt_6 nth_list_update less_Suc_eq numeral_eq_Suc)

lemma maap_ok_request [step_inv]:
  assumes "maap_ok st" "n = - 1 \<or> 0 \<le> n"
    and "case start of None \<Rightarrow> True
         | Some a \<Rightarrow> take 4 a = take 4 MAAP_ALLOCATION_POOL_BASE_ADDR \<and> 6 \<le> length a"
  shows "maap_ok (avb_1722_maap_request_addresses rnd now n start st)"
  using assms copy_6 [of "ma_base st"]
  by (cases start) (auto simp: maap_ok_def avb_1722_maap_request_addresses_def random_base_def
      Let_def case_prod_unfold)

lemma maap_due_sel [simp]:
  "ma_base (snd (maap_due now st)) = ma_base st" "ma_buf (snd (maap_due now st)) = ma_buf st"
  "ma_range (snd (maap_due now st)) = ma_range st" "ma_state (snd (maap_due now st)) = ma_state st"
  "ma_probe_count (snd (maap_due now st)) = ma_probe_count st"
  by (simp_all add: maap_due_def Let_def case_prod_unfold)

lemma maap_ok_periodic [step_inv]:
  assumes "maap_ok st"
  shows "maap_ok (fst (avb_1722_maap_periodic now st))"
proof (cases "ma_state st")
  case MAAP_DISABLED
  then show ?thesis using assms by (simp add: avb_1722_maap_periodic_def)
next
  case MAAP_RESERVED
  then show ?thesis using assms
    by (simp add: avb_1722_maap_periodic_def Let_def case_prod_unfold maap_ok_def maap_send_def)
next
  case MAAP_PROBING
  then have "ma_probe_count st - 1 \<noteq> 0 \<Longrightarrow> ma_probe_count st - 1 \<in> {1, 2, 3}"
    using assms unfolding maap_ok_def by auto
  then show ?thesis using assms MAAP_PROBING
    by (simp add: avb_1722_maap_periodic_def Let_def case_prod_unfold maap_ok_def maap_send_def)
qed

lemma maap_ok_packet [step_inv]:
  "maap_ok st \<Longrightarrow> maap_ok (fst (avb_1722_maap_process_packet rnd now pkt src st))"
proof -
  assume ok: "maap_ok st"
  have r: "maap_ok (maap_restart rnd now st)"
    unfolding maap_restart_def by (rule maap_ok_request) (use ok in simp_all)
  have b: "ma_state st \<noteq> MAAP_PROBING \<Longrightarrow> length b = 64 \<Longrightarrow> maap_ok (st\<lparr>ma_buf := b\<rparr>)" for b
    using ok by (simp add: maap_ok_def)
  have l: "length (ma_buf st) = 64" using ok by (simp add: maap_ok_def)
  show ?thesis
    using ok r b l
    by (auto simp: avb_1722_maap_process_packet_def maap_announced_def Let_def split: maap_hit.split)
qed

lemma maap_step_keeps: "maap_ok st \<Longrightarrow> maap_event_ok e \<Longrightarrow> maap_ok (maap_step rnd e st)"
proof (cases e)
  case (MaapRerequest now)
  assume "maap_ok st"
  then show ?thesis using MaapRerequest maap_ok_request [of st "- 1" None rnd now]
    by (simp add: avb_1722_maap_rerequest_addresses_def)
next
  case MaapRelinquish
  assume "maap_ok st"
  then show ?thesis using MaapRelinquish
    by (simp add: avb_1722_maap_relinquish_addresses_def maap_ok_def)
qed (simp_all add: maap_ok_request maap_ok_periodic maap_ok_packet)

interpretation maap: guarded_machine "maap_step rnd" maap_ok maap_event_ok
  by unfold_locales (rule maap_step_keeps)

text \<open>
  Whatever packets, timer polls and API calls arrive, in any order, the station's base
  address keeps the MAAP prefix, its frame buffer its size, its range stays non-negative,
  and a probing station has one to three probes left.
\<close>

theorem maap_invariant:
  assumes "maap_ok st" and "list_all maap_event_ok es"
  shows "maap_ok (fold (maap_step rnd) es st)"
  using assms by (rule maap.guarded_run)

theorem maap_invariant_witness:
  "maap_ok (fold (maap_step (\<lambda>g. (12345, g)))
     [MaapRequest 0 4 None, MaapPeriodic 1, MaapPacket 2 maap_probe_example [0, 1, 2, 3, 4, 5]] maap_example)"
  using maap_invariant [of maap_example "[MaapRequest 0 4 None, MaapPeriodic 1,
      MaapPacket 2 maap_probe_example [0, 1, 2, 3, 4, 5]]" "\<lambda>g. (12345, g)"]
  by (simp add: maap_ok_def maap_example_def MAAP_ALLOCATION_POOL_BASE_ADDR_def)

section \<open>Two deviations\<close>

definition maap_other :: "unit maap_st" where
  "maap_other = maap_example\<lparr>ma_my_mac_addr := [0, 0x22, 0x97, 0, 2, 1]\<rparr>"

definition maap_announce_of :: "'r maap_st \<Rightarrow> u8 list" where
  "maap_announce_of st = drop 14 (create_maap_packet MAAP_ANNOUNCE [] st (ma_buf st) [] 0 [] 0)"

text \<open>
  \<open>maap_compare_mac\<close> asks whether any octet of the own address is smaller, which is no
  order: two stations that hold the same range can each find the other's address greater,
  and then neither gives the range up when it receives the other's ANNOUNCE.
\<close>

theorem maap_conflict_unresolved:
  "maap_own maap_example \<inter> maap_own maap_other \<noteq> {} \<and>
   avb_1722_maap_process_packet rnd now (maap_announce_of maap_other) (ma_my_mac_addr maap_other) maap_example
     = (maap_example, []) \<and>
   avb_1722_maap_process_packet rnd now (maap_announce_of maap_example) (ma_my_mac_addr maap_example) maap_other
     = (maap_other, [])"
proof (intro conjI)
  have "260 \<in> maap_own maap_example \<inter> maap_own maap_other"
    by (simp add: maap_own_def maap_addr16_def maap_other_def)
  then show "maap_own maap_example \<inter> maap_own maap_other \<noteq> {}" by blast
  have keep: "avb_1722_maap_process_packet rnd now (maap_announce_of t) (ma_my_mac_addr t) st = (st, [])"
    if "ma_state st = MAAP_RESERVED" "maap_compare_mac st (ma_my_mac_addr t)" "length (ma_buf t) = 64"
    for st t :: "unit maap_st"
    using that maap_packet_header(2) [OF that(3) _ refl, of MAAP_ANNOUNCE "[]" t "[]" 0 "[]" 0]
    by (simp add: avb_1722_maap_process_packet_def maap_announce_of_def Let_def maap_announced_def maap_msg_defs)
  show "avb_1722_maap_process_packet rnd now (maap_announce_of maap_other) (ma_my_mac_addr maap_other) maap_example
      = (maap_example, [])"
    by (rule keep) (simp_all add: maap_other_def maap_compare_mac_def upt_rec)
  show "avb_1722_maap_process_packet rnd now (maap_announce_of maap_example) (ma_my_mac_addr maap_example) maap_other
      = (maap_other, [])"
    by (rule keep) (simp_all add: maap_other_def maap_compare_mac_def upt_rec)
qed

end
