(* ===== verification/Mrp_Machine.thy ===== *)
theory Mrp_Machine
  imports Misc_Timer
begin

text \<open>
  The attribute state machines of the Multiple Registration Protocol
  (\<open>module_avb_srp/src/avb_mrp.c\<close>, built as a full participant): the attribute record, the
  registrar and the applicant as functions of the event, the event code that is transmitted,
  and the packing of events into vector bytes.
\<close>

datatype mrp_applicant_state =
    MRP_UNUSED | MRP_DISABLED | MRP_VO | MRP_VP | MRP_VN | MRP_AN | MRP_AA | MRP_QA
  | MRP_LA | MRP_AO | MRP_QO | MRP_AP | MRP_QP | MRP_LO

datatype mrp_registrar_state = MRP_IN | MRP_LV | MRP_MT

datatype mrp_event =
    MRP_EVENT_BEGIN | MRP_EVENT_NEW | MRP_EVENT_FLUSH | MRP_EVENT_JOIN | MRP_EVENT_LV
  | MRP_EVENT_RECEIVE_NEW | MRP_EVENT_RECEIVE_JOININ | MRP_EVENT_RECEIVE_IN
  | MRP_EVENT_RECEIVE_JOINMT | MRP_EVENT_RECEIVE_MT | MRP_EVENT_RECEIVE_LEAVE
  | MRP_EVENT_RECEIVE_LEAVE_ALL | MRP_EVENT_REDECLARE | MRP_EVENT_PERIODIC | MRP_EVENT_TX
  | MRP_EVENT_TX_LEAVE_ALL | MRP_EVENT_TX_LEAVE_ALL_FULL | MRP_EVENT_LEAVETIMER

datatype mrp_attribute_type =
    MSRP_TALKER_ADVERTISE | MSRP_TALKER_FAILED | MSRP_LISTENER | MSRP_DOMAIN_VECTOR
  | MMRP_MAC_VECTOR | MVRP_VID_VECTOR

text \<open>
  The attribute info pointer refers to a source, a sink, a VLAN entry or a multicast group
  entry, each identified by its index, or is null.
\<close>

datatype mrp_info = SourceInfo nat | SinkInfo nat | VlanInfo nat | GroupInfo nat | NoInfo

record mrp_attribute_state =
  at_type :: mrp_attribute_type
  at_applicant :: mrp_applicant_state
  at_registrar :: mrp_registrar_state
  at_leave_timer :: avb_timer
  at_pending :: u16
  at_four_vector :: int
  at_info :: mrp_info

abbreviation (input) "PENDING_JOIN_NEW \<equiv> 1 :: u16"
abbreviation (input) "PENDING_JOIN \<equiv> 2 :: u16"
abbreviation (input) "PENDING_LEAVE \<equiv> 4 :: u16"

abbreviation (input) "MRP_LEAVETIMER_PERIOD_CENTISECONDS \<equiv> 80 :: u32"

abbreviation (input) "MRP_ATTRIBUTE_EVENT_NEW \<equiv> 0 :: int"
abbreviation (input) "MRP_ATTRIBUTE_EVENT_JOININ \<equiv> 1 :: int"
abbreviation (input) "MRP_ATTRIBUTE_EVENT_IN \<equiv> 2 :: int"
abbreviation (input) "MRP_ATTRIBUTE_EVENT_JOINMT \<equiv> 3 :: int"
abbreviation (input) "MRP_ATTRIBUTE_EVENT_MT \<equiv> 4 :: int"
abbreviation (input) "MRP_ATTRIBUTE_EVENT_LV \<equiv> 5 :: int"

section \<open>The registrar\<close>

definition mrp_stop_leave_timer :: "mrp_attribute_state \<Rightarrow> mrp_attribute_state" where
  "mrp_stop_leave_timer st =
     (if at_registrar st = MRP_LV
      then st\<lparr>at_leave_timer := stop_avb_timer (at_leave_timer st)\<rparr> else st)"

definition registrar_new :: "int \<Rightarrow> mrp_attribute_state \<Rightarrow> mrp_attribute_state" where
  "registrar_new fp st =
     (let s = mrp_stop_leave_timer st
      in s\<lparr>at_registrar := MRP_IN, at_pending := at_pending s OR PENDING_JOIN_NEW, at_four_vector := fp\<rparr>)"

definition registrar_join :: "int \<Rightarrow> mrp_attribute_state \<Rightarrow> mrp_attribute_state" where
  "registrar_join fp st =
     (let s = mrp_stop_leave_timer st;
          s' = (if at_registrar s = MRP_MT
                then s\<lparr>at_pending := at_pending s OR PENDING_JOIN, at_four_vector := fp\<rparr> else s)
      in s'\<lparr>at_registrar := MRP_IN\<rparr>)"

definition registrar_leave :: "u32 \<Rightarrow> mrp_attribute_state \<Rightarrow> mrp_attribute_state" where
  "registrar_leave now st =
     (if at_registrar st = MRP_IN
      then st\<lparr>at_leave_timer := start_avb_timer now MRP_LEAVETIMER_PERIOD_CENTISECONDS (at_leave_timer st),
              at_registrar := MRP_LV\<rparr>
      else st)"

definition registrar_flush :: "int \<Rightarrow> mrp_attribute_state \<Rightarrow> mrp_attribute_state" where
  "registrar_flush fp st =
     (let s = (if at_registrar st = MRP_LV
               then st\<lparr>at_pending := at_pending st OR PENDING_LEAVE, at_four_vector := fp\<rparr> else st)
      in s\<lparr>at_registrar := MRP_MT\<rparr>)"

fun mrp_registrar_step :: "u32 \<Rightarrow> mrp_event \<Rightarrow> int \<Rightarrow> mrp_attribute_state \<Rightarrow> mrp_attribute_state" where
  "mrp_registrar_step now MRP_EVENT_BEGIN fp st = st\<lparr>at_registrar := MRP_MT\<rparr>"
| "mrp_registrar_step now MRP_EVENT_RECEIVE_NEW fp st = registrar_new fp st"
| "mrp_registrar_step now MRP_EVENT_RECEIVE_JOININ fp st = registrar_join fp st"
| "mrp_registrar_step now MRP_EVENT_RECEIVE_JOINMT fp st = registrar_join fp st"
| "mrp_registrar_step now MRP_EVENT_RECEIVE_LEAVE fp st = registrar_leave now st"
| "mrp_registrar_step now MRP_EVENT_RECEIVE_LEAVE_ALL fp st = registrar_leave now st"
| "mrp_registrar_step now MRP_EVENT_TX_LEAVE_ALL fp st = registrar_leave now st"
| "mrp_registrar_step now MRP_EVENT_REDECLARE fp st = registrar_leave now st"
| "mrp_registrar_step now MRP_EVENT_LEAVETIMER fp st = registrar_flush fp st"
| "mrp_registrar_step now MRP_EVENT_FLUSH fp st = registrar_flush fp st"
| "mrp_registrar_step now _ fp st = st"

section \<open>The applicant\<close>

text \<open>
  The code's switch for a received JoinIn has no \<open>break\<close>: it runs on into the switch for In
  and then into the one for JoinMt and Mt. The three switches are separate functions here,
  composed in the order in which the code falls through them.
\<close>

fun applicant_joinin :: "mrp_applicant_state \<Rightarrow> mrp_applicant_state" where
  "applicant_joinin MRP_VO = MRP_AO"
| "applicant_joinin MRP_VP = MRP_AP"
| "applicant_joinin MRP_AA = MRP_QA"
| "applicant_joinin MRP_AO = MRP_QO"
| "applicant_joinin MRP_AP = MRP_QP"
| "applicant_joinin s = s"

fun applicant_in :: "mrp_applicant_state \<Rightarrow> mrp_applicant_state" where
  "applicant_in MRP_AA = MRP_QA"
| "applicant_in s = s"

fun applicant_mt :: "mrp_applicant_state \<Rightarrow> mrp_applicant_state" where
  "applicant_mt MRP_QA = MRP_AA"
| "applicant_mt MRP_QO = MRP_AO"
| "applicant_mt MRP_QP = MRP_AP"
| "applicant_mt MRP_LO = MRP_VO"
| "applicant_mt s = s"

fun applicant_join :: "mrp_applicant_state \<Rightarrow> mrp_applicant_state" where
  "applicant_join MRP_VO = MRP_VP"
| "applicant_join MRP_LO = MRP_VP"
| "applicant_join MRP_LA = MRP_AA"
| "applicant_join MRP_AO = MRP_AP"
| "applicant_join MRP_QO = MRP_QP"
| "applicant_join s = s"

fun applicant_lv :: "mrp_applicant_state \<Rightarrow> mrp_applicant_state" where
  "applicant_lv MRP_QP = MRP_QO"
| "applicant_lv MRP_AP = MRP_AO"
| "applicant_lv MRP_VP = MRP_VO"
| "applicant_lv MRP_VN = MRP_LA"
| "applicant_lv MRP_AN = MRP_LA"
| "applicant_lv MRP_AA = MRP_LA"
| "applicant_lv MRP_QA = MRP_LA"
| "applicant_lv s = s"

fun applicant_leave :: "mrp_applicant_state \<Rightarrow> mrp_applicant_state" where
  "applicant_leave MRP_VO = MRP_LO"
| "applicant_leave MRP_AO = MRP_LO"
| "applicant_leave MRP_QO = MRP_LO"
| "applicant_leave MRP_AN = MRP_VN"
| "applicant_leave MRP_AA = MRP_VP"
| "applicant_leave MRP_QA = MRP_VP"
| "applicant_leave MRP_AP = MRP_VP"
| "applicant_leave MRP_QP = MRP_VP"
| "applicant_leave s = s"

fun applicant_periodic :: "mrp_applicant_state \<Rightarrow> mrp_applicant_state" where
  "applicant_periodic MRP_QA = MRP_AA"
| "applicant_periodic MRP_QP = MRP_AP"
| "applicant_periodic s = s"

fun applicant_tx :: "mrp_applicant_state \<Rightarrow> mrp_applicant_state" where
  "applicant_tx MRP_VP = MRP_AA"
| "applicant_tx MRP_VN = MRP_AN"
| "applicant_tx MRP_AN = MRP_QA"
| "applicant_tx MRP_AA = MRP_QA"
| "applicant_tx MRP_AP = MRP_QA"
| "applicant_tx MRP_LA = MRP_VO"
| "applicant_tx MRP_LO = MRP_VO"
| "applicant_tx s = s"

fun applicant_tx_leave_all :: "mrp_applicant_state \<Rightarrow> mrp_applicant_state" where
  "applicant_tx_leave_all MRP_VO = MRP_LO"
| "applicant_tx_leave_all MRP_LA = MRP_LO"
| "applicant_tx_leave_all MRP_AO = MRP_LO"
| "applicant_tx_leave_all MRP_QO = MRP_LO"
| "applicant_tx_leave_all MRP_VN = MRP_AN"
| "applicant_tx_leave_all MRP_AN = MRP_QA"
| "applicant_tx_leave_all MRP_AA = MRP_QA"
| "applicant_tx_leave_all MRP_AP = MRP_QA"
| "applicant_tx_leave_all MRP_QP = MRP_QA"
| "applicant_tx_leave_all s = s"

fun mrp_applicant_next :: "mrp_event \<Rightarrow> mrp_applicant_state \<Rightarrow> mrp_applicant_state" where
  "mrp_applicant_next MRP_EVENT_BEGIN s = MRP_VO"
| "mrp_applicant_next MRP_EVENT_NEW s = MRP_VN"
| "mrp_applicant_next MRP_EVENT_JOIN s = applicant_join s"
| "mrp_applicant_next MRP_EVENT_LV s = applicant_lv s"
| "mrp_applicant_next MRP_EVENT_RECEIVE_JOININ s = applicant_mt (applicant_in (applicant_joinin s))"
| "mrp_applicant_next MRP_EVENT_RECEIVE_IN s = applicant_mt (applicant_in s)"
| "mrp_applicant_next MRP_EVENT_RECEIVE_JOINMT s = applicant_mt s"
| "mrp_applicant_next MRP_EVENT_RECEIVE_MT s = applicant_mt s"
| "mrp_applicant_next MRP_EVENT_RECEIVE_LEAVE s = applicant_leave s"
| "mrp_applicant_next MRP_EVENT_RECEIVE_LEAVE_ALL s = applicant_leave s"
| "mrp_applicant_next MRP_EVENT_REDECLARE s = applicant_leave s"
| "mrp_applicant_next MRP_EVENT_PERIODIC s = applicant_periodic s"
| "mrp_applicant_next MRP_EVENT_TX s = applicant_tx s"
| "mrp_applicant_next MRP_EVENT_TX_LEAVE_ALL s = applicant_tx_leave_all s"
| "mrp_applicant_next _ s = s"

text \<open>Which states transmit on the two transmit events.\<close>

fun mrp_transmits :: "mrp_event \<Rightarrow> mrp_applicant_state \<Rightarrow> bool" where
  "mrp_transmits MRP_EVENT_TX s =
     (s \<in> {MRP_VP, MRP_VN, MRP_AN, MRP_AA, MRP_LA, MRP_AP, MRP_LO})"
| "mrp_transmits MRP_EVENT_TX_LEAVE_ALL s =
     (s \<in> {MRP_VP, MRP_VN, MRP_AN, MRP_AA, MRP_LA, MRP_QA, MRP_AP, MRP_QP})"
| "mrp_transmits _ s = False"

fun makeTxEvent :: "mrp_applicant_state \<Rightarrow> mrp_registrar_state \<Rightarrow> bool \<Rightarrow> int" where
  "makeTxEvent app reg leave_all =
     (if app \<in> {MRP_VP, MRP_AA, MRP_AP, MRP_QA, MRP_QP}
      then if leave_all \<and> app = MRP_VP
           then (if reg = MRP_IN then MRP_ATTRIBUTE_EVENT_IN else MRP_ATTRIBUTE_EVENT_MT)
           else if leave_all \<or> app \<noteq> MRP_QP
           then (if reg = MRP_IN then MRP_ATTRIBUTE_EVENT_JOININ else MRP_ATTRIBUTE_EVENT_JOINMT)
           else 0
      else if app \<in> {MRP_VN, MRP_AN} then MRP_ATTRIBUTE_EVENT_NEW
      else if app = MRP_LA then MRP_ATTRIBUTE_EVENT_LV
      else if app = MRP_LO
      then (if reg = MRP_IN then MRP_ATTRIBUTE_EVENT_IN else MRP_ATTRIBUTE_EVENT_MT)
      else 0)"

text \<open>
  One event on one attribute, without the transmission itself: the vector to transmit, if
  any, is computed from the attribute after the registrar's step and before the applicant's.
\<close>

definition mrp_attr_tx :: "u32 \<Rightarrow> mrp_event \<Rightarrow> int \<Rightarrow> mrp_attribute_state \<Rightarrow> int option" where
  "mrp_attr_tx now e fp st =
     (let s = mrp_registrar_step now e fp st
      in if mrp_transmits e (at_applicant s)
         then Some (makeTxEvent (at_applicant s) (at_registrar s) (e = MRP_EVENT_TX_LEAVE_ALL))
         else None)"

definition mrp_attr_step :: "u32 \<Rightarrow> mrp_event \<Rightarrow> int \<Rightarrow> mrp_attribute_state \<Rightarrow> mrp_attribute_state" where
  "mrp_attr_step now e fp st =
     (let s = mrp_registrar_step now e fp st
      in s\<lparr>at_applicant := mrp_applicant_next e (at_applicant s)\<rparr>)"

definition mrp_is_observer :: "mrp_attribute_state \<Rightarrow> bool" where
  "mrp_is_observer st \<longleftrightarrow> at_applicant st \<in> {MRP_VO, MRP_AO, MRP_QO}"

section \<open>Packed events\<close>

definition encode_three_packed :: "int \<Rightarrow> nat \<Rightarrow> int \<Rightarrow> int" where
  "encode_three_packed event i vector = vector + ((\<lambda>e. e * 6) ^^ (2 - i)) event"

definition encode_four_packed :: "int \<Rightarrow> nat \<Rightarrow> int \<Rightarrow> int" where
  "encode_four_packed event i vector = vector + ((\<lambda>e. e * 4) ^^ (3 - i)) event"

definition decode_threepacked :: "int \<Rightarrow> nat \<Rightarrow> int" where
  "decode_threepacked vector i = ((\<lambda>v. v div 6) ^^ (2 - i)) vector mod 6"

definition decode_fourpacked :: "int \<Rightarrow> nat \<Rightarrow> int" where
  "decode_fourpacked vector i = ((\<lambda>v. v div 4) ^^ (3 - i)) vector mod 4"

lemma decode_threepacked_exec:
  "decode_threepacked v 0 = v div 36 mod 6" "decode_threepacked v 1 = v div 6 mod 6"
  "decode_threepacked v 2 = v mod 6"
  by (simp_all add: decode_threepacked_def numeral_2_eq_2 zdiv_zmult2_eq [symmetric])

lemma decode_fourpacked_exec:
  "decode_fourpacked v 0 = v div 64 mod 4" "decode_fourpacked v 1 = v div 16 mod 4"
  "decode_fourpacked v 2 = v div 4 mod 4" "decode_fourpacked v 3 = v mod 4"
  by (simp_all add: decode_fourpacked_def numeral_2_eq_2 numeral_3_eq_3 zdiv_zmult2_eq [symmetric])

lemma encode_three_packed_exec:
  "encode_three_packed e 0 v = v + 36 * e" "encode_three_packed e 1 v = v + 6 * e"
  "encode_three_packed e 2 v = v + e"
  by (simp_all add: encode_three_packed_def numeral_2_eq_2)

lemma encode_four_packed_exec:
  "encode_four_packed e 0 v = v + 64 * e" "encode_four_packed e 1 v = v + 16 * e"
  "encode_four_packed e 2 v = v + 4 * e" "encode_four_packed e 3 v = v + e"
  by (simp_all add: encode_four_packed_def numeral_2_eq_2 numeral_3_eq_3)

definition pack_three :: "int \<Rightarrow> int \<Rightarrow> int \<Rightarrow> int" where
  "pack_three a b c = encode_three_packed c 2 (encode_three_packed b 1 (encode_three_packed a 0 0))"

definition pack_four :: "int \<Rightarrow> int \<Rightarrow> int \<Rightarrow> int \<Rightarrow> int" where
  "pack_four a b c d = encode_four_packed d 3 (encode_four_packed c 2
     (encode_four_packed b 1 (encode_four_packed a 0 0)))"

lemma packed_digits:
  assumes "{a, b, c} \<subseteq> {0..<6}" "{p, q, r, s} \<subseteq> {0..<4}"
  shows "map (decode_threepacked (pack_three a b c)) [0, 1, 2] = [a, b, c] \<and>
         map (decode_fourpacked (pack_four p q r s)) [0, 1, 2, 3] = [p, q, r, s] \<and>
         pack_three a b c \<in> {0..<256} \<and> pack_four p q r s \<in> {0..<256}"
proof -
  have v: "pack_three a b c = 36 * a + 6 * b + c" "pack_four p q r s = 64 * p + 16 * q + 4 * r + s"
    by (simp_all add: pack_three_def pack_four_def encode_three_packed_exec encode_four_packed_exec
        del: One_nat_def)
  have bounds: "0 \<le> a" "a < 6" "0 \<le> b" "b < 6" "0 \<le> c" "c < 6"
    "0 \<le> p" "p < 4" "0 \<le> q" "q < 4" "0 \<le> r" "r < 4" "0 \<le> s" "s < 4"
    using assms by simp_all
  have digit: "0 \<le> lo \<Longrightarrow> lo < k \<Longrightarrow> (k * hi + lo) div k = hi \<and> (k * hi + lo) mod k = lo"
    for k hi lo :: int by simp
  note dv = digit [THEN conjunct1] and md = digit [THEN conjunct2]
  define x where "x = 36 * a + 6 * b + c"
  have x: "x = 36 * a + (6 * b + c)" "x = 6 * (6 * a + b) + c" by (simp_all add: x_def)
  have "x div 36 = a" by (subst x(1), rule dv) (use bounds in linarith)+
  moreover have "x div 6 = 6 * a + b" by (subst x(2), rule dv) (use bounds in linarith)+
  moreover have "x mod 6 = c" by (subst x(2), rule md) (use bounds in linarith)+
  moreover have "(6 * a + b) mod 6 = b" by (rule md) (use bounds in linarith)+
  ultimately have three: "x div 36 mod 6 = a" "x div 6 mod 6 = b" "x mod 6 = c"
    using bounds by simp_all
  define y where "y = 64 * p + 16 * q + 4 * r + s"
  have y: "y = 64 * p + (16 * q + 4 * r + s)" "y = 16 * (4 * p + q) + (4 * r + s)"
    "y = 4 * (4 * (4 * p + q) + r) + s" by (simp_all add: y_def)
  have "y div 64 = p" by (subst y(1), rule dv) (use bounds in linarith)+
  moreover have "y div 16 = 4 * p + q" by (subst y(2), rule dv) (use bounds in linarith)+
  moreover have "y div 4 = 4 * (4 * p + q) + r" by (subst y(3), rule dv) (use bounds in linarith)+
  moreover have "y mod 4 = s" by (subst y(3), rule md) (use bounds in linarith)+
  moreover have "p mod 4 = p" using bounds(7,8) by simp
  moreover have "(4 * p + q) mod 4 = q" by (rule md) (use bounds in linarith)+
  moreover have "(4 * (4 * p + q) + r) mod 4 = r" by (rule md) (use bounds in linarith)+
  ultimately have four: "y div 64 mod 4 = p" "y div 16 mod 4 = q" "y div 4 mod 4 = r" "y mod 4 = s"
    by (simp_all only:)
  have "0 \<le> x" "x < 256" "0 \<le> y" "y < 256" using bounds by (simp_all add: x_def y_def)
  moreover have "map (decode_threepacked x) [0, 1, 2] = [a, b, c]"
    by (simp only: list.map decode_threepacked_exec three)
  moreover have "map (decode_fourpacked y) [0, 1, 2, 3] = [p, q, r, s]"
    by (simp only: list.map decode_fourpacked_exec four)
  moreover have "pack_three a b c = x" "pack_four p q r s = y" by (simp_all only: v x_def y_def)
  ultimately show ?thesis by (simp only: atLeastLessThan_iff simp_thms)
qed

text \<open>
  Three attribute events packed into one vector byte, and four listener events into one,
  are decoded to the same events at the same positions, and the packed value is a byte.
\<close>

theorem packed_events_roundtrip:
  assumes "{a, b, c} \<subseteq> {0..<6}" "{p, q, r, s} \<subseteq> {0..<4}"
  shows "map (decode_threepacked (pack_three a b c)) [0, 1, 2] = [a, b, c] \<and>
         map (decode_fourpacked (pack_four p q r s)) [0, 1, 2, 3] = [p, q, r, s] \<and>
         pack_three a b c \<in> {0..<256} \<and> pack_four p q r s \<in> {0..<256}"
  using assms by (rule packed_digits)

theorem packed_events_roundtrip_witness:
  "map (decode_threepacked (pack_three 5 0 3)) [0, 1, 2] = [5, 0, 3]"
  using packed_events_roundtrip [of 5 0 3 2 2 0 1] by simp

section \<open>What the machines do\<close>

text \<open>
  After a received JoinIn no attribute is ever in a quiet state: because the switch falls
  through, the transition to QA, QO or QP is undone by the Mt transition, and an anxious
  member stays anxious. The 802.1ak table (the first of the three switches) makes it quiet.
\<close>

theorem joinin_never_quiets:
  "mrp_applicant_next MRP_EVENT_RECEIVE_JOININ s \<notin> {MRP_QA, MRP_QO, MRP_QP} \<and>
   applicant_joinin MRP_AA = MRP_QA \<and> mrp_applicant_next MRP_EVENT_RECEIVE_JOININ MRP_AA = MRP_AA"
  by (cases s) simp_all

text \<open>Transmissions of an attribute over a sequence of events at the same time.\<close>

fun mrp_tx_trace :: "u32 \<Rightarrow> mrp_event list \<Rightarrow> mrp_attribute_state \<Rightarrow> int list" where
  "mrp_tx_trace now [] st = []"
| "mrp_tx_trace now (e # es) st =
     (case mrp_attr_tx now e 0 st of Some v \<Rightarrow> [v] | None \<Rightarrow> []) @ mrp_tx_trace now es (mrp_attr_step now e 0 st)"

lemma applicant_attr_step: "at_applicant (mrp_attr_step now e fp st) = mrp_applicant_next e (at_applicant st)"
proof -
  have "at_applicant (mrp_registrar_step now e fp st) = at_applicant st"
    by (cases e) (simp_all add: registrar_new_def registrar_join_def registrar_leave_def
        registrar_flush_def mrp_stop_leave_timer_def Let_def)
  then show ?thesis by (simp add: mrp_attr_step_def Let_def)
qed

lemma tx_trace_quiet:
  "at_applicant st = MRP_QA \<Longrightarrow> mrp_tx_trace now (replicate n MRP_EVENT_TX) st = []"
  by (induction n arbitrary: st) (simp_all add: mrp_attr_tx_def applicant_attr_step)

lemma registrar_tx [simp]: "mrp_registrar_step now MRP_EVENT_TX fp st = st"
  "mrp_registrar_step now MRP_EVENT_NEW fp st = st" "mrp_registrar_step now MRP_EVENT_JOIN fp st = st"
  by simp_all

text \<open>
  C15. A new declaration is transmitted exactly twice as New, a joined one exactly twice as
  JoinIn or JoinMt according to the registrar, and then the attribute stays quiet until
  another event; a withdrawn one is transmitted once as Leave.
\<close>

theorem declaration_transmissions:
  "mrp_tx_trace now (MRP_EVENT_NEW # replicate (n + 2) MRP_EVENT_TX) st =
     [MRP_ATTRIBUTE_EVENT_NEW, MRP_ATTRIBUTE_EVENT_NEW] \<and>
   (at_applicant st = MRP_VO \<longrightarrow>
      mrp_tx_trace now (MRP_EVENT_JOIN # replicate (n + 2) MRP_EVENT_TX) st =
        (if at_registrar st = MRP_IN then [MRP_ATTRIBUTE_EVENT_JOININ, MRP_ATTRIBUTE_EVENT_JOININ]
         else [MRP_ATTRIBUTE_EVENT_JOINMT, MRP_ATTRIBUTE_EVENT_JOINMT])) \<and>
   (at_applicant st = MRP_QA \<longrightarrow>
      mrp_tx_trace now (MRP_EVENT_LV # replicate (n + 1) MRP_EVENT_TX) st = [MRP_ATTRIBUTE_EVENT_LV])"
proof -
  have vo: "at_applicant s = MRP_VO \<Longrightarrow> mrp_tx_trace now (replicate n MRP_EVENT_TX) s = []" for s
    by (induction n arbitrary: s) (simp_all add: mrp_attr_tx_def applicant_attr_step)
  have reg: "at_registrar (mrp_attr_step now e 0 s) = at_registrar s"
    if "e \<in> {MRP_EVENT_TX, MRP_EVENT_JOIN}" for e s
    using that by (auto simp: mrp_attr_step_def Let_def)
  show ?thesis
    by (auto simp: mrp_attr_tx_def applicant_attr_step tx_trace_quiet vo reg)
qed

theorem declaration_transmissions_witness:
  "mrp_tx_trace 0 (MRP_EVENT_JOIN # replicate 5 MRP_EVENT_TX)
     \<lparr>at_type = MVRP_VID_VECTOR, at_applicant = MRP_VO, at_registrar = MRP_MT,
      at_leave_timer = \<lparr>tmr_timeout = 0, tmr_period = 0, tmr_active = 0, timeout_multiplier = 1\<rparr>,
      at_pending = 0, at_four_vector = 0, at_info = VlanInfo 0\<rparr> = [3, 3]"
  using declaration_transmissions [of 0 3] by simp

end
