(* ===== verification/Avb_State.thy ===== *)
theory Avb_State
  imports Mrp_Machine Avb_1722_Common
begin

text \<open>
  The static state that the control code (\<open>module_avb/src/avb.c\<close>) and the reservation protocols
  (\<open>module_avb_srp/src\<close>) share: the stream tables, the channel maps, the MVRP and MMRP entries,
  the attribute array with its sorted order, the buffer of the MRPDU under construction, the
  timers, and what has been sent to the MAC and to the other cores. The number of sources, sinks,
  inputs, outputs, VLAN entries and attributes, which are compile-time constants, are the lengths
  of the lists.
\<close>

datatype avb_stream_state = STATE_DISABLED | STATE_POTENTIAL | STATE_ENABLED

text \<open>
  A pointer to an attribute is its index in \<open>attrs\<close>; the null pointer is an index past the end,
  at which an update changes nothing.
\<close>

record avb_stream_info =
  streamId :: "u32 \<times> u32"
  stream_state :: avb_stream_state
  srp_talker_attr :: nat
  srp_talker_failed_attr :: nat
  srp_listener_attr :: nat
  core_id :: u8
  local_id :: u8
  num_channels :: u8
  stream_format :: u8
  stream_rate :: int
  stream_sync :: u8
  stream_vlan :: u8
  stream_flags :: int

text \<open>
  Source and sink begin with the stream and a channel end, and the six bytes of \<open>dest\<close> and of
  \<open>addr\<close> are at the same offset.
\<close>

record avb_source_info =
  source_stream :: avb_stream_info
  talker_ctl :: nat
  source_dest :: "u8 list"
  presentation :: int
  source_map :: "int list"

record avb_sink_info =
  sink_stream :: avb_stream_info
  listener_ctl :: nat
  sink_addr :: "u8 list"
  sink_map :: "int list"

record media_info =
  media_core_id :: int
  media_clk_ctl :: int
  media_fifo :: u32
  media_local_id :: int
  mapped_to :: int

abbreviation (input) "UNMAPPED \<equiv> -1 :: int"
abbreviation (input) "AVB_CHANNEL_UNMAPPED \<equiv> -1 :: int"

record mvrp_entry =
  mvrp_active :: bool
  mvrp_attr :: nat
  mvrp_vlan :: int

record mmrp_entry =
  mmrp_active :: bool
  mmrp_attr :: nat
  mmrp_addr :: "u8 list"

text \<open>The send buffer and the offset of the end of the MRPDU in it (\<open>send_ptr\<close>).\<close>

record mrp_buf =
  mb_bytes :: "u8 list"
  mb_ptr :: nat

text \<open>
  What leaves the control thread: a frame to the MAC, a word to the channel of a talker or
  listener core, a registration at the media clock server, a mapping sent to the 1722 router, the
  bandwidth of the traffic shaper, the mode of the PTP server.
\<close>

datatype avb_out =
    MacTx "u8 list"
  | ChanOut nat u32
  | MediaClockRegister int u8
  | RouterMapping "u32 \<times> u32" u32 u8
  | SetQavBandwidth u32
  | PtpLegacyMode int

record avb_st =
  av_sources :: "avb_source_info list"
  av_sinks :: "avb_sink_info list"
  av_inputs :: "media_info list"
  av_outputs :: "media_info list"
  av_media_clock_svr :: bool
  av_vlans :: "mvrp_entry list"
  av_groups :: "mmrp_entry list"
  av_attrs :: "mrp_attribute_state list"
  av_order :: "nat list"
  av_domain_attr :: nat
  av_send :: mrp_buf
  av_etype :: u16
  av_legacy_mode :: int
  av_periodic_timer :: avb_timer
  av_join_timer :: avb_timer
  av_leaveall_timer :: avb_timer
  av_leave_all :: int
  av_failed_streamId :: "u32 \<times> u32"
  av_out :: "avb_out list"

section \<open>The state at load time\<close>

text \<open>Static objects start zeroed; \<open>send_ptr\<close> starts behind the ethernet and MRP headers.\<close>

definition zero_timer :: avb_timer where
  "zero_timer = \<lparr>tmr_timeout = 0, tmr_period = 0, tmr_active = 0, timeout_multiplier = 0\<rparr>"

definition zero_attr :: mrp_attribute_state where
  "zero_attr = \<lparr>at_type = MSRP_TALKER_ADVERTISE, at_applicant = MRP_UNUSED, at_registrar = MRP_IN,
     at_leave_timer = zero_timer, at_pending = 0, at_four_vector = 0, at_info = NoInfo\<rparr>"

definition empty_stream :: avb_stream_info where
  "empty_stream = \<lparr>streamId = (0, 0), stream_state = STATE_DISABLED, srp_talker_attr = 0,
     srp_talker_failed_attr = 0, srp_listener_attr = 0, core_id = 0, local_id = 0, num_channels = 0,
     stream_format = 0, stream_rate = 0, stream_sync = 0, stream_vlan = 0, stream_flags = 0\<rparr>"

text \<open>The arguments are the compile-time sizes of the tables.\<close>

definition avb_static :: "nat \<Rightarrow> nat \<Rightarrow> nat \<Rightarrow> nat \<Rightarrow> nat \<Rightarrow> nat \<Rightarrow> nat \<Rightarrow> nat \<Rightarrow> avb_st" where
  "avb_static n_sources n_sinks n_inputs n_outputs n_vlans n_groups n_attrs n_channels =
     \<lparr>av_sources = replicate n_sources \<lparr>source_stream = empty_stream, talker_ctl = 0, source_dest = replicate 6 0,
         presentation = 0, source_map = replicate n_channels 0\<rparr>,
      av_sinks = replicate n_sinks \<lparr>sink_stream = empty_stream, listener_ctl = 0, sink_addr = replicate 6 0,
         sink_map = replicate n_channels 0\<rparr>,
      av_inputs = replicate n_inputs \<lparr>media_core_id = 0, media_clk_ctl = 0, media_fifo = 0, media_local_id = 0, mapped_to = 0\<rparr>,
      av_outputs = replicate n_outputs \<lparr>media_core_id = 0, media_clk_ctl = 0, media_fifo = 0, media_local_id = 0, mapped_to = 0\<rparr>,
      av_media_clock_svr = False,
      av_vlans = replicate n_vlans \<lparr>mvrp_active = False, mvrp_attr = 0, mvrp_vlan = 0\<rparr>,
      av_groups = replicate n_groups \<lparr>mmrp_active = False, mmrp_attr = 0, mmrp_addr = replicate 6 0\<rparr>,
      av_attrs = replicate n_attrs zero_attr,
      av_order = [0..<n_attrs],
      av_domain_attr = 0,
      av_send = \<lparr>mb_bytes = replicate 500 0, mb_ptr = 15\<rparr>,
      av_etype = 0, av_legacy_mode = 0,
      av_periodic_timer = zero_timer, av_join_timer = zero_timer, av_leaveall_timer = zero_timer,
      av_leave_all = 0, av_failed_streamId = (0, 0), av_out = []\<rparr>"

section \<open>Accessors\<close>

definition emit :: "avb_out \<Rightarrow> avb_st \<Rightarrow> avb_st" where
  "emit x st = st\<lparr>av_out := av_out st @ [x]\<rparr>"

definition update_attr :: "nat \<Rightarrow> (mrp_attribute_state \<Rightarrow> mrp_attribute_state) \<Rightarrow> avb_st \<Rightarrow> avb_st" where
  "update_attr j f st = st\<lparr>av_attrs := modify_nth j f (av_attrs st)\<rparr>"

definition update_source :: "nat \<Rightarrow> (avb_source_info \<Rightarrow> avb_source_info) \<Rightarrow> avb_st \<Rightarrow> avb_st" where
  "update_source i f st = st\<lparr>av_sources := modify_nth i f (av_sources st)\<rparr>"

definition update_sink :: "nat \<Rightarrow> (avb_sink_info \<Rightarrow> avb_sink_info) \<Rightarrow> avb_st \<Rightarrow> avb_st" where
  "update_sink i f st = st\<lparr>av_sinks := modify_nth i f (av_sinks st)\<rparr>"

definition mrp_max_attrs :: "avb_st \<Rightarrow> nat" where
  "mrp_max_attrs st = length (av_attrs st)"

text \<open>
  The casts of the attribute info pointer: \<open>info_stream\<close> is the \<open>avb_stream_info_t\<close> a source or sink
  starts with, \<open>info_dest\<close> the six bytes at the offset of \<open>dest\<close>. The code only applies them to
  attributes whose info is a source or a sink; elsewhere the value below stands for garbage.
\<close>

fun info_stream :: "avb_st \<Rightarrow> mrp_info \<Rightarrow> avb_stream_info" where
  "info_stream st (SourceInfo i) = source_stream (av_sources st ! i)"
| "info_stream st (SinkInfo i) = sink_stream (av_sinks st ! i)"
| "info_stream st _ = empty_stream"

fun info_dest :: "avb_st \<Rightarrow> mrp_info \<Rightarrow> u8 list" where
  "info_dest st (SourceInfo i) = source_dest (av_sources st ! i)"
| "info_dest st (SinkInfo i) = sink_addr (av_sinks st ! i)"
| "info_dest st _ = replicate 6 0"

fun info_vlan :: "avb_st \<Rightarrow> mrp_info \<Rightarrow> int" where
  "info_vlan st (VlanInfo i) = mvrp_vlan (av_vlans st ! i)"
| "info_vlan st _ = 0"

fun info_addr :: "avb_st \<Rightarrow> mrp_info \<Rightarrow> u8 list" where
  "info_addr st (GroupInfo i) = mmrp_addr (av_groups st ! i)"
| "info_addr st _ = replicate 6 0"

text \<open>A big-endian number read from bytes, as the loops \<open>x = (x << 8) + b\<close> compute it.\<close>

definition be64 :: "u8 list \<Rightarrow> u64" where
  "be64 bs = fold (\<lambda>b x. push_bit 8 x + ucast b) bs 0"

definition stream_id64 :: "u32 \<times> u32 \<Rightarrow> u64" where
  "stream_id64 s = push_bit 32 (ucast (fst s)) + ucast (snd s)"

lemma update_attr_fields [simp]:
  "av_sources (update_attr j f st) = av_sources st" "av_sinks (update_attr j f st) = av_sinks st"
  "av_vlans (update_attr j f st) = av_vlans st" "av_groups (update_attr j f st) = av_groups st"
  "av_order (update_attr j f st) = av_order st" "av_send (update_attr j f st) = av_send st"
  "av_out (update_attr j f st) = av_out st" "av_etype (update_attr j f st) = av_etype st"
  "av_attrs (update_attr j f st) = modify_nth j f (av_attrs st)"
  by (simp_all add: update_attr_def)

lemma emit_fields [simp]:
  "av_sources (emit x st) = av_sources st" "av_sinks (emit x st) = av_sinks st"
  "av_vlans (emit x st) = av_vlans st" "av_groups (emit x st) = av_groups st"
  "av_order (emit x st) = av_order st" "av_send (emit x st) = av_send st"
  "av_attrs (emit x st) = av_attrs st" "av_etype (emit x st) = av_etype st"
  "av_inputs (emit x st) = av_inputs st" "av_outputs (emit x st) = av_outputs st"
  "av_out (emit x st) = av_out st @ [x]"
  by (simp_all add: emit_def)

end
