(* ===== verification/Mrp_Pdu.thy ===== *)
theory Mrp_Pdu
  imports Avb_State
begin

text \<open>
  The MRPDU under construction (\<open>module_avb_srp/src/avb_mrp.c\<close>, \<open>avb_mrp_pdu.h\<close>). A message at
  offset \<open>p\<close> of the send buffer has its attribute type at \<open>p\<close>, the length of a first value at
  \<open>p + 1\<close>, the attribute list length at \<open>p + 2\<close>, the vector header at \<open>p + 4\<close> (leave-all event and
  number of values), the first value at \<open>p + 6\<close>, then the vector bytes and the end mark.
  Every store goes through \<open>put_bytes\<close>, which lengthens the list when it writes past the end: that
  the list keeps the length \<open>MRP_SEND_BUFFER_SIZE\<close> is the statement that no store leaves the array.
\<close>

abbreviation (input) "MRP_SEND_BUFFER_SIZE \<equiv> 500 :: nat"
abbreviation (input) "MAX_MRP_MSG_SIZE \<equiv> 32 :: nat"

text \<open>Sizes of \<open>mrp_ethernet_hdr\<close> plus \<open>mrp_header\<close>, and of \<open>mrp_msg_header\<close>, \<open>mrp_vector_header\<close>.\<close>

abbreviation (input) "MRP_START \<equiv> 15 :: nat"

definition AVB_SRP_ETHERTYPE :: u16 where "AVB_SRP_ETHERTYPE = 0x22ea"
definition AVB_MMRP_ETHERTYPE :: u16 where "AVB_MMRP_ETHERTYPE = 0x88f6"
definition AVB_MVRP_ETHERTYPE :: u16 where "AVB_MVRP_ETHERTYPE = 0x88f5"

definition srp_dest_mac :: "u8 list" where "srp_dest_mac = [0x01, 0x80, 0xc2, 0x00, 0x00, 0x0e]"
definition mmrp_dest_mac :: "u8 list" where "mmrp_dest_mac = [0x01, 0x80, 0xc2, 0x00, 0x00, 0x20]"
definition mvrp_dest_mac :: "u8 list" where "mvrp_dest_mac = [0x01, 0x80, 0xc2, 0x00, 0x00, 0x21]"

fun first_value_lengths :: "mrp_attribute_type \<Rightarrow> nat" where
  "first_value_lengths MSRP_TALKER_ADVERTISE = 25"
| "first_value_lengths MSRP_TALKER_FAILED = 34"
| "first_value_lengths MSRP_LISTENER = 8"
| "first_value_lengths MSRP_DOMAIN_VECTOR = 4"
| "first_value_lengths MMRP_MAC_VECTOR = 6"
| "first_value_lengths MVRP_VID_VECTOR = 2"

fun encode_attr_type :: "mrp_attribute_type \<Rightarrow> u8" where
  "encode_attr_type MSRP_TALKER_ADVERTISE = 1"
| "encode_attr_type MSRP_TALKER_FAILED = 2"
| "encode_attr_type MSRP_LISTENER = 3"
| "encode_attr_type MSRP_DOMAIN_VECTOR = 4"
| "encode_attr_type MMRP_MAC_VECTOR = 2"
| "encode_attr_type MVRP_VID_VECTOR = 1"

definition decode_attr_type :: "u16 \<Rightarrow> u8 \<Rightarrow> mrp_attribute_type option" where
  "decode_attr_type etype atype =
     (if etype = AVB_SRP_ETHERTYPE
      then if atype = 1 then Some MSRP_TALKER_ADVERTISE
           else if atype = 2 then Some MSRP_TALKER_FAILED
           else if atype = 3 then Some MSRP_LISTENER
           else if atype = 4 then Some MSRP_DOMAIN_VECTOR
           else None
      else if etype = AVB_MMRP_ETHERTYPE
      then if atype = 2 then Some MMRP_MAC_VECTOR else None
      else if etype = AVB_MVRP_ETHERTYPE
      then if atype = 1 then Some MVRP_VID_VECTOR else None
      else None)"

definition has_fourpacked_events :: "mrp_attribute_type \<Rightarrow> bool" where
  "has_fourpacked_events attr \<longleftrightarrow> attr = MSRP_LISTENER"

text \<open>The protocol that carries an attribute type.\<close>

definition attr_etype :: "mrp_attribute_type \<Rightarrow> u16" where
  "attr_etype t = (if t = MMRP_MAC_VECTOR then AVB_MMRP_ETHERTYPE
     else if t = MVRP_VID_VECTOR then AVB_MVRP_ETHERTYPE else AVB_SRP_ETHERTYPE)"

section \<open>Stores and block moves\<close>

definition mb_put :: "nat \<Rightarrow> u8 list \<Rightarrow> mrp_buf \<Rightarrow> mrp_buf" where
  "mb_put off bs mb = mb\<lparr>mb_bytes := put_bytes off bs (mb_bytes mb)\<rparr>"

definition memmove :: "nat \<Rightarrow> nat \<Rightarrow> nat \<Rightarrow> u8 list \<Rightarrow> u8 list" where
  "memmove dst src n buf = put_bytes dst (get_bytes src n buf) buf"

definition attribute_length_length :: "u8 list \<Rightarrow> nat \<Rightarrow> nat" where
  "attribute_length_length buf p = 256 * unat (buf ! (p + 2)) + unat (buf ! (p + 3))"

text \<open>Neither of the two first bytes of a message is the end mark.\<close>

definition msg_here :: "u8 list \<Rightarrow> nat \<Rightarrow> bool" where
  "msg_here buf p \<longleftrightarrow> buf ! p \<noteq> 0 \<or> buf ! (p + 1) \<noteq> 0"

definition configure_send_buffer :: "u8 list \<Rightarrow> u16 \<Rightarrow> avb_st \<Rightarrow> avb_st" where
  "configure_send_buffer addr etype st =
     st\<lparr>av_send := mb_put 12 [ucast (drop_bit 8 etype), ucast (etype AND 0xff)]
                     (mb_put 0 addr (av_send st)),
        av_etype := etype\<rparr>"

definition avb_mrp_set_legacy_mode :: "int \<Rightarrow> avb_st \<Rightarrow> avb_st" where
  "avb_mrp_set_legacy_mode mode st = st\<lparr>av_legacy_mode := 1\<rparr>"

section \<open>Removing the list length fields\<close>

text \<open>
  One iteration moves everything from \<open>p + 4\<close> up to \<open>e\<close> down by two bytes; the next message is
  then two bytes nearer.
\<close>

function strip_loop :: "u8 list \<Rightarrow> nat \<Rightarrow> nat \<Rightarrow> u8 list \<times> nat" where
  "strip_loop buf p e =
     (if p < e \<and> msg_here buf p
      then strip_loop (memmove (p + 2) (p + 4) (e - 2 - (p + 2)) buf)
             (p + 4 + attribute_length_length buf p - 2) (e - 2)
      else (buf, e))"
  by pat_completeness auto
termination by (relation "measure (\<lambda>(buf, p, e). e - p)") auto

declare strip_loop.simps [simp del]

definition strip_attribute_list_length_fields :: "u16 \<Rightarrow> mrp_buf \<Rightarrow> mrp_buf" where
  "strip_attribute_list_length_fields etype mb =
     (if etype \<noteq> AVB_SRP_ETHERTYPE
      then let (buf, e) = strip_loop (mb_bytes mb) MRP_START (mb_ptr mb)
           in mb\<lparr>mb_bytes := buf, mb_ptr := e\<rparr>
      else mb)"

text \<open>
  \<open>force_send\<close> pads after the end the MRPDU had before the length fields were removed, to at least
  64 bytes and by at least 4, and hands the frame to the MAC.
\<close>

definition force_send :: "avb_st \<Rightarrow> avb_st" where
  "force_send st =
     (let ptr = mb_ptr (av_send st);
          mb = strip_attribute_list_length_fields (av_etype st) (av_send st);
          e = (if ptr + 4 < 64 then 64 else ptr + 4);
          mb' = mb_put ptr (replicate (e - ptr) 0) mb
      in if ptr \<noteq> MRP_START
         then emit (MacTx (take e (mb_bytes mb'))) (st\<lparr>av_send := mb'\<lparr>mb_ptr := MRP_START\<rparr>\<rparr>)
         else st\<lparr>av_send := mb\<lparr>mb_ptr := MRP_START\<rparr>\<rparr>)"

definition mrp_send :: "avb_st \<Rightarrow> avb_st" where
  "mrp_send st =
     (if MRP_SEND_BUFFER_SIZE < mb_ptr (av_send st) + MAX_MRP_MSG_SIZE + 2 then force_send st else st)"

section \<open>Adding an event to a vector\<close>

text \<open>
  A new vector byte at \<open>v\<close>: what follows moves up by one, the list length of the message at \<open>p\<close>
  grows and its end mark is written again.
\<close>

definition mrp_insert_vector_byte :: "nat \<Rightarrow> nat \<Rightarrow> mrp_buf \<Rightarrow> mrp_buf" where
  "mrp_insert_vector_byte p v mb =
     (let b = mb_bytes mb;
          len = attribute_length_length b p + 1;
          b1 = (if v < mb_ptr mb then memmove (v + 1) v (mb_ptr mb - v) b else b);
          b2 = put_bytes v [0] b1;
          b3 = put_bytes (p + 2) (hton_16 (of_nat len)) b2;
          b4 = put_bytes (p + 4 + len - 2) [0, 0] b3
      in mb\<lparr>mb_bytes := b4, mb_ptr := mb_ptr mb + 1\<rparr>)"

definition mrp_encode_three_packed_event :: "nat \<Rightarrow> int \<Rightarrow> mrp_attribute_type \<Rightarrow> mrp_buf \<Rightarrow> mrp_buf" where
  "mrp_encode_three_packed_event p event attr mb =
     (let num_values = unat (mb_bytes mb ! (p + 5));
          v = p + 6 + first_value_lengths attr + num_values div 3;
          mb1 = (if num_values mod 3 = 0 then mrp_insert_vector_byte p v mb else mb)
      in mb_put v [word_of_int (encode_three_packed event (num_values mod 3) (uint (mb_bytes mb1 ! v)))] mb1)"

definition mrp_encode_four_packed_event :: "nat \<Rightarrow> int \<Rightarrow> mrp_attribute_type \<Rightarrow> mrp_buf \<Rightarrow> mrp_buf" where
  "mrp_encode_four_packed_event p event attr mb =
     (let num_values = unat (mb_bytes mb ! (p + 5));
          v = p + 6 + first_value_lengths attr + (num_values + 3) div 3 + num_values div 4;
          mb1 = (if num_values mod 4 = 0 then mrp_insert_vector_byte p v mb else mb)
      in mb_put v [word_of_int (encode_four_packed event (num_values mod 4) (uint (mb_bytes mb1 ! v)))] mb1)"

text \<open>A message with no values at the end of the PDU, with the leave-all event or without.\<close>

definition create_empty_msg :: "mrp_attribute_type \<Rightarrow> u8 \<Rightarrow> mrp_buf \<Rightarrow> mrp_buf" where
  "create_empty_msg attr leave_all mb =
     (let p = mb_ptr mb;
          fvl = first_value_lengths attr;
          list_length = fvl + 2 + 2;
          msg_length = 4 + list_length
      in (mb_put (p + 4) [push_bit 5 leave_all, 0]
           (mb_put (p + 2) (hton_16 (of_nat list_length))
             (mb_put p [encode_attr_type attr, of_nat fvl]
               (mb_put p (replicate msg_length 0) mb))))\<lparr>mb_ptr := p + msg_length\<rparr>)"

end
