(* ===== verification/Mrp_Merge.thy ===== *)
theory Mrp_Merge
  imports Mrp_Pdu "HOL-Library.Signed_Division"
begin

text \<open>
  The attribute-specific code of the reservation protocols: how an attribute is written into a
  message of the MRPDU under construction, or merged into one that is there already, and how a
  received value is matched with an attribute
  (\<open>avb_srp.c\<close>, \<open>avb_mvrp.c\<close>, \<open>avb_mmrp.c\<close> of \<open>module_avb_srp/src\<close>). A merge function returns
  whether the message at \<open>p\<close> took the attribute, and the buffer.
\<close>

section \<open>Stream reservation: talker advertise\<close>

abbreviation (input) "AVB1722_PACKET_RATE \<equiv> 8000 :: int"

definition avb_srp_calculate_max_framesize :: "avb_stream_info \<Rightarrow> u32" where
  "avb_srp_calculate_max_framesize s =
     32 + ucast (num_channels s) *
       word_of_int ((stream_rate s + (AVB1722_PACKET_RATE - 1)) sdiv AVB1722_PACKET_RATE) * 4"

definition set_num_values :: "nat \<Rightarrow> nat \<Rightarrow> mrp_buf \<Rightarrow> mrp_buf" where
  "set_num_values p n mb = mb_put (p + 5) [of_nat n] mb"

definition check_talker_merge :: "avb_stream_info \<Rightarrow> u8 list \<Rightarrow> nat \<Rightarrow> u8 list \<Rightarrow> bool" where
  "check_talker_merge s dest p b =
     (let n = of_nat (unat (b ! (p + 5))); f = p + 6
      in be64 (get_bytes (f + 8) 6 b) + n = be64 (take 6 dest) \<and>
         stream_id64 (streamId s) = be64 (get_bytes f 8 b) + n \<and>
         ntoh_16 (get_bytes (f + 14) 2 b) = ucast (stream_vlan s) \<and>
         ucast (ntoh_16 (get_bytes (f + 16) 2 b)) = avb_srp_calculate_max_framesize s)"

definition write_talker_first_value :: "avb_stream_info \<Rightarrow> u8 list \<Rightarrow> nat \<Rightarrow> mrp_buf \<Rightarrow> mrp_buf" where
  "write_talker_first_value s dest f mb =
     mb\<lparr>mb_bytes := put_fields
       [(f + 8, take 6 dest),
        (f, hton_32 (fst (streamId s))), (f + 4, hton_32 (snd (streamId s))),
        (f + 14, hton_16 (ucast (stream_vlan s))),
        (f + 20, [0x70]),
        (f + 16, hton_16 (ucast (avb_srp_calculate_max_framesize s))),
        (f + 18, hton_16 1),
        (f + 21, hton_32 150000)] (mb_bytes mb)\<rparr>"

definition merge_talker_message ::
  "avb_st \<Rightarrow> mrp_attribute_state \<Rightarrow> nat \<Rightarrow> int \<Rightarrow> mrp_buf \<Rightarrow> bool \<times> mrp_buf" where
  "merge_talker_message st a p vector mb =
     (let b = mb_bytes mb; n = unat (b ! (p + 5));
          s = info_stream st (at_info a); dest = info_dest st (at_info a)
      in if b ! p \<noteq> encode_attr_type MSRP_TALKER_ADVERTISE then (False, mb)
         else if n = 0 \<or> check_talker_merge s dest p b
         then (True, set_num_values p (n + 1)
                 (mrp_encode_three_packed_event p vector (at_type a)
                   (if n = 0 then write_talker_first_value s dest (p + 6) mb else mb)))
         else (False, mb))"

section \<open>Stream reservation: listener and domain\<close>

abbreviation (input) "AVB_SRP_FOUR_PACKED_EVENT_READY \<equiv> 2 :: int"
abbreviation (input) "AVB_SRP_FOUR_PACKED_EVENT_READY_FAILED \<equiv> 3 :: int"

definition check_listener_merge :: "avb_stream_info \<Rightarrow> nat \<Rightarrow> u8 list \<Rightarrow> bool" where
  "check_listener_merge s p b \<longleftrightarrow>
     stream_id64 (streamId s) = be64 (get_bytes (p + 6) 8 b) + of_nat (unat (b ! (p + 5)))"

definition write_listener_first_value :: "avb_stream_info \<Rightarrow> nat \<Rightarrow> mrp_buf \<Rightarrow> mrp_buf" where
  "write_listener_first_value s f mb =
     mb\<lparr>mb_bytes := put_fields
       [(f, hton_32 (fst (streamId s))), (f + 4, hton_32 (snd (streamId s)))] (mb_bytes mb)\<rparr>"

definition merge_listener_message ::
  "avb_st \<Rightarrow> mrp_attribute_state \<Rightarrow> nat \<Rightarrow> int \<Rightarrow> mrp_buf \<Rightarrow> bool \<times> mrp_buf" where
  "merge_listener_message st a p vector mb =
     (let b = mb_bytes mb; n = unat (b ! (p + 5)); s = info_stream st (at_info a)
      in if b ! p \<noteq> encode_attr_type MSRP_LISTENER then (False, mb)
         else if n = 0 \<or> check_listener_merge s p b
         then (True, set_num_values p (n + 1)
                 (mrp_encode_four_packed_event p AVB_SRP_FOUR_PACKED_EVENT_READY (at_type a)
                   (mrp_encode_three_packed_event p vector (at_type a)
                     (if n = 0 then write_listener_first_value s (p + 6) mb else mb))))
         else (False, mb))"

definition check_domain_merge :: "u8 list \<Rightarrow> bool" where
  "check_domain_merge b \<longleftrightarrow> False"

definition merge_domain_message ::
  "avb_st \<Rightarrow> mrp_attribute_state \<Rightarrow> nat \<Rightarrow> int \<Rightarrow> mrp_buf \<Rightarrow> bool \<times> mrp_buf" where
  "merge_domain_message st a p vector mb =
     (let b = mb_bytes mb; n = unat (b ! (p + 5))
      in if b ! p \<noteq> encode_attr_type MSRP_DOMAIN_VECTOR then (False, mb)
         else if n = 0 \<or> check_domain_merge b
         then (True, set_num_values p (n + 1)
                 (mrp_encode_three_packed_event p vector (at_type a) (mb_put (p + 6) [6, 3, 0, 2] mb)))
         else (False, mb))"

definition avb_srp_merge_message ::
  "avb_st \<Rightarrow> mrp_attribute_state \<Rightarrow> nat \<Rightarrow> int \<Rightarrow> mrp_buf \<Rightarrow> bool \<times> mrp_buf" where
  "avb_srp_merge_message st a p vector mb =
     (case at_type a of
        MSRP_TALKER_ADVERTISE \<Rightarrow> merge_talker_message st a p vector mb
      | MSRP_LISTENER \<Rightarrow> merge_listener_message st a p vector mb
      | MSRP_DOMAIN_VECTOR \<Rightarrow> merge_domain_message st a p vector mb
      | _ \<Rightarrow> (False, mb))"

section \<open>VLANs and multicast groups\<close>

definition avb_mvrp_merge_message ::
  "avb_st \<Rightarrow> mrp_attribute_state \<Rightarrow> nat \<Rightarrow> int \<Rightarrow> mrp_buf \<Rightarrow> bool \<times> mrp_buf" where
  "avb_mvrp_merge_message st a p vector mb =
     (let b = mb_bytes mb; n = unat (b ! (p + 5)); vlan = info_vlan st (at_info a)
      in if b ! p \<noteq> encode_attr_type MVRP_VID_VECTOR then (False, mb)
         else if n = 0
         then (True, set_num_values p (n + 1)
                 (mrp_encode_three_packed_event p vector (at_type a)
                   (mb_put (p + 6) [word_of_int (vlan div 256), word_of_int vlan] mb)))
         else (False, mb))"

definition avb_mmrp_merge_message ::
  "avb_st \<Rightarrow> mrp_attribute_state \<Rightarrow> nat \<Rightarrow> int \<Rightarrow> mrp_buf \<Rightarrow> bool \<times> mrp_buf" where
  "avb_mmrp_merge_message st a p vector mb =
     (let b = mb_bytes mb; n = unat (b ! (p + 5))
      in if b ! p \<noteq> encode_attr_type MMRP_MAC_VECTOR then (False, mb)
         else if n = 0
         then (True, set_num_values p (n + 1)
                 (mrp_encode_three_packed_event p vector (at_type a)
                   (mb_put (p + 6) (take 6 (info_addr st (at_info a))) mb)))
         else (False, mb))"

definition merge_msg ::
  "avb_st \<Rightarrow> mrp_attribute_state \<Rightarrow> nat \<Rightarrow> int \<Rightarrow> mrp_buf \<Rightarrow> bool \<times> mrp_buf" where
  "merge_msg st a p vector mb =
     (case at_type a of
        MMRP_MAC_VECTOR \<Rightarrow> avb_mmrp_merge_message st a p vector mb
      | MVRP_VID_VECTOR \<Rightarrow> avb_mvrp_merge_message st a p vector mb
      | _ \<Rightarrow> avb_srp_merge_message st a p vector mb)"

section \<open>Matching a received value\<close>

text \<open>\<open>fv\<close> is the received first value and what follows it, \<open>i\<close> the index in the vector.\<close>

definition avb_srp_match_talker_failed :: "avb_st \<Rightarrow> mrp_attribute_state \<Rightarrow> u8 list \<Rightarrow> nat \<Rightarrow> bool" where
  "avb_srp_match_talker_failed st a fv i \<longleftrightarrow> False"

definition avb_srp_match_talker_advertise :: "avb_st \<Rightarrow> mrp_attribute_state \<Rightarrow> u8 list \<Rightarrow> nat \<Rightarrow> bool" where
  "avb_srp_match_talker_advertise st a fv i \<longleftrightarrow>
     stream_id64 (streamId (info_stream st (at_info a))) = be64 (take 8 fv) + of_nat i"

definition avb_srp_match_listener ::
  "avb_st \<Rightarrow> mrp_attribute_state \<Rightarrow> u8 list \<Rightarrow> nat \<Rightarrow> int \<Rightarrow> bool" where
  "avb_srp_match_listener st a fv i four_packed_event \<longleftrightarrow>
     four_packed_event = AVB_SRP_FOUR_PACKED_EVENT_READY \<and>
     stream_id64 (streamId (info_stream st (at_info a))) = be64 (take 8 fv) + of_nat i"

definition avb_srp_match_domain :: "avb_st \<Rightarrow> mrp_attribute_state \<Rightarrow> u8 list \<Rightarrow> nat \<Rightarrow> bool" where
  "avb_srp_match_domain st a fv i \<longleftrightarrow> False"

definition avb_mvrp_match_vid_vector :: "avb_st \<Rightarrow> mrp_attribute_state \<Rightarrow> u8 list \<Rightarrow> nat \<Rightarrow> bool" where
  "avb_mvrp_match_vid_vector st a fv i \<longleftrightarrow>
     256 * uint (fv ! 0) + uint (fv ! 1) + int i = info_vlan st (at_info a)"

definition avb_mmrp_match_mac_vector :: "avb_st \<Rightarrow> mrp_attribute_state \<Rightarrow> u8 list \<Rightarrow> nat \<Rightarrow> bool" where
  "avb_mmrp_match_mac_vector st a fv i \<longleftrightarrow>
     be64 (take 6 fv) + of_nat i = be64 (take 6 (info_addr st (at_info a)))"

definition msg_match ::
  "avb_st \<Rightarrow> mrp_attribute_type \<Rightarrow> mrp_attribute_state \<Rightarrow> u8 list \<Rightarrow> nat \<Rightarrow> int \<Rightarrow> int \<Rightarrow> bool" where
  "msg_match st attr_type a fv i three_packed_event four_packed_event =
     (if at_applicant a = MRP_UNUSED \<or> at_applicant a = MRP_DISABLED then False
      else if at_type a \<noteq> attr_type then False
      else case attr_type of
        MSRP_TALKER_ADVERTISE \<Rightarrow> avb_srp_match_talker_advertise st a fv i
      | MSRP_TALKER_FAILED \<Rightarrow> avb_srp_match_talker_failed st a fv i
      | MSRP_LISTENER \<Rightarrow> avb_srp_match_listener st a fv i four_packed_event
      | MSRP_DOMAIN_VECTOR \<Rightarrow> avb_srp_match_domain st a fv i
      | MMRP_MAC_VECTOR \<Rightarrow> avb_mmrp_match_mac_vector st a fv i
      | MVRP_VID_VECTOR \<Rightarrow> avb_mvrp_match_vid_vector st a fv i)"

definition avb_srp_process_talker :: "mrp_attribute_type \<Rightarrow> u8 list \<Rightarrow> nat \<Rightarrow> avb_st \<Rightarrow> avb_st" where
  "avb_srp_process_talker attr_type fv num st =
     (let sid = be64 (take 8 fv) + of_nat num
      in st\<lparr>av_failed_streamId := (ucast (drop_bit 32 sid), ucast sid)\<rparr>)"

definition mrp_process ::
  "mrp_attribute_type \<Rightarrow> u8 list \<Rightarrow> nat \<Rightarrow> int \<Rightarrow> int \<Rightarrow> avb_st \<Rightarrow> avb_st" where
  "mrp_process attr_type fv i three_packed_event four_packed_event st =
     (if attr_type = MSRP_TALKER_ADVERTISE \<or> attr_type = MSRP_TALKER_FAILED
      then avb_srp_process_talker attr_type fv i st else st)"

definition avb_srp_get_failed_stream :: "avb_st \<Rightarrow> u32 \<times> u32" where
  "avb_srp_get_failed_stream st = av_failed_streamId st"

section \<open>Order of the attributes\<close>

definition avb_srp_compare_talker_attributes ::
  "avb_st \<Rightarrow> mrp_attribute_state \<Rightarrow> mrp_attribute_state \<Rightarrow> bool" where
  "avb_srp_compare_talker_attributes st a b \<longleftrightarrow>
     local_id (info_stream st (at_info a)) < local_id (info_stream st (at_info b))"

definition avb_srp_compare_listener_attributes ::
  "avb_st \<Rightarrow> mrp_attribute_state \<Rightarrow> mrp_attribute_state \<Rightarrow> bool" where
  "avb_srp_compare_listener_attributes st a b \<longleftrightarrow>
     (let x = streamId (info_stream st (at_info a)); y = streamId (info_stream st (at_info b))
      in if fst x < fst y then True else if fst y < fst x then False
         else if snd x < snd y then True else False)"

end
