(* ===== verification/Mrp_Sort.thy ===== *)
theory Mrp_Sort
  imports Avb_Prelude "HOL-Library.Multiset"
begin

text \<open>
  The reordering of the attribute list, \<open>sort_attrs\<close> of \<open>avb_mrp.c\<close>. The C code relinks the
  \<open>next\<close> pointers of the list that starts at \<open>first_attr\<close>; here the list is the sequence of
  the linked elements and \<open>before\<close> is \<open>compare_attr\<close>.
\<close>

text \<open>
  The first pass unlinks every element that is not before its successor and pushes it on the
  list \<open>to_insert\<close>, so the element unlinked last comes first.
\<close>

fun sort_unlink :: "('a \<Rightarrow> 'a \<Rightarrow> bool) \<Rightarrow> 'a list \<Rightarrow> 'a list \<times> 'a list" where
  "sort_unlink before [] = ([], [])"
| "sort_unlink before [x] = ([x], [])"
| "sort_unlink before (x # y # rest) =
     (let (kept, to_insert) = sort_unlink before (y # rest)
      in if \<not> before x y then (kept, to_insert @ [x]) else (x # kept, to_insert))"

text \<open>
  The second pass links each of them in again: in front of the first element, or after the
  first element that is before it and whose successor it is before, or at the end.
\<close>

fun sort_link_after :: "('a \<Rightarrow> 'a \<Rightarrow> bool) \<Rightarrow> 'a \<Rightarrow> 'a list \<Rightarrow> 'a list" where
  "sort_link_after before a [] = [a]"
| "sort_link_after before a [i] = [i, a]"
| "sort_link_after before a (i # j # rest) =
     (if before i a \<and> before a j then i # a # j # rest
      else i # sort_link_after before a (j # rest))"

definition sort_link :: "('a \<Rightarrow> 'a \<Rightarrow> bool) \<Rightarrow> 'a \<Rightarrow> 'a list \<Rightarrow> 'a list" where
  "sort_link before a l =
     (if l \<noteq> [] \<and> before a (hd l) then a # l else sort_link_after before a l)"

definition sort_attrs :: "('a \<Rightarrow> 'a \<Rightarrow> bool) \<Rightarrow> 'a list \<Rightarrow> 'a list" where
  "sort_attrs before l =
     (let (kept, to_insert) = sort_unlink before l in fold (sort_link before) to_insert kept)"

lemma mset_sort_unlink: "mset (fst (sort_unlink before l)) + mset (snd (sort_unlink before l)) = mset l"
  by (induction before l rule: sort_unlink.induct) (simp_all add: Let_def case_prod_unfold)

lemma mset_sort_link_after: "mset (sort_link_after before a l) = add_mset a (mset l)"
  by (induction before a l rule: sort_link_after.induct) simp_all

lemma mset_sort_link: "mset (sort_link before a l) = add_mset a (mset l)"
  by (simp add: sort_link_def mset_sort_link_after)

lemma mset_fold_sort_link: "mset (fold (sort_link before) xs l) = mset xs + mset l"
  by (induction xs arbitrary: l) (simp_all add: mset_sort_link)

lemma mset_sort_attrs: "mset (sort_attrs before l) = mset l"
  using mset_sort_unlink [of before l]
  by (simp add: sort_attrs_def case_prod_unfold mset_fold_sort_link add.commute Let_def)

lemma set_sort_attrs [simp]: "set (sort_attrs before l) = set l"
  using mset_sort_attrs by (metis set_mset_mset)

lemma distinct_sort_attrs [simp]: "distinct (sort_attrs before l) = distinct l"
  by (metis mset_sort_attrs mset_eq_imp_distinct_iff)

lemma sort_unlink_sorted: "successively before l \<Longrightarrow> sort_unlink before l = (l, [])"
  by (induction before l rule: sort_unlink.induct) simp_all

lemma sort_attrs_ordered: "successively before l \<Longrightarrow> sort_attrs before l = l"
  by (simp add: sort_attrs_def sort_unlink_sorted)

text \<open>
  The reordering permutes the attribute list: no attribute is lost or duplicated, and a
  list that is in order already stays as it is.
\<close>

theorem sort_attrs_permutes:
  "mset (sort_attrs before l) = mset l \<and> (successively before l \<longrightarrow> sort_attrs before l = l)"
  by (intro conjI impI mset_sort_attrs sort_attrs_ordered)

theorem sort_attrs_permutes_witness:
  "mset (sort_attrs (<) [3, 1, 2::nat]) = {#1, 2, 3#}"
  using sort_attrs_permutes [of "(<)" "[3, 1, 2::nat]"] by simp

text \<open>
  It is not a sort: after an element is unlinked, its predecessor is not compared with the
  element that follows now, so a list with two descending runs comes out unordered.
\<close>

theorem sort_attrs_not_sorting:
  "sort_attrs (<) [3, 4, 1, 2::nat] = [3, 1, 2, 4] \<and> \<not> sorted (sort_attrs (<) [3, 4, 1, 2::nat])"
  by (simp add: sort_attrs_def sort_link_def)

end
