(* ===== verification/Mrp.thy ===== *)
theory Mrp
  imports Mrp_Merge Mrp_Sort
begin

text \<open>
  The core of the Multiple Registration Protocol (\<open>avb_mrp.c\<close>): transmission of an attribute into
  the MRPDU under construction, events on attributes, the service primitives of 802.1ak, the
  attribute array and its sorted order.
\<close>

section \<open>Transmission\<close>

text \<open>
  The search of \<open>doTx\<close> for a message that takes the attribute: result, offset at which the loop
  stopped, and buffer. \<open>e\<close> is the end of the MRPDU before the search.
\<close>

function doTx_loop ::
  "avb_st \<Rightarrow> mrp_attribute_state \<Rightarrow> int \<Rightarrow> nat \<Rightarrow> nat \<Rightarrow> mrp_buf \<Rightarrow> bool \<times> nat \<times> mrp_buf" where
  "doTx_loop st a vector e msg mb =
     (if msg < e \<and> msg_here (mb_bytes mb) msg
      then let (merged, mb') = merge_msg st a msg vector mb;
               next = msg + 4 + attribute_length_length (mb_bytes mb') msg
           in if merged then (True, next, mb') else doTx_loop st a vector e next mb'
      else (False, msg, mb))"
  by pat_completeness auto
termination by (relation "measure (\<lambda>(st, a, vector, e, msg, mb). e - msg)") auto

declare doTx_loop.simps [simp del]

definition doTx :: "nat \<Rightarrow> int \<Rightarrow> avb_st \<Rightarrow> avb_st" where
  "doTx j vector st =
     (let a = av_attrs st ! j;
          (merged, msg, mb) = doTx_loop st a vector (mb_ptr (av_send st)) MRP_START (av_send st);
          mb' = (if merged then mb
                 else snd (merge_msg st a msg vector (create_empty_msg (at_type a) 0 mb)))
      in mrp_send (st\<lparr>av_send := mb'\<rparr>))"

text \<open>
  An event on the attribute with index \<open>j\<close>: the registrar, then, in the states that transmit,
  the transmission of the event code of the present state, then the applicant.
\<close>

definition mrp_set_applicant :: "mrp_event \<Rightarrow> mrp_attribute_state \<Rightarrow> mrp_attribute_state" where
  "mrp_set_applicant e a = a\<lparr>at_applicant := mrp_applicant_next e (at_applicant a)\<rparr>"

definition mrp_update_state :: "u32 \<Rightarrow> mrp_event \<Rightarrow> nat \<Rightarrow> int \<Rightarrow> avb_st \<Rightarrow> avb_st" where
  "mrp_update_state now e j fp st =
     (let st1 = update_attr j (mrp_registrar_step now e fp) st;
          a = av_attrs st1 ! j;
          st2 = (if mrp_transmits e (at_applicant a)
                 then doTx j (makeTxEvent (at_applicant a) (at_registrar a) (e = MRP_EVENT_TX_LEAVE_ALL)) st1
                 else st1)
      in update_attr j (mrp_set_applicant e) st2)"

section \<open>Service primitives\<close>

definition mrp_attribute_init :: "nat \<Rightarrow> mrp_attribute_type \<Rightarrow> mrp_info \<Rightarrow> avb_st \<Rightarrow> avb_st" where
  "mrp_attribute_init j t info st = update_attr j (\<lambda>a. a\<lparr>at_type := t, at_info := info\<rparr>) st"

definition mrp_mad_begin :: "u32 \<Rightarrow> nat \<Rightarrow> avb_st \<Rightarrow> avb_st" where
  "mrp_mad_begin now j st =
     mrp_update_state now MRP_EVENT_BEGIN j 0
       (update_attr j (\<lambda>a. a\<lparr>at_leave_timer := init_avb_timer 1 (at_leave_timer a)\<rparr>) st)"

definition mrp_mad_join :: "u32 \<Rightarrow> nat \<Rightarrow> bool \<Rightarrow> avb_st \<Rightarrow> avb_st" where
  "mrp_mad_join now j is_new st =
     mrp_update_state now (if is_new then MRP_EVENT_NEW else MRP_EVENT_JOIN) j 0 st"

definition mrp_mad_leave :: "u32 \<Rightarrow> nat \<Rightarrow> avb_st \<Rightarrow> avb_st" where
  "mrp_mad_leave now j st = mrp_update_state now MRP_EVENT_LV j 0 st"

abbreviation (input) "MRP_JOINTIMER_PERIOD_CENTISECONDS \<equiv> 20 :: u32"

text \<open>Both multi-firing timers run with a period of 10 centiseconds: 1000 / 100 and 100 / 10.\<close>

definition mrp_init :: "u32 \<Rightarrow> u8 list \<Rightarrow> avb_st \<Rightarrow> avb_st" where
  "mrp_init now macaddr st =
     st\<lparr>av_send := mb_put 6 (take 6 macaddr) (av_send st),
        av_attrs := map (\<lambda>a. a\<lparr>at_applicant := MRP_UNUSED\<rparr>) (av_attrs st),
        av_order := [0..<mrp_max_attrs st],
        av_periodic_timer := start_avb_timer now 10 (init_avb_timer 10 (av_periodic_timer st)),
        av_join_timer := start_avb_timer now MRP_JOINTIMER_PERIOD_CENTISECONDS (init_avb_timer 1 (av_join_timer st)),
        av_leaveall_timer := start_avb_timer now 10 (init_avb_timer 100 (av_leaveall_timer st))\<rparr>"

text \<open>The first unused attribute is taken; with none left the code returns a null pointer.\<close>

definition mrp_get_attr :: "avb_st \<Rightarrow> nat \<times> avb_st" where
  "mrp_get_attr st =
     (case find_idx (\<lambda>a. at_applicant a = MRP_UNUSED) (av_attrs st) of
        Some i \<Rightarrow> (i, update_attr i (\<lambda>a. a\<lparr>at_applicant := MRP_DISABLED\<rparr>) st)
      | None \<Rightarrow> (mrp_max_attrs st, st))"

section \<open>Order of the attribute list\<close>

fun attr_type_num :: "mrp_attribute_type \<Rightarrow> nat" where
  "attr_type_num MSRP_TALKER_ADVERTISE = 0"
| "attr_type_num MSRP_TALKER_FAILED = 1"
| "attr_type_num MSRP_LISTENER = 2"
| "attr_type_num MSRP_DOMAIN_VECTOR = 3"
| "attr_type_num MMRP_MAC_VECTOR = 4"
| "attr_type_num MVRP_VID_VECTOR = 5"

text \<open>The comparison of two attributes by pointer is the comparison of their indices.\<close>

definition compare_attr :: "avb_st \<Rightarrow> nat \<Rightarrow> nat \<Rightarrow> bool" where
  "compare_attr st i j =
     (let a = av_attrs st ! i; b = av_attrs st ! j
      in if at_applicant a = MRP_UNUSED then (if at_applicant b = MRP_UNUSED then i < j else False)
         else if at_applicant b = MRP_UNUSED then True
         else if at_applicant a = MRP_DISABLED then (if at_applicant b = MRP_DISABLED then i < j else False)
         else if at_applicant b = MRP_DISABLED then True
         else if at_type a \<noteq> at_type b then attr_type_num (at_type a) < attr_type_num (at_type b)
         else case at_type a of
             MSRP_TALKER_ADVERTISE \<Rightarrow> avb_srp_compare_talker_attributes st a b
           | MSRP_LISTENER \<Rightarrow> avb_srp_compare_listener_attributes st a b
           | _ \<Rightarrow> i < j)"

definition mrp_sort_attrs :: "avb_st \<Rightarrow> avb_st" where
  "mrp_sort_attrs st = st\<lparr>av_order := sort_attrs (compare_attr st) (av_order st)\<rparr>"

section \<open>Events on many attributes\<close>

definition attr_active :: "mrp_attribute_state \<Rightarrow> bool" where
  "attr_active a \<longleftrightarrow> at_applicant a \<noteq> MRP_DISABLED \<and> at_applicant a \<noteq> MRP_UNUSED"

definition global_event :: "u32 \<Rightarrow> mrp_event \<Rightarrow> avb_st \<Rightarrow> avb_st" where
  "global_event now e st =
     fold (\<lambda>j s. if attr_active (av_attrs s ! j) \<and>
                    (e \<noteq> MRP_EVENT_PERIODIC \<or> at_type (av_attrs s ! j) = MVRP_VID_VECTOR)
                 then mrp_update_state now e j 0 s else s) (av_order st) st"

definition attribute_type_event :: "u32 \<Rightarrow> mrp_attribute_type \<Rightarrow> mrp_event \<Rightarrow> avb_st \<Rightarrow> avb_st" where
  "attribute_type_event now atype e st =
     fold (\<lambda>j s. if attr_active (av_attrs s ! j) \<and> at_type (av_attrs s ! j) = atype
                 then mrp_update_state now e j 0 s else s) (av_order st) st"

section \<open>Reception\<close>

definition mrp_in_event :: "int \<Rightarrow> mrp_event option" where
  "mrp_in_event three_packed_event =
     (if three_packed_event = MRP_ATTRIBUTE_EVENT_NEW then Some MRP_EVENT_RECEIVE_NEW
      else if three_packed_event = MRP_ATTRIBUTE_EVENT_JOININ then Some MRP_EVENT_RECEIVE_JOININ
      else if three_packed_event = MRP_ATTRIBUTE_EVENT_IN then Some MRP_EVENT_RECEIVE_IN
      else if three_packed_event = MRP_ATTRIBUTE_EVENT_JOINMT then Some MRP_EVENT_RECEIVE_JOINMT
      else if three_packed_event = MRP_ATTRIBUTE_EVENT_MT then Some MRP_EVENT_RECEIVE_MT
      else if three_packed_event = MRP_ATTRIBUTE_EVENT_LV then Some MRP_EVENT_RECEIVE_LEAVE
      else None)"

definition mrp_in :: "u32 \<Rightarrow> int \<Rightarrow> int \<Rightarrow> nat \<Rightarrow> avb_st \<Rightarrow> avb_st" where
  "mrp_in now three_packed_event four_packed_event j st =
     (case mrp_in_event three_packed_event of
        Some e \<Rightarrow> mrp_update_state now e j four_packed_event st
      | None \<Rightarrow> st)"

text \<open>One value of a vector: the snooping code, then every attribute that matches.\<close>

definition mrp_receive_value ::
  "u32 \<Rightarrow> mrp_attribute_type \<Rightarrow> u8 list \<Rightarrow> nat \<Rightarrow> int \<Rightarrow> int \<Rightarrow> avb_st \<Rightarrow> avb_st" where
  "mrp_receive_value now attr_type fv i three four st =
     fold (\<lambda>j s. if msg_match s attr_type (av_attrs s ! j) fv i three four
                 then mrp_in now three four j s else s)
       [0..<mrp_max_attrs st] (mrp_process attr_type fv i three four st)"

text \<open>One vector of a message: the leave-all event, then the values in order.\<close>

definition vector_num_values :: "u8 list \<Rightarrow> nat \<Rightarrow> nat" where
  "vector_num_values buf msg = 256 * unat (buf ! msg AND 0x1f) + unat (buf ! (msg + 1))"

definition vector_leave_all :: "u8 list \<Rightarrow> nat \<Rightarrow> bool" where
  "vector_leave_all buf msg \<longleftrightarrow> drop_bit 5 (buf ! msg AND 0xe0) \<noteq> 0"

definition vector_fourpacked_len :: "mrp_attribute_type \<Rightarrow> nat \<Rightarrow> nat" where
  "vector_fourpacked_len attr_type n = (if has_fourpacked_events attr_type then (n + 3) div 4 else 0)"

definition vector_len :: "mrp_attribute_type \<Rightarrow> nat \<Rightarrow> nat \<Rightarrow> nat" where
  "vector_len attr_type first_value_len n =
     2 + first_value_len + (n + 2) div 3 + vector_fourpacked_len attr_type n"

definition mrp_receive_vector ::
  "u32 \<Rightarrow> mrp_attribute_type \<Rightarrow> nat \<Rightarrow> u8 list \<Rightarrow> nat \<Rightarrow> avb_st \<Rightarrow> avb_st" where
  "mrp_receive_vector now attr_type first_value_len buf msg st =
     (let n = vector_num_values buf msg;
          fv = drop (msg + 2) buf;
          three = (\<lambda>i. decode_threepacked (uint (fv ! (first_value_len + i div 3))) (i mod 3));
          four = (\<lambda>i. if has_fourpacked_events attr_type
                      then decode_fourpacked (uint (fv ! (first_value_len + (n + 2) div 3 + i div 4))) (i mod 4)
                      else 0);
          st1 = (if vector_leave_all buf msg
                 then attribute_type_event now attr_type MRP_EVENT_RECEIVE_LEAVE_ALL st else st)
      in fold (\<lambda>i. mrp_receive_value now attr_type fv i (three i) (four i)) [0..<n] st1)"

text \<open>
  The vectors of one message. The result \<open>Inl\<close> is the early return from the whole function when
  a vector would reach beyond the end of the packet, \<open>Inr\<close> the offset behind the last vector.
\<close>

function mrp_receive_vectors ::
  "u32 \<Rightarrow> mrp_attribute_type \<Rightarrow> nat \<Rightarrow> u8 list \<Rightarrow> nat \<Rightarrow> nat \<Rightarrow> avb_st \<Rightarrow> (avb_st, nat \<times> avb_st) sum" where
  "mrp_receive_vectors now attr_type first_value_len buf e msg st =
     (if msg < e \<and> msg_here buf msg
      then let len = vector_len attr_type first_value_len (vector_num_values buf msg)
           in if e < msg + len then Inl st
              else mrp_receive_vectors now attr_type first_value_len buf e (msg + len)
                     (mrp_receive_vector now attr_type first_value_len buf msg st)
      else Inr (msg, st))"
  by pat_completeness auto
termination
  by (relation "measure (\<lambda>(now, t, l, buf, e, msg, st). e - msg)") (auto simp: vector_len_def)

declare mrp_receive_vectors.simps [simp del]

lemma mrp_receive_vectors_advance:
  "mrp_receive_vectors now t l buf e msg st = Inr (msg', st') \<Longrightarrow> msg \<le> msg'"
proof (induction now t l buf e msg st rule: mrp_receive_vectors.induct)
  case (1 now t l buf e msg st)
  from 1(2) show ?case
    by (subst (asm) mrp_receive_vectors.simps)
      (auto simp: Let_def split: if_splits dest!: 1(1) [rotated -1])
qed

function mrp_receive_messages :: "u32 \<Rightarrow> u16 \<Rightarrow> u8 list \<Rightarrow> nat \<Rightarrow> nat \<Rightarrow> avb_st \<Rightarrow> avb_st" where
  "mrp_receive_messages now etype buf e msg st =
     (if msg < e \<and> msg_here buf msg
      then case decode_attr_type etype (buf ! msg) of
             None \<Rightarrow> st
           | Some attr_type \<Rightarrow>
               (case mrp_receive_vectors now attr_type (unat (buf ! (msg + 1))) buf e
                       (if etype \<noteq> AVB_SRP_ETHERTYPE then msg + 2 else msg + 4) st of
                  Inl st' \<Rightarrow> st'
                | Inr (msg', st') \<Rightarrow> mrp_receive_messages now etype buf e (msg' + 2) st')
      else st)"
  by pat_completeness auto
termination
  by (relation "measure (\<lambda>(now, etype, buf, e, msg, st). e - msg)")
    (auto dest!: sym [of "mrp_receive_vectors _ _ _ _ _ _ _"] mrp_receive_vectors_advance split: if_splits)

declare mrp_receive_messages.simps [simp del]

text \<open>\<open>buf\<close> starts behind the ethernet header; the first byte is the MRP protocol version.\<close>

definition avb_mrp_process_packet :: "u32 \<Rightarrow> u8 list \<Rightarrow> u16 \<Rightarrow> nat \<Rightarrow> avb_st \<Rightarrow> avb_st" where
  "avb_mrp_process_packet now buf etype len st = mrp_receive_messages now etype buf len 1 st"

end
