(* ===== verification/Mrp_Messages.thy ===== *)
theory Mrp_Messages
  imports Mrp
begin

text \<open>
  The abstract view of an MRPDU: a list of messages with their values, and its encoding. The
  lemmas show what the buffer operations of \<open>avb_mrp.c\<close> do to the encoding.
\<close>

record mrp_message =
  msg_type :: mrp_attribute_type
  msg_leave_all :: u8
  msg_first :: "u8 list"
  msg_three :: "int list"
  msg_four :: "int list"

fun three_bytes :: "int list \<Rightarrow> u8 list" where
  "three_bytes [] = []"
| "three_bytes [a] = [word_of_int (pack_three a 0 0)]"
| "three_bytes [a, b] = [word_of_int (pack_three a b 0)]"
| "three_bytes (a # b # c # es) = word_of_int (pack_three a b c) # three_bytes es"

fun four_bytes :: "int list \<Rightarrow> u8 list" where
  "four_bytes [] = []"
| "four_bytes [a] = [word_of_int (pack_four a 0 0 0)]"
| "four_bytes [a, b] = [word_of_int (pack_four a b 0 0)]"
| "four_bytes [a, b, c] = [word_of_int (pack_four a b c 0)]"
| "four_bytes (a # b # c # d # es) = word_of_int (pack_four a b c d) # four_bytes es"

text \<open>The two bytes of the attribute list length.\<close>

definition len_bytes :: "nat \<Rightarrow> u8 list" where
  "len_bytes n = hton_16 (of_nat n)"

lemma length_len_bytes [simp]: "length (len_bytes n) = 2"
  by (simp add: len_bytes_def)

definition msg_list_length :: "mrp_message \<Rightarrow> nat" where
  "msg_list_length m =
     2 + length (msg_first m) + length (three_bytes (msg_three m)) + length (four_bytes (msg_four m)) + 2"

definition encode_message :: "mrp_message \<Rightarrow> u8 list" where
  "encode_message m =
     [encode_attr_type (msg_type m), of_nat (length (msg_first m))] @
     len_bytes (msg_list_length m) @
     [push_bit 5 (msg_leave_all m), of_nat (length (msg_three m))] @
     msg_first m @ three_bytes (msg_three m) @ four_bytes (msg_four m) @ [0, 0]"

definition message_ok :: "mrp_message \<Rightarrow> bool" where
  "message_ok m \<longleftrightarrow>
     length (msg_first m) = first_value_lengths (msg_type m) \<and>
     msg_leave_all m \<in> {0, 1} \<and> length (msg_three m) < 256 \<and>
     msg_four m = (if has_fourpacked_events (msg_type m) then map (\<lambda>_. 2) (msg_three m) else []) \<and>
     set (msg_three m) \<subseteq> {0..<6}"

section \<open>Vector bytes\<close>

lemma pack_three_eq: "pack_three a b c = 36 * a + 6 * b + c"
  by (simp add: pack_three_def encode_three_packed_exec del: One_nat_def)

lemma pack_four_eq: "pack_four a b c d = 64 * a + 16 * b + 4 * c + d"
  by (simp add: pack_four_def encode_four_packed_exec del: One_nat_def)

lemma length_three_bytes [simp]: "length (three_bytes es) = (length es + 2) div 3"
  by (induction es rule: three_bytes.induct) simp_all

lemma length_four_bytes [simp]: "length (four_bytes es) = (length es + 3) div 4"
  by (induction es rule: four_bytes.induct) simp_all

lemma uint_word_small: "0 \<le> x \<Longrightarrow> x < 256 \<Longrightarrow> uint (word_of_int x :: u8) = x"
  by (simp add: uint_word_of_int)

text \<open>Appending an event: a new byte at every third position, else the last byte changes.\<close>

lemma three_bytes_snoc_new:
  "length es mod 3 = 0 \<Longrightarrow> three_bytes (es @ [e]) = three_bytes es @ [word_of_int (encode_three_packed e 0 0)]"
  by (induction es rule: three_bytes.induct)
    (simp_all add: pack_three_eq encode_three_packed_exec)

lemma three_bytes_snoc_old:
  "length es mod 3 \<noteq> 0 \<Longrightarrow> set es \<subseteq> {0..<6} \<Longrightarrow>
     three_bytes (es @ [e]) = butlast (three_bytes es) @
       [word_of_int (encode_three_packed e (length es mod 3) (uint (last (three_bytes es))))] \<and> three_bytes es \<noteq> []"
proof (induction es rule: three_bytes.induct)
  case (2 a)
  then show ?case by (simp add: pack_three_eq encode_three_packed_exec uint_word_small del: One_nat_def)
next
  case (3 a b)
  then show ?case
    by (simp add: pack_three_eq encode_three_packed_exec uint_word_small numeral_2_eq_2 [symmetric] add.commute)
next
  case (4 a b c es)
  have "length (a # b # c # es) mod 3 = length es mod 3" by simp
  with 4 show ?case by simp
qed simp

lemma four_bytes_snoc_new:
  "length es mod 4 = 0 \<Longrightarrow> four_bytes (es @ [e]) = four_bytes es @ [word_of_int (encode_four_packed e 0 0)]"
  by (induction es rule: four_bytes.induct)
    (simp_all add: pack_four_eq encode_four_packed_exec)

lemma four_bytes_snoc_old:
  "length es mod 4 \<noteq> 0 \<Longrightarrow> set es \<subseteq> {0..<4} \<Longrightarrow>
     four_bytes (es @ [e]) = butlast (four_bytes es) @
       [word_of_int (encode_four_packed e (length es mod 4) (uint (last (four_bytes es))))] \<and> four_bytes es \<noteq> []"
proof (induction es rule: four_bytes.induct)
  case (2 a)
  then show ?case by (simp add: pack_four_eq encode_four_packed_exec uint_word_small del: One_nat_def)
next
  case (3 a b)
  then show ?case
    by (simp add: pack_four_eq encode_four_packed_exec uint_word_small numeral_2_eq_2 [symmetric])
next
  case (4 a b c)
  then show ?case
    by (simp add: pack_four_eq encode_four_packed_exec uint_word_small numeral_3_eq_3 [symmetric])
next
  case (5 a b c d es)
  have "length (a # b # c # d # es) mod 4 = length es mod 4" by simp
  with 5 show ?case by simp
qed simp

section \<open>Stores into a decomposed buffer\<close>

lemma put_bytes_at: "off = length A \<Longrightarrow> length C = length bs \<Longrightarrow> put_bytes off bs (A @ C @ D) = A @ bs @ D"
  by (simp add: put_bytes_def)

lemma get_bytes_at: "off = length A \<Longrightarrow> n = length C \<Longrightarrow> get_bytes off n (A @ C @ D) = C"
  by (simp add: get_bytes_def)

lemma nth_at: "off = length A \<Longrightarrow> (A @ x # D) ! off = x"
  by simp

lemma hton_16_bytes: "hton_16 w = [ucast (drop_bit 8 w), ucast w]"
proof -
  have "(w AND 0xFF) = take_bit 8 w" "(drop_bit 8 w AND 0xFF) = take_bit 8 (drop_bit 8 w)"
    by (simp_all add: low_byte_16 take_bit_eq_mask and.commute)
  then show ?thesis by (simp add: hton_16_def) (simp add: bit_eq_iff bit_ucast_iff bit_take_bit_iff)
qed

lemma list_length_read:
  assumes "n < 65536" "p + 2 = length A"
  shows "attribute_length_length (A @ len_bytes n @ D) p = n"
proof -
  have "unat (ucast (drop_bit 8 (of_nat n :: u16)) :: u8) = n div 256"
  proof -
    have "unat (drop_bit 8 (of_nat n :: u16)) = n div 256"
      using assms(1) by (simp only: unsigned_drop_bit_eq) (simp add: unsigned_of_nat drop_bit_eq_div take_bit_eq_mod)
    then show ?thesis using assms(1) by (simp only: unsigned_ucast_eq take_bit_eq_mod) simp
  qed
  moreover have "unat (ucast (of_nat n :: u16) :: u8) = n mod 256"
    by (simp add: unsigned_ucast_eq unsigned_of_nat take_bit_eq_mod mod_mod_cancel)
  moreover have "(A @ len_bytes n @ D) ! (p + 2) = ucast (drop_bit 8 (of_nat n :: u16))"
    using assms(2) by (simp add: len_bytes_def hton_16_bytes nth_append)
  moreover have "(A @ len_bytes n @ D) ! (p + 3) = ucast (of_nat n :: u16)"
  proof -
    have "p + 3 = length A + 1" using assms(2) by simp
    then show ?thesis by (simp add: len_bytes_def hton_16_bytes nth_append)
  qed
  ultimately show ?thesis by (simp add: attribute_length_length_def)
qed

lemma memmove_up:
  "put_bytes (length H) [z] (memmove (length H + 1) (length H) (length R) (H @ R @ x # post)) = H @ z # R @ post"
proof (cases "R @ [x]")
  case (Cons y Y)
  then have e: "H @ R @ x # post = (H @ [y]) @ Y @ post"
    by (metis append.assoc append_Cons append_Nil)
  have "length Y = length R" using Cons by (metis length_append_singleton length_Cons nat.inject)
  then have m: "put_bytes (length H + 1) R ((H @ [y]) @ Y @ post) = H @ [y] @ R @ post"
    using put_bytes_at [of "length H + 1" "H @ [y]" Y R post] by simp
  have g: "get_bytes (length H) (length R) (H @ R @ x # post) = R"
    by (rule get_bytes_at) simp_all
  have "put_bytes (length H) [z] (H @ [y] @ R @ post) = H @ [z] @ R @ post"
    by (rule put_bytes_at) simp_all
  then show ?thesis by (simp only: memmove_def g) (simp only: e m append_Cons append_Nil)
qed simp

text \<open>
  Insertion of a vector byte behind \<open>M\<close> (vector header, first value and earlier vector bytes) in
  a message that goes on with \<open>T\<close> and its end mark, with the messages \<open>S\<close> behind it.
\<close>

lemma insert_vector_byte_at:
  assumes n: "n = length M + length T + 2" "n + 1 < 65536"
    and pv: "p = length A" "v = length A + 4 + length M"
    and b: "mb_bytes mb = A @ [t0, l0] @ len_bytes n @ M @ (T @ [0, 0] @ S) @ x # post"
    and ptr: "mb_ptr mb = v + length T + 2 + length S"
  shows "mrp_insert_vector_byte p v mb =
     mb\<lparr>mb_bytes := A @ [t0, l0] @ len_bytes (n + 1) @ M @ [0] @ T @ [0, 0] @ S @ post,
        mb_ptr := mb_ptr mb + 1\<rparr>"
proof -
  define R where "R = T @ [0, 0] @ S"
  define H where "H = A @ [t0, l0] @ len_bytes n @ M"
  have len: "attribute_length_length (mb_bytes mb) p = n"
    using list_length_read [of n p "A @ [t0, l0]" "M @ R @ x # post"] n pv by (simp add: b R_def)
  have "length H = v" "length R = mb_ptr mb - v" "v < mb_ptr mb" by (simp_all add: H_def R_def pv ptr)
  moreover have "mb_bytes mb = H @ R @ x # post" by (simp add: b H_def R_def)
  ultimately have b2: "put_bytes v [0] (memmove (v + 1) v (mb_ptr mb - v) (mb_bytes mb)) = H @ 0 # R @ post"
    and lt: "v < mb_ptr mb"
    using memmove_up [of H 0 R x post] by simp_all
  have b3: "put_bytes (p + 2) (len_bytes (n + 1)) (H @ 0 # R @ post) =
      A @ [t0, l0] @ len_bytes (n + 1) @ M @ [0] @ R @ post"
    using put_bytes_at [of "p + 2" "A @ [t0, l0]" "len_bytes n" "len_bytes (n + 1)"
        "M @ [0] @ R @ post"] by (simp add: pv H_def)
  have b4: "put_bytes (p + 4 + (n + 1) - 2) [0, 0]
      (A @ [t0, l0] @ len_bytes (n + 1) @ M @ [0] @ R @ post) =
      A @ [t0, l0] @ len_bytes (n + 1) @ M @ [0] @ T @ [0, 0] @ S @ post"
    using put_bytes_at [of "p + 4 + (n + 1) - 2"
        "A @ [t0, l0] @ len_bytes (n + 1) @ M @ [0] @ T" "[0, 0]" "[0, 0]" "S @ post"] n(1)
    by (simp add: pv R_def)
  show ?thesis
    unfolding mrp_insert_vector_byte_def Let_def len len_bytes_def [symmetric]
    by (simp only: lt if_True b2 b3 b4)
qed

text \<open>A message with given vector bytes, as it stands between the steps of a merge.\<close>

definition raw_message :: "u8 \<Rightarrow> u8 \<Rightarrow> u8 \<Rightarrow> nat \<Rightarrow> u8 list \<Rightarrow> u8 list \<Rightarrow> u8 list \<Rightarrow> u8 list" where
  "raw_message t l lv n first T F =
     [t, l] @ len_bytes (2 + length first + length T + length F + 2) @ [lv, of_nat n] @
     first @ T @ F @ [0, 0]"

lemma length_raw_message [simp]:
  "length (raw_message t l lv n first T F) = 8 + length first + length T + length F"
  by (simp add: raw_message_def)

lemma encode_message_raw:
  "encode_message m = raw_message (encode_attr_type (msg_type m)) (of_nat (length (msg_first m)))
     (push_bit 5 (msg_leave_all m)) (length (msg_three m)) (msg_first m)
     (three_bytes (msg_three m)) (four_bytes (msg_four m))"
  by (simp add: encode_message_def raw_message_def msg_list_length_def)

text \<open>The buffer holds \<open>A\<close>, then the message, then \<open>S\<close> up to the end of the MRPDU, then \<open>Z\<close>.\<close>

definition holds_message :: "u8 list \<Rightarrow> u8 list \<Rightarrow> u8 list \<Rightarrow> u8 list \<Rightarrow> mrp_buf \<Rightarrow> bool" where
  "holds_message A m S Z mb \<longleftrightarrow>
     mb_bytes mb = A @ m @ S @ Z \<and> mb_ptr mb = length A + length m + length S"

lemma raw_num_values: "n < 256 \<Longrightarrow> unat ((A @ raw_message t l lv n first T F @ B) ! (length A + 5)) = n"
  by (simp add: raw_message_def nth_append len_bytes_def hton_16_bytes unsigned_of_nat take_bit_eq_mod)

lemma raw_type: "(A @ raw_message t l lv n first T F @ B) ! length A = t"
  by (simp add: raw_message_def)

lemma raw_first: "get_bytes (length A + 6) (length first) (A @ raw_message t l lv n first T F @ B) = first"
  using get_bytes_at [of "length A + 6" "A @ [t, l] @ len_bytes (2 + length first + length T + length F + 2)
      @ [lv, of_nat n]" "length first" first "T @ F @ [0, 0] @ B"] by (simp add: raw_message_def)

lemma put_bytes_last:
  assumes "T \<noteq> []" "off = length A + length T - 1"
  shows "put_bytes off [y] (A @ T @ D) = A @ (butlast T @ [y]) @ D"
proof (cases T rule: rev_cases)
  case (snoc T' z)
  with assms show ?thesis using put_bytes_at [of off "A @ T'" "[z]" "[y]" D] by simp
qed (use assms in simp)

lemma nth_last_at:
  assumes "T \<noteq> []" "off = length A + length T - 1"
  shows "(A @ T @ D) ! off = last T"
proof (cases T rule: rev_cases)
  case (snoc T' z)
  with assms show ?thesis by (simp add: nth_append)
qed (use assms in simp)

text \<open>
  Either routine: an insertion of a byte behind \<open>T\<close>, or a change of the last byte of \<open>T\<close>.
\<close>

definition store_event ::
  "nat \<Rightarrow> nat \<Rightarrow> bool \<Rightarrow> (int \<Rightarrow> int) \<Rightarrow> mrp_buf \<Rightarrow> mrp_buf" where
  "store_event p v fresh f mb =
     (let mb1 = (if fresh then mrp_insert_vector_byte p v mb else mb)
      in mb_put v [word_of_int (f (uint (mb_bytes mb1 ! v)))] mb1)"

lemma store_event_fresh:
  assumes h: "holds_message A (raw_message t l lv n first (T1 @ T2) F) S Z mb" and Z: "Z \<noteq> []"
    and sz: "length first + length T1 + length T2 + length F < 65000"
    and v: "v = length A + 6 + length first + length T1"
  shows "holds_message A (raw_message t l lv n first (T1 @ [word_of_int (f 0)] @ T2) F)
       S (tl Z) (store_event (length A) v True f mb)"
proof -
  obtain x post where z: "Z = x # post" using Z by (cases Z) auto
  define M where "M = [lv, of_nat n] @ first @ T1"
  define N where "N = 2 + length first + length T1 + length T2 + length F + 2"
  have b: "mb_bytes mb = A @ [t, l] @ len_bytes N @ M @ ((T2 @ F) @ [0, 0] @ S) @ x # post"
    using h by (simp add: holds_message_def raw_message_def M_def N_def z add.assoc)
  have pr: "mb_ptr mb = v + length (T2 @ F) + 2 + length S"
    using h v by (simp add: holds_message_def)
  have ins: "mrp_insert_vector_byte (length A) v mb =
      mb\<lparr>mb_bytes := A @ [t, l] @ len_bytes (N + 1) @ M @ [0] @ (T2 @ F) @ [0, 0] @ S @ post,
         mb_ptr := mb_ptr mb + 1\<rparr>"
    by (rule insert_vector_byte_at [OF _ _ refl _ b pr])
      (use sz in \<open>simp_all add: M_def N_def v\<close>)
  let ?b = "A @ [t, l] @ len_bytes (N + 1) @ M @ [0] @ (T2 @ F) @ [0, 0] @ S @ post"
  have vl: "v = length (A @ [t, l] @ len_bytes (N + 1) @ M)" by (simp add: v M_def)
  have 0: "?b ! v = 0" unfolding vl by (simp add: nth_append)
  have 1: "put_bytes v [y] ?b = A @ [t, l] @ len_bytes (N + 1) @ M @ [y] @ (T2 @ F) @ [0, 0] @ S @ post" for y
    using put_bytes_at [of v "A @ [t, l] @ len_bytes (N + 1) @ M" "[0]" "[y]" "(T2 @ F) @ [0, 0] @ S @ post"] vl
    by simp
  have 2: "2 + length first + length (T1 @ [y] @ T2) + length F + 2 = N + 1" for y :: u8
    by (simp add: N_def)
  have "store_event (length A) v True f mb =
      mb\<lparr>mb_bytes := A @ [t, l] @ len_bytes (N + 1) @ M @ [word_of_int (f 0)] @ (T2 @ F) @ [0, 0] @ S @ post,
         mb_ptr := mb_ptr mb + 1\<rparr>"
  proof -
    define B where "B = ?b"
    have "store_event (length A) v True f mb = mb\<lparr>mb_bytes := put_bytes v [word_of_int (f (uint (B ! v)))] B,
        mb_ptr := mb_ptr mb + 1\<rparr>"
      unfolding store_event_def Let_def if_True ins mb_put_def B_def [symmetric] by simp
    then show ?thesis by (simp only: B_def 0 1 unsigned_0)
  qed
  then show ?thesis
    using pr v unfolding raw_message_def 2 by (simp add: holds_message_def M_def z)
qed

lemma store_event_old:
  assumes h: "holds_message A (raw_message t l lv n first (T1 @ T2) F) S Z mb" and ne: "T1 \<noteq> []"
    and v: "v = length A + 6 + length first + length T1 - 1"
  shows "holds_message A (raw_message t l lv n first ((butlast T1 @ [word_of_int (f (uint (last T1)))]) @ T2) F)
       S Z (store_event (length A) v False f mb)"
proof -
  define H where "H = A @ [t, l] @ len_bytes (2 + length first + (length T1 + length T2) + length F + 2) @
    [lv, of_nat n] @ first"
  have b: "mb_bytes mb = H @ T1 @ (T2 @ F @ [0, 0] @ S @ Z)"
    using h by (simp add: holds_message_def raw_message_def H_def)
  have v': "v = length H + length T1 - 1" by (simp add: v H_def)
  obtain T' z where T1: "T1 = T' @ [z]" using ne by (cases T1 rule: rev_cases) auto
  have "store_event (length A) v False f mb =
      mb\<lparr>mb_bytes := H @ (butlast T1 @ [word_of_int (f (uint (last T1)))]) @ (T2 @ F @ [0, 0] @ S @ Z)\<rparr>"
    unfolding store_event_def Let_def mb_put_def b if_False nth_last_at [OF ne v'] put_bytes_last [OF ne v'] ..
  then show ?thesis
    using h by (simp add: holds_message_def raw_message_def H_def T1)
qed

lemma raw_message_join: "raw_message t l lv n first (T @ F) [] = raw_message t l lv n first T F"
  by (simp add: raw_message_def add.assoc)

lemma encode_three_step:
  assumes h: "holds_message A (raw_message t l lv n first (three_bytes es) F) S Z mb" and Z: "Z \<noteq> []"
    and n: "n = length es" "n < 256" "set es \<subseteq> {0..<6}"
    and l: "length first = first_value_lengths attr" "length first + length F < 60000"
  shows "holds_message A (raw_message t l lv n first (three_bytes (es @ [e])) F) S
     (if n mod 3 = 0 then tl Z else Z) (mrp_encode_three_packed_event (length A) e attr mb)"
proof -
  let ?v = "length A + 6 + length first + n div 3"
  have "unat (mb_bytes mb ! (length A + 5)) = n"
    using h raw_num_values [OF n(2)] by (simp only: holds_message_def)
  then have st: "mrp_encode_three_packed_event (length A) e attr mb =
      store_event (length A) ?v (n mod 3 = 0) (encode_three_packed e (n mod 3)) mb"
    by (simp add: mrp_encode_three_packed_event_def store_event_def Let_def l)
  show ?thesis
  proof (cases "n mod 3 = 0")
    case True
    have "(n + 2) div 3 = n div 3" using True by presburger
    then have v: "?v = length A + 6 + length first + length (three_bytes es)" using n(1) by simp
    have "holds_message A (raw_message t l lv n first (three_bytes es @ [word_of_int (encode_three_packed e 0 0)] @ []) F) S
        (tl Z) (store_event (length A) ?v True (encode_three_packed e 0) mb)"
      by (rule store_event_fresh [OF _ Z _ v]) (use h l n in simp_all)
    with st True n(1) show ?thesis by (simp add: three_bytes_snoc_new)
  next
    case False
    have "(n + 2) div 3 = n div 3 + 1" using False by presburger
    then have v: "?v = length A + 6 + length first + length (three_bytes es) - 1" using n(1) by simp
    have ne: "three_bytes es \<noteq> []" using three_bytes_snoc_old [of es] False n by simp
    have "holds_message A (raw_message t l lv n first ((butlast (three_bytes es) @
         [word_of_int (encode_three_packed e (n mod 3) (uint (last (three_bytes es))))]) @ []) F) S
        Z (store_event (length A) ?v False (encode_three_packed e (n mod 3)) mb)"
      by (rule store_event_old [OF _ ne v]) (use h in simp)
    with st False n show ?thesis using three_bytes_snoc_old [of es e] by simp
  qed
qed

lemma encode_four_step:
  assumes h: "holds_message A (raw_message t l lv n first T (four_bytes es)) S Z mb" and Z: "Z \<noteq> []"
    and n: "n = length es" "n < 256" "set es \<subseteq> {0..<4}"
    and l: "length first = first_value_lengths attr" "length first < 60" "length T = (n + 3) div 3"
  shows "holds_message A (raw_message t l lv n first T (four_bytes (es @ [e]))) S
     (if n mod 4 = 0 then tl Z else Z) (mrp_encode_four_packed_event (length A) e attr mb)"
proof -
  let ?v = "length A + 6 + length first + (n + 3) div 3 + n div 4"
  let ?T = "T @ four_bytes es"
  have h': "holds_message A (raw_message t l lv n first (?T @ []) []) S Z mb"
    using h by (simp add: raw_message_join)
  have "unat (mb_bytes mb ! (length A + 5)) = n"
    using h raw_num_values [OF n(2)] by (simp only: holds_message_def)
  then have st: "mrp_encode_four_packed_event (length A) e attr mb =
      store_event (length A) ?v (n mod 4 = 0) (encode_four_packed e (n mod 4)) mb"
    by (simp add: mrp_encode_four_packed_event_def store_event_def Let_def l)
  show ?thesis
  proof (cases "n mod 4 = 0")
    case True
    have "(n + 3) div 4 = n div 4" using True by presburger
    then have v: "?v = length A + 6 + length first + length ?T" using n(1) l by simp
    have "holds_message A (raw_message t l lv n first (?T @ [word_of_int (encode_four_packed e 0 0)] @ []) []) S
        (tl Z) (store_event (length A) ?v True (encode_four_packed e 0) mb)"
      by (rule store_event_fresh [OF h' Z _ v]) (use l n in simp)
    with st True n(1) show ?thesis
      using raw_message_join [of t l lv n first T "four_bytes (es @ [e])"] by (simp add: four_bytes_snoc_new)
  next
    case False
    have "(n + 3) div 4 = n div 4 + 1" using False by presburger
    then have v: "?v = length A + 6 + length first + length ?T - 1" using n(1) l by simp
    have ne: "four_bytes es \<noteq> []" using four_bytes_snoc_old [of es] False n by simp
    then have ne': "?T \<noteq> []" by simp
    have "holds_message A (raw_message t l lv n first ((butlast ?T @
         [word_of_int (encode_four_packed e (n mod 4) (uint (last ?T)))]) @ []) []) S
        Z (store_event (length A) ?v False (encode_four_packed e (n mod 4)) mb)"
      by (rule store_event_old [OF h' ne' v])
    with st False n ne show ?thesis
      using four_bytes_snoc_old [of es e] raw_message_join [of t l lv n first T "four_bytes (es @ [e])"]
      by (simp add: butlast_append)
  qed
qed

lemma set_num_values_step:
  assumes "holds_message A (raw_message t l lv n first T F) S Z mb"
  shows "holds_message A (raw_message t l lv k first T F) S Z (set_num_values (length A) k mb)"
proof -
  let ?H = "A @ [t, l] @ len_bytes (2 + length first + length T + length F + 2) @ [lv]"
  have "length A + 5 = length ?H" by simp
  then have "put_bytes (length A + 5) [of_nat k] (?H @ [of_nat n] @ (first @ T @ F @ [0, 0] @ S @ Z)) =
      ?H @ [of_nat k] @ (first @ T @ F @ [0, 0] @ S @ Z)"
    by (intro put_bytes_at) simp_all
  with assms show ?thesis
    by (simp add: set_num_values_def mb_put_def holds_message_def raw_message_def)
qed

end
