(* ===== verification/Mrp_Refine.thy ===== *)
theory Mrp_Refine
  imports Mrp_Messages
begin

text \<open>
  What \<open>doTx\<close> promises, over lists of messages: the first message that accepts the attribute
  gets one more value, and if none does, a new message with one value is appended. The lemmas
  show that the buffer code implements this and never stores outside the buffer.
\<close>

definition attr_first_value :: "avb_st \<Rightarrow> mrp_attribute_state \<Rightarrow> u8 list" where
  "attr_first_value st a =
     (let s = info_stream st (at_info a)
      in case at_type a of
        MSRP_TALKER_ADVERTISE \<Rightarrow>
          hton_32 (fst (streamId s)) @ hton_32 (snd (streamId s)) @ take 6 (info_dest st (at_info a)) @
          hton_16 (ucast (stream_vlan s)) @ hton_16 (ucast (avb_srp_calculate_max_framesize s)) @
          hton_16 1 @ [0x70] @ hton_32 150000
      | MSRP_LISTENER \<Rightarrow> hton_32 (fst (streamId s)) @ hton_32 (snd (streamId s))
      | MSRP_DOMAIN_VECTOR \<Rightarrow> [6, 3, 0, 2]
      | MMRP_MAC_VECTOR \<Rightarrow> take 6 (info_addr st (at_info a))
      | MVRP_VID_VECTOR \<Rightarrow> [word_of_int (info_vlan st (at_info a) div 256), word_of_int (info_vlan st (at_info a))]
      | MSRP_TALKER_FAILED \<Rightarrow> [])"

text \<open>The value of the attribute follows the values the message has already.\<close>

definition msg_accepts :: "avb_st \<Rightarrow> mrp_attribute_state \<Rightarrow> mrp_message \<Rightarrow> bool" where
  "msg_accepts st a m \<longleftrightarrow>
     msg_type m = at_type a \<and>
     (msg_three m = [] \<or>
      (let s = info_stream st (at_info a); fv = msg_first m; n = of_nat (length (msg_three m))
       in case at_type a of
         MSRP_TALKER_ADVERTISE \<Rightarrow>
           be64 (take 6 (drop 8 fv)) + n = be64 (take 6 (info_dest st (at_info a))) \<and>
           stream_id64 (streamId s) = be64 (take 8 fv) + n \<and>
           ntoh_16 (take 2 (drop 14 fv)) = ucast (stream_vlan s) \<and>
           ucast (ntoh_16 (take 2 (drop 16 fv))) = avb_srp_calculate_max_framesize s
       | MSRP_LISTENER \<Rightarrow> stream_id64 (streamId s) = be64 (take 8 fv) + n
       | _ \<Rightarrow> False))"

definition msg_extend :: "avb_st \<Rightarrow> mrp_attribute_state \<Rightarrow> int \<Rightarrow> mrp_message \<Rightarrow> mrp_message" where
  "msg_extend st a v m =
     m\<lparr>msg_first := (if msg_three m = [] then attr_first_value st a else msg_first m),
       msg_three := msg_three m @ [v],
       msg_four := (if has_fourpacked_events (at_type a) then msg_four m @ [2] else msg_four m)\<rparr>"

definition msg_empty :: "mrp_attribute_type \<Rightarrow> u8 \<Rightarrow> mrp_message" where
  "msg_empty t leave_all =
     \<lparr>msg_type = t, msg_leave_all = leave_all, msg_first = replicate (first_value_lengths t) 0,
      msg_three = [], msg_four = []\<rparr>"

definition transmit_spec ::
  "avb_st \<Rightarrow> mrp_attribute_state \<Rightarrow> int \<Rightarrow> mrp_message list \<Rightarrow> mrp_message list" where
  "transmit_spec st a v ms =
     (case find_idx (msg_accepts st a) ms of
        Some i \<Rightarrow> modify_nth i (msg_extend st a v) ms
      | None \<Rightarrow> ms @ [msg_extend st a v (msg_empty (at_type a) 0)])"

section \<open>First values\<close>

text \<open>The info pointer of an attribute refers to what its type needs.\<close>

definition attr_sendable :: "avb_st \<Rightarrow> mrp_attribute_state \<Rightarrow> bool" where
  "attr_sendable st a \<longleftrightarrow>
     at_type a \<noteq> MSRP_TALKER_FAILED \<and>
     (at_type a = MSRP_TALKER_ADVERTISE \<longrightarrow> length (info_dest st (at_info a)) = 6) \<and>
     (at_type a = MMRP_MAC_VECTOR \<longrightarrow> length (info_addr st (at_info a)) = 6)"

lemma length_attr_first_value:
  "attr_sendable st a \<Longrightarrow> length (attr_first_value st a) = first_value_lengths (at_type a)"
  by (cases "at_type a") (simp_all add: attr_first_value_def attr_sendable_def Let_def)

lemma put_bytes_inside:
  "k + length bs \<le> length F \<Longrightarrow> put_bytes (length A + k) bs (A @ F @ D) = A @ put_bytes k bs F @ D"
  by (simp add: put_bytes_def)

lemma put_fields_inside:
  "fields_ok (length F) fs \<Longrightarrow>
     put_fields (map (\<lambda>(k, bs). (length A + k, bs)) fs) (A @ F @ D) = A @ put_fields fs F @ D"
  by (induction fs arbitrary: F) (auto simp: put_bytes_inside)

lemma split_at: "length F = n + k \<Longrightarrow> \<exists>a b. F = a @ b \<and> length a = n \<and> length b = k"
  by (rule exI [of _ "take n F"], rule exI [of _ "drop n F"]) simp

lemma list_of_25:
  assumes "length F = 25"
  shows "\<exists>a b c d e f g h. F = a @ b @ c @ d @ e @ f @ g @ h \<and> length a = 4 \<and> length b = 4 \<and>
     length c = 6 \<and> length d = 2 \<and> length e = 2 \<and> length f = 2 \<and> length g = 1 \<and> length h = 4"
proof -
  obtain a F1 where 1: "F = a @ F1" "length a = 4" "length F1 = 21" using split_at [of F 4 21] assms by auto
  obtain b F2 where 2: "F1 = b @ F2" "length b = 4" "length F2 = 17" using split_at [of F1 4 17] 1 by auto
  obtain c F3 where 3: "F2 = c @ F3" "length c = 6" "length F3 = 11" using split_at [of F2 6 11] 2 by auto
  obtain d F4 where 4: "F3 = d @ F4" "length d = 2" "length F4 = 9" using split_at [of F3 2 9] 3 by auto
  obtain e F5 where 5: "F4 = e @ F5" "length e = 2" "length F5 = 7" using split_at [of F4 2 7] 4 by auto
  obtain f F6 where 6: "F5 = f @ F6" "length f = 2" "length F6 = 5" using split_at [of F5 2 5] 5 by auto
  obtain g h where 7: "F6 = g @ h" "length g = 1" "length h = 4" using split_at [of F6 1 4] 6 by auto
  show ?thesis using 1 2 3 4 5 6 7 by blast
qed

lemma write_talker_inside:
  assumes F: "length F = 25" and d: "length dest = 6" and b: "mb_bytes mb = A @ F @ D"
  shows "write_talker_first_value s dest (length A) mb =
     mb\<lparr>mb_bytes := A @ (hton_32 (fst (streamId s)) @ hton_32 (snd (streamId s)) @ dest @
          hton_16 (ucast (stream_vlan s)) @ hton_16 (ucast (avb_srp_calculate_max_framesize s)) @
          hton_16 1 @ [0x70] @ hton_32 150000) @ D\<rparr>"
proof -
  define w1 w2 w3 w4 w5 w6 where "w1 = hton_32 (fst (streamId s))" "w2 = hton_32 (snd (streamId s))"
    "w3 = hton_16 (ucast (stream_vlan s))" "w4 = hton_16 (ucast (avb_srp_calculate_max_framesize s))"
    "w5 = hton_16 1" "w6 = hton_32 150000"
  have l: "length w1 = 4" "length w2 = 4" "length w3 = 2" "length w4 = 2" "length w5 = 2" "length w6 = 4"
    by (simp_all add: w1_w2_w3_w4_w5_w6_def)
  define fs :: "(nat \<times> u8 list) list" where "fs = [(8, dest), (0, w1), (4, w2), (14, w3), (20, [0x70]), (16, w4), (18, w5), (21, w6)]"
  have ok: "fields_ok (length F) fs" by (simp add: fs_def F d l field_apart_def)
  obtain a b' c e f g h i where F': "F = a @ b' @ c @ e @ f @ g @ h @ i"
    "length a = 4" "length b' = 4" "length c = 6" "length e = 2" "length f = 2" "length g = 2" "length h = 1" "length i = 4"
    using list_of_25 [OF F] by blast
  have "put_fields fs F = w1 @ w2 @ dest @ w3 @ w4 @ w5 @ [0x70] @ w6"
    unfolding fs_def F'(1) by (simp add: put_bytes_def F' l d)
  then show ?thesis
    using put_fields_inside [OF ok, of A D]
    by (simp add: write_talker_first_value_def b fs_def d w1_w2_w3_w4_w5_w6_def [symmetric])
qed

section \<open>Merging one attribute into one message\<close>

lemma holds_first:
  assumes "holds_message A (raw_message t l lv n F T Q) S Z mb"
  obtains H D where "mb_bytes mb = H @ F @ D" "length H = length A + 6"
    "\<And>F'. length F' = length F \<Longrightarrow>
       holds_message A (raw_message t l lv n F' T Q) S Z (mb\<lparr>mb_bytes := H @ F' @ D\<rparr>)"
proof -
  let ?H = "A @ [t, l] @ len_bytes (2 + length F + length T + length Q + 2) @ [lv, of_nat n]"
  let ?D = "T @ Q @ [0, 0] @ S @ Z"
  have "mb_bytes mb = ?H @ F @ ?D" using assms by (simp add: holds_message_def raw_message_def)
  moreover have "length ?H = length A + 6" by simp
  moreover have "holds_message A (raw_message t l lv n F' T Q) S Z (mb\<lparr>mb_bytes := ?H @ F' @ ?D\<rparr>)"
    if "length F' = length F" for F'
    using assms that by (simp add: holds_message_def raw_message_def)
  ultimately show ?thesis by (rule that)
qed

lemma get_bytes_inside:
  "off = length H + k \<Longrightarrow> k + n \<le> length F \<Longrightarrow> get_bytes off n (H @ F @ D) = take n (drop k F)"
  by (simp add: get_bytes_def)

text \<open>
  The state in which every successful merge goes on: the first value is that of the attribute
  when the message was empty, else the one it had.
\<close>

definition first_written :: "avb_st \<Rightarrow> mrp_attribute_state \<Rightarrow> mrp_message \<Rightarrow> u8 list" where
  "first_written st a m = (if msg_three m = [] then attr_first_value st a else msg_first m)"

definition holds_written ::
  "avb_st \<Rightarrow> mrp_attribute_state \<Rightarrow> mrp_message \<Rightarrow> u8 list \<Rightarrow> u8 list \<Rightarrow> u8 list \<Rightarrow> mrp_buf \<Rightarrow> bool" where
  "holds_written st a m A S Z mb \<longleftrightarrow>
     holds_message A (raw_message (encode_attr_type (msg_type m)) (of_nat (length (msg_first m)))
       (push_bit 5 (msg_leave_all m)) (length (msg_three m)) (first_written st a m)
       (three_bytes (msg_three m)) (four_bytes (msg_four m))) S Z mb"

lemma holds_written_keep:
  "holds_message A (encode_message m) S Z mb \<Longrightarrow> msg_three m \<noteq> [] \<Longrightarrow> holds_written st a m A S Z mb"
  by (simp add: holds_written_def first_written_def encode_message_raw)

lemma holds_written_put:
  assumes h: "holds_message A (encode_message m) S Z mb" and ok: "message_ok m"
    and t: "msg_type m = at_type a" and s: "attr_sendable st a" and e: "msg_three m = []"
    and w: "at_type a \<noteq> MSRP_TALKER_ADVERTISE"
  shows "holds_written st a m A S Z (mb_put (length A + 6) (attr_first_value st a) mb)"
proof -
  have l: "length (attr_first_value st a) = length (msg_first m)"
    using length_attr_first_value [OF s] ok t by (simp add: message_ok_def)
  obtain H D where h': "mb_bytes mb = H @ msg_first m @ D" "length H = length A + 6"
    "\<And>F'. length F' = length (msg_first m) \<Longrightarrow>
       holds_message A (raw_message (encode_attr_type (msg_type m)) (of_nat (length (msg_first m)))
       (push_bit 5 (msg_leave_all m)) (length (msg_three m)) F'
       (three_bytes (msg_three m)) (four_bytes (msg_four m))) S Z (mb\<lparr>mb_bytes := H @ F' @ D\<rparr>)"
    using holds_first [OF h [unfolded encode_message_raw]] by metis
  have "put_bytes (length A + 6) (attr_first_value st a) (mb_bytes mb) = H @ attr_first_value st a @ D"
    unfolding h'(1) by (rule put_bytes_at) (use h'(2) l in simp_all)
  then show ?thesis using h'(3) [OF l] e
    by (simp add: holds_written_def first_written_def mb_put_def)
qed

lemma holds_written_talker:
  assumes h: "holds_message A (encode_message m) S Z mb" and ok: "message_ok m"
    and t: "msg_type m = at_type a" and s: "attr_sendable st a" and e: "msg_three m = []"
    and w: "at_type a = MSRP_TALKER_ADVERTISE"
  shows "holds_written st a m A S Z
     (write_talker_first_value (info_stream st (at_info a)) (info_dest st (at_info a)) (length A + 6) mb)"
proof -
  let ?s = "info_stream st (at_info a)" and ?d = "info_dest st (at_info a)"
  have l: "length (attr_first_value st a) = length (msg_first m)" "length (msg_first m) = 25" "length ?d = 6"
    using length_attr_first_value [OF s] ok t w s by (simp_all add: message_ok_def attr_sendable_def)
  obtain H D where h': "mb_bytes mb = H @ msg_first m @ D" "length H = length A + 6"
    "\<And>F'. length F' = length (msg_first m) \<Longrightarrow>
       holds_message A (raw_message (encode_attr_type (msg_type m)) (of_nat (length (msg_first m)))
       (push_bit 5 (msg_leave_all m)) (length (msg_three m)) F'
       (three_bytes (msg_three m)) (four_bytes (msg_four m))) S Z (mb\<lparr>mb_bytes := H @ F' @ D\<rparr>)"
    using holds_first [OF h [unfolded encode_message_raw]] by metis
  have "write_talker_first_value ?s ?d (length H) mb = mb\<lparr>mb_bytes := H @ attr_first_value st a @ D\<rparr>"
    using write_talker_inside [OF l(2,3) h'(1), of ?s] w l(3) by (simp add: attr_first_value_def Let_def)
  then show ?thesis using h'(2) h'(3) [OF l(1)] e
    by (simp add: holds_written_def first_written_def)
qed

text \<open>How much longer a message gets by one value.\<close>

definition msg_growth :: "mrp_message \<Rightarrow> nat" where
  "msg_growth m =
     (if length (msg_three m) mod 3 = 0 then 1 else 0) +
     (if has_fourpacked_events (msg_type m) \<and> length (msg_three m) mod 4 = 0 then 1 else 0)"

lemma message_ok_events:
  "message_ok m \<Longrightarrow> set (msg_three m) \<subseteq> {0..<6}"
  "message_ok m \<Longrightarrow> set (msg_four m) \<subseteq> {0..<4}"
  "message_ok m \<Longrightarrow> has_fourpacked_events (msg_type m) \<Longrightarrow> length (msg_four m) = length (msg_three m)"
  "message_ok m \<Longrightarrow> \<not> has_fourpacked_events (msg_type m) \<Longrightarrow> msg_four m = []"
  by (auto simp: message_ok_def)

lemma first_value_lengths_small: "first_value_lengths t \<le> 34"
  by (cases t) simp_all

lemma length_first_written:
  "message_ok m \<Longrightarrow> msg_type m = at_type a \<Longrightarrow> attr_sendable st a \<Longrightarrow>
     length (first_written st a m) = first_value_lengths (at_type a) \<and>
     length (msg_first m) = first_value_lengths (at_type a)"
  by (simp add: first_written_def length_attr_first_value message_ok_def)

lemma extend_raw:
  assumes "message_ok m" "msg_type m = at_type a" "attr_sendable st a"
  shows "encode_message (msg_extend st a v m) =
     raw_message (encode_attr_type (msg_type m)) (of_nat (length (msg_first m)))
       (push_bit 5 (msg_leave_all m)) (length (msg_three m) + 1) (first_written st a m)
       (three_bytes (msg_three m @ [v]))
       (four_bytes (if has_fourpacked_events (at_type a) then msg_four m @ [2] else msg_four m))"
  using length_first_written [OF assms]
  by (simp add: encode_message_raw msg_extend_def first_written_def)

lemma message_ok_extend:
  assumes "message_ok m" "msg_type m = at_type a" "attr_sendable st a" "v \<in> {0..<6}" "length (msg_three m) < 255"
  shows "message_ok (msg_extend st a v m)"
  using assms length_first_written [OF assms(1,2,3)]
  by (auto simp: message_ok_def msg_extend_def first_written_def)

lemma merge_finish_three:
  assumes h: "holds_written st a m A S Z mb" and ok: "message_ok m" and t: "msg_type m = at_type a"
    and s: "attr_sendable st a" and f: "\<not> has_fourpacked_events (at_type a)"
    and n: "length (msg_three m) < 255" and Z: "Z \<noteq> []"
  shows "holds_message A (encode_message (msg_extend st a v m)) S (drop (msg_growth m) Z)
     (set_num_values (length A) (length (msg_three m) + 1)
       (mrp_encode_three_packed_event (length A) v (at_type a) mb))"
proof -
  note l = length_first_written [OF ok t s]
  have f4: "msg_four m = []" using message_ok_events(4) [OF ok] f t by simp
  have "holds_message A (raw_message (encode_attr_type (msg_type m)) (of_nat (length (msg_first m)))
       (push_bit 5 (msg_leave_all m)) (length (msg_three m)) (first_written st a m)
       (three_bytes (msg_three m @ [v])) []) S (if length (msg_three m) mod 3 = 0 then tl Z else Z)
     (mrp_encode_three_packed_event (length A) v (at_type a) mb)"
    by (rule encode_three_step [OF _ Z refl])
      (use h f4 n l first_value_lengths_small [of "at_type a"] message_ok_events(1) [OF ok]
        in \<open>auto simp: holds_written_def\<close>)
  then show ?thesis
    using set_num_values_step extend_raw [OF ok t s, of v] f f4 t
    by (simp add: msg_growth_def drop_Suc split: if_splits)
qed

lemma merge_finish_four:
  assumes h: "holds_written st a m A S Z mb" and ok: "message_ok m" and t: "msg_type m = at_type a"
    and s: "attr_sendable st a" and f: "has_fourpacked_events (at_type a)"
    and n: "length (msg_three m) < 255" and Z: "2 \<le> length Z"
  shows "holds_message A (encode_message (msg_extend st a v m)) S (drop (msg_growth m) Z)
     (set_num_values (length A) (length (msg_three m) + 1)
       (mrp_encode_four_packed_event (length A) 2 (at_type a)
         (mrp_encode_three_packed_event (length A) v (at_type a) mb)))"
proof -
  note l = length_first_written [OF ok t s]
  have f4: "length (msg_four m) = length (msg_three m)" using message_ok_events(3) [OF ok] f t by simp
  let ?Z1 = "if length (msg_three m) mod 3 = 0 then tl Z else Z"
  have Z1: "Z \<noteq> []" "?Z1 \<noteq> []" using Z by (cases Z; auto)+
  have h3: "holds_message A (raw_message (encode_attr_type (msg_type m)) (of_nat (length (msg_first m)))
       (push_bit 5 (msg_leave_all m)) (length (msg_three m)) (first_written st a m)
       (three_bytes (msg_three m @ [v])) (four_bytes (msg_four m))) S ?Z1
     (mrp_encode_three_packed_event (length A) v (at_type a) mb)"
    by (rule encode_three_step [OF _ Z1(1) refl])
      (use h f4 n l first_value_lengths_small [of "at_type a"] message_ok_events(1) [OF ok]
        in \<open>auto simp: holds_written_def\<close>)
  have "holds_message A (raw_message (encode_attr_type (msg_type m)) (of_nat (length (msg_first m)))
       (push_bit 5 (msg_leave_all m)) (length (msg_three m)) (first_written st a m)
       (three_bytes (msg_three m @ [v])) (four_bytes (msg_four m @ [2]))) S
     (if length (msg_three m) mod 4 = 0 then tl ?Z1 else ?Z1)
     (mrp_encode_four_packed_event (length A) 2 (at_type a)
       (mrp_encode_three_packed_event (length A) v (at_type a) mb))"
    by (rule encode_four_step [OF h3 Z1(2)])
      (use f4 n l first_value_lengths_small [of "at_type a"] message_ok_events(2) [OF ok] in auto)
  then show ?thesis
    using set_num_values_step extend_raw [OF ok t s, of v] f t
    by (simp add: msg_growth_def drop_Suc split: if_splits)
qed

text \<open>What the code reads from the message at the offset \<open>length A\<close>.\<close>

lemma holds_reads:
  assumes h: "holds_message A (encode_message m) S Z mb" and ok: "message_ok m"
  shows "unat (mb_bytes mb ! (length A + 5)) = length (msg_three m)"
    and "mb_bytes mb ! length A = encode_attr_type (msg_type m)"
    and "k + n \<le> length (msg_first m) \<Longrightarrow>
           get_bytes (length A + 6 + k) n (mb_bytes mb) = take n (drop k (msg_first m))"
proof -
  have n: "length (msg_three m) < 256" using ok by (simp add: message_ok_def)
  show "unat (mb_bytes mb ! (length A + 5)) = length (msg_three m)"
    using h raw_num_values [OF n] by (simp only: holds_message_def encode_message_raw)
  show "mb_bytes mb ! length A = encode_attr_type (msg_type m)"
    using h raw_type by (simp only: holds_message_def encode_message_raw)
  assume k: "k + n \<le> length (msg_first m)"
  obtain H D where "mb_bytes mb = H @ msg_first m @ D" "length H = length A + 6"
    using holds_first [OF h [unfolded encode_message_raw]] by metis
  then show "get_bytes (length A + 6 + k) n (mb_bytes mb) = take n (drop k (msg_first m))"
    using get_bytes_inside [OF _ k, of "length A + 6 + k" H D] by simp
qed

text \<open>Within one protocol the attribute type byte determines the attribute type.\<close>

lemma encode_attr_type_inject:
  "attr_etype t = attr_etype u \<Longrightarrow> encode_attr_type t = encode_attr_type u \<longleftrightarrow> t = u"
  by (cases t; cases u)
    (simp_all add: attr_etype_def AVB_SRP_ETHERTYPE_def AVB_MMRP_ETHERTYPE_def AVB_MVRP_ETHERTYPE_def)

lemma put_bytes_twice:
  "off + length x + length y \<le> length b \<Longrightarrow>
     put_bytes (off + length x) y (put_bytes off x b) = put_bytes off (x @ y) b"
  by (simp add: put_bytes_def ac_simps)

lemma write_listener_put:
  assumes h: "holds_message A (encode_message m) S Z mb" and ok: "message_ok m"
    and t: "msg_type m = at_type a" "at_type a = MSRP_LISTENER"
  shows "write_listener_first_value (info_stream st (at_info a)) (length A + 6) mb =
     mb_put (length A + 6) (attr_first_value st a) mb"
proof -
  have "length (mb_bytes mb) \<ge> length A + 14"
    using h ok t by (simp add: holds_message_def encode_message_raw message_ok_def)
  then show ?thesis
    using put_bytes_twice [of "length A + 6" "hton_32 (fst (streamId (info_stream st (at_info a))))"
        "hton_32 (snd (streamId (info_stream st (at_info a))))" "mb_bytes mb"] t(2)
    by (simp add: write_listener_first_value_def mb_put_def attr_first_value_def Let_def)
qed

lemma merge_msg_step:
  assumes h: "holds_message A (encode_message m) S Z mb" and ok: "message_ok m"
    and e: "attr_etype (msg_type m) = attr_etype (at_type a)" and s: "attr_sendable st a"
    and n: "length (msg_three m) < 255" and Z: "(if has_fourpacked_events (at_type a) then 2 else 1) \<le> length Z"
  shows "msg_accepts st a m \<Longrightarrow> \<exists>mb'. merge_msg st a (length A) v mb = (True, mb') \<and>
           holds_message A (encode_message (msg_extend st a v m)) S (drop (msg_growth m) Z) mb'"
    and "\<not> msg_accepts st a m \<Longrightarrow> merge_msg st a (length A) v mb = (False, mb)"
proof -
  have Z1: "Z \<noteq> []" using Z by (auto split: if_splits)
  have Z2: "at_type a = MSRP_LISTENER \<Longrightarrow> 2 \<le> length Z" using Z by (simp add: has_fourpacked_events_def)
  note rd = holds_reads [OF h ok]
  note tp = encode_attr_type_inject [OF e]
  note mg = merge_msg_def avb_srp_merge_message_def merge_talker_message_def merge_listener_message_def
    merge_domain_message_def avb_mvrp_merge_message_def avb_mmrp_merge_message_def
  note acc = msg_accepts_def Let_def
  have len: "length (msg_first m) = first_value_lengths (at_type a)" if "msg_type m = at_type a"
    using ok that by (simp add: message_ok_def)
  show "\<exists>mb'. merge_msg st a (length A) v mb = (True, mb') \<and>
      holds_message A (encode_message (msg_extend st a v m)) S (drop (msg_growth m) Z) mb'"
    if ac: "msg_accepts st a m"
  proof -
    have t: "msg_type m = at_type a" using ac by (simp add: acc)
    note fin3 = merge_finish_three [OF _ ok t s _ n Z1] and fin4 = merge_finish_four [OF _ ok t s _ n Z2]
    note put = holds_written_put [OF h ok t s] and tlk = holds_written_talker [OF h ok t s]
      and keep = holds_written_keep [OF h]
    show ?thesis
    proof (cases "at_type a")
      case MSRP_TALKER_ADVERTISE
      then show ?thesis
        using ac t rd(1,2) rd(3) [of 8 6] rd(3) [of 0 8] rd(3) [of 14 2] rd(3) [of 16 2] len [OF t]
          fin3 [OF tlk] fin3 [OF keep]
        by (auto simp: mg acc check_talker_merge_def has_fourpacked_events_def add.assoc)
    next
      case MSRP_TALKER_FAILED
      then show ?thesis using s by (simp add: attr_sendable_def)
    next
      case MSRP_LISTENER
      then show ?thesis
        using ac t rd(1,2) rd(3) [of 0 8] len [OF t] write_listener_put [OF h ok t MSRP_LISTENER, of st]
          fin4 [OF put _ MSRP_LISTENER] fin4 [OF keep _ MSRP_LISTENER]
        by (auto simp: mg acc check_listener_merge_def has_fourpacked_events_def)
    next
      case MSRP_DOMAIN_VECTOR
      then show ?thesis
        using ac t rd(1,2) fin3 [OF put]
        by (auto simp: mg acc has_fourpacked_events_def attr_first_value_def)
    next
      case MMRP_MAC_VECTOR
      then show ?thesis
        using ac t rd(1,2) fin3 [OF put]
        by (auto simp: mg acc has_fourpacked_events_def attr_first_value_def)
    next
      case MVRP_VID_VECTOR
      then show ?thesis
        using ac t rd(1,2) fin3 [OF put]
        by (auto simp: mg acc has_fourpacked_events_def attr_first_value_def)
    qed
  qed
  show "merge_msg st a (length A) v mb = (False, mb)" if na: "\<not> msg_accepts st a m"
    using na rd(1,2) rd(3) [of 8 6] rd(3) [of 0 8] rd(3) [of 14 2] rd(3) [of 16 2] len tp s
    by (cases "at_type a")
      (auto simp: mg acc check_talker_merge_def check_listener_merge_def check_domain_merge_def
        attr_sendable_def add.assoc)
qed

section \<open>The MRPDU as a list of messages\<close>

abbreviation encode_messages :: "mrp_message list \<Rightarrow> u8 list" where
  "encode_messages ms \<equiv> concat (map encode_message ms)"

definition holds_pdu :: "u8 list \<Rightarrow> mrp_message list \<Rightarrow> u8 list \<Rightarrow> mrp_buf \<Rightarrow> bool" where
  "holds_pdu A ms Z mb \<longleftrightarrow>
     mb_bytes mb = A @ encode_messages ms @ Z \<and> mb_ptr mb = length A + length (encode_messages ms)"

definition pdu_ok :: "u16 \<Rightarrow> mrp_message list \<Rightarrow> bool" where
  "pdu_ok etype ms \<longleftrightarrow> list_all (\<lambda>m. message_ok m \<and> attr_etype (msg_type m) = etype) ms"

lemma holds_pdu_Cons:
  "holds_pdu A (m # ms) Z mb \<longleftrightarrow> holds_message A (encode_message m) (encode_messages ms) Z mb"
  by (simp add: holds_pdu_def holds_message_def add.assoc)

lemma holds_pdu_shift:
  "holds_pdu A (m # ms) Z mb \<longleftrightarrow> holds_pdu (A @ encode_message m) ms Z mb"
  by (simp add: holds_pdu_def add.assoc)

lemma length_encode_message: "length (encode_message m) = 4 + msg_list_length m"
  by (simp add: encode_message_def msg_list_length_def)

lemma message_ok_size: "message_ok m \<Longrightarrow> msg_list_length m < 65536"
  using first_value_lengths_small [of "msg_type m"]
  by (auto simp: message_ok_def msg_list_length_def split: if_splits)

lemma encode_attr_type_nonzero: "encode_attr_type t \<noteq> 0"
  by (cases t) simp_all

lemma message_next:
  assumes "message_ok m"
  shows "attribute_length_length (A @ encode_message m @ D) (length A) = msg_list_length m"
    and "msg_here (A @ encode_message m @ D) (length A)"
  using list_length_read [OF message_ok_size [OF assms], of "length A"
      "A @ [encode_attr_type (msg_type m), of_nat (length (msg_first m))]"]
  by (simp_all add: encode_message_def msg_here_def encode_attr_type_nonzero)

lemma doTx_loop_spec:
  assumes "holds_pdu A ms Z mb" "pdu_ok (attr_etype (at_type a)) ms" "attr_sendable st a"
    "list_all (\<lambda>m. length (msg_three m) < 255) ms"
    "(if has_fourpacked_events (at_type a) then 2 else 1) \<le> length Z" "e = mb_ptr mb"
  shows "case find_idx (msg_accepts st a) ms of
      Some i \<Rightarrow> \<exists>nx mb'. doTx_loop st a v e (length A) mb = (True, nx, mb') \<and>
                  holds_pdu A (modify_nth i (msg_extend st a v) ms) (drop (msg_growth (ms ! i)) Z) mb'
    | None \<Rightarrow> doTx_loop st a v e (length A) mb = (False, e, mb)"
  using assms
proof (induction ms arbitrary: A)
  case Nil
  then show ?case by (subst doTx_loop.simps) (simp add: holds_pdu_def)
next
  case (Cons m ms)
  note h = Cons.prems(1)
  have ok: "message_ok m" and e: "attr_etype (msg_type m) = attr_etype (at_type a)"
    and n: "length (msg_three m) < 255"
    using Cons.prems(2,4) by (simp_all add: pdu_ok_def)
  have b: "mb_bytes mb = A @ encode_message m @ (encode_messages ms @ Z)"
    and ptr: "mb_ptr mb = length A + length (encode_message m) + length (encode_messages ms)"
    using h by (simp_all add: holds_pdu_def)
  have here: "length A < mb_ptr mb \<and> msg_here (mb_bytes mb) (length A)"
    unfolding b using message_next(2) [OF ok] ptr by (simp add: length_encode_message)
  note step = merge_msg_step [OF h [unfolded holds_pdu_Cons] ok e Cons.prems(3) n Cons.prems(5)]
  show ?case
  proof (cases "msg_accepts st a m")
    case True
    from step(1) [OF this, of v] obtain mb' where mb': "merge_msg st a (length A) v mb = (True, mb')"
      "holds_message A (encode_message (msg_extend st a v m)) (encode_messages ms) (drop (msg_growth m) Z) mb'"
      by blast
    have "\<exists>nx. doTx_loop st a v e (length A) mb = (True, nx, mb')"
      by (subst doTx_loop.simps) (simp add: here mb'(1) Cons.prems(6) Let_def)
    then show ?thesis using True mb'(2) by (auto simp: modify_nth_def holds_pdu_Cons)
  next
    case False
    from step(2) [OF this] have m: "merge_msg st a (length A) v mb = (False, mb)" .
    have nx: "length A + 4 + attribute_length_length (mb_bytes mb) (length A) = length (A @ encode_message m)"
      unfolding b message_next(1) [OF ok] by (simp add: length_encode_message)
    have "doTx_loop st a v e (length A) mb = doTx_loop st a v e (length (A @ encode_message m)) mb"
      by (subst doTx_loop.simps) (simp only: here Cons.prems(6) simp_thms if_True m Let_def split_beta fst_conv snd_conv if_False nx)
    moreover have "holds_pdu (A @ encode_message m) ms Z mb" using h by (simp add: holds_pdu_shift)
    ultimately show ?thesis
      using Cons.IH [of "A @ encode_message m"] Cons.prems False
      by (auto simp: pdu_ok_def modify_nth_def holds_pdu_shift split: option.splits)
  qed
qed

lemma empty_message_stores:
  assumes "length Y = 8 + k" "length L = 2"
  shows "put_bytes (length P + 4) [u, w] (put_bytes (length P + 2) L (put_bytes (length P) [x, y]
      (put_bytes (length P) (replicate (8 + k) 0) (P @ Y @ D)))) =
     P @ ([x, y] @ L @ [u, w] @ replicate k (0::u8) @ [0, 0]) @ D"
proof -
  have "put_bytes (length P) (replicate (8 + k) 0) (P @ Y @ D) = P @ replicate (8 + k) 0 @ D"
    by (rule put_bytes_at) (simp_all add: assms(1))
  also have "\<dots> = P @ [0, 0] @ ([0, 0] @ [0, 0] @ replicate k 0 @ [0, 0]) @ D"
    by (simp add: replicate_app_Cons_same numeral_eq_Suc)
  also have "put_bytes (length P) [x, y] \<dots> = P @ [x, y] @ ([0, 0] @ [0, 0] @ replicate k 0 @ [0, 0]) @ D"
    by (rule put_bytes_at) simp_all
  also have "\<dots> = (P @ [x, y]) @ [0, 0] @ ([0, 0] @ replicate k 0 @ [0, 0]) @ D" by simp
  also have "put_bytes (length P + 2) L \<dots> = (P @ [x, y]) @ L @ ([0, 0] @ replicate k 0 @ [0, 0]) @ D"
    by (rule put_bytes_at) (simp_all add: assms(2))
  also have "\<dots> = (P @ [x, y] @ L) @ [0, 0] @ (replicate k 0 @ [0, 0]) @ D" by simp
  also have "put_bytes (length P + 4) [u, w] \<dots> = (P @ [x, y] @ L) @ [u, w] @ (replicate k 0 @ [0, 0]) @ D"
    by (rule put_bytes_at) (simp_all add: assms(2))
  finally show ?thesis by simp
qed

lemma create_empty_spec:
  assumes "holds_pdu A ms Z mb" and "8 + first_value_lengths t \<le> length Z"
  shows "holds_pdu A (ms @ [msg_empty t la]) (drop (8 + first_value_lengths t) Z) (create_empty_msg t la mb)"
proof -
  let ?k = "first_value_lengths t"
  let ?P = "A @ encode_messages ms"
  let ?D = "drop (8 + ?k) Z"
  obtain Y where Z: "Z = Y @ ?D" "length Y = 8 + ?k"
    using assms(2) by (metis append_take_drop_id length_take min.absorb2)
  obtain b where mb: "mb = \<lparr>mb_bytes = b, mb_ptr = length ?P\<rparr>"
    using assms(1) by (cases mb) (simp add: holds_pdu_def)
  have b: "b = ?P @ Y @ ?D" using assms(1) Z(1) by (simp add: holds_pdu_def mb)
  have sz: "4 + (?k + 2 + 2) = 8 + ?k" by simp
  have "create_empty_msg t la mb =
      \<lparr>mb_bytes = ?P @ ([encode_attr_type t, of_nat ?k] @ hton_16 (of_nat (?k + 2 + 2)) @ [push_bit 5 la, 0] @
          replicate ?k 0 @ [0, 0]) @ ?D, mb_ptr = length ?P + (8 + ?k)\<rparr>"
    unfolding create_empty_msg_def Let_def mb_put_def mb mrp_buf.simps sz b
    by (simp only: empty_message_stores [OF Z(2) length_hton_16])
  moreover have "encode_message (msg_empty t la) =
      [encode_attr_type t, of_nat ?k] @ hton_16 (of_nat (?k + 2 + 2)) @ [push_bit 5 la, 0] @ replicate ?k 0 @ [0, 0]"
    by (simp add: encode_message_def msg_empty_def len_bytes_def msg_list_length_def add.commute)
  ultimately have c: "create_empty_msg t la mb =
      \<lparr>mb_bytes = ?P @ encode_message (msg_empty t la) @ ?D, mb_ptr = length ?P + (8 + ?k)\<rparr>"
    by (simp only:)
  show ?thesis unfolding c
    by (simp add: holds_pdu_def length_encode_message msg_list_length_def msg_empty_def)
qed

section \<open>Refinement\<close>

text \<open>The send buffer of the state holds the given messages, all of the protocol configured.\<close>

definition mrp_building :: "avb_st \<Rightarrow> mrp_message list \<Rightarrow> bool" where
  "mrp_building st ms \<longleftrightarrow>
     (\<exists>A Z. length A = MRP_START \<and> holds_pdu A ms Z (av_send st)) \<and>
     length (mb_bytes (av_send st)) = MRP_SEND_BUFFER_SIZE \<and> pdu_ok (av_etype st) ms"

lemma length_msg_extend:
  assumes "message_ok m" "msg_type m = at_type a" "attr_sendable st a"
  shows "length (encode_message (msg_extend st a v m)) = length (encode_message m) + msg_growth m"
proof -
  note l = length_first_written [OF assms]
  have d: "(n + 3) div 3 = (n + 2) div 3 + (if n mod 3 = 0 then 1 else 0)"
    "(n + 4) div 4 = (n + 3) div 4 + (if n mod 4 = 0 then 1 else 0)" for n :: nat
    by presburger+
  show ?thesis
    unfolding extend_raw [OF assms] unfolding encode_message_raw length_raw_message msg_growth_def
    using l assms(2) message_ok_events(3,4) [OF assms(1)] d [of "length (msg_three m)"]
    by (cases "has_fourpacked_events (at_type a)") (simp_all add: add.commute [of 3] add.commute [of 4])
qed

lemma msg_growth_le: "msg_growth m \<le> (if has_fourpacked_events (msg_type m) then 2 else 1)"
  by (simp add: msg_growth_def)

lemma message_ok_empty: "la \<in> {0, 1} \<Longrightarrow> message_ok (msg_empty t la)"
  by (simp add: message_ok_def msg_empty_def)

lemma length_modify_encode:
  assumes "i < length ms" "length (encode_message (f (ms ! i))) = length (encode_message (ms ! i)) + k"
  shows "length (encode_messages (modify_nth i f ms)) = length (encode_messages ms) + k"
proof -
  have "modify_nth i f ms = take i ms @ f (ms ! i) # drop (Suc i) ms"
    using assms(1) by (simp add: modify_nth_def upd_conv_take_nth_drop)
  moreover have "ms = take i ms @ ms ! i # drop (Suc i) ms" using assms(1) by (rule id_take_nth_drop)
  then have "length (encode_messages ms) =
      length (encode_messages (take i ms)) + length (encode_message (ms ! i)) + length (encode_messages (drop (Suc i) ms))"
    by (metis concat.simps(2) concat_append length_append list.map(2) map_append add.assoc)
  ultimately show ?thesis using assms(2) by simp
qed

lemma doTx_refines:
  assumes b: "mrp_building st ms" and room: "mb_ptr (av_send st) \<le> 466"
    and few: "list_all (\<lambda>m. length (msg_three m) < 255) ms"
    and a: "a = av_attrs st ! j" "attr_sendable st a" "attr_etype (at_type a) = av_etype st"
    and v: "v \<in> {0..<6}"
  shows "\<exists>mb. doTx j v st = mrp_send (st\<lparr>av_send := mb\<rparr>) \<and>
           mrp_building (st\<lparr>av_send := mb\<rparr>) (transmit_spec st a v ms)"
proof -
  obtain A Z where A: "length A = 15" and h: "holds_pdu A ms Z (av_send st)"
    and len: "length (mb_bytes (av_send st)) = 500" and ok: "pdu_ok (av_etype st) ms"
    using b by (auto simp: mrp_building_def)
  let ?mb = "av_send st"
  let ?e = "msg_extend st a v"
  have Zl: "length Z + mb_ptr ?mb = 500" using h len by (simp add: holds_pdu_def)
  have Z: "34 \<le> length Z" using Zl room by simp
  have Z2: "(if has_fourpacked_events (at_type a) then 2 else 1) \<le> length Z" using Z by simp
  have ok': "pdu_ok (attr_etype (at_type a)) ms" using ok a(3) by simp
  note loop = doTx_loop_spec [OF h ok' a(2) few Z2 refl, of v]
  show ?thesis
  proof (cases "find_idx (msg_accepts st a) ms")
    case (Some i)
    note i = find_idx_SomeD [OF Some]
    have mi: "message_ok (ms ! i)" "msg_type (ms ! i) = at_type a" "length (msg_three (ms ! i)) < 255"
      using i ok few by (simp_all add: pdu_ok_def list_all_length msg_accepts_def)
    from loop Some A obtain nx mb where l: "doTx_loop st a v (mb_ptr ?mb) 15 ?mb = (True, nx, mb)"
      and h2: "holds_pdu A (modify_nth i ?e ms) (drop (msg_growth (ms ! i)) Z) mb" by auto
    have "msg_growth (ms ! i) \<le> length Z" using msg_growth_le [of "ms ! i"] Z by (simp split: if_splits)
    then have "length (mb_bytes mb) = 500"
      using h2 Zl h A length_modify_encode [of i ms ?e, OF _ length_msg_extend [OF mi(1,2) a(2)]] i
      by (simp add: holds_pdu_def)
    moreover have "pdu_ok (av_etype st) (modify_nth i ?e ms)"
      using ok message_ok_extend [OF mi(1,2) a(2) v mi(3)] mi(2) a(3)
      by (auto simp: pdu_ok_def msg_extend_def intro!: list_all_modify_nth)
    ultimately show ?thesis
      using l h2 A Some by (intro exI [of _ mb])
        (auto simp: doTx_def a(1) [symmetric] mrp_building_def transmit_spec_def)
  next
    case None
    with loop A have l: "doTx_loop st a v (mb_ptr ?mb) 15 ?mb = (False, mb_ptr ?mb, ?mb)" by simp
    let ?t = "at_type a" and ?m = "msg_empty (at_type a) 0"
    have fv: "first_value_lengths ?t \<le> 25" "has_fourpacked_events ?t \<Longrightarrow> first_value_lengths ?t = 8"
      using a(2) by (cases ?t; simp add: attr_sendable_def has_fourpacked_events_def)+
    let ?Z = "drop (8 + first_value_lengths ?t) Z"
    have Z': "(if has_fourpacked_events ?t then 2 else 1) \<le> length ?Z" using Z fv by auto
    let ?mb1 = "create_empty_msg ?t 0 ?mb"
    have h1: "holds_pdu A (ms @ [?m]) ?Z ?mb1"
      by (rule create_empty_spec [OF h]) (use Z fv in simp)
    let ?A = "A @ encode_messages ms"
    have h1': "holds_message ?A (encode_message ?m) [] ?Z ?mb1"
      using h1 by (simp add: holds_pdu_def holds_message_def)
    have m: "message_ok ?m" "msg_type ?m = ?t" "length (msg_three ?m) < 255" "msg_accepts st a ?m"
      by (simp_all add: message_ok_empty) (simp_all add: msg_empty_def msg_accepts_def)
    from merge_msg_step(1) [OF h1' m(1) _ a(2) m(3) Z' m(4), of v] m(2) obtain mb where
      mg: "merge_msg st a (length ?A) v ?mb1 = (True, mb)"
      and h2: "holds_message ?A (encode_message (?e ?m)) [] (drop (msg_growth ?m) ?Z) mb"
      by auto
    have h3: "holds_pdu A (ms @ [?e ?m]) (drop (msg_growth ?m) ?Z) mb"
      using h2 by (simp add: holds_pdu_def holds_message_def)
    have g: "msg_growth ?m \<le> length ?Z" using msg_growth_le [of ?m] Z' m(2) by (simp split: if_splits)
    have "length (encode_message (?e ?m)) = 8 + first_value_lengths ?t + msg_growth ?m"
      using length_msg_extend [OF m(1,2) a(2)] by (simp add: length_encode_message msg_list_length_def msg_empty_def)
    then have "length (mb_bytes mb) = 500"
      using h3 h Zl A g Z fv by (simp add: holds_pdu_def)
    moreover have "pdu_ok (av_etype st) (ms @ [?e ?m])"
      using ok message_ok_extend [OF m(1,2) a(2) v m(3)] m(2) a(3)
      by (auto simp: pdu_ok_def msg_extend_def)
    moreover have "mb_ptr ?mb = length ?A" using h by (simp add: holds_pdu_def)
    ultimately show ?thesis
      using l h3 A None mg by (intro exI [of _ mb])
        (auto simp: doTx_def a(1) [symmetric] mrp_building_def transmit_spec_def)
  qed
qed

end
