(* ===== verification/Mrp_Roundtrip.thy ===== *)
theory Mrp_Roundtrip
  imports Mrp_Refine
begin

text \<open>
  From the messages in the send buffer to the frame on the wire, and from a frame to the events
  of the receiver: the frame that \<open>force_send\<close> hands to the MAC is parsed by
  \<open>avb_mrp_process_packet\<close> into exactly the values of the messages, with and without the list
  length fields.
\<close>

definition encode_short :: "mrp_message \<Rightarrow> u8 list" where
  "encode_short m =
     [encode_attr_type (msg_type m), of_nat (length (msg_first m)),
      push_bit 5 (msg_leave_all m), of_nat (length (msg_three m))] @
     msg_first m @ three_bytes (msg_three m) @ four_bytes (msg_four m) @ [0, 0]"

definition encode_wire :: "u16 \<Rightarrow> mrp_message \<Rightarrow> u8 list" where
  "encode_wire etype m = (if etype = AVB_SRP_ETHERTYPE then encode_message m else encode_short m)"

abbreviation wire_messages :: "u16 \<Rightarrow> mrp_message list \<Rightarrow> u8 list" where
  "wire_messages etype ms \<equiv> concat (map (encode_wire etype) ms)"

lemma encode_wire_srp [simp]: "encode_wire AVB_SRP_ETHERTYPE = encode_message"
  by (simp add: fun_eq_iff encode_wire_def)

lemma encode_wire_short: "etype \<noteq> AVB_SRP_ETHERTYPE \<Longrightarrow> encode_wire etype = encode_short"
  by (simp add: fun_eq_iff encode_wire_def)

section \<open>Removing the length fields\<close>

lemma encode_message_split:
  "encode_message m = [encode_attr_type (msg_type m), of_nat (length (msg_first m))] @
     len_bytes (msg_list_length m) @ drop 2 (encode_short m)"
  by (simp add: encode_message_def encode_short_def)

lemma length_encode_short: "length (encode_short m) = 2 + msg_list_length m"
  by (simp add: encode_short_def msg_list_length_def)

lemma encode_messages_end: "ms \<noteq> [] \<Longrightarrow> \<exists>X. encode_messages ms = X @ [0, 0]"
proof (induction ms rule: rev_induct)
  case (snoc m ms)
  have "\<exists>Y. encode_message m = Y @ [0, 0]" by (simp add: encode_message_def)
  then show ?case by (metis append.assoc concat.simps concat_append list.simps(8,9) map_append append_Nil2)
qed simp

lemma encode_tail_end: "\<exists>X. drop 2 (encode_short m) @ encode_messages ms = X @ [0, 0]"
proof (cases "ms = []")
  case True
  then show ?thesis by (simp add: encode_short_def)
next
  case False
  from encode_messages_end [OF this] show ?thesis by (metis append.assoc)
qed

lemma strip_loop_spec:
  assumes "list_all message_ok ms"
  shows "strip_loop (A @ encode_messages ms @ Z) (length A) (length A + length (encode_messages ms)) =
     (A @ concat (map encode_short ms) @ replicate (2 * length ms) 0 @ Z,
      length A + length (concat (map encode_short ms)))"
  using assms
proof (induction ms arbitrary: A Z)
  case Nil
  then show ?case by (subst strip_loop.simps) simp
next
  case (Cons m ms)
  let ?H = "[encode_attr_type (msg_type m), of_nat (length (msg_first m))]"
  let ?L = "len_bytes (msg_list_length m)"
  let ?R = "drop 2 (encode_short m) @ encode_messages ms"
  let ?b = "A @ encode_message m @ (encode_messages ms @ Z)"
  let ?e = "length A + length (encode_messages (m # ms))"
  have ok: "message_ok m" "list_all message_ok ms" using Cons.prems by simp_all
  obtain X where X: "?R = X @ [0, 0]" using encode_tail_end by blast
  have b: "?b = A @ ?H @ ?L @ ?R @ Z" by (simp add: encode_message_split)
  have Rl: "?e = length A + 4 + length ?R" by (simp add: encode_message_split)
  have mv: "memmove (length A + 2) (length A + 4) (?e - 2 - (length A + 2)) ?b = (A @ encode_short m) @ encode_messages ms @ [0, 0] @ Z"
  proof -
    have "?e - 2 - (length A + 2) = length ?R" using Rl by simp
    moreover have "get_bytes (length A + 4) (length ?R) (A @ ?H @ ?L @ ?R @ Z) = ?R"
      using get_bytes_at [of "length A + 4" "A @ ?H @ ?L" "length ?R" ?R Z] by simp
    moreover have "put_bytes (length A + 2) ?R (A @ ?H @ ?L @ ?R @ Z) = (A @ ?H) @ ?R @ [0, 0] @ Z"
      using put_bytes_at [of "length A + 2" "A @ ?H" "?L @ X" ?R "[0, 0] @ Z"] unfolding X by simp
    moreover have "?H @ drop 2 (encode_short m) = encode_short m" by (simp add: encode_short_def)
    ultimately show ?thesis unfolding b memmove_def
      by (simp only: append.assoc) (metis append.assoc)
  qed
  have here: "length A < ?e \<and> msg_here ?b (length A)"
    using message_next(2) [OF ok(1)] by (simp add: length_encode_message)
  have nx: "length A + 4 + attribute_length_length ?b (length A) - 2 = length (A @ encode_short m)"
    unfolding message_next(1) [OF ok(1)] by (simp add: length_encode_short)
  have e: "?e - 2 = length (A @ encode_short m) + length (encode_messages ms)"
    by (simp add: length_encode_message length_encode_short)
  have "strip_loop ?b (length A) ?e =
      strip_loop ((A @ encode_short m) @ encode_messages ms @ ([0, 0] @ Z)) (length (A @ encode_short m))
        (length (A @ encode_short m) + length (encode_messages ms))"
    by (subst strip_loop.simps, simp only: here simp_thms if_True, simp only: mv nx, simp only: e)
  also have "\<dots> = (A @ concat (map encode_short (m # ms)) @ replicate (2 * length (m # ms)) 0 @ Z,
      length A + length (concat (map encode_short (m # ms))))"
    using Cons.IH [OF ok(2), of "A @ encode_short m" "[0, 0] @ Z"]
    by (simp add: replicate_app_Cons_same)
  finally show ?case by simp
qed

section \<open>The frame\<close>

lemma force_send_frame:
  assumes h: "holds_pdu A ms Z (av_send st)" "length A = 15" "pdu_ok (av_etype st) ms" "ms \<noteq> []"
  shows "\<exists>k. 2 \<le> k \<and> 64 \<le> length (A @ wire_messages (av_etype st) ms @ replicate k 0) \<and>
     av_out (force_send st) = av_out st @ [MacTx (A @ wire_messages (av_etype st) ms @ replicate k 0)]"
proof -
  let ?ptr = "mb_ptr (av_send st)"
  let ?e = "if ?ptr + 4 < 64 then 64 else ?ptr + 4"
  have mok: "list_all message_ok ms" using h(3) by (simp add: pdu_ok_def list_all_iff)
  have ptr: "?ptr = length (A @ encode_messages ms)" using h(1) by (simp add: holds_pdu_def)
  have bytes: "mb_bytes (av_send st) = A @ encode_messages ms @ Z" using h(1) by (simp add: holds_pdu_def)
  have ne: "?ptr \<noteq> 15" using h(2,4) ptr by (cases ms) (simp_all add: length_encode_message)
  have out: "av_out (force_send st) = av_out st @ [MacTx (take ?e (put_bytes ?ptr (replicate (?e - ?ptr) 0)
      (mb_bytes (strip_attribute_list_length_fields (av_etype st) (av_send st)))))]"
    using ne by (simp add: force_send_def Let_def mb_put_def)
  have fill: "take ?e (put_bytes ?ptr (replicate (?e - ?ptr) 0) (P @ Y)) = P @ replicate (?e - ?ptr) 0"
    if "length P = ?ptr" for P Y :: "u8 list"
    using that by (simp add: put_bytes_def)
  show ?thesis
  proof (cases "av_etype st = AVB_SRP_ETHERTYPE")
    case True
    then show ?thesis
      using out fill [of "A @ encode_messages ms" Z] ptr bytes
      by (intro exI [of _ "?e - ?ptr"]) (auto simp: strip_attribute_list_length_fields_def)
  next
    case False
    let ?S = "concat (map encode_short ms)"
    have "length ?S + 2 * length ms = length (encode_messages ms)"
      by (induction ms) (simp_all add: length_encode_message length_encode_short)
    then have l: "length (A @ ?S @ replicate (2 * length ms) 0) = ?ptr" using ptr by simp
    have sb: "mb_bytes (strip_attribute_list_length_fields (av_etype st) (av_send st)) =
        (A @ ?S @ replicate (2 * length ms) 0) @ Z"
      using False strip_loop_spec [OF mok, of A Z] bytes ptr h(2)
      by (simp add: strip_attribute_list_length_fields_def case_prod_unfold Let_def)
    define k where "k = ?e - ?ptr"
    have k: "2 \<le> k" "64 \<le> ?ptr + k" by (auto simp: k_def)
    have "av_out (force_send st) = av_out st @ [MacTx (A @ ?S @ replicate (2 * length ms) 0 @ replicate k 0)]"
      using out fill [OF l, of Z] sb by (simp add: k_def)
    then show ?thesis
      using k l False
      by (intro exI [of _ "2 * length ms + k"]) (simp add: encode_wire_short replicate_add)
  qed
qed

section \<open>Reception\<close>

text \<open>What one message means to a receiver: the leave-all event, then its values in order.\<close>

definition receive_message :: "u32 \<Rightarrow> mrp_message \<Rightarrow> avb_st \<Rightarrow> avb_st" where
  "receive_message now m st =
     fold (\<lambda>i. mrp_receive_value now (msg_type m) (msg_first m) i (msg_three m ! i)
                 (if has_fourpacked_events (msg_type m) then msg_four m ! i else 0))
       [0..<length (msg_three m)]
       (if msg_leave_all m \<noteq> 0 then attribute_type_event now (msg_type m) MRP_EVENT_RECEIVE_LEAVE_ALL st else st)"

lemma decode_three_digits:
  assumes "a \<in> {0..<6}" "b \<in> {0..<6}" "c \<in> {0..<6}"
  shows "decode_threepacked (uint (word_of_int (pack_three a b c) :: u8)) 0 = a"
    "decode_threepacked (uint (word_of_int (pack_three a b c) :: u8)) (Suc 0) = b"
    "decode_threepacked (uint (word_of_int (pack_three a b c) :: u8)) 2 = c"
proof -
  have p: "map (decode_threepacked (pack_three a b c)) [0, 1, 2] = [a, b, c] \<and> pack_three a b c \<in> {0..<256}"
    using packed_digits [of a b c 0 0 0 0] assms by simp
  then have "uint (word_of_int (pack_three a b c) :: u8) = pack_three a b c" by (simp add: uint_word_small)
  with p show "decode_threepacked (uint (word_of_int (pack_three a b c) :: u8)) 0 = a"
    "decode_threepacked (uint (word_of_int (pack_three a b c) :: u8)) (Suc 0) = b"
    "decode_threepacked (uint (word_of_int (pack_three a b c) :: u8)) 2 = c" by simp_all
qed

lemma decode_four_digits:
  assumes "a \<in> {0..<4}" "b \<in> {0..<4}" "c \<in> {0..<4}" "d \<in> {0..<4}"
  shows "decode_fourpacked (uint (word_of_int (pack_four a b c d) :: u8)) 0 = a"
    "decode_fourpacked (uint (word_of_int (pack_four a b c d) :: u8)) (Suc 0) = b"
    "decode_fourpacked (uint (word_of_int (pack_four a b c d) :: u8)) 2 = c"
    "decode_fourpacked (uint (word_of_int (pack_four a b c d) :: u8)) 3 = d"
proof -
  have p: "map (decode_fourpacked (pack_four a b c d)) [0, 1, 2, 3] = [a, b, c, d] \<and> pack_four a b c d \<in> {0..<256}"
    using packed_digits [of 0 0 0 a b c d] assms by simp
  then have "uint (word_of_int (pack_four a b c d) :: u8) = pack_four a b c d" by (simp add: uint_word_small)
  with p show "decode_fourpacked (uint (word_of_int (pack_four a b c d) :: u8)) 0 = a"
    "decode_fourpacked (uint (word_of_int (pack_four a b c d) :: u8)) (Suc 0) = b"
    "decode_fourpacked (uint (word_of_int (pack_four a b c d) :: u8)) 2 = c"
    "decode_fourpacked (uint (word_of_int (pack_four a b c d) :: u8)) 3 = d" by simp_all
qed

lemma decode_three_bytes:
  "set es \<subseteq> {0..<6} \<Longrightarrow> i < length es \<Longrightarrow>
     decode_threepacked (uint (three_bytes es ! (i div 3))) (i mod 3) = es ! i"
proof (induction es arbitrary: i rule: three_bytes.induct)
  case (2 a)
  then show ?case using decode_three_digits [of a 0 0] by simp
next
  case (3 a b)
  then show ?case using decode_three_digits [of a b 0] by (auto simp: less_Suc_eq)
next
  case (4 a b c es)
  note d = decode_three_digits [of a b c]
  show ?case
  proof (cases "i < 3")
    case True
    then consider "i = 0" | "i = 1" | "i = 2" by linarith
    then show ?thesis by cases (use "4.prems" d in \<open>auto simp: numeral_2_eq_2\<close>)
  next
    case False
    then obtain k where k: "i = k + 3" by (metis add.commute le_Suc_ex not_less)
    have "decode_threepacked (uint (three_bytes es ! (k div 3))) (k mod 3) = es ! k"
      by (rule "4.IH") (use "4.prems" k in simp_all)
    moreover have "(a # b # c # es) ! (k + 3) = es ! k" by (simp add: numeral_eq_Suc)
    moreover have "(k + 3) div 3 = Suc (k div 3)" by simp
    ultimately show ?thesis by (simp add: k)
  qed
qed simp

lemma decode_four_bytes:
  "set es \<subseteq> {0..<4} \<Longrightarrow> i < length es \<Longrightarrow>
     decode_fourpacked (uint (four_bytes es ! (i div 4))) (i mod 4) = es ! i"
proof (induction es arbitrary: i rule: four_bytes.induct)
  case (2 a)
  then show ?case using decode_four_digits [of a 0 0 0] by simp
next
  case (3 a b)
  then show ?case using decode_four_digits [of a b 0 0] by (auto simp: less_Suc_eq)
next
  case (4 a b c)
  then show ?case using decode_four_digits [of a b c 0] by (auto simp: less_Suc_eq numeral_2_eq_2)
next
  case (5 a b c d es)
  have "a \<in> {0..<4}" "b \<in> {0..<4}" "c \<in> {0..<4}" "d \<in> {0..<4}" using "5.prems" by simp_all
  note d = decode_four_digits [OF this]
  show ?case
  proof (cases "i < 4")
    case True
    then consider "i = 0" | "i = 1" | "i = 2" | "i = 3" by linarith
    then show ?thesis
    proof cases
      case 1
      with d(1) show ?thesis by simp
    next
      case 2
      with d(2) show ?thesis by simp
    next
      case 3
      with d(3) show ?thesis by simp
    next
      case 4
      with d(4) show ?thesis by simp
    qed
  next
    case False
    then obtain k where k: "i = k + 4" by (metis add.commute le_Suc_ex not_less)
    have "decode_fourpacked (uint (four_bytes es ! (k div 4))) (k mod 4) = es ! k"
      by (rule "5.IH") (use "5.prems" k in simp_all)
    moreover have "(a # b # c # d # es) ! (k + 4) = es ! k" by (simp add: numeral_eq_Suc)
    moreover have "(k + 4) div 4 = Suc (k div 4)" by simp
    ultimately show ?thesis by (simp add: k)
  qed
qed simp

text \<open>Only the first value itself is looked at.\<close>

lemma receive_value_prefix:
  assumes "length first = first_value_lengths t"
  shows "mrp_receive_value now t (first @ D) i a b st = mrp_receive_value now t first i a b st"
proof -
  have m: "msg_match s t x (first @ D) i a b = msg_match s t x first i a b" for s x
    using assms by (cases t)
      (simp_all add: msg_match_def avb_srp_match_talker_advertise_def avb_srp_match_talker_failed_def
        avb_srp_match_listener_def avb_srp_match_domain_def avb_mmrp_match_mac_vector_def
        avb_mvrp_match_vid_vector_def nth_append)
  have p: "mrp_process t (first @ D) i a b st = mrp_process t first i a b st"
    using assms by (cases t) (simp_all add: mrp_process_def avb_srp_process_talker_def)
  show ?thesis by (simp add: mrp_receive_value_def m p)
qed

text \<open>The vector of a message in a packet: header, first value, vector bytes.\<close>

definition vector_bytes :: "mrp_message \<Rightarrow> u8 list" where
  "vector_bytes m =
     [push_bit 5 (msg_leave_all m), of_nat (length (msg_three m))] @
     msg_first m @ three_bytes (msg_three m) @ four_bytes (msg_four m)"

lemma vector_header:
  assumes "message_ok m"
  shows "vector_num_values (B @ vector_bytes m @ D) (length B) = length (msg_three m)"
    and "vector_leave_all (B @ vector_bytes m @ D) (length B) \<longleftrightarrow> msg_leave_all m \<noteq> 0"
    and "msg_here (B @ vector_bytes m @ D) (length B) \<longleftrightarrow> msg_leave_all m \<noteq> 0 \<or> msg_three m \<noteq> []"
proof -
  have n: "unat (of_nat (length (msg_three m)) :: u8) = length (msg_three m)"
    using assms by (simp add: message_ok_def unsigned_of_nat take_bit_eq_mod)
  then have z: "(of_nat (length (msg_three m)) :: u8) = 0 \<longleftrightarrow> msg_three m = []"
    by (metis length_0_conv unsigned_0 unat_eq_zero)
  have la: "msg_leave_all m = 0 \<or> msg_leave_all m = 1" using assms by (simp add: message_ok_def)
  show "vector_num_values (B @ vector_bytes m @ D) (length B) = length (msg_three m)"
    using la n by (auto simp: vector_num_values_def vector_bytes_def nth_append)
  show "vector_leave_all (B @ vector_bytes m @ D) (length B) \<longleftrightarrow> msg_leave_all m \<noteq> 0"
    using la by (auto simp: vector_leave_all_def vector_bytes_def nth_append)
  show "msg_here (B @ vector_bytes m @ D) (length B) \<longleftrightarrow> msg_leave_all m \<noteq> 0 \<or> msg_three m \<noteq> []"
    using la z by (auto simp: msg_here_def vector_bytes_def nth_append)
qed

lemma nth_middle: "k < length T \<Longrightarrow> (A @ T @ D) ! (length A + k) = T ! k"
  by (simp add: nth_append)

lemma receive_vector_spec:
  assumes ok: "message_ok m" and buf: "buf = B @ vector_bytes m @ D"
  shows "mrp_receive_vector now (msg_type m) (length (msg_first m)) buf (length B) st = receive_message now m st"
proof -
  let ?es = "msg_three m" and ?F = "four_bytes (msg_four m)" and ?t = "msg_type m" and ?f = "msg_first m"
  let ?fv = "?f @ three_bytes ?es @ ?F @ D"
  have fv: "drop (length B + 2) buf = ?fv" by (simp add: buf vector_bytes_def)
  have l: "length ?f = first_value_lengths ?t" using ok by (simp add: message_ok_def)
  have three: "decode_threepacked (uint (?fv ! (length ?f + i div 3))) (i mod 3) = ?es ! i" if "i < length ?es" for i
  proof -
    have "i div 3 < length (three_bytes ?es)" using that by simp
    then have "?fv ! (length ?f + i div 3) = three_bytes ?es ! (i div 3)" by (rule nth_middle)
    with decode_three_bytes [OF message_ok_events(1) [OF ok] that] show ?thesis by (simp only:)
  qed
  have four: "decode_fourpacked (uint (?fv ! (length ?f + (length ?es + 2) div 3 + i div 4))) (i mod 4) = msg_four m ! i"
    if "i < length ?es" "has_fourpacked_events ?t" for i
  proof -
    have i4: "i < length (msg_four m)" using that message_ok_events(3) [OF ok] by simp
    have "(?f @ three_bytes ?es) @ ?F @ D = ?fv" by simp
    moreover have "((?f @ three_bytes ?es) @ ?F @ D) ! (length (?f @ three_bytes ?es) + i div 4) = ?F ! (i div 4)"
      by (rule nth_middle) (use i4 in simp)
    ultimately have "?fv ! (length ?f + (length ?es + 2) div 3 + i div 4) = ?F ! (i div 4)" by simp
    with decode_four_bytes [OF message_ok_events(2) [OF ok] i4] show ?thesis by (simp only:)
  qed
  have step: "mrp_receive_value now ?t ?fv i (decode_threepacked (uint (?fv ! (length ?f + i div 3))) (i mod 3))
      (if has_fourpacked_events ?t
       then decode_fourpacked (uint (?fv ! (length ?f + (length ?es + 2) div 3 + i div 4))) (i mod 4) else 0) =
      mrp_receive_value now ?t ?f i (?es ! i) (if has_fourpacked_events ?t then msg_four m ! i else 0)"
    if "i \<in> set [0..<length ?es]" for i
    using that three four receive_value_prefix [OF l] by (simp add: fun_eq_iff)
  show ?thesis
    unfolding mrp_receive_vector_def receive_message_def Let_def fv
    unfolding buf vector_header(1,2) [OF ok]
    by (rule fold_cong [OF refl refl]) (rule step)
qed

lemma receive_vectors_spec:
  assumes ok: "message_ok m" and ne: "msg_leave_all m \<noteq> 0 \<or> msg_three m \<noteq> []"
    and buf: "buf = B @ vector_bytes m @ [0, 0] @ D" and e: "length B + length (vector_bytes m) \<le> e"
  shows "mrp_receive_vectors now (msg_type m) (length (msg_first m)) buf e (length B) st =
     Inr (length B + length (vector_bytes m), receive_message now m st)"
proof -
  let ?n = "length (msg_three m)" and ?t = "msg_type m"
  have "length (msg_four m) = (if has_fourpacked_events ?t then ?n else 0)"
    using message_ok_events(3,4) [OF ok] by (cases "has_fourpacked_events ?t") simp_all
  then have len: "vector_len ?t (length (msg_first m)) ?n = length (vector_bytes m)"
    by (simp add: vector_len_def vector_bytes_def vector_fourpacked_len_def)
  have here: "length B < e \<and> msg_here buf (length B)"
    using vector_header(3) [OF ok, of B "[0, 0] @ D"] ne e buf by (simp add: vector_bytes_def)
  have n: "vector_num_values buf (length B) = ?n" using vector_header(1) [OF ok] buf by simp
  have stop: "\<not> msg_here buf (length B + length (vector_bytes m))"
    using nth_middle [of 0 "[0, 0]" "B @ vector_bytes m" D] nth_middle [of 1 "[0, 0]" "B @ vector_bytes m" D]
    by (simp add: msg_here_def buf)
  have v: "mrp_receive_vector now ?t (length (msg_first m)) buf (length B) st = receive_message now m st"
    by (rule receive_vector_spec [OF ok buf])
  have "\<not> e < length B + length (vector_bytes m)" using e by simp
  then have "mrp_receive_vectors now ?t (length (msg_first m)) buf e (length B) st =
      mrp_receive_vectors now ?t (length (msg_first m)) buf e (length B + length (vector_bytes m)) (receive_message now m st)"
    by (subst mrp_receive_vectors.simps) (simp only: here n len v Let_def simp_thms if_True if_False)
  then show ?thesis by (subst (asm) (2) mrp_receive_vectors.simps) (simp add: stop)
qed

lemma decode_encode_attr_type: "attr_etype t = etype \<Longrightarrow> decode_attr_type etype (encode_attr_type t) = Some t"
  by (cases t) (auto simp: attr_etype_def decode_attr_type_def AVB_SRP_ETHERTYPE_def AVB_MMRP_ETHERTYPE_def AVB_MVRP_ETHERTYPE_def)

lemma encode_wire_vector:
  "encode_wire etype m = [encode_attr_type (msg_type m), of_nat (length (msg_first m))] @
     (if etype \<noteq> AVB_SRP_ETHERTYPE then [] else len_bytes (msg_list_length m)) @ vector_bytes m @ [0, 0]"
  by (simp add: encode_wire_def encode_message_def encode_short_def vector_bytes_def)

lemma receive_messages_spec:
  assumes "pdu_ok etype ms" "list_all (\<lambda>m. msg_leave_all m \<noteq> 0 \<or> msg_three m \<noteq> []) ms"
    "length A + length (wire_messages etype ms) \<le> e"
  shows "mrp_receive_messages now etype (A @ wire_messages etype ms @ [0, 0] @ D) e (length A) st =
     fold (receive_message now) ms st"
  using assms
proof (induction ms arbitrary: A st)
  case Nil
  then show ?case by (subst mrp_receive_messages.simps) (simp add: msg_here_def nth_append)
next
  case (Cons m ms)
  let ?H = "[encode_attr_type (msg_type m), of_nat (length (msg_first m))]"
  let ?L = "if etype \<noteq> AVB_SRP_ETHERTYPE then [] else len_bytes (msg_list_length m)"
  let ?buf = "A @ wire_messages etype (m # ms) @ [0, 0] @ D"
  have ok: "message_ok m" "attr_etype (msg_type m) = etype" "msg_leave_all m \<noteq> 0 \<or> msg_three m \<noteq> []"
    using Cons.prems(1,2) by (simp_all add: pdu_ok_def)
  have fl: "unat (of_nat (length (msg_first m)) :: u8) = length (msg_first m)"
    using ok(1) first_value_lengths_small [of "msg_type m"] by (simp add: message_ok_def unsigned_of_nat take_bit_eq_mod)
  let ?B = "A @ ?H @ ?L"
  have buf: "?buf = ?B @ vector_bytes m @ [0, 0] @ (wire_messages etype ms @ [0, 0] @ D)"
    by (simp add: encode_wire_vector [of etype m])
  have rd: "?buf ! length A = encode_attr_type (msg_type m)" "?buf ! (length A + 1) = of_nat (length (msg_first m))"
    using nth_middle [of 0 ?H A] nth_middle [of 1 ?H A] by (simp_all add: encode_wire_vector [of etype m])
  have e: "length ?B + length (vector_bytes m) + 2 + length (wire_messages etype ms) \<le> e"
    using Cons.prems(3) by (simp add: encode_wire_vector [of etype m])
  have here: "length A < e \<and> msg_here ?buf (length A)"
    using e rd(1) by (simp add: msg_here_def encode_attr_type_nonzero)
  have start: "(if etype \<noteq> AVB_SRP_ETHERTYPE then length A + 2 else length A + 4) = length ?B" by simp
  have vs: "mrp_receive_vectors now (msg_type m) (length (msg_first m)) ?buf e (length ?B) st =
      Inr (length ?B + length (vector_bytes m), receive_message now m st)"
    by (rule receive_vectors_spec [OF ok(1,3) buf]) (use e in simp)
  have nx: "length ?B + length (vector_bytes m) + 2 = length (A @ encode_wire etype m)"
    by (simp add: encode_wire_vector [of etype m])
  have "mrp_receive_messages now etype ?buf e (length A) st =
      mrp_receive_messages now etype ?buf e (length (A @ encode_wire etype m)) (receive_message now m st)"
    by (subst mrp_receive_messages.simps)
      (simp only: here rd decode_encode_attr_type [OF ok(2)] fl start vs nx simp_thms if_True option.case sum.case prod.case)
  moreover have "?buf = (A @ encode_wire etype m) @ wire_messages etype ms @ [0, 0] @ D" by simp
  moreover have "mrp_receive_messages now etype ((A @ encode_wire etype m) @ wire_messages etype ms @ [0, 0] @ D) e
      (length (A @ encode_wire etype m)) (receive_message now m st) = fold (receive_message now) ms (receive_message now m st)"
    by (rule Cons.IH) (use Cons.prems in \<open>simp_all add: pdu_ok_def\<close>)
  ultimately show ?case by simp
qed

section \<open>Properties of transmission\<close>

text \<open>A state with one domain attribute, for the examples.\<close>

definition domain_example :: avb_st where
  "domain_example = (avb_static 1 1 1 1 1 1 1 1)\<lparr>av_etype := AVB_SRP_ETHERTYPE,
     av_attrs := [zero_attr\<lparr>at_type := MSRP_DOMAIN_VECTOR, at_applicant := MRP_VN\<rparr>]\<rparr>"

lemma mrp_buildingI:
  "holds_pdu A ms Z (av_send st) \<Longrightarrow> length A = 15 \<Longrightarrow> length (mb_bytes (av_send st)) = 500 \<Longrightarrow>
     pdu_ok (av_etype st) ms \<Longrightarrow> mrp_building st ms"
  by (auto simp: mrp_building_def)

lemma domain_example_building: "mrp_building domain_example []"
proof -
  have "holds_pdu (replicate 15 0) [] (replicate 485 0) (av_send domain_example)"
    by (simp add: holds_pdu_def domain_example_def avb_static_def flip: replicate_add)
  then show ?thesis
    by (rule mrp_buildingI) (simp_all add: pdu_ok_def domain_example_def avb_static_def)
qed

text \<open>
  C8. Transmission of an attribute implements its specification over messages: while the
  buffer has room for one more message, \<open>doTx\<close> adds the attribute's value to the first message
  that continues with it, or appends a message with the attribute's first value and event,
  keeps every other message, and stores nothing outside the 500-byte buffer before it
  considers sending.
\<close>

theorem mrp_transmission_refines:
  assumes "mrp_building st ms" and "mb_ptr (av_send st) \<le> 466"
    and "list_all (\<lambda>m. length (msg_three m) < 255) ms"
    and "attr_sendable st (av_attrs st ! j)" "attr_etype (at_type (av_attrs st ! j)) = av_etype st"
    and "v \<in> {0..<6}"
  shows "\<exists>mb. doTx j v st = mrp_send (st\<lparr>av_send := mb\<rparr>) \<and>
           mrp_building (st\<lparr>av_send := mb\<rparr>) (transmit_spec st (av_attrs st ! j) v ms)"
  by (rule doTx_refines [OF assms(1-3) refl assms(4-6)])

theorem mrp_transmission_refines_witness:
  "\<exists>mb. doTx 0 0 domain_example = mrp_send (domain_example\<lparr>av_send := mb\<rparr>) \<and>
     mrp_building (domain_example\<lparr>av_send := mb\<rparr>)
       [\<lparr>msg_type = MSRP_DOMAIN_VECTOR, msg_leave_all = 0, msg_first = [6, 3, 0, 2], msg_three = [0], msg_four = []\<rparr>]"
proof -
  have t: "transmit_spec domain_example (av_attrs domain_example ! 0) 0 [] =
      [\<lparr>msg_type = MSRP_DOMAIN_VECTOR, msg_leave_all = 0, msg_first = [6, 3, 0, 2], msg_three = [0], msg_four = []\<rparr>]"
    by (simp add: transmit_spec_def msg_extend_def msg_empty_def attr_first_value_def
        has_fourpacked_events_def domain_example_def)
  show ?thesis
    using mrp_transmission_refines [OF domain_example_building, of 0 0] unfolding t
    by (simp add: domain_example_def avb_static_def attr_sendable_def attr_etype_def)
qed

definition domain_message :: mrp_message where
  "domain_message = \<lparr>msg_type = MSRP_DOMAIN_VECTOR, msg_leave_all = 0, msg_first = [6, 3, 0, 2],
     msg_three = [0], msg_four = []\<rparr>"

definition frame_example :: avb_st where
  "frame_example = domain_example\<lparr>av_send :=
     \<lparr>mb_bytes = replicate 15 0 @ encode_message domain_message @ replicate 472 0, mb_ptr = 28\<rparr>\<rparr>"

lemma frame_example_building: "mrp_building frame_example [domain_message]"
proof -
  have "length (encode_message domain_message) = 13" by (simp add: encode_message_def domain_message_def)
  then have "holds_pdu (replicate 15 0) [domain_message] (replicate 472 0) (av_send frame_example)"
    and "length (mb_bytes (av_send frame_example)) = 500"
    by (simp_all add: holds_pdu_def frame_example_def)
  moreover have "pdu_ok (av_etype frame_example) [domain_message]"
    by (simp add: pdu_ok_def frame_example_def domain_example_def domain_message_def message_ok_def
        has_fourpacked_events_def attr_etype_def)
  ultimately show ?thesis by (rule mrp_buildingI [OF _ length_replicate])
qed

text \<open>
  C9. What is transmitted is received: the frame that \<open>force_send\<close> hands to the MAC for the
  messages in the buffer has at least 64 bytes and is parsed by \<open>avb_mrp_process_packet\<close> of any
  station as exactly these messages in order, each value with its first value, its index and
  its events, for SRP and for the protocols whose list length fields are removed.
\<close>

theorem mrp_frame_roundtrip:
  assumes "mrp_building st ms" and "ms \<noteq> []"
    and "list_all (\<lambda>m. msg_leave_all m \<noteq> 0 \<or> msg_three m \<noteq> []) ms"
  shows "\<exists>frame. av_out (force_send st) = av_out st @ [MacTx frame] \<and> 64 \<le> length frame \<and>
     (\<forall>now receiver. avb_mrp_process_packet now (drop 14 frame) (av_etype st) (length frame - 14) receiver =
        fold (receive_message now) ms receiver)"
proof -
  obtain A Z where A: "length A = 15" and h: "holds_pdu A ms Z (av_send st)" and ok: "pdu_ok (av_etype st) ms"
    using assms(1) by (auto simp: mrp_building_def)
  let ?w = "wire_messages (av_etype st) ms"
  obtain k where k: "2 \<le> k" "64 \<le> length (A @ ?w @ replicate k 0)"
    and out: "av_out (force_send st) = av_out st @ [MacTx (A @ ?w @ replicate k 0)]"
    using force_send_frame [OF h A ok assms(2)] by blast
  obtain D where D: "replicate k (0::u8) = [0, 0] @ D"
    using k(1) by (metis (no_types) append_Cons append_Nil le_Suc_ex numeral_2_eq_2 plus_nat.simps replicate_Suc)
  define F where "F = A @ ?w @ replicate k 0"
  have d: "drop 14 F = drop 14 A @ ?w @ [0, 0] @ D" "length (drop 14 A) = 1"
    using A unfolding F_def D by simp_all
  have "mrp_receive_messages now (av_etype st) (drop 14 A @ ?w @ [0, 0] @ D) (length F - 14) (length (drop 14 A)) receiver =
      fold (receive_message now) ms receiver" for now receiver
    by (rule receive_messages_spec [OF ok assms(3)]) (use A in \<open>simp add: F_def\<close>)
  then have "avb_mrp_process_packet now (drop 14 F) (av_etype st) (length F - 14) receiver =
      fold (receive_message now) ms receiver" for now receiver
    unfolding avb_mrp_process_packet_def d(2) d(1) by simp
  then show ?thesis
    using out k(2) unfolding F_def [symmetric] by blast
qed

theorem mrp_frame_roundtrip_witness:
  "\<exists>frame. av_out (force_send frame_example) = [MacTx frame] \<and>
     avb_mrp_process_packet 0 (drop 14 frame) AVB_SRP_ETHERTYPE (length frame - 14) domain_example =
       receive_message 0 domain_message domain_example"
  using mrp_frame_roundtrip [OF frame_example_building]
  by (auto simp: frame_example_def domain_example_def avb_static_def domain_message_def)

section \<open>The limit of the send buffer\<close>

lemma mrp_building_ptr: "mrp_building st ms \<Longrightarrow> mb_ptr (av_send st) = 15 + length (encode_messages ms)"
  by (auto simp: mrp_building_def holds_pdu_def)

definition overrun_message :: "nat \<Rightarrow> mrp_message" where
  "overrun_message n = \<lparr>msg_type = MSRP_TALKER_ADVERTISE, msg_leave_all = 0, msg_first = replicate 25 0,
     msg_three = replicate n 0, msg_four = []\<rparr>"

definition overrun_messages :: "mrp_message list" where
  "overrun_messages = replicate 12 (overrun_message 1) @ [overrun_message 28]"

definition overrun_example :: avb_st where
  "overrun_example = (avb_static 1 1 1 1 1 1 1 1)\<lparr>av_etype := AVB_SRP_ETHERTYPE,
     av_sources := [\<lparr>source_stream = empty_stream\<lparr>streamId := (1, 0)\<rparr>, talker_ctl = 0, source_dest = replicate 6 0,
         presentation = 0, source_map = []\<rparr>],
     av_attrs := [zero_attr\<lparr>at_info := SourceInfo 0\<rparr>],
     av_send := \<lparr>mb_bytes = replicate 15 0 @ encode_messages overrun_messages @ replicate 34 0, mb_ptr = 466\<rparr>\<rparr>"

lemma overrun_message_ok: "n \<le> 28 \<Longrightarrow> message_ok (overrun_message n)"
  by (auto simp: message_ok_def overrun_message_def has_fourpacked_events_def)

lemma overrun_message_type [simp]: "msg_type (overrun_message n) = MSRP_TALKER_ADVERTISE"
  by (simp add: overrun_message_def)

lemma overrun_length: "length (encode_messages overrun_messages) = 451"
  by (simp add: overrun_messages_def overrun_message_def length_encode_message msg_list_length_def numeral_eq_Suc)

lemma overrun_example_building: "mrp_building overrun_example overrun_messages"
proof -
  have "holds_pdu (replicate 15 0) overrun_messages (replicate 34 0) (av_send overrun_example)"
    by (simp add: holds_pdu_def overrun_example_def overrun_length)
  moreover have "length (mb_bytes (av_send overrun_example)) = 500"
    by (simp add: overrun_example_def overrun_length)
  moreover have "pdu_ok (av_etype overrun_example) overrun_messages"
    using overrun_message_ok [of 1] overrun_message_ok [of 28]
    by (simp add: pdu_ok_def overrun_messages_def overrun_example_def attr_etype_def)
  ultimately show ?thesis by (rule mrp_buildingI [OF _ length_replicate])
qed

text \<open>
  The size that \<open>send\<close> reserves for one more message, \<open>MAX_MRP_MSG_SIZE\<close>, leaves out the two
  bytes of the vector header. With the end of the MRPDU at offset 466, which \<open>send\<close> does not
  flush, a new talker message fills the buffer to its last byte, and the padding that
  \<open>force_send\<close> then writes ends four bytes behind the 500-byte array.
\<close>

theorem mrp_padding_overruns:
  assumes "mrp_building st ms" and "mb_ptr (av_send st) = 466" and "av_etype st = AVB_SRP_ETHERTYPE"
    and "list_all (\<lambda>m. length (msg_three m) < 255 \<and> \<not> msg_accepts st (av_attrs st ! j) m) ms"
    and "attr_sendable st (av_attrs st ! j)" "at_type (av_attrs st ! j) = MSRP_TALKER_ADVERTISE"
    and "v \<in> {0..<6}"
  shows "mrp_send st = st \<and> length (mb_bytes (av_send st)) = 500 \<and>
         length (mb_bytes (av_send (doTx j v st))) = 504"
proof -
  let ?a = "av_attrs st ! j" and ?e = "msg_empty MSRP_TALKER_ADVERTISE 0"
  have few: "list_all (\<lambda>m. length (msg_three m) < 255) ms" using assms(4) by (simp add: list_all_iff)
  have et: "attr_etype (at_type ?a) = av_etype st" using assms(3,6) by (simp add: attr_etype_def)
  have spec: "transmit_spec st ?a v ms = ms @ [msg_extend st ?a v ?e]"
  proof -
    have "find_idx (msg_accepts st ?a) ms = None" using assms(4) by (simp add: find_idx_None list_all_iff)
    then show ?thesis by (simp add: transmit_spec_def assms(6))
  qed
  from doTx_refines [OF assms(1) _ few refl assms(5) et assms(7)] assms(2) obtain mb where
    d: "doTx j v st = mrp_send (st\<lparr>av_send := mb\<rparr>)" and
    b: "mrp_building (st\<lparr>av_send := mb\<rparr>) (ms @ [msg_extend st ?a v ?e])"
    unfolding spec by auto
  have "length (encode_message (msg_extend st ?a v ?e)) = 34"
    using length_msg_extend [of ?e ?a st v] assms(5,6) message_ok_empty [of 0 MSRP_TALKER_ADVERTISE]
    by (simp add: msg_empty_def length_encode_message msg_list_length_def msg_growth_def has_fourpacked_events_def)
  then have ptr: "mb_ptr mb = 500"
    using mrp_building_ptr [OF b] mrp_building_ptr [OF assms(1)] assms(2) by simp
  have len: "length (mb_bytes mb) = 500" using b by (simp add: mrp_building_def)
  have "length (put_bytes 500 (replicate 4 0) (mb_bytes mb)) = 504" using len by (simp add: put_bytes_def)
  then show ?thesis
    using assms(1,2,3) ptr len
    by (simp add: d mrp_send_def force_send_def Let_def strip_attribute_list_length_fields_def mb_put_def
        emit_def mrp_building_def)
qed

theorem mrp_padding_overruns_witness:
  "length (mb_bytes (av_send overrun_example)) = 500 \<and>
   length (mb_bytes (av_send (doTx 0 0 overrun_example))) = 504"
proof -
  have a: "av_attrs overrun_example ! 0 = zero_attr\<lparr>at_info := SourceInfo 0\<rparr>" by (simp add: overrun_example_def)
  have s: "source_stream (av_sources overrun_example ! 0) = empty_stream\<lparr>streamId := (1, 0)\<rparr>"
    "source_dest (av_sources overrun_example ! 0) = replicate 6 0"
    by (simp_all add: overrun_example_def)
  have "\<not> msg_accepts overrun_example (av_attrs overrun_example ! 0) (overrun_message n)" if "n \<in> {1, 28}" for n
  proof -
    have "be64 (replicate 8 0) = 0" by code_simp
    then have "stream_id64 (1, 0) \<noteq> be64 (replicate 8 0) + of_nat n"
      using that by (auto simp: stream_id64_def)
    then show ?thesis using that by (auto simp: msg_accepts_def a s overrun_message_def zero_attr_def Let_def)
  qed
  from this [of 1] this [of 28]
  have "list_all (\<lambda>m. length (msg_three m) < 255 \<and> \<not> msg_accepts overrun_example (av_attrs overrun_example ! 0) m) overrun_messages"
    by (simp add: overrun_messages_def del: One_nat_def) (simp add: overrun_message_def)
  then show ?thesis
    using mrp_padding_overruns [OF overrun_example_building _ _ _ _ _, of 0 0]
    by (simp add: a s attr_sendable_def zero_attr_def) (simp add: overrun_example_def)
qed

end
