(* ===== verification/Mvrp.thy ===== *)
theory Mvrp
  imports Mrp
begin

text \<open>
  The tables of VLAN and multicast group registrations (\<open>avb_mvrp.c\<close>, \<open>avb_mmrp.c\<close>): a fixed
  number of entries, each with an attribute of its own. The three searches of a join are those
  of the code: an entry that is active for the value, else an inactive one, else the first
  active one whose attribute only observes.
\<close>

section \<open>VLANs\<close>

primrec mvrp_init_from :: "nat \<Rightarrow> nat \<Rightarrow> avb_st \<Rightarrow> avb_st" where
  "mvrp_init_from 0 i st = st"
| "mvrp_init_from (Suc n) i st =
     (let (j, st1) = mrp_get_attr st;
          st2 = st1\<lparr>av_vlans := modify_nth i (\<lambda>v. v\<lparr>mvrp_active := False, mvrp_attr := j\<rparr>) (av_vlans st1)\<rparr>
      in mvrp_init_from n (Suc i) (mrp_attribute_init j MVRP_VID_VECTOR (VlanInfo i) st2))"

definition avb_mvrp_init :: "avb_st \<Rightarrow> avb_st" where
  "avb_mvrp_init st = mvrp_init_from (length (av_vlans st)) 0 st"

definition mvrp_find :: "int \<Rightarrow> avb_st \<Rightarrow> nat option" where
  "mvrp_find vlan st = find_last_idx (\<lambda>v. mvrp_active v \<and> mvrp_vlan v = vlan) (av_vlans st)"

definition mvrp_slot :: "int \<Rightarrow> avb_st \<Rightarrow> nat option" where
  "mvrp_slot vlan st =
     (case mvrp_find vlan st of
        Some i \<Rightarrow> Some i
      | None \<Rightarrow>
         (case find_idx (\<lambda>v. \<not> mvrp_active v) (av_vlans st) of
            Some i \<Rightarrow> Some i
          | None \<Rightarrow> find_idx (\<lambda>v. mvrp_active v \<and> mrp_is_observer (av_attrs st ! mvrp_attr v)) (av_vlans st)))"

definition mvrp_activate :: "int \<Rightarrow> mvrp_entry \<Rightarrow> mvrp_entry" where
  "mvrp_activate vlan v = v\<lparr>mvrp_active := True, mvrp_vlan := vlan\<rparr>"

definition avb_join_vlan :: "u32 \<Rightarrow> int \<Rightarrow> avb_st \<Rightarrow> bool \<times> avb_st" where
  "avb_join_vlan now vlan st =
     (case mvrp_slot vlan st of
        Some i \<Rightarrow>
          (let st1 = st\<lparr>av_vlans := modify_nth i (mvrp_activate vlan) (av_vlans st)\<rparr>;
               j = mvrp_attr (av_vlans st ! i)
           in (True, mrp_mad_join now j True (mrp_mad_begin now j st1)))
      | None \<Rightarrow> (False, st))"

definition avb_leave_vlan :: "u32 \<Rightarrow> int \<Rightarrow> avb_st \<Rightarrow> avb_st" where
  "avb_leave_vlan now vlan st =
     (case mvrp_find vlan st of
        Some i \<Rightarrow> mrp_mad_leave now (mvrp_attr (av_vlans st ! i)) st
      | None \<Rightarrow> st)"

section \<open>Multicast groups\<close>

definition addr_eq :: "u8 list \<Rightarrow> u8 list \<Rightarrow> bool" where
  "addr_eq x y \<longleftrightarrow> list_all (\<lambda>i. x ! i = y ! i) [0..<6]"

primrec mmrp_init_from :: "nat \<Rightarrow> nat \<Rightarrow> avb_st \<Rightarrow> avb_st" where
  "mmrp_init_from 0 i st = st"
| "mmrp_init_from (Suc n) i st =
     (let (j, st1) = mrp_get_attr st;
          st2 = st1\<lparr>av_groups := modify_nth i (\<lambda>v. v\<lparr>mmrp_active := False, mmrp_attr := j\<rparr>) (av_groups st1)\<rparr>
      in mmrp_init_from n (Suc i) (mrp_attribute_init j MMRP_MAC_VECTOR (GroupInfo i) st2))"

definition avb_mmrp_init :: "avb_st \<Rightarrow> avb_st" where
  "avb_mmrp_init st = mmrp_init_from (length (av_groups st)) 0 st"

definition mmrp_find :: "u8 list \<Rightarrow> avb_st \<Rightarrow> nat option" where
  "mmrp_find addr st = find_last_idx (\<lambda>v. mmrp_active v \<and> addr_eq addr (mmrp_addr v)) (av_groups st)"

definition mmrp_slot :: "u8 list \<Rightarrow> avb_st \<Rightarrow> nat option" where
  "mmrp_slot addr st =
     (case mmrp_find addr st of
        Some i \<Rightarrow> Some i
      | None \<Rightarrow>
         (case find_idx (\<lambda>v. \<not> mmrp_active v) (av_groups st) of
            Some i \<Rightarrow> Some i
          | None \<Rightarrow> find_idx (\<lambda>v. mmrp_active v \<and> mrp_is_observer (av_attrs st ! mmrp_attr v)) (av_groups st)))"

definition mmrp_activate :: "u8 list \<Rightarrow> mmrp_entry \<Rightarrow> mmrp_entry" where
  "mmrp_activate addr v = v\<lparr>mmrp_active := True, mmrp_addr := take 6 addr\<rparr>"

definition avb_join_multicast_group :: "u32 \<Rightarrow> u8 list \<Rightarrow> avb_st \<Rightarrow> bool \<times> avb_st" where
  "avb_join_multicast_group now addr st =
     (case mmrp_slot addr st of
        Some i \<Rightarrow>
          (let st1 = st\<lparr>av_groups := modify_nth i (mmrp_activate addr) (av_groups st)\<rparr>;
               j = mmrp_attr (av_groups st ! i)
           in (True, mrp_mad_join now j True (mrp_mad_begin now j st1)))
      | None \<Rightarrow> (False, st))"

definition avb_leave_multicast_group :: "u32 \<Rightarrow> u8 list \<Rightarrow> avb_st \<Rightarrow> avb_st" where
  "avb_leave_multicast_group now addr st =
     (case mmrp_find addr st of
        Some i \<Rightarrow> mrp_mad_leave now (mmrp_attr (av_groups st ! i)) st
      | None \<Rightarrow> st)"

end
