(* ===== verification/Avb_Control.thy ===== *)
theory Avb_Control
  imports Mvrp
begin

text \<open>
  The control API of the endpoint (\<open>module_avb/src/avb.c\<close>): registration of the streams at start-up,
  the get/set functions of the sources and sinks, and the state changes of the streams with what
  they do to the channel maps, the talker and listener cores, and the reservation protocols.

  A get/set function takes the flag \<open>do_set\<close>, the stream number and the in/out parameters; \<open>None\<close> is
  the return value 0, \<open>Some\<close> the return value 1 with the parameters and the state afterwards.
  Words that another core sends back (acknowledgements) are not recorded; the router link a
  listener core answers with is the argument \<open>router_link\<close>.
\<close>

abbreviation (input) "AVB_DEFAULT_VLAN \<equiv> 2"
abbreviation (input) "AVB_DEFAULT_PRESENTATION_TIME_DELAY_NS \<equiv> 2000000 :: int"
abbreviation (input) "AVB1722_CONFIGURE_TALKER_STREAM \<equiv> 0x800000B5 :: u32"
abbreviation (input) "AVB1722_CONFIGURE_LISTENER_STREAM \<equiv> 0x8000B51A :: u32"
abbreviation (input) "AVB1722_DISABLE_LISTENER_STREAM \<equiv> 0x8022441A :: u32"
abbreviation (input) "AVB1722_GET_ROUTER_LINK \<equiv> 0x8522441A :: u32"
abbreviation (input) "AVB1722_TALKER_GO \<equiv> 0x8AAA0001 :: u32"
abbreviation (input) "AVB1722_TALKER_STOP \<equiv> 0x8AAA0002 :: u32"

abbreviation "source_state src \<equiv> stream_state (source_stream src)"
abbreviation "sink_state snk \<equiv> stream_state (sink_stream snk)"

definition source_with :: "(avb_stream_info \<Rightarrow> avb_stream_info) \<Rightarrow> avb_source_info \<Rightarrow> avb_source_info" where
  "source_with f src = src\<lparr>source_stream := f (source_stream src)\<rparr>"

definition sink_with :: "(avb_stream_info \<Rightarrow> avb_stream_info) \<Rightarrow> avb_sink_info \<Rightarrow> avb_sink_info" where
  "sink_with f snk = snk\<lparr>sink_stream := f (sink_stream snk)\<rparr>"

definition emit_words :: "nat \<Rightarrow> u32 list \<Rightarrow> avb_st \<Rightarrow> avb_st" where
  "emit_words c ws st = fold (\<lambda>w. emit (ChanOut c w)) ws st"

section \<open>Parameters of a source\<close>

text \<open>Parameters are changed only while the stream is disabled.\<close>

definition source_access :: "bool \<Rightarrow> nat \<Rightarrow> avb_st \<Rightarrow> bool" where
  "source_access do_set i st \<longleftrightarrow>
     i < length (av_sources st) \<and> (\<not> do_set \<or> source_state (av_sources st ! i) = STATE_DISABLED)"

definition getset_avb_source_format :: "bool \<Rightarrow> nat \<Rightarrow> int \<times> int \<Rightarrow> avb_st \<Rightarrow> ((int \<times> int) \<times> avb_st) option" where
  "getset_avb_source_format do_set i fr st =
     (if source_access do_set i st
      then let st' = (if do_set then update_source i (source_with (\<lambda>s. s\<lparr>stream_format := word_of_int (fst fr),
                                                                    stream_rate := snd fr\<rparr>)) st else st);
               s = source_stream (av_sources st' ! i)
           in Some ((uint (stream_format s), stream_rate s), st')
      else None)"

definition getset_avb_source_channels :: "bool \<Rightarrow> nat \<Rightarrow> int \<Rightarrow> avb_st \<Rightarrow> (int \<times> avb_st) option" where
  "getset_avb_source_channels do_set i channels st =
     (if source_access do_set i st
      then let st' = (if do_set then update_source i (source_with (\<lambda>s. s\<lparr>num_channels := word_of_int channels\<rparr>)) st
                      else st)
           in Some (uint (num_channels (source_stream (av_sources st' ! i))), st')
      else None)"

definition getset_avb_source_sync :: "bool \<Rightarrow> nat \<Rightarrow> int \<Rightarrow> avb_st \<Rightarrow> (int \<times> avb_st) option" where
  "getset_avb_source_sync do_set i sync st =
     (if source_access do_set i st
      then let st' = (if do_set then update_source i (source_with (\<lambda>s. s\<lparr>stream_sync := word_of_int sync\<rparr>)) st
                      else st)
           in Some (uint (stream_sync (source_stream (av_sources st' ! i))), st')
      else None)"

definition getset_avb_source_presentation :: "bool \<Rightarrow> nat \<Rightarrow> int \<Rightarrow> avb_st \<Rightarrow> (int \<times> avb_st) option" where
  "getset_avb_source_presentation do_set i pres st =
     (if source_access do_set i st
      then let st' = (if do_set then update_source i (\<lambda>s. s\<lparr>presentation := pres\<rparr>) st else st)
           in Some (presentation (av_sources st' ! i), st')
      else None)"

definition getset_avb_source_vlan :: "bool \<Rightarrow> nat \<Rightarrow> int \<Rightarrow> avb_st \<Rightarrow> (int \<times> avb_st) option" where
  "getset_avb_source_vlan do_set i vlan st =
     (if source_access do_set i st
      then let st' = (if do_set then update_source i (source_with (\<lambda>s. s\<lparr>stream_vlan := word_of_int vlan\<rparr>)) st
                      else st)
           in Some (uint (stream_vlan (source_stream (av_sources st' ! i))), st')
      else None)"

text \<open>
  A map of \<open>len\<close> entries. On a read the code takes the length from \<open>source[source_num]\<close>, where
  \<open>source\<close> already points to \<open>sources[source_num]\<close>.
\<close>

definition getset_avb_source_map ::
  "nat \<Rightarrow> bool \<Rightarrow> nat \<Rightarrow> int list \<times> nat \<Rightarrow> avb_st \<Rightarrow> ((int list \<times> nat) \<times> avb_st) option" where
  "getset_avb_source_map max_channels do_set i ml st =
     (if source_access do_set i st \<and> (do_set \<longrightarrow> snd ml \<le> max_channels)
      then let st' = (if do_set then update_source i (\<lambda>s. s\<lparr>source_map := put_bytes 0 (take (snd ml) (fst ml)) (source_map s)\<rparr>) st
                      else st);
               len = (if do_set then snd ml else unat (num_channels (source_stream (av_sources st' ! (i + i)))))
           in Some ((put_bytes 0 (take len (source_map (av_sources st' ! i))) (fst ml), len), st')
      else None)"

definition getset_avb_source_dest ::
  "bool \<Rightarrow> nat \<Rightarrow> u8 list \<times> nat \<Rightarrow> avb_st \<Rightarrow> ((u8 list \<times> nat) \<times> avb_st) option" where
  "getset_avb_source_dest do_set i dl st =
     (if source_access do_set i st \<and> (do_set \<longrightarrow> snd dl = 6)
      then let st' = (if do_set then update_source i (\<lambda>s. s\<lparr>source_dest := take 6 (fst dl)\<rparr>) st else st)
           in Some ((put_bytes 0 (source_dest (av_sources st' ! i)) (fst dl), 6), st')
      else None)"

definition get_avb_source_id :: "nat \<Rightarrow> avb_st \<Rightarrow> (u32 \<times> u32) option" where
  "get_avb_source_id i st =
     (if i < length (av_sources st) then Some (streamId (source_stream (av_sources st ! i))) else None)"

section \<open>State of a source\<close>

definition source_channels :: "avb_source_info \<Rightarrow> nat list" where
  "source_channels src = map nat (take (unat (num_channels (source_stream src))) (source_map src))"

definition source_clk_ctl :: "avb_st \<Rightarrow> avb_source_info \<Rightarrow> int" where
  "source_clk_ctl st src = media_clk_ctl (av_inputs st ! nat (hd (source_map src)))"

definition source_map_ok :: "avb_st \<Rightarrow> avb_source_info \<Rightarrow> bool" where
  "source_map_ok st src \<longleftrightarrow>
     num_channels (source_stream src) \<noteq> 0 \<and>
     list_all (\<lambda>m. mapped_to (av_inputs st ! m) = UNMAPPED \<and>
                   media_clk_ctl (av_inputs st ! m) = source_clk_ctl st src) (source_channels src)"

definition set_inputs_mapped :: "int \<Rightarrow> nat list \<Rightarrow> avb_st \<Rightarrow> avb_st" where
  "set_inputs_mapped v ms st =
     st\<lparr>av_inputs := fold (\<lambda>m. modify_nth m (\<lambda>x. x\<lparr>mapped_to := v\<rparr>)) ms (av_inputs st)\<rparr>"

definition fifo_mask :: "nat list \<Rightarrow> u32" where
  "fifo_mask ms = fold (\<lambda>m x. x OR push_bit m 1) ms 0"

definition talker_configuration :: "avb_st \<Rightarrow> nat \<Rightarrow> avb_source_info \<Rightarrow> u32 list" where
  "talker_configuration st i src =
     (let s = source_stream src; ms = source_channels src
      in [AVB1722_CONFIGURE_TALKER_STREAM, ucast (local_id s), ucast (stream_format s)] @
         map ucast (take 6 (source_dest src)) @
         [of_nat i, ucast (num_channels s), fifo_mask ms] @
         map (\<lambda>m. media_fifo (av_inputs st ! m)) ms @
         [word_of_int (stream_rate s),
          word_of_int (if presentation src \<noteq> 0 then presentation src else AVB_DEFAULT_PRESENTATION_TIME_DELAY_NS)])"

text \<open>DISABLED to POTENTIAL, with a map that is in order.\<close>

definition source_enable :: "u32 \<Rightarrow> nat \<Rightarrow> avb_st \<Rightarrow> avb_st" where
  "source_enable now i st =
     (let src = av_sources st ! i; s = source_stream src;
          st1 = emit_words (talker_ctl src) (talker_configuration st i src)
                  (set_inputs_mapped (int i) (source_channels src) st);
          st2 = (if stream_vlan s \<noteq> 0 then snd (avb_join_vlan now (uint (stream_vlan s)) st1) else st1);
          st3 = mrp_mad_join now (srp_talker_attr s) True
                  (mrp_mad_begin now (srp_listener_attr s)
                    (mrp_mad_begin now (srp_talker_failed_attr s)
                      (mrp_mad_begin now (srp_talker_attr s) st2)))
      in if av_media_clock_svr st then emit (MediaClockRegister (source_clk_ctl st src) (stream_sync s)) st3 else st3)"

definition other_sources_disabled :: "nat \<Rightarrow> avb_st \<Rightarrow> bool" where
  "other_sources_disabled i st \<longleftrightarrow>
     list_all (\<lambda>k. k = i \<or> source_state (av_sources st ! k) = STATE_DISABLED) [0..<length (av_sources st)]"

text \<open>POTENTIAL or ENABLED to DISABLED.\<close>

definition source_disable :: "u32 \<Rightarrow> nat \<Rightarrow> avb_st \<Rightarrow> avb_st" where
  "source_disable now i st =
     (let src = av_sources st ! i; s = source_stream src;
          st1 = emit_words (talker_ctl src) [AVB1722_TALKER_STOP, ucast (local_id s)]
                  (set_inputs_mapped UNMAPPED (source_channels src) st);
          st2 = (if stream_vlan s \<noteq> 0 \<and> other_sources_disabled i st1
                 then avb_leave_vlan now (uint (stream_vlan s)) st1 else st1)
      in mrp_mad_leave now (srp_talker_attr s) st2)"

definition source_bytes_per_interval :: "avb_stream_info \<Rightarrow> u32" where
  "source_bytes_per_interval s =
     18 + 32 + ucast (num_channels s) *
       word_of_int ((stream_rate s + (AVB1722_PACKET_RATE - 1)) sdiv AVB1722_PACKET_RATE) * 4 + 20"

text \<open>
  The bandwidth of the traffic shaper, computed in 32-bit integers from the states the sources
  have when it is called.
\<close>

definition avb_talker_data_size :: "avb_st \<Rightarrow> u32" where
  "avb_talker_data_size st =
     fold (\<lambda>src n. if source_state src = STATE_POTENTIAL \<or> source_state src = STATE_ENABLED
                   then n + source_bytes_per_interval (source_stream src) else n) (av_sources st) 0"

definition avb_set_talker_bandwidth :: "avb_st \<Rightarrow> avb_st" where
  "avb_set_talker_bandwidth st =
     emit (SetQavBandwidth (word_of_int (sint (avb_talker_data_size st * 8 * 8000 * 102) sdiv 100))) st"

definition source_transition :: "u32 \<Rightarrow> nat \<Rightarrow> avb_stream_state \<Rightarrow> avb_st \<Rightarrow> avb_st" where
  "source_transition now i new st =
     (let src = av_sources st ! i; old = source_state src; c = talker_ctl src;
          l = ucast (local_id (source_stream src))
      in if old = STATE_DISABLED \<and> new = STATE_POTENTIAL
         then (if source_map_ok st src then source_enable now i st else st)
         else if old = STATE_ENABLED \<and> new = STATE_POTENTIAL then emit_words c [AVB1722_TALKER_STOP, l] st
         else if old = STATE_POTENTIAL \<and> new = STATE_ENABLED then emit_words c [AVB1722_TALKER_GO, l] st
         else if old \<noteq> STATE_DISABLED \<and> new = STATE_DISABLED then source_disable now i st
         else st)"

definition getset_avb_source_state ::
  "u32 \<Rightarrow> bool \<Rightarrow> nat \<Rightarrow> avb_stream_state \<Rightarrow> avb_st \<Rightarrow> (avb_stream_state \<times> avb_st) option" where
  "getset_avb_source_state now do_set i state st =
     (if i < length (av_sources st)
      then let st' = (if do_set
                      then update_source i (source_with (\<lambda>s. s\<lparr>stream_state := state\<rparr>))
                             (avb_set_talker_bandwidth (source_transition now i state st))
                      else st)
           in Some (source_state (av_sources st' ! i), st')
      else None)"

section \<open>Parameters of a sink\<close>

definition sink_access :: "bool \<Rightarrow> nat \<Rightarrow> avb_st \<Rightarrow> bool" where
  "sink_access do_set i st \<longleftrightarrow>
     i < length (av_sinks st) \<and> (\<not> do_set \<or> sink_state (av_sinks st ! i) = STATE_DISABLED)"

definition getset_avb_sink_id ::
  "bool \<Rightarrow> nat \<Rightarrow> u32 \<times> u32 \<Rightarrow> avb_st \<Rightarrow> ((u32 \<times> u32) \<times> avb_st) option" where
  "getset_avb_sink_id do_set i sid st =
     (if sink_access do_set i st
      then let st' = (if do_set then update_sink i (sink_with (\<lambda>s. s\<lparr>streamId := sid\<rparr>)) st else st)
           in Some (streamId (sink_stream (av_sinks st' ! i)), st')
      else None)"

text \<open>The guard of the format is the number of sources, not of sinks.\<close>

definition getset_avb_sink_format :: "bool \<Rightarrow> nat \<Rightarrow> int \<times> int \<Rightarrow> avb_st \<Rightarrow> ((int \<times> int) \<times> avb_st) option" where
  "getset_avb_sink_format do_set i fr st =
     (if i < length (av_sources st) \<and> (\<not> do_set \<or> sink_state (av_sinks st ! i) = STATE_DISABLED)
      then let st' = (if do_set then update_sink i (sink_with (\<lambda>s. s\<lparr>stream_format := word_of_int (fst fr),
                                                                  stream_rate := snd fr\<rparr>)) st else st);
               s = sink_stream (av_sinks st' ! i)
           in Some ((uint (stream_format s), stream_rate s), st')
      else None)"

definition getset_avb_sink_channels :: "bool \<Rightarrow> nat \<Rightarrow> int \<Rightarrow> avb_st \<Rightarrow> (int \<times> avb_st) option" where
  "getset_avb_sink_channels do_set i channels st =
     (if sink_access do_set i st
      then let st' = (if do_set then update_sink i (sink_with (\<lambda>s. s\<lparr>num_channels := word_of_int channels\<rparr>)) st
                      else st)
           in Some (uint (num_channels (sink_stream (av_sinks st' ! i))), st')
      else None)"

definition getset_avb_sink_sync :: "bool \<Rightarrow> nat \<Rightarrow> int \<Rightarrow> avb_st \<Rightarrow> (int \<times> avb_st) option" where
  "getset_avb_sink_sync do_set i sync st =
     (if sink_access do_set i st
      then let st' = (if do_set then update_sink i (sink_with (\<lambda>s. s\<lparr>stream_sync := word_of_int sync\<rparr>)) st
                      else st)
           in Some (uint (stream_sync (sink_stream (av_sinks st' ! i))), st')
      else None)"

definition getset_avb_sink_vlan :: "bool \<Rightarrow> nat \<Rightarrow> int \<Rightarrow> avb_st \<Rightarrow> (int \<times> avb_st) option" where
  "getset_avb_sink_vlan do_set i vlan st =
     (if sink_access do_set i st
      then let st' = (if do_set then update_sink i (sink_with (\<lambda>s. s\<lparr>stream_vlan := word_of_int vlan\<rparr>)) st
                      else st)
           in Some (uint (stream_vlan (sink_stream (av_sinks st' ! i))), st')
      else None)"

definition getset_avb_sink_addr ::
  "bool \<Rightarrow> nat \<Rightarrow> u8 list \<times> nat \<Rightarrow> avb_st \<Rightarrow> ((u8 list \<times> nat) \<times> avb_st) option" where
  "getset_avb_sink_addr do_set i dl st =
     (if sink_access do_set i st \<and> (do_set \<longrightarrow> snd dl = 6)
      then let st' = (if do_set then update_sink i (\<lambda>s. s\<lparr>sink_addr := take 6 (fst dl)\<rparr>) st else st)
           in Some ((put_bytes 0 (sink_addr (av_sinks st' ! i)) (fst dl), 6), st')
      else None)"

text \<open>On a read the length is that of the first sink (\<open>sinks->stream\<close>).\<close>

definition getset_avb_sink_map ::
  "nat \<Rightarrow> bool \<Rightarrow> nat \<Rightarrow> int list \<times> nat \<Rightarrow> avb_st \<Rightarrow> ((int list \<times> nat) \<times> avb_st) option" where
  "getset_avb_sink_map max_channels do_set i ml st =
     (if sink_access do_set i st \<and> (do_set \<longrightarrow> snd ml \<le> max_channels)
      then let st' = (if do_set then update_sink i (\<lambda>s. s\<lparr>sink_map := put_bytes 0 (take (snd ml) (fst ml)) (sink_map s)\<rparr>) st
                      else st);
               len = (if do_set then snd ml else unat (num_channels (sink_stream (av_sinks st' ! 0))))
           in Some ((put_bytes 0 (take len (sink_map (av_sinks st' ! i))) (fst ml), len), st')
      else None)"

section \<open>State of a sink\<close>

definition sink_channel_words :: "avb_st \<Rightarrow> avb_sink_info \<Rightarrow> u32 list" where
  "sink_channel_words st snk =
     map (\<lambda>m. if m = AVB_CHANNEL_UNMAPPED then 0 else media_fifo (av_outputs st ! nat m))
       (take (unat (num_channels (sink_stream snk))) (sink_map snk))"

definition listener_configuration :: "avb_st \<Rightarrow> avb_sink_info \<Rightarrow> u32 list" where
  "listener_configuration st snk =
     (let s = sink_stream snk
      in [AVB1722_CONFIGURE_LISTENER_STREAM, ucast (local_id s), ucast (stream_sync s),
          word_of_int (stream_rate s), ucast (num_channels s)] @ sink_channel_words st snk)"

definition sink_clk_ctl :: "avb_st \<Rightarrow> avb_sink_info \<Rightarrow> int" where
  "sink_clk_ctl st snk = media_clk_ctl (av_outputs st ! nat (hd (sink_map snk)))"

definition sink_enable :: "u32 \<Rightarrow> u32 \<Rightarrow> nat \<Rightarrow> avb_st \<Rightarrow> avb_st" where
  "sink_enable now router_link i st =
     (let snk = av_sinks st ! i; s = sink_stream snk; c = listener_ctl snk;
          st1 = emit_words c (listener_configuration st snk) st;
          st2 = (if av_media_clock_svr st then emit (MediaClockRegister (sink_clk_ctl st snk) (stream_sync s)) st1
                 else st1);
          st3 = emit (RouterMapping (streamId s) router_link (local_id s)) (emit (ChanOut c AVB1722_GET_ROUTER_LINK) st2);
          st4 = (if stream_vlan s \<noteq> 0 then snd (avb_join_vlan now (uint (stream_vlan s)) st3) else st3);
          st5 = (if sink_addr snk ! 0 AND 1 \<noteq> 0 then snd (avb_join_multicast_group now (sink_addr snk) st4) else st4)
      in mrp_mad_join now (srp_listener_attr s) True
           (mrp_mad_begin now (srp_listener_attr s)
             (mrp_mad_begin now (srp_talker_failed_attr s)
               (mrp_mad_begin now (srp_talker_attr s) st5))))"

definition other_sinks_disabled :: "nat \<Rightarrow> avb_st \<Rightarrow> bool" where
  "other_sinks_disabled i st \<longleftrightarrow>
     list_all (\<lambda>k. k = i \<or> sink_state (av_sinks st ! k) = STATE_DISABLED) [0..<length (av_sinks st)]"

definition sink_disable :: "u32 \<Rightarrow> nat \<Rightarrow> avb_st \<Rightarrow> avb_st" where
  "sink_disable now i st =
     (let snk = av_sinks st ! i; s = sink_stream snk;
          st1 = emit_words (listener_ctl snk) [AVB1722_DISABLE_LISTENER_STREAM, ucast (local_id s)] st;
          st2 = mrp_mad_leave now (srp_listener_attr s) st1;
          st3 = (if sink_addr snk ! 0 AND 1 \<noteq> 0 then avb_leave_multicast_group now (sink_addr snk) st2 else st2)
      in if stream_vlan s \<noteq> 0 \<and> other_sinks_disabled i st3
         then avb_leave_vlan now (uint (stream_vlan s)) st3 else st3)"

definition sink_transition :: "u32 \<Rightarrow> u32 \<Rightarrow> nat \<Rightarrow> avb_stream_state \<Rightarrow> avb_st \<Rightarrow> avb_st" where
  "sink_transition now router_link i new st =
     (let old = sink_state (av_sinks st ! i)
      in if old = STATE_DISABLED \<and> new = STATE_POTENTIAL then sink_enable now router_link i st
         else if old \<noteq> STATE_DISABLED \<and> new = STATE_DISABLED then sink_disable now i st
         else st)"

definition getset_avb_sink_state ::
  "u32 \<Rightarrow> u32 \<Rightarrow> bool \<Rightarrow> nat \<Rightarrow> avb_stream_state \<Rightarrow> avb_st \<Rightarrow> (avb_stream_state \<times> avb_st) option" where
  "getset_avb_sink_state now router_link do_set i state st =
     (if i < length (av_sinks st)
      then let st' = (if do_set
                      then update_sink i (sink_with (\<lambda>s. s\<lparr>stream_state := state\<rparr>))
                             (sink_transition now router_link i state st)
                      else st)
           in Some (sink_state (av_sinks st' ! i), st')
      else None)"

end
