(* ===== verification/Mrp_Periodic.thy ===== *)
theory Mrp_Periodic
  imports Avb_Control
begin

text \<open>
  The indications of the reservation protocols to the control API (\<open>avb_srp.c\<close>, with
  \<open>SRP_AUTO_TALKER_STREAM_CONTROL\<close>), and the periodic processing of MRP (\<open>mrp_periodic\<close> of
  \<open>avb_mrp.c\<close>): the three timers, the transmission round, and the delivery of the pending
  indications. One value of the reference counter is used for a whole call.
\<close>

section \<open>Indications\<close>

definition avb_get_source_stream_index_from_pointer :: "mrp_info \<Rightarrow> avb_st \<Rightarrow> nat option" where
  "avb_get_source_stream_index_from_pointer info st =
     (case info of SourceInfo i \<Rightarrow> if i < length (av_sources st) then Some i else None | _ \<Rightarrow> None)"

definition avb_get_sink_stream_index_from_pointer :: "mrp_info \<Rightarrow> avb_st \<Rightarrow> nat option" where
  "avb_get_sink_stream_index_from_pointer info st =
     (case info of SinkInfo i \<Rightarrow> if i < length (av_sinks st) then Some i else None | _ \<Rightarrow> None)"

definition set_avb_source_state :: "u32 \<Rightarrow> nat \<Rightarrow> avb_stream_state \<Rightarrow> avb_st \<Rightarrow> avb_st" where
  "set_avb_source_state now i state st =
     (case getset_avb_source_state now True i state st of Some (_, st') \<Rightarrow> st' | None \<Rightarrow> st)"

definition avb_srp_listener_join_ind :: "u32 \<Rightarrow> nat \<Rightarrow> bool \<Rightarrow> int \<Rightarrow> avb_st \<Rightarrow> avb_st" where
  "avb_srp_listener_join_ind now j is_new four_packed_event st =
     (case avb_get_source_stream_index_from_pointer (at_info (av_attrs st ! j)) st of
        None \<Rightarrow> st
      | Some i \<Rightarrow>
          if source_state (av_sources st ! i) = STATE_POTENTIAL \<and>
             (four_packed_event = AVB_SRP_FOUR_PACKED_EVENT_READY \<or>
              four_packed_event = AVB_SRP_FOUR_PACKED_EVENT_READY_FAILED)
          then set_avb_source_state now i STATE_ENABLED st else st)"

definition avb_srp_listener_leave_ind :: "u32 \<Rightarrow> nat \<Rightarrow> int \<Rightarrow> avb_st \<Rightarrow> avb_st" where
  "avb_srp_listener_leave_ind now j four_packed_event st =
     (case avb_get_source_stream_index_from_pointer (at_info (av_attrs st ! j)) st of
        None \<Rightarrow> st
      | Some i \<Rightarrow>
          if source_state (av_sources st ! i) = STATE_ENABLED
          then set_avb_source_state now i STATE_POTENTIAL st else st)"

text \<open>The indications for the other attribute types have empty bodies.\<close>

definition send_join_indication :: "u32 \<Rightarrow> nat \<Rightarrow> bool \<Rightarrow> int \<Rightarrow> avb_st \<Rightarrow> avb_st" where
  "send_join_indication now j is_new four_packed_event st =
     (if at_type (av_attrs st ! j) = MSRP_LISTENER
      then avb_srp_listener_join_ind now j is_new four_packed_event st else st)"

definition send_leave_indication :: "u32 \<Rightarrow> nat \<Rightarrow> int \<Rightarrow> avb_st \<Rightarrow> avb_st" where
  "send_leave_indication now j four_packed_event st =
     (if at_type (av_attrs st ! j) = MSRP_LISTENER
      then avb_srp_listener_leave_ind now j four_packed_event st else st)"

section \<open>Timers and transmission round\<close>

definition mrp_leave_all_msgs :: "mrp_attribute_type list \<Rightarrow> avb_st \<Rightarrow> avb_st" where
  "mrp_leave_all_msgs ts st =
     fold (\<lambda>t s. mrp_send (s\<lparr>av_send := create_empty_msg t 1 (av_send s)\<rparr>)) ts st"

text \<open>One protocol's share of a round: its leave-all messages and its attributes.\<close>

definition mrp_tx_protocol ::
  "u32 \<Rightarrow> u8 list \<Rightarrow> u16 \<Rightarrow> mrp_attribute_type list \<Rightarrow> mrp_attribute_type list \<Rightarrow> mrp_event \<Rightarrow> avb_st \<Rightarrow> avb_st" where
  "mrp_tx_protocol now mac etype leave_types tx_types e st =
     (let st1 = configure_send_buffer mac etype st;
          st2 = (if av_leave_all st1 \<noteq> 0 then mrp_leave_all_msgs leave_types st1 else st1)
      in force_send (fold (\<lambda>t. attribute_type_event now t e) tx_types st2))"

definition mrp_tx_round :: "u32 \<Rightarrow> avb_st \<Rightarrow> avb_st" where
  "mrp_tx_round now st =
     (let e = (if av_leave_all st \<noteq> 0 then MRP_EVENT_TX_LEAVE_ALL else MRP_EVENT_TX);
          st1 = mrp_sort_attrs
                  (st\<lparr>av_join_timer := start_avb_timer now MRP_JOINTIMER_PERIOD_CENTISECONDS (av_join_timer st)\<rparr>);
          st2 = mrp_tx_protocol now srp_dest_mac AVB_SRP_ETHERTYPE
                  [MSRP_TALKER_ADVERTISE, MSRP_TALKER_FAILED, MSRP_LISTENER, MSRP_DOMAIN_VECTOR]
                  [MSRP_TALKER_ADVERTISE, MSRP_LISTENER, MSRP_DOMAIN_VECTOR] e st1;
          st3 = mrp_tx_protocol now mmrp_dest_mac AVB_MMRP_ETHERTYPE [MMRP_MAC_VECTOR] [MMRP_MAC_VECTOR] e st2;
          st4 = mrp_tx_protocol now mvrp_dest_mac AVB_MVRP_ETHERTYPE [MVRP_VID_VECTOR] [MVRP_VID_VECTOR] e st3
      in st4\<lparr>av_leave_all := 0\<rparr>)"

definition mrp_periodic_timer_step :: "u32 \<Rightarrow> avb_st \<Rightarrow> avb_st" where
  "mrp_periodic_timer_step now st =
     (let (fired, t) = avb_timer_expired now (av_periodic_timer st);
          st' = st\<lparr>av_periodic_timer := t\<rparr>
      in if fired
         then let s = global_event now MRP_EVENT_PERIODIC st'
              in s\<lparr>av_periodic_timer := start_avb_timer now 10 (av_periodic_timer s)\<rparr>
         else st')"

definition mrp_leaveall_timer_step :: "u32 \<Rightarrow> avb_st \<Rightarrow> avb_st" where
  "mrp_leaveall_timer_step now st =
     (let (fired, t) = avb_timer_expired now (av_leaveall_timer st)
      in if fired
         then global_event now MRP_EVENT_RECEIVE_LEAVE_ALL
                (st\<lparr>av_leaveall_timer := start_avb_timer now 10 t, av_leave_all := 1\<rparr>)
         else st\<lparr>av_leaveall_timer := t\<rparr>)"

definition mrp_join_timer_step :: "u32 \<Rightarrow> avb_st \<Rightarrow> avb_st" where
  "mrp_join_timer_step now st =
     (let (fired, t) = avb_timer_expired now (av_join_timer st);
          st' = st\<lparr>av_join_timer := t\<rparr>
      in if fired then mrp_tx_round now st' else st')"

section \<open>Delivery\<close>

definition mrp_deliver :: "u32 \<Rightarrow> nat \<Rightarrow> avb_st \<Rightarrow> avb_st" where
  "mrp_deliver now j st =
     (if at_pending (av_attrs st ! j) \<noteq> 0
      then let st1 = (if at_pending (av_attrs st ! j) AND PENDING_JOIN_NEW \<noteq> 0
                      then send_join_indication now j True (at_four_vector (av_attrs st ! j)) st else st);
               st2 = (if at_pending (av_attrs st1 ! j) AND PENDING_JOIN \<noteq> 0
                      then send_join_indication now j False (at_four_vector (av_attrs st1 ! j)) st1 else st1);
               st3 = (if at_pending (av_attrs st2 ! j) AND PENDING_LEAVE \<noteq> 0
                      then send_leave_indication now j (at_four_vector (av_attrs st2 ! j)) st2 else st2)
           in update_attr j (\<lambda>a. a\<lparr>at_pending := 0, at_four_vector := 0\<rparr>) st3
      else st)"

definition mrp_poll_leave_timer :: "u32 \<Rightarrow> nat \<Rightarrow> avb_st \<Rightarrow> avb_st" where
  "mrp_poll_leave_timer now j st =
     (let (fired, t) = avb_timer_expired now (at_leave_timer (av_attrs st ! j));
          st' = update_attr j (\<lambda>a. a\<lparr>at_leave_timer := t\<rparr>) st
      in if fired then mrp_update_state now MRP_EVENT_LEAVETIMER j 0 st' else st')"

definition mrp_periodic :: "u32 \<Rightarrow> avb_st \<Rightarrow> avb_st" where
  "mrp_periodic now st =
     (let st1 = mrp_join_timer_step now (mrp_leaveall_timer_step now (mrp_periodic_timer_step now st))
      in fold (\<lambda>j s. mrp_poll_leave_timer now j (mrp_deliver now j s)) [0..<mrp_max_attrs st1] st1)"

end
