(* ===== verification/Srp_Proofs.thy ===== *)
theory Srp_Proofs
  imports Mrp_Periodic
begin

text \<open>
  Stream reservation from the registrar of a listener attribute to the talker: a Listener Ready
  starts a talker that waits for one, a Leave stops it after the leave timer unless the
  listener declares itself again.
\<close>

section \<open>Events that do not transmit\<close>

lemma update_attr_twice: "update_attr j g (update_attr j f st) = update_attr j (\<lambda>a. g (f a)) st"
proof (cases "j < length (av_attrs st)")
  case False
  then show ?thesis by (simp add: update_attr_def modify_nth_def list_update_beyond)
qed (simp add: update_attr_def modify_nth_def)

lemma update_state_quiet:
  assumes "e \<noteq> MRP_EVENT_TX" "e \<noteq> MRP_EVENT_TX_LEAVE_ALL"
  shows "mrp_update_state now e j fp st = update_attr j (mrp_attr_step now e fp) st"
proof -
  have "\<not> mrp_transmits e s" for s using assms by (cases e) simp_all
  moreover have "mrp_attr_step now e fp = (\<lambda>a. mrp_set_applicant e (mrp_registrar_step now e fp a))"
    by (simp add: fun_eq_iff mrp_attr_step_def mrp_set_applicant_def Let_def)
  ultimately show ?thesis by (simp add: mrp_update_state_def update_attr_twice Let_def)
qed

lemma nth_update_attr: "j < length (av_attrs st) \<Longrightarrow> av_attrs (update_attr j f st) ! j = f (av_attrs st ! j)"
  by simp

lemma attr_step_fields [simp]:
  "at_type (mrp_attr_step now e fp a) = at_type a" "at_info (mrp_attr_step now e fp a) = at_info a"
  by (cases e; simp add: mrp_attr_step_def Let_def registrar_new_def registrar_join_def registrar_leave_def
      registrar_flush_def mrp_stop_leave_timer_def)+

section \<open>Starting and stopping a stream\<close>

lemma emit_words_two: "emit_words c [x, y] st = emit (ChanOut c y) (emit (ChanOut c x) st)"
  by (simp add: emit_words_def)

text \<open>What setting the state of a source sends, in the two transitions the listener causes.\<close>

lemma set_state_go:
  assumes "i < length (av_sources st)" "source_state (av_sources st ! i) = STATE_POTENTIAL"
  shows "source_state (av_sources (set_avb_source_state now i STATE_ENABLED st) ! i) = STATE_ENABLED"
    and "\<exists>bw. av_out (set_avb_source_state now i STATE_ENABLED st) = av_out st @
           [ChanOut (talker_ctl (av_sources st ! i)) AVB1722_TALKER_GO,
            ChanOut (talker_ctl (av_sources st ! i)) (ucast (local_id (source_stream (av_sources st ! i)))),
            SetQavBandwidth bw]"
    and "av_attrs (set_avb_source_state now i STATE_ENABLED st) = av_attrs st"
  using assms
  by (simp_all add: set_avb_source_state_def getset_avb_source_state_def source_transition_def Let_def
      update_source_def avb_set_talker_bandwidth_def emit_words_two source_with_def)

lemma set_state_stop:
  assumes "i < length (av_sources st)" "source_state (av_sources st ! i) = STATE_ENABLED"
  shows "source_state (av_sources (set_avb_source_state now i STATE_POTENTIAL st) ! i) = STATE_POTENTIAL"
    and "\<exists>bw. av_out (set_avb_source_state now i STATE_POTENTIAL st) = av_out st @
           [ChanOut (talker_ctl (av_sources st ! i)) AVB1722_TALKER_STOP,
            ChanOut (talker_ctl (av_sources st ! i)) (ucast (local_id (source_stream (av_sources st ! i)))),
            SetQavBandwidth bw]"
    and "av_attrs (set_avb_source_state now i STATE_POTENTIAL st) = av_attrs st"
  using assms
  by (simp_all add: set_avb_source_state_def getset_avb_source_state_def source_transition_def Let_def
      update_source_def avb_set_talker_bandwidth_def emit_words_two source_with_def)

text \<open>The attribute \<open>j\<close> is the listener attribute of the source \<open>i\<close>.\<close>

definition listener_attr_of :: "avb_st \<Rightarrow> nat \<Rightarrow> nat \<Rightarrow> bool" where
  "listener_attr_of st j i \<longleftrightarrow>
     j < length (av_attrs st) \<and> i < length (av_sources st) \<and>
     at_type (av_attrs st ! j) = MSRP_LISTENER \<and> at_info (av_attrs st ! j) = SourceInfo i"

lemma join_indication_go:
  assumes "listener_attr_of st j i" "source_state (av_sources st ! i) = STATE_POTENTIAL" "four \<in> {2, 3}"
  shows "send_join_indication now j is_new four st = set_avb_source_state now i STATE_ENABLED st"
  using assms by (auto simp: listener_attr_of_def send_join_indication_def avb_srp_listener_join_ind_def
      avb_get_source_stream_index_from_pointer_def)

lemma leave_indication_stop:
  assumes "listener_attr_of st j i" "source_state (av_sources st ! i) = STATE_ENABLED"
  shows "send_leave_indication now j four st = set_avb_source_state now i STATE_POTENTIAL st"
  using assms by (auto simp: listener_attr_of_def send_leave_indication_def avb_srp_listener_leave_ind_def
      avb_get_source_stream_index_from_pointer_def)

text \<open>
  C13. A Listener Ready starts the talker: when New, JoinIn or JoinMt is received with the Ready
  parameter for the listener attribute of a source that is POTENTIAL and has no listener
  registered, the next delivery of indications makes the source ENABLED and sends the talker
  core exactly the go command for the stream, and the new bandwidth to the MAC.
\<close>

theorem listener_ready_starts_talker:
  assumes "listener_attr_of st j i" and "source_state (av_sources st ! i) = STATE_POTENTIAL"
    and "at_registrar (av_attrs st ! j) = MRP_MT" "at_pending (av_attrs st ! j) = 0"
    and "three \<in> {MRP_ATTRIBUTE_EVENT_NEW, MRP_ATTRIBUTE_EVENT_JOININ, MRP_ATTRIBUTE_EVENT_JOINMT}"
  shows "let st' = mrp_deliver now' j (mrp_in now three AVB_SRP_FOUR_PACKED_EVENT_READY j st); src = av_sources st ! i
     in source_state (av_sources st' ! i) = STATE_ENABLED \<and> at_registrar (av_attrs st' ! j) = MRP_IN \<and>
        at_pending (av_attrs st' ! j) = 0 \<and>
        (\<exists>bw. av_out st' = av_out st @ [ChanOut (talker_ctl src) AVB1722_TALKER_GO,
                ChanOut (talker_ctl src) (ucast (local_id (source_stream src))), SetQavBandwidth bw])"
proof -
  define st1 where "st1 = mrp_in now three AVB_SRP_FOUR_PACKED_EVENT_READY j st"
  have j: "j < length (av_attrs st)" using assms(1) by (simp add: listener_attr_of_def)
  have st1: "av_sources st1 = av_sources st" "av_out st1 = av_out st" "listener_attr_of st1 j i"
    "at_registrar (av_attrs st1 ! j) = MRP_IN" "at_four_vector (av_attrs st1 ! j) = 2"
    "at_pending (av_attrs st1 ! j) = (if three = 0 then PENDING_JOIN_NEW else PENDING_JOIN)"
    using assms j
    by (auto simp: st1_def mrp_in_def mrp_in_event_def update_state_quiet listener_attr_of_def mrp_attr_step_def
        registrar_new_def registrar_join_def mrp_stop_leave_timer_def)
  let ?st2 = "set_avb_source_state now' i STATE_ENABLED st1"
  have pot: "source_state (av_sources st1 ! i) = STATE_POTENTIAL" using assms(2) st1(1) by simp
  have i: "i < length (av_sources st1)" using st1(3) by (simp add: listener_attr_of_def)
  note go = set_state_go [OF i pot, of now']
  have "mrp_deliver now' j st1 = update_attr j (\<lambda>a. a\<lparr>at_pending := 0, at_four_vector := 0\<rparr>) ?st2"
    using st1(4-6) go(3) join_indication_go [OF st1(3) pot, of 2]
    by (auto simp: mrp_deliver_def Let_def)
  then show ?thesis
    using go st1 j unfolding st1_def [symmetric] Let_def by (auto simp: listener_attr_of_def)
qed

definition srp_example :: "avb_stream_state \<Rightarrow> mrp_registrar_state \<Rightarrow> avb_st" where
  "srp_example state reg = (avb_static 1 1 1 1 1 1 1 1)\<lparr>
     av_sources := [\<lparr>source_stream = empty_stream\<lparr>stream_state := state, local_id := 7\<rparr>, talker_ctl = 3,
        source_dest = replicate 6 0, presentation = 0, source_map = []\<rparr>],
     av_attrs := [zero_attr\<lparr>at_type := MSRP_LISTENER, at_applicant := MRP_VO, at_registrar := reg,
        at_leave_timer := zero_timer\<lparr>timeout_multiplier := 1\<rparr>, at_info := SourceInfo 0\<rparr>]\<rparr>"

lemma srp_example_attr: "listener_attr_of (srp_example state reg) 0 0"
  by (simp add: listener_attr_of_def srp_example_def)

theorem listener_ready_starts_talker_witness:
  "let st' = mrp_deliver 0 0 (mrp_in 0 MRP_ATTRIBUTE_EVENT_JOININ AVB_SRP_FOUR_PACKED_EVENT_READY 0
       (srp_example STATE_POTENTIAL MRP_MT))
   in source_state (av_sources st' ! 0) = STATE_ENABLED \<and>
      (\<exists>bw. av_out st' = [ChanOut 3 AVB1722_TALKER_GO, ChanOut 3 7, SetQavBandwidth bw])"
  using listener_ready_starts_talker [OF srp_example_attr, of STATE_POTENTIAL MRP_MT 1 0 0]
  by (simp add: srp_example_def zero_attr_def avb_static_def Let_def)

section \<open>The leave timer\<close>

text \<open>What the loop of \<open>mrp_periodic\<close> does with one attribute.\<close>

definition mrp_visit :: "u32 \<Rightarrow> nat \<Rightarrow> avb_st \<Rightarrow> avb_st" where
  "mrp_visit now j st = mrp_poll_leave_timer now j (mrp_deliver now j st)"

definition leave_deadline :: "u32 \<Rightarrow> u32" where
  "leave_deadline now = now + MRP_LEAVETIMER_PERIOD_CENTISECONDS * TICKS_PER_CENTISECOND"

lemma visit_idle:
  assumes "j < length (av_attrs st)" "at_pending (av_attrs st ! j) = 0"
    "tmr_active (at_leave_timer (av_attrs st ! j)) = 0 \<or>
     tmr_active (at_leave_timer (av_attrs st ! j)) = 1 \<and> \<not> timeafter t (tmr_timeout (at_leave_timer (av_attrs st ! j)))"
  shows "mrp_visit t j st = st"
proof -
  have "avb_timer_expired t (at_leave_timer (av_attrs st ! j)) = (False, at_leave_timer (av_attrs st ! j))"
    using assms(3) by (auto simp: avb_timer_expired_def)
  moreover have "(av_attrs st)[j := av_attrs st ! j] = av_attrs st" by simp
  ultimately show ?thesis
    using assms(1,2) by (simp add: mrp_visit_def mrp_deliver_def mrp_poll_leave_timer_def update_attr_def modify_nth_def)
qed

lemma visit_expired:
  assumes "j < length (av_attrs st)" "at_pending (av_attrs st ! j) = 0" "at_registrar (av_attrs st ! j) = MRP_LV"
    "tmr_active (at_leave_timer (av_attrs st ! j)) = 1" "timeafter t (tmr_timeout (at_leave_timer (av_attrs st ! j)))"
  shows "av_sources (mrp_visit t j st) = av_sources st" "av_out (mrp_visit t j st) = av_out st"
    "length (av_attrs (mrp_visit t j st)) = length (av_attrs st)"
    "at_pending (av_attrs (mrp_visit t j st) ! j) = PENDING_LEAVE"
    "at_registrar (av_attrs (mrp_visit t j st) ! j) = MRP_MT"
    "at_type (av_attrs (mrp_visit t j st) ! j) = at_type (av_attrs st ! j)"
    "at_info (av_attrs (mrp_visit t j st) ! j) = at_info (av_attrs st ! j)"
  using assms
  by (simp_all add: mrp_visit_def mrp_deliver_def mrp_poll_leave_timer_def avb_timer_expired_def Let_def
      update_state_quiet mrp_attr_step_def registrar_flush_def)

text \<open>
  C14. A listener that leaves has 80 centiseconds to come back. Before the leave timer expires
  nothing happens to the talker; if the listener joins again the registration is as before and
  no later visit changes the talker; after the timer has expired the next delivery makes the
  source POTENTIAL and sends the talker core the stop command.
\<close>

theorem listener_leave_grace:
  assumes "listener_attr_of st j i" and "source_state (av_sources st ! i) = STATE_ENABLED"
    and "at_registrar (av_attrs st ! j) = MRP_IN" "at_pending (av_attrs st ! j) = 0"
    and "timeout_multiplier (at_leave_timer (av_attrs st ! j)) = 1"
  shows "let left = mrp_in now MRP_ATTRIBUTE_EVENT_LV four j st; rejoined = mrp_in t MRP_ATTRIBUTE_EVENT_JOININ 2 j left;
             gone = mrp_deliver t' j (mrp_visit t j left); src = av_sources st ! i
     in (\<not> timeafter t (leave_deadline now) \<longrightarrow>
           av_sources (mrp_visit t j left) = av_sources st \<and> av_out (mrp_visit t j left) = av_out st) \<and>
        at_registrar (av_attrs rejoined ! j) = MRP_IN \<and> mrp_visit t' j rejoined = rejoined \<and>
        av_sources rejoined = av_sources st \<and> av_out rejoined = av_out st \<and>
        (timeafter t (leave_deadline now) \<longrightarrow>
           source_state (av_sources gone ! i) = STATE_POTENTIAL \<and>
           (\<exists>bw. av_out gone = av_out st @ [ChanOut (talker_ctl src) AVB1722_TALKER_STOP,
                  ChanOut (talker_ctl src) (ucast (local_id (source_stream src))), SetQavBandwidth bw]))"
proof -
  have j: "j < length (av_attrs st)" using assms(1) by (simp add: listener_attr_of_def)
  define left where "left = mrp_in now MRP_ATTRIBUTE_EVENT_LV four j st"
  define rejoined where "rejoined = mrp_in t MRP_ATTRIBUTE_EVENT_JOININ 2 j left"
  have left: "av_sources left = av_sources st" "av_out left = av_out st" "listener_attr_of left j i"
    "at_registrar (av_attrs left ! j) = MRP_LV" "at_pending (av_attrs left ! j) = 0"
    "tmr_active (at_leave_timer (av_attrs left ! j)) = 1" "tmr_timeout (at_leave_timer (av_attrs left ! j)) = leave_deadline now"
    using assms j by (simp_all add: left_def mrp_in_def mrp_in_event_def update_state_quiet listener_attr_of_def
        mrp_attr_step_def registrar_leave_def start_avb_timer_def leave_deadline_def)
  have jl: "j < length (av_attrs left)" using left(3) by (simp add: listener_attr_of_def)
  have idle: "mrp_visit t j left = left" if "\<not> timeafter t (leave_deadline now)"
    by (rule visit_idle) (use left jl that in simp_all)
  have rejoined: "at_registrar (av_attrs rejoined ! j) = MRP_IN" "av_sources rejoined = av_sources st" "av_out rejoined = av_out st"
    "at_pending (av_attrs rejoined ! j) = 0" "tmr_active (at_leave_timer (av_attrs rejoined ! j)) = 0" "j < length (av_attrs rejoined)"
    using left jl by (simp_all add: rejoined_def mrp_in_def mrp_in_event_def update_state_quiet
        mrp_attr_step_def registrar_join_def mrp_stop_leave_timer_def stop_avb_timer_def Let_def)
  have "mrp_visit t' j rejoined = rejoined" by (rule visit_idle) (use rejoined in simp_all)
  moreover have "source_state (av_sources (mrp_deliver t' j (mrp_visit t j left)) ! i) = STATE_POTENTIAL \<and>
      (\<exists>bw. av_out (mrp_deliver t' j (mrp_visit t j left)) = av_out st @
         [ChanOut (talker_ctl (av_sources st ! i)) AVB1722_TALKER_STOP,
          ChanOut (talker_ctl (av_sources st ! i)) (ucast (local_id (source_stream (av_sources st ! i)))), SetQavBandwidth bw])"
    if ex: "timeafter t (leave_deadline now)"
  proof -
    let ?g = "mrp_visit t j left"
    have "timeafter t (tmr_timeout (at_leave_timer (av_attrs left ! j)))" using ex left(7) by simp
    note v = visit_expired [OF jl left(5,4,6) this]
    have la: "listener_attr_of ?g j i" using v left(3) by (simp add: listener_attr_of_def)
    have en: "source_state (av_sources ?g ! i) = STATE_ENABLED" "i < length (av_sources ?g)"
      using v(1) left(1) assms(2) la by (simp_all add: listener_attr_of_def)
    note stop = set_state_stop [OF en(2,1), of t']
    have "mrp_deliver t' j ?g = update_attr j (\<lambda>a. a\<lparr>at_pending := 0, at_four_vector := 0\<rparr>)
        (set_avb_source_state t' i STATE_POTENTIAL ?g)"
      using v(4) leave_indication_stop [OF la en(1)] by (simp add: mrp_deliver_def Let_def)
    then show ?thesis using stop(1,2) v(1,2) left(1,2) by auto
  qed
  ultimately show ?thesis
    using idle left(1,2) rejoined(1-3) unfolding left_def [symmetric] rejoined_def [symmetric] Let_def by simp
qed

theorem listener_leave_grace_witness:
  "let gone = mrp_deliver 90000000 0 (mrp_visit 85000000 0
        (mrp_in 0 MRP_ATTRIBUTE_EVENT_LV 2 0 (srp_example STATE_ENABLED MRP_IN)))
   in source_state (av_sources gone ! 0) = STATE_POTENTIAL \<and>
      (\<exists>bw. av_out gone = [ChanOut 3 AVB1722_TALKER_STOP, ChanOut 3 7, SetQavBandwidth bw])"
proof -
  have "timeafter 85000000 (leave_deadline 0)"
    by (simp add: timeafter_def leave_deadline_def TICKS_PER_CENTISECOND_def)
  then show ?thesis
    using listener_leave_grace [OF srp_example_attr, of STATE_ENABLED MRP_IN 0 2 85000000 90000000]
    by (simp add: srp_example_def zero_attr_def zero_timer_def avb_static_def Let_def)
qed

end
