(* ===== verification/Acmp_Types.thy ===== *)
theory Acmp_Types
  imports Misc_Timer Avb_1722_Common
begin

text \<open>
  The data of the 1722.1 connection management protocol (ACMP): the structures of
  \<open>avb_1722_1_acmp_pdu.h\<close>, the statics of \<open>avb_1722_1_acmp.c\<close> as one state record, and the
  packet writer and reader. The numbers of listeners, talkers, listeners per talker and
  inflight commands are configuration macros; here they are the lengths of the arrays.
  Frames handed to the MAC are appended to the log \<open>ac_sent\<close>.
\<close>

datatype acmp_entity = CONTROLLER | LISTENER

datatype acmp_controller_state =
    ACMP_CONTROLLER_IDLE
  | ACMP_CONTROLLER_WAITING
  | ACMP_CONTROLLER_TIMEOUT
  | ACMP_CONTROLLER_CONNECT_RX_RESPONSE
  | ACMP_CONTROLLER_DISCONNECT_RX_RESPONSE
  | ACMP_CONTROLLER_GET_TX_STATE_RESPONSE
  | ACMP_CONTROLLER_GET_RX_STATE_RESPONSE
  | ACMP_CONTROLLER_GET_TX_CONNECTION_RESPONSE

datatype acmp_talker_state =
    ACMP_TALKER_IDLE
  | ACMP_TALKER_WAITING
  | ACMP_TALKER_CONNECT
  | ACMP_TALKER_DISCONNECT
  | ACMP_TALKER_GET_STATE
  | ACMP_TALKER_GET_CONNECTION

datatype acmp_listener_state =
    ACMP_LISTENER_IDLE
  | ACMP_LISTENER_WAITING
  | ACMP_LISTENER_CONNECT_RX_COMMAND
  | ACMP_LISTENER_DISCONNECT_RX_COMMAND
  | ACMP_LISTENER_CONNECT_TX_RESPONSE
  | ACMP_LISTENER_DISCONNECT_TX_RESPONSE
  | ACMP_LISTENER_GET_STATE
  | ACMP_LISTENER_RX_TIMEOUT

text \<open>Message types and status codes.\<close>

abbreviation (input) "ACMP_CMD_CONNECT_TX_COMMAND \<equiv> 0 :: u8"
abbreviation (input) "ACMP_CMD_CONNECT_TX_RESPONSE \<equiv> 1 :: u8"
abbreviation (input) "ACMP_CMD_DISCONNECT_TX_COMMAND \<equiv> 2 :: u8"
abbreviation (input) "ACMP_CMD_DISCONNECT_TX_RESPONSE \<equiv> 3 :: u8"
abbreviation (input) "ACMP_CMD_GET_TX_STATE_COMMAND \<equiv> 4 :: u8"
abbreviation (input) "ACMP_CMD_GET_TX_STATE_RESPONSE \<equiv> 5 :: u8"
abbreviation (input) "ACMP_CMD_CONNECT_RX_COMMAND \<equiv> 6 :: u8"
abbreviation (input) "ACMP_CMD_CONNECT_RX_RESPONSE \<equiv> 7 :: u8"
abbreviation (input) "ACMP_CMD_DISCONNECT_RX_COMMAND \<equiv> 8 :: u8"
abbreviation (input) "ACMP_CMD_DISCONNECT_RX_RESPONSE \<equiv> 9 :: u8"
abbreviation (input) "ACMP_CMD_GET_RX_STATE_COMMAND \<equiv> 10 :: u8"
abbreviation (input) "ACMP_CMD_GET_RX_STATE_RESPONSE \<equiv> 11 :: u8"
abbreviation (input) "ACMP_CMD_GET_TX_CONNECTION_COMMAND \<equiv> 12 :: u8"
abbreviation (input) "ACMP_CMD_GET_TX_CONNECTION_RESPONSE \<equiv> 13 :: u8"

abbreviation (input) "ACMP_STATUS_SUCCESS \<equiv> 0 :: u8"
abbreviation (input) "ACMP_STATUS_LISTENER_UNKNOWN_ID \<equiv> 1 :: u8"
abbreviation (input) "ACMP_STATUS_TALKER_UNKNOWN_ID \<equiv> 2 :: u8"
abbreviation (input) "ACMP_STATUS_LISTENER_TALKER_TIMEOUT \<equiv> 7 :: u8"
abbreviation (input) "ACMP_STATUS_LISTENER_EXCLUSIVE \<equiv> 8 :: u8"
abbreviation (input) "ACMP_STATUS_NOT_CONNECTED \<equiv> 10 :: u8"
abbreviation (input) "ACMP_STATUS_NO_SUCH_CONNECTION \<equiv> 11 :: u8"

record acmp_cmd_resp =
  cr_message_type :: u8
  cr_status :: u8
  cr_stream_id :: u64
  cr_controller_guid :: u64
  cr_talker_guid :: u64
  cr_listener_guid :: u64
  cr_talker_unique_id :: u16
  cr_listener_unique_id :: u16
  cr_stream_dest_mac :: "u8 list"
  cr_connection_count :: u16
  cr_sequence_id :: u16
  cr_flags :: u16
  cr_default_format :: u32

record acmp_listener_pair =
  lp_guid :: u64
  lp_unique_id :: u16

record acmp_talker_stream_info =
  ts_stream_id :: u64
  ts_connection_count :: int
  ts_destination_mac :: "u8 list"
  ts_connected_listeners :: "acmp_listener_pair list"

record acmp_listener_stream_info =
  ls_talker_guid :: u64
  ls_talker_unique_id :: u16
  ls_connected :: int
  ls_stream_id :: u64
  ls_destination_mac :: "u8 list"

record acmp_inflight_command =
  fl_in_use :: bool
  fl_timeout :: u32
  fl_retried :: bool
  fl_command :: acmp_cmd_resp
  fl_original_sequence_id :: u16

text \<open>The statics; \<open>ac_env\<close> is the state behind the application hooks.\<close>

record 'e acmp_st =
  ac_my_guid :: u64
  ac_my_mac :: "u8 list"
  ac_buf :: "u8 list"
  ac_controller_state :: acmp_controller_state
  ac_talker_state :: acmp_talker_state
  ac_listener_state :: acmp_listener_state
  ac_listener_streams :: "acmp_listener_stream_info list"
  ac_talker_streams :: "acmp_talker_stream_info list"
  ac_inflight :: "acmp_entity \<Rightarrow> acmp_inflight_command list"
  ac_centisecond_counter :: "acmp_entity \<Rightarrow> u32"
  ac_inflight_timeout_idx :: "acmp_entity \<Rightarrow> int"
  ac_inflight_timer :: "acmp_entity \<Rightarrow> avb_timer"
  ac_controller_cmd_resp :: acmp_cmd_resp
  ac_talker_rcvd :: acmp_cmd_resp
  ac_listener_rcvd :: acmp_cmd_resp
  ac_sequence_id :: "acmp_entity \<Rightarrow> u16"
  ac_env :: 'e
  ac_sent :: "u8 list list"

text \<open>
  The hooks that an application may replace (they are weak symbols), and the question the
  listener asks of the sink layer. A hook works on the environment; the talker connect hook
  may install a stream id by \<open>avb_1722_1_talker_set_stream_id\<close>, which it returns, and the
  connect-failed hook may ask for new connections, which are made when it returns.
\<close>

record 'e acmp_hooks =
  hk_sink_reserved :: "'e \<Rightarrow> u16 \<Rightarrow> bool"
  hk_talker_on_listener_connect :: "u16 \<Rightarrow> u64 \<Rightarrow> 'e \<Rightarrow> 'e \<times> (u32 \<times> u32) option"
  hk_talker_on_listener_disconnect :: "u16 \<Rightarrow> u64 \<Rightarrow> int \<Rightarrow> 'e \<Rightarrow> 'e"
  hk_listener_on_talker_connect :: "u16 \<Rightarrow> u64 \<Rightarrow> u8 list \<Rightarrow> u32 \<times> u32 \<Rightarrow> u64 \<Rightarrow> 'e \<Rightarrow> 'e \<times> u8"
  hk_listener_on_talker_disconnect :: "u16 \<Rightarrow> u64 \<Rightarrow> u8 list \<Rightarrow> u32 \<times> u32 \<Rightarrow> u64 \<Rightarrow> 'e \<Rightarrow> 'e"
  hk_talker_on_listener_connect_failed ::
    "u64 \<Rightarrow> u16 \<Rightarrow> u64 \<Rightarrow> u8 \<Rightarrow> 'e \<Rightarrow> 'e \<times> (u64 \<times> u64 \<times> int \<times> int) list"

definition zero_cmd_resp :: acmp_cmd_resp where
  "zero_cmd_resp =
     \<lparr>cr_message_type = 0, cr_status = 0, cr_stream_id = 0, cr_controller_guid = 0,
      cr_talker_guid = 0, cr_listener_guid = 0, cr_talker_unique_id = 0,
      cr_listener_unique_id = 0, cr_stream_dest_mac = replicate 6 0, cr_connection_count = 0,
      cr_sequence_id = 0, cr_flags = 0, cr_default_format = 0\<rparr>"

definition zero_inflight :: acmp_inflight_command where
  "zero_inflight = \<lparr>fl_in_use = False, fl_timeout = 0, fl_retried = False,
     fl_command = zero_cmd_resp, fl_original_sequence_id = 0\<rparr>"

definition zero_listener_stream :: acmp_listener_stream_info where
  "zero_listener_stream = \<lparr>ls_talker_guid = 0, ls_talker_unique_id = 0, ls_connected = 0,
     ls_stream_id = 0, ls_destination_mac = replicate 6 0\<rparr>"

section \<open>Packets\<close>

text \<open>
  Offsets inside the frame: the control header at 14, stream id 18, controller 26, talker 34,
  listener 42, talker and listener unique ids 50 and 52, destination MAC 54, connection
  count 60, sequence id 62, flags 64, default format 66; the frame has 70 bytes.
\<close>

definition AVB_1722_1_ACMP_PACKET_SIZE :: nat where
  "AVB_1722_1_ACMP_PACKET_SIZE = 70"

definition avb_1722_1_acmp_dest_addr :: "u8 list" where
  "avb_1722_1_acmp_dest_addr = [0x91, 0xe0, 0xf0, 0x01, 0x00, 0x00]"

definition avb_1722_1_create_acmp_packet ::
  "acmp_cmd_resp \<Rightarrow> u8 \<Rightarrow> u8 \<Rightarrow> u8 list \<Rightarrow> u8 list \<Rightarrow> u8 list" where
  "avb_1722_1_create_acmp_packet cr message_type status my_mac buf =
     (let h = avb_1722_1_create_1722_1_header my_mac avb_1722_1_acmp_dest_addr 0x7c
                message_type status 44 buf;
          p1 = put_bytes 18 (guid_to_wire (cr_stream_id cr)) h;
          p2 = put_bytes 26 (guid_to_wire (cr_controller_guid cr)) p1;
          p3 = put_bytes 42 (guid_to_wire (cr_listener_guid cr)) p2;
          p4 = put_bytes 34 (guid_to_wire (cr_talker_guid cr)) p3;
          p5 = put_bytes 66 (hton_32 (cr_default_format cr)) p4;
          p6 = put_bytes 50 (hton_16 (cr_talker_unique_id cr)) p5;
          p7 = put_bytes 52 (hton_16 (cr_listener_unique_id cr)) p6;
          p8 = put_bytes 60 (hton_16 (cr_connection_count cr)) p7;
          p9 = put_bytes 62 (hton_16 (cr_sequence_id cr)) p8;
          p10 = put_bytes 64 (hton_16 (cr_flags cr)) p9
      in put_bytes 54 (take 6 (cr_stream_dest_mac cr)) p10)"

text \<open>The reader assigns every member of the structure, so it needs no earlier value.\<close>

definition store_rcvd_cmd_resp :: "u8 list \<Rightarrow> acmp_cmd_resp" where
  "store_rcvd_cmd_resp pkt =
     \<lparr>cr_message_type = get_1722_1_msg_type pkt,
      cr_status = get_1722_1_valid_time pkt,
      cr_stream_id = guid_from_wire (get_bytes 4 8 pkt),
      cr_controller_guid = guid_from_wire (get_bytes 12 8 pkt),
      cr_talker_guid = guid_from_wire (get_bytes 20 8 pkt),
      cr_listener_guid = guid_from_wire (get_bytes 28 8 pkt),
      cr_talker_unique_id = ntoh_16 (get_bytes 36 2 pkt),
      cr_listener_unique_id = ntoh_16 (get_bytes 38 2 pkt),
      cr_stream_dest_mac = get_bytes 40 6 pkt,
      cr_connection_count = ntoh_16 (get_bytes 46 2 pkt),
      cr_sequence_id = ntoh_16 (get_bytes 48 2 pkt),
      cr_flags = ntoh_16 (get_bytes 50 2 pkt),
      cr_default_format = ntoh_32 (get_bytes 52 4 pkt)\<rparr>"

text \<open>The writer as a header followed by a list of fields.\<close>

definition acmp_fields :: "acmp_cmd_resp \<Rightarrow> (nat \<times> u8 list) list" where
  "acmp_fields cr =
     [(18, guid_to_wire (cr_stream_id cr)), (26, guid_to_wire (cr_controller_guid cr)),
      (42, guid_to_wire (cr_listener_guid cr)), (34, guid_to_wire (cr_talker_guid cr)),
      (66, hton_32 (cr_default_format cr)), (50, hton_16 (cr_talker_unique_id cr)),
      (52, hton_16 (cr_listener_unique_id cr)), (60, hton_16 (cr_connection_count cr)),
      (62, hton_16 (cr_sequence_id cr)), (64, hton_16 (cr_flags cr)),
      (54, take 6 (cr_stream_dest_mac cr))]"

lemma create_acmp_packet_fields:
  "avb_1722_1_create_acmp_packet cr mt st my_mac buf = put_fields (acmp_fields cr)
     (avb_1722_1_create_1722_1_header my_mac avb_1722_1_acmp_dest_addr 0x7c mt st 44 buf)"
  by (simp add: avb_1722_1_create_acmp_packet_def acmp_fields_def Let_def)

lemma acmp_fields_ok: "70 \<le> n \<Longrightarrow> fields_ok n (acmp_fields cr)"
  by (simp add: acmp_fields_def field_apart_def min_def)

lemma length_create_acmp_packet [simp]:
  "70 \<le> length buf \<Longrightarrow> length (avb_1722_1_create_acmp_packet cr mt st my_mac buf) = length buf"
  by (simp add: create_acmp_packet_fields length_put_fields acmp_fields_ok)

lemma acmp_packet_bytes:
  assumes "70 \<le> length buf" "f \<in> set (acmp_fields cr)"
  shows "get_bytes (fst f) (length (snd f)) (avb_1722_1_create_acmp_packet cr mt st my_mac buf) = snd f"
  using assms unfolding create_acmp_packet_fields by (intro put_fields_read) (simp_all add: acmp_fields_ok)

lemma acmp_packet_header:
  assumes "70 \<le> length buf" "length my_mac = 6" "mt < 2 ^ 4" "st < 2 ^ 5"
  shows "get_1722_1_msg_type (drop 14 (avb_1722_1_create_acmp_packet cr mt st my_mac buf)) = mt"
    and "get_1722_1_valid_time (drop 14 (avb_1722_1_create_acmp_packet cr mt st my_mac buf)) = st"
    and "get_1722_1_subtype (drop 14 (avb_1722_1_create_acmp_packet cr mt st my_mac buf)) = 0x7c"
proof -
  let ?h = "avb_1722_1_create_1722_1_header my_mac avb_1722_1_acmp_dest_addr 0x7c mt st 44 buf"
  have "put_fields (acmp_fields cr) ?h ! i = ?h ! i" if "i \<in> {14, 15, 16}" for i
    using assms(1) that
    by (intro put_fields_nth_other) (auto simp: acmp_fields_ok acmp_fields_def field_apart_def)
  moreover have "get_1722_1_subtype (drop 14 ?h) = 0x7c \<and> get_1722_1_msg_type (drop 14 ?h) = mt \<and>
      get_1722_1_valid_time (drop 14 ?h) = st"
    using header_fields [OF _ assms(3,4) _ _ assms(2) _ refl, of "0x7c" 44 avb_1722_1_acmp_dest_addr buf]
      assms(1) by (simp add: avb_1722_1_acmp_dest_addr_def)
  ultimately show
    "get_1722_1_msg_type (drop 14 (avb_1722_1_create_acmp_packet cr mt st my_mac buf)) = mt"
    "get_1722_1_valid_time (drop 14 (avb_1722_1_create_acmp_packet cr mt st my_mac buf)) = st"
    "get_1722_1_subtype (drop 14 (avb_1722_1_create_acmp_packet cr mt st my_mac buf)) = 0x7c"
    using assms(1) unfolding create_acmp_packet_fields
    by (simp_all add: get_1722_1_msg_type_def get_1722_1_valid_time_def get_1722_1_subtype_def
        length_put_fields acmp_fields_ok)
qed

lemma store_create:
  assumes "length (cr_stream_dest_mac cr) = 6" "70 \<le> length buf" "length my_mac = 6"
    "mt < 2 ^ 4" "st < 2 ^ 5"
  shows "store_rcvd_cmd_resp (drop 14 (avb_1722_1_create_acmp_packet cr mt st my_mac buf)) =
           cr\<lparr>cr_message_type := mt, cr_status := st\<rparr>"
proof -
  let ?f = "avb_1722_1_create_acmp_packet cr mt st my_mac buf"
  have b: "get_bytes 18 8 ?f = guid_to_wire (cr_stream_id cr)"
    "get_bytes 26 8 ?f = guid_to_wire (cr_controller_guid cr)"
    "get_bytes 34 8 ?f = guid_to_wire (cr_talker_guid cr)"
    "get_bytes 42 8 ?f = guid_to_wire (cr_listener_guid cr)"
    "get_bytes 50 2 ?f = hton_16 (cr_talker_unique_id cr)"
    "get_bytes 52 2 ?f = hton_16 (cr_listener_unique_id cr)"
    "get_bytes 54 6 ?f = cr_stream_dest_mac cr"
    "get_bytes 60 2 ?f = hton_16 (cr_connection_count cr)"
    "get_bytes 62 2 ?f = hton_16 (cr_sequence_id cr)"
    "get_bytes 64 2 ?f = hton_16 (cr_flags cr)"
    "get_bytes 66 4 ?f = hton_32 (cr_default_format cr)"
    using acmp_packet_bytes [OF assms(2), of "(18, guid_to_wire (cr_stream_id cr))" cr mt st my_mac]
      acmp_packet_bytes [OF assms(2), of "(26, guid_to_wire (cr_controller_guid cr))" cr mt st my_mac]
      acmp_packet_bytes [OF assms(2), of "(34, guid_to_wire (cr_talker_guid cr))" cr mt st my_mac]
      acmp_packet_bytes [OF assms(2), of "(42, guid_to_wire (cr_listener_guid cr))" cr mt st my_mac]
      acmp_packet_bytes [OF assms(2), of "(50, hton_16 (cr_talker_unique_id cr))" cr mt st my_mac]
      acmp_packet_bytes [OF assms(2), of "(52, hton_16 (cr_listener_unique_id cr))" cr mt st my_mac]
      acmp_packet_bytes [OF assms(2), of "(54, take 6 (cr_stream_dest_mac cr))" cr mt st my_mac]
      acmp_packet_bytes [OF assms(2), of "(60, hton_16 (cr_connection_count cr))" cr mt st my_mac]
      acmp_packet_bytes [OF assms(2), of "(62, hton_16 (cr_sequence_id cr))" cr mt st my_mac]
      acmp_packet_bytes [OF assms(2), of "(64, hton_16 (cr_flags cr))" cr mt st my_mac]
      acmp_packet_bytes [OF assms(2), of "(66, hton_32 (cr_default_format cr))" cr mt st my_mac]
      assms(1)
    by (simp_all add: acmp_fields_def)
  show ?thesis using acmp_packet_header [OF assms(2,3,4,5)]
    by (simp add: store_rcvd_cmd_resp_def get_bytes_drop b ntoh_hton_16 ntoh_hton_32)
qed

lemma guid_from_wire_compare:
  "36 \<le> length pkt \<Longrightarrow> compare_guid (get_bytes 20 8 pkt) g \<longleftrightarrow> cr_talker_guid (store_rcvd_cmd_resp pkt) = g"
  "36 \<le> length pkt \<Longrightarrow> compare_guid (get_bytes 28 8 pkt) g \<longleftrightarrow> cr_listener_guid (store_rcvd_cmd_resp pkt) = g"
  "36 \<le> length pkt \<Longrightarrow> compare_guid (get_bytes 12 8 pkt) g \<longleftrightarrow> cr_controller_guid (store_rcvd_cmd_resp pkt) = g"
  by (simp_all add: store_rcvd_cmd_resp_def compare_guid_iff)

text \<open>
  An ACMP frame carries the whole command structure: reading back the packet that was
  built from a structure gives that structure, with the message type and status of the
  call, whatever the buffer held before.
\<close>

theorem acmp_packet_roundtrip:
  assumes "length (cr_stream_dest_mac cr) = 6" "70 \<le> length buf" "length my_mac = 6"
    "mt < 16" "st < 32"
  shows "store_rcvd_cmd_resp (drop 14 (avb_1722_1_create_acmp_packet cr mt st my_mac buf)) =
           cr\<lparr>cr_message_type := mt, cr_status := st\<rparr>"
  by (rule store_create) (use assms in simp_all)

theorem acmp_packet_roundtrip_witness:
  "store_rcvd_cmd_resp (drop 14 (avb_1722_1_create_acmp_packet
      (zero_cmd_resp\<lparr>cr_talker_guid := 0x1122334455667788, cr_talker_unique_id := 3,
         cr_sequence_id := 0xABCD, cr_default_format := 0xA0020840\<rparr>) 6 0 [0, 1, 2, 3, 4, 5] (replicate 72 0xFF)))
   = zero_cmd_resp\<lparr>cr_talker_guid := 0x1122334455667788, cr_talker_unique_id := 3,
       cr_sequence_id := 0xABCD, cr_default_format := 0xA0020840, cr_message_type := 6\<rparr>"
  by (subst acmp_packet_roundtrip) (simp_all add: zero_cmd_resp_def)

end
