(* ===== verification/Acmp.thy ===== *)
theory Acmp
  imports Acmp_Types
begin

text \<open>
  The operations of \<open>avb_1722_1_acmp.c\<close>: the inflight command list, the commands and
  responses that are sent, the received-packet dispatcher and the three periodic state
  machines (controller, talker, listener). Every function with an effect takes the state
  record last and returns the new one; \<open>hk\<close> is the application's hook record and \<open>now\<close> the
  reference counter at the call.
\<close>

section \<open>Initialisation\<close>

definition acmp_start_inflight_timer :: "u32 \<Rightarrow> acmp_entity \<Rightarrow> 'e acmp_st \<Rightarrow> 'e acmp_st" where
  "acmp_start_inflight_timer now e st =
     st\<lparr>ac_inflight_timer := (ac_inflight_timer st)(e := start_avb_timer now 1 (ac_inflight_timer st e))\<rparr>"

definition avb_1722_1_acmp_controller_init :: "u32 \<Rightarrow> 'e acmp_st \<Rightarrow> 'e acmp_st" where
  "avb_1722_1_acmp_controller_init now st =
     acmp_start_inflight_timer now CONTROLLER
       (st\<lparr>ac_controller_state := ACMP_CONTROLLER_WAITING,
           ac_inflight := (ac_inflight st)(CONTROLLER :=
             replicate (length (ac_inflight st CONTROLLER)) zero_inflight),
           ac_sequence_id := (ac_sequence_id st)(CONTROLLER := 0),
           ac_inflight_timer := (ac_inflight_timer st)(CONTROLLER :=
             init_avb_timer 10 (ac_inflight_timer st CONTROLLER)),
           ac_centisecond_counter := (ac_centisecond_counter st)(CONTROLLER := 0)\<rparr>)"

definition avb_1722_1_acmp_controller_deinit :: "'e acmp_st \<Rightarrow> 'e acmp_st" where
  "avb_1722_1_acmp_controller_deinit st = st\<lparr>ac_controller_state := ACMP_CONTROLLER_IDLE\<rparr>"

definition avb_1722_1_acmp_talker_init :: "'e acmp_st \<Rightarrow> 'e acmp_st" where
  "avb_1722_1_acmp_talker_init st = st\<lparr>ac_talker_state := ACMP_TALKER_WAITING\<rparr>"

definition acmp_zero_listener_stream_info :: "nat \<Rightarrow> 'e acmp_st \<Rightarrow> 'e acmp_st" where
  "acmp_zero_listener_stream_info i st =
     st\<lparr>ac_listener_streams := (ac_listener_streams st)[i := zero_listener_stream]\<rparr>"

definition avb_1722_1_acmp_listener_init :: "u32 \<Rightarrow> 'e acmp_st \<Rightarrow> 'e acmp_st" where
  "avb_1722_1_acmp_listener_init now st =
     (let s1 = st\<lparr>ac_listener_state := ACMP_LISTENER_WAITING,
                  ac_inflight := (ac_inflight st)(LISTENER :=
                    replicate (length (ac_inflight st LISTENER)) zero_inflight)\<rparr>;
          s2 = fold acmp_zero_listener_stream_info [0..<length (ac_listener_streams s1)] s1
      in acmp_start_inflight_timer now LISTENER
           (s2\<lparr>ac_sequence_id := (ac_sequence_id s2)(LISTENER := 0),
               ac_inflight_timer := (ac_inflight_timer s2)(LISTENER :=
                 init_avb_timer 10 (ac_inflight_timer s2 LISTENER)),
               ac_centisecond_counter := (ac_centisecond_counter s2)(LISTENER := 0)\<rparr>))"

section \<open>Inflight commands\<close>

definition acmp_progress_inflight_timer :: "u32 \<Rightarrow> acmp_entity \<Rightarrow> 'e acmp_st \<Rightarrow> 'e acmp_st" where
  "acmp_progress_inflight_timer now e st =
     (let (expired, t) = avb_timer_expired now (ac_inflight_timer st e);
          s1 = st\<lparr>ac_inflight_timer := (ac_inflight_timer st)(e := t)\<rparr>
      in if expired
         then acmp_start_inflight_timer now e
                (s1\<lparr>ac_centisecond_counter :=
                      (ac_centisecond_counter s1)(e := ac_centisecond_counter s1 e + 1)\<rparr>)
         else s1)"

text \<open>The index of the entry with a sequence id; \<open>None\<close> is the code's -1.\<close>

definition inflight_matches :: "u16 \<Rightarrow> acmp_inflight_command \<Rightarrow> bool" where
  "inflight_matches seq f \<longleftrightarrow> fl_in_use f \<and> cr_sequence_id (fl_command f) = seq"

definition acmp_get_inflight_from_sequence_id :: "acmp_entity \<Rightarrow> u16 \<Rightarrow> 'e acmp_st \<Rightarrow> nat option" where
  "acmp_get_inflight_from_sequence_id e seq st = find_idx (inflight_matches seq) (ac_inflight st e)"

definition avb_1722_1_acmp_inflight_timeouts :: "u32 list" where
  "avb_1722_1_acmp_inflight_timeouts = [20, 2, 2, 45, 5, 2, 2]"

definition acmp_inflight_timeout :: "u32 \<Rightarrow> u8 \<Rightarrow> u32" where
  "acmp_inflight_timeout counter message_type =
     (if even (unat message_type) \<and> unat message_type \<le> 12
      then counter + avb_1722_1_acmp_inflight_timeouts ! (unat message_type div 2)
      else 0)"

definition acmp_update_inflight_timeout ::
  "acmp_entity \<Rightarrow> u8 \<Rightarrow> 'e acmp_st \<Rightarrow> acmp_inflight_command \<Rightarrow> acmp_inflight_command" where
  "acmp_update_inflight_timeout e message_type st f =
     f\<lparr>fl_timeout := acmp_inflight_timeout (ac_centisecond_counter st e) message_type\<rparr>"

definition acmp_modify_inflight ::
  "acmp_entity \<Rightarrow> nat \<Rightarrow> (acmp_inflight_command \<Rightarrow> acmp_inflight_command) \<Rightarrow> 'e acmp_st \<Rightarrow> 'e acmp_st" where
  "acmp_modify_inflight e i f st =
     st\<lparr>ac_inflight := (ac_inflight st)(e := modify_nth i f (ac_inflight st e))\<rparr>"

definition acmp_set_inflight_retry :: "acmp_entity \<Rightarrow> u8 \<Rightarrow> nat \<Rightarrow> 'e acmp_st \<Rightarrow> 'e acmp_st" where
  "acmp_set_inflight_retry e message_type i st =
     acmp_modify_inflight e i
       (\<lambda>f. (acmp_update_inflight_timeout e message_type st f)\<lparr>fl_retried := True\<rparr>) st"

definition acmp_entity_command :: "acmp_entity \<Rightarrow> 'e acmp_st \<Rightarrow> acmp_cmd_resp" where
  "acmp_entity_command e st =
     (case e of CONTROLLER \<Rightarrow> ac_controller_cmd_resp st | LISTENER \<Rightarrow> ac_listener_rcvd st)"

definition acmp_new_inflight :: "acmp_entity \<Rightarrow> u8 \<Rightarrow> u16 \<Rightarrow> 'e acmp_st \<Rightarrow> acmp_inflight_command" where
  "acmp_new_inflight e message_type original_sequence_id st =
     acmp_update_inflight_timeout e message_type st
       \<lparr>fl_in_use = True, fl_timeout = 0, fl_retried = False,
        fl_command = (acmp_entity_command e st)\<lparr>cr_message_type := message_type\<rparr>,
        fl_original_sequence_id = original_sequence_id\<rparr>"

text \<open>A full list drops the command silently.\<close>

definition acmp_add_inflight :: "acmp_entity \<Rightarrow> u8 \<Rightarrow> u16 \<Rightarrow> 'e acmp_st \<Rightarrow> 'e acmp_st" where
  "acmp_add_inflight e message_type original_sequence_id st =
     (case find_idx (\<lambda>f. \<not> fl_in_use f) (ac_inflight st e) of
        None \<Rightarrow> st
      | Some i \<Rightarrow> acmp_modify_inflight e i
          (\<lambda>_. acmp_new_inflight e message_type original_sequence_id st) st)"

definition acmp_remove_inflight ::
  "acmp_entity \<Rightarrow> 'e acmp_st \<Rightarrow> acmp_inflight_command option \<times> 'e acmp_st" where
  "acmp_remove_inflight e st =
     (case acmp_get_inflight_from_sequence_id e (cr_sequence_id (acmp_entity_command e st)) st of
        Some i \<Rightarrow>
          let s1 = acmp_modify_inflight e i (\<lambda>f. f\<lparr>fl_in_use := False\<rparr>) st
          in (Some (ac_inflight s1 e ! i), s1)
      | None \<Rightarrow> (None, st))"

definition acmp_check_inflight_command_timeouts :: "acmp_entity \<Rightarrow> 'e acmp_st \<Rightarrow> int" where
  "acmp_check_inflight_command_timeouts e st =
     (case find_idx (\<lambda>f. fl_in_use f \<and> ac_centisecond_counter st e \<ge> fl_timeout f) (ac_inflight st e) of
        Some i \<Rightarrow> int i
      | None \<Rightarrow> - 1)"

section \<open>Received packets\<close>

text \<open>\<open>pkt\<close> is the frame without its Ethernet header.\<close>

definition acmp_controller_next :: "u8 \<Rightarrow> acmp_controller_state" where
  "acmp_controller_next message_type =
     (if message_type = ACMP_CMD_CONNECT_RX_RESPONSE then ACMP_CONTROLLER_CONNECT_RX_RESPONSE
      else if message_type = ACMP_CMD_DISCONNECT_RX_RESPONSE then ACMP_CONTROLLER_DISCONNECT_RX_RESPONSE
      else if message_type = ACMP_CMD_GET_TX_STATE_RESPONSE then ACMP_CONTROLLER_GET_RX_STATE_RESPONSE
      else if message_type = ACMP_CMD_GET_RX_STATE_RESPONSE then ACMP_CONTROLLER_GET_RX_STATE_RESPONSE
      else if message_type = ACMP_CMD_GET_TX_CONNECTION_RESPONSE then ACMP_CONTROLLER_GET_TX_CONNECTION_RESPONSE
      else ACMP_CONTROLLER_WAITING)"

definition process_avb_1722_1_acmp_controller_packet :: "u8 \<Rightarrow> u8 list \<Rightarrow> 'e acmp_st \<Rightarrow> 'e acmp_st" where
  "process_avb_1722_1_acmp_controller_packet message_type pkt st =
     (if ac_controller_state st \<noteq> ACMP_CONTROLLER_WAITING then st
      else if \<not> compare_guid (get_bytes 12 8 pkt) (ac_my_guid st) then st
      else
        case acmp_get_inflight_from_sequence_id CONTROLLER (ntoh_16 (get_bytes 48 2 pkt)) st of
          None \<Rightarrow> st
        | Some i \<Rightarrow>
            if uint message_type \<noteq> uint (cr_message_type (fl_command (ac_inflight st CONTROLLER ! i))) + 1
            then st
            else
              st\<lparr>ac_controller_cmd_resp := store_rcvd_cmd_resp pkt,
                 ac_controller_state := acmp_controller_next message_type\<rparr>)"

definition process_avb_1722_1_acmp_talker_packet :: "u8 \<Rightarrow> u8 list \<Rightarrow> 'e acmp_st \<Rightarrow> 'e acmp_st" where
  "process_avb_1722_1_acmp_talker_packet message_type pkt st =
     (if \<not> compare_guid (get_bytes 20 8 pkt) (ac_my_guid st) then st
      else if ac_talker_state st \<noteq> ACMP_TALKER_WAITING then st
      else
        st\<lparr>ac_talker_rcvd := store_rcvd_cmd_resp pkt,
           ac_talker_state :=
             (if message_type = ACMP_CMD_CONNECT_TX_COMMAND then ACMP_TALKER_CONNECT
              else if message_type = ACMP_CMD_DISCONNECT_TX_COMMAND then ACMP_TALKER_DISCONNECT
              else if message_type = ACMP_CMD_GET_TX_STATE_COMMAND then ACMP_TALKER_GET_STATE
              else if message_type = ACMP_CMD_GET_TX_CONNECTION_COMMAND then ACMP_TALKER_GET_CONNECTION
              else ac_talker_state st)\<rparr>)"

definition process_avb_1722_1_acmp_listener_packet :: "u8 \<Rightarrow> u8 list \<Rightarrow> 'e acmp_st \<Rightarrow> 'e acmp_st" where
  "process_avb_1722_1_acmp_listener_packet message_type pkt st =
     (if \<not> compare_guid (get_bytes 28 8 pkt) (ac_my_guid st) then st
      else if ac_listener_state st \<noteq> ACMP_LISTENER_WAITING then st
      else
        st\<lparr>ac_listener_rcvd := store_rcvd_cmd_resp pkt,
           ac_listener_state :=
             (if message_type = ACMP_CMD_CONNECT_TX_RESPONSE then ACMP_LISTENER_CONNECT_TX_RESPONSE
              else if message_type = ACMP_CMD_DISCONNECT_TX_RESPONSE then ACMP_LISTENER_DISCONNECT_TX_RESPONSE
              else if message_type = ACMP_CMD_CONNECT_RX_COMMAND then ACMP_LISTENER_CONNECT_RX_COMMAND
              else if message_type = ACMP_CMD_DISCONNECT_RX_COMMAND then ACMP_LISTENER_DISCONNECT_RX_COMMAND
              else if message_type = ACMP_CMD_GET_RX_STATE_COMMAND then ACMP_LISTENER_GET_STATE
              else ac_listener_state st)\<rparr>)"

definition process_avb_1722_1_acmp_packet :: "u8 list \<Rightarrow> 'e acmp_st \<Rightarrow> 'e acmp_st" where
  "process_avb_1722_1_acmp_packet pkt st =
     (let message_type = get_1722_1_msg_type pkt
      in if message_type \<in> {ACMP_CMD_CONNECT_TX_COMMAND, ACMP_CMD_DISCONNECT_TX_COMMAND,
              ACMP_CMD_GET_TX_STATE_COMMAND, ACMP_CMD_GET_TX_CONNECTION_COMMAND}
         then process_avb_1722_1_acmp_talker_packet message_type pkt st
         else if message_type \<in> {ACMP_CMD_CONNECT_TX_RESPONSE, ACMP_CMD_DISCONNECT_TX_RESPONSE,
              ACMP_CMD_CONNECT_RX_COMMAND, ACMP_CMD_DISCONNECT_RX_COMMAND, ACMP_CMD_GET_RX_STATE_COMMAND}
         then process_avb_1722_1_acmp_listener_packet message_type pkt st
         else if message_type \<in> {ACMP_CMD_CONNECT_RX_RESPONSE, ACMP_CMD_DISCONNECT_RX_RESPONSE,
              ACMP_CMD_GET_RX_STATE_RESPONSE, ACMP_CMD_GET_TX_STATE_RESPONSE,
              ACMP_CMD_GET_TX_CONNECTION_RESPONSE}
         then process_avb_1722_1_acmp_controller_packet message_type pkt st
         else st)"

section \<open>Sending\<close>

text \<open>\<open>acmp_tx\<close> builds a frame in the shared buffer and hands its first 70 bytes to the MAC.\<close>

definition acmp_tx :: "acmp_cmd_resp \<Rightarrow> u8 \<Rightarrow> u8 \<Rightarrow> 'e acmp_st \<Rightarrow> 'e acmp_st" where
  "acmp_tx cr message_type status st =
     (let buf = avb_1722_1_create_acmp_packet cr message_type status (ac_my_mac st) (ac_buf st)
      in st\<lparr>ac_buf := buf, ac_sent := ac_sent st @ [take AVB_1722_1_ACMP_PACKET_SIZE buf]\<rparr>)"

definition acmp_send_response :: "u8 \<Rightarrow> acmp_cmd_resp \<Rightarrow> u8 \<Rightarrow> 'e acmp_st \<Rightarrow> 'e acmp_st" where
  "acmp_send_response message_type response status st = acmp_tx response message_type status st"

text \<open>
  \<open>acmp_send_command\<close> receives a pointer to the command structure and stores the new sequence
  id through it, so the model passes the place: one of the two entity structures, or the
  command inside an inflight entry.
\<close>

datatype acmp_place = InController | InListener | InInflight acmp_entity nat

primrec acmp_command_at :: "acmp_place \<Rightarrow> 'e acmp_st \<Rightarrow> acmp_cmd_resp" where
  "acmp_command_at InController st = ac_controller_cmd_resp st"
| "acmp_command_at InListener st = ac_listener_rcvd st"
| "acmp_command_at (InInflight e i) st = fl_command (ac_inflight st e ! i)"

primrec acmp_set_sequence_at :: "acmp_place \<Rightarrow> u16 \<Rightarrow> 'e acmp_st \<Rightarrow> 'e acmp_st" where
  "acmp_set_sequence_at InController seq st =
     st\<lparr>ac_controller_cmd_resp := (ac_controller_cmd_resp st)\<lparr>cr_sequence_id := seq\<rparr>\<rparr>"
| "acmp_set_sequence_at InListener seq st =
     st\<lparr>ac_listener_rcvd := (ac_listener_rcvd st)\<lparr>cr_sequence_id := seq\<rparr>\<rparr>"
| "acmp_set_sequence_at (InInflight e i) seq st =
     acmp_modify_inflight e i (\<lambda>f. f\<lparr>fl_command := (fl_command f)\<lparr>cr_sequence_id := seq\<rparr>\<rparr>) st"

definition acmp_send_command ::
  "acmp_entity \<Rightarrow> u8 \<Rightarrow> acmp_place \<Rightarrow> bool \<Rightarrow> nat \<Rightarrow> 'e acmp_st \<Rightarrow> 'e acmp_st" where
  "acmp_send_command e message_type place retry inflight_idx st =
     (let original_sequence_id = cr_sequence_id (acmp_command_at place st);
          s1 = acmp_set_sequence_at place (ac_sequence_id st e) st;
          s2 = s1\<lparr>ac_sequence_id := (ac_sequence_id s1)(e := ac_sequence_id s1 e + 1)\<rparr>;
          s3 = acmp_tx (acmp_command_at place s2) message_type ACMP_STATUS_SUCCESS s2;
          s4 = process_avb_1722_1_acmp_packet (drop 14 (ac_buf s3)) s3
      in if \<not> retry then acmp_add_inflight e message_type original_sequence_id s4
         else acmp_set_inflight_retry e message_type inflight_idx s4)"

definition acmp_controller_connect_disconnect ::
  "u8 \<Rightarrow> u64 \<Rightarrow> u64 \<Rightarrow> int \<Rightarrow> int \<Rightarrow> 'e acmp_st \<Rightarrow> 'e acmp_st" where
  "acmp_controller_connect_disconnect message_type talker_guid listener_guid talker_id listener_id st =
     acmp_send_command CONTROLLER message_type InController False 0
       (st\<lparr>ac_controller_cmd_resp := (ac_controller_cmd_resp st)
             \<lparr>cr_controller_guid := ac_my_guid st, cr_talker_guid := talker_guid,
              cr_listener_guid := listener_guid, cr_talker_unique_id := word_of_int talker_id,
              cr_listener_unique_id := word_of_int listener_id\<rparr>\<rparr>)"

definition avb_1722_1_controller_connect :: "u64 \<Rightarrow> u64 \<Rightarrow> int \<Rightarrow> int \<Rightarrow> 'e acmp_st \<Rightarrow> 'e acmp_st" where
  "avb_1722_1_controller_connect talker_guid listener_guid talker_id listener_id st =
     acmp_controller_connect_disconnect ACMP_CMD_CONNECT_RX_COMMAND talker_guid listener_guid
       talker_id listener_id st"

definition avb_1722_1_controller_disconnect :: "u64 \<Rightarrow> u64 \<Rightarrow> int \<Rightarrow> int \<Rightarrow> 'e acmp_st \<Rightarrow> 'e acmp_st" where
  "avb_1722_1_controller_disconnect talker_guid listener_guid talker_id listener_id st =
     acmp_controller_connect_disconnect ACMP_CMD_DISCONNECT_RX_COMMAND talker_guid listener_guid
       talker_id listener_id st"

text \<open>The loop passes its own index as the listener's unique id, as the source does.\<close>

definition avb_1722_1_controller_disconnect_all_listeners :: "nat \<Rightarrow> 'e acmp_st \<Rightarrow> 'e acmp_st" where
  "avb_1722_1_controller_disconnect_all_listeners talker_id st =
     (if ts_stream_id (ac_talker_streams st ! talker_id) \<noteq> 0
         \<and> ts_connection_count (ac_talker_streams st ! talker_id) > 0
      then fold (\<lambda>i s.
             let l = ts_connected_listeners (ac_talker_streams s ! talker_id) ! i
             in if lp_guid l \<noteq> 0
                then avb_1722_1_controller_disconnect (ac_my_guid s) (lp_guid l) (int talker_id) (int i) s
                else s)
           [0..<length (ts_connected_listeners (ac_talker_streams st ! talker_id))] st
      else st)"

definition avb_1722_1_controller_disconnect_talker :: "nat \<Rightarrow> 'e acmp_st \<Rightarrow> 'e acmp_st" where
  "avb_1722_1_controller_disconnect_talker listener_id st =
     (let l = ac_listener_streams st ! listener_id
      in if ls_stream_id l \<noteq> 0 \<and> ls_connected l \<noteq> 0
         then avb_1722_1_controller_disconnect (ls_talker_guid l) (ac_my_guid st)
                (uint (ls_talker_unique_id l)) (int listener_id) st
         else st)"

section \<open>Listener and talker stream information\<close>

abbreviation (input) acmp_listener_id :: "'e acmp_st \<Rightarrow> nat" where
  "acmp_listener_id st \<equiv> unat (cr_listener_unique_id (ac_listener_rcvd st))"

abbreviation (input) acmp_talker_id :: "'e acmp_st \<Rightarrow> nat" where
  "acmp_talker_id st \<equiv> unat (cr_talker_unique_id (ac_talker_rcvd st))"

definition acmp_listener_valid_listener_unique :: "'e acmp_st \<Rightarrow> bool" where
  "acmp_listener_valid_listener_unique st \<longleftrightarrow> acmp_listener_id st < length (ac_listener_streams st)"

definition acmp_talker_valid_talker_unique :: "'e acmp_st \<Rightarrow> bool" where
  "acmp_talker_valid_talker_unique st \<longleftrightarrow> acmp_talker_id st < length (ac_talker_streams st)"

definition acmp_listener_is_connected :: "'e acmp_hooks \<Rightarrow> bool \<Rightarrow> 'e acmp_st \<Rightarrow> bool" where
  "acmp_listener_is_connected hk connected_to st =
     (if hk_sink_reserved hk (ac_env st) (cr_listener_unique_id (ac_listener_rcvd st))
      then (if ls_talker_guid (ac_listener_streams st ! acmp_listener_id st)
               = cr_talker_guid (ac_listener_rcvd st)
             \<and> ls_talker_unique_id (ac_listener_streams st ! acmp_listener_id st)
               = cr_talker_unique_id (ac_listener_rcvd st)
            then connected_to
            else \<not> connected_to)
      else False)"

definition acmp_add_listener_stream_info :: "'e acmp_st \<Rightarrow> 'e acmp_st" where
  "acmp_add_listener_stream_info st =
     (let cr = ac_listener_rcvd st
      in st\<lparr>ac_listener_streams := modify_nth (acmp_listener_id st)
              (\<lambda>l. l\<lparr>ls_connected := 1, ls_destination_mac := cr_stream_dest_mac cr,
                     ls_stream_id := cr_stream_id cr, ls_talker_guid := cr_talker_guid cr,
                     ls_talker_unique_id := cr_talker_unique_id cr\<rparr>) (ac_listener_streams st)\<rparr>)"

definition acmp_listener_get_state :: "'e acmp_st \<Rightarrow> u8 \<times> 'e acmp_st" where
  "acmp_listener_get_state st =
     (let l = ac_listener_streams st ! acmp_listener_id st
      in (ACMP_STATUS_SUCCESS,
          st\<lparr>ac_listener_rcvd := (ac_listener_rcvd st)
               \<lparr>cr_stream_id := ls_stream_id l, cr_stream_dest_mac := ls_destination_mac l,
                cr_talker_guid := ls_talker_guid l, cr_talker_unique_id := ls_talker_unique_id l,
                cr_connection_count := word_of_int (ls_connected l)\<rparr>\<rparr>))"

definition acmp_set_talker_response :: "'e acmp_st \<Rightarrow> 'e acmp_st" where
  "acmp_set_talker_response st =
     (let t = ac_talker_streams st ! acmp_talker_id st
      in st\<lparr>ac_talker_rcvd := (ac_talker_rcvd st)
              \<lparr>cr_stream_id := ts_stream_id t, cr_stream_dest_mac := ts_destination_mac t,
               cr_connection_count := word_of_int (ts_connection_count t)\<rparr>\<rparr>)"

definition acmp_talker_get_state :: "'e acmp_st \<Rightarrow> u8 \<times> 'e acmp_st" where
  "acmp_talker_get_state st = (ACMP_STATUS_SUCCESS, acmp_set_talker_response st)"

definition acmp_talker_get_connection :: "'e acmp_st \<Rightarrow> u8 \<times> 'e acmp_st" where
  "acmp_talker_get_connection st =
     (let t = ac_talker_streams st ! acmp_talker_id st;
          connection = unat (cr_connection_count (ac_talker_rcvd st))
      in if connection \<ge> length (ts_connected_listeners t)
            \<or> lp_guid (ts_connected_listeners t ! connection) = 0
         then (ACMP_STATUS_NO_SUCH_CONNECTION, st)
         else
           (ACMP_STATUS_SUCCESS,
            st\<lparr>ac_talker_rcvd := (ac_talker_rcvd st)
                 \<lparr>cr_stream_id := ts_stream_id t, cr_stream_dest_mac := ts_destination_mac t,
                  cr_listener_guid := lp_guid (ts_connected_listeners t ! connection),
                  cr_listener_unique_id := lp_unique_id (ts_connected_listeners t ! connection)\<rparr>\<rparr>))"

text \<open>
  Both loops stop at the first slot for which one of their tests holds. Adding stops at the
  listener itself (already connected) or at the first empty slot, whichever comes first.
\<close>

definition lp_is :: "u64 \<Rightarrow> u16 \<Rightarrow> acmp_listener_pair \<Rightarrow> bool" where
  "lp_is g u l \<longleftrightarrow> lp_guid l = g \<and> lp_unique_id l = u"

definition add_talker_listener :: "u64 \<Rightarrow> u16 \<Rightarrow> acmp_talker_stream_info \<Rightarrow> acmp_talker_stream_info" where
  "add_talker_listener g u t =
     (case find_idx (\<lambda>l. lp_is g u l \<or> lp_guid l = 0) (ts_connected_listeners t) of
        None \<Rightarrow> t
      | Some i \<Rightarrow>
          if lp_is g u (ts_connected_listeners t ! i) then t
          else t\<lparr>ts_connected_listeners :=
                   modify_nth i (\<lambda>l. l\<lparr>lp_guid := g, lp_unique_id := u\<rparr>) (ts_connected_listeners t),
                 ts_connection_count := ts_connection_count t + 1\<rparr>)"

definition remove_talker_listener :: "u64 \<Rightarrow> u16 \<Rightarrow> acmp_talker_stream_info \<Rightarrow> acmp_talker_stream_info" where
  "remove_talker_listener g u t =
     (case find_idx (lp_is g u) (ts_connected_listeners t) of
        None \<Rightarrow> t
      | Some i \<Rightarrow>
          t\<lparr>ts_connected_listeners :=
               modify_nth i (\<lambda>l. l\<lparr>lp_guid := 0, lp_unique_id := 0\<rparr>) (ts_connected_listeners t),
             ts_connection_count := ts_connection_count t - 1\<rparr>)"

definition acmp_add_talker_stream_info :: "'e acmp_st \<Rightarrow> 'e acmp_st" where
  "acmp_add_talker_stream_info st =
     st\<lparr>ac_talker_streams := modify_nth (acmp_talker_id st)
          (add_talker_listener (cr_listener_guid (ac_talker_rcvd st))
             (cr_listener_unique_id (ac_talker_rcvd st))) (ac_talker_streams st)\<rparr>"

definition acmp_remove_talker_stream_info :: "'e acmp_st \<Rightarrow> 'e acmp_st" where
  "acmp_remove_talker_stream_info st =
     st\<lparr>ac_talker_streams := modify_nth (acmp_talker_id st)
          (remove_talker_listener (cr_listener_guid (ac_talker_rcvd st))
             (cr_listener_unique_id (ac_talker_rcvd st))) (ac_talker_streams st)\<rparr>"

definition avb_1722_1_talker_set_mac_address :: "nat \<Rightarrow> u8 list \<Rightarrow> 'e acmp_st \<Rightarrow> 'e acmp_st" where
  "avb_1722_1_talker_set_mac_address i macaddr st =
     (if i < length (ac_talker_streams st)
      then st\<lparr>ac_talker_streams := modify_nth i (\<lambda>t. t\<lparr>ts_destination_mac := take 6 macaddr\<rparr>)
                 (ac_talker_streams st)\<rparr>
      else st)"

definition avb_1722_1_talker_set_stream_id :: "nat \<Rightarrow> u32 \<times> u32 \<Rightarrow> 'e acmp_st \<Rightarrow> 'e acmp_st" where
  "avb_1722_1_talker_set_stream_id i sid st =
     (if i < length (ac_talker_streams st)
      then st\<lparr>ac_talker_streams :=
               modify_nth i (\<lambda>t. t\<lparr>ts_stream_id := ucast (snd sid) + push_bit 32 (ucast (fst sid))\<rparr>)
                 (ac_talker_streams st)\<rparr>
      else st)"

section \<open>The talker\<close>

text \<open>The calls of the application hooks.\<close>

definition acmp_hook_listener_connect :: "'e acmp_hooks \<Rightarrow> 'e acmp_st \<Rightarrow> 'e acmp_st" where
  "acmp_hook_listener_connect hk st =
     (let (env, sid) = hk_talker_on_listener_connect hk (cr_talker_unique_id (ac_talker_rcvd st))
                         (cr_listener_guid (ac_talker_rcvd st)) (ac_env st);
          s1 = st\<lparr>ac_env := env\<rparr>
      in case sid of None \<Rightarrow> s1 | Some i \<Rightarrow> avb_1722_1_talker_set_stream_id (acmp_talker_id st) i s1)"

definition acmp_hook_listener_disconnect :: "'e acmp_hooks \<Rightarrow> 'e acmp_st \<Rightarrow> 'e acmp_st" where
  "acmp_hook_listener_disconnect hk st =
     st\<lparr>ac_env := hk_talker_on_listener_disconnect hk (cr_talker_unique_id (ac_talker_rcvd st))
          (cr_listener_guid (ac_talker_rcvd st))
          (ts_connection_count (ac_talker_streams st ! acmp_talker_id st)) (ac_env st)\<rparr>"

definition acmp_talker_respond :: "u8 \<Rightarrow> u8 \<Rightarrow> 'e acmp_st \<Rightarrow> 'e acmp_st" where
  "acmp_talker_respond message_type status st =
     (acmp_send_response message_type (ac_talker_rcvd st) status st)
       \<lparr>ac_talker_state := ACMP_TALKER_WAITING\<rparr>"

definition avb_1722_1_acmp_talker_periodic :: "'e acmp_hooks \<Rightarrow> 'e acmp_st \<Rightarrow> 'e acmp_st" where
  "avb_1722_1_acmp_talker_periodic hk st =
     (case ac_talker_state st of
        ACMP_TALKER_IDLE \<Rightarrow> st
      | ACMP_TALKER_WAITING \<Rightarrow> st
      | ACMP_TALKER_CONNECT \<Rightarrow>
          if \<not> acmp_talker_valid_talker_unique st
          then acmp_talker_respond ACMP_CMD_CONNECT_TX_RESPONSE ACMP_STATUS_TALKER_UNKNOWN_ID st
          else acmp_talker_respond ACMP_CMD_CONNECT_TX_RESPONSE ACMP_STATUS_SUCCESS
                 (acmp_set_talker_response
                   (acmp_hook_listener_connect hk (acmp_add_talker_stream_info st)))
      | ACMP_TALKER_DISCONNECT \<Rightarrow>
          if \<not> acmp_talker_valid_talker_unique st
          then acmp_talker_respond ACMP_CMD_DISCONNECT_TX_RESPONSE ACMP_STATUS_TALKER_UNKNOWN_ID st
          else acmp_talker_respond ACMP_CMD_DISCONNECT_TX_RESPONSE ACMP_STATUS_SUCCESS
                 (acmp_set_talker_response
                   (acmp_hook_listener_disconnect hk (acmp_remove_talker_stream_info st)))
      | ACMP_TALKER_GET_STATE \<Rightarrow>
          let (status, s1) = (if \<not> acmp_talker_valid_talker_unique st
                              then (ACMP_STATUS_TALKER_UNKNOWN_ID, st) else acmp_talker_get_state st)
          in acmp_talker_respond ACMP_CMD_GET_TX_STATE_RESPONSE status s1
      | ACMP_TALKER_GET_CONNECTION \<Rightarrow>
          let (status, s1) = (if \<not> acmp_talker_valid_talker_unique st
                              then (ACMP_STATUS_TALKER_UNKNOWN_ID, st) else acmp_talker_get_connection st)
          in acmp_talker_respond ACMP_CMD_GET_TX_CONNECTION_RESPONSE status s1)"

section \<open>The controller\<close>

definition acmp_hook_connect_failed :: "'e acmp_hooks \<Rightarrow> 'e acmp_st \<Rightarrow> 'e acmp_st" where
  "acmp_hook_connect_failed hk st =
     (let cr = ac_controller_cmd_resp st;
          (env, reqs) = hk_talker_on_listener_connect_failed hk (ac_my_guid st)
                          (cr_talker_unique_id cr) (cr_listener_guid cr) (cr_status cr) (ac_env st)
      in fold (\<lambda>(talker, listener, tid, lid) s. avb_1722_1_controller_connect talker listener tid lid s)
           reqs (st\<lparr>ac_env := env\<rparr>))"

definition avb_1722_1_acmp_controller_periodic :: "'e acmp_hooks \<Rightarrow> u32 \<Rightarrow> 'e acmp_st \<Rightarrow> 'e acmp_st" where
  "avb_1722_1_acmp_controller_periodic hk now st =
     (case ac_controller_state st of
        ACMP_CONTROLLER_IDLE \<Rightarrow> st
      | ACMP_CONTROLLER_WAITING \<Rightarrow>
          let s1 = acmp_progress_inflight_timer now CONTROLLER st;
              s2 = s1\<lparr>ac_inflight_timeout_idx := (ac_inflight_timeout_idx s1)(CONTROLLER :=
                        acmp_check_inflight_command_timeouts CONTROLLER s1)\<rparr>
          in if ac_inflight_timeout_idx s2 CONTROLLER \<ge> 0
             then s2\<lparr>ac_controller_state := ACMP_CONTROLLER_TIMEOUT\<rparr>
             else s2
      | ACMP_CONTROLLER_TIMEOUT \<Rightarrow>
          let i = nat (ac_inflight_timeout_idx st CONTROLLER);
              f = ac_inflight st CONTROLLER ! i;
              s1 = (if fl_retried f
                    then acmp_modify_inflight CONTROLLER i (\<lambda>f. f\<lparr>fl_in_use := False\<rparr>) st
                    else acmp_send_command CONTROLLER (cr_message_type (fl_command f))
                           (InInflight CONTROLLER i) True i st)
          in s1\<lparr>ac_controller_state := ACMP_CONTROLLER_WAITING\<rparr>
      | ACMP_CONTROLLER_CONNECT_RX_RESPONSE \<Rightarrow>
          let s1 = snd (acmp_remove_inflight CONTROLLER st);
              s2 = (if cr_status (ac_controller_cmd_resp s1) \<noteq> ACMP_STATUS_SUCCESS
                    then acmp_hook_connect_failed hk s1 else s1)
          in s2\<lparr>ac_controller_state := ACMP_CONTROLLER_WAITING\<rparr>
      | ACMP_CONTROLLER_DISCONNECT_RX_RESPONSE \<Rightarrow>
          (snd (acmp_remove_inflight CONTROLLER st))\<lparr>ac_controller_state := ACMP_CONTROLLER_WAITING\<rparr>
      | ACMP_CONTROLLER_GET_TX_STATE_RESPONSE \<Rightarrow>
          (snd (acmp_remove_inflight CONTROLLER st))\<lparr>ac_controller_state := ACMP_CONTROLLER_WAITING\<rparr>
      | ACMP_CONTROLLER_GET_RX_STATE_RESPONSE \<Rightarrow>
          (snd (acmp_remove_inflight CONTROLLER st))\<lparr>ac_controller_state := ACMP_CONTROLLER_WAITING\<rparr>
      | ACMP_CONTROLLER_GET_TX_CONNECTION_RESPONSE \<Rightarrow>
          (snd (acmp_remove_inflight CONTROLLER st))\<lparr>ac_controller_state := ACMP_CONTROLLER_WAITING\<rparr>)"

section \<open>The listener\<close>

text \<open>The two halves of the stream id, high word first.\<close>

definition acmp_stream_words :: "u64 \<Rightarrow> u32 \<times> u32" where
  "acmp_stream_words l = (ucast (drop_bit 32 l), ucast l)"

definition acmp_hook_talker_disconnect :: "'e acmp_hooks \<Rightarrow> 'e acmp_st \<Rightarrow> 'e acmp_st" where
  "acmp_hook_talker_disconnect hk st =
     (let cr = ac_listener_rcvd st
      in st\<lparr>ac_env := hk_listener_on_talker_disconnect hk (cr_listener_unique_id cr)
              (cr_talker_guid cr) (cr_stream_dest_mac cr) (acmp_stream_words (cr_stream_id cr))
              (ac_my_guid st) (ac_env st)\<rparr>)"

definition acmp_hook_talker_connect :: "'e acmp_hooks \<Rightarrow> 'e acmp_st \<Rightarrow> 'e acmp_st" where
  "acmp_hook_talker_connect hk st =
     (let cr = ac_listener_rcvd st;
          (env, status) = hk_listener_on_talker_connect hk (cr_listener_unique_id cr)
              (cr_talker_guid cr) (cr_stream_dest_mac cr) (acmp_stream_words (cr_stream_id cr))
              (ac_my_guid st) (ac_env st)
      in st\<lparr>ac_env := env, ac_listener_rcvd := cr\<lparr>cr_status := status\<rparr>\<rparr>)"

definition acmp_listener_respond :: "u8 \<Rightarrow> u8 \<Rightarrow> 'e acmp_st \<Rightarrow> 'e acmp_st" where
  "acmp_listener_respond message_type status st =
     acmp_send_response message_type (ac_listener_rcvd st) status st"

definition acmp_listener_set_sequence :: "u16 \<Rightarrow> 'e acmp_st \<Rightarrow> 'e acmp_st" where
  "acmp_listener_set_sequence seq st =
     st\<lparr>ac_listener_rcvd := (ac_listener_rcvd st)\<lparr>cr_sequence_id := seq\<rparr>\<rparr>"

definition acmp_listener_wait :: "'e acmp_st \<Rightarrow> 'e acmp_st" where
  "acmp_listener_wait st = st\<lparr>ac_listener_state := ACMP_LISTENER_WAITING\<rparr>"

text \<open>The handler of the timeout state: answer for the talker, or try once more.\<close>

definition acmp_listener_rx_timeout :: "'e acmp_st \<Rightarrow> 'e acmp_st" where
  "acmp_listener_rx_timeout st =
     (let i = nat (ac_inflight_timeout_idx st LISTENER);
          f = ac_inflight st LISTENER ! i
      in if fl_retried f
         then
           let s1 = acmp_set_sequence_at (InInflight LISTENER i) (fl_original_sequence_id f) st;
               c = acmp_command_at (InInflight LISTENER i) s1;
               s2 = acmp_send_response (cr_message_type c + 7) c ACMP_STATUS_LISTENER_TALKER_TIMEOUT s1
           in acmp_modify_inflight LISTENER i (\<lambda>f. f\<lparr>fl_in_use := False\<rparr>) s2
         else acmp_send_command LISTENER (cr_message_type (fl_command f)) (InInflight LISTENER i) True i st)"

definition avb_1722_1_acmp_listener_periodic :: "'e acmp_hooks \<Rightarrow> u32 \<Rightarrow> 'e acmp_st \<Rightarrow> 'e acmp_st" where
  "avb_1722_1_acmp_listener_periodic hk now st =
     (case ac_listener_state st of
        ACMP_LISTENER_IDLE \<Rightarrow> st
      | ACMP_LISTENER_WAITING \<Rightarrow>
          let s1 = acmp_progress_inflight_timer now LISTENER st;
              s2 = s1\<lparr>ac_inflight_timeout_idx := (ac_inflight_timeout_idx s1)(LISTENER :=
                        acmp_check_inflight_command_timeouts LISTENER s1)\<rparr>
          in if ac_inflight_timeout_idx s2 LISTENER \<ge> 0
             then s2\<lparr>ac_listener_state := ACMP_LISTENER_RX_TIMEOUT\<rparr>
             else s2
      | ACMP_LISTENER_CONNECT_RX_COMMAND \<Rightarrow>
          acmp_listener_wait
            (if \<not> acmp_listener_valid_listener_unique st
             then acmp_listener_respond ACMP_CMD_CONNECT_RX_RESPONSE ACMP_STATUS_LISTENER_UNKNOWN_ID st
             else if acmp_listener_is_connected hk False st
             then acmp_listener_respond ACMP_CMD_CONNECT_RX_RESPONSE ACMP_STATUS_LISTENER_EXCLUSIVE st
             else acmp_send_command LISTENER ACMP_CMD_CONNECT_TX_COMMAND InListener False 0 st)
      | ACMP_LISTENER_DISCONNECT_RX_COMMAND \<Rightarrow>
          acmp_listener_wait
            (if \<not> acmp_listener_valid_listener_unique st
             then acmp_listener_respond ACMP_CMD_DISCONNECT_RX_RESPONSE ACMP_STATUS_LISTENER_UNKNOWN_ID st
             else if acmp_listener_is_connected hk True st
             then acmp_hook_talker_disconnect hk
                    (acmp_send_command LISTENER ACMP_CMD_DISCONNECT_TX_COMMAND InListener False 0 st)
             else acmp_listener_respond ACMP_CMD_DISCONNECT_RX_RESPONSE ACMP_STATUS_NOT_CONNECTED st)
      | ACMP_LISTENER_CONNECT_TX_RESPONSE \<Rightarrow>
          if acmp_listener_valid_listener_unique st
          then
            (case acmp_remove_inflight LISTENER st of
               (Some f, s1) \<Rightarrow>
                 let s2 = acmp_listener_set_sequence (fl_original_sequence_id f) s1;
                     s3 = acmp_hook_talker_connect hk (acmp_hook_talker_disconnect hk s2);
                     s4 = acmp_listener_respond ACMP_CMD_CONNECT_RX_RESPONSE (cr_status (ac_listener_rcvd s3)) s3
                 in acmp_listener_wait (acmp_add_listener_stream_info s4)
             | (None, s1) \<Rightarrow> acmp_listener_wait s1)
          else st
      | ACMP_LISTENER_DISCONNECT_TX_RESPONSE \<Rightarrow>
          if acmp_listener_valid_listener_unique st
          then
            let s3 =
              (case acmp_remove_inflight LISTENER st of
                 (Some f, s1) \<Rightarrow>
                   let s2 = acmp_listener_set_sequence (fl_original_sequence_id f) s1
                   in acmp_zero_listener_stream_info (acmp_listener_id s2)
                        (acmp_listener_respond ACMP_CMD_DISCONNECT_RX_RESPONSE (cr_status (ac_listener_rcvd s2)) s2)
               | (None, s1) \<Rightarrow> s1)
            in acmp_listener_wait (s3\<lparr>ac_listener_rcvd := (ac_listener_rcvd s3)\<lparr>cr_status := ACMP_STATUS_SUCCESS\<rparr>\<rparr>)
          else st
      | ACMP_LISTENER_GET_STATE \<Rightarrow>
          let (status, s1) = (if \<not> acmp_listener_valid_listener_unique st
                              then (ACMP_STATUS_LISTENER_UNKNOWN_ID, st) else acmp_listener_get_state st)
          in acmp_listener_wait (acmp_listener_respond ACMP_CMD_GET_RX_STATE_RESPONSE status s1)
      | ACMP_LISTENER_RX_TIMEOUT \<Rightarrow> acmp_listener_wait (acmp_listener_rx_timeout st))"

end
