(* ===== verification/Acmp_Talker_Proofs.thy ===== *)
theory Acmp_Talker_Proofs
  imports Acmp "HOL-Library.Multiset"
begin

text \<open>
  Properties of the ACMP talker: every command is answered once, the connection count is the
  number of occupied listener slots, and what adding and removing a listener does to the bag
  of connected listeners.
\<close>

section \<open>Selectors through the helpers\<close>

lemma acmp_tx_sel [simp]:
  "ac_talker_state (acmp_tx cr mt s st) = ac_talker_state st"
  "ac_listener_state (acmp_tx cr mt s st) = ac_listener_state st"
  "ac_controller_state (acmp_tx cr mt s st) = ac_controller_state st"
  "ac_talker_streams (acmp_tx cr mt s st) = ac_talker_streams st"
  "ac_listener_streams (acmp_tx cr mt s st) = ac_listener_streams st"
  "ac_talker_rcvd (acmp_tx cr mt s st) = ac_talker_rcvd st"
  "ac_listener_rcvd (acmp_tx cr mt s st) = ac_listener_rcvd st"
  "ac_controller_cmd_resp (acmp_tx cr mt s st) = ac_controller_cmd_resp st"
  "ac_inflight (acmp_tx cr mt s st) = ac_inflight st"
  "ac_sequence_id (acmp_tx cr mt s st) = ac_sequence_id st"
  "ac_centisecond_counter (acmp_tx cr mt s st) = ac_centisecond_counter st"
  "ac_my_guid (acmp_tx cr mt s st) = ac_my_guid st"
  "ac_my_mac (acmp_tx cr mt s st) = ac_my_mac st"
  "ac_env (acmp_tx cr mt s st) = ac_env st"
  "ac_buf (acmp_tx cr mt s st) = avb_1722_1_create_acmp_packet cr mt s (ac_my_mac st) (ac_buf st)"
  "ac_sent (acmp_tx cr mt s st) = ac_sent st @
     [take AVB_1722_1_ACMP_PACKET_SIZE (avb_1722_1_create_acmp_packet cr mt s (ac_my_mac st) (ac_buf st))]"
  by (simp_all add: acmp_tx_def Let_def)

lemma acmp_modify_inflight_sel [simp]:
  "ac_talker_state (acmp_modify_inflight e i f st) = ac_talker_state st"
  "ac_listener_state (acmp_modify_inflight e i f st) = ac_listener_state st"
  "ac_controller_state (acmp_modify_inflight e i f st) = ac_controller_state st"
  "ac_talker_streams (acmp_modify_inflight e i f st) = ac_talker_streams st"
  "ac_listener_streams (acmp_modify_inflight e i f st) = ac_listener_streams st"
  "ac_talker_rcvd (acmp_modify_inflight e i f st) = ac_talker_rcvd st"
  "ac_listener_rcvd (acmp_modify_inflight e i f st) = ac_listener_rcvd st"
  "ac_controller_cmd_resp (acmp_modify_inflight e i f st) = ac_controller_cmd_resp st"
  "ac_inflight (acmp_modify_inflight e i f st) = (ac_inflight st)(e := modify_nth i f (ac_inflight st e))"
  "ac_sequence_id (acmp_modify_inflight e i f st) = ac_sequence_id st"
  "ac_centisecond_counter (acmp_modify_inflight e i f st) = ac_centisecond_counter st"
  "ac_my_guid (acmp_modify_inflight e i f st) = ac_my_guid st"
  "ac_my_mac (acmp_modify_inflight e i f st) = ac_my_mac st"
  "ac_env (acmp_modify_inflight e i f st) = ac_env st"
  "ac_buf (acmp_modify_inflight e i f st) = ac_buf st"
  "ac_sent (acmp_modify_inflight e i f st) = ac_sent st"
  by (simp_all add: acmp_modify_inflight_def)

lemma acmp_set_stream_id_sel [simp]:
  "ac_talker_rcvd (avb_1722_1_talker_set_stream_id i sid st) = ac_talker_rcvd st"
  "ac_my_mac (avb_1722_1_talker_set_stream_id i sid st) = ac_my_mac st"
  "ac_my_guid (avb_1722_1_talker_set_stream_id i sid st) = ac_my_guid st"
  "ac_buf (avb_1722_1_talker_set_stream_id i sid st) = ac_buf st"
  "ac_sent (avb_1722_1_talker_set_stream_id i sid st) = ac_sent st"
  "length (ac_talker_streams (avb_1722_1_talker_set_stream_id i sid st)) = length (ac_talker_streams st)"
  by (simp_all add: avb_1722_1_talker_set_stream_id_def)

lemma acmp_hook_connect_sel [simp]:
  "ac_talker_rcvd (acmp_hook_listener_connect hk st) = ac_talker_rcvd st"
  "ac_my_mac (acmp_hook_listener_connect hk st) = ac_my_mac st"
  "ac_my_guid (acmp_hook_listener_connect hk st) = ac_my_guid st"
  "ac_buf (acmp_hook_listener_connect hk st) = ac_buf st"
  "ac_sent (acmp_hook_listener_connect hk st) = ac_sent st"
  "length (ac_talker_streams (acmp_hook_listener_connect hk st)) = length (ac_talker_streams st)"
  by (simp_all add: acmp_hook_listener_connect_def Let_def case_prod_unfold split: option.split)

section \<open>Every command is answered\<close>

text \<open>Frames that can be built: buffer and address sizes.\<close>

definition acmp_buf_ok :: "'e acmp_st \<Rightarrow> bool" where
  "acmp_buf_ok st \<longleftrightarrow> 70 \<le> length (ac_buf st) \<and> length (ac_my_mac st) = 6"

definition talker_macs_ok :: "'e acmp_st \<Rightarrow> bool" where
  "talker_macs_ok st \<longleftrightarrow> length (cr_stream_dest_mac (ac_talker_rcvd st)) = 6 \<and>
     list_all (\<lambda>t. length (ts_destination_mac t) = 6) (ac_talker_streams st)"

text \<open>The response that each pending command asks for.\<close>

fun talker_answer_type :: "acmp_talker_state \<Rightarrow> u8 option" where
  "talker_answer_type ACMP_TALKER_CONNECT = Some ACMP_CMD_CONNECT_TX_RESPONSE"
| "talker_answer_type ACMP_TALKER_DISCONNECT = Some ACMP_CMD_DISCONNECT_TX_RESPONSE"
| "talker_answer_type ACMP_TALKER_GET_STATE = Some ACMP_CMD_GET_TX_STATE_RESPONSE"
| "talker_answer_type ACMP_TALKER_GET_CONNECTION = Some ACMP_CMD_GET_TX_CONNECTION_RESPONSE"
| "talker_answer_type _ = None"

lemma store_take_70:
  "70 \<le> length f \<Longrightarrow> store_rcvd_cmd_resp (drop 14 (take 70 f)) = store_rcvd_cmd_resp (drop 14 f)"
  by (simp add: store_rcvd_cmd_resp_def get_bytes_def get_1722_1_msg_type_def
      get_1722_1_valid_time_def min_def drop_take)

lemma acmp_tx_frame:
  assumes "acmp_buf_ok st" "length (cr_stream_dest_mac cr) = 6" "mt < 16" "s < 32"
  shows "store_rcvd_cmd_resp (drop 14 (last (ac_sent (acmp_tx cr mt s st)))) =
           cr\<lparr>cr_message_type := mt, cr_status := s\<rparr>"
  using assms store_create [of cr "ac_buf st" "ac_my_mac st" mt s]
  by (simp add: acmp_buf_ok_def AVB_1722_1_ACMP_PACKET_SIZE_def store_take_70)

lemma talker_respond_sent:
  "ac_sent (acmp_talker_respond mt s st) = ac_sent st @ [last (ac_sent (acmp_tx (ac_talker_rcvd st) mt s st))]"
  by (simp add: acmp_talker_respond_def acmp_send_response_def)

lemma talker_respond_frame:
  assumes "acmp_buf_ok st" "length (cr_stream_dest_mac (ac_talker_rcvd st)) = 6" "mt < 16" "s < 32"
  shows "ac_talker_state (acmp_talker_respond mt s st) = ACMP_TALKER_WAITING \<and>
         (\<exists>f. ac_sent (acmp_talker_respond mt s st) = ac_sent st @ [f] \<and>
              store_rcvd_cmd_resp (drop 14 f) = (ac_talker_rcvd st)\<lparr>cr_message_type := mt, cr_status := s\<rparr>)"
  using acmp_tx_frame [OF assms] by (simp add: talker_respond_sent) (simp add: acmp_talker_respond_def)

lemma mac_add_talker [simp]: "ts_destination_mac (add_talker_listener g u t) = ts_destination_mac t"
  by (simp add: add_talker_listener_def split: option.split)

lemma mac_remove_talker [simp]: "ts_destination_mac (remove_talker_listener g u t) = ts_destination_mac t"
  by (simp add: remove_talker_listener_def split: option.split)

lemma talker_macs_hook: "talker_macs_ok st \<Longrightarrow> talker_macs_ok (acmp_hook_listener_connect hk st)"
  by (auto simp: talker_macs_ok_def acmp_hook_listener_connect_def avb_1722_1_talker_set_stream_id_def
      Let_def case_prod_unfold intro!: list_all_modify_nth split: option.split)

lemma talker_macs_add: "talker_macs_ok st \<Longrightarrow> talker_macs_ok (acmp_add_talker_stream_info st)"
  by (auto simp: talker_macs_ok_def acmp_add_talker_stream_info_def intro!: list_all_modify_nth)

lemma talker_macs_remove: "talker_macs_ok st \<Longrightarrow> talker_macs_ok (acmp_remove_talker_stream_info st)"
  by (auto simp: talker_macs_ok_def acmp_remove_talker_stream_info_def intro!: list_all_modify_nth)

text \<open>What a response repeats of its command.\<close>

definition answers :: "acmp_cmd_resp \<Rightarrow> acmp_cmd_resp \<Rightarrow> bool" where
  "answers r c \<longleftrightarrow> cr_sequence_id r = cr_sequence_id c \<and> cr_controller_guid r = cr_controller_guid c \<and>
     cr_talker_guid r = cr_talker_guid c \<and> cr_talker_unique_id r = cr_talker_unique_id c \<and> cr_flags r = cr_flags c"

definition talker_answered :: "'e acmp_st \<Rightarrow> 'e acmp_st \<Rightarrow> u8 \<Rightarrow> bool" where
  "talker_answered st st' mt \<longleftrightarrow>
     ac_talker_state st' = ACMP_TALKER_WAITING \<and>
     (\<exists>f r. ac_sent st' = ac_sent st @ [f] \<and> r = store_rcvd_cmd_resp (drop 14 f) \<and>
        cr_message_type r = mt \<and> answers r (ac_talker_rcvd st) \<and>
        (cr_status r = ACMP_STATUS_TALKER_UNKNOWN_ID \<longleftrightarrow> \<not> acmp_talker_valid_talker_unique st))"

lemma talker_answered_respond:
  assumes "acmp_buf_ok s1" "length (cr_stream_dest_mac (ac_talker_rcvd s1)) = 6" "mt < 16" "s < 32"
    and "ac_sent s1 = ac_sent st" "answers (ac_talker_rcvd s1) (ac_talker_rcvd st)"
    and "s = ACMP_STATUS_TALKER_UNKNOWN_ID \<longleftrightarrow> \<not> acmp_talker_valid_talker_unique st"
  shows "talker_answered st (acmp_talker_respond mt s s1) mt"
proof -
  obtain f where f: "ac_talker_state (acmp_talker_respond mt s s1) = ACMP_TALKER_WAITING"
      "ac_sent (acmp_talker_respond mt s s1) = ac_sent st @ [f]"
      "store_rcvd_cmd_resp (drop 14 f) = (ac_talker_rcvd s1)\<lparr>cr_message_type := mt, cr_status := s\<rparr>"
    using talker_respond_frame [OF assms(1-4)] assms(5) by auto
  then show ?thesis using assms(6,7) unfolding talker_answered_def
    by (intro conjI exI [of _ f] exI [of _ "store_rcvd_cmd_resp (drop 14 f)"]) (simp_all add: answers_def)
qed

lemma talker_answered_unknown:
  assumes "acmp_buf_ok st" "talker_macs_ok st" "\<not> acmp_talker_valid_talker_unique st" "mt < 16"
  shows "talker_answered st (acmp_talker_respond mt ACMP_STATUS_TALKER_UNKNOWN_ID st) mt"
  using assms by (intro talker_answered_respond) (simp_all add: talker_macs_ok_def answers_def)

lemma set_response_facts:
  assumes "talker_macs_ok s1" "acmp_talker_id s1 < length (ac_talker_streams s1)"
  shows "length (cr_stream_dest_mac (ac_talker_rcvd (acmp_set_talker_response s1))) = 6"
    and "answers (ac_talker_rcvd (acmp_set_talker_response s1)) (ac_talker_rcvd s1)"
    and "ac_sent (acmp_set_talker_response s1) = ac_sent s1"
    and "acmp_buf_ok (acmp_set_talker_response s1) = acmp_buf_ok s1"
  using list_all_nth [of "\<lambda>t. length (ts_destination_mac t) = 6" "ac_talker_streams s1" "acmp_talker_id s1"] assms
  by (simp_all add: acmp_set_talker_response_def Let_def talker_macs_ok_def answers_def acmp_buf_ok_def)

lemma talker_answered_valid:
  assumes "acmp_talker_valid_talker_unique st" "talker_macs_ok s1" "acmp_buf_ok s1" "mt < 16"
    and "ac_talker_rcvd s1 = ac_talker_rcvd st" "ac_sent s1 = ac_sent st"
    and "length (ac_talker_streams s1) = length (ac_talker_streams st)"
  shows "talker_answered st (acmp_talker_respond mt ACMP_STATUS_SUCCESS (acmp_set_talker_response s1)) mt"
proof -
  have i: "acmp_talker_id s1 < length (ac_talker_streams s1)"
    using assms(1,5,7) by (simp add: acmp_talker_valid_talker_unique_def)
  show ?thesis using set_response_facts [OF assms(2) i] assms
    by (intro talker_answered_respond) simp_all
qed

lemma talker_answers_all:
  assumes "talker_answer_type (ac_talker_state st) = Some mt" "acmp_buf_ok st" "talker_macs_ok st"
  shows "talker_answered st (avb_1722_1_acmp_talker_periodic hk st) mt"
proof (cases "acmp_talker_valid_talker_unique st")
  case False
  with assms show ?thesis
    by (cases "ac_talker_state st")
      (auto simp: avb_1722_1_acmp_talker_periodic_def intro!: talker_answered_unknown)
next
  case True
  let ?add = "acmp_hook_listener_connect hk (acmp_add_talker_stream_info st)"
  let ?rem = "acmp_hook_listener_disconnect hk (acmp_remove_talker_stream_info st)"
  have add: "ac_talker_rcvd ?add = ac_talker_rcvd st" "ac_sent ?add = ac_sent st" "acmp_buf_ok ?add"
      "length (ac_talker_streams ?add) = length (ac_talker_streams st)" "talker_macs_ok ?add"
    using assms(2,3) talker_macs_hook [OF talker_macs_add [OF assms(3)]]
    by (simp_all add: acmp_add_talker_stream_info_def acmp_buf_ok_def)
  have rem: "ac_talker_rcvd ?rem = ac_talker_rcvd st" "ac_sent ?rem = ac_sent st" "acmp_buf_ok ?rem"
      "length (ac_talker_streams ?rem) = length (ac_talker_streams st)" "talker_macs_ok ?rem"
    using assms(2) talker_macs_remove [OF assms(3)]
    by (simp_all add: acmp_hook_listener_disconnect_def acmp_remove_talker_stream_info_def
        acmp_buf_ok_def talker_macs_ok_def)
  have conn: "talker_answered st (acmp_talker_respond 13 (fst (acmp_talker_get_connection st))
      (snd (acmp_talker_get_connection st))) 13"
    using True assms(2,3) list_all_nth [of "\<lambda>t. length (ts_destination_mac t) = 6" "ac_talker_streams st" "acmp_talker_id st"]
    by (intro talker_answered_respond)
      (auto simp: acmp_talker_get_connection_def Let_def acmp_buf_ok_def talker_macs_ok_def
        answers_def acmp_talker_valid_talker_unique_def)
  have st: "talker_answered st (acmp_talker_respond 5 0 (acmp_set_talker_response st)) 5"
    using True assms(2,3) by (intro talker_answered_valid) simp_all
  show ?thesis
  proof (cases "ac_talker_state st")
    case ACMP_TALKER_CONNECT
    then show ?thesis using True assms(1) talker_answered_valid [OF True add(5,3) _ add(1,2,4), of mt]
      by (simp add: avb_1722_1_acmp_talker_periodic_def)
  next
    case ACMP_TALKER_DISCONNECT
    then show ?thesis using True assms(1) talker_answered_valid [OF True rem(5,3) _ rem(1,2,4), of mt]
      by (simp add: avb_1722_1_acmp_talker_periodic_def)
  next
    case ACMP_TALKER_GET_STATE
    then show ?thesis using True assms(1) st
      by (simp add: avb_1722_1_acmp_talker_periodic_def acmp_talker_get_state_def)
  next
    case ACMP_TALKER_GET_CONNECTION
    then show ?thesis using True assms(1) conn
      by (simp add: avb_1722_1_acmp_talker_periodic_def Let_def case_prod_unfold)
  qed (use assms(1) in simp_all)
qed

text \<open>
  C3. The talker answers every pending command with exactly one response of the matching
  type that repeats the command's sequence id and addresses, says TALKER_UNKNOWN_ID exactly
  when the unique id names no stream, and is then ready for the next command.
\<close>

theorem talker_answers:
  assumes "talker_answer_type (ac_talker_state st) = Some mt" "acmp_buf_ok st" "talker_macs_ok st"
  shows "talker_answered st (avb_1722_1_acmp_talker_periodic hk st) mt"
  using assms by (rule talker_answers_all)

section \<open>A concrete entity\<close>

definition acmp_timer0 :: avb_timer where
  "acmp_timer0 = \<lparr>tmr_timeout = 0, tmr_period = 0, tmr_active = 10, timeout_multiplier = 10\<rparr>"

definition acmp_example :: "unit acmp_st" where
  "acmp_example =
     \<lparr>ac_my_guid = 0x001122FFFE334455, ac_my_mac = [0, 0x11, 0x22, 0x33, 0x44, 0x55],
      ac_buf = replicate 72 0, ac_controller_state = ACMP_CONTROLLER_WAITING,
      ac_talker_state = ACMP_TALKER_WAITING, ac_listener_state = ACMP_LISTENER_WAITING,
      ac_listener_streams = replicate 2 zero_listener_stream,
      ac_talker_streams = replicate 2 \<lparr>ts_stream_id = 0x1234, ts_connection_count = 0,
        ts_destination_mac = replicate 6 7,
        ts_connected_listeners = replicate 3 \<lparr>lp_guid = 0, lp_unique_id = 0\<rparr>\<rparr>,
      ac_inflight = (\<lambda>_. replicate 2 zero_inflight), ac_centisecond_counter = (\<lambda>_. 0),
      ac_inflight_timeout_idx = (\<lambda>_. 0), ac_inflight_timer = (\<lambda>_. acmp_timer0),
      ac_controller_cmd_resp = zero_cmd_resp, ac_talker_rcvd = zero_cmd_resp,
      ac_listener_rcvd = zero_cmd_resp, ac_sequence_id = (\<lambda>_. 0), ac_env = (), ac_sent = []\<rparr>"

definition acmp_hooks0 :: "unit acmp_hooks" where
  "acmp_hooks0 =
     \<lparr>hk_sink_reserved = (\<lambda>_ _. False), hk_talker_on_listener_connect = (\<lambda>_ _ e. (e, None)),
      hk_talker_on_listener_disconnect = (\<lambda>_ _ _ e. e),
      hk_listener_on_talker_connect = (\<lambda>_ _ _ _ _ e. (e, 0)),
      hk_listener_on_talker_disconnect = (\<lambda>_ _ _ _ _ e. e),
      hk_talker_on_listener_connect_failed = (\<lambda>_ _ _ _ e. (e, []))\<rparr>"

theorem talker_answers_witness:
  "talker_answered (acmp_example\<lparr>ac_talker_state := ACMP_TALKER_CONNECT\<rparr>)
     (avb_1722_1_acmp_talker_periodic acmp_hooks0 (acmp_example\<lparr>ac_talker_state := ACMP_TALKER_CONNECT\<rparr>)) 1"
  by (rule talker_answers)
    (simp_all add: acmp_example_def acmp_buf_ok_def talker_macs_ok_def zero_cmd_resp_def)

section \<open>The connection count\<close>

definition connected_listeners :: "acmp_talker_stream_info \<Rightarrow> acmp_listener_pair list" where
  "connected_listeners t = filter (\<lambda>l. lp_guid l \<noteq> 0) (ts_connected_listeners t)"

definition count_ok :: "acmp_talker_stream_info \<Rightarrow> bool" where
  "count_ok t \<longleftrightarrow> ts_connection_count t = int (length (connected_listeners t))"

lemma filter_update_drop:
  "i < length xs \<Longrightarrow> \<not> P (xs ! i) \<Longrightarrow> \<not> P x \<Longrightarrow> filter P (xs[i := x]) = filter P xs"
  by (induction xs arbitrary: i) (auto split: nat.split simp: nth_Cons)

lemma count_ok_add: "g \<noteq> 0 \<Longrightarrow> count_ok t \<Longrightarrow> count_ok (add_talker_listener g u t)"
  by (auto simp: count_ok_def add_talker_listener_def connected_listeners_def modify_nth_def
      length_filter_update find_idx_less split: option.split dest!: find_idx_holds)

lemma count_ok_remove: "g \<noteq> 0 \<Longrightarrow> count_ok t \<Longrightarrow> count_ok (remove_talker_listener g u t)"
  by (auto simp: count_ok_def remove_talker_listener_def connected_listeners_def modify_nth_def
      length_filter_update find_idx_less lp_is_def split: option.split dest!: find_idx_holds)

datatype talker_event =
    TalkerPacket "u8 list"
  | TalkerPoll
  | TalkerSetMac nat "u8 list"
  | TalkerSetStream nat "u32 \<times> u32"

fun talker_step :: "'e acmp_hooks \<Rightarrow> talker_event \<Rightarrow> 'e acmp_st \<Rightarrow> 'e acmp_st" where
  "talker_step hk (TalkerPacket pkt) st = process_avb_1722_1_acmp_packet pkt st"
| "talker_step hk TalkerPoll st = avb_1722_1_acmp_talker_periodic hk st"
| "talker_step hk (TalkerSetMac i m) st = avb_1722_1_talker_set_mac_address i m st"
| "talker_step hk (TalkerSetStream i s) st = avb_1722_1_talker_set_stream_id i s st"

text \<open>A command names a listener: its listener GUID is not zero.\<close>

fun talker_event_ok :: "talker_event \<Rightarrow> bool" where
  "talker_event_ok (TalkerPacket pkt) = (cr_listener_guid (store_rcvd_cmd_resp pkt) \<noteq> 0)"
| "talker_event_ok _ = True"

definition talker_counts_ok :: "'e acmp_st \<Rightarrow> bool" where
  "talker_counts_ok st \<longleftrightarrow> list_all count_ok (ac_talker_streams st) \<and>
     (ac_talker_state st \<in> {ACMP_TALKER_CONNECT, ACMP_TALKER_DISCONNECT} \<longrightarrow>
        cr_listener_guid (ac_talker_rcvd st) \<noteq> 0)"

lemma count_ok_upd [simp]:
  "count_ok (t\<lparr>ts_destination_mac := m\<rparr>) = count_ok t" "count_ok (t\<lparr>ts_stream_id := i\<rparr>) = count_ok t"
  by (simp_all add: count_ok_def connected_listeners_def)

lemma counts_set_stream_id:
  "list_all count_ok (ac_talker_streams st) \<Longrightarrow>
     list_all count_ok (ac_talker_streams (avb_1722_1_talker_set_stream_id i s st))"
  by (auto simp: avb_1722_1_talker_set_stream_id_def intro!: list_all_modify_nth)

lemma counts_hook:
  "list_all count_ok (ac_talker_streams st) \<Longrightarrow>
     list_all count_ok (ac_talker_streams (acmp_hook_listener_connect hk st))"
  using counts_set_stream_id [of "st\<lparr>ac_env := _\<rparr>"]
  by (auto simp: acmp_hook_listener_connect_def Let_def case_prod_unfold split: option.split)

lemma counts_talker_info:
  "list_all count_ok (ac_talker_streams st) \<Longrightarrow> cr_listener_guid (ac_talker_rcvd st) \<noteq> 0 \<Longrightarrow>
     list_all count_ok (ac_talker_streams (acmp_add_talker_stream_info st))"
  "list_all count_ok (ac_talker_streams st) \<Longrightarrow> cr_listener_guid (ac_talker_rcvd st) \<noteq> 0 \<Longrightarrow>
     list_all count_ok (ac_talker_streams (acmp_remove_talker_stream_info st))"
  by (auto simp: acmp_add_talker_stream_info_def acmp_remove_talker_stream_info_def
      intro!: list_all_modify_nth count_ok_add count_ok_remove)

lemma talker_respond_sel [simp]:
  "ac_talker_streams (acmp_talker_respond mt s st) = ac_talker_streams st"
  "ac_talker_state (acmp_talker_respond mt s st) = ACMP_TALKER_WAITING"
  by (simp_all add: acmp_talker_respond_def acmp_send_response_def)

lemma set_response_streams [simp]:
  "ac_talker_streams (acmp_set_talker_response st) = ac_talker_streams st"
  "ac_talker_streams (acmp_hook_listener_disconnect hk st) = ac_talker_streams st"
  "ac_talker_streams (snd (acmp_talker_get_connection st)) = ac_talker_streams st"
  by (simp_all add: acmp_set_talker_response_def acmp_hook_listener_disconnect_def
      acmp_talker_get_connection_def Let_def)

lemma counts_periodic [step_inv]:
  "talker_counts_ok st \<Longrightarrow> talker_counts_ok (avb_1722_1_acmp_talker_periodic hk st)"
  by (cases "ac_talker_state st")
    (simp_all add: talker_counts_ok_def avb_1722_1_acmp_talker_periodic_def Let_def case_prod_unfold
      counts_hook counts_talker_info acmp_talker_get_state_def)

lemma listener_packet_sel [simp]:
  "ac_talker_state (process_avb_1722_1_acmp_listener_packet mt pkt st) = ac_talker_state st"
  "ac_talker_streams (process_avb_1722_1_acmp_listener_packet mt pkt st) = ac_talker_streams st"
  "ac_talker_rcvd (process_avb_1722_1_acmp_listener_packet mt pkt st) = ac_talker_rcvd st"
  "ac_controller_state (process_avb_1722_1_acmp_listener_packet mt pkt st) = ac_controller_state st"
  "ac_inflight (process_avb_1722_1_acmp_listener_packet mt pkt st) = ac_inflight st"
  "ac_listener_streams (process_avb_1722_1_acmp_listener_packet mt pkt st) = ac_listener_streams st"
  "ac_sent (process_avb_1722_1_acmp_listener_packet mt pkt st) = ac_sent st"
  by (simp_all add: process_avb_1722_1_acmp_listener_packet_def)

lemma controller_packet_sel [simp]:
  "ac_talker_state (process_avb_1722_1_acmp_controller_packet mt pkt st) = ac_talker_state st"
  "ac_talker_streams (process_avb_1722_1_acmp_controller_packet mt pkt st) = ac_talker_streams st"
  "ac_talker_rcvd (process_avb_1722_1_acmp_controller_packet mt pkt st) = ac_talker_rcvd st"
  "ac_listener_state (process_avb_1722_1_acmp_controller_packet mt pkt st) = ac_listener_state st"
  "ac_listener_rcvd (process_avb_1722_1_acmp_controller_packet mt pkt st) = ac_listener_rcvd st"
  "ac_inflight (process_avb_1722_1_acmp_controller_packet mt pkt st) = ac_inflight st"
  "ac_listener_streams (process_avb_1722_1_acmp_controller_packet mt pkt st) = ac_listener_streams st"
  "ac_sent (process_avb_1722_1_acmp_controller_packet mt pkt st) = ac_sent st"
  by (simp_all add: process_avb_1722_1_acmp_controller_packet_def split: option.split)

lemma talker_packet_sel [simp]:
  "ac_talker_streams (process_avb_1722_1_acmp_talker_packet mt pkt st) = ac_talker_streams st"
  "ac_listener_state (process_avb_1722_1_acmp_talker_packet mt pkt st) = ac_listener_state st"
  "ac_listener_rcvd (process_avb_1722_1_acmp_talker_packet mt pkt st) = ac_listener_rcvd st"
  "ac_listener_streams (process_avb_1722_1_acmp_talker_packet mt pkt st) = ac_listener_streams st"
  "ac_controller_state (process_avb_1722_1_acmp_talker_packet mt pkt st) = ac_controller_state st"
  "ac_inflight (process_avb_1722_1_acmp_talker_packet mt pkt st) = ac_inflight st"
  "ac_sent (process_avb_1722_1_acmp_talker_packet mt pkt st) = ac_sent st"
  by (simp_all add: process_avb_1722_1_acmp_talker_packet_def)

lemma counts_talker_packet:
  "talker_counts_ok st \<Longrightarrow> cr_listener_guid (store_rcvd_cmd_resp pkt) \<noteq> 0 \<Longrightarrow>
     talker_counts_ok (process_avb_1722_1_acmp_talker_packet mt pkt st)"
  by (simp add: talker_counts_ok_def process_avb_1722_1_acmp_talker_packet_def)

lemma counts_other_packet [simp]:
  "talker_counts_ok (process_avb_1722_1_acmp_listener_packet mt pkt st) = talker_counts_ok st"
  "talker_counts_ok (process_avb_1722_1_acmp_controller_packet mt pkt st) = talker_counts_ok st"
  by (simp_all add: talker_counts_ok_def)

lemma counts_packet [step_inv]:
  "talker_counts_ok st \<Longrightarrow> cr_listener_guid (store_rcvd_cmd_resp pkt) \<noteq> 0 \<Longrightarrow>
     talker_counts_ok (process_avb_1722_1_acmp_packet pkt st)"
  by (simp add: process_avb_1722_1_acmp_packet_def Let_def counts_talker_packet del: insert_iff)

lemma talker_step_keeps:
  "talker_counts_ok st \<Longrightarrow> talker_event_ok e \<Longrightarrow> talker_counts_ok (talker_step hk e st)"
proof (cases e)
  case (TalkerSetMac i m)
  assume "talker_counts_ok st"
  then show ?thesis using TalkerSetMac
    by (auto simp: talker_counts_ok_def avb_1722_1_talker_set_mac_address_def intro!: list_all_modify_nth)
next
  case (TalkerSetStream i s)
  assume h: "talker_counts_ok st"
  have "ac_talker_state (avb_1722_1_talker_set_stream_id i s st) = ac_talker_state st"
    by (simp add: avb_1722_1_talker_set_stream_id_def)
  with h show ?thesis using TalkerSetStream by (simp add: talker_counts_ok_def counts_set_stream_id)
qed (simp_all add: counts_periodic counts_packet)

interpretation talker: guarded_machine "talker_step hk" talker_counts_ok talker_event_ok
  by unfold_locales (rule talker_step_keeps)

text \<open>
  A command whose listener GUID is zero names an empty slot: adding it writes its unique id into
  the first empty slot and counts it, removing it clears an empty slot and discounts it.
\<close>

lemma add_zero_guid:
  assumes "find_idx (\<lambda>l. lp_guid l = 0) (ts_connected_listeners t) = Some k"
    and "lp_unique_id (ts_connected_listeners t ! k) \<noteq> u"
  shows "ts_connection_count (add_talker_listener 0 u t) = ts_connection_count t + 1"
    and "connected_listeners (add_talker_listener 0 u t) = connected_listeners t"
proof -
  have "(\<lambda>l. lp_is 0 u l \<or> lp_guid l = 0) = (\<lambda>l. lp_guid l = 0)" by (auto simp: lp_is_def)
  then have a: "add_talker_listener 0 u t = t\<lparr>ts_connected_listeners :=
        modify_nth k (\<lambda>l. l\<lparr>lp_guid := 0, lp_unique_id := u\<rparr>) (ts_connected_listeners t),
      ts_connection_count := ts_connection_count t + 1\<rparr>"
    using assms by (simp add: add_talker_listener_def lp_is_def)
  show "ts_connection_count (add_talker_listener 0 u t) = ts_connection_count t + 1" by (simp add: a)
  show "connected_listeners (add_talker_listener 0 u t) = connected_listeners t"
    using find_idx_less [OF assms(1)] find_idx_holds [OF assms(1)]
    by (simp add: a connected_listeners_def modify_nth_def filter_update_drop)
qed

lemma remove_zero_guid:
  assumes "find_idx (lp_is 0 u) (ts_connected_listeners t) = Some k"
  shows "ts_connection_count (remove_talker_listener 0 u t) = ts_connection_count t - 1"
    and "connected_listeners (remove_talker_listener 0 u t) = connected_listeners t"
proof -
  have r: "remove_talker_listener 0 u t = t\<lparr>ts_connected_listeners :=
        modify_nth k (\<lambda>l. l\<lparr>lp_guid := 0, lp_unique_id := 0\<rparr>) (ts_connected_listeners t),
      ts_connection_count := ts_connection_count t - 1\<rparr>"
    using assms by (simp add: remove_talker_listener_def)
  show "ts_connection_count (remove_talker_listener 0 u t) = ts_connection_count t - 1" by (simp add: r)
  show "connected_listeners (remove_talker_listener 0 u t) = connected_listeners t"
    using find_idx_less [OF assms] find_idx_holds [OF assms]
    by (simp add: r connected_listeners_def modify_nth_def filter_update_drop lp_is_def)
qed

text \<open>
  C4. As long as every command names a listener, that is, carries a listener GUID other than zero,
  the connection count that the talker reports for a stream is the number of its occupied
  listener slots, after any sequence of packets, polls and API calls. A command with GUID zero
  breaks the count: a connection raises it although no slot is taken when the first empty slot
  holds another unique id, and a disconnection lowers it although no slot is freed when an empty
  slot holds the unique id.
\<close>

theorem talker_connection_count:
  assumes "talker_counts_ok st" "list_all talker_event_ok es"
    and "i < length (ac_talker_streams (fold (talker_step hk) es st))"
  shows "ts_connection_count (ac_talker_streams (fold (talker_step hk) es st) ! i) =
           int (length (connected_listeners (ac_talker_streams (fold (talker_step hk) es st) ! i))) \<and>
         (\<forall>t k u. find_idx (\<lambda>l. lp_guid l = 0) (ts_connected_listeners t) = Some k \<and>
            lp_unique_id (ts_connected_listeners t ! k) \<noteq> u \<longrightarrow>
            ts_connection_count (add_talker_listener 0 u t) = ts_connection_count t + 1 \<and>
            connected_listeners (add_talker_listener 0 u t) = connected_listeners t) \<and>
         (\<forall>t k u. find_idx (lp_is 0 u) (ts_connected_listeners t) = Some k \<longrightarrow>
            ts_connection_count (remove_talker_listener 0 u t) = ts_connection_count t - 1 \<and>
            connected_listeners (remove_talker_listener 0 u t) = connected_listeners t)"
  using talker.guarded_run [OF assms(1,2)] assms(3)
  by (auto simp: talker_counts_ok_def count_ok_def list_all_length add_zero_guid remove_zero_guid)

definition connect_tx_packet :: "u64 \<Rightarrow> u16 \<Rightarrow> u8 list" where
  "connect_tx_packet g u = drop 14 (avb_1722_1_create_acmp_packet
     (zero_cmd_resp\<lparr>cr_talker_guid := 0x001122FFFE334455, cr_listener_guid := g,
        cr_listener_unique_id := u\<rparr>) ACMP_CMD_CONNECT_TX_COMMAND 0 [9, 9, 9, 9, 9, 9] (replicate 72 0))"

lemma store_connect_tx: "cr_listener_guid (store_rcvd_cmd_resp (connect_tx_packet g u)) = g"
  unfolding connect_tx_packet_def by (subst store_create) (simp_all add: zero_cmd_resp_def)

lemma counts_example: "talker_counts_ok acmp_example"
  by (simp add: talker_counts_ok_def acmp_example_def count_ok_def connected_listeners_def)

theorem talker_connection_count_witness:
  "let st = fold (talker_step acmp_hooks0) [TalkerPacket (connect_tx_packet 5 1), TalkerPoll] acmp_example
   in 0 < length (ac_talker_streams st) \<longrightarrow>
      ts_connection_count (ac_talker_streams st ! 0) = int (length (connected_listeners (ac_talker_streams st ! 0)))"
  using talker_connection_count [OF counts_example, of "[TalkerPacket (connect_tx_packet 5 1), TalkerPoll]" 0 acmp_hooks0]
  by (simp add: store_connect_tx del: fold_simps)

section \<open>The connected listeners as a bag\<close>

text \<open>
  The slots of a stream are read as the bag of the listeners they hold: it abstracts from the
  order of the slots and from the empty ones, and keeps a listener that is entered twice apart
  from one that is entered once.
\<close>

definition lp_key :: "acmp_listener_pair \<Rightarrow> u64 \<times> u16" where
  "lp_key l = (lp_guid l, lp_unique_id l)"

definition listener_bag :: "acmp_talker_stream_info \<Rightarrow> (u64 \<times> u16) multiset" where
  "listener_bag t = image_mset lp_key (mset (connected_listeners t))"

lemma lp_key_is [simp]: "lp_key l = (g, u) \<longleftrightarrow> lp_is g u l" "(g, u) = lp_key l \<longleftrightarrow> lp_is g u l"
  by (auto simp: lp_key_def lp_is_def)

lemma mset_connected_update:
  "i < length (ts_connected_listeners t) \<Longrightarrow>
     mset (filter P ((ts_connected_listeners t)[i := l])) =
       (if P l then {#l#} else {#}) +
       (mset (filter P (ts_connected_listeners t)) - (if P (ts_connected_listeners t ! i)
          then {#ts_connected_listeners t ! i#} else {#}))"
  by (simp add: mset_filter mset_update)

lemma listener_bag_fill:
  assumes "i < length (ts_connected_listeners t)" "lp_guid (ts_connected_listeners t ! i) = 0"
    and "ts_connected_listeners t' = (ts_connected_listeners t)[i := l]" "lp_is g u l" "g \<noteq> 0"
  shows "listener_bag t' = add_mset (g, u) (listener_bag t)"
  using assms mset_connected_update [of i t "\<lambda>l. lp_guid l \<noteq> 0" l]
  by (simp add: listener_bag_def connected_listeners_def lp_is_def lp_key_def)

lemma listener_bag_clear:
  assumes "i < length (ts_connected_listeners t)" "lp_is g u (ts_connected_listeners t ! i)" "g \<noteq> 0"
    and "ts_connected_listeners t' = (ts_connected_listeners t)[i := l]" "lp_guid l = 0"
  shows "listener_bag t' = listener_bag t - {#(g, u)#}"
proof -
  have "ts_connected_listeners t ! i \<in># mset (connected_listeners t)"
    using assms by (simp add: connected_listeners_def lp_is_def)
  then show ?thesis
    using assms mset_connected_update [of i t "\<lambda>l. lp_guid l \<noteq> 0" l]
    by (simp add: listener_bag_def connected_listeners_def lp_is_def lp_key_def image_mset_Diff)
qed

lemma listener_bag_absent:
  "list_all (\<lambda>l. \<not> lp_is g u l) (ts_connected_listeners t) \<Longrightarrow> (g, u) \<notin># listener_bag t"
  by (auto simp: listener_bag_def connected_listeners_def list_all_iff dest: sym)

lemma listener_bag_remove:
  assumes "g \<noteq> 0"
  shows "listener_bag (remove_talker_listener g u t) = listener_bag t - {#(g, u)#}"
proof (cases "find_idx (lp_is g u) (ts_connected_listeners t)")
  case None
  then have "(g, u) \<notin># listener_bag t"
    by (intro listener_bag_absent) (simp add: find_idx_None list_all_iff)
  with None show ?thesis by (simp add: remove_talker_listener_def diff_single_trivial)
next
  case (Some i)
  then show ?thesis
    using listener_bag_clear [OF find_idx_less [OF Some] find_idx_holds [OF Some] assms,
        of "remove_talker_listener g u t"]
    by (simp add: remove_talker_listener_def modify_nth_def)
qed

lemma listener_bag_add:
  assumes "g \<noteq> 0"
  shows "listener_bag (add_talker_listener g u t) =
           (case find_idx (\<lambda>l. lp_guid l = 0) (ts_connected_listeners t) of
              None \<Rightarrow> listener_bag t
            | Some k \<Rightarrow> if (g, u) \<in> lp_key ` set (take k (ts_connected_listeners t)) then listener_bag t
                        else add_mset (g, u) (listener_bag t))"
proof -
  let ?xs = "ts_connected_listeners t" and ?Q = "\<lambda>l. lp_is g u l \<or> lp_guid l = 0"
  have same: "add_talker_listener g u t = t" if "\<forall>i. find_idx ?Q ?xs = Some i \<longrightarrow> lp_is g u (?xs ! i)"
    using that by (auto simp: add_talker_listener_def split: option.split)
  show ?thesis
  proof (cases "find_idx (\<lambda>l. lp_guid l = 0) ?xs")
    case None
    then have "\<forall>i. find_idx ?Q ?xs = Some i \<longrightarrow> lp_is g u (?xs ! i)"
      by (auto simp: find_idx_None dest!: find_idx_SomeD)
    with same None show ?thesis by simp
  next
    case (Some k)
    note k = find_idx_SomeD [OF Some]
    show ?thesis
    proof (cases "\<exists>j<k. lp_is g u (?xs ! j)")
      case True
      then obtain j where j: "j < k" "lp_is g u (?xs ! j)" by blast
      have "lp_is g u (?xs ! i)" if "find_idx ?Q ?xs = Some i" for i
        using find_idx_SomeD [OF that] j k by (metis linorder_neqE_nat order.strict_trans)
      then have "add_talker_listener g u t = t" by (intro same) blast
      moreover have "(g, u) \<in> lp_key ` set (take k ?xs)"
        using j k by (intro image_eqI [of _ _ "?xs ! j"]) (auto simp: in_set_conv_nth intro!: exI [of _ j])
      ultimately show ?thesis using Some by simp
    next
      case False
      then have f: "find_idx ?Q ?xs = Some k" using k by (intro find_idx_SomeI) auto
      have n: "\<not> lp_is g u (?xs ! k)" using k assms by (auto simp: lp_is_def)
      have "listener_bag (add_talker_listener g u t) = add_mset (g, u) (listener_bag t)"
        using f n k assms by (intro listener_bag_fill [of k t _ "(?xs ! k)\<lparr>lp_guid := g, lp_unique_id := u\<rparr>"])
          (simp_all add: add_talker_listener_def modify_nth_def lp_is_def)
      moreover have "(g, u) \<notin> lp_key ` set (take k ?xs)"
        using False k by (auto simp: in_set_conv_nth dest: sym)
      ultimately show ?thesis using Some by simp
    qed
  qed
qed

text \<open>
  C5. The connections of a stream refine a bag of listeners. Removing a listener takes one
  occurrence out of the bag and nothing else. Adding one changes nothing when every slot is taken
  or when the listener sits in a slot before the first empty one; otherwise it adds one
  occurrence, also to a listener that sits behind the first empty slot, which is then entered
  twice, so that the next removal leaves it connected.
\<close>

theorem talker_listener_bag:
  assumes "g \<noteq> 0"
  shows "listener_bag (remove_talker_listener g u t) = listener_bag t - {#(g, u)#} \<and>
         listener_bag (add_talker_listener g u t) =
           (case find_idx (\<lambda>l. lp_guid l = 0) (ts_connected_listeners t) of
              None \<Rightarrow> listener_bag t
            | Some k \<Rightarrow> if (g, u) \<in> lp_key ` set (take k (ts_connected_listeners t)) then listener_bag t
                        else add_mset (g, u) (listener_bag t)) \<and>
         (\<forall>k. find_idx (\<lambda>l. lp_guid l = 0) (ts_connected_listeners t) = Some k \<and>
            (g, u) \<in># listener_bag t \<and> (g, u) \<notin> lp_key ` set (take k (ts_connected_listeners t)) \<longrightarrow>
            (g, u) \<in># listener_bag (remove_talker_listener g u (add_talker_listener g u t)))"
  using assms by (auto simp: listener_bag_remove listener_bag_add)

theorem talker_listener_bag_witness:
  "listener_bag (add_talker_listener 5 1 (ac_talker_streams acmp_example ! 0)) =
     add_mset (5, 1) (listener_bag (ac_talker_streams acmp_example ! 0))"
proof -
  have "find_idx (\<lambda>l. lp_guid l = 0) (ts_connected_listeners (ac_talker_streams acmp_example ! 0)) = Some 0"
    by (rule find_idx_SomeI) (simp_all add: acmp_example_def)
  then show ?thesis using talker_listener_bag [of 5 1 "ac_talker_streams acmp_example ! 0"] by simp
qed

text \<open>
  On concrete commands: after A and B connect, A disconnects and B asks again, a disconnect of B
  leaves B listed and the count at one, and the stream is never released.
\<close>

theorem talker_listener_duplicated:
  "let t = remove_talker_listener 6 0 (add_talker_listener 6 0 (remove_talker_listener 5 0
             (add_talker_listener 6 0 (add_talker_listener 5 0 (ac_talker_streams acmp_example ! 0)))))
   in listener_bag t = {#(6, 0)#} \<and> ts_connection_count t = 1"
  by code_simp

end
