(* ===== verification/Acmp_Listener_Proofs.thy ===== *)
theory Acmp_Listener_Proofs
  imports Acmp_Talker_Proofs
begin

text \<open>
  Properties of the ACMP listener and controller: the connection handshake from the
  controller's command to its response, the exclusive answer, one retry and then a timeout
  answer, and the states and packets that the code handles differently from what it means.
\<close>

section \<open>Selectors\<close>

lemma acmp_set_sequence_sel [simp]:
  "ac_talker_state (acmp_set_sequence_at p q st) = ac_talker_state st"
  "ac_listener_state (acmp_set_sequence_at p q st) = ac_listener_state st"
  "ac_my_guid (acmp_set_sequence_at p q st) = ac_my_guid st"
  "ac_my_mac (acmp_set_sequence_at p q st) = ac_my_mac st"
  "ac_buf (acmp_set_sequence_at p q st) = ac_buf st"
  "ac_sent (acmp_set_sequence_at p q st) = ac_sent st"
  "ac_sequence_id (acmp_set_sequence_at p q st) = ac_sequence_id st"
  "ac_listener_streams (acmp_set_sequence_at p q st) = ac_listener_streams st"
  "ac_talker_streams (acmp_set_sequence_at p q st) = ac_talker_streams st"
  "ac_talker_rcvd (acmp_set_sequence_at p q st) = ac_talker_rcvd st"
  by (cases p; simp)+

lemma controller_packet_more [simp]:
  "ac_my_guid (process_avb_1722_1_acmp_controller_packet mt pkt st) = ac_my_guid st"
  "ac_my_mac (process_avb_1722_1_acmp_controller_packet mt pkt st) = ac_my_mac st"
  "ac_buf (process_avb_1722_1_acmp_controller_packet mt pkt st) = ac_buf st"
  "ac_env (process_avb_1722_1_acmp_controller_packet mt pkt st) = ac_env st"
  "ac_sequence_id (process_avb_1722_1_acmp_controller_packet mt pkt st) = ac_sequence_id st"
  "ac_centisecond_counter (process_avb_1722_1_acmp_controller_packet mt pkt st) = ac_centisecond_counter st"
  by (simp_all add: process_avb_1722_1_acmp_controller_packet_def split: option.split)

lemma talker_packet_more [simp]:
  "ac_my_guid (process_avb_1722_1_acmp_talker_packet mt pkt st) = ac_my_guid st"
  "ac_my_mac (process_avb_1722_1_acmp_talker_packet mt pkt st) = ac_my_mac st"
  "ac_buf (process_avb_1722_1_acmp_talker_packet mt pkt st) = ac_buf st"
  "ac_env (process_avb_1722_1_acmp_talker_packet mt pkt st) = ac_env st"
  "ac_sequence_id (process_avb_1722_1_acmp_talker_packet mt pkt st) = ac_sequence_id st"
  "ac_centisecond_counter (process_avb_1722_1_acmp_talker_packet mt pkt st) = ac_centisecond_counter st"
  "ac_controller_cmd_resp (process_avb_1722_1_acmp_talker_packet mt pkt st) = ac_controller_cmd_resp st"
  by (simp_all add: process_avb_1722_1_acmp_talker_packet_def)

lemma listener_packet_more [simp]:
  "ac_my_guid (process_avb_1722_1_acmp_listener_packet mt pkt st) = ac_my_guid st"
  "ac_my_mac (process_avb_1722_1_acmp_listener_packet mt pkt st) = ac_my_mac st"
  "ac_buf (process_avb_1722_1_acmp_listener_packet mt pkt st) = ac_buf st"
  "ac_env (process_avb_1722_1_acmp_listener_packet mt pkt st) = ac_env st"
  "ac_sequence_id (process_avb_1722_1_acmp_listener_packet mt pkt st) = ac_sequence_id st"
  "ac_centisecond_counter (process_avb_1722_1_acmp_listener_packet mt pkt st) = ac_centisecond_counter st"
  "ac_controller_cmd_resp (process_avb_1722_1_acmp_listener_packet mt pkt st) = ac_controller_cmd_resp st"
  by (simp_all add: process_avb_1722_1_acmp_listener_packet_def)

lemma acmp_packet_sel [simp]:
  "ac_inflight (process_avb_1722_1_acmp_packet pkt st) = ac_inflight st"
  "ac_talker_streams (process_avb_1722_1_acmp_packet pkt st) = ac_talker_streams st"
  "ac_listener_streams (process_avb_1722_1_acmp_packet pkt st) = ac_listener_streams st"
  "ac_sent (process_avb_1722_1_acmp_packet pkt st) = ac_sent st"
  "ac_my_guid (process_avb_1722_1_acmp_packet pkt st) = ac_my_guid st"
  "ac_my_mac (process_avb_1722_1_acmp_packet pkt st) = ac_my_mac st"
  "ac_buf (process_avb_1722_1_acmp_packet pkt st) = ac_buf st"
  "ac_env (process_avb_1722_1_acmp_packet pkt st) = ac_env st"
  "ac_sequence_id (process_avb_1722_1_acmp_packet pkt st) = ac_sequence_id st"
  "ac_centisecond_counter (process_avb_1722_1_acmp_packet pkt st) = ac_centisecond_counter st"
  by (simp_all add: process_avb_1722_1_acmp_packet_def Let_def del: insert_iff)

text \<open>Commands to a talker pass through the dispatcher without touching the listener.\<close>

lemma acmp_tx_command_keeps_listener:
  "get_1722_1_msg_type pkt \<in> {0, 2, 4, 12} \<Longrightarrow>
     ac_listener_rcvd (process_avb_1722_1_acmp_packet pkt st) = ac_listener_rcvd st \<and>
     ac_listener_state (process_avb_1722_1_acmp_packet pkt st) = ac_listener_state st"
  by (simp add: process_avb_1722_1_acmp_packet_def Let_def del: insert_iff)

lemma add_inflight_sel [simp]:
  "ac_talker_state (acmp_add_inflight e mt q st) = ac_talker_state st"
  "ac_listener_state (acmp_add_inflight e mt q st) = ac_listener_state st"
  "ac_listener_rcvd (acmp_add_inflight e mt q st) = ac_listener_rcvd st"
  "ac_listener_streams (acmp_add_inflight e mt q st) = ac_listener_streams st"
  "ac_talker_streams (acmp_add_inflight e mt q st) = ac_talker_streams st"
  "ac_sent (acmp_add_inflight e mt q st) = ac_sent st"
  "ac_my_guid (acmp_add_inflight e mt q st) = ac_my_guid st"
  "ac_my_mac (acmp_add_inflight e mt q st) = ac_my_mac st"
  "ac_buf (acmp_add_inflight e mt q st) = ac_buf st"
  "ac_env (acmp_add_inflight e mt q st) = ac_env st"
  "ac_sequence_id (acmp_add_inflight e mt q st) = ac_sequence_id st"
  by (simp_all add: acmp_add_inflight_def split: option.split)

section \<open>Connecting a listener\<close>

lemma find_idx_modify_fresh:
  assumes "i < length xs" "P (f (xs ! i))" "\<forall>x\<in>set xs. \<not> P x"
  shows "find_idx P (modify_nth i f xs) = Some i"
  using assms by (intro find_idx_SomeI) (auto simp: modify_nth_def nth_list_update)

lemma add_inflight_slot:
  "find_idx (\<lambda>f. \<not> fl_in_use f) (ac_inflight st e) = Some i \<Longrightarrow>
     ac_inflight (acmp_add_inflight e mt q st) e =
       modify_nth i (\<lambda>_. acmp_new_inflight e mt q st) (ac_inflight st e)"
  by (simp add: acmp_add_inflight_def)

lemma new_inflight_sel [simp]:
  "fl_in_use (acmp_new_inflight e mt q st)" "\<not> fl_retried (acmp_new_inflight e mt q st)"
  "fl_command (acmp_new_inflight e mt q st) = (acmp_entity_command e st)\<lparr>cr_message_type := mt\<rparr>"
  "fl_original_sequence_id (acmp_new_inflight e mt q st) = q"
  "fl_timeout (acmp_new_inflight e mt q st) = acmp_inflight_timeout (ac_centisecond_counter st e) mt"
  by (simp_all add: acmp_new_inflight_def acmp_update_inflight_timeout_def)

text \<open>A command of the listener to a talker: what is sent, and what is put in flight.\<close>

lemma listener_send_command:
  assumes "acmp_buf_ok st" "length (cr_stream_dest_mac (ac_listener_rcvd st)) = 6" "mt \<in> {0, 2, 4, 12}"
    and "find_idx (\<lambda>f. \<not> fl_in_use f) (ac_inflight st LISTENER) = Some i"
    and s': "s' = acmp_send_command LISTENER mt InListener False 0 st"
    and c: "c = (ac_listener_rcvd st)\<lparr>cr_sequence_id := ac_sequence_id st LISTENER\<rparr>"
  shows "\<exists>f. ac_sent s' = ac_sent st @ [f] \<and>
             store_rcvd_cmd_resp (drop 14 f) = c\<lparr>cr_message_type := mt, cr_status := 0\<rparr>"
    and "\<exists>n. ac_inflight s' LISTENER = modify_nth i (\<lambda>_. n) (ac_inflight st LISTENER) \<and>
             fl_in_use n \<and> \<not> fl_retried n \<and> fl_command n = c\<lparr>cr_message_type := mt\<rparr> \<and>
             fl_original_sequence_id n = cr_sequence_id (ac_listener_rcvd st) \<and>
             fl_timeout n = acmp_inflight_timeout (ac_centisecond_counter st LISTENER) mt"
    and "ac_my_guid s' = ac_my_guid st" "ac_listener_streams s' = ac_listener_streams st"
    and "acmp_buf_ok s'" "ac_listener_rcvd s' = c"
proof -
  define s1 where "s1 = acmp_set_sequence_at InListener (ac_sequence_id st LISTENER) st"
  define s2 where "s2 = s1\<lparr>ac_sequence_id := (ac_sequence_id s1)(LISTENER := ac_sequence_id s1 LISTENER + 1)\<rparr>"
  define s3 where "s3 = acmp_tx c mt 0 s2"
  define s4 where "s4 = process_avb_1722_1_acmp_packet (drop 14 (ac_buf s3)) s3"
  have c2: "ac_listener_rcvd s2 = c" by (simp add: s1_def s2_def c)
  have s'4: "s' = acmp_add_inflight LISTENER mt (cr_sequence_id (ac_listener_rcvd st)) s4"
    using c2 by (simp add: s' acmp_send_command_def Let_def s4_def s3_def s2_def s1_def c)
  have b2: "acmp_buf_ok s2" using assms(1) by (simp add: s2_def s1_def acmp_buf_ok_def)
  have l2: "length (cr_stream_dest_mac c) = 6" using assms(2) by (simp add: c)
  have mt: "mt < 16" using assms(3) by auto
  have sent2: "ac_sent s2 = ac_sent st" by (simp add: s2_def s1_def)
  have sent: "ac_sent s' = ac_sent st @ [last (ac_sent s3)]"
    by (simp add: s'4 s4_def s3_def sent2)
  have frame: "store_rcvd_cmd_resp (drop 14 (last (ac_sent s3))) = c\<lparr>cr_message_type := mt, cr_status := 0\<rparr>"
    unfolding s3_def using b2 l2 mt by (intro acmp_tx_frame) simp_all
  show "\<exists>f. ac_sent s' = ac_sent st @ [f] \<and>
      store_rcvd_cmd_resp (drop 14 f) = c\<lparr>cr_message_type := mt, cr_status := 0\<rparr>"
    using sent frame by blast
  have "get_1722_1_msg_type (drop 14 (ac_buf s3)) = mt"
    using b2 mt acmp_packet_header(1) [of "ac_buf s2" "ac_my_mac s2" mt 0 c]
    by (simp add: s3_def acmp_buf_ok_def)
  then have lr: "ac_listener_rcvd s4 = c"
    using acmp_tx_command_keeps_listener [of "drop 14 (ac_buf s3)" s3] assms(3) c2
    by (simp add: s4_def s3_def del: insert_iff)
  then show "ac_listener_rcvd s' = c" by (simp add: s'4)
  have "ac_inflight s4 LISTENER = ac_inflight st LISTENER" and
    cc: "ac_centisecond_counter s4 LISTENER = ac_centisecond_counter st LISTENER"
    by (simp_all add: s4_def s3_def s2_def s1_def)
  then have fl: "ac_inflight s' LISTENER = modify_nth i
      (\<lambda>_. acmp_new_inflight LISTENER mt (cr_sequence_id (ac_listener_rcvd st)) s4) (ac_inflight st LISTENER)"
    using add_inflight_slot [of s4 LISTENER i] assms(4) by (simp add: s'4)
  have "acmp_entity_command LISTENER s4 = c" by (simp add: acmp_entity_command_def lr)
  with fl show "\<exists>n. ac_inflight s' LISTENER = modify_nth i (\<lambda>_. n) (ac_inflight st LISTENER) \<and>
      fl_in_use n \<and> \<not> fl_retried n \<and> fl_command n = c\<lparr>cr_message_type := mt\<rparr> \<and>
      fl_original_sequence_id n = cr_sequence_id (ac_listener_rcvd st) \<and>
      fl_timeout n = acmp_inflight_timeout (ac_centisecond_counter st LISTENER) mt"
    by (intro exI [of _ "acmp_new_inflight LISTENER mt (cr_sequence_id (ac_listener_rcvd st)) s4"]) (simp add: cc)
  show "ac_my_guid s' = ac_my_guid st" "ac_listener_streams s' = ac_listener_streams st"
    by (simp_all add: s'4 s4_def s3_def s2_def s1_def)
  show "acmp_buf_ok s'" using b2 by (simp add: s'4 s4_def s3_def acmp_buf_ok_def)
qed

text \<open>A response from the talker, for an inflight command.\<close>

lemma listener_wait_sel [simp]:
  "ac_listener_state (acmp_listener_wait st) = ACMP_LISTENER_WAITING"
  "ac_sent (acmp_listener_wait st) = ac_sent st"
  "ac_inflight (acmp_listener_wait st) = ac_inflight st"
  "ac_listener_streams (acmp_listener_wait st) = ac_listener_streams st"
  "ac_listener_rcvd (acmp_listener_wait st) = ac_listener_rcvd st"
  "ac_my_guid (acmp_listener_wait st) = ac_my_guid st"
  "ac_sequence_id (acmp_listener_wait st) = ac_sequence_id st"
  by (simp_all add: acmp_listener_wait_def)

definition hook_connect_status :: "'e acmp_hooks \<Rightarrow> bool" where
  "hook_connect_status hk \<longleftrightarrow> (\<forall>u g m w h e. snd (hk_listener_on_talker_connect hk u g m w h e) < 32)"

lemma hooks_sel [simp]:
  "ac_sent (acmp_hook_talker_disconnect hk st) = ac_sent st"
  "ac_buf (acmp_hook_talker_disconnect hk st) = ac_buf st"
  "ac_my_mac (acmp_hook_talker_disconnect hk st) = ac_my_mac st"
  "ac_my_guid (acmp_hook_talker_disconnect hk st) = ac_my_guid st"
  "ac_listener_rcvd (acmp_hook_talker_disconnect hk st) = ac_listener_rcvd st"
  "ac_listener_streams (acmp_hook_talker_disconnect hk st) = ac_listener_streams st"
  "ac_inflight (acmp_hook_talker_disconnect hk st) = ac_inflight st"
  "ac_sent (acmp_hook_talker_connect hk st) = ac_sent st"
  "ac_buf (acmp_hook_talker_connect hk st) = ac_buf st"
  "ac_my_mac (acmp_hook_talker_connect hk st) = ac_my_mac st"
  "ac_my_guid (acmp_hook_talker_connect hk st) = ac_my_guid st"
  "ac_listener_streams (acmp_hook_talker_connect hk st) = ac_listener_streams st"
  "ac_inflight (acmp_hook_talker_connect hk st) = ac_inflight st"
  by (simp_all add: acmp_hook_talker_disconnect_def acmp_hook_talker_connect_def Let_def case_prod_unfold)

lemma hook_connect_rcvd:
  "hook_connect_status hk \<Longrightarrow> \<exists>s<32. ac_listener_rcvd (acmp_hook_talker_connect hk st) =
     (ac_listener_rcvd st)\<lparr>cr_status := s\<rparr>"
proof -
  assume h: "hook_connect_status hk"
  let ?c = "ac_listener_rcvd st"
  have "snd (hk_listener_on_talker_connect hk (cr_listener_unique_id ?c) (cr_talker_guid ?c)
      (cr_stream_dest_mac ?c) (acmp_stream_words (cr_stream_id ?c)) (ac_my_guid st) (ac_env st)) < 32"
    using h unfolding hook_connect_status_def by blast
  then show ?thesis
    by (auto simp: acmp_hook_talker_connect_def Let_def case_prod_unfold)
qed

lemma listener_connect_tx_response:
  assumes "ac_listener_state st = ACMP_LISTENER_CONNECT_TX_RESPONSE" "acmp_listener_valid_listener_unique st"
    and "acmp_buf_ok st" "length (cr_stream_dest_mac (ac_listener_rcvd st)) = 6" "hook_connect_status hk"
    and found: "find_idx (inflight_matches (cr_sequence_id (ac_listener_rcvd st))) (ac_inflight st LISTENER) = Some i"
    and n: "n = ac_inflight st LISTENER ! i" and s': "s' = avb_1722_1_acmp_listener_periodic hk now st"
  shows "ac_listener_state s' = ACMP_LISTENER_WAITING"
    and "\<exists>g s. s < 32 \<and> ac_sent s' = ac_sent st @ [g] \<and> store_rcvd_cmd_resp (drop 14 g) =
           (ac_listener_rcvd st)\<lparr>cr_sequence_id := fl_original_sequence_id n, cr_message_type := 7, cr_status := s\<rparr>"
    and "ac_inflight s' LISTENER = modify_nth i (\<lambda>f. f\<lparr>fl_in_use := False\<rparr>) (ac_inflight st LISTENER)"
    and "ls_connected (ac_listener_streams s' ! acmp_listener_id st) = 1"
    and "ls_talker_guid (ac_listener_streams s' ! acmp_listener_id st) = cr_talker_guid (ac_listener_rcvd st)"
    and "ls_talker_unique_id (ac_listener_streams s' ! acmp_listener_id st) = cr_talker_unique_id (ac_listener_rcvd st)"
    and "ls_stream_id (ac_listener_streams s' ! acmp_listener_id st) = cr_stream_id (ac_listener_rcvd st)"
proof -
  define s1 where "s1 = acmp_modify_inflight LISTENER i (\<lambda>f. f\<lparr>fl_in_use := False\<rparr>) st"
  have i: "i < length (ac_inflight st LISTENER)" using found by (rule find_idx_less)
  have rm: "acmp_remove_inflight LISTENER st = (Some (n\<lparr>fl_in_use := False\<rparr>), s1)"
    using i by (simp add: acmp_remove_inflight_def acmp_get_inflight_from_sequence_id_def
        acmp_entity_command_def found s1_def n Let_def)
  define s2 where "s2 = acmp_listener_set_sequence (fl_original_sequence_id n) s1"
  define s3 where "s3 = acmp_hook_talker_connect hk (acmp_hook_talker_disconnect hk s2)"
  define s4 where "s4 = acmp_listener_respond ACMP_CMD_CONNECT_RX_RESPONSE (cr_status (ac_listener_rcvd s3)) s3"
  have s'4: "s' = acmp_listener_wait (acmp_add_listener_stream_info s4)"
    using assms(1,2) by (simp add: s' avb_1722_1_acmp_listener_periodic_def rm Let_def s4_def s3_def s2_def)
  have r2: "ac_listener_rcvd s2 = (ac_listener_rcvd st)\<lparr>cr_sequence_id := fl_original_sequence_id n\<rparr>"
    by (simp add: s2_def acmp_listener_set_sequence_def s1_def)
  obtain s where s: "s < 32" "ac_listener_rcvd s3 = (ac_listener_rcvd s2)\<lparr>cr_status := s\<rparr>"
    using hook_connect_rcvd [OF assms(5), of "acmp_hook_talker_disconnect hk s2"] by (auto simp: s3_def)
  have b3: "acmp_buf_ok s3" and q3: "ac_sent s3 = ac_sent st"
    and f3: "ac_inflight s3 LISTENER = modify_nth i (\<lambda>f. f\<lparr>fl_in_use := False\<rparr>) (ac_inflight st LISTENER)"
    and l3: "ac_listener_streams s3 = ac_listener_streams st"
    using assms(3) by (simp_all add: s3_def s2_def s1_def acmp_buf_ok_def acmp_listener_set_sequence_def)
  have r4: "ac_listener_rcvd s4 = ac_listener_rcvd s3" and l4: "ac_listener_streams s4 = ac_listener_streams st"
    and f4: "ac_inflight s4 = ac_inflight s3"
    by (simp_all add: s4_def acmp_listener_respond_def acmp_send_response_def l3)
  have q4: "ac_sent s4 = ac_sent st @ [last (ac_sent (acmp_tx (ac_listener_rcvd s3) 7 s s3))]"
    using s by (simp add: s4_def acmp_listener_respond_def acmp_send_response_def q3)
  have frame: "store_rcvd_cmd_resp (drop 14 (last (ac_sent (acmp_tx (ac_listener_rcvd s3) 7 s s3)))) =
      (ac_listener_rcvd s3)\<lparr>cr_message_type := 7, cr_status := s\<rparr>"
    using b3 s assms(4) r2 by (intro acmp_tx_frame) simp_all
  show "ac_listener_state s' = ACMP_LISTENER_WAITING" by (simp add: s'4)
  show "\<exists>g s. s < 32 \<and> ac_sent s' = ac_sent st @ [g] \<and> store_rcvd_cmd_resp (drop 14 g) =
      (ac_listener_rcvd st)\<lparr>cr_sequence_id := fl_original_sequence_id n, cr_message_type := 7, cr_status := s\<rparr>"
    using frame q4 s r2
    by (intro exI [of _ "last (ac_sent (acmp_tx (ac_listener_rcvd s3) 7 s s3))"] exI [of _ s])
      (simp add: s'4 acmp_add_listener_stream_info_def Let_def)
  show "ac_inflight s' LISTENER = modify_nth i (\<lambda>f. f\<lparr>fl_in_use := False\<rparr>) (ac_inflight st LISTENER)"
    by (simp add: s'4 acmp_add_listener_stream_info_def Let_def f4 f3)
  show "ls_connected (ac_listener_streams s' ! acmp_listener_id st) = 1"
    "ls_talker_guid (ac_listener_streams s' ! acmp_listener_id st) = cr_talker_guid (ac_listener_rcvd st)"
    "ls_talker_unique_id (ac_listener_streams s' ! acmp_listener_id st) = cr_talker_unique_id (ac_listener_rcvd st)"
    "ls_stream_id (ac_listener_streams s' ! acmp_listener_id st) = cr_stream_id (ac_listener_rcvd st)"
    using assms(2) s r2
    by (simp_all add: s'4 acmp_add_listener_stream_info_def Let_def l4 r4 acmp_listener_valid_listener_unique_def)
qed

text \<open>
  C1. The connection handshake: a CONNECT_RX command for a free sink makes the listener send
  CONNECT_TX with its own sequence id to the talker; when the talker's response to that id
  arrives, the listener answers the controller with CONNECT_RX_RESPONSE under the
  controller's original sequence id and records the talker in its stream table.
\<close>

theorem listener_connects:
  assumes "ac_listener_state st = ACMP_LISTENER_CONNECT_RX_COMMAND" "acmp_listener_valid_listener_unique st"
    and "\<not> acmp_listener_is_connected hk False st" "acmp_buf_ok st"
    and "length (cr_stream_dest_mac (ac_listener_rcvd st)) = 6"
    and free: "find_idx (\<lambda>f. \<not> fl_in_use f) (ac_inflight st LISTENER) = Some i"
    and fresh: "\<forall>f\<in>set (ac_inflight st LISTENER). \<not> inflight_matches (ac_sequence_id st LISTENER) f"
    and pkt: "56 \<le> length pkt" "get_1722_1_msg_type pkt = ACMP_CMD_CONNECT_TX_RESPONSE"
      "cr_listener_guid (store_rcvd_cmd_resp pkt) = ac_my_guid st"
      "cr_sequence_id (store_rcvd_cmd_resp pkt) = ac_sequence_id st LISTENER"
      "cr_listener_unique_id (store_rcvd_cmd_resp pkt) = cr_listener_unique_id (ac_listener_rcvd st)"
    and "hook_connect_status hk"
    and s1: "s1 = avb_1722_1_acmp_listener_periodic hk now st"
    and s2: "s2 = avb_1722_1_acmp_listener_periodic hk now' (process_avb_1722_1_acmp_packet pkt s1)"
  shows "(\<exists>f. ac_sent s1 = ac_sent st @ [f] \<and> store_rcvd_cmd_resp (drop 14 f) =
            (ac_listener_rcvd st)\<lparr>cr_sequence_id := ac_sequence_id st LISTENER,
               cr_message_type := ACMP_CMD_CONNECT_TX_COMMAND, cr_status := ACMP_STATUS_SUCCESS\<rparr>) \<and>
         (\<exists>g s. ac_sent s2 = ac_sent s1 @ [g] \<and> store_rcvd_cmd_resp (drop 14 g) =
            (store_rcvd_cmd_resp pkt)\<lparr>cr_sequence_id := cr_sequence_id (ac_listener_rcvd st),
               cr_message_type := ACMP_CMD_CONNECT_RX_RESPONSE, cr_status := s\<rparr>) \<and>
         ac_listener_state s2 = ACMP_LISTENER_WAITING \<and>
         ls_connected (ac_listener_streams s2 ! acmp_listener_id st) = 1 \<and>
         ls_talker_guid (ac_listener_streams s2 ! acmp_listener_id st) = cr_talker_guid (store_rcvd_cmd_resp pkt) \<and>
         ls_stream_id (ac_listener_streams s2 ! acmp_listener_id st) = cr_stream_id (store_rcvd_cmd_resp pkt)"
proof -
  define s0 where "s0 = acmp_send_command LISTENER ACMP_CMD_CONNECT_TX_COMMAND InListener False 0 st"
  have s1': "s1 = acmp_listener_wait s0"
    using assms(1-3) by (simp add: s1 avb_1722_1_acmp_listener_periodic_def s0_def)
  note snd0 = listener_send_command [OF assms(4,5) _ free s0_def refl, simplified]
  obtain n where n: "ac_inflight s0 LISTENER = modify_nth i (\<lambda>_. n) (ac_inflight st LISTENER)"
      "fl_in_use n" "cr_sequence_id (fl_command n) = ac_sequence_id st LISTENER"
      "fl_original_sequence_id n = cr_sequence_id (ac_listener_rcvd st)"
    using snd0(2) by auto
  let ?r = "store_rcvd_cmd_resp pkt"
  define p where "p = process_avb_1722_1_acmp_packet pkt s1"
  have cmp: "compare_guid (get_bytes 28 8 pkt) (ac_my_guid st)"
    using guid_from_wire_compare(2) [of pkt "ac_my_guid st"] pkt(1,3) by simp
  have p': "p = s1\<lparr>ac_listener_rcvd := ?r, ac_listener_state := ACMP_LISTENER_CONNECT_TX_RESPONSE\<rparr>"
    using pkt(2) cmp snd0(3)
    by (simp add: p_def process_avb_1722_1_acmp_packet_def Let_def
        process_avb_1722_1_acmp_listener_packet_def s1')
  have i: "i < length (ac_inflight st LISTENER)" using free by (rule find_idx_less)
  have found: "find_idx (inflight_matches (cr_sequence_id (ac_listener_rcvd p))) (ac_inflight p LISTENER) = Some i"
    using find_idx_modify_fresh [OF i, of "inflight_matches (ac_sequence_id st LISTENER)" "\<lambda>_. n"] fresh n pkt(4)
    by (simp add: p' s1' inflight_matches_def)
  have pi: "ac_inflight p LISTENER ! i = n" using i n(1) by (simp add: p' s1')
  have m6: "length (cr_stream_dest_mac (ac_listener_rcvd p)) = 6"
    using pkt(1) by (simp add: p' store_rcvd_cmd_resp_def)
  have bp: "acmp_buf_ok p" using snd0(5) by (simp add: p' s1' acmp_buf_ok_def acmp_listener_wait_def)
  have vp: "acmp_listener_valid_listener_unique p"
    using assms(2) snd0(4) pkt(5) by (simp add: acmp_listener_valid_listener_unique_def p' s1')
  have sp: "ac_listener_state p = ACMP_LISTENER_CONNECT_TX_RESPONSE" "ac_listener_rcvd p = ?r"
    "ac_sent p = ac_sent s1" "acmp_listener_id p = acmp_listener_id st"
    using pkt(5) by (simp_all add: p')
  have s2p: "s2 = avb_1722_1_acmp_listener_periodic hk now' p" by (simp add: s2 p_def)
  note rx = listener_connect_tx_response [OF sp(1) vp bp m6 assms(13) found pi [symmetric] s2p, unfolded sp pkt(5)]
  have "\<exists>f. ac_sent s1 = ac_sent st @ [f] \<and> store_rcvd_cmd_resp (drop 14 f) =
      (ac_listener_rcvd st)\<lparr>cr_sequence_id := ac_sequence_id st LISTENER,
         cr_message_type := ACMP_CMD_CONNECT_TX_COMMAND, cr_status := ACMP_STATUS_SUCCESS\<rparr>"
    using snd0(1) by (simp add: s1')
  moreover have "\<exists>g s. ac_sent s2 = ac_sent s1 @ [g] \<and> store_rcvd_cmd_resp (drop 14 g) =
      ?r\<lparr>cr_sequence_id := cr_sequence_id (ac_listener_rcvd st),
         cr_message_type := ACMP_CMD_CONNECT_RX_RESPONSE, cr_status := s\<rparr>"
    using rx(2) n(4) by auto
  ultimately show ?thesis using rx(1,4,5,7) by blast
qed

definition connect_rx_state :: "unit acmp_st" where
  "connect_rx_state = acmp_example\<lparr>ac_listener_state := ACMP_LISTENER_CONNECT_RX_COMMAND,
     ac_listener_rcvd := zero_cmd_resp\<lparr>cr_sequence_id := 77, cr_listener_unique_id := 1\<rparr>,
     ac_sequence_id := (\<lambda>_. 40)\<rparr>"

definition connect_tx_response :: "u64 \<Rightarrow> u16 \<Rightarrow> u16 \<Rightarrow> u8 list" where
  "connect_tx_response g seq u = drop 14 (avb_1722_1_create_acmp_packet
     (zero_cmd_resp\<lparr>cr_listener_guid := g, cr_sequence_id := seq, cr_listener_unique_id := u,
        cr_talker_guid := 0xAA, cr_stream_id := 0xBB\<rparr>) ACMP_CMD_CONNECT_TX_RESPONSE 0
     [9, 9, 9, 9, 9, 9] (replicate 72 0))"

lemma store_connect_tx_response:
  "store_rcvd_cmd_resp (connect_tx_response g seq u) =
     zero_cmd_resp\<lparr>cr_listener_guid := g, cr_sequence_id := seq, cr_listener_unique_id := u,
        cr_talker_guid := 0xAA, cr_stream_id := 0xBB, cr_message_type := 1\<rparr>"
  unfolding connect_tx_response_def by (subst store_create) (simp_all add: zero_cmd_resp_def)

lemma connect_tx_response_facts:
  "56 \<le> length (connect_tx_response g seq u)" "get_1722_1_msg_type (connect_tx_response g seq u) = 1"
  using acmp_packet_header(1) [of "replicate 72 0" "[9, 9, 9, 9, 9, 9]" 1 0]
  by (simp_all add: connect_tx_response_def)

lemma hooks0_status: "hook_connect_status acmp_hooks0"
  by (simp add: hook_connect_status_def acmp_hooks0_def)

theorem listener_connects_witness:
  "let s1 = avb_1722_1_acmp_listener_periodic acmp_hooks0 3 connect_rx_state;
       s2 = avb_1722_1_acmp_listener_periodic acmp_hooks0 4
              (process_avb_1722_1_acmp_packet (connect_tx_response 0x001122FFFE334455 40 1) s1)
   in ls_talker_guid (ac_listener_streams s2 ! 1) = 0xAA"
proof -
  have free: "find_idx (\<lambda>f. \<not> fl_in_use f) (ac_inflight connect_rx_state LISTENER) = Some 0"
    by (rule find_idx_SomeI) (simp_all add: connect_rx_state_def acmp_example_def zero_inflight_def)
  show ?thesis unfolding Let_def
    using listener_connects [of connect_rx_state acmp_hooks0 0 "connect_tx_response 0x001122FFFE334455 40 1",
        OF _ _ _ _ _ free _ connect_tx_response_facts _ _ _ hooks0_status refl refl, of 3 4]
    by (simp add: store_connect_tx_response)
      (simp add: connect_rx_state_def acmp_example_def acmp_listener_valid_listener_unique_def
        acmp_listener_is_connected_def acmp_hooks0_def acmp_buf_ok_def zero_cmd_resp_def
        inflight_matches_def zero_inflight_def)
qed

section \<open>Timeouts\<close>

lemma sequence_id_fresh:
  "0 < k \<Longrightarrow> k < 65536 \<Longrightarrow> (of_nat k :: u16) \<noteq> 0"
proof
  assume k: "0 < k" "k < 65536" and "(of_nat k :: u16) = 0"
  then have "unat (of_nat k :: u16) = 0" by simp
  then show False using k by (simp add: unat_of_nat)
qed

text \<open>
  C2. A command of the listener that times out is tried again once, with a new sequence id: it
  carries the value of the listener's counter, which moves on by one, so that no two of 65536
  consecutive commands share an id, and the id differs from the one that timed out whenever
  that one was taken from the counter fewer than 65536 commands ago. When the command times out
  again the listener answers the controller itself, with the response that belongs to the
  command, status LISTENER_TALKER_TIMEOUT and the original sequence id, frees the entry and
  leaves the counter alone.
\<close>

theorem listener_retries_once:
  assumes "ac_listener_state st = ACMP_LISTENER_RX_TIMEOUT" "acmp_buf_ok st"
    and i: "ac_inflight_timeout_idx st LISTENER = int i" "i < length (ac_inflight st LISTENER)"
    and n: "n = ac_inflight st LISTENER ! i" "length (cr_stream_dest_mac (fl_command n)) = 6"
      "cr_message_type (fl_command n) \<in> {ACMP_CMD_CONNECT_TX_COMMAND, ACMP_CMD_DISCONNECT_TX_COMMAND}"
    and s': "s' = avb_1722_1_acmp_listener_periodic hk now st" and n': "n' = ac_inflight s' LISTENER ! i"
  shows "ac_listener_state s' = ACMP_LISTENER_WAITING \<and>
         (\<exists>f r. ac_sent s' = ac_sent st @ [f] \<and> r = store_rcvd_cmd_resp (drop 14 f) \<and>
            (if fl_retried n
             then cr_message_type r = cr_message_type (fl_command n) + 7 \<and>
                  cr_status r = ACMP_STATUS_LISTENER_TALKER_TIMEOUT \<and>
                  cr_sequence_id r = fl_original_sequence_id n \<and> \<not> fl_in_use n' \<and>
                  ac_sequence_id s' = ac_sequence_id st
             else cr_message_type r = cr_message_type (fl_command n) \<and>
                  cr_sequence_id r = ac_sequence_id st LISTENER \<and>
                  ac_sequence_id s' = (ac_sequence_id st)(LISTENER := ac_sequence_id st LISTENER + 1) \<and>
                  (\<forall>k. 0 < k \<and> k < 65536 \<and>
                      ac_sequence_id st LISTENER = cr_sequence_id (fl_command n) + of_nat k \<longrightarrow>
                      cr_sequence_id r \<noteq> cr_sequence_id (fl_command n)) \<and>
                  fl_command n' = (fl_command n)\<lparr>cr_sequence_id := ac_sequence_id st LISTENER\<rparr> \<and>
                  fl_retried n' \<and> fl_in_use n' = fl_in_use n \<and>
                  fl_original_sequence_id n' = fl_original_sequence_id n))"
proof -
  let ?p = "InInflight LISTENER i"
  have s'0: "s' = acmp_listener_wait (acmp_listener_rx_timeout st)"
    using assms(1) by (simp add: s' avb_1722_1_acmp_listener_periodic_def)
  show ?thesis
  proof (cases "fl_retried n")
    case True
    define s1 where "s1 = acmp_set_sequence_at ?p (fl_original_sequence_id n) st"
    define c where "c = acmp_command_at ?p s1"
    have c: "c = (fl_command n)\<lparr>cr_sequence_id := fl_original_sequence_id n\<rparr>"
      using i(2) n(1) by (simp add: c_def s1_def)
    have t: "acmp_listener_rx_timeout st = acmp_modify_inflight LISTENER i (\<lambda>f. f\<lparr>fl_in_use := False\<rparr>)
        (acmp_tx c (cr_message_type c + 7) ACMP_STATUS_LISTENER_TALKER_TIMEOUT s1)"
      using True i n(1) by (simp add: acmp_listener_rx_timeout_def Let_def s1_def c_def acmp_send_response_def)
    have "acmp_buf_ok s1" using assms(2) by (simp add: s1_def acmp_buf_ok_def)
    moreover have "cr_message_type c + 7 < 16" using n(3) by (auto simp: c)
    ultimately have frame: "store_rcvd_cmd_resp (drop 14 (last (ac_sent (acmp_tx c (cr_message_type c + 7) 7 s1)))) =
        c\<lparr>cr_message_type := cr_message_type c + 7, cr_status := 7\<rparr>"
      using n(2) by (intro acmp_tx_frame) (simp_all add: c)
    have "ac_sent s1 = ac_sent st" by (simp add: s1_def)
    then have "ac_sent s' = ac_sent st @ [last (ac_sent (acmp_tx c (cr_message_type c + 7) 7 s1))]"
      by (simp add: s'0 t)
    moreover have "\<not> fl_in_use n'" using i(2) by (simp add: n' s'0 t s1_def)
    moreover have "ac_sequence_id s' = ac_sequence_id st" by (simp add: s'0 t s1_def)
    ultimately show ?thesis using True frame
      by (intro conjI exI [of _ "last (ac_sent (acmp_tx c (cr_message_type c + 7) 7 s1))"]
          exI [of _ "store_rcvd_cmd_resp (drop 14 (last (ac_sent (acmp_tx c (cr_message_type c + 7) 7 s1))))"])
        (simp_all add: s'0 c)
  next
    case False
    define mt where "mt = cr_message_type (fl_command n)"
    define s1 where "s1 = acmp_set_sequence_at ?p (ac_sequence_id st LISTENER) st"
    define s2 where "s2 = s1\<lparr>ac_sequence_id := (ac_sequence_id s1)(LISTENER := ac_sequence_id s1 LISTENER + 1)\<rparr>"
    define c where "c = acmp_command_at ?p s2"
    define s3 where "s3 = acmp_tx c mt 0 s2"
    define s4 where "s4 = process_avb_1722_1_acmp_packet (drop 14 (ac_buf s3)) s3"
    have c: "c = (fl_command n)\<lparr>cr_sequence_id := ac_sequence_id st LISTENER\<rparr>"
      using i(2) n(1) by (simp add: c_def s2_def s1_def)
    have t: "acmp_listener_rx_timeout st = acmp_set_inflight_retry LISTENER mt i s4"
      using False i n(1) by (simp add: acmp_listener_rx_timeout_def acmp_send_command_def Let_def
          s4_def s3_def c_def s2_def s1_def mt_def)
    have "acmp_buf_ok s2" using assms(2) by (simp add: s2_def s1_def acmp_buf_ok_def)
    moreover have "mt < 16" using n(3) by (auto simp: mt_def)
    ultimately have frame: "store_rcvd_cmd_resp (drop 14 (last (ac_sent s3))) = c\<lparr>cr_message_type := mt, cr_status := 0\<rparr>"
      unfolding s3_def using n(2) by (intro acmp_tx_frame) (simp_all add: c)
    have "ac_sent s2 = ac_sent st" by (simp add: s2_def s1_def)
    then have sent: "ac_sent s' = ac_sent st @ [last (ac_sent s3)]"
      by (simp add: s'0 t acmp_set_inflight_retry_def s4_def s3_def)
    have "ac_inflight s4 LISTENER ! i = n\<lparr>fl_command := c\<rparr>"
      using i(2) n(1) by (simp add: s4_def s3_def s2_def s1_def c)
    moreover have "length (ac_inflight s4 LISTENER) = length (ac_inflight st LISTENER)"
      by (simp add: s4_def s3_def s2_def s1_def)
    ultimately have "n' = (acmp_update_inflight_timeout LISTENER mt s4 (n\<lparr>fl_command := c\<rparr>))\<lparr>fl_retried := True\<rparr>"
      using i(2) by (simp add: n' s'0 t acmp_set_inflight_retry_def)
    moreover have "ac_sequence_id s' = (ac_sequence_id st)(LISTENER := ac_sequence_id st LISTENER + 1)"
      by (simp add: s'0 t acmp_set_inflight_retry_def s4_def s3_def s2_def s1_def)
    ultimately show ?thesis using sent frame False
      by (intro conjI exI [of _ "last (ac_sent s3)"] exI [of _ "store_rcvd_cmd_resp (drop 14 (last (ac_sent s3)))"])
        (simp_all add: s'0 c mt_def acmp_update_inflight_timeout_def sequence_id_fresh)
  qed
qed

definition rx_timeout_state :: "bool \<Rightarrow> unit acmp_st" where
  "rx_timeout_state retried = acmp_example\<lparr>ac_listener_state := ACMP_LISTENER_RX_TIMEOUT,
     ac_inflight := (\<lambda>_. [\<lparr>fl_in_use = True, fl_timeout = 20, fl_retried = retried,
        fl_command = zero_cmd_resp, fl_original_sequence_id = 77\<rparr>]),
     ac_inflight_timeout_idx := (\<lambda>_. 0)\<rparr>"

theorem listener_retries_once_witness:
  "\<exists>f. ac_sent (avb_1722_1_acmp_listener_periodic acmp_hooks0 3 (rx_timeout_state True)) = [f] \<and>
       cr_message_type (store_rcvd_cmd_resp (drop 14 f)) = ACMP_CMD_CONNECT_RX_RESPONSE \<and>
       cr_sequence_id (store_rcvd_cmd_resp (drop 14 f)) = 77"
proof -
  have F: "ac_listener_state (rx_timeout_state True) = ACMP_LISTENER_RX_TIMEOUT"
    "acmp_buf_ok (rx_timeout_state True)" "ac_inflight_timeout_idx (rx_timeout_state True) LISTENER = int 0"
    "0 < length (ac_inflight (rx_timeout_state True) LISTENER)" "ac_sent (rx_timeout_state True) = []"
    by (simp_all add: rx_timeout_state_def acmp_example_def acmp_buf_ok_def)
  define n where "n = ac_inflight (rx_timeout_state True) LISTENER ! 0"
  have n: "fl_retried n" "fl_command n = zero_cmd_resp" "fl_original_sequence_id n = 77"
    by (simp_all add: n_def rx_timeout_state_def)
  have z: "length (cr_stream_dest_mac (fl_command n)) = 6" "cr_message_type (fl_command n) \<in> {0, 2}"
    "cr_message_type (fl_command n) = 0"
    by (simp_all add: n zero_cmd_resp_def)
  define s' where "s' = avb_1722_1_acmp_listener_periodic acmp_hooks0 3 (rx_timeout_state True)"
  note T = listener_retries_once [OF F(1-4) n_def z(1,2) s'_def refl]
  from T obtain f where f: "ac_sent s' = ac_sent (rx_timeout_state True) @ [f]"
      "cr_message_type (store_rcvd_cmd_resp (drop 14 f)) = cr_message_type (fl_command n) + 7"
      "cr_sequence_id (store_rcvd_cmd_resp (drop 14 f)) = fl_original_sequence_id n"
    unfolding if_P [OF n(1)] by blast
  show ?thesis unfolding s'_def [symmetric]
    by (intro exI [of _ f]) (simp add: f F(5) z(3) n(3))
qed

section \<open>A listener that no longer answers\<close>

datatype listener_event = ListenerPacket "u8 list" | ListenerPoll u32

fun listener_step :: "'e acmp_hooks \<Rightarrow> listener_event \<Rightarrow> 'e acmp_st \<Rightarrow> 'e acmp_st" where
  "listener_step hk (ListenerPacket pkt) st = process_avb_1722_1_acmp_packet pkt st"
| "listener_step hk (ListenerPoll now) st = avb_1722_1_acmp_listener_periodic hk now st"

definition listener_stuck :: "'e acmp_st \<Rightarrow> bool" where
  "listener_stuck st \<longleftrightarrow> \<not> acmp_listener_valid_listener_unique st \<and>
     ac_listener_state st \<in> {ACMP_LISTENER_CONNECT_TX_RESPONSE, ACMP_LISTENER_DISCONNECT_TX_RESPONSE}"

lemma stuck_listener_packet:
  "listener_stuck st \<Longrightarrow> process_avb_1722_1_acmp_listener_packet mt pkt st = st"
proof -
  assume "listener_stuck st"
  then have "ac_listener_state st \<noteq> ACMP_LISTENER_WAITING" by (auto simp: listener_stuck_def)
  then show ?thesis by (simp add: process_avb_1722_1_acmp_listener_packet_def)
qed

lemma stuck_packet: "listener_stuck st \<Longrightarrow> listener_stuck (process_avb_1722_1_acmp_packet pkt st)"
proof -
  assume s: "listener_stuck st"
  have "ac_listener_state (process_avb_1722_1_acmp_packet pkt st) = ac_listener_state st"
    "ac_listener_rcvd (process_avb_1722_1_acmp_packet pkt st) = ac_listener_rcvd st"
    using stuck_listener_packet [OF s]
    by (simp_all add: process_avb_1722_1_acmp_packet_def Let_def del: insert_iff)
  with s show ?thesis by (simp add: listener_stuck_def acmp_listener_valid_listener_unique_def)
qed

lemma stuck_poll: "listener_stuck st \<Longrightarrow> avb_1722_1_acmp_listener_periodic hk now st = st"
  by (auto simp: listener_stuck_def avb_1722_1_acmp_listener_periodic_def)

lemma stuck_step: "listener_stuck st \<Longrightarrow> listener_stuck (listener_step hk e st)"
  by (cases e) (simp_all add: stuck_packet stuck_poll)

interpretation stuck: event_machine "listener_step hk" listener_stuck
  by unfold_locales (rule stuck_step)

text \<open>
  The handlers of the two talker responses return to the waiting state only when the
  listener unique id is in range; otherwise they leave the state as it is. One response
  addressed to the entity with a unique id out of range therefore stops the listener for
  good: no later packet or poll brings it back to the waiting state.
\<close>

theorem listener_stuck_forever:
  "\<exists>pkt. \<forall>es. ac_listener_state (fold (listener_step hk) es (process_avb_1722_1_acmp_packet pkt acmp_example))
            \<noteq> ACMP_LISTENER_WAITING"
proof (intro exI allI)
  fix es
  let ?pkt = "connect_tx_response 0x001122FFFE334455 1 9"
  have "compare_guid (get_bytes 28 8 ?pkt) 0x001122FFFE334455"
    using guid_from_wire_compare(2) [of ?pkt "0x001122FFFE334455"]
      connect_tx_response_facts(1) [of "0x001122FFFE334455" 1 9]
    by (simp add: store_connect_tx_response)
  then have "listener_stuck (process_avb_1722_1_acmp_packet ?pkt acmp_example)"
    by (simp add: process_avb_1722_1_acmp_packet_def Let_def connect_tx_response_facts
        process_avb_1722_1_acmp_listener_packet_def listener_stuck_def acmp_example_def
        acmp_listener_valid_listener_unique_def store_connect_tx_response)
  then have "listener_stuck (fold (listener_step hk) es (process_avb_1722_1_acmp_packet ?pkt acmp_example))"
    by (rule stuck.run_keeps)
  then show "ac_listener_state (fold (listener_step hk) es (process_avb_1722_1_acmp_packet ?pkt acmp_example))
      \<noteq> ACMP_LISTENER_WAITING"
    by (auto simp: listener_stuck_def)
qed

section \<open>Disconnecting all listeners of a talker\<close>

lemma command_to_listener_keeps:
  "get_1722_1_msg_type pkt = 8 \<Longrightarrow>
     ac_controller_cmd_resp (process_avb_1722_1_acmp_packet pkt st) = ac_controller_cmd_resp st"
  by (simp add: process_avb_1722_1_acmp_packet_def Let_def)

lemma add_inflight_controller_sel [simp]:
  "ac_controller_cmd_resp (acmp_add_inflight e mt q st) = ac_controller_cmd_resp st"
  by (simp add: acmp_add_inflight_def split: option.split)

lemma controller_disconnect_sends:
  assumes "acmp_buf_ok st" "length (cr_stream_dest_mac (ac_controller_cmd_resp st)) = 6"
    and s': "s' = avb_1722_1_controller_disconnect tg lg tid lid st"
  shows "\<exists>f r. ac_sent s' = ac_sent st @ [f] \<and> r = store_rcvd_cmd_resp (drop 14 f) \<and>
           cr_message_type r = ACMP_CMD_DISCONNECT_RX_COMMAND \<and> cr_talker_guid r = tg \<and>
           cr_listener_guid r = lg \<and> cr_talker_unique_id r = word_of_int tid \<and>
           cr_listener_unique_id r = word_of_int lid"
    and "ac_talker_streams s' = ac_talker_streams st" "acmp_buf_ok s'"
    and "length (cr_stream_dest_mac (ac_controller_cmd_resp s')) = 6" "ac_my_guid s' = ac_my_guid st"
proof -
  define s0 where "s0 = st\<lparr>ac_controller_cmd_resp := (ac_controller_cmd_resp st)
             \<lparr>cr_controller_guid := ac_my_guid st, cr_talker_guid := tg,
              cr_listener_guid := lg, cr_talker_unique_id := word_of_int tid,
              cr_listener_unique_id := word_of_int lid\<rparr>\<rparr>"
  define s1 where "s1 = acmp_set_sequence_at InController (ac_sequence_id s0 CONTROLLER) s0"
  define s2 where "s2 = s1\<lparr>ac_sequence_id := (ac_sequence_id s1)(CONTROLLER := ac_sequence_id s1 CONTROLLER + 1)\<rparr>"
  define c where "c = ac_controller_cmd_resp s2"
  define s3 where "s3 = acmp_tx c 8 0 s2"
  define s4 where "s4 = process_avb_1722_1_acmp_packet (drop 14 (ac_buf s3)) s3"
  have s'4: "s' = acmp_add_inflight CONTROLLER 8 (cr_sequence_id (ac_controller_cmd_resp s0)) s4"
    by (simp add: s' avb_1722_1_controller_disconnect_def acmp_controller_connect_disconnect_def
        acmp_send_command_def Let_def s0_def s1_def s2_def s3_def s4_def c_def)
  have b2: "acmp_buf_ok s2" using assms(1) by (simp add: s2_def s1_def s0_def acmp_buf_ok_def)
  have c: "c = (ac_controller_cmd_resp st)\<lparr>cr_controller_guid := ac_my_guid st, cr_talker_guid := tg,
      cr_listener_guid := lg, cr_talker_unique_id := word_of_int tid,
      cr_listener_unique_id := word_of_int lid, cr_sequence_id := ac_sequence_id st CONTROLLER\<rparr>"
    by (simp add: c_def s2_def s1_def s0_def)
  have l2: "length (cr_stream_dest_mac c) = 6" using assms(2) by (simp add: c)
  have frame: "store_rcvd_cmd_resp (drop 14 (last (ac_sent s3))) = c\<lparr>cr_message_type := 8, cr_status := 0\<rparr>"
    unfolding s3_def using b2 l2 by (intro acmp_tx_frame) simp_all
  have "ac_sent s' = ac_sent st @ [last (ac_sent s3)]"
    by (simp add: s'4 s4_def s3_def s2_def s1_def s0_def)
  with frame show "\<exists>f r. ac_sent s' = ac_sent st @ [f] \<and> r = store_rcvd_cmd_resp (drop 14 f) \<and>
      cr_message_type r = 8 \<and> cr_talker_guid r = tg \<and> cr_listener_guid r = lg \<and>
      cr_talker_unique_id r = word_of_int tid \<and> cr_listener_unique_id r = word_of_int lid"
    by (intro exI [of _ "last (ac_sent s3)"] exI [of _ "store_rcvd_cmd_resp (drop 14 (last (ac_sent s3)))"])
      (simp add: c)
  show "ac_talker_streams s' = ac_talker_streams st" "ac_my_guid s' = ac_my_guid st"
    by (simp_all add: s'4 s4_def s3_def s2_def s1_def s0_def)
  show "acmp_buf_ok s'" using b2 by (simp add: s'4 s4_def s3_def acmp_buf_ok_def)
  have "get_1722_1_msg_type (drop 14 (ac_buf s3)) = 8"
    using b2 acmp_packet_header(1) [of "ac_buf s2" "ac_my_mac s2" 8 0 c]
    by (simp add: s3_def acmp_buf_ok_def)
  then have "ac_controller_cmd_resp s' = c"
    by (simp add: s'4 s4_def command_to_listener_keeps) (simp add: s3_def c_def)
  with l2 show "length (cr_stream_dest_mac (ac_controller_cmd_resp s')) = 6" by simp
qed

text \<open>The occupied slots, and the command that the loop sends for slot \<open>i\<close>.\<close>

definition occupied_slots :: "acmp_talker_stream_info \<Rightarrow> nat list" where
  "occupied_slots t = filter (\<lambda>i. lp_guid (ts_connected_listeners t ! i) \<noteq> 0)
     [0..<length (ts_connected_listeners t)]"

definition disconnect_sent_for :: "u64 \<Rightarrow> acmp_talker_stream_info \<Rightarrow> nat \<Rightarrow> nat \<Rightarrow> u8 list \<Rightarrow> bool" where
  "disconnect_sent_for my_guid t talker_id i f \<longleftrightarrow>
     (let r = store_rcvd_cmd_resp (drop 14 f)
      in cr_message_type r = ACMP_CMD_DISCONNECT_RX_COMMAND \<and> cr_talker_guid r = my_guid \<and>
         cr_talker_unique_id r = of_nat talker_id \<and>
         cr_listener_guid r = lp_guid (ts_connected_listeners t ! i) \<and>
         cr_listener_unique_id r = of_nat i)"

lemma disconnect_all_loop:
  assumes "acmp_buf_ok s" "length (cr_stream_dest_mac (ac_controller_cmd_resp s)) = 6"
    and "ac_talker_streams s = ac_talker_streams st" "ac_my_guid s = ac_my_guid st"
  shows "\<exists>fs. ac_sent (fold (\<lambda>i s.
             let l = ts_connected_listeners (ac_talker_streams s ! talker_id) ! i
             in if lp_guid l \<noteq> 0
                then avb_1722_1_controller_disconnect (ac_my_guid s) (lp_guid l) (int talker_id) (int i) s
                else s) is s) = ac_sent s @ fs \<and>
         list_all2 (disconnect_sent_for (ac_my_guid st) (ac_talker_streams st ! talker_id) talker_id)
           (filter (\<lambda>i. lp_guid (ts_connected_listeners (ac_talker_streams st ! talker_id) ! i) \<noteq> 0) is) fs"
  using assms
proof (induction "is" arbitrary: s)
  case (Cons i ids)
  let ?t = "ac_talker_streams st ! talker_id"
  let ?l = "ts_connected_listeners ?t ! i"
  show ?case
  proof (cases "lp_guid ?l \<noteq> 0")
    case True
    define s' where "s' = avb_1722_1_controller_disconnect (ac_my_guid s) (lp_guid ?l) (int talker_id) (int i) s"
    note d = controller_disconnect_sends [OF Cons.prems(1,2) s'_def]
    obtain f where f: "ac_sent s' = ac_sent s @ [f]" "disconnect_sent_for (ac_my_guid st) ?t talker_id i f"
      using d(1) Cons.prems(4) by (auto simp: disconnect_sent_for_def Let_def)
    obtain fs where fs: "ac_sent (fold (\<lambda>i s.
             let l = ts_connected_listeners (ac_talker_streams s ! talker_id) ! i
             in if lp_guid l \<noteq> 0
                then avb_1722_1_controller_disconnect (ac_my_guid s) (lp_guid l) (int talker_id) (int i) s
                else s) ids s') = ac_sent s' @ fs"
       "list_all2 (disconnect_sent_for (ac_my_guid st) ?t talker_id)
           (filter (\<lambda>i. lp_guid (ts_connected_listeners ?t ! i) \<noteq> 0) ids) fs"
      using Cons.IH [of s'] d Cons.prems by auto
    show ?thesis using True f fs Cons.prems(3) s'_def
      by (intro exI [of _ "f # fs"]) (simp add: Let_def)
  next
    case False
    then show ?thesis using Cons by (simp add: Let_def)
  qed
qed simp

text \<open>
  \<open>avb_1722_1_controller_disconnect_all_listeners\<close> sends one DISCONNECT_RX command per
  occupied listener slot of a running stream, to that slot's listener; but the listener
  unique id in the command is the index of the slot, not the unique id stored in it.
\<close>

theorem disconnect_all_uses_slot_index:
  assumes "acmp_buf_ok st" "length (cr_stream_dest_mac (ac_controller_cmd_resp st)) = 6"
    and t: "t = ac_talker_streams st ! talker_id"
    and "ts_stream_id t \<noteq> 0" "0 < ts_connection_count t"
  shows "\<exists>fs. ac_sent (avb_1722_1_controller_disconnect_all_listeners talker_id st) = ac_sent st @ fs \<and>
              list_all2 (disconnect_sent_for (ac_my_guid st) t talker_id) (occupied_slots t) fs"
  using disconnect_all_loop [OF assms(1,2) refl refl] assms(4,5)
  unfolding avb_1722_1_controller_disconnect_all_listeners_def t occupied_slots_def by simp

definition one_listener_state :: "unit acmp_st" where
  "one_listener_state = acmp_example\<lparr>ac_talker_streams := [\<lparr>ts_stream_id = 0x1234,
     ts_connection_count = 1, ts_destination_mac = replicate 6 7,
     ts_connected_listeners = [\<lparr>lp_guid = 9, lp_unique_id = 5\<rparr>]\<rparr>]\<rparr>"

theorem disconnect_all_uses_slot_index_witness:
  "\<exists>f. ac_sent (avb_1722_1_controller_disconnect_all_listeners 0 one_listener_state) = [f] \<and>
       cr_listener_guid (store_rcvd_cmd_resp (drop 14 f)) = 9 \<and>
       cr_listener_unique_id (store_rcvd_cmd_resp (drop 14 f)) = 0"
proof -
  have F: "acmp_buf_ok one_listener_state" "length (cr_stream_dest_mac (ac_controller_cmd_resp one_listener_state)) = 6"
    "ac_sent one_listener_state = []"
    by (simp_all add: one_listener_state_def acmp_example_def acmp_buf_ok_def zero_cmd_resp_def)
  define t where "t = ac_talker_streams one_listener_state ! 0"
  have t: "ts_stream_id t \<noteq> 0" "0 < ts_connection_count t" "occupied_slots t = [0]"
    "lp_guid (ts_connected_listeners t ! 0) = 9"
    by (simp_all add: t_def one_listener_state_def occupied_slots_def)
  from disconnect_all_uses_slot_index [OF F(1,2) t_def t(1,2)]
  show ?thesis by (auto simp: F(3) t(3,4) list_all2_Cons1 disconnect_sent_for_def Let_def)
qed

end
