(* ===== verification/Gptp_Time.thy ===== *)
theory Gptp_Time
  imports Avb_1722_Common "HOL-Library.Signed_Division"
begin

text \<open>
  The time arithmetic of \<open>module_gptp/src/gptp.c\<close>: timestamps of the gPTP clock, their
  differences and offsets, the conversions between the 100 MHz counter and gPTP time, and
  the ten octets of a timestamp on the wire. An \<open>unsigned\<close> is a 32-bit word and an
  \<open>unsigned long long\<close> a 64-bit word; an \<open>int\<close> and a \<open>long long\<close> are integers that are cut
  to their width (\<open>s32\<close>, \<open>s64\<close>) wherever a computation can leave it, as the target does. A
  right shift of a signed value rounds down, a division rounds to zero.
\<close>

definition s32 :: "int \<Rightarrow> int" where "s32 x = signed_take_bit 31 x"
definition s64 :: "int \<Rightarrow> int" where "s64 x = signed_take_bit 63 x"

abbreviation (input) "NANOSECONDS_PER_SECOND \<equiv> 1000000000"
abbreviation (input) "PTP_ADJUST_PREC \<equiv> 30"

record ptp_timestamp =
  ts_seconds0 :: u32
  ts_seconds1 :: u32
  ts_nanoseconds :: u32

record ptp_time_info =
  ti_local_ts :: u32
  ti_ptp_ts :: ptp_timestamp
  ti_ptp_adjust :: int
  ti_inv_ptp_adjust :: int

record ptp_time_info_mod64 =
  tm_local_ts :: u32
  tm_ptp_ts_hi :: u32
  tm_ptp_ts_lo :: u32
  tm_ptp_adjust :: int
  tm_inv_ptp_adjust :: int

definition ts_seconds :: "ptp_timestamp \<Rightarrow> u64" where
  "ts_seconds t = ucast (ts_seconds0 t) OR push_bit 32 (ucast (ts_seconds1 t))"

section \<open>Scaling\<close>

text \<open>The rate adjustment has 30 fractional bits.\<close>

definition ptp_scale :: "int \<Rightarrow> int \<Rightarrow> int" where
  "ptp_scale d adjust = s64 (d + drop_bit PTP_ADJUST_PREC (s64 (d * adjust)))"

definition local_timestamp_to_ptp_mod32 :: "u32 \<Rightarrow> ptp_time_info_mod64 \<Rightarrow> u32" where
  "local_timestamp_to_ptp_mod32 local_ts info =
     (let local_diff = ptp_scale (sint (local_ts - tm_local_ts info) * 10) (tm_ptp_adjust info)
      in tm_ptp_ts_lo info + word_of_int local_diff)"

text \<open>The results \<open>*hi\<close> and \<open>*lo\<close>.\<close>

definition local_timestamp_to_ptp_mod64 :: "u32 \<Rightarrow> ptp_time_info_mod64 \<Rightarrow> u32 \<times> u32" where
  "local_timestamp_to_ptp_mod64 local_ts info =
     (let ptp_mod64 = push_bit 32 (ucast (tm_ptp_ts_hi info)) + ucast (tm_ptp_ts_lo info);
          local_diff = ptp_scale (sint (local_ts - tm_local_ts info) * 10) (tm_ptp_adjust info);
          t = ptp_mod64 + word_of_int local_diff :: u64
      in (ucast (drop_bit 32 t), ucast t))"

definition ptp_get_reference_ptp_ts_mod_64 :: "ptp_timestamp \<Rightarrow> u32 \<times> u32" where
  "ptp_get_reference_ptp_ts_mod_64 ref =
     (let t = (ucast (ts_seconds0 ref) + push_bit 32 (ucast (ts_seconds1 ref))) * NANOSECONDS_PER_SECOND
              + ucast (ts_nanoseconds ref) :: u64
      in (ucast (drop_bit 32 t), ucast t))"

text \<open>\<open>valid\<close> is the static \<open>g_ptp_adjust_valid\<close>.\<close>

definition local_time_to_ptp_time :: "bool \<Rightarrow> u32 \<Rightarrow> int \<Rightarrow> int" where
  "local_time_to_ptp_time valid t l_ptp_adjust =
     (let ret = uint t * 10 in if valid then ptp_scale ret l_ptp_adjust else ret)"

section \<open>Offsets and differences\<close>

definition ptp_timestamp_offset64 :: "ptp_timestamp \<Rightarrow> int \<Rightarrow> ptp_timestamp" where
  "ptp_timestamp_offset64 ts offset =
     (let nanosec = ucast (ts_nanoseconds ts) + word_of_int offset :: u64;
          sec = ts_seconds ts + nanosec div NANOSECONDS_PER_SECOND;
          nanosec = nanosec mod NANOSECONDS_PER_SECOND
      in \<lparr>ts_seconds0 = ucast sec, ts_seconds1 = ucast (drop_bit 32 sec), ts_nanoseconds = ucast nanosec\<rparr>)"

definition ptp_timestamp_offset :: "ptp_timestamp \<Rightarrow> int \<Rightarrow> ptp_timestamp" where
  "ptp_timestamp_offset ts offset = ptp_timestamp_offset64 ts offset"

definition ptp_timestamp_diff :: "ptp_timestamp \<Rightarrow> ptp_timestamp \<Rightarrow> int" where
  "ptp_timestamp_diff a b =
     (let sec_diff = ts_seconds a - ts_seconds b;
          nanosec_diff = ucast (ts_nanoseconds a) - ucast (ts_nanoseconds b) :: u64
      in sint (nanosec_diff + sec_diff * NANOSECONDS_PER_SECOND))"

definition ptp_timestamp_to_local :: "ptp_timestamp \<Rightarrow> ptp_time_info \<Rightarrow> u32" where
  "ptp_timestamp_to_local ts info =
     (let local_diff = ptp_scale (ptp_timestamp_diff ts (ti_ptp_ts info)) (ti_inv_ptp_adjust info) sdiv 10
      in ti_local_ts info + word_of_int local_diff)"

definition ptp_mod32_timestamp_to_local :: "u32 \<Rightarrow> ptp_time_info_mod64 \<Rightarrow> u32" where
  "ptp_mod32_timestamp_to_local ts info =
     (let local_diff = ptp_scale (sint (ts - tm_ptp_ts_lo info)) (tm_inv_ptp_adjust info) sdiv 10
      in tm_local_ts info + word_of_int local_diff)"

text \<open>The difference of the counters is taken as an unsigned number.\<close>

definition local_timestamp_to_ptp_from :: "bool \<Rightarrow> u32 \<Rightarrow> u32 \<Rightarrow> ptp_timestamp \<Rightarrow> int \<Rightarrow> ptp_timestamp" where
  "local_timestamp_to_ptp_from valid local_ts reference_local_ts reference_ptp_ts ptp_adjust =
     (let local_diff = local_ts - reference_local_ts
      in ptp_timestamp_offset64 reference_ptp_ts (local_time_to_ptp_time valid local_diff ptp_adjust))"

definition local_timestamp_to_ptp :: "bool \<Rightarrow> u32 \<Rightarrow> ptp_time_info \<Rightarrow> ptp_timestamp" where
  "local_timestamp_to_ptp valid local_ts info =
     local_timestamp_to_ptp_from valid local_ts (ti_local_ts info) (ti_ptp_ts info) (ti_ptp_adjust info)"

section \<open>On the wire\<close>

definition timestamp_to_network :: "ptp_timestamp \<Rightarrow> u8 list" where
  "timestamp_to_network ts =
     [octet (ts_seconds1 ts) 3, octet (ts_seconds1 ts) 2,
      octet (ts_seconds0 ts) 3, octet (ts_seconds0 ts) 2, octet (ts_seconds0 ts) 1, octet (ts_seconds0 ts) 0,
      octet (ts_nanoseconds ts) 3, octet (ts_nanoseconds ts) 2, octet (ts_nanoseconds ts) 1, octet (ts_nanoseconds ts) 0]"

definition network_to_ptp_timestamp :: "u8 list \<Rightarrow> ptp_timestamp" where
  "network_to_ptp_timestamp msg =
     \<lparr>ts_seconds0 = of_octets (msg ! 5) (msg ! 4) (msg ! 3) (msg ! 2),
      ts_seconds1 = of_octets 0 0 (msg ! 1) (msg ! 0),
      ts_nanoseconds = of_octets (msg ! 9) (msg ! 8) (msg ! 7) (msg ! 6)\<rparr>"

section \<open>What the time arithmetic computes\<close>

text \<open>The nanoseconds since the epoch that a timestamp stands for.\<close>

definition ts_total :: "ptp_timestamp \<Rightarrow> int" where
  "ts_total t = uint (ts_seconds t) * NANOSECONDS_PER_SECOND + uint (ts_nanoseconds t)"

definition ts_normal :: "ptp_timestamp \<Rightarrow> bool" where
  "ts_normal t \<longleftrightarrow> ts_nanoseconds t < NANOSECONDS_PER_SECOND"

lemma join_words: "(ucast (ucast (w :: u64) :: u32) OR push_bit 32 (ucast (ucast (drop_bit 32 w) :: u32))) = w"
  by (rule bit_word_eqI) (auto simp: bit_or_iff bit_push_bit_iff bit_ucast_iff bit_drop_bit_eq)

lemma seconds_offset:
  "ts_seconds (ptp_timestamp_offset64 ts d) =
     ts_seconds ts + (ucast (ts_nanoseconds ts) + word_of_int d) div NANOSECONDS_PER_SECOND"
  by (simp add: ptp_timestamp_offset64_def Let_def ts_seconds_def join_words)

lemma uint_ucast_up: "uint (ucast (w :: u32) :: u64) = uint w"
  using uint_lt2p [of w] by (simp add: unsigned_ucast_eq take_bit_int_eq_self)

lemma nanosec_sum:
  assumes "- (2 ^ 63) \<le> d" "d < 2 ^ 63"
  shows "uint (ucast (n :: u32) + word_of_int d :: u64) = uint n + d + (if uint n + d < 0 then 2 ^ 64 else 0)"
proof -
  have n: "0 \<le> uint n" "uint n < 2 ^ 32" using uint_lt2p [of n] by simp_all
  have "uint (ucast n + word_of_int d :: u64) = (uint n + d) mod 2 ^ 64"
    by (simp add: uint_word_ariths(1) uint_ucast_up uint_word_of_int mod_simps)
  also have "\<dots> = uint n + d + (if uint n + d < 0 then 2 ^ 64 else 0)"
  proof (cases "uint n + d < 0")
    case True
    have "(uint n + d) mod 2 ^ 64 = (uint n + d + 2 ^ 64) mod 2 ^ 64" by simp
    also have "\<dots> = uint n + d + 2 ^ 64"
    proof (rule mod_pos_pos_trivial)
      have "(2::int) ^ 64 = 2 ^ 63 + 2 ^ 63" by simp
      then show "0 \<le> uint n + d + 2 ^ 64" "uint n + d + 2 ^ 64 < 2 ^ 64"
        using True assms n by (simp_all only: add_less_same_cancel2)
    qed
    finally show ?thesis using True by simp
  next
    case False
    then show ?thesis using assms n by (simp add: mod_pos_pos_trivial)
  qed
  finally show ?thesis .
qed

lemma offset_total:
  assumes "- (2 ^ 63) \<le> d" "d < 2 ^ 63" "uint (ts_seconds ts) < 2 ^ 63"
  shows "ts_total (ptp_timestamp_offset64 ts d) =
      ts_total ts + d + (if uint (ts_nanoseconds ts) + d < 0 then 2 ^ 64 else 0)"
    and "ts_normal (ptp_timestamp_offset64 ts d)"
proof -
  obtain N :: u64 where N: "N = ucast (ts_nanoseconds ts) + word_of_int d" by simp
  have uN: "uint N = uint (ts_nanoseconds ts) + d + (if uint (ts_nanoseconds ts) + d < 0 then 2 ^ 64 else 0)"
    unfolding N by (rule nanosec_sum [OF assms(1,2)])
  have q: "uint (N div NANOSECONDS_PER_SECOND) = uint N div NANOSECONDS_PER_SECOND"
    and r: "uint (N mod NANOSECONDS_PER_SECOND) = uint N mod NANOSECONDS_PER_SECOND"
    by (simp_all add: uint_div uint_mod)
  have "uint N < 2 ^ 64" using uint_lt2p [of N] by simp
  then have "uint N div NANOSECONDS_PER_SECOND < 2 ^ 63" by simp
  then have sec: "uint (ts_seconds (ptp_timestamp_offset64 ts d)) = uint (ts_seconds ts) + uint N div NANOSECONDS_PER_SECOND"
    using assms(3) unfolding seconds_offset N [symmetric]
    by (simp add: q uint_word_ariths(1) mod_pos_pos_trivial pos_imp_zdiv_nonneg_iff)
  have small: "uint N mod NANOSECONDS_PER_SECOND < 2 ^ 32"
    using pos_mod_bound [of NANOSECONDS_PER_SECOND "uint N"] by simp
  have nan: "uint (ts_nanoseconds (ptp_timestamp_offset64 ts d)) = uint N mod NANOSECONDS_PER_SECOND"
    using small by (simp add: ptp_timestamp_offset64_def Let_def N [symmetric] unsigned_ucast_eq r take_bit_int_eq_self)
  show "ts_total (ptp_timestamp_offset64 ts d) =
      ts_total ts + d + (if uint (ts_nanoseconds ts) + d < 0 then 2 ^ 64 else 0)"
    using uN by (simp add: ts_total_def sec nan algebra_simps)
  show "ts_normal (ptp_timestamp_offset64 ts d)" by (simp add: ts_normal_def word_less_def nan)
qed

lemma diff_total: "ptp_timestamp_diff a b = s64 (ts_total a - ts_total b)"
proof -
  have "ucast (ts_nanoseconds a) - ucast (ts_nanoseconds b) + (ts_seconds a - ts_seconds b) * NANOSECONDS_PER_SECOND
      = (word_of_int (ts_total a - ts_total b) :: u64)"
    by (simp add: ts_total_def algebra_simps of_int_uint)
  then have "ptp_timestamp_diff a b = sint (word_of_int (ts_total a - ts_total b) :: u64)"
    by (simp only: ptp_timestamp_diff_def Let_def)
  then show ?thesis by (simp only: s64_def signed_of_int) simp
qed

lemma s64_id: "- (2 ^ 63) \<le> x \<Longrightarrow> x < 2 ^ 63 \<Longrightarrow> s64 x = x"
  by (simp add: s64_def signed_take_bit_int_eq_self)

lemma s64_add_2_64: "s64 (x + 2 ^ 64) = s64 x"
proof -
  have "take_bit 64 (x + 2 ^ 64) = take_bit 64 x" by (simp add: take_bit_eq_mod)
  then show ?thesis by (simp add: s64_def signed_take_bit_eq_iff_take_bit_eq)
qed

lemma diff_offset:
  assumes "- (2 ^ 63) \<le> d" "d < 2 ^ 63" "uint (ts_seconds ts) < 2 ^ 63"
  shows "ptp_timestamp_diff (ptp_timestamp_offset64 ts d) ts = d"
proof -
  let ?w = "if uint (ts_nanoseconds ts) + d < 0 then 2 ^ 64 else 0 :: int"
  have "ptp_timestamp_diff (ptp_timestamp_offset64 ts d) ts = s64 (d + ?w)"
    by (simp only: diff_total offset_total(1) [OF assms] add.assoc add_diff_cancel_left')
  then show ?thesis using assms(1,2) by (simp only: s64_add_2_64 s64_id add_0_right simp_thms split: if_split)
qed

text \<open>
  Timestamp arithmetic. Adding an offset to a timestamp gives a normalised timestamp whose
  distance to the old one, as the code computes it, is the offset. Its value is the exact
  sum when the offset does not take the nanoseconds below zero; when it does, the value is
  2^64 nanoseconds (about 584 years) too late, because the borrow is done on an unsigned
  number.
\<close>

theorem timestamp_offset_diff:
  assumes "- (2 ^ 63) \<le> d" "d < 2 ^ 63" "uint (ts_seconds ts) < 2 ^ 63"
  shows "ts_normal (ptp_timestamp_offset64 ts d) \<and>
    ptp_timestamp_diff (ptp_timestamp_offset64 ts d) ts = d \<and>
    ts_total (ptp_timestamp_offset64 ts d) =
      ts_total ts + d + (if uint (ts_nanoseconds ts) + d < 0 then 2 ^ 64 else 0)"
  using offset_total [OF assms] diff_offset [OF assms] by blast

theorem timestamp_offset_diff_witness:
  "ts_total (ptp_timestamp_offset64 \<lparr>ts_seconds0 = 5, ts_seconds1 = 0, ts_nanoseconds = 10\<rparr> (- 11)) = 4999999999 + 2 ^ 64"
proof -
  let ?t = "\<lparr>ts_seconds0 = 5, ts_seconds1 = 0, ts_nanoseconds = 10\<rparr>"
  have s: "ts_seconds ?t = 5" by (simp add: ts_seconds_def)
  show ?thesis using timestamp_offset_diff [of "- 11" ?t] by (simp add: s ts_total_def)
qed

section \<open>Local time and gPTP time\<close>

lemma sdiv_exact: "0 \<le> (k :: int) \<Longrightarrow> k * 10 sdiv 10 = k"
  by (simp add: signed_divide_int_def sgn_if)

lemma scale_unadjusted: "- (2 ^ 63) \<le> x \<Longrightarrow> x < 2 ^ 63 \<Longrightarrow> ptp_scale x 0 = x"
  by (simp add: ptp_scale_def s64_id)

text \<open>
  Without a rate adjustment (as a master runs) the conversion from the local counter to gPTP
  time and back is the identity, for every value of the counter. The gPTP time is the
  reference time plus ten nanoseconds for each tick from the reference forward, modulo 2^32
  ticks: a counter value just before the reference is converted to a time almost 43 seconds
  after it, not to one just before it.
\<close>

theorem local_time_roundtrip:
  assumes "ti_ptp_adjust info = 0" "ti_inv_ptp_adjust info = 0" "uint (ts_seconds (ti_ptp_ts info)) < 2 ^ 63"
  shows "ptp_timestamp_to_local (local_timestamp_to_ptp valid t info) info = t \<and>
    ts_total (local_timestamp_to_ptp valid t info) =
      ts_total (ti_ptp_ts info) + 10 * uint (t - ti_local_ts info)"
proof -
  obtain d where d: "d = uint (t - ti_local_ts info) * 10" by simp
  have bound: "0 \<le> d" "d < 2 ^ 36" using uint_lt2p [of "t - ti_local_ts info"] by (simp_all add: d)
  have range: "- (2 ^ 63) \<le> d" "d < 2 ^ 63" using bound by simp_all
  have conv: "local_timestamp_to_ptp valid t info = ptp_timestamp_offset64 (ti_ptp_ts info) d"
    using scale_unadjusted [OF range] assms(1)
    by (simp add: local_timestamp_to_ptp_def local_timestamp_to_ptp_from_def local_time_to_ptp_time_def Let_def d)
  have "ptp_timestamp_to_local (local_timestamp_to_ptp valid t info) info = ti_local_ts info + word_of_int (d sdiv 10)"
    using scale_unadjusted [OF range] assms(2)
    by (simp add: conv ptp_timestamp_to_local_def Let_def diff_offset [OF range assms(3)])
  also have "d sdiv 10 = uint (t - ti_local_ts info)" unfolding d by (rule sdiv_exact) simp
  finally have "ptp_timestamp_to_local (local_timestamp_to_ptp valid t info) info = t" by simp
  moreover have "\<not> uint (ts_nanoseconds (ti_ptp_ts info)) + d < 0" using bound by (simp add: not_less)
  ultimately show ?thesis using offset_total(1) [OF range assms(3)] by (simp add: conv d)
qed

theorem local_time_roundtrip_witness:
  "ts_total (local_timestamp_to_ptp True 99 \<lparr>ti_local_ts = 100, ti_ptp_ts = \<lparr>ts_seconds0 = 7, ts_seconds1 = 0, ts_nanoseconds = 0\<rparr>,
      ti_ptp_adjust = 0, ti_inv_ptp_adjust = 0\<rparr>) = 7 * 1000000000 + 42949672950"
proof -
  let ?r = "\<lparr>ts_seconds0 = 7, ts_seconds1 = 0, ts_nanoseconds = 0\<rparr>"
  let ?i = "\<lparr>ti_local_ts = 100, ti_ptp_ts = ?r, ti_ptp_adjust = 0, ti_inv_ptp_adjust = 0\<rparr>"
  have s: "ts_seconds ?r = 7" by (simp add: ts_seconds_def)
  have "uint (- 1 :: u32) = 4294967295" by (simp add: unsigned_minus_1_eq_mask mask_eq_exp_minus_1)
  then show ?thesis using local_time_roundtrip [of ?i True 99] by (simp add: s ts_total_def)
qed

section \<open>Timestamps on the wire\<close>

lemma network_roundtrip:
  "network_to_ptp_timestamp (timestamp_to_network ts) = ts\<lparr>ts_seconds1 := ts_seconds1 ts AND NOT (mask 16)\<rparr>"
  by (cases ts) (simp add: network_to_ptp_timestamp_def timestamp_to_network_def of_octets_octet [unfolded One_nat_def] of_octets_high)

end
