(* ===== verification/Gptp.thy ===== *)
theory Gptp
  imports Gptp_Time
begin

text \<open>
  The gPTP port of \<open>module_gptp/src/gptp.c\<close>: its state, the rate adjustment, the reference
  timestamps and the path delay, the best-master-clock algorithm, the messages it sends and
  receives, and its periodic processing. The byte-order functions of the network library are
  not part of the repository; they are the parameter \<open>net\<close>. Frames go to the log \<open>gp_out\<close>; the
  transmit timestamps that the MAC returns and the time read from the counter are arguments.
\<close>

section \<open>Data\<close>

datatype ptp_state_t = PTP_MASTER | PTP_UNCERTAIN | PTP_SLAVE
datatype ptp_server_type = PTP_GRANDMASTER_CAPABLE | PTP_SLAVE_ONLY

record net_order =
  hton16 :: "u16 \<Rightarrow> u8 list"
  ntoh16 :: "u8 list \<Rightarrow> u16"
  ntoh64 :: "u8 list \<Rightarrow> u64"

abbreviation (input) "PTP_SYNC_MESG \<equiv> 0x0 :: u8"
abbreviation (input) "PTP_PDELAY_REQ_MESG \<equiv> 0x2 :: u8"
abbreviation (input) "PTP_PDELAY_RESP_MESG \<equiv> 0x3 :: u8"
abbreviation (input) "PTP_FOLLOW_UP_MESG \<equiv> 0x8 :: u8"
abbreviation (input) "PTP_PDELAY_RESP_FOLLOW_UP_MESG \<equiv> 0xA :: u8"
abbreviation (input) "PTP_ANNOUNCE_MESG \<equiv> 0xB :: u8"
abbreviation (input) "PTP_TRANSPORT_SPECIFIC_HDR \<equiv> 0x10 :: u8"

definition SYNC_PERIOD :: u32 where "SYNC_PERIOD = drop_bit 3 100000000"
definition ANNOUNCE_PERIOD :: u32 where "ANNOUNCE_PERIOD = 100000000"
definition PDELAY_REQ_PERIOD :: u32 where "PDELAY_REQ_PERIOD = 100000000"
definition RECV_ANNOUNCE_TIMEOUT :: u32 where "RECV_ANNOUNCE_TIMEOUT = 3 * ANNOUNCE_PERIOD"
definition MESSAGE_PROCESS_TIME :: u32 where "MESSAGE_PROCESS_TIME = 3563"
definition UPDATE_REFERENCE_TIMESTAMP_PERIOD :: int where "UPDATE_REFERENCE_TIMESTAMP_PERIOD = 500000000"

definition ptp_timeafter :: "u32 \<Rightarrow> u32 \<Rightarrow> bool" where
  "ptp_timeafter A B \<longleftrightarrow> sint (B - A) < 0"

text \<open>The statics of the file; an announce message is held as its 42 octets.\<close>

record gptp_st =
  ptp_master_only_pdelay_resp :: bool
  ptp_legacy_mode :: int
  g_ptp_adjust_valid :: bool
  g_ptp_adjust :: int
  g_inv_ptp_adjust :: int
  ptp_path_delay_valid :: bool
  ptp_path_delay :: u32
  ptp_reference_local_ts :: u32
  ptp_reference_ptp_ts :: ptp_timestamp
  ptp_gmoffset :: int
  expect_gm_discontinuity :: bool
  ptp_candidate_gmoffset_valid :: bool
  ptp_state :: ptp_state_t
  my_port_id :: "u8 list"
  master_port_id :: "u8 list"
  ptp_priority1 :: u8
  ptp_priority2 :: u8
  last_received_announce_time_valid :: bool
  last_received_announce_time :: u32
  last_announce_time :: u32
  last_sync_time :: u32
  last_pdelay_req_time :: u32
  prev_adjust_master_ts :: ptp_timestamp
  prev_adjust_local_ts :: u32
  prev_adjust_valid :: bool
  sync_lock :: bool
  sync_count :: int
  best_announce_msg :: "u8 list"
  pdelay_epoch_timer :: u64
  prev_pdelay_local_ts :: u32
  tile_timer_offset :: u32
  src_mac_addr :: "u8 list"
  dest_mac_addr :: "u8 list"
  announce_seq_id :: u16
  sync_seq_id :: u16
  pdelay_req_seq_id :: u16
  pdelay_request_sent :: bool
  pdelay_request_sent_ts :: u32
  received_sync :: bool
  received_sync_id :: u16
  received_sync_ts :: u32
  received_pdelay :: bool
  received_pdelay_id :: u16
  pdelay_resp_ingress_ts :: u32
  pdelay_request_receipt_ts :: ptp_timestamp
  gp_out :: "u8 list list"

text \<open>The fields of an announce message and of the common header.\<close>

definition am_priority1 :: "u8 list \<Rightarrow> u8" where "am_priority1 m = m ! 13"
definition am_clockClass :: "u8 list \<Rightarrow> u8" where "am_clockClass m = m ! 14"
definition am_clockAccuracy :: "u8 list \<Rightarrow> u8" where "am_clockAccuracy m = m ! 15"
definition am_variance :: "u8 list \<Rightarrow> u8 list" where "am_variance m = get_bytes 16 2 m"
definition am_priority2 :: "u8 list \<Rightarrow> u8" where "am_priority2 m = m ! 18"
definition am_identity :: "u8 list \<Rightarrow> u8 list" where "am_identity m = get_bytes 19 8 m"
definition cm_correctionField :: "u8 list \<Rightarrow> u8 list" where "cm_correctionField m = get_bytes 8 8 m"
definition cm_sourcePortIdentity :: "u8 list \<Rightarrow> u8 list" where "cm_sourcePortIdentity m = get_bytes 20 10 m"
definition cm_sequenceId :: "u8 list \<Rightarrow> u8 list" where "cm_sequenceId m = get_bytes 30 2 m"

section \<open>Roles\<close>

definition create_my_announce_msg :: "net_order \<Rightarrow> gptp_st \<Rightarrow> u8 list \<Rightarrow> u8 list" where
  "create_my_announce_msg net st m =
     put_fields
       [(10, hton16 net 33), (13, [ptp_priority1 st]), (14, [248]), (15, [0xFE]), (16, hton16 net 1),
        (18, [ptp_priority2 st]), (19, take 8 (my_port_id st)), (27, hton16 net 0), (29, [0xA0]),
        (30, hton16 net 8), (32, hton16 net 8), (34, take 7 (my_port_id st))] m"

definition set_new_role :: "net_order \<Rightarrow> ptp_state_t \<Rightarrow> u32 \<Rightarrow> gptp_st \<Rightarrow> gptp_st" where
  "set_new_role net new_role t st =
     (let s1 = (if new_role = PTP_SLAVE
                then st\<lparr>ptp_path_delay_valid := False, g_ptp_adjust := 0, g_inv_ptp_adjust := 0,
                        prev_adjust_valid := False, expect_gm_discontinuity := True,
                        ptp_candidate_gmoffset_valid := False, last_pdelay_req_time := t,
                        sync_lock := False, sync_count := 0\<rparr>
                else st);
          s2 = (if new_role = PTP_MASTER
                then s1\<lparr>g_ptp_adjust := 0, g_inv_ptp_adjust := 0, ptp_gmoffset := 0,
                        last_announce_time := t, last_sync_time := t\<rparr>
                else s1);
          s3 = s2\<lparr>ptp_state := new_role\<rparr>
      in if new_role = PTP_MASTER \<or> new_role = PTP_UNCERTAIN
         then s3\<lparr>best_announce_msg := create_my_announce_msg net s3 (best_announce_msg s3)\<rparr>
         else s3)"

section \<open>Synchronisation\<close>

definition update_sync_lock :: "int \<Rightarrow> gptp_st \<Rightarrow> gptp_st" where
  "update_sync_lock adjust st =
     (let diff = \<bar>adjust - g_ptp_adjust st\<bar>;
          bump = (\<lambda>s. let s' = s\<lparr>sync_count := sync_count s + 1\<rparr>
                      in if sync_count s' > 5 then s'\<lparr>sync_lock := \<not> sync_lock s', sync_count := 0\<rparr> else s')
      in if \<not> sync_lock st
         then (if diff < 0x100000 then bump st else st\<lparr>sync_count := 0\<rparr>)
         else (if diff > 0x100000 then bump st else st\<lparr>sync_count := 0\<rparr>))"

definition update_adjust :: "ptp_timestamp \<Rightarrow> u32 \<Rightarrow> gptp_st \<Rightarrow> gptp_st" where
  "update_adjust master_ts local_ts st =
     (let stored = (\<lambda>s. s\<lparr>prev_adjust_local_ts := local_ts, prev_adjust_master_ts := master_ts,
                          prev_adjust_valid := True\<rparr>)
      in if prev_adjust_valid st
         then let master_diff = ptp_timestamp_diff master_ts (prev_adjust_master_ts st);
                  local_diff = sint (local_ts - prev_adjust_local_ts st) * 10;
                  adjust = s64 (push_bit 35 (s64 (master_diff - local_diff)));
                  inv_adjust = s64 (push_bit 35 (s64 (local_diff - master_diff)))
              in if master_diff = 0 \<or> local_diff = 0 then st\<lparr>prev_adjust_valid := False\<rparr>
                 else let adjust = drop_bit 5 (adjust sdiv master_diff);
                          inv_adjust = drop_bit 5 (inv_adjust sdiv local_diff)
                      in stored
                           (if g_ptp_adjust_valid st
                            then let s1 = update_sync_lock adjust st
                                 in s1\<lparr>g_ptp_adjust := s32 (s64 (g_ptp_adjust s1 * 31 + adjust) sdiv 32),
                                       g_inv_ptp_adjust := s32 (s64 (g_inv_ptp_adjust s1 * 31 + inv_adjust) sdiv 32)\<rparr>
                            else st\<lparr>g_ptp_adjust := s32 adjust, g_inv_ptp_adjust := s32 inv_adjust,
                                    g_ptp_adjust_valid := True\<rparr>)
         else stored st)"

definition update_reference_timestamps :: "ptp_timestamp \<Rightarrow> u32 \<Rightarrow> gptp_st \<Rightarrow> gptp_st" where
  "update_reference_timestamps master_egress_ts local_ingress_ts st =
     st\<lparr>ptp_reference_local_ts := local_ingress_ts,
        ptp_reference_ptp_ts := ptp_timestamp_offset64 master_egress_ts (uint (ptp_path_delay st))\<rparr>"

definition periodic_update_reference_timestamps :: "u32 \<Rightarrow> gptp_st \<Rightarrow> gptp_st" where
  "periodic_update_reference_timestamps local_ts st =
     (let local_diff = local_ts - ptp_reference_local_ts st
      in if sint local_diff > UPDATE_REFERENCE_TIMESTAMP_PERIOD
         then st\<lparr>ptp_reference_local_ts := local_ts,
                 ptp_reference_ptp_ts := ptp_timestamp_offset64 (ptp_reference_ptp_ts st)
                   (local_time_to_ptp_time (g_ptp_adjust_valid st) local_diff (g_ptp_adjust st))\<rparr>
         else st)"

definition update_path_delay :: "ptp_timestamp \<Rightarrow> ptp_timestamp \<Rightarrow> u32 \<Rightarrow> u32 \<Rightarrow> gptp_st \<Rightarrow> gptp_st" where
  "update_path_delay master_ingress_ts master_egress_ts local_egress_ts local_ingress_ts st =
     (let master_diff = ptp_timestamp_diff master_egress_ts master_ingress_ts;
          local_diff = local_time_to_ptp_time (g_ptp_adjust_valid st)
                         (local_ingress_ts - local_egress_ts) (g_ptp_adjust st);
          delay = s64 (local_diff - master_diff) sdiv 2;
          delay = (if delay < 0 then 0 else delay)
      in if ptp_path_delay_valid st
         then st\<lparr>ptp_path_delay := (ptp_path_delay st * 31 + word_of_int delay) div 32\<rparr>
         else st\<lparr>ptp_path_delay := word_of_int delay, ptp_path_delay_valid := True\<rparr>)"

section \<open>Best master clock\<close>

text \<open>The loops over the octets, \<open>c1\<close> against \<open>c2\<close>: 1 when the first one is better (smaller).\<close>

fun compare_clock_identity :: "u8 list \<Rightarrow> u8 list \<Rightarrow> int" where
  "compare_clock_identity (a # c1) (b # c2) =
     (if a > b then - 1 else if a < b then 1 else compare_clock_identity c1 c2)"
| "compare_clock_identity _ _ = 0"

definition compare_clock_identity_to_me :: "u8 list \<Rightarrow> gptp_st \<Rightarrow> int" where
  "compare_clock_identity_to_me clockIdentity st = compare_clock_identity clockIdentity (take 8 (my_port_id st))"

definition bmca_new_best :: "net_order \<Rightarrow> u8 list \<Rightarrow> gptp_st \<Rightarrow> bool" where
  "bmca_new_best net m st =
     (let best = best_announce_msg st
      in if compare_clock_identity_to_me (am_identity m) st = 0 then False
         else if am_priority1 m > am_priority1 best then False
         else if am_priority1 m < am_priority1 best then True
         else if am_clockClass m > am_clockClass best then False
         else if am_clockClass m < am_clockClass best then True
         else if am_clockAccuracy m > am_clockAccuracy best then False
         else if am_clockAccuracy m < am_clockAccuracy best then True
         else if ntoh16 net (am_variance m) > ntoh16 net (am_variance best) then False
         else if ntoh16 net (am_variance m) < ntoh16 net (am_variance best) then True
         else if am_priority2 m > am_priority2 best then False
         else if am_priority2 m < am_priority2 best then True
         else \<not> compare_clock_identity (am_identity m) (am_identity best) \<le> 0)"

text \<open>\<open>msg\<close> starts with the common header of 34 octets; the announce message has 42.\<close>

definition bmca_update_roles :: "net_order \<Rightarrow> u8 list \<Rightarrow> u32 \<Rightarrow> gptp_st \<Rightarrow> gptp_st" where
  "bmca_update_roles net msg t st =
     (let announce = get_bytes 34 42 msg
      in if bmca_new_best net announce st
         then let s1 = st\<lparr>best_announce_msg := announce, master_port_id := cm_sourcePortIdentity msg\<rparr>
              in (set_new_role net PTP_SLAVE t s1)\<lparr>last_received_announce_time_valid := False\<rparr>
         else st)"

section \<open>Messages sent\<close>

definition set_ptp_ethernet_hdr :: "gptp_st \<Rightarrow> u8 list" where
  "set_ptp_ethernet_hdr st = take 6 (dest_mac_addr st) @ take 6 (src_mac_addr st) @ [0x88, 0xf7]"

definition ptp_tx :: "u8 list \<Rightarrow> nat \<Rightarrow> gptp_st \<Rightarrow> gptp_st" where
  "ptp_tx body len st = st\<lparr>gp_out := gp_out st @ [take (if len < 64 then 64 else len) (set_ptp_ethernet_hdr st @ body)]\<rparr>"

definition local_to_ptp_ts :: "u32 \<Rightarrow> gptp_st \<Rightarrow> ptp_timestamp" where
  "local_to_ptp_ts local_ts st =
     local_timestamp_to_ptp_from (g_ptp_adjust_valid st) local_ts (ptp_reference_local_ts st)
       (ptp_reference_ptp_ts st) (g_ptp_adjust st)"

definition send_ptp_announce_msg :: "net_order \<Rightarrow> gptp_st \<Rightarrow> gptp_st" where
  "send_ptp_announce_msg net st =
     (let s1 = st\<lparr>announce_seq_id := announce_seq_id st + 1\<rparr>;
          body = put_fields
            [(0, [PTP_TRANSPORT_SPECIFIC_HDR OR PTP_ANNOUNCE_MESG]), (1, [2]), (2, hton16 net 76), (7, [0x0E]),
             (6, [0x2]), (20, my_port_id s1), (30, hton16 net (announce_seq_id s1)), (32, [5]), (33, [0])]
            (replicate 76 0)
      in ptp_tx (take 34 body @ create_my_announce_msg net s1 (drop 34 body)) 90 s1)"

text \<open>\<open>sync_ts\<close> is the transmit timestamp of the Sync frame.\<close>

definition send_ptp_sync_msg :: "net_order \<Rightarrow> u32 \<Rightarrow> gptp_st \<Rightarrow> gptp_st" where
  "send_ptp_sync_msg net sync_ts st =
     (let s1 = st\<lparr>sync_seq_id := sync_seq_id st + 1\<rparr>;
          sync = put_fields
            [(0, [PTP_TRANSPORT_SPECIFIC_HDR OR PTP_SYNC_MESG]), (1, [2]), (2, hton16 net 44), (6, [0x2]),
             (8, replicate 8 0), (20, my_port_id s1), (30, hton16 net (sync_seq_id s1)), (32, [0]), (33, [- 3])]
            (replicate 76 0);
          s2 = ptp_tx sync 58 s1;
          local_egress_ts = sync_ts - tile_timer_offset s2;
          follow_up = put_fields
            [(0, [PTP_TRANSPORT_SPECIFIC_HDR OR PTP_FOLLOW_UP_MESG]), (32, [2]), (2, hton16 net 76),
             (34, timestamp_to_network (local_to_ptp_ts local_egress_ts s2)), (44, hton16 net 3), (46, hton16 net 28),
             (48, [0x00, 0x80, 0xc2]), (51, [0, 0, 1])] sync
      in ptp_tx follow_up 90 s2)"

text \<open>
  The origin timestamp of a Pdelay_Req is written at \<open>sizeof(pComMesgHdr)\<close>, the four octets of
  a pointer, after the start of the common header.
\<close>

definition send_ptp_pdelay_req_msg :: "net_order \<Rightarrow> u32 \<Rightarrow> u32 \<Rightarrow> gptp_st \<Rightarrow> gptp_st" where
  "send_ptp_pdelay_req_msg net local_time tx_ts st =
     (let s1 = st\<lparr>pdelay_req_seq_id := pdelay_req_seq_id st + 1\<rparr>;
          cur_time_ptp = local_to_ptp_ts (local_time + MESSAGE_PROCESS_TIME) s1;
          body = put_fields
            [(0, [PTP_TRANSPORT_SPECIFIC_HDR OR PTP_PDELAY_REQ_MESG]), (1, [2]), (2, hton16 net 54),
             (20, my_port_id s1), (8, replicate 8 0), (30, hton16 net (pdelay_req_seq_id s1)), (32, [5]), (33, [0x7F]),
             (4, timestamp_to_network cur_time_ptp)] (replicate 54 0)
      in (ptp_tx body 68 s1)\<lparr>pdelay_request_sent_ts := tx_ts - tile_timer_offset s1, pdelay_request_sent := True\<rparr>)"

definition local_to_epoch_ts :: "u32 \<Rightarrow> gptp_st \<Rightarrow> ptp_timestamp \<times> gptp_st" where
  "local_to_epoch_ts local_ts st =
     (let timer = pdelay_epoch_timer st +
                    (if local_ts \<le> prev_pdelay_local_ts st
                     then ucast ((0xFFFFFFFF - prev_pdelay_local_ts st) + local_ts)
                     else ucast (local_ts - prev_pdelay_local_ts st));
          nanosec = timer * 10;
          sec = nanosec div NANOSECONDS_PER_SECOND
      in (\<lparr>ts_seconds0 = ucast sec, ts_seconds1 = ucast (drop_bit 32 sec),
           ts_nanoseconds = ucast (nanosec mod NANOSECONDS_PER_SECOND)\<rparr>,
          st\<lparr>pdelay_epoch_timer := timer, prev_pdelay_local_ts := local_ts\<rparr>))"

definition send_ptp_pdelay_resp_msg :: "net_order \<Rightarrow> u8 list \<Rightarrow> u32 \<Rightarrow> u32 \<Rightarrow> gptp_st \<Rightarrow> gptp_st" where
  "send_ptp_pdelay_resp_msg net rx req_ingress_ts tx_ts st =
     (let (epoch_req_ingress_ts, s1) = local_to_epoch_ts req_ingress_ts st;
          resp = put_fields
            [(1, [2]), (2, hton16 net 54), (20, my_port_id s1), (32, [5]), (33, [0]), (30, cm_sequenceId rx),
             (44, cm_sourcePortIdentity rx), (4, [rx ! 4]), (8, cm_correctionField rx),
             (0, [PTP_TRANSPORT_SPECIFIC_HDR OR PTP_PDELAY_RESP_MESG]),
             (34, timestamp_to_network epoch_req_ingress_ts)] (replicate 54 0);
          s2 = ptp_tx resp 68 s1;
          (epoch_resp_ts, s3) = local_to_epoch_ts (tx_ts - tile_timer_offset s2) s2;
          follow_up = put_fields
            [(0, [PTP_TRANSPORT_SPECIFIC_HDR OR PTP_PDELAY_RESP_FOLLOW_UP_MESG]),
             (34, timestamp_to_network epoch_resp_ts)] resp
      in ptp_tx follow_up 68 s3)"

section \<open>Messages received\<close>

definition ptp_recv_announce :: "net_order \<Rightarrow> u8 list \<Rightarrow> u32 \<Rightarrow> gptp_st \<Rightarrow> gptp_st" where
  "ptp_recv_announce net msg local_ingress_ts st =
     (let s1 = bmca_update_roles net msg local_ingress_ts st
      in if ptp_state s1 = PTP_SLAVE \<and> master_port_id s1 = cm_sourcePortIdentity msg \<and>
            am_identity (best_announce_msg s1) = am_identity (get_bytes 34 42 msg)
         then s1\<lparr>last_received_announce_time_valid := True, last_received_announce_time := local_ingress_ts\<rparr>
         else s1)"

definition ptp_recv_sync :: "net_order \<Rightarrow> u8 list \<Rightarrow> u32 \<Rightarrow> gptp_st \<Rightarrow> gptp_st" where
  "ptp_recv_sync net msg local_ingress_ts st =
     (if master_port_id st = cm_sourcePortIdentity msg
      then st\<lparr>received_sync := True, received_sync_id := ntoh16 net (cm_sequenceId msg),
              received_sync_ts := local_ingress_ts\<rparr>
      else st)"

definition ptp_recv_follow_up :: "net_order \<Rightarrow> u8 list \<Rightarrow> gptp_st \<Rightarrow> gptp_st" where
  "ptp_recv_follow_up net msg st =
     (let s1 = (if received_sync st \<and> received_sync_id st = ntoh16 net (cm_sequenceId msg) \<and>
                   master_port_id st = cm_sourcePortIdentity msg
                then let correction = sint (ntoh64 net (cm_correctionField msg));
                         master_egress_ts = ptp_timestamp_offset64
                           (network_to_ptp_timestamp (get_bytes 34 10 msg)) (drop_bit 16 correction)
                     in update_reference_timestamps master_egress_ts (received_sync_ts st)
                          (update_adjust master_egress_ts (received_sync_ts st) st)
                else st)
      in s1\<lparr>received_sync := False\<rparr>)"

definition ptp_accepts_pdelay :: "u8 list \<Rightarrow> gptp_st \<Rightarrow> bool" where
  "ptp_accepts_pdelay msg st \<longleftrightarrow> ptp_legacy_mode st = 0 \<or> master_port_id st = cm_sourcePortIdentity msg"

definition ptp_recv_pdelay_resp :: "net_order \<Rightarrow> u8 list \<Rightarrow> u32 \<Rightarrow> gptp_st \<Rightarrow> gptp_st" where
  "ptp_recv_pdelay_resp net msg local_ingress_ts st =
     (if ptp_accepts_pdelay msg st
      then let s1 = (if pdelay_request_sent st \<and> pdelay_req_seq_id st = ntoh16 net (cm_sequenceId msg)
                     then st\<lparr>received_pdelay := True, received_pdelay_id := ntoh16 net (cm_sequenceId msg),
                             pdelay_resp_ingress_ts := local_ingress_ts,
                             pdelay_request_receipt_ts := network_to_ptp_timestamp (get_bytes 34 10 msg)\<rparr>
                     else st)
           in s1\<lparr>pdelay_request_sent := False\<rparr>
      else st)"

definition ptp_recv_pdelay_follow_up :: "net_order \<Rightarrow> u8 list \<Rightarrow> gptp_st \<Rightarrow> gptp_st" where
  "ptp_recv_pdelay_follow_up net msg st =
     (if ptp_accepts_pdelay msg st
      then let s1 = (if received_pdelay st \<and> received_pdelay_id st = ntoh16 net (cm_sequenceId msg)
                     then update_path_delay (pdelay_request_receipt_ts st)
                            (network_to_ptp_timestamp (get_bytes 34 10 msg))
                            (pdelay_request_sent_ts st) (pdelay_resp_ingress_ts st) st
                     else st)
           in s1\<lparr>received_pdelay := False\<rparr>
      else st)"

text \<open>\<open>tx_ts\<close> is the transmit timestamp of the response, when one is sent.\<close>

definition ptp_recv :: "net_order \<Rightarrow> u8 list \<Rightarrow> u32 \<Rightarrow> u32 \<Rightarrow> gptp_st \<Rightarrow> gptp_st" where
  "ptp_recv net buf ingress_ts tx_ts st =
     (let msg = drop (if buf ! 13 = 0x18 then 18 else 14) buf;
          local_ingress_ts = ingress_ts - tile_timer_offset st;
          message_type = (msg ! 0) AND 0xf
      in if message_type = PTP_ANNOUNCE_MESG then ptp_recv_announce net msg local_ingress_ts st
         else if message_type = PTP_SYNC_MESG then ptp_recv_sync net msg local_ingress_ts st
         else if message_type = PTP_FOLLOW_UP_MESG then ptp_recv_follow_up net msg st
         else if message_type = PTP_PDELAY_REQ_MESG then
           (if \<not> ptp_master_only_pdelay_resp st \<or> ptp_state st = PTP_MASTER
            then send_ptp_pdelay_resp_msg net msg local_ingress_ts tx_ts st else st)
         else if message_type = PTP_PDELAY_RESP_MESG then ptp_recv_pdelay_resp net msg local_ingress_ts st
         else if message_type = PTP_PDELAY_RESP_FOLLOW_UP_MESG then ptp_recv_pdelay_follow_up net msg st
         else st)"

section \<open>Initialisation and periodic processing\<close>

definition ptp_init :: "net_order \<Rightarrow> u32 \<Rightarrow> u32 \<Rightarrow> u8 list \<Rightarrow> ptp_server_type \<Rightarrow> gptp_st \<Rightarrow> gptp_st" where
  "ptp_init net offset t mac stype st =
     (let s1 = st\<lparr>tile_timer_offset := offset,
                  ptp_priority1 := (if stype = PTP_GRANDMASTER_CAPABLE then 250 else 255),
                  src_mac_addr := mac,
                  my_port_id := [mac ! 0, mac ! 1, mac ! 2, 0xff, 0xfe, mac ! 3, mac ! 4, mac ! 5, 0, 1]\<rparr>
      in (set_new_role net PTP_MASTER t s1)\<lparr>pdelay_epoch_timer := ucast t\<rparr>)"

definition ptp_server_set_legacy_mode :: "int \<Rightarrow> gptp_st \<Rightarrow> gptp_st" where
  "ptp_server_set_legacy_mode legacy_mode st =
     (if legacy_mode \<noteq> 0
      then st\<lparr>dest_mac_addr := [0x01, 0x00, 0x5e, 0x0, 1, 129], ptp_master_only_pdelay_resp := True,
              ptp_legacy_mode := legacy_mode\<rparr>
      else st\<lparr>dest_mac_addr := [0x01, 0x80, 0xc2, 0x0, 0x0, 0xe], ptp_master_only_pdelay_resp := False,
              ptp_legacy_mode := legacy_mode\<rparr>)"

definition ptp_announce_timeout :: "net_order \<Rightarrow> u32 \<Rightarrow> gptp_st \<Rightarrow> gptp_st" where
  "ptp_announce_timeout net t st =
     (if last_received_announce_time_valid st \<and>
         ptp_timeafter t (last_received_announce_time st + RECV_ANNOUNCE_TIMEOUT)
      then if ptp_state st = PTP_SLAVE
           then (set_new_role net PTP_UNCERTAIN t st)
                  \<lparr>last_received_announce_time := t, last_announce_time := t - ANNOUNCE_PERIOD - 1\<rparr>
           else if ptp_state st = PTP_UNCERTAIN then set_new_role net PTP_MASTER t st
           else st
      else st)"

text \<open>
  The environment of one call: the transmit timestamps of a Sync and of a Pdelay_Req, and the
  time read for the latter.
\<close>

record ptp_env =
  ev_sync_tx :: u32
  ev_pdelay_tx :: u32
  ev_local_time :: u32

definition ptp_periodic :: "net_order \<Rightarrow> ptp_env \<Rightarrow> u32 \<Rightarrow> gptp_st \<Rightarrow> gptp_st" where
  "ptp_periodic net ev t st =
     (let s1 = ptp_announce_timeout net t st;
          s2 = (if (ptp_state s1 = PTP_MASTER \<or> ptp_state s1 = PTP_UNCERTAIN \<or> ptp_state s1 = PTP_SLAVE) \<and>
                   ptp_timeafter t (last_announce_time s1 + ANNOUNCE_PERIOD)
                then (send_ptp_announce_msg net s1)\<lparr>last_announce_time := t\<rparr> else s1);
          s3 = (if ptp_state s2 = PTP_MASTER \<and> ptp_timeafter t (last_sync_time s2 + SYNC_PERIOD)
                then (send_ptp_sync_msg net (ev_sync_tx ev) s2)\<lparr>last_sync_time := t\<rparr> else s2);
          s4 = (if (ptp_legacy_mode s3 = 0 \<or> ptp_state s3 = PTP_SLAVE \<or> ptp_state s3 = PTP_UNCERTAIN) \<and>
                   ptp_timeafter t (last_pdelay_req_time s3 + PDELAY_REQ_PERIOD)
                then (send_ptp_pdelay_req_msg net (ev_local_time ev) (ev_pdelay_tx ev) s3)\<lparr>last_pdelay_req_time := t\<rparr>
                else s3)
      in periodic_update_reference_timestamps t s4)"

definition ptp_current_grandmaster :: "gptp_st \<Rightarrow> u8 list" where
  "ptp_current_grandmaster st = am_identity (best_announce_msg st)"

definition ptp_current_state :: "gptp_st \<Rightarrow> ptp_state_t" where
  "ptp_current_state st = ptp_state st"

end
