(* ===== verification/Gptp_Proofs.thy ===== *)
theory Gptp_Proofs
  imports Gptp "HOL-Library.List_Lexorder"
begin

text \<open>
  Correctness of the gPTP port: the best-master algorithm selects the least announce in the
  order of 802.1AS, a slave whose master falls silent takes over, a Sync with its Follow_Up
  carries the master's clock to the slave, and the path delay is the measured one. Two
  defects of the delay mechanism are shown exactly.
\<close>

section \<open>Best master clock\<close>

text \<open>The priority vector of an announce message; lists are ordered lexicographically.\<close>

definition announce_rank :: "net_order \<Rightarrow> u8 list \<Rightarrow> nat list" where
  "announce_rank net m =
     [unat (am_priority1 m), unat (am_clockClass m), unat (am_clockAccuracy m), unat (ntoh16 net (am_variance m)),
      unat (am_priority2 m)] @ map unat (am_identity m)"

definition announce_of :: "u8 list \<Rightarrow> u8 list" where
  "announce_of msg = get_bytes 34 42 msg"

definition announces_other :: "gptp_st \<Rightarrow> u8 list \<Rightarrow> bool" where
  "announces_other st msg \<longleftrightarrow> am_identity (announce_of msg) \<noteq> take 8 (my_port_id st)"

lemma compare_clock_identity_iff:
  "length a = length b \<Longrightarrow> (compare_clock_identity a b \<le> 0 \<longleftrightarrow> \<not> map unat a < map unat b)"
  "length a = length b \<Longrightarrow> (compare_clock_identity a b = 0 \<longleftrightarrow> a = b)"
  by (induction a b rule: compare_clock_identity.induct) (auto simp: word_less_nat_alt word_unat_eq_iff)

lemma new_best_rank:
  assumes "length m = 42" "length (best_announce_msg st) = 42" "length (my_port_id st) = 10"
  shows "bmca_new_best net m st \<longleftrightarrow> am_identity m \<noteq> take 8 (my_port_id st) \<and>
           announce_rank net m < announce_rank net (best_announce_msg st)"
proof -
  have len: "length (am_identity m) = 8" "length (am_identity (best_announce_msg st)) = 8"
    using assms(1,2) by (simp_all add: am_identity_def)
  have me: "compare_clock_identity_to_me (am_identity m) st = 0 \<longleftrightarrow> am_identity m = take 8 (my_port_id st)"
    unfolding compare_clock_identity_to_me_def
    by (rule compare_clock_identity_iff(2)) (simp add: len assms(3))
  show ?thesis
    using compare_clock_identity_iff(1) [of "am_identity m" "am_identity (best_announce_msg st)"] len
    by (auto simp: bmca_new_best_def me announce_rank_def Let_def word_less_nat_alt dest: sym)
qed

definition bmca_run :: "net_order \<Rightarrow> (u8 list \<times> u32) list \<Rightarrow> gptp_st \<Rightarrow> gptp_st" where
  "bmca_run net = fold (\<lambda>(msg, t). bmca_update_roles net msg t)"

lemma bmca_step:
  assumes "76 \<le> length msg" "length (best_announce_msg st) = 42" "length (my_port_id st) = 10"
    and "st' = bmca_update_roles net msg t st"
  shows "my_port_id st' = my_port_id st" "length (best_announce_msg st') = 42"
    and "announce_rank net (best_announce_msg st') =
      (if announces_other st msg then min (announce_rank net (announce_of msg)) (announce_rank net (best_announce_msg st))
       else announce_rank net (best_announce_msg st))"
    and "best_announce_msg st' \<noteq> best_announce_msg st \<Longrightarrow>
      ptp_state st' = PTP_SLAVE \<and> master_port_id st' = cm_sourcePortIdentity msg \<and> best_announce_msg st' = announce_of msg"
proof -
  have len: "length (announce_of msg) = 42" using assms(1) by (simp add: announce_of_def)
  note nb = new_best_rank [OF len assms(2,3), of net]
  show "my_port_id st' = my_port_id st" "length (best_announce_msg st') = 42"
    using assms(2) len by (auto simp: assms(4) bmca_update_roles_def set_new_role_def Let_def announce_of_def)
  show "announce_rank net (best_announce_msg st') =
      (if announces_other st msg then min (announce_rank net (announce_of msg)) (announce_rank net (best_announce_msg st))
       else announce_rank net (best_announce_msg st))"
    using nb by (auto simp: assms(4) bmca_update_roles_def set_new_role_def Let_def announce_of_def
        announces_other_def min_def not_le less_imp_le)
  show "best_announce_msg st' \<noteq> best_announce_msg st \<Longrightarrow>
      ptp_state st' = PTP_SLAVE \<and> master_port_id st' = cm_sourcePortIdentity msg \<and> best_announce_msg st' = announce_of msg"
    by (auto simp: assms(4) bmca_update_roles_def set_new_role_def Let_def announce_of_def split: if_splits)
qed

lemma bmca_run_rank:
  assumes "list_all (\<lambda>(msg, t). 76 \<le> length msg) ms" "length (best_announce_msg st) = 42" "length (my_port_id st) = 10"
  shows "announce_rank net (best_announce_msg (bmca_run net ms st)) =
    fold min (map (\<lambda>(msg, t). announce_rank net (announce_of msg)) (filter (\<lambda>(msg, t). announces_other st msg) ms))
      (announce_rank net (best_announce_msg st))"
  using assms
proof (induction ms arbitrary: st)
  case (Cons p ms)
  obtain msg t where p: "p = (msg, t)" by fastforce
  let ?s = "bmca_update_roles net msg t st"
  have len: "76 \<le> length msg" using Cons.prems(1) p by simp
  note step = bmca_step [OF len Cons.prems(2,3) refl, of net t]
  have "announces_other ?s = announces_other st" using step(1) by (simp add: announces_other_def fun_eq_iff)
  then show ?case using Cons.IH [of ?s] Cons.prems step(1-3) by (simp add: bmca_run_def p)
qed (simp add: bmca_run_def)

text \<open>
  C17. The best-master algorithm. After any sequence of announce messages the selected message has
  the least priority vector, in the lexicographic order of 802.1AS (priority 1, class,
  accuracy, variance, priority 2, identity), among the message selected before and all those
  that announce another clock; messages about the own clock are ignored.
\<close>

theorem bmca_selects_best:
  assumes "list_all (\<lambda>(msg, t). 76 \<le> length msg) ms" "length (best_announce_msg st) = 42" "length (my_port_id st) = 10"
  shows "announce_rank net (best_announce_msg (bmca_run net ms st)) =
    fold min (map (\<lambda>(msg, t). announce_rank net (announce_of msg)) (filter (\<lambda>(msg, t). announces_other st msg) ms))
      (announce_rank net (best_announce_msg st))"
  using assms by (rule bmca_run_rank)

definition ts_zero :: ptp_timestamp where
  "ts_zero = \<lparr>ts_seconds0 = 0, ts_seconds1 = 0, ts_nanoseconds = 0\<rparr>"

definition gptp_zero :: gptp_st where
  "gptp_zero = \<lparr>ptp_master_only_pdelay_resp = False, ptp_legacy_mode = 0, g_ptp_adjust_valid = False,
     g_ptp_adjust = 0, g_inv_ptp_adjust = 0, ptp_path_delay_valid = False, ptp_path_delay = 0,
     ptp_reference_local_ts = 0, ptp_reference_ptp_ts = ts_zero, ptp_gmoffset = 0,
     expect_gm_discontinuity = True, ptp_candidate_gmoffset_valid = False, ptp_state = PTP_MASTER,
     my_port_id = replicate 10 0, master_port_id = replicate 10 0, ptp_priority1 = 0, ptp_priority2 = 248,
     last_received_announce_time_valid = False, last_received_announce_time = 0, last_announce_time = 0,
     last_sync_time = 0, last_pdelay_req_time = 0, prev_adjust_master_ts = ts_zero, prev_adjust_local_ts = 0,
     prev_adjust_valid = False, sync_lock = False, sync_count = 0, best_announce_msg = replicate 42 0,
     pdelay_epoch_timer = 0, prev_pdelay_local_ts = 0, tile_timer_offset = 0, src_mac_addr = replicate 6 0,
     dest_mac_addr = [0x01, 0x80, 0xc2, 0x0, 0x0, 0xe], announce_seq_id = 0, sync_seq_id = 0,
     pdelay_req_seq_id = 0, pdelay_request_sent = False, pdelay_request_sent_ts = 0, received_sync = False,
     received_sync_id = 0, received_sync_ts = 0, received_pdelay = False, received_pdelay_id = 0,
     pdelay_resp_ingress_ts = 0, pdelay_request_receipt_ts = ts_zero, gp_out = []\<rparr>"

definition net_example :: net_order where
  "net_example = \<lparr>hton16 = hton_16, ntoh16 = ntoh_16, ntoh64 = guid_from_wire\<rparr>"

definition gptp_example :: gptp_st where
  "gptp_example = ptp_init net_example 0 1000 [0, 0x22, 0x97, 1, 2, 3] PTP_GRANDMASTER_CAPABLE gptp_zero"

definition announce_example :: "u8 list" where
  "announce_example = replicate 20 0 @ [9, 9, 9, 9, 9, 9, 9, 9, 0, 1] @ replicate 4 0 @
     replicate 13 0 @ [246, 248, 0xFE, 0, 1, 248] @ replicate 8 9 @ replicate 15 0"

lemma gptp_example_lengths:
  "length (best_announce_msg gptp_example) = 42" "length (my_port_id gptp_example) = 10"
  by code_simp+

theorem bmca_selects_best_witness:
  "announce_rank net_example (best_announce_msg (bmca_run net_example [(announce_example, 5)] gptp_example))
     = [246, 248, 0xFE, 1, 248, 9, 9, 9, 9, 9, 9, 9, 9]"
proof -
  have m: "announces_other gptp_example announce_example"
    "announce_rank net_example (announce_of announce_example) = [246, 248, 0xFE, 1, 248, 9, 9, 9, 9, 9, 9, 9, 9]"
    "announce_rank net_example (best_announce_msg gptp_example) = [250, 248, 0xFE, 1, 248, 0, 0x22, 0x97, 0xff, 0xfe, 1, 2, 3]"
    by code_simp+
  have "length announce_example = 76" by (simp add: announce_example_def)
  then show ?thesis
    using bmca_selects_best [of "[(announce_example, 5)]" gptp_example net_example] gptp_example_lengths m
    by (simp add: min_def)
qed

section \<open>Failure of the master\<close>

lemma timeafter_self [simp]: "\<not> ptp_timeafter t t" "ptp_timeafter t (t - 1)"
  by (simp_all add: ptp_timeafter_def)

lemma put_fields_append:
  "put_fields (xs @ ys) b = put_fields ys (put_fields xs b)"
  by (induction xs arbitrary: b) simp_all

lemma my_announce_identity:
  assumes "length m = 42" "length (my_port_id st) = 10" "\<And>v. length (hton16 net v) = 2"
  shows "am_identity (create_my_announce_msg net st m) = take 8 (my_port_id st)"
    and "length (create_my_announce_msg net st m) = 42"
proof -
  obtain fs :: "(nat \<times> u8 list) list" where fs: "fs = [(10, hton16 net 33), (13, [ptp_priority1 st]), (14, [248]), (15, [0xFE]), (16, hton16 net 1),
        (18, [ptp_priority2 st]), (19, take 8 (my_port_id st)), (27, hton16 net 0), (29, [0xA0]),
        (30, hton16 net 8), (32, hton16 net 8), (34, take 7 (my_port_id st))]" by simp
  have ok: "fields_ok (length m) fs" using assms by (simp add: fs field_apart_def min_def)
  have "(19, take 8 (my_port_id st)) \<in> set fs" by (simp add: fs)
  from put_fields_read [OF ok this] show "am_identity (create_my_announce_msg net st m) = take 8 (my_port_id st)"
    using assms(2) by (simp add: am_identity_def create_my_announce_msg_def fs min_def)
  show "length (create_my_announce_msg net st m) = 42"
    using length_put_fields [OF ok] assms(1) by (simp add: create_my_announce_msg_def fs)
qed

lemma sends_keep_role:
  "ptp_state (ptp_tx b n st) = ptp_state st" "best_announce_msg (ptp_tx b n st) = best_announce_msg st"
  "last_received_announce_time_valid (ptp_tx b n st) = last_received_announce_time_valid st"
  "last_received_announce_time (ptp_tx b n st) = last_received_announce_time st"
  "my_port_id (ptp_tx b n st) = my_port_id st"
  by (simp_all add: ptp_tx_def)

definition role_view :: "gptp_st \<Rightarrow> ptp_state_t \<times> u8 list \<times> bool \<times> u32 \<times> u8 list" where
  "role_view st = (ptp_state st, best_announce_msg st, last_received_announce_time_valid st,
     last_received_announce_time st, my_port_id st)"

lemma role_view_sends:
  "role_view (send_ptp_announce_msg net st) = role_view st"
  "role_view (send_ptp_sync_msg net ts st) = role_view st"
  "role_view (send_ptp_pdelay_req_msg net a b st) = role_view st"
  "role_view (periodic_update_reference_timestamps t st) = role_view st"
  "role_view (st\<lparr>last_announce_time := t\<rparr>) = role_view st"
  "role_view (st\<lparr>last_sync_time := t\<rparr>) = role_view st"
  "role_view (st\<lparr>last_pdelay_req_time := t\<rparr>) = role_view st"
  by (simp_all add: role_view_def send_ptp_announce_msg_def send_ptp_sync_msg_def send_ptp_pdelay_req_msg_def
      periodic_update_reference_timestamps_def Let_def ptp_tx_def)

text \<open>A periodic call changes the role and its timers only through the announce timeout.\<close>

lemma periodic_role: "role_view (ptp_periodic net ev t st) = role_view (ptp_announce_timeout net t st)"
  by (simp add: ptp_periodic_def Let_def role_view_sends)

lemma role_view_recv:
  "role_view (ptp_recv_sync net msg t st) = role_view st"
  "role_view (ptp_recv_follow_up net msg st) = role_view st"
  "role_view (ptp_recv_pdelay_resp net msg t st) = role_view st"
  "role_view (ptp_recv_pdelay_follow_up net msg st) = role_view st"
  "role_view (send_ptp_pdelay_resp_msg net msg t tx st) = role_view st"
  by (simp_all add: role_view_def ptp_recv_sync_def ptp_recv_follow_up_def ptp_recv_pdelay_resp_def
      ptp_recv_pdelay_follow_up_def send_ptp_pdelay_resp_msg_def update_path_delay_def Let_def
      update_reference_timestamps_def update_adjust_def update_sync_lock_def ptp_tx_def
      case_prod_unfold local_to_epoch_ts_def)

definition frame_msg :: "u8 list \<Rightarrow> u8 list" where
  "frame_msg buf = drop (if buf ! 13 = 0x18 then 18 else 14) buf"

definition is_announce_frame :: "u8 list \<Rightarrow> bool" where
  "is_announce_frame buf \<longleftrightarrow> frame_msg buf ! 0 AND 0xf = PTP_ANNOUNCE_MESG"

text \<open>A received frame changes the role only if it is an announce.\<close>

lemma recv_role: "\<not> is_announce_frame buf \<Longrightarrow> role_view (ptp_recv net buf rx tx st) = role_view st"
  unfolding ptp_recv_def is_announce_frame_def frame_msg_def Let_def by (simp add: role_view_recv)

text \<open>Times are natural numbers here; the station sees them modulo the width of its counter.\<close>

lemma timeafter_nat:
  assumes "a < b + 2 ^ 31" "b < a + 2 ^ 31"
  shows "ptp_timeafter (of_nat a) (of_nat b) \<longleftrightarrow> b < a"
proof -
  have "(of_nat b :: u32) - of_nat a = word_of_int (int b - int a)" by simp
  then have "sint ((of_nat b :: u32) - of_nat a) = int b - int a"
    using assms by (simp only: sint_sbintrunc') (simp add: signed_take_bit_int_eq_self)
  then show ?thesis by (simp add: ptp_timeafter_def)
qed

lemma announce_deadline: "(of_nat t :: u32) + RECV_ANNOUNCE_TIMEOUT = of_nat (t + 300000000)"
  by (simp add: RECV_ANNOUNCE_TIMEOUT_def ANNOUNCE_PERIOD_def)

text \<open>What the announce timeout does in each role.\<close>

lemma announce_timeout_slave:
  assumes "ptp_state st = PTP_SLAVE" "last_received_announce_time_valid st" "ptp_timeafter t (last_received_announce_time st + RECV_ANNOUNCE_TIMEOUT)"
    and "length (best_announce_msg st) = 42" "length (my_port_id st) = 10" "\<And>v. length (hton16 net v) = 2"
    and s': "role_view s' = role_view (ptp_announce_timeout net t st)"
  shows "ptp_state s' = PTP_UNCERTAIN \<and> last_received_announce_time_valid s' \<and> last_received_announce_time s' = t \<and>
    my_port_id s' = my_port_id st \<and> length (best_announce_msg s') = 42 \<and>
    ptp_current_grandmaster s' = take 8 (my_port_id st)"
proof -
  obtain u where u: "u = st\<lparr>ptp_state := PTP_UNCERTAIN\<rparr>" by simp
  note mine = my_announce_identity [of "best_announce_msg st" u net]
  have "ptp_state s' = PTP_UNCERTAIN" "best_announce_msg s' = create_my_announce_msg net u (best_announce_msg st)"
    "last_received_announce_time_valid s'" "last_received_announce_time s' = t" "my_port_id s' = my_port_id st"
    using s' assms(1-3) by (simp_all add: ptp_announce_timeout_def role_view_def set_new_role_def u Let_def)
  then show ?thesis using mine assms(4-6) by (simp add: ptp_current_grandmaster_def u)
qed

lemma announce_timeout_uncertain:
  assumes "ptp_state st = PTP_UNCERTAIN" "last_received_announce_time_valid st" "ptp_timeafter t (last_received_announce_time st + RECV_ANNOUNCE_TIMEOUT)"
    and "length (best_announce_msg st) = 42" "length (my_port_id st) = 10" "\<And>v. length (hton16 net v) = 2"
    and s': "role_view s' = role_view (ptp_announce_timeout net t st)"
  shows "ptp_state s' = PTP_MASTER \<and> my_port_id s' = my_port_id st \<and> ptp_current_grandmaster s' = take 8 (my_port_id st)"
proof -
  obtain w where w: "w = st\<lparr>g_ptp_adjust := 0, g_inv_ptp_adjust := 0, ptp_gmoffset := 0,
      last_announce_time := t, last_sync_time := t, ptp_state := PTP_MASTER\<rparr>" by simp
  note mine = my_announce_identity [of "best_announce_msg st" w net]
  have "ptp_state s' = PTP_MASTER" "best_announce_msg s' = create_my_announce_msg net w (best_announce_msg st)"
    "my_port_id s' = my_port_id st"
    using s' assms(1-3) by (simp_all add: ptp_announce_timeout_def role_view_def set_new_role_def w Let_def)
  then show ?thesis using mine assms(4-6) by (simp add: ptp_current_grandmaster_def w)
qed

lemma announce_timeout_idle:
  "\<not> ptp_timeafter t (last_received_announce_time st + RECV_ANNOUNCE_TIMEOUT) \<or> ptp_state st = PTP_MASTER \<Longrightarrow>
     ptp_announce_timeout net t st = st"
  by (auto simp: ptp_announce_timeout_def)

text \<open>A run of the station: polls at given times and received frames, in any order.\<close>

datatype gptp_event = GptpPoll ptp_env nat | GptpFrame "u8 list" u32 u32

fun gptp_step :: "net_order \<Rightarrow> gptp_event \<Rightarrow> gptp_st \<Rightarrow> gptp_st" where
  "gptp_step net (GptpPoll ev t) st = ptp_periodic net ev (of_nat t) st"
| "gptp_step net (GptpFrame buf rx tx) st = ptp_recv net buf rx tx st"

text \<open>No announce arrives, and the next poll comes at most \<open>gap\<close> ticks after the one before.\<close>

fun quiet_run :: "nat \<Rightarrow> nat \<Rightarrow> gptp_event list \<Rightarrow> bool" where
  "quiet_run gap t [] \<longleftrightarrow> True"
| "quiet_run gap t (GptpPoll ev t' # es) \<longleftrightarrow> t \<le> t' \<and> t' \<le> t + gap \<and> quiet_run gap t' es"
| "quiet_run gap t (GptpFrame buf rx tx # es) \<longleftrightarrow> \<not> is_announce_frame buf \<and> quiet_run gap t es"

fun last_poll :: "nat \<Rightarrow> gptp_event list \<Rightarrow> nat" where
  "last_poll t [] = t"
| "last_poll t (GptpPoll ev t' # es) = last_poll t' es"
| "last_poll t (GptpFrame buf rx tx # es) = last_poll t es"

text \<open>The role at time \<open>t\<close>, when the last announce of master \<open>gm\<close> was heard at time \<open>t0\<close>.\<close>

definition failover_inv :: "u8 list \<Rightarrow> u8 list \<Rightarrow> nat \<Rightarrow> nat \<Rightarrow> nat \<Rightarrow> gptp_st \<Rightarrow> bool" where
  "failover_inv gm port gap heard t st \<longleftrightarrow>
     my_port_id st = port \<and> heard \<le> t \<and>
     (ptp_state st = PTP_SLAVE \<and> last_received_announce_time_valid st \<and> length (best_announce_msg st) = 42 \<and>
        ptp_current_grandmaster st = gm \<and> last_received_announce_time st = of_nat heard \<and> t \<le> heard + 300000000 \<or>
      ptp_state st = PTP_UNCERTAIN \<and> last_received_announce_time_valid st \<and> length (best_announce_msg st) = 42 \<and>
        ptp_current_grandmaster st = take 8 port \<and>
        (\<exists>u. last_received_announce_time st = of_nat u \<and> heard + 300000000 < u \<and> u \<le> heard + 300000000 + gap \<and>
           u \<le> t \<and> t \<le> u + 300000000) \<or>
      ptp_state st = PTP_MASTER \<and> ptp_current_grandmaster st = take 8 port \<and> heard + 600000000 < t)"

lemma failover_view:
  "role_view s' = role_view s \<Longrightarrow> failover_inv gm port gap heard t s' = failover_inv gm port gap heard t s"
  by (simp add: role_view_def failover_inv_def ptp_current_grandmaster_def)

lemma failover_poll:
  assumes inv: "failover_inv gm port gap heard t st" and "gap < 2 ^ 31" "t \<le> t'" "t' \<le> t + gap"
    and "length port = 10" "\<And>v. length (hton16 net v) = 2"
  shows "failover_inv gm port gap heard t' (ptp_periodic net ev (of_nat t') st)"
proof -
  let ?s = "ptp_periodic net ev (of_nat t') st"
  have port: "my_port_id st = port" and heard: "heard \<le> t" using inv by (simp_all add: failover_inv_def)
  note view = periodic_role [of net ev "of_nat t'" st]
  have stay: "failover_inv gm port gap heard t' ?s"
    if "ptp_announce_timeout net (of_nat t') st = st" "failover_inv gm port gap heard t' st"
    using failover_view [OF view [unfolded that(1)]] that(2) by blast
  from inv consider
    (slave) "ptp_state st = PTP_SLAVE" "last_received_announce_time_valid st" "length (best_announce_msg st) = 42"
      "ptp_current_grandmaster st = gm" "last_received_announce_time st = of_nat heard" "t \<le> heard + 300000000"
  | (unsure) u where "ptp_state st = PTP_UNCERTAIN" "last_received_announce_time_valid st" "length (best_announce_msg st) = 42"
      "ptp_current_grandmaster st = take 8 port" "last_received_announce_time st = of_nat u"
      "heard + 300000000 < u" "u \<le> heard + 300000000 + gap" "u \<le> t" "t \<le> u + 300000000"
  | (master) "ptp_state st = PTP_MASTER" "ptp_current_grandmaster st = take 8 port" "heard + 600000000 < t"
    unfolding failover_inv_def by blast
  then show ?thesis
  proof cases
    case slave
    have after: "ptp_timeafter (of_nat t') (last_received_announce_time st + RECV_ANNOUNCE_TIMEOUT) \<longleftrightarrow> heard + 300000000 < t'"
      unfolding slave(5) announce_deadline by (rule timeafter_nat) (use assms(2-4) heard slave(6) in simp_all)
    show ?thesis
    proof (cases "heard + 300000000 < t'")
      case True
      then have "ptp_timeafter (of_nat t') (last_received_announce_time st + RECV_ANNOUNCE_TIMEOUT)" using after by blast
      from announce_timeout_slave [OF slave(1,2) this slave(3) _ assms(6) view] show ?thesis
        using True assms(3-5) port heard slave(6)
        by (auto simp: failover_inv_def intro!: exI [of _ t'])
    next
      case False
      then show ?thesis using slave port heard assms(3) after
        by (intro stay announce_timeout_idle) (simp_all add: failover_inv_def)
    qed
  next
    case unsure
    have after: "ptp_timeafter (of_nat t') (last_received_announce_time st + RECV_ANNOUNCE_TIMEOUT) \<longleftrightarrow> u + 300000000 < t'"
      unfolding unsure(5) announce_deadline by (rule timeafter_nat) (use assms(2-4) unsure in simp_all)
    show ?thesis
    proof (cases "u + 300000000 < t'")
      case True
      then have "ptp_timeafter (of_nat t') (last_received_announce_time st + RECV_ANNOUNCE_TIMEOUT)" using after by blast
      from announce_timeout_uncertain [OF unsure(1,2) this unsure(3) _ assms(6) view] show ?thesis
        using True assms(5) port unsure(6) by (simp add: failover_inv_def)
    next
      case False
      then show ?thesis using unsure port heard assms(3) after
        by (intro stay announce_timeout_idle) (auto simp: failover_inv_def intro!: exI [of _ u])
    qed
  next
    case master
    then show ?thesis using port heard assms(3)
      by (intro stay announce_timeout_idle) (simp_all add: failover_inv_def)
  qed
qed

lemma failover_run:
  assumes "failover_inv gm port gap heard t st" "quiet_run gap t es" "gap < 2 ^ 31" "length port = 10"
    and "\<And>v. length (hton16 net v) = 2"
  shows "failover_inv gm port gap heard (last_poll t es) (fold (gptp_step net) es st)"
  using assms(1,2)
proof (induction es arbitrary: t st)
  case (Cons e es)
  show ?case
  proof (cases e)
    case (GptpPoll ev t')
    then show ?thesis using Cons failover_poll [OF _ assms(3) _ _ assms(4,5)] by simp
  next
    case (GptpFrame buf rx tx)
    then show ?thesis using Cons failover_view [OF recv_role [of buf net rx tx]] by simp
  qed
qed simp

text \<open>
  C18. Failure of the master. A slave hears the last announce of its master at time \<open>heard\<close>; after
  that frames other than announces arrive in any order and at any times, and the station is
  polled at times at most \<open>gap\<close> apart (of a counter that wraps at 32 bits). However often it is
  polled: up to 3 seconds (300000000 ticks) after that announce it stays a slave of the master,
  at the first poll after that it is no slave any more and is itself the best master it knows;
  it is not the master before 6 seconds have passed, and it is the master as soon as a poll
  comes later than 6 seconds plus \<open>gap\<close>.
\<close>

theorem master_failover:
  assumes "ptp_state st = PTP_SLAVE" "last_received_announce_time_valid st" "last_received_announce_time st = of_nat heard"
    and "length (best_announce_msg st) = 42" "length (my_port_id st) = 10" "\<And>v. length (hton16 net v) = 2"
    and "gap < 2 ^ 31" "quiet_run gap heard es"
    and s': "s' = fold (gptp_step net) es st" and t: "t = last_poll heard es"
  shows "(t \<le> heard + 300000000 \<longrightarrow>
            ptp_state s' = PTP_SLAVE \<and> ptp_current_grandmaster s' = ptp_current_grandmaster st) \<and>
         (heard + 300000000 < t \<longrightarrow>
            ptp_state s' \<noteq> PTP_SLAVE \<and> ptp_current_grandmaster s' = take 8 (my_port_id st)) \<and>
         (t \<le> heard + 600000000 \<longrightarrow> ptp_state s' \<noteq> PTP_MASTER) \<and>
         (heard + 600000000 + gap < t \<longrightarrow> ptp_state s' = PTP_MASTER)"
proof -
  have "failover_inv (ptp_current_grandmaster st) (my_port_id st) gap heard heard st"
    using assms(1-4) by (simp add: failover_inv_def)
  from failover_run [OF this assms(8,7,5,6)] show ?thesis
    unfolding s' [symmetric] t [symmetric] failover_inv_def by auto
qed

theorem master_failover_witness:
  "ptp_state (fold (gptp_step net_example)
      (map (GptpPoll \<lparr>ev_sync_tx = 0, ev_pdelay_tx = 0, ev_local_time = 0\<rparr>) [200000000, 400000000, 600000000, 800000000, 1000000000])
      (gptp_example\<lparr>ptp_state := PTP_SLAVE, last_received_announce_time_valid := True, last_received_announce_time := 1\<rparr>))
   = PTP_MASTER"
proof -
  have net: "\<And>v. length (hton16 net_example v) = 2" by (simp add: net_example_def)
  show ?thesis
    using master_failover [of "gptp_example\<lparr>ptp_state := PTP_SLAVE, last_received_announce_time_valid := True,
          last_received_announce_time := 1\<rparr>" 1 net_example 200000000
          "map (GptpPoll \<lparr>ev_sync_tx = 0, ev_pdelay_tx = 0, ev_local_time = 0\<rparr>) [200000000, 400000000, 600000000, 800000000, 1000000000]",
        OF _ _ _ _ _ net _ _ refl refl] gptp_example_lengths
    by (simp del: fold_simps)
qed

section \<open>Synchronisation\<close>

text \<open>What the protocol relies on of the byte-order functions of the network library.\<close>

definition net_ok :: "net_order \<Rightarrow> bool" where
  "net_ok net \<longleftrightarrow> (\<forall>v. length (hton16 net v) = 2 \<and> ntoh16 net (hton16 net v) = v) \<and> ntoh64 net (replicate 8 0) = 0"

lemma net_okD: "net_ok net \<Longrightarrow> length (hton16 net v) = 2" "net_ok net \<Longrightarrow> ntoh16 net (hton16 net v) = v"
  "net_ok net \<Longrightarrow> ntoh64 net (replicate 8 0) = 0"
  by (simp_all add: net_ok_def)

lemma net_example_ok: "net_ok net_example"
  by (simp add: net_ok_def net_example_def ntoh_hton_16) code_simp

definition macs_ok :: "gptp_st \<Rightarrow> bool" where
  "macs_ok st \<longleftrightarrow> length (src_mac_addr st) = 6 \<and> length (dest_mac_addr st) = 6 \<and> length (my_port_id st) = 10"

text \<open>A frame as a receiver reads it: no tag, and the message behind 14 octets.\<close>

lemma frame_read:
  assumes "macs_ok st" "f = take (if n < 64 then 64 else n) (set_ptp_ethernet_hdr st @ body)"
  shows "f ! 13 = 0xf7" "drop 14 f = take ((if n < 64 then 64 else n) - 14) body"
proof -
  have h: "length (set_ptp_ethernet_hdr st) = 14" "set_ptp_ethernet_hdr st ! 13 = 0xf7"
    using assms(1) by (simp_all add: set_ptp_ethernet_hdr_def macs_ok_def nth_append)
  then show "f ! 13 = 0xf7" "drop 14 f = take ((if n < 64 then 64 else n) - 14) body"
    by (auto simp: assms(2) nth_append drop_take)
qed

lemma length_timestamp_to_network [simp]: "length (timestamp_to_network t) = 10"
  by (simp add: timestamp_to_network_def)

text \<open>The two messages of a synchronisation.\<close>

definition sync_fields :: "net_order \<Rightarrow> u8 list \<Rightarrow> u16 \<Rightarrow> (nat \<times> u8 list) list" where
  "sync_fields net port seq =
     [(0, [0x10]), (1, [2]), (2, hton16 net 44), (6, [0x2]), (8, replicate 8 0), (20, port), (30, hton16 net seq),
      (32, [0]), (33, [- 3])]"

definition follow_fields :: "net_order \<Rightarrow> ptp_timestamp \<Rightarrow> (nat \<times> u8 list) list" where
  "follow_fields net t =
     [(0, [0x18]), (32, [2]), (2, hton16 net 76), (34, timestamp_to_network t), (44, hton16 net 3),
      (46, hton16 net 28), (48, [0x00, 0x80, 0xc2]), (51, [0, 0, 1])]"

lemma sync_bodies:
  assumes "net_ok net" "length port = 10"
    and "sync = put_fields (sync_fields net port seq) (replicate 76 0)" "follow = put_fields (follow_fields net t) sync"
  shows "length sync = 76" "length follow = 76"
    and "get_bytes 0 1 sync = [0x10]" "get_bytes 20 10 sync = port" "get_bytes 30 2 sync = hton16 net seq"
    and "get_bytes 0 1 follow = [0x18]" "get_bytes 20 10 follow = port" "get_bytes 30 2 follow = hton16 net seq"
    and "get_bytes 8 8 follow = replicate 8 0" "get_bytes 34 10 follow = timestamp_to_network t"
proof -
  note len = net_okD(1) [OF assms(1)]
  have ok: "fields_ok (length (replicate 76 (0 :: u8))) (sync_fields net port seq)"
    by (simp add: sync_fields_def field_apart_def len assms(2))
  show ls: "length sync = 76" using length_put_fields [OF ok] by (simp add: assms(3))
  have ok2: "fields_ok (length sync) (follow_fields net t)"
    by (simp add: follow_fields_def field_apart_def len ls)
  show "length follow = 76" using length_put_fields [OF ok2] by (simp add: assms(4) ls)
  have s: "list_all (\<lambda>x. get_bytes (fst x) (length (snd x)) sync = snd x) (sync_fields net port seq)"
    using put_fields_read [OF ok] by (simp add: list_all_iff assms(3))
  then show read: "get_bytes 0 1 sync = [0x10]" "get_bytes 20 10 sync = port" "get_bytes 30 2 sync = hton16 net seq"
    by (simp_all add: sync_fields_def len assms(2))
  have corr: "get_bytes 8 8 sync = replicate 8 0" using s by (simp add: sync_fields_def)
  have f: "list_all (\<lambda>x. get_bytes (fst x) (length (snd x)) follow = snd x) (follow_fields net t)"
    using put_fields_read [OF ok2] by (simp add: list_all_iff assms(4))
  then show "get_bytes 0 1 follow = [0x18]" "get_bytes 34 10 follow = timestamp_to_network t"
    by (simp_all add: follow_fields_def)
  have keep: "get_bytes a n follow = get_bytes a n sync" if "a + n \<le> 76" "list_all (field_apart a n) (follow_fields net t)" for a n
    unfolding assms(4) by (rule put_fields_other [OF ok2]) (use that ls in simp_all)
  show "get_bytes 20 10 follow = port" "get_bytes 30 2 follow = hton16 net seq" "get_bytes 8 8 follow = replicate 8 0"
    using keep [of 20 10] keep [of 30 2] keep [of 8 8] read corr
    by (simp_all add: follow_fields_def field_apart_def len)
qed

lemma get_bytes_first: "get_bytes 0 1 m = [b] \<Longrightarrow> m ! 0 = b"
  by (cases m) (simp_all add: get_bytes_def)

lemma update_adjust_frame:
  "ptp_path_delay (update_adjust a b st) = ptp_path_delay st"
  by (simp add: update_adjust_def update_sync_lock_def Let_def)

text \<open>
  C16. A Sync with its Follow_Up carries the clock. When a station sends the two messages and a
  station whose master it is receives them, the receiver relates the time at which the Sync
  arrived, on its own counter, to the time at which it was sent, on the sender's clock, plus
  the path delay; it has used up the Sync. The sender's time survives the wire except the
  low 16 bits of its upper word: the writer takes the wrong two octets of \<open>seconds[1]\<close>, so
  times from the year 2106 on are cut.
\<close>

theorem sync_transfers_time:
  assumes "net_ok net" "macs_ok m" "master_port_id s = my_port_id m"
    and "m' = send_ptp_sync_msg net tx m"
    and "sent = local_to_ptp_ts (tx - tile_timer_offset m) m"
    and "wire = sent\<lparr>ts_seconds1 := ts_seconds1 sent AND NOT (mask 16)\<rparr>" "uint (ts_seconds wire) < 2 ^ 62"
  shows "\<exists>f1 f2. gp_out m' = gp_out m @ [f1, f2] \<and>
    (let s' = ptp_recv net f2 rx2 any2 (ptp_recv net f1 rx1 any1 s) in
       ptp_reference_local_ts s' = rx1 - tile_timer_offset s \<and>
       ts_total (ptp_reference_ptp_ts s') = ts_total wire + uint (ptp_path_delay s) \<and>
       ts_normal (ptp_reference_ptp_ts s') \<and> \<not> received_sync s')"
proof -
  let ?seq = "sync_seq_id m + 1"
  obtain sync where sync: "sync = put_fields (sync_fields net (my_port_id m) ?seq) (replicate 76 0)" by simp
  obtain follow where follow: "follow = put_fields (follow_fields net sent) sync" by simp
  have port: "length (my_port_id m) = 10" using assms(2) by (simp add: macs_ok_def)
  note b = sync_bodies [OF assms(1) port sync follow]
  obtain f1 where f1: "f1 = take (if 58 < (64 :: nat) then 64 else 58) (set_ptp_ethernet_hdr m @ sync)" by simp
  obtain f2 where f2: "f2 = take (if 90 < (64 :: nat) then 64 else 90) (set_ptp_ethernet_hdr m @ follow)" by simp
  have out: "gp_out m' = gp_out m @ [f1, f2]"
    by (simp add: assms(4) send_ptp_sync_msg_def Let_def ptp_tx_def f1 f2 follow sync sync_fields_def follow_fields_def
        assms(5) set_ptp_ethernet_hdr_def local_to_ptp_ts_def)
  note r1 = frame_read [OF assms(2) f1] and r2 = frame_read [OF assms(2) f2]
  have m1: "drop 14 f1 = take 50 sync" and m2: "drop 14 f2 = follow" using r1(2) r2(2) b(2) by simp_all
  have h1: "(take 50 sync) ! 0 = 0x10" "cm_sourcePortIdentity (take 50 sync) = my_port_id m"
    "cm_sequenceId (take 50 sync) = hton16 net ?seq"
    using b(3-5) get_bytes_first [of sync]
    by (simp_all add: cm_sourcePortIdentity_def cm_sequenceId_def get_bytes_take)
  have h2: "follow ! 0 = 0x18" "cm_sourcePortIdentity follow = my_port_id m" "cm_sequenceId follow = hton16 net ?seq"
    "cm_correctionField follow = replicate 8 0"
    using b(6-9) get_bytes_first [of follow]
    by (simp_all add: cm_sourcePortIdentity_def cm_sequenceId_def cm_correctionField_def)
  obtain s1 where s1: "s1 = s\<lparr>received_sync := True, received_sync_id := ?seq, received_sync_ts := rx1 - tile_timer_offset s\<rparr>" by simp
  have recv1: "ptp_recv net f1 rx1 any1 s = s1"
    using r1(1) h1 by (simp add: ptp_recv_def m1 ptp_recv_sync_def assms(3) net_okD(2) [OF assms(1)] s1)
  obtain e where e: "e = ptp_timestamp_offset64 wire 0" by simp
  have recv2: "ptp_recv net f2 rx2 any2 s1 =
      (update_reference_timestamps e (rx1 - tile_timer_offset s) (update_adjust e (rx1 - tile_timer_offset s) s1))
        \<lparr>received_sync := False\<rparr>"
    using r2(1) h2 b(10)
    by (simp add: ptp_recv_def m2 ptp_recv_follow_up_def assms(3) net_okD(2,3) [OF assms(1)] Let_def
        network_roundtrip assms(6) [symmetric] e s1)
  have te: "ts_total e = ts_total wire"
    using offset_total(1) [of 0 wire] assms(7) by (simp add: e not_less)
  have "uint (ts_seconds wire) * 1000000000 + uint (ts_nanoseconds wire) = uint (ts_seconds e) * 1000000000 + uint (ts_nanoseconds e)"
    using te by (simp add: ts_total_def)
  moreover have "0 \<le> uint (ts_nanoseconds e)" "uint (ts_nanoseconds wire) < 4294967296"
    "uint (ts_seconds wire) < 4611686018427387904"
    using uint_lt2p [of "ts_nanoseconds wire"] assms(7) by simp_all
  ultimately have "uint (ts_seconds e) < 9223372036854775808" by linarith
  then have sec: "uint (ts_seconds e) < 2 ^ 63" by simp
  have "\<not> uint (ts_nanoseconds e) + uint (ptp_path_delay s) < 0" by (simp add: not_less)
  moreover have "uint (ptp_path_delay s) < 2 ^ 63" using uint_lt2p [of "ptp_path_delay s"] by simp
  ultimately have "ts_total (ptp_timestamp_offset64 e (uint (ptp_path_delay s))) = ts_total wire + uint (ptp_path_delay s)"
    "ts_normal (ptp_timestamp_offset64 e (uint (ptp_path_delay s)))"
    using offset_total [of "uint (ptp_path_delay s)" e] sec te by (simp_all add: order_trans [of _ 0])
  then have "let s' = ptp_recv net f2 rx2 any2 (ptp_recv net f1 rx1 any1 s) in
       ptp_reference_local_ts s' = rx1 - tile_timer_offset s \<and>
       ts_total (ptp_reference_ptp_ts s') = ts_total wire + uint (ptp_path_delay s) \<and>
       ts_normal (ptp_reference_ptp_ts s') \<and> \<not> received_sync s'"
    unfolding recv1 recv2 by (simp add: Let_def update_reference_timestamps_def update_adjust_frame s1)
  with out show ?thesis by blast
qed

definition master_example :: gptp_st where
  "master_example = gptp_example\<lparr>ptp_reference_local_ts := 1000,
     ptp_reference_ptp_ts := \<lparr>ts_seconds0 = 100, ts_seconds1 = 0, ts_nanoseconds = 5\<rparr>\<rparr>"

definition slave_example :: gptp_st where
  "slave_example = gptp_zero\<lparr>ptp_state := PTP_SLAVE, master_port_id := my_port_id master_example,
     ptp_path_delay := 300, ptp_path_delay_valid := True\<rparr>"

lemma master_example_facts: "macs_ok master_example" "tile_timer_offset master_example = 0"
  "local_to_ptp_ts 1100 master_example = \<lparr>ts_seconds0 = 100, ts_seconds1 = 0, ts_nanoseconds = 1005\<rparr>"
  by code_simp+

theorem sync_transfers_time_witness:
  "\<exists>f1 f2. gp_out (send_ptp_sync_msg net_example 1100 master_example) = [f1, f2] \<and>
    ts_total (ptp_reference_ptp_ts (ptp_recv net_example f2 7777 0 (ptp_recv net_example f1 7000 0 slave_example)))
      = 100000001305"
proof -
  let ?w = "\<lparr>ts_seconds0 = 100, ts_seconds1 = 0, ts_nanoseconds = 1005\<rparr>"
  have sec: "ts_seconds ?w = 100" by (simp add: ts_seconds_def)
  have o: "gp_out master_example = []" "ptp_path_delay slave_example = 300" by code_simp+
  have "master_port_id slave_example = my_port_id master_example" by (simp add: slave_example_def)
  from sync_transfers_time [OF net_example_ok master_example_facts(1) this refl refl refl, of 1100 7777 0 7000 0]
  obtain f1 f2 where "gp_out (send_ptp_sync_msg net_example 1100 master_example) = [f1, f2]"
    "ts_total (ptp_reference_ptp_ts (ptp_recv net_example f2 7777 0 (ptp_recv net_example f1 7000 0 slave_example)))
      = ts_total ?w + 300"
    by (auto simp: master_example_facts(2,3) o sec Let_def)
  then show ?thesis by (intro exI [of _ f1] exI [of _ f2]) (simp add: ts_total_def sec)
qed

section \<open>Path delay\<close>

lemma recv_pdelay_frames:
  "frame_msg buf ! 0 AND 0xf = PTP_PDELAY_RESP_MESG \<Longrightarrow>
     ptp_recv net buf rx tx st = ptp_recv_pdelay_resp net (frame_msg buf) (rx - tile_timer_offset st) st"
  "frame_msg buf ! 0 AND 0xf = PTP_PDELAY_RESP_FOLLOW_UP_MESG \<Longrightarrow>
     ptp_recv net buf rx tx st = ptp_recv_pdelay_follow_up net (frame_msg buf) st"
  by (simp_all add: ptp_recv_def frame_msg_def Let_def)

text \<open>The rate correction of a round trip, for rates within an eighth of the nominal one.\<close>

lemma scale_round_trip:
  assumes "\<bar>adjust\<bar> < 2 ^ 27"
  shows "ptp_scale (10 * uint (ticks :: u32)) adjust = 10 * uint ticks + 10 * uint ticks * adjust div 2 ^ PTP_ADJUST_PREC"
    and "\<bar>10 * uint ticks + 10 * uint ticks * adjust div 2 ^ PTP_ADJUST_PREC\<bar> < 2 ^ 61"
proof -
  let ?d = "10 * uint ticks"
  have d: "0 \<le> ?d" "?d \<le> 42949672960" using uint_lt2p [of ticks] by simp_all
  have "\<bar>?d * adjust\<bar> = ?d * \<bar>adjust\<bar>" using d(1) by (simp add: abs_mult)
  also have "\<dots> \<le> 42949672960 * 134217728" using d assms by (intro mult_mono) simp_all
  finally have p: "\<bar>?d * adjust\<bar> \<le> 5764607523034234880" by simp
  obtain e where e: "e = ?d * adjust" by simp
  have b: "- 5764607523034234880 \<le> e" "e \<le> 5764607523034234880" using p by (simp_all add: e [symmetric] abs_le_iff)
  have "s64 e = e" by (rule s64_id) (use b in simp_all)
  have "e div 1073741824 \<le> 5764607523034234880 div 1073741824" "(- 5764607523034234880) div 1073741824 \<le> e div 1073741824"
    using b by (auto intro: zdiv_mono1)
  then have q': "e div 1073741824 \<le> 5368709120" "- 5368709120 \<le> e div 1073741824" by simp_all
  then have q: "\<bar>?d * adjust div 2 ^ PTP_ADJUST_PREC\<bar> \<le> 5368709120" by (simp add: e [symmetric] abs_le_iff)
  have "- 9223372036854775808 \<le> ?d + e div 1073741824" "?d + e div 1073741824 < 9223372036854775808"
    using d q' by linarith+
  then have lim: "- (2 ^ 63) \<le> ?d + e div 2 ^ PTP_ADJUST_PREC" "?d + e div 2 ^ PTP_ADJUST_PREC < 2 ^ 63" by simp_all
  have "s64 (?d + e div 2 ^ PTP_ADJUST_PREC) = ?d + e div 2 ^ PTP_ADJUST_PREC"
    by (rule s64_id) (use lim in simp_all)
  then show "ptp_scale ?d adjust = ?d + ?d * adjust div 2 ^ PTP_ADJUST_PREC"
    unfolding ptp_scale_def drop_bit_eq_div e [symmetric] \<open>s64 e = e\<close> .
  have "\<bar>?d + ?d * adjust div 2 ^ PTP_ADJUST_PREC\<bar> \<le> 42949672960 + 5368709120"
    using abs_triangle_ineq [of ?d "?d * adjust div 2 ^ PTP_ADJUST_PREC"] d q by linarith
  then show "\<bar>?d + ?d * adjust div 2 ^ PTP_ADJUST_PREC\<bar> < 2 ^ 61" by simp
qed

lemma half_round_trip: "(if (r :: int) sdiv 2 < 0 then 0 else r sdiv 2) = max 0 (r div 2)"
proof (cases "0 \<le> r")
  case True
  then have "r sdiv 2 = r div 2" by (simp add: signed_divide_int_def sgn_if)
  with True show ?thesis by (simp add: max_def)
next
  case False
  then have "r sdiv 2 \<le> 0" by (simp add: signed_divide_int_def)
  moreover have "r div 2 < 0" using False by simp
  ultimately show ?thesis by auto
qed

lemma update_path_delay_value:
  assumes "\<bar>g_ptp_adjust st\<bar> < 2 ^ 27" "\<bar>ts_total t3 - ts_total t2\<bar> < 2 ^ 61"
    and "trip = 10 * uint (rx - tx) + (if g_ptp_adjust_valid st
           then 10 * uint (rx - tx) * g_ptp_adjust st div 2 ^ PTP_ADJUST_PREC else 0)"
    and "delay = max 0 ((trip - (ts_total t3 - ts_total t2)) div 2)"
  shows "update_path_delay t2 t3 tx rx st = st\<lparr>ptp_path_delay :=
      (if ptp_path_delay_valid st then (ptp_path_delay st * 31 + word_of_int delay) div 32 else word_of_int delay),
      ptp_path_delay_valid := True\<rparr>"
proof -
  have diff: "ptp_timestamp_diff t3 t2 = ts_total t3 - ts_total t2"
    unfolding diff_total using assms(2) by (intro s64_id) simp_all
  have trip: "local_time_to_ptp_time (g_ptp_adjust_valid st) (rx - tx) (g_ptp_adjust st) = trip"
    using scale_round_trip(1) [OF assms(1), of "rx - tx"]
    by (simp add: local_time_to_ptp_time_def assms(3) Let_def mult.commute)
  have "0 \<le> uint (rx - tx)" "uint (rx - tx) < 4294967296" using uint_lt2p [of "rx - tx"] by simp_all
  then have "\<bar>trip\<bar> < 2 ^ 61" using scale_round_trip(2) [OF assms(1), of "rx - tx"] by (simp add: assms(3))
  then have "s64 (trip - (ts_total t3 - ts_total t2)) = trip - (ts_total t3 - ts_total t2)"
    using assms(2) by (intro s64_id) simp_all
  then show ?thesis
    unfolding update_path_delay_def Let_def trip diff
    by (simp only: half_round_trip assms(4) [symmetric]) (cases st; simp)
qed

text \<open>
  C19. The peer delay. A station sends a request and receives, as frames, a response and a
  follow-up, both with the sequence number of the request. The measured delay is half of the
  round trip less the time the request spent in the peer, in nanoseconds and never negative;
  the round trip is counted on the local clock and corrected by the station's rate ratio once
  that is known. The first measurement becomes the path delay, every later one enters it with
  a weight of 1/32. When no earlier response waits for its follow-up, a response or a follow-up with
  another sequence number, or in legacy mode from another station than the master, leaves the
  delay alone.
\<close>

theorem pdelay_measures:
  assumes "\<bar>g_ptp_adjust st\<bar> < 2 ^ 27"
    and kinds: "frame_msg resp ! 0 AND 0xf = PTP_PDELAY_RESP_MESG" "frame_msg follow ! 0 AND 0xf = PTP_PDELAY_RESP_FOLLOW_UP_MESG"
    and s0: "s0 = send_ptp_pdelay_req_msg net now tx st"
    and s1: "s1 = ptp_recv net resp rx any1 s0" and s2: "s2 = ptp_recv net follow rx2 any2 s1"
    and t2: "t2 = network_to_ptp_timestamp (get_bytes 34 10 (frame_msg resp))"
    and t3: "t3 = network_to_ptp_timestamp (get_bytes 34 10 (frame_msg follow))"
    and peer: "\<bar>ts_total t3 - ts_total t2\<bar> < 2 ^ 61"
    and trip: "trip = 10 * uint (rx - tx) + (if g_ptp_adjust_valid st
           then 10 * uint (rx - tx) * g_ptp_adjust st div 2 ^ PTP_ADJUST_PREC else 0)"
    and delay: "delay = max 0 ((trip - (ts_total t3 - ts_total t2)) div 2)"
  shows "(ptp_accepts_pdelay (frame_msg resp) st \<longrightarrow> ptp_accepts_pdelay (frame_msg follow) st \<longrightarrow>
            ntoh16 net (cm_sequenceId (frame_msg resp)) = pdelay_req_seq_id st + 1 \<longrightarrow>
            ntoh16 net (cm_sequenceId (frame_msg follow)) = pdelay_req_seq_id st + 1 \<longrightarrow>
              ptp_path_delay_valid s2 \<and>
              ptp_path_delay s2 = (if ptp_path_delay_valid st then (ptp_path_delay st * 31 + word_of_int delay) div 32
                                   else word_of_int delay) \<and>
              (ptp_path_delay_valid st \<longrightarrow> 31 * uint (ptp_path_delay st) + delay < 2 ^ 32 \<longrightarrow>
                 uint (ptp_path_delay s2) = (31 * uint (ptp_path_delay st) + delay) div 32)) \<and>
         (ntoh16 net (cm_sequenceId (frame_msg follow)) \<noteq> pdelay_req_seq_id st + 1 \<or>
            \<not> ptp_accepts_pdelay (frame_msg follow) st \<longrightarrow> \<not> received_pdelay st \<longrightarrow>
            ptp_path_delay s2 = ptp_path_delay st \<and> ptp_path_delay_valid s2 = ptp_path_delay_valid st) \<and>
         (ntoh16 net (cm_sequenceId (frame_msg resp)) \<noteq> pdelay_req_seq_id st + 1 \<or>
            \<not> ptp_accepts_pdelay (frame_msg resp) st \<longrightarrow> \<not> received_pdelay st \<longrightarrow>
            ptp_path_delay s2 = ptp_path_delay st \<and> ptp_path_delay_valid s2 = ptp_path_delay_valid st)"
proof -
  let ?id = "pdelay_req_seq_id st + 1" and ?off = "tile_timer_offset st"
  let ?r = "ntoh16 net (cm_sequenceId (frame_msg resp))" and ?f = "ntoh16 net (cm_sequenceId (frame_msg follow))"
  have z: "ptp_legacy_mode s0 = ptp_legacy_mode st" "master_port_id s0 = master_port_id st" "pdelay_request_sent s0"
    "pdelay_req_seq_id s0 = ?id" "pdelay_request_sent_ts s0 = tx - ?off" "g_ptp_adjust s0 = g_ptp_adjust st"
    "g_ptp_adjust_valid s0 = g_ptp_adjust_valid st" "ptp_path_delay s0 = ptp_path_delay st"
    "ptp_path_delay_valid s0 = ptp_path_delay_valid st" "received_pdelay s0 = received_pdelay st" "tile_timer_offset s0 = ?off"
    by (simp_all add: s0 send_ptp_pdelay_req_msg_def Let_def ptp_tx_def)
  have acc: "ptp_accepts_pdelay m s0 = ptp_accepts_pdelay m st" for m by (simp add: ptp_accepts_pdelay_def z)
  have r1: "s1 = ptp_recv_pdelay_resp net (frame_msg resp) (rx - ?off) s0"
    unfolding s1 recv_pdelay_frames(1) [OF kinds(1)] z ..
  have r2: "s2 = ptp_recv_pdelay_follow_up net (frame_msg follow) s1"
    unfolding s2 recv_pdelay_frames(2) [OF kinds(2)] ..
  have matched: "s1 = s0\<lparr>received_pdelay := True, received_pdelay_id := ?id, pdelay_resp_ingress_ts := rx - ?off,
      pdelay_request_receipt_ts := t2, pdelay_request_sent := False\<rparr>"
    if "ptp_accepts_pdelay (frame_msg resp) st" "?r = ?id"
    using that z by (simp add: r1 ptp_recv_pdelay_resp_def acc t2)
  have unmatched: "ptp_path_delay s2 = ptp_path_delay st \<and> ptp_path_delay_valid s2 = ptp_path_delay_valid st"
    if "\<not> received_pdelay s1" "ptp_path_delay s1 = ptp_path_delay st" "ptp_path_delay_valid s1 = ptp_path_delay_valid st"
    using that by (simp add: r2 ptp_recv_pdelay_follow_up_def)
  have first: "ptp_path_delay_valid s2 \<and> ptp_path_delay s2 =
      (if ptp_path_delay_valid st then (ptp_path_delay st * 31 + word_of_int delay) div 32 else word_of_int delay)"
    if "ptp_accepts_pdelay (frame_msg resp) st" "ptp_accepts_pdelay (frame_msg follow) st" "?r = ?id" "?f = ?id"
  proof -
    note m = matched [OF that(1,3)]
    have a: "ptp_accepts_pdelay (frame_msg follow) s1" using that(2) by (simp add: m acc ptp_accepts_pdelay_def z)
    have "\<bar>g_ptp_adjust s1\<bar> < 2 ^ 27" using assms(1) by (simp add: m z)
    moreover have "trip = 10 * uint ((rx - ?off) - (tx - ?off)) + (if g_ptp_adjust_valid s1
        then 10 * uint ((rx - ?off) - (tx - ?off)) * g_ptp_adjust s1 div 2 ^ PTP_ADJUST_PREC else 0)"
      by (simp add: m z trip)
    ultimately have "update_path_delay t2 t3 (tx - ?off) (rx - ?off) s1 = s1\<lparr>ptp_path_delay :=
        (if ptp_path_delay_valid st then (ptp_path_delay st * 31 + word_of_int delay) div 32 else word_of_int delay),
        ptp_path_delay_valid := True\<rparr>"
      using update_path_delay_value [OF _ peer _ delay] by (simp add: m z)
    then show ?thesis using that(4) a by (simp add: r2 ptp_recv_pdelay_follow_up_def t3 [symmetric] m z)
  qed
  have avg: "uint ((w * 31 + word_of_int delay) div 32 :: u32) = (31 * uint w + delay) div 32"
    if "31 * uint w + delay < 2 ^ 32" for w :: u32
  proof -
    have sum: "w * 31 + word_of_int delay = (word_of_int (31 * uint w + delay) :: u32)" by simp
    have "0 \<le> 31 * uint w + delay" by (simp add: delay)
    then have "uint (word_of_int (31 * uint w + delay) :: u32) = 31 * uint w + delay"
      using that by (simp only: uint_word_of_int) simp
    then show ?thesis unfolding sum by (simp only: uint_div_distrib) simp
  qed
  have "ptp_path_delay s2 = ptp_path_delay st \<and> ptp_path_delay_valid s2 = ptp_path_delay_valid st"
    if "?f \<noteq> ?id \<or> \<not> ptp_accepts_pdelay (frame_msg follow) st" "\<not> received_pdelay st"
  proof (cases "ptp_accepts_pdelay (frame_msg resp) st \<and> ?r = ?id")
    case True
    then have m: "s1 = s0\<lparr>received_pdelay := True, received_pdelay_id := ?id, pdelay_resp_ingress_ts := rx - ?off,
        pdelay_request_receipt_ts := t2, pdelay_request_sent := False\<rparr>" using matched by blast
    then have "ptp_accepts_pdelay (frame_msg follow) s1 = ptp_accepts_pdelay (frame_msg follow) st"
      by (simp add: ptp_accepts_pdelay_def z)
    then show ?thesis using that m z by (auto simp: r2 ptp_recv_pdelay_follow_up_def)
  next
    case False
    then show ?thesis using that z by (intro unmatched) (auto simp: r1 ptp_recv_pdelay_resp_def acc)
  qed
  moreover have "ptp_path_delay s2 = ptp_path_delay st \<and> ptp_path_delay_valid s2 = ptp_path_delay_valid st"
    if "?r \<noteq> ?id \<or> \<not> ptp_accepts_pdelay (frame_msg resp) st" "\<not> received_pdelay st"
    using that z by (intro unmatched) (auto simp: r1 ptp_recv_pdelay_resp_def acc)
  ultimately show ?thesis using first avg by simp
qed

definition pdelay_msg_example :: "u8 \<Rightarrow> u8 \<Rightarrow> u8 list" where
  "pdelay_msg_example kind ns = replicate 14 0 @ kind # replicate 29 0 @ [0, 1, 0, 0] @ [0, 0, 0, 0, 0, 9, 0, 0, ns, 0]"

theorem pdelay_measures_witness:
  "ptp_path_delay (ptp_recv net_example (pdelay_msg_example 0x1A 4) 0 0
      (ptp_recv net_example (pdelay_msg_example 0x13 2) 1100 0
        (send_ptp_pdelay_req_msg net_example 900 1000
           (gptp_zero\<lparr>ptp_path_delay_valid := True, ptp_path_delay := 564\<rparr>)))) = 554"
proof -
  let ?st = "gptp_zero\<lparr>ptp_path_delay_valid := True, ptp_path_delay := 564\<rparr>"
  have t: "network_to_ptp_timestamp (get_bytes 34 10 (frame_msg (pdelay_msg_example 0x13 2))) = \<lparr>ts_seconds0 = 9, ts_seconds1 = 0, ts_nanoseconds = 512\<rparr>"
    "network_to_ptp_timestamp (get_bytes 34 10 (frame_msg (pdelay_msg_example 0x1A 4))) = \<lparr>ts_seconds0 = 9, ts_seconds1 = 0, ts_nanoseconds = 1024\<rparr>"
    "ntoh16 net_example (cm_sequenceId (frame_msg (pdelay_msg_example 0x13 2))) = 1"
    "ntoh16 net_example (cm_sequenceId (frame_msg (pdelay_msg_example 0x1A 4))) = 1"
    "frame_msg (pdelay_msg_example 0x13 2) ! 0 AND 0xf = PTP_PDELAY_RESP_MESG"
    "frame_msg (pdelay_msg_example 0x1A 4) ! 0 AND 0xf = PTP_PDELAY_RESP_FOLLOW_UP_MESG"
    by code_simp+
  have sec: "ts_seconds \<lparr>ts_seconds0 = 9, ts_seconds1 = 0, ts_nanoseconds = n\<rparr> = 9" for n by (simp add: ts_seconds_def)
  show ?thesis
    using pdelay_measures [of ?st "pdelay_msg_example 0x13 2" "pdelay_msg_example 0x1A 4" _ net_example 900 1000 _ 1100 0 _ 0 0,
        OF _ t(5,6) refl refl refl refl refl _ refl refl]
    by (simp add: t ts_total_def sec gptp_zero_def ptp_accepts_pdelay_def)
qed

lemma get_bytes_split: "get_bytes a (n + k) b = get_bytes a n b @ get_bytes (a + n) k b"
  by (simp add: get_bytes_def take_add drop_drop add.commute [of a n])

lemma get_bytes_inner: "get_bytes (a + k) n b = drop k (get_bytes a (k + n) b)"
  by (simp add: get_bytes_def drop_take add.commute)

text \<open>
  A Pdelay_Req leaves the station with a damaged header. Its origin timestamp is written four
  octets (the size of a pointer) after the start of the common header: the domain number and
  the flags carry the seconds, the correction field the rest of the timestamp, and the field
  of the origin timestamp itself stays zero.
\<close>

theorem pdelay_req_header_overwritten:
  assumes "net_ok net" "macs_ok st" "st' = send_ptp_pdelay_req_msg net now tx st"
    and "stamp = timestamp_to_network (local_to_ptp_ts (now + MESSAGE_PROCESS_TIME) st)"
  shows "\<exists>f. gp_out st' = gp_out st @ [f] \<and> length f = 68 \<and>
    get_bytes 4 4 (drop 14 f) = take 4 stamp \<and>
    cm_correctionField (drop 14 f) = drop 4 stamp @ [0, 0] \<and>
    get_bytes 34 10 (drop 14 f) = replicate 10 0"
proof -
  note len = net_okD(1) [OF assms(1)]
  have port: "length (my_port_id st) = 10" using assms(2) by (simp add: macs_ok_def)
  have ls: "length stamp = 10" by (simp add: assms(4))
  obtain fs :: "(nat \<times> u8 list) list" where fs: "fs = [(0, [0x12]), (1, [2]), (2, hton16 net 54), (20, my_port_id st),
      (8, replicate 8 0), (30, hton16 net (pdelay_req_seq_id st + 1)), (32, [5]), (33, [0x7F])]" by simp
  have ok: "fields_ok (length (replicate 54 (0 :: u8))) fs" by (simp add: fs field_apart_def len port)
  obtain b where b: "b = put_fields fs (replicate 54 0)" by simp
  have lb: "length b = 54" using length_put_fields [OF ok] by (simp add: b)
  have corr: "get_bytes 8 8 b = replicate 8 0"
    using put_fields_read [OF ok, of "(8, replicate 8 0)"] by (simp add: fs b)
  have orig: "get_bytes 34 10 b = replicate 10 0"
  proof -
    have "get_bytes 34 10 b = get_bytes 34 10 (replicate 54 (0 :: u8))"
      unfolding b by (rule put_fields_other [OF ok]) (simp_all add: fs field_apart_def len port)
    then show ?thesis by (simp add: get_bytes_def)
  qed
  obtain c where c: "c = put_bytes 4 stamp b" by simp
  have lc: "length c = 54" by (simp add: c lb ls)
  have c1: "get_bytes 4 10 c = stamp" unfolding c by (rule get_put_bytes_same) (simp_all add: lb ls)
  have c2: "get_bytes 14 2 c = [0, 0]" "get_bytes 34 10 c = replicate 10 0"
  proof -
    have "get_bytes 14 2 b = drop 6 (get_bytes 8 8 b)" using get_bytes_inner [of 8 6 2 b] by simp
    also have "\<dots> = [0, 0]" unfolding corr by (simp add: numeral_2_eq_2)
    finally show "get_bytes 14 2 c = [0, 0]"
      using get_put_bytes_other [of 4 stamp b 14 2] lb ls by (simp add: c)
    show "get_bytes 34 10 c = replicate 10 0"
      using get_put_bytes_other [of 4 stamp b 34 10] lb ls orig by (simp add: c)
  qed
  have "get_bytes 4 4 c = take 4 stamp" using c1 get_bytes_split [of 4 4 6 c] lc by simp
  moreover have "cm_correctionField c = drop 4 stamp @ [0, 0]"
    using c1 c2(1) get_bytes_split [of 8 6 2 c] get_bytes_inner [of 4 4 6 c] by (simp add: cm_correctionField_def)
  moreover obtain f where f: "f = take (if 68 < (64 :: nat) then 64 else 68) (set_ptp_ethernet_hdr st @ c)" by simp
  have "gp_out st' = gp_out st @ [f]"
    by (simp add: assms(3,4) send_ptp_pdelay_req_msg_def Let_def ptp_tx_def f c b fs put_fields_append
        set_ptp_ethernet_hdr_def local_to_ptp_ts_def)
  moreover have "drop 14 f = c" using frame_read(2) [OF assms(2) f] lc by simp
  moreover have "length f = 68"
    using assms(2) lc by (simp add: f set_ptp_ethernet_hdr_def macs_ok_def)
  ultimately show ?thesis using c2(2) by blast
qed

theorem pdelay_req_header_overwritten_witness:
  "\<exists>f. gp_out (send_ptp_pdelay_req_msg net_example 1000 0 master_example) = [f] \<and>
     cm_correctionField (drop 14 f) = [0, 100, 0, 0, 0x8B, 0x33, 0, 0]"
proof -
  have "gp_out master_example = []"
    "timestamp_to_network (local_to_ptp_ts (1000 + MESSAGE_PROCESS_TIME) master_example) = [0, 0, 0, 0, 0, 100, 0, 0, 0x8B, 0x33]"
    by code_simp+
  then show ?thesis
    using pdelay_req_header_overwritten [OF net_example_ok master_example_facts(1) refl refl, of 1000 0] by auto
qed

text \<open>
  The 64-bit epoch counter behind the timestamps of Pdelay responses. When \<open>n\<close> ticks of the
  32-bit counter have passed since the last call, the epoch advances by \<open>n\<close> only if the
  counter did not wrap; at each wrap it loses a tick, and two calls with the same counter
  value advance it by almost 43 seconds.
\<close>

theorem epoch_counter_drifts:
  assumes "0 \<le> n" "n < 2 ^ 32" "t = prev_pdelay_local_ts st + word_of_int n"
    and "local_to_epoch_ts t st = (ts, st')"
  shows "pdelay_epoch_timer st' = pdelay_epoch_timer st +
      word_of_int (if n = 0 then 2 ^ 32 - 1 else if t < prev_pdelay_local_ts st then n - 1 else n) \<and>
    prev_pdelay_local_ts st' = t"
proof -
  let ?p = "prev_pdelay_local_ts st"
  have d: "t - ?p = word_of_int n" by (simp add: assms(3))
  have u: "uint (word_of_int n :: u32) = n" using assms(1,2) by (simp add: uint_word_of_int)
  have up: "(ucast w :: u64) = word_of_int (uint w)" for w :: u32 by simp
  have st': "st' = st\<lparr>pdelay_epoch_timer := pdelay_epoch_timer st +
      (if t \<le> ?p then ucast ((0xFFFFFFFF - ?p) + t) else ucast (t - ?p)), prev_pdelay_local_ts := t\<rparr>"
    using assms(4) by (simp add: local_to_epoch_ts_def Let_def)
  have "(0xFFFFFFFF :: u32) = - 1" by simp
  then have "(0xFFFFFFFF - ?p) + t = (t - ?p) - 1" by (simp only:) simp
  then have wrap: "(0xFFFFFFFF - ?p) + t = word_of_int (n - 1)" unfolding d by simp
  have zero: "n = 0 \<longleftrightarrow> t = ?p"
  proof
    assume "t = ?p"
    then have "(word_of_int n :: u32) = 0" using d by simp
    then show "n = 0" using u by simp
  qed (use assms(3) in simp)
  consider "n = 0" | "n \<noteq> 0" "t < ?p" | "n \<noteq> 0" "\<not> t < ?p" by blast
  then show ?thesis
  proof cases
    case 1
    then have "t = ?p" using zero by simp
    then show ?thesis using 1 by (simp add: st')
  next
    case 2
    have "(n - 1) mod 2 ^ 32 = n - 1" using 2 assms(1,2) by (intro mod_pos_pos_trivial) simp_all
    then have "uint (word_of_int (n - 1) :: u32) = n - 1" unfolding uint_word_of_int by simp
    then have "(ucast ((0xFFFFFFFF - ?p) + t) :: u64) = word_of_int (n - 1)" unfolding wrap by (simp only: up)
    moreover have "t \<le> ?p" using 2 by simp
    ultimately show ?thesis using 2(1,2) by (simp only: st' if_True if_False simp_thms) simp
  next
    case 3
    then have "\<not> t \<le> ?p" using zero by simp
    moreover have "(ucast (t - ?p) :: u64) = word_of_int n" unfolding d by (simp only: up u)
    ultimately show ?thesis using 3 by (simp only: st' if_True if_False simp_thms) simp
  qed
qed

theorem epoch_counter_drifts_witness:
  "pdelay_epoch_timer (snd (local_to_epoch_ts 5 (gptp_zero\<lparr>prev_pdelay_local_ts := 0xFFFFFFFE\<rparr>))) = 6"
  using epoch_counter_drifts [of 7 5 "gptp_zero\<lparr>prev_pdelay_local_ts := 0xFFFFFFFE\<rparr>", OF _ _ _ surjective_pairing]
  by (simp add: gptp_zero_def)

end
