(* ===== verification/Avb_1722_Header.thy ===== *)
theory Avb_1722_Header
  imports Avb_1722_Common
begin

text \<open>
  The headers of a 1722 audio frame: the tagged Ethernet header, the AVTP common stream header and
  the 61883-6 CIP header (\<open>avb_1722_common.h\<close> and \<open>avb_1722_def.h\<close>). A struct pointer is the
  offset of its first byte in the buffer.
\<close>

section \<open>Constants\<close>

definition AVB_ETHERNET_HDR_SIZE :: nat where "AVB_ETHERNET_HDR_SIZE = 18"
definition AVB_TP_HDR_SIZE :: nat where "AVB_TP_HDR_SIZE = 24"
definition AVB_CIP_HDR_SIZE :: nat where "AVB_CIP_HDR_SIZE = 8"
definition MBLA_24BIT :: u32 where "MBLA_24BIT = 0x40000000"
definition MBLA_20BIT :: u32 where "MBLA_20BIT = 0x41000000"
definition MBLA_16BIT :: u32 where "MBLA_16BIT = 0x42000000"
definition AVB1722_PACKET_RATE :: u32 where "AVB1722_PACKET_RATE = 8000"
definition AVB1722_PACKET_PERIOD_TIMER_TICKS :: int where
  "AVB1722_PACKET_PERIOD_TIMER_TICKS = ((100000000 div 8000) * 98) div 100"

lemmas header_sizes = AVB_ETHERNET_HDR_SIZE_def AVB_TP_HDR_SIZE_def AVB_CIP_HDR_SIZE_def

section \<open>Byte stores\<close>

text \<open>\<open>b = v\<close> and \<open>b |= v\<close> on a byte of the buffer, the value cut to eight bits.\<close>

definition store_byte :: "nat \<Rightarrow> u32 \<Rightarrow> u8 list \<Rightarrow> u8 list" where
  "store_byte i v buf = buf[i := ucast v]"

definition or_byte :: "nat \<Rightarrow> u32 \<Rightarrow> u8 list \<Rightarrow> u8 list" where
  "or_byte i v buf = modify_nth i (\<lambda>b. b OR ucast v) buf"

lemma length_store_byte [simp]: "length (store_byte i v buf) = length buf"
  by (simp add: store_byte_def)

lemma length_or_byte [simp]: "length (or_byte i v buf) = length buf"
  by (simp add: or_byte_def)

lemma nth_store_byte [simp]:
  "store_byte i v buf ! j = (if i = j \<and> j < length buf then ucast v else buf ! j)"
  by (cases "i < length buf") (auto simp: store_byte_def nth_list_update list_update_beyond)

lemma nth_or_byte [simp]:
  "or_byte i v buf ! j = (if i = j \<and> j < length buf then (buf ! j) OR ucast v else buf ! j)"
  by (cases "i < length buf") (auto simp: or_byte_def modify_nth_def nth_list_update list_update_beyond)

text \<open>The compiler's byte swap, and the bytes of a word as a store leaves them in memory.\<close>

definition bswap32 :: "u32 \<Rightarrow> u32" where
  "bswap32 w = of_octets (octet w 3) (octet w 2) (octet w 1) (octet w 0)"

definition word_octets :: "u32 \<Rightarrow> u8 list" where
  "word_octets w = [octet w 0, octet w 1, octet w 2, octet w 3]"

section \<open>The Ethernet header\<close>

definition SET_AVBTP_PCP :: "nat \<Rightarrow> u32 \<Rightarrow> u8 list \<Rightarrow> u8 list" where
  "SET_AVBTP_PCP x a = or_byte (x + 14) (push_bit 5 a)"

definition SET_AVBTP_CFI :: "nat \<Rightarrow> u32 \<Rightarrow> u8 list \<Rightarrow> u8 list" where
  "SET_AVBTP_CFI x a = or_byte (x + 14) (push_bit 4 (a AND 0x1))"

definition SET_AVBTP_VID :: "nat \<Rightarrow> u32 \<Rightarrow> u8 list \<Rightarrow> u8 list" where
  "SET_AVBTP_VID x a = store_byte (x + 15) (a AND 0xFF) \<circ> or_byte (x + 14) (drop_bit 8 (a AND 0xF00))"

definition SET_AVBTP_TPID :: "nat \<Rightarrow> u32 \<Rightarrow> u8 list \<Rightarrow> u8 list" where
  "SET_AVBTP_TPID x a = store_byte (x + 13) (a AND 0xFF) \<circ> store_byte (x + 12) (drop_bit 8 a)"

definition SET_AVBTP_ETYPE :: "nat \<Rightarrow> u32 \<Rightarrow> u8 list \<Rightarrow> u8 list" where
  "SET_AVBTP_ETYPE x a = store_byte (x + 17) (a AND 0xFF) \<circ> store_byte (x + 16) (drop_bit 8 a)"

text \<open>The readers, in host byte order.\<close>

definition u32_of :: "u8 \<Rightarrow> u32" where "u32_of b = ucast b"

definition AVBTP_PCP :: "nat \<Rightarrow> u8 list \<Rightarrow> u32" where
  "AVBTP_PCP x b = drop_bit 5 (u32_of (b ! (x + 14)))"

definition AVBTP_VID :: "nat \<Rightarrow> u8 list \<Rightarrow> u32" where
  "AVBTP_VID x b = push_bit 8 (u32_of (b ! (x + 14)) AND 0xF) OR u32_of (b ! (x + 15))"

definition AVBTP_TPID :: "nat \<Rightarrow> u8 list \<Rightarrow> u32" where
  "AVBTP_TPID x b = push_bit 8 (u32_of (b ! (x + 12))) OR u32_of (b ! (x + 13))"

definition AVBTP_ETYPE :: "nat \<Rightarrow> u8 list \<Rightarrow> u32" where
  "AVBTP_ETYPE x b = push_bit 8 (u32_of (b ! (x + 16))) OR u32_of (b ! (x + 17))"

section \<open>The AVTP common stream header\<close>

definition put_u32 :: "nat \<Rightarrow> u32 \<Rightarrow> u8 list \<Rightarrow> u8 list" where
  "put_u32 x a = store_byte (x + 3) (a AND 0xFF) \<circ> store_byte (x + 2) (drop_bit 8 a AND 0xFF) \<circ>
     store_byte (x + 1) (drop_bit 16 a AND 0xFF) \<circ> store_byte x (drop_bit 24 a AND 0xFF)"

definition get_u32 :: "nat \<Rightarrow> u8 list \<Rightarrow> u32" where
  "get_u32 x b = push_bit 24 (u32_of (b ! x)) OR push_bit 16 (u32_of (b ! (x + 1))) OR
     push_bit 8 (u32_of (b ! (x + 2))) OR u32_of (b ! (x + 3))"

definition SET_AVBTP_SV :: "nat \<Rightarrow> u32 \<Rightarrow> u8 list \<Rightarrow> u8 list" where
  "SET_AVBTP_SV x a = or_byte (x + 1) (push_bit 7 (a AND 0x1))"

definition SET_AVBTP_TV :: "nat \<Rightarrow> u32 \<Rightarrow> u8 list \<Rightarrow> u8 list" where
  "SET_AVBTP_TV x a b = store_byte (x + 1) ((u32_of (b ! (x + 1)) AND NOT 0x1) OR (a AND 0x1)) b"

definition SET_AVBTP_SEQUENCE_NUMBER :: "nat \<Rightarrow> u32 \<Rightarrow> u8 list \<Rightarrow> u8 list" where
  "SET_AVBTP_SEQUENCE_NUMBER x a = store_byte (x + 2) (a AND 0xff)"

definition SET_AVBTP_TIMESTAMP :: "nat \<Rightarrow> u32 \<Rightarrow> u8 list \<Rightarrow> u8 list" where
  "SET_AVBTP_TIMESTAMP x a = put_u32 (x + 12) a"

definition SET_AVBTP_STREAM_ID1 :: "nat \<Rightarrow> u32 \<Rightarrow> u8 list \<Rightarrow> u8 list" where
  "SET_AVBTP_STREAM_ID1 x a = put_u32 (x + 4) a"

definition SET_AVBTP_STREAM_ID0 :: "nat \<Rightarrow> u32 \<Rightarrow> u8 list \<Rightarrow> u8 list" where
  "SET_AVBTP_STREAM_ID0 x a = put_u32 (x + 8) a"

definition SET_AVBTP_PACKET_DATA_LENGTH :: "nat \<Rightarrow> u32 \<Rightarrow> u8 list \<Rightarrow> u8 list" where
  "SET_AVBTP_PACKET_DATA_LENGTH x a = store_byte (x + 21) (a AND 0xFF) \<circ> store_byte (x + 20) (drop_bit 8 a)"

definition AVBTP_CD :: "nat \<Rightarrow> u8 list \<Rightarrow> u32" where
  "AVBTP_CD x b = drop_bit 7 (u32_of (b ! x))"

definition AVBTP_SV :: "nat \<Rightarrow> u8 list \<Rightarrow> u32" where
  "AVBTP_SV x b = drop_bit 7 (u32_of (b ! (x + 1)))"

definition AVBTP_TV :: "nat \<Rightarrow> u8 list \<Rightarrow> u32" where
  "AVBTP_TV x b = u32_of (b ! (x + 1)) AND 0x1"

definition AVBTP_SEQUENCE_NUMBER :: "nat \<Rightarrow> u8 list \<Rightarrow> u32" where
  "AVBTP_SEQUENCE_NUMBER x b = u32_of (b ! (x + 2))"

definition AVBTP_TIMESTAMP :: "nat \<Rightarrow> u8 list \<Rightarrow> u32" where
  "AVBTP_TIMESTAMP x b = get_u32 (x + 12) b"

definition AVBTP_STREAM_ID1 :: "nat \<Rightarrow> u8 list \<Rightarrow> u32" where
  "AVBTP_STREAM_ID1 x b = get_u32 (x + 4) b"

definition AVBTP_STREAM_ID0 :: "nat \<Rightarrow> u8 list \<Rightarrow> u32" where
  "AVBTP_STREAM_ID0 x b = get_u32 (x + 8) b"

definition AVBTP_PACKET_DATA_LENGTH :: "nat \<Rightarrow> u8 list \<Rightarrow> u32" where
  "AVBTP_PACKET_DATA_LENGTH x b = push_bit 8 (u32_of (b ! (x + 20))) OR u32_of (b ! (x + 21))"

section \<open>The CIP header\<close>

text \<open>\<open>protocol_specific\<close> belongs to the AVTP header at \<open>x\<close>, the other fields to the CIP header at \<open>x\<close>.\<close>

definition SET_AVB1722_CIP_TAG :: "nat \<Rightarrow> u32 \<Rightarrow> u8 list \<Rightarrow> u8 list" where
  "SET_AVB1722_CIP_TAG x a = or_byte (x + 22) (push_bit 6 (a AND 0x3))"

definition SET_AVB1722_CIP_CHANNEL :: "nat \<Rightarrow> u32 \<Rightarrow> u8 list \<Rightarrow> u8 list" where
  "SET_AVB1722_CIP_CHANNEL x a = or_byte (x + 22) (a AND 0x3F)"

definition SET_AVB1722_CIP_TCODE :: "nat \<Rightarrow> u32 \<Rightarrow> u8 list \<Rightarrow> u8 list" where
  "SET_AVB1722_CIP_TCODE x a = or_byte (x + 23) (push_bit 4 (a AND 0xF))"

definition SET_AVB1722_CIP_SY :: "nat \<Rightarrow> u32 \<Rightarrow> u8 list \<Rightarrow> u8 list" where
  "SET_AVB1722_CIP_SY x a = or_byte (x + 23) (a AND 0xF)"

definition SET_AVB1722_CIP_SID :: "nat \<Rightarrow> u32 \<Rightarrow> u8 list \<Rightarrow> u8 list" where
  "SET_AVB1722_CIP_SID x a = or_byte x (a AND 0x3F)"

definition SET_AVB1722_CIP_EOH1 :: "nat \<Rightarrow> u32 \<Rightarrow> u8 list \<Rightarrow> u8 list" where
  "SET_AVB1722_CIP_EOH1 x a = or_byte x (push_bit 6 (a AND 0x3))"

definition SET_AVB1722_CIP_DBS :: "nat \<Rightarrow> u32 \<Rightarrow> u8 list \<Rightarrow> u8 list" where
  "SET_AVB1722_CIP_DBS x a = store_byte (x + 1) a"

definition SET_AVB1722_CIP_FN :: "nat \<Rightarrow> u32 \<Rightarrow> u8 list \<Rightarrow> u8 list" where
  "SET_AVB1722_CIP_FN x a = or_byte (x + 2) (push_bit 6 (a AND 0x3))"

definition SET_AVB1722_CIP_QPC :: "nat \<Rightarrow> u32 \<Rightarrow> u8 list \<Rightarrow> u8 list" where
  "SET_AVB1722_CIP_QPC x a = or_byte (x + 2) (push_bit 3 (a AND 0x7))"

definition SET_AVB1722_CIP_SPH :: "nat \<Rightarrow> u32 \<Rightarrow> u8 list \<Rightarrow> u8 list" where
  "SET_AVB1722_CIP_SPH x a = or_byte (x + 2) (push_bit 2 (a AND 0x1))"

definition SET_AVB1722_CIP_DBC :: "nat \<Rightarrow> u32 \<Rightarrow> u8 list \<Rightarrow> u8 list" where
  "SET_AVB1722_CIP_DBC x a = store_byte (x + 3) a"

definition SET_AVB1722_CIP_EOH2 :: "nat \<Rightarrow> u32 \<Rightarrow> u8 list \<Rightarrow> u8 list" where
  "SET_AVB1722_CIP_EOH2 x a = or_byte (x + 4) (push_bit 6 (a AND 0x3))"

definition SET_AVB1722_CIP_FMT :: "nat \<Rightarrow> u32 \<Rightarrow> u8 list \<Rightarrow> u8 list" where
  "SET_AVB1722_CIP_FMT x a = or_byte (x + 4) (a AND 0x3F)"

definition SET_AVB1722_CIP_FDF :: "nat \<Rightarrow> u32 \<Rightarrow> u8 list \<Rightarrow> u8 list" where
  "SET_AVB1722_CIP_FDF x a = store_byte (x + 5) a"

definition SET_AVB1722_CIP_SYT :: "nat \<Rightarrow> u32 \<Rightarrow> u8 list \<Rightarrow> u8 list" where
  "SET_AVB1722_CIP_SYT x a = store_byte (x + 7) (a AND 0xFF) \<circ> store_byte (x + 6) (drop_bit 8 a)"

lemmas eth_setters = SET_AVBTP_PCP_def SET_AVBTP_CFI_def SET_AVBTP_VID_def SET_AVBTP_TPID_def SET_AVBTP_ETYPE_def

lemmas avtp_setters = SET_AVBTP_SV_def SET_AVBTP_TV_def SET_AVBTP_SEQUENCE_NUMBER_def SET_AVBTP_TIMESTAMP_def
  SET_AVBTP_STREAM_ID1_def SET_AVBTP_STREAM_ID0_def SET_AVBTP_PACKET_DATA_LENGTH_def put_u32_def

lemmas cip_setters = SET_AVB1722_CIP_TAG_def SET_AVB1722_CIP_CHANNEL_def SET_AVB1722_CIP_TCODE_def
  SET_AVB1722_CIP_SY_def SET_AVB1722_CIP_SID_def SET_AVB1722_CIP_EOH1_def SET_AVB1722_CIP_DBS_def
  SET_AVB1722_CIP_FN_def SET_AVB1722_CIP_QPC_def SET_AVB1722_CIP_SPH_def SET_AVB1722_CIP_DBC_def
  SET_AVB1722_CIP_EOH2_def SET_AVB1722_CIP_FMT_def SET_AVB1722_CIP_FDF_def SET_AVB1722_CIP_SYT_def

text \<open>A field of four bytes is read back, and is not touched by stores elsewhere.\<close>

lemma get_put_u32: "x + 3 < length b \<Longrightarrow> get_u32 x (put_u32 x a b) = a"
proof (rule bit_word_eqI)
  fix n assume "x + 3 < length b" "n < LENGTH(32)"
  then show "bit (get_u32 x (put_u32 x a b)) n = bit a n"
    by (cases "n < 8"; cases "n < 16"; cases "n < 24")
      (auto simp: get_u32_def put_u32_def u32_of_def low_byte_32 bit_or_iff bit_push_bit_iff bit_ucast_iff
        bit_and_iff bit_mask_iff bit_drop_bit_eq)
qed

lemma nth_put_u32_other: "j < x \<or> x + 3 < j \<Longrightarrow> put_u32 x a b ! j = b ! j"
  by (auto simp: put_u32_def)

lemma length_put_u32 [simp]: "length (put_u32 x a b) = length b"
  by (simp add: put_u32_def)

end
