(* ===== verification/Media_Output_Fifo.thy ===== *)
theory Media_Output_Fifo
  imports Avb_1722_Header
begin

text \<open>
  The media output FIFO (\<open>media_output_fifo.c\<close>), which the 1722 thread fills with received
  samples and the audio thread drains. The pointers into the array \<open>fifo\<close> are indices, the
  null marker is \<open>None\<close>, and the number of words is the length of the array. The build has
  neither \<open>MEDIA_OUTPUT_FIFO_VOLUME_CONTROL\<close> nor \<open>AVB_1722_FORMAT_SAF\<close>. Notifications and
  answers to the buffer control channel are returned as lists.
\<close>

section \<open>Bounded queues\<close>

text \<open>
  What the two threads rely on: putting appends when there is room and is otherwise ignored,
  getting takes the oldest element. Over any interleaving the elements come out in the order
  in which they were accepted.
\<close>

datatype ('a, 't) queue_op = Put 'a | Get 't

locale bounded_queue =
  fixes inv :: "'s \<Rightarrow> bool"
    and contents :: "'s \<Rightarrow> 'a list"
    and capacity :: "'s \<Rightarrow> nat"
    and put :: "'a \<Rightarrow> 's \<Rightarrow> 's"
    and get :: "'t \<Rightarrow> 's \<Rightarrow> 'a option \<times> 's"
  assumes inv_put: "inv s \<Longrightarrow> inv (put x s)"
    and inv_get: "inv s \<Longrightarrow> inv (snd (get t s))"
    and capacity_put: "capacity (put x s) = capacity s"
    and capacity_get: "capacity (snd (get t s)) = capacity s"
    and put_contents: "inv s \<Longrightarrow> contents (put x s) =
          (if length (contents s) < capacity s then contents s @ [x] else contents s)"
    and get_contents: "inv s \<Longrightarrow> contents (snd (get t s)) = tl (contents s)"
    and get_head: "inv s \<Longrightarrow> fst (get t s) = (if contents s = [] then None else Some (hd (contents s)))"
begin

fun accepted :: "('a, 't) queue_op list \<Rightarrow> 's \<Rightarrow> 'a list" where
  "accepted [] s = []"
| "accepted (Put x # ops) s = (if length (contents s) < capacity s then [x] else []) @ accepted ops (put x s)"
| "accepted (Get t # ops) s = accepted ops (snd (get t s))"

fun delivered :: "('a, 't) queue_op list \<Rightarrow> 's \<Rightarrow> 'a list" where
  "delivered [] s = []"
| "delivered (Put x # ops) s = delivered ops (put x s)"
| "delivered (Get t # ops) s = (case fst (get t s) of Some x \<Rightarrow> [x] | None \<Rightarrow> []) @ delivered ops (snd (get t s))"

fun after :: "('a, 't) queue_op list \<Rightarrow> 's \<Rightarrow> 's" where
  "after [] s = s"
| "after (Put x # ops) s = after ops (put x s)"
| "after (Get t # ops) s = after ops (snd (get t s))"

lemma fifo_order: "inv s \<Longrightarrow> contents s @ accepted ops s = delivered ops s @ contents (after ops s)"
proof (induction ops s rule: after.induct)
  case (2 x ops s)
  then show ?case using inv_put [of s x] put_contents [of s x] by (auto split: if_splits)
next
  case (3 t ops s)
  then show ?case using inv_get [of s t] get_contents [of s t] get_head [of s t]
    by (cases "contents s") auto
qed simp

lemma never_overfull: "inv s \<Longrightarrow> length (contents s) \<le> capacity s \<Longrightarrow>
    inv (after ops s) \<and> length (contents (after ops s)) \<le> capacity s"
proof (induction ops s rule: after.induct)
  case (2 x ops s)
  then show ?case using inv_put [of s x] put_contents [of s x] by (auto simp: capacity_put)
next
  case (3 t ops s)
  then show ?case using inv_get [of s t] get_contents [of s t] by (auto simp: capacity_get)
qed simp

end

section \<open>State\<close>

datatype ofifo_state_t = DISABLED | ZEROING | LOCKING | LOCKED

definition MAX_VOLUME :: u32 where "MAX_VOLUME = 0x40000000"
definition NOTIFICATION_PERIOD :: u32 where "NOTIFICATION_PERIOD = 250"

record ofifo_t =
  of_zero_flag :: bool
  of_dptr :: nat
  of_wrptr :: nat
  of_marker :: "nat option"
  of_local_ts :: u32
  of_ptp_ts :: u32
  of_sample_count :: u32
  of_zero_marker :: nat
  of_state :: ofifo_state_t
  of_last_notification_time :: u32
  of_media_clock :: int
  of_pending_init_notification :: bool
  of_volume :: u32
  of_fifo :: "u32 list"

definition fifo_size :: "ofifo_t \<Rightarrow> nat" where
  "fifo_size s = length (of_fifo s)"

text \<open>Messages to the clock recovery thread.\<close>

datatype ofifo_msg =
    NotifyNewStream
  | NotifyInfo
  | BufCtlInfo bool u32 u32 nat nat
  | BufCtlNewStreamInfo int
  | BufCtlAck

section \<open>Operations\<close>

definition media_output_fifo_init :: "ofifo_t \<Rightarrow> ofifo_t" where
  "media_output_fifo_init s =
     s\<lparr>of_state := DISABLED, of_dptr := 0, of_wrptr := 0, of_media_clock := - 1,
       of_pending_init_notification := False, of_last_notification_time := 0, of_volume := MAX_VOLUME\<rparr>"

definition disable_media_output_fifo :: "ofifo_t \<Rightarrow> ofifo_t" where
  "disable_media_output_fifo s = s\<lparr>of_state := DISABLED, of_zero_flag := True\<rparr>"

definition set_zero_marker :: "nat \<Rightarrow> ofifo_t \<Rightarrow> ofifo_t" where
  "set_zero_marker k s = s\<lparr>of_zero_marker := k, of_fifo := (of_fifo s)[k := 1], of_zero_flag := True\<rparr>"

definition enable_media_output_fifo :: "int \<Rightarrow> ofifo_t \<Rightarrow> ofifo_t" where
  "enable_media_output_fifo media_clock s =
     set_zero_marker (fifo_size s - 1)
       (s\<lparr>of_state := ZEROING, of_dptr := 0, of_wrptr := 0, of_marker := None, of_local_ts := 0, of_ptp_ts := 0,
          of_sample_count := 0, of_media_clock := media_clock, of_pending_init_notification := True\<rparr>)"

definition media_output_fifo_set_ptp_timestamp :: "u32 \<Rightarrow> nat \<Rightarrow> ofifo_t \<Rightarrow> ofifo_t" where
  "media_output_fifo_set_ptp_timestamp ptp_ts sample_number s =
     (if of_marker s = None
      then let new_marker = of_wrptr s + sample_number;
               new_marker = (if new_marker \<ge> fifo_size s then new_marker - fifo_size s else new_marker)
           in s\<lparr>of_ptp_ts := (if ptp_ts = 0 then 1 else ptp_ts), of_local_ts := 0, of_marker := Some new_marker\<rparr>
      else s)"

definition fifo_next :: "ofifo_t \<Rightarrow> nat \<Rightarrow> nat" where
  "fifo_next s p = (if p + 1 = fifo_size s then 0 else p + 1)"

definition media_output_fifo_pull_sample :: "u32 \<Rightarrow> ofifo_t \<Rightarrow> u32 \<times> ofifo_t" where
  "media_output_fifo_pull_sample timestamp s =
     (let dptr = of_dptr s
      in if dptr = of_wrptr s then (0, s)
         else let sample = of_fifo s ! dptr;
                  s1 = (if of_marker s = Some dptr \<and> of_local_ts s = 0
                        then s\<lparr>of_local_ts := (if timestamp = 0 then 1 else timestamp)\<rparr> else s)
              in (if of_zero_flag s then 0 else sample, s1\<lparr>of_dptr := fifo_next s dptr\<rparr>))"

text \<open>What is stored for a sample of a packet: its 24 bits, or silence while zeroing.\<close>

definition stored_sample :: "ofifo_state_t \<Rightarrow> u32 \<Rightarrow> u32" where
  "stored_sample state x = (bswap32 x * (if state = ZEROING then 0 else 1)) AND 0xffffff"

definition push_word :: "u32 \<Rightarrow> ofifo_t \<Rightarrow> ofifo_t" where
  "push_word w s =
     (let new_wrptr = fifo_next s (of_wrptr s)
      in if new_wrptr \<noteq> of_dptr s
         then s\<lparr>of_fifo := (of_fifo s)[of_wrptr s := w], of_wrptr := new_wrptr\<rparr>
         else s)"

text \<open>The loop over \<open>i = 0, stride, ..\<close> below \<open>n\<close>; the stride of the callers is positive.\<close>

function strided_push_loop :: "u32 list \<Rightarrow> nat \<Rightarrow> nat \<Rightarrow> nat \<Rightarrow> ofifo_t \<Rightarrow> ofifo_t" where
  "strided_push_loop sample_ptr stride n i s =
     (if i < n \<and> 0 < stride
      then strided_push_loop sample_ptr stride n (i + stride)
             ((push_word (stored_sample (of_state s) (sample_ptr ! i)) s)\<lparr>of_sample_count := of_sample_count s + 1\<rparr>)
      else s)"
  by pat_completeness auto
termination by (relation "measure (\<lambda>(p, stride, n, i, s). n - i)") auto

declare strided_push_loop.simps [simp del]

definition media_output_fifo_strided_push :: "u32 list \<Rightarrow> nat \<Rightarrow> nat \<Rightarrow> ofifo_t \<Rightarrow> ofifo_t" where
  "media_output_fifo_strided_push sample_ptr stride n s = strided_push_loop sample_ptr stride n 0 s"

text \<open>The loops that bring a pointer back into the buffer.\<close>

function wrap_down :: "int \<Rightarrow> int \<Rightarrow> int" where
  "wrap_down len p = (if 0 < len \<and> p \<ge> len then wrap_down len (p - len) else p)"
  by pat_completeness auto
termination by (relation "measure (\<lambda>(len, p). nat p)") auto

function wrap_up :: "int \<Rightarrow> int \<Rightarrow> int" where
  "wrap_up len p = (if 0 < len \<and> p < 0 then wrap_up len (p + len) else p)"
  by pat_completeness auto
termination by (relation "measure (\<lambda>(len, p). nat (- p))") auto

declare wrap_down.simps [simp del] wrap_up.simps [simp del]

text \<open>\<open>notified\<close> is \<open>*notified_buf_ctl\<close>.\<close>

definition media_output_fifo_maintain :: "bool \<Rightarrow> ofifo_t \<Rightarrow> ofifo_msg list \<times> bool \<times> ofifo_t" where
  "media_output_fifo_maintain notified s =
     (let (m1, n1, s1) = (if of_pending_init_notification s \<and> \<not> notified
                          then ([NotifyNewStream], True, s\<lparr>of_pending_init_notification := False\<rparr>)
                          else ([], notified, s))
      in case of_state s1 of
           DISABLED \<Rightarrow> (m1, n1, s1)
         | ZEROING \<Rightarrow>
             if of_fifo s1 ! of_zero_marker s1 = 0
             then (m1, n1,
                   s1\<lparr>of_wrptr := nat (wrap_down (int (fifo_size s1)) (int (of_dptr s1) + int (fifo_size s1 div 2))),
                      of_state := LOCKING, of_local_ts := 0, of_ptp_ts := 0, of_marker := None, of_zero_flag := True\<rparr>)
             else (m1, n1, s1)
         | _ \<Rightarrow>
             let since = of_sample_count s1 - of_last_notification_time s1
             in if of_ptp_ts s1 \<noteq> 0 \<and> of_local_ts s1 \<noteq> 0 \<and> \<not> n1 \<and>
                   (of_last_notification_time s1 = 0 \<or> since > NOTIFICATION_PERIOD)
                then (m1 @ [NotifyInfo], True, s1\<lparr>of_last_notification_time := of_sample_count s1\<rparr>)
                else (m1, n1, s1))"

datatype buf_ctl_cmd =
    BUF_CTL_REQUEST_INFO
  | BUF_CTL_REQUEST_NEW_STREAM_INFO
  | BUF_CTL_ADJUST_FILL int
  | BUF_CTL_RESET
  | BUF_CTL_ACK

definition fifo_adjust :: "int \<Rightarrow> ofifo_t \<Rightarrow> ofifo_t" where
  "fifo_adjust adjust s =
     (let len = int (fifo_size s)
      in s\<lparr>of_wrptr := nat (wrap_down len (wrap_up len (int (of_wrptr s) - adjust))), of_state := LOCKED,
           of_zero_flag := False, of_ptp_ts := 0, of_local_ts := 0, of_marker := None\<rparr>)"

definition media_output_fifo_handle_buf_ctl :: "buf_ctl_cmd \<Rightarrow> bool \<Rightarrow> ofifo_t \<Rightarrow> ofifo_msg list \<times> bool \<times> ofifo_t" where
  "media_output_fifo_handle_buf_ctl cmd notified s =
     (case cmd of
        BUF_CTL_REQUEST_INFO \<Rightarrow>
          ([BufCtlInfo (of_state s = LOCKED) (of_ptp_ts s) (of_local_ts s) (of_dptr s) (of_wrptr s)], notified,
           s\<lparr>of_ptp_ts := 0, of_local_ts := 0, of_marker := None\<rparr>)
      | BUF_CTL_REQUEST_NEW_STREAM_INFO \<Rightarrow> ([BufCtlNewStreamInfo (of_media_clock s), BufCtlAck], False, s)
      | BUF_CTL_ADJUST_FILL adjust \<Rightarrow> ([BufCtlAck], False, fifo_adjust adjust s)
      | BUF_CTL_RESET \<Rightarrow>
          ([BufCtlAck], False,
           set_zero_marker (if of_wrptr s = 0 then fifo_size s - 1 else of_wrptr s - 1) (s\<lparr>of_state := ZEROING\<rparr>))
      | BUF_CTL_ACK \<Rightarrow> ([BufCtlAck], False, s))"

definition media_output_fifo_set_volume :: "u32 \<Rightarrow> ofifo_t \<Rightarrow> ofifo_t" where
  "media_output_fifo_set_volume volume s = s\<lparr>of_volume := volume\<rparr>"

end
