(* ===== verification/Media_Fifo_Proofs.thy ===== *)
theory Media_Fifo_Proofs
  imports Media_Output_Fifo
begin

text \<open>
  The media output FIFO is a bounded queue whatever the two threads do, and the clock recovery
  controls its fill level.
\<close>

section \<open>The queue in the ring\<close>

definition ofifo_level :: "ofifo_t \<Rightarrow> nat" where
  "ofifo_level s = (of_wrptr s + fifo_size s - of_dptr s) mod fifo_size s"

definition ofifo_contents :: "ofifo_t \<Rightarrow> u32 list" where
  "ofifo_contents s = map (\<lambda>k. of_fifo s ! ((of_dptr s + k) mod fifo_size s)) [0..<ofifo_level s]"

definition ofifo_ok :: "ofifo_t \<Rightarrow> bool" where
  "ofifo_ok s \<longleftrightarrow> of_dptr s < fifo_size s \<and> of_wrptr s < fifo_size s"

definition ofifo_pull :: "u32 \<Rightarrow> ofifo_t \<Rightarrow> u32 option \<times> ofifo_t" where
  "ofifo_pull ts s = (if of_dptr s = of_wrptr s then None else Some (of_fifo s ! of_dptr s),
     snd (media_output_fifo_pull_sample ts s))"

lemma length_ofifo_contents [simp]: "length (ofifo_contents s) = ofifo_level s"
  by (simp add: ofifo_contents_def)

lemma level_bound: "ofifo_ok s \<Longrightarrow> ofifo_level s < fifo_size s"
  by (auto simp: ofifo_level_def ofifo_ok_def)

lemma nth_ofifo_contents: "k < ofifo_level s \<Longrightarrow> ofifo_contents s ! k = of_fifo s ! ((of_dptr s + k) mod fifo_size s)"
  by (simp add: ofifo_contents_def)

lemma push_frame:
  "fifo_size (push_word x s) = fifo_size s" "of_dptr (push_word x s) = of_dptr s"
  "ofifo_ok s \<Longrightarrow> ofifo_ok (push_word x s)"
  by (auto simp: push_word_def fifo_size_def ofifo_ok_def fifo_next_def Let_def)

lemma push_contents:
  assumes "ofifo_ok s"
  shows "ofifo_contents (push_word x s) =
    (if length (ofifo_contents s) < fifo_size s - 1 then ofifo_contents s @ [x] else ofifo_contents s)"
proof -
  let ?n = "fifo_size s" and ?d = "of_dptr s" and ?w = "of_wrptr s"
  have b: "?d < ?n" "?w < ?n" using assms by (simp_all add: ofifo_ok_def)
  have lev: "ofifo_level s = (if ?d \<le> ?w then ?w - ?d else ?w + ?n - ?d)"
    unfolding ofifo_level_def by (rule ring_level) (use b in simp_all)
  have full: "fifo_next s ?w = ?d \<longleftrightarrow> \<not> ofifo_level s < ?n - 1"
    using b by (auto simp: lev fifo_next_def)
  show ?thesis
  proof (cases "fifo_next s ?w = ?d")
    case True
    then show ?thesis using full by (simp add: push_word_def Let_def)
  next
    case False
    let ?s = "push_word x s"
    have s': "of_wrptr ?s = fifo_next s ?w" "of_fifo ?s = (of_fifo s)[?w := x]"
      using False by (simp_all add: push_word_def Let_def)
    have nxt: "fifo_next s ?w < ?n" using b by (auto simp: fifo_next_def)
    have "ofifo_level ?s = (if ?d \<le> fifo_next s ?w then fifo_next s ?w - ?d else fifo_next s ?w + ?n - ?d)"
      unfolding ofifo_level_def push_frame s'(1) by (rule ring_level) (use b nxt in simp_all)
    also have "\<dots> = ofifo_level s + 1" using False b by (auto simp: lev fifo_next_def)
    finally have lev': "ofifo_level ?s = ofifo_level s + 1" .
    have less: "ofifo_level s < ?n - 1" using False full by simp
    have "ofifo_contents ?s = ofifo_contents s @ [x]"
    proof (rule nth_equalityI)
      fix k assume "k < length (ofifo_contents ?s)"
      then have k: "k < ofifo_level s + 1" by (simp add: lev')
      have idx: "(?d + k) mod ?n = (if ?d + k < ?n then ?d + k else ?d + k - ?n)"
        by (rule ring_index) (use b k less in simp_all)
      have "ofifo_contents ?s ! k = (of_fifo s)[?w := x] ! ((?d + k) mod ?n)"
        using k lev' by (simp add: nth_ofifo_contents s'(2) push_frame)
      also have "\<dots> = (ofifo_contents s @ [x]) ! k"
      proof (cases "k = ofifo_level s")
        case True
        then have "(?d + k) mod ?n = ?w" using idx b by (auto simp: lev split: if_splits)
        then show ?thesis using True b by (simp add: nth_append fifo_size_def)
      next
        case ne: False
        then have "k < ofifo_level s" using k by simp
        moreover from this have "(?d + k) mod ?n \<noteq> ?w" using idx b by (auto simp: lev split: if_splits)
        ultimately show ?thesis by (simp add: nth_append nth_ofifo_contents)
      qed
      finally show "ofifo_contents ?s ! k = (ofifo_contents s @ [x]) ! k" .
    qed (simp add: lev')
    then show ?thesis using less by simp
  qed
qed

lemma pull_frame:
  "fifo_size (snd (media_output_fifo_pull_sample t s)) = fifo_size s"
  "of_wrptr (snd (media_output_fifo_pull_sample t s)) = of_wrptr s"
  "of_fifo (snd (media_output_fifo_pull_sample t s)) = of_fifo s"
  "of_dptr (snd (media_output_fifo_pull_sample t s)) =
     (if of_dptr s = of_wrptr s then of_dptr s else fifo_next s (of_dptr s))"
  "ofifo_ok s \<Longrightarrow> ofifo_ok (snd (media_output_fifo_pull_sample t s))"
  by (auto simp: media_output_fifo_pull_sample_def Let_def fifo_size_def ofifo_ok_def fifo_next_def)

lemma empty_iff: "ofifo_ok s \<Longrightarrow> ofifo_contents s = [] \<longleftrightarrow> of_dptr s = of_wrptr s"
  using ring_level [of "of_dptr s" "fifo_size s" "of_wrptr s"]
  by (auto simp: ofifo_contents_def ofifo_level_def ofifo_ok_def)

lemma pull_contents:
  assumes "ofifo_ok s"
  shows "ofifo_contents (snd (media_output_fifo_pull_sample t s)) = tl (ofifo_contents s)"
    and "of_dptr s \<noteq> of_wrptr s \<Longrightarrow> hd (ofifo_contents s) = of_fifo s ! of_dptr s"
proof -
  let ?n = "fifo_size s" and ?d = "of_dptr s" and ?w = "of_wrptr s"
  have b: "?d < ?n" "?w < ?n" using assms by (simp_all add: ofifo_ok_def)
  have lev: "ofifo_level s = (if ?d \<le> ?w then ?w - ?d else ?w + ?n - ?d)"
    unfolding ofifo_level_def by (rule ring_level) (use b in simp_all)
  show "ofifo_contents (snd (media_output_fifo_pull_sample t s)) = tl (ofifo_contents s)"
  proof (cases "?d = ?w")
    case True
    then show ?thesis using empty_iff [OF assms] by (simp add: media_output_fifo_pull_sample_def Let_def)
  next
    case False
    obtain s' where s': "s' = snd (media_output_fifo_pull_sample t s)" by simp
    have f: "of_dptr s' = fifo_next s ?d" "of_wrptr s' = ?w" "fifo_size s' = ?n" "of_fifo s' = of_fifo s"
      using False by (simp_all add: s' pull_frame)
    have nxt: "fifo_next s ?d < ?n" using b by (auto simp: fifo_next_def)
    have "ofifo_level s' = (if fifo_next s ?d \<le> ?w then ?w - fifo_next s ?d else ?w + ?n - fifo_next s ?d)"
      unfolding ofifo_level_def f by (rule ring_level) (use b nxt in simp_all)
    also have "\<dots> = ofifo_level s - 1" using False b by (auto simp: lev fifo_next_def)
    finally have lev': "ofifo_level s' = ofifo_level s - 1" .
    have pos: "0 < ofifo_level s" using False b by (auto simp: lev)
    have "ofifo_contents s' ! k = tl (ofifo_contents s) ! k" if k: "k < ofifo_level s - 1" for k
    proof -
      have kn: "k < ?n" "k + 1 < ?n" using k level_bound [OF assms] by simp_all
      have "(fifo_next s ?d + k) mod ?n = (?d + (k + 1)) mod ?n"
        unfolding ring_index [OF nxt kn(1)] ring_index [OF b(1) kn(2)] using b kn by (auto simp: fifo_next_def)
      then show ?thesis using k lev' f by (simp add: nth_ofifo_contents nth_tl)
    qed
    then show ?thesis unfolding s' [symmetric] by (intro nth_equalityI) (simp_all add: lev')
  qed
  show "?d \<noteq> ?w \<Longrightarrow> hd (ofifo_contents s) = of_fifo s ! ?d"
  proof -
    assume "?d \<noteq> ?w"
    then have "0 < ofifo_level s" using b by (auto simp: lev)
    moreover from this have "ofifo_contents s \<noteq> []" using empty_iff [OF assms] \<open>?d \<noteq> ?w\<close> by simp
    ultimately show ?thesis using b nth_ofifo_contents [of 0 s] by (simp add: hd_conv_nth)
  qed
qed

interpretation ofifo_queue: bounded_queue ofifo_ok ofifo_contents "\<lambda>s. fifo_size s - 1" push_word ofifo_pull
proof unfold_locales
  fix s :: ofifo_t and x t :: u32
  assume ok: "ofifo_ok s"
  show "ofifo_ok (push_word x s)" by (rule push_frame(3) [OF ok])
  show "ofifo_ok (snd (ofifo_pull t s))" using pull_frame(5) [OF ok] by (simp add: ofifo_pull_def)
  show "ofifo_contents (push_word x s) =
      (if length (ofifo_contents s) < fifo_size s - 1 then ofifo_contents s @ [x] else ofifo_contents s)"
    by (rule push_contents [OF ok])
  show "ofifo_contents (snd (ofifo_pull t s)) = tl (ofifo_contents s)"
    using pull_contents(1) [OF ok] by (simp add: ofifo_pull_def)
  show "fst (ofifo_pull t s) = (if ofifo_contents s = [] then None else Some (hd (ofifo_contents s)))"
    using empty_iff [OF ok] pull_contents(2) [OF ok] by (simp add: ofifo_pull_def)
qed (simp_all add: push_frame ofifo_pull_def pull_frame)

section \<open>Pushing a channel of a packet\<close>

definition strided_samples :: "u32 list \<Rightarrow> nat \<Rightarrow> nat \<Rightarrow> nat \<Rightarrow> u32 list" where
  "strided_samples p stride n i = map (\<lambda>k. p ! (i + k * stride)) [0..<(n - i + stride - 1) div stride]"

lemma strided_samples_step:
  assumes "i < n" "0 < stride"
  shows "strided_samples p stride n i = p ! i # strided_samples p stride n (i + stride)"
proof -
  have "(n - i + stride - 1) div stride = Suc ((n - (i + stride) + stride - 1) div stride)"
  proof (cases "i + stride \<le> n")
    case True
    then have "n - i + stride - 1 = (n - (i + stride) + stride - 1) + stride" using assms(2) by simp
    moreover have "(x + stride) div stride = Suc (x div stride)" for x :: nat
      using div_add_self2 [of stride x] assms(2) by simp
    ultimately show ?thesis by metis
  next
    case False
    then have "(n - i + stride - 1) div stride = 1" using assms by (intro div_nat_eqI) simp_all
    moreover have "n - (i + stride) + stride - 1 < stride" using False assms(2) by simp
    ultimately show ?thesis by simp
  qed
  then show ?thesis unfolding strided_samples_def by (simp only: map_upt_Suc) (simp add: add.assoc)
qed

lemma strided_samples_stop: "\<not> i < n \<Longrightarrow> strided_samples p stride n i = []"
  by (cases "stride = 0") (simp_all add: strided_samples_def)

lemma push_word_more:
  "of_state (push_word x s) = of_state s" "of_sample_count (push_word x s) = of_sample_count s"
  "push_word x (s\<lparr>of_sample_count := c\<rparr>) = (push_word x s)\<lparr>of_sample_count := c\<rparr>"
  by (simp_all add: push_word_def Let_def fifo_next_def fifo_size_def)

lemma after_puts_count:
  "ofifo_queue.after (map (\<lambda>x. Put (f x)) ws) (s\<lparr>of_sample_count := c\<rparr>) =
     (ofifo_queue.after (map (\<lambda>x. Put (f x)) ws) s)\<lparr>of_sample_count := c\<rparr>"
  by (induction ws arbitrary: s) (simp_all add: push_word_more)

lemma strided_loop:
  assumes "0 < stride"
  shows "strided_push_loop p stride n i s =
    (ofifo_queue.after (map (\<lambda>x. Put (stored_sample (of_state s) x)) (strided_samples p stride n i)) s)
      \<lparr>of_sample_count := of_sample_count s + of_nat (length (strided_samples p stride n i))\<rparr>"
  using assms
proof (induction p stride n i s rule: strided_push_loop.induct)
  case (1 p stride n i s)
  show ?case
  proof (cases "i < n")
    case True
    let ?t = "push_word (stored_sample (of_state s) (p ! i)) s"
    have IH: "strided_push_loop p stride n (i + stride) (?t\<lparr>of_sample_count := of_sample_count s + 1\<rparr>) =
        (ofifo_queue.after (map (\<lambda>x. Put (stored_sample (of_state s) x)) (strided_samples p stride n (i + stride)))
            (?t\<lparr>of_sample_count := of_sample_count s + 1\<rparr>))
          \<lparr>of_sample_count := of_sample_count s + 1 + of_nat (length (strided_samples p stride n (i + stride)))\<rparr>"
      using "1.IH" True "1.prems" by (simp add: push_word_more)
    show ?thesis
      by (subst strided_push_loop.simps)
        (simp only: True "1.prems" simp_thms if_True IH, simp add: after_puts_count strided_samples_step [OF True "1.prems"] add.assoc)
  qed (simp add: strided_push_loop.simps strided_samples_stop)
qed

text \<open>
  C20. The output FIFO is a bounded queue. Whatever the 1722 thread pushes and the audio thread
  pulls, in any interleaving, the words come out in the order in which they were accepted,
  none lost and none twice, and at most one word less than the array is ever stored. Pushing
  a channel of a packet is pushing its samples one after the other and counting them. What
  the audio thread gets is the oldest word, silence when the FIFO is muted, and 0 when it is
  empty.
\<close>

theorem ofifo_fifo_order:
  assumes "ofifo_ok s" "0 < stride"
  shows "ofifo_contents s @ ofifo_queue.accepted ops s = ofifo_queue.delivered ops s @ ofifo_contents (ofifo_queue.after ops s) \<and>
    length (ofifo_contents (ofifo_queue.after ops s)) \<le> fifo_size s - 1 \<and>
    media_output_fifo_strided_push p stride n s =
      (ofifo_queue.after (map (\<lambda>x. Put (stored_sample (of_state s) x)) (strided_samples p stride n 0)) s)
        \<lparr>of_sample_count := of_sample_count s + of_nat (length (strided_samples p stride n 0))\<rparr> \<and>
    fst (media_output_fifo_pull_sample t s) =
      (case ofifo_contents s of [] \<Rightarrow> 0 | w # _ \<Rightarrow> if of_zero_flag s then 0 else w)"
proof -
  have "length (ofifo_contents s) \<le> fifo_size s - 1" using level_bound [OF assms(1)] by simp
  then have "length (ofifo_contents (ofifo_queue.after ops s)) \<le> fifo_size s - 1"
    using ofifo_queue.never_overfull [OF assms(1), of ops] by blast
  moreover have "fst (media_output_fifo_pull_sample t s) =
      (case ofifo_contents s of [] \<Rightarrow> 0 | w # _ \<Rightarrow> if of_zero_flag s then 0 else w)"
    using empty_iff [OF assms(1)] pull_contents(2) [OF assms(1)]
    by (auto simp: media_output_fifo_pull_sample_def Let_def split: list.split)
  ultimately show ?thesis
    using ofifo_queue.fifo_order [OF assms(1), of ops] strided_loop [OF assms(2), of p n 0 s]
    by (simp add: media_output_fifo_strided_push_def)
qed

definition ofifo_example :: ofifo_t where
  "ofifo_example = \<lparr>of_zero_flag = False, of_dptr = 2, of_wrptr = 3, of_marker = None, of_local_ts = 0, of_ptp_ts = 0,
     of_sample_count = 0, of_zero_marker = 3, of_state = LOCKED, of_last_notification_time = 0, of_media_clock = 0,
     of_pending_init_notification = False, of_volume = 0, of_fifo = [1, 2, 3, 4]\<rparr>"

theorem ofifo_fifo_order_witness:
  "ofifo_contents ofifo_example @ ofifo_queue.accepted [Put 7, Put 8, Put 9, Get 1] ofifo_example =
     ofifo_queue.delivered [Put 7, Put 8, Put 9, Get 1] ofifo_example @
     ofifo_contents (ofifo_queue.after [Put 7, Put 8, Put 9, Get 1] ofifo_example)"
proof -
  have "ofifo_ok ofifo_example" by (simp add: ofifo_ok_def ofifo_example_def fifo_size_def)
  from ofifo_fifo_order [OF this, of 1] show ?thesis by simp
qed

section \<open>Control of the fill level\<close>

lemma wrap_up_mod: "0 < len \<Longrightarrow> 0 \<le> wrap_up len p \<and> wrap_up len p mod len = p mod len"
  by (induction len p rule: wrap_up.induct) (subst (1 2) wrap_up.simps, auto)

lemma wrap_down_mod: "0 < len \<Longrightarrow> 0 \<le> p \<Longrightarrow> wrap_down len p = p mod len"
proof (induction len p rule: wrap_down.induct)
  case (1 len p)
  then show ?case by (subst wrap_down.simps) (auto simp: minus_mod_self2)
qed

lemma wrap_both: "0 < len \<Longrightarrow> wrap_down len (wrap_up len p) = p mod len"
  using wrap_up_mod [of len p] wrap_down_mod [of len "wrap_up len p"] by simp

lemma level_int: "ofifo_ok s \<Longrightarrow> int (ofifo_level s) = (int (of_wrptr s) - int (of_dptr s)) mod int (fifo_size s)"
proof -
  assume "ofifo_ok s"
  then have "of_dptr s \<le> of_wrptr s + fifo_size s" by (simp add: ofifo_ok_def)
  then have "int (ofifo_level s) = (int (of_wrptr s) + int (fifo_size s) - int (of_dptr s)) mod int (fifo_size s)"
    by (simp add: ofifo_level_def zmod_int of_nat_diff)
  also have "int (of_wrptr s) + int (fifo_size s) - int (of_dptr s) = (int (of_wrptr s) - int (of_dptr s)) + int (fifo_size s)"
    by simp
  finally show ?thesis by (simp only: mod_add_self2)
qed

lemma adjusted_level:
  assumes "ofifo_ok s"
  shows "ofifo_ok (fifo_adjust a s)"
    and "int (ofifo_level (fifo_adjust a s)) = (int (ofifo_level s) - a) mod int (fifo_size s)"
    and "of_state (fifo_adjust a s) = LOCKED" "\<not> of_zero_flag (fifo_adjust a s)"
proof -
  let ?n = "int (fifo_size s)"
  have n: "0 < ?n" using assms by (auto simp: ofifo_ok_def)
  have w: "int (of_wrptr (fifo_adjust a s)) = (int (of_wrptr s) - a) mod ?n"
    using wrap_both [OF n, of "int (of_wrptr s) - a"] n by (simp add: fifo_adjust_def Let_def)
  have f: "fifo_size (fifo_adjust a s) = fifo_size s" "of_dptr (fifo_adjust a s) = of_dptr s"
    by (simp_all add: fifo_adjust_def Let_def fifo_size_def)
  have "int (of_wrptr (fifo_adjust a s)) < ?n" using w n by simp
  then show ok: "ofifo_ok (fifo_adjust a s)" using assms by (simp add: ofifo_ok_def f)
  show "int (ofifo_level (fifo_adjust a s)) = (int (ofifo_level s) - a) mod ?n"
    unfolding level_int [OF ok] level_int [OF assms] f w by (simp add: mod_simps algebra_simps)
  show "of_state (fifo_adjust a s) = LOCKED" "\<not> of_zero_flag (fifo_adjust a s)"
    by (simp_all add: fifo_adjust_def Let_def)
qed

text \<open>
  The clock recovery sets the fill level. An adjustment by \<open>a\<close>, of either sign and any size,
  terminates and leaves a level of the old one less \<open>a\<close> modulo the size; it unmutes the
  FIFO, locks it and clears the timestamps, and a reduction within the level drops the newest
  words. When the zero marker has been overwritten, maintenance leaves the FIFO half full
  and locking.
\<close>

theorem ofifo_fill_control:
  assumes "ofifo_ok s"
  shows "ofifo_ok (fifo_adjust a s) \<and>
    int (ofifo_level (fifo_adjust a s)) = (int (ofifo_level s) - a) mod int (fifo_size s) \<and>
    of_state (fifo_adjust a s) = LOCKED \<and> \<not> of_zero_flag (fifo_adjust a s) \<and> of_ptp_ts (fifo_adjust a s) = 0 \<and>
    (0 \<le> a \<and> a \<le> int (ofifo_level s) \<longrightarrow>
       ofifo_contents (fifo_adjust a s) = take (ofifo_level s - nat a) (ofifo_contents s)) \<and>
    (of_state s = ZEROING \<and> of_fifo s ! of_zero_marker s = 0 \<longrightarrow>
       (case media_output_fifo_maintain notified s of (msgs, notified', s') \<Rightarrow>
          ofifo_ok s' \<and> of_state s' = LOCKING \<and> ofifo_level s' = fifo_size s div 2))"
proof -
  let ?n = "int (fifo_size s)"
  have n: "0 < ?n" "0 < fifo_size s" using assms by (auto simp: ofifo_ok_def)
  obtain s' where s': "s' = fifo_adjust a s" by simp
  have frame: "fifo_size s' = fifo_size s" "of_dptr s' = of_dptr s" "of_fifo s' = of_fifo s" "of_state s' = LOCKED"
    "\<not> of_zero_flag s'" "of_ptp_ts s' = 0"
    by (simp_all add: s' fifo_adjust_def Let_def fifo_size_def)
  note ok = adjusted_level(1) [OF assms, of a, folded s'] and lev = adjusted_level(2) [OF assms, of a, folded s']
  have tak: "ofifo_contents s' = take (ofifo_level s - nat a) (ofifo_contents s)" if "0 \<le> a" "a \<le> int (ofifo_level s)"
  proof -
    have "(int (ofifo_level s) - a) mod ?n = int (ofifo_level s) - a"
      using that level_bound [OF assms] by (intro mod_pos_pos_trivial) simp_all
    then have l: "ofifo_level s' = ofifo_level s - nat a" using lev that by simp
    show ?thesis by (rule nth_equalityI) (simp_all add: l nth_ofifo_contents frame)
  qed
  have half: "case media_output_fifo_maintain notified s of (msgs, notified', t) \<Rightarrow>
      ofifo_ok t \<and> of_state t = LOCKING \<and> ofifo_level t = fifo_size s div 2"
    if "of_state s = ZEROING" "of_fifo s ! of_zero_marker s = 0"
  proof -
    obtain p where p: "p = nat (wrap_down ?n (int (of_dptr s) + int (fifo_size s div 2)))" by simp
    have "wrap_down ?n (int (of_dptr s) + int (fifo_size s div 2)) = (int (of_dptr s) + int (fifo_size s div 2)) mod ?n"
      by (rule wrap_down_mod) (use n in simp_all)
    then have ip: "int p = (int (of_dptr s) + int (fifo_size s div 2)) mod ?n" using n by (simp add: p)
    then have lt: "p < fifo_size s" using n by (metis of_nat_less_iff pos_mod_bound)
    have "(int p - int (of_dptr s)) mod ?n = int (fifo_size s div 2) mod ?n"
      unfolding ip by (simp add: mod_simps)
    also have "\<dots> = int (fifo_size s div 2)" using n by (intro mod_pos_pos_trivial) simp_all
    finally have lv: "(int p - int (of_dptr s)) mod ?n = int (fifo_size s div 2)" .
    obtain t where t: "t = snd (snd (media_output_fifo_maintain notified s))" by simp
    have ft: "of_wrptr t = p" "of_dptr t = of_dptr s" "fifo_size t = fifo_size s" "of_state t = LOCKING"
      using that by (simp_all add: t media_output_fifo_maintain_def Let_def p fifo_size_def)
    have okt: "ofifo_ok t" using assms lt by (simp add: ofifo_ok_def ft)
    have "int (ofifo_level t) = int (fifo_size s div 2)" unfolding level_int [OF okt] ft lv ..
    then show ?thesis using okt ft t by (cases "media_output_fifo_maintain notified s") auto
  qed
  show ?thesis using ok lev frame(4-6) tak half unfolding s' by (intro conjI impI; (elim conjE)?; simp)
qed

theorem ofifo_fill_control_witness:
  "ofifo_level (fifo_adjust (- 2) ofifo_example) = 3"
proof -
  have "ofifo_ok ofifo_example" "ofifo_level ofifo_example = 1" "fifo_size ofifo_example = 4"
    by (simp_all add: ofifo_ok_def ofifo_level_def ofifo_example_def fifo_size_def)
  with ofifo_fill_control [of ofifo_example "- 2" True] show ?thesis by simp
qed

end
