(* ===== verification/Media_Clocks.thy ===== *)
theory Media_Clocks
  imports Mrp_Periodic
begin

text \<open>
  The device media clocks as the control code sees them: the get/set functions of
  \<open>module_avb/src/avb.c\<close>, each a round trip to the media clock server, whose record of the
  parameters (\<open>media_clock_server.xc\<close>) is the list of clocks here. The recovery of the clock from
  the incoming stream, which SET_STATE starts, is not part of this record.
\<close>

record media_clock =
  mc_active :: bool
  mc_rate :: int
  mc_clock_type :: int
  mc_source :: int

text \<open>A request is made only for an existing clock and with a server connected.\<close>

definition clock_access :: "nat \<Rightarrow> bool \<times> media_clock list \<Rightarrow> bool" where
  "clock_access k sv \<longleftrightarrow> k < length (snd sv) \<and> fst sv"

definition getset_clock ::
  "(media_clock \<Rightarrow> int) \<Rightarrow> (int \<Rightarrow> media_clock \<Rightarrow> media_clock) \<Rightarrow> bool \<Rightarrow> nat \<Rightarrow> int \<Rightarrow>
     bool \<times> media_clock list \<Rightarrow> (int \<times> media_clock list) option" where
  "getset_clock get put do_set k x sv =
     (if clock_access k sv
      then let cs = (if do_set then modify_nth k (put x) (snd sv) else snd sv) in Some (get (cs ! k), cs)
      else None)"

definition getset_device_media_clock_rate ::
  "bool \<Rightarrow> nat \<Rightarrow> int \<Rightarrow> bool \<times> media_clock list \<Rightarrow> (int \<times> media_clock list) option" where
  "getset_device_media_clock_rate = getset_clock mc_rate (\<lambda>x c. c\<lparr>mc_rate := x\<rparr>)"

definition getset_device_media_clock_source ::
  "bool \<Rightarrow> nat \<Rightarrow> int \<Rightarrow> bool \<times> media_clock list \<Rightarrow> (int \<times> media_clock list) option" where
  "getset_device_media_clock_source = getset_clock mc_source (\<lambda>x c. c\<lparr>mc_source := x\<rparr>)"

definition getset_device_media_clock_type ::
  "bool \<Rightarrow> nat \<Rightarrow> int \<Rightarrow> bool \<times> media_clock list \<Rightarrow> (int \<times> media_clock list) option" where
  "getset_device_media_clock_type = getset_clock mc_clock_type (\<lambda>x c. c\<lparr>mc_clock_type := x\<rparr>)"

text \<open>The enumeration of the states is 0 for disabled and 1 for enabled.\<close>

definition getset_device_media_clock_state ::
  "bool \<Rightarrow> nat \<Rightarrow> int \<Rightarrow> bool \<times> media_clock list \<Rightarrow> (int \<times> media_clock list) option" where
  "getset_device_media_clock_state =
     getset_clock (\<lambda>c. if mc_active c then 1 else 0) (\<lambda>x c. c\<lparr>mc_active := (x = 1)\<rparr>)"

definition set_avb_sink_state :: "u32 \<Rightarrow> u32 \<Rightarrow> nat \<Rightarrow> avb_stream_state \<Rightarrow> avb_st \<Rightarrow> avb_st" where
  "set_avb_sink_state now router_link i state st =
     (case getset_avb_sink_state now router_link True i state st of Some (_, st') \<Rightarrow> st' | None \<Rightarrow> st)"

text \<open>A set function called for its effect, as the wrappers of \<open>avb_api.h\<close> are.\<close>

definition call_set :: "('a \<times> 's) option \<Rightarrow> 's \<Rightarrow> 's" where
  "call_set r s = (case r of Some (_, s') \<Rightarrow> s' | None \<Rightarrow> s)"

lemma call_set_simps [simp]: "call_set None s = s" "call_set (Some (x, s')) s = s'"
  by (simp_all add: call_set_def)

end
