(* ===== verification/Avb_Init.thy ===== *)
theory Avb_Init
  imports Media_Clocks
begin

text \<open>
  The registration of the streams and of the media channels at start-up (\<open>module_avb/src/avb.c\<close>).
  The talker, listener and media units announce themselves over their channels; what they send is
  the argument: for a talker or listener unit its channel, core and number of streams, for a media
  unit its core, clock and the FIFOs of its inputs and outputs. What the control thread answers
  to a unit is appended to \<open>av_out\<close>.
\<close>

record stream_unit =
  su_chan :: nat
  su_core_id :: int
  su_num_streams :: nat

record media_unit =
  mu_chan :: nat
  mu_core_id :: int
  mu_clk_ctl :: int
  mu_inputs :: "u32 list"
  mu_outputs :: "u32 list"

section \<open>Talkers\<close>

text \<open>The shifts are those of 32-bit integers; \<open>local_id\<close> is kept in a byte.\<close>

definition source_stream_id :: "u8 list \<Rightarrow> u8 \<Rightarrow> u32 \<times> u32" where
  "source_stream_id mac lid =
     (push_bit 24 (ucast (mac ! 0)) OR push_bit 16 (ucast (mac ! 1)) OR push_bit 8 (ucast (mac ! 2)) OR ucast (mac ! 3),
      push_bit 24 (ucast (mac ! 4)) OR push_bit 16 (ucast (mac ! 5)) OR (ucast lid AND 0xffff))"

text \<open>Three attributes are taken and initialised for every stream.\<close>

definition take_stream_attrs ::
  "mrp_info \<Rightarrow> (nat \<Rightarrow> nat \<Rightarrow> nat \<Rightarrow> avb_st \<Rightarrow> avb_st) \<Rightarrow> avb_st \<Rightarrow> avb_st" where
  "take_stream_attrs info store st =
     (let (a, s1) = mrp_get_attr st; (b, s2) = mrp_get_attr s1; (c, s3) = mrp_get_attr s2
      in mrp_attribute_init c MSRP_LISTENER info
           (mrp_attribute_init b MSRP_TALKER_FAILED info
             (mrp_attribute_init a MSRP_TALKER_ADVERTISE info (store a b c s3))))"

definition stream_attrs_set :: "nat \<Rightarrow> nat \<Rightarrow> nat \<Rightarrow> avb_stream_info \<Rightarrow> avb_stream_info" where
  "stream_attrs_set a b c s = s\<lparr>srp_talker_attr := a, srp_talker_failed_attr := b, srp_listener_attr := c\<rparr>"

definition register_source :: "u8 list \<Rightarrow> nat \<Rightarrow> int \<Rightarrow> nat \<Rightarrow> nat \<Rightarrow> avb_st \<Rightarrow> avb_st" where
  "register_source mac chan core j k st =
     take_stream_attrs (SourceInfo k)
       (\<lambda>a b c. update_source k (source_with (stream_attrs_set a b c)))
       (update_source k (\<lambda>src. (source_with
           (\<lambda>s. s\<lparr>stream_state := STATE_DISABLED, core_id := word_of_int core, local_id := of_nat j,
                  stream_flags := 0, streamId := source_stream_id mac (of_nat j),
                  stream_vlan := AVB_DEFAULT_VLAN\<rparr>) src)
           \<lparr>talker_ctl := chan, presentation := AVB_DEFAULT_PRESENTATION_TIME_DELAY_NS\<rparr>) st)"

text \<open>\<open>max_talker_stream_id\<close> counts the registered streams through all units.\<close>

definition register_talker_unit :: "u8 list \<Rightarrow> stream_unit \<Rightarrow> nat \<times> avb_st \<Rightarrow> nat \<times> avb_st" where
  "register_talker_unit mac u ms =
     fold (\<lambda>j (k, s). (k + 1, register_source mac (su_chan u) (su_core_id u) j k s)) [0..<su_num_streams u] ms"

definition register_talkers :: "u8 list \<Rightarrow> stream_unit list \<Rightarrow> nat \<times> avb_st \<Rightarrow> nat \<times> avb_st" where
  "register_talkers mac us ms = fold (register_talker_unit mac) us ms"

section \<open>Listeners\<close>

definition register_sink :: "nat \<Rightarrow> int \<Rightarrow> nat \<Rightarrow> nat \<Rightarrow> avb_st \<Rightarrow> avb_st" where
  "register_sink chan core j k st =
     take_stream_attrs (SinkInfo k)
       (\<lambda>a b c. update_sink k (sink_with (stream_attrs_set a b c)))
       (update_sink k (\<lambda>snk. (sink_with
           (\<lambda>s. s\<lparr>stream_state := STATE_DISABLED, core_id := word_of_int core, local_id := of_nat j,
                  stream_flags := 0, stream_vlan := AVB_DEFAULT_VLAN\<rparr>) snk)\<lparr>listener_ctl := chan\<rparr>) st)"

text \<open>The listener unit is told its link number.\<close>

definition register_listener_unit :: "stream_unit \<Rightarrow> nat \<times> nat \<times> avb_st \<Rightarrow> nat \<times> nat \<times> avb_st" where
  "register_listener_unit u ms =
     (let (link, k0, st) = ms;
          (k, s) = fold (\<lambda>j (k, s). (k + 1, register_sink (su_chan u) (su_core_id u) j k s)) [0..<su_num_streams u] (k0, st)
      in (link + 1, k, emit (ChanOut (su_chan u) (of_nat link)) s))"

definition register_listeners :: "stream_unit list \<Rightarrow> nat \<times> nat \<times> avb_st \<Rightarrow> nat \<times> nat \<times> avb_st" where
  "register_listeners us ms = fold register_listener_unit us ms"

section \<open>Media channels\<close>

definition register_channel :: "media_unit \<Rightarrow> nat \<Rightarrow> u32 \<Rightarrow> media_info \<Rightarrow> media_info" where
  "register_channel u j fifo m =
     m\<lparr>media_core_id := mu_core_id u, media_clk_ctl := mu_clk_ctl u, media_local_id := int j,
       mapped_to := UNMAPPED, media_fifo := fifo\<rparr>"

definition register_input :: "media_unit \<Rightarrow> nat \<Rightarrow> nat \<times> avb_st \<Rightarrow> nat \<times> avb_st" where
  "register_input u j ks =
     (let (k, st) = ks; s1 = emit (ChanOut (mu_chan u) (of_nat k)) st
      in (k + 1, s1\<lparr>av_inputs := modify_nth k (register_channel u j (mu_inputs u ! j)) (av_inputs s1)\<rparr>))"

definition register_output :: "media_unit \<Rightarrow> nat \<Rightarrow> nat \<times> avb_st \<Rightarrow> nat \<times> avb_st" where
  "register_output u j ks =
     (let (k, st) = ks; s1 = emit (ChanOut (mu_chan u) (of_nat k)) st
      in (k + 1, s1\<lparr>av_outputs := modify_nth k (register_channel u j (mu_outputs u ! j)) (av_outputs s1)\<rparr>))"

definition register_media_unit :: "media_unit \<Rightarrow> nat \<times> nat \<times> avb_st \<Rightarrow> nat \<times> nat \<times> avb_st" where
  "register_media_unit u ios =
     (let (i, o_id, st) = ios;
          (i', s1) = fold (register_input u) [0..<length (mu_inputs u)] (i, st);
          (o', s2) = fold (register_output u) [0..<length (mu_outputs u)] (o_id, s1)
      in (i', o', s2))"

definition register_media :: "media_unit list \<Rightarrow> avb_st \<Rightarrow> avb_st" where
  "register_media us st = snd (snd (fold register_media_unit us (0, 0, st)))"

text \<open>The channel of the media clock server, or \<open>None\<close> for a null channel end.\<close>

definition init_media_clock_server :: "nat option \<Rightarrow> avb_st \<Rightarrow> avb_st" where
  "init_media_clock_server ctl st =
     (let s1 = st\<lparr>av_media_clock_svr := (ctl \<noteq> None)\<rparr>
      in case ctl of
           Some c \<Rightarrow> emit_words c (map media_fifo (av_outputs s1)) s1
         | None \<Rightarrow> s1)"

section \<open>Stream control of the whole device\<close>

definition avb_link_down :: "u32 \<Rightarrow> u32 \<Rightarrow> avb_st \<Rightarrow> avb_st" where
  "avb_link_down now router_link st =
     (let s1 = fold (\<lambda>i. set_avb_source_state now i STATE_DISABLED) [0..<length (av_sources st)] st
      in fold (\<lambda>i. set_avb_sink_state now router_link i STATE_DISABLED) [0..<length (av_sinks s1)] s1)"

definition get_avb_sources :: "avb_st \<Rightarrow> nat" where "get_avb_sources st = length (av_sources st)"
definition get_avb_sinks :: "avb_st \<Rightarrow> nat" where "get_avb_sinks st = length (av_sinks st)"
definition get_media_ins :: "avb_st \<Rightarrow> nat" where "get_media_ins st = length (av_inputs st)"
definition get_media_outs :: "avb_st \<Rightarrow> nat" where "get_media_outs st = length (av_outputs st)"

definition avb_set_legacy_mode :: "int \<Rightarrow> avb_st \<Rightarrow> avb_st" where
  "avb_set_legacy_mode mode st = avb_mrp_set_legacy_mode mode (emit (PtpLegacyMode mode) st)"

end
