(* ===== verification/Aecp.thy ===== *)
theory Aecp
  imports Media_Clocks
begin

text \<open>
  The AVDECC enumeration and control protocol (\<open>avb_1722_1_aecp.c\<close>): acquisition of the entity
  by a controller, the descriptor reader, and the commands that read or change the streams and
  the media clock. A command is answered by changing the received packet in place and copying
  its head behind a fresh header in the transmit buffer.

  \<open>pkt\<close> is the received frame without its ethernet header: the control header 0 to 3, target GUID
  4, controller GUID 12, sequence id 20, command type 22, command payload from 24 on. In the
  transmit buffer everything is 14 further on.
\<close>

abbreviation (input) "AECP_CMD_AEM_COMMAND \<equiv> 0 :: u8"
abbreviation (input) "AECP_CMD_AEM_RESPONSE \<equiv> 1 :: u8"

abbreviation (input) "AECP_AEM_CMD_ACQUIRE_ENTITY \<equiv> 0 :: u16"
abbreviation (input) "AECP_AEM_CMD_LOCK_ENTITY \<equiv> 1 :: u16"
abbreviation (input) "AECP_AEM_CMD_CONTROLLER_AVAILABLE \<equiv> 3 :: u16"
abbreviation (input) "AECP_AEM_CMD_READ_DESCRIPTOR \<equiv> 4 :: u16"
abbreviation (input) "AECP_AEM_CMD_SET_STREAM_FORMAT \<equiv> 8 :: u16"
abbreviation (input) "AECP_AEM_CMD_GET_STREAM_FORMAT \<equiv> 9 :: u16"
abbreviation (input) "AECP_AEM_CMD_SET_SAMPLING_RATE \<equiv> 20 :: u16"
abbreviation (input) "AECP_AEM_CMD_GET_SAMPLING_RATE \<equiv> 21 :: u16"
abbreviation (input) "AECP_AEM_CMD_SET_CLOCK_SOURCE \<equiv> 22 :: u16"
abbreviation (input) "AECP_AEM_CMD_GET_CLOCK_SOURCE \<equiv> 23 :: u16"
abbreviation (input) "AECP_AEM_CMD_START_STREAMING \<equiv> 34 :: u16"
abbreviation (input) "AECP_AEM_CMD_STOP_STREAMING \<equiv> 35 :: u16"
abbreviation (input) "AECP_AEM_CMD_GET_AVB_INFO \<equiv> 39 :: u16"

abbreviation (input) "AECP_AEM_STATUS_SUCCESS \<equiv> 0 :: u8"
abbreviation (input) "AECP_AEM_STATUS_NO_SUCH_DESCRIPTOR \<equiv> 2 :: u8"
abbreviation (input) "AECP_AEM_STATUS_ENTITY_ACQUIRED \<equiv> 4 :: u8"
abbreviation (input) "AECP_AEM_STATUS_NOT_SUPPORTED \<equiv> 11 :: u8"
abbreviation (input) "AECP_AEM_STATUS_STREAM_IS_RUNNING \<equiv> 12 :: u8"

abbreviation (input) "AEM_ENTITY_TYPE \<equiv> 0 :: u16"
abbreviation (input) "AEM_STREAM_INPUT_TYPE \<equiv> 5 :: u16"
abbreviation (input) "AEM_STREAM_OUTPUT_TYPE \<equiv> 6 :: u16"
abbreviation (input) "AEM_AVB_INTERFACE_TYPE \<equiv> 9 :: u16"
abbreviation (input) "AEM_CLOCK_SOURCE_TYPE \<equiv> 10 :: u16"
abbreviation (input) "AEM_AUDIO_CLUSTER_TYPE \<equiv> 0x14 :: u16"
abbreviation (input) "AEM_AUDIO_MAP_TYPE \<equiv> 0x17 :: u16"

section \<open>State\<close>

datatype entity_acquired_status =
    AEM_ENTITY_NOT_ACQUIRED
  | AEM_ENTITY_ACQUIRED
  | AEM_ENTITY_ACQUIRED_AND_PERSISTENT
  | AEM_ENTITY_ACQUIRED_BUT_PENDING

datatype aecp_aem_state =
    AECP_AEM_IDLE
  | AECP_AEM_WAITING
  | AECP_AEM_CONTROLLER_AVAILABLE_TIMEOUT
  | AECP_AEM_LOCK_TIMEOUT

text \<open>
  \<open>ae_descriptors\<close> is \<open>aem_descriptor_list\<close>, which the application supplies: descriptor types
  with their descriptors. \<open>ae_cluster\<close>, \<open>ae_stream_in\<close> and \<open>ae_stream_out\<close> are the templates that are
  completed when they are read. \<open>ae_acquired_mac\<close> is the memory from the start of
  \<open>acquired_controller_mac\<close>: its six bytes and the two bytes that follow them.
\<close>

record aecp_st =
  ae_my_guid :: u64
  ae_my_mac :: "u8 list"
  ae_buf :: "u8 list"
  ae_lock_timer :: avb_timer
  ae_aem_state :: aecp_aem_state
  ae_status :: entity_acquired_status
  ae_pending_guid :: u64
  ae_acquired_guid :: u64
  ae_acquired_mac :: "u8 list"
  ae_descriptors :: "(u16 \<times> u8 list list) list"
  ae_cluster :: "u8 list"
  ae_stream_in :: "u8 list"
  ae_stream_out :: "u8 list"
  ae_avb :: avb_st
  ae_clocks :: "media_clock list"
  ae_sent :: "u8 list list"

text \<open>What the handlers read from the rest of the device.\<close>

record aecp_env =
  ev_now :: u32
  ev_router_link :: u32
  ev_grandmaster :: "u8 list"
  ev_pdelay :: u32
  ev_stack :: "int \<times> int"
  ev_behind :: "u8 list"

text \<open>
  \<open>ev_stack\<close> stands for the uninitialised locals \<open>rate\<close> and \<open>channels\<close>, \<open>ev_behind\<close> for the 40 bytes
  that are copied from behind a descriptor.
\<close>

definition aecp_field :: "nat \<Rightarrow> u8 list \<Rightarrow> u16" where
  "aecp_field off pkt = ntoh_16 (get_bytes off 2 pkt)"

definition aem_msg_command_type :: "u8 list \<Rightarrow> u16" where
  "aem_msg_command_type pkt = push_bit 8 (ucast (pkt ! 22 AND 0x7f)) OR ucast (pkt ! 23)"

section \<open>Descriptors\<close>

text \<open>\<open>first_descriptor t f\<close> changes the first descriptor of the entry for type \<open>t\<close>.\<close>

definition first_descriptor :: "u16 \<Rightarrow> (u8 list \<Rightarrow> u8 list) \<Rightarrow> (u16 \<times> u8 list list) list \<Rightarrow> (u16 \<times> u8 list list) list" where
  "first_descriptor t f ds = map (\<lambda>(t', xs). (t', if t' = t then modify_nth 0 f xs else xs)) ds"

definition avb_1722_1_aem_descriptors_init :: "aecp_st \<Rightarrow> aecp_st" where
  "avb_1722_1_aem_descriptors_init st =
     (let mac = take 6 (ae_my_mac st)
      in st\<lparr>ae_descriptors :=
           first_descriptor AEM_CLOCK_SOURCE_TYPE (put_bytes 74 mac)
             (first_descriptor AEM_AVB_INTERFACE_TYPE
                (\<lambda>d. put_bytes 78 (take 3 mac @ [0xff, 0xfe] @ drop 3 mac @ [0, 1]) (put_bytes 70 mac d))
               (first_descriptor AEM_ENTITY_TYPE (put_bytes 4 (guid_to_wire (ae_my_guid st)))
                  (ae_descriptors st)))\<rparr>)"

definition avb_1722_1_aecp_aem_init :: "aecp_st \<Rightarrow> aecp_st" where
  "avb_1722_1_aecp_aem_init st =
     (let s1 = avb_1722_1_aem_descriptors_init st
      in s1\<lparr>ae_lock_timer := init_avb_timer 100 (ae_lock_timer s1), ae_aem_state := AECP_AEM_WAITING\<rparr>)"

text \<open>
  The search for a descriptor: within an entry of the type the first one with the index; the walk
  goes on to the next entry as long as its type is not above the one searched.
\<close>

fun scan_descriptors :: "u8 list list \<Rightarrow> u16 \<Rightarrow> u8 list \<times> bool \<Rightarrow> u8 list \<times> bool" where
  "scan_descriptors [] read_id acc = acc"
| "scan_descriptors (d # ds) read_id (descriptor, found) =
     (if push_bit 8 (ucast (d ! 2)) OR ucast (d ! 3) = read_id then (d, True)
      else scan_descriptors ds read_id (d, found))"

fun search_descriptors :: "(u16 \<times> u8 list list) list \<Rightarrow> u16 \<Rightarrow> u16 \<Rightarrow> u8 list \<times> bool \<Rightarrow> u8 list \<times> bool" where
  "search_descriptors [] read_type read_id acc = acc"
| "search_descriptors ((t, ds) # rest) read_type read_id acc =
     (if t \<le> read_type
      then search_descriptors rest read_type read_id
             (if t = read_type then scan_descriptors ds read_id acc else acc)
      else acc)"

section \<open>Packets\<close>

definition aecp_emit :: "nat \<Rightarrow> aecp_st \<Rightarrow> aecp_st" where
  "aecp_emit n st = st\<lparr>ae_sent := ae_sent st @ [take n (ae_buf st)]\<rparr>"

text \<open>Six of the eight bytes of the controller GUID are cleared.\<close>

definition avb_1722_1_create_controller_available_packet :: "u8 list \<Rightarrow> u64 \<Rightarrow> aecp_st \<Rightarrow> aecp_st" where
  "avb_1722_1_create_controller_available_packet dest_addr target_guid st =
     (let h = avb_1722_1_create_1722_1_header (ae_my_mac st) dest_addr 0x7b AECP_CMD_AEM_COMMAND
                AECP_AEM_STATUS_SUCCESS 10 (ae_buf st)
      in st\<lparr>ae_buf := put_bytes 34 (hton_16 0) (put_bytes 26 (replicate 6 0)
                        (put_bytes 18 (guid_to_wire target_guid) h))\<rparr>)"

definition avb_1722_1_create_aecp_response_header :: "u8 list \<Rightarrow> u8 \<Rightarrow> u32 \<Rightarrow> u8 list \<Rightarrow> aecp_st \<Rightarrow> aecp_st" where
  "avb_1722_1_create_aecp_response_header dest_addr status data_len pkt st =
     st\<lparr>ae_buf := put_bytes 18 (get_bytes 4 18 pkt)
          (avb_1722_1_create_1722_1_header (ae_my_mac st) dest_addr 0x7b AECP_CMD_AEM_RESPONSE status data_len (ae_buf st))\<rparr>"

definition avb_1722_1_create_aecp_aem_response :: "u8 list \<Rightarrow> u8 \<Rightarrow> nat \<Rightarrow> u8 list \<Rightarrow> aecp_st \<Rightarrow> aecp_st" where
  "avb_1722_1_create_aecp_aem_response src_addr status command_data_len pkt st =
     (let s1 = avb_1722_1_create_aecp_response_header src_addr status (of_nat (command_data_len + 12)) pkt st
      in s1\<lparr>ae_buf := put_bytes 36 (get_bytes 22 (command_data_len + 2) pkt) (ae_buf s1)\<rparr>)"

section \<open>READ_DESCRIPTOR\<close>

abbreviation (input) "ascii_0 \<equiv> 0x30 :: u8"

text \<open>
  A template completed for the descriptor \<open>read_id\<close>: the index, for a cluster the name, and the
  digit of the channel at \<open>offset\<close> followed by a NUL. The strings include their NUL.
\<close>

definition output_name :: "u8 list" where "output_name = [0x4f, 0x75, 0x74, 0x70, 0x75, 0x74, 0x20, 0]"
definition input_name :: "u8 list" where "input_name = [0x49, 0x6e, 0x70, 0x75, 0x74, 0x20, 0]"

definition complete_template :: "nat \<Rightarrow> u16 \<Rightarrow> u16 \<Rightarrow> u8 list \<Rightarrow> u8 list" where
  "complete_template n_outputs read_type read_id d =
     (let d1 = d[3 := ucast read_id];
          (d2, id_num, offset) =
            (if read_type = AEM_STREAM_OUTPUT_TYPE then (d1, ucast read_id, 18)
             else if read_type = AEM_STREAM_INPUT_TYPE then (d1, ucast read_id, 17)
             else if unat read_id < n_outputs then (put_bytes 4 output_name d1, ucast read_id, 11)
             else (put_bytes 4 input_name d1, ucast read_id - of_nat n_outputs, 11 :: nat))
      in d2[offset := id_num + ascii_0, offset + 1 := 0])"

text \<open>The audio map is written straight into the transmit buffer.\<close>

definition audio_map_descriptor :: "nat \<Rightarrow> u16 \<Rightarrow> u8 list" where
  "audio_map_descriptor num_mappings read_id =
     fold (\<lambda>i d. d[11 + 8 * i := of_nat i, 13 + 8 * i := of_nat i]) [0..<num_mappings]
       ((replicate (8 + num_mappings * 8) 0)[1 := 0x17, 3 := ucast read_id, 5 := 8, 7 := of_nat num_mappings])"

text \<open>
  Which descriptor is sent: one that is copied, the audio map that is already in the buffer, or
  none. The state changes with the templates.
\<close>

datatype found_descriptor = NotFound | CopyDescriptor "u8 list" | InBuffer nat

definition find_aem_descriptor :: "u16 \<Rightarrow> u16 \<Rightarrow> aecp_st \<Rightarrow> found_descriptor \<times> aecp_st" where
  "find_aem_descriptor read_type read_id st =
     (let n_in = length (av_inputs (ae_avb st)); n_out = length (av_outputs (ae_avb st));
          n_sources = length (av_sources (ae_avb st)); n_sinks = length (av_sinks (ae_avb st))
      in if read_type = AEM_AUDIO_CLUSTER_TYPE then
           (if unat read_id < n_out + n_in
            then let d = complete_template n_out read_type read_id (ae_cluster st)
                 in (CopyDescriptor d, st\<lparr>ae_cluster := d\<rparr>)
            else (NotFound, st))
         else if read_type = AEM_STREAM_INPUT_TYPE then
           (if unat read_id < n_sinks
            then let d = complete_template n_out read_type read_id (ae_stream_in st)
                 in (CopyDescriptor d, st\<lparr>ae_stream_in := d\<rparr>)
            else (NotFound, st))
         else if read_type = AEM_STREAM_OUTPUT_TYPE then
           (if unat read_id < n_sources
            then let d = complete_template n_out read_type read_id (ae_stream_out st)
                 in (CopyDescriptor d, st\<lparr>ae_stream_out := d\<rparr>)
            else (NotFound, st))
         else if read_type = AEM_AUDIO_MAP_TYPE then
           (if unat read_id < n_sinks + n_sources
            then let n = (if read_id = 0 then n_out else n_in)
                 in (InBuffer (8 + n * 8), st\<lparr>ae_buf := put_bytes 42 (audio_map_descriptor n read_id) (ae_buf st)\<rparr>)
            else (NotFound, st))
         else (case search_descriptors (ae_descriptors st) read_type read_id ([], False) of
                 (d, True) \<Rightarrow> (CopyDescriptor d, st)
               | (_, False) \<Rightarrow> (NotFound, st)))"

text \<open>The result is the number of bytes to transmit.\<close>

definition create_aem_read_descriptor_response ::
  "aecp_env \<Rightarrow> u16 \<Rightarrow> u16 \<Rightarrow> u8 list \<Rightarrow> u8 list \<Rightarrow> aecp_st \<Rightarrow> nat \<times> aecp_st" where
  "create_aem_read_descriptor_response ev read_type read_id src_addr pkt st =
     (let (found, s1) = find_aem_descriptor read_type read_id st;
          head = (\<lambda>status len n s. let s' = avb_1722_1_create_aecp_response_header src_addr status (of_nat len) pkt s
                                    in s'\<lparr>ae_buf := put_bytes 36 (get_bytes 22 n pkt) (ae_buf s')\<rparr>)
      in case found of
           NotFound \<Rightarrow> (14 + 4 + 20 + 8, head AECP_AEM_STATUS_NO_SUCH_DESCRIPTOR 40 (20 + 8) s1)
         | InBuffer n \<Rightarrow> (max 64 (14 + 4 + 24 + n), head AECP_AEM_STATUS_SUCCESS (n + 16) 6 s1)
         | CopyDescriptor d \<Rightarrow>
             (let s2 = head AECP_AEM_STATUS_SUCCESS (length d + 16) 6 s1
              in (max 64 (14 + 4 + 24 + length d),
                  s2\<lparr>ae_buf := put_bytes 42 (d @ take 40 (ev_behind ev)) (ae_buf s2)\<rparr>)))"

section \<open>Stream and clock commands\<close>

text \<open>Each handler returns the changed packet, the status and the state. The commands name a descriptor
  by type (24) and index (26).\<close>

definition sampling_rate_from_sfc :: "u8 \<Rightarrow> int" where
  "sampling_rate_from_sfc sfc =
     (if sfc = 0 then 32000 else if sfc = 1 then 44100 else if sfc = 2 then 48000 else if sfc = 3 then 88200
      else if sfc = 4 then 96000 else if sfc = 5 then 176400 else if sfc = 6 then 192000 else 0)"

definition sfc_from_sampling_rate :: "int \<Rightarrow> u8" where
  "sfc_from_sampling_rate rate =
     (if rate = 32000 then 0 else if rate = 44100 then 1 else if rate = 48000 then 2 else if rate = 88200 then 3
      else if rate = 96000 then 4 else if rate = 176400 then 5 else if rate = 192000 then 6 else 0)"

definition get_sink_state :: "u32 \<Rightarrow> nat \<Rightarrow> avb_st \<Rightarrow> avb_stream_state option" where
  "get_sink_state now i v = map_option fst (getset_avb_sink_state now 0 False i STATE_DISABLED v)"

definition get_source_state :: "u32 \<Rightarrow> nat \<Rightarrow> avb_st \<Rightarrow> avb_stream_state option" where
  "get_source_state now i v = map_option fst (getset_avb_source_state now False i STATE_DISABLED v)"

text \<open>
  Reading the format: rate and channels of the stream. When there is no such stream the two locals
  keep what was on the stack, and are written into the response all the same.
\<close>

definition read_stream_format :: "aecp_env \<Rightarrow> u16 \<Rightarrow> nat \<Rightarrow> avb_st \<Rightarrow> (int \<times> int) \<times> u8" where
  "read_stream_format ev desc_type i v =
     (let channels_or = (\<lambda>r. case r of Some (c, _) \<Rightarrow> c | None \<Rightarrow> snd (ev_stack ev))
      in case (if desc_type = AEM_STREAM_INPUT_TYPE then getset_avb_sink_format False i (0, 0) v else None) of
           Some ((f, rate), _) \<Rightarrow>
             ((rate, channels_or (getset_avb_sink_channels False i 0 v)), AECP_AEM_STATUS_SUCCESS)
         | None \<Rightarrow>
             (case (if desc_type = AEM_STREAM_OUTPUT_TYPE then getset_avb_source_format False i (0, 0) v else None) of
                Some ((f, rate), _) \<Rightarrow>
                  ((rate, channels_or (getset_avb_source_channels False i 0 v)), AECP_AEM_STATUS_SUCCESS)
              | None \<Rightarrow> (ev_stack ev, AECP_AEM_STATUS_NO_SUCH_DESCRIPTOR)))"

definition write_stream_format ::
  "aecp_env \<Rightarrow> u16 \<Rightarrow> nat \<Rightarrow> int \<Rightarrow> int \<Rightarrow> avb_st \<Rightarrow> u8 \<times> avb_st" where
  "write_stream_format ev desc_type i rate channels v =
     (if desc_type = AEM_STREAM_INPUT_TYPE then
        (case get_sink_state (ev_now ev) i v of
           None \<Rightarrow> (AECP_AEM_STATUS_NO_SUCH_DESCRIPTOR, v)
         | Some state \<Rightarrow>
             if state = STATE_DISABLED
             then let v1 = call_set (getset_avb_sink_format True i (0, rate) v) v
                  in (AECP_AEM_STATUS_SUCCESS, call_set (getset_avb_sink_channels True i channels v1) v1)
             else (AECP_AEM_STATUS_STREAM_IS_RUNNING, v))
      else if desc_type = AEM_STREAM_OUTPUT_TYPE then
        (case get_source_state (ev_now ev) i v of
           None \<Rightarrow> (AECP_AEM_STATUS_NO_SUCH_DESCRIPTOR, v)
         | Some state \<Rightarrow>
             if state = STATE_DISABLED
             then let v1 = call_set (getset_avb_source_format True i (0, rate) v) v
                  in (AECP_AEM_STATUS_SUCCESS, call_set (getset_avb_source_channels True i channels v1) v1)
             else (AECP_AEM_STATUS_STREAM_IS_RUNNING, v))
      else (AECP_AEM_STATUS_SUCCESS, v))"

definition process_aem_cmd_getset_stream_format ::
  "aecp_env \<Rightarrow> u16 \<Rightarrow> u8 list \<Rightarrow> aecp_st \<Rightarrow> u8 list \<times> u8 \<times> aecp_st" where
  "process_aem_cmd_getset_stream_format ev command_type pkt st =
     (let stream_index = unat (aecp_field 26 pkt); desc_type = aecp_field 24 pkt
      in if command_type = AECP_AEM_CMD_GET_STREAM_FORMAT
         then let p1 = pkt[28 := 0, 29 := 0xa0, 30 := 2, 32 := 0x40, 33 := 0, 35 := 0];
                  ((rate, channels), status) = read_stream_format ev desc_type stream_index (ae_avb st)
              in (p1[30 := sfc_from_sampling_rate rate, 31 := word_of_int channels, 34 := word_of_int channels],
                  status, st)
         else let (status, v) = write_stream_format ev desc_type stream_index
                                  (sampling_rate_from_sfc (pkt ! 30)) (uint (pkt ! 34)) (ae_avb st)
              in (pkt, status, st\<lparr>ae_avb := v\<rparr>))"

text \<open>The media clock server and the clocks, for the get/set functions of the clocks.\<close>

definition aecp_clocks :: "aecp_st \<Rightarrow> bool \<times> media_clock list" where
  "aecp_clocks st = (av_media_clock_svr (ae_avb st), ae_clocks st)"

definition process_aem_cmd_getset_sampling_rate ::
  "u16 \<Rightarrow> u8 list \<Rightarrow> aecp_st \<Rightarrow> u8 list \<times> u8 \<times> aecp_st" where
  "process_aem_cmd_getset_sampling_rate command_type pkt st =
     (let k = unat (aecp_field 26 pkt)
      in if command_type = AECP_AEM_CMD_GET_SAMPLING_RATE
         then (case getset_device_media_clock_rate False k 0 (aecp_clocks st) of
                 Some (rate, _) \<Rightarrow> (put_bytes 28 (hton_32 (word_of_int rate)) pkt, AECP_AEM_STATUS_SUCCESS, st)
               | None \<Rightarrow> (pkt, AECP_AEM_STATUS_NO_SUCH_DESCRIPTOR, st))
         else (case getset_device_media_clock_rate True k (sint (ntoh_32 (get_bytes 28 4 pkt))) (aecp_clocks st) of
                 Some (_, cs) \<Rightarrow> (pkt, AECP_AEM_STATUS_SUCCESS, st\<lparr>ae_clocks := cs\<rparr>)
               | None \<Rightarrow> (pkt, AECP_AEM_STATUS_NO_SUCH_DESCRIPTOR, st)))"

definition process_aem_cmd_getset_clock_source ::
  "u16 \<Rightarrow> u8 list \<Rightarrow> aecp_st \<Rightarrow> u8 list \<times> u8 \<times> aecp_st" where
  "process_aem_cmd_getset_clock_source command_type pkt st =
     (let k = unat (aecp_field 26 pkt)
      in if command_type = AECP_AEM_CMD_GET_CLOCK_SOURCE
         then (case getset_device_media_clock_type False k 0 (aecp_clocks st) of
                 Some (source_index, _) \<Rightarrow>
                   (put_bytes 28 (hton_16 (word_of_int source_index)) pkt, AECP_AEM_STATUS_SUCCESS, st)
               | None \<Rightarrow> (pkt, AECP_AEM_STATUS_NO_SUCH_DESCRIPTOR, st))
         else (case getset_device_media_clock_type True k (uint (aecp_field 28 pkt)) (aecp_clocks st) of
                 Some (_, cs) \<Rightarrow> (pkt, AECP_AEM_STATUS_SUCCESS, st\<lparr>ae_clocks := cs\<rparr>)
               | None \<Rightarrow> (pkt, AECP_AEM_STATUS_NO_SUCH_DESCRIPTOR, st)))"

definition process_aem_cmd_startstop_streaming ::
  "aecp_env \<Rightarrow> u16 \<Rightarrow> u8 list \<Rightarrow> aecp_st \<Rightarrow> u8 list \<times> u8 \<times> aecp_st" where
  "process_aem_cmd_startstop_streaming ev command_type pkt st =
     (let i = unat (aecp_field 26 pkt); desc_type = aecp_field 24 pkt; v = ae_avb st;
          start = (command_type = AECP_AEM_CMD_START_STREAMING);
          next = (\<lambda>state. if start then Some STATE_ENABLED
                          else if state = STATE_ENABLED then Some STATE_POTENTIAL else None)
      in if desc_type = AEM_STREAM_INPUT_TYPE then
           (case get_sink_state (ev_now ev) i v of
              None \<Rightarrow> (pkt, AECP_AEM_STATUS_NO_SUCH_DESCRIPTOR, st)
            | Some state \<Rightarrow>
                (pkt, AECP_AEM_STATUS_SUCCESS,
                 (case next state of
                    Some s \<Rightarrow> st\<lparr>ae_avb := set_avb_sink_state (ev_now ev) (ev_router_link ev) i s v\<rparr>
                  | None \<Rightarrow> st)))
         else if desc_type = AEM_STREAM_OUTPUT_TYPE then
           (case get_source_state (ev_now ev) i v of
              None \<Rightarrow> (pkt, AECP_AEM_STATUS_NO_SUCH_DESCRIPTOR, st)
            | Some state \<Rightarrow>
                (pkt, AECP_AEM_STATUS_SUCCESS,
                 (case next state of
                    Some s \<Rightarrow> st\<lparr>ae_avb := set_avb_source_state (ev_now ev) i s v\<rparr>
                  | None \<Rightarrow> st)))
         else (pkt, AECP_AEM_STATUS_SUCCESS, st))"

definition aem_get_avb_info :: "aecp_env \<Rightarrow> u8 list \<Rightarrow> u8 list" where
  "aem_get_avb_info ev pkt =
     put_bytes 44 [6, 3, 0, 2]
       (put_bytes 42 (hton_16 1) (put_bytes 36 (hton_32 (ev_pdelay ev)) (put_bytes 28 (take 8 (ev_grandmaster ev)) pkt)))"

section \<open>ACQUIRE_ENTITY\<close>

text \<open>
  What the handler decides before the common tail: no response, a response with a status, or to
  enter the controller as the new owner. A GUID is stored by copying the bytes of the packet into
  its \<open>c\<close> array in the order of the packet (\<open>guid_l\<close>), not in the order of \<open>get_64\<close> that
  \<open>compare_guid\<close> expects.
\<close>

definition controller_guid :: "u8 list \<Rightarrow> u8 list" where
  "controller_guid pkt = get_bytes 12 8 pkt"

datatype acquire_decision = NoResponse | Respond u8 | NewOwner

definition acquire_decide :: "u8 list \<Rightarrow> aecp_st \<Rightarrow> acquire_decision \<times> aecp_st" where
  "acquire_decide pkt st =
     (let g = controller_guid pkt
      in case ae_status st of
           AEM_ENTITY_NOT_ACQUIRED \<Rightarrow> (NewOwner, st)
         | AEM_ENTITY_ACQUIRED_BUT_PENDING \<Rightarrow>
             if compare_guid g (ae_pending_guid st)
             then (NewOwner, st\<lparr>ae_status := AEM_ENTITY_NOT_ACQUIRED, ae_pending_guid := 0\<rparr>)
             else (NoResponse, st)
         | _ \<Rightarrow>
             if \<not> compare_guid g (ae_acquired_guid st)
             then if ae_status st = AEM_ENTITY_ACQUIRED \<and> \<not> compare_guid g (ae_pending_guid st)
                  then let s1 = aecp_emit 64 (avb_1722_1_create_controller_available_packet
                                  (take 6 (ae_acquired_mac st)) (ae_acquired_guid st) st)
                       in (NoResponse, s1\<lparr>ae_status := AEM_ENTITY_ACQUIRED_BUT_PENDING, ae_pending_guid := guid_l g\<rparr>)
                  else (Respond AECP_AEM_STATUS_ENTITY_ACQUIRED, st\<lparr>ae_pending_guid := 0\<rparr>)
             else (Respond AECP_AEM_STATUS_SUCCESS, st))"

text \<open>The loop that stores the owner runs over eight bytes for the GUID and for the MAC address.\<close>

definition acquire_enter :: "u8 list \<Rightarrow> u8 list \<Rightarrow> aecp_st \<Rightarrow> aecp_st" where
  "acquire_enter src_addr pkt st =
     st\<lparr>ae_status := (if pkt ! 27 AND 1 \<noteq> 0 then AEM_ENTITY_ACQUIRED_AND_PERSISTENT else AEM_ENTITY_ACQUIRED),
        ae_acquired_guid := guid_l (controller_guid pkt),
        ae_acquired_mac := put_bytes 0 (take 8 src_addr) (ae_acquired_mac st)\<rparr>"

text \<open>\<open>None\<close> is no response, otherwise the packet with the owner filled in, and the status.\<close>

definition aem_acquire_entity :: "u8 list \<Rightarrow> u8 list \<Rightarrow> aecp_st \<Rightarrow> (u8 list \<times> u8) option \<times> aecp_st" where
  "aem_acquire_entity src_addr pkt st =
     (let answer = (\<lambda>status s. (Some (put_bytes 28 (guid_c (ae_acquired_guid s)) pkt, status), s))
      in if aecp_field 36 pkt \<noteq> AEM_ENTITY_TYPE \<or> aecp_field 38 pkt \<noteq> 0
         then answer AECP_AEM_STATUS_NOT_SUPPORTED st
         else case acquire_decide pkt st of
                (NoResponse, s1) \<Rightarrow> (None, s1)
              | (Respond status, s1) \<Rightarrow> answer status s1
              | (NewOwner, s1) \<Rightarrow> answer AECP_AEM_STATUS_SUCCESS (acquire_enter src_addr pkt s1))"

section \<open>The packet handler\<close>

text \<open>\<open>aem_command\<close> gives the response, with the length of its command data, of every command but
  READ_DESCRIPTOR.\<close>

definition aem_command ::
  "aecp_env \<Rightarrow> u8 list \<Rightarrow> u16 \<Rightarrow> u8 list \<Rightarrow> aecp_st \<Rightarrow> (u8 list \<times> u8 \<times> nat) option \<times> aecp_st" where
  "aem_command ev src_addr command_type pkt st =
     (let with_len = (\<lambda>n (p, status, s). (Some (p, status, n), s))
      in if command_type = AECP_AEM_CMD_ACQUIRE_ENTITY then
           (case aem_acquire_entity src_addr pkt st of
              (Some (p, status), s) \<Rightarrow> (Some (p, status, 16), s)
            | (None, s) \<Rightarrow> (None, s))
         else if command_type = AECP_AEM_CMD_GET_AVB_INFO then
           (if aecp_field 26 pkt = 0 then (Some (aem_get_avb_info ev pkt, AECP_AEM_STATUS_SUCCESS, 24), st) else (None, st))
         else if command_type = AECP_AEM_CMD_GET_STREAM_FORMAT \<or> command_type = AECP_AEM_CMD_SET_STREAM_FORMAT then
           with_len 12 (process_aem_cmd_getset_stream_format ev command_type pkt st)
         else if command_type = AECP_AEM_CMD_GET_SAMPLING_RATE \<or> command_type = AECP_AEM_CMD_SET_SAMPLING_RATE then
           with_len 8 (process_aem_cmd_getset_sampling_rate command_type pkt st)
         else if command_type = AECP_AEM_CMD_GET_CLOCK_SOURCE \<or> command_type = AECP_AEM_CMD_SET_CLOCK_SOURCE then
           with_len 8 (process_aem_cmd_getset_clock_source command_type pkt st)
         else if command_type = AECP_AEM_CMD_START_STREAMING \<or> command_type = AECP_AEM_CMD_STOP_STREAMING then
           with_len 4 (process_aem_cmd_startstop_streaming ev command_type pkt st)
         else (None, st))"

definition aem_read_descriptor :: "aecp_env \<Rightarrow> u8 list \<Rightarrow> u8 list \<Rightarrow> aecp_st \<Rightarrow> aecp_st" where
  "aem_read_descriptor ev src_addr pkt st =
     (let (n, s1) = create_aem_read_descriptor_response ev (aecp_field 28 pkt) (aecp_field 30 pkt) src_addr pkt st
      in aecp_emit n s1)"

text \<open>A response is acted on only when it is a CONTROLLER_AVAILABLE for the pending acquisition.\<close>

definition aem_response :: "u8 list \<Rightarrow> aecp_st \<Rightarrow> aecp_st" where
  "aem_response pkt st =
     (if aem_msg_command_type pkt = AECP_AEM_CMD_CONTROLLER_AVAILABLE \<and>
         ae_status st = AEM_ENTITY_ACQUIRED_BUT_PENDING \<and> compare_guid (controller_guid pkt) (ae_pending_guid st)
      then st\<lparr>ae_status := AEM_ENTITY_ACQUIRED\<rparr> else st)"

definition process_avb_1722_1_aecp_aem_msg ::
  "aecp_env \<Rightarrow> u8 list \<Rightarrow> u8 list \<Rightarrow> u8 \<Rightarrow> aecp_st \<Rightarrow> aecp_st" where
  "process_avb_1722_1_aecp_aem_msg ev src_addr pkt message_type st =
     (let command_type = aem_msg_command_type pkt
      in if message_type = AECP_CMD_AEM_COMMAND
         then if command_type = AECP_AEM_CMD_READ_DESCRIPTOR then aem_read_descriptor ev src_addr pkt st
              else (case aem_command ev src_addr command_type pkt st of
                      (Some (p, status, cd_len), s1) \<Rightarrow>
                        aecp_emit 64 (avb_1722_1_create_aecp_aem_response src_addr status cd_len p s1)
                    | (None, s1) \<Rightarrow> s1)
         else aem_response pkt st)"

definition process_avb_1722_1_aecp_packet :: "aecp_env \<Rightarrow> u8 list \<Rightarrow> u8 list \<Rightarrow> aecp_st \<Rightarrow> aecp_st" where
  "process_avb_1722_1_aecp_packet ev src_addr pkt st =
     (let message_type = get_1722_1_msg_type pkt
      in if \<not> compare_guid (get_bytes 4 8 pkt) (ae_my_guid st) then st
         else if message_type = AECP_CMD_AEM_COMMAND \<or> message_type = AECP_CMD_AEM_RESPONSE
         then process_avb_1722_1_aecp_aem_msg ev src_addr pkt message_type st
         else st)"

end
