(* ===== verification/Adp.thy ===== *)
theory Adp
  imports Misc_Timer Avb_1722_Common
begin

text \<open>
  Entity discovery of 1722.1 (\<open>avb_1722_1_adp.c\<close>): the database of discovered entities, the
  discovery and the advertising state machines, the packet writer and the packet handler.
  The configuration macros are the record \<open>adp_config\<close>, the number of entities is the
  length of the database, and the statics of the file are the record \<open>adp_st\<close>. What the code
  hands to the MAC and to the application hook is appended to \<open>ad_out\<close>.
\<close>

section \<open>Data\<close>

datatype adp_advertise_state =
    ADP_ADVERTISE_IDLE
  | ADP_ADVERTISE_WAITING
  | ADP_ADVERTISE_ADVERTISE_0
  | ADP_ADVERTISE_ADVERTISE_1
  | ADP_ADVERTISE_DEPARTING
  | ADP_ADVERTISE_DEPART_THEN_ADVERTISE

datatype adp_discovery_state =
    ADP_DISCOVERY_IDLE
  | ADP_DISCOVERY_WAITING
  | ADP_DISCOVERY_DISCOVER
  | ADP_DISCOVERY_ADDED
  | ADP_DISCOVERY_REMOVED

abbreviation (input) "ENTITY_AVAILABLE \<equiv> 0 :: u8"
abbreviation (input) "ENTITY_DEPARTING \<equiv> 1 :: u8"
abbreviation (input) "ENTITY_DISCOVER \<equiv> 2 :: u8"

record avb_1722_1_entity_record =
  er_guid :: u64
  er_vendor_id :: u32
  er_entity_model_id :: u32
  er_capabilities :: u32
  er_talker_stream_sources :: u16
  er_talker_capabilities :: u16
  er_listener_stream_sinks :: u16
  er_listener_capabilities :: u16
  er_controller_capabilities :: u32
  er_available_index :: u32
  er_as_grandmaster_id :: u64
  er_association_id :: u32
  er_timeout :: u32

text \<open>The macros \<open>AVB_1722_1_ADP_*\<close> of the configuration, and the two fixed times.\<close>

record adp_config =
  cf_vendor_id :: u32
  cf_model_id :: u32
  cf_entity_capabilities :: u32
  cf_talker_stream_sources :: u16
  cf_talker_capabilities :: u16
  cf_listener_stream_sinks :: u16
  cf_listener_capabilities :: u16
  cf_controller_capabilities :: u32
  cf_association_id :: u32

definition AVB_1722_1_ADP_VALID_TIME :: u8 where "AVB_1722_1_ADP_VALID_TIME = 10"
definition AVB_1722_1_ADP_REPEAT_TIME :: u32 where "AVB_1722_1_ADP_REPEAT_TIME = 10 div 2"
definition AVB_1722_1_ADP_PACKET_SIZE :: nat where "AVB_1722_1_ADP_PACKET_SIZE = 14 + 68"

definition avb_1722_1_adp_dest_addr :: "u8 list" where
  "avb_1722_1_adp_dest_addr = [0x91, 0xe0, 0xf0, 0x01, 0x00, 0x00]"

datatype adp_out = AdpTx "u8 list" | NewEntity avb_1722_1_entity_record

record adp_st =
  ad_my_guid :: u64
  ad_my_mac :: "u8 list"
  ad_buf :: "u8 list"
  ad_advertise_state :: adp_advertise_state
  ad_discovery_state :: adp_discovery_state
  ad_discover_guid :: u64
  ad_available_index :: u32
  ad_grandmaster :: u64
  ad_advertise_timer :: avb_timer
  ad_readvertise_timer :: avb_timer
  ad_discovery_timer :: avb_timer
  ad_ptp_monitor_timer :: avb_timer
  ad_two_second_counter :: u32
  ad_entities :: "avb_1722_1_entity_record list"
  ad_latest :: int
  ad_out :: "adp_out list"

definition adp_emit :: "adp_out \<Rightarrow> adp_st \<Rightarrow> adp_st" where
  "adp_emit x st = st\<lparr>ad_out := ad_out st @ [x]\<rparr>"

section \<open>Entity database\<close>

definition entity_clear :: "avb_1722_1_entity_record \<Rightarrow> avb_1722_1_entity_record" where
  "entity_clear e = e\<lparr>er_guid := 0\<rparr>"

definition avb_1722_1_entity_database_flush :: "adp_st \<Rightarrow> adp_st" where
  "avb_1722_1_entity_database_flush st = st\<lparr>ad_entities := map entity_clear (ad_entities st)\<rparr>"

text \<open>The index of a GUID, or the length of the database.\<close>

definition avb_1722_1_entity_database_find :: "u64 \<Rightarrow> adp_st \<Rightarrow> nat" where
  "avb_1722_1_entity_database_find guid st =
     (case find_idx (\<lambda>e. er_guid e = guid) (ad_entities st) of
        Some i \<Rightarrow> i | None \<Rightarrow> length (ad_entities st))"

text \<open>
  The slot for a GUID: the loop stops at an entry that holds it, and otherwise has
  remembered the last empty entry. The second component is \<open>entity_update\<close>.
\<close>

definition entity_slot :: "u64 \<Rightarrow> avb_1722_1_entity_record list \<Rightarrow> (nat \<times> bool) option" where
  "entity_slot guid es =
     (case find_idx (\<lambda>e. er_guid e \<noteq> 0 \<and> er_guid e = guid) es of
        Some i \<Rightarrow> Some (i, True)
      | None \<Rightarrow> map_option (\<lambda>i. (i, False)) (find_last_idx (\<lambda>e. er_guid e = 0) es))"

definition entity_of_packet :: "u8 list \<Rightarrow> u32 \<Rightarrow> avb_1722_1_entity_record" where
  "entity_of_packet pkt counter =
     \<lparr>er_guid = guid_from_wire (get_bytes 4 8 pkt),
      er_vendor_id = ntoh_32 (get_bytes 12 4 pkt),
      er_entity_model_id = ntoh_32 (get_bytes 16 4 pkt),
      er_capabilities = ntoh_32 (get_bytes 20 4 pkt),
      er_talker_stream_sources = ntoh_16 (get_bytes 24 2 pkt),
      er_talker_capabilities = ntoh_16 (get_bytes 26 2 pkt),
      er_listener_stream_sinks = ntoh_16 (get_bytes 28 2 pkt),
      er_listener_capabilities = ntoh_16 (get_bytes 30 2 pkt),
      er_controller_capabilities = ntoh_32 (get_bytes 32 4 pkt),
      er_available_index = ntoh_32 (get_bytes 36 4 pkt),
      er_as_grandmaster_id = guid_from_wire (get_bytes 40 8 pkt),
      er_association_id = ntoh_32 (get_bytes 56 4 pkt),
      er_timeout = ucast (get_1722_1_valid_time pkt) + counter\<rparr>"

text \<open>The result is the code's 1 for an entity that was not in the database.\<close>

definition avb_1722_1_entity_database_add :: "u8 list \<Rightarrow> adp_st \<Rightarrow> bool \<times> adp_st" where
  "avb_1722_1_entity_database_add pkt st =
     (case entity_slot (guid_from_wire (get_bytes 4 8 pkt)) (ad_entities st) of
        None \<Rightarrow> (False, st)
      | Some (i, entity_update) \<Rightarrow>
          let st1 = st\<lparr>ad_entities := (ad_entities st)[i := entity_of_packet pkt (ad_two_second_counter st)]\<rparr>
          in if entity_update then (False, st1) else (True, st1\<lparr>ad_latest := int i\<rparr>))"

definition avb_1722_1_entity_database_remove :: "u8 list \<Rightarrow> adp_st \<Rightarrow> adp_st" where
  "avb_1722_1_entity_database_remove pkt st =
     (let i = avb_1722_1_entity_database_find (guid_from_wire (get_bytes 4 8 pkt)) st
      in if i \<noteq> length (ad_entities st)
         then st\<lparr>ad_entities := modify_nth i entity_clear (ad_entities st)\<rparr> else st)"

definition avb_1722_1_entity_database_check_timeout :: "adp_st \<Rightarrow> bool \<times> adp_st" where
  "avb_1722_1_entity_database_check_timeout st =
     (case find_idx (\<lambda>e. er_guid e \<noteq> 0 \<and> er_timeout e < ad_two_second_counter st) (ad_entities st) of
        Some i \<Rightarrow> (True, st\<lparr>ad_entities := modify_nth i entity_clear (ad_entities st)\<rparr>)
      | None \<Rightarrow> (False, st))"

section \<open>The interface of the module\<close>

definition avb_1722_1_adp_init :: "u32 \<Rightarrow> adp_st \<Rightarrow> adp_st" where
  "avb_1722_1_adp_init now st =
     (let s1 = avb_1722_1_entity_database_flush st;
          s2 = s1\<lparr>ad_advertise_timer := init_avb_timer 1 (ad_advertise_timer s1),
                  ad_readvertise_timer := init_avb_timer 100 (ad_readvertise_timer s1),
                  ad_discovery_timer := init_avb_timer 200 (ad_discovery_timer s1),
                  ad_ptp_monitor_timer := init_avb_timer 100 (ad_ptp_monitor_timer s1),
                  ad_advertise_state := ADP_ADVERTISE_IDLE,
                  ad_discovery_state := ADP_DISCOVERY_WAITING\<rparr>
      in s2\<lparr>ad_discovery_timer := start_avb_timer now 1 (ad_discovery_timer s2)\<rparr>)"

definition adp_request :: "adp_advertise_state \<Rightarrow> adp_st \<Rightarrow> adp_st" where
  "adp_request s st =
     (if ad_advertise_state st = ADP_ADVERTISE_IDLE \<or> ad_advertise_state st = ADP_ADVERTISE_WAITING
      then st\<lparr>ad_advertise_state := s\<rparr> else st)"

definition avb_1722_1_adp_announce :: "adp_st \<Rightarrow> adp_st" where
  "avb_1722_1_adp_announce = adp_request ADP_ADVERTISE_ADVERTISE_0"

definition avb_1722_1_adp_depart :: "adp_st \<Rightarrow> adp_st" where
  "avb_1722_1_adp_depart = adp_request ADP_ADVERTISE_DEPARTING"

definition avb_1722_1_adp_depart_then_announce :: "adp_st \<Rightarrow> adp_st" where
  "avb_1722_1_adp_depart_then_announce = adp_request ADP_ADVERTISE_DEPART_THEN_ADVERTISE"

definition avb_1722_1_adp_discover :: "u64 \<Rightarrow> adp_st \<Rightarrow> adp_st" where
  "avb_1722_1_adp_discover guid st =
     (if ad_discovery_state st = ADP_DISCOVERY_WAITING
      then st\<lparr>ad_discovery_state := ADP_DISCOVERY_DISCOVER, ad_discover_guid := guid\<rparr> else st)"

definition avb_1722_1_adp_discover_all :: "adp_st \<Rightarrow> adp_st" where
  "avb_1722_1_adp_discover_all = avb_1722_1_adp_discover 0"

definition avb_1722_1_adp_change_ptp_grandmaster :: "u8 list \<Rightarrow> adp_st \<Rightarrow> adp_st" where
  "avb_1722_1_adp_change_ptp_grandmaster grandmaster st = st\<lparr>ad_grandmaster := guid_l (take 8 grandmaster)\<rparr>"

definition avb_1722_1_get_latest_new_entity_idx :: "adp_st \<Rightarrow> int" where
  "avb_1722_1_get_latest_new_entity_idx st = ad_latest st"

section \<open>Packets\<close>

definition process_avb_1722_1_adp_packet :: "u8 list \<Rightarrow> adp_st \<Rightarrow> adp_st" where
  "process_avb_1722_1_adp_packet pkt st =
     (let message_type = get_1722_1_msg_type pkt; guid = get_bytes 4 8 pkt
      in if message_type = ENTITY_DISCOVER then
           (if compare_guid guid (ad_my_guid st) \<or> compare_guid guid 0
            then if ad_advertise_state st = ADP_ADVERTISE_WAITING
                 then st\<lparr>ad_advertise_state := ADP_ADVERTISE_ADVERTISE_1\<rparr> else st
            else st)
         else if message_type = ENTITY_AVAILABLE then
           (case avb_1722_1_entity_database_add pkt st of
              (True, st1) \<Rightarrow> st1\<lparr>ad_discovery_state := ADP_DISCOVERY_ADDED\<rparr>
            | (False, st1) \<Rightarrow> st1)
         else if message_type = ENTITY_DEPARTING then
           (avb_1722_1_entity_database_remove pkt st)\<lparr>ad_discovery_state := ADP_DISCOVERY_REMOVED\<rparr>
         else st)"

text \<open>
  \<open>hton_32\<close> writes four octets of the eight-octet \<open>association_id\<close>; the \<open>as_grandmaster_id\<close>
  is copied without change of byte order.
\<close>

definition adp_fields :: "adp_config \<Rightarrow> u32 \<Rightarrow> u64 \<Rightarrow> (nat \<times> u8 list) list" where
  "adp_fields cf available_index gm =
     [(26, hton_32 (cf_vendor_id cf)), (30, hton_32 (cf_model_id cf)),
      (34, hton_32 (cf_entity_capabilities cf)), (38, hton_16 (cf_talker_stream_sources cf)),
      (40, hton_16 (cf_talker_capabilities cf)), (42, hton_16 (cf_listener_stream_sinks cf)),
      (44, hton_16 (cf_listener_capabilities cf)), (46, hton_32 (cf_controller_capabilities cf)),
      (50, hton_32 available_index), (54, guid_c gm), (70, hton_32 (cf_association_id cf))]"

definition avb_1722_1_create_adp_packet :: "adp_config \<Rightarrow> u8 \<Rightarrow> u64 \<Rightarrow> adp_st \<Rightarrow> u8 list" where
  "avb_1722_1_create_adp_packet cf message_type guid st =
     (let b1 = put_bytes 14 (replicate 68 0) (ad_buf st);
          b2 = avb_1722_1_create_1722_1_header (ad_my_mac st) avb_1722_1_adp_dest_addr 0x7a message_type
                 (if message_type = ENTITY_AVAILABLE then AVB_1722_1_ADP_VALID_TIME else 0) 56 b1;
          b3 = put_bytes 18 (guid_to_wire guid) b2
      in if message_type \<noteq> ENTITY_DISCOVER
         then put_fields (adp_fields cf (ad_available_index st) (ad_grandmaster st)) b3 else b3)"

definition adp_send :: "adp_config \<Rightarrow> u8 \<Rightarrow> u64 \<Rightarrow> adp_st \<Rightarrow> adp_st" where
  "adp_send cf message_type guid st =
     (let b = avb_1722_1_create_adp_packet cf message_type guid st
      in adp_emit (AdpTx (take AVB_1722_1_ADP_PACKET_SIZE b)) (st\<lparr>ad_buf := b\<rparr>))"

section \<open>Periodic processing\<close>

definition avb_1722_1_adp_discovery_periodic :: "adp_config \<Rightarrow> u32 \<Rightarrow> adp_st \<Rightarrow> adp_st" where
  "avb_1722_1_adp_discovery_periodic cf now st =
     (case ad_discovery_state st of
        ADP_DISCOVERY_IDLE \<Rightarrow> st
      | ADP_DISCOVERY_WAITING \<Rightarrow>
          (let (expired, t) = avb_timer_expired now (ad_discovery_timer st);
               s1 = st\<lparr>ad_discovery_timer := t\<rparr>
           in if expired
              then let s2 = s1\<lparr>ad_two_second_counter := ad_two_second_counter s1 + 1\<rparr>;
                       (lost, s3) = avb_1722_1_entity_database_check_timeout s2
                   in s3\<lparr>ad_discovery_timer := start_avb_timer now 1 (ad_discovery_timer s3)\<rparr>
              else s1)
      | ADP_DISCOVERY_DISCOVER \<Rightarrow>
          (adp_send cf ENTITY_DISCOVER (ad_discover_guid st) st)\<lparr>ad_discovery_state := ADP_DISCOVERY_WAITING\<rparr>
      | ADP_DISCOVERY_ADDED \<Rightarrow>
          (adp_emit (NewEntity (ad_entities st ! nat (ad_latest st))) st)
            \<lparr>ad_discovery_state := ADP_DISCOVERY_WAITING\<rparr>
      | ADP_DISCOVERY_REMOVED \<Rightarrow> st\<lparr>ad_discovery_state := ADP_DISCOVERY_WAITING\<rparr>)"

definition adp_advertise_1 :: "adp_config \<Rightarrow> u32 \<Rightarrow> adp_st \<Rightarrow> adp_st" where
  "adp_advertise_1 cf now st =
     (let s1 = adp_send cf ENTITY_AVAILABLE (ad_my_guid st) st
      in s1\<lparr>ad_readvertise_timer := start_avb_timer now AVB_1722_1_ADP_REPEAT_TIME (ad_readvertise_timer s1),
            ad_advertise_state := ADP_ADVERTISE_WAITING,
            ad_available_index := ad_available_index s1 + 1\<rparr>)"

text \<open>
  The local \<open>ptp_current\<close> is not initialised when state \<open>ADVERTISE_0\<close> copies it; \<open>stack\<close> is
  what it then holds. In the departing states the condition of the conditional expression is
  the enumeration constant \<open>ADP_ADVERTISE_DEPART_THEN_ADVERTISE\<close>, which is not 0.
\<close>

definition adp_advertise_step :: "adp_config \<Rightarrow> u32 \<Rightarrow> u8 list \<Rightarrow> adp_st \<Rightarrow> adp_st" where
  "adp_advertise_step cf now stack st =
     (case ad_advertise_state st of
        ADP_ADVERTISE_IDLE \<Rightarrow> st
      | ADP_ADVERTISE_WAITING \<Rightarrow>
          (let (expired, t) = avb_timer_expired now (ad_readvertise_timer st);
               s1 = st\<lparr>ad_readvertise_timer := t\<rparr>
           in if expired then s1\<lparr>ad_advertise_state := ADP_ADVERTISE_ADVERTISE_1\<rparr> else s1)
      | ADP_ADVERTISE_ADVERTISE_0 \<Rightarrow>
          (let s1 = avb_1722_1_adp_change_ptp_grandmaster stack st
           in adp_advertise_1 cf now
                (s1\<lparr>ad_ptp_monitor_timer := start_avb_timer now 1 (ad_ptp_monitor_timer s1),
                    ad_advertise_state := ADP_ADVERTISE_ADVERTISE_1\<rparr>))
      | ADP_ADVERTISE_ADVERTISE_1 \<Rightarrow> adp_advertise_1 cf now st
      | _ \<Rightarrow>
          (adp_send cf ENTITY_DEPARTING (ad_my_guid st) st)
            \<lparr>ad_advertise_state := ADP_ADVERTISE_ADVERTISE_0, ad_available_index := 0\<rparr>)"

definition adp_monitor_ptp :: "u32 \<Rightarrow> u8 list \<Rightarrow> adp_st \<Rightarrow> adp_st" where
  "adp_monitor_ptp now ptp_current st =
     (let (expired, t) = avb_timer_expired now (ad_ptp_monitor_timer st);
          s1 = st\<lparr>ad_ptp_monitor_timer := t\<rparr>
      in if expired
         then let s2 = (if ad_grandmaster s1 \<noteq> guid_l (take 8 ptp_current)
                        then (avb_1722_1_adp_change_ptp_grandmaster ptp_current s1)
                               \<lparr>ad_advertise_state := ADP_ADVERTISE_ADVERTISE_1\<rparr>
                        else s1)
              in s2\<lparr>ad_ptp_monitor_timer := start_avb_timer now 1 (ad_ptp_monitor_timer s2)\<rparr>
         else s1)"

definition avb_1722_1_adp_advertising_periodic ::
  "adp_config \<Rightarrow> u32 \<Rightarrow> u8 list \<Rightarrow> u8 list \<Rightarrow> adp_st \<Rightarrow> adp_st" where
  "avb_1722_1_adp_advertising_periodic cf now stack grandmaster st =
     (let s1 = adp_advertise_step cf now stack st
      in if ad_advertise_state s1 \<noteq> ADP_ADVERTISE_IDLE then adp_monitor_ptp now grandmaster s1 else s1)"

end
