(* ===== verification/Endpoint.thy ===== *)
theory Endpoint
  imports Avb_Init Aecp Acmp Adp Maap Gptp
begin

text \<open>
  The control thread of the endpoint as a whole: \<open>avb_init\<close>, \<open>avb_start\<close>, \<open>avb_periodic\<close> and the
  dispatch of received frames (\<open>module_avb/src/avb.c\<close>), the 1722.1 layer that joins discovery,
  control and connection management (\<open>avb_1722_1.c\<close>), and the application hooks, both the weak
  ones of the modules (\<open>avb_1722_1_app_hooks.c\<close>, \<open>avb_1722_maap_app_hooks.c\<close>) and those of the demo
  application (\<open>simple_demo_controller.c\<close>).

  The parts share their state as the code does: the control state, the entity database and the
  media clocks are what the hooks of the connection manager work on (\<open>ac_env\<close>); the transmit buffer
  \<open>avb_1722_1_buf\<close> is \<open>ac_buf\<close>, and is handed to discovery and control for the time of a call.
\<close>

record app_env =
  ap_avb :: avb_st
  ap_adp :: adp_st
  ap_clocks :: "media_clock list"

record 'r endpoint =
  ep_mac :: "u8 list"
  ep_acmp :: "app_env acmp_st"
  ep_aecp :: aecp_st
  ep_maap :: "'r maap_st"
  ep_maap_sent :: "u8 list list"
  ep_first_time :: u32
  ep_maap_started :: bool
  ep_controller_state :: int

abbreviation ep_env :: "'r endpoint \<Rightarrow> app_env" where "ep_env d \<equiv> ac_env (ep_acmp d)"
abbreviation ep_avb :: "'r endpoint \<Rightarrow> avb_st" where "ep_avb d \<equiv> ap_avb (ep_env d)"
abbreviation ep_adp :: "'r endpoint \<Rightarrow> adp_st" where "ep_adp d \<equiv> ap_adp (ep_env d)"

definition on_acmp :: "(app_env acmp_st \<Rightarrow> app_env acmp_st) \<Rightarrow> 'r endpoint \<Rightarrow> 'r endpoint" where
  "on_acmp f d = d\<lparr>ep_acmp := f (ep_acmp d)\<rparr>"

definition on_env :: "(app_env \<Rightarrow> app_env) \<Rightarrow> 'r endpoint \<Rightarrow> 'r endpoint" where
  "on_env f = on_acmp (\<lambda>c. c\<lparr>ac_env := f (ac_env c)\<rparr>)"

definition on_avb :: "(avb_st \<Rightarrow> avb_st) \<Rightarrow> 'r endpoint \<Rightarrow> 'r endpoint" where
  "on_avb f = on_env (\<lambda>e. e\<lparr>ap_avb := f (ap_avb e)\<rparr>)"

text \<open>Discovery works on the shared transmit buffer.\<close>

definition on_adp :: "(adp_st \<Rightarrow> adp_st) \<Rightarrow> 'r endpoint \<Rightarrow> 'r endpoint" where
  "on_adp f d =
     (let a = f ((ep_adp d)\<lparr>ad_buf := ac_buf (ep_acmp d)\<rparr>)
      in on_acmp (\<lambda>c. c\<lparr>ac_buf := ad_buf a, ac_env := (ac_env c)\<lparr>ap_adp := a\<rparr>\<rparr>) d)"

text \<open>So does the control protocol, which also reads and changes the streams and the clocks.\<close>

definition on_aecp :: "(aecp_st \<Rightarrow> aecp_st) \<Rightarrow> 'r endpoint \<Rightarrow> 'r endpoint" where
  "on_aecp f d =
     (let e = f ((ep_aecp d)\<lparr>ae_buf := ac_buf (ep_acmp d), ae_avb := ep_avb d, ae_clocks := ap_clocks (ep_env d)\<rparr>)
      in on_acmp (\<lambda>c. c\<lparr>ac_buf := ae_buf e, ac_env := (ac_env c)\<lparr>ap_avb := ae_avb e, ap_clocks := ae_clocks e\<rparr>\<rparr>)
           (d\<lparr>ep_aecp := e\<rparr>))"

section \<open>The application\<close>

record 'r application =
  app_hooks :: "u32 \<Rightarrow> u32 \<Rightarrow> app_env acmp_hooks"
  app_new_entity :: "avb_1722_1_entity_record \<Rightarrow> 'r endpoint \<Rightarrow> 'r endpoint"
  app_address_reserved :: "u32 \<Rightarrow> int \<Rightarrow> u8 list \<Rightarrow> 'r endpoint \<Rightarrow> 'r endpoint"

text \<open>What a call reads from outside the control thread.\<close>

record call_env =
  ce_now :: u32
  ce_aecp :: aecp_env
  ce_stack :: "u8 list"

record 'r endpoint_config =
  ec_adp :: adp_config
  ec_random :: "'r \<Rightarrow> u32 \<times> 'r"
  ec_app :: "'r application"
  ec_status_packet_len :: nat

definition env_avb :: "(avb_st \<Rightarrow> avb_st) \<Rightarrow> app_env \<Rightarrow> app_env" where
  "env_avb f e = e\<lparr>ap_avb := f (ap_avb e)\<rparr>"

subsection \<open>The hooks of the modules\<close>

definition sink_reserved :: "app_env \<Rightarrow> u16 \<Rightarrow> bool" where
  "sink_reserved e i = (get_sink_state 0 (unat i) (ap_avb e) \<noteq> Some STATE_DISABLED)"

definition avb_talker_on_listener_connect :: "u32 \<Rightarrow> u16 \<Rightarrow> u64 \<Rightarrow> app_env \<Rightarrow> app_env \<times> (u32 \<times> u32) option" where
  "avb_talker_on_listener_connect now source_num listener_guid e =
     (let i = unat source_num; v = ap_avb e
      in if get_source_state now i v = Some STATE_DISABLED
         then (env_avb (set_avb_source_state now i STATE_POTENTIAL) e, get_avb_source_id i v)
         else (e, None))"

definition avb_talker_on_listener_disconnect :: "u32 \<Rightarrow> u16 \<Rightarrow> u64 \<Rightarrow> int \<Rightarrow> app_env \<Rightarrow> app_env" where
  "avb_talker_on_listener_disconnect now source_num listener_guid connection_count e =
     (let i = unat source_num
      in case get_source_state now i (ap_avb e) of
           Some state \<Rightarrow>
             if state \<noteq> STATE_DISABLED \<and> connection_count = 0
             then env_avb (set_avb_source_state now i STATE_DISABLED) e else e
         | None \<Rightarrow> e)"

text \<open>The calls by which both versions of the connect hook configure and enable the sink.\<close>

definition configure_sink ::
  "nat \<Rightarrow> u32 \<Rightarrow> u32 \<Rightarrow> nat \<Rightarrow> int list \<Rightarrow> u8 list \<Rightarrow> u32 \<times> u32 \<Rightarrow> avb_st \<Rightarrow> avb_st" where
  "configure_sink max_channels now router_link i chan_map dest_addr stream_id v =
     (let n = length chan_map;
          v1 = call_set (getset_avb_sink_sync True i 0 v) v;
          v2 = call_set (getset_avb_sink_channels True i (int n) v1) v1;
          v3 = call_set (getset_avb_sink_map max_channels True i (chan_map, n) v2) v2;
          v4 = call_set (getset_avb_sink_id True i stream_id v3) v3;
          v5 = call_set (getset_avb_sink_addr True i (dest_addr, 6) v4) v4
      in set_avb_sink_state now router_link i STATE_POTENTIAL v5)"

definition avb_listener_on_talker_connect ::
  "nat \<Rightarrow> u32 \<Rightarrow> u32 \<Rightarrow> u16 \<Rightarrow> u64 \<Rightarrow> u8 list \<Rightarrow> u32 \<times> u32 \<Rightarrow> u64 \<Rightarrow> app_env \<Rightarrow> app_env \<times> u8" where
  "avb_listener_on_talker_connect max_channels now router_link sink_num talker_guid dest_addr stream_id my_guid e =
     (env_avb (\<lambda>v. configure_sink max_channels now router_link (unat sink_num) (map int [0..<get_media_outs v])
                      dest_addr stream_id v) e,
      ACMP_STATUS_SUCCESS)"

definition avb_listener_on_talker_disconnect ::
  "u32 \<Rightarrow> u32 \<Rightarrow> u16 \<Rightarrow> u64 \<Rightarrow> u8 list \<Rightarrow> u32 \<times> u32 \<Rightarrow> u64 \<Rightarrow> app_env \<Rightarrow> app_env" where
  "avb_listener_on_talker_disconnect now router_link sink_num talker_guid dest_addr stream_id my_guid =
     env_avb (set_avb_sink_state now router_link (unat sink_num) STATE_DISABLED)"

definition module_hooks :: "nat \<Rightarrow> u32 \<Rightarrow> u32 \<Rightarrow> app_env acmp_hooks" where
  "module_hooks max_channels now router_link =
     \<lparr>hk_sink_reserved = sink_reserved,
      hk_talker_on_listener_connect = avb_talker_on_listener_connect now,
      hk_talker_on_listener_disconnect = avb_talker_on_listener_disconnect now,
      hk_listener_on_talker_connect = avb_listener_on_talker_connect max_channels now router_link,
      hk_listener_on_talker_disconnect = avb_listener_on_talker_disconnect now router_link,
      hk_talker_on_listener_connect_failed = (\<lambda>my_guid source_num listener_guid status e. (e, []))\<rparr>"

definition avb_talker_on_source_address_reserved :: "u32 \<Rightarrow> int \<Rightarrow> u8 list \<Rightarrow> avb_st \<Rightarrow> avb_st" where
  "avb_talker_on_source_address_reserved now source_num mac_addr v =
     (let i = nat source_num;
          v1 = call_set (getset_avb_source_dest True i (mac_addr, 6) v) v;
          v2 = (case get_source_state now i v of
                  Some state \<Rightarrow> if state \<noteq> STATE_DISABLED then set_avb_source_state now i STATE_DISABLED v1 else v1
                | None \<Rightarrow> v1)
      in set_avb_source_state now i STATE_POTENTIAL v2)"

definition module_application :: "nat \<Rightarrow> 'r application" where
  "module_application max_channels =
     \<lparr>app_hooks = module_hooks max_channels,
      app_new_entity = (\<lambda>e d. d),
      app_address_reserved = (\<lambda>now i mac. on_avb (avb_talker_on_source_address_reserved now i mac))\<rparr>"

subsection \<open>The hooks of the demo application\<close>

abbreviation (input) "XMOS_VENDOR_ID \<equiv> 0x00229700 :: u32"
abbreviation (input) "AVB_1722_1_ADP_LISTENER_CAPABILITIES_AUDIO_SINK \<equiv> 0x4000 :: u16"
abbreviation (input) "DEVICE_MEDIA_CLOCK_INPUT_STREAM_DERIVED \<equiv> 0 :: int"
abbreviation (input) "DEVICE_MEDIA_CLOCK_LOCAL_CLOCK \<equiv> 1 :: int"

text \<open>The macros \<open>AVB_DEMO_ENABLE_TALKER\<close> and \<open>AVB_DEMO_ENABLE_LISTENER\<close>.\<close>

record demo_config =
  dm_talker :: bool
  dm_listener :: bool

definition xmos_audio_listener :: "avb_1722_1_entity_record \<Rightarrow> bool" where
  "xmos_audio_listener entity \<longleftrightarrow>
     er_vendor_id entity = XMOS_VENDOR_ID \<and>
     er_listener_capabilities entity AND AVB_1722_1_ADP_LISTENER_CAPABILITIES_AUDIO_SINK =
       AVB_1722_1_ADP_LISTENER_CAPABILITIES_AUDIO_SINK \<and>
     1 \<le> er_listener_stream_sinks entity"

text \<open>The result holds the calls of \<open>avb_1722_1_controller_connect\<close>.\<close>

definition avb_entity_on_new_entity_available ::
  "demo_config \<Rightarrow> u64 \<Rightarrow> avb_1722_1_entity_record \<Rightarrow> app_env \<Rightarrow> app_env \<times> (u64 \<times> u64 \<times> int \<times> int) list" where
  "avb_entity_on_new_entity_available dm my_guid entity e =
     (if dm_talker dm \<and> xmos_audio_listener entity
      then (e\<lparr>ap_adp := avb_1722_1_adp_announce (ap_adp e)\<rparr>, [(my_guid, er_guid entity, 0, 0)])
      else (e, []))"

definition avb_talker_on_listener_connect_failed ::
  "demo_config \<Rightarrow> u64 \<Rightarrow> u16 \<Rightarrow> u64 \<Rightarrow> u8 \<Rightarrow> app_env \<Rightarrow> app_env \<times> (u64 \<times> u64 \<times> int \<times> int) list" where
  "avb_talker_on_listener_connect_failed dm my_guid source_num listener_guid status e =
     (let i = avb_1722_1_entity_database_find listener_guid (ap_adp e)
      in if i \<noteq> length (ad_entities (ap_adp e)) \<and> status \<noteq> ACMP_STATUS_LISTENER_EXCLUSIVE
         then avb_entity_on_new_entity_available dm my_guid (ad_entities (ap_adp e) ! i) e
         else (e, []))"

definition set_clock_type :: "int \<Rightarrow> app_env \<Rightarrow> app_env" where
  "set_clock_type t e =
     e\<lparr>ap_clocks := call_set (getset_device_media_clock_type True 0 t (av_media_clock_svr (ap_avb e), ap_clocks e))
                     (ap_clocks e)\<rparr>"

text \<open>The channel map of a sink: consecutive outputs, the same number for every sink.\<close>

definition demo_channel_map :: "nat \<Rightarrow> avb_st \<Rightarrow> int list" where
  "demo_channel_map sink_num v =
     (let n = get_media_outs v div get_avb_sinks v
      in map (\<lambda>i. if sink_num \<noteq> 0 then int (sink_num * n + i) else int (sink_num + i)) [0..<n])"

text \<open>
  Whether the demo accepts the talker, and whether it elects itself the master of the audio clock:
  two devices of the vendor settle it by comparing their GUIDs.
\<close>

definition demo_accepts :: "u64 \<Rightarrow> app_env \<Rightarrow> bool" where
  "demo_accepts talker_guid e \<longleftrightarrow>
     drop_bit 40 talker_guid \<noteq> ucast (drop_bit 8 XMOS_VENDOR_ID) \<or>
     avb_1722_1_entity_database_find talker_guid (ap_adp e) \<noteq> length (ad_entities (ap_adp e))"

definition demo_master :: "demo_config \<Rightarrow> u64 \<Rightarrow> u64 \<Rightarrow> app_env \<Rightarrow> bool" where
  "demo_master dm talker_guid my_guid e \<longleftrightarrow>
     drop_bit 40 talker_guid = ucast (drop_bit 8 XMOS_VENDOR_ID) \<and> demo_accepts talker_guid e \<and>
     dm_talker dm \<and> dm_listener dm \<and> talker_guid < my_guid \<and>
     1 \<le> er_listener_stream_sinks
           (ad_entities (ap_adp e) ! avb_1722_1_entity_database_find talker_guid (ap_adp e))"

abbreviation (input) "ACMP_STATUS_NOT_SUPPORTED \<equiv> 31 :: u8"

definition demo_listener_on_talker_connect ::
  "demo_config \<Rightarrow> nat \<Rightarrow> u32 \<Rightarrow> u32 \<Rightarrow> u16 \<Rightarrow> u64 \<Rightarrow> u8 list \<Rightarrow> u32 \<times> u32 \<Rightarrow> u64 \<Rightarrow> app_env \<Rightarrow> app_env \<times> u8" where
  "demo_listener_on_talker_connect dm max_channels now router_link sink_num talker_guid dest_addr stream_id my_guid e =
     (let e1 = set_clock_type DEVICE_MEDIA_CLOCK_INPUT_STREAM_DERIVED e;
          e2 = (if demo_master dm talker_guid my_guid e then set_clock_type DEVICE_MEDIA_CLOCK_LOCAL_CLOCK e1 else e1)
      in if demo_accepts talker_guid e
         then (env_avb (\<lambda>v. configure_sink max_channels now router_link (unat sink_num)
                               (demo_channel_map (unat sink_num) v) dest_addr stream_id v) e2,
               ACMP_STATUS_SUCCESS)
         else (e2, ACMP_STATUS_NOT_SUPPORTED))"

definition demo_hooks :: "demo_config \<Rightarrow> nat \<Rightarrow> u32 \<Rightarrow> u32 \<Rightarrow> app_env acmp_hooks" where
  "demo_hooks dm max_channels now router_link =
     (module_hooks max_channels now router_link)
       \<lparr>hk_listener_on_talker_connect := demo_listener_on_talker_connect dm max_channels now router_link,
        hk_talker_on_listener_connect_failed := avb_talker_on_listener_connect_failed dm\<rparr>"

definition demo_new_entity :: "demo_config \<Rightarrow> avb_1722_1_entity_record \<Rightarrow> 'r endpoint \<Rightarrow> 'r endpoint" where
  "demo_new_entity dm entity d =
     (let (e, calls) = avb_entity_on_new_entity_available dm (ac_my_guid (ep_acmp d)) entity (ep_env d)
      in on_acmp (fold (\<lambda>(t, l, ti, li). avb_1722_1_controller_connect t l ti li) calls) (on_env (\<lambda>_. e) d))"

text \<open>The talker state machine starts when the last address has been reserved.\<close>

definition demo_source_address_reserved :: "int \<Rightarrow> u8 list \<Rightarrow> 'r endpoint \<Rightarrow> 'r endpoint" where
  "demo_source_address_reserved source_num mac_addr d =
     (let i = nat source_num;
          d1 = on_avb (\<lambda>v. call_set (getset_avb_source_dest True i (mac_addr, 6) v) v) d;
          d2 = on_acmp (avb_1722_1_talker_set_mac_address i mac_addr) d1;
          d3 = on_env (\<lambda>e. e\<lparr>ap_adp := avb_1722_1_adp_announce (ap_adp e)\<rparr>) d2
      in if source_num = int (length (ac_talker_streams (ep_acmp d))) - 1
         then on_acmp avb_1722_1_acmp_talker_init d3 else d3)"

definition demo_application :: "demo_config \<Rightarrow> nat \<Rightarrow> 'r application" where
  "demo_application dm max_channels =
     \<lparr>app_hooks = demo_hooks dm max_channels,
      app_new_entity = demo_new_entity dm,
      app_address_reserved = (\<lambda>now. demo_source_address_reserved)\<rparr>"

text \<open>The controller of the demo reacts to a change of the switch \<open>toggle_remote\<close>.\<close>

definition simple_demo_controller :: "u32 \<Rightarrow> int \<Rightarrow> 'r endpoint \<Rightarrow> 'r endpoint" where
  "simple_demo_controller now toggle_remote d =
     (let d1 = (if toggle_remote \<noteq> ep_controller_state d
                then let d2 = on_acmp (avb_1722_1_controller_disconnect_all_listeners 0) d
                     in if toggle_remote \<noteq> 0
                        then on_acmp avb_1722_1_acmp_controller_deinit d2
                        else on_env (\<lambda>e. e\<lparr>ap_adp := avb_1722_1_adp_discover_all
                                                        (avb_1722_1_entity_database_flush (ap_adp e))\<rparr>)
                               (on_acmp (avb_1722_1_acmp_controller_init now) d2)
                else d)
      in d1\<lparr>ep_controller_state := toggle_remote\<rparr>)"

section \<open>The 1722.1 layer\<close>

abbreviation (input) "DEFAULT_1722_1_ADP_SUBTYPE \<equiv> 0x7a :: u8"
abbreviation (input) "DEFAULT_1722_1_AECP_SUBTYPE \<equiv> 0x7b :: u8"
abbreviation (input) "DEFAULT_1722_1_ACMP_SUBTYPE \<equiv> 0x7c :: u8"

definition mac_guid :: "u8 list \<Rightarrow> u64" where
  "mac_guid mac = guid_l [mac ! 5, mac ! 4, mac ! 3, 0xfe, 0xff, mac ! 2, mac ! 1, mac ! 0]"

definition avb_1722_1_init :: "u32 \<Rightarrow> u8 list \<Rightarrow> 'r endpoint \<Rightarrow> 'r endpoint" where
  "avb_1722_1_init now macaddr d =
     (let mac = take 6 macaddr; guid = mac_guid macaddr;
          d1 = on_adp (\<lambda>a. avb_1722_1_adp_init now (a\<lparr>ad_my_mac := mac, ad_my_guid := guid\<rparr>)) d;
          d2 = on_aecp (\<lambda>e. avb_1722_1_aecp_aem_init (e\<lparr>ae_my_mac := mac, ae_my_guid := guid\<rparr>)) d1
      in on_acmp (\<lambda>c. avb_1722_1_acmp_listener_init now
                        (avb_1722_1_acmp_controller_init now (c\<lparr>ac_my_mac := mac, ac_my_guid := guid\<rparr>))) d2)"

definition avb_1722_1_process_packet :: "call_env \<Rightarrow> u8 list \<Rightarrow> u8 list \<Rightarrow> 'r endpoint \<Rightarrow> 'r endpoint" where
  "avb_1722_1_process_packet ce buf src_addr d =
     (let subtype = get_1722_1_subtype buf
      in if subtype = DEFAULT_1722_1_ADP_SUBTYPE then on_adp (process_avb_1722_1_adp_packet buf) d
         else if subtype = DEFAULT_1722_1_AECP_SUBTYPE
         then on_aecp (process_avb_1722_1_aecp_packet (ce_aecp ce) src_addr buf) d
         else if subtype = DEFAULT_1722_1_ACMP_SUBTYPE then on_acmp (process_avb_1722_1_acmp_packet buf) d
         else d)"

text \<open>Discovery reports a new entity to the application within its periodic call.\<close>

definition new_entity_of :: "adp_out \<Rightarrow> avb_1722_1_entity_record option" where
  "new_entity_of x = (case x of NewEntity e \<Rightarrow> Some e | AdpTx _ \<Rightarrow> None)"

definition adp_discovery :: "'r endpoint_config \<Rightarrow> call_env \<Rightarrow> 'r endpoint \<Rightarrow> 'r endpoint" where
  "adp_discovery ec ce d =
     (let d1 = on_adp (avb_1722_1_adp_discovery_periodic (ec_adp ec) (ce_now ce)) d
      in fold (app_new_entity (ec_app ec))
           (List.map_filter new_entity_of (drop (length (ad_out (ep_adp d))) (ad_out (ep_adp d1)))) d1)"

definition avb_1722_1_periodic :: "'r endpoint_config \<Rightarrow> call_env \<Rightarrow> 'r endpoint \<Rightarrow> 'r endpoint" where
  "avb_1722_1_periodic ec ce d =
     (let now = ce_now ce;
          hk = app_hooks (ec_app ec) now (ev_router_link (ce_aecp ce));
          d1 = on_adp (avb_1722_1_adp_advertising_periodic (ec_adp ec) now (ce_stack ce) (ev_grandmaster (ce_aecp ce))) d;
          d2 = adp_discovery ec ce d1
      in on_acmp (\<lambda>c. avb_1722_1_acmp_listener_periodic hk now
                        (avb_1722_1_acmp_talker_periodic hk
                          (avb_1722_1_acmp_controller_periodic hk now c))) d2)"

section \<open>The control thread\<close>

text \<open>
  What the units report to \<open>avb_init\<close>: the talker, listener and media units, and the channel of the
  media clock server. The message to the MAC that starts its router, and the filter settings of
  the receive side, leave the state unchanged.
\<close>

record endpoint_units =
  eu_talkers :: "stream_unit list"
  eu_listeners :: "stream_unit list"
  eu_media :: "media_unit list"
  eu_media_clock :: "nat option"

definition avb_register_units :: "u8 list \<Rightarrow> endpoint_units \<Rightarrow> avb_st \<Rightarrow> avb_st" where
  "avb_register_units mac us v =
     (let (max_talker_stream_id, v1) = register_talkers mac (eu_talkers us) (0, v);
          (max_link_id, max_listener_stream_id, v2) = register_listeners (eu_listeners us) (0, 0, v1)
      in init_media_clock_server (eu_media_clock us) (register_media (eu_media us) v2))"

definition avb_domain_init :: "avb_st \<Rightarrow> avb_st" where
  "avb_domain_init v =
     (let (a, v1) = mrp_get_attr v
      in mrp_attribute_init a MSRP_DOMAIN_VECTOR NoInfo (v1\<lparr>av_domain_attr := a\<rparr>))"

definition avb_init :: "u32 \<Rightarrow> u8 list \<Rightarrow> 'r \<Rightarrow> endpoint_units \<Rightarrow> 'r endpoint \<Rightarrow> 'r endpoint" where
  "avb_init now mac seed us d =
     (let d1 = on_avb (\<lambda>v. avb_register_units mac us (mrp_init now mac v)) (d\<lparr>ep_mac := mac\<rparr>);
          d2 = (if 0 < get_avb_sources (ep_avb d1)
                then d1\<lparr>ep_maap := avb_1722_maap_init mac seed (ep_maap d1)\<rparr> else d1);
          d3 = avb_1722_1_init now mac d2
      in on_avb (\<lambda>v. avb_mvrp_init (avb_mmrp_init (avb_domain_init v))) d3)"

definition maap_outputs :: "'r endpoint_config \<Rightarrow> u32 \<Rightarrow> maap_out list \<Rightarrow> 'r endpoint \<Rightarrow> 'r endpoint" where
  "maap_outputs ec now outs d =
     fold (\<lambda>x d. case x of
              MaapTx f \<Rightarrow> d\<lparr>ep_maap_sent := ep_maap_sent d @ [f]\<rparr>
            | SourceAddressReserved i mac \<Rightarrow> app_address_reserved (ec_app ec) now i mac d) outs d"

definition maap_run :: "'r endpoint_config \<Rightarrow> u32 \<Rightarrow> 'r endpoint \<Rightarrow> 'r endpoint" where
  "maap_run ec now d =
     (let (m, outs) = avb_1722_maap_periodic now (ep_maap d) in maap_outputs ec now outs (d\<lparr>ep_maap := m\<rparr>))"

text \<open>The addresses are requested once, a fixed time after the first call with a real time.\<close>

definition maap_start_up :: "'r endpoint_config \<Rightarrow> u32 \<Rightarrow> u32 \<Rightarrow> 'r endpoint \<Rightarrow> 'r endpoint" where
  "maap_start_up ec now time_now d =
     (let d1 = (if ep_first_time d = 1 \<and> time_now \<noteq> 1 then d\<lparr>ep_first_time := time_now\<rparr> else d)
      in if ep_first_time d1 \<noteq> 1 \<and> \<not> ep_maap_started d1 \<and>
            timeafter time_now (ep_first_time d1 + (RECV_ANNOUNCE_TIMEOUT + ANNOUNCE_PERIOD))
         then d1\<lparr>ep_maap := avb_1722_maap_request_addresses (ec_random ec) now
                              (int (get_avb_sources (ep_avb d1))) None (ep_maap d1),
                 ep_maap_started := True\<rparr>
         else d1)"

definition avb_periodic :: "'r endpoint_config \<Rightarrow> call_env \<Rightarrow> u32 \<Rightarrow> 'r endpoint \<Rightarrow> 'r endpoint" where
  "avb_periodic ec ce time_now d =
     (let d1 = avb_1722_1_periodic ec ce (on_avb (mrp_periodic (ce_now ce)) d)
      in if 0 < get_avb_sources (ep_avb d1)
         then maap_start_up ec (ce_now ce) time_now (maap_run ec (ce_now ce) d1)
         else d1)"

definition avb_start :: "u32 \<Rightarrow> 'r endpoint \<Rightarrow> 'r endpoint" where
  "avb_start now d =
     (let d1 = on_adp (\<lambda>a. avb_1722_1_adp_discover_all
                             (avb_1722_1_adp_depart_then_announce (avb_1722_1_adp_init now a))) d
      in on_avb (\<lambda>v. mrp_mad_join now (av_domain_attr v) True (mrp_mad_begin now (av_domain_attr v) v)) d1)"

text \<open>
  A frame as the code reads it: the test for a VLAN tag looks at the low byte of the type field,
  which is 0x18 there.
\<close>

definition has_qtag :: "u8 list \<Rightarrow> bool" where
  "has_qtag buf = (buf ! 13 = 0x18)"

definition frame_hdr_size :: "u8 list \<Rightarrow> nat" where
  "frame_hdr_size buf = (if has_qtag buf then 18 else 14)"

definition frame_etype :: "u8 list \<Rightarrow> u16" where
  "frame_etype buf =
     (let i = frame_hdr_size buf - 2 in push_bit 8 (ucast (buf ! i)) + ucast (buf ! (i + 1)))"

definition avb_process_control_packet ::
  "'r endpoint_config \<Rightarrow> call_env \<Rightarrow> u8 list \<Rightarrow> nat \<Rightarrow> 'r endpoint \<Rightarrow> 'r endpoint" where
  "avb_process_control_packet ec ce buf nbytes d =
     (if nbytes = ec_status_packet_len ec
      then if buf ! 0 \<noteq> 0 then avb_start (ce_now ce) d
           else on_avb (avb_link_down (ce_now ce) (ev_router_link (ce_aecp ce))) d
      else
        let etype = frame_etype buf; n = frame_hdr_size buf;
            src_addr = get_bytes 6 6 buf
        in if etype = AVB_SRP_ETHERTYPE \<or> etype = AVB_MMRP_ETHERTYPE \<or> etype = AVB_MVRP_ETHERTYPE
           then on_avb (avb_mrp_process_packet (ce_now ce) (drop n buf) etype (nbytes - n)) d
           else if etype = AVB_1722_ETHERTYPE
           then let d1 = avb_1722_1_process_packet ce (drop n buf) src_addr d;
                    (m, outs) = avb_1722_maap_process_packet (ec_random ec) (ce_now ce) (drop n buf) src_addr (ep_maap d1)
                in maap_outputs ec (ce_now ce) outs (d1\<lparr>ep_maap := m\<rparr>)
           else d)"

end
