(* ===== verification/Avb_Control_Proofs.thy ===== *)
theory Avb_Control_Proofs
  imports Srp_Proofs
begin

text \<open>
  The registration tables of VLANs and groups keep one active entry per value, and what the
  state changes of a source do to the channel maps, the VLAN and the bandwidth reservation.
\<close>

section \<open>Tables with one active entry per value\<close>

text \<open>
  Both tables are arrays of entries of which some are active for a key. A join activates an
  entry for a key; the clients rely on distinct keys of the active entries.
\<close>

locale registration_table =
  fixes active :: "'e \<Rightarrow> bool"
    and key :: "'e \<Rightarrow> 'k"
    and activate :: "'k \<Rightarrow> 'e \<Rightarrow> 'e"
    and valid :: "'k \<Rightarrow> bool"
  assumes active_activate: "active (activate k e)"
    and key_activate: "valid k \<Longrightarrow> key (activate k e) = k"
begin

definition keys_distinct :: "'e list \<Rightarrow> bool" where
  "keys_distinct es \<longleftrightarrow>
     (\<forall>i<length es. \<forall>j<length es. i \<noteq> j \<longrightarrow> active (es ! i) \<longrightarrow> active (es ! j) \<longrightarrow> key (es ! i) \<noteq> key (es ! j))"

definition holder :: "'k \<Rightarrow> 'e list \<Rightarrow> nat \<Rightarrow> bool" where
  "holder k es i \<longleftrightarrow> i < length es \<and> active (es ! i) \<and> key (es ! i) = k"

lemma activate_distinct:
  assumes "keys_distinct es" "valid k" "i < length es"
    and "\<And>j. holder k es j \<Longrightarrow> j = i"
  shows "keys_distinct (modify_nth i (activate k) es)"
proof -
  have new: "active (modify_nth i (activate k) es ! i)" "key (modify_nth i (activate k) es ! i) = k"
    using assms(2,3) by (simp_all add: active_activate key_activate)
  have old: "modify_nth i (activate k) es ! j = es ! j" if "j \<noteq> i" for j using that by simp
  have "key (es ! j) \<noteq> k" if "j \<noteq> i" "j < length es" "active (es ! j)" for j
    using assms(4) [of j] that by (auto simp: holder_def)
  then show ?thesis
    using assms(1) new old unfolding keys_distinct_def by (metis length_modify_nth)
qed

lemma activate_holder:
  "valid k \<Longrightarrow> i < length es \<Longrightarrow> (\<And>j. holder k es j \<Longrightarrow> j = i) \<Longrightarrow>
     holder k (modify_nth i (activate k) es) j \<longleftrightarrow> j = i"
  by (cases "j = i") (auto simp: holder_def active_activate key_activate)

end

interpretation vlan_table: registration_table mvrp_active mvrp_vlan mvrp_activate "\<lambda>_. True"
  by unfold_locales (simp_all add: mvrp_activate_def)

interpretation group_table: registration_table mmrp_active mmrp_addr mmrp_activate "\<lambda>a. length a = 6"
  by unfold_locales (simp_all add: mmrp_activate_def)

lemma addr_eq_iff: "length x = 6 \<Longrightarrow> length y = 6 \<Longrightarrow> addr_eq x y \<longleftrightarrow> x = y"
  by (auto simp: addr_eq_def list_all_iff intro!: nth_equalityI)

text \<open>The entry that a join takes is the only one that may already hold the value.\<close>

lemma mvrp_slot_holder:
  assumes "vlan_table.keys_distinct (av_vlans st)" "mvrp_slot vlan st = Some i" "vlan_table.holder vlan (av_vlans st) j"
  shows "j = i"
proof (cases "mvrp_find vlan st")
  case None
  with assms(3) show ?thesis by (auto simp: mvrp_find_def find_last_idx_None vlan_table.holder_def)
next
  case (Some k)
  with assms(2) have "k = i" by (simp add: mvrp_slot_def)
  with Some assms(1,3) show ?thesis
    by (auto simp: mvrp_find_def vlan_table.holder_def vlan_table.keys_distinct_def dest!: find_last_idx_SomeD)
qed

lemma mvrp_slot_less: "mvrp_slot vlan st = Some i \<Longrightarrow> i < length (av_vlans st)"
  by (auto simp: mvrp_slot_def mvrp_find_def split: option.splits dest!: find_last_idx_SomeD find_idx_less)

section \<open>Declarations\<close>

lemma mad_begin_quiet: "mrp_mad_begin now j st =
    update_attr j (\<lambda>a. mrp_attr_step now MRP_EVENT_BEGIN 0 (a\<lparr>at_leave_timer := init_avb_timer 1 (at_leave_timer a)\<rparr>)) st"
  by (simp add: mrp_mad_begin_def update_state_quiet update_attr_twice)

lemma mad_join_quiet: "mrp_mad_join now j True st = update_attr j (mrp_attr_step now MRP_EVENT_NEW 0) st"
  by (simp add: mrp_mad_join_def update_state_quiet)

lemma mad_leave_quiet: "mrp_mad_leave now j st = update_attr j (mrp_attr_step now MRP_EVENT_LV 0) st"
  by (simp add: mrp_mad_leave_def update_state_quiet)

lemma update_attr_more [simp]:
  "av_inputs (update_attr j f st) = av_inputs st" "av_outputs (update_attr j f st) = av_outputs st"
  "av_media_clock_svr (update_attr j f st) = av_media_clock_svr st"
  by (simp_all add: update_attr_def)

lemma join_vlan_eq:
  "avb_join_vlan now vlan st =
     (case mvrp_slot vlan st of
        Some i \<Rightarrow> (True, mrp_mad_join now (mvrp_attr (av_vlans st ! i)) True
                    (mrp_mad_begin now (mvrp_attr (av_vlans st ! i))
                      (st\<lparr>av_vlans := modify_nth i (mvrp_activate vlan) (av_vlans st)\<rparr>)))
      | None \<Rightarrow> (False, st))"
  by (simp add: avb_join_vlan_def Let_def split: option.split)

text \<open>
  Joining a VLAN. When \<open>avb_join_vlan\<close> returns 1, exactly one entry of the table is active
  for the VLAN, the active entries still have distinct VLANs, every other entry is unchanged,
  and the attribute of the entry declares the VLAN as new. It returns 0, and changes nothing,
  only if no entry holds the VLAN, all entries are active and none only observes.
\<close>

theorem join_vlan_table:
  assumes "vlan_table.keys_distinct (av_vlans st)"
    and "list_all (\<lambda>v. mvrp_attr v < length (av_attrs st)) (av_vlans st)"
  shows "case avb_join_vlan now vlan st of
      (True, st') \<Rightarrow>
        vlan_table.keys_distinct (av_vlans st') \<and>
        (\<exists>i<length (av_vlans st).
           (\<forall>j. vlan_table.holder vlan (av_vlans st') j \<longleftrightarrow> j = i) \<and>
           (\<forall>j. j \<noteq> i \<longrightarrow> av_vlans st' ! j = av_vlans st ! j) \<and>
           at_applicant (av_attrs st' ! mvrp_attr (av_vlans st' ! i)) = MRP_VN)
    | (False, st') \<Rightarrow>
        st' = st \<and> list_all (\<lambda>v. mvrp_active v \<and> mvrp_vlan v \<noteq> vlan \<and> \<not> mrp_is_observer (av_attrs st ! mvrp_attr v)) (av_vlans st)"
proof (cases "mvrp_slot vlan st")
  case None
  then show ?thesis
    by (auto simp: join_vlan_eq mvrp_slot_def mvrp_find_def find_last_idx_None find_idx_None list_all_iff split: option.splits)
next
  case (Some i)
  have i: "i < length (av_vlans st)" by (rule mvrp_slot_less [OF Some])
  have h: "\<And>j. vlan_table.holder vlan (av_vlans st) j \<Longrightarrow> j = i" using mvrp_slot_holder [OF assms(1) Some] .
  let ?vs = "modify_nth i (mvrp_activate vlan) (av_vlans st)"
  have at: "mvrp_attr (?vs ! i) = mvrp_attr (av_vlans st ! i)" "mvrp_attr (av_vlans st ! i) < length (av_attrs st)"
    using i assms(2) by (simp_all add: mvrp_activate_def list_all_length)
  show ?thesis
    using Some i at vlan_table.activate_distinct [OF assms(1) _ i h] vlan_table.activate_holder [OF _ i h]
    by (auto simp: join_vlan_eq mad_begin_quiet mad_join_quiet applicant_attr_step intro!: exI [of _ i])
qed

definition vlan_example :: avb_st where
  "vlan_example = (avb_static 1 1 1 1 2 1 2 1)\<lparr>
     av_vlans := [\<lparr>mvrp_active = True, mvrp_attr = 0, mvrp_vlan = 2\<rparr>, \<lparr>mvrp_active = True, mvrp_attr = 1, mvrp_vlan = 3\<rparr>],
     av_attrs := [zero_attr\<lparr>at_type := MVRP_VID_VECTOR, at_applicant := MRP_QA\<rparr>,
                  zero_attr\<lparr>at_type := MVRP_VID_VECTOR, at_applicant := MRP_VO\<rparr>]\<rparr>"

lemma vlan_example_slot: "mvrp_slot 5 vlan_example = Some 1"
  by (simp add: mvrp_slot_def mvrp_find_def vlan_example_def mrp_is_observer_def)

theorem join_vlan_table_witness:
  "vlan_table.keys_distinct (av_vlans (snd (avb_join_vlan 0 5 vlan_example)))"
proof -
  have "vlan_table.keys_distinct (av_vlans vlan_example)"
    by (auto simp: vlan_table.keys_distinct_def vlan_example_def less_Suc_eq)
  from join_vlan_table [OF this, where now = 0 and vlan = 5] show ?thesis
    by (simp add: join_vlan_eq vlan_example_slot) (simp add: vlan_example_def)
qed

section \<open>What a change of state leaves alone\<close>

lemma join_vlan_fields [simp]:
  "av_sources (snd (avb_join_vlan now vlan st)) = av_sources st"
  "av_sinks (snd (avb_join_vlan now vlan st)) = av_sinks st"
  "av_inputs (snd (avb_join_vlan now vlan st)) = av_inputs st"
  "av_out (snd (avb_join_vlan now vlan st)) = av_out st"
  "length (av_attrs (snd (avb_join_vlan now vlan st))) = length (av_attrs st)"
  by (simp_all add: join_vlan_eq mad_begin_quiet mad_join_quiet split: option.split)

lemma leave_vlan_fields [simp]:
  "av_sources (avb_leave_vlan now vlan st) = av_sources st"
  "av_sinks (avb_leave_vlan now vlan st) = av_sinks st"
  "av_inputs (avb_leave_vlan now vlan st) = av_inputs st"
  "av_out (avb_leave_vlan now vlan st) = av_out st"
  by (simp_all add: avb_leave_vlan_def mad_leave_quiet split: option.split)

lemma emit_words_fields [simp]:
  "av_sources (emit_words c ws st) = av_sources st" "av_sinks (emit_words c ws st) = av_sinks st"
  "av_inputs (emit_words c ws st) = av_inputs st" "av_attrs (emit_words c ws st) = av_attrs st"
  "av_vlans (emit_words c ws st) = av_vlans st"
  "av_out (emit_words c ws st) = av_out st @ map (ChanOut c) ws"
proof -
  have "av_sources (emit_words c ws st) = av_sources st \<and> av_sinks (emit_words c ws st) = av_sinks st \<and>
    av_inputs (emit_words c ws st) = av_inputs st \<and> av_attrs (emit_words c ws st) = av_attrs st \<and>
    av_vlans (emit_words c ws st) = av_vlans st \<and> av_out (emit_words c ws st) = av_out st @ map (ChanOut c) ws"
    unfolding emit_words_def by (induction ws arbitrary: st) simp_all
  then show "av_sources (emit_words c ws st) = av_sources st" "av_sinks (emit_words c ws st) = av_sinks st"
    "av_inputs (emit_words c ws st) = av_inputs st" "av_attrs (emit_words c ws st) = av_attrs st"
    "av_vlans (emit_words c ws st) = av_vlans st"
    "av_out (emit_words c ws st) = av_out st @ map (ChanOut c) ws" by simp_all
qed

lemma set_inputs_mapped_fields [simp]:
  "av_sources (set_inputs_mapped v ms st) = av_sources st" "av_sinks (set_inputs_mapped v ms st) = av_sinks st"
  "av_attrs (set_inputs_mapped v ms st) = av_attrs st" "av_out (set_inputs_mapped v ms st) = av_out st"
  "av_vlans (set_inputs_mapped v ms st) = av_vlans st"
  by (simp_all add: set_inputs_mapped_def)

lemma set_bandwidth_fields [simp]:
  "av_sources (avb_set_talker_bandwidth st) = av_sources st" "av_inputs (avb_set_talker_bandwidth st) = av_inputs st"
  "av_attrs (avb_set_talker_bandwidth st) = av_attrs st" "av_vlans (avb_set_talker_bandwidth st) = av_vlans st"
  by (simp_all add: avb_set_talker_bandwidth_def)

lemma update_source_fields [simp]:
  "av_sources (update_source i f st) = modify_nth i f (av_sources st)" "av_inputs (update_source i f st) = av_inputs st"
  "av_attrs (update_source i f st) = av_attrs st" "av_out (update_source i f st) = av_out st"
  "av_vlans (update_source i f st) = av_vlans st"
  by (simp_all add: update_source_def)

section \<open>The channel map\<close>

definition mapped_as :: "int \<Rightarrow> nat list \<Rightarrow> media_info list \<Rightarrow> media_info list" where
  "mapped_as v ms ins = fold (\<lambda>m. modify_nth m (\<lambda>x. x\<lparr>mapped_to := v\<rparr>)) ms ins"

lemma set_inputs_mapped_inputs [simp]: "av_inputs (set_inputs_mapped v ms st) = mapped_as v ms (av_inputs st)"
  by (simp add: set_inputs_mapped_def mapped_as_def)

lemma mapped_as_spec:
  "length (mapped_as v ms ins) = length ins \<and>
   (\<forall>m<length ins. mapped_as v ms ins ! m = (if m \<in> set ms then (ins ! m)\<lparr>mapped_to := v\<rparr> else ins ! m))"
proof (induction ms arbitrary: ins)
  case (Cons k ms)
  have "mapped_as v (k # ms) ins = mapped_as v ms (modify_nth k (\<lambda>x. x\<lparr>mapped_to := v\<rparr>) ins)"
    by (simp add: mapped_as_def)
  moreover note Cons [of "modify_nth k (\<lambda>x. x\<lparr>mapped_to := v\<rparr>) ins"]
  moreover have "(modify_nth k (\<lambda>x. x\<lparr>mapped_to := v\<rparr>) ins ! m)\<lparr>mapped_to := v\<rparr> = (ins ! m)\<lparr>mapped_to := v\<rparr>"
    "m \<noteq> k \<Longrightarrow> modify_nth k (\<lambda>x. x\<lparr>mapped_to := v\<rparr>) ins ! m = ins ! m"
    "m = k \<Longrightarrow> modify_nth k (\<lambda>x. x\<lparr>mapped_to := v\<rparr>) ins ! m = (ins ! m)\<lparr>mapped_to := v\<rparr>"
    if "m < length ins" for m
    using that by (cases "m = k"; simp)+
  ultimately show ?case by auto
qed (simp add: mapped_as_def)

lemma mapped_as_undo:
  assumes "list_all (\<lambda>m. mapped_to (ins ! m) = UNMAPPED) ms"
  shows "mapped_as UNMAPPED ms (mapped_as v ms ins) = ins"
proof (rule nth_equalityI)
  show "length (mapped_as UNMAPPED ms (mapped_as v ms ins)) = length ins" using mapped_as_spec by metis
  fix m assume "m < length (mapped_as UNMAPPED ms (mapped_as v ms ins))"
  then have m: "m < length ins" "m < length (mapped_as v ms ins)" using mapped_as_spec by metis+
  have "mapped_as v ms ins ! m = (if m \<in> set ms then (ins ! m)\<lparr>mapped_to := v\<rparr> else ins ! m)"
    using mapped_as_spec m by metis
  moreover have "mapped_as UNMAPPED ms (mapped_as v ms ins) ! m =
      (if m \<in> set ms then (mapped_as v ms ins ! m)\<lparr>mapped_to := UNMAPPED\<rparr> else mapped_as v ms ins ! m)"
    using mapped_as_spec m by metis
  moreover have "m \<in> set ms \<Longrightarrow> (ins ! m)\<lparr>mapped_to := UNMAPPED\<rparr> = ins ! m"
    using assms by (cases "ins ! m") (auto simp: list_all_iff)
  ultimately show "mapped_as UNMAPPED ms (mapped_as v ms ins) ! m = ins ! m" by simp
qed

lemma set_source_state_result:
  assumes "i < length (av_sources st)"
  shows "set_avb_source_state now i state st =
    update_source i (source_with (\<lambda>s. s\<lparr>stream_state := state\<rparr>)) (avb_set_talker_bandwidth (source_transition now i state st))"
  using assms by (simp add: set_avb_source_state_def getset_avb_source_state_def)

lemma source_enable_fields [simp]:
  "av_sources (source_enable now i st) = av_sources st"
  "av_inputs (source_enable now i st) = mapped_as (int i) (source_channels (av_sources st ! i)) (av_inputs st)"
  by (simp_all add: source_enable_def mad_begin_quiet mad_join_quiet Let_def)

lemma source_disable_fields [simp]:
  "av_sources (source_disable now i st) = av_sources st"
  "av_inputs (source_disable now i st) = mapped_as UNMAPPED (source_channels (av_sources st ! i)) (av_inputs st)"
  by (simp_all add: source_disable_def mad_leave_quiet Let_def)

text \<open>
  Enabling a stream claims its inputs and disabling it gives them back: when the map of a
  disabled source is in order, setting it POTENTIAL maps exactly the inputs of its channels to
  it and no input of another source, and setting it DISABLED again, from POTENTIAL or ENABLED,
  restores the input table.
\<close>

theorem source_claims_inputs:
  assumes "i < length (av_sources st)" "source_state (av_sources st ! i) = STATE_DISABLED"
    and "source_map_ok st (av_sources st ! i)"
  shows "let st1 = set_avb_source_state t i STATE_POTENTIAL st; st2 = set_avb_source_state t' i STATE_ENABLED st1
     in source_state (av_sources st1 ! i) = STATE_POTENTIAL \<and>
        (\<forall>m<length (av_inputs st). mapped_to (av_inputs st1 ! m) =
           (if m \<in> set (source_channels (av_sources st ! i)) then int i else mapped_to (av_inputs st ! m))) \<and>
        (\<forall>m\<in>set (source_channels (av_sources st ! i)). mapped_to (av_inputs st ! m) = UNMAPPED) \<and>
        av_inputs (set_avb_source_state t'' i STATE_DISABLED st1) = av_inputs st \<and>
        av_inputs (set_avb_source_state t'' i STATE_DISABLED st2) = av_inputs st"
proof -
  let ?src = "av_sources st ! i"
  define st1 where "st1 = set_avb_source_state t i STATE_POTENTIAL st"
  define st2 where "st2 = set_avb_source_state t' i STATE_ENABLED st1"
  have 1: "i < length (av_sources st1)" "source_state (av_sources st1 ! i) = STATE_POTENTIAL"
    "source_channels (av_sources st1 ! i) = source_channels ?src"
    "av_inputs st1 = mapped_as (int i) (source_channels ?src) (av_inputs st)"
    using assms by (simp_all add: st1_def set_source_state_result source_transition_def source_with_def source_channels_def)
  have 2: "i < length (av_sources st2)" "source_state (av_sources st2 ! i) = STATE_ENABLED"
    "source_channels (av_sources st2 ! i) = source_channels ?src" "av_inputs st2 = av_inputs st1"
    using 1 by (simp_all add: st2_def set_source_state_result source_transition_def Let_def source_with_def source_channels_def)
  have un: "list_all (\<lambda>m. mapped_to (av_inputs st ! m) = UNMAPPED) (source_channels ?src)"
    using assms(3) by (simp add: source_map_ok_def list_all_iff)
  have "av_inputs (set_avb_source_state t'' i STATE_DISABLED s) = mapped_as UNMAPPED (source_channels ?src) (av_inputs s)"
    if "s = st1 \<or> s = st2" for s
    using that 1 2 by (auto simp: set_source_state_result source_transition_def Let_def)
  then show ?thesis
    using 1 2(4) un mapped_as_undo [OF un, of "int i"] mapped_as_spec [of "int i" "source_channels ?src" "av_inputs st"]
    unfolding st1_def [symmetric] st2_def [symmetric] Let_def by (simp add: list_all_iff)
qed

text \<open>Two sources, the first with two channels, the second with an input of the first.\<close>

definition input_example :: "nat \<Rightarrow> media_info" where
  "input_example k = \<lparr>media_core_id = 0, media_clk_ctl = 0, media_fifo = of_nat k, media_local_id = int k, mapped_to = UNMAPPED\<rparr>"

definition source_example :: "nat \<Rightarrow> int list \<Rightarrow> avb_source_info" where
  "source_example n m = \<lparr>source_stream = empty_stream\<lparr>num_channels := of_nat n, stream_rate := 48000, stream_vlan := 2\<rparr>,
     talker_ctl = 1, source_dest = replicate 6 0, presentation = 0, source_map = m\<rparr>"

definition control_example :: avb_st where
  "control_example = (avb_static 2 1 2 1 1 1 1 2)\<lparr>
     av_sources := [source_example 2 [0, 1], source_example 1 [0, 0]],
     av_inputs := [input_example 0, input_example 1]\<rparr>"

theorem source_claims_inputs_witness:
  "mapped_to (av_inputs (set_avb_source_state 0 0 STATE_POTENTIAL control_example) ! 1) = 0 \<and>
   av_inputs (set_avb_source_state 0 0 STATE_DISABLED (set_avb_source_state 0 0 STATE_POTENTIAL control_example)) =
     av_inputs control_example"
proof -
  have "0 < length (av_sources control_example)" "source_state (av_sources control_example ! 0) = STATE_DISABLED"
    "source_map_ok control_example (av_sources control_example ! 0)"
    by (simp_all add: control_example_def source_example_def input_example_def empty_stream_def source_map_ok_def
        source_channels_def source_clk_ctl_def)
  from source_claims_inputs [OF this, where t = 0 and t' = 0 and t'' = 0] show ?thesis
    by (simp add: Let_def) (simp add: control_example_def source_example_def source_channels_def)
qed

text \<open>
  An invalid map does not stop a stream from being enabled. When the check of the map fails,
  nothing is registered, no channel is claimed and the talker core is not configured, but the
  state of the source is set to POTENTIAL all the same and the call reports success; a Listener
  Ready then makes the talker core transmit. Setting the source DISABLED later frees the inputs
  of its map even when they belong to another source.
\<close>

theorem bad_map_becomes_potential:
  assumes "i < length (av_sources st)" "source_state (av_sources st ! i) = STATE_DISABLED"
    and "\<not> source_map_ok st (av_sources st ! i)"
  shows "\<exists>st1. getset_avb_source_state t True i STATE_POTENTIAL st = Some (STATE_POTENTIAL, st1) \<and>
     av_attrs st1 = av_attrs st \<and> av_vlans st1 = av_vlans st \<and> av_inputs st1 = av_inputs st \<and>
     (\<exists>bw. av_out st1 = av_out st @ [SetQavBandwidth bw]) \<and>
     (\<forall>m<length (av_inputs st). m \<in> set (source_channels (av_sources st ! i)) \<longrightarrow>
        mapped_to (av_inputs (set_avb_source_state t' i STATE_DISABLED st1) ! m) = UNMAPPED)"
proof -
  define st1 where "st1 = update_source i (source_with (\<lambda>s. s\<lparr>stream_state := STATE_POTENTIAL\<rparr>)) (avb_set_talker_bandwidth st)"
  have g: "getset_avb_source_state t True i STATE_POTENTIAL st = Some (STATE_POTENTIAL, st1)"
    using assms by (simp add: getset_avb_source_state_def source_transition_def st1_def source_with_def)
  have s: "i < length (av_sources st1)" "source_state (av_sources st1 ! i) = STATE_POTENTIAL"
    "source_channels (av_sources st1 ! i) = source_channels (av_sources st ! i)" "av_inputs st1 = av_inputs st"
    using assms(1) by (simp_all add: st1_def source_with_def source_channels_def)
  have "av_inputs (set_avb_source_state t' i STATE_DISABLED st1) =
      mapped_as UNMAPPED (source_channels (av_sources st ! i)) (av_inputs st)"
    using s by (simp add: set_source_state_result source_transition_def)
  moreover have "av_attrs st1 = av_attrs st" "av_vlans st1 = av_vlans st"
    "av_out st1 = av_out st @ [SetQavBandwidth (word_of_int (sint (avb_talker_data_size st * 8 * 8000 * 102) sdiv 100))]"
    by (simp_all add: st1_def) (simp add: avb_set_talker_bandwidth_def)
  ultimately show ?thesis
    using g s(4) mapped_as_spec [of UNMAPPED "source_channels (av_sources st ! i)" "av_inputs st"] by auto
qed

text \<open>The first source is enabled; the second claims its input 0, is refused, and takes it away.\<close>

theorem bad_map_becomes_potential_witness:
  "let st = set_avb_source_state 0 0 STATE_POTENTIAL control_example;
       st1 = set_avb_source_state 0 1 STATE_POTENTIAL st
   in mapped_to (av_inputs st ! 0) = 0 \<and>
      mapped_to (av_inputs (set_avb_source_state 0 1 STATE_DISABLED st1) ! 0) = UNMAPPED"
proof -
  let ?st = "set_avb_source_state 0 0 STATE_POTENTIAL control_example"
  have ok: "source_map_ok control_example (av_sources control_example ! 0)"
    by (simp add: control_example_def source_example_def input_example_def empty_stream_def source_map_ok_def
        source_channels_def source_clk_ctl_def)
  have st: "av_sources ?st = modify_nth 0 (source_with (\<lambda>s. s\<lparr>stream_state := STATE_POTENTIAL\<rparr>)) (av_sources control_example)"
    "av_inputs ?st = mapped_as 0 [0, 1] (av_inputs control_example)"
    using ok by (simp_all add: set_source_state_result control_example_def source_transition_def source_example_def
        empty_stream_def source_channels_def)
  have i: "length (av_sources ?st) = 2" "length (av_inputs ?st) = 2" "mapped_to (av_inputs ?st ! 0) = 0"
    "av_sources ?st ! 1 = source_example 1 [0, 0]"
  proof -
    have ce: "av_sources control_example = [source_example 2 [0, 1], source_example 1 [0, 0]]"
      "length (av_inputs control_example) = 2" by (simp_all add: control_example_def)
    show "length (av_sources ?st) = 2" "length (av_inputs ?st) = 2" "mapped_to (av_inputs ?st ! 0) = 0"
      "av_sources ?st ! 1 = source_example 1 [0, 0]"
      using mapped_as_spec [of 0 "[0, 1]" "av_inputs control_example"] unfolding st
      by (simp_all add: ce)
  qed
  then have "source_state (av_sources ?st ! 1) = STATE_DISABLED" "\<not> source_map_ok ?st (av_sources ?st ! 1)"
    by (simp_all add: source_example_def empty_stream_def source_map_ok_def source_channels_def)
  from bad_map_becomes_potential [of 1 ?st, OF _ this, where t = 0 and t' = 0] i obtain st1 where
    g: "getset_avb_source_state 0 True 1 STATE_POTENTIAL ?st = Some (STATE_POTENTIAL, st1)" and
    m: "\<forall>m<2. m \<in> set (source_channels (av_sources ?st ! 1)) \<longrightarrow>
        mapped_to (av_inputs (set_avb_source_state 0 1 STATE_DISABLED st1) ! m) = UNMAPPED" by auto
  have st1: "set_avb_source_state 0 1 STATE_POTENTIAL ?st = st1"
    unfolding set_avb_source_state_def [of 0 1 STATE_POTENTIAL] g by simp
  have "0 \<in> set (source_channels (av_sources ?st ! 1))"
    using i(4) by (simp add: source_channels_def source_example_def empty_stream_def)
  then have "mapped_to (av_inputs (set_avb_source_state 0 1 STATE_DISABLED st1) ! 0) = UNMAPPED"
    using m [THEN spec, of 0] by simp
  then show ?thesis unfolding Let_def st1 using i(3) by blast
qed

section \<open>Bandwidth\<close>

lemma data_size_two:
  "av_sources st = [a, b] \<Longrightarrow> avb_talker_data_size st =
     (if source_state a = STATE_DISABLED then 0 else source_bytes_per_interval (source_stream a)) +
     (if source_state b = STATE_DISABLED then 0 else source_bytes_per_interval (source_stream b))"
  by (cases "source_state a"; cases "source_state b") (simp_all add: avb_talker_data_size_def)

lemma signed_32_high:
  assumes "2 ^ 31 \<le> z" "z < 2 ^ 32"
  shows "sint (word_of_int z :: u32) = z - 2 ^ 32"
proof -
  have "(z + 2 ^ 31) mod 2 ^ 32 = (z + 2 ^ 31 - 2 ^ 32) mod 2 ^ 32"
    by (rule minus_mod_self2 [symmetric])
  also have "\<dots> = z + 2 ^ 31 - 2 ^ 32" using assms by (intro mod_pos_pos_trivial) simp_all
  finally show ?thesis by (simp add: signed_of_int signed_take_bit_eq_take_bit_shift take_bit_eq_mod)
qed

lemma bandwidth_product_negative:
  assumes "329 \<le> uint n" "uint n \<le> 657"
  shows "sint ((n :: u32) * 8 * 8000 * 102) < 0"
proof -
  obtain k where k: "n = word_of_int k" "329 \<le> k" "k \<le> 657"
    using assms by (metis word_of_int_uint)
  have "n * 8 * 8000 * 102 = word_of_int (k * 6528000)" by (simp add: k(1))
  then show ?thesis using signed_32_high [of "k * 6528000"] k(2,3) by simp
qed

text \<open>
  The bandwidth given to the traffic shaper is computed before the state of the source is
  written: whatever the transition, the value sent is that of the states the sources had
  before the call, so a source that is enabled while the others are disabled gets no bandwidth,
  and one that is disabled keeps its share. The factor is applied in 32-bit integers: for any
  total from 329 to 657 bytes per interval, two eight-channel streams at 48 kHz for example,
  the value sent is negative.
\<close>

theorem bandwidth_is_stale:
  assumes "i < length (av_sources st)"
  shows "last (av_out (set_avb_source_state now i state st)) =
      SetQavBandwidth (word_of_int (sint (avb_talker_data_size st * 8 * 8000 * 102) sdiv 100)) \<and>
    (329 \<le> uint (avb_talker_data_size st) \<longrightarrow> uint (avb_talker_data_size st) \<le> 657 \<longrightarrow>
       sint (avb_talker_data_size st * 8 * 8000 * 102) < 0)"
proof -
  have src: "av_sources (source_transition now i state st) = av_sources st"
    by (simp add: source_transition_def Let_def)
  let ?n = "avb_talker_data_size st"
  have "sint (?n * 8 * 8000 * 102) < 0" if "329 \<le> uint ?n" "uint ?n \<le> 657"
    using bandwidth_product_negative [OF that] by simp
  then show ?thesis using assms
    by (simp add: set_source_state_result avb_set_talker_bandwidth_def src avb_talker_data_size_def)
qed

theorem bandwidth_is_stale_witness:
  "last (av_out (set_avb_source_state 0 0 STATE_POTENTIAL control_example)) = SetQavBandwidth 0"
proof -
  have "avb_talker_data_size control_example = 0"
    by (simp add: avb_talker_data_size_def control_example_def source_example_def empty_stream_def)
  moreover have "0 < length (av_sources control_example)" by (simp add: control_example_def)
  ultimately show ?thesis
    using bandwidth_is_stale [of 0 control_example 0 STATE_POTENTIAL] by simp
qed

section \<open>Parameters\<close>

text \<open>
  Parameters of a source. While a source is disabled, a value that is set is read back:
  the format and the synchronisation modulo 256, the rate and the presentation time unchanged,
  the number of channels and the VLAN modulo 256, because the stream keeps them in a byte, so
  of the VLAN identifiers only those below 256 can be used. Once the source is not disabled
  every attempt to set a parameter fails.
\<close>

theorem source_parameters:
  assumes "i < length (av_sources st)"
  shows "(source_state (av_sources st ! i) = STATE_DISABLED \<longrightarrow>
      (\<exists>st'. getset_avb_source_format True i (f, r) st = Some ((f mod 256, r), st') \<and>
             getset_avb_source_format False i x st' = Some ((f mod 256, r), st')) \<and>
      (\<exists>st'. getset_avb_source_channels True i c st = Some (c mod 256, st') \<and>
             getset_avb_source_channels False i y st' = Some (c mod 256, st')) \<and>
      (\<exists>st'. getset_avb_source_sync True i c st = Some (c mod 256, st') \<and>
             getset_avb_source_sync False i y st' = Some (c mod 256, st')) \<and>
      (\<exists>st'. getset_avb_source_vlan True i c st = Some (c mod 256, st') \<and>
             getset_avb_source_vlan False i y st' = Some (c mod 256, st')) \<and>
      (\<exists>st'. getset_avb_source_presentation True i c st = Some (c, st') \<and>
             getset_avb_source_presentation False i y st' = Some (c, st'))) \<and>
    (source_state (av_sources st ! i) \<noteq> STATE_DISABLED \<longrightarrow>
      getset_avb_source_format True i (f, r) st = None \<and> getset_avb_source_channels True i c st = None \<and>
      getset_avb_source_sync True i c st = None \<and> getset_avb_source_vlan True i c st = None \<and>
      getset_avb_source_presentation True i c st = None \<and> getset_avb_source_map n True i ml st = None \<and>
      getset_avb_source_dest True i dl st = None)"
proof -
  have b: "uint (word_of_int k :: u8) = k mod 256" for k by (simp add: uint_word_of_int)
  show ?thesis using assms
    by (simp add: getset_avb_source_format_def getset_avb_source_channels_def getset_avb_source_sync_def
        getset_avb_source_vlan_def getset_avb_source_presentation_def getset_avb_source_map_def
        getset_avb_source_dest_def source_access_def source_with_def b Let_def)
qed

theorem source_parameters_witness:
  "\<exists>st'. getset_avb_source_vlan True 0 300 control_example = Some (44, st')"
  using source_parameters [where i = 0 and st = control_example and c = 300]
  by (simp add: control_example_def source_example_def empty_stream_def) blast

section \<open>The shared VLAN\<close>

text \<open>
  Disabling the last active source withdraws its VLAN although a sink may still receive on
  it: the test looks at the other sources only, so whatever the sinks are doing the attribute
  of the VLAN goes to the state Leaving and the bridge is told to stop forwarding it.
\<close>

theorem last_source_leaves_vlan:
  assumes "i < length (av_sources st)" "source_state (av_sources st ! i) \<noteq> STATE_DISABLED"
    and "other_sources_disabled i st" "stream_vlan (source_stream (av_sources st ! i)) \<noteq> 0"
    and "mvrp_find (uint (stream_vlan (source_stream (av_sources st ! i)))) st = Some k"
    and "mvrp_attr (av_vlans st ! k) < length (av_attrs st)"
    and "mvrp_attr (av_vlans st ! k) \<noteq> srp_talker_attr (source_stream (av_sources st ! i))"
    and "at_applicant (av_attrs st ! mvrp_attr (av_vlans st ! k)) = MRP_QA"
  shows "at_applicant (av_attrs (set_avb_source_state now i STATE_DISABLED st) ! mvrp_attr (av_vlans st ! k)) = MRP_LA \<and>
         mrp_transmits MRP_EVENT_TX MRP_LA \<and> makeTxEvent MRP_LA MRP_MT False = MRP_ATTRIBUTE_EVENT_LV"
proof -
  let ?s = "source_stream (av_sources st ! i)"
  define st1 where "st1 = emit_words (talker_ctl (av_sources st ! i)) [AVB1722_TALKER_STOP, ucast (local_id ?s)]
      (set_inputs_mapped UNMAPPED (source_channels (av_sources st ! i)) st)"
  have st1: "av_vlans st1 = av_vlans st" "av_attrs st1 = av_attrs st" "other_sources_disabled i st1"
    "mvrp_find (uint (stream_vlan ?s)) st1 = Some k"
    using assms(3,5) by (simp_all add: st1_def other_sources_disabled_def mvrp_find_def)
  have "av_attrs (source_disable now i st) ! mvrp_attr (av_vlans st ! k) =
      mrp_attr_step now MRP_EVENT_LV 0 (av_attrs st ! mvrp_attr (av_vlans st ! k))"
    using assms st1 by (simp add: source_disable_def st1_def [symmetric] mad_leave_quiet avb_leave_vlan_def Let_def)
  then show ?thesis using assms
    by (simp add: set_source_state_result source_transition_def Let_def applicant_attr_step)
qed

definition shared_vlan_example :: avb_st where
  "shared_vlan_example = (avb_static 1 1 1 1 1 1 2 1)\<lparr>
     av_sources := [(source_example 1 [0])\<lparr>source_stream := (source_stream (source_example 1 [0]))\<lparr>stream_state := STATE_ENABLED\<rparr>\<rparr>],
     av_sinks := [\<lparr>sink_stream = empty_stream\<lparr>stream_state := STATE_POTENTIAL, stream_vlan := 2\<rparr>, listener_ctl = 2,
        sink_addr = replicate 6 0, sink_map = [0]\<rparr>],
     av_vlans := [\<lparr>mvrp_active = True, mvrp_attr = 1, mvrp_vlan = 2\<rparr>],
     av_attrs := [zero_attr\<lparr>at_applicant := MRP_QA\<rparr>, zero_attr\<lparr>at_type := MVRP_VID_VECTOR, at_applicant := MRP_QA\<rparr>]\<rparr>"

theorem last_source_leaves_vlan_witness:
  "sink_state (av_sinks shared_vlan_example ! 0) = STATE_POTENTIAL \<and>
   at_applicant (av_attrs (set_avb_source_state 0 0 STATE_DISABLED shared_vlan_example) ! 1) = MRP_LA"
  using last_source_leaves_vlan [of 0 shared_vlan_example 0 0]
  by (simp add: shared_vlan_example_def source_example_def empty_stream_def other_sources_disabled_def mvrp_find_def)

end
