(* ===== verification/Aecp_Proofs.thy ===== *)
theory Aecp_Proofs
  imports Aecp Avb_Control_Proofs
begin

text \<open>
  Correctness of the enumeration and control protocol: responses carry the identifiers of their
  command, the descriptor reader is a lookup in the descriptor table, stream formats are read back
  as set, and what acquiring the entity does.
\<close>

section \<open>Response frames\<close>

text \<open>\<open>f\<close> begins like a response to \<open>pkt\<close> with the given status and length.\<close>

definition aecp_response_frame :: "u8 list \<Rightarrow> u8 list \<Rightarrow> u8 list \<Rightarrow> u8 \<Rightarrow> u32 \<Rightarrow> u8 list \<Rightarrow> bool" where
  "aecp_response_frame my_mac src_addr pkt status n f \<longleftrightarrow>
     36 \<le> length f \<and> get_bytes 0 6 f = take 6 src_addr \<and> get_bytes 6 6 f = my_mac \<and>
     get_1722_1_subtype (drop 14 f) = 0x7b \<and> get_1722_1_msg_type (drop 14 f) = AECP_CMD_AEM_RESPONSE \<and>
     get_1722_1_valid_time (drop 14 f) = status \<and> get_1722_1_datalength (drop 14 f) = n \<and>
     get_bytes 18 18 f = get_bytes 4 18 pkt"

definition header_getters :: "u8 list \<Rightarrow> u8 \<times> u8 \<times> u8 \<times> u32" where
  "header_getters p = (get_1722_1_subtype p, get_1722_1_msg_type p, get_1722_1_valid_time p, get_1722_1_datalength p)"

lemma header_getters_cong:
  assumes "\<And>i. i < 4 \<Longrightarrow> p ! i = q ! i"
  shows "header_getters p = header_getters q"
  using assms [of 0] assms [of 1] assms [of 2] assms [of 3]
  by (simp add: header_getters_def get_1722_1_subtype_def get_1722_1_msg_type_def
      get_1722_1_valid_time_def get_1722_1_datalength_def)

lemma response_frame_cong:
  assumes "take 36 f' = take 36 f" "36 \<le> length f'" "aecp_response_frame m s p status n f"
  shows "aecp_response_frame m s p status n f'"
proof -
  have f: "36 \<le> length f" using assms(3) by (simp add: aecp_response_frame_def)
  have b: "get_bytes off k f' = get_bytes off k f" if "off + k \<le> 36" for off k
    by (metis assms(1) get_bytes_take that)
  have i: "f' ! i = f ! i" if "i < 36" for i using that by (metis assms(1) nth_take)
  have "drop 14 f' ! i = drop 14 f ! i" if "i < 4" for i
    using i [of "14 + i"] f assms(2) that by simp
  then have "header_getters (drop 14 f') = header_getters (drop 14 f)" by (rule header_getters_cong)
  then show ?thesis using assms(2,3) b by (simp add: aecp_response_frame_def header_getters_def)
qed

lemma take_put_bytes: "n \<le> off \<Longrightarrow> n \<le> length f \<Longrightarrow> take n (put_bytes off bs f) = take n f"
  by (simp add: put_bytes_def min_def)

lemma response_frame_put:
  assumes "aecp_response_frame m s p status n f" "36 \<le> off"
  shows "aecp_response_frame m s p status n (put_bytes off bs f)"
proof (rule response_frame_cong [OF _ _ assms(1)])
  have f: "36 \<le> length f" using assms(1) by (simp add: aecp_response_frame_def)
  show "take 36 (put_bytes off bs f) = take 36 f" using assms(2) f by (rule take_put_bytes)
  then have "length (take 36 (put_bytes off bs f)) = 36" using f by simp
  then show "36 \<le> length (put_bytes off bs f)" by simp
qed

lemma response_frame_take:
  "aecp_response_frame m s p status n f \<Longrightarrow> 36 \<le> k \<Longrightarrow> aecp_response_frame m s p status n (take k f)"
  by (rule response_frame_cong [of _ f]) (simp_all add: aecp_response_frame_def min_def)

lemma header_dest_take:
  "6 \<le> length d \<Longrightarrow> avb_1722_1_create_1722_1_header m (take 6 d) a b c n buf =
     avb_1722_1_create_1722_1_header m d a b c n buf"
  by (simp add: avb_1722_1_create_1722_1_header_def Let_def upt_6)

lemma response_header_frame:
  assumes "36 \<le> length (ae_buf st)" "length (ae_my_mac st) = 6" "6 \<le> length src_addr" "22 \<le> length pkt"
    and "status < 2 ^ 5" "n < 2 ^ 11"
  shows "aecp_response_frame (ae_my_mac st) src_addr pkt status n
           (ae_buf (avb_1722_1_create_aecp_response_header src_addr status n pkt st))"
proof -
  let ?h = "avb_1722_1_create_1722_1_header (ae_my_mac st) src_addr 0x7b 1 status n (ae_buf st)"
  let ?f = "put_bytes 18 (get_bytes 4 18 pkt) ?h"
  have h: "get_1722_1_subtype (drop 14 ?h) = 0x7b \<and> get_1722_1_msg_type (drop 14 ?h) = 1 \<and>
      get_1722_1_valid_time (drop 14 ?h) = status \<and> get_1722_1_datalength (drop 14 ?h) = n \<and>
      get_bytes 0 6 ?h = take 6 src_addr \<and> get_bytes 6 6 ?h = ae_my_mac st"
    using header_fields [OF _ _ assms(5,6) _ assms(2) _ refl, of "0x7b" 1 "take 6 src_addr" "ae_buf st"] assms(1,3)
    by (simp add: header_dest_take)
  have l: "length ?f = length (ae_buf st)" using assms(1,4) by simp
  have i: "drop 14 ?f ! k = drop 14 ?h ! k" if "k < 4" for k
    using that assms(1,4) by (simp add: nth_put_bytes)
  have "get_bytes 0 6 ?f = get_bytes 0 6 ?h" "get_bytes 6 6 ?f = get_bytes 6 6 ?h"
    using assms(1,4) by (auto intro!: get_put_bytes_other)
  moreover have "get_bytes 18 18 ?f = get_bytes 4 18 pkt"
    using assms(1,4) by (intro get_put_bytes_same) simp_all
  ultimately have "aecp_response_frame (ae_my_mac st) src_addr pkt status n ?f"
    using h header_getters_cong [OF i] l assms(1) by (simp add: aecp_response_frame_def header_getters_def)
  then show ?thesis by (simp add: avb_1722_1_create_aecp_response_header_def)
qed

lemma length_response_header:
  "36 \<le> length (ae_buf st) \<Longrightarrow> 22 \<le> length pkt \<Longrightarrow>
     length (ae_buf (avb_1722_1_create_aecp_response_header src_addr status n pkt st)) = length (ae_buf st)"
  by (simp add: avb_1722_1_create_aecp_response_header_def)

section \<open>Descriptors\<close>

definition lookup_descriptor :: "(u16 \<times> u8 list list) list \<Rightarrow> u16 \<Rightarrow> u16 \<Rightarrow> u8 list option" where
  "lookup_descriptor table t i =
     (case map_of table t of
        Some ds \<Rightarrow> find (\<lambda>d. push_bit 8 (ucast (d ! 2)) OR ucast (d ! 3) = i) ds
      | None \<Rightarrow> None)"

lemma scan_descriptors_find:
  "case find (\<lambda>d. push_bit 8 (ucast (d ! 2)) OR ucast (d ! 3) = i) ds of
     Some d \<Rightarrow> scan_descriptors ds i (x, False) = (d, True)
   | None \<Rightarrow> \<not> snd (scan_descriptors ds i (x, False))"
proof (induction ds arbitrary: x)
  case (Cons d ds)
  then show ?case using Cons.IH [where x = d] by (auto split: option.split_asm option.split)
qed simp

lemma search_above:
  "\<forall>e\<in>set table. t < fst e \<Longrightarrow> search_descriptors table t i acc = acc"
  by (cases table) (auto simp: not_le)

lemma search_lookup:
  "sorted_wrt (<) (map fst table) \<Longrightarrow>
     (case lookup_descriptor table t i of
        Some d \<Rightarrow> search_descriptors table t i (x, False) = (d, True)
      | None \<Rightarrow> \<not> snd (search_descriptors table t i (x, False)))"
proof (induction table arbitrary: x)
  case Nil
  then show ?case by (simp add: lookup_descriptor_def)
next
  case (Cons e table)
  obtain t' ds where e: "e = (t', ds)" by (cases e)
  consider "t' < t" | "t' = t" | "t < t'" by (metis antisym_conv3)
  then show ?case
  proof cases
    case 1
    then have "t \<noteq> t'" by blast
    then show ?thesis using Cons.IH [where x = x] Cons.prems 1
      by (auto simp: e lookup_descriptor_def split: option.split_asm option.split)
  next
    case 2
    have "search_descriptors table t i acc = acc" for acc
      using Cons.prems 2 by (intro search_above) (auto simp: e)
    then show ?thesis using 2 scan_descriptors_find [where i = i and ds = ds and x = x]
      by (auto simp: e lookup_descriptor_def split: option.split_asm option.split)
  next
    case 3
    have "map_of table t = None" using Cons.prems 3 by (auto simp: e map_of_eq_None_iff)
    moreover have "t \<noteq> t'" "\<not> t' \<le> t" using 3 by auto
    ultimately show ?thesis by (simp add: e lookup_descriptor_def)
  qed
qed

definition static_type :: "u16 \<Rightarrow> bool" where
  "static_type t \<longleftrightarrow> t \<noteq> AEM_AUDIO_CLUSTER_TYPE \<and> t \<noteq> AEM_STREAM_INPUT_TYPE \<and> t \<noteq> AEM_STREAM_OUTPUT_TYPE \<and>
     t \<noteq> AEM_AUDIO_MAP_TYPE"

lemma find_static:
  assumes "static_type t" "sorted_wrt (<) (map fst (ae_descriptors st))"
  shows "find_aem_descriptor t i st =
     ((case lookup_descriptor (ae_descriptors st) t i of Some d \<Rightarrow> CopyDescriptor d | None \<Rightarrow> NotFound), st)"
  using search_lookup [OF assms(2), where t = t and i = i and x = "[]"] assms(1)
  by (cases "search_descriptors (ae_descriptors st) t i ([], False)")
    (auto simp: find_aem_descriptor_def static_type_def Let_def split: option.splits bool.splits)


section \<open>Responses to commands\<close>

text \<open>The part of the state that determines what a response looks like.\<close>

definition aecp_ready :: "u8 list \<Rightarrow> u8 list \<Rightarrow> aecp_st \<Rightarrow> bool" where
  "aecp_ready src_addr pkt st \<longleftrightarrow>
     64 \<le> length (ae_buf st) \<and> length (ae_my_mac st) = 6 \<and> 8 \<le> length src_addr \<and> 62 \<le> length pkt"

definition read_head :: "u8 list \<Rightarrow> u8 \<Rightarrow> nat \<Rightarrow> nat \<Rightarrow> u8 list \<Rightarrow> aecp_st \<Rightarrow> aecp_st" where
  "read_head src_addr status len n pkt st =
     (let s' = avb_1722_1_create_aecp_response_header src_addr status (of_nat len) pkt st
      in s'\<lparr>ae_buf := put_bytes 36 (get_bytes 22 n pkt) (ae_buf s')\<rparr>)"

lemma read_response_alt:
  "create_aem_read_descriptor_response ev t i src_addr pkt st =
     (case find_aem_descriptor t i st of
        (NotFound, s1) \<Rightarrow> (46, read_head src_addr AECP_AEM_STATUS_NO_SUCH_DESCRIPTOR 40 28 pkt s1)
      | (InBuffer n, s1) \<Rightarrow> (max 64 (42 + n), read_head src_addr AECP_AEM_STATUS_SUCCESS (n + 16) 6 pkt s1)
      | (CopyDescriptor d, s1) \<Rightarrow>
          (let s2 = read_head src_addr AECP_AEM_STATUS_SUCCESS (length d + 16) 6 pkt s1
           in (max 64 (42 + length d), s2\<lparr>ae_buf := put_bytes 42 (d @ take 40 (ev_behind ev)) (ae_buf s2)\<rparr>)))"
  by (auto simp: create_aem_read_descriptor_response_def read_head_def Let_def split: prod.split found_descriptor.split)

lemma read_head_frame:
  assumes "36 \<le> length (ae_buf st)" "length (ae_my_mac st) = 6" "6 \<le> length src_addr" "22 \<le> length pkt"
    and "status < 2 ^ 5" "len < 2 ^ 11"
  shows "aecp_response_frame (ae_my_mac st) src_addr pkt status (of_nat len) (ae_buf (read_head src_addr status len n pkt st))"
    and "ae_my_mac (read_head src_addr status len n pkt st) = ae_my_mac st"
    and "ae_sent (read_head src_addr status len n pkt st) = ae_sent st"
proof -
  have "(of_nat len :: u32) < 2 ^ 11"
    using assms(6) by (simp add: word_less_nat_alt unat_of_nat)
  from response_header_frame [OF assms(1-5) this]
  show "aecp_response_frame (ae_my_mac st) src_addr pkt status (of_nat len) (ae_buf (read_head src_addr status len n pkt st))"
    by (simp add: read_head_def Let_def response_frame_put)
qed (simp_all add: read_head_def avb_1722_1_create_aecp_response_header_def Let_def)

lemma aecp_emit_fields [simp]:
  "ae_sent (aecp_emit n st) = ae_sent st @ [take n (ae_buf st)]" "ae_buf (aecp_emit n st) = ae_buf st"
  "ae_status (aecp_emit n st) = ae_status st" "ae_my_guid (aecp_emit n st) = ae_my_guid st"
  "ae_pending_guid (aecp_emit n st) = ae_pending_guid st" "ae_my_mac (aecp_emit n st) = ae_my_mac st"
  "ae_avb (aecp_emit n st) = ae_avb st"
  by (simp_all add: aecp_emit_def)

text \<open>A command for this entity: message type, target and command type.\<close>

definition aecp_command_for :: "u64 \<Rightarrow> u16 \<Rightarrow> u8 list \<Rightarrow> bool" where
  "aecp_command_for guid command_type pkt \<longleftrightarrow>
     get_1722_1_msg_type pkt = AECP_CMD_AEM_COMMAND \<and> compare_guid (get_bytes 4 8 pkt) guid \<and>
     aem_msg_command_type pkt = command_type"

lemma command_read:
  "aecp_command_for (ae_my_guid st) AECP_AEM_CMD_READ_DESCRIPTOR pkt \<Longrightarrow>
     process_avb_1722_1_aecp_packet ev src_addr pkt st = aem_read_descriptor ev src_addr pkt st"
  by (simp add: aecp_command_for_def process_avb_1722_1_aecp_packet_def process_avb_1722_1_aecp_aem_msg_def)

lemma command_other:
  "aecp_command_for (ae_my_guid st) c pkt \<Longrightarrow> c \<noteq> AECP_AEM_CMD_READ_DESCRIPTOR \<Longrightarrow>
     process_avb_1722_1_aecp_packet ev src_addr pkt st =
       (case aem_command ev src_addr c pkt st of
          (Some (p, status, cd_len), s1) \<Rightarrow>
            aecp_emit 64 (avb_1722_1_create_aecp_aem_response src_addr status cd_len p s1)
        | (None, s1) \<Rightarrow> s1)"
  by (simp add: aecp_command_for_def process_avb_1722_1_aecp_packet_def process_avb_1722_1_aecp_aem_msg_def Let_def)

lemma read_descriptor_sends:
  assumes "aecp_ready src_addr pkt st" "static_type (aecp_field 28 pkt)"
    and "sorted_wrt (<) (map fst (ae_descriptors st))"
    and "\<forall>d. lookup_descriptor (ae_descriptors st) (aecp_field 28 pkt) (aecp_field 30 pkt) = Some d \<longrightarrow>
           42 + length d + 40 \<le> length (ae_buf st) \<and> length d + 16 < 2 ^ 11"
  shows "\<exists>f. ae_sent (aem_read_descriptor ev src_addr pkt st) = ae_sent st @ [f] \<and>
     (case lookup_descriptor (ae_descriptors st) (aecp_field 28 pkt) (aecp_field 30 pkt) of
        Some d \<Rightarrow> aecp_response_frame (ae_my_mac st) src_addr pkt AECP_AEM_STATUS_SUCCESS (of_nat (length d + 16)) f \<and>
                  get_bytes 42 (length d) f = d
      | None \<Rightarrow> aecp_response_frame (ae_my_mac st) src_addr pkt AECP_AEM_STATUS_NO_SUCH_DESCRIPTOR 40 f)"
proof (cases "lookup_descriptor (ae_descriptors st) (aecp_field 28 pkt) (aecp_field 30 pkt)")
  case None
  have "aecp_response_frame (ae_my_mac st) src_addr pkt AECP_AEM_STATUS_NO_SUCH_DESCRIPTOR (of_nat 40)
      (take 46 (ae_buf (read_head src_addr AECP_AEM_STATUS_NO_SUCH_DESCRIPTOR 40 28 pkt st)))"
    by (intro response_frame_take read_head_frame) (use assms(1) in \<open>simp_all add: aecp_ready_def\<close>)
  moreover have "aem_read_descriptor ev src_addr pkt st =
      aecp_emit 46 (read_head src_addr AECP_AEM_STATUS_NO_SUCH_DESCRIPTOR 40 28 pkt st)"
    by (simp add: aem_read_descriptor_def read_response_alt find_static [OF assms(2,3)] None)
  ultimately show ?thesis using read_head_frame(3) [of st src_addr pkt 2 40 28] assms(1)
    by (simp add: None aecp_ready_def)
next
  case (Some d)
  let ?s = "read_head src_addr AECP_AEM_STATUS_SUCCESS (length d + 16) 6 pkt st"
  let ?b = "put_bytes 42 (d @ take 40 (ev_behind ev)) (ae_buf ?s)"
  note len = assms(4) [rule_format, OF Some]
  have fr: "aecp_response_frame (ae_my_mac st) src_addr pkt AECP_AEM_STATUS_SUCCESS (of_nat (length d + 16)) (ae_buf ?s)"
    by (rule read_head_frame) (use assms(1) len in \<open>simp_all add: aecp_ready_def\<close>)
  have "length (ae_buf ?s) = length (ae_buf st)"
    using assms(1) by (simp add: read_head_def Let_def aecp_ready_def length_response_header)
  then have "get_bytes 42 (length d) ?b = d"
    using len by (simp add: get_bytes_def put_bytes_def)
  then have "get_bytes 42 (length d) (take (max 64 (42 + length d)) ?b) = d"
    by (subst get_bytes_take) simp_all
  moreover have "aecp_response_frame (ae_my_mac st) src_addr pkt AECP_AEM_STATUS_SUCCESS (of_nat (length d + 16))
      (take (max 64 (42 + length d)) ?b)"
    by (intro response_frame_take response_frame_put fr) simp_all
  moreover have "ae_sent ?s = ae_sent st"
    using read_head_frame(3) [of st src_addr pkt 0 "length d + 16" 6] assms(1) len by (simp add: aecp_ready_def)
  ultimately show ?thesis
    by (simp add: Some aem_read_descriptor_def read_response_alt find_static [OF assms(2,3)] Let_def)
qed

text \<open>
  C24. READ_DESCRIPTOR is a lookup. For a table in ascending order of types, as the application
  supplies it, the command is answered by exactly one frame: when the table has a descriptor of
  the type and index that the command names, a response with status SUCCESS that carries exactly its
  bytes, and otherwise a response with status NO_SUCH_DESCRIPTOR. The response goes to the sender
  and repeats the target, controller and sequence identifiers of the command. (Clusters, streams and audio
  maps, which are completed when they are read, are not part of this statement.)
\<close>

theorem read_descriptor_lookup:
  assumes "aecp_command_for (ae_my_guid st) AECP_AEM_CMD_READ_DESCRIPTOR pkt" "aecp_ready src_addr pkt st"
    and "static_type (aecp_field 28 pkt)" "sorted_wrt (<) (map fst (ae_descriptors st))"
    and "\<forall>d. lookup_descriptor (ae_descriptors st) (aecp_field 28 pkt) (aecp_field 30 pkt) = Some d \<longrightarrow>
           42 + length d + 40 \<le> length (ae_buf st) \<and> length d + 16 < 2 ^ 11"
  shows "\<exists>f. ae_sent (process_avb_1722_1_aecp_packet ev src_addr pkt st) = ae_sent st @ [f] \<and>
     (case lookup_descriptor (ae_descriptors st) (aecp_field 28 pkt) (aecp_field 30 pkt) of
        Some d \<Rightarrow> aecp_response_frame (ae_my_mac st) src_addr pkt AECP_AEM_STATUS_SUCCESS (of_nat (length d + 16)) f \<and>
                  get_bytes 42 (length d) f = d
      | None \<Rightarrow> aecp_response_frame (ae_my_mac st) src_addr pkt AECP_AEM_STATUS_NO_SUCH_DESCRIPTOR 40 f)"
  unfolding command_read [OF assms(1)] by (rule read_descriptor_sends) (use assms in auto)

section \<open>Acquisition\<close>

lemma guid_l_inject: "length a = 8 \<Longrightarrow> length b = 8 \<Longrightarrow> guid_l a = guid_l b \<longleftrightarrow> a = b"
  by (metis guid_c_l)

text \<open>A GUID stored by \<open>guid_l\<close> compares equal to the reversed bytes.\<close>

lemma compare_stored:
  "length a = 8 \<Longrightarrow> length b = 8 \<Longrightarrow> compare_guid a (guid_l b) \<longleftrightarrow> a = rev b"
  by (auto simp: compare_guid_iff guid_from_wire_def get_64_rev guid_l_inject)

text \<open>Everything but an acquisition leaves the owner alone.\<close>

definition same_owner :: "aecp_st \<Rightarrow> aecp_st \<Rightarrow> bool" where
  "same_owner s t \<longleftrightarrow> ae_status s = ae_status t \<and> ae_pending_guid s = ae_pending_guid t \<and>
     ae_acquired_guid s = ae_acquired_guid t \<and> ae_acquired_mac s = ae_acquired_mac t \<and> ae_my_guid s = ae_my_guid t"

lemma same_owner_refl [simp]: "same_owner s s"
  by (simp add: same_owner_def)

lemma same_owner_trans: "same_owner s t \<Longrightarrow> same_owner t u \<Longrightarrow> same_owner s u"
  by (simp add: same_owner_def)

lemma same_owner_updates [simp]:
  "same_owner (s\<lparr>ae_buf := b\<rparr>) t = same_owner s t" "same_owner (s\<lparr>ae_avb := v\<rparr>) t = same_owner s t"
  "same_owner (s\<lparr>ae_clocks := c\<rparr>) t = same_owner s t" "same_owner (s\<lparr>ae_cluster := d\<rparr>) t = same_owner s t"
  "same_owner (s\<lparr>ae_stream_in := d\<rparr>) t = same_owner s t" "same_owner (s\<lparr>ae_stream_out := d\<rparr>) t = same_owner s t"
  "same_owner (aecp_emit n s) t = same_owner s t"
  by (simp_all add: same_owner_def aecp_emit_def)

lemma handlers_keep_owner:
  "same_owner (snd (snd (process_aem_cmd_getset_stream_format ev c pkt st))) st"
  "same_owner (snd (snd (process_aem_cmd_getset_sampling_rate c pkt st))) st"
  "same_owner (snd (snd (process_aem_cmd_getset_clock_source c pkt st))) st"
  "same_owner (snd (snd (process_aem_cmd_startstop_streaming ev c pkt st))) st"
  by (simp_all add: process_aem_cmd_getset_stream_format_def process_aem_cmd_getset_sampling_rate_def
      process_aem_cmd_getset_clock_source_def process_aem_cmd_startstop_streaming_def Let_def
      split: option.split prod.split)

lemma other_command_keeps_owner:
  assumes "c \<noteq> AECP_AEM_CMD_ACQUIRE_ENTITY"
  shows "same_owner (snd (aem_command ev src_addr c pkt st)) st"
  using assms by (simp add: aem_command_def handlers_keep_owner Let_def case_prod_unfold)

lemma find_keeps_owner: "same_owner (snd (find_aem_descriptor t i st)) st"
  by (simp add: find_aem_descriptor_def Let_def split: prod.split bool.split)

lemma read_head_keeps_owner: "same_owner (read_head src_addr status len n pkt st) t = same_owner st t"
  by (simp add: read_head_def avb_1722_1_create_aecp_response_header_def Let_def)

lemma read_keeps_owner: "same_owner (aem_read_descriptor ev src_addr pkt st) st"
proof -
  obtain r s1 where f: "find_aem_descriptor (aecp_field 28 pkt) (aecp_field 30 pkt) st = (r, s1)" by fastforce
  then have "same_owner s1 st" using find_keeps_owner by (metis snd_conv)
  then show ?thesis
    by (cases r) (simp_all add: aem_read_descriptor_def read_response_alt f read_head_keeps_owner Let_def)
qed

lemma command_response_keeps_owner [simp]:
  "same_owner (avb_1722_1_create_aecp_aem_response src_addr status n p s) t = same_owner s t"
  by (simp add: avb_1722_1_create_aecp_aem_response_def avb_1722_1_create_aecp_response_header_def Let_def)

text \<open>An ACQUIRE_ENTITY command for this entity.\<close>

definition acquire_command :: "u64 \<Rightarrow> u8 list \<Rightarrow> bool" where
  "acquire_command guid pkt \<longleftrightarrow> aecp_command_for guid AECP_AEM_CMD_ACQUIRE_ENTITY pkt \<and>
     aecp_field 36 pkt = AEM_ENTITY_TYPE \<and> aecp_field 38 pkt = 0 \<and> 40 \<le> length pkt"

definition aecp_step :: "aecp_env \<times> u8 list \<times> u8 list \<Rightarrow> aecp_st \<Rightarrow> aecp_st" where
  "aecp_step = (\<lambda>(ev, src_addr, pkt). process_avb_1722_1_aecp_packet ev src_addr pkt)"

text \<open>The state in which the entity waits for the controller whose GUID has the bytes \<open>h\<close>.\<close>

definition aecp_pending :: "u64 \<Rightarrow> u8 list \<Rightarrow> aecp_st \<Rightarrow> bool" where
  "aecp_pending guid h st \<longleftrightarrow>
     ae_status st = AEM_ENTITY_ACQUIRED_BUT_PENDING \<and> ae_pending_guid st = guid_l h \<and> ae_my_guid st = guid"

definition aecp_other_controller :: "u8 list \<Rightarrow> aecp_env \<times> u8 list \<times> u8 list \<Rightarrow> bool" where
  "aecp_other_controller h e \<longleftrightarrow>
     length h = 8 \<and> 40 \<le> length (snd (snd e)) \<and> controller_guid (snd (snd e)) \<noteq> rev h"

lemma length_controller_guid [simp]: "20 \<le> length pkt \<Longrightarrow> length (controller_guid pkt) = 8"
  by (simp add: controller_guid_def)

lemma pending_acquire:
  assumes "aecp_pending guid h st" "length h = 8" "20 \<le> length pkt" "controller_guid pkt \<noteq> rev h"
    and "aecp_field 36 pkt = AEM_ENTITY_TYPE" "aecp_field 38 pkt = 0"
  shows "aem_acquire_entity src_addr pkt st = (None, st)"
  using assms by (simp add: aem_acquire_entity_def acquire_decide_def aecp_pending_def compare_stored Let_def)

lemma pending_not_supported:
  assumes "aecp_field 36 pkt \<noteq> AEM_ENTITY_TYPE \<or> aecp_field 38 pkt \<noteq> 0"
  shows "snd (aem_acquire_entity src_addr pkt st) = st"
  using assms by (simp add: aem_acquire_entity_def Let_def)

lemma pending_same_owner: "aecp_pending guid h st \<Longrightarrow> same_owner st' st \<Longrightarrow> aecp_pending guid h st'"
  by (simp add: aecp_pending_def same_owner_def)

lemma pending_command:
  assumes "aecp_pending guid h st" "length h = 8" "20 \<le> length pkt" "controller_guid pkt \<noteq> rev h"
  shows "same_owner (snd (aem_command ev src_addr c pkt st)) st"
proof (cases "c = AECP_AEM_CMD_ACQUIRE_ENTITY")
  case True
  have "snd (aem_acquire_entity src_addr pkt st) = st"
    using pending_acquire [OF assms] pending_not_supported by (metis snd_conv)
  then show ?thesis
    by (cases "aem_acquire_entity src_addr pkt st") (simp add: True aem_command_def split: option.split)
qed (rule other_command_keeps_owner)

interpretation pending_acquisition:
  guarded_machine aecp_step "aecp_pending guid h" "aecp_other_controller h" for guid h
proof
  fix st e
  assume pend: "aecp_pending guid h st" and ok: "aecp_other_controller h e"
  obtain ev src_addr pkt where e: "e = (ev, src_addr, pkt)" by (cases e)
  have g: "length h = 8" "20 \<le> length pkt" "controller_guid pkt \<noteq> rev h"
    using ok by (simp_all add: aecp_other_controller_def e)
  have "same_owner (aem_response pkt st) st"
    using pend g by (simp add: aem_response_def aecp_pending_def compare_stored)
  moreover have "same_owner (case aem_command ev src_addr c pkt st of
      (Some (p, status, n), s1) \<Rightarrow> aecp_emit 64 (avb_1722_1_create_aecp_aem_response src_addr status n p s1)
    | (None, s1) \<Rightarrow> s1) st" for c
    using pending_command [OF pend g, of ev src_addr c]
    by (cases "aem_command ev src_addr c pkt st") (auto split: option.split)
  ultimately have "same_owner (aecp_step e st) st"
    using read_keeps_owner [of ev src_addr pkt st]
    by (simp add: aecp_step_def e process_avb_1722_1_aecp_packet_def process_avb_1722_1_aecp_aem_msg_def Let_def)
  with pend show "aecp_pending guid h (aecp_step e st)" by (rule pending_same_owner)
qed

lemma acquire_process:
  assumes "acquire_command (ae_my_guid st) pkt"
  shows "process_avb_1722_1_aecp_packet ev src_addr pkt st =
    (case acquire_decide pkt st of
       (NoResponse, s1) \<Rightarrow> s1
     | (Respond status, s1) \<Rightarrow>
         aecp_emit 64 (avb_1722_1_create_aecp_aem_response src_addr status 16 (put_bytes 28 (guid_c (ae_acquired_guid s1)) pkt) s1)
     | (NewOwner, s1) \<Rightarrow>
         (let s2 = acquire_enter src_addr pkt s1
          in aecp_emit 64 (avb_1722_1_create_aecp_aem_response src_addr AECP_AEM_STATUS_SUCCESS 16
                             (put_bytes 28 (guid_c (ae_acquired_guid s2)) pkt) s2)))"
proof -
  have c: "aecp_command_for (ae_my_guid st) AECP_AEM_CMD_ACQUIRE_ENTITY pkt"
    and f: "aecp_field 36 pkt = AEM_ENTITY_TYPE" "aecp_field 38 pkt = 0"
    using assms by (simp_all add: acquire_command_def)
  show ?thesis
    using command_other [OF c, of ev src_addr] f
    by (auto simp: aem_command_def aem_acquire_entity_def Let_def split: prod.split acquire_decision.split)
qed

lemma emit_response_owner:
  "same_owner (aecp_emit 64 (avb_1722_1_create_aecp_aem_response src_addr status n p s)) s"
  by simp

lemma acquire_first:
  assumes "acquire_command (ae_my_guid st) pkt" "ae_status st = AEM_ENTITY_NOT_ACQUIRED" "pkt ! 27 AND 1 = 0"
    and "st1 = process_avb_1722_1_aecp_packet ev src_addr pkt st"
  shows "ae_status st1 = AEM_ENTITY_ACQUIRED" "ae_acquired_guid st1 = guid_l (controller_guid pkt)"
    and "ae_pending_guid st1 = ae_pending_guid st" "ae_my_guid st1 = ae_my_guid st"
proof -
  have "same_owner st1 (acquire_enter src_addr pkt st)"
    unfolding assms(4) using acquire_process [OF assms(1), of ev src_addr] assms(2)
    by (simp add: acquire_decide_def Let_def)
  then show "ae_status st1 = AEM_ENTITY_ACQUIRED" "ae_acquired_guid st1 = guid_l (controller_guid pkt)"
    and "ae_pending_guid st1 = ae_pending_guid st" "ae_my_guid st1 = ae_my_guid st"
    using assms(3) by (simp_all add: same_owner_def acquire_enter_def)
qed

lemma acquire_second:
  assumes "acquire_command (ae_my_guid st) pkt" "ae_status st = AEM_ENTITY_ACQUIRED"
    and "ae_acquired_guid st = guid_l g" "length g = 8" "controller_guid pkt \<noteq> rev g"
    and "\<not> compare_guid (controller_guid pkt) (ae_pending_guid st)"
  shows "aecp_pending (ae_my_guid st) (controller_guid pkt) (process_avb_1722_1_aecp_packet ev src_addr pkt st)"
proof -
  have "length (controller_guid pkt) = 8" using assms(1) by (simp add: acquire_command_def)
  then have "\<not> compare_guid (controller_guid pkt) (ae_acquired_guid st)"
    using assms(3-5) by (simp add: compare_stored)
  then show ?thesis
    using acquire_process [OF assms(1), of ev src_addr] assms(2,6)
    by (simp add: acquire_decide_def aecp_pending_def avb_1722_1_create_controller_available_packet_def Let_def)
qed

text \<open>
  Acquisition ends in a deadlock. GUIDs of controllers are stored in the byte order of the
  packet but compared in the order of \<open>guid_t\<close>, so a controller is recognised only if its GUID reads
  backwards like the stored one. After a controller has acquired the entity, the next ACQUIRE_ENTITY of
  any controller, that of the owner itself included, makes the entity wait for a confirmation, and
  from then on, whatever packets follow, as long as none carries the reversed GUID of that second
  controller, it keeps waiting and answers no ACQUIRE_ENTITY at all.
\<close>

theorem acquisition_deadlock:
  assumes "ae_status st = AEM_ENTITY_NOT_ACQUIRED"
    and "acquire_command (ae_my_guid st) pkt_a" "pkt_a ! 27 AND 1 = 0"
    and "acquire_command (ae_my_guid st) pkt_b" "controller_guid pkt_b \<noteq> rev (controller_guid pkt_a)"
    and "\<not> compare_guid (controller_guid pkt_b) (ae_pending_guid st)"
    and "list_all (aecp_other_controller (controller_guid pkt_b)) others"
    and "s_a = process_avb_1722_1_aecp_packet ev_a src_a pkt_a st"
    and "s_b = fold aecp_step others (process_avb_1722_1_aecp_packet ev_b src_b pkt_b s_a)"
  shows "ae_status s_a = AEM_ENTITY_ACQUIRED \<and> guid_c (ae_acquired_guid s_a) = controller_guid pkt_a \<and>
    ae_status s_b = AEM_ENTITY_ACQUIRED_BUT_PENDING \<and>
    (acquire_command (ae_my_guid st) pkt \<and> controller_guid pkt \<noteq> rev (controller_guid pkt_b) \<longrightarrow>
       process_avb_1722_1_aecp_packet ev src_addr pkt s_b = s_b)"
proof -
  note first = acquire_first [OF assms(2,1,3,8)]
  have g: "length (controller_guid pkt_a) = 8" "length (controller_guid pkt_b) = 8"
    using assms(2,4) by (simp_all add: acquire_command_def)
  have "aecp_pending (ae_my_guid st) (controller_guid pkt_b) (process_avb_1722_1_aecp_packet ev_b src_b pkt_b s_a)"
    using acquire_second [of s_a pkt_b "controller_guid pkt_a" ev_b src_b] first g assms(4-6) by simp
  then have pend: "aecp_pending (ae_my_guid st) (controller_guid pkt_b) s_b"
    unfolding assms(9) using assms(7) by (rule pending_acquisition.guarded_run)
  have "process_avb_1722_1_aecp_packet ev src_addr pkt s_b = s_b"
    if "acquire_command (ae_my_guid st) pkt" "controller_guid pkt \<noteq> rev (controller_guid pkt_b)"
  proof -
    have a: "acquire_command (ae_my_guid s_b) pkt" using that pend by (simp add: aecp_pending_def)
    have "20 \<le> length pkt" using that(1) by (simp add: acquire_command_def)
    then have "acquire_decide pkt s_b = (NoResponse, s_b)"
      using pend that(2) g(2) by (simp add: acquire_decide_def aecp_pending_def compare_stored)
    with acquire_process [OF a, of ev src_addr] show ?thesis by simp
  qed
  then show ?thesis using first pend g(1) by (simp add: aecp_pending_def guid_c_l)
qed

text \<open>A small device and a controller that asks twice.\<close>

definition aecp_example :: aecp_st where
  "aecp_example =
     \<lparr>ae_my_guid = 0x1122334455667788, ae_my_mac = [1, 2, 3, 4, 5, 6], ae_buf = replicate 600 0,
      ae_lock_timer = zero_timer, ae_aem_state = AECP_AEM_WAITING, ae_status = AEM_ENTITY_NOT_ACQUIRED,
      ae_pending_guid = 0, ae_acquired_guid = 0, ae_acquired_mac = replicate 8 0,
      ae_descriptors = [(0, [[0, 0, 0, 0, 7, 8, 9]]), (2, [[0, 2, 0, 0, 1], [0, 2, 0, 1, 42]])],
      ae_cluster = [], ae_stream_in = [], ae_stream_out = [],
      ae_avb = control_example, ae_clocks = [], ae_sent = []\<rparr>"

definition aecp_env_example :: aecp_env where
  "aecp_env_example = \<lparr>ev_now = 0, ev_router_link = 0, ev_grandmaster = replicate 8 0, ev_pdelay = 0,
     ev_stack = (0, 0), ev_behind = replicate 40 0\<rparr>"

text \<open>A command packet: target, controller GUID ending in \<open>c\<close>, command type and payload.\<close>

definition aecp_packet :: "u8 \<Rightarrow> u8 \<Rightarrow> u8 list \<Rightarrow> u8 list" where
  "aecp_packet c command_type payload =
     [0xfb, 0, 0, 0] @ [0x11, 0x22, 0x33, 0x44, 0x55, 0x66, 0x77, 0x88] @ [0, 1, 2, 0xff, 0xfe, 3, 4, c] @
     [0, 7, 0, command_type] @ payload @ replicate (38 - length payload) 0"

lemma aecp_packet_simps:
  assumes "length payload \<le> 38"
  shows "length (aecp_packet c t payload) = 62"
    and "get_1722_1_msg_type (aecp_packet c t payload) = 0"
    and "get_bytes 4 8 (aecp_packet c t payload) = [0x11, 0x22, 0x33, 0x44, 0x55, 0x66, 0x77, 0x88]"
    and "controller_guid (aecp_packet c t payload) = [0, 1, 2, 0xff, 0xfe, 3, 4, c]"
    and "aem_msg_command_type (aecp_packet c t payload) = ucast t"
  using assms by (simp_all add: aecp_packet_def get_1722_1_msg_type_def get_bytes_def controller_guid_def
      aem_msg_command_type_def)

lemma example_guid: "compare_guid [0x11, 0x22, 0x33, 0x44, 0x55, 0x66, 0x77, 0x88] (ae_my_guid aecp_example)"
  unfolding aecp_example_def by simp code_simp

lemma example_command:
  "length payload \<le> 38 \<Longrightarrow> aecp_command_for (ae_my_guid aecp_example) (ucast t) (aecp_packet c t payload)"
  using example_guid by (simp add: aecp_command_for_def aecp_packet_simps)

lemma example_acquire: "acquire_command (ae_my_guid aecp_example) (aecp_packet c 0 [])"
  using example_command [of "[]" 0 c]
  by (simp add: acquire_command_def aecp_packet_simps) (simp add: aecp_field_def aecp_packet_def get_bytes_def ntoh_16_def)

theorem read_descriptor_lookup_witness:
  "\<exists>f. ae_sent (process_avb_1722_1_aecp_packet aecp_env_example [9, 8, 7, 6, 5, 4, 0x22, 0xf0]
          (aecp_packet 5 4 [0, 0, 0, 0, 0, 2, 0, 1]) aecp_example) = [f] \<and> get_bytes 42 5 f = [0, 2, 0, 1, 42]"
proof -
  let ?p = "aecp_packet 5 4 [0, 0, 0, 0, 0, 2, 0, 1]"
  have f: "aecp_field 28 ?p = 2" "aecp_field 30 ?p = 1"
    by (simp_all add: aecp_field_def aecp_packet_def get_bytes_def ntoh_16_def)
  have l: "lookup_descriptor (ae_descriptors aecp_example) 2 1 = Some [0, 2, 0, 1, 42]"
    by (simp add: lookup_descriptor_def aecp_example_def)
  have "aecp_command_for (ae_my_guid aecp_example) AECP_AEM_CMD_READ_DESCRIPTOR ?p"
    using example_command [of "[0, 0, 0, 0, 0, 2, 0, 1]" 4 5] by simp
  moreover have "aecp_ready [9, 8, 7, 6, 5, 4, 0x22, 0xf0] ?p aecp_example"
    by (simp add: aecp_ready_def aecp_packet_simps) (simp add: aecp_example_def)
  moreover have "static_type (aecp_field 28 ?p)" "sorted_wrt (<) (map fst (ae_descriptors aecp_example))"
    by (simp_all add: f static_type_def aecp_example_def)
  moreover have "42 + length d + 40 \<le> length (ae_buf aecp_example) \<and> length d + 16 < 2 ^ 11"
    if "lookup_descriptor (ae_descriptors aecp_example) (aecp_field 28 ?p) (aecp_field 30 ?p) = Some d" for d
    using that by (simp add: f l) (auto simp: aecp_example_def)
  ultimately obtain x where "ae_sent (process_avb_1722_1_aecp_packet aecp_env_example [9, 8, 7, 6, 5, 4, 0x22, 0xf0]
        ?p aecp_example) = ae_sent aecp_example @ [x]" "get_bytes 42 (length [0, 2, 0, 1, 42 :: u8]) x = [0, 2, 0, 1, 42]"
    using read_descriptor_lookup [of aecp_example ?p "[9, 8, 7, 6, 5, 4, 0x22, 0xf0]" aecp_env_example]
    by (auto simp: f l)
  then show ?thesis by (simp add: aecp_example_def eval_nat_numeral)
qed

theorem acquisition_deadlock_witness:
  "ae_status (process_avb_1722_1_aecp_packet aecp_env_example [] (aecp_packet 5 0 [])
     (process_avb_1722_1_aecp_packet aecp_env_example [] (aecp_packet 5 0 []) aecp_example)) = AEM_ENTITY_ACQUIRED_BUT_PENDING"
proof -
  let ?p = "aecp_packet 5 0 []"
  have "ae_status aecp_example = AEM_ENTITY_NOT_ACQUIRED" by (simp add: aecp_example_def)
  moreover have "?p ! 27 AND 1 = 0" by (simp add: aecp_packet_def)
  moreover have "controller_guid ?p \<noteq> rev (controller_guid ?p)" by (simp add: aecp_packet_simps)
  moreover have "\<not> compare_guid (controller_guid ?p) (ae_pending_guid aecp_example)"
    unfolding aecp_example_def by (simp add: aecp_packet_simps) code_simp
  ultimately show ?thesis
    using acquisition_deadlock [where others = "[]" and st = aecp_example and ev_a = aecp_env_example and
        src_a = "[]" and ev_b = aecp_env_example and src_b = "[]" and pkt = ?p,
        OF _ example_acquire _ example_acquire _ _ _ refl refl] by (simp only: list.pred_inject fold_simps id_apply simp_thms)
qed

section \<open>Stream formats\<close>

lemma sfc_roundtrip: "s \<le> 6 \<Longrightarrow> sfc_from_sampling_rate (sampling_rate_from_sfc s) = s"
proof -
  assume "s \<le> 6"
  then have "unat s \<le> 6" by (simp add: word_le_nat_alt)
  then have "unat s \<in> {0, 1, 2, 3, 4, 5, 6}" by auto
  then have "s \<in> {0, 1, 2, 3, 4, 5, 6}" by (auto simp: word_unat_eq_iff)
  then show ?thesis by (auto simp: sampling_rate_from_sfc_def sfc_from_sampling_rate_def)
qed

lemma get_source_state_eq:
  "get_source_state now i v = (if i < length (av_sources v) then Some (source_state (av_sources v ! i)) else None)"
  by (simp add: get_source_state_def getset_avb_source_state_def)

lemma get_sink_state_eq:
  "get_sink_state now i v = (if i < length (av_sinks v) then Some (sink_state (av_sinks v ! i)) else None)"
  by (simp add: get_sink_state_def getset_avb_sink_state_def)

definition stream_descriptor :: "u16 \<Rightarrow> nat \<Rightarrow> u8 list \<Rightarrow> bool" where
  "stream_descriptor t i pkt \<longleftrightarrow> aecp_field 24 pkt = t \<and> unat (aecp_field 26 pkt) = i \<and> 36 \<le> length pkt"

lemma format_bytes:
  "36 \<le> length pkt \<Longrightarrow>
     ((pkt[28 := a, 29 := b, 30 := c, 32 := d, 33 := e, 35 := f])[30 := x, 31 := y, 34 := z]) ! 30 = x \<and>
     ((pkt[28 := a, 29 := b, 30 := c, 32 := d, 33 := e, 35 := f])[30 := x, 31 := y, 34 := z]) ! 31 = y \<and>
     ((pkt[28 := a, 29 := b, 30 := c, 32 := d, 33 := e, 35 := f])[30 := x, 31 := y, 34 := z]) ! 34 = z"
  by simp

lemma set_source_format:
  assumes "stream_descriptor AEM_STREAM_OUTPUT_TYPE i pkt" "i < length (av_sources (ae_avb st))"
    and "source_state (av_sources (ae_avb st) ! i) = STATE_DISABLED" "pkt ! 30 \<le> 6"
    and "stream_descriptor AEM_STREAM_OUTPUT_TYPE i pkt'"
  shows "\<exists>st1 p. aem_command ev src_addr AECP_AEM_CMD_SET_STREAM_FORMAT pkt st = (Some (pkt, AECP_AEM_STATUS_SUCCESS, 12), st1) \<and>
    aem_command ev' src_addr' AECP_AEM_CMD_GET_STREAM_FORMAT pkt' st1 = (Some (p, AECP_AEM_STATUS_SUCCESS, 12), st1) \<and>
    p ! 30 = pkt ! 30 \<and> p ! 31 = pkt ! 34 \<and> p ! 34 = pkt ! 34"
  using assms format_bytes [of pkt'] sfc_roundtrip [OF assms(4)]
  by (simp add: aem_command_def process_aem_cmd_getset_stream_format_def write_stream_format_def
      read_stream_format_def get_source_state_eq getset_avb_source_format_def getset_avb_source_channels_def
      source_access_def source_with_def update_source_def stream_descriptor_def Let_def)

lemma set_sink_format:
  assumes "stream_descriptor AEM_STREAM_INPUT_TYPE i pkt" "i < length (av_sinks (ae_avb st))"
    and "i < length (av_sources (ae_avb st))"
    and "sink_state (av_sinks (ae_avb st) ! i) = STATE_DISABLED" "pkt ! 30 \<le> 6"
    and "stream_descriptor AEM_STREAM_INPUT_TYPE i pkt'"
  shows "\<exists>st1 p. aem_command ev src_addr AECP_AEM_CMD_SET_STREAM_FORMAT pkt st = (Some (pkt, AECP_AEM_STATUS_SUCCESS, 12), st1) \<and>
    aem_command ev' src_addr' AECP_AEM_CMD_GET_STREAM_FORMAT pkt' st1 = (Some (p, AECP_AEM_STATUS_SUCCESS, 12), st1) \<and>
    p ! 30 = pkt ! 30 \<and> p ! 31 = pkt ! 34 \<and> p ! 34 = pkt ! 34"
  using assms format_bytes [of pkt'] sfc_roundtrip [OF assms(5)]
  by (simp add: aem_command_def process_aem_cmd_getset_stream_format_def write_stream_format_def
      read_stream_format_def get_sink_state_eq getset_avb_sink_format_def getset_avb_sink_channels_def
      sink_access_def sink_with_def update_sink_def stream_descriptor_def Let_def)

text \<open>
  C25. Stream formats over the protocol. SET_STREAM_FORMAT on a source that is disabled succeeds, and
  a later GET_STREAM_FORMAT reports the sampling rate code and the number of channels that were set;
  the same holds for a sink whose index is also below the number of sources. On a stream that is not disabled the
  command fails with STREAM_IS_RUNNING, on an index beyond the streams with NO_SUCH_DESCRIPTOR, and
  changes nothing.
\<close>

theorem stream_format_commands:
  assumes "stream_descriptor t i pkt" "stream_descriptor t i pkt'" "pkt ! 30 \<le> 6"
  shows "(t = AEM_STREAM_OUTPUT_TYPE \<and> i < length (av_sources (ae_avb st)) \<and>
            source_state (av_sources (ae_avb st) ! i) = STATE_DISABLED \<or>
          t = AEM_STREAM_INPUT_TYPE \<and> i < length (av_sinks (ae_avb st)) \<and> i < length (av_sources (ae_avb st)) \<and>
            sink_state (av_sinks (ae_avb st) ! i) = STATE_DISABLED \<longrightarrow>
         (\<exists>st1 p. aem_command ev src_addr AECP_AEM_CMD_SET_STREAM_FORMAT pkt st = (Some (pkt, AECP_AEM_STATUS_SUCCESS, 12), st1) \<and>
           aem_command ev' src_addr' AECP_AEM_CMD_GET_STREAM_FORMAT pkt' st1 = (Some (p, AECP_AEM_STATUS_SUCCESS, 12), st1) \<and>
           p ! 30 = pkt ! 30 \<and> p ! 31 = pkt ! 34 \<and> p ! 34 = pkt ! 34)) \<and>
    (t = AEM_STREAM_OUTPUT_TYPE \<and> i < length (av_sources (ae_avb st)) \<and>
       source_state (av_sources (ae_avb st) ! i) \<noteq> STATE_DISABLED \<or>
     t = AEM_STREAM_INPUT_TYPE \<and> i < length (av_sinks (ae_avb st)) \<and>
       sink_state (av_sinks (ae_avb st) ! i) \<noteq> STATE_DISABLED \<longrightarrow>
       aem_command ev src_addr AECP_AEM_CMD_SET_STREAM_FORMAT pkt st = (Some (pkt, AECP_AEM_STATUS_STREAM_IS_RUNNING, 12), st)) \<and>
    (t = AEM_STREAM_OUTPUT_TYPE \<and> length (av_sources (ae_avb st)) \<le> i \<or>
     t = AEM_STREAM_INPUT_TYPE \<and> length (av_sinks (ae_avb st)) \<le> i \<longrightarrow>
       aem_command ev src_addr AECP_AEM_CMD_SET_STREAM_FORMAT pkt st = (Some (pkt, AECP_AEM_STATUS_NO_SUCH_DESCRIPTOR, 12), st))"
proof -
  have "aem_command ev src_addr AECP_AEM_CMD_SET_STREAM_FORMAT pkt st =
      (let (status, v) = write_stream_format ev t i (sampling_rate_from_sfc (pkt ! 30)) (uint (pkt ! 34)) (ae_avb st)
       in (Some (pkt, status, 12), st\<lparr>ae_avb := v\<rparr>))"
    using assms(1) by (simp add: aem_command_def process_aem_cmd_getset_stream_format_def stream_descriptor_def
        Let_def case_prod_unfold)
  then show ?thesis
    using set_source_format [of i pkt st pkt' ev src_addr ev' src_addr'] set_sink_format [of i pkt st pkt' ev src_addr ev' src_addr']
      assms by (auto simp: write_stream_format_def get_source_state_eq get_sink_state_eq)
qed

theorem stream_format_commands_witness:
  "\<exists>st1 p. aem_command aecp_env_example [] 8 (aecp_packet 5 8 [0, 6, 0, 0, 0, 0xa0, 4, 0, 0, 0, 3, 0]) aecp_example =
       (Some (aecp_packet 5 8 [0, 6, 0, 0, 0, 0xa0, 4, 0, 0, 0, 3, 0], 0, 12), st1) \<and>
     aem_command aecp_env_example [] 9 (aecp_packet 5 9 [0, 6, 0, 0]) st1 = (Some (p, 0, 12), st1) \<and> p ! 30 = 4 \<and> p ! 34 = 3"
proof -
  have d: "stream_descriptor 6 0 (aecp_packet 5 8 [0, 6, 0, 0, 0, 0xa0, 4, 0, 0, 0, 3, 0])"
    "stream_descriptor 6 0 (aecp_packet 5 9 [0, 6, 0, 0])"
    by (simp_all add: stream_descriptor_def aecp_packet_simps aecp_field_def)
      (simp_all add: aecp_packet_def get_bytes_def ntoh_16_def)
  have b: "aecp_packet 5 8 [0, 6, 0, 0, 0, 0xa0, 4, 0, 0, 0, 3, 0] ! 30 = 4"
    "aecp_packet 5 8 [0, 6, 0, 0, 0, 0xa0, 4, 0, 0, 0, 3, 0] ! 34 = 3"
    by (simp_all add: aecp_packet_def)
  have s: "0 < length (av_sources (ae_avb aecp_example))" "source_state (av_sources (ae_avb aecp_example) ! 0) = STATE_DISABLED"
    by (simp_all add: aecp_example_def control_example_def source_example_def empty_stream_def)
  show ?thesis
    using stream_format_commands [where ev = aecp_env_example and src_addr = "[]" and ev' = aecp_env_example and
        src_addr' = "[]" and st = aecp_example, OF d] b s by auto
qed

section \<open>Starting a stream\<close>

text \<open>
  START_STREAMING skips the reservation. On a source that is disabled the command is answered with
  SUCCESS and the source is marked enabled, but nothing is done for it: no declaration is
  made, no VLAN joined, no input claimed, and the talker core gets neither a configuration nor a GO;
  all that leaves the control thread is the bandwidth of the traffic shaper.
\<close>

theorem start_streaming_unreserved:
  assumes "stream_descriptor AEM_STREAM_OUTPUT_TYPE i pkt" "i < length (av_sources (ae_avb st))"
    and "source_state (av_sources (ae_avb st) ! i) = STATE_DISABLED"
    and "(r, st1) = aem_command ev src_addr AECP_AEM_CMD_START_STREAMING pkt st"
  shows "r = Some (pkt, AECP_AEM_STATUS_SUCCESS, 4) \<and>
    source_state (av_sources (ae_avb st1) ! i) = STATE_ENABLED \<and>
    av_attrs (ae_avb st1) = av_attrs (ae_avb st) \<and> av_vlans (ae_avb st1) = av_vlans (ae_avb st) \<and>
    av_inputs (ae_avb st1) = av_inputs (ae_avb st) \<and>
    (\<exists>bw. av_out (ae_avb st1) = av_out (ae_avb st) @ [SetQavBandwidth bw])"
  using assms
  by (simp add: aem_command_def process_aem_cmd_startstop_streaming_def stream_descriptor_def get_source_state_eq
      set_source_state_result source_transition_def avb_set_talker_bandwidth_def source_with_def
      update_source_def Let_def)

theorem start_streaming_unreserved_witness:
  "source_state (av_sources (ae_avb (snd (aem_command aecp_env_example [] 34 (aecp_packet 5 34 [0, 6, 0, 0]) aecp_example))) ! 0) =
     STATE_ENABLED"
proof -
  have d: "stream_descriptor 6 0 (aecp_packet 5 34 [0, 6, 0, 0])"
    by (simp add: stream_descriptor_def aecp_packet_simps aecp_field_def)
      (simp add: aecp_packet_def get_bytes_def ntoh_16_def)
  have s: "0 < length (av_sources (ae_avb aecp_example))" "source_state (av_sources (ae_avb aecp_example) ! 0) = STATE_DISABLED"
    by (simp_all add: aecp_example_def control_example_def source_example_def empty_stream_def)
  show ?thesis using start_streaming_unreserved [OF d s prod.collapse] by simp
qed

end
