(* ===== verification/Slot_Table.thy ===== *)
theory Slot_Table
  imports Avb_Prelude
begin

text \<open>
  Tables of fixed size whose slots are live or free, with a key in every live slot: the
  entity database of the discovery protocol and the stream table of the packet router are
  such arrays. The locale gives the map that a table stands for; storing an entry and
  clearing a slot are update and deletion of that map.
\<close>

locale slot_table =
  fixes live :: "'e \<Rightarrow> bool"
    and key :: "'e \<Rightarrow> 'k"
    and clear :: "'e \<Rightarrow> 'e"
  assumes clear_dead: "\<not> live (clear e)"
begin

definition holds :: "'k \<Rightarrow> 'e \<Rightarrow> bool" where
  "holds k e \<longleftrightarrow> live e \<and> key e = k"

definition table_ok :: "'e list \<Rightarrow> bool" where
  "table_ok es \<longleftrightarrow> distinct (map key (filter live es))"

definition lookup :: "'e list \<Rightarrow> 'k \<Rightarrow> 'e option" where
  "lookup es k = map_option (nth es) (find_idx (holds k) es)"

lemma table_okD:
  "table_ok es \<Longrightarrow> i < length es \<Longrightarrow> j < length es \<Longrightarrow> holds k (es ! i) \<Longrightarrow> holds k (es ! j) \<Longrightarrow> i = j"
proof (induction es arbitrary: i j)
  case (Cons e es)
  have ok: "table_ok es" and new: "live e \<Longrightarrow> \<forall>x\<in>set es. live x \<longrightarrow> key x \<noteq> key e"
    using Cons.prems(1) by (auto simp: table_ok_def image_iff split: if_splits)
  show ?case
  proof (cases i)
    case 0
    with Cons.prems new show ?thesis by (cases j) (auto simp: holds_def)
  next
    case (Suc i')
    with Cons.prems new Cons.IH [OF ok] show ?thesis by (cases j) (auto simp: holds_def)
  qed
qed simp

lemma table_okI:
  "(\<And>i j. i < length es \<Longrightarrow> j < length es \<Longrightarrow> live (es ! i) \<Longrightarrow> live (es ! j) \<Longrightarrow> key (es ! i) = key (es ! j) \<Longrightarrow> i = j)
   \<Longrightarrow> table_ok es"
proof (induction es)
  case (Cons e es)
  have "table_ok es"
  proof (rule Cons.IH)
    fix i j assume "i < length es" "j < length es" "live (es ! i)" "live (es ! j)" "key (es ! i) = key (es ! j)"
    then show "i = j" using Cons.prems [of "Suc i" "Suc j"] by simp
  qed
  moreover have "\<forall>x\<in>set es. live e \<longrightarrow> live x \<longrightarrow> key x \<noteq> key e"
  proof (intro ballI impI notI)
    fix x assume "x \<in> set es" "live e" "live x" "key x = key e"
    then obtain j where "j < length es" "es ! j = x" by (auto simp: in_set_conv_nth)
    with \<open>live e\<close> \<open>live x\<close> \<open>key x = key e\<close> show False using Cons.prems [of 0 "Suc j"] by simp
  qed
  ultimately show ?case by (auto simp: table_ok_def)
qed (simp add: table_ok_def)

lemma lookup_Some:
  assumes "table_ok es" "i < length es" "holds k (es ! i)"
  shows "lookup es k = Some (es ! i)"
proof -
  obtain j where j: "find_idx (holds k) es = Some j" using find_idx_exists [of i es "holds k"] assms(2,3) by blast
  then have "j < length es" "holds k (es ! j)" by (auto dest: find_idx_SomeD)
  with table_okD [OF assms(1,2) _ assms(3)] have "j = i" by blast
  with j show ?thesis by (simp add: lookup_def)
qed

lemma lookup_None: "lookup es k = None \<longleftrightarrow> (\<forall>i<length es. \<not> holds k (es ! i))"
  by (simp add: lookup_def find_idx_None all_set_conv_all_nth)

lemma lookup_ex: "lookup es k = Some e \<Longrightarrow> \<exists>i<length es. es ! i = e \<and> holds k e"
  by (auto simp: lookup_def dest: find_idx_SomeD)

text \<open>Two tables with the same holders of a key give the same value for it.\<close>

lemma lookup_cong:
  assumes "table_ok es" "table_ok fs" "length es = length fs"
    and "\<And>i. i < length es \<Longrightarrow> holds k (es ! i) \<or> holds k (fs ! i) \<Longrightarrow> es ! i = fs ! i"
  shows "lookup es k = lookup fs k"
proof (cases "lookup es k")
  case None
  with assms(3,4) have "lookup fs k = None" by (metis lookup_None)
  with None show ?thesis by simp
next
  case (Some e)
  then obtain i where "i < length es" "es ! i = e" "holds k e" by (auto dest: lookup_ex)
  with assms have "lookup fs k = Some e" by (metis lookup_Some)
  with Some show ?thesis by simp
qed

lemma store_ok:
  assumes "table_ok es" "i < length es" "live x"
    and "\<And>j. j < length es \<Longrightarrow> holds (key x) (es ! j) \<Longrightarrow> j = i"
  shows "table_ok (es[i := x])"
proof (rule table_okI)
  fix a b
  assume "a < length (es[i := x])" "b < length (es[i := x])" "live (es[i := x] ! a)" "live (es[i := x] ! b)"
    and "key (es[i := x] ! a) = key (es[i := x] ! b)"
  then show "a = b"
    using assms(4) [of a] assms(4) [of b] table_okD [OF assms(1), of a b "key (es ! a)"]
    unfolding holds_def by (metis length_list_update nth_list_update_eq nth_list_update_neq)
qed

lemma store_lookup:
  assumes "table_ok es" "i < length es" "live x"
    and "\<And>j. j < length es \<Longrightarrow> holds (key x) (es ! j) \<Longrightarrow> j = i"
    and "live (es ! i) \<Longrightarrow> key (es ! i) = key x"
  shows "lookup (es[i := x]) = (lookup es)(key x \<mapsto> x)"
proof
  fix k
  have ok: "table_ok (es[i := x])" by (rule store_ok [OF assms(1-4)])
  show "lookup (es[i := x]) k = ((lookup es)(key x \<mapsto> x)) k"
  proof (cases "k = key x")
    case True
    then show ?thesis using lookup_Some [OF ok, of i k] assms(2,3) by (simp add: holds_def)
  next
    case False
    have "lookup (es[i := x]) k = lookup es k"
    proof (rule lookup_cong [OF ok assms(1)])
      fix j assume "j < length (es[i := x])" "holds k (es[i := x] ! j) \<or> holds k (es ! j)"
      then show "es[i := x] ! j = es ! j"
        using assms(2,5) False by (cases "j = i") (auto simp: holds_def)
    qed simp
    with False show ?thesis by simp
  qed
qed

lemma clear_ok: "table_ok es \<Longrightarrow> table_ok (modify_nth i clear es)"
proof (cases "i < length es")
  case True
  assume ok: "table_ok es"
  show ?thesis
  proof (rule table_okI)
    fix a b
    assume "a < length (modify_nth i clear es)" "b < length (modify_nth i clear es)"
      "live (modify_nth i clear es ! a)" "live (modify_nth i clear es ! b)"
      "key (modify_nth i clear es ! a) = key (modify_nth i clear es ! b)"
    then show "a = b"
      using table_okD [OF ok, of a b "key (es ! a)"] True clear_dead
      by (cases "a = i"; cases "b = i") (auto simp: holds_def)
  qed
qed (simp add: modify_nth_beyond)

lemma clear_lookup:
  assumes "table_ok es" "i < length es" "live (es ! i)"
  shows "lookup (modify_nth i clear es) = (lookup es)(key (es ! i) := None)"
proof
  fix k
  let ?fs = "modify_nth i clear es"
  have ok: "table_ok ?fs" by (rule clear_ok [OF assms(1)])
  show "lookup ?fs k = ((lookup es)(key (es ! i) := None)) k"
  proof (cases "k = key (es ! i)")
    case True
    have "\<not> holds k (?fs ! j)" if "j < length ?fs" for j
      using that assms True table_okD [OF assms(1), of i j k] clear_dead
      by (cases "j = i") (auto simp: holds_def)
    then have "lookup ?fs k = None" by (simp add: lookup_None)
    with True show ?thesis by simp
  next
    case False
    have "lookup ?fs k = lookup es k"
    proof (rule lookup_cong [OF ok assms(1)])
      fix j assume "j < length ?fs" "holds k (?fs ! j) \<or> holds k (es ! j)"
      then show "?fs ! j = es ! j" using False assms(2) clear_dead by (cases "j = i") (auto simp: holds_def)
    qed simp
    with False show ?thesis by simp
  qed
qed

lemma clear_free: "\<not> live (es ! i) \<Longrightarrow> table_ok es \<Longrightarrow> lookup (modify_nth i clear es) = lookup es"
proof
  fix k assume free: "\<not> live (es ! i)" and ok: "table_ok es"
  show "lookup (modify_nth i clear es) k = lookup es k"
  proof (rule lookup_cong [OF clear_ok [OF ok] ok])
    fix j assume "j < length (modify_nth i clear es)" "holds k (modify_nth i clear es ! j) \<or> holds k (es ! j)"
    then show "modify_nth i clear es ! j = es ! j"
      using free clear_dead by (cases "j = i") (auto simp: holds_def modify_nth_def nth_list_update split: if_splits)
  qed simp
qed

lemma clear_all_lookup: "lookup (map clear es) = Map.empty"
  by (rule ext) (simp add: lookup_None holds_def clear_dead)

lemma clear_all_ok: "table_ok (map clear es)"
  by (simp add: table_ok_def filter_map comp_def clear_dead)

end

end
