(* ===== verification/Adp_Proofs.thy ===== *)
theory Adp_Proofs
  imports Adp Slot_Table
begin

text \<open>
  Correctness of entity discovery: the database is a map from GUIDs to records, a record is
  kept as long as its sender promised and is gone a bounded number of ticks later, what one
  station advertises is what another one stores, and departing does not last.
\<close>

section \<open>The database as a map\<close>

interpretation entity_table: slot_table "\<lambda>e. er_guid e \<noteq> 0" er_guid entity_clear
  by unfold_locales (simp add: entity_clear_def)

abbreviation entity_map :: "adp_st \<Rightarrow> u64 \<Rightarrow> avb_1722_1_entity_record option" where
  "entity_map st \<equiv> entity_table.lookup (ad_entities st)"

abbreviation entities_ok :: "adp_st \<Rightarrow> bool" where
  "entities_ok st \<equiv> entity_table.table_ok (ad_entities st)"

lemma er_guid_of_packet [simp]: "er_guid (entity_of_packet pkt c) = guid_from_wire (get_bytes 4 8 pkt)"
  by (simp add: entity_of_packet_def)

lemma entity_slot_old:
  "entity_slot g es = Some (i, True) \<Longrightarrow> i < length es \<and> entity_table.holds g (es ! i)"
  by (auto simp: entity_slot_def entity_table.holds_def split: option.splits dest!: find_idx_SomeD)

lemma entity_slot_new:
  "entity_slot g es = Some (i, False) \<Longrightarrow>
     i < length es \<and> er_guid (es ! i) = 0 \<and> entity_table.lookup es g = None"
  by (auto simp: entity_slot_def entity_table.holds_def entity_table.lookup_def find_idx_None
      split: option.splits dest!: find_last_idx_SomeD)

lemma entity_slot_None:
  "entity_slot g es = None \<longleftrightarrow> (\<forall>e\<in>set es. er_guid e \<noteq> 0 \<and> er_guid e \<noteq> g)"
proof (cases "find_idx (\<lambda>e. er_guid e \<noteq> 0 \<and> er_guid e = g) es")
  case (Some i)
  then have "es ! i \<in> set es" "er_guid (es ! i) = g" by (auto dest: find_idx_SomeD)
  with Some show ?thesis by (auto simp: entity_slot_def)
next
  case None
  then have "entity_slot g es = None \<longleftrightarrow> (\<forall>e\<in>set es. er_guid e \<noteq> 0)"
    by (simp add: entity_slot_def find_last_idx_None)
  moreover have "\<forall>e\<in>set es. er_guid e = 0 \<or> er_guid e \<noteq> g" using None by (auto simp: find_idx_None)
  ultimately show ?thesis by blast
qed

lemma database_add:
  assumes "entities_ok st" "g = guid_from_wire (get_bytes 4 8 pkt)" "g \<noteq> 0"
    and "avb_1722_1_entity_database_add pkt st = (new, st')"
  shows "entities_ok st'"
    and "\<exists>e\<in>set (ad_entities st). er_guid e = 0 \<or> er_guid e = g \<Longrightarrow>
           entity_map st' = (entity_map st)(g \<mapsto> entity_of_packet pkt (ad_two_second_counter st)) \<and>
           (new \<longleftrightarrow> entity_map st g = None)"
    and "\<not> (\<exists>e\<in>set (ad_entities st). er_guid e = 0 \<or> er_guid e = g) \<Longrightarrow> st' = st \<and> \<not> new"
proof -
  let ?x = "entity_of_packet pkt (ad_two_second_counter st)"
  have key: "er_guid ?x = g" using assms(2) by simp
  consider (full) "entity_slot g (ad_entities st) = None"
    | (slot) i u where "entity_slot g (ad_entities st) = Some (i, u)" by fastforce
  then have "entities_ok st' \<and>
     (if \<exists>e\<in>set (ad_entities st). er_guid e = 0 \<or> er_guid e = g
      then entity_map st' = (entity_map st)(g \<mapsto> ?x) \<and> (new \<longleftrightarrow> entity_map st g = None)
      else st' = st \<and> \<not> new)"
  proof cases
    case full
    have "st' = st \<and> \<not> new" using full assms(2,4) by (simp add: avb_1722_1_entity_database_add_def)
    then show ?thesis using full assms(1) by (auto simp: entity_slot_None)
  next
    case slot
    have i: "i < length (ad_entities st)" using slot by (cases u) (auto dest: entity_slot_old entity_slot_new)
    have only: "j = i" if "j < length (ad_entities st)" "entity_table.holds (er_guid ?x) (ad_entities st ! j)" for j
    proof (cases u)
      case True
      then have "entity_table.holds g (ad_entities st ! i)" using slot by (auto dest: entity_slot_old)
      then show ?thesis using entity_table.table_okD [OF assms(1) that(1) i, of g] that(2) key by simp
    next
      case False
      then have "entity_map st g = None" using slot by (auto dest: entity_slot_new)
      then show ?thesis using that key by (simp add: entity_table.lookup_None)
    qed
    have same: "er_guid (ad_entities st ! i) \<noteq> 0 \<Longrightarrow> er_guid (ad_entities st ! i) = er_guid ?x"
      using slot key entity_slot_old [of g _ i] entity_slot_new [of g _ i] by (cases u) (auto simp: entity_table.holds_def)
    have live: "er_guid ?x \<noteq> 0" using key assms(3) by simp
    have ent: "ad_entities st' = (ad_entities st)[i := ?x]" and new: "new = (\<not> u)"
      using assms(4) slot assms(2) by (auto simp: avb_1722_1_entity_database_add_def Let_def split: if_splits)
    have room: "\<exists>e\<in>set (ad_entities st). er_guid e = 0 \<or> er_guid e = g"
      using i same key by (intro bexI [of _ "ad_entities st ! i"]) auto
    have fresh: "new \<longleftrightarrow> entity_map st g = None"
    proof (cases u)
      case True
      then show ?thesis using slot new entity_slot_old entity_table.lookup_Some [OF assms(1)] by fastforce
    next
      case False
      then show ?thesis using slot new entity_slot_new by auto
    qed
    show ?thesis
      using entity_table.store_ok [OF assms(1) i live only] entity_table.store_lookup [OF assms(1) i live only same]
        room fresh ent key by simp
  qed
  then show "entities_ok st'"
    and "\<exists>e\<in>set (ad_entities st). er_guid e = 0 \<or> er_guid e = g \<Longrightarrow>
           entity_map st' = (entity_map st)(g \<mapsto> ?x) \<and> (new \<longleftrightarrow> entity_map st g = None)"
    and "\<not> (\<exists>e\<in>set (ad_entities st). er_guid e = 0 \<or> er_guid e = g) \<Longrightarrow> st' = st \<and> \<not> new"
    by (auto split: if_splits)
qed

lemma database_find:
  assumes "g \<noteq> 0"
  shows "entity_map st g = (let i = avb_1722_1_entity_database_find g st
           in if i < length (ad_entities st) then Some (ad_entities st ! i) else None)"
proof -
  have "(\<lambda>e. er_guid e = g) = entity_table.holds g" using assms by (auto simp: entity_table.holds_def)
  then show ?thesis
    by (auto simp: entity_table.lookup_def avb_1722_1_entity_database_find_def dest: find_idx_less split: option.split)
qed

lemma database_remove:
  assumes "entities_ok st" "g = guid_from_wire (get_bytes 4 8 pkt)"
    and "st' = avb_1722_1_entity_database_remove pkt st"
  shows "entities_ok st' \<and> entity_map st' = (if g = 0 then entity_map st else (entity_map st)(g := None))"
proof (cases "find_idx (\<lambda>e. er_guid e = g) (ad_entities st)")
  case None
  then have "entity_map st g = None" by (auto simp: entity_table.lookup_None entity_table.holds_def find_idx_None)
  then show ?thesis using None assms
    by (auto simp: avb_1722_1_entity_database_remove_def avb_1722_1_entity_database_find_def fun_eq_iff)
next
  case (Some i)
  then have i: "i < length (ad_entities st)" "er_guid (ad_entities st ! i) = g" by (auto dest: find_idx_SomeD)
  have "ad_entities st' = modify_nth i entity_clear (ad_entities st)"
    using Some i assms(2,3) by (auto simp: avb_1722_1_entity_database_remove_def avb_1722_1_entity_database_find_def)
  then show ?thesis
    using i entity_table.clear_ok [OF assms(1)] entity_table.clear_lookup [OF assms(1) i(1)]
      entity_table.clear_free [OF _ assms(1), of i] by simp
qed

text \<open>
  C10. The entity database is a finite map from nonzero GUIDs to records. An ENTITY_AVAILABLE
  packet updates the map at the sender's GUID when it is known or a slot is free, and reports
  an entity as new exactly if it was unknown; when the database is full an unknown entity
  changes nothing. An ENTITY_DEPARTING packet deletes the sender's GUID. \<open>find\<close> returns the
  index of the record of a known GUID and the size of the database otherwise. No GUID is
  ever stored twice.
\<close>

theorem entity_database_map:
  assumes "entities_ok st" "g = guid_from_wire (get_bytes 4 8 pkt)" "g \<noteq> 0"
    and "avb_1722_1_entity_database_add pkt st = (new, added)"
    and "avb_1722_1_entity_database_remove pkt st = removed"
  shows "entities_ok added \<and> entities_ok removed \<and>
    (if \<exists>e\<in>set (ad_entities st). er_guid e = 0 \<or> er_guid e = g
     then entity_map added = (entity_map st)(g \<mapsto> entity_of_packet pkt (ad_two_second_counter st)) \<and>
          new = (entity_map st g = None)
     else added = st \<and> new = False) \<and>
    entity_map removed = (entity_map st)(g := None) \<and>
    entity_map st g = (let i = avb_1722_1_entity_database_find g st
       in if i < length (ad_entities st) then Some (ad_entities st ! i) else None)"
  using database_add [OF assms(1-4)] database_remove [OF assms(1,2) assms(5) [symmetric]] database_find [OF assms(3), of st]
    assms(3) by simp

definition entity_zero :: avb_1722_1_entity_record where
  "entity_zero = \<lparr>er_guid = 0, er_vendor_id = 0, er_entity_model_id = 0, er_capabilities = 0,
     er_talker_stream_sources = 0, er_talker_capabilities = 0, er_listener_stream_sinks = 0,
     er_listener_capabilities = 0, er_controller_capabilities = 0, er_available_index = 0,
     er_as_grandmaster_id = 0, er_association_id = 0, er_timeout = 0\<rparr>"

definition adp_timer0 :: "int \<Rightarrow> avb_timer" where
  "adp_timer0 m = \<lparr>tmr_timeout = 0, tmr_period = 0, tmr_active = 0, timeout_multiplier = m\<rparr>"

definition adp_example :: adp_st where
  "adp_example = \<lparr>ad_my_guid = 0x001122FFFE334455, ad_my_mac = [0, 0x11, 0x22, 0x33, 0x44, 0x55],
     ad_buf = replicate 84 0xFF, ad_advertise_state = ADP_ADVERTISE_WAITING,
     ad_discovery_state = ADP_DISCOVERY_WAITING, ad_discover_guid = 0, ad_available_index = 7,
     ad_grandmaster = 0, ad_advertise_timer = adp_timer0 1, ad_readvertise_timer = adp_timer0 100,
     ad_discovery_timer = adp_timer0 200, ad_ptp_monitor_timer = adp_timer0 100,
     ad_two_second_counter = 3,
     ad_entities = [entity_zero\<lparr>er_guid := 0x0102030405060708, er_timeout := 4\<rparr>, entity_zero],
     ad_latest = - 1, ad_out = []\<rparr>"

definition adp_packet_example :: "u8 list" where
  "adp_packet_example = [0xfa, 0, 0x50, 56, 8, 7, 6, 5, 4, 3, 2, 1] @ replicate 56 0"

definition adp_config_example :: adp_config where
  "adp_config_example = \<lparr>cf_vendor_id = 0x229700, cf_model_id = 0x1234, cf_entity_capabilities = 0x508,
     cf_talker_stream_sources = 1, cf_talker_capabilities = 0x4001, cf_listener_stream_sinks = 2,
     cf_listener_capabilities = 0x4001, cf_controller_capabilities = 1, cf_association_id = 0\<rparr>"

lemma adp_example_ok: "entities_ok adp_example"
  by (simp add: entity_table.table_ok_def adp_example_def entity_zero_def)

theorem entity_database_map_witness:
  "entity_map (snd (avb_1722_1_entity_database_add adp_packet_example adp_example)) 0x0807060504030201 \<noteq> None"
proof -
  have g: "guid_from_wire (get_bytes 4 8 adp_packet_example) = 0x0807060504030201" by code_simp
  have room: "\<exists>e\<in>set (ad_entities adp_example). er_guid e = 0 \<or> er_guid e = 0x0807060504030201"
    by (simp add: adp_example_def entity_zero_def)
  show ?thesis
    using entity_database_map [OF adp_example_ok g [symmetric] _ surjective_pairing refl] room by simp
qed

section \<open>Expiry\<close>

text \<open>
  One call of the discovery handler in the waiting state either leaves the database and the
  counter alone, or counts two seconds and clears the first record whose time is over.
\<close>

definition adp_tick :: "u32 \<Rightarrow> avb_1722_1_entity_record list \<Rightarrow> avb_1722_1_entity_record list" where
  "adp_tick c es =
     (case find_idx (\<lambda>e. er_guid e \<noteq> 0 \<and> er_timeout e < c) es of
        Some i \<Rightarrow> modify_nth i entity_clear es | None \<Rightarrow> es)"

lemma discovery_waiting:
  assumes "ad_discovery_state st = ADP_DISCOVERY_WAITING" "st' = avb_1722_1_adp_discovery_periodic cf now st"
  shows "ad_discovery_state st' = ADP_DISCOVERY_WAITING \<and>
    ((ad_entities st' = ad_entities st \<and> ad_two_second_counter st' = ad_two_second_counter st) \<or>
     (ad_two_second_counter st' = ad_two_second_counter st + 1 \<and>
      ad_entities st' = adp_tick (ad_two_second_counter st + 1) (ad_entities st)))"
  using assms
  by (auto simp: avb_1722_1_adp_discovery_periodic_def avb_1722_1_entity_database_check_timeout_def
      adp_tick_def Let_def split: prod.splits option.splits)

text \<open>
  The record at \<open>i\<close>, while it is live: at counter \<open>c\<close> past its time \<open>t\<close>, one live record at or
  before \<open>i\<close> has been cleared for every tick since.
\<close>

definition live_upto :: "nat \<Rightarrow> avb_1722_1_entity_record list \<Rightarrow> nat" where
  "live_upto i es = length (filter (\<lambda>e. er_guid e \<noteq> 0) (take (Suc i) es))"

definition expiry_inv :: "u64 \<Rightarrow> u32 \<Rightarrow> nat \<Rightarrow> u32 \<Rightarrow> avb_1722_1_entity_record list \<Rightarrow> bool" where
  "expiry_inv g t i c es \<longleftrightarrow> i < length es \<and>
     (er_guid (es ! i) \<noteq> 0 \<longrightarrow> er_guid (es ! i) = g \<and> er_timeout (es ! i) = t \<and>
        live_upto i es + (unat c - unat t) \<le> Suc i) \<and>
     (c \<le> t \<longrightarrow> er_guid (es ! i) = g \<and> er_timeout (es ! i) = t)"

lemma live_upto_positive: "i < length es \<Longrightarrow> er_guid (es ! i) \<noteq> 0 \<Longrightarrow> 0 < live_upto i es"
  by (auto simp: live_upto_def take_Suc_conv_app_nth)

lemma live_upto_clear:
  assumes "j \<le> i" "i < length es" "er_guid (es ! j) \<noteq> 0"
  shows "Suc (live_upto i (modify_nth j entity_clear es)) = live_upto i es"
proof -
  let ?es = "take (Suc i) es"
  have "take (Suc i) (modify_nth j entity_clear es) = ?es[j := entity_clear (es ! j)]"
    using assms(1,2) by (simp add: modify_nth_def take_update_swap)
  moreover have "j < length ?es" "?es ! j = es ! j" using assms(1,2) by simp_all
  ultimately show ?thesis
    using length_filter_update [of j ?es "\<lambda>e. er_guid e \<noteq> 0" "entity_clear (es ! j)"] assms(3)
    by (simp add: live_upto_def entity_clear_def)
qed

lemma expiry_tick:
  assumes inv: "expiry_inv g t i c es" and room: "unat c < 2 ^ 32 - 1"
  shows "expiry_inv g t i (c + 1) (adp_tick (c + 1) es)"
proof -
  have c1: "unat (c + 1) = unat c + 1" using room by (simp add: unat_word_ariths(1))
  have i: "i < length es" using inv by (simp add: expiry_inv_def)
  let ?P = "\<lambda>e. er_guid e \<noteq> 0 \<and> er_timeout e < c + 1"
  show ?thesis
  proof (cases "find_idx ?P es")
    case None
    then have late: "er_guid (es ! i) = 0 \<or> \<not> er_timeout (es ! i) < c + 1" using i by (auto simp: find_idx_None)
    have "c + 1 \<le> t \<Longrightarrow> c \<le> t" using c1 by (simp add: word_le_nat_alt)
    then show ?thesis using inv late None c1
      by (auto simp: expiry_inv_def adp_tick_def word_less_nat_alt word_le_nat_alt)
  next
    case (Some j)
    then have j: "j < length es" "er_guid (es ! j) \<noteq> 0" "er_timeout (es ! j) < c + 1"
      and first: "\<forall>k<j. \<not> ?P (es ! k)" by (auto dest: find_idx_SomeD)
    have tick: "adp_tick (c + 1) es = modify_nth j entity_clear es" using Some by (simp add: adp_tick_def)
    show ?thesis
    proof (cases "j = i")
      case True
      then show ?thesis using inv j c1
        by (auto simp: expiry_inv_def tick entity_clear_def word_less_nat_alt word_le_nat_alt)
    next
      case False
      then have same: "modify_nth j entity_clear es ! i = es ! i" by simp
      have bound: "live_upto i (modify_nth j entity_clear es) + (unat (c + 1) - unat t) \<le> Suc i"
        if live: "er_guid (es ! i) \<noteq> 0"
      proof (cases "j < i")
        case True
        then show ?thesis using live_upto_clear [of j i es] i j(2) inv live c1 by (auto simp: expiry_inv_def)
      next
        case late: False
        then have "\<not> er_timeout (es ! i) < c + 1" using first False live by (metis linorder_neqE_nat)
        then have "unat (c + 1) - unat t = 0" using inv live by (simp add: expiry_inv_def word_less_nat_alt)
        moreover have "live_upto i (modify_nth j entity_clear es) \<le> Suc i"
          unfolding live_upto_def by (rule order_trans [OF length_filter_le]) simp
        ultimately show ?thesis by simp
      qed
      show ?thesis using inv bound same c1 i
        by (auto simp: expiry_inv_def tick word_le_nat_alt)
    qed
  qed
qed

lemma expiry_run:
  assumes "ad_discovery_state st = ADP_DISCOVERY_WAITING"
    and "expiry_inv g t i (ad_two_second_counter st) (ad_entities st)"
    and "unat (ad_two_second_counter st) + length ts < 2 ^ 32"
    and "st' = fold (avb_1722_1_adp_discovery_periodic cf) ts st"
  shows "expiry_inv g t i (ad_two_second_counter st') (ad_entities st')"
  using assms
proof (induction ts arbitrary: st)
  case (Cons now ts)
  let ?s = "avb_1722_1_adp_discovery_periodic cf now st"
  have step: "ad_discovery_state ?s = ADP_DISCOVERY_WAITING"
    "expiry_inv g t i (ad_two_second_counter ?s) (ad_entities ?s)"
    "unat (ad_two_second_counter ?s) \<le> unat (ad_two_second_counter st) + 1"
    using discovery_waiting [OF Cons.prems(1) refl, of cf now] Cons.prems(2,3)
      expiry_tick [OF Cons.prems(2)] by (auto simp: unat_word_ariths(1))
  show ?case
    by (rule Cons.IH [of ?s]) (use step Cons.prems(3,4) in simp_all)
qed simp

text \<open>
  C12. A record is kept exactly as long as its sender promised, up to a bounded delay. While
  the station waits for packets and the handler is called at any times, the record at index
  \<open>i\<close> is untouched as long as the two-second counter has not passed the record's time, and it
  is gone at the latest \<open>i + 1\<close> ticks after it: each tick clears only one record, the first
  one whose time is over, so the delay is the number of records at or before it.
\<close>

theorem entity_expiry:
  assumes "ad_discovery_state st = ADP_DISCOVERY_WAITING"
    and "i < length (ad_entities st)" "er_guid (ad_entities st ! i) \<noteq> 0"
    and "ad_two_second_counter st \<le> er_timeout (ad_entities st ! i)"
    and "unat (ad_two_second_counter st) + length ts < 2 ^ 32"
    and "st' = fold (avb_1722_1_adp_discovery_periodic cf) ts st"
  shows "(ad_two_second_counter st' \<le> er_timeout (ad_entities st ! i) \<longrightarrow>
            er_guid (ad_entities st' ! i) = er_guid (ad_entities st ! i)) \<and>
    (unat (ad_two_second_counter st') \<ge> unat (er_timeout (ad_entities st ! i)) + i + 1 \<longrightarrow>
       er_guid (ad_entities st' ! i) = 0)"
proof -
  let ?e = "ad_entities st ! i"
  have "live_upto i (ad_entities st) \<le> Suc i"
    unfolding live_upto_def by (rule order_trans [OF length_filter_le]) simp
  then have start: "expiry_inv (er_guid ?e) (er_timeout ?e) i (ad_two_second_counter st) (ad_entities st)"
    using assms(2,4) by (simp add: expiry_inv_def word_le_nat_alt)
  have inv: "expiry_inv (er_guid ?e) (er_timeout ?e) i (ad_two_second_counter st') (ad_entities st')"
    by (rule expiry_run [OF assms(1) start assms(5,6)])
  then have "er_guid (ad_entities st' ! i) \<noteq> 0 \<Longrightarrow> unat (ad_two_second_counter st') - unat (er_timeout ?e) \<le> i"
    using live_upto_positive [of i "ad_entities st'"] by (auto simp: expiry_inv_def)
  with inv show ?thesis by (force simp: expiry_inv_def)
qed

theorem entity_expiry_witness:
  "er_guid (ad_entities (fold (avb_1722_1_adp_discovery_periodic adp_config_example) [1, 2]
      (adp_example\<lparr>ad_discovery_timer := \<lparr>tmr_timeout = 0, tmr_period = 0, tmr_active = 1, timeout_multiplier = 1\<rparr>\<rparr>)) ! 0)
   = 0x0102030405060708"
proof -
  let ?st = "adp_example\<lparr>ad_discovery_timer := \<lparr>tmr_timeout = 0, tmr_period = 0, tmr_active = 1, timeout_multiplier = 1\<rparr>\<rparr>"
  let ?r = "fold (avb_1722_1_adp_discovery_periodic adp_config_example) [1, 2] ?st"
  have c: "ad_two_second_counter ?r \<le> 4"
    by (simp add: avb_1722_1_adp_discovery_periodic_def adp_example_def avb_timer_expired_def timeafter_def
        avb_1722_1_entity_database_check_timeout_def start_avb_timer_def entity_zero_def TICKS_PER_CENTISECOND_def)
  show ?thesis
    using entity_expiry [of ?st 0 "[1, 2]" ?r adp_config_example] c by (simp add: adp_example_def entity_zero_def)
qed

section \<open>Advertising\<close>

lemma adp_fields_ok: "82 \<le> n \<Longrightarrow> fields_ok n (adp_fields cf k gm)"
  by (simp add: adp_fields_def field_apart_def)

text \<open>
  A frame of this station, read by a receiver behind the Ethernet header. The buffer
  must have the 82 octets of a packet, which the shared transmit buffer has.
\<close>

lemma adp_frame:
  assumes "82 \<le> length (ad_buf st)" "length (ad_my_mac st) = 6" "mt < 2 ^ 4"
    and "f = avb_1722_1_create_adp_packet cf mt guid st"
  shows "length f = length (ad_buf st)"
    and "get_1722_1_msg_type (drop 14 f) = mt"
    and "get_1722_1_valid_time (drop 14 f) = (if mt = 0 then 10 else 0)"
    and "get_bytes 18 8 f = guid_to_wire guid"
    and "mt \<noteq> 2 \<Longrightarrow> x \<in> set (adp_fields cf (ad_available_index st) (ad_grandmaster st)) \<Longrightarrow>
           get_bytes (fst x) (length (snd x)) f = snd x"
proof -
  let ?vt = "if mt = 0 then AVB_1722_1_ADP_VALID_TIME else 0"
  let ?fs = "adp_fields cf (ad_available_index st) (ad_grandmaster st)"
  obtain b where b: "b = put_bytes 14 (replicate 68 0) (ad_buf st)" by simp
  obtain h where h: "h = avb_1722_1_create_1722_1_header (ad_my_mac st) avb_1722_1_adp_dest_addr 0x7a mt ?vt 56 b" by simp
  obtain g where g: "g = put_bytes 18 (guid_to_wire guid) h" by simp
  have lb: "length b = length (ad_buf st)" using assms(1) by (simp add: b)
  have lh: "length h = length (ad_buf st)" using lb by (simp add: h)
  have lg: "length g = length (ad_buf st)" using lh assms(1) by (simp add: g)
  have ok: "fields_ok (length g) ?fs" using lg assms(1) by (simp add: adp_fields_ok)
  have f: "f = (if mt \<noteq> 2 then put_fields ?fs g else g)"
    using assms(4) by (simp add: avb_1722_1_create_adp_packet_def Let_def b h g)
  show lf: "length f = length (ad_buf st)" using f lg length_put_fields [OF ok] by (cases "mt = 2") simp_all
  have front: "f ! i = h ! i" if "i \<in> {14, 15, 16}" for i
  proof -
    have "put_fields ?fs g ! i = g ! i"
      using that lg assms(1) by (intro put_fields_nth_other [OF ok]) (auto simp: adp_fields_def field_apart_def)
    moreover have "g ! i = h ! i" using that lh assms(1) by (auto simp: nth_put_bytes g)
    ultimately show ?thesis using f by simp
  qed
  have "get_1722_1_msg_type (drop 14 h) = mt \<and> get_1722_1_valid_time (drop 14 h) = ?vt"
    using header_fields [OF _ assms(3) _ _ _ assms(2) _ h, of]
      lb assms(1) by (simp add: avb_1722_1_adp_dest_addr_def AVB_1722_1_ADP_VALID_TIME_def)
  then show "get_1722_1_msg_type (drop 14 f) = mt"
    and "get_1722_1_valid_time (drop 14 f) = (if mt = 0 then 10 else 0)"
    using front [of 14] front [of 15] front [of 16] lf lh assms(1)
    by (simp_all add: get_1722_1_msg_type_def get_1722_1_valid_time_def AVB_1722_1_ADP_VALID_TIME_def)
  have "get_bytes 18 8 (put_fields ?fs g) = get_bytes 18 8 g"
    using lg assms(1) by (intro put_fields_other [OF ok]) (simp_all add: adp_fields_def field_apart_def)
  then show "get_bytes 18 8 f = guid_to_wire guid"
    using f lh assms(1) by (simp add: get_put_bytes_same g)
  show "mt \<noteq> 2 \<Longrightarrow> x \<in> set ?fs \<Longrightarrow> get_bytes (fst x) (length (snd x)) f = snd x"
    using f put_fields_read [OF ok] by simp
qed

text \<open>What an advertising station says about itself, as its neighbours record it.\<close>

definition adp_advert :: "adp_config \<Rightarrow> adp_st \<Rightarrow> u32 \<Rightarrow> avb_1722_1_entity_record" where
  "adp_advert cf st counter =
     \<lparr>er_guid = ad_my_guid st, er_vendor_id = cf_vendor_id cf, er_entity_model_id = cf_model_id cf,
      er_capabilities = cf_entity_capabilities cf,
      er_talker_stream_sources = cf_talker_stream_sources cf, er_talker_capabilities = cf_talker_capabilities cf,
      er_listener_stream_sinks = cf_listener_stream_sinks cf,
      er_listener_capabilities = cf_listener_capabilities cf,
      er_controller_capabilities = cf_controller_capabilities cf,
      er_available_index = ad_available_index st,
      er_as_grandmaster_id = guid_from_wire (guid_c (ad_grandmaster st)),
      er_association_id = cf_association_id cf, er_timeout = 10 + counter\<rparr>"

lemma adp_read_back:
  assumes "82 \<le> length (ad_buf st)" "length (ad_my_mac st) = 6"
    and "f = take AVB_1722_1_ADP_PACKET_SIZE (avb_1722_1_create_adp_packet cf 0 (ad_my_guid st) st)"
  shows "get_1722_1_msg_type (drop 14 f) = 0" "entity_of_packet (drop 14 f) counter = adp_advert cf st counter"
proof -
  obtain g where g: "g = avb_1722_1_create_adp_packet cf 0 (ad_my_guid st) st" by simp
  note fr = adp_frame [OF assms(1,2) _ g]
  have f: "f = take AVB_1722_1_ADP_PACKET_SIZE g" using assms(3) g by simp
  have "list_all (\<lambda>x. get_bytes (fst x) (length (snd x)) g = snd x)
      (adp_fields cf (ad_available_index st) (ad_grandmaster st))"
    using fr(5) by (simp add: list_all_iff)
  then have fld: "get_bytes 26 4 g = hton_32 (cf_vendor_id cf)" "get_bytes 30 4 g = hton_32 (cf_model_id cf)"
    "get_bytes 34 4 g = hton_32 (cf_entity_capabilities cf)"
    "get_bytes 38 2 g = hton_16 (cf_talker_stream_sources cf)"
    "get_bytes 40 2 g = hton_16 (cf_talker_capabilities cf)"
    "get_bytes 42 2 g = hton_16 (cf_listener_stream_sinks cf)"
    "get_bytes 44 2 g = hton_16 (cf_listener_capabilities cf)"
    "get_bytes 46 4 g = hton_32 (cf_controller_capabilities cf)"
    "get_bytes 50 4 g = hton_32 (ad_available_index st)" "get_bytes 54 8 g = guid_c (ad_grandmaster st)"
    "get_bytes 70 4 g = hton_32 (cf_association_id cf)"
    by (simp_all add: adp_fields_def)
  have head: "get_1722_1_msg_type (drop 14 f) = get_1722_1_msg_type (drop 14 g)"
    "get_1722_1_valid_time (drop 14 f) = get_1722_1_valid_time (drop 14 g)"
    using fr(1) assms(1) by (simp_all add: f get_1722_1_msg_type_def get_1722_1_valid_time_def AVB_1722_1_ADP_PACKET_SIZE_def)
  show "get_1722_1_msg_type (drop 14 f) = 0" using head fr(2) by simp
  show "entity_of_packet (drop 14 f) counter = adp_advert cf st counter"
    using fr(3,4) head
    by (simp add: entity_of_packet_def adp_advert_def get_bytes_drop f get_bytes_take
        AVB_1722_1_ADP_PACKET_SIZE_def fld adp_fields_def ntoh_hton_16 ntoh_hton_32)
qed

text \<open>
  C11. Advertising and discovery fit together: the frame that a station sends in state
  \<open>ADVERTISE_1\<close> makes every station that receives it, and that knows the sender or has a free
  slot, record exactly the sender's GUID, configuration and current available index, valid
  for ten more ticks; if the sender was unknown the application is to be told, and the
  sender waits for its next turn with an incremented available index.
\<close>

theorem advertise_is_discovered:
  assumes "ad_advertise_state st = ADP_ADVERTISE_ADVERTISE_1"
    and "82 \<le> length (ad_buf st)" "length (ad_my_mac st) = 6" "ad_my_guid st \<noteq> 0"
    and "entities_ok r" "\<exists>e\<in>set (ad_entities r). er_guid e = 0 \<or> er_guid e = ad_my_guid st"
    and "st' = adp_advertise_step cf now stack st"
  shows "\<exists>f. ad_out st' = ad_out st @ [AdpTx f] \<and>
    ad_advertise_state st' = ADP_ADVERTISE_WAITING \<and> ad_available_index st' = ad_available_index st + 1 \<and>
    (let r' = process_avb_1722_1_adp_packet (drop 14 f) r in
       entity_map r' = (entity_map r)(ad_my_guid st \<mapsto> adp_advert cf st (ad_two_second_counter r)) \<and>
       entities_ok r' \<and>
       ad_discovery_state r' = (if entity_map r (ad_my_guid st) = None then ADP_DISCOVERY_ADDED
                                else ad_discovery_state r))"
proof -
  let ?f = "take AVB_1722_1_ADP_PACKET_SIZE (avb_1722_1_create_adp_packet cf 0 (ad_my_guid st) st)"
  note reply = adp_read_back [OF assms(2,3) refl, of cf]
  have guid: "guid_from_wire (get_bytes 4 8 (drop 14 ?f)) = ad_my_guid st"
    using arg_cong [OF reply(2) [of 0], of er_guid] by (simp add: adp_advert_def)
  obtain new r' where add: "avb_1722_1_entity_database_add (drop 14 ?f) r = (new, r')" by fastforce
  have r': "entities_ok r'"
    "entity_map r' = (entity_map r)(ad_my_guid st \<mapsto> adp_advert cf st (ad_two_second_counter r))"
    "new \<longleftrightarrow> entity_map r (ad_my_guid st) = None"
    using database_add(1) [OF assms(5) guid [symmetric] assms(4) add]
      database_add(2) [OF assms(5) guid [symmetric] assms(4) add assms(6)] reply(2) by simp_all
  have "ad_discovery_state r' = ad_discovery_state r"
    using add by (auto simp: avb_1722_1_entity_database_add_def Let_def split: option.splits if_splits)
  then have "process_avb_1722_1_adp_packet (drop 14 ?f) r =
      (if new then r'\<lparr>ad_discovery_state := ADP_DISCOVERY_ADDED\<rparr> else r')"
    using add reply(1) by (simp add: process_avb_1722_1_adp_packet_def)
  moreover have "ad_out st' = ad_out st @ [AdpTx ?f]" "ad_advertise_state st' = ADP_ADVERTISE_WAITING"
    "ad_available_index st' = ad_available_index st + 1"
    using assms(1,7) by (simp_all add: adp_advertise_step_def adp_advertise_1_def adp_send_def adp_emit_def Let_def)
  ultimately show ?thesis
    using r' \<open>ad_discovery_state r' = ad_discovery_state r\<close> by (intro exI [of _ ?f]) (simp add: Let_def)
qed

theorem advertise_is_discovered_witness:
  "\<exists>f. ad_out (adp_advertise_step adp_config_example 9 [] (adp_example\<lparr>ad_advertise_state := ADP_ADVERTISE_ADVERTISE_1\<rparr>)) = [AdpTx f] \<and>
     entity_map (process_avb_1722_1_adp_packet (drop 14 f) adp_example) 0x001122FFFE334455
       = Some (adp_advert adp_config_example adp_example 3)"
  using advertise_is_discovered [of "adp_example\<lparr>ad_advertise_state := ADP_ADVERTISE_ADVERTISE_1\<rparr>" adp_example _ adp_config_example 9 "[]", OF _ _ _ _ adp_example_ok _ refl]
  by (auto simp: adp_example_def entity_zero_def Let_def adp_advert_def)

text \<open>
  Departing does not last. The choice after ENTITY_DEPARTING tests the enumeration constant,
  not the state, so a station that is told to depart announces itself again at the next call:
  the two calls send one ENTITY_DEPARTING and one ENTITY_AVAILABLE frame.
\<close>

theorem departed_entity_returns:
  assumes "ad_advertise_state st \<in> {ADP_ADVERTISE_IDLE, ADP_ADVERTISE_WAITING}"
    and "82 \<le> length (ad_buf st)" "length (ad_my_mac st) = 6"
    and "st1 = avb_1722_1_adp_advertising_periodic cf now1 stack1 gm1 (avb_1722_1_adp_depart st)"
    and "st2 = avb_1722_1_adp_advertising_periodic cf now2 stack2 gm2 st1"
  shows "\<exists>f1 f2. ad_out st2 = ad_out st @ [AdpTx f1, AdpTx f2] \<and>
    get_1722_1_msg_type (drop 14 f1) = ENTITY_DEPARTING \<and> get_1722_1_msg_type (drop 14 f2) = ENTITY_AVAILABLE"
proof -
  let ?f1 = "take AVB_1722_1_ADP_PACKET_SIZE (avb_1722_1_create_adp_packet cf 1 (ad_my_guid st) (st\<lparr>ad_advertise_state := ADP_ADVERTISE_DEPARTING\<rparr>))"
  have m1: "get_1722_1_msg_type (drop 14 ?f1) = ENTITY_DEPARTING"
    using adp_frame(1,2) [of "st\<lparr>ad_advertise_state := ADP_ADVERTISE_DEPARTING\<rparr>" 1 _ cf "ad_my_guid st"] assms(2,3)
    by (simp add: get_1722_1_msg_type_def AVB_1722_1_ADP_PACKET_SIZE_def)
  have s1: "ad_out st1 = ad_out st @ [AdpTx ?f1]" "ad_advertise_state st1 \<in> {ADP_ADVERTISE_ADVERTISE_0, ADP_ADVERTISE_ADVERTISE_1}"
    "length (ad_buf st1) = length (ad_buf st)" "ad_my_mac st1 = ad_my_mac st"
    using assms(1) adp_frame(1) [of "st\<lparr>ad_advertise_state := ADP_ADVERTISE_DEPARTING\<rparr>" 1 _ cf "ad_my_guid st"] assms(2,3)
    by (auto simp: assms(4) avb_1722_1_adp_depart_def adp_request_def avb_1722_1_adp_advertising_periodic_def
        adp_advertise_step_def adp_monitor_ptp_def adp_send_def adp_emit_def
        avb_1722_1_adp_change_ptp_grandmaster_def Let_def split: prod.split)
  have "\<exists>b. length (ad_buf b) = length (ad_buf st) \<and> ad_my_mac b = ad_my_mac st \<and>
      ad_out st2 = ad_out st1 @ [AdpTx (take AVB_1722_1_ADP_PACKET_SIZE (avb_1722_1_create_adp_packet cf 0 (ad_my_guid b) b))]"
  proof (cases "ad_advertise_state st1 = ADP_ADVERTISE_ADVERTISE_1")
    case True
    then show ?thesis using s1 by (intro exI [of _ st1])
      (auto simp: assms(5) avb_1722_1_adp_advertising_periodic_def adp_advertise_step_def adp_advertise_1_def
        adp_monitor_ptp_def adp_send_def adp_emit_def avb_1722_1_adp_change_ptp_grandmaster_def Let_def split: prod.split)
  next
    case False
    with s1(2) have "ad_advertise_state st1 = ADP_ADVERTISE_ADVERTISE_0" by simp
    then show ?thesis using s1
      by (intro exI [of _ "(avb_1722_1_adp_change_ptp_grandmaster stack2 st1)\<lparr>ad_ptp_monitor_timer := start_avb_timer now2 1 (ad_ptp_monitor_timer st1),
            ad_advertise_state := ADP_ADVERTISE_ADVERTISE_1\<rparr>"])
        (auto simp: assms(5) avb_1722_1_adp_advertising_periodic_def adp_advertise_step_def adp_advertise_1_def
        adp_monitor_ptp_def adp_send_def adp_emit_def avb_1722_1_adp_change_ptp_grandmaster_def Let_def split: prod.split)
  qed
  then obtain b where b: "length (ad_buf b) = length (ad_buf st)" "ad_my_mac b = ad_my_mac st"
    "ad_out st2 = ad_out st1 @ [AdpTx (take AVB_1722_1_ADP_PACKET_SIZE (avb_1722_1_create_adp_packet cf 0 (ad_my_guid b) b))]"
    by blast
  then have "get_1722_1_msg_type (drop 14 (take AVB_1722_1_ADP_PACKET_SIZE (avb_1722_1_create_adp_packet cf 0 (ad_my_guid b) b))) = ENTITY_AVAILABLE"
    using adp_read_back(1) [of b _ cf] assms(2,3) by simp
  with b(3) s1(1) m1 show ?thesis by auto
qed

theorem departed_entity_returns_witness:
  "\<exists>f1 f2. ad_out (avb_1722_1_adp_advertising_periodic adp_config_example 2 [] []
      (avb_1722_1_adp_advertising_periodic adp_config_example 1 [] [] (avb_1722_1_adp_depart adp_example)))
    = [AdpTx f1, AdpTx f2]"
  using departed_entity_returns [of adp_example, OF _ _ _ refl refl, of adp_config_example 2 "[]" "[]" 1 "[]" "[]"]
  by (auto simp: adp_example_def)

end
