(* ===== verification/Endpoint_Proofs.thy ===== *)
theory Endpoint_Proofs
  imports Endpoint Aecp_Proofs Adp_Proofs Acmp_Talker_Proofs
begin

text \<open>
  Properties of the endpoint as a whole, across its components: a link that goes down, frames and
  their dispatch, reserved addresses and connection requests as they reach the streams.
\<close>

section \<open>A device for the witnesses\<close>

text \<open>Two sources, one sink and the demo application; the streams and the range are arguments.\<close>

definition endpoint_example :: "avb_st \<Rightarrow> unit maap_st \<Rightarrow> acmp_talker_state \<Rightarrow> unit endpoint" where
  "endpoint_example v m talker =
     \<lparr>ep_mac = [0, 0x11, 0x22, 0x33, 0x44, 0x55],
      ep_acmp = \<lparr>ac_my_guid = 0x001122FFFE334455, ac_my_mac = [0, 0x11, 0x22, 0x33, 0x44, 0x55],
        ac_buf = replicate 84 0, ac_controller_state = ACMP_CONTROLLER_WAITING,
        ac_talker_state = talker, ac_listener_state = ACMP_LISTENER_WAITING,
        ac_listener_streams = [zero_listener_stream],
        ac_talker_streams = replicate 2 \<lparr>ts_stream_id = 0, ts_connection_count = 0, ts_destination_mac = replicate 6 7,
          ts_connected_listeners = replicate 3 \<lparr>lp_guid = 0, lp_unique_id = 0\<rparr>\<rparr>,
        ac_inflight = (\<lambda>_. replicate 2 zero_inflight), ac_centisecond_counter = (\<lambda>_. 0),
        ac_inflight_timeout_idx = (\<lambda>_. 0), ac_inflight_timer = (\<lambda>_. zero_timer),
        ac_controller_cmd_resp = zero_cmd_resp, ac_talker_rcvd = zero_cmd_resp, ac_listener_rcvd = zero_cmd_resp,
        ac_sequence_id = (\<lambda>_. 0), ac_env = \<lparr>ap_avb = v, ap_adp = adp_example, ap_clocks = []\<rparr>, ac_sent = []\<rparr>,
      ep_aecp = aecp_example, ep_maap = m, ep_maap_sent = [], ep_first_time = 1, ep_maap_started = False,
      ep_controller_state = 0\<rparr>"

definition endpoint_config_example :: "unit endpoint_config" where
  "endpoint_config_example = \<lparr>ec_adp = adp_config_example, ec_random = (\<lambda>g. (0, g)),
     ec_app = demo_application \<lparr>dm_talker = True, dm_listener = True\<rparr> 8, ec_status_packet_len = 6\<rparr>"

definition call_env_example :: call_env where
  "call_env_example = \<lparr>ce_now = 5, ce_aecp = aecp_env_example, ce_stack = replicate 8 0\<rparr>"

section \<open>What the operations of the streams leave alone\<close>

lemma join_group_fields [simp]:
  "av_sources (snd (avb_join_multicast_group now a st)) = av_sources st"
  "av_sinks (snd (avb_join_multicast_group now a st)) = av_sinks st"
  by (simp_all add: avb_join_multicast_group_def mad_begin_quiet mad_join_quiet Let_def split: option.split)

lemma leave_group_fields [simp]:
  "av_sources (avb_leave_multicast_group now a st) = av_sources st"
  "av_sinks (avb_leave_multicast_group now a st) = av_sinks st"
  by (simp_all add: avb_leave_multicast_group_def mad_leave_quiet split: option.split)

lemma set_bandwidth_sinks [simp]: "av_sinks (avb_set_talker_bandwidth st) = av_sinks st"
  by (simp add: avb_set_talker_bandwidth_def)

lemma update_sink_fields [simp]:
  "av_sinks (update_sink i f st) = modify_nth i f (av_sinks st)" "av_sources (update_sink i f st) = av_sources st"
  "av_sinks (update_source i g st) = av_sinks st"
  by (simp_all add: update_sink_def update_source_def)

lemma source_transition_streams [simp]:
  "av_sources (source_transition now i new st) = av_sources st"
  "av_sinks (source_transition now i new st) = av_sinks st"
  by (simp_all add: source_transition_def source_enable_def source_disable_def mad_begin_quiet mad_join_quiet
      mad_leave_quiet Let_def)

lemma sink_transition_streams [simp]:
  "av_sinks (sink_transition now r i new st) = av_sinks st"
  "av_sources (sink_transition now r i new st) = av_sources st"
  by (simp_all add: sink_transition_def sink_enable_def sink_disable_def mad_begin_quiet mad_join_quiet
      mad_leave_quiet Let_def)

abbreviation in_state :: "avb_stream_state \<Rightarrow> avb_stream_info \<Rightarrow> avb_stream_info" where
  "in_state x s \<equiv> s\<lparr>stream_state := x\<rparr>"

lemma set_source_state_streams [simp]:
  "av_sources (set_avb_source_state now i x st) = modify_nth i (source_with (in_state x)) (av_sources st)"
  "av_sinks (set_avb_source_state now i x st) = av_sinks st"
  by (cases "i < length (av_sources st)";
      simp add: set_source_state_result set_avb_source_state_def getset_avb_source_state_def modify_nth_beyond)+

lemma set_sink_state_streams [simp]:
  "av_sinks (set_avb_sink_state now r i x st) = modify_nth i (sink_with (in_state x)) (av_sinks st)"
  "av_sources (set_avb_sink_state now r i x st) = av_sources st"
  by (cases "i < length (av_sinks st)";
      simp add: set_avb_sink_state_def getset_avb_sink_state_def modify_nth_beyond)+

section \<open>Link down\<close>

lemma fold_modify_all:
  "n \<le> length xs \<Longrightarrow> fold (\<lambda>i. modify_nth i f) [0..<n] xs = map f (take n xs) @ drop n xs"
proof (induction n)
  case (Suc n)
  let ?A = "map f (take n xs)"
  have n: "n < length xs" using Suc.prems by simp
  then have "length ?A = n" "drop n xs = xs ! n # drop (Suc n) xs" by (simp_all add: Cons_nth_drop_Suc)
  moreover from this(1) have "modify_nth n f (?A @ xs ! n # ys) = ?A @ f (xs ! n) # ys" for ys
    using list_update_length [of ?A "xs ! n" ys] nth_append_length [of ?A "xs ! n" ys] by (simp add: modify_nth_def)
  ultimately show ?case using Suc n by (simp add: take_Suc_conv_app_nth)
qed simp

lemma link_down_streams:
  "av_sources (avb_link_down now r st) = map (source_with (in_state STATE_DISABLED)) (av_sources st) \<and>
   av_sinks (avb_link_down now r st) = map (sink_with (in_state STATE_DISABLED)) (av_sinks st)"
proof -
  let ?f = "\<lambda>i. set_avb_source_state now i STATE_DISABLED" and ?g = "\<lambda>i. set_avb_sink_state now r i STATE_DISABLED"
  have 1: "av_sources (fold ?f is s) = fold (\<lambda>i. modify_nth i (source_with (in_state STATE_DISABLED))) is (av_sources s)"
    "av_sinks (fold ?f is s) = av_sinks s" for "is" s
    by (induction "is" arbitrary: s) simp_all
  have 2: "av_sinks (fold ?g is s) = fold (\<lambda>i. modify_nth i (sink_with (in_state STATE_DISABLED))) is (av_sinks s)"
    "av_sources (fold ?g is s) = av_sources s" for "is" s
    by (induction "is" arbitrary: s) simp_all
  show ?thesis by (simp add: avb_link_down_def Let_def 1 2 fold_modify_all)
qed

text \<open>What the lenses of the endpoint keep.\<close>

lemma on_avb_sel [simp]:
  "ep_avb (on_avb f d) = f (ep_avb d)" "ap_adp (ep_env (on_avb f d)) = ap_adp (ep_env d)"
  "ap_clocks (ep_env (on_avb f d)) = ap_clocks (ep_env d)"
  "ep_maap (on_avb f d) = ep_maap d" "ep_aecp (on_avb f d) = ep_aecp d" "ep_maap_sent (on_avb f d) = ep_maap_sent d"
  "ac_talker_streams (ep_acmp (on_avb f d)) = ac_talker_streams (ep_acmp d)"
  "ac_listener_streams (ep_acmp (on_avb f d)) = ac_listener_streams (ep_acmp d)"
  "ac_talker_state (ep_acmp (on_avb f d)) = ac_talker_state (ep_acmp d)"
  by (simp_all add: on_avb_def on_env_def on_acmp_def)

lemma on_acmp_sel [simp]:
  "ep_acmp (on_acmp f d) = f (ep_acmp d)" "ep_maap (on_acmp f d) = ep_maap d" "ep_aecp (on_acmp f d) = ep_aecp d"
  by (simp_all add: on_acmp_def)

text \<open>
  A link that goes down stops every stream. Each source and each sink goes to the disabled state,
  with all its other parameters (stream id, attributes, map) kept. The connection tables of ACMP are
  not touched: the talker still counts its listeners. Discovery and MAAP keep their state.
\<close>

theorem link_down_disables:
  assumes "nbytes = ec_status_packet_len ec" "buf ! 0 = 0"
  shows "let d' = avb_process_control_packet ec ce buf nbytes d
    in av_sources (ep_avb d') = map (source_with (in_state STATE_DISABLED)) (av_sources (ep_avb d)) \<and>
       av_sinks (ep_avb d') = map (sink_with (in_state STATE_DISABLED)) (av_sinks (ep_avb d)) \<and>
       ac_talker_streams (ep_acmp d') = ac_talker_streams (ep_acmp d) \<and>
       ac_listener_streams (ep_acmp d') = ac_listener_streams (ep_acmp d) \<and>
       ep_maap d' = ep_maap d \<and> ep_adp d' = ep_adp d"
  using assms link_down_streams by (simp add: avb_process_control_packet_def Let_def)

theorem link_down_disables_witness:
  "map sink_state (av_sinks (ep_avb (avb_process_control_packet endpoint_config_example call_env_example
     (replicate 6 0) 6 (endpoint_example shared_vlan_example maap_example ACMP_TALKER_IDLE)))) = [STATE_DISABLED]"
  using link_down_disables [of 6 endpoint_config_example "replicate 6 0" call_env_example
      "endpoint_example shared_vlan_example maap_example ACMP_TALKER_IDLE"]
  by (simp add: endpoint_config_example_def endpoint_example_def shared_vlan_example_def sink_with_def Let_def)

section \<open>Frames that are not handled\<close>

text \<open>
  Tagged frames are lost. The test for a VLAN tag compares the second octet of the type field with
  0x18; the tag protocol identifier is 0x8100. So a frame with a VLAN tag, whatever it carries, is
  looked up under the type 0x8100 and changes nothing.
\<close>

theorem tagged_frames_ignored:
  assumes "nbytes \<noteq> ec_status_packet_len ec" "buf ! 12 = 0x81" "buf ! 13 = 0"
  shows "avb_process_control_packet ec ce buf nbytes d = d"
  using assms
  by (simp add: avb_process_control_packet_def frame_etype_def frame_hdr_size_def has_qtag_def Let_def
      AVB_SRP_ETHERTYPE_def AVB_MMRP_ETHERTYPE_def AVB_MVRP_ETHERTYPE_def AVB_1722_ETHERTYPE_def)

theorem tagged_frames_ignored_witness:
  "avb_process_control_packet endpoint_config_example call_env_example
     (replicate 12 1 @ [0x81, 0, 0, 2, 0x22, 0xf0] @ replicate 60 0) 78
     (endpoint_example control_example maap_example ACMP_TALKER_IDLE)
   = endpoint_example control_example maap_example ACMP_TALKER_IDLE"
  by (rule tagged_frames_ignored) (simp_all add: endpoint_config_example_def eval_nat_numeral)

section \<open>Reserved addresses\<close>

lemma upto_as_upt: "[0..int n - 1] = map int [0..<n]"
  by (rule nth_equalityI) (simp_all add: nth_upto)

lemma set_mac_address_sel [simp]:
  "ac_talker_streams (avb_1722_1_talker_set_mac_address i m c) =
     modify_nth i (\<lambda>t. t\<lparr>ts_destination_mac := take 6 m\<rparr>) (ac_talker_streams c)"
  "ac_env (avb_1722_1_talker_set_mac_address i m c) = ac_env c"
  "ac_talker_state (avb_1722_1_talker_set_mac_address i m c) = ac_talker_state c"
  by (simp_all add: avb_1722_1_talker_set_mac_address_def modify_nth_beyond)

text \<open>One reserved address.\<close>

lemma source_reserved_step:
  fixes d :: "'r endpoint"
  assumes "i < length (av_sources (ep_avb d))" "source_state (av_sources (ep_avb d) ! i) = STATE_DISABLED"
    and "length m = 6"
  shows "av_sources (ep_avb (demo_source_address_reserved (int i) m d)) =
      modify_nth i (\<lambda>s. s\<lparr>source_dest := m\<rparr>) (av_sources (ep_avb d))"
    and "ac_talker_streams (ep_acmp (demo_source_address_reserved (int i) m d)) =
      modify_nth i (\<lambda>t. t\<lparr>ts_destination_mac := m\<rparr>) (ac_talker_streams (ep_acmp d))"
    and "ac_talker_state (ep_acmp (demo_source_address_reserved (int i) m d)) =
      (if Suc i = length (ac_talker_streams (ep_acmp d)) then ACMP_TALKER_WAITING else ac_talker_state (ep_acmp d))"
    and "ep_maap (demo_source_address_reserved (int i) m d) = ep_maap d"
  using assms
  by (auto simp: demo_source_address_reserved_def Let_def on_env_def on_avb_def getset_avb_source_dest_def
      source_access_def avb_1722_1_acmp_talker_init_def)

text \<open>All of them: the state after the first \<open>k\<close> addresses.\<close>

definition reserved_upto :: "(nat \<Rightarrow> u8 list) \<Rightarrow> nat \<Rightarrow> 'r endpoint \<Rightarrow> 'r endpoint \<Rightarrow> bool" where
  "reserved_upto addr k d d' \<longleftrightarrow>
     length (av_sources (ep_avb d')) = length (av_sources (ep_avb d)) \<and>
     length (ac_talker_streams (ep_acmp d')) = length (ac_talker_streams (ep_acmp d)) \<and>
     (\<forall>i < length (av_sources (ep_avb d)). source_state (av_sources (ep_avb d') ! i) = source_state (av_sources (ep_avb d) ! i)) \<and>
     (\<forall>i < k. source_dest (av_sources (ep_avb d') ! i) = addr i) \<and>
     (\<forall>i < k. ts_destination_mac (ac_talker_streams (ep_acmp d') ! i) = addr i) \<and>
     ac_talker_state (ep_acmp d') = (if k = length (ac_talker_streams (ep_acmp d)) \<and> 0 < k then ACMP_TALKER_WAITING
                                     else ac_talker_state (ep_acmp d)) \<and>
     ep_maap d' = ep_maap d"

lemma reserved_upto_Suc:
  assumes "reserved_upto addr k d e"
    and "k < length (av_sources (ep_avb e))" "k < length (ac_talker_streams (ep_acmp e))"
    and "av_sources (ep_avb e') = modify_nth k (\<lambda>s. s\<lparr>source_dest := addr k\<rparr>) (av_sources (ep_avb e))"
    and "ac_talker_streams (ep_acmp e') = modify_nth k (\<lambda>t. t\<lparr>ts_destination_mac := addr k\<rparr>) (ac_talker_streams (ep_acmp e))"
    and "ac_talker_state (ep_acmp e') = (if Suc k = length (ac_talker_streams (ep_acmp d)) then ACMP_TALKER_WAITING
           else ac_talker_state (ep_acmp e))"
    and "ep_maap e' = ep_maap e"
  shows "reserved_upto addr (Suc k) d e'"
proof -
  have nth: "modify_nth k f xs ! i = (if i = k then f (xs ! k) else xs ! i)" if "k < length xs" for f i and xs :: "'b list"
    using that by simp
  note r = assms(1) [unfolded reserved_upto_def]
  have "\<forall>i < length (av_sources (ep_avb d)).
      source_state (av_sources (ep_avb e') ! i) = source_state (av_sources (ep_avb d) ! i)"
    unfolding assms(4) using r assms(2) by (auto simp: nth)
  moreover have "\<forall>i < Suc k. source_dest (av_sources (ep_avb e') ! i) = addr i"
    unfolding assms(4) using r assms(2) by (auto simp: nth less_Suc_eq)
  moreover have "\<forall>i < Suc k. ts_destination_mac (ac_talker_streams (ep_acmp e') ! i) = addr i"
    unfolding assms(5) using r assms(3) by (auto simp: nth less_Suc_eq)
  ultimately show ?thesis using r assms(2-7) unfolding reserved_upto_def by simp
qed

lemma reserved_all:
  assumes "n = length (av_sources (ep_avb d))" "n = length (ac_talker_streams (ep_acmp d))"
    and "list_all (\<lambda>s. source_state s = STATE_DISABLED) (av_sources (ep_avb d))" "\<And>i. length (addr i) = 6"
    and "app_address_reserved (ec_app ec) = (\<lambda>now. demo_source_address_reserved)" "k \<le> n"
  shows "reserved_upto addr k d (maap_outputs ec now (map (\<lambda>i. SourceAddressReserved (int i) (addr i)) [0..<k]) d)"
  using assms(6)
proof (induction k)
  case 0
  then show ?case by (simp add: reserved_upto_def maap_outputs_def)
next
  case (Suc k)
  let ?d = "maap_outputs ec now (map (\<lambda>i. SourceAddressReserved (int i) (addr i)) [0..<k]) d"
  have r: "reserved_upto addr k d ?d" using Suc by simp
  then have k: "k < length (av_sources (ep_avb ?d))" "k < length (ac_talker_streams (ep_acmp ?d))"
    "source_state (av_sources (ep_avb ?d) ! k) = STATE_DISABLED"
    using Suc.prems assms(1,2,3) by (simp_all add: reserved_upto_def list_all_length)
  have "maap_outputs ec now (map (\<lambda>i. SourceAddressReserved (int i) (addr i)) [0..<Suc k]) d =
      demo_source_address_reserved (int k) (addr k) ?d"
    using assms(5) by (simp add: maap_outputs_def)
  moreover have "reserved_upto addr (Suc k) d (demo_source_address_reserved (int k) (addr k) ?d)"
    using source_reserved_step [OF k(1,3) assms(4) [of k]] r k(1,2)
    by (intro reserved_upto_Suc [OF r]) (simp_all add: reserved_upto_def)
  ultimately show ?case by simp
qed

lemma length_maap_nth_addr: "6 \<le> length b \<Longrightarrow> length (maap_nth_addr b i) = 6"
  by (simp add: maap_nth_addr_def Let_def min_def)

text \<open>
  C23. The reserved addresses reach the streams. When the last probe of a range with one address for
  every source has gone out, the range is reserved, every source has its address as the destination,
  the connection manager answers with the same address, and its talker starts to accept commands.
\<close>

theorem addresses_reach_streams:
  assumes "ma_state (ep_maap d) = MAAP_PROBING" "maap_probe_due now (ep_maap d)" "ma_probe_count (ep_maap d) = 1"
    and "ma_range (ep_maap d) = int n" "length (ma_base (ep_maap d)) = 6" "0 < n"
    and "n = length (av_sources (ep_avb d))" "n = length (ac_talker_streams (ep_acmp d))"
    and "list_all (\<lambda>s. source_state s = STATE_DISABLED) (av_sources (ep_avb d))"
    and "ec_app ec = demo_application dm max_channels"
  shows "let d' = maap_run ec now d
    in ma_state (ep_maap d') = MAAP_RESERVED \<and> ac_talker_state (ep_acmp d') = ACMP_TALKER_WAITING \<and>
       (\<forall>i < n. source_dest (av_sources (ep_avb d') ! i) = maap_nth_addr (ma_base (ep_maap d)) (int i) \<and>
                ts_destination_mac (ac_talker_streams (ep_acmp d') ! i) = maap_nth_addr (ma_base (ep_maap d)) (int i))"
proof -
  obtain m outs where p: "avb_1722_maap_periodic now (ep_maap d) = (m, outs)" by fastforce
  note l = maap_probe_last [OF assms(1,2,3)]
  let ?f = "maap_probe_frame (ep_maap d)" and ?addr = "\<lambda>i. maap_nth_addr (ma_base (ep_maap d)) (int i)"
  let ?d = "d\<lparr>ep_maap := m, ep_maap_sent := ep_maap_sent d @ [?f]\<rparr>"
  have outs: "outs = MaapTx ?f # map (\<lambda>i. SourceAddressReserved (int i) (?addr i)) [0..<n]"
    using l(4) p assms(4) by (simp add: upto_as_upt comp_def)
  have "reserved_upto ?addr n ?d (maap_outputs ec now (map (\<lambda>i. SourceAddressReserved (int i) (?addr i)) [0..<n]) ?d)"
    by (rule reserved_all [where n = n]) (use assms in \<open>simp_all add: length_maap_nth_addr demo_application_def\<close>)
  moreover have "maap_run ec now d =
      maap_outputs ec now (map (\<lambda>i. SourceAddressReserved (int i) (?addr i)) [0..<n]) ?d"
    by (simp add: maap_run_def p outs maap_outputs_def)
  ultimately show ?thesis using l(1) p assms(6,8) by (simp add: reserved_upto_def Let_def)
qed

theorem addresses_reach_streams_witness:
  "let d' = maap_run endpoint_config_example 5 (endpoint_example control_example
              (maap_example\<lparr>ma_state := MAAP_PROBING, ma_immediately := True, ma_probe_count := 1, ma_range := 2\<rparr>) ACMP_TALKER_IDLE)
   in ac_talker_state (ep_acmp d') = ACMP_TALKER_WAITING \<and>
      source_dest (av_sources (ep_avb d') ! 1) = maap_nth_addr [0x91, 0xE0, 0xF0, 0, 1, 4] 1"
proof -
  let ?m = "maap_example\<lparr>ma_state := MAAP_PROBING, ma_immediately := True, ma_probe_count := 1, ma_range := 2\<rparr>"
  let ?d = "endpoint_example control_example ?m ACMP_TALKER_IDLE"
  have m: "ep_maap ?d = ?m" by (simp add: endpoint_example_def)
  have "ma_state (ep_maap ?d) = MAAP_PROBING" "maap_probe_due 5 (ep_maap ?d)" "ma_probe_count (ep_maap ?d) = 1"
    "ma_range (ep_maap ?d) = int 2" "length (ma_base (ep_maap ?d)) = 6" "0 < (2 :: nat)"
    unfolding m by (simp_all add: maap_probe_due_def)
  moreover have "2 = length (av_sources (ep_avb ?d))" "2 = length (ac_talker_streams (ep_acmp ?d))"
    "list_all (\<lambda>s. source_state s = STATE_DISABLED) (av_sources (ep_avb ?d))"
    "ec_app endpoint_config_example = demo_application \<lparr>dm_talker = True, dm_listener = True\<rparr> 8"
    by (simp_all add: endpoint_example_def endpoint_config_example_def control_example_def source_example_def empty_stream_def)
  ultimately have "let d' = maap_run endpoint_config_example 5 ?d
      in ma_state (ep_maap d') = MAAP_RESERVED \<and> ac_talker_state (ep_acmp d') = ACMP_TALKER_WAITING \<and>
         (\<forall>i < 2. source_dest (av_sources (ep_avb d') ! i) = maap_nth_addr (ma_base (ep_maap ?d)) (int i) \<and>
                ts_destination_mac (ac_talker_streams (ep_acmp d') ! i) = maap_nth_addr (ma_base (ep_maap ?d)) (int i))"
    by (rule addresses_reach_streams)
  moreover have "ma_base (ep_maap ?d) = [0x91, 0xE0, 0xF0, 0, 1, 4]" "int 1 = 1" "(1 :: nat) < 2" by (simp_all add: m)
  ultimately show ?thesis unfolding Let_def by metis
qed

section \<open>A listener connects\<close>

lemma stream_id_of_pair: "ucast (snd sid) + push_bit 32 (ucast (fst sid)) = stream_id64 sid"
  by (simp add: stream_id64_def add.commute)

lemma add_talker_stream_id [simp]: "ts_stream_id (add_talker_listener g u t) = ts_stream_id t"
  by (simp add: add_talker_listener_def split: option.split)

text \<open>The connect hook on a stream without a reservation.\<close>

lemma connect_hook_disabled:
  fixes c :: "app_env acmp_st"
  assumes "i = acmp_talker_id c" "i < length (ac_talker_streams c)" "i < length (av_sources (ap_avb (ac_env c)))"
    and "source_state (av_sources (ap_avb (ac_env c)) ! i) = STATE_DISABLED"
  shows "acmp_hook_listener_connect (module_hooks mc now r) c =
     c\<lparr>ac_env := env_avb (set_avb_source_state now i STATE_POTENTIAL) (ac_env c),
       ac_talker_streams := modify_nth i (\<lambda>t. t\<lparr>ts_stream_id :=
          stream_id64 (streamId (source_stream (av_sources (ap_avb (ac_env c)) ! i)))\<rparr>) (ac_talker_streams c)\<rparr>"
  using assms
  by (simp add: acmp_hook_listener_connect_def module_hooks_def avb_talker_on_listener_connect_def Let_def
      get_source_state_def getset_avb_source_state_def get_avb_source_id_def
      avb_1722_1_talker_set_stream_id_def stream_id_of_pair)

text \<open>
  C22. The first listener starts the reservation. A CONNECT_TX command for a disabled source makes the
  source potential, which declares it for reservation, and is answered with success, the id of the
  stream of that source, its destination address and the GUID of the listener.
\<close>

theorem connect_starts_reservation:
  assumes "ac_talker_state (ep_acmp d) = ACMP_TALKER_CONNECT" "acmp_buf_ok (ep_acmp d)" "talker_macs_ok (ep_acmp d)"
    and "i = acmp_talker_id (ep_acmp d)" "i < length (ac_talker_streams (ep_acmp d))"
    and "i < length (av_sources (ep_avb d))" "source_state (av_sources (ep_avb d) ! i) = STATE_DISABLED"
  shows "let d' = on_acmp (avb_1722_1_acmp_talker_periodic (module_hooks max_channels now router_link)) d
    in ep_avb d' = set_avb_source_state now i STATE_POTENTIAL (ep_avb d) \<and>
       source_state (av_sources (ep_avb d') ! i) = STATE_POTENTIAL \<and>
       (\<exists>f cr. ac_sent (ep_acmp d') = ac_sent (ep_acmp d) @ [f] \<and> cr = store_rcvd_cmd_resp (drop 14 f) \<and>
           cr_message_type cr = ACMP_CMD_CONNECT_TX_RESPONSE \<and> cr_status cr = ACMP_STATUS_SUCCESS \<and>
           cr_listener_guid cr = cr_listener_guid (ac_talker_rcvd (ep_acmp d)) \<and>
           cr_stream_id cr = stream_id64 (streamId (source_stream (av_sources (ep_avb d) ! i))) \<and>
           cr_stream_dest_mac cr = ts_destination_mac (ac_talker_streams (ep_acmp d) ! i))"
proof -
  let ?c = "ep_acmp d" and ?hk = "module_hooks max_channels now router_link"
  let ?s1 = "acmp_hook_listener_connect ?hk (acmp_add_talker_stream_info ?c)"
  let ?s2 = "acmp_set_talker_response ?s1"
  have s1: "?s1 = (acmp_add_talker_stream_info ?c)
      \<lparr>ac_env := env_avb (set_avb_source_state now i STATE_POTENTIAL) (ac_env ?c),
       ac_talker_streams := modify_nth i (\<lambda>t. t\<lparr>ts_stream_id :=
          stream_id64 (streamId (source_stream (av_sources (ep_avb d) ! i)))\<rparr>)
            (ac_talker_streams (acmp_add_talker_stream_info ?c))\<rparr>"
    using assms(4,5,6,7) connect_hook_disabled [of i "acmp_add_talker_stream_info ?c" max_channels now router_link]
    by (simp add: acmp_add_talker_stream_info_def)
  have p: "avb_1722_1_acmp_talker_periodic ?hk ?c =
      acmp_talker_respond ACMP_CMD_CONNECT_TX_RESPONSE ACMP_STATUS_SUCCESS ?s2"
    using assms(1,4,5) by (simp add: avb_1722_1_acmp_talker_periodic_def acmp_talker_valid_talker_unique_def)
  have sel: "ac_talker_streams ?s1 ! i = (add_talker_listener (cr_listener_guid (ac_talker_rcvd ?c))
      (cr_listener_unique_id (ac_talker_rcvd ?c)) (ac_talker_streams ?c ! i))
        \<lparr>ts_stream_id := stream_id64 (streamId (source_stream (av_sources (ep_avb d) ! i)))\<rparr>"
    "ac_talker_rcvd ?s1 = ac_talker_rcvd ?c" "ac_sent ?s1 = ac_sent ?c"
    using assms(4,5) unfolding s1 by (simp_all add: acmp_add_talker_stream_info_def)
  have r: "ac_talker_rcvd ?s2 = (ac_talker_rcvd ?c)
      \<lparr>cr_stream_id := stream_id64 (streamId (source_stream (av_sources (ep_avb d) ! i))),
       cr_stream_dest_mac := ts_destination_mac (ac_talker_streams ?c ! i),
       cr_connection_count := word_of_int (ts_connection_count (ac_talker_streams ?s1 ! i))\<rparr>"
    using assms(4) sel by (simp add: acmp_set_talker_response_def Let_def)
  have b: "acmp_buf_ok ?s2" using assms(2) unfolding s1
    by (simp add: acmp_buf_ok_def acmp_set_talker_response_def acmp_add_talker_stream_info_def Let_def)
  have m: "length (ts_destination_mac (ac_talker_streams ?c ! i)) = 6"
    using assms(3,5) by (simp add: talker_macs_ok_def list_all_length)
  have snt: "ac_sent ?s2 = ac_sent ?c" using sel(3) by (simp add: acmp_set_talker_response_def Let_def)
  obtain f where f: "ac_sent (acmp_talker_respond ACMP_CMD_CONNECT_TX_RESPONSE ACMP_STATUS_SUCCESS ?s2) = ac_sent ?c @ [f]"
    "store_rcvd_cmd_resp (drop 14 f) = (ac_talker_rcvd ?s2)\<lparr>cr_message_type := 1, cr_status := 0\<rparr>"
    using talker_respond_frame [of ?s2 1 0] b m r snt by auto
  have e: "ac_env (acmp_talker_respond mt s ?s2) = env_avb (set_avb_source_state now i STATE_POTENTIAL) (ac_env ?c)" for mt s
    unfolding s1 by (simp add: acmp_talker_respond_def acmp_send_response_def acmp_tx_def Let_def
        acmp_set_talker_response_def acmp_add_talker_stream_info_def)
  show ?thesis
    using f [unfolded r] assms(6) by (simp add: p e Let_def env_avb_def source_with_def)
qed

theorem connect_starts_reservation_witness:
  "source_state (av_sources (ep_avb (on_acmp (avb_1722_1_acmp_talker_periodic (module_hooks 8 5 0))
     (endpoint_example control_example maap_example ACMP_TALKER_CONNECT))) ! 0) = STATE_POTENTIAL"
proof -
  let ?d = "endpoint_example control_example maap_example ACMP_TALKER_CONNECT"
  have "ac_talker_state (ep_acmp ?d) = ACMP_TALKER_CONNECT" "acmp_buf_ok (ep_acmp ?d)" "talker_macs_ok (ep_acmp ?d)"
    "0 = acmp_talker_id (ep_acmp ?d)" "0 < length (ac_talker_streams (ep_acmp ?d))"
    "0 < length (av_sources (ep_avb ?d))" "source_state (av_sources (ep_avb ?d) ! 0) = STATE_DISABLED"
    by (simp_all add: endpoint_example_def control_example_def source_example_def empty_stream_def acmp_buf_ok_def
        talker_macs_ok_def zero_cmd_resp_def)
  from connect_starts_reservation [OF this, of 8 5 0] show ?thesis unfolding Let_def by blast
qed

section \<open>A discovered listener is connected\<close>

lemma process_packet_listener_type:
  assumes "get_1722_1_msg_type pkt = ACMP_CMD_CONNECT_RX_COMMAND"
  shows "ac_sent (process_avb_1722_1_acmp_packet pkt st) = ac_sent st"
    and "ac_inflight (process_avb_1722_1_acmp_packet pkt st) = ac_inflight st"
    and "ac_controller_cmd_resp (process_avb_1722_1_acmp_packet pkt st) = ac_controller_cmd_resp st"
    and "ac_env (process_avb_1722_1_acmp_packet pkt st) = ac_env st"
  using assms by (simp_all add: process_avb_1722_1_acmp_packet_def process_avb_1722_1_acmp_listener_packet_def Let_def)

lemma add_inflight_entry:
  assumes "\<exists>x \<in> set (ac_inflight st e). \<not> fl_in_use x"
  shows "\<exists>x \<in> set (ac_inflight (acmp_add_inflight e mt sq st) e). fl_in_use x \<and>
           fl_command x = (acmp_entity_command e st)\<lparr>cr_message_type := mt\<rparr>"
    and "ac_sent (acmp_add_inflight e mt sq st) = ac_sent st"
    and "ac_env (acmp_add_inflight e mt sq st) = ac_env st"
proof -
  obtain k where k: "find_idx (\<lambda>f. \<not> fl_in_use f) (ac_inflight st e) = Some k"
    using assms find_idx_None [of "\<lambda>f. \<not> fl_in_use f" "ac_inflight st e"] by (cases "find_idx (\<lambda>f. \<not> fl_in_use f) (ac_inflight st e)") auto
  then have l: "k < length (ac_inflight st e)" by (rule find_idx_less)
  let ?x = "acmp_new_inflight e mt sq st"
  have "?x \<in> set (modify_nth k (\<lambda>_. ?x) (ac_inflight st e))"
    using l by (simp add: modify_nth_def set_update_memI)
  moreover have "fl_in_use ?x" "fl_command ?x = (acmp_entity_command e st)\<lparr>cr_message_type := mt\<rparr>"
    by (simp_all add: acmp_new_inflight_def acmp_update_inflight_timeout_def)
  ultimately show "\<exists>x \<in> set (ac_inflight (acmp_add_inflight e mt sq st) e). fl_in_use x \<and>
           fl_command x = (acmp_entity_command e st)\<lparr>cr_message_type := mt\<rparr>"
    using k by (auto simp: acmp_add_inflight_def acmp_modify_inflight_def)
qed (simp_all add: acmp_add_inflight_def acmp_modify_inflight_def split: option.split)

text \<open>A connect command of the controller as it leaves the device and as it is remembered.\<close>

definition connect_rx_command :: "u64 \<Rightarrow> u64 \<Rightarrow> u64 \<Rightarrow> acmp_cmd_resp \<Rightarrow> bool" where
  "connect_rx_command controller talker listener cr \<longleftrightarrow>
     cr_message_type cr = ACMP_CMD_CONNECT_RX_COMMAND \<and> cr_controller_guid cr = controller \<and>
     cr_talker_guid cr = talker \<and> cr_listener_guid cr = listener \<and>
     cr_talker_unique_id cr = 0 \<and> cr_listener_unique_id cr = 0"

lemma controller_connect_sends:
  assumes "acmp_buf_ok c" "length (cr_stream_dest_mac (ac_controller_cmd_resp c)) = 6"
    and "\<exists>x \<in> set (ac_inflight c CONTROLLER). \<not> fl_in_use x"
  shows "\<exists>f x. ac_sent (avb_1722_1_controller_connect t l 0 0 c) = ac_sent c @ [f] \<and>
      connect_rx_command (ac_my_guid c) t l (store_rcvd_cmd_resp (drop 14 f)) \<and>
      x \<in> set (ac_inflight (avb_1722_1_controller_connect t l 0 0 c) CONTROLLER) \<and> fl_in_use x \<and>
      connect_rx_command (ac_my_guid c) t l (fl_command x)"
    and "ac_env (avb_1722_1_controller_connect t l 0 0 c) = ac_env c"
proof -
  let ?cr = "(ac_controller_cmd_resp c)\<lparr>cr_controller_guid := ac_my_guid c, cr_talker_guid := t,
      cr_listener_guid := l, cr_talker_unique_id := 0, cr_listener_unique_id := 0,
      cr_sequence_id := ac_sequence_id c CONTROLLER\<rparr>"
  let ?c2 = "c\<lparr>ac_controller_cmd_resp := ?cr,
      ac_sequence_id := (ac_sequence_id c)(CONTROLLER := ac_sequence_id c CONTROLLER + 1)\<rparr>"
  let ?c3 = "acmp_tx ?cr ACMP_CMD_CONNECT_RX_COMMAND ACMP_STATUS_SUCCESS ?c2"
  let ?pkt = "drop 14 (ac_buf ?c3)"
  let ?c4 = "process_avb_1722_1_acmp_packet ?pkt ?c3"
  let ?c5 = "acmp_add_inflight CONTROLLER ACMP_CMD_CONNECT_RX_COMMAND (cr_sequence_id (ac_controller_cmd_resp c)) ?c4"
  have c5: "avb_1722_1_controller_connect t l 0 0 c = ?c5"
    by (simp add: avb_1722_1_controller_connect_def acmp_controller_connect_disconnect_def acmp_send_command_def Let_def)
  have mt: "get_1722_1_msg_type ?pkt = ACMP_CMD_CONNECT_RX_COMMAND"
    using acmp_packet_header(1) [of "ac_buf c" "ac_my_mac c" 6 0 ?cr] assms(1) by (simp add: acmp_tx_def acmp_buf_ok_def Let_def)
  note q = process_packet_listener_type [OF mt, of ?c3]
  obtain f where f: "ac_sent ?c3 = ac_sent c @ [f]" by (simp add: acmp_tx_def Let_def)
  have "store_rcvd_cmd_resp (drop 14 f) = ?cr\<lparr>cr_message_type := 6, cr_status := 0\<rparr>"
    using acmp_tx_frame [of ?c2 ?cr 6 0] assms(1,2) f by (simp add: acmp_buf_ok_def)
  then have 1: "connect_rx_command (ac_my_guid c) t l (store_rcvd_cmd_resp (drop 14 f))"
    by (simp add: connect_rx_command_def)
  have i: "ac_inflight ?c4 = ac_inflight c" "acmp_entity_command CONTROLLER ?c4 = ?cr"
    using q by (simp_all add: acmp_entity_command_def acmp_tx_def Let_def)
  with assms(3) have "\<exists>x \<in> set (ac_inflight ?c4 CONTROLLER). \<not> fl_in_use x" by simp
  note x = add_inflight_entry [OF this]
  obtain x where "x \<in> set (ac_inflight ?c5 CONTROLLER)" "fl_in_use x" "fl_command x = ?cr\<lparr>cr_message_type := 6\<rparr>"
    using x(1) unfolding i(2) by blast
  moreover from this(3) have "connect_rx_command (ac_my_guid c) t l (fl_command x)" by (simp add: connect_rx_command_def)
  moreover have "ac_sent ?c5 = ac_sent c @ [f]" using x(2) q(1) f by simp
  ultimately show "\<exists>f x. ac_sent (avb_1722_1_controller_connect t l 0 0 c) = ac_sent c @ [f] \<and>
      connect_rx_command (ac_my_guid c) t l (store_rcvd_cmd_resp (drop 14 f)) \<and>
      x \<in> set (ac_inflight (avb_1722_1_controller_connect t l 0 0 c) CONTROLLER) \<and> fl_in_use x \<and>
      connect_rx_command (ac_my_guid c) t l (fl_command x)"
    using 1 unfolding c5 by blast
  show "ac_env (avb_1722_1_controller_connect t l 0 0 c) = ac_env c"
    unfolding c5 using x(3) q(4) by (simp add: acmp_tx_def Let_def)
qed

lemma on_adp_sel [simp]:
  "ac_sent (ep_acmp (on_adp f d)) = ac_sent (ep_acmp d)" "ac_inflight (ep_acmp (on_adp f d)) = ac_inflight (ep_acmp d)"
  "ac_controller_cmd_resp (ep_acmp (on_adp f d)) = ac_controller_cmd_resp (ep_acmp d)"
  "ac_my_guid (ep_acmp (on_adp f d)) = ac_my_guid (ep_acmp d)" "ac_my_mac (ep_acmp (on_adp f d)) = ac_my_mac (ep_acmp d)"
  "ac_buf (ep_acmp (on_adp f d)) = ad_buf (f ((ep_adp d)\<lparr>ad_buf := ac_buf (ep_acmp d)\<rparr>))"
  "ep_adp (on_adp f d) = f ((ep_adp d)\<lparr>ad_buf := ac_buf (ep_acmp d)\<rparr>)"
  "ep_avb (on_adp f d) = ep_avb d"
  by (simp_all add: on_adp_def Let_def)

text \<open>The report of discovery to the application, for a database entry that is to be announced.\<close>

lemma adp_discovery_added:
  assumes "ad_discovery_state (ep_adp d) = ADP_DISCOVERY_ADDED"
  shows "adp_discovery ec ce d = app_new_entity (ec_app ec) (ad_entities (ep_adp d) ! nat (ad_latest (ep_adp d)))
           (on_adp (avb_1722_1_adp_discovery_periodic (ec_adp ec) (ce_now ce)) d)"
  using assms by (simp add: adp_discovery_def Let_def avb_1722_1_adp_discovery_periodic_def adp_emit_def
      new_entity_of_def List.map_filter_simps)

lemma demo_new_entity_listener:
  fixes d :: "'r endpoint"
  assumes "dm_talker dm" "xmos_audio_listener entity"
  shows "ep_acmp (demo_new_entity dm entity d) =
      avb_1722_1_controller_connect (ac_my_guid (ep_acmp d)) (er_guid entity) 0 0
        ((ep_acmp d)\<lparr>ac_env := (ep_env d)\<lparr>ap_adp := avb_1722_1_adp_announce (ep_adp d)\<rparr>\<rparr>)"
  using assms by (simp add: demo_new_entity_def avb_entity_on_new_entity_available_def on_env_def)

text \<open>
  A discovered listener is connected. The announcement of an entity that is not in the database and
  is an audio listener of the vendor is stored, and the next call of discovery makes the controller
  send one CONNECT_RX command that names this device as talker and the entity as listener, and
  remember it for its response.
\<close>

theorem new_listener_is_connected:
  assumes "get_1722_1_subtype pkt = DEFAULT_1722_1_ADP_SUBTYPE" "get_1722_1_msg_type pkt = ENTITY_AVAILABLE"
    and "entity_slot (guid_from_wire (get_bytes 4 8 pkt)) (ad_entities (ep_adp d)) = Some (k, False)"
    and "k < length (ad_entities (ep_adp d))"
    and "xmos_audio_listener (entity_of_packet pkt (ad_two_second_counter (ep_adp d)))"
    and "dm_talker dm" "ec_app ec = demo_application dm max_channels"
    and "acmp_buf_ok (ep_acmp d)" "length (cr_stream_dest_mac (ac_controller_cmd_resp (ep_acmp d))) = 6"
    and "\<exists>x \<in> set (ac_inflight (ep_acmp d) CONTROLLER). \<not> fl_in_use x"
  shows "let d' = adp_discovery ec ce' (avb_1722_1_process_packet ce pkt src d);
             sent_by = connect_rx_command (ac_my_guid (ep_acmp d)) (ac_my_guid (ep_acmp d)) (guid_from_wire (get_bytes 4 8 pkt))
    in (\<exists>f. ac_sent (ep_acmp d') = ac_sent (ep_acmp d) @ [f] \<and> sent_by (store_rcvd_cmd_resp (drop 14 f))) \<and>
       (\<exists>x \<in> set (ac_inflight (ep_acmp d') CONTROLLER). fl_in_use x \<and> sent_by (fl_command x)) \<and>
       ad_discovery_state (ep_adp d') = ADP_DISCOVERY_WAITING"
proof -
  let ?d1 = "avb_1722_1_process_packet ce pkt src d"
  let ?entity = "entity_of_packet pkt (ad_two_second_counter (ep_adp d))"
  have d1: "?d1 = on_adp (process_avb_1722_1_adp_packet pkt) d"
    using assms(1) by (simp add: avb_1722_1_process_packet_def)
  have a: "ad_discovery_state (ep_adp ?d1) = ADP_DISCOVERY_ADDED" "ad_latest (ep_adp ?d1) = int k"
    "ad_entities (ep_adp ?d1) ! k = ?entity" "ad_buf (ep_adp ?d1) = ac_buf (ep_acmp d)"
    "ac_buf (ep_acmp ?d1) = ac_buf (ep_acmp d)"
    using assms(2,3,4) by (simp_all add: d1 process_avb_1722_1_adp_packet_def avb_1722_1_entity_database_add_def Let_def)
  let ?d2 = "on_adp (avb_1722_1_adp_discovery_periodic (ec_adp ec) (ce_now ce')) ?d1"
  have d2: "ac_buf (ep_acmp ?d2) = ac_buf (ep_acmp d)" "ad_discovery_state (ep_adp ?d2) = ADP_DISCOVERY_WAITING"
    using a by (simp_all add: avb_1722_1_adp_discovery_periodic_def adp_emit_def)
  let ?c = "(ep_acmp ?d2)\<lparr>ac_env := (ep_env ?d2)\<lparr>ap_adp := avb_1722_1_adp_announce (ep_adp ?d2)\<rparr>\<rparr>"
  have e: "er_guid ?entity = guid_from_wire (get_bytes 4 8 pkt)" by (simp add: entity_of_packet_def)
  have d': "ep_acmp (adp_discovery ec ce' ?d1) =
      avb_1722_1_controller_connect (ac_my_guid (ep_acmp d)) (er_guid ?entity) 0 0 ?c"
  proof -
    have "adp_discovery ec ce' ?d1 = demo_new_entity dm ?entity ?d2"
      using adp_discovery_added [OF a(1), of ec ce'] a(2,3) assms(7) by (simp add: demo_application_def del: on_adp_sel)
    moreover have "ac_my_guid (ep_acmp ?d2) = ac_my_guid (ep_acmp d)" by (simp add: d1)
    ultimately show ?thesis using demo_new_entity_listener [OF assms(6,5), of ?d2] by (simp only:)
  qed
  have "acmp_buf_ok ?c" "length (cr_stream_dest_mac (ac_controller_cmd_resp ?c)) = 6"
    "\<exists>x \<in> set (ac_inflight ?c CONTROLLER). \<not> fl_in_use x" "ac_sent ?c = ac_sent (ep_acmp d)"
    "ac_my_guid ?c = ac_my_guid (ep_acmp d)"
    using assms(8,9,10) d2 by (simp_all add: acmp_buf_ok_def d1)
  moreover from controller_connect_sends [OF this(1,2,3), of "ac_my_guid (ep_acmp d)" "er_guid ?entity"]
  have "\<exists>f x. ac_sent (ep_acmp (adp_discovery ec ce' ?d1)) = ac_sent ?c @ [f] \<and>
      connect_rx_command (ac_my_guid ?c) (ac_my_guid (ep_acmp d)) (er_guid ?entity) (store_rcvd_cmd_resp (drop 14 f)) \<and>
      x \<in> set (ac_inflight (ep_acmp (adp_discovery ec ce' ?d1)) CONTROLLER) \<and> fl_in_use x \<and>
      connect_rx_command (ac_my_guid ?c) (ac_my_guid (ep_acmp d)) (er_guid ?entity) (fl_command x)"
    "ac_env (ep_acmp (adp_discovery ec ce' ?d1)) = ac_env ?c"
    unfolding d' by simp_all
  moreover have "ad_discovery_state (avb_1722_1_adp_announce x) = ad_discovery_state x" for x
    by (simp add: avb_1722_1_adp_announce_def adp_request_def)
  ultimately show ?thesis using d2(2) unfolding e by (auto simp: Let_def)
qed

definition listener_announcement :: "u8 list" where
  "listener_announcement = [0xfa, 0, 0x50, 56, 0, 0x22, 0x97, 0xff, 0xfe, 0, 0, 9, 0, 0x22, 0x97, 0] @ replicate 12 0
     @ [0, 1, 0x40, 0] @ replicate 36 0"

theorem new_listener_is_connected_witness:
  "\<exists>f. ac_sent (ep_acmp (adp_discovery endpoint_config_example call_env_example
     (avb_1722_1_process_packet call_env_example listener_announcement (replicate 6 0)
       (endpoint_example control_example maap_example ACMP_TALKER_IDLE)))) = [f] \<and>
     cr_listener_guid (store_rcvd_cmd_resp (drop 14 f)) = 0x002297FFFE000009"
proof -
  let ?d = "endpoint_example control_example maap_example ACMP_TALKER_IDLE" and ?p = listener_announcement
  have 1: "get_1722_1_subtype ?p = DEFAULT_1722_1_ADP_SUBTYPE" "get_1722_1_msg_type ?p = ENTITY_AVAILABLE"
    "guid_from_wire (get_bytes 4 8 ?p) = 0x002297FFFE000009"
    "xmos_audio_listener (entity_of_packet ?p (ad_two_second_counter (ep_adp ?d)))"
    unfolding endpoint_example_def adp_example_def by code_simp+
  have 2: "entity_slot 0x002297FFFE000009 (ad_entities (ep_adp ?d)) = Some (1, False)"
    unfolding endpoint_example_def adp_example_def by code_simp
  have "1 < length (ad_entities (ep_adp ?d))" "acmp_buf_ok (ep_acmp ?d)"
    "length (cr_stream_dest_mac (ac_controller_cmd_resp (ep_acmp ?d))) = 6"
    "\<exists>x \<in> set (ac_inflight (ep_acmp ?d) CONTROLLER). \<not> fl_in_use x" "ac_sent (ep_acmp ?d) = []"
    by (simp_all add: endpoint_example_def adp_example_def acmp_buf_ok_def zero_cmd_resp_def zero_inflight_def)
  with new_listener_is_connected [OF 1(1,2) 2 [folded 1(3)] _ 1(4), of "\<lparr>dm_talker = True, dm_listener = True\<rparr>"
      endpoint_config_example 8 call_env_example call_env_example "replicate 6 0"]
  show ?thesis by (auto simp: 1(3) endpoint_config_example_def connect_rx_command_def Let_def)
qed

end
