(* ===== verification/Registration_Proofs.thy ===== *)
theory Registration_Proofs
  imports Endpoint_Proofs Avb_Control_Proofs
begin

text \<open>
  What start-up leaves behind: every registered stream owns three attributes of the right types
  that point back to it, the domain attribute follows them, and the stream ids of the talkers.
\<close>

section \<open>Taking attributes\<close>

text \<open>The first \<open>m\<close> attributes are taken.\<close>

definition attrs_taken :: "nat \<Rightarrow> avb_st \<Rightarrow> bool" where
  "attrs_taken m st \<longleftrightarrow> m \<le> length (av_attrs st) \<and>
     (\<forall>j < length (av_attrs st). at_applicant (av_attrs st ! j) = MRP_UNUSED \<longleftrightarrow> m \<le> j)"

text \<open>Three attributes from \<open>b\<close> on belong to a stream.\<close>

definition attr_triple :: "mrp_attribute_state list \<Rightarrow> nat \<Rightarrow> mrp_info \<Rightarrow> bool" where
  "attr_triple as b info \<longleftrightarrow>
     at_type (as ! b) = MSRP_TALKER_ADVERTISE \<and> at_info (as ! b) = info \<and>
     at_type (as ! (b + 1)) = MSRP_TALKER_FAILED \<and> at_info (as ! (b + 1)) = info \<and>
     at_type (as ! (b + 2)) = MSRP_LISTENER \<and> at_info (as ! (b + 2)) = info"

definition stream_owns :: "avb_st \<Rightarrow> avb_stream_info \<Rightarrow> nat \<Rightarrow> mrp_info \<Rightarrow> bool" where
  "stream_owns st s b info \<longleftrightarrow>
     srp_talker_attr s = b \<and> srp_talker_failed_attr s = b + 1 \<and> srp_listener_attr s = b + 2 \<and>
     attr_triple (av_attrs st) b info"

lemma get_attr_taken:
  assumes "attrs_taken m st" "m < length (av_attrs st)"
  shows "mrp_get_attr st = (m, update_attr m (\<lambda>a. a\<lparr>at_applicant := MRP_DISABLED\<rparr>) st)"
    and "attrs_taken (Suc m) (update_attr m (\<lambda>a. a\<lparr>at_applicant := MRP_DISABLED\<rparr>) st)"
proof -
  have "find_idx (\<lambda>a. at_applicant a = MRP_UNUSED) (av_attrs st) = Some m"
    using assms by (intro find_idx_SomeI) (auto simp: attrs_taken_def)
  then show "mrp_get_attr st = (m, update_attr m (\<lambda>a. a\<lparr>at_applicant := MRP_DISABLED\<rparr>) st)"
    by (simp add: mrp_get_attr_def)
  show "attrs_taken (Suc m) (update_attr m (\<lambda>a. a\<lparr>at_applicant := MRP_DISABLED\<rparr>) st)"
    using assms by (auto simp: attrs_taken_def update_attr_def modify_nth_def nth_list_update)
qed

lemma attribute_init_attrs:
  "av_attrs (mrp_attribute_init j t info st) = modify_nth j (\<lambda>a. a\<lparr>at_type := t, at_info := info\<rparr>) (av_attrs st)"
  "av_sources (mrp_attribute_init j t info st) = av_sources st" "av_sinks (mrp_attribute_init j t info st) = av_sinks st"
  "av_groups (mrp_attribute_init j t info st) = av_groups st" "av_vlans (mrp_attribute_init j t info st) = av_vlans st"
  by (simp_all add: mrp_attribute_init_def update_attr_def)

lemma attribute_init_applicant:
  "at_applicant (modify_nth j (\<lambda>a. a\<lparr>at_type := t, at_info := info\<rparr>) as ! i) = at_applicant (as ! i)"
  by (cases "i = j"; cases "j < length as") (simp_all add: modify_nth_beyond)

lemma attribute_init_taken: "attrs_taken m (mrp_attribute_init j t info st) = attrs_taken m st"
  by (simp add: attrs_taken_def attribute_init_attrs attribute_init_applicant)

lemma attrs_taken_same: "av_attrs s' = av_attrs s \<Longrightarrow> attrs_taken m s' = attrs_taken m s"
  by (simp add: attrs_taken_def)

text \<open>The state in which a stream stores the attributes it has taken.\<close>

definition three_taken :: "nat \<Rightarrow> avb_st \<Rightarrow> avb_st" where
  "three_taken m st = update_attr (m + 2) (\<lambda>a. a\<lparr>at_applicant := MRP_DISABLED\<rparr>)
     (update_attr (m + 1) (\<lambda>a. a\<lparr>at_applicant := MRP_DISABLED\<rparr>)
       (update_attr m (\<lambda>a. a\<lparr>at_applicant := MRP_DISABLED\<rparr>) st))"

lemma take_stream_attrs_result:
  assumes "attrs_taken m st" "m + 3 \<le> length (av_attrs st)"
    and "\<And>a b c s. av_attrs (store a b c s) = av_attrs s"
    and "st' = take_stream_attrs info store st"
  shows "attrs_taken (m + 3) st'" "attr_triple (av_attrs st') m info" "length (av_attrs st') = length (av_attrs st)"
    and "\<And>j. j < m \<Longrightarrow> av_attrs st' ! j = av_attrs st ! j"
    and "av_sources st' = av_sources (store m (m + 1) (m + 2) (three_taken m st))"
    and "av_sinks st' = av_sinks (store m (m + 1) (m + 2) (three_taken m st))"
    and "av_groups st' = av_groups (store m (m + 1) (m + 2) (three_taken m st))"
    and "av_vlans st' = av_vlans (store m (m + 1) (m + 2) (three_taken m st))"
proof -
  let ?d = "\<lambda>a. a\<lparr>at_applicant := MRP_DISABLED\<rparr>"
  let ?s1 = "update_attr m ?d st" let ?s2 = "update_attr (m + 1) ?d ?s1"
  have g1: "mrp_get_attr st = (m, ?s1)" "attrs_taken (m + 1) ?s1"
    using get_attr_taken [OF assms(1)] assms(2) by simp_all
  then have g2: "mrp_get_attr ?s1 = (m + 1, ?s2)" "attrs_taken (m + 2) ?s2"
    using get_attr_taken [of "m + 1" ?s1] assms(2) by simp_all
  then have g3: "mrp_get_attr ?s2 = (m + 2, three_taken m st)" "attrs_taken (m + 3) (three_taken m st)"
    using get_attr_taken [of "m + 2" ?s2] assms(2) by (simp_all add: three_taken_def numeral_3_eq_3)
  let ?s3 = "store m (m + 1) (m + 2) (three_taken m st)"
  have st': "st' = mrp_attribute_init (m + 2) MSRP_LISTENER info (mrp_attribute_init (m + 1) MSRP_TALKER_FAILED info
      (mrp_attribute_init m MSRP_TALKER_ADVERTISE info ?s3))"
    using g1(1) g2(1) g3(1) by (simp add: assms(4) take_stream_attrs_def)
  have l: "length (av_attrs ?s3) = length (av_attrs st)" by (simp add: assms(3) three_taken_def)
  show "attrs_taken (m + 3) st'"
    using g3(2) by (simp add: st' attribute_init_taken attrs_taken_same [OF assms(3)])
  show "attr_triple (av_attrs st') m info"
    using assms(2) l by (simp add: st' attr_triple_def attribute_init_attrs modify_nth_def nth_list_update)
  show "length (av_attrs st') = length (av_attrs st)"
    using l by (simp add: st' attribute_init_attrs)
  show "av_attrs st' ! j = av_attrs st ! j" if "j < m" for j
    using that by (simp add: st' attribute_init_attrs assms(3) three_taken_def update_attr_def)
  show "av_sources st' = av_sources ?s3" "av_sinks st' = av_sinks ?s3" "av_groups st' = av_groups ?s3" "av_vlans st' = av_vlans ?s3"
    by (simp_all add: st' attribute_init_attrs)
qed

section \<open>Counting registrations\<close>

text \<open>The loops that number what they register, started at \<open>k0\<close>.\<close>

lemma fold_count:
  assumes "P k0 s" "\<And>k s. k0 \<le> k \<Longrightarrow> k < k0 + length xs \<Longrightarrow> P k s \<Longrightarrow> P (Suc k) (f (xs ! (k - k0)) k s)"
  shows "\<exists>s'. fold (\<lambda>x (k, s). (k + 1, f x k s)) xs (k0, s) = (k0 + length xs, s') \<and> P (k0 + length xs) s'"
  using assms
proof (induction xs arbitrary: k0 s)
  case (Cons x xs)
  have "P (Suc k0) (f x k0 s)" using Cons.prems(1) Cons.prems(2) [of k0 s] by simp
  moreover have "P (Suc k) (f (xs ! (k - Suc k0)) k s')" if "Suc k0 \<le> k" "k < Suc k0 + length xs" "P k s'" for k s'
    using Cons.prems(2) [of k s'] that by (simp add: nth_Cons' Suc_diff_Suc)
  ultimately have "\<exists>s'. fold (\<lambda>x (k, s). (k + 1, f x k s)) xs (Suc k0, f x k0 s) = (Suc k0 + length xs, s') \<and>
      P (Suc k0 + length xs) s'" by (rule Cons.IH)
  then show ?case by simp
qed simp

section \<open>Talkers\<close>

definition talker_streams :: "stream_unit list \<Rightarrow> (nat \<times> int \<times> nat) list" where
  "talker_streams us = concat (map (\<lambda>u. map (\<lambda>j. (su_chan u, su_core_id u, j)) [0..<su_num_streams u]) us)"

lemma length_talker_streams: "length (talker_streams us) = sum_list (map su_num_streams us)"
  by (simp add: talker_streams_def length_concat comp_def)

lemma register_talkers_flat:
  "register_talkers mac us ms =
     fold (\<lambda>x (k, s). (k + 1, register_source mac (fst x) (fst (snd x)) (snd (snd x)) k s)) (talker_streams us) ms"
  by (induction us arbitrary: ms)
     (simp_all add: register_talkers_def talker_streams_def register_talker_unit_def fold_map comp_def)

text \<open>The sources with an index below \<open>k\<close> are registered.\<close>

definition sources_registered :: "u8 list \<Rightarrow> (nat \<Rightarrow> nat) \<Rightarrow> avb_st \<Rightarrow> nat \<Rightarrow> avb_st \<Rightarrow> bool" where
  "sources_registered mac lid v k st \<longleftrightarrow>
     attrs_taken (3 * k) st \<and> length (av_attrs st) = length (av_attrs v) \<and>
     length (av_sources st) = length (av_sources v) \<and> length (av_sinks st) = length (av_sinks v) \<and>
     av_groups st = av_groups v \<and> av_vlans st = av_vlans v \<and>
     (\<forall>i < k. stream_owns st (source_stream (av_sources st ! i)) (3 * i) (SourceInfo i) \<and>
              streamId (source_stream (av_sources st ! i)) = source_stream_id mac (of_nat (lid i)) \<and>
              source_state (av_sources st ! i) = STATE_DISABLED)"

lemma attr_triple_below:
  "(\<And>j. j < b + 3 \<Longrightarrow> as' ! j = as ! j) \<Longrightarrow> attr_triple as b info \<Longrightarrow> attr_triple as' b info"
  by (simp add: attr_triple_def)

lemma register_source_step:
  assumes "sources_registered mac lid v k st" "k < length (av_sources v)" "3 * k + 3 \<le> length (av_attrs v)"
  shows "sources_registered mac lid v (Suc k) (register_source mac c core (lid k) k st)"
proof -
  let ?u = "\<lambda>src. (source_with
           (\<lambda>s. s\<lparr>stream_state := STATE_DISABLED, core_id := word_of_int core, local_id := of_nat (lid k),
                  stream_flags := 0, streamId := source_stream_id mac (of_nat (lid k)),
                  stream_vlan := AVB_DEFAULT_VLAN\<rparr>) src)\<lparr>talker_ctl := c, presentation := AVB_DEFAULT_PRESENTATION_TIME_DELAY_NS\<rparr>"
  let ?s0 = "update_source k ?u st" and ?st' = "register_source mac c core (lid k) k st"
  have fs: "av_sources (update_source i f s) = modify_nth i f (av_sources s)" "av_sinks (update_source i f s) = av_sinks s"
    "av_attrs (update_source i f s) = av_attrs s" "av_groups (update_source i f s) = av_groups s"
    "av_vlans (update_source i f s) = av_vlans s" for i f s by (simp_all add: update_source_def)
  note r = assms(1) [unfolded sources_registered_def]
  have 0: "attrs_taken (3 * k) ?s0" using r by (simp add: attrs_taken_same [of ?s0 st] fs)
  have 1: "3 * k + 3 \<le> length (av_attrs ?s0)" using r assms(3) by (simp add: fs)
  have 2: "?st' = take_stream_attrs (SourceInfo k) (\<lambda>a b c. update_source k (source_with (stream_attrs_set a b c))) ?s0"
    by (simp add: register_source_def)
  note t = take_stream_attrs_result [OF 0 1 _ 2, simplified fs, OF refl]
  have nth: "av_sources ?st' ! i = (if i = k then source_with (stream_attrs_set (3 * k) (3 * k + 1) (3 * k + 2)) (?u (av_sources st ! k))
      else av_sources st ! i)" for i
    using r assms(2) unfolding t(5) by (simp add: three_taken_def fs modify_nth_def)
  have own: "stream_owns ?st' (source_stream (av_sources ?st' ! i)) (3 * i) (SourceInfo i) \<and>
      streamId (source_stream (av_sources ?st' ! i)) = source_stream_id mac (of_nat (lid i)) \<and>
      source_state (av_sources ?st' ! i) = STATE_DISABLED" if "i < Suc k" for i
  proof (cases "i = k")
    case True
    then show ?thesis using t(2) by (simp add: nth stream_owns_def source_with_def stream_attrs_set_def)
  next
    case False
    then have "i < k" using that by simp
    then show ?thesis using r False attr_triple_below [of "3 * i" "av_attrs ?st'" "av_attrs st" "SourceInfo i"] t(4)
      by (simp add: nth stream_owns_def)
  qed
  show ?thesis unfolding sources_registered_def
    using r t(1,3) own by (simp add: t(5-8) three_taken_def fs add.commute)
qed

lemma talkers_registered:
  assumes "attrs_taken 0 v" "n = sum_list (map su_num_streams us)" "n \<le> length (av_sources v)"
    "3 * n \<le> length (av_attrs v)"
  shows "\<exists>v1. register_talkers mac us (0, v) = (n, v1) \<and>
           sources_registered mac (\<lambda>i. snd (snd (talker_streams us ! i))) v n v1"
proof -
  let ?lid = "\<lambda>i. snd (snd (talker_streams us ! i))"
  have "sources_registered mac ?lid v 0 v" using assms(1) by (simp add: sources_registered_def)
  moreover have "sources_registered mac ?lid v (Suc k)
      (register_source mac (fst (talker_streams us ! (k - 0))) (fst (snd (talker_streams us ! (k - 0))))
        (snd (snd (talker_streams us ! (k - 0)))) k s)"
    if "k < 0 + length (talker_streams us)" "sources_registered mac ?lid v k s" for k s
    using register_source_step [OF that(2)] that(1) assms(2,3,4) by (simp add: length_talker_streams)
  ultimately show ?thesis
    using fold_count [of "sources_registered mac ?lid v" 0 v "talker_streams us"
        "\<lambda>x k s. register_source mac (fst x) (fst (snd x)) (snd (snd x)) k s"] assms(2)
    by (simp add: register_talkers_flat length_talker_streams)
qed

section \<open>Listeners\<close>

text \<open>\<open>v1\<close> is the state when the first listener registers; the talkers hold \<open>3 * n\<close> attributes.\<close>

definition sinks_registered :: "nat \<Rightarrow> avb_st \<Rightarrow> nat \<Rightarrow> avb_st \<Rightarrow> bool" where
  "sinks_registered n v1 k st \<longleftrightarrow>
     attrs_taken (3 * (n + k)) st \<and> length (av_attrs st) = length (av_attrs v1) \<and>
     length (av_sinks st) = length (av_sinks v1) \<and> av_sources st = av_sources v1 \<and>
     av_groups st = av_groups v1 \<and> av_vlans st = av_vlans v1 \<and>
     (\<forall>j < 3 * n. av_attrs st ! j = av_attrs v1 ! j) \<and>
     (\<forall>i < k. stream_owns st (sink_stream (av_sinks st ! i)) (3 * (n + i)) (SinkInfo i) \<and>
              sink_state (av_sinks st ! i) = STATE_DISABLED)"

lemma register_sink_step:
  assumes "sinks_registered n v1 k st" "k < length (av_sinks v1)" "3 * (n + k) + 3 \<le> length (av_attrs v1)"
  shows "sinks_registered n v1 (Suc k) (register_sink c core j k st)"
proof -
  let ?u = "\<lambda>snk. (sink_with
           (\<lambda>s. s\<lparr>stream_state := STATE_DISABLED, core_id := word_of_int core, local_id := of_nat j,
                  stream_flags := 0, stream_vlan := AVB_DEFAULT_VLAN\<rparr>) snk)\<lparr>listener_ctl := c\<rparr>"
  let ?s0 = "update_sink k ?u st" and ?st' = "register_sink c core j k st"
  have fs: "av_sinks (update_sink i f s) = modify_nth i f (av_sinks s)" "av_sources (update_sink i f s) = av_sources s"
    "av_attrs (update_sink i f s) = av_attrs s" "av_groups (update_sink i f s) = av_groups s"
    "av_vlans (update_sink i f s) = av_vlans s" for i f s by (simp_all add: update_sink_def)
  note r = assms(1) [unfolded sinks_registered_def]
  have 0: "attrs_taken (3 * (n + k)) ?s0" using r by (simp add: attrs_taken_same [of ?s0 st] fs)
  have 1: "3 * (n + k) + 3 \<le> length (av_attrs ?s0)" using r assms(3) by (simp add: fs)
  have 2: "?st' = take_stream_attrs (SinkInfo k) (\<lambda>a b c. update_sink k (sink_with (stream_attrs_set a b c))) ?s0"
    by (simp add: register_sink_def)
  note t = take_stream_attrs_result [OF 0 1 _ 2, simplified fs, OF refl]
  have nth: "av_sinks ?st' ! i = (if i = k
      then sink_with (stream_attrs_set (3 * (n + k)) (3 * (n + k) + 1) (3 * (n + k) + 2)) (?u (av_sinks st ! k))
      else av_sinks st ! i)" for i
    using r assms(2) unfolding t(6) by (simp add: three_taken_def fs modify_nth_def)
  have own: "stream_owns ?st' (sink_stream (av_sinks ?st' ! i)) (3 * (n + i)) (SinkInfo i) \<and>
      sink_state (av_sinks ?st' ! i) = STATE_DISABLED" if "i < Suc k" for i
  proof (cases "i = k")
    case True
    then show ?thesis using t(2) by (simp add: nth stream_owns_def sink_with_def stream_attrs_set_def)
  next
    case False
    then have "i < k" using that by simp
    then show ?thesis using r False attr_triple_below [of "3 * (n + i)" "av_attrs ?st'" "av_attrs st" "SinkInfo i"] t(4)
      by (simp add: nth stream_owns_def)
  qed
  show ?thesis unfolding sinks_registered_def
    using r t(1,3,4) own by (simp add: t(5-8) three_taken_def fs algebra_simps)
qed

lemma sinks_registered_emit [simp]: "sinks_registered n v1 k (emit x st) = sinks_registered n v1 k st"
  by (simp add: sinks_registered_def stream_owns_def attrs_taken_def)

lemma listener_unit_registered:
  assumes "sinks_registered n v1 k0 st" "k0 + su_num_streams u \<le> length (av_sinks v1)"
    and "3 * (n + k0 + su_num_streams u) \<le> length (av_attrs v1)"
  shows "\<exists>s'. register_listener_unit u (l, k0, st) = (l + 1, k0 + su_num_streams u, s') \<and>
           sinks_registered n v1 (k0 + su_num_streams u) s'"
proof -
  have "sinks_registered n v1 (Suc k) (register_sink (su_chan u) (su_core_id u) (k - k0) k s)"
    if "k < k0 + su_num_streams u" "sinks_registered n v1 k s" for k s
    using register_sink_step [OF that(2)] that(1) assms(2,3) by simp
  then obtain s' where "fold (\<lambda>j (k, s). (k + 1, register_sink (su_chan u) (su_core_id u) j k s)) [0..<su_num_streams u] (k0, st)
      = (k0 + su_num_streams u, s')" "sinks_registered n v1 (k0 + su_num_streams u) s'"
    using fold_count [of "sinks_registered n v1" k0 st "[0..<su_num_streams u]"
        "register_sink (su_chan u) (su_core_id u)"] assms(1) by auto
  then show ?thesis by (simp add: register_listener_unit_def)
qed

lemma listeners_registered:
  assumes "sinks_registered n v1 k0 st" "k0 + sum_list (map su_num_streams us) \<le> length (av_sinks v1)"
    and "3 * (n + k0 + sum_list (map su_num_streams us)) \<le> length (av_attrs v1)"
  shows "\<exists>l' v2. register_listeners us (l, k0, st) = (l', k0 + sum_list (map su_num_streams us), v2) \<and>
           sinks_registered n v1 (k0 + sum_list (map su_num_streams us)) v2"
  using assms
proof (induction us arbitrary: l k0 st)
  case (Cons u us)
  obtain s' where s': "register_listener_unit u (l, k0, st) = (l + 1, k0 + su_num_streams u, s')"
    "sinks_registered n v1 (k0 + su_num_streams u) s'"
    using listener_unit_registered [OF Cons.prems(1), of u l] Cons.prems(2,3) by auto
  from Cons.IH [OF s'(2), of "l + 1"] Cons.prems(2,3) s'(1) show ?case
    by (simp add: register_listeners_def add.assoc)
qed (simp add: register_listeners_def)

section \<open>Media channels and the rest\<close>

abbreviation same_streams :: "avb_st \<Rightarrow> avb_st \<Rightarrow> bool" where
  "same_streams st st' \<equiv> av_sources st' = av_sources st \<and> av_sinks st' = av_sinks st \<and> av_attrs st' = av_attrs st \<and>
     av_groups st' = av_groups st \<and> av_vlans st' = av_vlans st"

lemma register_media_fields: "same_streams st (register_media us st)"
proof -
  have i: "same_streams s (snd (fold (register_input u) xs (k, s)))" for u xs k s
    by (induction xs arbitrary: k s) (simp_all add: register_input_def Let_def)
  have o: "same_streams s (snd (fold (register_output u) xs (k, s)))" for u xs k s
    by (induction xs arbitrary: k s) (simp_all add: register_output_def Let_def)
  have "same_streams s (snd (snd (fold register_media_unit us (a, b, s))))" for a b s
  proof (induction us arbitrary: a b s)
    case (Cons u us)
    obtain a' s1 where 1: "fold (register_input u) [0..<length (mu_inputs u)] (a, s) = (a', s1)" by fastforce
    obtain b' s2 where 2: "fold (register_output u) [0..<length (mu_outputs u)] (b, s1) = (b', s2)" by fastforce
    have "same_streams s s1" "same_streams s1 s2"
      using i [where s = s and u = u and k = a] 1 o [where s = s1 and u = u and k = b] 2 by (metis snd_conv)+
    then show ?case using Cons.IH [of a' b' s2] 1 2 by (simp add: register_media_unit_def)
  qed simp
  then show ?thesis by (simp add: register_media_def)
qed

lemma emit_words_tables: "av_groups (emit_words c ws st) = av_groups st" "av_vlans (emit_words c ws st) = av_vlans st"
  unfolding emit_words_def by (induction ws arbitrary: st) simp_all

lemma media_clock_fields: "same_streams st (init_media_clock_server ctl st)"
  by (simp add: init_media_clock_server_def Let_def emit_words_tables split: option.split)

text \<open>The streams and the domain attribute, before the tables of groups and VLANs take theirs.\<close>

lemma streams_registered:
  assumes "n = sum_list (map su_num_streams (eu_talkers us))" "n \<le> length (av_sources v)"
    and "m = sum_list (map su_num_streams (eu_listeners us))" "m \<le> length (av_sinks v)"
    and "3 * (n + m) < length (av_attrs v)"
  shows "let v' = avb_domain_init (avb_register_units mac us (mrp_init now mac v))
    in (\<forall>i < n. stream_owns v' (source_stream (av_sources v' ! i)) (3 * i) (SourceInfo i) \<and>
                source_state (av_sources v' ! i) = STATE_DISABLED) \<and>
       (\<forall>i < m. stream_owns v' (sink_stream (av_sinks v' ! i)) (3 * (n + i)) (SinkInfo i) \<and>
                sink_state (av_sinks v' ! i) = STATE_DISABLED) \<and>
       av_domain_attr v' = 3 * (n + m) \<and> at_type (av_attrs v' ! (3 * (n + m))) = MSRP_DOMAIN_VECTOR \<and>
       attrs_taken (3 * (n + m) + 1) v' \<and> length (av_attrs v') = length (av_attrs v) \<and>
       av_groups v' = av_groups v \<and> av_vlans v' = av_vlans v"
proof -
  let ?v0 = "mrp_init now mac v"
  have v0: "attrs_taken 0 ?v0" "length (av_attrs ?v0) = length (av_attrs v)" "av_sources ?v0 = av_sources v"
    "av_sinks ?v0 = av_sinks v" "av_groups ?v0 = av_groups v" "av_vlans ?v0 = av_vlans v"
    by (simp_all add: mrp_init_def attrs_taken_def)
  obtain v1 lid where v1: "register_talkers mac (eu_talkers us) (0, ?v0) = (n, v1)"
    "sources_registered mac lid ?v0 n v1"
    using talkers_registered [OF v0(1) assms(1), of mac] v0 assms(2,5) by auto
  note s1 = v1(2) [unfolded sources_registered_def]
  have "sinks_registered n v1 0 v1" using s1 by (simp add: sinks_registered_def)
  from listeners_registered [OF this, of "eu_listeners us" 0]
  obtain l v2 where v2: "register_listeners (eu_listeners us) (0, 0, v1) = (l, m, v2)" "sinks_registered n v1 m v2"
    using s1 v0 assms(3,4,5) by auto
  note s2 = v2(2) [unfolded sinks_registered_def]
  let ?v3 = "init_media_clock_server (eu_media_clock us) (register_media (eu_media us) v2)"
  have v3: "same_streams v2 ?v3" using register_media_fields media_clock_fields by simp
  have r: "avb_register_units mac us ?v0 = ?v3" by (simp add: avb_register_units_def v1(1) v2(1))
  let ?b = "3 * (n + m)"
  have "attrs_taken ?b ?v3" "?b < length (av_attrs ?v3)"
    using s1 s2 v0 v3 assms(5) by (simp_all add: attrs_taken_def)
  note g = get_attr_taken [OF this]
  let ?v' = "avb_domain_init (avb_register_units mac us ?v0)"
  have v': "?v' = mrp_attribute_init ?b MSRP_DOMAIN_VECTOR NoInfo
      ((update_attr ?b (\<lambda>a. a\<lparr>at_applicant := MRP_DISABLED\<rparr>) ?v3)\<lparr>av_domain_attr := ?b\<rparr>)"
    by (simp add: avb_domain_init_def r g(1))
  have below: "av_attrs ?v' ! j = av_attrs v2 ! j" if "j < ?b" for j
    using that v3 by (simp add: v' attribute_init_attrs update_attr_def)
  have str: "av_sources ?v' = av_sources v1" "av_sinks ?v' = av_sinks v2"
    using s2 v3 by (simp_all add: v' attribute_init_attrs)
  have own_source: "stream_owns ?v' (source_stream (av_sources ?v' ! i)) (3 * i) (SourceInfo i) \<and>
      source_state (av_sources ?v' ! i) = STATE_DISABLED" if "i < n" for i
  proof -
    have "attr_triple (av_attrs ?v') (3 * i) (SourceInfo i)" if "attr_triple (av_attrs v1) (3 * i) (SourceInfo i)"
      by (rule attr_triple_below [OF _ that]) (use \<open>i < n\<close> s2 below in auto)
    then show ?thesis using s1 that by (simp add: stream_owns_def str)
  qed
  have own_sink: "stream_owns ?v' (sink_stream (av_sinks ?v' ! i)) (3 * (n + i)) (SinkInfo i) \<and>
      sink_state (av_sinks ?v' ! i) = STATE_DISABLED" if "i < m" for i
  proof -
    have "attr_triple (av_attrs ?v') (3 * (n + i)) (SinkInfo i)" if "attr_triple (av_attrs v2) (3 * (n + i)) (SinkInfo i)"
      by (rule attr_triple_below [OF _ that]) (use \<open>i < m\<close> below in auto)
    then show ?thesis using s2 that by (simp add: stream_owns_def str)
  qed
  have "av_domain_attr ?v' = ?b" by (simp add: v' mrp_attribute_init_def update_attr_def)
  moreover have "at_type (av_attrs ?v' ! ?b) = MSRP_DOMAIN_VECTOR"
    using s1 s2 v0 v3 assms(5) by (simp add: v' attribute_init_attrs update_attr_def)
  moreover have "attrs_taken (?b + 1) ?v'"
    using g(2) by (simp add: v' attribute_init_taken) (simp add: attrs_taken_def)
  moreover have "length (av_attrs ?v') = length (av_attrs v)" "av_groups ?v' = av_groups v" "av_vlans ?v' = av_vlans v"
    using s1 s2 v0 v3 by (simp_all add: v' attribute_init_attrs update_attr_def)
  ultimately show ?thesis using own_source own_sink by (simp add: Let_def)
qed

section \<open>The tables of groups and VLANs\<close>

text \<open>Each entry of the two tables takes the next free attribute.\<close>

definition group_owns :: "avb_st \<Rightarrow> nat \<Rightarrow> nat \<Rightarrow> bool" where
  "group_owns st i a \<longleftrightarrow> mmrp_attr (av_groups st ! i) = a \<and> \<not> mmrp_active (av_groups st ! i) \<and>
     at_type (av_attrs st ! a) = MMRP_MAC_VECTOR \<and> at_info (av_attrs st ! a) = GroupInfo i"

definition vlan_owns :: "avb_st \<Rightarrow> nat \<Rightarrow> nat \<Rightarrow> bool" where
  "vlan_owns st i a \<longleftrightarrow> mvrp_attr (av_vlans st ! i) = a \<and> \<not> mvrp_active (av_vlans st ! i) \<and>
     at_type (av_attrs st ! a) = MVRP_VID_VECTOR \<and> at_info (av_attrs st ! a) = VlanInfo i"

definition attrs_kept :: "nat \<Rightarrow> avb_st \<Rightarrow> avb_st \<Rightarrow> bool" where
  "attrs_kept m st st' \<longleftrightarrow> length (av_attrs st') = length (av_attrs st) \<and> (\<forall>j < m. av_attrs st' ! j = av_attrs st ! j) \<and>
     av_sources st' = av_sources st \<and> av_sinks st' = av_sinks st \<and> av_domain_attr st' = av_domain_attr st"

lemma mmrp_init_taken:
  assumes "attrs_taken m st" "m + n \<le> length (av_attrs st)" "i + n \<le> length (av_groups st)"
    and "st' = mmrp_init_from n i st"
  shows "attrs_taken (m + n) st' \<and> attrs_kept m st st' \<and> av_vlans st' = av_vlans st \<and>
    length (av_groups st') = length (av_groups st) \<and> (\<forall>j < i. av_groups st' ! j = av_groups st ! j) \<and>
    (\<forall>j < n. group_owns st' (i + j) (m + j))"
  using assms
proof (induction n arbitrary: i m st)
  case (Suc n)
  obtain s1 where s1: "s1 = mrp_attribute_init m MMRP_MAC_VECTOR (GroupInfo i)
      ((update_attr m (\<lambda>a. a\<lparr>at_applicant := MRP_DISABLED\<rparr>) st)
         \<lparr>av_groups := modify_nth i (\<lambda>v. v\<lparr>mmrp_active := False, mmrp_attr := m\<rparr>) (av_groups st)\<rparr>)" by simp
  note g = get_attr_taken [OF Suc.prems(1)]
  have st': "st' = mmrp_init_from n (Suc i) s1"
    using g(1) Suc.prems(2,4) by (simp add: s1 update_attr_def)
  have t: "attrs_taken (Suc m) s1"
    using g(2) Suc.prems(2) by (simp add: s1 attribute_init_taken) (simp add: attrs_taken_def)
  have k: "attrs_kept m st s1" "length (av_attrs s1) = length (av_attrs st)" "av_vlans s1 = av_vlans st"
    "length (av_groups s1) = length (av_groups st)" "\<forall>j < i. av_groups s1 ! j = av_groups st ! j"
    "group_owns s1 i m"
    using Suc.prems(2,3)
    by (simp_all add: s1 attrs_kept_def group_owns_def mrp_attribute_init_def update_attr_def modify_nth_def)
  have ih: "attrs_taken (Suc m + n) st' \<and> attrs_kept (Suc m) s1 st' \<and> av_vlans st' = av_vlans s1 \<and>
      length (av_groups st') = length (av_groups s1) \<and> (\<forall>j < Suc i. av_groups st' ! j = av_groups s1 ! j) \<and>
      (\<forall>j < n. group_owns st' (Suc i + j) (Suc m + j))"
    by (rule Suc.IH [OF t _ _ st']) (use Suc.prems(2,3) k(2,4) in simp_all)
  then have first: "group_owns st' i m" using k(6) by (simp add: group_owns_def attrs_kept_def)
  have "group_owns st' (i + j) (m + j)" if "j < Suc n" for j
    using that ih first by (cases j) simp_all
  then show ?case using ih k by (simp add: attrs_kept_def)
qed (simp add: attrs_kept_def)

lemma mvrp_init_taken:
  assumes "attrs_taken m st" "m + n \<le> length (av_attrs st)" "i + n \<le> length (av_vlans st)"
    and "st' = mvrp_init_from n i st"
  shows "attrs_taken (m + n) st' \<and> attrs_kept m st st' \<and> av_groups st' = av_groups st \<and>
    length (av_vlans st') = length (av_vlans st) \<and> (\<forall>j < i. av_vlans st' ! j = av_vlans st ! j) \<and>
    (\<forall>j < n. vlan_owns st' (i + j) (m + j))"
  using assms
proof (induction n arbitrary: i m st)
  case (Suc n)
  obtain s1 where s1: "s1 = mrp_attribute_init m MVRP_VID_VECTOR (VlanInfo i)
      ((update_attr m (\<lambda>a. a\<lparr>at_applicant := MRP_DISABLED\<rparr>) st)
         \<lparr>av_vlans := modify_nth i (\<lambda>v. v\<lparr>mvrp_active := False, mvrp_attr := m\<rparr>) (av_vlans st)\<rparr>)" by simp
  note g = get_attr_taken [OF Suc.prems(1)]
  have st': "st' = mvrp_init_from n (Suc i) s1"
    using g(1) Suc.prems(2,4) by (simp add: s1 update_attr_def)
  have t: "attrs_taken (Suc m) s1"
    using g(2) Suc.prems(2) by (simp add: s1 attribute_init_taken) (simp add: attrs_taken_def)
  have k: "attrs_kept m st s1" "length (av_attrs s1) = length (av_attrs st)" "av_groups s1 = av_groups st"
    "length (av_vlans s1) = length (av_vlans st)" "\<forall>j < i. av_vlans s1 ! j = av_vlans st ! j"
    "vlan_owns s1 i m"
    using Suc.prems(2,3)
    by (simp_all add: s1 attrs_kept_def vlan_owns_def mrp_attribute_init_def update_attr_def modify_nth_def)
  have ih: "attrs_taken (Suc m + n) st' \<and> attrs_kept (Suc m) s1 st' \<and> av_groups st' = av_groups s1 \<and>
      length (av_vlans st') = length (av_vlans s1) \<and> (\<forall>j < Suc i. av_vlans st' ! j = av_vlans s1 ! j) \<and>
      (\<forall>j < n. vlan_owns st' (Suc i + j) (Suc m + j))"
    by (rule Suc.IH [OF t _ _ st']) (use Suc.prems(2,3) k(2,4) in simp_all)
  then have first: "vlan_owns st' i m" using k(6) by (simp add: vlan_owns_def attrs_kept_def)
  have "vlan_owns st' (i + j) (m + j)" if "j < Suc n" for j
    using that ih first by (cases j) simp_all
  then show ?case using ih k by (simp add: attrs_kept_def)
qed (simp add: attrs_kept_def)

section \<open>Start-up\<close>

lemma listener_init_env: "ac_env (avb_1722_1_acmp_listener_init now st) = ac_env st"
proof -
  have "ac_env (fold acmp_zero_listener_stream_info is s) = ac_env s" for "is" and s :: "'a acmp_st"
    by (induction "is" arbitrary: s) (simp_all add: acmp_zero_listener_stream_info_def)
  then show ?thesis by (simp add: avb_1722_1_acmp_listener_init_def acmp_start_inflight_timer_def Let_def)
qed

lemma avb_init_state:
  "ep_avb (avb_init now mac seed us d) =
     avb_mvrp_init (avb_mmrp_init (avb_domain_init (avb_register_units mac us (mrp_init now mac (ep_avb d)))))"
  by (simp add: avb_init_def Let_def avb_1722_1_init_def on_avb_def on_env_def on_adp_def on_aecp_def on_acmp_def
      listener_init_env avb_1722_1_acmp_controller_init_def acmp_start_inflight_timer_def
      avb_1722_1_aecp_aem_init_def avb_1722_1_aem_descriptors_init_def)

text \<open>
  C21. Start-up gives every registered object its own attributes. When the station has enough of them,
  after the whole of \<open>avb_init\<close> source i owns the attributes 3i, 3i+1 and 3i+2 and sink i the three
  at 3(n+i), where n is the number of sources: a talker advertise, a talker failed and a listener
  attribute, each pointing back to the stream, which is disabled. The domain attribute follows,
  then one attribute for each multicast group and one for each VLAN of the tables, whose entries
  are inactive, and all later attributes are free.
\<close>

theorem streams_own_their_attributes:
  assumes "n = sum_list (map su_num_streams (eu_talkers us))" "n \<le> length (av_sources (ep_avb d))"
    and "m = sum_list (map su_num_streams (eu_listeners us))" "m \<le> length (av_sinks (ep_avb d))"
    and "g = length (av_groups (ep_avb d))" "l = length (av_vlans (ep_avb d))"
    and "3 * (n + m) + 1 + g + l \<le> length (av_attrs (ep_avb d))"
  shows "let v' = ep_avb (avb_init now mac seed us d); b = 3 * (n + m)
    in (\<forall>i < n. stream_owns v' (source_stream (av_sources v' ! i)) (3 * i) (SourceInfo i) \<and>
                source_state (av_sources v' ! i) = STATE_DISABLED) \<and>
       (\<forall>i < m. stream_owns v' (sink_stream (av_sinks v' ! i)) (3 * (n + i)) (SinkInfo i) \<and>
                sink_state (av_sinks v' ! i) = STATE_DISABLED) \<and>
       av_domain_attr v' = b \<and> at_type (av_attrs v' ! b) = MSRP_DOMAIN_VECTOR \<and>
       (\<forall>i < g. group_owns v' i (b + 1 + i)) \<and> (\<forall>i < l. vlan_owns v' i (b + 1 + g + i)) \<and>
       attrs_taken (b + 1 + g + l) v'"
proof -
  let ?v = "ep_avb d" and ?b = "3 * (n + m)"
  obtain v1 where v1: "v1 = avb_domain_init (avb_register_units mac us (mrp_init now mac ?v))" by simp
  note r = streams_registered [OF assms(1,2,3,4), of mac now, folded v1, unfolded Let_def]
  obtain v2 where v2: "v2 = avb_mmrp_init v1" by simp
  obtain v3 where v3: "v3 = avb_mvrp_init v2" by simp
  have lim: "?b < length (av_attrs ?v)" using assms(7) by simp
  note r = r [OF lim]
  then have tab: "av_groups v1 = av_groups ?v" "av_vlans v1 = av_vlans ?v" "length (av_attrs v1) = length (av_attrs ?v)"
    by simp_all
  have g: "attrs_taken (?b + 1 + g) v2 \<and> attrs_kept (?b + 1) v1 v2 \<and> av_vlans v2 = av_vlans v1 \<and>
      length (av_groups v2) = length (av_groups v1) \<and> (\<forall>j < 0. av_groups v2 ! j = av_groups v1 ! j) \<and>
      (\<forall>j < g. group_owns v2 (0 + j) (?b + 1 + j))"
    by (rule mmrp_init_taken) (use r tab assms(5-7) in \<open>simp_all add: v2 avb_mmrp_init_def\<close>)
  have l: "attrs_taken (?b + 1 + g + l) v3 \<and> attrs_kept (?b + 1 + g) v2 v3 \<and> av_groups v3 = av_groups v2 \<and>
      length (av_vlans v3) = length (av_vlans v2) \<and> (\<forall>j < 0. av_vlans v3 ! j = av_vlans v2 ! j) \<and>
      (\<forall>j < l. vlan_owns v3 (0 + j) (?b + 1 + g + j))"
    by (rule mvrp_init_taken) (use g tab assms(5-7) in \<open>simp_all add: v3 avb_mvrp_init_def attrs_kept_def\<close>)
  have same: "\<forall>j < ?b + 1. av_attrs v3 ! j = av_attrs v1 ! j" "av_sources v3 = av_sources v1" "av_sinks v3 = av_sinks v1"
    "av_domain_attr v3 = av_domain_attr v1"
    using g l by (simp_all add: attrs_kept_def)
  have own: "stream_owns v3 s c info" if "stream_owns v1 s c info" "c + 3 \<le> ?b" for s c info
    using that same(1) attr_triple_below [of c "av_attrs v3" "av_attrs v1" info] by (simp add: stream_owns_def)
  have groups: "group_owns v3 i (?b + 1 + i)" if "i < g" for i
    using that g l by (simp add: group_owns_def attrs_kept_def)
  have "ep_avb (avb_init now mac seed us d) = v3" by (simp add: avb_init_state v1 v2 v3)
  then show ?thesis using r same own groups l by (simp add: Let_def)
qed

text \<open>Two talker units with a stream each, one listener stream.\<close>

definition units_example :: endpoint_units where
  "units_example = \<lparr>eu_talkers = [\<lparr>su_chan = 1, su_core_id = 0, su_num_streams = 1\<rparr>, \<lparr>su_chan = 2, su_core_id = 0, su_num_streams = 1\<rparr>],
     eu_listeners = [\<lparr>su_chan = 3, su_core_id = 0, su_num_streams = 1\<rparr>], eu_media = [], eu_media_clock = None\<rparr>"

theorem streams_own_their_attributes_witness:
  "av_domain_attr (ep_avb (avb_init 0 [0, 0x22, 0x97, 0, 1, 2] () units_example
     (endpoint_example (avb_static 2 1 2 2 2 2 14 2) maap_example ACMP_TALKER_IDLE))) = 9"
  using streams_own_their_attributes [of 2 units_example
      "endpoint_example (avb_static 2 1 2 2 2 2 14 2) maap_example ACMP_TALKER_IDLE" 1 2 2 0 "[0, 0x22, 0x97, 0, 1, 2]" "()"]
  by (simp add: units_example_def avb_static_def endpoint_example_def Let_def)

section \<open>Stream ids\<close>

lemma source_stream_id_inject: "source_stream_id mac a = source_stream_id mac b \<longleftrightarrow> a = b"
proof -
  have low: "ucast (snd (source_stream_id mac l)) = l" for l
  proof -
    have "bit (0xffff :: u32) k" if "k < 8" for k
    proof -
      have m: "(0xffff :: u32) = mask 16" by (simp add: mask_eq_exp_minus_1)
      show ?thesis unfolding m using that by (simp add: bit_mask_iff)
    qed
    then show ?thesis
      by (intro bit_word_eqI) (auto simp: source_stream_id_def bit_ucast_iff bit_or_iff bit_and_iff bit_push_bit_iff)
  qed
  show ?thesis using low [of a] low [of b] by metis
qed

text \<open>
  Stream ids repeat across talker units. The id of a source is made from the MAC address and its
  number within its talker unit, kept in an octet, so two sources have the same stream id exactly
  when these numbers agree modulo 256: the first streams of any two units do.
\<close>

theorem stream_ids_per_unit:
  assumes "n = sum_list (map su_num_streams (eu_talkers us))" "n \<le> length (av_sources v)"
    and "3 * n \<le> length (av_attrs v)" "i < n" "j < n"
    and "v' = snd (register_talkers mac (eu_talkers us) (0, mrp_init now mac v))"
    and "local_ids = concat (map (\<lambda>u. [0..<su_num_streams u]) (eu_talkers us))"
  shows "streamId (source_stream (av_sources v' ! i)) = source_stream_id mac (of_nat (local_ids ! i)) \<and>
    (streamId (source_stream (av_sources v' ! i)) = streamId (source_stream (av_sources v' ! j)) \<longleftrightarrow>
       local_ids ! i mod 256 = local_ids ! j mod 256)"
proof -
  let ?us = "eu_talkers us" and ?v0 = "mrp_init now mac v"
  have v0: "attrs_taken 0 ?v0" "length (av_attrs ?v0) = length (av_attrs v)" "av_sources ?v0 = av_sources v"
    by (simp_all add: mrp_init_def attrs_taken_def)
  have loc: "local_ids = map (\<lambda>x. snd (snd x)) (talker_streams ?us)"
    by (simp add: assms(7) talker_streams_def map_concat comp_def)
  have "sources_registered mac (\<lambda>i. snd (snd (talker_streams ?us ! i))) ?v0 n v'"
    using talkers_registered [OF v0(1) assms(1), of mac] v0 assms(2,3,6) by auto
  then have id: "streamId (source_stream (av_sources v' ! i)) = source_stream_id mac (of_nat (local_ids ! i))" if "i < n" for i
    using that assms(1) by (simp add: sources_registered_def loc length_talker_streams)
  show ?thesis using id [OF assms(4)] id [OF assms(5)]
    by (simp add: source_stream_id_inject word_of_nat_eq_iff take_bit_eq_mod)
qed

theorem stream_ids_per_unit_witness:
  "let v' = snd (register_talkers [0, 0x22, 0x97, 0, 1, 2] (eu_talkers units_example)
              (0, mrp_init 0 [0, 0x22, 0x97, 0, 1, 2] (avb_static 2 1 2 2 2 2 12 2)))
   in streamId (source_stream (av_sources v' ! 0)) = streamId (source_stream (av_sources v' ! 1))"
proof -
  have "concat (map (\<lambda>u. [0..<su_num_streams u]) (eu_talkers units_example)) = [0, 0]"
    "sum_list (map su_num_streams (eu_talkers units_example)) = 2" by (simp_all add: units_example_def)
  moreover have "length (av_sources (avb_static 2 1 2 2 2 2 12 2)) = 2" "length (av_attrs (avb_static 2 1 2 2 2 2 12 2)) = 12"
    by (simp_all add: avb_static_def)
  ultimately show ?thesis
    using stream_ids_per_unit [OF _ _ _ _ _ refl refl, of 2 units_example "avb_static 2 1 2 2 2 2 12 2" 0 1
      "[0, 0x22, 0x97, 0, 1, 2]" 0]
    by (simp only: Let_def) auto
qed

end
