(* ===== verification/Avb_1722_Listener.thy ===== *)
theory Avb_1722_Listener
  imports Avb_1722_Header Media_Output_Fifo "HOL-Library.Signed_Division"
begin

text \<open>
  The 1722 listener: reception of an audio packet (\<open>avb_1722_listener_support_audio.c\<close>) and the stream
  table and commands of \<open>avb_1722_listener.xc\<close>. The frame starts at byte 2 of the receive buffer, so
  that its samples are word aligned. A handle of the channel map is \<open>None\<close> when the code has 0, and
  otherwise the position of the media FIFO in the list \<open>q\<close>. Messages to the clock recovery are returned with
  the handle they are about. The build receives 61883-6 (no \<open>AVB_1722_FORMAT_SAF\<close>).
\<close>

section \<open>Streams\<close>

record listener_stream =
  ls_active :: int
  ls_state :: int
  ls_chan_lock :: int
  ls_rate :: int
  ls_prev_num_samples :: int
  ls_num_channels_in_payload :: int
  ls_num_channels :: int
  ls_dbc :: int
  ls_last_sequence :: int
  ls_map :: "nat option list"

definition ls_channels :: "listener_stream \<Rightarrow> nat option list" where
  "ls_channels si = take (nat (ls_num_channels si)) (ls_map si)"

section \<open>Reading the packet\<close>

text \<open>The AVTP header, the CIP header and the samples, as offsets into the buffer.\<close>

definition listener_avtp :: "u8 list \<Rightarrow> nat" where
  "listener_avtp b = 2 + (if b ! 14 = 0x81 then 18 else 14)"

definition listener_accepts :: "u8 list \<Rightarrow> int \<Rightarrow> bool" where
  "listener_accepts b numBytes \<longleftrightarrow>
     \<not> numBytes \<le> int (listener_avtp b - 2 + AVB_TP_HDR_SIZE + AVB_CIP_HDR_SIZE) \<and>
     AVBTP_CD (listener_avtp b) b = 0 \<and> AVBTP_SV (listener_avtp b) b \<noteq> 0"

definition packet_dbc :: "u8 list \<Rightarrow> int" where
  "packet_dbc b = uint (b ! (listener_avtp b + AVB_TP_HDR_SIZE + 3))"

definition dbc_difference :: "int \<Rightarrow> int \<Rightarrow> int" where
  "dbc_difference dbc_value dbc = (let d = dbc_value - dbc in if d < 0 then d + 0x100 else d)"

definition payload_samples :: "u8 list \<Rightarrow> int" where
  "payload_samples b = drop_bit 2 (uint (AVBTP_PACKET_DATA_LENGTH (listener_avtp b) b) - 8)"

text \<open>The words from \<open>off\<close> to the end of the buffer, as the processor loads them.\<close>

definition buffer_words :: "nat \<Rightarrow> u8 list \<Rightarrow> u32 list" where
  "buffer_words off b =
     map (\<lambda>k. of_octets (b ! (off + 4 * k)) (b ! (off + 4 * k + 1)) (b ! (off + 4 * k + 2)) (b ! (off + 4 * k + 3)))
       [0..<(length b - off) div 4]"

definition listener_words :: "u8 list \<Rightarrow> u32 list" where
  "listener_words b = buffer_words (listener_avtp b + AVB_TP_HDR_SIZE + AVB_CIP_HDR_SIZE) b"

section \<open>Locking onto a stream\<close>

definition detected_rate :: "int \<Rightarrow> int" where
  "detected_rate r =
     (if r = 1 then 8000 else if r = 2 then 16000 else if r = 4 then 32000 else if r = 5 then 44100
      else if r = 6 then 48000 else if r = 11 then 88200 else if r = 12 then 96000 else 0)"

definition lock_stream :: "int \<Rightarrow> int \<Rightarrow> int \<Rightarrow> listener_stream \<Rightarrow> listener_stream" where
  "lock_stream prev dbc_diff n si =
     (if prev = 0 \<or> dbc_diff = 0 then si
      else let num_channels = prev sdiv dbc_diff;
               s1 = (if ls_num_channels_in_payload si = 0 \<or> ls_num_channels_in_payload si \<noteq> num_channels
                     then si\<lparr>ls_num_channels_in_payload := num_channels, ls_chan_lock := 0, ls_rate := 0\<rparr> else si);
               s2 = s1\<lparr>ls_rate := ls_rate s1 + n, ls_chan_lock := ls_chan_lock s1 + 1\<rparr>
           in if ls_chan_lock s2 = 16
              then s2\<lparr>ls_rate := detected_rate (ls_rate s2 sdiv ls_num_channels_in_payload s2 sdiv 16)\<rparr>
              else s2)"

section \<open>Delivering the samples\<close>

text \<open>For other rates \<open>syt_interval\<close> is not assigned: it is the value \<open>stack\<close> that its location holds.\<close>

definition syt_interval :: "u32 \<Rightarrow> int \<Rightarrow> u32" where
  "syt_interval stack rate =
     (if rate = 8000 then 1 else if rate = 16000 then 2
      else if rate = 32000 \<or> rate = 44100 \<or> rate = 48000 then 8
      else if rate = 88200 \<or> rate = 96000 then 16
      else if rate = 176400 \<or> rate = 192000 then 32 else stack)"

definition timestamp_sample :: "u32 \<Rightarrow> u32 \<Rightarrow> u32" where
  "timestamp_sample syt dbc_value = (syt - (dbc_value AND (syt - 1))) AND (syt - 1)"

fun stamp_channels :: "u32 \<Rightarrow> nat \<Rightarrow> nat option list \<Rightarrow> ofifo_t list \<Rightarrow> ofifo_t list" where
  "stamp_channels ts sample_num [] q = q"
| "stamp_channels ts sample_num (None # fs) q = stamp_channels ts sample_num fs q"
| "stamp_channels ts sample_num (Some f # fs) q =
     stamp_channels ts sample_num fs (q[f := media_output_fifo_set_ptp_timestamp ts sample_num (q ! f)])"

fun maintain_channels :: "nat option list \<Rightarrow> bool \<Rightarrow> ofifo_t list \<Rightarrow> (nat \<times> ofifo_msg) list \<times> bool \<times> ofifo_t list" where
  "maintain_channels [] notified q = ([], notified, q)"
| "maintain_channels (None # fs) notified q = maintain_channels fs notified q"
| "maintain_channels (Some f # fs) notified q =
     (let (m1, n1, s) = media_output_fifo_maintain notified (q ! f);
          (m2, n2, q') = maintain_channels fs n1 (q[f := s])
      in (map (Pair f) m1 @ m2, n2, q'))"

fun push_channels :: "u32 list \<Rightarrow> nat \<Rightarrow> nat \<Rightarrow> nat option list \<Rightarrow> ofifo_t list \<Rightarrow> ofifo_t list" where
  "push_channels p stride n [] q = q"
| "push_channels p stride n (None # fs) q = push_channels (tl p) stride n fs q"
| "push_channels p stride n (Some f # fs) q =
     push_channels (tl p) stride n fs (q[f := media_output_fifo_strided_push p stride n (q ! f)])"

text \<open>A locked stream: the timestamp, the upkeep of the FIFOs and the samples.\<close>

definition deliver_packet ::
  "u32 \<Rightarrow> u8 list \<Rightarrow> int \<Rightarrow> int \<Rightarrow> bool \<Rightarrow> listener_stream \<Rightarrow> ofifo_t list \<Rightarrow> (nat \<times> ofifo_msg) list \<times> bool \<times> ofifo_t list" where
  "deliver_packet stack b dbc_value n notified si q =
     (let h = listener_avtp b;
          fs = ls_channels si;
          sample_num = timestamp_sample (syt_interval stack (ls_rate si)) (word_of_int dbc_value);
          q1 = (if AVBTP_TV h b = 1 then stamp_channels (AVBTP_TIMESTAMP h b) (unat sample_num) fs q else q);
          (msgs, notified, q2) = maintain_channels fs notified q1;
          nc = ls_num_channels_in_payload si;
          num_channels = (if ls_num_channels si < nc then ls_num_channels si else nc)
      in (msgs, notified, push_channels (listener_words b) (nat nc) (nat n) (take (nat num_channels) (ls_map si)) q2))"

text \<open>The result is the return value, the messages, \<open>*notified_buf_ctl\<close>, the stream and the FIFOs.\<close>

definition avb_1722_listener_process_packet ::
  "u32 \<Rightarrow> u8 list \<Rightarrow> int \<Rightarrow> bool \<Rightarrow> listener_stream \<Rightarrow> ofifo_t list \<Rightarrow>
     int \<times> (nat \<times> ofifo_msg) list \<times> bool \<times> listener_stream \<times> ofifo_t list" where
  "avb_1722_listener_process_packet stack b numBytes notified si q =
     (if \<not> listener_accepts b numBytes then (0, [], notified, si, q)
      else let dbc_value = packet_dbc b;
               dbc_diff = dbc_difference dbc_value (ls_dbc si);
               n = payload_samples b;
               prev = ls_prev_num_samples si;
               s1 = si\<lparr>ls_dbc := dbc_value, ls_prev_num_samples := n\<rparr>
           in if ls_chan_lock s1 < 16 then (0, [], notified, lock_stream prev dbc_diff n s1, q)
              else let (msgs, notified, q) = deliver_packet stack b dbc_value n notified s1 q
                   in (1, msgs, notified, s1, q))"

section \<open>The listener thread\<close>

record listener_unit =
  lu_streams :: "listener_stream list"
  lu_notified_buf_ctl :: bool
  lu_router_link :: u32
  lu_fifos :: "ofifo_t list"

definition avb_1722_listener_init :: "u32 \<Rightarrow> listener_unit \<Rightarrow> listener_unit" where
  "avb_1722_listener_init router_link u =
     u\<lparr>lu_router_link := router_link, lu_notified_buf_ctl := False,
       lu_streams := map (\<lambda>s. s\<lparr>ls_active := 0, ls_state := 0\<rparr>) (lu_streams u)\<rparr>"

fun enable_channels :: "int \<Rightarrow> nat option list \<Rightarrow> ofifo_t list \<Rightarrow> ofifo_t list" where
  "enable_channels clk [] q = q"
| "enable_channels clk (None # fs) q = enable_channels clk fs q"
| "enable_channels clk (Some f # fs) q = enable_channels clk fs (q[f := enable_media_output_fifo clk (q ! f)])"

fun disable_channels :: "nat option list \<Rightarrow> ofifo_t list \<Rightarrow> ofifo_t list" where
  "disable_channels [] q = q"
| "disable_channels (None # fs) q = disable_channels fs q"
| "disable_channels (Some f # fs) q = disable_channels fs (q[f := disable_media_output_fifo (q ! f)])"

definition listener_configure_stream ::
  "int \<Rightarrow> int \<Rightarrow> nat option list \<Rightarrow> listener_stream \<Rightarrow> ofifo_t list \<Rightarrow> listener_stream \<times> ofifo_t list" where
  "listener_configure_stream media_clock rate chans s q =
     (s\<lparr>ls_rate := rate, ls_num_channels := int (length chans), ls_map := chans @ drop (length chans) (ls_map s),
        ls_active := 1, ls_state := 0, ls_num_channels_in_payload := 0, ls_chan_lock := 0,
        ls_prev_num_samples := 0, ls_dbc := - 1\<rparr>,
      enable_channels media_clock chans q)"

definition listener_disable_stream :: "listener_stream \<Rightarrow> ofifo_t list \<Rightarrow> listener_stream \<times> ofifo_t list" where
  "listener_disable_stream s q = (s\<lparr>ls_active := 0, ls_state := 0\<rparr>, disable_channels (ls_channels s) q)"

text \<open>The commands with what follows them on the channel; other codes are refused.\<close>

datatype listener_cmd =
    ConfigureListenerStream nat int int "nat option list"
  | AdjustListenerStream nat
  | DisableListenerStream nat
  | GetRouterLink
  | UnknownListenerCmd

datatype listener_answer = ListenerAck | ListenerNack | RouterLinkIs u32

definition avb_1722_listener_handle_cmd :: "listener_cmd \<Rightarrow> listener_unit \<Rightarrow> listener_answer \<times> listener_unit" where
  "avb_1722_listener_handle_cmd cmd u =
     (case cmd of
        ConfigureListenerStream n clk rate chans \<Rightarrow>
          let (s, q) = listener_configure_stream clk rate chans (lu_streams u ! n) (lu_fifos u)
          in (ListenerAck, u\<lparr>lu_streams := (lu_streams u)[n := s], lu_fifos := q\<rparr>)
      | AdjustListenerStream n \<Rightarrow> (ListenerAck, u)
      | DisableListenerStream n \<Rightarrow>
          let (s, q) = listener_disable_stream (lu_streams u ! n) (lu_fifos u)
          in (ListenerAck, u\<lparr>lu_streams := (lu_streams u)[n := s], lu_fifos := q\<rparr>)
      | GetRouterLink \<Rightarrow> (RouterLinkIs (lu_router_link u), u)
      | UnknownListenerCmd \<Rightarrow> (ListenerNack, u))"

text \<open>
  A packet of \<open>cnt\<close> bytes, the checksum included. The filter of the MAC has put the sink number into
  the second word of the buffer.
\<close>

definition avb_1722_listener_handle_packet ::
  "u32 \<Rightarrow> u8 list \<Rightarrow> int \<Rightarrow> listener_unit \<Rightarrow> (nat \<times> ofifo_msg) list \<times> listener_unit" where
  "avb_1722_listener_handle_packet stack b cnt u =
     (let hash = unat (of_octets (b ! 4) (b ! 5) (b ! 6) (b ! 7))
      in if hash < length (lu_streams u) \<and> ls_active (lu_streams u ! hash) \<noteq> 0
         then let (r, msgs, notified, s, q) =
                    avb_1722_listener_process_packet stack b (cnt - 4) (lu_notified_buf_ctl u) (lu_streams u ! hash) (lu_fifos u)
              in (msgs, u\<lparr>lu_streams := (lu_streams u)[hash := s], lu_notified_buf_ctl := notified, lu_fifos := q\<rparr>)
         else ([], u))"

end
