(* ===== verification/Media_Input_Fifo.thy ===== *)
theory Media_Input_Fifo
  imports Avb_1722_Common
begin

text \<open>
  The media input FIFO (\<open>media_input_fifo.c\<close>), which the audio thread fills with samples and the
  1722 talker drains. Samples are grouped in packets of \<open>packetSize\<close> words: a timestamp, the data
  block count and the samples. The pointers into \<open>buf\<close> are indices, and a null \<open>rdIndex\<close> is \<open>None\<close>;
  the number of words, \<open>MEDIA_INPUT_FIFO_SAMPLE_FIFO_SIZE\<close>, is the length of \<open>buf\<close>. The build has
  no \<open>AVB_1722_FORMAT_SAF\<close>.
\<close>

section \<open>Enable masks\<close>

text \<open>The two words with a bit for every FIFO; \<open>en_lock\<close> says whether the lock is allocated.
  A handle is the index of the FIFO in the array of the FIFOs.\<close>

record ififo_enable =
  en_lock :: bool
  en_request_state :: u32
  en_indication_state :: u32

definition init_media_input_fifos :: "bool \<Rightarrow> nat \<Rightarrow> ififo_enable \<Rightarrow> ififo_enable \<times> nat list" where
  "init_media_input_fifos allocated n e = (e\<lparr>en_lock := allocated\<rparr>, [0..<n])"

definition media_input_fifo_enable_fifos :: "u32 \<Rightarrow> ififo_enable \<Rightarrow> ififo_enable" where
  "media_input_fifo_enable_fifos enable e =
     (if \<not> en_lock e then e else e\<lparr>en_request_state := en_request_state e OR enable\<rparr>)"

definition media_input_fifo_disable_fifos :: "u32 \<Rightarrow> ififo_enable \<Rightarrow> ififo_enable" where
  "media_input_fifo_disable_fifos enable e =
     (if \<not> en_lock e then e else e\<lparr>en_request_state := en_request_state e AND NOT enable\<rparr>)"

definition media_input_fifo_enable_ind_state :: "ififo_enable \<Rightarrow> u32" where
  "media_input_fifo_enable_ind_state e = en_indication_state e"

definition media_input_fifo_enable_req_state :: "ififo_enable \<Rightarrow> u32" where
  "media_input_fifo_enable_req_state e = en_request_state e"

definition media_input_fifo_update_enable_ind_state :: "u32 \<Rightarrow> u32 \<Rightarrow> ififo_enable \<Rightarrow> ififo_enable" where
  "media_input_fifo_update_enable_ind_state enable msk e =
     (if \<not> en_lock e then e
      else e\<lparr>en_indication_state := (en_indication_state e AND NOT msk) OR enable\<rparr>)"

section \<open>The FIFO\<close>

record ififo_t =
  if_wrIndex :: nat
  if_rdIndex :: "nat option"
  if_startIndex :: nat
  if_packetSize :: int
  if_sampleCountInPacket :: int
  if_dbc :: u32
  if_fifoEnd :: nat
  if_ptr :: nat
  if_buf :: "u32 list"

definition media_input_fifo_init :: "ififo_t \<Rightarrow> ififo_t" where
  "media_input_fifo_init s = s\<lparr>if_sampleCountInPacket := - 1, if_packetSize := - 1\<rparr>"

definition media_input_fifo_disable :: "ififo_t \<Rightarrow> ififo_t" where
  "media_input_fifo_disable s = media_input_fifo_init s"

text \<open>The interval of the timestamps; \<open>stack\<close> is the uninitialised \<open>packetSize\<close> for any other rate.\<close>

definition syt_interval_of_rate :: "int \<Rightarrow> int \<Rightarrow> int" where
  "syt_interval_of_rate stack rate =
     (if rate = 8000 then 1 else if rate = 16000 then 2
      else if rate = 32000 \<or> rate = 44100 \<or> rate = 48000 then 8
      else if rate = 88200 \<or> rate = 96000 then 16
      else if rate = 176400 \<or> rate = 192000 then 32 else stack)"

definition media_input_fifo_enable :: "int \<Rightarrow> int \<Rightarrow> ififo_t \<Rightarrow> int \<times> ififo_t" where
  "media_input_fifo_enable stack rate s =
     (let packetSize = syt_interval_of_rate stack rate
      in (packetSize,
          s\<lparr>if_rdIndex := Some 0, if_wrIndex := 0, if_startIndex := 0, if_dbc := 0,
            if_fifoEnd := length (if_buf s) - 1, if_sampleCountInPacket := 0, if_ptr := 0,
            if_packetSize := packetSize + 2\<rparr>))"

text \<open>The end of a packet: the start of the next one, at the beginning when it would not fit.\<close>

definition ififo_end_packet :: "nat \<Rightarrow> int \<Rightarrow> ififo_t \<Rightarrow> ififo_t" where
  "ififo_end_packet wrIndex sampleCountInPacket s =
     (if sampleCountInPacket = if_packetSize s
      then let w = (if int wrIndex + if_packetSize s > int (if_fifoEnd s) then 0 else wrIndex)
           in s\<lparr>if_startIndex := w, if_dbc := if_dbc s + word_of_int (if_packetSize s - 2),
                if_sampleCountInPacket := 0, if_wrIndex := w\<rparr>
      else s\<lparr>if_sampleCountInPacket := sampleCountInPacket, if_wrIndex := wrIndex\<rparr>)"

definition media_input_fifo_push_sample :: "u32 \<Rightarrow> u32 \<Rightarrow> ififo_t \<Rightarrow> ififo_t" where
  "media_input_fifo_push_sample sample ts s =
     (if if_sampleCountInPacket s = - 1 then s
      else if if_sampleCountInPacket s = 0 then
        let w = if_startIndex s;
            rd = (case if_rdIndex s of Some r \<Rightarrow> r | None \<Rightarrow> 0);
            spaceLeft = (int rd - int w) AND (int (length (if_buf s)) - 1)
        in if spaceLeft \<noteq> 0 \<and> spaceLeft < if_packetSize s then s
           else ififo_end_packet (w + 3) 3 (s\<lparr>if_buf := put_bytes w [ts, if_dbc s, sample] (if_buf s)\<rparr>)
      else
        let w = if_wrIndex s
        in ififo_end_packet (w + 1) (if_sampleCountInPacket s + 1) (s\<lparr>if_buf := (if_buf s)[w := sample]\<rparr>))"

text \<open>One packet further, as the two readers of the index compute it.\<close>

definition ififo_next :: "ififo_t \<Rightarrow> nat \<Rightarrow> nat" where
  "ififo_next s r =
     (let r' = nat (int r + if_packetSize s)
      in if int r' + if_packetSize s > int (if_fifoEnd s) then 0 else r')"

partial_function (option) fill_loop :: "ififo_t \<Rightarrow> nat \<Rightarrow> int \<Rightarrow> int option" where
  "fill_loop s r fill =
     (if r = if_startIndex s then Some fill
      else fill_loop s (ififo_next s r) (fill + (if_packetSize s - 2)))"

definition media_input_fifo_fill_level :: "ififo_t \<Rightarrow> int option" where
  "media_input_fifo_fill_level s = fill_loop s (case if_rdIndex s of Some r \<Rightarrow> r | None \<Rightarrow> 0) 0"

definition media_input_fifo_empty :: "ififo_t \<Rightarrow> bool" where
  "media_input_fifo_empty s \<longleftrightarrow> if_rdIndex s = None \<or> if_rdIndex s = Some (if_startIndex s)"

definition media_input_fifo_flush :: "ififo_t \<Rightarrow> ififo_t" where
  "media_input_fifo_flush s =
     s\<lparr>if_rdIndex := Some 0, if_wrIndex := 0, if_startIndex := 0, if_dbc := 0,
       if_sampleCountInPacket := 0, if_ptr := 0\<rparr>"

text \<open>
  Timestamp, data block count and position of the samples of the next packet; \<open>None\<close> while the
  code would wait for one.
\<close>

definition media_input_fifo_get_packet :: "ififo_t \<Rightarrow> (u32 \<times> u32 \<times> nat) option" where
  "media_input_fifo_get_packet s =
     (case if_rdIndex s of
        None \<Rightarrow> None
      | Some r \<Rightarrow> if r = if_startIndex s then None else Some (if_buf s ! r, if_buf s ! (r + 1), r + 2))"

definition media_input_fifo_release_packet :: "ififo_t \<Rightarrow> ififo_t" where
  "media_input_fifo_release_packet s =
     (case if_rdIndex s of Some r \<Rightarrow> s\<lparr>if_rdIndex := Some (ififo_next s r)\<rparr> | None \<Rightarrow> s)"

definition media_input_fifo_set_ptr :: "nat \<Rightarrow> ififo_t \<Rightarrow> ififo_t" where
  "media_input_fifo_set_ptr p s = s\<lparr>if_ptr := p\<rparr>"

definition media_input_fifo_get_ptr :: "ififo_t \<Rightarrow> nat" where
  "media_input_fifo_get_ptr s = if_ptr s"

section \<open>Abstraction\<close>

text \<open>
  The buffer is a ring of \<open>ififo_slots\<close> packets. A packet is its timestamp, its data block count and
  its samples; the packet under construction is the timestamp and the samples so far.
\<close>

type_synonym ififo_packet = "u32 \<times> u32 \<times> u32 list"

definition ififo_slots :: "ififo_t \<Rightarrow> nat" where
  "ififo_slots s = (length (if_buf s) - 1) div nat (if_packetSize s)"

definition ififo_slot :: "ififo_t \<Rightarrow> nat \<Rightarrow> ififo_packet" where
  "ififo_slot s j =
     (let b = j * nat (if_packetSize s)
      in (if_buf s ! b, if_buf s ! (b + 1), map (\<lambda>i. if_buf s ! (b + 2 + i)) [0..<nat (if_packetSize s) - 2]))"

definition ififo_at :: "nat \<Rightarrow> nat \<Rightarrow> ififo_t \<Rightarrow> bool" where
  "ififo_at r w s \<longleftrightarrow>
     3 \<le> if_packetSize s \<and> nat (if_packetSize s) < length (if_buf s) \<and> (\<exists>k. length (if_buf s) = 2 ^ k) \<and>
     if_fifoEnd s = length (if_buf s) - 1 \<and>
     r < ififo_slots s \<and> w < ififo_slots s \<and>
     if_rdIndex s = Some (r * nat (if_packetSize s)) \<and> if_startIndex s = w * nat (if_packetSize s) \<and>
     (if_sampleCountInPacket s = 0 \<or>
      3 \<le> if_sampleCountInPacket s \<and> if_sampleCountInPacket s < if_packetSize s \<and>
      if_wrIndex s = if_startIndex s + nat (if_sampleCountInPacket s))"

definition ififo_queue :: "nat \<Rightarrow> nat \<Rightarrow> ififo_t \<Rightarrow> ififo_packet list" where
  "ififo_queue r w s =
     (let K = ififo_slots s in map (\<lambda>k. ififo_slot s ((r + k) mod K)) [0..<(w + K - r) mod K])"

definition ififo_partial :: "ififo_t \<Rightarrow> (u32 \<times> u32 \<times> u32 list) option" where
  "ififo_partial s =
     (if if_sampleCountInPacket s = 0 then None
      else let b = if_startIndex s
           in Some (if_buf s ! b, if_buf s ! (b + 1), map (\<lambda>i. if_buf s ! (b + 2 + i)) [0..<nat (if_sampleCountInPacket s) - 2]))"

text \<open>
  Pushing on the abstract state: the sample joins the packet under construction; a complete packet
  joins the queue, unless it fills the last slot of the ring, in which case the queue is lost.
\<close>

definition ififo_push_spec ::
  "nat \<Rightarrow> int \<Rightarrow> u32 \<Rightarrow> u32 \<Rightarrow> u32 \<Rightarrow> ififo_packet list \<times> ififo_packet option \<Rightarrow> ififo_packet list \<times> ififo_packet option" where
  "ififo_push_spec K P dbc x t a =
     (let (t0, d0, xs) = (case snd a of None \<Rightarrow> (t, dbc, [x]) | Some (t0, d0, ys) \<Rightarrow> (t0, d0, ys @ [x]))
      in if int (length xs) + 2 = P
         then (if length (fst a) + 1 = K then [] else fst a @ [(t0, d0, xs)], None)
         else (fst a, Some (t0, d0, xs)))"

end
