(* ===== verification/Avb_1722_Talker.thy ===== *)
theory Avb_1722_Talker
  imports Avb_1722_Header Media_Input_Fifo Gptp_Time
begin

text \<open>
  The 1722 talker: the audio packetiser (\<open>avb_1722_talker_support_audio.c\<close>), the header updates
  (\<open>avb_1722_talker_support.c\<close>) and the commands and the round over the streams of
  \<open>avb_1722_talker.xc\<close>. The frame starts at byte 2 of the transmit buffer, so that its samples are
  word aligned. The media FIFOs are the list \<open>q\<close>, indexed by the handles of the channel map. A call
  that would wait for a FIFO is \<open>None\<close>. The build sends 61883-6 (no \<open>AVB_1722_FORMAT_SAF\<close>).
\<close>

section \<open>Streams\<close>

record talker_stream =
  tk_active :: int
  tk_destMACAdrs :: "u8 list"
  tk_srcMACAdrs :: "u8 list"
  tk_streamId0 :: u32
  tk_streamId1 :: u32
  tk_num_channels :: u32
  tk_map :: "nat list"
  tk_fifo_mask :: u32
  tk_sampleType :: u32
  tk_dbc_at_start :: u32
  tk_samples_per_fifo_packet :: u32
  tk_samples_per_packet_base :: u32
  tk_samples_per_packet_fractional :: u32
  tk_rem :: u32
  tk_samples_left :: u32
  tk_initial :: bool
  tk_presentation_delay :: u32
  tk_transmit_ok :: bool
  tk_last_transmit_time :: u32
  tk_sequence_number :: u8

definition tk_channels :: "talker_stream \<Rightarrow> nat list" where
  "tk_channels st = take (unat (tk_num_channels st)) (tk_map st)"

section \<open>The static header\<close>

text \<open>The global sample type and the data block size for the type the stream asks for.\<close>

definition talker_sample_type :: "u32 \<Rightarrow> u32" where
  "talker_sample_type ty = (if ty = MBLA_20BIT then MBLA_20BIT else if ty = MBLA_16BIT then MBLA_16BIT else MBLA_24BIT)"

definition talker_data_block_size :: "u32 \<Rightarrow> u32 \<Rightarrow> u32" where
  "talker_data_block_size ty n = (if ty = MBLA_16BIT then n div 2 else n)"

definition talker_eth_header :: "talker_stream \<Rightarrow> u32 \<Rightarrow> u8 list \<Rightarrow> u8 list" where
  "talker_eth_header cfg vlanid b =
     SET_AVBTP_ETYPE 2 0x22f0 (SET_AVBTP_VID 2 vlanid (SET_AVBTP_CFI 2 0 (SET_AVBTP_PCP 2 3 (SET_AVBTP_TPID 2 0x8100
       (put_bytes 8 (take 6 (tk_srcMACAdrs cfg)) (put_bytes 2 (take 6 (tk_destMACAdrs cfg)) b))))))"

definition talker_avtp_header :: "talker_stream \<Rightarrow> u8 list \<Rightarrow> u8 list" where
  "talker_avtp_header cfg b =
     SET_AVBTP_STREAM_ID1 20 (tk_streamId1 cfg) (SET_AVBTP_STREAM_ID0 20 (tk_streamId0 cfg) (SET_AVBTP_SV 20 1 b))"

definition talker_cip_header :: "u32 \<Rightarrow> u8 list \<Rightarrow> u8 list" where
  "talker_cip_header data_block_size b =
     (SET_AVB1722_CIP_SYT 44 0xFFFF \<circ> SET_AVB1722_CIP_FDF 44 2 \<circ> SET_AVB1722_CIP_FMT 44 0x10 \<circ> SET_AVB1722_CIP_EOH2 44 2 \<circ>
      SET_AVB1722_CIP_DBC 44 0 \<circ> SET_AVB1722_CIP_SPH 44 0 \<circ> SET_AVB1722_CIP_QPC 44 0 \<circ> SET_AVB1722_CIP_FN 44 0 \<circ>
      SET_AVB1722_CIP_DBS 44 data_block_size \<circ> SET_AVB1722_CIP_SID 44 63 \<circ> SET_AVB1722_CIP_EOH1 44 0 \<circ>
      SET_AVB1722_CIP_SY 20 0 \<circ> SET_AVB1722_CIP_TCODE 20 0xA \<circ> SET_AVB1722_CIP_CHANNEL 20 31 \<circ> SET_AVB1722_CIP_TAG 20 1) b"

text \<open>The new sample type and the buffer.\<close>

definition AVB1722_Talker_bufInit :: "u8 list \<Rightarrow> talker_stream \<Rightarrow> u32 \<Rightarrow> u32 \<times> u8 list" where
  "AVB1722_Talker_bufInit b cfg vlanid =
     (talker_sample_type (tk_sampleType cfg),
      talker_cip_header (talker_data_block_size (tk_sampleType cfg) (tk_num_channels cfg))
        (talker_avtp_header cfg
          (talker_eth_header cfg vlanid
            (put_bytes 2 (replicate (AVB_ETHERNET_HDR_SIZE + AVB_TP_HDR_SIZE + AVB_CIP_HDR_SIZE) 0) b))))"

text \<open>\<open>Buf\<close> of these functions is the offset \<open>x\<close> of the frame; \<open>avb1722_set_buffer_vlan\<close> gets the whole buffer.\<close>

definition AVB1722_CIP_HeaderGen :: "nat \<Rightarrow> u32 \<Rightarrow> u8 list \<Rightarrow> u8 list" where
  "AVB1722_CIP_HeaderGen x dbc = SET_AVB1722_CIP_DBC (x + AVB_ETHERNET_HDR_SIZE + AVB_TP_HDR_SIZE) dbc"

definition AVB1722_AVBTP_HeaderGen :: "nat \<Rightarrow> bool \<Rightarrow> u32 \<Rightarrow> u32 \<Rightarrow> u32 \<Rightarrow> u32 \<Rightarrow> u8 list \<Rightarrow> u8 list" where
  "AVB1722_AVBTP_HeaderGen x valid_ts avbtp_ts pkt_data_length sequence_number stream_id0 b =
     (let h = x + AVB_ETHERNET_HDR_SIZE;
          b1 = SET_AVBTP_PACKET_DATA_LENGTH h pkt_data_length b;
          b2 = (if valid_ts then SET_AVBTP_TIMESTAMP h avbtp_ts (SET_AVBTP_TV h 1 b1)
                else SET_AVBTP_TIMESTAMP h 0 (SET_AVBTP_TV h 0 b1))
      in SET_AVBTP_SEQUENCE_NUMBER h sequence_number (SET_AVBTP_STREAM_ID0 h stream_id0 b2))"

definition avb1722_set_buffer_vlan :: "u32 \<Rightarrow> u8 list \<Rightarrow> u8 list" where
  "avb1722_set_buffer_vlan vlan = SET_AVBTP_VID 0 vlan"

section \<open>Samples\<close>

text \<open>The payload starts at byte 52; \<open>d\<close> is a word of it.\<close>

definition put_word :: "nat \<Rightarrow> u32 \<Rightarrow> u8 list \<Rightarrow> u8 list" where
  "put_word d w b = put_bytes (2 + AVB_ETHERNET_HDR_SIZE + AVB_TP_HDR_SIZE + AVB_CIP_HDR_SIZE + 4 * d) (word_octets w) b"

definition wire_sample :: "u32 \<Rightarrow> u32 \<Rightarrow> u32" where
  "wire_sample ty x = bswap32 ((x AND 0xffffff) OR ty)"

definition sample_copy_strided :: "u32 \<Rightarrow> u32 list \<Rightarrow> nat \<Rightarrow> nat \<Rightarrow> nat \<Rightarrow> nat \<Rightarrow> u8 list \<Rightarrow> u8 list" where
  "sample_copy_strided ty buf src dest stride n b =
     fold (\<lambda>i b. put_word (dest + i * stride) (wire_sample ty (buf ! (src + i))) b) [0..<n] b"

text \<open>The first packet of every channel; \<open>a\<close> is the pair of \<open>presentationTime\<close> and the data block count.\<close>

fun open_channels :: "nat list \<Rightarrow> u32 \<times> u32 \<Rightarrow> ififo_t list \<Rightarrow> ((u32 \<times> u32) \<times> ififo_t list) option" where
  "open_channels [] a q = Some (a, q)"
| "open_channels (f # fs) a q =
     (case media_input_fifo_get_packet (q ! f) of
        None \<Rightarrow> None
      | Some (ts, dbc, p) \<Rightarrow> open_channels fs (ts, dbc) (q[f := media_input_fifo_set_ptr p (q ! f)]))"

text \<open>The rest of the current packet of every channel, and then the next packet.\<close>

fun next_channels ::
  "u32 \<Rightarrow> nat \<Rightarrow> nat \<Rightarrow> nat list \<Rightarrow> nat \<Rightarrow> u32 \<times> u32 \<Rightarrow> u8 list \<Rightarrow> ififo_t list \<Rightarrow> ((u32 \<times> u32) \<times> u8 list \<times> ififo_t list) option" where
  "next_channels ty stride left [] dest a b q = Some (a, b, q)"
| "next_channels ty stride left (f # fs) dest a b q =
     (let b1 = sample_copy_strided ty (if_buf (q ! f)) (media_input_fifo_get_ptr (q ! f)) dest stride left b;
          s1 = media_input_fifo_release_packet (q ! f)
      in case media_input_fifo_get_packet s1 of
           None \<Rightarrow> None
         | Some (ts, dbc, p) \<Rightarrow>
             next_channels ty stride left fs (dest + 1) (ts, dbc) b1 (q[f := media_input_fifo_set_ptr p s1]))"

fun copy_channels ::
  "u32 \<Rightarrow> nat \<Rightarrow> nat \<Rightarrow> nat list \<Rightarrow> nat \<Rightarrow> u8 list \<Rightarrow> ififo_t list \<Rightarrow> u8 list \<times> ififo_t list" where
  "copy_channels ty stride n [] dest b q = (b, q)"
| "copy_channels ty stride n (f # fs) dest b q =
     (let src = media_input_fifo_get_ptr (q ! f)
      in copy_channels ty stride n fs (dest + 1) (sample_copy_strided ty (if_buf (q ! f)) src dest stride n b)
           (q[f := media_input_fifo_set_ptr (src + n) (q ! f)]))"

section \<open>Making a packet\<close>

text \<open>While a stream is new, the first FIFO has to be half full.\<close>

definition initial_short :: "talker_stream \<Rightarrow> ififo_t list \<Rightarrow> bool option" where
  "initial_short st q =
     (if tk_initial st
      then let s = q ! (tk_map st ! 0)
           in map_option (\<lambda>n. n < int (length (if_buf s)) div 2) (media_input_fifo_fill_level s)
      else Some False)"

definition packet_samples :: "talker_stream \<Rightarrow> u32 \<times> talker_stream" where
  "packet_samples st =
     (let r = tk_rem st + tk_samples_per_packet_fractional st
      in if r AND 0xffff0000 \<noteq> 0
         then (tk_samples_per_packet_base st + 1, st\<lparr>tk_rem := r AND 0xffff\<rparr>)
         else (tk_samples_per_packet_base st, st\<lparr>tk_rem := r\<rparr>))"

fun enough_data :: "talker_stream \<Rightarrow> u32 \<Rightarrow> nat list \<Rightarrow> ififo_t list \<Rightarrow> bool option" where
  "enough_data st n [] q = Some True"
| "enough_data st n (f # fs) q =
     (if tk_initial st \<or> tk_samples_left st < n
      then case media_input_fifo_fill_level (q ! f) of
             None \<Rightarrow> None
           | Some fill \<Rightarrow>
               if word_of_int fill < 2 * tk_samples_per_fifo_packet st then Some False else enough_data st n fs q
      else enough_data st n fs q)"

text \<open>The checks before a packet is made; the result is its number of samples per channel, if it is made.\<close>

definition talker_ready :: "ififo_enable \<Rightarrow> u32 \<Rightarrow> talker_stream \<Rightarrow> ififo_t list \<Rightarrow> (u32 option \<times> talker_stream) option" where
  "talker_ready en time st0 q =
     (case initial_short st0 q of
        None \<Rightarrow> None
      | Some True \<Rightarrow> Some (None, st0)
      | Some False \<Rightarrow>
          let (n, st) = packet_samples st0
          in case initial_short st q of
               None \<Rightarrow> None
             | Some True \<Rightarrow> Some (None, st)
             | Some False \<Rightarrow>
                 case enough_data st n (tk_channels st) q of
                   None \<Rightarrow> None
                 | Some False \<Rightarrow> Some (None, st)
                 | Some True \<Rightarrow>
                     if media_input_fifo_enable_ind_state en AND tk_fifo_mask st = 0 then Some (None, st)
                     else if \<not> tk_initial st \<and> \<not> tk_transmit_ok st
                     then if sint (time - tk_last_transmit_time st) < AVB1722_PACKET_PERIOD_TIMER_TICKS
                          then Some (None, st) else Some (Some n, st\<lparr>tk_transmit_ok := True\<rparr>)
                     else Some (Some n, st))"

text \<open>
  The samples of the packet: the presentation time if a FIFO packet is started, the data block
  count, the buffer, the stream and the FIFOs.
\<close>

definition talker_payload ::
  "u32 \<Rightarrow> u32 \<Rightarrow> u8 list \<Rightarrow> talker_stream \<Rightarrow> ififo_t list \<Rightarrow> (u32 option \<times> u32 \<times> u8 list \<times> talker_stream \<times> ififo_t list) option" where
  "talker_payload ty n b st q =
     (let fs = tk_channels st;
          nc = unat (tk_num_channels st);
          left = tk_samples_left st;
          spf = tk_samples_per_fifo_packet st;
          a0 = (0, tk_dbc_at_start st);
          dbc0 = tk_dbc_at_start st + (spf - left);
          finish = (\<lambda>pt dbc dest m b q st.
            let (b, q) = copy_channels ty nc (unat m) fs dest b q
            in Some (pt, dbc, b, st\<lparr>tk_samples_left := tk_samples_left st - m\<rparr>, q))
      in if tk_initial st
         then case open_channels fs a0 q of
                None \<Rightarrow> None
              | Some ((ts, d), q) \<Rightarrow>
                  finish (Some ts) d 0 n b q (st\<lparr>tk_initial := False, tk_dbc_at_start := d, tk_samples_left := spf\<rparr>)
         else if left < n
         then case next_channels ty nc (unat left) fs 0 a0 b q of
                None \<Rightarrow> None
              | Some ((ts, d), b, q) \<Rightarrow>
                  finish (if fs = [] then None else Some ts) dbc0 (nat (int nc + (int (unat left) - 1) * int nc)) (n - left) b q
                    (st\<lparr>tk_dbc_at_start := d, tk_samples_left := spf\<rparr>)
         else finish None dbc0 0 n b q st)"

definition talker_packet ::
  "u32 \<Rightarrow> ptp_time_info_mod64 \<Rightarrow> u32 \<Rightarrow> u8 list \<Rightarrow> talker_stream \<Rightarrow> ififo_t list \<Rightarrow> (nat \<times> u8 list \<times> talker_stream \<times> ififo_t list) option" where
  "talker_packet ty info n b st q =
     (case talker_payload ty n (put_bytes 2 (take 6 (tk_destMACAdrs st)) b) st q of
        None \<Rightarrow> None
      | Some (pt, dbc, b, st, q) \<Rightarrow>
          let len = of_nat AVB_CIP_HDR_SIZE + push_bit 2 (n * tk_num_channels st);
              ptp_ts = (case pt of Some ts \<Rightarrow> local_timestamp_to_ptp_mod32 ts info + tk_presentation_delay st | None \<Rightarrow> 0)
          in Some (AVB_ETHERNET_HDR_SIZE + AVB_TP_HDR_SIZE + unat len,
                   AVB1722_AVBTP_HeaderGen 2 (pt \<noteq> None) ptp_ts len (ucast (tk_sequence_number st)) (tk_streamId0 st)
                     (AVB1722_CIP_HeaderGen 2 (dbc AND 0xff) b),
                   st\<lparr>tk_transmit_ok := False, tk_sequence_number := tk_sequence_number st + 1\<rparr>, q))"

definition avb1722_create_packet ::
  "u32 \<Rightarrow> ififo_enable \<Rightarrow> ptp_time_info_mod64 \<Rightarrow> u32 \<Rightarrow> u8 list \<Rightarrow> talker_stream \<Rightarrow> ififo_t list \<Rightarrow>
     (nat \<times> u8 list \<times> talker_stream \<times> ififo_t list) option" where
  "avb1722_create_packet ty en info time b st q =
     (case talker_ready en time st q of
        None \<Rightarrow> None
      | Some (None, st) \<Rightarrow> Some (0, b, st, q)
      | Some (Some n, st) \<Rightarrow> talker_packet ty info n b st q)"

section \<open>The talker thread\<close>

text \<open>What the control thread sends with a configuration.\<close>

record talker_config =
  tg_sampleType :: u32
  tg_destMACAdrs :: "u8 list"
  tg_streamIdExt :: u32
  tg_fifo_mask :: u32
  tg_map :: "nat list"
  tg_rate :: u32
  tg_presentation_delay :: u32

definition enable_map :: "int \<Rightarrow> int \<Rightarrow> nat list \<Rightarrow> ififo_t list \<Rightarrow> int \<times> ififo_t list" where
  "enable_map stack rate fs q =
     fold (\<lambda>f (k, q). let (k, s) = media_input_fifo_enable stack rate (q ! f) in (k, q[f := s])) fs (stack, q)"

definition configure_stream :: "int \<Rightarrow> talker_config \<Rightarrow> u8 list \<Rightarrow> talker_stream \<Rightarrow> ififo_t list \<Rightarrow> talker_stream \<times> ififo_t list" where
  "configure_stream stack c mac_addr st q =
     (let (samplesPerPacket, q) = enable_map stack (sint (tg_rate c)) (tg_map c) q;
          tmp = push_bit 16 (tg_rate c div 100) div (AVB1722_PACKET_RATE div 100)
      in (st\<lparr>tk_sampleType := tg_sampleType c, tk_destMACAdrs := tg_destMACAdrs c, tk_srcMACAdrs := mac_addr,
             tk_streamId1 := get_u32 0 mac_addr,
             tk_streamId0 := (push_bit 24 (u32_of (mac_addr ! 4)) OR push_bit 16 (u32_of (mac_addr ! 5))) OR tg_streamIdExt c,
             tk_num_channels := of_nat (length (tg_map c)), tk_fifo_mask := tg_fifo_mask c,
             tk_map := tg_map c @ drop (length (tg_map c)) (tk_map st),
             tk_presentation_delay := tg_presentation_delay c,
             tk_samples_per_fifo_packet := word_of_int samplesPerPacket,
             tk_samples_per_packet_base := drop_bit 16 tmp, tk_samples_per_packet_fractional := tmp AND 0xffff,
             tk_rem := 0, tk_samples_left := 0, tk_initial := True, tk_dbc_at_start := 0, tk_active := 1,
             tk_transmit_ok := True, tk_sequence_number := 0\<rparr>, q))"

definition disable_stream :: "talker_stream \<Rightarrow> ififo_enable \<Rightarrow> ififo_t list \<Rightarrow> talker_stream \<times> ififo_enable \<times> ififo_t list" where
  "disable_stream st en q =
     (st\<lparr>tk_streamId1 := 0, tk_streamId0 := 0, tk_active := 0\<rparr>,
      media_input_fifo_disable_fifos (tk_fifo_mask st) en,
      fold (\<lambda>f q. q[f := media_input_fifo_disable (q ! f)]) (tk_channels st) q)"

definition start_stream :: "talker_stream \<Rightarrow> ififo_enable \<Rightarrow> talker_stream \<times> ififo_enable" where
  "start_stream st en =
     (st\<lparr>tk_samples_left := 0, tk_sequence_number := 0, tk_initial := True, tk_active := 2\<rparr>,
      media_input_fifo_enable_fifos (tk_fifo_mask st) en)"

definition stop_stream :: "talker_stream \<Rightarrow> ififo_enable \<Rightarrow> talker_stream \<times> ififo_enable" where
  "stop_stream st en = (st\<lparr>tk_active := 1\<rparr>, media_input_fifo_disable_fifos (tk_fifo_mask st) en)"

text \<open>The thread's state, with the global sample type and the FIFOs it shares.\<close>

record talker_unit =
  tu_TxBuf :: "u8 list"
  tu_streams :: "talker_stream list"
  tu_max_active_avb_stream :: int
  tu_cur_avb_stream :: int
  tu_mac_addr :: "u8 list"
  tu_vlan :: u32
  tu_audioSampleType :: u32
  tu_enable :: ififo_enable
  tu_fifos :: "ififo_t list"

definition avb_1722_talker_init :: "u8 list \<Rightarrow> talker_unit \<Rightarrow> talker_unit" where
  "avb_1722_talker_init mac u =
     u\<lparr>tu_vlan := 2, tu_cur_avb_stream := 0, tu_max_active_avb_stream := 0,
       tu_TxBuf := replicate (length (tu_TxBuf u)) 0, tu_mac_addr := mac,
       tu_streams := map (\<lambda>st. st\<lparr>tk_active := 0\<rparr>) (tu_streams u)\<rparr>"

datatype talker_cmd =
    ConfigureTalkerStream nat talker_config
  | DisableTalkerStream nat
  | TalkerGo nat
  | TalkerStop nat
  | SetVlan u32

definition avb_1722_talker_handle_cmd :: "int \<Rightarrow> talker_cmd \<Rightarrow> talker_unit \<Rightarrow> talker_unit" where
  "avb_1722_talker_handle_cmd stack cmd u =
     (case cmd of
        ConfigureTalkerStream n c \<Rightarrow>
          let (st, q) = configure_stream stack c (tu_mac_addr u) (tu_streams u ! n) (tu_fifos u);
              (ty, b) = AVB1722_Talker_bufInit (tu_TxBuf u) st (tu_vlan u)
          in u\<lparr>tu_streams := (tu_streams u)[n := st], tu_fifos := q,
               tu_max_active_avb_stream := max (int n) (tu_max_active_avb_stream u),
               tu_TxBuf := b, tu_audioSampleType := ty\<rparr>
      | DisableTalkerStream n \<Rightarrow>
          let (st, en, q) = disable_stream (tu_streams u ! n) (tu_enable u) (tu_fifos u)
          in u\<lparr>tu_streams := (tu_streams u)[n := st], tu_enable := en, tu_fifos := q\<rparr>
      | TalkerGo n \<Rightarrow>
          let (st, en) = start_stream (tu_streams u ! n) (tu_enable u)
          in u\<lparr>tu_streams := (tu_streams u)[n := st], tu_enable := en\<rparr>
      | TalkerStop n \<Rightarrow>
          let (st, en) = stop_stream (tu_streams u ! n) (tu_enable u)
          in u\<lparr>tu_streams := (tu_streams u)[n := st], tu_enable := en\<rparr>
      | SetVlan v \<Rightarrow> u\<lparr>tu_vlan := v, tu_TxBuf := avb1722_set_buffer_vlan v (tu_TxBuf u)\<rparr>)"

definition next_avb_stream :: "talker_unit \<Rightarrow> talker_unit" where
  "next_avb_stream u =
     (let c = tu_cur_avb_stream u + 1
      in u\<lparr>tu_cur_avb_stream := (if c > tu_max_active_avb_stream u then 0 else c)\<rparr>)"

text \<open>One turn of the loop: the frame sent, if any, which starts at byte 2 of the buffer.\<close>

definition avb_1722_talker_send_packets ::
  "ptp_time_info_mod64 \<Rightarrow> u32 \<Rightarrow> talker_unit \<Rightarrow> (u8 list option \<times> talker_unit) option" where
  "avb_1722_talker_send_packets info t u =
     (if tu_max_active_avb_stream u = - 1 then Some (None, u)
      else let k = nat (tu_cur_avb_stream u); st = tu_streams u ! k
           in if tk_active st = 2
              then case avb1722_create_packet (tu_audioSampleType u) (tu_enable u) info t (tu_TxBuf u) st (tu_fifos u) of
                     None \<Rightarrow> None
                   | Some (packet_size, b, st, q) \<Rightarrow>
                       let sent = packet_size \<noteq> 0;
                           st' = (if sent then st\<lparr>tk_last_transmit_time := t\<rparr> else st);
                           u' = u\<lparr>tu_TxBuf := b, tu_fifos := q, tu_streams := (tu_streams u)[k := st']\<rparr>
                       in Some (if sent then Some (get_bytes 2 (max 60 packet_size) b) else None,
                                if sent \<or> tk_initial st then next_avb_stream u' else u')
              else Some (None, next_avb_stream u))"

end
