(* ===== verification/Media_Input_Proofs.thy ===== *)
theory Media_Input_Proofs
  imports Media_Input_Fifo
begin

text \<open>The input FIFO as a queue of packets, and what happens when it is full.\<close>

section \<open>The ring\<close>

lemma ring_step: "(w :: nat) < K \<Longrightarrow> (w + 1) mod K = (if w + 1 = K then 0 else w + 1)"
  by simp

lemma level_less: "(r :: nat) < K \<Longrightarrow> (w + K - r) mod K < K"
  by simp

lemma level_other: "(r :: nat) < K \<Longrightarrow> w < K \<Longrightarrow> k < (w + K - r) mod K \<Longrightarrow> (r + k) mod K \<noteq> w"
  using ring_index [of r K k] ring_level [of r K w] level_less [of r K w] by (auto split: if_splits)

lemma level_end: "(r :: nat) < K \<Longrightarrow> w < K \<Longrightarrow> (r + (w + K - r) mod K) mod K = w"
  using ring_index [of r K "(w + K - r) mod K"] ring_level [of r K w] level_less [of r K w]
  by (auto split: if_splits)

lemma level_next:
  assumes "(r :: nat) < K" "w < K"
  shows "((w + 1) mod K + K - r) mod K = (if (w + K - r) mod K + 1 = K then 0 else (w + K - r) mod K + 1)"
proof (cases "w + 1 = K")
  case True
  then have "(w + 1) mod K = 0" by simp
  then show ?thesis using ring_level [of r K w] ring_level [of r K 0] assms True by (auto split: if_splits)
next
  case False
  then have n: "(w + 1) mod K = w + 1" "w + 1 < K" using assms by auto
  show ?thesis unfolding n(1) using ring_level [of r K w] ring_level [of r K "w + 1"] assms n(2)
    by (auto split: if_splits)
qed

text \<open>Positions: slot \<open>j\<close> occupies the words from \<open>j * P\<close> on.\<close>

abbreviation if_P :: "ififo_t \<Rightarrow> nat" where "if_P s \<equiv> nat (if_packetSize s)"

lemma slots_fit: "j < ififo_slots s \<Longrightarrow> j * if_P s + if_P s \<le> length (if_buf s) - 1"
proof -
  assume "j < ififo_slots s"
  then have "Suc j * if_P s \<le> ififo_slots s * if_P s" by (intro mult_le_mono1) simp
  also have "\<dots> \<le> length (if_buf s) - 1" by (simp add: ififo_slots_def)
  finally show ?thesis by simp
qed

lemma slots_last:
  assumes "0 < if_P s" "j < ififo_slots s"
  shows "length (if_buf s) - 1 < (j + 1) * if_P s + if_P s \<longleftrightarrow> j + 1 = ififo_slots s"
proof -
  have "length (if_buf s) - 1 < (j + 2) * if_P s \<longleftrightarrow> (length (if_buf s) - 1) div if_P s < j + 2"
    using assms(1) by (simp add: div_less_iff_less_mult)
  then show ?thesis using assms(2) by (auto simp: ififo_slots_def)
qed

lemma slots_disjoint:
  assumes "j \<noteq> w" "p < if_P s" "q < if_P s"
  shows "j * if_P s + p \<noteq> w * if_P s + q"
proof
  assume "j * if_P s + p = w * if_P s + q"
  then have "(j * if_P s + p) div if_P s = (w * if_P s + q) div if_P s" by simp
  then show False using assms by simp
qed

lemma neg_mod: "0 < y \<Longrightarrow> y < n \<Longrightarrow> (- int y) mod int n = int n - int y"
  by (simp add: zmod_zminus1_eq_if)

lemma space_never_short:
  assumes "ififo_at r w s"
  defines "space \<equiv> (int (r * if_P s) - int (w * if_P s)) AND (int (length (if_buf s)) - 1)"
  shows "space = 0 \<or> if_packetSize s \<le> space"
proof -
  let ?P = "if_P s" and ?N = "length (if_buf s)"
  obtain k where k: "?N = 2 ^ k" using assms(1) by (auto simp: ififo_at_def)
  have m: "space = (int (r * ?P) - int (w * ?P)) mod int ?N"
    unfolding space_def k by (simp add: take_bit_eq_mask [symmetric] mask_eq_exp_minus_1 [symmetric] take_bit_eq_mod)
  have P: "int ?P = if_packetSize s" "3 \<le> ?P" "r < ififo_slots s" "w < ififo_slots s" "0 < ?N"
    using assms(1) by (auto simp: ififo_at_def)
  note f = slots_fit [OF P(3)] slots_fit [OF P(4)]
  show ?thesis
  proof (cases "w \<le> r")
    case True
    then have "int (r * ?P) - int (w * ?P) = int ((r - w) * ?P)" by (simp add: diff_mult_distrib of_nat_diff)
    moreover have "(r - w) * ?P \<le> r * ?P" by simp
    then have "(r - w) * ?P < ?N" using f(1) P(5) by linarith
    ultimately have sp: "space = int ((r - w) * ?P)"
      unfolding m by (simp only: mod_pos_pos_trivial of_nat_less_iff of_nat_0_le_iff)
    show ?thesis
    proof (cases "r = w")
      case False
      then have "1 * ?P \<le> (r - w) * ?P" using True by (intro mult_le_mono1) simp
      then show ?thesis using sp P(1) by linarith
    qed (simp add: sp)
  next
    case False
    have "w * ?P = r * ?P + (w - r) * ?P" using False by (simp add: diff_mult_distrib)
    then have "(w - r) * ?P < ?N" using f(2) P(5) by linarith
    have "int (r * ?P) - int (w * ?P) = - int ((w - r) * ?P)" using False by (simp add: diff_mult_distrib of_nat_diff)
    moreover have "0 < (w - r) * ?P" using False P(2) by simp
    moreover have "(w - r) * ?P + ?P \<le> ?N - 1" using f(2) False by (simp add: diff_mult_distrib)
    ultimately have "space = int ?N - int ((w - r) * ?P)"
      unfolding m using neg_mod \<open>(w - r) * ?P < ?N\<close> by (simp only:)
    then show ?thesis using \<open>(w - r) * ?P + ?P \<le> ?N - 1\<close> P(1,5) by linarith
  qed
qed

lemma ififo_next_slot:
  assumes "ififo_at r w s" "j < ififo_slots s"
  shows "ififo_next s (j * if_P s) = (j + 1) mod ififo_slots s * if_P s"
proof -
  have P: "int (if_P s) = if_packetSize s" "3 \<le> if_P s" "if_fifoEnd s = length (if_buf s) - 1"
    using assms(1) by (auto simp: ififo_at_def)
  have "int (j * if_P s) + if_packetSize s = int ((j + 1) * if_P s)" using P(1) by (simp add: algebra_simps)
  then have n: "nat (int (j * if_P s) + if_packetSize s) = (j + 1) * if_P s" by (simp only: nat_int)
  have "int ((j + 1) * if_P s) + if_packetSize s > int (if_fifoEnd s) \<longleftrightarrow> j + 1 = ififo_slots s"
  proof -
    have "int ((j + 1) * if_P s) + if_packetSize s = int ((j + 1) * if_P s + if_P s)" using P(1) by simp
    then show ?thesis using slots_last [OF _ assms(2)] P(2,3) by (simp only: of_nat_less_iff)
  qed
  then show ?thesis unfolding ififo_next_def n Let_def using assms(2) by (simp add: ring_step)
qed

lemmas ififo_fields = ififo_at_def ififo_slots_def

text \<open>The buffer is written only inside the slot under construction.\<close>

lemma ififo_slot_keeps:
  assumes "if_packetSize s' = if_packetSize s" "length (if_buf s') = length (if_buf s)"
    and "\<And>p. p < if_P s \<Longrightarrow> if_buf s' ! (j * if_P s + p) = if_buf s ! (j * if_P s + p)" "2 \<le> if_P s"
  shows "ififo_slot s' j = ififo_slot s j"
proof -
  have p: "if_buf s' ! (j * if_P s) = if_buf s ! (j * if_P s)"
    "if_buf s' ! (j * if_P s + 1) = if_buf s ! (j * if_P s + 1)"
    using assms(3) [of 0] assms(3) [of 1] assms(4) by auto
  have "if_buf s' ! (j * if_P s + 2 + i) = if_buf s ! (j * if_P s + 2 + i)" if "i < if_P s - 2" for i
    using assms(3) [of "2 + i"] that by (simp add: add.assoc)
  then show ?thesis unfolding ififo_slot_def Let_def assms(1) using p by simp
qed

lemma ififo_queue_keeps:
  assumes "\<And>j. j < ififo_slots s \<Longrightarrow> j \<noteq> w \<Longrightarrow> ififo_slot s' j = ififo_slot s j"
    and "ififo_slots s' = ififo_slots s" "r < ififo_slots s" "w < ififo_slots s"
  shows "ififo_queue r w s' = ififo_queue r w s"
  unfolding ififo_queue_def Let_def assms(2) using assms level_other by (auto intro!: map_cong)

text \<open>When the packet under construction is complete, its slot joins the queue.\<close>

lemma ififo_queue_grows:
  assumes "r < ififo_slots s" "w < ififo_slots s"
  shows "ififo_queue r ((w + 1) mod ififo_slots s) s =
    (if length (ififo_queue r w s) + 1 = ififo_slots s then [] else ififo_queue r w s @ [ififo_slot s w])"
  using level_next [OF assms] level_end [OF assms] unfolding ififo_queue_def Let_def by simp

section \<open>Pushing\<close>

definition ififo_made :: "ififo_t \<Rightarrow> int \<Rightarrow> ififo_packet" where
  "ififo_made s c =
     (let b = if_startIndex s
      in (if_buf s ! b, if_buf s ! (b + 1), map (\<lambda>i. if_buf s ! (b + 2 + i)) [0..<nat c - 2]))"

lemma ififo_partial_made: "ififo_partial s = (if if_sampleCountInPacket s = 0 then None else Some (ififo_made s (if_sampleCountInPacket s)))"
  by (simp add: ififo_partial_def ififo_made_def Let_def)

text \<open>The end of a packet, on a buffer that already holds the sample.\<close>

lemma end_packet_refines:
  assumes at: "ififo_at r w s" and c: "3 \<le> c" "c \<le> if_packetSize s"
  obtains w' where "ififo_at r w' (ififo_end_packet (if_startIndex s + nat c) c s)"
    and "ififo_queue r w' (ififo_end_packet (if_startIndex s + nat c) c s) =
      (if c = if_packetSize s
       then if length (ififo_queue r w s) + 1 = ififo_slots s then [] else ififo_queue r w s @ [ififo_made s c]
       else ififo_queue r w s)"
    and "ififo_partial (ififo_end_packet (if_startIndex s + nat c) c s) =
      (if c = if_packetSize s then None else Some (ififo_made s c))"
proof (cases "c = if_packetSize s")
  case False
  let ?s = "ififo_end_packet (if_startIndex s + nat c) c s"
  have e: "?s = s\<lparr>if_sampleCountInPacket := c, if_wrIndex := if_startIndex s + nat c\<rparr>"
    using False by (simp add: ififo_end_packet_def)
  show thesis
  proof (rule that [of w])
    show "ififo_at r w ?s" using at c False unfolding e by (simp add: ififo_fields)
    show "ififo_partial ?s = (if c = if_packetSize s then None else Some (ififo_made s c))"
      using c False unfolding e by (simp add: ififo_partial_made ififo_made_def)
    show "ififo_queue r w ?s =
      (if c = if_packetSize s
       then if length (ififo_queue r w s) + 1 = ififo_slots s then [] else ififo_queue r w s @ [ififo_made s c]
       else ififo_queue r w s)"
      using False unfolding e by (simp add: ififo_queue_def ififo_slots_def ififo_slot_def)
  qed
next
  case True
  let ?s = "ififo_end_packet (if_startIndex s + nat c) c s"
  let ?w = "(w + 1) mod ififo_slots s"
  have w: "r < ififo_slots s" "w < ififo_slots s" "if_startIndex s = w * if_P s" using at by (auto simp: ififo_at_def)
  have n: "(if int (if_startIndex s + nat c) + if_packetSize s > int (if_fifoEnd s) then 0 else if_startIndex s + nat c) =
      ?w * if_P s"
  proof -
    have "nat (int (w * if_P s) + if_packetSize s) = w * if_P s + nat c"
      using True c by (subst nat_add_distrib) (auto simp del: of_nat_mult)
    then show ?thesis using ififo_next_slot [OF at w(2)] unfolding ififo_next_def Let_def w(3) by (simp only:)
  qed
  have e: "?s = s\<lparr>if_startIndex := ?w * if_P s, if_dbc := if_dbc s + word_of_int (if_packetSize s - 2),
      if_sampleCountInPacket := 0, if_wrIndex := ?w * if_P s\<rparr>"
    unfolding ififo_end_packet_def Let_def n using True by simp
  have m: "ififo_made s c = ififo_slot s w"
    using True by (simp add: ififo_made_def ififo_slot_def w(3) Let_def)
  show thesis
  proof (rule that [of ?w])
    show "ififo_at r ?w ?s" using at unfolding e by (simp add: ififo_fields)
    show "ififo_partial ?s = (if c = if_packetSize s then None else Some (ififo_made s c))"
      using True unfolding e by (simp add: ififo_partial_def)
    have "ififo_queue r ?w ?s = ififo_queue r ?w s" unfolding e by (simp add: ififo_queue_def ififo_slots_def ififo_slot_def)
    then show "ififo_queue r ?w ?s =
      (if c = if_packetSize s
       then if length (ififo_queue r w s) + 1 = ififo_slots s then [] else ififo_queue r w s @ [ififo_made s c]
       else ififo_queue r w s)"
      unfolding ififo_queue_grows [OF w(1,2)] m using True by simp
  qed
qed

text \<open>The two ways in which a sample is stored: both leave the other slots alone.\<close>

lemma ififo_write_keeps:
  assumes at: "ififo_at r w s" and len: "length b = length (if_buf s)"
    and same: "\<And>i. i < w * if_P s \<or> w * if_P s + if_P s \<le> i \<Longrightarrow> b ! i = if_buf s ! i"
  shows "ififo_at r w (s\<lparr>if_buf := b\<rparr>)" and "ififo_queue r w (s\<lparr>if_buf := b\<rparr>) = ififo_queue r w s"
proof -
  have w: "r < ififo_slots s" "w < ififo_slots s" "2 \<le> if_P s" using at by (auto simp: ififo_at_def)
  show "ififo_at r w (s\<lparr>if_buf := b\<rparr>)" using at len by (auto simp: ififo_fields)
  have k: "b ! (j * if_P s + p) = if_buf s ! (j * if_P s + p)" if j: "j \<noteq> w" "p < if_P s" for j p
  proof (rule same)
    have "Suc j * if_P s \<le> w * if_P s \<or> Suc w * if_P s \<le> j * if_P s"
      using j(1) by (cases "j < w") (auto intro!: mult_le_mono1 simp del: mult_Suc)
    then show "j * if_P s + p < w * if_P s \<or> w * if_P s + if_P s \<le> j * if_P s + p" using j(2) by auto
  qed
  show "ififo_queue r w (s\<lparr>if_buf := b\<rparr>) = ififo_queue r w s"
  proof (rule ififo_queue_keeps [OF _ _ w(1,2)])
    show "ififo_slot (s\<lparr>if_buf := b\<rparr>) j = ififo_slot s j" if "j \<noteq> w" for j
      using ififo_slot_keeps [of "s\<lparr>if_buf := b\<rparr>" s j] k [OF that] len w(3) by simp
  qed (simp add: ififo_slots_def len)
qed

lemma ififo_slot_fits: "ififo_at r w s \<Longrightarrow> w * if_P s + if_P s < length (if_buf s)"
  using slots_fit [of w s] by (auto simp: ififo_at_def)

lemma push_spec_joins:
  "ififo_push_spec K P dbc x t (q, Some (t0, d0, ys)) =
    (if int (length ys) + 3 = P then (if length q + 1 = K then [] else q @ [(t0, d0, ys @ [x])], None)
     else (q, Some (t0, d0, ys @ [x])))"
  by (simp add: ififo_push_spec_def)

lemma push_within_packet:
  assumes at: "ififo_at r w s" and c: "if_sampleCountInPacket s \<noteq> 0"
  shows "\<exists>w'. ififo_at r w' (media_input_fifo_push_sample x t s) \<and>
    (ififo_queue r w' (media_input_fifo_push_sample x t s), ififo_partial (media_input_fifo_push_sample x t s)) =
    ififo_push_spec (ififo_slots s) (if_packetSize s) (if_dbc s) x t (ififo_queue r w s, ififo_partial s)"
proof -
  let ?c = "if_sampleCountInPacket s" and ?b = "if_startIndex s"
  let ?s = "s\<lparr>if_buf := (if_buf s)[?b + nat ?c := x]\<rparr>"
  have f: "3 \<le> ?c" "?c < if_packetSize s" "if_wrIndex s = ?b + nat ?c" "?b = w * if_P s"
    using at c by (auto simp: ififo_at_def)
  have fit: "?b + nat ?c < length (if_buf s)" using ififo_slot_fits [OF at] f by linarith
  have p: "media_input_fifo_push_sample x t s = ififo_end_packet (if_startIndex ?s + nat (?c + 1)) (?c + 1) ?s"
    using f(1) by (simp add: media_input_fifo_push_sample_def Let_def f(3) nat_add_distrib)
  have at': "ififo_at r w ?s" and q: "ififo_queue r w ?s = ififo_queue r w s"
    by (rule ififo_write_keeps [OF at]; use f in \<open>auto simp: nth_list_update\<close>)+
  have m: "ififo_made ?s (?c + 1) =
      (if_buf s ! ?b, if_buf s ! (?b + 1), map (\<lambda>i. if_buf s ! (?b + 2 + i)) [0..<nat ?c - 2] @ [x])"
  proof -
    have "nat (?c + 1) - 2 = Suc (nat ?c - 2)" "?b + 2 + (nat ?c - 2) = ?b + nat ?c" "3 \<le> nat ?c" using f(1) by linarith+
    then show ?thesis using fit unfolding ififo_made_def Let_def by (auto simp: nth_list_update intro!: map_cong)
  qed
  have pt: "ififo_partial s = Some
      (if_buf s ! ?b, if_buf s ! (?b + 1), map (\<lambda>i. if_buf s ! (?b + 2 + i)) [0..<nat ?c - 2])"
    using c by (simp add: ififo_partial_def Let_def)
  have l: "int (length (map (\<lambda>i. if_buf s ! (?b + 2 + i)) [0..<nat ?c - 2])) + 3 = ?c + 1" using f(1) by simp
  obtain w' where "ififo_at r w' (media_input_fifo_push_sample x t s)"
    and "ififo_queue r w' (media_input_fifo_push_sample x t s) =
      (if ?c + 1 = if_packetSize ?s
       then if length (ififo_queue r w ?s) + 1 = ififo_slots ?s then [] else ififo_queue r w ?s @ [ififo_made ?s (?c + 1)]
       else ififo_queue r w ?s)"
    and "ififo_partial (media_input_fifo_push_sample x t s) =
      (if ?c + 1 = if_packetSize ?s then None else Some (ififo_made ?s (?c + 1)))"
    using end_packet_refines [OF at', of "?c + 1", folded p] f by auto
  moreover have "ififo_push_spec (ififo_slots s) (if_packetSize s) (if_dbc s) x t (ififo_queue r w s, ififo_partial s) =
     (if ?c + 1 = if_packetSize s
      then (if length (ififo_queue r w s) + 1 = ififo_slots s then [] else ififo_queue r w s @ [ififo_made ?s (?c + 1)], None)
      else (ififo_queue r w s, Some (ififo_made ?s (?c + 1))))"
    unfolding pt push_spec_joins m l ..
  ultimately show ?thesis unfolding q by (intro exI [of _ w']) (simp add: ififo_slots_def)
qed

lemma push_starts_packet:
  assumes at: "ififo_at r w s" and c: "if_sampleCountInPacket s = 0"
  shows "\<exists>w'. ififo_at r w' (media_input_fifo_push_sample x t s) \<and>
    (ififo_queue r w' (media_input_fifo_push_sample x t s), ififo_partial (media_input_fifo_push_sample x t s)) =
    ififo_push_spec (ififo_slots s) (if_packetSize s) (if_dbc s) x t (ififo_queue r w s, ififo_partial s)"
proof -
  let ?b = "if_startIndex s"
  let ?s = "s\<lparr>if_buf := put_bytes ?b [t, if_dbc s, x] (if_buf s)\<rparr>"
  have f: "?b = w * if_P s" "if_rdIndex s = Some (r * if_P s)" "3 \<le> if_packetSize s" using at by (auto simp: ififo_at_def)
  have fit: "?b + 3 \<le> length (if_buf s)" using ififo_slot_fits [OF at] f by linarith
  have "\<not> ((int (r * if_P s) - int (w * if_P s)) AND (int (length (if_buf s)) - 1) \<noteq> 0 \<and>
      (int (r * if_P s) - int (w * if_P s)) AND (int (length (if_buf s)) - 1) < if_packetSize s)"
    using space_never_short [OF at] by linarith
  then have p: "media_input_fifo_push_sample x t s = ififo_end_packet (if_startIndex ?s + nat 3) 3 ?s"
    unfolding media_input_fifo_push_sample_def Let_def f(2) c option.case f(1)
    by (simp only: if_False if_True) (simp add: f(1))
  have at': "ififo_at r w ?s" and q: "ififo_queue r w ?s = ififo_queue r w s"
    by (rule ififo_write_keeps [OF at]; use f fit in \<open>auto simp: nth_put_bytes\<close>)+
  have m: "ififo_made ?s 3 = (t, if_dbc s, [x])"
    using fit by (simp add: ififo_made_def Let_def nth_put_bytes)
  have pt: "ififo_partial s = None" using c by (simp add: ififo_partial_made)
  obtain w' where "ififo_at r w' (media_input_fifo_push_sample x t s)"
    and "ififo_queue r w' (media_input_fifo_push_sample x t s) =
      (if 3 = if_packetSize ?s
       then if length (ififo_queue r w ?s) + 1 = ififo_slots ?s then [] else ififo_queue r w ?s @ [ififo_made ?s 3]
       else ififo_queue r w ?s)"
    and "ififo_partial (media_input_fifo_push_sample x t s) =
      (if 3 = if_packetSize ?s then None else Some (ififo_made ?s 3))"
    using end_packet_refines [OF at', of 3, folded p] f by auto
  moreover have "ififo_push_spec (ififo_slots s) (if_packetSize s) (if_dbc s) x t (ififo_queue r w s, ififo_partial s) =
     (if 3 = if_packetSize s
      then (if length (ififo_queue r w s) + 1 = ififo_slots s then [] else ififo_queue r w s @ [ififo_made ?s 3], None)
      else (ififo_queue r w s, Some (ififo_made ?s 3)))"
    unfolding ififo_push_spec_def pt m Let_def by simp
  ultimately show ?thesis unfolding q by (intro exI [of _ w']) (use fit in \<open>simp add: ififo_slots_def\<close>)
qed

lemma push_sample_refines:
  assumes "ififo_at r w s"
  shows "\<exists>w'. ififo_at r w' (media_input_fifo_push_sample x t s) \<and>
    (ififo_queue r w' (media_input_fifo_push_sample x t s), ififo_partial (media_input_fifo_push_sample x t s)) =
    ififo_push_spec (ififo_slots s) (if_packetSize s) (if_dbc s) x t (ififo_queue r w s, ififo_partial s)"
  using push_starts_packet [OF assms] push_within_packet [OF assms] by blast

section \<open>Reading\<close>

lemma queue_length: "r < ififo_slots s \<Longrightarrow> length (ififo_queue r w s) = (w + ififo_slots s - r) mod ififo_slots s"
  by (simp add: ififo_queue_def Let_def)

lemma queue_empty_iff: "ififo_at r w s \<Longrightarrow> ififo_queue r w s = [] \<longleftrightarrow> r = w"
  using ring_level [of r "ififo_slots s" w]
  by (auto simp: ififo_at_def ififo_queue_def Let_def split: if_splits)

lemma level_pred:
  assumes "(r :: nat) < K" "w < K" "r \<noteq> w"
  shows "(w + K - r) mod K = Suc ((w + K - (r + 1) mod K) mod K)"
proof (cases "r + 1 = K")
  case True
  then have "(r + 1) mod K = 0" by simp
  then show ?thesis using ring_level [of r K w] ring_level [of 0 K w] assms True by (auto split: if_splits)
next
  case False
  then have n: "(r + 1) mod K = r + 1" "r + 1 < K" using assms by auto
  show ?thesis unfolding n(1) using ring_level [of r K w] ring_level [of "r + 1" K w] assms n(2)
    by (auto split: if_splits)
qed

lemma queue_Cons:
  assumes at: "ififo_at r w s" and ne: "r \<noteq> w"
  shows "ififo_queue r w s = ififo_slot s r # ififo_queue ((r + 1) mod ififo_slots s) w s"
proof -
  let ?K = "ififo_slots s"
  have f: "r < ?K" "w < ?K" using at by (auto simp: ififo_at_def)
  have "(r + Suc k) mod ?K = ((r + 1) mod ?K + k) mod ?K" for k by (simp add: mod_add_left_eq)
  then show ?thesis unfolding ififo_queue_def Let_def level_pred [OF f ne]
    using f(1) by (simp add: upt_rec [of 0] map_Suc_upt [symmetric] del: upt_Suc)
qed

lemma release_packet_at:
  assumes "ififo_at r w s"
  shows "ififo_at ((r + 1) mod ififo_slots s) w (media_input_fifo_release_packet s)"
    and "ififo_queue r' w (media_input_fifo_release_packet s) = ififo_queue r' w s"
    and "ififo_partial (media_input_fifo_release_packet s) = ififo_partial s"
proof -
  have f: "if_rdIndex s = Some (r * if_P s)" "r < ififo_slots s" using assms by (auto simp: ififo_at_def)
  have e: "media_input_fifo_release_packet s = s\<lparr>if_rdIndex := Some ((r + 1) mod ififo_slots s * if_P s)\<rparr>"
    using ififo_next_slot [OF assms f(2)] by (simp add: media_input_fifo_release_packet_def f(1))
  show "ififo_at ((r + 1) mod ififo_slots s) w (media_input_fifo_release_packet s)"
    using assms unfolding e by (auto simp: ififo_fields)
  show "ififo_queue r' w (media_input_fifo_release_packet s) = ififo_queue r' w s"
    unfolding e by (simp add: ififo_queue_def ififo_slots_def ififo_slot_def)
  show "ififo_partial (media_input_fifo_release_packet s) = ififo_partial s"
    unfolding e by (simp add: ififo_partial_def)
qed

lemma get_packet_head:
  assumes "ififo_at r w s"
  shows "media_input_fifo_get_packet s =
    (case ififo_queue r w s of [] \<Rightarrow> None | (t, d, xs) # q \<Rightarrow> Some (t, d, r * if_P s + 2))"
proof -
  have f: "if_rdIndex s = Some (r * if_P s)" "if_startIndex s = w * if_P s" "0 < if_P s" using assms by (auto simp: ififo_at_def)
  show ?thesis
  proof (cases "r = w")
    case True
    then show ?thesis using queue_empty_iff [OF assms] f by (simp add: media_input_fifo_get_packet_def)
  next
    case False
    then show ?thesis using queue_Cons [OF assms False] f
      by (simp add: media_input_fifo_get_packet_def ififo_slot_def Let_def)
  qed
qed

lemma fill_loop_counts:
  assumes "ififo_at r w s" "j < ififo_slots s"
  shows "fill_loop s (j * if_P s) n =
    Some (n + int ((w + ififo_slots s - j) mod ififo_slots s) * (if_packetSize s - 2))"
  using assms(2)
proof (induction "(w + ififo_slots s - j) mod ififo_slots s" arbitrary: j n)
  case 0
  have f: "if_startIndex s = w * if_P s" "w < ififo_slots s" using assms(1) by (auto simp: ififo_at_def)
  then have "j = w" using ring_level [OF 0(2) f(2)] 0 by (auto split: if_splits)
  then show ?case using 0 f by (subst fill_loop.simps) simp
next
  case (Suc k)
  have f: "if_startIndex s = w * if_P s" "w < ififo_slots s" "0 < if_P s" using assms(1) by (auto simp: ififo_at_def)
  have ne: "j \<noteq> w" using Suc(2) by auto
  have l: "(w + ififo_slots s - j) mod ififo_slots s =
      Suc ((w + ififo_slots s - (j + 1) mod ififo_slots s) mod ififo_slots s)" (is "_ = Suc ?k")
    by (rule level_pred [OF Suc(3) f(2) ne])
  have k: "k = ?k" using Suc(2) l by simp
  have "fill_loop s (j * if_P s) n =
      fill_loop s ((j + 1) mod ififo_slots s * if_P s) (n + (if_packetSize s - 2))"
    using f ne by (subst fill_loop.simps) (simp add: ififo_next_slot [OF assms(1) Suc(3), simplified])
  also have "\<dots> = Some (n + (if_packetSize s - 2) + int ?k * (if_packetSize s - 2))"
    using Suc(1) [OF k] Suc(3) by simp
  finally show ?case unfolding l by (simp add: algebra_simps)
qed

lemma fill_level_counts:
  assumes "ififo_at r w s"
  shows "media_input_fifo_fill_level s = Some (int (length (ififo_queue r w s)) * (if_packetSize s - 2))"
  using assms fill_loop_counts [OF assms, of r 0] queue_length [of r s w]
  by (auto simp: media_input_fifo_fill_level_def ififo_at_def)

section \<open>Starting\<close>

lemma enable_at:
  assumes "0 < syt_interval_of_rate stack rate" "length (if_buf s) = 2 ^ k"
    and "syt_interval_of_rate stack rate + 3 \<le> int (length (if_buf s))"
  shows "ififo_at 0 0 (snd (media_input_fifo_enable stack rate s))"
    and "ififo_queue 0 0 (snd (media_input_fifo_enable stack rate s)) = []"
    and "ififo_partial (snd (media_input_fifo_enable stack rate s)) = None"
proof -
  have P: "nat (syt_interval_of_rate stack rate + 2) \<le> length (if_buf s) - 1" using assms(3) by linarith
  then have "1 \<le> (length (if_buf s) - 1) div nat (syt_interval_of_rate stack rate + 2)"
    using assms(1) by (simp add: Suc_leI div_greater_zero_iff)
  then show "ififo_at 0 0 (snd (media_input_fifo_enable stack rate s))"
    using assms P by (auto simp: media_input_fifo_enable_def ififo_fields Let_def simp del: div_greater_zero_iff)
qed (simp_all add: media_input_fifo_enable_def ififo_queue_def ififo_partial_def Let_def)

text \<open>C26. The media input FIFO implements a queue of packets. Pushing a sample extends the packet under
  construction, a packet that is complete joins the queue; the reader sees the oldest packet or waits,
  and releasing takes it away. No sample is ever refused: the packet that would fill the last place of
  the ring empties the queue instead.\<close>
theorem input_fifo_refines_queue:
  assumes "ififo_at r w s"
  shows "(\<exists>w'. ififo_at r w' (media_input_fifo_push_sample x t s) \<and>
      (ififo_queue r w' (media_input_fifo_push_sample x t s), ififo_partial (media_input_fifo_push_sample x t s)) =
      ififo_push_spec (ififo_slots s) (if_packetSize s) (if_dbc s) x t (ififo_queue r w s, ififo_partial s)) \<and>
    media_input_fifo_get_packet s =
      (case ififo_queue r w s of [] \<Rightarrow> None | (t, d, xs) # q \<Rightarrow> Some (t, d, r * nat (if_packetSize s) + 2)) \<and>
    (ififo_queue r w s \<noteq> [] \<longrightarrow>
      (\<exists>r'. ififo_at r' w (media_input_fifo_release_packet s) \<and>
         ififo_queue r' w (media_input_fifo_release_packet s) = tl (ififo_queue r w s) \<and>
         ififo_partial (media_input_fifo_release_packet s) = ififo_partial s))"
proof (intro conjI impI)
  assume "ififo_queue r w s \<noteq> []"
  then have "r \<noteq> w" using queue_empty_iff [OF assms] by simp
  then show "\<exists>r'. ififo_at r' w (media_input_fifo_release_packet s) \<and>
      ififo_queue r' w (media_input_fifo_release_packet s) = tl (ififo_queue r w s) \<and>
      ififo_partial (media_input_fifo_release_packet s) = ififo_partial s"
    using release_packet_at [OF assms] queue_Cons [OF assms] by (metis list.sel(3))
qed (fact push_sample_refines [OF assms], fact get_packet_head [OF assms])

definition example_ififo :: ififo_t where
  "example_ififo = snd (media_input_fifo_enable 0 48000
     \<lparr>if_wrIndex = 0, if_rdIndex = None, if_startIndex = 0, if_packetSize = - 1, if_sampleCountInPacket = - 1,
      if_dbc = 0, if_fifoEnd = 0, if_ptr = 0, if_buf = replicate 64 0\<rparr>)"

lemma example_ififo_at: "ififo_at 0 0 example_ififo" "ififo_queue 0 0 example_ififo = []"
  unfolding example_ififo_def by (rule enable_at [where k = 6]; simp add: syt_interval_of_rate_def)+

theorem input_fifo_refines_queue_witness:
  "\<exists>w'. ififo_at 0 w' (media_input_fifo_push_sample 5 9 example_ififo) \<and>
     (ififo_queue 0 w' (media_input_fifo_push_sample 5 9 example_ififo),
      ififo_partial (media_input_fifo_push_sample 5 9 example_ififo)) =
     ififo_push_spec (ififo_slots example_ififo) (if_packetSize example_ififo) (if_dbc example_ififo) 5 9
       (ififo_queue 0 0 example_ififo, ififo_partial example_ififo)"
  using input_fifo_refines_queue [OF example_ififo_at(1), of 5 9] by blast

text \<open>C27. The fill level loop ends and counts the samples of the complete packets, whatever the
  positions in the ring, and a stream that has just been enabled has none.\<close>
theorem input_fifo_fill_level:
  assumes "ififo_at r w s"
  shows "media_input_fifo_fill_level s = Some (int (length (ififo_queue r w s)) * (if_packetSize s - 2)) \<and>
    length (ififo_queue r w s) < ififo_slots s \<and>
    (media_input_fifo_empty s \<longleftrightarrow> ififo_queue r w s = [])"
proof -
  have f: "if_rdIndex s = Some (r * if_P s)" "if_startIndex s = w * if_P s" "r < ififo_slots s" "0 < if_P s"
    using assms by (auto simp: ififo_at_def)
  then show ?thesis using fill_level_counts [OF assms] queue_length [OF f(3), of w] queue_empty_iff [OF assms]
    by (simp add: media_input_fifo_empty_def)
qed

theorem input_fifo_fill_level_witness:
  "media_input_fifo_fill_level example_ififo = Some 0 \<and> media_input_fifo_empty example_ififo"
  using input_fifo_fill_level [OF example_ififo_at(1)] by (simp add: example_ififo_at(2))

end
