(* ===== verification/Talker_Proofs.thy ===== *)
theory Talker_Proofs
  imports Avb_1722_Talker Media_Input_Proofs
begin

text \<open>The talker sends every sample of every channel once and in order, and never waits for a FIFO.\<close>

section \<open>The payload\<close>

definition payload_word :: "u8 list \<Rightarrow> nat \<Rightarrow> u8 list" where
  "payload_word b d = get_bytes (52 + 4 * d) 4 b"

lemma put_word_alt: "put_word d w b = put_bytes (52 + 4 * d) (word_octets w) b"
  by (simp add: put_word_def header_sizes)

lemma length_word_octets [simp]: "length (word_octets w) = 4"
  by (simp add: word_octets_def)

lemma length_put_word [simp]: "52 + 4 * d + 4 \<le> length b \<Longrightarrow> length (put_word d w b) = length b"
  by (simp add: put_word_alt)

lemma payload_put_word:
  assumes "52 + 4 * d + 4 \<le> length b" "52 + 4 * e + 4 \<le> length b"
  shows "payload_word (put_word d w b) e = (if d = e then word_octets w else payload_word b e)"
proof (cases "d = e")
  case False
  then have "52 + 4 * e + 4 \<le> 52 + 4 * d \<or> 52 + 4 * d + 4 \<le> 52 + 4 * e" by linarith
  then show ?thesis unfolding payload_word_def put_word_alt using assms False by (simp add: get_put_bytes_other)
qed (use assms in \<open>simp add: payload_word_def put_word_alt get_put_bytes_same\<close>)

text \<open>Below byte 52 the header is not touched.\<close>

lemma header_put_word: "52 + 4 * d + 4 \<le> length b \<Longrightarrow> i < 52 \<Longrightarrow> put_word d w b ! i = b ! i"
  by (simp add: put_word_alt nth_put_bytes)

text \<open>Word \<open>c + k * nc\<close> holds sample \<open>k\<close> of channel \<open>c\<close>.\<close>

lemma place_eq: "c < nc \<Longrightarrow> c' < nc \<Longrightarrow> c + k * nc = c' + k' * nc \<longleftrightarrow> c = c' \<and> k = (k' :: nat)"
  by (metis add.commute div_mult_self3 div_less mod_mult_self3 mod_less add_cancel_right_left gr_implies_not0)

lemma place_fits: "c < nc \<Longrightarrow> k < N \<Longrightarrow> 52 + 4 * (N * nc) \<le> n \<Longrightarrow> 52 + 4 * (c + k * nc) + 4 \<le> (n :: nat)"
proof -
  assume a: "c < nc" "k < N" "52 + 4 * (N * nc) \<le> n"
  have "Suc k * nc \<le> N * nc" using a(2) by (intro mult_le_mono1) simp
  then show ?thesis using a(1,3) by simp
qed

text \<open>A buffer that can hold \<open>N\<close> samples of \<open>nc\<close> channels.\<close>

abbreviation room :: "nat \<Rightarrow> nat \<Rightarrow> u8 list \<Rightarrow> bool" where "room nc N b \<equiv> 52 + 4 * (N * nc) \<le> length b"

lemma sample_copy_Suc:
  "sample_copy_strided ty buf src dest stride (Suc n) b =
     put_word (dest + n * stride) (wire_sample ty (buf ! (src + n))) (sample_copy_strided ty buf src dest stride n b)"
  by (simp add: sample_copy_strided_def)

lemma sample_copy_0: "sample_copy_strided ty buf src dest stride 0 b = b"
  by (simp add: sample_copy_strided_def)

lemma sample_copy_result:
  assumes "c < nc" "room nc N b" "k0 + n \<le> N"
  shows "length (sample_copy_strided ty buf src (c + k0 * nc) nc n b) = length b \<and>
    (\<forall>i < 52. sample_copy_strided ty buf src (c + k0 * nc) nc n b ! i = b ! i) \<and>
    (\<forall>c' < nc. \<forall>k < N. payload_word (sample_copy_strided ty buf src (c + k0 * nc) nc n b) (c' + k * nc) =
      (if c' = c \<and> k0 \<le> k \<and> k < k0 + n then word_octets (wire_sample ty (buf ! (src + (k - k0))))
       else payload_word b (c' + k * nc)))"
  using assms(3)
proof (induction n)
  case (Suc n)
  let ?b = "sample_copy_strided ty buf src (c + k0 * nc) nc n b" and ?w = "wire_sample ty (buf ! (src + n))"
  have IH: "length ?b = length b" "\<And>i. i < 52 \<Longrightarrow> ?b ! i = b ! i"
    "\<And>c' k. c' < nc \<Longrightarrow> k < N \<Longrightarrow> payload_word ?b (c' + k * nc) =
      (if c' = c \<and> k0 \<le> k \<and> k < k0 + n then word_octets (wire_sample ty (buf ! (src + (k - k0))))
       else payload_word b (c' + k * nc))"
    using Suc by auto
  have pl: "c + k0 * nc + n * nc = c + (k0 + n) * nc" by (simp add: algebra_simps)
  have fit: "52 + 4 * (c' + k * nc) + 4 \<le> length ?b" if "c' < nc" "k < N" for c' k
    using place_fits [OF that] assms(2) IH(1) by simp
  have here: "52 + 4 * (c + (k0 + n) * nc) + 4 \<le> length ?b" using fit [OF assms(1), of "k0 + n"] Suc.prems by simp
  have "payload_word (put_word (c + (k0 + n) * nc) ?w ?b) (c' + k * nc) =
      (if c' = c \<and> k0 \<le> k \<and> k < k0 + Suc n then word_octets (wire_sample ty (buf ! (src + (k - k0))))
       else payload_word b (c' + k * nc))" if "c' < nc" "k < N" for c' k
    using payload_put_word [OF here fit [OF that]] IH(3) [OF that] place_eq [OF assms(1) that(1), of "k0 + n" k]
    by auto
  then show ?case unfolding sample_copy_Suc pl using IH(1,2) header_put_word [OF here] here by simp
qed (auto simp: sample_copy_0)

lemmas sample_copy_length = sample_copy_result [THEN conjunct1]
lemmas sample_copy_header = sample_copy_result [THEN conjunct2, THEN conjunct1, rule_format]
lemmas sample_copy_payload = sample_copy_result [THEN conjunct2, THEN conjunct2, rule_format]

section \<open>The loops over the channels\<close>

text \<open>
  Every loop copies \<open>n\<close> samples of each channel, from \<open>k0\<close> on, and applies \<open>g\<close> to its FIFO. The
  channels of a stream use different FIFOs.
\<close>

definition copied :: "u32 \<Rightarrow> nat \<Rightarrow> nat \<Rightarrow> nat \<Rightarrow> nat \<Rightarrow> nat list \<Rightarrow> nat \<Rightarrow> ififo_t list \<Rightarrow> u8 list \<Rightarrow> u8 list \<Rightarrow> bool" where
  "copied ty nc N k0 n fs c0 q b b' \<longleftrightarrow>
     length b' = length b \<and> (\<forall>i < 52. b' ! i = b ! i) \<and>
     (\<forall>c < nc. \<forall>k < N. payload_word b' (c + k * nc) =
       (if c0 \<le> c \<and> c < c0 + length fs \<and> k0 \<le> k \<and> k < k0 + n
        then word_octets (wire_sample ty (if_buf (q ! (fs ! (c - c0))) ! (if_ptr (q ! (fs ! (c - c0))) + (k - k0))))
        else payload_word b (c + k * nc)))"

definition updated :: "nat list \<Rightarrow> (ififo_t \<Rightarrow> ififo_t) \<Rightarrow> ififo_t list \<Rightarrow> ififo_t list \<Rightarrow> bool" where
  "updated fs g q q' \<longleftrightarrow> length q' = length q \<and> (\<forall>f < length q. q' ! f = (if f \<in> set fs then g (q ! f) else q ! f))"

lemma updated_Nil [simp]: "updated [] g q q"
  by (simp add: updated_def)

lemma updated_Cons:
  "updated fs g (q[f := g (q ! f)]) q' \<Longrightarrow> f \<notin> set fs \<Longrightarrow> f < length q \<Longrightarrow> updated (f # fs) g q q'"
  by (auto simp: updated_def nth_list_update)

lemma copied_Nil [simp]: "copied ty nc N k0 n [] c0 q b b"
  by (auto simp: copied_def)

lemma copied_Cons:
  assumes "copied ty nc N k0 n fs (c0 + 1) (q[f := s]) b1 b'" "f \<notin> set fs" "f < length q" "set fs \<subseteq> {..<length q}"
    and b1: "b1 = sample_copy_strided ty (if_buf (q ! f)) (if_ptr (q ! f)) (c0 + k0 * nc) nc n b"
    and fit: "c0 < nc" "room nc N b" "k0 + n \<le> N"
  shows "copied ty nc N k0 n (f # fs) c0 q b b'"
proof -
  note r = sample_copy_length [OF fit, of ty "if_buf (q ! f)" "if_ptr (q ! f)", folded b1]
    sample_copy_header [OF fit, of _ ty "if_buf (q ! f)" "if_ptr (q ! f)", folded b1]
    sample_copy_payload [OF fit, of _ _ ty "if_buf (q ! f)" "if_ptr (q ! f)", folded b1]
  have same: "q[f := s] ! (fs ! (c - (c0 + 1))) = q ! ((f # fs) ! (c - c0))"
    if "c0 + 1 \<le> c" "c < c0 + 1 + length fs" for c
  proof -
    have "c - c0 = Suc (c - (c0 + 1))" "c - (c0 + 1) < length fs" using that by auto
    then have "(f # fs) ! (c - c0) \<in> set fs" "fs ! (c - (c0 + 1)) = (f # fs) ! (c - c0)" by auto
    then show ?thesis using assms(2) by (metis nth_list_update_neq)
  qed
  show ?thesis unfolding copied_def
  proof (intro conjI allI impI)
    show "length b' = length b" using assms(1) r(1) by (simp add: copied_def)
    show "b' ! i = b ! i" if "i < 52" for i using assms(1) r(2) that by (simp add: copied_def)
    fix c k assume ck: "c < nc" "k < N"
    have p: "payload_word b' (c + k * nc) =
       (if c0 + 1 \<le> c \<and> c < c0 + 1 + length fs \<and> k0 \<le> k \<and> k < k0 + n
        then word_octets (wire_sample ty (if_buf (q[f := s] ! (fs ! (c - (c0 + 1)))) !
          (if_ptr (q[f := s] ! (fs ! (c - (c0 + 1)))) + (k - k0))))
        else payload_word b1 (c + k * nc))"
      using assms(1) ck unfolding copied_def by blast
    show "payload_word b' (c + k * nc) =
       (if c0 \<le> c \<and> c < c0 + length (f # fs) \<and> k0 \<le> k \<and> k < k0 + n
        then word_octets (wire_sample ty (if_buf (q ! ((f # fs) ! (c - c0))) ! (if_ptr (q ! ((f # fs) ! (c - c0))) + (k - k0))))
        else payload_word b (c + k * nc))"
    proof (cases "c = c0")
      case True
      then show ?thesis unfolding p using r(3) [OF ck] by auto
    next
      case False
      then show ?thesis unfolding p using r(3) [OF ck] same [of c] by auto
    qed
  qed
qed

lemma copy_channels_result:
  "copy_channels ty nc n fs (c0 + k0 * nc) b q = (b', q') \<Longrightarrow> distinct fs \<Longrightarrow> set fs \<subseteq> {..<length q} \<Longrightarrow>
     c0 + length fs \<le> nc \<Longrightarrow> room nc N b \<Longrightarrow> k0 + n \<le> N \<Longrightarrow>
     copied ty nc N k0 n fs c0 q b b' \<and> updated fs (\<lambda>s. s\<lparr>if_ptr := if_ptr s + n\<rparr>) q q'"
proof (induction fs arbitrary: c0 b q)
  case (Cons f fs)
  let ?b = "sample_copy_strided ty (if_buf (q ! f)) (if_ptr (q ! f)) (c0 + k0 * nc) nc n b"
  let ?g = "\<lambda>s. s\<lparr>if_ptr := if_ptr s + n\<rparr>"
  have e: "copy_channels ty nc n fs (c0 + 1 + k0 * nc) ?b (q[f := ?g (q ! f)]) = (b', q')"
    using Cons.prems(1) by (simp add: Let_def media_input_fifo_get_ptr_def media_input_fifo_set_ptr_def)
  have c: "c0 < nc" using Cons.prems by simp
  have "copied ty nc N k0 n fs (c0 + 1) (q[f := ?g (q ! f)]) ?b b' \<and> updated fs ?g (q[f := ?g (q ! f)]) q'"
    using Cons.prems sample_copy_length [OF c Cons.prems(5,6)] by (intro Cons.IH [OF e]) auto
  then show ?case using copied_Cons [OF _ _ _ _ refl c Cons.prems(5,6)] updated_Cons Cons.prems by auto
qed simp

text \<open>What \<open>next_channels\<close> and \<open>open_channels\<close> do to a FIFO.\<close>

definition to_packet :: "ififo_t \<Rightarrow> ififo_t" where
  "to_packet s = (case media_input_fifo_get_packet s of Some (t, d, p) \<Rightarrow> s\<lparr>if_ptr := p\<rparr> | None \<Rightarrow> s)"

definition to_next :: "ififo_t \<Rightarrow> ififo_t" where
  "to_next s = to_packet (media_input_fifo_release_packet s)"

lemma next_channels_result:
  "distinct fs \<Longrightarrow> set fs \<subseteq> {..<length q} \<Longrightarrow> c0 + length fs \<le> nc \<Longrightarrow> room nc N b \<Longrightarrow> k0 + n \<le> N \<Longrightarrow>
     (\<And>f. f \<in> set fs \<Longrightarrow> media_input_fifo_get_packet (media_input_fifo_release_packet (q ! f)) \<noteq> None) \<Longrightarrow>
     \<exists>ts d b' q'. next_channels ty nc n fs (c0 + k0 * nc) a b q = Some ((ts, d), b', q') \<and>
       copied ty nc N k0 n fs c0 q b b' \<and> updated fs to_next q q' \<and>
       (if fs = [] then (ts, d) = a
        else \<exists>p. media_input_fifo_get_packet (media_input_fifo_release_packet (q ! last fs)) = Some (ts, d, p))"
proof (induction fs arbitrary: c0 b q a)
  case (Cons f fs)
  let ?b = "sample_copy_strided ty (if_buf (q ! f)) (if_ptr (q ! f)) (c0 + k0 * nc) nc n b"
  obtain t d p where g: "media_input_fifo_get_packet (media_input_fifo_release_packet (q ! f)) = Some (t, d, p)"
    using Cons.prems(6) [of f] by (auto simp: prod_cases3)
  have n: "to_next (q ! f) = media_input_fifo_set_ptr p (media_input_fifo_release_packet (q ! f))"
    by (simp add: to_next_def to_packet_def g media_input_fifo_set_ptr_def)
  let ?q = "q[f := to_next (q ! f)]"
  have c: "c0 < nc" using Cons.prems by simp
  have fs: "f \<notin> set fs" "distinct fs" "f < length q" "set fs \<subseteq> {..<length q}" using Cons.prems by auto
  have e: "next_channels ty nc n (f # fs) (c0 + k0 * nc) a b q = next_channels ty nc n fs (c0 + 1 + k0 * nc) (t, d) ?b ?q"
    by (simp add: Let_def media_input_fifo_get_ptr_def g n)
  have other: "?q ! f' = q ! f'" if "f' \<in> set fs" for f' using that fs(1) by (metis nth_list_update_neq)
  obtain ts d' b' q' where r: "next_channels ty nc n fs (c0 + 1 + k0 * nc) (t, d) ?b ?q = Some ((ts, d'), b', q')"
    "copied ty nc N k0 n fs (c0 + 1) ?q ?b b'" "updated fs to_next ?q q'"
    "if fs = [] then (ts, d') = (t, d)
      else \<exists>p. media_input_fifo_get_packet (media_input_fifo_release_packet (?q ! last fs)) = Some (ts, d', p)"
    using Cons.IH [of ?q "c0 + 1" ?b "(t, d)"] Cons.prems sample_copy_length [OF c Cons.prems(4,5)] other by auto
  have l: "\<exists>p. media_input_fifo_get_packet (media_input_fifo_release_packet (q ! last (f # fs))) = Some (ts, d', p)"
    using r(4) g other [of "last fs"] by (cases "fs = []") auto
  show ?case unfolding e r(1)
    using copied_Cons [OF r(2) fs(1,3,4) refl c Cons.prems(4,5)] updated_Cons [OF r(3) fs(1,3)] l by auto
qed (auto split: prod.splits intro: surj_pair)

lemma open_channels_result:
  "distinct fs \<Longrightarrow> set fs \<subseteq> {..<length q} \<Longrightarrow>
     (\<And>f. f \<in> set fs \<Longrightarrow> media_input_fifo_get_packet (q ! f) \<noteq> None) \<Longrightarrow>
     \<exists>ts d q'. open_channels fs a q = Some ((ts, d), q') \<and> updated fs to_packet q q' \<and>
       (if fs = [] then (ts, d) = a else \<exists>p. media_input_fifo_get_packet (q ! last fs) = Some (ts, d, p))"
proof (induction fs arbitrary: q a)
  case (Cons f fs)
  obtain t d p where g: "media_input_fifo_get_packet (q ! f) = Some (t, d, p)"
    using Cons.prems(3) [of f] by (auto simp: prod_cases3)
  have n: "to_packet (q ! f) = media_input_fifo_set_ptr p (q ! f)"
    by (simp add: to_packet_def g media_input_fifo_set_ptr_def)
  let ?q = "q[f := to_packet (q ! f)]"
  have fs: "f \<notin> set fs" "distinct fs" "f < length q" "set fs \<subseteq> {..<length q}" using Cons.prems by auto
  have e: "open_channels (f # fs) a q = open_channels fs (t, d) ?q" by (simp add: g n)
  have other: "?q ! f' = q ! f'" if "f' \<in> set fs" for f' using that fs(1) by (metis nth_list_update_neq)
  obtain ts d' q' where r: "open_channels fs (t, d) ?q = Some ((ts, d'), q')" "updated fs to_packet ?q q'"
    "if fs = [] then (ts, d') = (t, d) else \<exists>p. media_input_fifo_get_packet (?q ! last fs) = Some (ts, d', p)"
    using Cons.IH [of ?q "(t, d)"] Cons.prems other by auto
  have l: "\<exists>p. media_input_fifo_get_packet (q ! last (f # fs)) = Some (ts, d', p)"
    using r(3) g other [of "last fs"] by (cases "fs = []") auto
  show ?case unfolding e r(1) using updated_Cons [OF r(2) fs(1,3)] l by auto
qed (auto split: prod.splits intro: surj_pair)

section \<open>The samples of a channel\<close>

text \<open>
  The samples that wait in the packets of a FIFO, and a cursor: \<open>D\<close> samples of the first packet
  have been taken and the pointer of the FIFO is at the next one.
\<close>

definition samples_of :: "ififo_packet list \<Rightarrow> u32 list" where
  "samples_of ps = concat (map (snd \<circ> snd) ps)"

definition waiting :: "nat \<Rightarrow> nat \<Rightarrow> ififo_t \<Rightarrow> nat \<Rightarrow> u32 list" where
  "waiting r w s D = drop D (samples_of (ififo_queue r w s))"

definition cursor :: "nat \<Rightarrow> nat \<Rightarrow> nat \<Rightarrow> ififo_t \<Rightarrow> nat \<Rightarrow> bool" where
  "cursor S r w s D \<longleftrightarrow> ififo_at r w s \<and> if_packetSize s = int S + 2 \<and> ififo_queue r w s \<noteq> [] \<and> D \<le> S \<and>
     if_ptr s = r * (S + 2) + 2 + D"

lemma ififo_at_ptr [simp]: "ififo_at r w (s\<lparr>if_ptr := p\<rparr>) = ififo_at r w s"
  by (simp add: ififo_fields)

lemma ififo_queue_ptr [simp]: "ififo_queue r w (s\<lparr>if_ptr := p\<rparr>) = ififo_queue r w s"
  by (simp add: ififo_queue_def ififo_slots_def ififo_slot_def)

lemma waiting_ptr [simp]: "waiting r w (s\<lparr>if_ptr := p\<rparr>) D = waiting r w s D"
  by (simp add: waiting_def)

lemma slot_samples: "if_packetSize s = int S + 2 \<Longrightarrow>
    snd (snd (ififo_slot s j)) = map (\<lambda>i. if_buf s ! (j * (S + 2) + 2 + i)) [0..<S]"
proof -
  assume "if_packetSize s = int S + 2"
  then have "nat (if_packetSize s) = S + 2" by simp
  then show ?thesis by (simp add: ififo_slot_def Let_def)
qed

lemma samples_first:
  assumes "ififo_at r w s" "if_packetSize s = int S + 2" "ififo_queue r w s \<noteq> []"
  shows "samples_of (ififo_queue r w s) =
    map (\<lambda>i. if_buf s ! (r * (S + 2) + 2 + i)) [0..<S] @ samples_of (ififo_queue ((r + 1) mod ififo_slots s) w s)"
  using queue_Cons [OF assms(1)] queue_empty_iff [OF assms(1)] assms(3) slot_samples [OF assms(2), of r]
  by (simp add: samples_of_def)

lemma cursor_sample:
  assumes "cursor S r w s D" "k < S - D"
  shows "waiting r w s D ! k = if_buf s ! (if_ptr s + k)"
proof -
  have "D + k < S" using assms(2) by simp
  then show ?thesis using assms samples_first [of r w s S] by (simp add: cursor_def waiting_def nth_append add.assoc)
qed

lemma cursor_length: "cursor S r w s D \<Longrightarrow> S - D \<le> length (waiting r w s D)"
  using samples_first [of r w s S] by (simp add: cursor_def waiting_def)

lemma cursor_advance:
  assumes "cursor S r w s D" "m \<le> S - D"
  shows "cursor S r w (s\<lparr>if_ptr := if_ptr s + m\<rparr>) (D + m)"
    and "waiting r w s (D + m) = drop m (waiting r w s D)"
  using assms by (auto simp: cursor_def waiting_def add.commute)

lemma to_packet_ptr: "ififo_at r w s \<Longrightarrow> ififo_queue r w s \<noteq> [] \<Longrightarrow> if_packetSize s = int S + 2 \<Longrightarrow>
    to_packet s = s\<lparr>if_ptr := r * (S + 2) + 2\<rparr>"
  using get_packet_head [of r w s] nat_int [of "S + 2"]
  by (auto simp: to_packet_def nat_add_distrib split: list.splits)

lemma cursor_start:
  assumes "ififo_at r w s" "if_packetSize s = int S + 2" "ififo_queue r w s \<noteq> []"
  shows "cursor S r w (to_packet s) 0" and "waiting r w (to_packet s) 0 = waiting r w s 0"
    and "if_buf (to_packet s) = if_buf s" and "media_input_fifo_get_packet s \<noteq> None"
  using assms to_packet_ptr [OF assms(1,3,2)] get_packet_head [OF assms(1)]
  by (auto simp: cursor_def split: list.splits)

lemma cursor_next:
  assumes "cursor S r w s D" "2 \<le> length (ififo_queue r w s)"
  shows "cursor S ((r + 1) mod ififo_slots s) w (to_next s) 0"
    and "waiting ((r + 1) mod ififo_slots s) w (to_next s) 0 = drop (S - D) (waiting r w s D)"
    and "if_buf (to_next s) = if_buf s"
    and "media_input_fifo_get_packet (media_input_fifo_release_packet s) \<noteq> None"
    and "length (ififo_queue ((r + 1) mod ififo_slots s) w (to_next s)) = length (ififo_queue r w s) - 1"
proof -
  let ?r = "(r + 1) mod ififo_slots s" and ?s = "media_input_fifo_release_packet s"
  have c: "ififo_at r w s" "if_packetSize s = int S + 2" "ififo_queue r w s \<noteq> []" "D \<le> S"
    using assms(1) by (auto simp: cursor_def)
  note rel = release_packet_at [OF c(1)]
  have q: "ififo_queue r w s = ififo_slot s r # ififo_queue ?r w s"
    using queue_Cons [OF c(1)] queue_empty_iff [OF c(1)] c(3) by blast
  then have ne: "ififo_queue ?r w ?s \<noteq> []" using assms(2) rel(2) by (cases "ififo_queue ?r w s") auto
  have p: "if_packetSize ?s = int S + 2" "if_buf ?s = if_buf s"
    using c(2) by (auto simp: media_input_fifo_release_packet_def split: option.splits)
  note st = cursor_start [OF rel(1) p(1) ne]
  show "cursor S ?r w (to_next s) 0" unfolding to_next_def by (rule st(1))
  show "if_buf (to_next s) = if_buf s" unfolding to_next_def using st(3) p(2) by simp
  show "media_input_fifo_get_packet ?s \<noteq> None" by (rule st(4))
  show "waiting ?r w (to_next s) 0 = drop (S - D) (waiting r w s D)"
    unfolding to_next_def st(2) using samples_first [OF c(1,2,3)] c(4) rel(2) by (simp add: waiting_def)
  show "length (ififo_queue ?r w (to_next s)) = length (ififo_queue r w s) - 1"
    unfolding to_next_def to_packet_ptr [OF rel(1) ne p(1)] ififo_queue_ptr rel(2) q by simp
qed

lemma length_concat_same: "(\<And>x. x \<in> set xs \<Longrightarrow> length (f x) = n) \<Longrightarrow> length (concat (map f xs)) = length xs * n"
  by (induction xs) auto

lemma samples_of_length:
  assumes "if_packetSize s = int S + 2"
  shows "length (samples_of (ififo_queue r w s)) = length (ififo_queue r w s) * S"
  unfolding samples_of_def using slot_samples [OF assms]
  by (intro length_concat_same) (auto simp: ififo_queue_def Let_def)

section \<open>A packet\<close>

definition channels_at ::
  "nat \<Rightarrow> nat list \<Rightarrow> ififo_t list \<Rightarrow> (nat \<Rightarrow> nat) \<Rightarrow> (nat \<Rightarrow> nat) \<Rightarrow> nat \<Rightarrow> bool" where
  "channels_at S fs q rs ws D \<longleftrightarrow> (\<forall>c < length fs. cursor S (rs c) (ws c) (q ! (fs ! c)) D)"

lemma updated_nth: "updated fs g q q' \<Longrightarrow> set fs \<subseteq> {..<length q} \<Longrightarrow> c < length fs \<Longrightarrow> q' ! (fs ! c) = g (q ! (fs ! c))"
  unfolding updated_def by (metis lessThan_iff nth_mem subsetD)

text \<open>The last pass: \<open>m\<close> samples of every channel behind the \<open>k0\<close> that are there already.\<close>

lemma finish_pass:
  assumes fs: "length fs = nc" "distinct fs" "set fs \<subseteq> {..<length q}"
    and cur: "channels_at S fs q rs ws D" and m: "m \<le> S - D" "k0 + m \<le> N" "room nc N b"
    and e: "copy_channels ty nc m fs (k0 * nc) b q = (b', q')"
  shows "length b' = length b \<and> (\<forall>i < 52. b' ! i = b ! i) \<and> length q' = length q"
    and "channels_at S fs q' rs ws (D + m)"
    and "c < nc \<Longrightarrow> if_buf (q' ! (fs ! c)) = if_buf (q ! (fs ! c))"
    and "c < nc \<Longrightarrow> waiting (rs c) (ws c) (q' ! (fs ! c)) (D + m) = drop m (waiting (rs c) (ws c) (q ! (fs ! c)) D)"
    and "c < nc \<Longrightarrow> k < k0 + m \<Longrightarrow> payload_word b' (c + k * nc) =
      (if k0 \<le> k then word_octets (wire_sample ty (waiting (rs c) (ws c) (q ! (fs ! c)) D ! (k - k0)))
       else payload_word b (c + k * nc))"
proof -
  have r: "copied ty nc N k0 m fs 0 q b b'" "updated fs (\<lambda>s. s\<lparr>if_ptr := if_ptr s + m\<rparr>) q q'"
    using copy_channels_result [of ty nc m fs 0 k0 b q b' q' N] e fs m by auto
  show "length b' = length b \<and> (\<forall>i < 52. b' ! i = b ! i) \<and> length q' = length q"
    using r by (auto simp: copied_def updated_def)
  have c: "cursor S (rs c) (ws c) (q ! (fs ! c)) D" if "c < nc" for c using cur fs(1) that by (simp add: channels_at_def)
  note n = updated_nth [OF r(2) fs(3)]
  show "channels_at S fs q' rs ws (D + m)"
    unfolding channels_at_def using cursor_advance(1) [OF c m(1)] n fs(1) by simp
  show "if_buf (q' ! (fs ! c)) = if_buf (q ! (fs ! c))" if "c < nc" for c using n that fs(1) by simp
  show "waiting (rs c) (ws c) (q' ! (fs ! c)) (D + m) = drop m (waiting (rs c) (ws c) (q ! (fs ! c)) D)" if "c < nc" for c
    using n that fs(1) cursor_advance(2) [OF c [OF that] m(1)] by simp
  show "payload_word b' (c + k * nc) =
      (if k0 \<le> k then word_octets (wire_sample ty (waiting (rs c) (ws c) (q ! (fs ! c)) D ! (k - k0)))
       else payload_word b (c + k * nc))" if "c < nc" "k < k0 + m" for c k
  proof -
    have "payload_word b' (c + k * nc) = (if k0 \<le> k
       then word_octets (wire_sample ty (if_buf (q ! (fs ! c)) ! (if_ptr (q ! (fs ! c)) + (k - k0))))
       else payload_word b (c + k * nc))"
      using r(1) that m(2) fs(1) by (auto simp: copied_def)
    then show ?thesis using cursor_sample [OF c [OF that(1)], of "k - k0"] that(2) m(1) by auto
  qed
qed

text \<open>
  The result of the payload step on a stream whose channels are at the cursor \<open>D\<close>: every channel
  has moved on by \<open>n\<close> samples, and these are in the packet.
\<close>

definition payload_done ::
  "u32 \<Rightarrow> nat \<Rightarrow> nat \<Rightarrow> talker_stream \<Rightarrow> ififo_t list \<Rightarrow> (nat \<Rightarrow> nat) \<Rightarrow> (nat \<Rightarrow> nat) \<Rightarrow> nat \<Rightarrow> u8 list \<Rightarrow>
     u8 list \<Rightarrow> talker_stream \<Rightarrow> ififo_t list \<Rightarrow> (nat \<Rightarrow> nat) \<Rightarrow> bool" where
  "payload_done ty S n st q rs ws D b b' st' q' rs' \<longleftrightarrow>
     (let fs = tk_channels st; nc = length fs; l = tk_samples_left st' in
      st' = st\<lparr>tk_initial := False, tk_dbc_at_start := tk_dbc_at_start st', tk_samples_left := l\<rparr> \<and> unat l \<le> S \<and>
      channels_at S fs q' rs' ws (S - unat l) \<and>
      (\<forall>c < nc. waiting (rs' c) (ws c) (q' ! (fs ! c)) (S - unat l) = drop n (waiting (rs c) (ws c) (q ! (fs ! c)) D)) \<and>
      length b' = length b \<and> (\<forall>i < 52. b' ! i = b ! i) \<and> length q' = length q \<and>
      (\<forall>c < nc. if_buf (q' ! (fs ! c)) = if_buf (q ! (fs ! c)) \<and>
        n \<le> length (waiting (rs c) (ws c) (q ! (fs ! c)) D) \<and>
        (\<forall>k < n. payload_word b' (c + k * nc) = word_octets (wire_sample ty (waiting (rs c) (ws c) (q ! (fs ! c)) D ! k)))))"

lemma payload_initial:
  assumes fs: "tk_channels st = fs" "length fs = nc" "unat (tk_num_channels st) = nc" "0 < nc" "distinct fs" "set fs \<subseteq> {..<length q}"
    and S: "unat (tk_samples_per_fifo_packet st) = S" "unat n \<le> S" and b: "room nc S b" and i: "tk_initial st"
    and at: "\<And>c. c < nc \<Longrightarrow> ififo_at (rs c) (ws c) (q ! (fs ! c)) \<and> if_packetSize (q ! (fs ! c)) = int S + 2 \<and>
      ififo_queue (rs c) (ws c) (q ! (fs ! c)) \<noteq> []"
  shows "\<exists>pt dbc b' st' q'. talker_payload ty n b st q = Some (pt, dbc, b', st', q') \<and>
    payload_done ty S (unat n) st q rs ws 0 b b' st' q' rs"
proof -
  note start = cursor_start [OF at [THEN conjunct1] at [THEN conjunct2, THEN conjunct1] at [THEN conjunct2, THEN conjunct2]]
  have "media_input_fifo_get_packet (q ! f) \<noteq> None" if "f \<in> set fs" for f
    using that start(4) fs(2) by (auto simp: in_set_conv_nth)
  then obtain ts d q1 where o: "open_channels fs (0, tk_dbc_at_start st) q = Some ((ts, d), q1)" "updated fs to_packet q q1"
    using open_channels_result [OF fs(5,6)] by blast
  note n1 = updated_nth [OF o(2) fs(6)]
  have q1: "set fs \<subseteq> {..<length q1}" "length q1 = length q" using o(2) fs(6) by (auto simp: updated_def)
  have c1: "channels_at S fs q1 rs ws 0" using start(1) n1 fs(2) by (simp add: channels_at_def)
  obtain b' q' where e: "copy_channels ty nc (unat n) fs (0 * nc) b q1 = (b', q')" by force
  have m: "unat n \<le> S - 0" "0 + unat n \<le> S" using S(2) by auto
  note f = finish_pass [OF fs(2,5) q1(1) c1 m b e, unfolded add_0 diff_zero]
  let ?l = "tk_samples_per_fifo_packet st - n"
  have le: "n \<le> tk_samples_per_fifo_packet st" using S by (simp add: word_le_nat_alt)
  then have l: "unat ?l = S - unat n" "S - unat ?l = unat n" using S by (auto simp: unat_sub)
  let ?st = "st\<lparr>tk_initial := False, tk_dbc_at_start := d, tk_samples_left := ?l\<rparr>"
  have sel: "tk_samples_left ?st = ?l" "tk_dbc_at_start ?st = d" by simp_all
  have r: "talker_payload ty n b st q = Some (Some ts, d, b', ?st, q')"
    using e by (simp add: talker_payload_def Let_def i fs(1,3) o(1))
  have "payload_done ty S (unat n) st q rs ws 0 b b' ?st q' rs"
    unfolding payload_done_def Let_def fs(1,2) sel
  proof (intro conjI allI impI)
    show "unat ?l \<le> S" unfolding l by simp
    show "channels_at S fs q' rs ws (S - unat ?l)" unfolding l(2) by (rule f(2))
    show "n' < 52 \<Longrightarrow> b' ! n' = b ! n'" for n' using f(1) by blast
    show "length q' = length q" "length b' = length b" using f(1) q1(2) by auto
    fix c assume c: "c < nc"
    note w = start(2) [OF c c c]
    show "waiting (rs c) (ws c) (q' ! (fs ! c)) (S - unat ?l) = drop (unat n) (waiting (rs c) (ws c) (q ! (fs ! c)) 0)"
      unfolding l(2) using f(4) [OF c] n1 c fs(2) w by simp
    show "if_buf (q' ! (fs ! c)) = if_buf (q ! (fs ! c))" using f(3) [OF c] n1 c fs(2) start(3) [OF c c c] by simp
    show "unat n \<le> length (waiting (rs c) (ws c) (q ! (fs ! c)) 0)"
      using cursor_length [OF start(1) [OF c c c]] S(2) w by simp
    show "payload_word b' (c + k * nc) = word_octets (wire_sample ty (waiting (rs c) (ws c) (q ! (fs ! c)) 0 ! k))" if "k < unat n" for k
      using f(5) [OF c that] n1 c fs(2) w by simp
  qed simp
  with r show ?thesis by blast
qed

lemma payload_within:
  assumes fs: "tk_channels st = fs" "length fs = nc" "unat (tk_num_channels st) = nc" "0 < nc" "distinct fs" "set fs \<subseteq> {..<length q}"
    and S: "unat n \<le> S" "unat (tk_samples_left st) \<le> S" and b: "room nc S b"
    and i: "\<not> tk_initial st" "\<not> tk_samples_left st < n"
    and cur: "channels_at S fs q rs ws (S - unat (tk_samples_left st))"
  shows "\<exists>pt dbc b' st' q'. talker_payload ty n b st q = Some (pt, dbc, b', st', q') \<and>
    payload_done ty S (unat n) st q rs ws (S - unat (tk_samples_left st)) b b' st' q' rs"
proof -
  let ?L = "tk_samples_left st" and ?l = "tk_samples_left st - n"
  obtain b' q' where e: "copy_channels ty nc (unat n) fs (0 * nc) b q = (b', q')" by force
  have nl: "unat n \<le> unat ?L" using i(2) by (simp add: word_le_nat_alt not_less)
  then have m: "unat n \<le> S - (S - unat ?L)" "0 + unat n \<le> S" using S by auto
  note f = finish_pass [OF fs(2,5,6) cur m b e, unfolded add_0 diff_zero]
  have l: "unat ?l = unat ?L - unat n" "S - unat ?l = S - unat ?L + unat n"
    using nl S(2) by (auto simp: unat_sub word_le_nat_alt)
  let ?st = "st\<lparr>tk_samples_left := ?l\<rparr>"
  have sel: "tk_samples_left ?st = ?l" "tk_dbc_at_start ?st = tk_dbc_at_start st" by simp_all
  have "\<exists>dbc. talker_payload ty n b st q = Some (None, dbc, b', ?st, q')"
    using e by (simp add: talker_payload_def Let_def i fs(1,3))
  moreover have "payload_done ty S (unat n) st q rs ws (S - unat ?L) b b' ?st q' rs"
    unfolding payload_done_def Let_def fs(1,2) sel
  proof (intro conjI allI impI)
    show "?st = st\<lparr>tk_initial := False, tk_dbc_at_start := tk_dbc_at_start st, tk_samples_left := ?l\<rparr>"
      using i(1) by simp
    show "unat ?l \<le> S" unfolding l using S(2) by simp
    show "channels_at S fs q' rs ws (S - unat ?l)" unfolding l(2) by (rule f(2))
    show "n' < 52 \<Longrightarrow> b' ! n' = b ! n'" for n' using f(1) by blast
    show "length q' = length q" "length b' = length b" using f(1) by auto
    fix c assume c: "c < nc"
    have cc: "cursor S (rs c) (ws c) (q ! (fs ! c)) (S - unat ?L)" using cur c fs(2) by (simp add: channels_at_def)
    show "waiting (rs c) (ws c) (q' ! (fs ! c)) (S - unat ?l) = drop (unat n) (waiting (rs c) (ws c) (q ! (fs ! c)) (S - unat ?L))"
      unfolding l(2) by (rule f(4) [OF c])
    show "if_buf (q' ! (fs ! c)) = if_buf (q ! (fs ! c))" by (rule f(3) [OF c])
    show "unat n \<le> length (waiting (rs c) (ws c) (q ! (fs ! c)) (S - unat ?L))"
      using cursor_length [OF cc] m(1) by linarith
    show "payload_word b' (c + k * nc) = word_octets (wire_sample ty (waiting (rs c) (ws c) (q ! (fs ! c)) (S - unat ?L) ! k))"
      if "k < unat n" for k
      using f(5) [OF c that] by simp
  qed
  ultimately show ?thesis by blast
qed

lemma refill_offset: "nat (int nc + (int l - 1) * int nc) = l * nc"
proof -
  have "int nc + (int l - 1) * int nc = int (l * nc)" by (simp add: algebra_simps)
  then show ?thesis by (simp only: nat_int)
qed

lemma refill_offset_word: "nat (int nc + (uint l - 1) * int nc) = unat (l :: u32) * nc"
  using refill_offset [of nc "unat l"] by simp

lemma payload_refill:
  assumes fs: "tk_channels st = fs" "length fs = nc" "unat (tk_num_channels st) = nc" "0 < nc" "distinct fs" "set fs \<subseteq> {..<length q}"
    and S: "unat n \<le> S" "unat (tk_samples_per_fifo_packet st) = S" and b: "room nc S b"
    and i: "\<not> tk_initial st" "tk_samples_left st < n"
    and cur: "channels_at S fs q rs ws (S - unat (tk_samples_left st))"
    and two: "\<And>c. c < nc \<Longrightarrow> 2 \<le> length (ififo_queue (rs c) (ws c) (q ! (fs ! c)))"
  shows "\<exists>pt dbc b' st' q' rs'. talker_payload ty n b st q = Some (pt, dbc, b', st', q') \<and>
    payload_done ty S (unat n) st q rs ws (S - unat (tk_samples_left st)) b b' st' q' rs'"
proof -
  let ?L = "tk_samples_left st"
  let ?D = "S - unat ?L" and ?m = "n - ?L"
  have Ln: "unat ?L < unat n" using i(2) by (simp add: word_less_nat_alt)
  then have D: "S - ?D = unat ?L" "unat ?m = unat n - unat ?L" using S(1) by (auto simp: unat_sub word_le_nat_alt)
  have cc: "cursor S (rs c) (ws c) (q ! (fs ! c)) ?D" if "c < nc" for c using cur that fs(2) by (simp add: channels_at_def)
  note nxt = cursor_next [OF cc two]
  have "media_input_fifo_get_packet (media_input_fifo_release_packet (q ! f)) \<noteq> None" if "f \<in> set fs" for f
    using that nxt(4) fs(2) by (auto simp: in_set_conv_nth)
  then have "\<exists>ts d b1 q1. next_channels ty nc (unat ?L) fs (0 + 0 * nc) (0, tk_dbc_at_start st) b q = Some ((ts, d), b1, q1) \<and>
      copied ty nc S 0 (unat ?L) fs 0 q b b1 \<and> updated fs to_next q q1 \<and>
      (if fs = [] then (ts, d) = (0, tk_dbc_at_start st)
       else \<exists>p. media_input_fifo_get_packet (media_input_fifo_release_packet (q ! last fs)) = Some (ts, d, p))"
    using fs(2) b Ln S(1) by (intro next_channels_result [OF fs(5,6)]) auto
  then obtain ts d b1 q1 where o: "next_channels ty nc (unat ?L) fs (0 + 0 * nc) (0, tk_dbc_at_start st) b q = Some ((ts, d), b1, q1)"
    "copied ty nc S 0 (unat ?L) fs 0 q b b1" "updated fs to_next q q1"
    by blast
  let ?rs = "\<lambda>c. (rs c + 1) mod ififo_slots (q ! (fs ! c))"
  note n1 = updated_nth [OF o(3) fs(6)]
  have q1: "set fs \<subseteq> {..<length q1}" "length q1 = length q" using o(3) fs(6) by (auto simp: updated_def)
  have c1: "channels_at S fs q1 ?rs ws 0" using nxt(1) n1 fs(2) by (simp add: channels_at_def)
  have b1: "room nc S b1" using b o(2) by (simp add: copied_def)
  obtain b' q' where e: "copy_channels ty nc (unat ?m) fs (unat ?L * nc) b1 q1 = (b', q')" by force
  have m: "unat ?m \<le> S - 0" "unat ?L + unat ?m \<le> S" using D Ln S(1) by auto
  note f = finish_pass [OF fs(2,5) q1(1) c1 m b1 e, unfolded add_0]
  let ?l = "tk_samples_per_fifo_packet st - ?m"
  have "?m \<le> tk_samples_per_fifo_packet st" using S m by (simp add: word_le_nat_alt)
  then have l: "unat ?l = S - unat ?m" "S - unat ?l = unat ?m" using S m by (auto simp: unat_sub)
  let ?st = "st\<lparr>tk_dbc_at_start := d, tk_samples_left := ?l\<rparr>"
  have sel: "tk_samples_left ?st = ?l" "tk_dbc_at_start ?st = d" by simp_all
  have "\<exists>pt dbc. talker_payload ty n b st q = Some (pt, dbc, b', ?st, q')"
    using e o(1) i fs(2,4) by (auto simp add: talker_payload_def Let_def fs(1,3) refill_offset_word)
  moreover have "payload_done ty S (unat n) st q rs ws ?D b b' ?st q' ?rs"
    unfolding payload_done_def Let_def fs(1,2) sel
  proof (intro conjI allI impI)
    show "?st = st\<lparr>tk_initial := False, tk_dbc_at_start := d, tk_samples_left := ?l\<rparr>" using i(1) by simp
    show "unat ?l \<le> S" unfolding l by simp
    show "channels_at S fs q' ?rs ws (S - unat ?l)" unfolding l(2) by (rule f(2))
    show "n' < 52 \<Longrightarrow> b' ! n' = b ! n'" for n' using f(1) o(2) by (simp add: copied_def)
    show "length q' = length q" "length b' = length b" using f(1) q1(2) o(2) by (auto simp: copied_def)
    fix c assume c: "c < nc"
    let ?w = "waiting (rs c) (ws c) (q ! (fs ! c)) ?D"
    have w: "waiting (?rs c) (ws c) (q1 ! (fs ! c)) 0 = drop (unat ?L) ?w"
      using nxt(2) [OF c c] n1 c fs(2) D(1) by simp
    show "waiting (?rs c) (ws c) (q' ! (fs ! c)) (S - unat ?l) = drop (unat n) ?w"
      unfolding l(2) using f(4) [OF c] w D(2) Ln by simp
    show "if_buf (q' ! (fs ! c)) = if_buf (q ! (fs ! c))" using f(3) [OF c] n1 c fs(2) nxt(3) [OF c c] by simp
    have "S - 0 \<le> length (drop (unat ?L) ?w)"
      using cursor_length [of S "?rs c" "ws c" "q1 ! (fs ! c)" 0] c1 c fs(2) w by (simp add: channels_at_def)
    then show le: "unat n \<le> length ?w" using m(1) D(2) Ln by simp
    show "payload_word b' (c + k * nc) = word_octets (wire_sample ty (?w ! k))" if "k < unat n" for k
    proof (cases "unat ?L \<le> k")
      case True
      have "k < unat ?L + unat ?m" using that D(2) Ln by simp
      then show ?thesis using f(5) [OF c] True w le that by simp
    next
      case False
      then have k: "k < unat ?L" "k < S" using Ln S(1) by auto
      have "payload_word b1 (c + k * nc) = word_octets (wire_sample ty (if_buf (q ! (fs ! c)) ! (if_ptr (q ! (fs ! c)) + k)))"
        using o(2) c k fs(2) by (auto simp: copied_def)
      also have "if_buf (q ! (fs ! c)) ! (if_ptr (q ! (fs ! c)) + k) = ?w ! k"
        using cursor_sample [OF cc [OF c], of k] k D(1) by simp
      finally show ?thesis using f(5) [OF c, of k] False k by simp
    qed
  qed
  ultimately show ?thesis by blast
qed

section \<open>The checks before a packet\<close>

lemma take_16_less: "take_bit 16 (r :: u32) < 2 ^ 16"
  using take_bit_nat_less_exp [of 16 "unat r"] by (simp add: word_less_nat_alt unsigned_take_bit_eq)

lemma high_half_clear: "(r :: u32) AND 0xffff0000 = 0 \<longleftrightarrow> r < 2 ^ 16"
proof
  have h: "(0xffff0000 :: u32) = NOT (mask 16)" by (simp add: mask_eq_exp_minus_1)
  assume "r AND 0xffff0000 = 0"
  then have "r = take_bit 16 r"
    unfolding h by (intro bit_word_eqI) (auto simp: bit_eq_iff bit_simps)
  then show "r < 2 ^ 16" using take_16_less [of r] by simp
next
  have h: "(0xffff0000 :: u32) = NOT (mask 16)" by (simp add: mask_eq_exp_minus_1)
  assume "r < 2 ^ 16"
  then show "r AND 0xffff0000 = 0"
    unfolding h using bit_small [of r 16] by (intro bit_word_eqI) (auto simp: bit_simps)
qed

lemma low_half: "(r :: u32) AND 0xffff < 2 ^ 16"
proof -
  have "(0xffff :: u32) = mask 16" by (simp add: mask_eq_exp_minus_1)
  then show ?thesis using take_16_less [of r] by (simp add: take_bit_eq_mask)
qed

lemma packet_samples_result:
  assumes "packet_samples st = (n, st')" "tk_rem st < 2 ^ 16"
  shows "st' = st\<lparr>tk_rem := tk_rem st'\<rparr> \<and> tk_rem st' < 2 ^ 16 \<and>
    (n = tk_samples_per_packet_base st \<or> n = tk_samples_per_packet_base st + 1 \<and> tk_samples_per_packet_fractional st \<noteq> 0)"
  using assms high_half_clear [of "tk_rem st + tk_samples_per_packet_fractional st"]
    low_half [of "tk_rem st + tk_samples_per_packet_fractional st"] high_half_clear [of "tk_rem st"]
  by (auto simp: packet_samples_def Let_def split: if_splits)

lemma fill_words:
  assumes "l * S < 2 ^ 32" "2 * S < 2 ^ 32" "0 < S" "unat spf = S"
  shows "word_of_int (int l * int S) < 2 * (spf :: u32) \<longleftrightarrow> l < 2"
proof -
  have "unat (word_of_int (int l * int S) :: u32) = l * S"
    using assms(1) by (simp add: unsigned_of_nat take_bit_nat_eq_self flip: of_nat_mult)
  moreover have "unat (2 * spf) = 2 * S" using assms(2,4) by (simp add: unat_word_ariths)
  ultimately show ?thesis using assms(3) by (simp add: word_less_nat_alt)
qed

lemma enough_data_result:
  assumes "\<And>f. f \<in> set fs \<Longrightarrow> media_input_fifo_fill_level (q ! f) = Some (int (lv f) * int S) \<and> lv f * S < 2 ^ 32"
    and "2 * S < 2 ^ 32" "0 < S" "unat (tk_samples_per_fifo_packet st) = S"
  shows "enough_data st n fs q = Some ((tk_initial st \<or> tk_samples_left st < n) \<longrightarrow> (\<forall>f \<in> set fs. 2 \<le> lv f))"
  using assms(1)
proof (induction fs)
  case (Cons f fs)
  then have "enough_data st n fs q = Some ((tk_initial st \<or> tk_samples_left st < n) \<longrightarrow> (\<forall>f \<in> set fs. 2 \<le> lv f))" by simp
  moreover have "media_input_fifo_fill_level (q ! f) = Some (int (lv f) * int S)" "lv f * S < 2 ^ 32"
    using Cons.prems by auto
  ultimately show ?case using fill_words [OF _ assms(2-4), of "lv f"] by (auto simp: not_less)
qed simp

text \<open>
  A stream that is set up: its channels use different FIFOs with packets of \<open>spf\<close> samples, a
  packet on the wire is no longer than one in the FIFO, and once the stream is running every FIFO is
  at the cursor of the stream. \<open>rs\<close> and \<open>ws\<close> are the positions of the FIFOs.
\<close>

definition talker_ok :: "talker_stream \<Rightarrow> ififo_t list \<Rightarrow> (nat \<Rightarrow> nat) \<Rightarrow> (nat \<Rightarrow> nat) \<Rightarrow> bool" where
  "talker_ok st q rs ws \<longleftrightarrow>
     (let fs = tk_channels st; S = unat (tk_samples_per_fifo_packet st); L = unat (tk_samples_left st) in
      0 < length fs \<and> length fs < 256 \<and> unat (tk_num_channels st) = length fs \<and> distinct fs \<and> set fs \<subseteq> {..<length q} \<and>
      0 < tk_samples_per_packet_base st \<and>
      unat (tk_samples_per_packet_base st) + (if tk_samples_per_packet_fractional st = 0 then 0 else 1) \<le> S \<and>
      tk_rem st < 2 ^ 16 \<and> (\<not> tk_initial st \<longrightarrow> L \<le> S \<and> channels_at S fs q rs ws (S - L)) \<and>
      (\<forall>c < length fs. ififo_at (rs c) (ws c) (q ! (fs ! c)) \<and> if_packetSize (q ! (fs ! c)) = int S + 2 \<and>
        length (if_buf (q ! (fs ! c))) \<le> 2 ^ 16))"

text \<open>The samples that wait for channel \<open>c\<close>.\<close>

definition channel_waiting :: "talker_stream \<Rightarrow> ififo_t list \<Rightarrow> (nat \<Rightarrow> nat) \<Rightarrow> (nat \<Rightarrow> nat) \<Rightarrow> nat \<Rightarrow> u32 list" where
  "channel_waiting st q rs ws c =
     waiting (rs c) (ws c) (q ! (tk_channels st ! c))
       (if tk_initial st then 0 else unat (tk_samples_per_fifo_packet st) - unat (tk_samples_left st))"

lemma channel_level_bound:
  assumes "ififo_at r w s" "if_packetSize s = int S + 2" "length (if_buf s) \<le> 2 ^ 16"
  shows "length (ififo_queue r w s) * S < 2 ^ 32" "2 * S < 2 ^ 32" "0 < S"
proof -
  have "nat (int S + 2) = S + 2" by simp
  then have S: "0 < S" "S < length (if_buf s)" "r < ififo_slots s" using assms(1,2) by (simp_all add: ififo_at_def)
  then show "2 * S < 2 ^ 32" "0 < S" using assms(3) by auto
  have "length (ififo_queue r w s) < ififo_slots s" using S(3) queue_length [OF S(3), of w] by simp
  also have "ififo_slots s \<le> length (if_buf s)" unfolding ififo_slots_def by (meson diff_le_self div_le_dividend order_trans)
  finally have "length (ififo_queue r w s) * S < 2 ^ 16 * 2 ^ 16" using S(1,2) assms(3) by (intro mult_strict_mono) auto
  then show "length (ififo_queue r w s) * S < 2 ^ 32" by simp
qed

lemma talker_ready_result:
  assumes ok: "talker_ok st q rs ws"
  obtains (later) st' where "talker_ready en time st q = Some (None, st')" "st' = st\<lparr>tk_rem := tk_rem st'\<rparr>" "tk_rem st' < 2 ^ 16"
  | (now) n st' where "talker_ready en time st q = Some (Some n, st')"
    "st' = st\<lparr>tk_rem := tk_rem st', tk_transmit_ok := tk_transmit_ok st'\<rparr>" "tk_rem st' < 2 ^ 16"
    "n = tk_samples_per_packet_base st \<or> n = tk_samples_per_packet_base st + 1 \<and> tk_samples_per_packet_fractional st \<noteq> 0"
    "tk_initial st \<or> tk_samples_left st < n \<Longrightarrow>
       \<forall>c < length (tk_channels st). 2 \<le> length (ififo_queue (rs c) (ws c) (q ! (tk_channels st ! c)))"
proof -
  let ?fs = "tk_channels st" and ?S = "unat (tk_samples_per_fifo_packet st)"
  have o: "0 < length ?fs" "distinct ?fs" "tk_rem st < 2 ^ 16"
    "\<And>c. c < length ?fs \<Longrightarrow> ififo_at (rs c) (ws c) (q ! (?fs ! c)) \<and> if_packetSize (q ! (?fs ! c)) = int ?S + 2 \<and>
      length (if_buf (q ! (?fs ! c))) \<le> 2 ^ 16"
    using ok by (auto simp: talker_ok_def Let_def)
  have S: "2 * ?S < 2 ^ 32" "0 < ?S" using channel_level_bound [of "rs 0" "ws 0" "q ! (?fs ! 0)" ?S] o(1,4) by auto
  let ?i = "\<lambda>f. THE c. c < length ?fs \<and> ?fs ! c = f"
  let ?lv = "\<lambda>f. length (ififo_queue (rs (?i f)) (ws (?i f)) (q ! f))"
  have i: "?i (?fs ! c) = c" if "c < length ?fs" for c
    using that o(2) by (intro the_equality) (auto simp: nth_eq_iff_index_eq)
  have fill: "media_input_fifo_fill_level (q ! (?fs ! c)) = Some (int (?lv (?fs ! c)) * int ?S) \<and> ?lv (?fs ! c) * ?S < 2 ^ 32"
    if "c < length ?fs" for c
  proof -
    note a = o(4) [OF that]
    have "if_packetSize (q ! (?fs ! c)) - 2 = int ?S" using a by linarith
    then show ?thesis unfolding i [OF that]
      using fill_level_counts [of "rs c" "ws c" "q ! (?fs ! c)"] channel_level_bound(1) [of "rs c" "ws c" "q ! (?fs ! c)" ?S] a
      by metis
  qed
  then have "\<And>f. f \<in> set ?fs \<Longrightarrow> media_input_fifo_fill_level (q ! f) = Some (int (?lv f) * int ?S) \<and> ?lv f * ?S < 2 ^ 32"
    by (auto simp: in_set_conv_nth)
  note en = enough_data_result [OF this S]
  have two: "(\<forall>f \<in> set ?fs. 2 \<le> ?lv f) \<longleftrightarrow> (\<forall>c < length ?fs. 2 \<le> length (ififo_queue (rs c) (ws c) (q ! (?fs ! c))))"
    using i by (auto simp: all_set_conv_all_nth)
  have init: "\<exists>x. initial_short st' q = Some x" if "tk_map st' = tk_map st" for st'
  proof -
    have "tk_map st ! 0 = ?fs ! 0" using o(1) by (simp add: tk_channels_def)
    then show ?thesis using fill [of 0] o(1) that by (cases "tk_initial st'") (auto simp: initial_short_def Let_def)
  qed
  obtain n st1 where p: "packet_samples st = (n, st1)" by force
  note ps = packet_samples_result [OF p o(3)]
  have st1: "tk_map st1 = tk_map st" "tk_channels st1 = ?fs" "tk_initial st1 = tk_initial st" "tk_samples_left st1 = tk_samples_left st"
    "tk_samples_per_fifo_packet st1 = tk_samples_per_fifo_packet st"
  proof -
    obtain m where m: "st1 = st\<lparr>tk_rem := m\<rparr>" using ps by blast
    show "tk_map st1 = tk_map st" "tk_channels st1 = ?fs" "tk_initial st1 = tk_initial st" "tk_samples_left st1 = tk_samples_left st"
      "tk_samples_per_fifo_packet st1 = tk_samples_per_fifo_packet st"
      unfolding m by (simp_all add: tk_channels_def)
  qed
  obtain x y where x: "initial_short st q = Some x" "initial_short st1 q = Some y" using init st1(1) by blast
  obtain E where E: "E \<longleftrightarrow> ((tk_initial st \<or> tk_samples_left st < n) \<longrightarrow> (\<forall>f \<in> set ?fs. 2 \<le> ?lv f))" by blast
  have e: "enough_data st1 n ?fs q = Some E" unfolding E using en [where st = st1 and n = n] st1 by simp
  let ?blocked = "media_input_fifo_enable_ind_state en AND tk_fifo_mask st1 = 0"
  let ?early = "\<not> tk_initial st1 \<and> \<not> tk_transmit_ok st1 \<and> sint (time - tk_last_transmit_time st1) < AVB1722_PACKET_PERIOD_TIMER_TICKS"
  have r: "talker_ready en time st q =
      (if x then Some (None, st) else if y \<or> \<not> E \<or> ?blocked \<or> ?early then Some (None, st1)
       else Some (Some n, if \<not> tk_initial st1 \<and> \<not> tk_transmit_ok st1 then st1\<lparr>tk_transmit_ok := True\<rparr> else st1))"
    unfolding talker_ready_def x option.case p prod.case Let_def st1(2) e
    by (cases x; cases y; cases E) auto
  show thesis
  proof (cases "x \<or> y \<or> \<not> E \<or> ?blocked \<or> ?early")
    case True
    then show ?thesis using r later [of st] later [of st1] ps o(3) by (cases x) auto
  next
    case False
    let ?st = "if \<not> tk_initial st1 \<and> \<not> tk_transmit_ok st1 then st1\<lparr>tk_transmit_ok := True\<rparr> else st1"
    have "talker_ready en time st q = Some (Some n, ?st)" using r False by simp
    moreover have "?st = st\<lparr>tk_rem := tk_rem ?st, tk_transmit_ok := tk_transmit_ok ?st\<rparr> \<and> tk_rem ?st < 2 ^ 16"
    proof -
      obtain m where m: "st1 = st\<lparr>tk_rem := m\<rparr>" "m < 2 ^ 16" using ps by blast
      then show ?thesis by simp
    qed
    ultimately show ?thesis using now [of n ?st] ps False two E by blast
  qed
qed

section \<open>The frame\<close>

lemma payload_store_byte [simp]: "i < 52 \<Longrightarrow> payload_word (store_byte i v b) d = payload_word b d"
  by (simp add: payload_word_def get_bytes_def store_byte_def drop_update_cancel)

lemma payload_put_u32 [simp]: "i < 49 \<Longrightarrow> payload_word (put_u32 i v b) d = payload_word b d"
  by (simp add: put_u32_def)

lemma payload_put_bytes:
  "off + length bs \<le> 52 \<Longrightarrow> 52 \<le> length b \<Longrightarrow> payload_word (put_bytes off bs b) d = payload_word b d"
  by (simp add: payload_word_def get_bytes_def put_bytes_def)

lemma frame_payload [simp]:
  "payload_word (AVB1722_AVBTP_HeaderGen 2 v ts l sq sid (AVB1722_CIP_HeaderGen 2 dbc b)) d = payload_word b d"
  by (simp add: AVB1722_AVBTP_HeaderGen_def AVB1722_CIP_HeaderGen_def Let_def header_sizes cip_setters
      SET_AVBTP_TV_def SET_AVBTP_SEQUENCE_NUMBER_def SET_AVBTP_TIMESTAMP_def SET_AVBTP_STREAM_ID0_def
      SET_AVBTP_PACKET_DATA_LENGTH_def)

lemma frame_size [simp]:
  "length (AVB1722_AVBTP_HeaderGen 2 v ts l sq sid (AVB1722_CIP_HeaderGen 2 dbc b)) = length b"
  by (simp add: AVB1722_AVBTP_HeaderGen_def AVB1722_CIP_HeaderGen_def Let_def cip_setters avtp_setters)

lemma octet_of_octets:
  "octet (of_octets a b c d) 0 = a" "octet (of_octets a b c d) 1 = b"
  "octet (of_octets a b c d) 2 = c" "octet (of_octets a b c d) 3 = d"
  by (auto intro!: bit_word_eqI simp: bit_octet of_octets_def bit_or_iff bit_push_bit_iff bit_ucast_iff bit_u8_ge)

lemma word_octets_wire: "word_octets (wire_sample ty x) = hton_32 ((x AND 0xffffff) OR ty)"
  unfolding word_octets_def wire_sample_def bswap32_def octet_of_octets
  by (simp add: hton_32_def octet_def)

lemma frame_word:
  assumes "unat w = n" "unat c = m"
  shows "of_nat AVB_CIP_HDR_SIZE + push_bit 2 (w * c) = (of_nat (8 + 4 * (n * m)) :: u32)"
proof -
  have "w * c = of_nat (n * m)" using assms by (simp flip: assms)
  then show ?thesis by (simp add: AVB_CIP_HDR_SIZE_def push_bit_eq_mult)
qed

lemma frame_length:
  assumes "n \<le> 2 ^ 16" "unat w = n" "unat c = m" "m < 256"
  shows "AVB_ETHERNET_HDR_SIZE + AVB_TP_HDR_SIZE + unat (of_nat AVB_CIP_HDR_SIZE + push_bit 2 (w * c) :: u32) = 50 + 4 * (n * m)"
proof -
  have "n * m \<le> 2 ^ 16 * 256" using assms by (intro mult_le_mono) auto
  then have b: "n * m \<le> 2 ^ 24" by simp
  have "unat (of_nat AVB_CIP_HDR_SIZE + push_bit 2 (w * c) :: u32) = take_bit 32 (8 + 4 * (n * m))"
    unfolding frame_word [OF assms(2,3)] by (simp only: unsigned_of_nat) simp
  moreover have "8 + 4 * (n * m) < 2 ^ 32"
  proof -
    have "8 + 4 * (n * m) \<le> 8 + 4 * 2 ^ 24" using b by (intro add_left_mono mult_left_mono) auto
    also have "\<dots> < 2 ^ 32" by simp
    finally show ?thesis .
  qed
  then have "take_bit 32 (8 + 4 * (n * m)) = 8 + 4 * (n * m)" by (rule take_bit_nat_eq_self)
  ultimately show ?thesis by (simp add: header_sizes)
qed

text \<open>What the frame keeps of the template, and the length field.\<close>

definition frame_header :: "nat \<Rightarrow> u8 list \<Rightarrow> u8 list \<Rightarrow> bool" where
  "frame_header l b b' \<longleftrightarrow> (\<forall>i \<in> {8..<21}. b' ! i = b ! i) \<and> AVBTP_SV 20 b' = AVBTP_SV 20 b \<and>
     AVBTP_PACKET_DATA_LENGTH 20 b' = of_nat l AND 0xFFFF"

lemma sv_kept: "drop_bit 7 (u32_of (ucast ((u32_of x AND NOT 1) OR (a AND 1)))) = drop_bit 7 (u32_of x)"
  unfolding u32_of_def
  by (intro bit_word_eqI) (auto simp: bit_simps bit_1_iff bit_u8_ge dest: bit_u8_less)

lemma length_field: "push_bit 8 (u32_of (ucast (drop_bit 8 (l :: u32)))) OR u32_of (ucast (l AND 0xFF)) = l AND 0xFFFF"
proof -
  have m: "(0xFF :: u32) = mask 8" "(0xFFFF :: u32) = mask 16" by (simp_all add: mask_eq_exp_minus_1)
  show ?thesis unfolding u32_of_def m by (intro bit_word_eqI) (auto simp: bit_simps)
qed

lemma frame_header_gen:
  assumes "52 \<le> length b"
  shows "frame_header l b (AVB1722_AVBTP_HeaderGen 2 v ts (of_nat l) sq sid (AVB1722_CIP_HeaderGen 2 dbc b))"
proof -
  obtain f where f: "f = AVB1722_AVBTP_HeaderGen 2 v ts (of_nat l) sq sid (AVB1722_CIP_HeaderGen 2 dbc b)" by simp
  note d = AVB1722_AVBTP_HeaderGen_def AVB1722_CIP_HeaderGen_def Let_def header_sizes cip_setters
    SET_AVBTP_TV_def SET_AVBTP_SEQUENCE_NUMBER_def SET_AVBTP_TIMESTAMP_def SET_AVBTP_STREAM_ID0_def
    SET_AVBTP_PACKET_DATA_LENGTH_def
  have "f ! i = b ! i" if "i \<in> {8..<21}" for i
    using that assms by (auto simp: f d nth_put_u32_other)
  moreover have "\<exists>a. f ! 21 = ucast ((u32_of (b ! 21) AND NOT 1) OR (a AND 1))"
    using assms by (auto simp: f d nth_put_u32_other intro: exI [of _ 1] exI [of _ 0])
  moreover have "f ! 40 = ucast (drop_bit 8 (of_nat l :: u32))" "f ! 41 = ucast ((of_nat l :: u32) AND 0xFF)"
    using assms by (auto simp: f d nth_put_u32_other)
  ultimately show ?thesis
    unfolding f [symmetric] by (auto simp: frame_header_def AVBTP_SV_def AVBTP_PACKET_DATA_LENGTH_def sv_kept [simplified] length_field)
qed

text \<open>
  The checks establish what the payload step needs, in each of its three cases.
\<close>

lemma talker_payload_ok:
  assumes ok: "talker_ok st q rs ws" and b: "room (length (tk_channels st)) (unat (tk_samples_per_fifo_packet st)) b"
    and n: "unat n \<le> unat (tk_samples_per_fifo_packet st)"
    and two: "tk_initial st \<or> tk_samples_left st < n \<Longrightarrow>
       \<forall>c < length (tk_channels st). 2 \<le> length (ififo_queue (rs c) (ws c) (q ! (tk_channels st ! c)))"
  shows "\<exists>pt dbc b' st' q' rs'. talker_payload ty n b st q = Some (pt, dbc, b', st', q') \<and>
    payload_done ty (unat (tk_samples_per_fifo_packet st)) (unat n) st q rs ws
      (if tk_initial st then 0 else unat (tk_samples_per_fifo_packet st) - unat (tk_samples_left st)) b b' st' q' rs'"
proof -
  have o: "0 < length (tk_channels st)" "distinct (tk_channels st)" "set (tk_channels st) \<subseteq> {..<length q}"
    "unat (tk_num_channels st) = length (tk_channels st)"
    "\<And>c. c < length (tk_channels st) \<Longrightarrow> ififo_at (rs c) (ws c) (q ! (tk_channels st ! c)) \<and>
      if_packetSize (q ! (tk_channels st ! c)) = int (unat (tk_samples_per_fifo_packet st)) + 2"
    and run: "\<not> tk_initial st \<Longrightarrow> unat (tk_samples_left st) \<le> unat (tk_samples_per_fifo_packet st) \<and>
      channels_at (unat (tk_samples_per_fifo_packet st)) (tk_channels st) q rs ws
        (unat (tk_samples_per_fifo_packet st) - unat (tk_samples_left st))"
    using ok by (auto simp: talker_ok_def Let_def)
  consider (new) "tk_initial st" | (refill) "\<not> tk_initial st" "tk_samples_left st < n"
    | (within) "\<not> tk_initial st" "\<not> tk_samples_left st < n" by blast
  then show ?thesis
  proof cases
    case new
    have "ififo_queue (rs c) (ws c) (q ! (tk_channels st ! c)) \<noteq> []" if "c < length (tk_channels st)" for c
      using two new that by fastforce
    with o new show ?thesis
      using payload_initial [OF refl refl o(4,1,2,3) refl n b new, of rs ws ty] by auto
  next
    case refill
    with run two show ?thesis using payload_refill [OF refl refl o(4,1,2,3) n refl b refill, of rs ws ty] by auto
  next
    case within
    with run show ?thesis using payload_within [OF refl refl o(4,1,2,3) n _ b within, of rs ws ty] by auto
  qed
qed

lemma talker_ok_now:
  assumes ok: "talker_ok st q rs ws"
    and st1: "st1 = st\<lparr>tk_rem := m, tk_transmit_ok := ok1\<rparr>" "m < 2 ^ 16"
  shows "talker_ok st1 q rs ws" and "channel_waiting st1 q rs ws = channel_waiting st q rs ws"
    and "tk_channels st1 = tk_channels st"
proof -
  show c: "tk_channels st1 = tk_channels st" unfolding st1 by (simp add: tk_channels_def)
  show "talker_ok st1 q rs ws" using ok st1(2) unfolding talker_ok_def Let_def c by (simp add: st1(1))
  show "channel_waiting st1 q rs ws = channel_waiting st q rs ws"
    unfolding channel_waiting_def c by (simp add: st1(1))
qed

text \<open>After the payload step the stream is running and still set up.\<close>

lemma payload_done_ok:
  assumes ok: "talker_ok st q rs ws"
    and d: "payload_done ty (unat (tk_samples_per_fifo_packet st)) n st q rs ws D b b' st' q' rs'"
  shows "talker_ok st' q' rs' ws" "tk_channels st' = tk_channels st" "\<not> tk_initial st'"
    and "tk_samples_per_fifo_packet st' = tk_samples_per_fifo_packet st"
proof -
  let ?S = "unat (tk_samples_per_fifo_packet st)" and ?fs = "tk_channels st"
  obtain d0 l where st': "st' = st\<lparr>tk_initial := False, tk_dbc_at_start := d0, tk_samples_left := l\<rparr>"
    using d unfolding payload_done_def Let_def by blast
  show c: "tk_channels st' = tk_channels st" unfolding st' by (simp add: tk_channels_def)
  show "\<not> tk_initial st'" "tk_samples_per_fifo_packet st' = tk_samples_per_fifo_packet st" unfolding st' by simp_all
  have x: "unat l \<le> ?S" "channels_at ?S ?fs q' rs' ws (?S - unat l)" "length q' = length q"
    "\<And>c. c < length ?fs \<Longrightarrow> if_buf (q' ! (?fs ! c)) = if_buf (q ! (?fs ! c))"
    using d unfolding payload_done_def Let_def by (auto simp: st')
  have "ififo_at (rs' c) (ws c) (q' ! (?fs ! c)) \<and> if_packetSize (q' ! (?fs ! c)) = int ?S + 2" if "c < length ?fs" for c
    using x(2) that by (simp add: channels_at_def cursor_def)
  then show "talker_ok st' q' rs' ws"
    using ok x unfolding talker_ok_def Let_def c by (simp add: st')
qed

lemma packet_made:
  assumes ok: "talker_ok st q rs ws" and b: "room (length (tk_channels st)) (unat (tk_samples_per_fifo_packet st)) b"
    and n: "unat n \<le> unat (tk_samples_per_fifo_packet st)"
    and two: "tk_initial st \<or> tk_samples_left st < n \<Longrightarrow>
       \<forall>c < length (tk_channels st). 2 \<le> length (ififo_queue (rs c) (ws c) (q ! (tk_channels st ! c)))"
  shows "\<exists>b' st' q' rs'. talker_packet ty info n b st q = Some (50 + 4 * (unat n * length (tk_channels st)), b', st', q') \<and>
    length b' = length b \<and> frame_header (8 + 4 * (unat n * length (tk_channels st))) b b' \<and> talker_ok st' q' rs' ws \<and> tk_channels st' = tk_channels st \<and>
    (\<forall>c < length (tk_channels st). unat n \<le> length (channel_waiting st q rs ws c) \<and>
      channel_waiting st' q' rs' ws c = drop (unat n) (channel_waiting st q rs ws c) \<and>
      (\<forall>k < unat n. payload_word b' (c + k * length (tk_channels st)) =
         hton_32 ((channel_waiting st q rs ws c ! k AND 0xffffff) OR ty)))"
proof -
  let ?fs = "tk_channels st" and ?S = "unat (tk_samples_per_fifo_packet st)" and ?b = "put_bytes 2 (take 6 (tk_destMACAdrs st)) b"
  let ?D = "if tk_initial st then 0 else ?S - unat (tk_samples_left st)"
  have o: "0 < length ?fs" "length ?fs < 256" "unat (tk_num_channels st) = length ?fs" "?S \<le> 2 ^ 16"
  proof -
    show "0 < length ?fs" "length ?fs < 256" "unat (tk_num_channels st) = length ?fs"
      using ok by (auto simp: talker_ok_def Let_def)
    then have "ififo_at (rs 0) (ws 0) (q ! (?fs ! 0)) \<and> if_packetSize (q ! (?fs ! 0)) = int ?S + 2 \<and>
        length (if_buf (q ! (?fs ! 0))) \<le> 2 ^ 16" using ok by (simp add: talker_ok_def Let_def)
    moreover have "nat (int ?S + 2) = ?S + 2" by linarith
    ultimately show "?S \<le> 2 ^ 16" by (auto simp: ififo_at_def simp del: of_nat_unat)
  qed
  have lb: "52 \<le> length b" "length ?b = length b" using b by (simp_all add: le_trans [OF _ b])
  obtain pt dbc b1 st1 q' rs' where p: "talker_payload ty n ?b st q = Some (pt, dbc, b1, st1, q')"
    and d: "payload_done ty ?S (unat n) st q rs ws ?D ?b b1 st1 q' rs'"
    using talker_payload_ok [OF ok _ n two, of ?b ty] b lb(2) by auto
  note after = payload_done_ok [OF ok d]
  let ?st = "st1\<lparr>tk_transmit_ok := False, tk_sequence_number := tk_sequence_number st1 + 1\<rparr>"
  have ch: "tk_channels ?st = ?fs" using after(2) by (simp add: tk_channels_def)
  obtain d0 l where st1: "st1 = st\<lparr>tk_initial := False, tk_dbc_at_start := d0, tk_samples_left := l\<rparr>"
    using d unfolding payload_done_def Let_def by blast
  have b1: "52 \<le> length b1" "\<forall>i \<in> {8..<52}. b1 ! i = b ! i"
    using d lb unfolding payload_done_def Let_def by (auto simp: nth_put_bytes)
  have nc: "unat (tk_num_channels st1) = length ?fs" using o(3) unfolding st1 by simp
  have "\<exists>v ts sq sid d. talker_packet ty info n b st q = Some (50 + 4 * (unat n * length ?fs),
      AVB1722_AVBTP_HeaderGen 2 v ts (of_nat (8 + 4 * (unat n * length ?fs))) sq sid (AVB1722_CIP_HeaderGen 2 d b1), ?st, q')"
    unfolding talker_packet_def p option.case prod.case Let_def frame_word [OF refl nc]
      frame_length [OF order_trans [OF n o(4)] refl nc o(2), unfolded frame_word [OF refl nc]]
    by (intro exI, rule refl)
  then obtain b' where r: "talker_packet ty info n b st q = Some (50 + 4 * (unat n * length ?fs), b', ?st, q')"
    and b': "payload_word b' = payload_word b1" "length b' = length b1"
      "frame_header (8 + 4 * (unat n * length ?fs)) b1 b'"
    using frame_header_gen [OF b1(1), of "8 + 4 * (unat n * length ?fs)"]
    by (metis (no_types, lifting) frame_payload frame_size ext)
  have "talker_ok ?st q' rs' ws" using after(1) unfolding talker_ok_def Let_def ch after(2) by simp
  moreover have "channel_waiting ?st q' rs' ws c = drop (unat n) (channel_waiting st q rs ws c)" if "c < length ?fs" for c
    using d that after(3,4) unfolding payload_done_def Let_def channel_waiting_def ch by simp
  moreover have "unat n \<le> length (channel_waiting st q rs ws c)"
    "\<forall>k < unat n. payload_word b' (c + k * length ?fs) = hton_32 ((channel_waiting st q rs ws c ! k AND 0xffffff) OR ty)"
    if "c < length ?fs" for c
    using d that unfolding payload_done_def Let_def channel_waiting_def b'(1) word_octets_wire by auto
  moreover have "length b' = length b" using d b'(2) lb(2) unfolding payload_done_def Let_def by simp
  moreover have "frame_header (8 + 4 * (unat n * length ?fs)) b b'"
    using b'(3) b1(2) by (simp add: frame_header_def AVBTP_SV_def)
  ultimately show ?thesis using r ch by blast
qed

lemma create_packet_result:
  assumes ok: "talker_ok st q rs ws"
    and b: "52 + 4 * (unat (tk_samples_per_fifo_packet st) * length (tk_channels st)) \<le> length b"
  shows "\<exists>len b' st' q' rs'. avb1722_create_packet ty en info time b st q = Some (len, b', st', q') \<and>
    length b' = length b \<and> talker_ok st' q' rs' ws \<and> tk_channels st' = tk_channels st \<and>
    (if len = 0 then b' = b \<and> q' = q \<and> rs' = rs \<and> st' = st\<lparr>tk_rem := tk_rem st'\<rparr>
     else \<exists>n. (n = unat (tk_samples_per_packet_base st) \<or> n = unat (tk_samples_per_packet_base st) + 1) \<and>
       n \<le> unat (tk_samples_per_fifo_packet st) \<and>
       len = 50 + 4 * (n * length (tk_channels st)) \<and> frame_header (len - 42) b b' \<and>
       (\<forall>c < length (tk_channels st). n \<le> length (channel_waiting st q rs ws c) \<and>
         channel_waiting st' q' rs' ws c = drop n (channel_waiting st q rs ws c) \<and>
         (\<forall>k < n. payload_word b' (c + k * length (tk_channels st)) =
            hton_32 ((channel_waiting st q rs ws c ! k AND 0xffffff) OR ty))))"
  using ok
proof (cases rule: talker_ready_result [where en = en and time = time])
  case (later st1)
  then have t: "st1 = st\<lparr>tk_rem := tk_rem st1, tk_transmit_ok := tk_transmit_ok st\<rparr>"
    by (metis talker_stream.surjective talker_stream.update_convs(14,18))
  show ?thesis using later talker_ok_now [OF ok t later(3)] by (auto simp: avb1722_create_packet_def)
next
  case (now n st1)
  let ?S = "unat (tk_samples_per_fifo_packet st)"
  note st1 = talker_ok_now [OF ok now(2,3)]
  have base: "unat (tk_samples_per_packet_base st) + (if tk_samples_per_packet_fractional st = 0 then 0 else 1) \<le> ?S"
    using ok by (simp add: talker_ok_def Let_def)
  have eq: "tk_samples_per_fifo_packet st1 = tk_samples_per_fifo_packet st" "tk_initial st1 = tk_initial st"
    "tk_samples_left st1 = tk_samples_left st"
    by (subst now(2), simp)+
  have lt: "unat (tk_samples_per_fifo_packet st) < 2 ^ 32" by (rule order_less_le_trans [OF unsigned_less]) simp
  have un: "n = tk_samples_per_packet_base st + 1 \<Longrightarrow> unat n = unat (tk_samples_per_packet_base st) + 1"
    if "tk_samples_per_packet_fractional st \<noteq> 0"
    using base that lt by (simp add: unat_word_ariths)
  then have n: "unat n \<le> unat (tk_samples_per_fifo_packet st1)"
    "unat n = unat (tk_samples_per_packet_base st) \<or> unat n = unat (tk_samples_per_packet_base st) + 1"
    using now(4) base eq(1) by (auto split: if_splits)
  have b1: "room (length (tk_channels st1)) (unat (tk_samples_per_fifo_packet st1)) b" using b st1(3) eq(1) by simp
  have "\<exists>b' st' q' rs'. talker_packet ty info n b st1 q = Some (50 + 4 * (unat n * length (tk_channels st1)), b', st', q') \<and>
    length b' = length b \<and> frame_header (8 + 4 * (unat n * length (tk_channels st1))) b b' \<and>
    talker_ok st' q' rs' ws \<and> tk_channels st' = tk_channels st1 \<and>
    (\<forall>c < length (tk_channels st1). unat n \<le> length (channel_waiting st1 q rs ws c) \<and>
      channel_waiting st' q' rs' ws c = drop (unat n) (channel_waiting st1 q rs ws c) \<and>
      (\<forall>k < unat n. payload_word b' (c + k * length (tk_channels st1)) =
         hton_32 ((channel_waiting st1 q rs ws c ! k AND 0xffffff) OR ty)))"
    by (rule packet_made [OF st1(1) b1 n(1)]) (use now(5) eq st1(3) in simp)
  then obtain b' st' q' rs' where r: "talker_packet ty info n b st1 q = Some (50 + 4 * (unat n * length (tk_channels st)), b', st', q')"
    "length b' = length b" "talker_ok st' q' rs' ws" "tk_channels st' = tk_channels st"
    "frame_header (8 + 4 * (unat n * length (tk_channels st))) b b'"
    "\<forall>c < length (tk_channels st). unat n \<le> length (channel_waiting st q rs ws c) \<and>
      channel_waiting st' q' rs' ws c = drop (unat n) (channel_waiting st q rs ws c) \<and>
      (\<forall>k < unat n. payload_word b' (c + k * length (tk_channels st)) =
         hton_32 ((channel_waiting st q rs ws c ! k AND 0xffffff) OR ty))"
    unfolding st1(2,3) by blast
  have fh: "50 + 4 * (unat n * length (tk_channels st)) - 42 = 8 + 4 * (unat n * length (tk_channels st))" by simp
  have "avb1722_create_packet ty en info time b st q = Some (50 + 4 * (unat n * length (tk_channels st)), b', st', q')"
    using r(1) now(1) by (simp add: avb1722_create_packet_def)
  moreover have ne: "(50 + 4 * (unat n * length (tk_channels st)) = 0) = False" by simp
  have "if 50 + 4 * (unat n * length (tk_channels st)) = 0 then b' = b \<and> q' = q \<and> rs' = rs \<and> st' = st\<lparr>tk_rem := tk_rem st'\<rparr>
     else \<exists>n'. (n' = unat (tk_samples_per_packet_base st) \<or> n' = unat (tk_samples_per_packet_base st) + 1) \<and>
       n' \<le> unat (tk_samples_per_fifo_packet st) \<and>
       50 + 4 * (unat n * length (tk_channels st)) = 50 + 4 * (n' * length (tk_channels st)) \<and>
       frame_header (50 + 4 * (unat n * length (tk_channels st)) - 42) b b' \<and>
       (\<forall>c < length (tk_channels st). n' \<le> length (channel_waiting st q rs ws c) \<and>
         channel_waiting st' q' rs' ws c = drop n' (channel_waiting st q rs ws c) \<and>
         (\<forall>k < n'. payload_word b' (c + k * length (tk_channels st)) =
            hton_32 ((channel_waiting st q rs ws c ! k AND 0xffffff) OR ty)))"
    unfolding ne if_False fh using r(5,6) n(2) n(1) [unfolded eq(1)] by blast
  ultimately show ?thesis using r(2-4) by blast
qed

text \<open>
  C29. The talker never waits for a FIFO, and it sends every sample once and in order. A call either
  sends nothing and leaves buffer and FIFOs alone, or it makes a packet with the same number of samples
  of every channel, the base number of the stream or one more: the next samples of the channel, 24 bits
  each with the label of the sample type, interleaved channel by channel. These samples are then gone
  and the rest of the channel is what it was.
\<close>
theorem talker_packetises:
  assumes ok: "talker_ok st q rs ws"
    and b: "52 + 4 * (unat (tk_samples_per_fifo_packet st) * length (tk_channels st)) \<le> length b"
  shows "\<exists>len b' st' q' rs'. avb1722_create_packet ty en info time b st q = Some (len, b', st', q') \<and>
    length b' = length b \<and> talker_ok st' q' rs' ws \<and> tk_channels st' = tk_channels st \<and>
    (if len = 0 then b' = b \<and> q' = q \<and> rs' = rs \<and> st' = st\<lparr>tk_rem := tk_rem st'\<rparr>
     else \<exists>n. (n = unat (tk_samples_per_packet_base st) \<or> n = unat (tk_samples_per_packet_base st) + 1) \<and>
       n \<le> unat (tk_samples_per_fifo_packet st) \<and>
       len = 50 + 4 * (n * length (tk_channels st)) \<and> frame_header (len - 42) b b' \<and>
       (\<forall>c < length (tk_channels st). n \<le> length (channel_waiting st q rs ws c) \<and>
         channel_waiting st' q' rs' ws c = drop n (channel_waiting st q rs ws c) \<and>
         (\<forall>k < n. payload_word b' (c + k * length (tk_channels st)) =
            hton_32 ((channel_waiting st q rs ws c ! k AND 0xffffff) OR ty))))"
  by (rule create_packet_result [OF assms])

text \<open>A stereo stream at 48 kHz with four packets in each FIFO; the samples are the positions of the words.\<close>

definition example_full_ififo :: ififo_t where
  "example_full_ififo =
     \<lparr>if_wrIndex = 40, if_rdIndex = Some 0, if_startIndex = 40, if_packetSize = 10, if_sampleCountInPacket = 0,
      if_dbc = 32, if_fifoEnd = 63, if_ptr = 0, if_buf = map of_nat [0..<64]\<rparr>"

definition example_talker :: talker_stream where
  "example_talker =
     \<lparr>tk_active = 2, tk_destMACAdrs = [0x91, 0xe0, 0xf0, 0, 1, 0], tk_srcMACAdrs = [0, 0x22, 0x97, 0, 1, 2],
      tk_streamId0 = 0x01020000, tk_streamId1 = 0x00229700, tk_num_channels = 2, tk_map = [0, 1], tk_fifo_mask = 3,
      tk_sampleType = MBLA_24BIT, tk_dbc_at_start = 0, tk_samples_per_fifo_packet = 8, tk_samples_per_packet_base = 6,
      tk_samples_per_packet_fractional = 0, tk_rem = 0, tk_samples_left = 0, tk_initial = True,
      tk_presentation_delay = 2000000, tk_transmit_ok = True, tk_last_transmit_time = 0, tk_sequence_number = 0\<rparr>"

lemma example_full_at: "ififo_at 0 4 example_full_ififo"
  by (simp add: ififo_fields example_full_ififo_def) (rule exI [of _ 6], simp)

lemma example_talker_ok:
  "talker_ok example_talker [example_full_ififo, example_full_ififo] (\<lambda>_. 0) (\<lambda>_. 4)"
  "length (tk_channels example_talker) = 2"
  using example_full_at
  by (auto simp: talker_ok_def tk_channels_def example_talker_def less_Suc_eq example_full_ififo_def Let_def)

lemmas fill_loop_code [code] = fill_loop.simps

lemma talker_packet_size: "talker_packet ty info n b st q = Some (len, r) \<Longrightarrow> 42 \<le> len"
  by (auto simp: talker_packet_def Let_def header_sizes split: option.splits prod.splits)

abbreviation example_enable :: ififo_enable where
  "example_enable \<equiv> \<lparr>en_lock = True, en_request_state = 3, en_indication_state = 3\<rparr>"

abbreviation example_time :: ptp_time_info_mod64 where
  "example_time \<equiv> \<lparr>tm_local_ts = 0, tm_ptp_ts_hi = 0, tm_ptp_ts_lo = 0, tm_ptp_adjust = 0, tm_inv_ptp_adjust = 0\<rparr>"

lemma example_ready:
  "map_option fst (talker_ready example_enable 0 example_talker [example_full_ififo, example_full_ififo]) = Some (Some 6)"
  by code_simp

theorem talker_packetises_witness:
  "\<exists>len b' st' q' rs'. avb1722_create_packet MBLA_24BIT example_enable example_time 0 (replicate 150 0) example_talker
       [example_full_ififo, example_full_ififo] = Some (len, b', st', q') \<and>
     len \<noteq> 0 \<and> talker_ok st' q' rs' (\<lambda>_. 4)"
proof -
  have "52 + 4 * (unat (tk_samples_per_fifo_packet example_talker) * length (tk_channels example_talker)) \<le> length (replicate 150 (0 :: u8))"
    by (simp add: example_talker_ok(2)) (simp add: example_talker_def)
  from talker_packetises [OF example_talker_ok(1) this, of MBLA_24BIT example_enable example_time 0]
  obtain len b' st' q' rs' where r: "avb1722_create_packet MBLA_24BIT example_enable example_time 0 (replicate 150 0) example_talker
       [example_full_ififo, example_full_ififo] = Some (len, b', st', q')" "talker_ok st' q' rs' (\<lambda>_. 4)"
    by blast
  moreover have "42 \<le> len"
    using r(1) example_ready unfolding avb1722_create_packet_def by (auto intro: talker_packet_size)
  ultimately show ?thesis by fastforce
qed

end
