(* ===== verification/Talker_Header_Proofs.thy ===== *)
theory Talker_Header_Proofs
  imports Talker_Proofs
begin

text \<open>The headers the talker writes, and how they are changed afterwards.\<close>

section \<open>The template\<close>

abbreviation cleared :: "talker_stream \<Rightarrow> u8 list \<Rightarrow> u8 list" where
  "cleared cfg b \<equiv> put_bytes 8 (take 6 (tk_srcMACAdrs cfg)) (put_bytes 2 (take 6 (tk_destMACAdrs cfg))
     (put_bytes 2 (replicate (AVB_ETHERNET_HDR_SIZE + AVB_TP_HDR_SIZE + AVB_CIP_HDR_SIZE) 0) b))"

lemma cleared_bytes:
  assumes "length (tk_srcMACAdrs cfg) = 6" "length (tk_destMACAdrs cfg) = 6" "52 \<le> length b"
  shows "length (cleared cfg b) = length b" and "14 \<le> i \<Longrightarrow> i < 52 \<Longrightarrow> cleared cfg b ! i = 0"
    and "get_bytes 2 6 (cleared cfg b) = tk_destMACAdrs cfg" and "get_bytes 8 6 (cleared cfg b) = tk_srcMACAdrs cfg"
  using assms by (simp_all add: header_sizes nth_put_bytes get_put_bytes_same get_put_bytes_other)

lemmas template_defs = AVB1722_Talker_bufInit_def talker_eth_header_def talker_avtp_header_def talker_cip_header_def

lemma template_length:
  assumes "length (tk_srcMACAdrs cfg) = 6" "length (tk_destMACAdrs cfg) = 6" "52 \<le> length b"
  shows "length (snd (AVB1722_Talker_bufInit b cfg v)) = length b"
  using cleared_bytes(1) [OF assms] by (simp add: template_defs eth_setters avtp_setters cip_setters)

lemma template_nth:
  assumes "length (tk_srcMACAdrs cfg) = 6" "length (tk_destMACAdrs cfg) = 6" "52 \<le> length b"
  shows "snd (AVB1722_Talker_bufInit b cfg v) ! 14 = 0x81" "snd (AVB1722_Talker_bufInit b cfg v) ! 15 = 0"
    "snd (AVB1722_Talker_bufInit b cfg v) ! 16 = 0x60 OR ucast (drop_bit 8 (v AND 0xF00))"
    "snd (AVB1722_Talker_bufInit b cfg v) ! 17 = ucast (v AND 0xFF)"
    "snd (AVB1722_Talker_bufInit b cfg v) ! 18 = 0x22" "snd (AVB1722_Talker_bufInit b cfg v) ! 19 = 0xf0"
    "snd (AVB1722_Talker_bufInit b cfg v) ! 20 = 0" "snd (AVB1722_Talker_bufInit b cfg v) ! 21 = 0x80"
  using cleared_bytes(1,2) [OF assms] assms(3)
  by (simp_all add: template_defs eth_setters avtp_setters cip_setters)

lemma field_bits:
  "bit (0xFFF :: u32) n \<longleftrightarrow> n < 12" "bit (0xF00 :: u32) n \<longleftrightarrow> 8 \<le> n \<and> n < 12" "bit (0xFF :: u32) n \<longleftrightarrow> n < 8"
  "bit (0xF :: u32) n \<longleftrightarrow> n < 4" "bit (0x60 :: u8) n \<longleftrightarrow> n = 5 \<or> n = 6" "bit (3 :: u32) n \<longleftrightarrow> n < 2"
  "bit (0x81 :: u8) n \<longleftrightarrow> n = 0 \<or> n = 7" "bit (0x8100 :: u32) n \<longleftrightarrow> n = 8 \<or> n = 15"
proof -
  have m: "(0xFFF :: u32) = mask 12" "(0xF00 :: u32) = push_bit 8 (mask 4)" "(0xFF :: u32) = mask 8" "(0xF :: u32) = mask 4"
    "(3 :: u32) = mask 2" "(0x60 :: u8) = push_bit 5 (mask 2)"
    by (simp_all add: mask_eq_exp_minus_1)
  show "bit (0xFFF :: u32) n \<longleftrightarrow> n < 12" "bit (0xF00 :: u32) n \<longleftrightarrow> 8 \<le> n \<and> n < 12" "bit (0xFF :: u32) n \<longleftrightarrow> n < 8"
    "bit (0xF :: u32) n \<longleftrightarrow> n < 4" "bit (3 :: u32) n \<longleftrightarrow> n < 2" "bit (0x60 :: u8) n \<longleftrightarrow> n = 5 \<or> n = 6"
    unfolding m by (auto simp: bit_simps)
  have "bit (0x81 :: u8) n \<longleftrightarrow> n = 0 \<or> n = 7" if "n < 8" for n using that by (auto simp: less_Suc_eq numeral_eq_Suc)
  then have b: "bit (0x81 :: u8) n \<longleftrightarrow> n = 0 \<or> n = 7" for n using bit_u8_less [of "0x81" n] by auto
  then show "bit (0x81 :: u8) n \<longleftrightarrow> n = 0 \<or> n = 7" .
  have "(0x8100 :: u32) = push_bit 8 (ucast (0x81 :: u8))" by simp
  then have "bit (0x8100 :: u32) n \<longleftrightarrow> 8 \<le> n \<and> n < 32 \<and> bit (0x81 :: u8) (n - 8)"
    by (simp only: bit_push_bit_iff bit_ucast_iff) auto
  then show "bit (0x8100 :: u32) n \<longleftrightarrow> n = 8 \<or> n = 15" unfolding b by auto
qed

lemma vid_split:
  "push_bit 8 (u32_of (0x60 OR ucast (drop_bit 8 (v AND 0xF00))) AND 0xF) OR u32_of (ucast (v AND 0xFF)) = v AND 0xFFF"
  unfolding u32_of_def
  by (intro bit_word_eqI) (auto simp: field_bits bit_or_iff bit_and_iff bit_push_bit_iff bit_drop_bit_eq bit_ucast_iff simp del: bit_numeral_word_iff)

lemma pcp_split: "drop_bit 5 (u32_of (0x60 OR ucast (drop_bit 8 ((v :: u32) AND 0xF00)))) = 3"
  unfolding u32_of_def
  by (intro bit_word_eqI) (auto simp: field_bits bit_or_iff bit_and_iff bit_push_bit_iff bit_drop_bit_eq bit_ucast_iff simp del: bit_numeral_word_iff)

lemma tpid_split:
  "push_bit 8 (u32_of (0x81 OR ucast (drop_bit 8 (v AND 0xF00)))) OR u32_of (ucast (v AND 0xFF)) = 0x8100 OR (v AND 0xFFF)"
  unfolding u32_of_def
  by (intro bit_word_eqI) (auto simp: field_bits bit_or_iff bit_and_iff bit_push_bit_iff bit_drop_bit_eq bit_ucast_iff simp del: bit_numeral_word_iff)

text \<open>A block of the template that the setters above it leave alone.\<close>

lemma get_u32_cong: "(\<And>i. x \<le> i \<Longrightarrow> i < x + 4 \<Longrightarrow> b ! i = c ! i) \<Longrightarrow> get_u32 x b = get_u32 x c"
  by (simp add: get_u32_def)

lemma get_bytes_cong:
  "length b = length c \<Longrightarrow> (\<And>i. x \<le> i \<Longrightarrow> i < x + n \<Longrightarrow> b ! i = c ! i) \<Longrightarrow> get_bytes x n b = get_bytes x n c"
  by (auto simp: get_bytes_def intro!: nth_equalityI)

lemma template_ids:
  assumes "length (tk_srcMACAdrs cfg) = 6" "length (tk_destMACAdrs cfg) = 6" "52 \<le> length b"
  shows "get_u32 24 (snd (AVB1722_Talker_bufInit b cfg v)) = tk_streamId1 cfg"
    "get_u32 28 (snd (AVB1722_Talker_bufInit b cfg v)) = tk_streamId0 cfg"
    "get_bytes 2 6 (snd (AVB1722_Talker_bufInit b cfg v)) = tk_destMACAdrs cfg"
    "get_bytes 8 6 (snd (AVB1722_Talker_bufInit b cfg v)) = tk_srcMACAdrs cfg"
proof -
  let ?c = "cleared cfg b" and ?f = "snd (AVB1722_Talker_bufInit b cfg v)"
  note l = cleared_bytes(1) [OF assms] template_length [OF assms, of v]
  have "get_u32 24 ?f = get_u32 24 (put_u32 24 (tk_streamId1 cfg) ?c)"
    using assms(3) l by (intro get_u32_cong) (simp add: template_defs eth_setters avtp_setters cip_setters)
  then show "get_u32 24 ?f = tk_streamId1 cfg" using l assms(3) by (simp add: get_put_u32)
  have "get_u32 28 ?f = get_u32 28 (put_u32 28 (tk_streamId0 cfg) ?c)"
    using assms(3) l by (intro get_u32_cong) (simp add: template_defs eth_setters avtp_setters cip_setters)
  then show "get_u32 28 ?f = tk_streamId0 cfg" using l assms(3) by (simp add: get_put_u32)
  have a: "i < 14 \<Longrightarrow> ?f ! i = ?c ! i" for i by (simp add: template_defs eth_setters avtp_setters cip_setters)
  have "get_bytes 2 6 ?f = get_bytes 2 6 ?c" "get_bytes 8 6 ?f = get_bytes 8 6 ?c"
    using l a by (auto intro!: get_bytes_cong)
  then show "get_bytes 2 6 ?f = tk_destMACAdrs cfg" "get_bytes 8 6 ?f = tk_srcMACAdrs cfg"
    using cleared_bytes(3,4) [OF assms] by auto
qed

text \<open>
  The header template of a stream reads back as what it was configured with: the two addresses,
  the priority and VLAN of the tag, the stream id, a stream data frame of the 1722 ethertype. A VLAN set
  afterwards does not change the VLAN of the template: it is written two bytes too early and spoils the
  tag protocol id, so that the frames are no longer recognised as tagged.
\<close>
theorem talker_template:
  assumes "length (tk_srcMACAdrs cfg) = 6" "length (tk_destMACAdrs cfg) = 6" "52 \<le> length b"
    and f: "f = snd (AVB1722_Talker_bufInit b cfg v)"
  shows "get_bytes 2 6 f = tk_destMACAdrs cfg \<and> get_bytes 8 6 f = tk_srcMACAdrs cfg \<and>
    AVBTP_TPID 2 f = 0x8100 \<and> AVBTP_PCP 2 f = 3 \<and> AVBTP_VID 2 f = v AND 0xFFF \<and> AVBTP_ETYPE 2 f = 0x22f0 \<and>
    AVBTP_CD 20 f = 0 \<and> AVBTP_SV 20 f = 1 \<and>
    AVBTP_STREAM_ID1 20 f = tk_streamId1 cfg \<and> AVBTP_STREAM_ID0 20 f = tk_streamId0 cfg \<and>
    AVBTP_VID 2 (avb1722_set_buffer_vlan w f) = v AND 0xFFF \<and>
    AVBTP_TPID 2 (avb1722_set_buffer_vlan w f) = 0x8100 OR (w AND 0xFFF)"
proof -
  note n = template_nth [OF assms(1-3), of v, folded f] and l = template_length [OF assms(1-3), of v, folded f]
  have s: "avb1722_set_buffer_vlan w f ! 14 = 0x81 OR ucast (drop_bit 8 (w AND 0xF00))"
    "avb1722_set_buffer_vlan w f ! 15 = ucast (w AND 0xFF)"
    "avb1722_set_buffer_vlan w f ! 16 = f ! 16" "avb1722_set_buffer_vlan w f ! 17 = f ! 17"
    using n l assms(3) by (simp_all add: avb1722_set_buffer_vlan_def SET_AVBTP_VID_def)
  have "AVBTP_TPID 2 f = 0x8100" "AVBTP_ETYPE 2 f = 0x22f0" "AVBTP_CD 20 f = 0" "AVBTP_SV 20 f = 1"
    by (simp_all add: AVBTP_TPID_def AVBTP_ETYPE_def AVBTP_CD_def AVBTP_SV_def n u32_of_def)
  moreover have "AVBTP_PCP 2 f = 3" using n(3) pcp_split [of v] by (simp add: AVBTP_PCP_def)
  moreover have "AVBTP_VID 2 f = v AND 0xFFF" "AVBTP_VID 2 (avb1722_set_buffer_vlan w f) = v AND 0xFFF"
    using n(3,4) s(3,4) vid_split [of v] by (simp_all add: AVBTP_VID_def)
  moreover have "AVBTP_TPID 2 (avb1722_set_buffer_vlan w f) = 0x8100 OR (w AND 0xFFF)"
    using s(1,2) tpid_split [of w] by (simp add: AVBTP_TPID_def)
  ultimately show ?thesis
    using template_ids [OF assms(1-3), of v, folded f] by (simp add: AVBTP_STREAM_ID1_def AVBTP_STREAM_ID0_def)
qed

theorem talker_template_witness:
  "AVBTP_TPID 2 (snd (AVB1722_Talker_bufInit (replicate 60 0) example_talker 2)) = 0x8100 \<and>
   AVBTP_TPID 2 (avb1722_set_buffer_vlan 5 (snd (AVB1722_Talker_bufInit (replicate 60 0) example_talker 2))) = 0x8105"
proof -
  have "length (tk_srcMACAdrs example_talker) = 6" "length (tk_destMACAdrs example_talker) = 6" "52 \<le> length (replicate 60 (0 :: u8))"
    by (simp_all add: example_talker_def)
  from talker_template [OF this refl, of 2 5] show ?thesis by simp
qed

section \<open>Streams that never start\<close>

lemma ififo_level_limit:
  assumes "ififo_at r w s"
  shows "length (ififo_queue r w s) + 1 \<le> (length (if_buf s) - 1) div nat (if_packetSize s)"
proof -
  have "r < ififo_slots s" using assms by (simp add: ififo_at_def)
  then have "length (ififo_queue r w s) < ififo_slots s" by (simp add: queue_length)
  then show ?thesis by (simp add: ififo_slots_def)
qed

text \<open>
  A stream at 8 or 16 kHz never starts. A new stream waits until its first FIFO holds half as many
  samples as the FIFO has words, but so short packets take so many words for their headers that even
  a full FIFO holds fewer, for both sizes the FIFO can have; every call returns without a packet.
\<close>
theorem low_rate_never_starts:
  assumes "tk_initial st" "ififo_at r w (q ! (tk_map st ! 0))"
    and "rate = 8000 \<or> rate = 16000"
    and "if_packetSize (q ! (tk_map st ! 0)) = syt_interval_of_rate stack rate + 2"
    and "length (if_buf (q ! (tk_map st ! 0))) = 64 \<or> length (if_buf (q ! (tk_map st ! 0))) = 128"
  shows "avb1722_create_packet ty en info time b st q = Some (0, b, st, q)"
proof -
  let ?s = "q ! (tk_map st ! 0)"
  have p: "if_packetSize ?s = 3 \<or> if_packetSize ?s = 4" using assms(3,4) by (auto simp: syt_interval_of_rate_def)
  have "int (length (ififo_queue r w ?s)) * (if_packetSize ?s - 2) < int (length (if_buf ?s)) div 2"
    using ififo_level_limit [OF assms(2)] p assms(5) by auto
  then have "initial_short st q = Some True"
    using assms(1) fill_level_counts [OF assms(2)] by (simp add: initial_short_def Let_def)
  then show ?thesis by (simp add: avb1722_create_packet_def talker_ready_def)
qed

definition example_low_ififo :: ififo_t where
  "example_low_ififo = snd (media_input_fifo_enable 0 8000 (example_ififo\<lparr>if_packetSize := - 1\<rparr>))"

theorem low_rate_never_starts_witness:
  "avb1722_create_packet MBLA_24BIT example_enable example_time 0 [] example_talker [example_low_ififo] =
     Some (0, [], example_talker, [example_low_ififo])"
proof -
  have m: "tk_map example_talker ! 0 = 0" "tk_initial example_talker" by (simp_all add: example_talker_def)
  have l: "length (if_buf (example_ififo\<lparr>if_packetSize := - 1\<rparr>)) = 2 ^ 6"
    by (simp add: example_ififo_def media_input_fifo_enable_def Let_def)
  have "ififo_at 0 0 example_low_ififo" unfolding example_low_ififo_def
    by (rule enable_at(1) [OF _ l]; use l in \<open>simp add: syt_interval_of_rate_def\<close>)
  moreover have "if_packetSize example_low_ififo = syt_interval_of_rate 0 8000 + 2" "length (if_buf example_low_ififo) = 64"
    using l by (simp_all add: example_low_ififo_def media_input_fifo_enable_def Let_def)
  ultimately show ?thesis
    using low_rate_never_starts [of example_talker 0 0 "[example_low_ififo]" 8000 0 MBLA_24BIT example_enable example_time 0 "[]"] m
    by simp
qed

end
