(* ===== verification/Listener_Proofs.thy ===== *)
theory Listener_Proofs
  imports Avb_1722_Listener Talker_Header_Proofs Media_Fifo_Proofs
begin

text \<open>The listener finds out the format of a stream, and then delivers every sample of it.\<close>

section \<open>Locking\<close>

text \<open>The packets of a stream, each with its number of bytes.\<close>

definition listener_receive ::
  "u32 \<Rightarrow> u8 list \<times> int \<Rightarrow> bool \<times> listener_stream \<times> ofifo_t list \<Rightarrow> bool \<times> listener_stream \<times> ofifo_t list" where
  "listener_receive stack p x =
     snd (snd (avb_1722_listener_process_packet stack (fst p) (snd p) (fst x) (fst (snd x)) (snd (snd x))))"

text \<open>Packet \<open>i\<close> has \<open>ns ! i\<close> samples of \<open>nc\<close> channels, and its count follows from the packets before it.\<close>

definition audio_stream :: "nat \<Rightarrow> nat \<Rightarrow> nat list \<Rightarrow> (u8 list \<times> int) list \<Rightarrow> bool" where
  "audio_stream nc d ns ps \<longleftrightarrow> length ps = length ns \<and>
     (\<forall>i < length ns. listener_accepts (fst (ps ! i)) (snd (ps ! i)) \<and> 0 < ns ! i \<and> ns ! i < 256 \<and>
        payload_samples (fst (ps ! i)) = int (ns ! i * nc) \<and>
        packet_dbc (fst (ps ! i)) = int ((d + sum_list (take i ns)) mod 256))"

lemma dbc_difference_next: "0 < m \<Longrightarrow> m < 256 \<Longrightarrow> dbc_difference (int ((x + m) mod 256)) (int (x mod 256)) = int m"
proof -
  assume m: "0 < m" "m < 256"
  have "(x + m) mod 256 = (if x mod 256 + m < 256 then x mod 256 + m else x mod 256 + m - 256)"
    using m mod_less_divisor [of 256 x] by (auto simp: mod_if [of "x mod 256 + m"] simp flip: mod_add_left_eq [of x 256 m])
  then show ?thesis using m mod_less_divisor [of 256 x] by (auto simp: dbc_difference_def Let_def)
qed

lemma sdiv_nat: "int a sdiv int b = int (a div b)"
  by (simp add: signed_divide_int_def zdiv_int sgn_if abs_if)

text \<open>One packet before the lock, for a stream that keeps its format.\<close>

lemma lock_step:
  assumes "0 < nc" "0 < m" "ls_num_channels_in_payload si = (if k = 0 then 0 else int nc)" "ls_chan_lock si = int k" "k < 16"
    "k \<noteq> 0 \<Longrightarrow> ls_rate si = int (S * nc)" "k = 0 \<Longrightarrow> S = 0"
  shows "lock_stream (int (m * nc)) (int m) (int (n * nc)) si =
    si\<lparr>ls_num_channels_in_payload := int nc, ls_chan_lock := int (Suc k),
       ls_rate := (if Suc k = 16 then detected_rate (int ((S + n) div 16)) else int ((S + n) * nc))\<rparr>"
proof -
  have d0: "int (m * nc) sdiv int m = int nc" using assms(2) by (simp only: sdiv_nat) simp
  then have d: "int (m * nc) sdiv int m = int nc" "int m * int nc sdiv int m = int nc" by simp_all
  have r: "int ((S + n) * nc) sdiv int nc sdiv 16 = int ((S + n) div 16)"
    using assms(1) sdiv_nat [of "(S + n) * nc" nc] sdiv_nat [of "S + n" 16] by simp
  have r': "(int (S * nc) + int (n * nc)) sdiv int nc sdiv 16 = int ((S + n) div 16)"
    using r by (simp add: algebra_simps)
  show ?thesis
  proof (cases "k = 0")
    case True
    then show ?thesis using assms by (simp add: lock_stream_def d Let_def)
  next
    case False
    have s: "int k + 1 = int (Suc k)" "(int k + 1 = 16) = (Suc k = 16)" by auto
    have "lock_stream (int (m * nc)) (int m) (int (n * nc)) si =
       (if Suc k = 16 then si\<lparr>ls_rate := detected_rate ((int (S * nc) + int (n * nc)) sdiv int nc sdiv 16), ls_chan_lock := int (Suc k)\<rparr>
        else si\<lparr>ls_rate := int (S * nc) + int (n * nc), ls_chan_lock := int (Suc k)\<rparr>)"
      using False assms by (simp add: lock_stream_def d Let_def s)
    then show ?thesis using r' assms(3) False by (simp add: algebra_simps)
  qed
qed

lemma receive_unlocked:
  "listener_accepts b len \<Longrightarrow> ls_chan_lock si < 16 \<Longrightarrow>
   listener_receive stack (b, len) (notified, si, q) =
     (notified, lock_stream (ls_prev_num_samples si) (dbc_difference (packet_dbc b) (ls_dbc si)) (payload_samples b)
        (si\<lparr>ls_dbc := packet_dbc b, ls_prev_num_samples := payload_samples b\<rparr>), q)"
  by (simp add: listener_receive_def avb_1722_listener_process_packet_def Let_def)

lemma receive_locking:
  assumes s: "audio_stream nc d ns ps" "0 < nc" and k: "k < length ns" "k \<le> 16"
    and fresh: "ls_chan_lock si = 0" "ls_prev_num_samples si = 0" "ls_num_channels_in_payload si = 0"
  shows "fold (listener_receive stack) (take (Suc k) ps) (notified, si, q) =
    (notified, si\<lparr>ls_dbc := packet_dbc (fst (ps ! k)), ls_prev_num_samples := int (ns ! k * nc),
       ls_num_channels_in_payload := (if k = 0 then 0 else int nc), ls_chan_lock := int k,
       ls_rate := (if k = 0 then ls_rate si else if k = 16 then detected_rate (int (sum_list (take k (tl ns)) div 16))
                   else int (sum_list (take k (tl ns)) * nc))\<rparr>, q)"
  using k
proof (induction k)
  case 0
  then have p: "listener_accepts (fst (ps ! 0)) (snd (ps ! 0))" "payload_samples (fst (ps ! 0)) = int (ns ! 0 * nc)"
    "take (Suc 0) ps = [ps ! 0]"
    using s(1) by (auto simp: audio_stream_def take_Suc_conv_app_nth)
  show ?case unfolding p(3)
    using receive_unlocked [OF p(1), of si stack notified q] p(2) fresh by (simp add: lock_stream_def)
next
  case (Suc k)
  let ?p = "ps ! Suc k"
  have p: "listener_accepts (fst ?p) (snd ?p)" "payload_samples (fst ?p) = int (ns ! Suc k * nc)" "0 < ns ! k" "ns ! k < 256"
    "packet_dbc (fst ?p) = int ((d + sum_list (take (Suc k) ns)) mod 256)"
    "packet_dbc (fst (ps ! k)) = int ((d + sum_list (take k ns)) mod 256)" and l: "length ps = length ns"
    using s(1) Suc.prems by (auto simp: audio_stream_def)
  have "sum_list (take (Suc k) ns) = sum_list (take k ns) + ns ! k"
    using Suc.prems by (simp add: take_Suc_conv_app_nth)
  then have dd: "dbc_difference (packet_dbc (fst ?p)) (packet_dbc (fst (ps ! k))) = int (ns ! k)"
    using dbc_difference_next [OF p(3,4), of "d + sum_list (take k ns)"] p(5,6) by (simp add: add.assoc)
  have sm: "sum_list (take (Suc k) (tl ns)) = sum_list (take k (tl ns)) + ns ! Suc k"
    using Suc.prems by (simp add: take_Suc_conv_app_nth nth_tl)
  have t: "take (Suc (Suc k)) ps = take (Suc k) ps @ [?p]" using Suc.prems l by (simp add: take_Suc_conv_app_nth)
  let ?S = "sum_list (take k (tl ns))"
  obtain si1 where si1: "si1 = si\<lparr>ls_dbc := packet_dbc (fst (ps ! k)), ls_prev_num_samples := int (ns ! k * nc),
       ls_num_channels_in_payload := (if k = 0 then 0 else int nc), ls_chan_lock := int k,
       ls_rate := (if k = 0 then ls_rate si else if k = 16 then detected_rate (int (?S div 16)) else int (?S * nc))\<rparr>" by simp
  have IH: "fold (listener_receive stack) (take (Suc k) ps) (notified, si, q) = (notified, si1, q)"
    unfolding si1 by (rule Suc.IH) (use Suc.prems in simp_all)
  have "lock_stream (int (ns ! k * nc)) (int (ns ! k)) (int (ns ! Suc k * nc))
      (si1\<lparr>ls_dbc := packet_dbc (fst ?p), ls_prev_num_samples := payload_samples (fst ?p)\<rparr>) =
    si1\<lparr>ls_dbc := packet_dbc (fst ?p), ls_prev_num_samples := payload_samples (fst ?p),
      ls_num_channels_in_payload := int nc, ls_chan_lock := int (Suc k),
      ls_rate := (if Suc k = 16 then detected_rate (int ((?S + ns ! Suc k) div 16)) else int ((?S + ns ! Suc k) * nc))\<rparr>"
    by (rule lock_step [OF s(2) p(3)]) (use Suc.prems in \<open>auto simp: si1\<close>)
  moreover have "listener_receive stack ?p (notified, si1, q) = (notified,
      lock_stream (int (ns ! k * nc)) (int (ns ! k)) (int (ns ! Suc k * nc))
        (si1\<lparr>ls_dbc := packet_dbc (fst ?p), ls_prev_num_samples := payload_samples (fst ?p)\<rparr>), q)"
    using receive_unlocked [OF p(1), of si1 stack notified q] Suc.prems dd p(2) by (simp add: si1)
  ultimately have "listener_receive stack ?p (notified, si1, q) = (notified,
      si1\<lparr>ls_dbc := packet_dbc (fst ?p), ls_prev_num_samples := int (ns ! Suc k * nc),
      ls_num_channels_in_payload := int nc, ls_chan_lock := int (Suc k),
      ls_rate := (if Suc k = 16 then detected_rate (int ((?S + ns ! Suc k) div 16)) else int ((?S + ns ! Suc k) * nc))\<rparr>, q)"
    by (simp only: p(2))
  then show ?case unfolding t fold_append o_apply IH sm by (simp add: si1)
qed

text \<open>
  Sixteen packets take two milliseconds, so a stream at a rate of \<open>rate\<close> samples a second carries
  \<open>rate / 500\<close> samples in them, give or take less than one.
\<close>

definition samples_at_rate :: "nat \<Rightarrow> int \<Rightarrow> bool" where
  "samples_at_rate n rate \<longleftrightarrow> \<bar>500 * int n - rate\<bar> < 500"

lemma average_at_rate:
  "samples_at_rate n rate \<Longrightarrow> 8000 * a \<le> rate \<Longrightarrow> rate + 500 \<le> 8000 * (a + 1) \<Longrightarrow> int n div 16 = a"
proof -
  assume h: "samples_at_rate n rate" "8000 * a \<le> rate" "rate + 500 \<le> 8000 * (a + 1)"
  then have "500 * int n < 8000 * a + 8000" "8000 * a - 500 < 500 * int n"
    by (simp_all add: samples_at_rate_def abs_less_iff)
  then show ?thesis by (intro int_div_pos_eq [of _ _ _ "int n - 16 * a"]) linarith+
qed

lemma detected_rates:
  "rate \<in> {8000, 16000, 32000, 44100, 48000, 88200, 96000} \<Longrightarrow> samples_at_rate n rate \<Longrightarrow>
     detected_rate (int (n div 16)) = rate"
  "rate \<in> {176400, 192000} \<Longrightarrow> samples_at_rate n rate \<Longrightarrow> detected_rate (int (n div 16)) = 0"
  using average_at_rate [of n 8000 1] average_at_rate [of n 16000 2] average_at_rate [of n 32000 4]
    average_at_rate [of n 44100 5] average_at_rate [of n 48000 6] average_at_rate [of n 88200 11]
    average_at_rate [of n 96000 12] average_at_rate [of n 176400 22] average_at_rate [of n 192000 24]
  by (auto simp: detected_rate_def zdiv_int)

text \<open>
  C30. From a fresh start the listener reads the format off the data block counts. The first seventeen
  packets of a stream deliver nothing and leave the listener locked with the number of channels of the
  payload. Its rate is then the rate of the stream at 8, 16, 32, 44.1, 48, 88.2 and 96 kHz, also
  when the number of samples changes from packet to packet: it is found from the average of the
  sixteen packets after the first. When that average belongs to none of these rates the rate is 0. So
  it is at 176.4 and 192 kHz, and the sample that a timestamp is attached to then depends on what an
  uninitialised variable holds.
\<close>
theorem listener_locks:
  assumes "audio_stream nc d ns ps" "0 < nc" "length ns = 17"
    and "ls_chan_lock si = 0" "ls_prev_num_samples si = 0" "ls_num_channels_in_payload si = 0"
  shows "\<exists>r. fold (listener_receive stack) ps (notified, si, q) =
      (notified, si\<lparr>ls_dbc := packet_dbc (fst (ps ! 16)), ls_prev_num_samples := int (ns ! 16 * nc),
         ls_num_channels_in_payload := int nc, ls_chan_lock := 16, ls_rate := r\<rparr>, q) \<and>
    (\<forall>rate \<in> {8000, 16000, 32000, 44100, 48000, 88200, 96000}. samples_at_rate (sum_list (tl ns)) rate \<longrightarrow> r = rate) \<and>
    (sum_list (tl ns) div 16 \<notin> {1, 2, 4, 5, 6, 11, 12} \<longrightarrow> r = 0) \<and>
    (\<forall>rate \<in> {176400, 192000}. samples_at_rate (sum_list (tl ns)) rate \<longrightarrow> r = 0 \<and> syt_interval stack r = stack)"
proof -
  have "length ps = 17" using assms(1,3) by (simp add: audio_stream_def)
  then have "take (Suc 16) ps = ps" "take 16 (tl ns) = tl ns" using assms(3) by simp_all
  then have "fold (listener_receive stack) ps (notified, si, q) =
      (notified, si\<lparr>ls_dbc := packet_dbc (fst (ps ! 16)), ls_prev_num_samples := int (ns ! 16 * nc),
         ls_num_channels_in_payload := int nc, ls_chan_lock := 16,
         ls_rate := detected_rate (int (sum_list (tl ns) div 16))\<rparr>, q)"
    using receive_locking [OF assms(1,2) _ _ assms(4-6), of 16 stack notified q] assms(3) by simp
  moreover have "sum_list (tl ns) div 16 \<notin> {1, 2, 4, 5, 6, 11, 12} \<longrightarrow> detected_rate (int (sum_list (tl ns) div 16)) = 0"
    by (simp add: detected_rate_def)
  moreover have "syt_interval stack 0 = stack" by (simp add: syt_interval_def)
  ultimately show ?thesis using detected_rates [where n = "sum_list (tl ns)"]
    by (intro exI [of _ "detected_rate (int (sum_list (tl ns) div 16))"]) (simp del: insert_iff)
qed

text \<open>A stereo stream at 48 kHz.\<close>

definition example_packet :: "u8 \<Rightarrow> u8 list" where
  "example_packet dbc = (replicate 112 0)[14 := 0x81, 21 := 0x80, 41 := 56, 47 := dbc]"

definition example_listener :: listener_stream where
  "example_listener =
     \<lparr>ls_active = 1, ls_state = 0, ls_chan_lock = 0, ls_rate = 0, ls_prev_num_samples = 0, ls_num_channels_in_payload = 0,
      ls_num_channels = 2, ls_dbc = - 1, ls_last_sequence = 0, ls_map = [Some 0, Some 1]\<rparr>"

lemma nth_example_packet:
  "i < 112 \<Longrightarrow> example_packet x ! i =
     (if i = 47 then x else if i = 41 then 56 else if i = 21 then 0x80 else if i = 14 then 0x81 else 0)"
  by (simp add: example_packet_def nth_list_update)

lemma example_avtp: "listener_avtp (example_packet x) = 20"
  by (simp add: listener_avtp_def nth_example_packet)

lemma example_packet_fields:
  "listener_accepts (example_packet x) 110" "payload_samples (example_packet x) = 12" "packet_dbc (example_packet x) = uint x"
proof -
  show "listener_accepts (example_packet x) 110"
    by (simp add: listener_accepts_def example_avtp nth_example_packet header_sizes AVBTP_CD_def AVBTP_SV_def u32_of_def)
  show "packet_dbc (example_packet x) = uint x"
    by (simp add: packet_dbc_def example_avtp nth_example_packet header_sizes)
  have "AVBTP_PACKET_DATA_LENGTH 20 (example_packet x) = 56"
    by (simp add: AVBTP_PACKET_DATA_LENGTH_def nth_example_packet u32_of_def)
  then show "payload_samples (example_packet x) = 12"
    by (simp add: payload_samples_def example_avtp drop_bit_eq_div)
qed

lemma sum_list_take_replicate: "i \<le> n \<Longrightarrow> sum_list (take i (replicate n (m :: nat))) = i * m"
  by (simp add: take_replicate sum_list_replicate)

lemma example_audio_stream:
  "audio_stream 2 0 (replicate 17 6) (map (\<lambda>i. (example_packet (of_nat (6 * i)), 110)) [0..<17])"
proof -
  have u: "uint (of_nat (6 * i) :: u8) = int ((0 + i * 6) mod 256)" for i
    by (simp only: uint_nat unsigned_of_nat take_bit_eq_mod) (simp add: mult.commute)
  show ?thesis unfolding audio_stream_def
  proof (intro conjI allI impI)
    fix i assume "i < length (replicate 17 (6 :: nat))"
    then have i: "i < 17" by simp
    then have p: "map (\<lambda>i. (example_packet (of_nat (6 * i)), 110 :: int)) [0..<17] ! i = (example_packet (of_nat (6 * i)), 110)"
      by (subst nth_map) simp_all
    show "packet_dbc (fst (map (\<lambda>i. (example_packet (of_nat (6 * i)), 110 :: int)) [0..<17] ! i)) =
        int ((0 + sum_list (take i (replicate 17 6))) mod 256)"
      unfolding p fst_conv example_packet_fields u using i by (simp only: sum_list_take_replicate less_imp_le)
    show "listener_accepts (fst (map (\<lambda>i. (example_packet (of_nat (6 * i)), 110 :: int)) [0..<17] ! i))
        (snd (map (\<lambda>i. (example_packet (of_nat (6 * i)), 110)) [0..<17] ! i))"
      unfolding p fst_conv snd_conv by (rule example_packet_fields)
    show "payload_samples (fst (map (\<lambda>i. (example_packet (of_nat (6 * i)), 110 :: int)) [0..<17] ! i)) = int (replicate 17 6 ! i * 2)"
      unfolding p fst_conv example_packet_fields using i by simp
  qed (use nth_replicate [of _ 17 "6 :: nat"] in simp_all)
qed

theorem listener_locks_witness:
  "\<exists>si. fold (listener_receive 0) (map (\<lambda>i. (example_packet (of_nat (6 * i)), 110)) [0..<17]) (False, example_listener, []) =
     (False, si, []) \<and> ls_rate si = 48000 \<and> ls_num_channels_in_payload si = 2"
proof -
  have "length (replicate 17 (6 :: nat)) = 17" "samples_at_rate (sum_list (tl (replicate 17 6))) 48000"
    by (simp_all add: sum_list_replicate samples_at_rate_def)
  moreover have "ls_chan_lock example_listener = 0" "ls_prev_num_samples example_listener = 0"
    "ls_num_channels_in_payload example_listener = 0" by (simp_all add: example_listener_def)
  ultimately show ?thesis
    using listener_locks [OF example_audio_stream, of example_listener 0 False "[]"] by auto
qed

end
