(* ===== verification/Delivery_Proofs.thy ===== *)
theory Delivery_Proofs
  imports Listener_Proofs
begin

text \<open>From the input FIFOs of a talker to the output FIFOs of a listener that is locked onto its stream.\<close>

section \<open>What a packet does to the output FIFOs\<close>

text \<open>Stamping and upkeep do not touch what a running FIFO holds.\<close>

definition kept :: "ofifo_t \<Rightarrow> ofifo_t \<Rightarrow> bool" where
  "kept s t \<longleftrightarrow> (ofifo_ok s \<and> of_state s \<noteq> ZEROING \<longrightarrow>
     ofifo_ok t \<and> of_state t \<noteq> ZEROING \<and> fifo_size t = fifo_size s \<and> ofifo_contents t = ofifo_contents s)"

definition ofifo_kept :: "ofifo_t list \<Rightarrow> ofifo_t list \<Rightarrow> bool" where
  "ofifo_kept q q' \<longleftrightarrow> length q' = length q \<and> (\<forall>f < length q. kept (q ! f) (q' ! f))"

lemma kept_refl [simp]: "kept s s" by (simp add: kept_def)

lemma kept_trans: "kept s t \<Longrightarrow> kept t u \<Longrightarrow> kept s u" by (simp add: kept_def)

lemma ofifo_kept_refl [simp]: "ofifo_kept q q" by (simp add: ofifo_kept_def)

lemma ofifo_kept_trans: "ofifo_kept p q \<Longrightarrow> ofifo_kept q r \<Longrightarrow> ofifo_kept p r"
  unfolding ofifo_kept_def by (metis kept_trans)

lemma ofifo_kept_update: "kept (q ! f) s \<Longrightarrow> ofifo_kept q (q[f := s])"
proof -
  assume k: "kept (q ! f) s"
  have "kept (q ! i) (q[f := s] ! i)" if "i < length q" for i
    using k that by (cases "i = f") simp_all
  then show ?thesis by (simp add: ofifo_kept_def)
qed

lemma kept_ring:
  "of_dptr t = of_dptr s \<Longrightarrow> of_wrptr t = of_wrptr s \<Longrightarrow> of_fifo t = of_fifo s \<Longrightarrow> of_state t = of_state s \<Longrightarrow> kept s t"
  by (simp add: kept_def ofifo_ok_def ofifo_contents_def ofifo_level_def fifo_size_def)

lemma stamp_kept: "ofifo_kept q (stamp_channels ts k fs q)"
proof (induction ts k fs q rule: stamp_channels.induct)
  case (3 ts k f fs q)
  have "kept (q ! f) (media_output_fifo_set_ptp_timestamp ts k (q ! f))"
    by (rule kept_ring) (simp_all add: media_output_fifo_set_ptp_timestamp_def Let_def)
  then show ?case unfolding stamp_channels.simps by (rule ofifo_kept_trans [OF ofifo_kept_update 3])
qed simp_all

lemma maintain_keeps: "media_output_fifo_maintain notified s = (m, n, t) \<Longrightarrow> kept s t"
proof (cases "of_state s = ZEROING")
  case False
  then show "media_output_fifo_maintain notified s = (m, n, t) \<Longrightarrow> kept s t"
    by (intro kept_ring; cases "of_state s"; auto simp: media_output_fifo_maintain_def Let_def split: if_splits prod.splits)
qed (simp add: kept_def)

lemma maintain_kept: "ofifo_kept q (snd (snd (maintain_channels fs notified q)))"
proof (induction fs notified q rule: maintain_channels.induct)
  case (3 f fs notified q)
  obtain m n s where m: "media_output_fifo_maintain notified (q ! f) = (m, n, s)" by (metis prod_cases3)
  then have "ofifo_kept q (q[f := s])" by (intro ofifo_kept_update maintain_keeps)
  moreover have "ofifo_kept (q[f := s]) (snd (snd (maintain_channels fs n (q[f := s]))))" using 3 m by simp
  ultimately have "ofifo_kept q (snd (snd (maintain_channels fs n (q[f := s]))))" by (rule ofifo_kept_trans)
  then show ?case by (cases "maintain_channels fs n (q[f := s])") (simp add: m)
qed simp_all

text \<open>Every channel gets its words, in its own FIFO.\<close>

lemma push_channels_nth:
  assumes "distinct gs" "set gs \<subseteq> {..<length q}"
  shows "length (push_channels p stride n (map Some gs) q) = length q \<and>
    (\<forall>f < length q. f \<notin> set gs \<longrightarrow> push_channels p stride n (map Some gs) q ! f = q ! f) \<and>
    (\<forall>c < length gs. push_channels p stride n (map Some gs) q ! (gs ! c) =
       media_output_fifo_strided_push (drop c p) stride n (q ! (gs ! c)))"
  using assms
proof (induction gs arbitrary: p q)
  case (Cons g gs)
  let ?q = "q[g := media_output_fifo_strided_push p stride n (q ! g)]"
  have IH: "length (push_channels (tl p) stride n (map Some gs) ?q) = length q"
    "\<And>f. f < length q \<Longrightarrow> f \<notin> set gs \<Longrightarrow> push_channels (tl p) stride n (map Some gs) ?q ! f = ?q ! f"
    "\<And>c. c < length gs \<Longrightarrow> push_channels (tl p) stride n (map Some gs) ?q ! (gs ! c) =
       media_output_fifo_strided_push (drop c (tl p)) stride n (?q ! (gs ! c))"
    using Cons.IH [of ?q "tl p"] Cons.prems by auto
  have "push_channels (tl p) stride n (map Some gs) ?q ! ((g # gs) ! c) =
      media_output_fifo_strided_push (drop c p) stride n (q ! ((g # gs) ! c))" if "c < length (g # gs)" for c
  proof (cases c)
    case 0
    then show ?thesis using IH(2) [of g] Cons.prems by simp
  next
    case (Suc d)
    then have "gs ! d \<noteq> g" using that Cons.prems(1) by auto
    then show ?thesis using IH(3) [of d] that Suc by (simp add: drop_Suc)
  qed
  then show ?case using IH(1,2) Cons.prems by simp
qed simp

lemma strided_samples_channel:
  assumes "0 < nc" "c < nc" "n * nc \<le> length p"
  shows "strided_samples (drop c p) nc (n * nc) 0 = map (\<lambda>k. p ! (c + k * nc)) [0..<n]"
proof -
  have "(n * nc + nc - 1) div nc = n"
  proof -
    have "n * nc + nc - 1 = (nc - 1) + n * nc" using assms(1) by simp
    then show ?thesis using assms(1) by (simp only: div_mult_self1) simp
  qed
  moreover have "drop c p ! (k * nc) = p ! (c + k * nc)" if "k < n" for k
    using that assms by (intro nth_drop) (cases n, auto)
  ultimately show ?thesis by (simp add: strided_samples_def)
qed

lemma puts_in_room:
  assumes "ofifo_ok s" "length (ofifo_contents s) + length ws \<le> fifo_size s - 1"
  shows "ofifo_ok (ofifo_queue.after (map (\<lambda>x. Put (f x)) ws) s) \<and>
    ofifo_contents (ofifo_queue.after (map (\<lambda>x. Put (f x)) ws) s) = ofifo_contents s @ map f ws"
  using assms
proof (induction ws arbitrary: s)
  case (Cons w ws)
  have "ofifo_contents (push_word (f w) s) = ofifo_contents s @ [f w]"
    using Cons.prems ofifo_queue.put_contents [of s "f w"] by simp
  moreover have "ofifo_ok (push_word (f w) s)" "fifo_size (push_word (f w) s) = fifo_size s"
    using Cons.prems push_frame by simp_all
  moreover have "length (ofifo_contents (push_word (f w) s)) = Suc (length (ofifo_contents s))"
    using calculation(1) by simp
  ultimately show ?case using Cons.IH [of "push_word (f w) s"] Cons.prems by simp
qed simp

lemma pushed_contents:
  assumes "ofifo_ok s" "of_state s \<noteq> ZEROING" "length (ofifo_contents s) + n \<le> fifo_size s - 1"
    and "0 < nc" "c < nc" "n * nc \<le> length p"
  shows "ofifo_contents (media_output_fifo_strided_push (drop c p) nc (n * nc) s) =
    ofifo_contents s @ map (\<lambda>k. bswap32 (p ! (c + k * nc)) AND 0xffffff) [0..<n]"
proof -
  have "ofifo_contents (s\<lparr>of_sample_count := x\<rparr>) = ofifo_contents s" for s x
    by (simp add: ofifo_contents_def ofifo_level_def fifo_size_def)
  then show ?thesis
    using puts_in_room [OF assms(1), of "map (\<lambda>k. p ! (c + k * nc)) [0..<n]" "stored_sample (of_state s)"] assms(2,3)
    unfolding media_output_fifo_strided_push_def strided_loop [OF assms(4)] strided_samples_channel [OF assms(4-6)]
    by (simp add: stored_sample_def o_def)
qed

text \<open>A stream of \<open>nc\<close> channels, which go to the FIFOs \<open>gs\<close>, with room for \<open>n\<close> samples in each.\<close>

definition listener_ready :: "nat \<Rightarrow> nat list \<Rightarrow> listener_stream \<Rightarrow> ofifo_t list \<Rightarrow> bool" where
  "listener_ready n gs si q \<longleftrightarrow>
     16 \<le> ls_chan_lock si \<and> ls_num_channels_in_payload si = int (length gs) \<and> ls_num_channels si = int (length gs) \<and>
     take (length gs) (ls_map si) = map Some gs \<and> distinct gs \<and> set gs \<subseteq> {..<length q} \<and>
     (\<forall>g \<in> set gs. ofifo_ok (q ! g) \<and> of_state (q ! g) \<noteq> ZEROING \<and> length (ofifo_contents (q ! g)) + n \<le> fifo_size (q ! g) - 1)"

lemma deliver_contents:
  assumes r: "listener_ready n gs si q" and p: "n * length gs \<le> length (listener_words b)"
    and d: "deliver_packet stack b dbc_value (int (n * length gs)) notified si q = (msgs, notified', q')"
  shows "length q' = length q" and "\<And>f. f < length q \<Longrightarrow> f \<notin> set gs \<Longrightarrow> kept (q ! f) (q' ! f)"
    and "\<And>c. c < length gs \<Longrightarrow> ofifo_contents (q' ! (gs ! c)) =
      ofifo_contents (q ! (gs ! c)) @ map (\<lambda>k. bswap32 (listener_words b ! (c + k * length gs)) AND 0xffffff) [0..<n]"
proof -
  let ?nc = "length gs" and ?p = "listener_words b"
  have m: "take (nat (int ?nc)) (ls_map si) = map Some gs" "ls_num_channels si = int ?nc" "ls_num_channels_in_payload si = int ?nc"
    "distinct gs" "set gs \<subseteq> {..<length q}"
    using r by (simp_all add: listener_ready_def)
  obtain q1 where q1: "q1 = (if AVBTP_TV (listener_avtp b) b = 1
      then stamp_channels (AVBTP_TIMESTAMP (listener_avtp b) b)
        (unat (timestamp_sample (syt_interval stack (ls_rate si)) (word_of_int dbc_value))) (map Some gs) q else q)" by simp
  have kq: "ofifo_kept q q1" using stamp_kept by (simp add: q1)
  have d1: "deliver_packet stack b dbc_value (int (n * ?nc)) notified si q =
      (case maintain_channels (map Some gs) notified q1 of (msgs, notified, q2) \<Rightarrow>
         (msgs, notified, push_channels ?p ?nc (n * ?nc) (map Some gs) q2))"
    unfolding deliver_packet_def ls_channels_def m(2,3) Let_def q1 using m(1) by (simp only: nat_int if_False less_irrefl)
  obtain q2 where q2: "q2 = snd (snd (maintain_channels (map Some gs) notified q1))" by simp
  have k: "ofifo_kept q q2" unfolding q2 by (rule ofifo_kept_trans [OF kq maintain_kept])
  have q': "q' = push_channels ?p ?nc (n * ?nc) (map Some gs) q2"
    using d d1 q2 by (auto split: prod.splits)
  have len: "length q2 = length q" using k by (simp add: ofifo_kept_def)
  note n = push_channels_nth [of gs q2 ?p ?nc "n * ?nc"]
  show "length q' = length q" using n m len by (simp add: q')
  show "kept (q ! f) (q' ! f)" if "f < length q" "f \<notin> set gs" for f
    using n m len k that by (simp add: q' ofifo_kept_def)
  show "ofifo_contents (q' ! (gs ! c)) =
      ofifo_contents (q ! (gs ! c)) @ map (\<lambda>k. bswap32 (?p ! (c + k * ?nc)) AND 0xffffff) [0..<n]" if c: "c < ?nc" for c
  proof -
    have g: "gs ! c < length q" "gs ! c \<in> set gs" using m(5) c nth_mem by blast+
    then have "kept (q ! (gs ! c)) (q2 ! (gs ! c))" using k by (simp add: ofifo_kept_def)
    moreover have "ofifo_ok (q ! (gs ! c)) \<and> of_state (q ! (gs ! c)) \<noteq> ZEROING \<and>
        length (ofifo_contents (q ! (gs ! c))) + n \<le> fifo_size (q ! (gs ! c)) - 1"
      using r g(2) unfolding listener_ready_def by blast
    ultimately have o: "ofifo_ok (q2 ! (gs ! c))" "of_state (q2 ! (gs ! c)) \<noteq> ZEROING"
      "ofifo_contents (q2 ! (gs ! c)) = ofifo_contents (q ! (gs ! c))"
      "length (ofifo_contents (q2 ! (gs ! c))) + n \<le> fifo_size (q2 ! (gs ! c)) - 1"
      by (simp_all add: kept_def)
    have "q' ! (gs ! c) = media_output_fifo_strided_push (drop c ?p) ?nc (n * ?nc) (q2 ! (gs ! c))"
      using n m len c by (simp add: q')
    then show ?thesis using pushed_contents [OF o(1,2,4) _ c p] c o(3) by fastforce
  qed
qed

section \<open>The frame as the listener reads it\<close>

lemma received_frame:
  assumes h: "frame_header (8 + 4 * N) b b'" and t: "b ! 14 = 0x81" "AVBTP_CD 20 b = 0" "AVBTP_SV 20 b \<noteq> 0"
    and N: "0 < N" "52 + 4 * N \<le> length b'" "length b' \<le> 2 ^ 16"
  shows "listener_avtp b' = 20" "listener_accepts b' (int (50 + 4 * N))" "payload_samples b' = int N"
    and "N \<le> length (listener_words b')"
    and "\<And>d w. d < N \<Longrightarrow> payload_word b' d = hton_32 w \<Longrightarrow> bswap32 (listener_words b' ! d) = w"
proof -
  show a: "listener_avtp b' = 20" using h t(1) by (simp add: frame_header_def listener_avtp_def)
  show "listener_accepts b' (int (50 + 4 * N))"
    unfolding listener_accepts_def a using h t(2,3) N(1) by (auto simp: frame_header_def header_sizes AVBTP_CD_def)
  obtain M where M: "M = 8 + 4 * N" "M < 2 ^ 16" using N(2,3) by simp
  have "AVBTP_PACKET_DATA_LENGTH 20 b' = of_nat M AND 0xFFFF" using h by (simp only: frame_header_def M(1))
  also have "\<dots> = take_bit 16 (of_nat M)" by (simp add: take_bit_eq_mask mask_eq_exp_minus_1)
  finally have "unat (AVBTP_PACKET_DATA_LENGTH 20 b') = take_bit 16 (take_bit 32 M)"
    by (simp add: unsigned_take_bit_eq unsigned_of_nat)
  also have "\<dots> = M" using M(2) by (simp add: take_bit_nat_eq_self)
  finally have "uint (AVBTP_PACKET_DATA_LENGTH 20 b') = 8 + 4 * int N" by (simp add: uint_nat M(1))
  then show "payload_samples b' = int N" by (simp add: payload_samples_def a drop_bit_eq_div)
  show l: "N \<le> length (listener_words b')" using N(2) by (simp add: listener_words_def buffer_words_def a header_sizes)
  show "bswap32 (listener_words b' ! d) = w" if "d < N" "payload_word b' d = hton_32 w" for d w
  proof -
    have "d < (length b' - 52) div 4" using that(1) N(2) by simp
    then have "listener_words b' ! d = of_octets (b' ! (52 + 4 * d)) (b' ! (52 + 4 * d + 1)) (b' ! (52 + 4 * d + 2)) (b' ! (52 + 4 * d + 3))"
      by (simp add: listener_words_def buffer_words_def a header_sizes)
    moreover have "payload_word b' d ! i = b' ! (52 + 4 * d + i)" if "i < 4" for i
      using that \<open>d < N\<close> N(2) by (simp add: payload_word_def get_bytes_def)
    from this [of 0] this [of 1] this [of 2] this [of 3]
    have "b' ! (52 + 4 * d) = octet w 3" "b' ! (52 + 4 * d + 1) = octet w 2" "b' ! (52 + 4 * d + 2) = octet w 1"
      "b' ! (52 + 4 * d + 3) = octet w 0"
      unfolding that(2) by (simp_all add: hton_32_def octet_def)
    ultimately show ?thesis by (simp only: bswap32_def octet_of_octets of_octets_octet)
  qed
qed

section \<open>End to end\<close>

lemma label_bits: "ty AND 0xffffff = 0 \<Longrightarrow> ((x AND 0xffffff) OR ty) AND 0xffffff = x AND (0xffffff :: u32)"
  by (simp only: bit.conj_disj_distrib2 and.assoc and.idem or.right_neutral)

text \<open>
  C28. From end to end. A packet that the talker makes, for a stream whose buffer holds its template, is taken by a
  listener that is locked onto the stream: every channel's output FIFO gets exactly the next samples
  of the talker's input FIFO of that channel, 24 bits each and in order, behind what it already holds;
  the talker's FIFO has then lost exactly these, and no other FIFO of the listener has changed its contents.
\<close>
theorem talker_to_listener:
  assumes ok: "talker_ok st q rs ws"
    and b: "52 + 4 * (unat (tk_samples_per_fifo_packet st) * length (tk_channels st)) \<le> length b" "length b \<le> 2 ^ 16"
    and t: "b ! 14 = 0x81" "AVBTP_CD 20 b = 0" "AVBTP_SV 20 b \<noteq> 0" and ty: "ty AND 0xffffff = 0"
    and sent: "avb1722_create_packet ty en info time b st q = Some (len, b', st', q')" "len \<noteq> 0"
    and r: "listener_ready (unat (tk_samples_per_packet_base st) + 1) gs si p" "length gs = length (tk_channels st)"
    and recv: "avb_1722_listener_process_packet stack b' (int len) notified si p = (ret, msgs, notified', si', p')"
  shows "ret = 1 \<and> (\<exists>n rs'. unat (tk_samples_per_packet_base st) \<le> n \<and> n \<le> unat (tk_samples_per_packet_base st) + 1 \<and>
    talker_ok st' q' rs' ws \<and>
    (\<forall>c < length gs. n \<le> length (channel_waiting st q rs ws c) \<and>
      ofifo_contents (p' ! (gs ! c)) =
        ofifo_contents (p ! (gs ! c)) @ map (\<lambda>x. x AND 0xffffff) (take n (channel_waiting st q rs ws c)) \<and>
      channel_waiting st' q' rs' ws c = drop n (channel_waiting st q rs ws c))) \<and>
    (\<forall>f < length p. f \<notin> set gs \<and> ofifo_ok (p ! f) \<and> of_state (p ! f) \<noteq> ZEROING \<longrightarrow>
      ofifo_contents (p' ! f) = ofifo_contents (p ! f))"
proof -
  let ?nc = "length gs"
  obtain n rs' where n: "n = unat (tk_samples_per_packet_base st) \<or> n = unat (tk_samples_per_packet_base st) + 1"
    and f: "len = 50 + 4 * (n * ?nc)" "frame_header (len - 42) b b'" "length b' = length b" "talker_ok st' q' rs' ws"
      "n \<le> unat (tk_samples_per_fifo_packet st)"
    and w: "\<And>c. c < ?nc \<Longrightarrow> n \<le> length (channel_waiting st q rs ws c) \<and>
        channel_waiting st' q' rs' ws c = drop n (channel_waiting st q rs ws c) \<and>
        (\<forall>k < n. payload_word b' (c + k * ?nc) = hton_32 ((channel_waiting st q rs ws c ! k AND 0xffffff) OR ty))"
    using create_packet_result [OF ok b(1), of ty en info time] sent r(2) by fastforce
  have o: "0 < tk_samples_per_packet_base st" "0 < ?nc"
    using ok r(2) by (auto simp: talker_ok_def Let_def)
  have pos: "0 < n" using n o(1) unat_gt_0 by fastforce
  let ?N = "n * ?nc"
  have N: "0 < ?N" "52 + 4 * ?N \<le> length b'" "length b' \<le> 2 ^ 16"
  proof -
    show "0 < ?N" using pos o(2) by simp
    have "?N \<le> unat (tk_samples_per_fifo_packet st) * ?nc" using f(5) by (rule mult_le_mono1)
    then have "52 + 4 * ?N \<le> 52 + 4 * (unat (tk_samples_per_fifo_packet st) * ?nc)" by (intro add_left_mono mult_le_mono2)
    then show "52 + 4 * ?N \<le> length b'" unfolding f(3) r(2) using b(1) by (rule order_trans)
    show "length b' \<le> 2 ^ 16" using b(2) f(3) by simp
  qed
  have fh: "frame_header (8 + 4 * ?N) b b'" using f(1,2) by simp
  note fr = received_frame [OF fh t N]
  have rn: "listener_ready n gs (si\<lparr>ls_dbc := packet_dbc b', ls_prev_num_samples := int ?N\<rparr>) p"
    using r(1) n unfolding listener_ready_def by fastforce
  have lock: "\<not> ls_chan_lock si < 16" using r(1) by (simp add: listener_ready_def)
  obtain m2 n2 p2 where d: "deliver_packet stack b' (packet_dbc b') (int ?N) notified
      (si\<lparr>ls_dbc := packet_dbc b', ls_prev_num_samples := int ?N\<rparr>) p = (m2, n2, p2)" by (metis prod_cases3)
  have res: "ret = 1" "p' = p2"
    using recv d fr(2) lock unfolding avb_1722_listener_process_packet_def f(1) fr(3) Let_def by simp_all
  note dc = deliver_contents [OF rn fr(4) d, folded res(2)]
  have ch: "ofifo_contents (p' ! (gs ! c)) =
      ofifo_contents (p ! (gs ! c)) @ map (\<lambda>x. x AND 0xffffff) (take n (channel_waiting st q rs ws c))" if c: "c < ?nc" for c
  proof -
    have "bswap32 (listener_words b' ! (c + k * ?nc)) AND 0xffffff = channel_waiting st q rs ws c ! k AND 0xffffff" if k: "k < n" for k
    proof -
      have "c + k * ?nc < ?N" using place_fits [OF c k, of "52 + 4 * ?N"] by simp
      moreover have "payload_word b' (c + k * ?nc) = hton_32 ((channel_waiting st q rs ws c ! k AND 0xffffff) OR ty)"
        using w [OF c] k by blast
      ultimately have "bswap32 (listener_words b' ! (c + k * ?nc)) = (channel_waiting st q rs ws c ! k AND 0xffffff) OR ty"
        by (rule fr(5))
      then show ?thesis by (simp only: label_bits [OF ty])
    qed
    then have "map (\<lambda>k. bswap32 (listener_words b' ! (c + k * ?nc)) AND 0xffffff) [0..<n] =
        map (\<lambda>x. x AND 0xffffff) (take n (channel_waiting st q rs ws c))"
      using w [OF c] by (intro nth_equalityI) auto
    then show ?thesis using dc(3) [OF c] by simp
  qed
  have "unat (tk_samples_per_packet_base st) \<le> n" "n \<le> unat (tk_samples_per_packet_base st) + 1" using n by auto
  then have "\<exists>n rs'. unat (tk_samples_per_packet_base st) \<le> n \<and> n \<le> unat (tk_samples_per_packet_base st) + 1 \<and>
    talker_ok st' q' rs' ws \<and>
    (\<forall>c < length gs. n \<le> length (channel_waiting st q rs ws c) \<and>
      ofifo_contents (p' ! (gs ! c)) =
        ofifo_contents (p ! (gs ! c)) @ map (\<lambda>x. x AND 0xffffff) (take n (channel_waiting st q rs ws c)) \<and>
      channel_waiting st' q' rs' ws c = drop n (channel_waiting st q rs ws c))"
    by (intro exI [of _ n] exI [of _ rs'] conjI allI impI) (simp_all only: f(4) w ch)
  moreover have "\<forall>f < length p. f \<notin> set gs \<and> ofifo_ok (p ! f) \<and> of_state (p ! f) \<noteq> ZEROING \<longrightarrow>
      ofifo_contents (p' ! f) = ofifo_contents (p ! f)"
    using dc(2) by (simp add: kept_def)
  ultimately show ?thesis using res(1) by (intro conjI)
qed

text \<open>The stereo stream of the talker's example, and two empty output FIFOs.\<close>

definition example_ofifo :: ofifo_t where
  "example_ofifo = ofifo_example\<lparr>of_dptr := 0, of_wrptr := 0, of_fifo := replicate 32 0\<rparr>"

definition example_template :: "u8 list" where
  "example_template = (replicate 150 0)[14 := 0x81, 21 := 0x80]"

lemma example_template_fields:
  "length example_template = 150" "example_template ! 14 = 0x81" "AVBTP_CD 20 example_template = 0" "AVBTP_SV 20 example_template \<noteq> 0"
  by (simp_all add: example_template_def AVBTP_CD_def AVBTP_SV_def u32_of_def nth_list_update)

definition example_locked :: listener_stream where
  "example_locked = example_listener\<lparr>ls_chan_lock := 16, ls_rate := 48000, ls_num_channels_in_payload := 2\<rparr>"

lemma example_listener_ready: "listener_ready 7 [0, 1] example_locked [example_ofifo, example_ofifo]"
  by (simp add: listener_ready_def example_locked_def example_listener_def example_ofifo_def ofifo_example_def
      ofifo_ok_def ofifo_level_def fifo_size_def)

theorem talker_to_listener_witness:
  "\<exists>len b' st' q'. avb1722_create_packet MBLA_24BIT example_enable example_time 0 example_template example_talker
       [example_full_ififo, example_full_ififo] = Some (len, b', st', q') \<and>
     fst (avb_1722_listener_process_packet 0 b' (int len) False example_locked [example_ofifo, example_ofifo]) = 1"
proof -
  have b: "52 + 4 * (unat (tk_samples_per_fifo_packet example_talker) * length (tk_channels example_talker)) \<le> length example_template"
    "length example_template \<le> 2 ^ 16"
    by (simp_all add: example_talker_ok(2) example_template_fields(1)) (simp add: example_talker_def)
  have ty: "MBLA_24BIT AND 0xffffff = 0" by (simp add: MBLA_24BIT_def)
  have base: "unat (tk_samples_per_packet_base example_talker) + 1 = 7" by (simp add: example_talker_def)
  obtain len b' st' q' where r: "avb1722_create_packet MBLA_24BIT example_enable example_time 0 example_template example_talker
       [example_full_ififo, example_full_ififo] = Some (len, b', st', q')"
    using create_packet_result [OF example_talker_ok(1) b(1), of MBLA_24BIT example_enable example_time 0] by blast
  then have "42 \<le> len"
    using example_ready unfolding avb1722_create_packet_def by (auto intro: talker_packet_size)
  then have len: "len \<noteq> 0" by simp
  obtain ret msgs n' si' p' where p: "avb_1722_listener_process_packet 0 b' (int len) False example_locked
      [example_ofifo, example_ofifo] = (ret, msgs, n', si', p')" by (metis prod_cases5)
  have "ret = 1"
    using talker_to_listener [OF example_talker_ok(1) b example_template_fields(2-4) ty r len _ _ p, of "[0, 1]"]
      example_listener_ready base by (simp add: example_talker_ok(2))
  with r p show ?thesis by simp
qed

end
