(* ===== verification/Avb_1722_Router.thy ===== *)
theory Avb_1722_Router
  imports Avb_1722_Listener
begin

text \<open>
  The way of a 1722 packet from the MAC to a listener: the two routing tables
  (\<open>avb_1722_router_table_simple.c\<close> and \<open>avb_1722_router_table_hash.c\<close>), the commands that fill them
  (\<open>avb_1722_router.c\<close>) and the filter of the MAC (\<open>avb_mac_filter.h\<close>). The number of sinks and the
  size of the hash tables are the lengths of the lists. The locks around the tables are left out: every function
  runs as a whole.
\<close>

section \<open>The table of the sinks\<close>

record router_entry =
  re_id0 :: u32
  re_id1 :: u32
  re_link :: u32

definition init_avb_1722_router_table_simple :: "router_entry list \<Rightarrow> router_entry list" where
  "init_avb_1722_router_table_simple t = map (\<lambda>e. e\<lparr>re_id0 := 0, re_id1 := 0\<rparr>) t"

text \<open>The loop from sink \<open>i\<close> on; the result is the link and the sink number.\<close>

fun lookup_from :: "u32 \<Rightarrow> u32 \<Rightarrow> nat \<Rightarrow> router_entry list \<Rightarrow> (u32 \<times> u32) option" where
  "lookup_from key0 key1 i [] = None"
| "lookup_from key0 key1 i (e # t) =
     (if key0 = re_id0 e \<and> key1 = re_id1 e then Some (re_link e, of_nat i) else lookup_from key0 key1 (Suc i) t)"

definition avb_1722_router_table_lookup_simple :: "u32 \<Rightarrow> u32 \<Rightarrow> router_entry list \<Rightarrow> (u32 \<times> u32) option" where
  "avb_1722_router_table_lookup_simple key0 key1 t =
     (if key0 = 0 \<and> key1 = 0 then None else lookup_from key0 key1 0 t)"

definition avb_1722_router_table_add_entry_simple ::
  "u32 \<Rightarrow> u32 \<Rightarrow> u32 \<Rightarrow> nat \<Rightarrow> router_entry list \<Rightarrow> router_entry list" where
  "avb_1722_router_table_add_entry_simple key0 key1 link sink_num t =
     t[sink_num := \<lparr>re_id0 = key0, re_id1 = key1, re_link = link\<rparr>]"

section \<open>The hash table\<close>

text \<open>\<open>crc\<close> is the processor's checksum instruction: accumulator, data and polynomial.\<close>

record hash_entry =
  he_id0 :: u32
  he_id1 :: u32
  he_link :: u32
  he_avb_hash :: u32

record hash_tables =
  ht_router :: "hash_entry list"
  ht_backup :: "hash_entry list"
  ht_num_entries :: int
  ht_router_poly :: "u32 \<times> u32"
  ht_backup_poly :: "u32 \<times> u32"

abbreviation unused_key :: "hash_entry \<Rightarrow> hash_entry" where
  "unused_key e \<equiv> e\<lparr>he_id0 := 0, he_id1 := 0\<rparr>"

definition init_avb_1722_router_table_hash :: "hash_tables \<Rightarrow> hash_tables" where
  "init_avb_1722_router_table_hash h =
     h\<lparr>ht_num_entries := 0, ht_router := map unused_key (ht_router h), ht_backup := map unused_key (ht_backup h)\<rparr>"

definition hash_key :: "(u32 \<Rightarrow> u32 \<Rightarrow> u32 \<Rightarrow> u32) \<Rightarrow> nat \<Rightarrow> u32 \<Rightarrow> u32 \<Rightarrow> u32 \<Rightarrow> nat" where
  "hash_key crc n key0 key1 poly =
     (let x = 0x9226F562; x = crc x key0 poly; x = crc x key1 poly in unat (x AND of_nat (n - 1)))"

definition entry_is :: "u32 \<Rightarrow> u32 \<Rightarrow> hash_entry \<Rightarrow> bool" where
  "entry_is key0 key1 e \<longleftrightarrow> key0 = he_id0 e \<and> key1 = he_id1 e"

definition avb_1722_router_table_lookup_hash ::
  "(u32 \<Rightarrow> u32 \<Rightarrow> u32 \<Rightarrow> u32) \<Rightarrow> u32 \<Rightarrow> u32 \<Rightarrow> hash_tables \<Rightarrow> (u32 \<times> u32) option" where
  "avb_1722_router_table_lookup_hash crc key0 key1 h =
     (let t = ht_router h;
          e = t ! hash_key crc (length t) key0 key1 (fst (ht_router_poly h));
          f = t ! hash_key crc (length t) key0 key1 (snd (ht_router_poly h))
      in if key0 = 0 \<and> key1 = 0 then None
         else if entry_is key0 key1 e then Some (he_link e, he_avb_hash e)
         else if entry_is key0 key1 f then Some (he_link f, he_avb_hash f)
         else None)"

definition contains_different_entry :: "hash_entry list \<Rightarrow> nat \<Rightarrow> u32 \<times> u32 \<Rightarrow> bool" where
  "contains_different_entry t index key \<longleftrightarrow>
     \<not> (he_id0 (t ! index) = 0 \<and> he_id1 (t ! index) = 0) \<and>
     (he_id0 (t ! index) \<noteq> fst key \<or> he_id1 (t ! index) \<noteq> snd key)"

definition put_entry :: "nat \<Rightarrow> u32 \<times> u32 \<Rightarrow> u32 \<Rightarrow> u32 \<Rightarrow> hash_tables \<Rightarrow> hash_tables" where
  "put_entry index key link avb_hash h =
     h\<lparr>ht_backup := (ht_backup h)[index := \<lparr>he_id0 = fst key, he_id1 = snd key, he_link = link, he_avb_hash = avb_hash\<rparr>]\<rparr>"

text \<open>The loop of \<open>insert\<close>; \<open>second\<close> is \<open>hashtype\<close>. The result says whether there was no conflict left.\<close>

function insert_loop ::
  "(u32 \<Rightarrow> u32 \<Rightarrow> u32 \<Rightarrow> u32) \<Rightarrow> u32 \<Rightarrow> u32 \<Rightarrow> int \<Rightarrow> int \<Rightarrow> bool \<Rightarrow> u32 \<times> u32 \<Rightarrow> hash_tables \<Rightarrow> bool \<times> hash_tables" where
  "insert_loop crc link avb_hash limit count second key h =
     (let poly = (if second then snd (ht_backup_poly h) else fst (ht_backup_poly h));
          index = hash_key crc (length (ht_backup h)) (fst key) (snd key) poly
      in if \<not> contains_different_entry (ht_router h) index key
         then (True, put_entry index key link avb_hash h)
         else let old = (he_id0 (ht_backup h ! index), he_id1 (ht_backup h ! index));
                  key' = (if count = 0 then key else old);
                  h' = (if count = 0 then h else put_entry index key link avb_hash h)
              in if count + 1 < limit then insert_loop crc link avb_hash limit (count + 1) (\<not> second) key' h'
                 else (False, h'))"
  by pat_completeness auto
termination by (relation "measure (\<lambda>(crc, l, a, limit, count, z). nat (limit - count))") auto

declare insert_loop.simps [simp del]

definition insert_entry ::
  "(u32 \<Rightarrow> u32 \<Rightarrow> u32 \<Rightarrow> u32) \<Rightarrow> u32 \<Rightarrow> u32 \<Rightarrow> u32 \<Rightarrow> u32 \<Rightarrow> hash_tables \<Rightarrow> bool \<times> hash_tables" where
  "insert_entry crc key0 key1 link avb_hash h =
     (let (ok, h') = insert_loop crc link avb_hash (ht_num_entries h + 10) 0 False (key0, key1) h
      in (ok, if ok then h'\<lparr>ht_num_entries := ht_num_entries h' + 1\<rparr> else h'))"

text \<open>One pass of the refilling, over the entries of the routing table, until an insertion fails.\<close>

fun refill_from :: "(u32 \<Rightarrow> u32 \<Rightarrow> u32 \<Rightarrow> u32) \<Rightarrow> hash_entry list \<Rightarrow> hash_tables \<Rightarrow> bool \<times> hash_tables" where
  "refill_from crc [] h = (True, h)"
| "refill_from crc (e # es) h =
     (if he_id0 e \<noteq> 0 \<or> he_id1 e \<noteq> 0
      then case insert_entry crc (he_id0 e) (he_id1 e) (he_link e) (he_avb_hash e) h of
             (ok, h') \<Rightarrow> if ok then refill_from crc es h' else (False, h')
      else refill_from crc es h)"

definition next_polys :: "hash_tables \<Rightarrow> hash_tables" where
  "next_polys h = h\<lparr>ht_backup_poly := (1664525 * fst (ht_backup_poly h) + 1013904223, 1664525 * snd (ht_backup_poly h) + 1013904223)\<rparr>"

partial_function (option) refill_loop :: "(u32 \<Rightarrow> u32 \<Rightarrow> u32 \<Rightarrow> u32) \<Rightarrow> hash_tables \<Rightarrow> hash_tables option" where
  "refill_loop crc h =
     (let (ok, h') = refill_from crc (ht_router h) (next_polys h)
      in if ok then Some h' else refill_loop crc h')"

definition refill_backup_table :: "(u32 \<Rightarrow> u32 \<Rightarrow> u32 \<Rightarrow> u32) \<Rightarrow> hash_tables \<Rightarrow> hash_tables option" where
  "refill_backup_table crc h =
     refill_loop crc (h\<lparr>ht_num_entries := 0, ht_backup := map unused_key (ht_backup h)\<rparr>)"

definition flip_tables :: "hash_tables \<Rightarrow> hash_tables" where
  "flip_tables h = h\<lparr>ht_router := ht_backup h, ht_router_poly := ht_backup_poly h\<rparr>"

partial_function (option) avb_1722_router_table_add_entry_hash ::
  "(u32 \<Rightarrow> u32 \<Rightarrow> u32 \<Rightarrow> u32) \<Rightarrow> u32 \<Rightarrow> u32 \<Rightarrow> u32 \<Rightarrow> u32 \<Rightarrow> hash_tables \<Rightarrow> hash_tables option" where
  "avb_1722_router_table_add_entry_hash crc key0 key1 link avb_hash h =
     (let (ok, h') = insert_entry crc key0 key1 link avb_hash h
      in if ok then Some (flip_tables h')
         else case refill_backup_table crc h' of
                None \<Rightarrow> None
              | Some h'' \<Rightarrow> avb_1722_router_table_add_entry_hash crc key0 key1 link avb_hash h'')"

section \<open>Commands\<close>

text \<open>The keys are made from the bytes of the stream id as it lies in memory.\<close>

definition stream_key0 :: "u32 \<times> u32 \<Rightarrow> u32" where
  "stream_key0 streamId = of_octets (octet (fst streamId) 3) (octet (fst streamId) 2) (octet (snd streamId) 1) (octet (snd streamId) 0)"

definition stream_key1 :: "u32 \<times> u32 \<Rightarrow> u32" where
  "stream_key1 streamId = of_octets (octet (fst streamId) 1) (octet (fst streamId) 0) (octet (snd streamId) 3) (octet (snd streamId) 2)"

definition avb_1722_register_routes :: "u32 list \<Rightarrow> int \<Rightarrow> u32 list \<Rightarrow> u32 list" where
  "avb_1722_register_routes new num_clients links =
     (let put = (\<lambda>i l. if num_clients \<ge> int i + 1 then l[i := new ! i] else l) in put 3 (put 2 (put 1 (put 0 links))))"

text \<open>What is sent to the MAC: the keys, the link and the sink number.\<close>

definition avb_1722_add_stream_mapping :: "u32 list \<Rightarrow> u32 \<times> u32 \<Rightarrow> nat \<Rightarrow> u32 \<Rightarrow> u32 \<times> u32 \<times> u32 \<times> u32" where
  "avb_1722_add_stream_mapping links streamId link_num avb_hash =
     (stream_key0 streamId, stream_key1 streamId, links ! link_num, avb_hash)"

definition avb_1722_disconnect_stream_mapping :: "u32 \<times> u32 \<Rightarrow> u32 \<times> u32 \<times> u32 \<times> u32" where
  "avb_1722_disconnect_stream_mapping streamId = (stream_key0 streamId, stream_key1 streamId, 0, 0)"

section \<open>The filter\<close>

definition ROUTER_LINK :: "u32 \<Rightarrow> u32" where
  "ROUTER_LINK n = push_bit (4 + unat n) 1"

definition MAC_FILTER_PTP :: u32 where "MAC_FILTER_PTP = 0x2"
definition MAC_FILTER_AVB_CONTROL :: u32 where "MAC_FILTER_AVB_CONTROL = 0x8"

definition HTONS :: "u32 \<Rightarrow> u32" where
  "HTONS x = drop_bit 8 x OR push_bit 8 (x AND 0xff)"

text \<open>\<open>buf\<close> is the frame as words. The result is the mask of the clients it goes to, and the frame.\<close>

definition mac_custom_filter :: "router_entry list \<Rightarrow> u32 list \<Rightarrow> u32 \<times> u32 list" where
  "mac_custom_filter t buf =
     (let qhdr = (buf ! 3 AND 0xffff = 0x0081);
          etype = (if qhdr then buf ! 4 AND 0xffff else buf ! 3 AND 0xffff)
      in if etype = 0xf788 then (MAC_FILTER_PTP, buf)
         else if etype = HTONS 0x22ea \<or> etype = HTONS 0x88f6 \<or> etype = HTONS 0x88f5 then (MAC_FILTER_AVB_CONTROL, buf)
         else if etype = HTONS 0x22f0
         then if drop_bit 23 (if qhdr then buf ! 4 else buf ! 3) AND 1 \<noteq> 0 then (MAC_FILTER_AVB_CONTROL, buf)
              else let id0 = (if qhdr then push_bit 16 (buf ! 7) OR drop_bit 16 (buf ! 5)
                              else push_bit 16 (buf ! 6) OR drop_bit 16 (buf ! 4));
                       id1 = (if qhdr then buf ! 6 else buf ! 5)
                   in case avb_1722_router_table_lookup_simple id0 id1 t of
                        Some (link, hash) \<Rightarrow> (ROUTER_LINK link, buf[0 := push_bit 16 hash, 1 := 0])
                      | None \<Rightarrow> (0, buf)
         else (0, buf))"

end
