(* ===== verification/Router_Proofs.thy ===== *)
theory Router_Proofs
  imports Avb_1722_Router
begin

text \<open>A stream that is mapped reaches its listener, and what the tables do to the streams around it.\<close>

section \<open>The filter\<close>

text \<open>A frame of stream \<open>sid\<close>, with or without a VLAN tag; its AVTP header is at \<open>x\<close>.\<close>

definition carries_stream :: "u8 list \<Rightarrow> nat \<Rightarrow> u32 \<times> u32 \<Rightarrow> bool" where
  "carries_stream f x sid \<longleftrightarrow> 32 \<le> length f \<and>
     (x = 18 \<and> f ! 12 = 0x81 \<and> f ! 13 = 0 \<and> f ! 16 = 0x22 \<and> f ! 17 = 0xf0 \<or> x = 14 \<and> f ! 12 = 0x22 \<and> f ! 13 = 0xf0) \<and>
     AVBTP_CD x f = 0 \<and> sid = (AVBTP_STREAM_ID1 x f, AVBTP_STREAM_ID0 x f)"

lemma octet_get_u32:
  "octet (get_u32 x b) 0 = b ! (x + 3)" "octet (get_u32 x b) 1 = b ! (x + 2)"
  "octet (get_u32 x b) 2 = b ! (x + 1)" "octet (get_u32 x b) 3 = b ! x"
  by (auto intro!: bit_word_eqI simp: bit_octet get_u32_def u32_of_def bit_or_iff bit_push_bit_iff bit_ucast_iff bit_u8_ge)

lemma frame_keys:
  "stream_key0 (AVBTP_STREAM_ID1 x f, AVBTP_STREAM_ID0 x f) = of_octets (f ! (x + 4)) (f ! (x + 5)) (f ! (x + 10)) (f ! (x + 11))"
  "stream_key1 (AVBTP_STREAM_ID1 x f, AVBTP_STREAM_ID0 x f) = of_octets (f ! (x + 6)) (f ! (x + 7)) (f ! (x + 8)) (f ! (x + 9))"
  unfolding stream_key0_def stream_key1_def AVBTP_STREAM_ID1_def AVBTP_STREAM_ID0_def fst_conv snd_conv octet_get_u32
  by (simp_all add: add.commute)

lemma split_key: "push_bit 16 (of_octets c d e f) OR drop_bit 16 (of_octets g h a b) = of_octets a b c d"
  by (intro bit_word_eqI) (fastforce simp: of_octets_def bit_or_iff bit_push_bit_iff bit_drop_bit_eq bit_ucast_iff bit_u8_ge dest: bit_u8_less)

lemma low_half_word: "of_octets a b c d AND 0xffff = of_octets a b 0 0"
proof -
  have m: "(0xffff :: u32) = mask 16" by (simp add: mask_eq_exp_minus_1)
  show ?thesis unfolding m
    by (intro bit_word_eqI) (fastforce simp: of_octets_def bit_or_iff bit_and_iff bit_mask_iff bit_push_bit_iff bit_ucast_iff bit_u8_ge dest: bit_u8_less)
qed

lemma bit_23: "drop_bit 23 (of_octets a b c d) AND 1 = drop_bit 7 (u32_of c)"
  unfolding u32_of_def
  by (intro bit_word_eqI) (fastforce simp: of_octets_def bit_or_iff bit_and_iff bit_1_iff bit_push_bit_iff bit_drop_bit_eq bit_ucast_iff bit_u8_ge
      dest: bit_u8_less)

lemma nth_frame_words:
  "4 * k + 4 \<le> length f \<Longrightarrow>
   buffer_words 0 f ! k = of_octets (f ! (4 * k)) (f ! (4 * k + 1)) (f ! (4 * k + 2)) (f ! (4 * k + 3))"
proof -
  assume "4 * k + 4 \<le> length f"
  then have "k < length f div 4" by simp
  then show ?thesis by (simp add: buffer_words_def)
qed

lemma frame_has_words: "carries_stream f x sid \<Longrightarrow> 2 \<le> length (buffer_words 0 f)"
  using div_le_mono [of 8 "length f" 4] by (auto simp: carries_stream_def buffer_words_def)

lemma filter_stream:
  assumes "carries_stream f x sid"
  shows "mac_custom_filter t (buffer_words 0 f) =
    (case avb_1722_router_table_lookup_simple (stream_key0 sid) (stream_key1 sid) t of
       Some (link, hash) \<Rightarrow> (ROUTER_LINK link, (buffer_words 0 f)[0 := push_bit 16 hash, 1 := 0])
     | None \<Rightarrow> (0, buffer_words 0 f))"
proof -
  have l: "32 \<le> length f" and sid: "sid = (AVBTP_STREAM_ID1 x f, AVBTP_STREAM_ID0 x f)" and cd: "drop_bit 7 (u32_of (f ! x)) = 0"
    using assms by (auto simp: carries_stream_def AVBTP_CD_def)
  have w: "buffer_words 0 f ! 3 = of_octets (f ! 12) (f ! 13) (f ! 14) (f ! 15)"
    "buffer_words 0 f ! 4 = of_octets (f ! 16) (f ! 17) (f ! 18) (f ! 19)"
    "buffer_words 0 f ! 5 = of_octets (f ! 20) (f ! 21) (f ! 22) (f ! 23)"
    "buffer_words 0 f ! 6 = of_octets (f ! 24) (f ! 25) (f ! 26) (f ! 27)"
    "buffer_words 0 f ! 7 = of_octets (f ! 28) (f ! 29) (f ! 30) (f ! 31)"
    using nth_frame_words [of 3 f] nth_frame_words [of 4 f] nth_frame_words [of 5 f] nth_frame_words [of 6 f] nth_frame_words [of 7 f] l
    by simp_all
  have v: "of_octets 0x81 0 0 0 = 0x81" "of_octets 0x22 0xf0 0 0 = 0xf022" "HTONS 0x22f0 = 0xf022" "HTONS 0x22ea = 0xea22"
    "HTONS 0x88f6 = 0xf688" "HTONS 0x88f5 = 0xf588"
    by (simp_all add: of_octets_def HTONS_def)
  consider "x = 18" "f ! 12 = 0x81" "f ! 13 = 0" "f ! 16 = 0x22" "f ! 17 = 0xf0" | "x = 14" "f ! 12 = 0x22" "f ! 13 = 0xf0"
    using assms by (auto simp: carries_stream_def)
  then show ?thesis
  proof cases
    case 1
    have k: "stream_key0 sid = of_octets (f ! 22) (f ! 23) (f ! 28) (f ! 29)" "stream_key1 sid = of_octets (f ! 24) (f ! 25) (f ! 26) (f ! 27)"
      unfolding sid frame_keys using 1 by simp_all
    show ?thesis unfolding mac_custom_filter_def Let_def w low_half_word split_key bit_23 1(2-5) k using cd 1(1)
      by (simp add: v bit_23)
  next
    case 2
    have k: "stream_key0 sid = of_octets (f ! 18) (f ! 19) (f ! 24) (f ! 25)" "stream_key1 sid = of_octets (f ! 20) (f ! 21) (f ! 22) (f ! 23)"
      unfolding sid frame_keys using 2 by simp_all
    show ?thesis unfolding mac_custom_filter_def Let_def w low_half_word split_key bit_23 2(2,3) k using cd 2(1)
      by (simp add: v bit_23)
  qed
qed

text \<open>The keys tell the streams apart.\<close>

lemma octets_inject: "of_octets a b c d = of_octets a' b' c' d' \<longleftrightarrow> a = a' \<and> b = b' \<and> c = c' \<and> d = d'"
proof -
  have o: "octet (of_octets a b c d) 0 = a" "octet (of_octets a b c d) 1 = b" "octet (of_octets a b c d) 2 = c"
    "octet (of_octets a b c d) 3 = d" for a b c d
    by (auto intro!: bit_word_eqI simp: bit_octet of_octets_def bit_or_iff bit_push_bit_iff bit_ucast_iff bit_u8_ge)
  then show ?thesis by metis
qed

lemma octets_eq: "octet v 0 = octet w 0 \<Longrightarrow> octet v 1 = octet w 1 \<Longrightarrow> octet v 2 = octet w 2 \<Longrightarrow> octet v 3 = octet w 3 \<Longrightarrow> v = w"
  by (metis of_octets_octet)

lemma stream_key_inject: "stream_key0 sid = stream_key0 sid' \<and> stream_key1 sid = stream_key1 sid' \<longleftrightarrow> sid = sid'"
  unfolding stream_key0_def stream_key1_def octets_inject by (auto intro!: prod_eqI octets_eq)

lemma stream_key_zero: "stream_key0 sid = 0 \<and> stream_key1 sid = 0 \<longleftrightarrow> sid = (0, 0)"
proof -
  have "stream_key0 (0, 0) = 0 \<and> stream_key1 (0, 0) = 0" by (simp add: stream_key0_def stream_key1_def of_octets_def octet_def)
  then show ?thesis using stream_key_inject [of sid "(0, 0)"] by metis
qed

section \<open>The simple table\<close>

abbreviation holds_stream :: "router_entry \<Rightarrow> u32 \<times> u32 \<Rightarrow> bool" where
  "holds_stream e sid \<equiv> re_id0 e = stream_key0 sid \<and> re_id1 e = stream_key1 sid"

lemma lookup_from_first:
  "i < length t \<Longrightarrow> holds_stream (t ! i) sid \<Longrightarrow> \<forall>k < i. \<not> holds_stream (t ! k) sid \<Longrightarrow>
   lookup_from (stream_key0 sid) (stream_key1 sid) j t = Some (re_link (t ! i), of_nat (j + i))"
proof (induction t arbitrary: i j)
  case (Cons e t)
  show ?case
  proof (cases i)
    case (Suc k)
    then have "\<not> holds_stream e sid" using Cons.prems(3) by (metis nth_Cons_0 zero_less_Suc)
    moreover have "\<forall>m < k. \<not> holds_stream (t ! m) sid" using Cons.prems(3) Suc by (metis Suc_less_eq nth_Cons_Suc)
    ultimately show ?thesis using Cons.IH [of k "Suc j"] Cons.prems Suc by auto
  qed (use Cons.prems in auto)
qed simp

lemma lookup_from_none: "\<forall>k < length t. \<not> holds_stream (t ! k) sid \<Longrightarrow> lookup_from (stream_key0 sid) (stream_key1 sid) j t = None"
proof (induction t arbitrary: j)
  case (Cons e t)
  have "\<not> holds_stream e sid" using Cons.prems by (metis length_greater_0_conv list.distinct(1) nth_Cons_0)
  moreover have "\<forall>k < length t. \<not> holds_stream (t ! k) sid" using Cons.prems by (metis Suc_less_eq length_Cons nth_Cons_Suc)
  ultimately show ?case using Cons.IH by auto
qed simp

lemma lookup_from_update:
  "\<not> holds_stream e sid \<Longrightarrow> \<not> holds_stream (t ! h) sid \<Longrightarrow>
   lookup_from (stream_key0 sid) (stream_key1 sid) j (t[h := e]) = lookup_from (stream_key0 sid) (stream_key1 sid) j t"
proof (induction t arbitrary: h j)
  case (Cons a t)
  then show ?case by (cases h) auto
qed simp

text \<open>What the listener reads where the filter has put the sink number.\<close>

definition receive_buffer :: "u32 list \<Rightarrow> u8 list" where
  "receive_buffer ws = [0, 0] @ concat (map word_octets ws)"

lemma concat_word_octets: "4 * k + 4 \<le> 4 * length ws \<Longrightarrow> i < 4 \<Longrightarrow> concat (map word_octets ws) ! (4 * k + i) = word_octets (ws ! k) ! i"
proof (induction ws arbitrary: k)
  case (Cons w ws)
  have l: "length (word_octets w) = 4" by (simp add: word_octets_def)
  show ?case
  proof (cases k)
    case (Suc m)
    then show ?thesis using Cons.IH [of m] Cons.prems by (simp add: nth_append l)
  qed (use Cons.prems in \<open>simp add: nth_append l\<close>)
qed simp

lemma sink_number_read:
  assumes "2 \<le> length ws" "hash < 2 ^ 16"
  shows "of_octets (receive_buffer (ws[0 := push_bit 16 hash, 1 := 0]) ! 4) (receive_buffer (ws[0 := push_bit 16 hash, 1 := 0]) ! 5)
     (receive_buffer (ws[0 := push_bit 16 hash, 1 := 0]) ! 6) (receive_buffer (ws[0 := push_bit 16 hash, 1 := 0]) ! 7) = hash"
proof -
  let ?ws = "ws[0 := push_bit 16 hash, 1 := 0]"
  have w: "?ws ! 0 = push_bit 16 hash" "?ws ! 1 = 0" using assms(1) by (cases ws; cases "tl ws"; simp)+
  have r: "receive_buffer ?ws ! m = word_octets (?ws ! k) ! i" if "m = 4 * k + i + 2" "k < 2" "i < 4" for m k i
    using concat_word_octets [of k ?ws i] that assms(1) by (simp add: receive_buffer_def nth_append)
  have b: "receive_buffer ?ws ! 4 = octet (push_bit 16 hash) 2" "receive_buffer ?ws ! 5 = octet (push_bit 16 hash) 3"
    "receive_buffer ?ws ! 6 = 0" "receive_buffer ?ws ! 7 = 0"
    using r [of 4 0 2] r [of 5 0 3] r [of 6 1 0] r [of 7 1 1] unfolding w by (simp_all add: word_octets_def octet_def)
  have "bit hash n \<Longrightarrow> n < 16" for n
    using assms(2) less_mask_eq [of hash 16] by (metis bit_and_iff bit_mask_iff)
  then have "bit hash n \<Longrightarrow> n - 8 < 8" "bit hash n \<Longrightarrow> n < 16" for n by fastforce+
  then have "of_octets (octet (push_bit 16 hash) 2) (octet (push_bit 16 hash) 3) 0 0 = hash"
  proof (intro bit_word_eqI)
    fix n assume b: "\<And>n. bit hash n \<Longrightarrow> n - 8 < 8" "\<And>n. bit hash n \<Longrightarrow> n < 16" and "n < LENGTH(32)"
    then show "bit (of_octets (octet (push_bit 16 hash) 2) (octet (push_bit 16 hash) 3) 0 0) n = bit hash n"
      using b [of n] by (cases "n < 8") (auto simp: of_octets_def bit_or_iff bit_push_bit_iff bit_ucast_iff bit_octet)
  qed
  then show ?thesis unfolding b .
qed

text \<open>
  C31. A mapped stream reaches its listener. After the mapping of a stream to a link and a sink number, every
  frame of the stream, with or without a VLAN tag, goes to the clients of that link, and the listener reads the
  sink number in the place where it looks for it, provided that no earlier slot holds the same stream. For the
  frames of every other stream nothing changes, unless it was in the slot that the mapping has taken.
\<close>
theorem router_delivers:
  assumes "carries_stream f x sid" "sid \<noteq> (0, 0)" "h < length t" "h < 2 ^ 16"
    and first: "\<forall>i < h. \<not> holds_stream (t ! i) sid"
    and cmd: "avb_1722_add_stream_mapping links sid l (of_nat h) = (k0, k1, link, hash)"
    and t': "t' = avb_1722_router_table_add_entry_simple k0 k1 link (unat hash) t"
  shows "(\<exists>ws. mac_custom_filter t' (buffer_words 0 f) = (ROUTER_LINK (links ! l), ws) \<and>
      unat (of_octets (receive_buffer ws ! 4) (receive_buffer ws ! 5) (receive_buffer ws ! 6) (receive_buffer ws ! 7)) = h) \<and>
    (\<forall>g y sid'. carries_stream g y sid' \<and> sid' \<noteq> sid \<and> \<not> holds_stream (t ! h) sid' \<longrightarrow>
       mac_custom_filter t' (buffer_words 0 g) = mac_custom_filter t (buffer_words 0 g))"
proof -
  have h: "unat (of_nat h :: u32) = h" using assms(4) by (simp add: unsigned_of_nat take_bit_nat_eq_self)
  let ?e = "\<lparr>re_id0 = stream_key0 sid, re_id1 = stream_key1 sid, re_link = links ! l\<rparr>"
  have t': "t' = t[h := ?e]"
    using cmd h by (auto simp: t' avb_1722_add_stream_mapping_def avb_1722_router_table_add_entry_simple_def)
  have "lookup_from (stream_key0 sid) (stream_key1 sid) 0 t' = Some (links ! l, of_nat h)"
    using lookup_from_first [of h t' sid 0] assms(3) first by (simp add: t')
  then have "avb_1722_router_table_lookup_simple (stream_key0 sid) (stream_key1 sid) t' = Some (links ! l, of_nat h)"
    using stream_key_zero [of sid] assms(2) by (simp add: avb_1722_router_table_lookup_simple_def)
  then have m: "mac_custom_filter t' (buffer_words 0 f) =
      (ROUTER_LINK (links ! l), (buffer_words 0 f)[0 := push_bit 16 (of_nat h), 1 := 0])"
    by (simp add: filter_stream [OF assms(1)])
  have "2 \<le> length (buffer_words 0 f)" using assms(1) by (rule frame_has_words)
  moreover have "(of_nat h :: u32) < 2 ^ 16" using h assms(4) by (simp add: word_less_nat_alt)
  ultimately have "\<exists>ws. mac_custom_filter t' (buffer_words 0 f) = (ROUTER_LINK (links ! l), ws) \<and>
      unat (of_octets (receive_buffer ws ! 4) (receive_buffer ws ! 5) (receive_buffer ws ! 6) (receive_buffer ws ! 7)) = h"
    using m sink_number_read h by (intro exI [of _ "(buffer_words 0 f)[0 := push_bit 16 (of_nat h), 1 := 0]"]) metis
  moreover have "mac_custom_filter t' (buffer_words 0 g) = mac_custom_filter t (buffer_words 0 g)"
    if g: "carries_stream g y sid'" "sid' \<noteq> sid" "\<not> holds_stream (t ! h) sid'" for g y sid'
    using lookup_from_update [of ?e sid' t h 0] g(2,3) stream_key_inject [of sid sid']
    unfolding filter_stream [OF g(1)] avb_1722_router_table_lookup_simple_def t' by auto
  ultimately show ?thesis by blast
qed

text \<open>Frames of two streams, whose ids end in the given byte, and a table of four sinks.\<close>

definition example_frame :: "u8 \<Rightarrow> u8 list" where
  "example_frame n = (replicate 64 0)[12 := 0x81, 16 := 0x22, 17 := 0xf0, 29 := n]"

definition example_routes :: "router_entry list" where
  "example_routes = replicate 4 \<lparr>re_id0 = 0, re_id1 = 0, re_link = 0\<rparr>"

lemma example_carries: "carries_stream (example_frame n) 18 (0, u32_of n)"
proof -
  have n: "i < 64 \<Longrightarrow> example_frame n ! i =
      (if i = 29 then n else if i = 17 then 0xf0 else if i = 16 then 0x22 else if i = 12 then 0x81 else 0)" for i
    by (simp add: example_frame_def nth_list_update)
  have "length (example_frame n) = 64" by (simp add: example_frame_def)
  then show ?thesis
    by (simp add: carries_stream_def n AVBTP_CD_def AVBTP_STREAM_ID1_def AVBTP_STREAM_ID0_def get_u32_def u32_of_def)
qed

lemma example_routes_free: "sid \<noteq> (0, 0) \<Longrightarrow> i < 4 \<Longrightarrow> \<not> holds_stream (example_routes ! i) sid"
  using stream_key_zero [of sid] by (auto simp: example_routes_def)

lemma length_example_routes: "length example_routes = 4"
  by (simp add: example_routes_def)

theorem router_delivers_witness:
  "\<exists>ws. mac_custom_filter (avb_1722_router_table_add_entry_simple (stream_key0 (0, 7)) (stream_key1 (0, 7)) 1 2 example_routes)
     (buffer_words 0 (example_frame 7)) = (ROUTER_LINK 1, ws)"
proof -
  have c: "carries_stream (example_frame 7) 18 (0, 7)" using example_carries [of 7] by (simp add: u32_of_def)
  have "avb_1722_add_stream_mapping [1, 0] (0, 7) 0 (of_nat 2) = (stream_key0 (0, 7), stream_key1 (0, 7), 1, 2)"
    by (simp add: avb_1722_add_stream_mapping_def)
  from router_delivers [OF c _ _ _ _ this refl, of example_routes] show ?thesis
    using example_routes_free [of "(0, 7)"] by (auto simp: length_example_routes)
qed

text \<open>
  Disconnecting a stream does not remove it. The command for it carries link 0 and sink number 0: the stream's
  key is stored in slot 0, so from then on its frames go to link 0 with sink number 0, whatever
  it was mapped to, and a stream that had that slot alone is no longer delivered.
\<close>
theorem router_disconnect_misroutes:
  assumes "carries_stream f x sid" "sid \<noteq> (0, 0)" "t \<noteq> []"
    and cmd: "avb_1722_disconnect_stream_mapping sid = (k0, k1, link, hash)"
    and t': "t' = avb_1722_router_table_add_entry_simple k0 k1 link (unat hash) t"
    and other: "carries_stream g y sid'" "sid' \<noteq> sid" "\<forall>i < length t. 0 < i \<longrightarrow> \<not> holds_stream (t ! i) sid'"
  shows "(\<exists>ws. mac_custom_filter t' (buffer_words 0 f) = (ROUTER_LINK 0, ws) \<and>
      of_octets (receive_buffer ws ! 4) (receive_buffer ws ! 5) (receive_buffer ws ! 6) (receive_buffer ws ! 7) = 0) \<and>
    mac_custom_filter t' (buffer_words 0 g) = (0, buffer_words 0 g)"
proof -
  let ?e = "\<lparr>re_id0 = stream_key0 sid, re_id1 = stream_key1 sid, re_link = 0\<rparr>"
  have t': "t' = t[0 := ?e]"
    using cmd by (simp add: t' avb_1722_disconnect_stream_mapping_def avb_1722_router_table_add_entry_simple_def)
  have "lookup_from (stream_key0 sid) (stream_key1 sid) 0 t' = Some (0, 0)"
    using lookup_from_first [of 0 t' sid 0] assms(3) by (simp add: t')
  then have "mac_custom_filter t' (buffer_words 0 f) = (ROUTER_LINK 0, (buffer_words 0 f)[0 := push_bit 16 0, 1 := 0])"
    using stream_key_zero [of sid] assms(2) by (auto simp: avb_1722_router_table_lookup_simple_def filter_stream [OF assms(1)])
  moreover have "2 \<le> length (buffer_words 0 f)" using assms(1) by (rule frame_has_words)
  then have "of_octets (receive_buffer ((buffer_words 0 f)[0 := push_bit 16 0, 1 := 0]) ! 4)
      (receive_buffer ((buffer_words 0 f)[0 := push_bit 16 0, 1 := 0]) ! 5)
      (receive_buffer ((buffer_words 0 f)[0 := push_bit 16 0, 1 := 0]) ! 6)
      (receive_buffer ((buffer_words 0 f)[0 := push_bit 16 0, 1 := 0]) ! 7) = 0"
    by (rule sink_number_read) simp
  moreover have "\<forall>k < length t'. \<not> holds_stream (t' ! k) sid'"
  proof (intro allI impI)
    fix k assume "k < length t'"
    then show "\<not> holds_stream (t' ! k) sid'"
      using other(2,3) stream_key_inject [of sid sid'] assms(3) by (cases k) (auto simp: t')
  qed
  then have "mac_custom_filter t' (buffer_words 0 g) = (0, buffer_words 0 g)"
    using lookup_from_none [of t' sid' 0] by (simp add: filter_stream [OF other(1)] avb_1722_router_table_lookup_simple_def)
  ultimately show ?thesis by blast
qed

theorem router_disconnect_misroutes_witness:
  "mac_custom_filter (avb_1722_router_table_add_entry_simple (stream_key0 (0, 7)) (stream_key1 (0, 7)) 0 0
       (example_routes[0 := \<lparr>re_id0 = stream_key0 (0, 9), re_id1 = stream_key1 (0, 9), re_link = 1\<rparr>]))
     (buffer_words 0 (example_frame 9)) = (0, buffer_words 0 (example_frame 9))"
proof -
  have c: "carries_stream (example_frame 7) 18 (0, 7)" "carries_stream (example_frame 9) 18 (0, 9)"
    using example_carries [of 7] example_carries [of 9] by (simp_all add: u32_of_def)
  let ?t = "example_routes[0 := \<lparr>re_id0 = stream_key0 (0, 9), re_id1 = stream_key1 (0, 9), re_link = 1\<rparr>]"
  have "avb_1722_disconnect_stream_mapping (0, 7) = (stream_key0 (0, 7), stream_key1 (0, 7), 0, 0)"
    by (simp add: avb_1722_disconnect_stream_mapping_def)
  moreover have "?t \<noteq> []" by (simp add: example_routes_def)
  moreover have "\<forall>i < length ?t. 0 < i \<longrightarrow> \<not> holds_stream (?t ! i) (0, 9)"
    using example_routes_free [of "(0, 9)"] by (auto simp: length_example_routes)
  ultimately show ?thesis using router_disconnect_misroutes [OF c(1) _ _ _ refl c(2), of ?t] by simp
qed

section \<open>The hash table\<close>

text \<open>Between two insertions both tables are the same.\<close>

definition tables_synced :: "hash_tables \<Rightarrow> bool" where
  "tables_synced h \<longleftrightarrow> ht_backup h = ht_router h \<and> ht_backup_poly h = ht_router_poly h \<and>
     0 < length (ht_router h) \<and> length (ht_router h) < 2 ^ 32 \<and> 0 \<le> ht_num_entries h"

abbreviation place :: "(u32 \<Rightarrow> u32 \<Rightarrow> u32 \<Rightarrow> u32) \<Rightarrow> bool \<Rightarrow> u32 \<times> u32 \<Rightarrow> hash_tables \<Rightarrow> nat" where
  "place crc second key h \<equiv> hash_key crc (length (ht_router h)) (fst key) (snd key)
     (if second then snd (ht_router_poly h) else fst (ht_router_poly h))"

lemma hash_key_bound: "0 < n \<Longrightarrow> n < 2 ^ 32 \<Longrightarrow> hash_key crc n k0 k1 poly < n"
proof -
  assume n: "0 < n" "n < 2 ^ 32"
  have "unat (x AND of_nat (n - 1) :: u32) \<le> unat (of_nat (n - 1) :: u32)" for x
    using word_and_le1 [of x "of_nat (n - 1)"] by (simp only: word_le_nat_alt)
  moreover obtain m where m: "n - 1 = m" "m < 2 ^ 32" using n by simp
  then have "unat (of_nat (n - 1) :: u32) = n - 1" unfolding m(1) by (simp add: unsigned_of_nat take_bit_nat_eq_self)
  ultimately show ?thesis unfolding hash_key_def Let_def by (metis n(1) Suc_pred' le_imp_less_Suc)
qed

text \<open>A free place is found, at once or at the second try.\<close>

lemma insert_loop_free:
  assumes s: "tables_synced h" and l: "1 < limit"
    and free: "\<not> contains_different_entry (ht_router h) (place crc False key h) key \<and> i = place crc False key h \<or>
      contains_different_entry (ht_router h) (place crc False key h) key \<and>
      \<not> contains_different_entry (ht_router h) (place crc True key h) key \<and> i = place crc True key h"
  shows "insert_loop crc link avb_hash limit 0 False key h = (True, put_entry i key link avb_hash h)"
proof -
  note d = s [unfolded tables_synced_def]
  show ?thesis
  proof (cases "contains_different_entry (ht_router h) (place crc False key h) key")
    case True
    with free have "insert_loop crc link avb_hash limit 1 True key h = (True, put_entry i key link avb_hash h)"
      using d by (subst insert_loop.simps) (simp add: Let_def)
    then show ?thesis using d l True by (subst insert_loop.simps) (simp add: Let_def)
  qed (use d free in \<open>subst insert_loop.simps, simp add: Let_def\<close>)
qed

text \<open>Both places are taken: the entry in the second one is moved to its own first place.\<close>

lemma insert_loop_evict:
  assumes s: "tables_synced h" and l: "2 < limit"
    and taken: "contains_different_entry (ht_router h) (place crc False key h) key"
      "contains_different_entry (ht_router h) (place crc True key h) key"
    and old: "old = (he_id0 (ht_router h ! place crc True key h), he_id1 (ht_router h ! place crc True key h))"
      "\<not> contains_different_entry (ht_router h) (place crc False old h) old"
  shows "insert_loop crc link avb_hash limit 0 False key h =
    (True, put_entry (place crc False old h) old link avb_hash (put_entry (place crc True key h) key link avb_hash h))"
proof -
  note d = s [unfolded tables_synced_def]
  obtain h1 where h1: "h1 = put_entry (place crc True key h) key link avb_hash h" by simp
  have p: "ht_router h1 = ht_router h" "length (ht_backup h1) = length (ht_router h)" "ht_backup_poly h1 = ht_router_poly h"
    using d by (simp_all add: h1 put_entry_def)
  have "insert_loop crc link avb_hash limit 2 False old h1 = (True, put_entry (place crc False old h) old link avb_hash h1)"
    using old(2) by (subst insert_loop.simps) (simp add: Let_def p)
  then have "insert_loop crc link avb_hash limit 1 True key h = (True, put_entry (place crc False old h) old link avb_hash h1)"
    using d l taken(2) old(1) h1 by (subst insert_loop.simps) (simp add: Let_def)
  then have "insert_loop crc link avb_hash limit 0 False key h = (True, put_entry (place crc False old h) old link avb_hash h1)"
    using d l taken(1) by (subst insert_loop.simps) (simp add: Let_def)
  then show ?thesis unfolding h1 .
qed

lemma put_entry_flip:
  assumes "tables_synced h" and "h' = flip_tables ((put_entry i key link avb_hash h)\<lparr>ht_num_entries := ht_num_entries h + 1\<rparr>)"
  shows "tables_synced h'" "ht_router_poly h' = ht_router_poly h" "length (ht_router h') = length (ht_router h)"
    "ht_router h' = (ht_router h)[i := \<lparr>he_id0 = fst key, he_id1 = snd key, he_link = link, he_avb_hash = avb_hash\<rparr>]"
  using assms by (simp_all add: tables_synced_def put_entry_def flip_tables_def)

lemma lookup_first: "ht_router h ! place crc False (j0, j1) h = \<lparr>he_id0 = j0, he_id1 = j1, he_link = l, he_avb_hash = a\<rparr> \<Longrightarrow>
    (j0, j1) \<noteq> (0, 0) \<Longrightarrow> avb_1722_router_table_lookup_hash crc j0 j1 h = Some (l, a)"
  by (auto simp: avb_1722_router_table_lookup_hash_def Let_def entry_is_def)

lemma lookup_second: "\<not> entry_is j0 j1 (ht_router h ! place crc False (j0, j1) h) \<Longrightarrow>
    ht_router h ! place crc True (j0, j1) h = \<lparr>he_id0 = j0, he_id1 = j1, he_link = l, he_avb_hash = a\<rparr> \<Longrightarrow>
    (j0, j1) \<noteq> (0, 0) \<Longrightarrow> avb_1722_router_table_lookup_hash crc j0 j1 h = Some (l, a)"
  by (auto simp: avb_1722_router_table_lookup_hash_def Let_def entry_is_def)

lemma lookup_other:
  assumes "ht_router_poly h' = ht_router_poly h" "ht_router h' = (ht_router h)[i := e]"
    and "\<not> entry_is j0 j1 e" "\<not> entry_is j0 j1 (ht_router h ! i)"
  shows "avb_1722_router_table_lookup_hash crc j0 j1 h' = avb_1722_router_table_lookup_hash crc j0 j1 h"
proof -
  let ?f = "\<lambda>t p. if entry_is j0 j1 (t ! p) then Some (he_link (t ! p), he_avb_hash (t ! p)) else None"
  have "?f ((ht_router h)[i := e]) p = ?f (ht_router h) p" for p
    using assms(3,4) by (cases "i < length (ht_router h)"; cases "p = i") (auto simp: list_update_beyond)
  moreover have "avb_1722_router_table_lookup_hash crc j0 j1 g =
      (if j0 = 0 \<and> j1 = 0 then None
       else case ?f (ht_router g) (place crc False (j0, j1) g) of Some r \<Rightarrow> Some r
            | None \<Rightarrow> ?f (ht_router g) (place crc True (j0, j1) g))" for g
    by (simp add: avb_1722_router_table_lookup_hash_def Let_def)
  ultimately show ?thesis by (simp only: assms(1,2) length_list_update)
qed

lemma hash_insert_free:
  assumes s: "tables_synced h" and k: "key = (k0, k1)" "key \<noteq> (0, 0)"
    and A: "A \<longleftrightarrow> contains_different_entry (ht_router h) (place crc False key h) key"
    and B: "B \<longleftrightarrow> contains_different_entry (ht_router h) (place crc True key h) key"
    and ab: "\<not> (A \<and> B)"
  shows "\<exists>h'. avb_1722_router_table_add_entry_hash crc k0 k1 link avb_hash h = Some h' \<and> tables_synced h' \<and>
      avb_1722_router_table_lookup_hash crc k0 k1 h' = Some (link, avb_hash) \<and>
      (\<forall>j0 j1. (j0, j1) \<noteq> key \<longrightarrow>
         avb_1722_router_table_lookup_hash crc j0 j1 h' = avb_1722_router_table_lookup_hash crc j0 j1 h)"
proof -
  have lim: "1 < ht_num_entries h + 10" "2 < ht_num_entries h + 10" using s by (simp_all add: tables_synced_def)
  have bound: "hash_key crc (length (ht_router h)) j0 j1 p < length (ht_router h)" for j0 j1 p
    using s by (simp add: tables_synced_def hash_key_bound)
  let ?e = "\<lparr>he_id0 = k0, he_id1 = k1, he_link = link, he_avb_hash = avb_hash\<rparr>"
  from ab obtain i where i: "\<not> A \<and> i = place crc False key h \<or> A \<and> \<not> B \<and> i = place crc True key h" by blast
  obtain h' where h': "h' = flip_tables ((put_entry i key link avb_hash h)\<lparr>ht_num_entries := ht_num_entries h + 1\<rparr>)" by simp
  note f = put_entry_flip [OF s h']
  have ins: "insert_loop crc link avb_hash (ht_num_entries h + 10) 0 False key h = (True, put_entry i key link avb_hash h)"
    by (rule insert_loop_free [OF s lim(1)]) (use i A B in blast)
  then have "insert_entry crc k0 k1 link avb_hash h = (True, (put_entry i key link avb_hash h)\<lparr>ht_num_entries := ht_num_entries h + 1\<rparr>)"
    by (simp add: insert_entry_def k(1) put_entry_def)
  then have "avb_1722_router_table_add_entry_hash crc k0 k1 link avb_hash h = Some h'"
    by (subst avb_1722_router_table_add_entry_hash.simps) (simp add: h')
  moreover have "avb_1722_router_table_lookup_hash crc k0 k1 h' = Some (link, avb_hash)"
    using i
  proof
    assume "\<not> A \<and> i = place crc False key h"
    then show ?thesis using f bound k by (intro lookup_first) auto
  next
    assume a: "A \<and> \<not> B \<and> i = place crc True key h"
    then have ne: "i \<noteq> place crc False key h" using A B by auto
    have "\<not> entry_is k0 k1 (ht_router h' ! place crc False (k0, k1) h')"
      using a A ne f k by (auto simp: contains_different_entry_def entry_is_def)
    then show ?thesis using a f bound k by (intro lookup_second) auto
  qed
  moreover have "avb_1722_router_table_lookup_hash crc j0 j1 h' = avb_1722_router_table_lookup_hash crc j0 j1 h" if j: "(j0, j1) \<noteq> key" for j0 j1
  proof (cases "(j0, j1) = (0, 0)")
    case False
    have "\<not> contains_different_entry (ht_router h) i key" using i A B by auto
    then have "\<not> entry_is j0 j1 (ht_router h ! i)" using j False k by (auto simp: contains_different_entry_def entry_is_def)
    moreover have "\<not> entry_is j0 j1 ?e" using j k by (simp add: entry_is_def)
    moreover have "ht_router h' = (ht_router h)[i := ?e]" using f(4) k(1) by simp
    ultimately show ?thesis by (intro lookup_other [OF f(2)])
  qed (simp add: avb_1722_router_table_lookup_hash_def)
  ultimately show ?thesis using f(1) by blast
qed

lemma hash_insert_evict:
  assumes s: "tables_synced h" and k: "key = (k0, k1)" "key \<noteq> (0, 0)"
    and A: "A \<longleftrightarrow> contains_different_entry (ht_router h) (place crc False key h) key"
    and B: "B \<longleftrightarrow> contains_different_entry (ht_router h) (place crc True key h) key"
    and old: "old = (he_id0 (ht_router h ! place crc True key h), he_id1 (ht_router h ! place crc True key h))"
    and ab: "A \<and> B \<and> \<not> contains_different_entry (ht_router h) (place crc False old h) old"
  shows "\<exists>h'. avb_1722_router_table_add_entry_hash crc k0 k1 link avb_hash h = Some h' \<and>
      avb_1722_router_table_lookup_hash crc (fst old) (snd old) h' = Some (link, avb_hash)"
proof -
  have lim: "1 < ht_num_entries h + 10" "2 < ht_num_entries h + 10" using s by (simp_all add: tables_synced_def)
  have bound: "hash_key crc (length (ht_router h)) j0 j1 p < length (ht_router h)" for j0 j1 p
    using s by (simp add: tables_synced_def hash_key_bound)
  let ?i = "place crc False old h"
  obtain h1 where h1: "h1 = put_entry (place crc True key h) key link avb_hash h" by simp
  obtain h' where h': "h' = flip_tables ((put_entry ?i old link avb_hash h1)\<lparr>ht_num_entries := ht_num_entries h + 1\<rparr>)" by simp
  have "insert_loop crc link avb_hash (ht_num_entries h + 10) 0 False key h = (True, put_entry ?i old link avb_hash h1)"
    unfolding h1 by (rule insert_loop_evict [OF s lim(2) _ _ old]) (use ab A B in blast)+
  then have "insert_entry crc k0 k1 link avb_hash h = (True, (put_entry ?i old link avb_hash h1)\<lparr>ht_num_entries := ht_num_entries h + 1\<rparr>)"
    by (simp add: insert_entry_def k(1) put_entry_def h1)
  then have "avb_1722_router_table_add_entry_hash crc k0 k1 link avb_hash h = Some h'"
    by (subst avb_1722_router_table_add_entry_hash.simps) (simp add: h')
  moreover have "ht_router_poly h' = ht_router_poly h" "length (ht_router h') = length (ht_router h)"
    "ht_router h' ! ?i = \<lparr>he_id0 = fst old, he_id1 = snd old, he_link = link, he_avb_hash = avb_hash\<rparr>"
    using s bound by (simp_all add: h' h1 put_entry_def flip_tables_def tables_synced_def)
  moreover have "old \<noteq> (0, 0)" using ab B old by (auto simp: contains_different_entry_def)
  ultimately show ?thesis
    using lookup_first [of h' crc "fst old" "snd old" link avb_hash] by auto
qed

text \<open>
  The hash table. An insertion that finds one of the stream's two places free, or taken by the stream
  itself, ends; the stream is then looked up with its own link and sink number, and the answers for all
  other streams are what they were. When both places are taken, the stream in the second one is moved, and if its
  own first place can take it, the insertion ends with that stream mapped to the link and the sink number of the
  newcomer.
\<close>
theorem hash_table_insert:
  assumes s: "tables_synced h" and k: "key = (k0, k1)" "key \<noteq> (0, 0)"
    and A: "A \<longleftrightarrow> contains_different_entry (ht_router h) (place crc False key h) key"
    and B: "B \<longleftrightarrow> contains_different_entry (ht_router h) (place crc True key h) key"
    and old: "old = (he_id0 (ht_router h ! place crc True key h), he_id1 (ht_router h ! place crc True key h))"
  shows "(\<not> (A \<and> B) \<longrightarrow> (\<exists>h'. avb_1722_router_table_add_entry_hash crc k0 k1 link avb_hash h = Some h' \<and> tables_synced h' \<and>
      avb_1722_router_table_lookup_hash crc k0 k1 h' = Some (link, avb_hash) \<and>
      (\<forall>j0 j1. (j0, j1) \<noteq> key \<longrightarrow>
         avb_1722_router_table_lookup_hash crc j0 j1 h' = avb_1722_router_table_lookup_hash crc j0 j1 h))) \<and>
    (A \<and> B \<and> \<not> contains_different_entry (ht_router h) (place crc False old h) old \<longrightarrow>
      (\<exists>h'. avb_1722_router_table_add_entry_hash crc k0 k1 link avb_hash h = Some h' \<and>
         avb_1722_router_table_lookup_hash crc (fst old) (snd old) h' = Some (link, avb_hash)))"
  using hash_insert_free [OF s k A B] hash_insert_evict [OF s k A B old] by blast

text \<open>A checksum that keeps the key, and a table of four places with both places of stream 5 taken.\<close>

definition example_entry :: "u32 \<Rightarrow> hash_entry" where
  "example_entry n = \<lparr>he_id0 = 0, he_id1 = n, he_link = n, he_avb_hash = n\<rparr>"

definition example_tables :: hash_tables where
  "example_tables = \<lparr>ht_router = map example_entry [0, 1, 2, 0], ht_backup = map example_entry [0, 1, 2, 0],
     ht_num_entries = 2, ht_router_poly = (0, 1), ht_backup_poly = (0, 1)\<rparr>"

theorem hash_table_insert_witness:
  "\<exists>h'. avb_1722_router_table_add_entry_hash (\<lambda>x k p. k + p) 0 5 8 9 example_tables = Some h' \<and>
     avb_1722_router_table_lookup_hash (\<lambda>x k p. k + p) 0 2 h' = Some (8, 9)"
proof -
  have "tables_synced example_tables" by (simp add: tables_synced_def example_tables_def)
  from hash_table_insert [OF this refl _ refl refl refl, of 0 5 "\<lambda>x k p. k + p" 8 9]
  show ?thesis
    by (simp add: hash_key_def example_tables_def contains_different_entry_def example_entry_def nth_Cons')
qed

end
