(* ===== verification/Media_Clock.thy ===== *)
theory Media_Clock
  imports Media_Output_Fifo Gptp_Time
begin

text \<open>
  The media clocks: the recovery of a clock from the timestamps of a stream (\<open>media_clock_support.c\<close>), the
  control of the output FIFOs and the generation of the PLL reference (\<open>media_clock_server.xc\<close>). A word length is
  the time of a sample in 10 ns ticks, with 24 fractional bits inside the recovery and 16 outside of it.
  A division by zero, which stops the thread, is \<open>None\<close>. The build has media outputs and stream derived clocks;
  \<open>cs2300\<close> is its \<open>PLL_TYPE_CS2300\<close>.
\<close>

section \<open>Clock recovery\<close>

datatype media_clock_type_t = INPUT_STREAM_DERIVED | LOCAL_CLOCK

record clock_stream =
  cs_valid :: bool
  cs_local_ts :: u32
  cs_outgoing_ptp_ts :: u32
  cs_presentation_ts :: u32
  cs_locked :: bool
  cs_fill :: int

record clock_info =
  ck_wordlen :: u64
  ck_ierror :: int
  ck_rate :: u32
  ck_first :: bool
  ck_info1 :: clock_stream
  ck_info2 :: clock_stream

definition local_wordlen_to_external_wordlen :: "u64 \<Rightarrow> u32" where
  "local_wordlen_to_external_wordlen w = ucast (drop_bit (24 - 16) w)"

definition nominal_wordlen :: "u32 \<Rightarrow> u64" where
  "nominal_wordlen rate = word_of_int (push_bit 24 100000000 div uint rate)"

definition init_media_clock_recovery :: "u32 \<Rightarrow> clock_info \<Rightarrow> clock_info" where
  "init_media_clock_recovery rate c =
     c\<lparr>ck_first := True, ck_rate := rate, ck_ierror := 0,
       ck_wordlen := (if rate \<noteq> 0 then nominal_wordlen rate else 0),
       ck_info1 := (ck_info1 c)\<lparr>cs_valid := False\<rparr>, ck_info2 := (ck_info2 c)\<lparr>cs_valid := False\<rparr>\<rparr>"

definition update_media_clock_stream_info :: "u32 \<Rightarrow> u32 \<Rightarrow> u32 \<Rightarrow> bool \<Rightarrow> int \<Rightarrow> clock_info \<Rightarrow> clock_info" where
  "update_media_clock_stream_info local_ts outgoing_ptp_ts presentation_ts locked fill c =
     c\<lparr>ck_info2 := \<lparr>cs_valid = True, cs_local_ts = local_ts, cs_outgoing_ptp_ts = outgoing_ptp_ts,
        cs_presentation_ts = presentation_ts, cs_locked = locked, cs_fill = fill\<rparr>\<rparr>"

definition inform_media_clock_of_lock :: "clock_info \<Rightarrow> clock_info" where
  "inform_media_clock_of_lock c = c\<lparr>ck_info2 := (ck_info2 c)\<lparr>cs_valid := False\<rparr>\<rparr>"

text \<open>The second observation becomes the first.\<close>

definition take_observation :: "clock_info \<Rightarrow> clock_info" where
  "take_observation c = c\<lparr>ck_info1 := ck_info2 c, ck_info2 := (ck_info2 c)\<lparr>cs_valid := False\<rparr>\<rparr>"

definition wordlen_correction :: "bool \<Rightarrow> int \<Rightarrow> int \<Rightarrow> int \<Rightarrow> int" where
  "wordlen_correction cs2300 perror ierror diff_local =
     (if cs2300 then (perror sdiv diff_local) * 32 + (ierror sdiv diff_local) sdiv 4
      else ((perror sdiv diff_local) * 80) sdiv 11 + ((ierror sdiv diff_local) * 1) sdiv 5)"

definition recover_clock :: "bool \<Rightarrow> clock_info \<Rightarrow> clock_info option" where
  "recover_clock cs2300 c =
     (let diff_local = uint (cs_local_ts (ck_info2 c) - cs_local_ts (ck_info1 c));
          ierror = push_bit 24 (sint (cs_outgoing_ptp_ts (ck_info2 c) - cs_presentation_ts (ck_info2 c)));
          perror = (if ck_first c then 0 else ierror - ck_ierror c)
      in if diff_local = 0 then None
         else Some (take_observation (c\<lparr>ck_first := False, ck_ierror := ierror,
                ck_wordlen := ck_wordlen c - word_of_int (wordlen_correction cs2300 perror ierror diff_local)\<rparr>)))"

definition unlocked_clock :: "clock_info \<Rightarrow> clock_info option" where
  "unlocked_clock c =
     (if ck_rate c = 0 then None
      else Some (take_observation (c\<lparr>ck_wordlen := nominal_wordlen (ck_rate c), ck_first := True, ck_ierror := 0\<rparr>)))"

definition update_media_clock :: "bool \<Rightarrow> media_clock_type_t \<Rightarrow> clock_info \<Rightarrow> (u32 \<times> clock_info) option" where
  "update_media_clock cs2300 clock_type c =
     map_option (\<lambda>c. (local_wordlen_to_external_wordlen (ck_wordlen c), c))
       (case clock_type of
          LOCAL_CLOCK \<Rightarrow> Some c
        | INPUT_STREAM_DERIVED \<Rightarrow>
            if \<not> cs_valid (ck_info2 c) then Some c
            else if \<not> cs_valid (ck_info1 c) then Some (take_observation c)
            else if \<not> cs_locked (ck_info2 c) then unlocked_clock c
            else recover_clock cs2300 c)"

section \<open>The clocks of the server\<close>

record media_clock_t =
  mk_active :: bool
  mk_clock_type :: media_clock_type_t
  mk_source :: int
  mk_rate :: u32
  mk_wordLength :: u32
  mk_baseLengthRemainder :: u32
  mk_wordTime :: u32
  mk_baseLength :: u32
  mk_lowBits :: u32
  mk_count :: int
  mk_next_event :: u32
  mk_bit :: u32
  mk_recovery :: clock_info

definition update_media_clock_divide :: "media_clock_t \<Rightarrow> media_clock_t" where
  "update_media_clock_divide clk =
     (let divWordLength = mk_wordLength clk * 25 div 2
      in clk\<lparr>mk_baseLength := drop_bit 16 divWordLength, mk_baseLengthRemainder := divWordLength AND (push_bit 16 1 - 1)\<rparr>)"

text \<open>\<open>ptime\<close> and \<open>time\<close> are the time of the port and the timer.\<close>

definition init_media_clock :: "u32 \<Rightarrow> u32 \<Rightarrow> media_clock_t \<Rightarrow> media_clock_t" where
  "init_media_clock ptime time clk =
     (update_media_clock_divide (clk\<lparr>mk_active := False, mk_count := 0, mk_wordLength := 0x8235556\<rparr>))
       \<lparr>mk_lowBits := 0, mk_bit := 0, mk_wordTime := ptime + 100000, mk_next_event := time + 100000 + 100\<rparr>"

text \<open>One edge of the reference; the result is when the port is to change and the new level.\<close>

definition do_media_clock_output :: "media_clock_t \<Rightarrow> (u32 \<times> u32) \<times> media_clock_t" where
  "do_media_clock_output clk0 =
     (let clk = clk0\<lparr>mk_count := mk_count clk0 + 1\<rparr>;
          clk = (if mk_count clk = 100 div (2 * 25) then clk\<lparr>mk_bit := NOT (mk_bit clk), mk_count := 0\<rparr> else clk);
          clk = clk\<lparr>mk_wordTime := mk_wordTime clk + mk_baseLength clk, mk_next_event := mk_next_event clk + mk_baseLength clk,
                    mk_lowBits := mk_lowBits clk + mk_baseLengthRemainder clk\<rparr>;
          clk = (if mk_lowBits clk \<ge> push_bit 16 1
                 then clk\<lparr>mk_wordTime := mk_wordTime clk + 1, mk_next_event := mk_next_event clk + 1,
                          mk_lowBits := mk_lowBits clk - push_bit 16 1\<rparr> else clk)
      in ((mk_wordTime clk, mk_bit clk), clk))"

definition update_clock :: "bool \<Rightarrow> media_clock_t \<Rightarrow> media_clock_t option" where
  "update_clock cs2300 clk =
     (if mk_active clk
      then map_option (\<lambda>(w, c). update_media_clock_divide (clk\<lparr>mk_wordLength := w, mk_recovery := c\<rparr>))
             (update_media_clock cs2300 (mk_clock_type clk) (mk_recovery clk))
      else Some clk)"

fun update_media_clocks :: "bool \<Rightarrow> media_clock_t list \<Rightarrow> media_clock_t list option" where
  "update_media_clocks cs2300 [] = Some []"
| "update_media_clocks cs2300 (clk # clks) =
     (case update_clock cs2300 clk of
        None \<Rightarrow> None
      | Some clk' \<Rightarrow> map_option (Cons clk') (update_media_clocks cs2300 clks))"

definition derived_from :: "int \<Rightarrow> media_clock_t \<Rightarrow> bool" where
  "derived_from source_num clk \<longleftrightarrow> mk_active clk \<and> mk_clock_type clk = INPUT_STREAM_DERIVED \<and> mk_source clk = source_num"

definition update_stream_derived_clocks ::
  "int \<Rightarrow> u32 \<Rightarrow> u32 \<Rightarrow> u32 \<Rightarrow> bool \<Rightarrow> int \<Rightarrow> media_clock_t list \<Rightarrow> media_clock_t list" where
  "update_stream_derived_clocks source_num local_ts ptp_outgoing_actual presentation_timestamp locked fill =
     map (\<lambda>clk. if derived_from source_num clk
                then clk\<lparr>mk_recovery := update_media_clock_stream_info local_ts ptp_outgoing_actual presentation_timestamp
                           locked fill (mk_recovery clk)\<rparr> else clk)"

definition inform_media_clocks_of_lock :: "int \<Rightarrow> media_clock_t list \<Rightarrow> media_clock_t list" where
  "inform_media_clocks_of_lock source_num =
     map (\<lambda>clk. if derived_from source_num clk then clk\<lparr>mk_recovery := inform_media_clock_of_lock (mk_recovery clk)\<rparr> else clk)"

section \<open>Control of the output FIFOs\<close>

record buf_info_t =
  bi_lock_count :: int
  bi_prev_diff :: int
  bi_stability_count :: int
  bi_media_clock :: int
  bi_fifo :: int
  bi_adjust :: u32

text \<open>The last entry for the FIFO counts; \<open>- 1\<close> when there is none.\<close>

definition get_buf_info :: "int \<Rightarrow> buf_info_t list \<Rightarrow> int" where
  "get_buf_info fifo bs = foldl (\<lambda>r i. if bi_fifo (bs ! i) = fifo then int i else r) (- 1) [0..<length bs]"

definition sample_ticks :: "u32 \<Rightarrow> int" where
  "sample_ticks wordLength = sint (drop_bit 16 (wordLength * 10))"

text \<open>The book keeping for a new sample difference, and what is decided from it.\<close>

definition count_stability :: "bool \<Rightarrow> int \<Rightarrow> buf_info_t \<Rightarrow> buf_info_t" where
  "count_stability locked sample_diff b0 =
     (let b = (if locked \<and> bi_lock_count b0 < 400 then b0\<lparr>bi_lock_count := bi_lock_count b0 + 1\<rparr> else b0)
      in if sample_diff < 50000 \<and> sample_diff > - 50000 \<and> sample_diff - bi_prev_diff b \<le> 1 \<and> sample_diff - bi_prev_diff b \<ge> - 1
         then b\<lparr>bi_stability_count := bi_stability_count b + 1\<rparr> else b\<lparr>bi_stability_count := 0\<rparr>)"

definition fifo_decision ::
  "int \<Rightarrow> int \<Rightarrow> bool \<Rightarrow> int \<Rightarrow> int \<Rightarrow> buf_info_t \<Rightarrow> media_clock_t list \<Rightarrow> buf_ctl_cmd \<times> buf_info_t \<times> media_clock_t list" where
  "fifo_decision N index locked fill sample_diff b clks =
     (if \<not> locked \<and> bi_stability_count b > 32
      then let max_adjust = N - 12
           in if fill - sample_diff > max_adjust \<or> fill - sample_diff < - max_adjust
              then (BUF_CTL_RESET, b\<lparr>bi_adjust := 0\<rparr>, clks)
              else (BUF_CTL_ADJUST_FILL sample_diff, b\<lparr>bi_lock_count := 0\<rparr>, inform_media_clocks_of_lock index clks)
      else if locked \<and> bi_lock_count b = 400 \<and> (sample_diff > 24 \<or> sample_diff < - 24 \<or> fill < 5)
      then (BUF_CTL_RESET, b\<lparr>bi_adjust := 0\<rparr>, clks)
      else (BUF_CTL_ACK, b, clks))"

text \<open>
  The answer of the FIFO has its state, timestamps and pointers; \<open>skew\<close> is the difference of the
  counters of two tiles, 0 on the same tile. \<open>N\<close> is \<open>MEDIA_OUTPUT_FIFO_WORD_SIZE\<close>.
\<close>

definition manage_buffer ::
  "int \<Rightarrow> u32 \<Rightarrow> ptp_time_info_mod64 \<Rightarrow> int \<Rightarrow> bool \<times> u32 \<times> u32 \<times> nat \<times> nat \<Rightarrow> buf_info_t \<Rightarrow> media_clock_t list \<Rightarrow>
     (buf_ctl_cmd \<times> buf_info_t \<times> media_clock_t list) option" where
  "manage_buffer N skew tinfo index answer b clks =
     (case answer of (locked, presentation_timestamp, outgoing_local, rdptr, wrptr) \<Rightarrow>
        if bi_media_clock b = - 1 then Some (BUF_CTL_ACK, b, clks)
        else let wordLength = mk_wordLength (clks ! nat (bi_media_clock b));
                 outgoing = outgoing_local - skew + bi_adjust b;
                 fill = (let d = int wrptr - int rdptr in if d < 0 then d + N else d);
                 ptp_outgoing = local_timestamp_to_ptp_mod32 outgoing tinfo;
                 diff = sint (ptp_outgoing - presentation_timestamp);
                 clks = update_stream_derived_clocks index outgoing ptp_outgoing presentation_timestamp locked fill clks
             in if wordLength = 0 then Some (BUF_CTL_ACK, b, clks)
                else if sample_ticks wordLength = 0 then None
                else let sample_diff = diff sdiv sample_ticks wordLength;
                         (cmd, b, clks) = fifo_decision N index locked fill sample_diff (count_stability locked sample_diff b) clks
                     in Some (cmd, b\<lparr>bi_prev_diff := sample_diff\<rparr>, clks))"

section \<open>Commands\<close>

datatype media_clock_cmd =
    MEDIA_CLOCK_SET_STATE nat bool
  | MEDIA_CLOCK_GET_STATE nat
  | MEDIA_CLOCK_SET_RATE nat u32
  | MEDIA_CLOCK_GET_RATE nat
  | MEDIA_CLOCK_SET_TYPE nat media_clock_type_t
  | MEDIA_CLOCK_GET_TYPE nat
  | MEDIA_CLOCK_SET_SOURCE nat int
  | MEDIA_CLOCK_GET_SOURCE nat

definition media_clock_command :: "media_clock_cmd \<Rightarrow> media_clock_t list \<Rightarrow> media_clock_t list" where
  "media_clock_command cmd clks =
     (case cmd of
        MEDIA_CLOCK_SET_STATE n enabled \<Rightarrow>
          if enabled
          then clks[n := (clks ! n)\<lparr>mk_recovery := init_media_clock_recovery (mk_rate (clks ! n)) (mk_recovery (clks ! n)), mk_active := True\<rparr>]
          else clks[n := (clks ! n)\<lparr>mk_active := False\<rparr>]
      | MEDIA_CLOCK_SET_RATE n rate \<Rightarrow> clks[n := (clks ! n)\<lparr>mk_rate := rate\<rparr>]
      | MEDIA_CLOCK_SET_TYPE n ty \<Rightarrow> clks[n := (clks ! n)\<lparr>mk_clock_type := ty\<rparr>]
      | MEDIA_CLOCK_SET_SOURCE n x \<Rightarrow> clks[n := (clks ! n)\<lparr>mk_source := x\<rparr>]
      | _ \<Rightarrow> clks)"

text \<open>The answer on the channel, for the commands that read.\<close>

definition media_clock_answer :: "media_clock_cmd \<Rightarrow> media_clock_t list \<Rightarrow> int option" where
  "media_clock_answer cmd clks =
     (case cmd of
        MEDIA_CLOCK_GET_STATE n \<Rightarrow> Some (of_bool (mk_active (clks ! n)))
      | MEDIA_CLOCK_GET_RATE n \<Rightarrow> Some (sint (mk_rate (clks ! n)))
      | MEDIA_CLOCK_GET_TYPE n \<Rightarrow> Some (case mk_clock_type (clks ! n) of INPUT_STREAM_DERIVED \<Rightarrow> 0 | LOCAL_CLOCK \<Rightarrow> 1)
      | MEDIA_CLOCK_GET_SOURCE n \<Rightarrow> Some (mk_source (clks ! n))
      | _ \<Rightarrow> None)"

section \<open>The server\<close>

text \<open>
  The events of the select loop. A FIFO names itself by the low half of its address. An unknown one, for which
  the code uses index - 1, is \<open>None\<close>.
\<close>

datatype server_event =
    Edge_due nat
  | Recovery_due
  | Buf_ctl_got_info u8 u8 u32 ptp_time_info_mod64 "bool \<times> u32 \<times> u32 \<times> nat \<times> nat"
  | Buf_ctl_new_stream u8 u8 int
  | Command media_clock_cmd

datatype server_output =
    Port_output nat u32 u32
  | Fifo_command nat buf_ctl_cmd
  | Answer int

definition fifo_handle :: "u8 \<Rightarrow> u8 \<Rightarrow> int" where
  "fifo_handle hi lo = or (uint hi * 256 + uint lo) 0x10000"

definition media_clock_server_init :: "int list \<Rightarrow> (u32 \<times> u32) list \<Rightarrow> buf_info_t list \<Rightarrow> media_clock_t list \<Rightarrow> buf_info_t list \<times> media_clock_t list" where
  "media_clock_server_init fifos now bs clks =
     (map2 (\<lambda>f b. b\<lparr>bi_adjust := 0, bi_fifo := f\<rparr>) fifos bs,
      map2 (\<lambda>(ptime, time) clk. init_media_clock ptime time (clk\<lparr>mk_active := False\<rparr>)) now clks)"

definition media_clock_server_step ::
  "bool \<Rightarrow> int \<Rightarrow> server_event \<Rightarrow> buf_info_t list \<times> media_clock_t list \<Rightarrow>
     (server_output list \<times> buf_info_t list \<times> media_clock_t list) option" where
  "media_clock_server_step cs2300 N ev st =
     (case st of (bs, clks) \<Rightarrow>
        (case ev of
           Edge_due i \<Rightarrow>
             let ((t, level), clk) = do_media_clock_output (clks ! i) in Some ([Port_output i t level], bs, clks[i := clk])
         | Recovery_due \<Rightarrow> map_option (\<lambda>clks. ([], bs, clks)) (update_media_clocks cs2300 clks)
         | Buf_ctl_got_info hi lo skew tinfo answer \<Rightarrow>
             let index = get_buf_info (fifo_handle hi lo) bs
             in if index < 0 then None
                else map_option (\<lambda>(cmd, b, clks). ([Fifo_command (nat index) cmd], bs[nat index := b], clks))
                       (manage_buffer N skew tinfo index answer (bs ! nat index) clks)
         | Buf_ctl_new_stream hi lo media_clock \<Rightarrow>
             let index = get_buf_info (fifo_handle hi lo) bs
             in if index < 0 then None
                else Some ([], bs[nat index := (bs ! nat index)\<lparr>bi_media_clock := media_clock\<rparr>], clks)
         | Command cmd \<Rightarrow>
             Some (case media_clock_answer cmd clks of None \<Rightarrow> [] | Some x \<Rightarrow> [Answer x], bs, media_clock_command cmd clks)))"

end
