(* ===== verification/Media_Clock_Proofs.thy ===== *)
theory Media_Clock_Proofs
  imports Media_Clock Media_Fifo_Proofs
begin

text \<open>The reference does not drift, the recovery corrects against the error, and the FIFOs are brought to their level.\<close>

section \<open>The PLL reference\<close>

definition divide_ticks :: "media_clock_t \<Rightarrow> nat" where
  "divide_ticks clk = unat (mk_wordLength clk) * 25 div 2"

lemma divide_exact:
  assumes "unat (mk_wordLength clk) * 25 < 2 ^ 32" "c = update_media_clock_divide clk"
  shows "unat (mk_baseLength c) * 2 ^ 16 + unat (mk_baseLengthRemainder c) = divide_ticks clk"
    and "unat (mk_baseLengthRemainder c) < 2 ^ 16"
proof -
  let ?d = "mk_wordLength clk * 25 div 2"
  have "unat (mk_wordLength clk * 25) = unat (mk_wordLength clk) * 25"
    using assms(1) by (simp add: unat_word_ariths)
  then have d: "unat ?d = divide_ticks clk" by (simp add: divide_ticks_def unat_div)
  have m: "(push_bit 16 1 - 1 :: u32) = mask 16" by (simp add: mask_eq_exp_minus_1 push_bit_eq_mult)
  have "mk_baseLengthRemainder c = take_bit 16 ?d"
    unfolding assms(2) update_media_clock_divide_def Let_def m take_bit_eq_mask by simp
  then have r: "unat (mk_baseLengthRemainder c) = unat ?d mod 2 ^ 16" by (simp add: take_bit_eq_mod unat_mod)
  have b: "unat (mk_baseLength c) = unat ?d div 2 ^ 16"
    unfolding assms(2) update_media_clock_divide_def Let_def by (simp add: drop_bit_eq_div unat_div)
  show "unat (mk_baseLength c) * 2 ^ 16 + unat (mk_baseLengthRemainder c) = divide_ticks clk"
    unfolding r b d [symmetric] by simp
  show "unat (mk_baseLengthRemainder c) < 2 ^ 16" unfolding r by simp
qed

lemma output_step:
  assumes "unat (mk_lowBits c) < 2 ^ 16" "unat (mk_baseLengthRemainder c) < 2 ^ 16" "r = do_media_clock_output c"
  shows "mk_wordTime (snd r) = mk_wordTime c + mk_baseLength c +
      of_nat ((unat (mk_lowBits c) + unat (mk_baseLengthRemainder c)) div 2 ^ 16)"
    and "unat (mk_lowBits (snd r)) = (unat (mk_lowBits c) + unat (mk_baseLengthRemainder c)) mod 2 ^ 16"
    and "mk_baseLength (snd r) = mk_baseLength c" "mk_baseLengthRemainder (snd r) = mk_baseLengthRemainder c"
    and "fst (fst r) = mk_wordTime (snd r)"
proof -
  let ?l = "mk_lowBits c" and ?m = "mk_baseLengthRemainder c"
  have p: "(push_bit 16 1 :: u32) = 2 ^ 16" by (simp add: push_bit_eq_mult)
  have s: "unat (?l + ?m) = unat ?l + unat ?m" using assms(1,2) by (simp add: unat_word_ariths)
  have ge: "2 ^ 16 \<le> ?l + ?m \<longleftrightarrow> 2 ^ 16 \<le> unat ?l + unat ?m" by (simp add: word_le_nat_alt s)
  show "mk_baseLength (snd r) = mk_baseLength c" "mk_baseLengthRemainder (snd r) = mk_baseLengthRemainder c"
    "fst (fst r) = mk_wordTime (snd r)"
    by (simp_all add: assms(3) do_media_clock_output_def Let_def)
  show "mk_wordTime (snd r) = mk_wordTime c + mk_baseLength c + of_nat ((unat ?l + unat ?m) div 2 ^ 16)"
  proof (cases "2 ^ 16 \<le> unat ?l + unat ?m")
    case True
    then have "(unat ?l + unat ?m) div 2 ^ 16 = 1" using assms(1,2) by (intro div_nat_eqI) simp_all
    then show ?thesis using True ge p by (simp add: assms(3) do_media_clock_output_def Let_def)
  next
    case False
    then have "(unat ?l + unat ?m) div 2 ^ 16 = 0" by simp
    then show ?thesis using False ge p by (simp add: assms(3) do_media_clock_output_def Let_def)
  qed
  show "unat (mk_lowBits (snd r)) = (unat ?l + unat ?m) mod 2 ^ 16"
  proof (cases "2 ^ 16 \<le> unat ?l + unat ?m")
    case True
    then have "(unat ?l + unat ?m) mod 2 ^ 16 = unat ?l + unat ?m - 2 ^ 16"
      using assms(1,2) by (simp add: mod_if)
    moreover have "unat (?l + ?m - 2 ^ 16) = unat ?l + unat ?m - 2 ^ 16"
      using True ge by (simp add: unat_sub s)
    ultimately show ?thesis using True ge p by (simp add: assms(3) do_media_clock_output_def Let_def)
  next
    case False
    then show ?thesis using ge p s by (simp add: assms(3) do_media_clock_output_def Let_def)
  qed
qed

text \<open>The state after \<open>n\<close> edges.\<close>

fun clock_edges :: "nat \<Rightarrow> media_clock_t \<Rightarrow> media_clock_t" where
  "clock_edges 0 clk = clk"
| "clock_edges (Suc n) clk = snd (do_media_clock_output (clock_edges n clk))"

lemma clock_edges_ticks:
  assumes "unat (mk_lowBits c) < 2 ^ 16" "unat (mk_baseLengthRemainder c) < 2 ^ 16"
    and "D = unat (mk_baseLength c) * 2 ^ 16 + unat (mk_baseLengthRemainder c)"
  shows "mk_wordTime (clock_edges n c) = mk_wordTime c + of_nat ((unat (mk_lowBits c) + n * D) div 2 ^ 16) \<and>
    unat (mk_lowBits (clock_edges n c)) = (unat (mk_lowBits c) + n * D) mod 2 ^ 16 \<and>
    mk_baseLength (clock_edges n c) = mk_baseLength c \<and> mk_baseLengthRemainder (clock_edges n c) = mk_baseLengthRemainder c"
proof (induction n)
  case (Suc n)
  let ?e = "clock_edges n c" and ?T = "unat (mk_lowBits c) + n * D"
  let ?B = "unat (mk_baseLength c)" and ?R = "unat (mk_baseLengthRemainder c)"
  have l: "unat (mk_lowBits ?e) < 2 ^ 16" using Suc.IH by simp
  note st = output_step [OF l _ refl]
  have T: "unat (mk_lowBits c) + Suc n * D = ?B * 2 ^ 16 + (?T + ?R)" using assms(3) by simp
  have "(?T + ?R) div 2 ^ 16 = ?T div 2 ^ 16 + (?T mod 2 ^ 16 + ?R) div 2 ^ 16"
    using div_add1_eq [of ?T ?R "2 ^ 16"] assms(2) by simp
  then have q: "(unat (mk_lowBits c) + Suc n * D) div 2 ^ 16 = ?T div 2 ^ 16 + (?B + (?T mod 2 ^ 16 + ?R) div 2 ^ 16)"
    unfolding T by simp
  have m: "(unat (mk_lowBits c) + Suc n * D) mod 2 ^ 16 = (?T mod 2 ^ 16 + ?R) mod 2 ^ 16"
    unfolding T by (simp only: mod_mult_self3 mod_add_left_eq)
  show ?case using Suc.IH st assms(2) unfolding q m
    by (simp only: clock_edges.simps of_nat_add of_nat_unat ucast_id) (simp add: add.assoc)
qed (use assms in simp)

text \<open>
  C32. The PLL reference does not drift. As long as the word length times 25 fits into 32 bits, the time of the
  \<open>n\<close>th edge is exactly the start plus \<open>n\<close> times half of that, in 16 fractional bits, rounded down once: the
  fractions that are dropped at an edge are kept for the next ones. At 32 kHz the product does not fit,
  and the reference runs more than six times too fast.
\<close>
theorem clock_output_exact:
  assumes "unat (mk_wordLength clk) * 25 < 2 ^ 32" "unat (mk_lowBits clk) < 2 ^ 16"
    and c: "c = update_media_clock_divide clk"
  shows "mk_wordTime (clock_edges n c) =
      mk_wordTime clk + of_nat ((unat (mk_lowBits clk) + n * (unat (mk_wordLength clk) * 25 div 2)) div 2 ^ 16) \<and>
    mk_baseLength (update_media_clock_divide (clk\<lparr>mk_wordLength := local_wordlen_to_external_wordlen (nominal_wordlen 32000)\<rparr>)) = 6294 \<and>
    100000000 * 25 div (2 * 32000) = (39062 :: nat)"
proof -
  note d = divide_exact [OF assms(1) c]
  have s: "mk_wordTime c = mk_wordTime clk" "mk_lowBits c = mk_lowBits clk"
    by (simp_all add: c update_media_clock_divide_def Let_def)
  have "mk_wordTime (clock_edges n c) = mk_wordTime clk + of_nat ((unat (mk_lowBits clk) + n * divide_ticks clk) div 2 ^ 16)"
    using clock_edges_ticks [OF _ d(2) d(1) [symmetric], of n] assms(2) unfolding s by blast
  moreover have "mk_baseLength (update_media_clock_divide
      (clk\<lparr>mk_wordLength := local_wordlen_to_external_wordlen (nominal_wordlen 32000)\<rparr>)) = 6294"
    by (simp add: update_media_clock_divide_def Let_def local_wordlen_to_external_wordlen_def nominal_wordlen_def push_bit_eq_mult)
  ultimately show ?thesis by (simp add: divide_ticks_def)
qed

text \<open>A clock at 48 kHz, recovered from FIFO 0.\<close>

definition example_info :: "u32 \<Rightarrow> u32 \<Rightarrow> u32 \<Rightarrow> clock_stream" where
  "example_info t out pres = \<lparr>cs_valid = True, cs_local_ts = t, cs_outgoing_ptp_ts = out, cs_presentation_ts = pres,
     cs_locked = True, cs_fill = 10\<rparr>"

definition example_clock :: media_clock_t where
  "example_clock = \<lparr>mk_active = True, mk_clock_type = INPUT_STREAM_DERIVED, mk_source = 0, mk_rate = 48000,
     mk_wordLength = 136533333, mk_baseLengthRemainder = 0, mk_wordTime = 0, mk_baseLength = 0, mk_lowBits = 0,
     mk_count = 0, mk_next_event = 0, mk_bit = 0,
     mk_recovery = \<lparr>ck_wordlen = 34952533333, ck_ierror = 0, ck_rate = 48000, ck_first = True,
       ck_info1 = example_info 0 0 0, ck_info2 = example_info 2000000 30000 20000\<rparr>\<rparr>"

theorem clock_output_exact_witness:
  "mk_wordTime (clock_edges 192 (update_media_clock_divide example_clock)) = 4999999"
proof -
  have "unat (mk_wordLength example_clock) * 25 < 2 ^ 32" "unat (mk_lowBits example_clock) < 2 ^ 16"
    by (simp_all add: example_clock_def)
  from clock_output_exact [OF this refl, of 192] show ?thesis by (simp add: example_clock_def)
qed

section \<open>The recovery\<close>

lemma sdiv_sign: "0 < k \<Longrightarrow> 0 \<le> q \<Longrightarrow> q sdiv k = q div k" "0 < k \<Longrightarrow> 0 \<le> q \<Longrightarrow> (- q) sdiv k = - (q div k)" for q k :: int
  by (auto simp: signed_divide_int_def sgn_if abs_if)

lemma sdiv_closed: "0 < d \<Longrightarrow> 0 < k \<Longrightarrow> (x sdiv d) sdiv k = sgn x * (\<bar>x\<bar> div (d * k))" for x d k :: int
proof (cases "0 \<le> x")
  case True
  assume "0 < d" "0 < k"
  moreover have "sgn x * (x div (d * k)) = x div (d * k)" using True by (cases "x = 0") auto
  ultimately show ?thesis using True by (simp add: sdiv_sign pos_imp_zdiv_nonneg_iff zdiv_zmult2_eq)
next
  case False
  assume dk: "0 < d" "0 < k"
  obtain y where y: "x = - y" "0 < y" using False by (intro that [of "- x"]) auto
  have "(x sdiv d) sdiv k = - (y div d div k)" using y dk by (simp add: sdiv_sign pos_imp_zdiv_nonneg_iff)
  then show ?thesis using y dk by (simp add: zdiv_zmult2_eq)
qed

text \<open>The correction when the error is the same as the time before, or there was none.\<close>

lemma steady_correction:
  assumes "0 < d"
  shows "wordlen_correction cs2300 0 ie d = sgn ie * (\<bar>ie\<bar> div (d * (if cs2300 then 4 else 5)))"
  using sdiv_closed [OF assms, of 4 ie] sdiv_closed [OF assms, of 5 ie] by (simp add: wordlen_correction_def)

text \<open>
  Clock recovery. From two observations of a locked stream the word length is corrected against the error
  between the time a sample went out and its presentation time: for a first or a steady error
  \<open>e\<close> it becomes shorter by a quarter (or fifth) of \<open>e\<close> over the time between the observations when the samples are
  late, longer by as much when they are early, and stays when they are on time, also across
  a wrap of the time stamps. A stream that is not locked resets the clock to the nominal length of its rate.
  Two observations at the same local time divide by zero.
\<close>
theorem clock_recovery:
  assumes "cs_valid (ck_info1 c)" "cs_valid (ck_info2 c)"
    and e: "e = sint (cs_outgoing_ptp_ts (ck_info2 c) - cs_presentation_ts (ck_info2 c))"
    and d: "d = uint (cs_local_ts (ck_info2 c) - cs_local_ts (ck_info1 c))"
    and steady: "ck_first c \<or> ck_ierror c = e * 2 ^ 24"
    and r: "r = update_media_clock cs2300 INPUT_STREAM_DERIVED c"
  shows "(cs_locked (ck_info2 c) \<longrightarrow>
      (if d = 0 then r = None
       else \<exists>w c'. r = Some (w, c') \<and> w = local_wordlen_to_external_wordlen (ck_wordlen c') \<and>
         ck_wordlen c' = ck_wordlen c - word_of_int (sgn e * (\<bar>e\<bar> * 2 ^ 24 div (d * (if cs2300 then 4 else 5)))) \<and>
         ck_ierror c' = e * 2 ^ 24 \<and> \<not> ck_first c' \<and> ck_info1 c' = ck_info2 c)) \<and>
    (\<not> cs_locked (ck_info2 c) \<longrightarrow> 1526 \<le> ck_rate c \<longrightarrow>
      (\<exists>w c'. r = Some (w, c') \<and> uint w = 100000000 * 2 ^ 16 div uint (ck_rate c) \<and> ck_first c'))"
proof (intro conjI impI)
  assume l: "cs_locked (ck_info2 c)"
  have p: "(if ck_first c then 0 else e * 2 ^ 24 - ck_ierror c) = 0" using steady by auto
  have d0: "0 \<le> d" unfolding d by simp
  have pb: "push_bit 24 e = e * 2 ^ 24" by (simp add: push_bit_eq_mult)
  have r': "r = map_option (\<lambda>c. (local_wordlen_to_external_wordlen (ck_wordlen c), c)) (recover_clock cs2300 c)"
    using assms(1,2) l by (simp add: r update_media_clock_def)
  show "if d = 0 then r = None
       else \<exists>w c'. r = Some (w, c') \<and> w = local_wordlen_to_external_wordlen (ck_wordlen c') \<and>
         ck_wordlen c' = ck_wordlen c - word_of_int (sgn e * (\<bar>e\<bar> * 2 ^ 24 div (d * (if cs2300 then 4 else 5)))) \<and>
         ck_ierror c' = e * 2 ^ 24 \<and> \<not> ck_first c' \<and> ck_info1 c' = ck_info2 c"
  proof (cases "d = 0")
    case True
    then show ?thesis using r' by (simp add: recover_clock_def Let_def flip: d)
  next
    case False
    then have "0 < d" using d0 by simp
    note s = steady_correction [OF this, of cs2300 "e * 2 ^ 24"]
    have a: "sgn (e * 2 ^ 24) = sgn e" "\<bar>e * 2 ^ 24\<bar> = \<bar>e\<bar> * 2 ^ 24" by (simp_all add: sgn_mult abs_mult)
    show ?thesis using False r' unfolding recover_clock_def Let_def d [symmetric] e [symmetric] pb p s a
      by (simp add: take_observation_def)
  qed
next
  assume l: "\<not> cs_locked (ck_info2 c)" and rate: "1526 \<le> ck_rate c"
  then have r1: "1526 \<le> uint (ck_rate c)" by (simp add: word_le_def)
  let ?q = "100000000 * 2 ^ 24 div uint (ck_rate c)"
  have q: "0 \<le> ?q" "?q < 2 ^ 40"
  proof -
    have "?q \<le> 100000000 * 2 ^ 24 div 1526" using r1 by (intro zdiv_mono2) simp_all
    then show "?q < 2 ^ 40" by simp
    show "0 \<le> ?q" using r1 by (simp add: pos_imp_zdiv_nonneg_iff)
  qed
  have "nominal_wordlen (ck_rate c) = word_of_int ?q" by (simp add: nominal_wordlen_def push_bit_eq_mult)
  moreover have "uint (word_of_int ?q :: u64) = ?q" using q by (simp add: uint_word_of_int take_bit_int_eq_self)
  ultimately have "uint (drop_bit 8 (nominal_wordlen (ck_rate c))) = ?q div 2 ^ 8"
    by (simp add: drop_bit_eq_div uint_div)
  moreover have "?q div 2 ^ 8 = 100000000 * 2 ^ 16 div uint (ck_rate c)"
  proof -
    have "?q div 2 ^ 8 = 100000000 * 2 ^ 24 div (uint (ck_rate c) * 2 ^ 8)" using zdiv_zmult2_eq [of "2 ^ 8"] by simp
    also have "\<dots> = 100000000 * 2 ^ 16 * 2 ^ 8 div (uint (ck_rate c) * 2 ^ 8)" by simp
    also have "\<dots> = 100000000 * 2 ^ 16 div uint (ck_rate c)" by (rule div_mult_mult2) simp
    finally show ?thesis .
  qed
  moreover have "?q div 2 ^ 8 < 2 ^ 32" using q(2) by (simp add: div_less_iff_less_mult)
  ultimately have "uint (local_wordlen_to_external_wordlen (nominal_wordlen (ck_rate c))) = 100000000 * 2 ^ 16 div uint (ck_rate c)"
    using q(1) by (simp add: local_wordlen_to_external_wordlen_def unsigned_ucast_eq take_bit_int_eq_self)
  moreover have "ck_rate c \<noteq> 0" using r1 by auto
  ultimately show "\<exists>w c'. r = Some (w, c') \<and> uint w = 100000000 * 2 ^ 16 div uint (ck_rate c) \<and> ck_first c'"
    using assms(1,2) l by (simp add: r update_media_clock_def unlocked_clock_def take_observation_def)
qed

theorem clock_recovery_witness:
  "\<exists>w c'. update_media_clock True INPUT_STREAM_DERIVED (mk_recovery example_clock) = Some (w, c') \<and> ck_wordlen c' = 34952512362"
proof -
  let ?c = "mk_recovery example_clock"
  have v: "cs_valid (ck_info1 ?c)" "cs_valid (ck_info2 ?c)" "ck_first ?c" "cs_locked (ck_info2 ?c)"
    "sint (cs_outgoing_ptp_ts (ck_info2 ?c) - cs_presentation_ts (ck_info2 ?c)) = 10000"
    "uint (cs_local_ts (ck_info2 ?c) - cs_local_ts (ck_info1 ?c)) = 2000000" "ck_wordlen ?c = 34952533333"
    by (simp_all add: example_clock_def example_info_def)
  from clock_recovery [OF v(1,2) refl refl disjI1 [OF v(3)] refl, of True] show ?thesis
    using v(4-7) by (auto simp: sgn_if)
qed

section \<open>The FIFOs\<close>

lemma fill_is_level:
  assumes "ofifo_ok s"
  shows "(let d = int (of_wrptr s) - int (of_dptr s) in if d < 0 then d + int (fifo_size s) else d) = int (ofifo_level s)"
proof -
  have b: "int (of_wrptr s) < int (fifo_size s)" "int (of_dptr s) < int (fifo_size s)" using assms by (simp_all add: ofifo_ok_def)
  let ?d = "int (of_wrptr s) - int (of_dptr s)"
  show ?thesis
  proof (cases "?d < 0")
    case True
    have "?d mod int (fifo_size s) = (?d + int (fifo_size s)) mod int (fifo_size s)" by simp
    also have "\<dots> = ?d + int (fifo_size s)" using True b by (intro mod_pos_pos_trivial) simp_all
    finally show ?thesis using True level_int [OF assms] by (simp add: Let_def)
  next
    case False
    then have "?d mod int (fifo_size s) = ?d" using b by (intro mod_pos_pos_trivial) simp_all
    then show ?thesis using False level_int [OF assms] by (simp add: Let_def)
  qed
qed

text \<open>What the FIFO answers and keeps, and what it does with the command.\<close>

definition fifo_answer :: "ofifo_t \<Rightarrow> bool \<times> u32 \<times> u32 \<times> nat \<times> nat" where
  "fifo_answer s = (of_state s = LOCKED, of_ptp_ts s, of_local_ts s, of_dptr s, of_wrptr s)"

definition after_request :: "ofifo_t \<Rightarrow> ofifo_t" where
  "after_request s = snd (snd (media_output_fifo_handle_buf_ctl BUF_CTL_REQUEST_INFO True s))"

lemma request_kept:
  "fifo_size (after_request s) = fifo_size s" "ofifo_level (after_request s) = ofifo_level s"
  "ofifo_ok s \<Longrightarrow> ofifo_ok (after_request s)" "ofifo_contents (after_request s) = ofifo_contents s"
  by (simp_all add: after_request_def media_output_fifo_handle_buf_ctl_def fifo_size_def ofifo_level_def ofifo_ok_def ofifo_contents_def)

lemma handle_cmd:
  "snd (snd (media_output_fifo_handle_buf_ctl (BUF_CTL_ADJUST_FILL a) notified s)) = fifo_adjust a s"
  "of_state (snd (snd (media_output_fifo_handle_buf_ctl BUF_CTL_RESET notified s))) = ZEROING"
  "of_zero_flag (snd (snd (media_output_fifo_handle_buf_ctl BUF_CTL_RESET notified s)))"
  by (simp_all add: media_output_fifo_handle_buf_ctl_def set_zero_marker_def)

lemma stable_decision:
  assumes "\<bar>sd\<bar> < 50000" "\<bar>sd - bi_prev_diff b\<bar> \<le> 1" "32 \<le> bi_stability_count b"
  shows "fst (fifo_decision N index False L sd (count_stability False sd b) clks) =
    (if \<bar>L - sd\<bar> \<le> N - 12 then BUF_CTL_ADJUST_FILL sd else BUF_CTL_RESET)"
  using assms by (auto simp: fifo_decision_def count_stability_def Let_def abs_le_iff abs_less_iff)

text \<open>
  C33. Bringing an output FIFO to its level. When a FIFO that is not locked has shown the same difference between
  output and presentation for long enough, the server has it drop that many samples: the FIFO is then
  locked and sounds, and its level is lower by exactly the difference. When that would leave the FIFO too full it is
  muted and filled again. A difference that is greater than the level is accepted too, and then the level
  wraps around to almost the size of the FIFO.
\<close>
theorem buffer_compensation:
  assumes ok: "ofifo_ok s" and b: "bi_media_clock b \<noteq> - 1" "wl = mk_wordLength (clks ! nat (bi_media_clock b))" "wl \<noteq> 0"
      "sample_ticks wl \<noteq> 0" and open_loop: "of_state s \<noteq> LOCKED"
    and sd: "sd = sint (local_timestamp_to_ptp_mod32 (of_local_ts s - skew + bi_adjust b) tinfo - of_ptp_ts s) sdiv sample_ticks wl"
    and stable: "\<bar>sd\<bar> < 50000" "\<bar>sd - bi_prev_diff b\<bar> \<le> 1" "32 \<le> bi_stability_count b"
    and N: "N = int (fifo_size s)" and L: "L = int (ofifo_level s)"
  shows "\<exists>cmd b' clks'. manage_buffer N skew tinfo index (fifo_answer s) b clks = Some (cmd, b', clks') \<and> bi_prev_diff b' = sd \<and>
    (let s' = snd (snd (media_output_fifo_handle_buf_ctl cmd True (after_request s))) in
     if \<bar>L - sd\<bar> \<le> N - 12
     then of_state s' = LOCKED \<and> \<not> of_zero_flag s' \<and> int (ofifo_level s') = (if sd \<le> L then L - sd else N + L - sd)
     else of_state s' = ZEROING \<and> of_zero_flag s')"
proof -
  obtain cmd b' clks' where d: "manage_buffer N skew tinfo index (fifo_answer s) b clks = Some (cmd, b', clks')"
    "bi_prev_diff b' = sd" "cmd = (if \<bar>L - sd\<bar> \<le> N - 12 then BUF_CTL_ADJUST_FILL sd else BUF_CTL_RESET)"
  proof -
    let ?clks = "update_stream_derived_clocks index (of_local_ts s - skew + bi_adjust b)
      (local_timestamp_to_ptp_mod32 (of_local_ts s - skew + bi_adjust b) tinfo) (of_ptp_ts s) False L clks"
    obtain c1 b1 k1 where f: "fifo_decision N index False L sd (count_stability False sd b) ?clks = (c1, b1, k1)"
      by (metis prod_cases3)
    have "manage_buffer N skew tinfo index (fifo_answer s) b clks = Some (c1, b1\<lparr>bi_prev_diff := sd\<rparr>, k1)"
      using b(1,3,4) open_loop f fill_is_level [OF ok]
      unfolding manage_buffer_def fifo_answer_def prod.case b(2) [symmetric] N L sd by (simp add: Let_def)
    then show ?thesis
      using that [of c1 "b1\<lparr>bi_prev_diff := sd\<rparr>" k1] stable_decision [OF stable, of N index L ?clks] f by simp
  qed
  have lev: "0 \<le> L" "L < N" using level_bound [OF ok] by (simp_all add: L N)
  have m: "(L - sd) mod N = (if sd \<le> L then L - sd else N + L - sd)" if "\<bar>L - sd\<bar> \<le> N - 12"
  proof (cases "sd \<le> L")
    case True
    then show ?thesis using that by (simp add: mod_pos_pos_trivial)
  next
    case False
    have "(L - sd) mod N = (L - sd + N) mod N" by simp
    also have "\<dots> = L - sd + N" using False that by (intro mod_pos_pos_trivial) simp_all
    finally show ?thesis using False by simp
  qed
  note a = adjusted_level(2-4) [OF request_kept(3) [OF ok], of sd, unfolded request_kept, folded L N]
  have "let s' = snd (snd (media_output_fifo_handle_buf_ctl cmd True (after_request s))) in
     if \<bar>L - sd\<bar> \<le> N - 12
     then of_state s' = LOCKED \<and> \<not> of_zero_flag s' \<and> int (ofifo_level s') = (if sd \<le> L then L - sd else N + L - sd)
     else of_state s' = ZEROING \<and> of_zero_flag s'"
  proof (cases "\<bar>L - sd\<bar> \<le> N - 12")
    case True
    then have c: "cmd = BUF_CTL_ADJUST_FILL sd" using d(3) by simp
    show ?thesis using True a m by (simp add: c handle_cmd(1) Let_def)
  next
    case False
    then have c: "cmd = BUF_CTL_RESET" using d(3) by simp
    show ?thesis using False by (simp add: c handle_cmd(2,3) Let_def)
  qed
  then show ?thesis using d(1,2) by blast
qed

text \<open>A FIFO that waits for its lock, 3 samples late.\<close>

theorem buffer_compensation_witness:
  "\<exists>cmd b' clks'. manage_buffer 64 0 \<lparr>tm_local_ts = 0, tm_ptp_ts_hi = 0, tm_ptp_ts_lo = 0, tm_ptp_adjust = 0, tm_inv_ptp_adjust = 0\<rparr> 0
      (False, 1000, 6350, 0, 20)
      \<lparr>bi_lock_count = 0, bi_prev_diff = 3, bi_stability_count = 40, bi_media_clock = 0, bi_fifo = 0, bi_adjust = 0\<rparr> [example_clock] =
    Some (cmd, b', clks') \<and> bi_prev_diff b' = 3"
proof -
  let ?s = "ofifo_example\<lparr>of_state := LOCKING, of_dptr := 0, of_wrptr := 20, of_ptp_ts := 1000, of_local_ts := 6350, of_fifo := replicate 64 0\<rparr>"
  let ?b = "\<lparr>bi_lock_count = 0, bi_prev_diff = 3, bi_stability_count = 40, bi_media_clock = 0, bi_fifo = 0, bi_adjust = 0\<rparr>"
  let ?t = "\<lparr>tm_local_ts = 0, tm_ptp_ts_hi = 0, tm_ptp_ts_lo = 0, tm_ptp_adjust = 0, tm_inv_ptp_adjust = 0\<rparr>"
  have o: "ofifo_ok ?s" "fifo_size ?s = 64" by (simp_all add: ofifo_ok_def fifo_size_def)
  have w: "136533333 = mk_wordLength ([example_clock] ! nat (bi_media_clock ?b))" "sample_ticks 136533333 = 20833"
    by (simp_all add: example_clock_def sample_ticks_def drop_bit_eq_div)
  have sd: "3 = sint (local_timestamp_to_ptp_mod32 (of_local_ts ?s - 0 + bi_adjust ?b) ?t - of_ptp_ts ?s) sdiv sample_ticks 136533333"
    unfolding w(2) by (simp add: local_timestamp_to_ptp_mod32_def ptp_scale_def s64_def)
  from buffer_compensation [OF o(1) _ w(1) _ _ _ sd _ _ _ refl refl, of 0] show ?thesis
    by (auto simp: w(2) o(2) fifo_answer_def)
qed

end
