(* ===== verification/Stream_Detect.thy ===== *)
theory Stream_Detect
  imports Avb_1722_Header
begin

text \<open>
  The list of streams that were seen on the network (\<open>avb_stream_detect.c\<close>): a ring from which the application takes
  the new ones, and which also serves to recognise the streams that are already known. The size of the
  history is the length of the ring.
\<close>

record stream_seen =
  sn_id :: "u32 \<times> u32"
  sn_vlan :: u32
  sn_addr :: "u8 list"

record detect_st =
  dt_history :: "stream_seen list"
  dt_rdPtr :: nat
  dt_wrPtr :: nat

definition ring_next :: "detect_st \<Rightarrow> nat \<Rightarrow> nat" where
  "ring_next st p = (if p + 1 = length (dt_history st) then 0 else p + 1)"

text \<open>\<open>x\<close> is not initialised: it starts with what \<open>stack\<close> says.\<close>

definition offset_address :: "u64 \<Rightarrow> u8 list \<Rightarrow> int \<Rightarrow> u8 list" where
  "offset_address stack addr addr_offset =
     (let x = fold (\<lambda>i x. push_bit 8 x + ucast (addr ! i)) [0..<6] stack + word_of_int addr_offset
      in map (\<lambda>i. ucast (drop_bit (8 * (5 - i)) x)) [0..<6])"

text \<open>\<open>sources\<close> are the ids of the own streams; the address may be missing.\<close>

definition avb_add_detected_stream ::
  "u64 \<Rightarrow> (u32 \<times> u32) list \<Rightarrow> u32 \<times> u32 \<Rightarrow> u32 \<Rightarrow> u8 list option \<Rightarrow> int \<Rightarrow> detect_st \<Rightarrow> detect_st" where
  "avb_add_detected_stream stack sources streamId vlan addr addr_offset st =
     (if length (dt_history st) = 0 \<or> streamId \<in> set sources \<or> list_ex (\<lambda>e. sn_id e = streamId) (dt_history st) then st
      else let new_wrPtr = ring_next st (dt_wrPtr st);
               rdPtr = (if new_wrPtr = dt_rdPtr st then ring_next st (dt_rdPtr st) else dt_rdPtr st);
               e = \<lparr>sn_id = streamId, sn_vlan = vlan,
                    sn_addr = (case addr of Some a \<Rightarrow> offset_address stack a addr_offset | None \<Rightarrow> replicate 6 0)\<rparr>
           in st\<lparr>dt_history := (dt_history st)[dt_wrPtr st := e], dt_rdPtr := rdPtr, dt_wrPtr := new_wrPtr\<rparr>)"

definition avb_check_for_new_stream :: "detect_st \<Rightarrow> stream_seen option \<times> detect_st" where
  "avb_check_for_new_stream st =
     (if length (dt_history st) = 0 \<or> dt_rdPtr st = dt_wrPtr st then (None, st)
      else (Some (dt_history st ! dt_rdPtr st), st\<lparr>dt_rdPtr := ring_next st (dt_rdPtr st)\<rparr>))"

section \<open>The queue of new streams\<close>

definition detect_ok :: "detect_st \<Rightarrow> bool" where
  "detect_ok st \<longleftrightarrow> dt_rdPtr st < length (dt_history st) \<and> dt_wrPtr st < length (dt_history st)"

definition waiting_streams :: "detect_st \<Rightarrow> stream_seen list" where
  "waiting_streams st =
     (let r = dt_rdPtr st; w = dt_wrPtr st; h = dt_history st
      in if r \<le> w then take (w - r) (drop r h) else drop r h @ take w h)"

lemma waiting_read:
  assumes "detect_ok st" "dt_rdPtr st \<noteq> dt_wrPtr st"
  shows "waiting_streams st = dt_history st ! dt_rdPtr st # waiting_streams (st\<lparr>dt_rdPtr := ring_next st (dt_rdPtr st)\<rparr>)"
proof -
  let ?r = "dt_rdPtr st" and ?w = "dt_wrPtr st" and ?h = "dt_history st"
  have r: "?r < length ?h" "?w < length ?h" using assms(1) by (simp_all add: detect_ok_def)
  have d: "drop ?r ?h = ?h ! ?r # drop (Suc ?r) ?h" using r(1) by (simp add: Cons_nth_drop_Suc)
  show ?thesis
  proof (cases "?r < ?w")
    case True
    then have "?w - ?r = Suc (?w - Suc ?r)" by simp
    then show ?thesis using True r d by (simp add: waiting_streams_def ring_next_def Let_def)
  next
    case False
    then have w: "?w < ?r" using assms(2) by simp
    show ?thesis
    proof (cases "Suc ?r = length ?h")
      case True
      then show ?thesis using w d by (simp add: waiting_streams_def ring_next_def Let_def)
    next
      case neq: False
      then show ?thesis using w d r by (simp add: waiting_streams_def ring_next_def Let_def)
    qed
  qed
qed

text \<open>The ring without its last place.\<close>

lemma waiting_write:
  assumes "detect_ok st" "ring_next st (dt_wrPtr st) \<noteq> dt_rdPtr st"
  shows "waiting_streams (st\<lparr>dt_history := (dt_history st)[dt_wrPtr st := e], dt_wrPtr := ring_next st (dt_wrPtr st)\<rparr>) =
    waiting_streams st @ [e]"
proof -
  let ?r = "dt_rdPtr st" and ?w = "dt_wrPtr st" and ?h = "dt_history st"
  have r: "?r < length ?h" "?w < length ?h" using assms(1) by (simp_all add: detect_ok_def)
  have t: "take (Suc ?w) (?h[?w := e]) = take ?w ?h @ [e]" using r(2) by (simp add: take_Suc_conv_app_nth)
  show ?thesis
  proof (cases "?r \<le> ?w")
    case True
    have "take (Suc ?w - ?r) (drop ?r (?h[?w := e])) = drop ?r (take (Suc ?w) (?h[?w := e]))" by (simp add: drop_take)
    also have "\<dots> = drop ?r (take ?w ?h) @ [e]" unfolding t using True r by simp
    finally have a: "take (Suc ?w - ?r) (drop ?r (?h[?w := e])) = take (?w - ?r) (drop ?r ?h) @ [e]" by (simp add: drop_take)
    show ?thesis
    proof (cases "Suc ?w = length ?h")
      case end_of_ring: True
      then have "?r \<noteq> 0" using assms(2) by (auto simp: ring_next_def)
      then show ?thesis using a True end_of_ring by (simp add: waiting_streams_def ring_next_def Let_def)
    next
      case False
      then show ?thesis using a True by (simp add: waiting_streams_def ring_next_def Let_def)
    qed
  next
    case False
    then have n: "Suc ?w < ?r" "Suc ?w \<noteq> length ?h" using assms(2) r by (auto simp: ring_next_def)
    then show ?thesis using False t by (simp add: waiting_streams_def ring_next_def Let_def)
  qed
qed

lemma ring_next_bound: "p < length (dt_history st) \<Longrightarrow> ring_next st p < length (dt_history st)"
  by (auto simp: ring_next_def)

lemma waiting_length:
  assumes "detect_ok st"
  shows "length (waiting_streams st) = length (dt_history st) - 1 \<longleftrightarrow> ring_next st (dt_wrPtr st) = dt_rdPtr st"
  using assms by (auto simp: waiting_streams_def ring_next_def detect_ok_def Let_def)

lemma add_new_stream:
  assumes ok: "detect_ok st" and N: "1 < length (dt_history st)"
    and new: "streamId \<notin> set sources" "\<forall>e \<in> set (dt_history st). sn_id e \<noteq> streamId"
    and e: "e = \<lparr>sn_id = streamId, sn_vlan = vlan, sn_addr = (case addr of Some a \<Rightarrow> offset_address stack a off | None \<Rightarrow> replicate 6 0)\<rparr>"
    and st': "st' = avb_add_detected_stream stack sources streamId vlan addr off st"
  shows "detect_ok st'" and "waiting_streams st' =
    (if length (waiting_streams st) = length (dt_history st) - 1 then tl (waiting_streams st) else waiting_streams st) @ [e]"
proof -
  let ?w = "dt_wrPtr st" and ?r = "dt_rdPtr st" and ?n = "ring_next st (dt_wrPtr st)"
  obtain st1 where st1: "st1 = st\<lparr>dt_rdPtr := if ?n = ?r then ring_next st ?r else ?r\<rparr>" by simp
  have b: "?w < length (dt_history st)" "?r < length (dt_history st)" using ok by (simp_all add: detect_ok_def)
  have st'1: "st' = st1\<lparr>dt_history := (dt_history st1)[dt_wrPtr st1 := e], dt_wrPtr := ring_next st1 (dt_wrPtr st1)\<rparr>"
    using new b by (auto simp: st' st1 e avb_add_detected_stream_def Let_def list_ex_iff ring_next_def)
  have ok1: "detect_ok st1" using ok b by (simp add: st1 detect_ok_def ring_next_bound)
  have ne: "ring_next st1 (dt_wrPtr st1) \<noteq> dt_rdPtr st1"
    using N b by (auto simp: st1 ring_next_def split: if_splits)
  show "detect_ok st'" using ok1 b ring_next_bound [of "dt_wrPtr st1" st1] by (simp add: st'1 st1 detect_ok_def)
  have "waiting_streams st' = waiting_streams st1 @ [e]" unfolding st'1 by (rule waiting_write [OF ok1 ne])
  moreover have "waiting_streams st1 = (if ?n = ?r then tl (waiting_streams st) else waiting_streams st)"
  proof (cases "?n = ?r")
    case True
    then have "?r \<noteq> ?w" using N b by (auto simp: ring_next_def split: if_splits)
    then show ?thesis using True waiting_read [OF ok] by (simp add: st1)
  qed (simp add: st1)
  ultimately show "waiting_streams st' =
    (if length (waiting_streams st) = length (dt_history st) - 1 then tl (waiting_streams st) else waiting_streams st) @ [e]"
    using waiting_length [OF ok] by simp
qed

text \<open>
  Streams are reported in the order in which they were seen, each once. A new stream is queued behind the others, and the
  oldest one is dropped when the ring is full; a stream of this unit, and one that is still in the history, changes
  nothing, also when it has been reported long ago. What is reported is the oldest one.
\<close>
lemma new_streams_queue:
  assumes ok: "detect_ok st" and N: "1 < length (dt_history st)"
    and st': "st' = avb_add_detected_stream stack sources streamId vlan addr off st"
    and e: "e = \<lparr>sn_id = streamId, sn_vlan = vlan, sn_addr = (case addr of Some a \<Rightarrow> offset_address stack a off | None \<Rightarrow> replicate 6 0)\<rparr>"
  shows "detect_ok st' \<and>
    (if streamId \<in> set sources \<or> (\<exists>k \<in> set (dt_history st). sn_id k = streamId) then st' = st
     else waiting_streams st' =
       (if length (waiting_streams st) = length (dt_history st) - 1 then tl (waiting_streams st) else waiting_streams st) @ [e]) \<and>
    (case waiting_streams st of [] \<Rightarrow> avb_check_for_new_stream st = (None, st)
     | k # ks \<Rightarrow> fst (avb_check_for_new_stream st) = Some k \<and> waiting_streams (snd (avb_check_for_new_stream st)) = ks)"
proof (intro conjI)
  let ?known = "streamId \<in> set sources \<or> (\<exists>k \<in> set (dt_history st). sn_id k = streamId)"
  have known: "st' = st" if ?known using that by (auto simp: st' avb_add_detected_stream_def list_ex_iff)
  show "detect_ok st'" using known add_new_stream(1) [OF ok N _ _ e st'] ok by blast
  show "if ?known then st' = st else waiting_streams st' =
       (if length (waiting_streams st) = length (dt_history st) - 1 then tl (waiting_streams st) else waiting_streams st) @ [e]"
    using known add_new_stream(2) [OF ok N _ _ e st'] by auto
  show "case waiting_streams st of [] \<Rightarrow> avb_check_for_new_stream st = (None, st)
     | k # ks \<Rightarrow> fst (avb_check_for_new_stream st) = Some k \<and> waiting_streams (snd (avb_check_for_new_stream st)) = ks"
  proof (cases "dt_rdPtr st = dt_wrPtr st")
    case True
    then show ?thesis by (simp add: waiting_streams_def avb_check_for_new_stream_def)
  next
    case False
    moreover have "dt_history st \<noteq> []" using N by auto
    ultimately show ?thesis using waiting_read [OF ok False] by (simp add: avb_check_for_new_stream_def)
  qed
qed

definition example_detect :: detect_st where
  "example_detect = \<lparr>dt_history = replicate 4 \<lparr>sn_id = (0, 0), sn_vlan = 0, sn_addr = replicate 6 0\<rparr>, dt_rdPtr = 0, dt_wrPtr = 0\<rparr>"

lemma new_streams_queue_witness:
  "map sn_id (waiting_streams (avb_add_detected_stream 0 [] (1, 2) 2 None 0 example_detect)) = [(1, 2)]"
proof -
  have "detect_ok example_detect" "1 < length (dt_history example_detect)" by (simp_all add: example_detect_def detect_ok_def)
  from new_streams_queue [OF this refl refl, of 0 "[]" "(1, 2)" 2 None 0] show ?thesis
    by (auto simp: example_detect_def waiting_streams_def)
qed

text \<open>What the uninitialised variable holds does not matter, and without an offset the address is kept.\<close>

lemma offset_address_fold:
  "length a = 6 \<Longrightarrow> fold (\<lambda>i x. push_bit 8 x + ucast (a ! i)) [0..<6] stack =
     push_bit 48 stack + (fold (\<lambda>i x. push_bit 8 x + ucast (a ! i)) [0..<6] 0 :: u64)"
  by (simp add: upt_rec push_bit_eq_mult algebra_simps)

lemma take_bit_48_add: "take_bit 48 (push_bit 48 x + y) = take_bit 48 (y :: int)"
  using take_bit_add [of 48 "push_bit 48 x" y] by (simp add: take_bit_push_bit)

lemma offset_address_stack: "length a = 6 \<Longrightarrow> offset_address stack a off = offset_address 0 a off"
proof -
  assume a: "length a = 6"
  have t: "take_bit 48 (push_bit 48 stack + y) = take_bit 48 y" for y :: u64
    by transfer (simp add: take_bit_48_add)
  have "ucast (drop_bit (8 * (5 - i)) (push_bit 48 stack + y :: u64)) = (ucast (drop_bit (8 * (5 - i)) y) :: u8)" for i y
  proof (rule bit_word_eqI)
    fix n assume "n < LENGTH(8)"
    then have "8 * (5 - i) + n < 48" by simp
    then have "bit (push_bit 48 stack + y) (8 * (5 - i) + n) = bit y (8 * (5 - i) + n)"
      using t [of y] by (metis bit_take_bit_iff)
    then show "bit (ucast (drop_bit (8 * (5 - i)) (push_bit 48 stack + y)) :: u8) n = bit (ucast (drop_bit (8 * (5 - i)) y) :: u8) n"
      by (simp add: bit_ucast_iff bit_drop_bit_eq)
  qed
  then show ?thesis unfolding offset_address_def Let_def offset_address_fold [OF a, of stack] add.assoc by simp
qed

end
