(* ===== verification/Avb_Util.thy ===== *)
theory Avb_Util
  imports Avb_Prelude "HOL-Library.Char_ord"
begin

text \<open>
  Numbers as text (\<open>avb_util.c\<close>). A function that fills a buffer returns the characters it leaves there. The base is at
  least 2, as the conversion does not end for less, and at most 16, the number of digits there are.
\<close>

section \<open>Numbers to text\<close>

definition digit_chars :: string where "digit_chars = ''0123456789ABCDEF''"

text \<open>The loop over \<open>n\<close>, least significant digit first.\<close>

function itoa_loop :: "int \<Rightarrow> int \<Rightarrow> string" where
  "itoa_loop n base = (if 0 < n \<and> 1 < base then digit_chars ! nat (n mod base) # itoa_loop (n div base) base else [])"
  by pat_completeness auto
termination by (relation "measure (\<lambda>(n, base). nat n)") (auto simp: nat_less_eq_zless int_div_less_self)

declare itoa_loop.simps [simp del]

definition avb_itoa :: "int \<Rightarrow> int \<Rightarrow> int \<Rightarrow> string" where
  "avb_itoa n base fill = (let ds = itoa_loop n base in rev (ds @ replicate (nat (fill - int (length ds))) CHR ''0''))"

text \<open>A number with \<open>prec\<close> fractional bits; \<open>int\<close> and \<open>long long\<close> are cut to their width.\<close>

definition avb_itoa_fixed :: "int \<Rightarrow> int \<Rightarrow> int \<Rightarrow> int \<Rightarrow> nat \<Rightarrow> string" where
  "avb_itoa_fixed n base fill1 fill2 prec =
     (let x = (if n < 0 then signed_take_bit 31 (- n) else n);
          whole = drop_bit prec x;
          frac = ((\<lambda>x. signed_take_bit 63 (x * base)) ^^ nat fill2) (x - push_bit prec whole)
      in (if n < 0 then CHR ''-'' else CHR '' '') # avb_itoa (signed_take_bit 31 whole) base fill1 @
         CHR ''.'' # avb_itoa (signed_take_bit 31 (drop_bit prec frac)) base fill2)"

section \<open>Text to numbers\<close>

definition is_digit :: "char \<Rightarrow> bool" where
  "is_digit c \<longleftrightarrow> 48 \<le> (of_char c :: nat) \<and> (of_char c :: nat) \<le> 57"

text \<open>
  The digits are read from the last one back to the start of the buffer. Then the pointer stands before the buffer, where
  the character \<open>prev\<close> decides whether it moves on. The result is the number and the pointer, relative to the buffer.
\<close>

definition avb_atoi :: "char \<Rightarrow> string \<Rightarrow> int \<times> int" where
  "avb_atoi prev buf =
     (let neg = (buf \<noteq> [] \<and> hd buf = CHR ''-'');
          start = (if neg then 1 else 0);
          n = start + length (takeWhile is_digit (drop start buf));
          x = foldl (\<lambda>x c. x * 10 + (int (of_char c) - 48)) 0 (rev (take n buf))
      in (if neg then - x else x, if is_digit prev then int (length (takeWhile is_digit buf)) else - 1))"

section \<open>What the conversions compute\<close>

definition digit_value :: "char \<Rightarrow> int" where
  "digit_value c = (let k = int (of_char c) in if k < 58 then k - 48 else k - 55)"

fun digits_value :: "int \<Rightarrow> string \<Rightarrow> int" where
  "digits_value base [] = 0"
| "digits_value base (c # cs) = digit_value c * base ^ length cs + digits_value base cs"

lemma digit_value_char: "0 \<le> d \<Longrightarrow> d < 16 \<Longrightarrow> digit_value (digit_chars ! nat d) = d"
proof -
  assume d: "0 \<le> d" "d < 16"
  have "\<forall>k < 16. digit_value (digit_chars ! k) = int k" by code_simp
  then have "digit_value (digit_chars ! nat d) = int (nat d)" using d by (simp add: nat_less_iff)
  then show ?thesis using d by simp
qed

lemma digits_value_append: "digits_value base (xs @ ys) = digits_value base xs * base ^ length ys + digits_value base ys"
  by (induction xs) (simp_all add: algebra_simps power_add)

lemma digits_value_zeros: "digits_value base (replicate n CHR ''0'') = 0"
  by (induction n) (simp_all add: digit_value_def)

lemma itoa_loop_value: "0 \<le> n \<Longrightarrow> 1 < base \<Longrightarrow> base \<le> 16 \<Longrightarrow> digits_value base (rev (itoa_loop n base)) = n"
proof (induction n base rule: itoa_loop.induct)
  case (1 n base)
  show ?case
  proof (cases "0 < n")
    case True
    have "digits_value base (rev (itoa_loop (n div base) base)) = n div base"
      using 1 True by (simp add: pos_imp_zdiv_nonneg_iff)
    moreover have "digit_value (digit_chars ! nat (n mod base)) = n mod base"
      using "1.prems" order_less_le_trans [OF pos_mod_bound, of base 16 n] by (intro digit_value_char) simp_all
    ultimately show ?thesis using True "1.prems" by (subst itoa_loop.simps) (simp add: digits_value_append)
  next
    case False
    then show ?thesis using "1.prems" by (subst itoa_loop.simps) simp
  qed
qed

text \<open>The text of a number has its value in the base, and at least the width asked for; 0 without a width is empty.\<close>

lemma avb_itoa_value:
  assumes "0 \<le> n" "1 < base" "base \<le> 16"
  shows "digits_value base (avb_itoa n base fill) = n" "fill \<le> int (length (avb_itoa n base fill))" "avb_itoa 0 base 0 = ''''"
  using itoa_loop_value [OF assms]
  by (simp_all add: avb_itoa_def Let_def digits_value_append digits_value_zeros itoa_loop.simps [of 0])

text \<open>Reading back gives the number with its digits reversed, and a pointer before the buffer.\<close>

lemma foldl_digits: "list_all is_digit cs \<Longrightarrow> foldl (\<lambda>x c. x * 10 + (int (of_char c) - 48)) a cs = a * 10 ^ length cs + digits_value 10 cs"
proof (induction cs arbitrary: a)
  case (Cons c cs)
  then have "int (of_char c) - 48 = digit_value c" by (simp add: digit_value_def is_digit_def)
  then show ?case using Cons by (simp only: foldl.simps digits_value.simps list.size list.pred_inject) (simp add: algebra_simps)
qed simp

lemma avb_atoi_reverses:
  assumes "list_all is_digit ds" "\<not> is_digit prev"
  shows "avb_atoi prev ds = (digits_value 10 (rev ds), - 1)"
proof -
  have "(ds \<noteq> [] \<and> hd ds = CHR ''-'') = False" using assms(1) by (cases ds) (auto simp: is_digit_def)
  moreover have tw: "takeWhile is_digit ds = ds" using assms(1) unfolding takeWhile_eq_all_conv by (simp add: list_all_iff)
  moreover have "list_all is_digit (rev ds)" using assms(1) by (simp add: list_all_iff)
  ultimately show ?thesis using assms(2) foldl_digits [of "rev ds" 0] unfolding avb_atoi_def Let_def by (simp only: if_False drop_0 tw add_0 take_all_iff order_refl) simp
qed

lemma avb_atoi_twelve: "avb_atoi CHR '' '' (avb_itoa 12 10 0) = (21, - 1)"
  by code_simp

end
