(* ===== verification/Audio_I2s.thy ===== *)
theory Audio_I2s
  imports Media_Input_Fifo Media_Output_Fifo
begin

text \<open>
  The I2S master (\<open>audio_i2s.h\<close>) and the thread that feeds it (\<open>media_output_fifo_support.xc\<close>): once in a
  sample period every output FIFO gives a sample to a codec and every input FIFO takes one. What is
  written to the ports is a trace, in the order of the code; a buffered port sends a word from its lowest bit
  to its highest. The build has neither \<open>SAMPLE_COUNTER_TEST\<close> nor \<open>I2S_SYNTH_FROM\<close>.
\<close>

section \<open>Ports\<close>

definition bitrev :: "u32 \<Rightarrow> u32" where
  "bitrev x = horner_sum of_bool 2 (rev (map (bit x) [0..<32]))"

text \<open>A timed output has the time of the port; \<open>Setpt\<close> sets the time of the first input.\<close>

datatype i2s_action =
    Bclk u32
  | Lrclk u32
  | Lrclk_at nat u32
  | Dout nat u32
  | Dout_at nat nat u32
  | Setpt nat nat

record i2s_st =
  is_ififos :: "ififo_t list"
  is_ofifos :: "ofifo_t list"
  is_enable :: ififo_enable
  is_lrclk_val :: u32
  is_trace :: "i2s_action list"

definition i2s_act :: "i2s_action \<Rightarrow> i2s_st \<Rightarrow> i2s_st" where
  "i2s_act a st = st\<lparr>is_trace := is_trace st @ [a]\<rparr>"

text \<open>The clock pattern; \<open>None\<close> for a ratio at which the thread returns.\<close>

definition mclk_to_bclk_ratio :: "nat \<Rightarrow> nat" where
  "mclk_to_bclk_ratio master_to_word_clock_ratio = master_to_word_clock_ratio div 64"

definition bclk_val :: "nat \<Rightarrow> u32 option" where
  "bclk_val ratio =
     (if ratio = 2 then Some 0xaaaaaaaa else if ratio = 4 then Some 0xcccccccc
      else if ratio = 8 then Some 0xf0f0f0f0 else None)"

definition i2s_start :: "nat \<Rightarrow> u32 \<Rightarrow> nat \<Rightarrow> nat \<Rightarrow> i2s_action list" where
  "i2s_start ratio bclk num_in num_out =
     map (\<lambda>i. Dout_at i 32 0) [0..<num_out div 2] @ map (\<lambda>i. Setpt i 63) [0..<num_in div 2] @
     [Lrclk_at 31 0xFFFFFFFF] @ replicate (2 * ratio) (Bclk bclk) @ map (\<lambda>i. Dout i 0) [0..<num_out div 2]"

section \<open>Up to four channels\<close>

text \<open>
  The \<open>k\<close>th step of the half \<open>j\<close> of the word clock. \<open>din j k\<close> is the word that port \<open>k\<close> gives in that
  half, \<open>active\<close> the enabled FIFOs.
\<close>

definition i2s_input :: "nat \<Rightarrow> u32 \<Rightarrow> u32 \<Rightarrow> (nat \<Rightarrow> nat \<Rightarrow> u32) \<Rightarrow> nat \<Rightarrow> nat \<Rightarrow> i2s_st \<Rightarrow> i2s_st" where
  "i2s_input num_in active timestamp din j k st =
     (if k < num_in div 2
      then let n = j + k * 2;
               sample_in = drop_bit 8 (bitrev (din j k));
               f = is_ififos st ! n
           in st\<lparr>is_ififos := (is_ififos st)[n :=
                (if active AND push_bit n 1 \<noteq> 0 then media_input_fifo_push_sample sample_in timestamp f
                 else media_input_fifo_flush f)]\<rparr>
      else st)"

definition i2s_output_4 :: "nat \<Rightarrow> u32 \<Rightarrow> nat \<Rightarrow> nat \<Rightarrow> i2s_st \<Rightarrow> i2s_st" where
  "i2s_output_4 num_out timestamp j k st =
     (if k < num_out div 2
      then let n = j + k * 2;
               (sample_out, f) = media_output_fifo_pull_sample timestamp (is_ofifos st ! n)
           in i2s_act (Dout k (bitrev (push_bit 8 sample_out))) (st\<lparr>is_ofifos := (is_ofifos st)[n := f]\<rparr>)
      else st)"

fun i2s_steps_4 :: "nat \<Rightarrow> nat \<Rightarrow> u32 \<Rightarrow> u32 \<Rightarrow> u32 \<Rightarrow> (nat \<Rightarrow> nat \<Rightarrow> u32) \<Rightarrow> nat \<Rightarrow> nat list \<Rightarrow> i2s_st \<Rightarrow> i2s_st" where
  "i2s_steps_4 num_in num_out bclk active timestamp din j [] st = st"
| "i2s_steps_4 num_in num_out bclk active timestamp din j (k # ks) st =
     i2s_steps_4 num_in num_out bclk active timestamp din j ks
       (i2s_output_4 num_out timestamp j k (i2s_input num_in active timestamp din j k (i2s_act (Bclk bclk) st)))"

definition i2s_lrclk :: "i2s_st \<Rightarrow> i2s_st" where
  "i2s_lrclk st = (i2s_act (Lrclk (is_lrclk_val st)) st)\<lparr>is_lrclk_val := NOT (is_lrclk_val st)\<rparr>"

text \<open>One sample period.\<close>

definition i2s_period_4 :: "nat \<Rightarrow> u32 \<Rightarrow> nat \<Rightarrow> nat \<Rightarrow> u32 \<Rightarrow> (nat \<Rightarrow> nat \<Rightarrow> u32) \<Rightarrow> i2s_st \<Rightarrow> i2s_st" where
  "i2s_period_4 ratio bclk num_in num_out timestamp din st =
     (let active = media_input_fifo_enable_req_state (is_enable st);
          st = i2s_steps_4 num_in num_out bclk active timestamp din 0 [0..<ratio] (i2s_lrclk st);
          st = i2s_steps_4 num_in num_out bclk active timestamp din 1 [0..<ratio] (i2s_lrclk st)
      in st\<lparr>is_enable := media_input_fifo_update_enable_ind_state active 0xFFFFFFFF (is_enable st)\<rparr>)"

section \<open>Up to eight channels\<close>

text \<open>Another thread pulls the samples and sends them over a channel: the samples for one timestamp, in the order of \<open>is\<close>.\<close>

fun pull_channels :: "u32 \<Rightarrow> nat list \<Rightarrow> ofifo_t list \<Rightarrow> u32 list \<times> ofifo_t list" where
  "pull_channels timestamp [] fs = ([], fs)"
| "pull_channels timestamp (i # is) fs =
     (let (sample, f) = media_output_fifo_pull_sample timestamp (fs ! i);
          (samples, fs') = pull_channels timestamp is (fs[i := f])
      in (sample # samples, fs'))"

definition media_output_fifo_to_xc_channel :: "nat \<Rightarrow> u32 \<Rightarrow> ofifo_t list \<Rightarrow> u32 list \<times> ofifo_t list" where
  "media_output_fifo_to_xc_channel num_channels timestamp fs = pull_channels timestamp [0..<num_channels] fs"

definition split_lr_order :: "nat \<Rightarrow> nat list" where
  "split_lr_order num_channels =
     map (\<lambda>i. i * 2) [0..<(num_channels + 1) div 2] @ map (\<lambda>i. 1 + i * 2) [0..<num_channels div 2]"

definition media_output_fifo_to_xc_channel_split_lr :: "nat \<Rightarrow> u32 \<Rightarrow> ofifo_t list \<Rightarrow> u32 list \<times> ofifo_t list" where
  "media_output_fifo_to_xc_channel_split_lr num_channels timestamp fs =
     pull_channels timestamp (split_lr_order num_channels) fs"

text \<open>
  The two threads and the streaming channel between them. In each direction the channel holds at most \<open>cap\<close> words; an
  output waits while it is full, an input while it is empty. The sample thread has taken a timestamp, has the channels
  \<open>sc_todo\<close> still to pull, and may hold a sample that it cannot send yet.
\<close>

record sample_chan =
  sc_timestamps :: "u32 list"
  sc_samples :: "u32 list"
  sc_timestamp :: u32
  sc_todo :: "nat list"
  sc_held :: "u32 option"

definition empty_chan :: sample_chan where
  "empty_chan = \<lparr>sc_timestamps = [], sc_samples = [], sc_timestamp = 0xbadf00d, sc_todo = [], sc_held = None\<rparr>"

text \<open>One step of the loop of the sample thread; \<open>None\<close> while it waits.\<close>

definition split_lr_step :: "nat \<Rightarrow> nat \<Rightarrow> sample_chan \<times> ofifo_t list \<Rightarrow> (sample_chan \<times> ofifo_t list) option" where
  "split_lr_step cap num_channels s =
     (case s of (c, fs) \<Rightarrow>
        (case sc_held c of
           Some sample \<Rightarrow>
             if length (sc_samples c) < cap
             then Some (c\<lparr>sc_held := None, sc_samples := sc_samples c @ [sample]\<rparr>, fs) else None
         | None \<Rightarrow>
             (case sc_todo c of
                i # is \<Rightarrow>
                  let (sample, f) = media_output_fifo_pull_sample (sc_timestamp c) (fs ! i)
                  in Some (c\<lparr>sc_todo := is, sc_held := Some sample\<rparr>, fs[i := f])
              | [] \<Rightarrow>
                  (case sc_timestamps c of
                     [] \<Rightarrow> None
                   | timestamp # ts \<Rightarrow>
                       Some (c\<lparr>sc_timestamps := ts, sc_timestamp := timestamp, sc_todo := split_lr_order num_channels\<rparr>, fs)))))"

text \<open>
  The thread runs until it waits. What each thread does depends on the other only through the words of the channel, so that
  it makes no difference how far this thread lags behind: it is let run whenever the master turns to the channel.
\<close>

definition split_lr_work :: "nat \<Rightarrow> sample_chan \<Rightarrow> nat" where
  "split_lr_work num_channels c =
     length (sc_timestamps c) * (2 * num_channels + 1) + 2 * length (sc_todo c) + (if sc_held c = None then 0 else 1)"

lemma length_split_lr_order: "length (split_lr_order n) = n"
  by (simp add: split_lr_order_def)

lemma split_lr_step_works:
  "split_lr_step cap n s = Some s' \<Longrightarrow> split_lr_work n (fst s') < split_lr_work n (fst s)"
  by (auto simp: split_lr_step_def split_lr_work_def length_split_lr_order Let_def
      split: prod.splits option.splits list.splits if_splits)

function split_lr_run :: "nat \<Rightarrow> nat \<Rightarrow> sample_chan \<times> ofifo_t list \<Rightarrow> sample_chan \<times> ofifo_t list" where
  "split_lr_run cap num_channels s =
     (case split_lr_step cap num_channels s of None \<Rightarrow> s | Some s \<Rightarrow> split_lr_run cap num_channels s)"
  by pat_completeness auto
termination
  by (relation "measure (\<lambda>(cap, n, s). split_lr_work n (fst s))") (auto dest: split_lr_step_works)

declare split_lr_run.simps [simp del]

text \<open>The master sends the timestamp and takes a sample; \<open>None\<close> when both threads wait for ever.\<close>

definition i2s_timestamp_8 :: "nat \<Rightarrow> nat \<Rightarrow> u32 \<Rightarrow> sample_chan \<times> i2s_st \<Rightarrow> (sample_chan \<times> i2s_st) option" where
  "i2s_timestamp_8 cap num_out timestamp s =
     (case s of (c, st) \<Rightarrow>
        if num_out > 0
        then (case split_lr_run cap num_out (c, is_ofifos st) of (c, fs) \<Rightarrow>
                if length (sc_timestamps c) < cap
                then Some (c\<lparr>sc_timestamps := sc_timestamps c @ [timestamp]\<rparr>, st\<lparr>is_ofifos := fs\<rparr>) else None)
        else Some (c, st))"

definition i2s_output_8 :: "nat \<Rightarrow> nat \<Rightarrow> nat \<Rightarrow> sample_chan \<times> i2s_st \<Rightarrow> (sample_chan \<times> i2s_st) option" where
  "i2s_output_8 cap num_out k s =
     (case s of (c, st) \<Rightarrow>
        if k < num_out div 2
        then (case split_lr_run cap num_out (c, is_ofifos st) of (c, fs) \<Rightarrow>
                (case sc_samples c of
                   [] \<Rightarrow> None
                 | sample_out # samples \<Rightarrow>
                     Some (c\<lparr>sc_samples := samples\<rparr>, i2s_act (Dout k (bitrev (push_bit 8 sample_out))) (st\<lparr>is_ofifos := fs\<rparr>))))
        else Some (c, st))"

fun i2s_steps_8 :: "nat \<Rightarrow> nat \<Rightarrow> nat \<Rightarrow> u32 \<Rightarrow> u32 \<Rightarrow> u32 \<Rightarrow> (nat \<Rightarrow> nat \<Rightarrow> u32) \<Rightarrow> nat \<Rightarrow> nat list \<Rightarrow> sample_chan \<times> i2s_st \<Rightarrow>
    (sample_chan \<times> i2s_st) option" where
  "i2s_steps_8 cap num_in num_out bclk active timestamp din j [] s = Some s"
| "i2s_steps_8 cap num_in num_out bclk active timestamp din j (k # ks) (c, st) =
     (case i2s_output_8 cap num_out k (c, i2s_input num_in active timestamp din j k (i2s_act (Bclk bclk) st)) of
        None \<Rightarrow> None
      | Some s \<Rightarrow> i2s_steps_8 cap num_in num_out bclk active timestamp din j ks s)"

text \<open>A sample period of the two threads; the timestamp is only sent when there are outputs.\<close>

definition i2s_period_8 ::
  "nat \<Rightarrow> nat \<Rightarrow> u32 \<Rightarrow> nat \<Rightarrow> nat \<Rightarrow> u32 \<Rightarrow> (nat \<Rightarrow> nat \<Rightarrow> u32) \<Rightarrow> sample_chan \<times> i2s_st \<Rightarrow> (sample_chan \<times> i2s_st) option" where
  "i2s_period_8 cap ratio bclk num_in num_out timestamp din s =
     (let active = media_input_fifo_enable_req_state (is_enable (snd s))
      in case i2s_timestamp_8 cap num_out timestamp s of
           None \<Rightarrow> None
         | Some (c, st) \<Rightarrow>
             (case i2s_steps_8 cap num_in num_out bclk active timestamp din 0 [0..<ratio] (c, i2s_lrclk st) of
                None \<Rightarrow> None
              | Some (c, st) \<Rightarrow>
                  (case i2s_steps_8 cap num_in num_out bclk active timestamp din 1 [0..<ratio] (c, i2s_lrclk st) of
                     None \<Rightarrow> None
                   | Some (c, st) \<Rightarrow>
                       Some (c, st\<lparr>is_enable := media_input_fifo_update_enable_ind_state active 0xFFFFFFFF (is_enable st)\<rparr>))))"

section \<open>The master\<close>

text \<open>The start of the threads and the sample periods that follow, each with its time and its input.\<close>

fun i2s_periods :: "(u32 \<Rightarrow> (nat \<Rightarrow> nat \<Rightarrow> u32) \<Rightarrow> 's \<Rightarrow> 's option) \<Rightarrow> (u32 \<times> (nat \<Rightarrow> nat \<Rightarrow> u32)) list \<Rightarrow> 's \<Rightarrow> 's option" where
  "i2s_periods period [] s = Some s"
| "i2s_periods period ((timestamp, din) # ps) s =
     (case period timestamp din s of None \<Rightarrow> None | Some s \<Rightarrow> i2s_periods period ps s)"

definition i2s_master_upto_4 :: "nat \<Rightarrow> nat \<Rightarrow> nat \<Rightarrow> (u32 \<times> (nat \<Rightarrow> nat \<Rightarrow> u32)) list \<Rightarrow> i2s_st \<Rightarrow> i2s_st option" where
  "i2s_master_upto_4 num_in num_out master_to_word_clock_ratio ps st =
     (let ratio = mclk_to_bclk_ratio master_to_word_clock_ratio
      in case bclk_val ratio of
           None \<Rightarrow> Some st
         | Some bclk \<Rightarrow>
             i2s_periods (\<lambda>ts din st. Some (i2s_period_4 ratio bclk num_in num_out ts din st)) ps
               (st\<lparr>is_lrclk_val := 0xFFFFFFFF, is_trace := is_trace st @ i2s_start ratio bclk num_in num_out\<rparr>))"

definition i2s_master_upto_8 :: "nat \<Rightarrow> nat \<Rightarrow> nat \<Rightarrow> nat \<Rightarrow> (u32 \<times> (nat \<Rightarrow> nat \<Rightarrow> u32)) list \<Rightarrow> i2s_st \<Rightarrow> i2s_st option" where
  "i2s_master_upto_8 cap num_in num_out master_to_word_clock_ratio ps st =
     (let ratio = mclk_to_bclk_ratio master_to_word_clock_ratio
      in case bclk_val ratio of
           None \<Rightarrow> Some st
         | Some bclk \<Rightarrow>
             map_option snd (i2s_periods (i2s_period_8 cap ratio bclk num_in num_out) ps
               (empty_chan, st\<lparr>is_lrclk_val := 0xFFFFFFFF, is_trace := is_trace st @ i2s_start ratio bclk num_in num_out\<rparr>)))"

definition i2s_master :: "nat \<Rightarrow> nat \<Rightarrow> nat \<Rightarrow> nat \<Rightarrow> (u32 \<times> (nat \<Rightarrow> nat \<Rightarrow> u32)) list \<Rightarrow> i2s_st \<Rightarrow> i2s_st option" where
  "i2s_master cap num_in num_out master_to_word_clock_ratio =
     (if num_in \<le> 4 \<and> num_out \<le> 4 then i2s_master_upto_4 num_in num_out master_to_word_clock_ratio
      else i2s_master_upto_8 cap num_in num_out master_to_word_clock_ratio)"

end
