(* ===== verification/Audio_I2s_Proofs.thy ===== *)
theory Audio_I2s_Proofs
  imports Audio_I2s
begin

text \<open>The two masters agree, the frames on the ports, and the hand over of the input FIFOs.\<close>

section \<open>The channel between the threads\<close>

text \<open>
  An ideal channel without bounds, on which the sample thread is never late: the samples of a period are under way as soon
  as its timestamp is sent. The two threads implement it as long as they do not wait for each other.
\<close>

definition ideal_output_8 :: "nat \<Rightarrow> nat \<Rightarrow> u32 list \<times> i2s_st \<Rightarrow> (u32 list \<times> i2s_st) option" where
  "ideal_output_8 num_out k s =
     (case s of (ch, st) \<Rightarrow>
        if k < num_out div 2
        then (case ch of [] \<Rightarrow> None | sample_out # ch \<Rightarrow> Some (ch, i2s_act (Dout k (bitrev (push_bit 8 sample_out))) st))
        else Some (ch, st))"

fun ideal_steps_8 :: "nat \<Rightarrow> nat \<Rightarrow> u32 \<Rightarrow> u32 \<Rightarrow> u32 \<Rightarrow> (nat \<Rightarrow> nat \<Rightarrow> u32) \<Rightarrow> nat \<Rightarrow> nat list \<Rightarrow> u32 list \<times> i2s_st \<Rightarrow>
    (u32 list \<times> i2s_st) option" where
  "ideal_steps_8 num_in num_out bclk active timestamp din j [] s = Some s"
| "ideal_steps_8 num_in num_out bclk active timestamp din j (k # ks) (ch, st) =
     (case ideal_output_8 num_out k (ch, i2s_input num_in active timestamp din j k (i2s_act (Bclk bclk) st)) of
        None \<Rightarrow> None
      | Some s \<Rightarrow> ideal_steps_8 num_in num_out bclk active timestamp din j ks s)"

definition ideal_period_8 :: "nat \<Rightarrow> u32 \<Rightarrow> nat \<Rightarrow> nat \<Rightarrow> u32 \<Rightarrow> (nat \<Rightarrow> nat \<Rightarrow> u32) \<Rightarrow> u32 list \<times> i2s_st \<Rightarrow> (u32 list \<times> i2s_st) option" where
  "ideal_period_8 ratio bclk num_in num_out timestamp din s =
     (case s of (ch, st) \<Rightarrow>
        let active = media_input_fifo_enable_req_state (is_enable st);
            (samples, fs) = (if num_out > 0 then media_output_fifo_to_xc_channel_split_lr num_out timestamp (is_ofifos st)
                             else ([], is_ofifos st))
        in case ideal_steps_8 num_in num_out bclk active timestamp din 0 [0..<ratio]
                  (ch @ samples, i2s_lrclk (st\<lparr>is_ofifos := fs\<rparr>)) of
             None \<Rightarrow> None
           | Some (ch, st) \<Rightarrow>
               (case ideal_steps_8 num_in num_out bclk active timestamp din 1 [0..<ratio] (ch, i2s_lrclk st) of
                  None \<Rightarrow> None
                | Some (ch, st) \<Rightarrow>
                    Some (ch, st\<lparr>is_enable := media_input_fifo_update_enable_ind_state active 0xFFFFFFFF (is_enable st)\<rparr>)))"

lemma pull_channels_append:
  "pull_channels ts (is @ js) fs =
     (let (xs, fs1) = pull_channels ts is fs; (ys, fs2) = pull_channels ts js fs1 in (xs @ ys, fs2))"
  by (induction "is" arbitrary: fs) (auto simp: Let_def split: prod.splits)

definition half_channels :: "nat \<Rightarrow> nat \<Rightarrow> nat list \<Rightarrow> nat list" where
  "half_channels num_out j ks = map (\<lambda>k. j + k * 2) (filter (\<lambda>k. k < num_out div 2) ks)"

lemma i2s_input_other [simp]:
  "is_ofifos (i2s_input ni a ts din j k st) = is_ofifos st" "is_enable (i2s_input ni a ts din j k st) = is_enable st"
  "is_lrclk_val (i2s_input ni a ts din j k st) = is_lrclk_val st" "is_trace (i2s_input ni a ts din j k st) = is_trace st"
  by (simp_all add: i2s_input_def Let_def)

lemma i2s_input_ofifos:
  "i2s_input ni a ts din j k (st\<lparr>is_ofifos := fs\<rparr>) = (i2s_input ni a ts din j k st)\<lparr>is_ofifos := fs\<rparr>"
  by (simp add: i2s_input_def Let_def)

lemma i2s_act_sel [simp]:
  "is_ofifos (i2s_act x st) = is_ofifos st" "is_ififos (i2s_act x st) = is_ififos st" "is_enable (i2s_act x st) = is_enable st"
  "is_lrclk_val (i2s_act x st) = is_lrclk_val st" "is_trace (i2s_act x st) = is_trace st @ [x]"
  by (simp_all add: i2s_act_def)

lemma i2s_act_ofifos: "i2s_act x (st\<lparr>is_ofifos := fs\<rparr>) = (i2s_act x st)\<lparr>is_ofifos := fs\<rparr>"
  by (simp add: i2s_act_def)

text \<open>The steps of the one master are those of the other when the channel brings what it would pull itself.\<close>

lemma i2s_steps_agree:
  "pull_channels ts (half_channels no j ks) (is_ofifos st) = (xs, fs) \<Longrightarrow>
   ideal_steps_8 ni no b a ts din j ks (xs @ rest, st\<lparr>is_ofifos := fs'\<rparr>) =
     Some (rest, (i2s_steps_4 ni no b a ts din j ks st)\<lparr>is_ofifos := fs'\<rparr>) \<and>
   is_ofifos (i2s_steps_4 ni no b a ts din j ks st) = fs"
proof (induction ks arbitrary: st xs)
  case Nil
  then show ?case by (simp add: half_channels_def)
next
  case (Cons k ks)
  let ?st = "i2s_input ni a ts din j k (i2s_act (Bclk b) st)"
  show ?case
  proof (cases "k < no div 2")
    case False
    with Cons.prems have "pull_channels ts (half_channels no j ks) (is_ofifos ?st) = (xs, fs)"
      by (simp add: half_channels_def)
    from Cons.IH [OF this] False show ?thesis
      by (simp add: ideal_output_8_def i2s_output_4_def i2s_input_ofifos i2s_act_ofifos)
  next
    case True
    obtain x f where p: "media_output_fifo_pull_sample ts (is_ofifos st ! (j + k * 2)) = (x, f)" by force
    let ?st' = "i2s_act (Dout k (bitrev (push_bit 8 x))) (?st\<lparr>is_ofifos := (is_ofifos st)[j + k * 2 := f]\<rparr>)"
    from Cons.prems True p obtain ys where
      "pull_channels ts (half_channels no j ks) (is_ofifos ?st') = (ys, fs)" and xs: "xs = x # ys"
      by (auto simp: half_channels_def Let_def split: prod.splits)
    from Cons.IH [OF this(1)] True p show ?thesis
      unfolding xs by (simp add: ideal_output_8_def i2s_output_4_def i2s_input_ofifos i2s_act_ofifos)
  qed
qed

lemma filter_lt_upt: "filter (\<lambda>k. k < m) [0..<n] = [0..<min m n]" for m n :: nat
  by (induction n) (auto simp: min_def not_less le_Suc_eq)

lemma half_channels_all:
  "no div 2 \<le> r \<Longrightarrow> half_channels no j [0..<r] = map (\<lambda>k. j + k * 2) [0..<no div 2]"
  by (simp add: half_channels_def filter_lt_upt min_absorb1)

lemma i2s_lrclk_ofifos [simp]: "is_ofifos (i2s_lrclk st) = is_ofifos st" "is_ififos (i2s_lrclk st) = is_ififos st"
  "is_enable (i2s_lrclk st) = is_enable st" "is_lrclk_val (i2s_lrclk st) = NOT (is_lrclk_val st)"
  "is_trace (i2s_lrclk st) = is_trace st @ [Lrclk (is_lrclk_val st)]"
  "i2s_lrclk (st\<lparr>is_ofifos := fs\<rparr>) = (i2s_lrclk st)\<lparr>is_ofifos := fs\<rparr>"
  by (simp_all add: i2s_lrclk_def i2s_act_def)

lemma ideal_steps_8_ofifos:
  assumes "pull_channels ts (half_channels no j ks) (is_ofifos st) = (xs, fs)"
  shows "ideal_steps_8 ni no b a ts din j ks (xs @ rest, st\<lparr>is_ofifos := fs\<rparr>) =
     Some (rest, i2s_steps_4 ni no b a ts din j ks st)"
  using i2s_steps_agree [OF assms, of ni b a din rest fs] by (metis i2s_st.surjective i2s_st.update_convs(2))

lemma i2s_period_agree:
  assumes "even no" "no div 2 \<le> r"
  shows "ideal_period_8 r b ni no ts din ([], st) = Some ([], i2s_period_4 r b ni no ts din st)"
proof -
  let ?h = "\<lambda>j. half_channels no j [0..<r]" and ?a = "media_input_fifo_enable_req_state (is_enable st)"
  let ?s1 = "i2s_steps_4 ni no b ?a ts din 0 [0..<r] (i2s_lrclk st)"
  obtain xs fs1 where p1: "pull_channels ts (?h 0) (is_ofifos (i2s_lrclk st)) = (xs, fs1)" by force
  note s1 = i2s_steps_agree [OF p1]
  obtain ys fs2 where p2: "pull_channels ts (?h 1) (is_ofifos (i2s_lrclk ?s1)) = (ys, fs2)" by force
  have p12: "(if no > 0 then media_output_fifo_to_xc_channel_split_lr no ts (is_ofifos st) else ([], is_ofifos st)) = (xs @ ys, fs2)"
  proof (cases "no = 0")
    case True
    with p1 p2 s1 [of ni b ?a din "[]" fs1] show ?thesis by (simp add: half_channels_def)
  next
    case False
    from assms(1) have "(no + 1) div 2 = no div 2" by auto
    with False p1 p2 s1 [of ni b ?a din "[]" fs1] show ?thesis
      by (simp add: media_output_fifo_to_xc_channel_split_lr_def split_lr_order_def half_channels_all [OF assms(2)] pull_channels_append)
  qed
  have e1: "ideal_steps_8 ni no b ?a ts din 0 [0..<r] ((xs @ ys), (i2s_lrclk st)\<lparr>is_ofifos := fs2\<rparr>) =
      Some (ys, ?s1\<lparr>is_ofifos := fs2\<rparr>)"
    using s1 by blast
  have e2: "ideal_steps_8 ni no b ?a ts din 1 [0..<r] (ys, (i2s_lrclk ?s1)\<lparr>is_ofifos := fs2\<rparr>) =
      Some ([], i2s_steps_4 ni no b ?a ts din 1 [0..<r] (i2s_lrclk ?s1))"
    using ideal_steps_8_ofifos [OF p2, of ni b ?a din "[]"] by simp
  show ?thesis
    unfolding ideal_period_8_def prod.case Let_def p12 append_Nil i2s_lrclk_ofifos e1 option.case e2 i2s_period_4_def by simp
qed

lemma pull_channels_length: "length (fst (pull_channels ts is fs)) = length is"
  by (induction "is" arbitrary: fs) (simp_all add: case_prod_beta Let_def)

lemma ideal_steps_8_takes:
  "length (half_channels no j ks) \<le> length ch \<Longrightarrow>
   \<exists>st'. ideal_steps_8 ni no b a ts din j ks (ch, st) = Some (drop (length (half_channels no j ks)) ch, st')"
proof (induction ks arbitrary: ch st)
  case (Cons k ks)
  show ?case
  proof (cases "k < no div 2")
    case True
    with Cons.prems obtain x ch' where "ch = x # ch'" by (cases ch) (auto simp: half_channels_def)
    with True Cons show ?thesis by (simp add: ideal_output_8_def half_channels_def)
  next
    case False
    with Cons show ?thesis by (simp add: ideal_output_8_def half_channels_def)
  qed
qed (simp add: half_channels_def)

lemma i2s_period_backlog:
  assumes "even no"
  shows "\<exists>ch' st'. ideal_period_8 r b ni no ts din (ch, st) = Some (ch', st') \<and>
    length ch' = length ch + (no - 2 * min r (no div 2))"
proof -
  let ?m = "min r (no div 2)" and ?a = "media_input_fifo_enable_req_state (is_enable st)"
  have h: "length (half_channels no j [0..<r]) = ?m" for j by (simp add: half_channels_def filter_lt_upt min.commute)
  from assms have no: "no div 2 + no div 2 = no" by auto
  obtain xs fs where p: "(if no > 0 then media_output_fifo_to_xc_channel_split_lr no ts (is_ofifos st) else ([], is_ofifos st)) = (xs, fs)"
    by force
  have l: "length xs = no"
  proof (cases "no = 0")
    case False
    with p have "xs = fst (media_output_fifo_to_xc_channel_split_lr no ts (is_ofifos st))" by simp
    then show ?thesis by (simp add: media_output_fifo_to_xc_channel_split_lr_def pull_channels_length length_split_lr_order)
  qed (use p in simp)
  have m: "?m + ?m \<le> no" using no by (metis add_mono min.cobounded2)
  then have m1: "?m \<le> length (ch @ xs)" and m2: "?m \<le> length (drop ?m (ch @ xs))" unfolding length_append length_drop l by linarith+
  obtain s1 where e1: "ideal_steps_8 ni no b ?a ts din 0 [0..<r] (ch @ xs, i2s_lrclk (st\<lparr>is_ofifos := fs\<rparr>)) =
      Some (drop ?m (ch @ xs), s1)"
    using ideal_steps_8_takes [of no 0 "[0..<r]" "ch @ xs", unfolded h, OF m1] by blast
  obtain s2 where e2: "ideal_steps_8 ni no b ?a ts din 1 [0..<r] (drop ?m (ch @ xs), i2s_lrclk s1) =
      Some (drop ?m (drop ?m (ch @ xs)), s2)"
    using ideal_steps_8_takes [of no 1 "[0..<r]" "drop ?m (ch @ xs)", unfolded h, OF m2] by blast
  have "length (drop ?m (drop ?m (ch @ xs))) = length ch + (no - 2 * ?m)"
    unfolding length_append length_drop l using m by linarith
  then show ?thesis by (simp only: ideal_period_8_def prod.case Let_def p e1 e2 option.case) blast
qed

section \<open>The two threads implement the ideal channel\<close>

text \<open>The samples that the sample thread still has to send or has sent, and the FIFOs when they are pulled.\<close>

fun pull_rounds :: "nat \<Rightarrow> u32 list \<Rightarrow> ofifo_t list \<Rightarrow> u32 list \<times> ofifo_t list" where
  "pull_rounds n [] fs = ([], fs)"
| "pull_rounds n (t # ts) fs =
     (let (xs, fs1) = media_output_fifo_to_xc_channel_split_lr n t fs; (ys, fs2) = pull_rounds n ts fs1 in (xs @ ys, fs2))"

definition pending :: "nat \<Rightarrow> sample_chan \<times> ofifo_t list \<Rightarrow> u32 list \<times> ofifo_t list" where
  "pending n s =
     (case s of (c, fs) \<Rightarrow>
        let (xs, fs1) = pull_channels (sc_timestamp c) (sc_todo c) fs; (ys, fs2) = pull_rounds n (sc_timestamps c) fs1
        in (sc_samples c @ (case sc_held c of Some x \<Rightarrow> [x] | None \<Rightarrow> []) @ xs @ ys, fs2))"

lemma pull_rounds_snoc:
  "pull_rounds n (ts @ [t]) fs =
     (let (xs, fs1) = pull_rounds n ts fs; (ys, fs2) = media_output_fifo_to_xc_channel_split_lr n t fs1 in (xs @ ys, fs2))"
  by (induction ts arbitrary: fs) (auto simp: Let_def split: prod.splits)

lemma split_lr_step_pending: "split_lr_step cap n s = Some s' \<Longrightarrow> pending n s' = pending n s"
  by (auto simp: split_lr_step_def pending_def media_output_fifo_to_xc_channel_split_lr_def Let_def
      split: prod.splits option.splits list.splits if_splits)

lemma split_lr_run_pending: "pending n (split_lr_run cap n s) = pending n s"
proof (induction cap n s rule: split_lr_run.induct)
  case (1 cap n s)
  show ?case
  proof (cases "split_lr_step cap n s")
    case (Some s')
    then show ?thesis using 1 [OF Some] split_lr_step_pending [OF Some] by (simp add: split_lr_run.simps [of cap n s])
  qed (simp add: split_lr_run.simps)
qed

lemma split_lr_run_stuck: "split_lr_step cap n (split_lr_run cap n s) = None"
proof (induction cap n s rule: split_lr_run.induct)
  case (1 cap n s)
  then show ?case by (cases "split_lr_step cap n s") (simp_all add: split_lr_run.simps [of cap n s])
qed

definition idle :: "sample_chan \<Rightarrow> bool" where
  "idle c \<longleftrightarrow> sc_timestamps c = [] \<and> sc_samples c = [] \<and> sc_todo c = [] \<and> sc_held c = None"

text \<open>When the sample thread waits with a sample to send, the channel is full; else it is idle but for what is under way.\<close>

lemma split_lr_stuck:
  assumes "split_lr_step cap n (c, fs) = None"
  shows "cap \<le> length (sc_samples c) \<or> sc_timestamps c = [] \<and> sc_todo c = [] \<and> sc_held c = None"
  using assms by (auto simp: split_lr_step_def Let_def split: prod.splits option.splits list.splits if_splits)

lemma pending_idle: "idle c \<Longrightarrow> pending n (c, fs) = ([], fs)"
  by (simp add: pending_def idle_def)

lemma idle_pending:
  assumes "pending n (c, fs) = ([], fs')" "0 < n"
  shows "idle c \<and> fs' = fs"
proof -
  obtain xs fs1 where p: "pull_channels (sc_timestamp c) (sc_todo c) fs = (xs, fs1)" by force
  obtain ys fs2 where q: "pull_rounds n (sc_timestamps c) fs1 = (ys, fs2)" by force
  have e: "sc_samples c = []" "sc_held c = None" "xs = []" "ys = []" "fs' = fs2"
    using assms(1) by (auto simp: pending_def p q split: option.splits)
  have todo: "sc_todo c = []" using e(3) pull_channels_length [of "sc_timestamp c" "sc_todo c" fs] by (simp add: p)
  have ts: "sc_timestamps c = []"
  proof (cases "sc_timestamps c")
    case (Cons t ts)
    obtain zs fs3 where "media_output_fifo_to_xc_channel_split_lr n t fs1 = (zs, fs3)" by force
    moreover from this have "length zs = n"
      using pull_channels_length [of t "split_lr_order n" fs1]
      by (simp add: media_output_fifo_to_xc_channel_split_lr_def length_split_lr_order)
    ultimately show ?thesis using q e(4) assms(2) by (auto simp: Cons Let_def split: prod.splits)
  qed
  show ?thesis using e todo ts p q by (simp add: idle_def)
qed

definition ideal :: "nat \<Rightarrow> sample_chan \<times> i2s_st \<Rightarrow> u32 list \<times> i2s_st" where
  "ideal n s = (case s of (c, st) \<Rightarrow>
     (fst (pending n (c, is_ofifos st)), st\<lparr>is_ofifos := snd (pending n (c, is_ofifos st))\<rparr>))"

lemma ideal_idle: "idle c \<Longrightarrow> ideal n (c, st) = ([], st)"
  by (simp add: ideal_def pending_idle)

lemma output_refines:
  assumes "0 < cap"
  shows "map_option (ideal n) (i2s_output_8 cap n k s) = ideal_output_8 n k (ideal n s)"
proof (cases "k < n div 2")
  case True
  obtain c st where s: "s = (c, st)" by force
  obtain c' fs where r: "split_lr_run cap n (c, is_ofifos st) = (c', fs)" by force
  have p: "pending n (c', fs) = pending n (c, is_ofifos st)"
    using split_lr_run_pending [of n cap "(c, is_ofifos st)"] by (simp add: r)
  have stuck: "cap \<le> length (sc_samples c') \<or> sc_timestamps c' = [] \<and> sc_todo c' = [] \<and> sc_held c' = None"
    using split_lr_run_stuck [of cap n "(c, is_ofifos st)"] unfolding r by (rule split_lr_stuck)
  show ?thesis
  proof (cases "sc_samples c'")
    case Nil
    with stuck assms have "idle c'" by (auto simp: idle_def)
    then have "pending n (c, is_ofifos st) = ([], fs)" using p pending_idle by simp
    with True Nil show ?thesis by (simp add: s i2s_output_8_def r ideal_output_8_def ideal_def)
  next
    case (Cons x xs)
    obtain ys gs where q: "pending n (c'\<lparr>sc_samples := xs\<rparr>, fs) = (ys, gs)" by force
    then have "pending n (c', fs) = (x # ys, gs)" using Cons by (auto simp: pending_def Let_def split: prod.splits)
    then have e: "pending n (c, is_ofifos st) = (x # ys, gs)" using p by simp
    from True Cons q show ?thesis
      by (simp add: s i2s_output_8_def r ideal_output_8_def ideal_def e i2s_act_ofifos)
  qed
qed (simp add: i2s_output_8_def ideal_output_8_def ideal_def split: prod.split)

lemma steps_refine:
  assumes "0 < cap"
  shows "map_option (ideal n) (i2s_steps_8 cap ni n b a ts din j ks s) = ideal_steps_8 ni n b a ts din j ks (ideal n s)"
proof (induction ks arbitrary: s)
  case (Cons k ks)
  obtain c st where s: "s = (c, st)" by force
  let ?st = "i2s_input ni a ts din j k (i2s_act (Bclk b) st)"
  have e: "ideal n (c, ?st) = (fst (ideal n s), i2s_input ni a ts din j k (i2s_act (Bclk b) (snd (ideal n s))))"
    by (simp add: s ideal_def i2s_input_ofifos i2s_act_ofifos)
  note o = output_refines [OF assms, of n k "(c, ?st)", unfolded e]
  show ?case
  proof (cases "i2s_output_8 cap n k (c, ?st)")
    case None
    then show ?thesis using o by (cases "ideal n s") (simp add: s)
  next
    case (Some s')
    obtain ch sti where i: "ideal n s = (ch, sti)" by force
    have "ideal_output_8 n k (ch, i2s_input ni a ts din j k (i2s_act (Bclk b) sti)) = Some (ideal n s')"
      using o Some i by simp
    then show ?thesis using Some Cons.IH [of s'] i by (simp add: s)
  qed
qed simp

lemma timestamp_refines:
  assumes "i2s_timestamp_8 cap n ts s = Some s'"
  shows "ideal n s' = (let (ch, st) = ideal n s;
      (samples, fs) = (if n > 0 then media_output_fifo_to_xc_channel_split_lr n ts (is_ofifos st) else ([], is_ofifos st))
    in (ch @ samples, st\<lparr>is_ofifos := fs\<rparr>))"
proof (cases "n > 0")
  case True
  obtain c st where s: "s = (c, st)" by force
  obtain c' fs where r: "split_lr_run cap n (c, is_ofifos st) = (c', fs)" by force
  have p: "pending n (c', fs) = pending n (c, is_ofifos st)"
    using split_lr_run_pending [of n cap "(c, is_ofifos st)"] by (simp add: r)
  have s': "s' = (c'\<lparr>sc_timestamps := sc_timestamps c' @ [ts]\<rparr>, st\<lparr>is_ofifos := fs\<rparr>)"
    using assms True by (simp add: s i2s_timestamp_8_def r split: if_splits)
  have "pending n (c'\<lparr>sc_timestamps := sc_timestamps c' @ [ts]\<rparr>, fs) =
      (let (ch, fs1) = pending n (c', fs); (samples, fs2) = media_output_fifo_to_xc_channel_split_lr n ts fs1 in (ch @ samples, fs2))"
    by (simp add: pending_def pull_rounds_snoc Let_def split: prod.splits)
  with True show ?thesis unfolding p by (simp add: s s' ideal_def Let_def split: prod.splits)
next
  case False
  then show ?thesis using assms by (auto simp: i2s_timestamp_8_def ideal_def split: prod.splits)
qed

lemma period_refines:
  assumes "0 < cap" "i2s_timestamp_8 cap n ts s = Some s'"
  shows "map_option (ideal n) (i2s_period_8 cap r b ni n ts din s) = ideal_period_8 r b ni n ts din (ideal n s)"
proof -
  obtain c st where s': "s' = (c, st)" by force
  obtain xs fs where sm: "(if n > 0 then media_output_fifo_to_xc_channel_split_lr n ts (is_ofifos (snd (ideal n s)))
      else ([], is_ofifos (snd (ideal n s)))) = (xs, fs)" by force
  have i: "ideal n (c, st) = (fst (ideal n s) @ xs, (snd (ideal n s))\<lparr>is_ofifos := fs\<rparr>)"
    using timestamp_refines [OF assms(2)] sm by (simp add: s' case_prod_unfold Let_def)
  have lr: "ideal n (c, i2s_lrclk st) = (fst (ideal n (c, st)), i2s_lrclk (snd (ideal n (c, st))))" for c st
    by (simp add: ideal_def)
  have en: "ideal n (c, st\<lparr>is_enable := e\<rparr>) = (fst (ideal n (c, st)), (snd (ideal n (c, st)))\<lparr>is_enable := e\<rparr>)" for c st e
    by (simp add: ideal_def)
  have ens: "is_enable (snd (ideal n s)) = is_enable (snd s)" for s by (simp add: ideal_def split: prod.split)
  let ?a = "media_input_fifo_enable_req_state (is_enable (snd s))"
  note st1 = steps_refine [OF assms(1), of n ni b ?a ts din 0 "[0..<r]" "(c, i2s_lrclk st)", unfolded lr i fst_conv snd_conv]
  show ?thesis
  proof (cases "i2s_steps_8 cap ni n b ?a ts din 0 [0..<r] (c, i2s_lrclk st)")
    case None
    then show ?thesis using st1 sm
      by (simp add: i2s_period_8_def ideal_period_8_def assms(2) s' ens case_prod_unfold Let_def)
  next
    case (Some s1)
    obtain c1 st1' where s1: "s1 = (c1, st1')" by force
    have e1: "ideal_steps_8 ni n b ?a ts din 0 [0..<r] (fst (ideal n s) @ xs, i2s_lrclk ((snd (ideal n s))\<lparr>is_ofifos := fs\<rparr>)) =
        Some (ideal n (c1, st1'))" using st1 Some s1 by simp
    note st2 = steps_refine [OF assms(1), of n ni b ?a ts din 1 "[0..<r]" "(c1, i2s_lrclk st1')", unfolded lr]
    show ?thesis
    proof (cases "i2s_steps_8 cap ni n b ?a ts din 1 [0..<r] (c1, i2s_lrclk st1')")
      case None
      then show ?thesis using st2 e1 sm Some s1
        by (simp add: i2s_period_8_def ideal_period_8_def assms(2) s' ens case_prod_unfold Let_def)
    next
      case (Some s2)
      obtain c2 st2' where s2: "s2 = (c2, st2')" by force
      have "ideal_steps_8 ni n b ?a ts din 1 [0..<r] (fst (ideal n (c1, st1')), i2s_lrclk (snd (ideal n (c1, st1')))) =
          Some (ideal n (c2, st2'))" using st2 Some s2 by simp
      then show ?thesis using e1 sm Some s1 s2 \<open>i2s_steps_8 cap ni n b ?a ts din 0 [0..<r] (c, i2s_lrclk st) = Some s1\<close>
        by (simp add: i2s_period_8_def ideal_period_8_def assms(2) s' ens [of s] ens [of "(c2, st2')", simplified] en case_prod_unfold Let_def)
    qed
  qed
qed

lemma timestamp_idle:
  assumes "0 < cap" "idle c"
  shows "\<exists>s'. i2s_timestamp_8 cap n ts (c, st) = Some s'"
proof -
  have "split_lr_step cap n (c, fs) = None" for fs using assms(2) by (simp add: split_lr_step_def idle_def)
  then have "split_lr_run cap n (c, fs) = (c, fs)" for fs by (simp add: split_lr_run.simps)
  then show ?thesis using assms by (simp add: i2s_timestamp_8_def idle_def)
qed

lemma steps_no_outputs: "\<exists>st'. i2s_steps_8 cap ni 0 b a ts din j ks (c, st) = Some (c, st')"
  by (induction ks arbitrary: st) (simp_all add: i2s_output_8_def)

lemma period_agrees:
  assumes "0 < cap" "even no" "no div 2 \<le> r" "idle c"
  shows "\<exists>c'. idle c' \<and> i2s_period_8 cap r b ni no ts din (c, st) = Some (c', i2s_period_4 r b ni no ts din st)"
proof -
  obtain s' where t: "i2s_timestamp_8 cap no ts (c, st) = Some s'" using timestamp_idle [OF assms(1,4)] by blast
  have "map_option (ideal no) (i2s_period_8 cap r b ni no ts din (c, st)) = Some ([], i2s_period_4 r b ni no ts din st)"
    using period_refines [OF assms(1) t, of r b ni din] i2s_period_agree [OF assms(2,3)] by (simp add: ideal_idle [OF assms(4)])
  then obtain c' st' where p: "i2s_period_8 cap r b ni no ts din (c, st) = Some (c', st')"
    "ideal no (c', st') = ([], i2s_period_4 r b ni no ts din st)" by auto
  have "idle c'"
  proof (cases "no = 0")
    case False
    then show ?thesis using p(2) idle_pending [of no c' "is_ofifos st'"]
      by (auto simp: ideal_def prod_eq_iff)
  next
    case True
    let ?a = "media_input_fifo_enable_req_state (is_enable st)"
    obtain u where u: "i2s_steps_8 cap ni no b ?a ts din 0 [0..<r] (c, i2s_lrclk st) = Some (c, u)"
      using steps_no_outputs True by blast
    obtain w where w: "i2s_steps_8 cap ni no b ?a ts din 1 [0..<r] (c, i2s_lrclk u) = Some (c, w)"
      using steps_no_outputs True by blast
    show ?thesis using p(1) u w True assms(4) by (simp add: i2s_period_8_def i2s_timestamp_8_def)
  qed
  with p ideal_idle show ?thesis by (auto simp: ideal_idle)
qed

section \<open>Too few words for the outputs\<close>

text \<open>The channel never holds more than it can.\<close>

definition chan_ok :: "nat \<Rightarrow> nat \<Rightarrow> sample_chan \<Rightarrow> bool" where
  "chan_ok cap n c \<longleftrightarrow> length (sc_timestamps c) \<le> cap \<and> length (sc_samples c) \<le> cap \<and> length (sc_todo c) \<le> n"

lemma chan_ok_run: "chan_ok cap n (fst s) \<Longrightarrow> chan_ok cap n (fst (split_lr_run cap n s))"
proof (induction cap n s rule: split_lr_run.induct)
  case (1 cap n s)
  show ?case
  proof (cases "split_lr_step cap n s")
    case (Some s')
    then have "chan_ok cap n (fst s')" using 1(2)
      by (auto simp: split_lr_step_def chan_ok_def length_split_lr_order Let_def
          split: prod.splits option.splits list.splits if_splits)
    then show ?thesis using 1(1) [OF Some] Some by (simp add: split_lr_run.simps [of cap n s])
  qed (use 1(2) in \<open>simp add: split_lr_run.simps\<close>)
qed

lemma chan_ok_timestamp: "i2s_timestamp_8 cap n ts s = Some s' \<Longrightarrow> chan_ok cap n (fst s) \<Longrightarrow> chan_ok cap n (fst s')"
  using chan_ok_run [of cap n "(fst s, is_ofifos (snd s))"]
  by (auto simp: i2s_timestamp_8_def chan_ok_def split: prod.splits if_splits)

lemma chan_ok_steps:
  "i2s_steps_8 cap ni n b a ts din j ks s = Some s' \<Longrightarrow> chan_ok cap n (fst s) \<Longrightarrow> chan_ok cap n (fst s')"
proof (induction ks arbitrary: s)
  case (Cons k ks)
  obtain c st where s: "s = (c, st)" by force
  let ?st = "i2s_input ni a ts din j k (i2s_act (Bclk b) st)"
  from Cons.prems(1) s obtain s1 where s1: "i2s_output_8 cap n k (c, ?st) = Some s1"
    "i2s_steps_8 cap ni n b a ts din j ks s1 = Some s'" by (auto split: option.splits)
  have "chan_ok cap n (fst s1)"
    using s1(1) Cons.prems(2) chan_ok_run [of cap n "(c, is_ofifos ?st)"]
    by (auto simp: s i2s_output_8_def chan_ok_def split: prod.splits if_splits list.splits)
  then show ?case by (rule Cons.IH [OF s1(2)])
qed simp

lemma chan_ok_period:
  assumes "i2s_period_8 cap r b ni n ts din s = Some s'" "chan_ok cap n (fst s)"
  shows "chan_ok cap n (fst s')"
proof -
  let ?a = "media_input_fifo_enable_req_state (is_enable (snd s))"
  obtain c1 s1 where t: "i2s_timestamp_8 cap n ts s = Some (c1, s1)"
    using assms(1) by (cases "i2s_timestamp_8 cap n ts s") (auto simp: i2s_period_8_def)
  obtain c2 s2 where 1: "i2s_steps_8 cap ni n b ?a ts din 0 [0..<r] (c1, i2s_lrclk s1) = Some (c2, s2)"
    using assms(1) t by (cases "i2s_steps_8 cap ni n b ?a ts din 0 [0..<r] (c1, i2s_lrclk s1)") (auto simp: i2s_period_8_def Let_def)
  obtain c3 s3 where 2: "i2s_steps_8 cap ni n b ?a ts din 1 [0..<r] (c2, i2s_lrclk s2) = Some (c3, s3)"
    using assms(1) t 1 by (cases "i2s_steps_8 cap ni n b ?a ts din 1 [0..<r] (c2, i2s_lrclk s2)") (auto simp: i2s_period_8_def Let_def)
  have "fst s' = c3" using assms(1) t 1 2 by (auto simp: i2s_period_8_def Let_def)
  then show ?thesis
    using chan_ok_timestamp [OF t assms(2)] chan_ok_steps [OF 1] chan_ok_steps [OF 2] by simp
qed

lemma chan_ok_pending:
  assumes "chan_ok cap n c"
  shows "length (fst (ideal n (c, st))) \<le> (cap + 1) * (n + 1)"
proof -
  obtain xs fs1 where p: "pull_channels (sc_timestamp c) (sc_todo c) (is_ofifos st) = (xs, fs1)" by force
  have l: "length xs \<le> n" using assms pull_channels_length [of "sc_timestamp c" "sc_todo c" "is_ofifos st"]
    by (simp add: p chan_ok_def)
  have "length (fst (pull_rounds n ts fs)) = length ts * n" for ts fs
    by (induction ts arbitrary: fs)
      (simp_all add: case_prod_unfold Let_def media_output_fifo_to_xc_channel_split_lr_def pull_channels_length length_split_lr_order)
  then have "length (fst (pull_rounds n (sc_timestamps c) fs1)) \<le> cap * n" using assms by (simp add: chan_ok_def)
  moreover obtain ys fs2 where q: "pull_rounds n (sc_timestamps c) fs1 = (ys, fs2)" by force
  ultimately have "length ys \<le> cap * n" by simp
  then show ?thesis using assms l
    by (cases "sc_held c") (simp_all add: ideal_def pending_def p q chan_ok_def algebra_simps)
qed

lemma period_backlog:
  assumes "0 < cap" "even no" "i2s_period_8 cap r b ni no ts din s = Some s'"
  shows "length (fst (ideal no s')) = length (fst (ideal no s)) + (no - 2 * min r (no div 2))"
proof -
  obtain u where "i2s_timestamp_8 cap no ts s = Some u"
    using assms(3) by (cases "i2s_timestamp_8 cap no ts s") (simp_all add: i2s_period_8_def)
  from period_refines [OF assms(1) this, of r b ni din] assms(3)
  have "ideal_period_8 r b ni no ts din (ideal no s) = Some (ideal no s')" by simp
  with i2s_period_backlog [OF assms(2), of r b ni ts din "fst (ideal no s)" "snd (ideal no s)"] show ?thesis by auto
qed

lemma periods_backlog:
  assumes "0 < cap" "even no"
  shows "i2s_periods (i2s_period_8 cap r b ni no) ps s = Some s' \<Longrightarrow> chan_ok cap no (fst s) \<Longrightarrow>
    length (fst (ideal no s)) + length ps * (no - 2 * min r (no div 2)) \<le> (cap + 1) * (no + 1)"
proof (induction ps arbitrary: s)
  case Nil
  then show ?case using chan_ok_pending [of cap no "fst s" "snd s"] by simp
next
  case (Cons p ps)
  obtain ts din where p: "p = (ts, din)" by force
  from Cons.prems(1) p obtain s1 where s1: "i2s_period_8 cap r b ni no ts din s = Some s1"
    "i2s_periods (i2s_period_8 cap r b ni no) ps s1 = Some s'" by (auto split: option.splits)
  obtain d where d: "d = no - 2 * min r (no div 2)" by simp
  show ?case
    using Cons.IH [OF s1(2) chan_ok_period [OF s1(1) Cons.prems(2)], folded d] period_backlog [OF assms s1(1), folded d]
    unfolding d [symmetric] by simp
qed

text \<open>
  C34. The master for eight channels, to which another thread sends the samples over a streaming channel that holds \<open>cap\<close>
  words in each direction, at least one, does exactly what the one for four does that pulls them itself: the same words
  on the same ports in the same order, and the same FIFOs, for any number of sample periods, without ever waiting for
  the other thread in vain. This needs an even number of outputs and as many bit clock words as output ports. With fewer
  words (128 master clocks a word and more than four outputs) a period takes fewer samples than it asks for: the
  channel fills up and after at most \<open>(cap + 1) * (num_out + 1)\<close> periods both threads wait for each other for ever.
\<close>
theorem i2s_masters_agree:
  assumes "even num_out" "0 < cap" and R: "R = mclk_to_bclk_ratio ratio"
  shows "(num_out div 2 \<le> R \<longrightarrow>
      i2s_master_upto_8 cap num_in num_out ratio ps st = i2s_master_upto_4 num_in num_out ratio ps st) \<and>
    (R < num_out div 2 \<and> bclk_val R \<noteq> None \<and> (cap + 1) * (num_out + 1) < length ps \<longrightarrow>
      i2s_master_upto_8 cap num_in num_out ratio ps st = None)"
proof -
  have agree: "map_option snd (i2s_periods (i2s_period_8 cap r b num_in num_out) ps (c, st)) =
      i2s_periods (\<lambda>ts din st. Some (i2s_period_4 r b num_in num_out ts din st)) ps st"
    if "num_out div 2 \<le> r" "idle c" for r b ps c st
    using that(2)
  proof (induction ps arbitrary: c st)
    case (Cons p ps)
    obtain ts din where p: "p = (ts, din)" by force
    from period_agrees [OF assms(2,1) that(1) Cons.prems, of b num_in ts din st] Cons.IH show ?case by (auto simp: p)
  qed simp
  have start: "idle empty_chan" "chan_ok cap num_out (fst (empty_chan, s))" for s :: i2s_st
    by (simp_all add: idle_def empty_chan_def chan_ok_def)
  have full: "i2s_periods (i2s_period_8 cap R b num_in num_out) ps (empty_chan, s) = None"
    if "R < num_out div 2" "(cap + 1) * (num_out + 1) < length ps" for b s
  proof (rule ccontr)
    assume "i2s_periods (i2s_period_8 cap R b num_in num_out) ps (empty_chan, s) \<noteq> None"
    then obtain s' where s': "i2s_periods (i2s_period_8 cap R b num_in num_out) ps (empty_chan, s) = Some s'" by blast
    have "1 \<le> num_out - 2 * min R (num_out div 2)" using that(1) by simp
    then have "length ps \<le> length ps * (num_out - 2 * min R (num_out div 2))" by simp
    with periods_backlog [OF assms(2,1) s' start(2)] that(2) show False by linarith
  qed
  show ?thesis using agree [OF _ start(1)] full
    by (auto simp: R [symmetric] i2s_master_upto_8_def i2s_master_upto_4_def Let_def split: option.split)
qed

text \<open>Two channels at 48 kHz with a master clock of 24.576 MHz, the inputs wired to the outputs.\<close>

definition i2s_example_ififo :: ififo_t where
  "i2s_example_ififo = snd (media_input_fifo_enable 0 48000
     \<lparr>if_wrIndex = 0, if_rdIndex = None, if_startIndex = 0, if_packetSize = - 1, if_sampleCountInPacket = - 1,
      if_dbc = 0, if_fifoEnd = 0, if_ptr = 0, if_buf = replicate 64 0\<rparr>)"

definition i2s_example_ofifo :: "u32 \<Rightarrow> ofifo_t" where
  "i2s_example_ofifo x = \<lparr>of_zero_flag = False, of_dptr = 0, of_wrptr = 1, of_marker = None, of_local_ts = 0, of_ptp_ts = 0,
     of_sample_count = 0, of_zero_marker = 0, of_state = LOCKED, of_last_notification_time = 0, of_media_clock = 0,
     of_pending_init_notification = False, of_volume = MAX_VOLUME, of_fifo = [x, 0, 0, 0]\<rparr>"

definition i2s_example :: i2s_st where
  "i2s_example = \<lparr>is_ififos = [i2s_example_ififo, i2s_example_ififo], is_ofifos = [i2s_example_ofifo 0x123456, i2s_example_ofifo 0xABCDEF],
     is_enable = \<lparr>en_lock = True, en_request_state = 3, en_indication_state = 0\<rparr>, is_lrclk_val = 0xFFFFFFFF, is_trace = []\<rparr>"

theorem i2s_masters_agree_witness:
  "i2s_master_upto_8 1 2 2 512 [(5, \<lambda>j k. 7)] i2s_example = i2s_master_upto_4 2 2 512 [(5, \<lambda>j k. 7)] i2s_example"
proof -
  have "even (2 :: nat)" "(2 :: nat) div 2 \<le> mclk_to_bclk_ratio 512" by (simp_all add: mclk_to_bclk_ratio_def)
  with i2s_masters_agree [OF this(1) zero_less_one refl, of 512 2 "[(5, \<lambda>j k. 7)]" i2s_example] show ?thesis by blast
qed

section \<open>A sample period\<close>

lemma bit_bitrev: "bit (bitrev x) i \<longleftrightarrow> i < 32 \<and> bit x (31 - i)"
proof (cases "i < 32")
  case True
  then show ?thesis by (simp add: bitrev_def bit_horner_sum_bit_word_iff rev_nth)
next
  case False
  then show ?thesis by (simp add: bitrev_def bit_horner_sum_bit_word_iff)
qed

lemma bit_wire: "bit (bitrev (push_bit 8 x)) i \<longleftrightarrow> i < 24 \<and> bit x (23 - i)"
  unfolding bit_bitrev by (cases "i < 32") (auto simp: bit_push_bit_iff)

lemma loopback_word: "drop_bit 8 (bitrev (bitrev (push_bit 8 x))) = x AND 0xffffff"
proof -
  have m: "(0xffffff :: u32) = mask 24" by (simp add: mask_eq_exp_minus_1)
  show ?thesis
    unfolding m take_bit_eq_mask [symmetric]
    by (intro bit_word_eqI) (auto simp: bit_drop_bit_eq bit_bitrev bit_push_bit_iff bit_take_bit_iff)
qed

lemma i2s_steps_4_append:
  "i2s_steps_4 ni no b a ts din j (ks @ ls) st = i2s_steps_4 ni no b a ts din j ls (i2s_steps_4 ni no b a ts din j ks st)"
  by (induction ks arbitrary: st) simp_all

text \<open>What a step does with the input FIFO, and the words of one half of the word clock.\<close>

definition fed_fifo :: "u32 \<Rightarrow> u32 \<Rightarrow> nat \<Rightarrow> u32 \<Rightarrow> ififo_t \<Rightarrow> ififo_t" where
  "fed_fifo a ts n w f =
     (if a AND push_bit n 1 \<noteq> 0 then media_input_fifo_push_sample (drop_bit 8 (bitrev w)) ts f else media_input_fifo_flush f)"

definition half_words :: "nat \<Rightarrow> u32 \<Rightarrow> u32 \<Rightarrow> nat \<Rightarrow> nat \<Rightarrow> ofifo_t list \<Rightarrow> i2s_action list" where
  "half_words no b ts j m fs = concat (map (\<lambda>k. Bclk b # (if k < no div 2
     then [Dout k (bitrev (push_bit 8 (fst (media_output_fifo_pull_sample ts (fs ! (j + k * 2))))))] else [])) [0..<m])"

lemma channel_index: "j < 2 \<Longrightarrow> n = j + k * 2 \<longleftrightarrow> n mod 2 = j \<and> n div 2 = k" for n j k :: nat
  by auto

lemma i2s_half:
  assumes j: "j < 2" and no: "no \<le> length (is_ofifos st)" and ni: "ni \<le> length (is_ififos st)"
    and st': "st' = i2s_steps_4 ni no b a ts din j [0..<m] st"
  shows "is_trace st' = is_trace st @ half_words no b ts j m (is_ofifos st) \<and>
    is_enable st' = is_enable st \<and> is_lrclk_val st' = is_lrclk_val st \<and>
    length (is_ofifos st') = length (is_ofifos st) \<and> length (is_ififos st') = length (is_ififos st) \<and>
    (\<forall>n. is_ofifos st' ! n = (if n mod 2 = j \<and> n div 2 < min m (no div 2)
        then snd (media_output_fifo_pull_sample ts (is_ofifos st ! n)) else is_ofifos st ! n)) \<and>
    (\<forall>n. is_ififos st' ! n = (if n mod 2 = j \<and> n div 2 < min m (ni div 2)
        then fed_fifo a ts n (din j (n div 2)) (is_ififos st ! n) else is_ififos st ! n))"
  unfolding st'
proof (induction m)
  case (Suc m)
  let ?s = "i2s_steps_4 ni no b a ts din j [0..<m] st"
  let ?t = "i2s_input ni a ts din j m (i2s_act (Bclk b) ?s)" and ?n = "j + m * 2"
  have step: "i2s_steps_4 ni no b a ts din j [0..<Suc m] st = i2s_output_4 no ts j m ?t"
    by (simp add: i2s_steps_4_append)
  have dn: "?n mod 2 = j" "?n div 2 = m" using j by auto
  have i: "is_ififos ?t = (if m < ni div 2 then (is_ififos ?s)[?n := fed_fifo a ts ?n (din j m) (is_ififos st ! ?n)] else is_ififos ?s)"
    using Suc.IH dn by (simp add: i2s_input_def Let_def fed_fifo_def)
  have o: "i2s_output_4 no ts j m ?t = (if m < no div 2
      then i2s_act (Dout m (bitrev (push_bit 8 (fst (media_output_fifo_pull_sample ts (is_ofifos st ! ?n))))))
             (?t\<lparr>is_ofifos := (is_ofifos ?s)[?n := snd (media_output_fifo_pull_sample ts (is_ofifos st ! ?n))]\<rparr>) else ?t)"
    using Suc.IH dn by (simp add: i2s_output_4_def Let_def case_prod_beta)
  have bn: "m < no div 2 \<Longrightarrow> ?n < length (is_ofifos st)" "m < ni div 2 \<Longrightarrow> ?n < length (is_ififos st)"
    using j no ni by linarith+
  have idx: "n = ?n \<longleftrightarrow> n mod 2 = j \<and> n div 2 = m" for n by (rule channel_index [OF j])
  have of: "is_ofifos (i2s_output_4 no ts j m ?t) ! n = (if n mod 2 = j \<and> n div 2 < min (Suc m) (no div 2)
      then snd (media_output_fifo_pull_sample ts (is_ofifos st ! n)) else is_ofifos st ! n)" for n
    using Suc.IH bn(1) idx [of n] unfolding o by (auto simp: nth_list_update less_Suc_eq)
  have "is_ififos (i2s_output_4 no ts j m ?t) = is_ififos ?t" unfolding o by simp
  then have if': "is_ififos (i2s_output_4 no ts j m ?t) ! n = (if n mod 2 = j \<and> n div 2 < min (Suc m) (ni div 2)
      then fed_fifo a ts n (din j (n div 2)) (is_ififos st ! n) else is_ififos st ! n)" for n
    using Suc.IH bn(2) idx [of n] unfolding i by (auto simp: nth_list_update less_Suc_eq)
  have tr: "is_trace (i2s_output_4 no ts j m ?t) = is_trace st @ half_words no b ts j (Suc m) (is_ofifos st)"
    using Suc.IH unfolding o by (simp add: half_words_def)
  have rest: "is_enable (i2s_output_4 no ts j m ?t) = is_enable st" "is_lrclk_val (i2s_output_4 no ts j m ?t) = is_lrclk_val st"
    "length (is_ofifos (i2s_output_4 no ts j m ?t)) = length (is_ofifos st)"
    "length (is_ififos (i2s_output_4 no ts j m ?t)) = length (is_ififos st)"
    using Suc.IH unfolding o by (simp_all add: i)
  show ?case unfolding step using of if' tr rest by blast
qed (simp add: half_words_def)

lemma i2s_period:
  assumes no: "no \<le> length (is_ofifos st)" and ni: "ni \<le> length (is_ififos st)"
    and st': "st' = i2s_period_4 r b ni no ts din st" and a: "a = en_request_state (is_enable st)"
  shows "is_trace st' = is_trace st @ Lrclk (is_lrclk_val st) # half_words no b ts 0 r (is_ofifos st) @
      Lrclk (NOT (is_lrclk_val st)) # half_words no b ts 1 r (is_ofifos st)"
    and "is_lrclk_val st' = is_lrclk_val st"
    and "is_enable st' = media_input_fifo_update_enable_ind_state a 0xFFFFFFFF (is_enable st)"
    and "is_ofifos st' ! n = (if n div 2 < min r (no div 2)
        then snd (media_output_fifo_pull_sample ts (is_ofifos st ! n)) else is_ofifos st ! n)"
    and "is_ififos st' ! n = (if n div 2 < min r (ni div 2)
        then fed_fifo a ts n (din (n mod 2) (n div 2)) (is_ififos st ! n) else is_ififos st ! n)"
    and "length (is_ofifos st') = length (is_ofifos st) \<and> length (is_ififos st') = length (is_ififos st)"
proof -
  let ?s0 = "i2s_lrclk st"
  obtain s1 where s1: "s1 = i2s_steps_4 ni no b a ts din 0 [0..<r] ?s0" by simp
  obtain s2 where s2: "s2 = i2s_steps_4 ni no b a ts din 1 [0..<r] (i2s_lrclk s1)" by simp
  have st: "st' = s2\<lparr>is_enable := media_input_fifo_update_enable_ind_state a 0xFFFFFFFF (is_enable s2)\<rparr>"
    unfolding st' i2s_period_4_def Let_def s2 s1 a media_input_fifo_enable_req_state_def by simp
  have h1: "no \<le> length (is_ofifos ?s0)" "ni \<le> length (is_ififos ?s0)" using no ni by simp_all
  note H1 = i2s_half [OF _ h1 s1, simplified]
  have h2: "no \<le> length (is_ofifos (i2s_lrclk s1))" "ni \<le> length (is_ififos (i2s_lrclk s1))" using no ni H1 by simp_all
  note H2 = i2s_half [OF _ h2 s2, simplified]
  have w: "half_words no b ts 1 r (is_ofifos s1) = half_words no b ts 1 r (is_ofifos st)"
    unfolding half_words_def using H1 by (intro arg_cong [of _ _ concat] map_cong) auto
  have m: "n mod 2 = 0 \<or> n mod 2 = 1" for n :: nat by auto
  show "is_trace st' = is_trace st @ Lrclk (is_lrclk_val st) # half_words no b ts 0 r (is_ofifos st) @
      Lrclk (NOT (is_lrclk_val st)) # half_words no b ts 1 r (is_ofifos st)"
    using H1 H2 w by (simp add: st)
  show "is_lrclk_val st' = is_lrclk_val st"
    "is_enable st' = media_input_fifo_update_enable_ind_state a 0xFFFFFFFF (is_enable st)"
    "length (is_ofifos st') = length (is_ofifos st) \<and> length (is_ififos st') = length (is_ififos st)"
    using H1 H2 by (simp_all add: st)
  show "is_ofifos st' ! n = (if n div 2 < min r (no div 2)
        then snd (media_output_fifo_pull_sample ts (is_ofifos st ! n)) else is_ofifos st ! n)"
    using H1 H2 m [of n] by (auto simp: st)
  show "is_ififos st' ! n = (if n div 2 < min r (ni div 2)
        then fed_fifo a ts n (din (n mod 2) (n div 2)) (is_ififos st ! n) else is_ififos st ! n)"
    using H1 H2 m [of n] by (auto simp: st)
qed

text \<open>What is seen on the bit clock and on the port of a codec.\<close>

definition bit_clock :: "i2s_action list \<Rightarrow> bool list" where
  "bit_clock tr = concat (map (\<lambda>x. case x of Bclk w \<Rightarrow> map (bit w) [0..<32] | _ \<Rightarrow> []) tr)"

definition port_words :: "nat \<Rightarrow> i2s_action list \<Rightarrow> u32 list" where
  "port_words k tr = concat (map (\<lambda>x. case x of Dout i w \<Rightarrow> if i = k then [w] else [] | _ \<Rightarrow> []) tr)"

lemma bit_clock_append: "bit_clock (xs @ ys) = bit_clock xs @ bit_clock ys"
  by (simp add: bit_clock_def)

lemma port_words_append: "port_words k (xs @ ys) = port_words k xs @ port_words k ys"
  by (simp add: port_words_def)

lemma half_words_Suc: "half_words no b ts j (Suc m) fs = half_words no b ts j m fs @ Bclk b # (if m < no div 2
     then [Dout m (bitrev (push_bit 8 (fst (media_output_fifo_pull_sample ts (fs ! (j + m * 2))))))] else [])"
  by (simp add: half_words_def)

lemma half_words_clock: "bit_clock (half_words no b ts j m fs) = concat (replicate m (map (bit b) [0..<32]))"
proof (induction m)
  case (Suc m)
  have "bit_clock (half_words no b ts j (Suc m) fs) = concat (replicate m (map (bit b) [0..<32])) @ map (bit b) [0..<32]"
    unfolding half_words_Suc bit_clock_append Suc.IH by (simp add: bit_clock_def)
  also have "\<dots> = concat (replicate (Suc m) (map (bit b) [0..<32]))"
    unfolding replicate_append_same [symmetric] replicate.simps by (induction m) simp_all
  finally show ?case .
qed (simp add: half_words_def bit_clock_def)

lemma half_words_port: "port_words k (half_words no b ts j m fs) = (if k < min m (no div 2)
    then [bitrev (push_bit 8 (fst (media_output_fifo_pull_sample ts (fs ! (j + k * 2)))))] else [])"
proof (induction m)
  case (Suc m)
  then show ?case unfolding half_words_Suc port_words_append by (auto simp: port_words_def less_Suc_eq)
qed (simp add: half_words_def port_words_def)

lemma square_wave_2:
  "concat (replicate 2 (map (bit (0xaaaaaaaa :: u32)) [0..<32])) @ concat (replicate 2 (map (bit (0xaaaaaaaa :: u32)) [0..<32])) =
     map (\<lambda>t. 2 div 2 \<le> t mod 2) [0..<64 * 2 :: nat]"
  by code_simp

lemma square_wave_4:
  "concat (replicate 4 (map (bit (0xcccccccc :: u32)) [0..<32])) @ concat (replicate 4 (map (bit (0xcccccccc :: u32)) [0..<32])) =
     map (\<lambda>t. 4 div 2 \<le> t mod 4) [0..<64 * 4 :: nat]"
  by code_simp

lemma square_wave_8:
  "concat (replicate 8 (map (bit (0xf0f0f0f0 :: u32)) [0..<32])) @ concat (replicate 8 (map (bit (0xf0f0f0f0 :: u32)) [0..<32])) =
     map (\<lambda>t. 8 div 2 \<le> t mod 8) [0..<64 * 8 :: nat]"
  by code_simp

lemma bclk_val_cases:
  assumes "bclk_val r = Some b"
  obtains "r = 2" "b = 0xaaaaaaaa" | "r = 4" "b = 0xcccccccc" | "r = 8" "b = 0xf0f0f0f0"
  using assms by (auto simp: bclk_val_def split: if_splits)

lemma square_wave:
  assumes "bclk_val r = Some b"
  shows "concat (replicate r (map (bit b) [0..<32])) @ concat (replicate r (map (bit b) [0..<32])) =
     map (\<lambda>t. r div 2 \<le> t mod r) [0..<64 * r]"
  using assms by (cases rule: bclk_val_cases) (simp_all only: square_wave_2 square_wave_4 square_wave_8)

text \<open>
  C35. One sample period of the I2S master. The bit clock is a square wave of 64 periods, whatever the ratio of the
  clocks, and the word clock is high for one half and low for the other. Every served output port sends a word in
  each half: a bit a clock, the 24 bits of the sample of its left or right channel from the highest to the
  lowest and then eight zeros. Every output FIFO of a served channel gives exactly one sample.
\<close>
theorem i2s_sample_period:
  assumes "num_out \<le> length (is_ofifos st)" "num_in \<le> length (is_ififos st)"
    and b: "bclk_val ratio = Some bclk" and l: "is_lrclk_val st = 0xFFFFFFFF"
    and st': "st' = i2s_period_4 ratio bclk num_in num_out ts din st"
    and sample: "sample = (\<lambda>n. fst (media_output_fifo_pull_sample ts (is_ofifos st ! n)))"
  shows "\<exists>tr. is_trace st' = is_trace st @ tr \<and>
    bit_clock tr = map (\<lambda>t. ratio div 2 \<le> t mod ratio) [0..<64 * ratio] \<and>
    filter (\<lambda>x. case x of Lrclk w \<Rightarrow> True | _ \<Rightarrow> False) tr = [Lrclk 0xFFFFFFFF, Lrclk 0] \<and> is_lrclk_val st' = 0xFFFFFFFF \<and>
    (\<forall>k < min ratio (num_out div 2). \<exists>left right. port_words k tr = [left, right] \<and>
      (\<forall>i. bit left i = (i < 24 \<and> bit (sample (k * 2)) (23 - i)) \<and>
           bit right i = (i < 24 \<and> bit (sample (1 + k * 2)) (23 - i)))) \<and>
    (\<forall>n. is_ofifos st' ! n = (if n div 2 < min ratio (num_out div 2)
      then snd (media_output_fifo_pull_sample ts (is_ofifos st ! n)) else is_ofifos st ! n))"
proof -
  let ?w = "\<lambda>j. half_words num_out bclk ts j ratio (is_ofifos st)"
  let ?tr = "Lrclk 0xFFFFFFFF # ?w 0 @ Lrclk 0 # ?w 1" and ?lr = "\<lambda>x. case x of Lrclk w \<Rightarrow> True | _ \<Rightarrow> False"
  note P = i2s_period [OF assms(1,2) st' refl]
  have n0: "NOT 0xFFFFFFFF = (0 :: u32)" by simp
  have tr: "is_trace st' = is_trace st @ ?tr" and l': "is_lrclk_val st' = 0xFFFFFFFF"
    using P(1,2) unfolding l n0 by simp_all
  have "bit_clock ?tr = bit_clock (?w 0) @ bit_clock (?w 1)" by (simp add: bit_clock_def)
  then have c: "bit_clock ?tr = map (\<lambda>t. ratio div 2 \<le> t mod ratio) [0..<64 * ratio]"
    unfolding half_words_clock square_wave [OF b] .
  have "filter ?lr (?w j) = []" for j
    by (induction ratio) (simp_all add: half_words_def)
  then have f: "filter ?lr ?tr = [Lrclk 0xFFFFFFFF, Lrclk 0]" by simp
  have "port_words k ?tr = port_words k (?w 0) @ port_words k (?w 1)" for k by (simp add: port_words_def)
  then have p: "port_words k ?tr = [bitrev (push_bit 8 (sample (k * 2))), bitrev (push_bit 8 (sample (1 + k * 2)))]"
    if "k < min ratio (num_out div 2)" for k
    using that by (simp add: half_words_port sample)
  have q: "\<exists>left right. port_words k ?tr = [left, right] \<and>
      (\<forall>i. bit left i = (i < 24 \<and> bit (sample (k * 2)) (23 - i)) \<and> bit right i = (i < 24 \<and> bit (sample (1 + k * 2)) (23 - i)))"
    if "k < min ratio (num_out div 2)" for k
    using p [OF that] bit_wire by blast
  show ?thesis by (intro exI [of _ ?tr] conjI tr c f l' allI impI P(4) q)
qed

theorem i2s_sample_period_witness:
  "bit_clock (is_trace (i2s_period_4 8 0xf0f0f0f0 2 2 5 (\<lambda>j k. 7) i2s_example)) = map (\<lambda>t. 4 \<le> t mod 8) [0..<512]"
proof -
  have "2 \<le> length (is_ofifos i2s_example)" "2 \<le> length (is_ififos i2s_example)" "bclk_val 8 = Some 0xf0f0f0f0"
    "is_lrclk_val i2s_example = 0xFFFFFFFF" "is_trace i2s_example = []"
    by (simp_all add: i2s_example_def bclk_val_def)
  with i2s_sample_period [OF this(1-4) refl refl, of 5 "\<lambda>j k. 7"] show ?thesis by auto
qed

text \<open>
  Samples survive the wire. When the words that the codec ports give in a period are the ones written to them,
  every enabled input FIFO is given the low 24 bits of the sample its output FIFO gave, with the time of
  the period.
\<close>
theorem i2s_loopback:
  assumes "num_out \<le> length (is_ofifos st)" "num_in \<le> length (is_ififos st)"
    and st': "st' = i2s_period_4 ratio bclk num_in num_out ts din st"
    and loop: "\<And>k. k < min ratio (num_out div 2) \<Longrightarrow> \<exists>tr. is_trace st' = is_trace st @ tr \<and> port_words k tr = [din 0 k, din 1 k]"
    and n: "n div 2 < ratio" "n div 2 < num_out div 2" "n div 2 < num_in div 2"
    and enabled: "en_request_state (is_enable st) AND push_bit n 1 \<noteq> 0"
  shows "is_ififos st' ! n = media_input_fifo_push_sample
    (fst (media_output_fifo_pull_sample ts (is_ofifos st ! n)) AND 0xffffff) ts (is_ififos st ! n)"
proof -
  note P = i2s_period [OF assms(1,2) st' refl]
  let ?k = "n div 2"
  obtain tr where tr: "is_trace st' = is_trace st @ tr" and w: "port_words ?k tr = [din 0 ?k, din 1 ?k]"
    using loop [of ?k] n by auto
  have "port_words ?k tr = port_words ?k (half_words num_out bclk ts 0 ratio (is_ofifos st)) @
      port_words ?k (half_words num_out bclk ts 1 ratio (is_ofifos st))"
    using P(1) unfolding tr by (simp add: port_words_def)
  then have "din 0 ?k = bitrev (push_bit 8 (fst (media_output_fifo_pull_sample ts (is_ofifos st ! (0 + ?k * 2)))))"
    "din 1 ?k = bitrev (push_bit 8 (fst (media_output_fifo_pull_sample ts (is_ofifos st ! (1 + ?k * 2)))))"
    unfolding w using n by (simp_all add: half_words_port)
  moreover have "n mod 2 = 0 \<and> 0 + ?k * 2 = n \<or> n mod 2 = 1 \<and> 1 + ?k * 2 = n" by presburger
  ultimately have "din (n mod 2) ?k = bitrev (push_bit 8 (fst (media_output_fifo_pull_sample ts (is_ofifos st ! n))))"
    by metis
  then show ?thesis using P(5) [of n] n enabled by (simp add: fed_fifo_def loopback_word)
qed

theorem i2s_loopback_witness:
  "is_ififos (i2s_period_4 8 0xf0f0f0f0 2 2 5 (\<lambda>j k. if j = 0 then bitrev (push_bit 8 0x123456) else bitrev (push_bit 8 0xABCDEF)) i2s_example) ! 1 =
     media_input_fifo_push_sample 0xABCDEF 5 i2s_example_ififo"
proof -
  let ?din = "\<lambda>j k :: nat. if j = (0 :: nat) then bitrev (push_bit 8 0x123456) else bitrev (push_bit 8 0xABCDEF)"
  let ?s = "i2s_period_4 8 0xf0f0f0f0 2 2 5 ?din i2s_example"
  have l: "2 \<le> length (is_ofifos i2s_example)" "2 \<le> length (is_ififos i2s_example)" by (simp_all add: i2s_example_def)
  have p: "media_output_fifo_pull_sample 5 (i2s_example_ofifo x) = (x, (i2s_example_ofifo x)\<lparr>of_dptr := 1\<rparr>)" for x
    by (simp add: media_output_fifo_pull_sample_def i2s_example_ofifo_def fifo_next_def Let_def fifo_size_def)
  have t0: "is_trace i2s_example = []" and f: "is_ofifos i2s_example = [i2s_example_ofifo 0x123456, i2s_example_ofifo 0xABCDEF]"
    by (simp_all add: i2s_example_def)
  have "port_words 0 (is_trace ?s) = port_words 0 (half_words 2 0xf0f0f0f0 5 0 8 (is_ofifos i2s_example)) @
      port_words 0 (half_words 2 0xf0f0f0f0 5 1 8 (is_ofifos i2s_example))"
    by (simp add: i2s_period(1) [OF l refl refl] t0 port_words_def)
  then have "port_words 0 (is_trace ?s) = [?din 0 0, ?din 1 0]"
    by (simp only: half_words_port f) (simp add: p)
  with t0 have "k < min 8 (2 div 2) \<Longrightarrow> \<exists>tr. is_trace ?s = is_trace i2s_example @ tr \<and> port_words k tr = [?din 0 k, ?din 1 k]" for k
    by (cases "k = 0") auto
  from i2s_loopback [OF l refl this, of 1] show ?thesis
    by (simp add: i2s_example_def p)
qed

section \<open>The hand over of the input FIFOs\<close>

lemma indication_follows:
  assumes "en_lock e"
  shows "media_input_fifo_update_enable_ind_state (en_request_state e) 0xFFFFFFFF e = e\<lparr>en_indication_state := en_request_state e\<rparr>"
proof -
  have n: "NOT 0xFFFFFFFF = (0 :: u32)" by simp
  show ?thesis using assms unfolding media_input_fifo_update_enable_ind_state_def n by simp
qed

lemma fed_fifo_bit: "fed_fifo a ts n w f =
    (if bit a n then media_input_fifo_push_sample (drop_bit 8 (bitrev w)) ts f else media_input_fifo_flush f)"
  by (simp add: fed_fifo_def bit_iff_and_push_bit_not_eq_0)

lemma first_sample:
  assumes "f = media_input_fifo_push_sample x ts (media_input_fifo_flush g)" "3 \<le> length (if_buf g)"
  shows "take 3 (if_buf f) = [ts, 0, x]" and "if_rdIndex f = Some 0"
proof -
  have b: "if_buf (ififo_end_packet w c s) = if_buf s" "if_rdIndex (ififo_end_packet w c s) = if_rdIndex s" for w c s
    by (simp_all add: ififo_end_packet_def Let_def)
  from assms(2) obtain y1 y2 y3 ys where "if_buf g = y1 # y2 # y3 # ys" by (auto simp: numeral_3_eq_3 Suc_le_length_iff)
  then show "take 3 (if_buf f) = [ts, 0, x]" and "if_rdIndex f = Some 0"
    by (simp_all add: assms(1) media_input_fifo_push_sample_def media_input_fifo_flush_def b put_bytes_def)
qed

text \<open>
  C36. The hand over of input FIFOs between the talker and the audio thread. One sample period after the talker took
  back its request for the FIFOs of a mask, the indication says that they are off, and they are empty. One period
  after it requests them, the indication says that they are on, and all of them start with the sample of the
  same period: the first packets of a stream have the same timestamp and the data block count 0.
\<close>
theorem i2s_fifo_handover:
  assumes lock: "en_lock (is_enable st)"
    and sizes: "num_out \<le> length (is_ofifos st)" "num_in \<le> length (is_ififos st)" "3 \<le> length (if_buf (is_ififos st ! n))"
    and n: "n div 2 < ratio" "n div 2 < num_in div 2" "bit m n"
    and st1: "st1 = i2s_period_4 ratio bclk num_in num_out ts din_off
      (st\<lparr>is_enable := media_input_fifo_disable_fifos m (is_enable st)\<rparr>)"
    and st2: "st2 = i2s_period_4 ratio bclk num_in num_out ts_on din
      (st1\<lparr>is_enable := media_input_fifo_enable_fifos m (is_enable st1)\<rparr>)"
  shows "media_input_fifo_enable_ind_state (is_enable st1) AND m = 0 \<and> media_input_fifo_empty (is_ififos st1 ! n) \<and>
    media_input_fifo_enable_ind_state (is_enable st2) AND m = m \<and>
    take 3 (if_buf (is_ififos st2 ! n)) = [ts_on, 0, drop_bit 8 (bitrev (din (n mod 2) (n div 2)))] \<and>
    if_rdIndex (is_ififos st2 ! n) = Some 0"
proof -
  let ?s = "st\<lparr>is_enable := media_input_fifo_disable_fifos m (is_enable st)\<rparr>"
  let ?t = "st1\<lparr>is_enable := media_input_fifo_enable_fifos m (is_enable st1)\<rparr>"
  have d: "media_input_fifo_disable_fifos m (is_enable st) = (is_enable st)\<lparr>en_request_state := en_request_state (is_enable st) AND NOT m\<rparr>"
    using lock by (simp add: media_input_fifo_disable_fifos_def)
  have "num_out \<le> length (is_ofifos ?s)" "num_in \<le> length (is_ififos ?s)" using sizes by simp_all
  note P = i2s_period [OF this st1 refl]
  have e1: "is_enable st1 = (is_enable ?s)\<lparr>en_indication_state := en_request_state (is_enable ?s)\<rparr>"
    unfolding P(3) by (rule indication_follows) (simp add: d lock)
  have f1: "is_ififos st1 ! n = media_input_fifo_flush (is_ififos st ! n)"
    using P(5) [of n] n by (simp add: fed_fifo_bit d bit_and_iff bit_not_iff)
  have "num_out \<le> length (is_ofifos ?t)" "num_in \<le> length (is_ififos ?t)" using sizes P(6) by simp_all
  note Q = i2s_period [OF this st2 refl]
  have lk: "en_lock (media_input_fifo_enable_fifos x e) = en_lock e" for x e by (simp add: media_input_fifo_enable_fifos_def)
  have d2: "media_input_fifo_enable_fifos m (is_enable st1) = (is_enable st1)\<lparr>en_request_state := en_request_state (is_enable st1) OR m\<rparr>"
    using lock by (simp add: media_input_fifo_enable_fifos_def e1 d)
  have e2: "is_enable st2 = (is_enable ?t)\<lparr>en_indication_state := en_request_state (is_enable ?t)\<rparr>"
    unfolding Q(3) by (rule indication_follows) (simp add: lk e1 d lock)
  have "is_ififos st2 ! n = media_input_fifo_push_sample (drop_bit 8 (bitrev (din (n mod 2) (n div 2)))) ts_on
      (media_input_fifo_flush (is_ififos st ! n))"
    using Q(5) [of n] n by (simp add: fed_fifo_bit d2 bit_or_iff f1)
  note F = first_sample [OF this sizes(3)]
  have i1: "media_input_fifo_enable_ind_state (is_enable st1) AND m = 0"
    by (simp add: media_input_fifo_enable_ind_state_def e1 d and.assoc)
  have i2: "media_input_fifo_enable_ind_state (is_enable st2) AND m = m"
    by (intro bit_word_eqI) (auto simp: media_input_fifo_enable_ind_state_def e2 d2 bit_and_iff bit_or_iff)
  have "media_input_fifo_empty (is_ififos st1 ! n)" unfolding f1 by (simp add: media_input_fifo_empty_def media_input_fifo_flush_def)
  with i1 i2 F show ?thesis by blast
qed

theorem i2s_fifo_handover_witness:
  "\<exists>st1 st2. media_input_fifo_enable_ind_state (is_enable st1) AND 3 = 0 \<and> media_input_fifo_empty (is_ififos st1 ! 1) \<and>
    st1 = i2s_period_4 8 0xf0f0f0f0 2 2 5 (\<lambda>j k. 7) (i2s_example\<lparr>is_enable := media_input_fifo_disable_fifos 3 (is_enable i2s_example)\<rparr>) \<and>
    st2 = i2s_period_4 8 0xf0f0f0f0 2 2 6 (\<lambda>j k. 7) (st1\<lparr>is_enable := media_input_fifo_enable_fifos 3 (is_enable st1)\<rparr>) \<and>
    hd (if_buf (is_ififos st2 ! 1)) = 6"
proof -
  have w: "en_lock (is_enable i2s_example)" "2 \<le> length (is_ofifos i2s_example)" "2 \<le> length (is_ififos i2s_example)"
    "3 \<le> length (if_buf (is_ififos i2s_example ! 1))"
    by (simp_all add: i2s_example_def i2s_example_ififo_def media_input_fifo_enable_def Let_def)
  have "bit (3 :: u32) 1" "(1 :: nat) div 2 < 8" "(1 :: nat) div 2 < 2 div 2" by simp_all
  note T = i2s_fifo_handover [OF w this(2,3,1) refl refl, where ts = 5 and ts_on = 6 and din_off = "\<lambda>j k. 7" and din = "\<lambda>j k. 7" and bclk = "0xf0f0f0f0"]
  have hd: "take 3 xs = [a, b, c] \<Longrightarrow> hd xs = a" for xs and a b c :: u32 by (cases xs) auto
  show ?thesis using T hd by blast
qed

end
