(* ===== verification/Avb_Api.thy ===== *)
theory Avb_Api
  imports Media_Clocks
begin

text \<open>
  The functions an application calls (\<open>avb_api.c\<close>), each a call of a get/set function with the flag for one of the two.
  A set function gives the state afterwards and a get function the value, \<open>None\<close> is the return value 0; \<open>a0\<close> of a
  get function is what the caller had in the variable.
\<close>

section \<open>Sources\<close>

definition set_avb_source_presentation :: "nat \<Rightarrow> int \<Rightarrow> avb_st \<Rightarrow> avb_st option" where
  "set_avb_source_presentation h0 a0 st = map_option snd (getset_avb_source_presentation True h0 a0 st)"

definition get_avb_source_presentation :: "nat \<Rightarrow> int \<Rightarrow> avb_st \<Rightarrow> int option" where
  "get_avb_source_presentation h0 a0 st = map_option fst (getset_avb_source_presentation False h0 a0 st)"

definition set_avb_source_map :: "nat \<Rightarrow> nat \<Rightarrow> int list \<times> nat \<Rightarrow> avb_st \<Rightarrow> avb_st option" where
  "set_avb_source_map max_channels h0 a0 st = map_option snd (getset_avb_source_map max_channels True h0 a0 st)"

definition get_avb_source_map :: "nat \<Rightarrow> nat \<Rightarrow> int list \<times> nat \<Rightarrow> avb_st \<Rightarrow> (int list \<times> nat) option" where
  "get_avb_source_map max_channels h0 a0 st = map_option fst (getset_avb_source_map max_channels False h0 a0 st)"

definition set_avb_source_dest :: "nat \<Rightarrow> u8 list \<times> nat \<Rightarrow> avb_st \<Rightarrow> avb_st option" where
  "set_avb_source_dest h0 a0 st = map_option snd (getset_avb_source_dest True h0 a0 st)"

definition get_avb_source_dest :: "nat \<Rightarrow> u8 list \<times> nat \<Rightarrow> avb_st \<Rightarrow> (u8 list \<times> nat) option" where
  "get_avb_source_dest h0 a0 st = map_option fst (getset_avb_source_dest False h0 a0 st)"

definition set_avb_source_format :: "nat \<Rightarrow> int \<times> int \<Rightarrow> avb_st \<Rightarrow> avb_st option" where
  "set_avb_source_format h0 a0 st = map_option snd (getset_avb_source_format True h0 a0 st)"

definition get_avb_source_format :: "nat \<Rightarrow> int \<times> int \<Rightarrow> avb_st \<Rightarrow> (int \<times> int) option" where
  "get_avb_source_format h0 a0 st = map_option fst (getset_avb_source_format False h0 a0 st)"

definition set_avb_source_channels :: "nat \<Rightarrow> int \<Rightarrow> avb_st \<Rightarrow> avb_st option" where
  "set_avb_source_channels h0 a0 st = map_option snd (getset_avb_source_channels True h0 a0 st)"

definition get_avb_source_channels :: "nat \<Rightarrow> int \<Rightarrow> avb_st \<Rightarrow> int option" where
  "get_avb_source_channels h0 a0 st = map_option fst (getset_avb_source_channels False h0 a0 st)"

definition set_avb_source_sync :: "nat \<Rightarrow> int \<Rightarrow> avb_st \<Rightarrow> avb_st option" where
  "set_avb_source_sync h0 a0 st = map_option snd (getset_avb_source_sync True h0 a0 st)"

definition get_avb_source_sync :: "nat \<Rightarrow> int \<Rightarrow> avb_st \<Rightarrow> int option" where
  "get_avb_source_sync h0 a0 st = map_option fst (getset_avb_source_sync False h0 a0 st)"

definition set_avb_source_vlan :: "nat \<Rightarrow> int \<Rightarrow> avb_st \<Rightarrow> avb_st option" where
  "set_avb_source_vlan h0 a0 st = map_option snd (getset_avb_source_vlan True h0 a0 st)"

definition get_avb_source_vlan :: "nat \<Rightarrow> int \<Rightarrow> avb_st \<Rightarrow> int option" where
  "get_avb_source_vlan h0 a0 st = map_option fst (getset_avb_source_vlan False h0 a0 st)"

definition get_avb_source_state :: "u32 \<Rightarrow> nat \<Rightarrow> avb_stream_state \<Rightarrow> avb_st \<Rightarrow> avb_stream_state option" where
  "get_avb_source_state now h0 a0 st = map_option fst (getset_avb_source_state now False h0 a0 st)"

section \<open>Sinks\<close>

definition set_avb_sink_format :: "nat \<Rightarrow> int \<times> int \<Rightarrow> avb_st \<Rightarrow> avb_st option" where
  "set_avb_sink_format h0 a0 st = map_option snd (getset_avb_sink_format True h0 a0 st)"

definition get_avb_sink_format :: "nat \<Rightarrow> int \<times> int \<Rightarrow> avb_st \<Rightarrow> (int \<times> int) option" where
  "get_avb_sink_format h0 a0 st = map_option fst (getset_avb_sink_format False h0 a0 st)"

definition set_avb_sink_channels :: "nat \<Rightarrow> int \<Rightarrow> avb_st \<Rightarrow> avb_st option" where
  "set_avb_sink_channels h0 a0 st = map_option snd (getset_avb_sink_channels True h0 a0 st)"

definition get_avb_sink_channels :: "nat \<Rightarrow> int \<Rightarrow> avb_st \<Rightarrow> int option" where
  "get_avb_sink_channels h0 a0 st = map_option fst (getset_avb_sink_channels False h0 a0 st)"

definition set_avb_sink_sync :: "nat \<Rightarrow> int \<Rightarrow> avb_st \<Rightarrow> avb_st option" where
  "set_avb_sink_sync h0 a0 st = map_option snd (getset_avb_sink_sync True h0 a0 st)"

definition get_avb_sink_sync :: "nat \<Rightarrow> int \<Rightarrow> avb_st \<Rightarrow> int option" where
  "get_avb_sink_sync h0 a0 st = map_option fst (getset_avb_sink_sync False h0 a0 st)"

definition set_avb_sink_vlan :: "nat \<Rightarrow> int \<Rightarrow> avb_st \<Rightarrow> avb_st option" where
  "set_avb_sink_vlan h0 a0 st = map_option snd (getset_avb_sink_vlan True h0 a0 st)"

definition get_avb_sink_vlan :: "nat \<Rightarrow> int \<Rightarrow> avb_st \<Rightarrow> int option" where
  "get_avb_sink_vlan h0 a0 st = map_option fst (getset_avb_sink_vlan False h0 a0 st)"

definition get_avb_sink_state :: "u32 \<Rightarrow> u32 \<Rightarrow> nat \<Rightarrow> avb_stream_state \<Rightarrow> avb_st \<Rightarrow> avb_stream_state option" where
  "get_avb_sink_state now router_link h0 a0 st = map_option fst (getset_avb_sink_state now router_link False h0 a0 st)"

definition set_avb_sink_map :: "nat \<Rightarrow> nat \<Rightarrow> int list \<times> nat \<Rightarrow> avb_st \<Rightarrow> avb_st option" where
  "set_avb_sink_map max_channels h0 a0 st = map_option snd (getset_avb_sink_map max_channels True h0 a0 st)"

definition get_avb_sink_map :: "nat \<Rightarrow> nat \<Rightarrow> int list \<times> nat \<Rightarrow> avb_st \<Rightarrow> (int list \<times> nat) option" where
  "get_avb_sink_map max_channels h0 a0 st = map_option fst (getset_avb_sink_map max_channels False h0 a0 st)"

definition set_avb_sink_id :: "nat \<Rightarrow> u32 \<times> u32 \<Rightarrow> avb_st \<Rightarrow> avb_st option" where
  "set_avb_sink_id h0 a0 st = map_option snd (getset_avb_sink_id True h0 a0 st)"

definition get_avb_sink_id :: "nat \<Rightarrow> u32 \<times> u32 \<Rightarrow> avb_st \<Rightarrow> (u32 \<times> u32) option" where
  "get_avb_sink_id h0 a0 st = map_option fst (getset_avb_sink_id False h0 a0 st)"

definition set_avb_sink_addr :: "nat \<Rightarrow> u8 list \<times> nat \<Rightarrow> avb_st \<Rightarrow> avb_st option" where
  "set_avb_sink_addr h0 a0 st = map_option snd (getset_avb_sink_addr True h0 a0 st)"

definition get_avb_sink_addr :: "nat \<Rightarrow> u8 list \<times> nat \<Rightarrow> avb_st \<Rightarrow> (u8 list \<times> nat) option" where
  "get_avb_sink_addr h0 a0 st = map_option fst (getset_avb_sink_addr False h0 a0 st)"

section \<open>Media clocks\<close>

text \<open>The state has whether a media clock server is connected, and its clocks.\<close>

definition set_device_media_clock_source :: "nat \<Rightarrow> int \<Rightarrow> bool \<times> media_clock list \<Rightarrow> (bool \<times> media_clock list) option" where
  "set_device_media_clock_source h0 a0 sv = map_option (\<lambda>r. (fst sv, snd r)) (getset_device_media_clock_source True h0 a0 sv)"

definition get_device_media_clock_source :: "nat \<Rightarrow> int \<Rightarrow> bool \<times> media_clock list \<Rightarrow> int option" where
  "get_device_media_clock_source h0 a0 sv = map_option fst (getset_device_media_clock_source False h0 a0 sv)"

definition set_device_media_clock_rate :: "nat \<Rightarrow> int \<Rightarrow> bool \<times> media_clock list \<Rightarrow> (bool \<times> media_clock list) option" where
  "set_device_media_clock_rate h0 a0 sv = map_option (\<lambda>r. (fst sv, snd r)) (getset_device_media_clock_rate True h0 a0 sv)"

definition get_device_media_clock_rate :: "nat \<Rightarrow> int \<Rightarrow> bool \<times> media_clock list \<Rightarrow> int option" where
  "get_device_media_clock_rate h0 a0 sv = map_option fst (getset_device_media_clock_rate False h0 a0 sv)"

definition set_device_media_clock_type :: "nat \<Rightarrow> int \<Rightarrow> bool \<times> media_clock list \<Rightarrow> (bool \<times> media_clock list) option" where
  "set_device_media_clock_type h0 a0 sv = map_option (\<lambda>r. (fst sv, snd r)) (getset_device_media_clock_type True h0 a0 sv)"

definition get_device_media_clock_type :: "nat \<Rightarrow> int \<Rightarrow> bool \<times> media_clock list \<Rightarrow> int option" where
  "get_device_media_clock_type h0 a0 sv = map_option fst (getset_device_media_clock_type False h0 a0 sv)"

definition set_device_media_clock_state :: "nat \<Rightarrow> int \<Rightarrow> bool \<times> media_clock list \<Rightarrow> (bool \<times> media_clock list) option" where
  "set_device_media_clock_state h0 a0 sv = map_option (\<lambda>r. (fst sv, snd r)) (getset_device_media_clock_state True h0 a0 sv)"

definition get_device_media_clock_state :: "nat \<Rightarrow> int \<Rightarrow> bool \<times> media_clock list \<Rightarrow> int option" where
  "get_device_media_clock_state h0 a0 sv = map_option fst (getset_device_media_clock_state False h0 a0 sv)"

section \<open>Parameters\<close>

text \<open>
  What an application relies on: a value that was set successfully is read back, in the form in which it is stored,
  and replaces the one before; and setting one value does not take away the right to set another.
\<close>

text \<open>Setting several values, all successfully.\<close>

fun set_all :: "('v \<Rightarrow> 's \<Rightarrow> 's option) \<Rightarrow> 'v list \<Rightarrow> 's \<Rightarrow> 's option" where
  "set_all f [] s = Some s"
| "set_all f (v # vs) s = (case f v s of None \<Rightarrow> None | Some s' \<Rightarrow> set_all f vs s')"

locale control_parameter =
  fixes set :: "'v \<Rightarrow> 's \<Rightarrow> 's option"
    and get :: "'s \<Rightarrow> 'v option"
    and stored :: "'v \<Rightarrow> 'v"
  assumes get_set: "set v s = Some s' \<Longrightarrow> get s' = Some (stored v)"
    and set_set: "set v s = Some s' \<Longrightarrow> set w s' = set w s"
begin

lemma last_write_wins: "vs \<noteq> [] \<Longrightarrow> set_all set vs s = Some s' \<Longrightarrow> set (last vs) s = Some s' \<and> get s' = Some (stored (last vs))"
proof (induction vs arbitrary: s)
  case (Cons v vs)
  from Cons.prems obtain t where t: "set v s = Some t" "set_all set vs t = Some s'" by (auto split: option.splits)
  show ?case
  proof (cases "vs = []")
    case True
    with t show ?thesis by (simp add: get_set)
  next
    case False
    from Cons.IH [OF this t(2)] set_set [OF t(1)] False show ?thesis by simp
  qed
qed simp

lemma set_again: "set v s = Some s' \<Longrightarrow> set_all set (replicate (Suc n) v) s = Some s'"
proof (induction n)
  case (Suc n)
  have "set v s' = Some s'" using set_set [OF Suc.prems, of v] Suc.prems by simp
  then have "set_all set (replicate m v) s' = Some s'" for m by (induction m) simp_all
  with Suc.prems show ?case by (simp del: replicate.simps add: replicate_Suc [of "Suc n"])
qed simp

end

lemmas source_api_defs = source_access_def source_with_def update_source_def modify_nth_def
lemmas sink_api_defs = sink_access_def sink_with_def update_sink_def modify_nth_def

lemma byte_of_int [simp]: "uint (word_of_int k :: u8) = k mod 256"
  by (simp add: uint_word_of_int)

interpretation source_format_api: control_parameter "set_avb_source_format h" "get_avb_source_format h a" "\<lambda>(f, r). (f mod 256, r)" for h a
  by unfold_locales (auto simp: set_avb_source_format_def get_avb_source_format_def getset_avb_source_format_def source_api_defs
      Let_def split: if_splits)

interpretation source_channels_api: control_parameter "set_avb_source_channels h" "get_avb_source_channels h a" "\<lambda>v. v mod 256" for h a
  by unfold_locales (auto simp: set_avb_source_channels_def get_avb_source_channels_def getset_avb_source_channels_def source_api_defs
      Let_def split: if_splits)

interpretation source_sync_api: control_parameter "set_avb_source_sync h" "get_avb_source_sync h a" "\<lambda>v. v mod 256" for h a
  by unfold_locales (auto simp: set_avb_source_sync_def get_avb_source_sync_def getset_avb_source_sync_def source_api_defs
      Let_def split: if_splits)

interpretation source_vlan_api: control_parameter "set_avb_source_vlan h" "get_avb_source_vlan h a" "\<lambda>v. v mod 256" for h a
  by unfold_locales (auto simp: set_avb_source_vlan_def get_avb_source_vlan_def getset_avb_source_vlan_def source_api_defs
      Let_def split: if_splits)

interpretation source_presentation_api: control_parameter "set_avb_source_presentation h" "get_avb_source_presentation h a" "\<lambda>v. v" for h a
  by unfold_locales (auto simp: set_avb_source_presentation_def get_avb_source_presentation_def getset_avb_source_presentation_def source_api_defs
      Let_def split: if_splits)

interpretation sink_channels_api: control_parameter "set_avb_sink_channels h" "get_avb_sink_channels h a" "\<lambda>v. v mod 256" for h a
  by unfold_locales (auto simp: set_avb_sink_channels_def get_avb_sink_channels_def getset_avb_sink_channels_def sink_api_defs
      Let_def split: if_splits)

interpretation sink_sync_api: control_parameter "set_avb_sink_sync h" "get_avb_sink_sync h a" "\<lambda>v. v mod 256" for h a
  by unfold_locales (auto simp: set_avb_sink_sync_def get_avb_sink_sync_def getset_avb_sink_sync_def sink_api_defs
      Let_def split: if_splits)

interpretation sink_vlan_api: control_parameter "set_avb_sink_vlan h" "get_avb_sink_vlan h a" "\<lambda>v. v mod 256" for h a
  by unfold_locales (auto simp: set_avb_sink_vlan_def get_avb_sink_vlan_def getset_avb_sink_vlan_def sink_api_defs
      Let_def split: if_splits)

interpretation sink_id_api: control_parameter "set_avb_sink_id h" "get_avb_sink_id h a" "\<lambda>v. v" for h a
  by unfold_locales (auto simp: set_avb_sink_id_def get_avb_sink_id_def getset_avb_sink_id_def sink_api_defs
      Let_def split: if_splits)

interpretation clock_rate_api: control_parameter "set_device_media_clock_rate h" "get_device_media_clock_rate h a" "\<lambda>v. v" for h a
  by unfold_locales (auto simp: set_device_media_clock_rate_def get_device_media_clock_rate_def getset_device_media_clock_rate_def getset_clock_def clock_access_def modify_nth_def
      Let_def split: if_splits)

interpretation clock_source_api: control_parameter "set_device_media_clock_source h" "get_device_media_clock_source h a" "\<lambda>v. v" for h a
  by unfold_locales (auto simp: set_device_media_clock_source_def get_device_media_clock_source_def getset_device_media_clock_source_def getset_clock_def clock_access_def modify_nth_def
      Let_def split: if_splits)

interpretation clock_type_api: control_parameter "set_device_media_clock_type h" "get_device_media_clock_type h a" "\<lambda>v. v" for h a
  by unfold_locales (auto simp: set_device_media_clock_type_def get_device_media_clock_type_def getset_device_media_clock_type_def getset_clock_def clock_access_def modify_nth_def
      Let_def split: if_splits)

interpretation clock_state_api: control_parameter "set_device_media_clock_state h" "get_device_media_clock_state h a" "\<lambda>v. if v = 1 then 1 else 0" for h a
  by unfold_locales (auto simp: set_device_media_clock_state_def get_device_media_clock_state_def getset_device_media_clock_state_def getset_clock_def clock_access_def modify_nth_def
      Let_def split: if_splits)

text \<open>
  The parameters through the interface of the application: after any number of successful calls of a set function the
  get function returns the last value, of which a stream keeps only eight bits of the channels, the
  synchronisation, the VLAN and the format, and nothing else is left of the earlier calls.
\<close>

theorem control_parameters:
  assumes "vs \<noteq> []"
  shows "set_all (set_avb_source_vlan h) vs st = Some st' \<longrightarrow>
      set_avb_source_vlan h (last vs) st = Some st' \<and> get_avb_source_vlan h a st' = Some (last vs mod 256)"
    and "set_all (set_avb_source_channels h) vs st = Some st' \<longrightarrow>
      set_avb_source_channels h (last vs) st = Some st' \<and> get_avb_source_channels h a st' = Some (last vs mod 256)"
    and "set_all (set_avb_source_presentation h) vs st = Some st' \<longrightarrow>
      set_avb_source_presentation h (last vs) st = Some st' \<and> get_avb_source_presentation h a st' = Some (last vs)"
    and "set_all (set_avb_sink_vlan h) vs st = Some st' \<longrightarrow>
      set_avb_sink_vlan h (last vs) st = Some st' \<and> get_avb_sink_vlan h a st' = Some (last vs mod 256)"
    and "set_all (set_device_media_clock_rate h) vs sv = Some sv' \<longrightarrow>
      set_device_media_clock_rate h (last vs) sv = Some sv' \<and> get_device_media_clock_rate h a sv' = Some (last vs)"
  by (rule impI, erule source_vlan_api.last_write_wins [OF assms],
      rule impI, erule source_channels_api.last_write_wins [OF assms],
      rule impI, erule source_presentation_api.last_write_wins [OF assms],
      rule impI, erule sink_vlan_api.last_write_wins [OF assms],
      rule impI, erule clock_rate_api.last_write_wins [OF assms])

end
