(* ===== verification/Avb_1722_Video.thy ===== *)
theory Avb_1722_Video
  imports Avb_1722_Talker Avb_1722_Listener
begin

text \<open>
  The 61883-4 build (\<open>avb_1722_talker_support_video.c\<close> and \<open>avb_1722_listener_support_video.c\<close>): a packet carries
  transport stream packets of 192 bytes, the first word of which is a timestamp. The input FIFO this code expects
  is not in the repository, whose \<open>media_input_fifo_get_packet\<close> has other arguments; it is the parameter \<open>F\<close>. Nor is
  \<open>media_output_fifo_push\<close>; its calls are part of the result.
\<close>

record 'f video_fifo =
  vf_empty :: "'f \<Rightarrow> bool"
  vf_get_packet :: "'f \<Rightarrow> u32 list"
  vf_release_packet :: "'f \<Rightarrow> 'f"

section \<open>The talker\<close>

definition video_cip_header :: "u8 list \<Rightarrow> u8 list" where
  "video_cip_header b =
     (SET_AVB1722_CIP_SYT 44 0xFFFF \<circ> SET_AVB1722_CIP_FDF 44 0x80 \<circ> SET_AVB1722_CIP_FMT 44 0x20 \<circ> SET_AVB1722_CIP_EOH2 44 2 \<circ>
      SET_AVB1722_CIP_DBC 44 0 \<circ> SET_AVB1722_CIP_SPH 44 1 \<circ> SET_AVB1722_CIP_QPC 44 0 \<circ> SET_AVB1722_CIP_FN 44 3 \<circ>
      SET_AVB1722_CIP_DBS 44 6 \<circ> SET_AVB1722_CIP_SID 44 63 \<circ> SET_AVB1722_CIP_EOH1 44 0 \<circ>
      SET_AVB1722_CIP_SY 20 0 \<circ> SET_AVB1722_CIP_TCODE 20 0xA \<circ> SET_AVB1722_CIP_CHANNEL 20 31 \<circ> SET_AVB1722_CIP_TAG 20 1) b"

definition video_bufInit :: "u8 list \<Rightarrow> talker_stream \<Rightarrow> u32 \<Rightarrow> u8 list" where
  "video_bufInit b cfg vlanid =
     video_cip_header (talker_avtp_header cfg (talker_eth_header cfg vlanid
       (put_bytes 2 (replicate (AVB_ETHERNET_HDR_SIZE + AVB_TP_HDR_SIZE + AVB_CIP_HDR_SIZE) 0) b)))"

text \<open>One transport stream packet, at word \<open>d\<close> of the payload.\<close>

definition video_copy :: "ptp_time_info_mod64 \<Rightarrow> u32 \<Rightarrow> u32 list \<Rightarrow> nat \<Rightarrow> u8 list \<Rightarrow> u8 list" where
  "video_copy info presentation_delay data d b =
     fold (\<lambda>c b. put_word (d + c) (data ! c) b) [1..<48]
       (put_word d (local_timestamp_to_ptp_mod32 (data ! 0) info + presentation_delay) b)"

text \<open>The loop over at most \<open>k\<close> packets; \<open>n\<close> have been copied.\<close>

fun video_packets :: "'f video_fifo \<Rightarrow> ptp_time_info_mod64 \<Rightarrow> u32 \<Rightarrow> nat \<Rightarrow> nat \<Rightarrow> u8 list \<Rightarrow> 'f \<Rightarrow> nat \<times> u8 list \<times> 'f" where
  "video_packets F info delay 0 n b f = (n, b, f)"
| "video_packets F info delay (Suc k) n b f =
     (if vf_empty F f then (n, b, f)
      else video_packets F info delay k (n + 1) (video_copy info delay (vf_get_packet F f) (48 * n) b) (vf_release_packet F f))"

definition video_create_packet ::
  "'f video_fifo \<Rightarrow> ptp_time_info_mod64 \<Rightarrow> u32 \<Rightarrow> u8 list \<Rightarrow> talker_stream \<Rightarrow> 'f \<Rightarrow> nat \<times> u8 list \<times> talker_stream \<times> 'f" where
  "video_create_packet F info time b st f =
     (if vf_empty F f then (0, b, st, f)
      else if \<not> tk_transmit_ok st \<and> sint (time - tk_last_transmit_time st) < AVB1722_PACKET_PERIOD_TIMER_TICKS then (0, b, st, f)
      else let (n, b, f) = video_packets F info (tk_presentation_delay st) 4 0 b f;
               len = n * 192
           in (AVB_ETHERNET_HDR_SIZE + AVB_TP_HDR_SIZE + AVB_CIP_HDR_SIZE + len,
               AVB1722_AVBTP_HeaderGen 2 False 0 (of_nat len) (ucast (tk_sequence_number st)) (tk_streamId0 st)
                 (AVB1722_CIP_HeaderGen 2 (tk_dbc_at_start st) b),
               st\<lparr>tk_dbc_at_start := tk_dbc_at_start st + 8 * of_nat n, tk_last_transmit_time := time,
                  tk_transmit_ok := False, tk_sequence_number := tk_sequence_number st + 1\<rparr>, f))"

section \<open>The listener\<close>

text \<open>A call of \<open>media_output_fifo_push\<close>: the handle, the words, the first block and the number of blocks of 24 bytes.\<close>

datatype video_push = Video_push "nat option" "u32 list" int int

text \<open>The tracking of the sequence numbers; \<open>False\<close> when the packet is discarded.\<close>

definition video_in_sequence :: "u8 \<Rightarrow> listener_stream \<Rightarrow> bool" where
  "video_in_sequence sequence_number si \<longleftrightarrow> sequence_number = word_of_int (ls_last_sequence si + 1)"

definition video_track :: "u8 \<Rightarrow> int \<Rightarrow> listener_stream \<Rightarrow> bool \<times> listener_stream" where
  "video_track sequence_number dbc si =
     (if ls_state si = 0 then (False, si\<lparr>ls_last_sequence := uint sequence_number, ls_state := 1\<rparr>)
      else if ls_state si = 1 \<or> ls_state si = 2
      then if \<not> video_in_sequence sequence_number si then (False, si\<lparr>ls_state := 0\<rparr>)
           else (True, si\<lparr>ls_last_sequence := uint sequence_number,
                          ls_state := (if ls_state si = 1 \<and> dbc AND 7 = 0 then 2 else ls_state si)\<rparr>)
      else (True, si))"

definition stamp_local :: "ptp_time_info_mod64 \<Rightarrow> u32 list \<Rightarrow> u32 list" where
  "stamp_local info ws = ws[0 := ptp_mod32_timestamp_to_local (ws ! 0) info]"

definition video_blocks :: "int \<Rightarrow> int \<Rightarrow> int" where
  "video_blocks dbc n = (if (n = 1 \<or> n = 2 \<or> n = 4) \<and> dbc AND (n - 1) = 0 then n else 0)"

definition video_deliver :: "ptp_time_info_mod64 \<Rightarrow> u32 list \<Rightarrow> int \<Rightarrow> int \<Rightarrow> listener_stream \<Rightarrow> video_push list \<times> listener_stream" where
  "video_deliver info ws dbc n si =
     (let h = ls_map si ! 0
      in if n = 0 then ([], si)
         else if n AND 7 = 0
         then (if dbc AND 7 = 0
               then map (\<lambda>i. Video_push h (stamp_local info (take 48 (drop (48 * i) ws))) 0 8) [0..<nat (n div 8)]
               else [], si\<lparr>ls_prev_num_samples := 0\<rparr>)
         else let m = video_blocks dbc n
              in ([Video_push h (take (6 * nat m) (if dbc AND 7 = 0 then stamp_local info ws else ws)) (dbc AND 7) m], si))"

definition video_process_packet ::
  "u8 list \<Rightarrow> int \<Rightarrow> ptp_time_info_mod64 \<Rightarrow> listener_stream \<Rightarrow> int \<times> video_push list \<times> listener_stream" where
  "video_process_packet b numBytes info si =
     (let h = listener_avtp b
      in if numBytes \<le> int (h - 2 + AVB_TP_HDR_SIZE) \<or> AVBTP_CD h b \<noteq> 0 \<or> AVBTP_SV h b = 0 then (0, [], si)
         else let (ok, si) = video_track (ucast (AVBTP_SEQUENCE_NUMBER h b)) (packet_dbc b) si
              in if \<not> ok then (1, [], si)
                 else let (ps, si) = video_deliver info (listener_words b) (packet_dbc b)
                            (uint (AVBTP_PACKET_DATA_LENGTH h b) div 24) si
                      in (1, ps, si))"

end
