(* ===== verification/Video_Proofs.thy ===== *)
theory Video_Proofs
  imports Avb_1722_Video Delivery_Proofs
begin

text \<open>Transport stream packets from the FIFO of a video talker to the calls of a video listener.\<close>

text \<open>The input FIFO is a queue \<open>Q f\<close> of packets.\<close>

definition video_queue :: "'f video_fifo \<Rightarrow> ('f \<Rightarrow> u32 list list) \<Rightarrow> bool" where
  "video_queue F Q \<longleftrightarrow> (\<forall>f. (vf_empty F f \<longleftrightarrow> Q f = []) \<and>
     (Q f \<noteq> [] \<longrightarrow> vf_get_packet F f = hd (Q f) \<and> Q (vf_release_packet F f) = tl (Q f)))"

text \<open>What is sent for a packet.\<close>

definition video_stamped :: "ptp_time_info_mod64 \<Rightarrow> u32 \<Rightarrow> u32 list \<Rightarrow> u32 list" where
  "video_stamped info delay data = (local_timestamp_to_ptp_mod32 (data ! 0) info + delay) # tl data"

lemma video_copy_part:
  assumes "52 + 4 * (d + 48) \<le> length b" "1 \<le> m" "m \<le> 48"
  shows "length (fold (\<lambda>c b. put_word (d + c) (data ! c) b) [1..<m] (put_word d s b)) = length b \<and>
    (\<forall>i < 52. fold (\<lambda>c b. put_word (d + c) (data ! c) b) [1..<m] (put_word d s b) ! i = b ! i) \<and>
    (\<forall>e. 52 + 4 * e + 4 \<le> length b \<longrightarrow> payload_word (fold (\<lambda>c b. put_word (d + c) (data ! c) b) [1..<m] (put_word d s b)) e =
      (if d \<le> e \<and> e < d + m then word_octets (if e = d then s else data ! (e - d)) else payload_word b e))"
  using assms(2,3)
proof (induction m rule: nat_induct_at_least)
  case base
  have "52 + 4 * d + 4 \<le> length b" using assms(1) by simp
  then show ?case by (auto simp: payload_put_word header_put_word)
next
  case (Suc m)
  let ?b = "fold (\<lambda>c b. put_word (d + c) (data ! c) b) [1..<m] (put_word d s b)"
  have IH: "length ?b = length b" "\<And>i. i < 52 \<Longrightarrow> ?b ! i = b ! i"
    "\<And>e. 52 + 4 * e + 4 \<le> length b \<Longrightarrow> payload_word ?b e =
      (if d \<le> e \<and> e < d + m then word_octets (if e = d then s else data ! (e - d)) else payload_word b e)"
    using Suc by auto
  have f: "fold (\<lambda>c b. put_word (d + c) (data ! c) b) [1..<Suc m] (put_word d s b) = put_word (d + m) (data ! m) ?b"
    using Suc.hyps by simp
  have r: "52 + 4 * (d + m) + 4 \<le> length ?b" using assms(1) Suc.prems unfolding IH(1) by simp
  have "payload_word (put_word (d + m) (data ! m) ?b) e =
      (if d \<le> e \<and> e < d + Suc m then word_octets (if e = d then s else data ! (e - d)) else payload_word b e)"
    if e: "52 + 4 * e + 4 \<le> length b" for e
  proof -
    have "52 + 4 * e + 4 \<le> length ?b" using e IH(1) by simp
    from payload_put_word [OF r this] IH(3) [OF e] Suc.hyps show ?thesis by auto
  qed
  then show ?case unfolding f using r IH(1,2) header_put_word [OF r] by simp
qed

lemma video_copy_result:
  assumes "52 + 4 * (d + 48) \<le> length b" "length data = 48"
  shows "length (video_copy info delay data d b) = length b"
    and "i < 52 \<Longrightarrow> video_copy info delay data d b ! i = b ! i"
    and "52 + 4 * e + 4 \<le> length b \<Longrightarrow> payload_word (video_copy info delay data d b) e =
      (if d \<le> e \<and> e < d + 48 then word_octets (video_stamped info delay data ! (e - d)) else payload_word b e)"
proof -
  let ?s = "local_timestamp_to_ptp_mod32 (data ! 0) info + delay"
  note p = video_copy_part [OF assms(1), of 48 data ?s]
  show "length (video_copy info delay data d b) = length b" using p by (simp add: video_copy_def)
  show "video_copy info delay data d b ! i = b ! i" if "i < 52" using p that by (simp add: video_copy_def)
  have n: "video_stamped info delay data ! k = (if k = 0 then ?s else data ! k)" if "k < 48" for k
    using that assms(2) by (cases k) (simp_all add: video_stamped_def nth_tl)
  show "payload_word (video_copy info delay data d b) e =
      (if d \<le> e \<and> e < d + 48 then word_octets (video_stamped info delay data ! (e - d)) else payload_word b e)"
    if "52 + 4 * e + 4 \<le> length b"
    using p that n [of "e - d"] by (auto simp: video_copy_def)
qed

lemma video_packets_result:
  assumes q: "video_queue F Q"
  shows "52 + 192 * (n + k) \<le> length b \<Longrightarrow> \<forall>p \<in> set (Q f). length p = 48 \<Longrightarrow> video_packets F info delay k n b f = (n', b', f') \<Longrightarrow>
    n' = n + min k (length (Q f)) \<and> Q f' = drop (min k (length (Q f))) (Q f) \<and> length b' = length b \<and>
    (\<forall>i < 52. b' ! i = b ! i) \<and>
    (\<forall>e. 52 + 4 * e + 4 \<le> length b \<longrightarrow> payload_word b' e =
      (if 48 * n \<le> e \<and> e < 48 * n' then word_octets (video_stamped info delay (Q f ! ((e - 48 * n) div 48)) ! ((e - 48 * n) mod 48))
       else payload_word b e))"
proof (induction k arbitrary: n b f)
  case 0
  then show ?case by auto
next
  case (Suc k)
  show ?case
  proof (cases "Q f = []")
    case True
    with Suc.prems q show ?thesis by (auto simp: video_queue_def)
  next
    case False
    then obtain p ps where Q: "Q f = p # ps" by (cases "Q f") auto
    with q Suc.prems(2) have e: "\<not> vf_empty F f" "vf_get_packet F f = p" "Q (vf_release_packet F f) = ps" "length p = 48" "\<forall>p \<in> set ps. length p = 48"
      by (auto simp: video_queue_def dest: spec [of _ f])
    let ?b = "video_copy info delay p (48 * n) b"
    have r: "52 + 4 * (48 * n + 48) \<le> length b" using Suc.prems(1) by simp
    note c = video_copy_result [OF r e(4), where info = info and delay = delay]
    have "52 + 192 * (n + 1 + k) \<le> length ?b" using Suc.prems(1) c(1) by simp
    moreover have "video_packets F info delay k (n + 1) ?b (vf_release_packet F f) = (n', b', f')"
      using Suc.prems(3) e by simp
    ultimately have IH: "n' = n + 1 + min k (length ps)" "Q f' = drop (min k (length ps)) ps" "length b' = length b"
      "\<And>i. i < 52 \<Longrightarrow> b' ! i = b ! i"
      "\<And>e. 52 + 4 * e + 4 \<le> length b \<Longrightarrow> payload_word b' e =
        (if 48 * (n + 1) \<le> e \<and> e < 48 * n' then word_octets (video_stamped info delay (ps ! ((e - 48 * (n + 1)) div 48)) ! ((e - 48 * (n + 1)) mod 48))
         else payload_word ?b e)"
      using Suc.IH [of "n + 1" ?b "vf_release_packet F f"] e(3,5) c(1,2) by simp_all
    have "payload_word b' e =
      (if 48 * n \<le> e \<and> e < 48 * n' then word_octets (video_stamped info delay (Q f ! ((e - 48 * n) div 48)) ! ((e - 48 * n) mod 48))
       else payload_word b e)" if room: "52 + 4 * e + 4 \<le> length b" for e
    proof (cases "48 * (n + 1) \<le> e")
      case True
      then have e: "e - 48 * n = (e - 48 * (n + 1)) + 48" by simp
      have i: "(e - 48 * n) div 48 = Suc ((e - 48 * (n + 1)) div 48)" "(e - 48 * n) mod 48 = (e - 48 * (n + 1)) mod 48"
        unfolding e by (rule div_add_self2 [THEN trans]; simp only: Suc_eq_plus1 zero_neq_numeral) (rule mod_add_self2)
      have n: "48 * n \<le> e" "\<not> e < 48 * n + 48" using True by simp_all
      show ?thesis unfolding IH(5) [OF room] c(3) [OF room] i Q nth_Cons_Suc using True n by simp
    next
      case False
      then have l: "e < 48 * n + 48" by simp
      then have i: "(e - 48 * n) div 48 = 0" "(e - 48 * n) mod 48 = e - 48 * n" "e < 48 * n'" using IH(1) by simp_all
      show ?thesis unfolding IH(5) [OF room] c(3) [OF room] i(1,2) Q nth_Cons_0 using False l i(3) by simp
    qed
    then show ?thesis using IH(1-4) by (simp add: Q)
  qed
qed

section \<open>The frame\<close>

lemma video_frame_fields:
  assumes "52 \<le> length b" "f = AVB1722_AVBTP_HeaderGen 2 False 0 l sq sid (AVB1722_CIP_HeaderGen 2 dbc b)"
  shows "f ! 22 = ucast (sq AND 0xff)" and "f ! 47 = ucast dbc"
  using assms by (auto simp: AVB1722_AVBTP_HeaderGen_def AVB1722_CIP_HeaderGen_def Let_def header_sizes cip_setters
    SET_AVBTP_TV_def SET_AVBTP_SEQUENCE_NUMBER_def SET_AVBTP_TIMESTAMP_def SET_AVBTP_STREAM_ID0_def
    SET_AVBTP_PACKET_DATA_LENGTH_def nth_put_u32_other)

lemma video_received:
  assumes h: "frame_header (192 * k) b b'" and t: "b ! 14 = 0x81" and k: "k \<le> 4" "52 + 192 * k \<le> length b'"
  shows "listener_avtp b' = 20" "uint (AVBTP_PACKET_DATA_LENGTH 20 b') = 192 * int k"
    and "\<And>d w. d < 48 * k \<Longrightarrow> payload_word b' d = word_octets w \<Longrightarrow> listener_words b' ! d = w"
    and "48 * k \<le> length (listener_words b')"
proof -
  show a: "listener_avtp b' = 20" using h t by (simp add: frame_header_def listener_avtp_def)
  obtain M where M: "M = 192 * k" "M < 2 ^ 16" using k(1) by simp
  have "AVBTP_PACKET_DATA_LENGTH 20 b' = of_nat M AND 0xFFFF" using h by (simp only: frame_header_def M(1))
  also have "\<dots> = take_bit 16 (of_nat M)" by (simp add: take_bit_eq_mask mask_eq_exp_minus_1)
  finally have "unat (AVBTP_PACKET_DATA_LENGTH 20 b') = take_bit 16 (take_bit 32 M)"
    by (simp add: unsigned_take_bit_eq unsigned_of_nat)
  also have "\<dots> = M" using M(2) by (simp add: take_bit_nat_eq_self)
  also note M(1)
  finally show "uint (AVBTP_PACKET_DATA_LENGTH 20 b') = 192 * int k" by (simp add: uint_nat)
  show "48 * k \<le> length (listener_words b')" using k(2) by (simp add: listener_words_def buffer_words_def a header_sizes)
  show "listener_words b' ! d = w" if "d < 48 * k" "payload_word b' d = word_octets w" for d w
  proof -
    have "d < (length b' - 52) div 4" using that(1) k(2) by simp
    then have "listener_words b' ! d = of_octets (b' ! (52 + 4 * d)) (b' ! (52 + 4 * d + 1)) (b' ! (52 + 4 * d + 2)) (b' ! (52 + 4 * d + 3))"
      by (simp add: listener_words_def buffer_words_def a header_sizes)
    moreover have "payload_word b' d ! i = b' ! (52 + 4 * d + i)" if "i < 4" for i
      using that \<open>d < 48 * k\<close> k(2) by (simp add: payload_word_def get_bytes_def)
    from this [of 0] this [of 1] this [of 2] this [of 3]
    have "b' ! (52 + 4 * d) = octet w 0" "b' ! (52 + 4 * d + 1) = octet w 1" "b' ! (52 + 4 * d + 2) = octet w 2"
      "b' ! (52 + 4 * d + 3) = octet w 3"
      unfolding that(2) by (simp_all add: word_octets_def)
    ultimately show ?thesis by (simp only: of_octets_octet)
  qed
qed

lemma block_aligned: "(w :: u32) AND 7 = 0 \<Longrightarrow> uint (ucast w :: u8) AND 7 = 0"
proof -
  assume "w AND 7 = 0"
  then have "take_bit 3 w = 0" by (simp add: take_bit_eq_mask mask_eq_exp_minus_1)
  then have "take_bit 3 (uint w) = 0" by (simp flip: unsigned_take_bit_eq)
  then have "take_bit 3 (uint (ucast w :: u8)) = 0" by (simp add: unsigned_ucast_eq take_bit_take_bit)
  then show ?thesis by (simp add: take_bit_eq_mask mask_eq_exp_minus_1)
qed

lemma next_block_aligned: "(w :: u32) AND 7 = 0 \<Longrightarrow> (w + 8 * n) AND 7 = 0"
proof -
  assume "w AND 7 = 0"
  moreover have m: "x AND 7 = take_bit 3 x" for x :: u32 by (simp add: take_bit_eq_mask mask_eq_exp_minus_1)
  moreover have "take_bit 3 (8 * n) = 0"
    by (intro bit_word_eqI) (simp add: bit_take_bit_iff push_bit_eq_mult [of 3 n, simplified, symmetric] bit_push_bit_iff mult.commute)
  moreover have "take_bit 3 (take_bit 3 w + take_bit 3 (8 * n)) = take_bit 3 (w + 8 * n)" by (transfer) (simp add: take_bit_add take_bit_take_bit)
  ultimately show ?thesis by simp
qed

section \<open>End to end\<close>

lemma delivered_packets:
  assumes "\<And>p. p \<in> set ps \<Longrightarrow> length p = 48" and "48 * length ps \<le> length ws"
    and "\<And>d. d < 48 * length ps \<Longrightarrow> ws ! d = video_stamped info delay (ps ! (d div 48)) ! (d mod 48)"
  shows "map (\<lambda>i. Video_push h (stamp_local info' (take 48 (drop (48 * i) ws))) 0 8) [0..<length ps] =
    map (\<lambda>p. Video_push h (ptp_mod32_timestamp_to_local (local_timestamp_to_ptp_mod32 (p ! 0) info + delay) info' # tl p) 0 8) ps"
proof (rule nth_equalityI)
  fix i assume "i < length (map (\<lambda>i. Video_push h (stamp_local info' (take 48 (drop (48 * i) ws))) 0 8) [0..<length ps])"
  then have i: "i < length ps" by simp
  then have l: "length (ps ! i) = 48" using assms(1) by simp
  have "take 48 (drop (48 * i) ws) = video_stamped info delay (ps ! i)"
  proof (rule nth_equalityI)
    have il: "48 * i + 48 \<le> length ws" using i assms(2) by linarith
    then show ll: "length (take 48 (drop (48 * i) ws)) = length (video_stamped info delay (ps ! i))"
      using l by (simp add: video_stamped_def)
    fix j assume "j < length (take 48 (drop (48 * i) ws))"
    then have j: "j < 48" by simp
    then have "48 * i + j < 48 * length ps" using i by linarith
    from assms(3) [OF this] show "take 48 (drop (48 * i) ws) ! j = video_stamped info delay (ps ! i) ! j"
      using j il by simp
  qed
  then have "stamp_local info' (take 48 (drop (48 * i) ws)) =
      ptp_mod32_timestamp_to_local (local_timestamp_to_ptp_mod32 (ps ! i ! 0) info + delay) info' # tl (ps ! i)"
    by (simp add: stamp_local_def video_stamped_def)
  then show "map (\<lambda>i. Video_push h (stamp_local info' (take 48 (drop (48 * i) ws))) 0 8) [0..<length ps] ! i =
      map (\<lambda>p. Video_push h (ptp_mod32_timestamp_to_local (local_timestamp_to_ptp_mod32 (p ! 0) info + delay) info' # tl p) 0 8) ps ! i"
    using i by simp
qed simp

text \<open>
  Video from end to end. A frame that the talker makes carries the next one to four transport stream packets of
  its FIFO. A listener that follows the sequence numbers hands exactly these to its output FIFO, whole and in
  order, each with its timestamp converted to its own clock; afterwards both are ready for the next frame,
  the talker at a block number that starts a packet and the listener at the next sequence number.
\<close>
theorem video_end_to_end:
  assumes q: "video_queue F Q" "\<forall>p \<in> set (Q f). length p = 48" and b: "820 \<le> length b"
    and t: "b ! 14 = 0x81" "AVBTP_CD 20 b = 0" "AVBTP_SV 20 b \<noteq> 0"
    and d: "tk_dbc_at_start st AND 7 = 0"
    and sent: "video_create_packet F info time b st f = (len, b', st', f')" "len \<noteq> 0"
    and si: "ls_state si = 1 \<or> ls_state si = 2" "video_in_sequence (tk_sequence_number st) si"
  shows "\<exists>k si'. 1 \<le> k \<and> k = min 4 (length (Q f)) \<and> Q f' = drop k (Q f) \<and>
    video_process_packet b' (int len) info' si =
      (1, map (\<lambda>p. Video_push (ls_map si ! 0)
                (ptp_mod32_timestamp_to_local (local_timestamp_to_ptp_mod32 (p ! 0) info + tk_presentation_delay st) info' # tl p) 0 8)
            (take k (Q f)), si') \<and>
    ls_state si' = 2 \<and> video_in_sequence (tk_sequence_number st') si' \<and> tk_dbc_at_start st' AND 7 = 0"
proof -
  let ?k = "min 4 (length (Q f))" and ?delay = "tk_presentation_delay st" and ?sq = "tk_sequence_number st"
  have ne: "\<not> vf_empty F f" and on: "\<not> (\<not> tk_transmit_ok st \<and> sint (time - tk_last_transmit_time st) < AVB1722_PACKET_PERIOD_TIMER_TICKS)"
    using sent by (auto simp: video_create_packet_def split: if_splits)
  from ne q have Q: "Q f \<noteq> []" "\<And>p. p \<in> set (Q f) \<Longrightarrow> length p = 48" by (auto simp: video_queue_def)
  obtain n b1 f1 where p: "video_packets F info ?delay 4 0 b f = (n, b1, f1)" by (metis prod_cases3)
  have "52 + 192 * (0 + 4) \<le> length b" using b by simp
  from video_packets_result [OF q(1) this q(2) p]
  have P: "n = ?k" "Q f1 = drop ?k (Q f)" "length b1 = length b" "\<And>i. i < 52 \<Longrightarrow> b1 ! i = b ! i"
    "\<And>e. 52 + 4 * e + 4 \<le> length b \<Longrightarrow> e < 48 * ?k \<Longrightarrow>
      payload_word b1 e = word_octets (video_stamped info ?delay (Q f ! (e div 48)) ! (e mod 48))"
    by simp_all
  have k: "1 \<le> ?k" "?k \<le> 4" using Q(1) by (cases "Q f") simp_all
  have r: "len = 50 + 192 * ?k" "f' = f1" "st' = st\<lparr>tk_dbc_at_start := tk_dbc_at_start st + 8 * of_nat ?k, tk_last_transmit_time := time,
        tk_transmit_ok := False, tk_sequence_number := ?sq + 1\<rparr>"
    and b': "b' = AVB1722_AVBTP_HeaderGen 2 False 0 (of_nat (192 * ?k)) (ucast ?sq) (tk_streamId0 st)
        (AVB1722_CIP_HeaderGen 2 (tk_dbc_at_start st) b1)"
    using sent ne on p P(1) by (simp_all add: video_create_packet_def header_sizes mult.commute [of ?k] mult.commute [of "of_nat ?k :: u32"])
  have l1: "52 \<le> length b1" using P(3) b by simp
  have h: "frame_header (192 * ?k) b b'"
    using frame_header_gen [OF l1, of "192 * ?k"] P(4) unfolding b' frame_header_def AVBTP_SV_def by auto
  have "52 + 192 * ?k \<le> 820" using k(2) by linarith
  then have kl: "52 + 192 * ?k \<le> length b'" using b P(3) by (simp only: b' frame_size)
  note v = video_received [OF h t(1) k(2) kl]
  note ff = video_frame_fields [OF l1 b']
  have sq: "ucast (AVBTP_SEQUENCE_NUMBER 20 b') = ?sq"
  proof -
    have m: "(0xff :: u32) = mask 8" by (simp add: mask_eq_exp_minus_1)
    show ?thesis unfolding AVBTP_SEQUENCE_NUMBER_def u32_of_def using ff(1) [unfolded m]
      by simp (intro bit_word_eqI, auto simp: bit_simps dest: bit_u8_less)
  qed
  have dbc: "packet_dbc b' AND 7 = 0"
    using block_aligned [OF d] ff(2) unfolding packet_dbc_def v(1) by (simp add: header_sizes)
  have acc: "\<not> (int len \<le> int (20 - 2 + AVB_TP_HDR_SIZE) \<or> AVBTP_CD 20 b' \<noteq> 0 \<or> AVBTP_SV 20 b' = 0)"
    using h t(2,3) r(1) by (simp add: frame_header_def AVBTP_CD_def header_sizes)
  obtain si1 where si1: "si1 = si\<lparr>ls_last_sequence := uint ?sq, ls_state := 2\<rparr>" by simp
  have tr: "video_track ?sq (packet_dbc b') si = (True, si1)"
    using si dbc by (auto simp: video_track_def si1)
  have nb: "(192 * int ?k) div 24 = 8 * int ?k" by simp
  have w: "listener_words b' ! e = video_stamped info ?delay (take ?k (Q f) ! (e div 48)) ! (e mod 48)" if "e < 48 * ?k" for e
  proof -
    have "52 + 4 * e + 4 \<le> length b" using that k(2) b by linarith
    from P(5) [OF this that] have "payload_word b' e = word_octets (video_stamped info ?delay (Q f ! (e div 48)) ! (e mod 48))"
      unfolding b' frame_payload .
    moreover have "e div 48 < ?k" using that by (simp only: div_less_iff_less_mult zero_less_numeral mult.commute)
    ultimately show ?thesis using v(3) [OF that] by simp
  qed
  have tk: "length (take ?k (Q f)) = ?k" by simp
  have m: "map (\<lambda>i. Video_push h (stamp_local info' (take 48 (drop (48 * i) (listener_words b')))) 0 8) [0..<?k] =
      map (\<lambda>p. Video_push h (ptp_mod32_timestamp_to_local (local_timestamp_to_ptp_mod32 (p ! 0) info + ?delay) info' # tl p) 0 8)
        (take ?k (Q f))" for h
    using delivered_packets [of "take ?k (Q f)" "listener_words b'" info ?delay h info', unfolded tk] v(4) w Q(2)
    by (blast dest: in_set_takeD)
  have a8: "8 * int ?k AND 7 = 0"
  proof -
    have "8 * int ?k AND 7 = take_bit 3 (8 * int ?k)" by (simp add: take_bit_eq_mask mask_eq_exp_minus_1)
    then show ?thesis by (simp add: take_bit_eq_mod)
  qed
  have dv: "video_deliver info' (listener_words b') (packet_dbc b') (8 * int ?k) si1 =
      (map (\<lambda>p. Video_push (ls_map si ! 0)
          (ptp_mod32_timestamp_to_local (local_timestamp_to_ptp_mod32 (p ! 0) info + ?delay) info' # tl p) 0 8) (take ?k (Q f)),
       si1\<lparr>ls_prev_num_samples := 0\<rparr>)"
    using k(1) a8 dbc m [of "ls_map si ! 0"] by (simp add: video_deliver_def Let_def si1)
  have vp: "video_process_packet b' (int len) info' si =
      (1, map (\<lambda>p. Video_push (ls_map si ! 0)
          (ptp_mod32_timestamp_to_local (local_timestamp_to_ptp_mod32 (p ! 0) info + ?delay) info' # tl p) 0 8) (take ?k (Q f)),
       si1\<lparr>ls_prev_num_samples := 0\<rparr>)"
    unfolding video_process_packet_def v(1) Let_def if_not_P [OF acc] sq tr prod.case v(2) nb dv by simp
  have "video_in_sequence (tk_sequence_number st') (si1\<lparr>ls_prev_num_samples := 0\<rparr>)"
    by (simp add: video_in_sequence_def si1 r(3) flip: word_of_int_uint)
  then show ?thesis
    by (intro exI [of _ ?k] exI [of _ "si1\<lparr>ls_prev_num_samples := 0\<rparr>"] conjI k(1) refl vp)
      (simp_all add: r P(2) si1 next_block_aligned [OF d])
qed

text \<open>A FIFO that is a list, with two packets, and the buffer of the audio example made larger.\<close>

definition video_list :: "u32 list list video_fifo" where
  "video_list = \<lparr>vf_empty = (\<lambda>f. f = []), vf_get_packet = hd, vf_release_packet = tl\<rparr>"

definition video_talker :: talker_stream where
  "video_talker = example_talker\<lparr>tk_transmit_ok := True, tk_dbc_at_start := 0, tk_sequence_number := 7\<rparr>"

definition video_listener :: listener_stream where
  "video_listener = example_listener\<lparr>ls_state := 1, ls_last_sequence := 6, ls_map := [Some 0]\<rparr>"

theorem video_end_to_end_witness:
  "\<exists>len b' st' f'. video_create_packet video_list example_time 0 (example_template @ replicate 700 0) video_talker
       [replicate 48 1, replicate 48 2] = (len, b', st', f') \<and> f' = [] \<and>
     length (fst (snd (video_process_packet b' (int len) example_time video_listener))) = 2"
proof -
  let ?f = "[replicate 48 1, replicate 48 2] :: u32 list list" and ?b = "example_template @ replicate 700 0"
  have q: "video_queue video_list (\<lambda>f. f)" "\<forall>p \<in> set ?f. length p = 48" by (simp_all add: video_queue_def video_list_def)
  have b: "820 \<le> length ?b" using example_template_fields(1) by simp
  have t: "?b ! 14 = 0x81" "AVBTP_CD 20 ?b = 0" "AVBTP_SV 20 ?b \<noteq> 0"
    using example_template_fields by (simp_all add: nth_append AVBTP_CD_def AVBTP_SV_def)
  have d: "tk_dbc_at_start video_talker AND 7 = 0" by (simp add: video_talker_def)
  obtain len b' st' f' where s: "video_create_packet video_list example_time 0 ?b video_talker ?f = (len, b', st', f')"
    by (metis prod_cases4)
  then have l: "len \<noteq> 0"
    by (auto simp: video_create_packet_def video_list_def video_talker_def header_sizes split: prod.splits)
  have i: "ls_state video_listener = 1 \<or> ls_state video_listener = 2"
    "video_in_sequence (tk_sequence_number video_talker) video_listener"
    by (simp_all add: video_in_sequence_def video_listener_def video_talker_def)
  from video_end_to_end [OF q b t d s l i, of example_time] s show ?thesis by auto
qed

end
