(* ===== verification/Ptp_Server.thy ===== *)
theory Ptp_Server
  imports Gptp
begin

text \<open>
  The gPTP thread and its clients (\<open>gptp_server.xc\<close>, \<open>gptp_client.xc\<close>). A client on another tile reads another
  counter, so the server sends the reading of its own counter with the time information, and the client takes the
  difference of the two readings out of the reference time. A tile is a number; the readings are arguments.
\<close>

section \<open>The server\<close>

datatype ptp_cmd_t =
    PTP_GET_TIME_INFO
  | PTP_GET_TIME_INFO_MOD64
  | PTP_SET_LEGACY_MODE int
  | PTP_GET_GRANDMASTER
  | PTP_GET_STATE
  | PTP_GET_PDELAY

text \<open>What goes back over the channel.\<close>

datatype ptp_reply =
    Time_info u32 u32 ptp_timestamp int int nat
  | Time_info_mod64 u32 u32 u32 u32 int int nat
  | Grandmaster "u8 list"
  | State ptp_state_t
  | Pdelay u32

definition ptp_get_local_time_info_mod64 :: "gptp_st \<Rightarrow> ptp_time_info_mod64" where
  "ptp_get_local_time_info_mod64 st =
     (let (hi, lo) = ptp_get_reference_ptp_ts_mod_64 (ptp_reference_ptp_ts st)
      in \<lparr>tm_local_ts = ptp_reference_local_ts st, tm_ptp_ts_hi = hi, tm_ptp_ts_lo = lo,
          tm_ptp_adjust = g_ptp_adjust st, tm_inv_ptp_adjust = g_inv_ptp_adjust st\<rparr>)"

definition ptp_give_requested_time_info :: "u32 \<Rightarrow> nat \<Rightarrow> gptp_st \<Rightarrow> ptp_reply" where
  "ptp_give_requested_time_info now core_id st =
     Time_info now (ptp_reference_local_ts st) (ptp_reference_ptp_ts st) (g_ptp_adjust st) (g_inv_ptp_adjust st) core_id"

definition ptp_process_client_request :: "u32 \<Rightarrow> nat \<Rightarrow> ptp_cmd_t \<Rightarrow> gptp_st \<Rightarrow> ptp_reply option \<times> gptp_st" where
  "ptp_process_client_request now core_id cmd st =
     (case cmd of
        PTP_GET_TIME_INFO \<Rightarrow> (Some (ptp_give_requested_time_info now core_id st), st)
      | PTP_GET_TIME_INFO_MOD64 \<Rightarrow>
          let (hi, lo) = ptp_get_reference_ptp_ts_mod_64 (ptp_reference_ptp_ts st)
          in (Some (Time_info_mod64 now (ptp_reference_local_ts st) hi lo (g_ptp_adjust st) (g_inv_ptp_adjust st) core_id), st)
      | PTP_SET_LEGACY_MODE mode \<Rightarrow> (None, ptp_server_set_legacy_mode mode st)
      | PTP_GET_GRANDMASTER \<Rightarrow> (Some (Grandmaster (ptp_current_grandmaster st)), st)
      | PTP_GET_STATE \<Rightarrow> (Some (State (ptp_current_state st)), st)
      | PTP_GET_PDELAY \<Rightarrow> (Some (Pdelay (ptp_path_delay st)), st))"

text \<open>The select loop; the state has the time of the next periodic call.\<close>

datatype ptp_event =
    Ptp_packet "u8 list" u32 u32
  | Ptp_request nat ptp_cmd_t u32
  | Ptp_timeout ptp_env

definition ptp_server_init :: "net_order \<Rightarrow> u32 \<Rightarrow> u32 \<Rightarrow> u32 \<Rightarrow> u8 list \<Rightarrow> ptp_server_type \<Rightarrow> gptp_st \<Rightarrow> u32 \<times> gptp_st" where
  "ptp_server_init net now offset t mac stype st = (now, ptp_init net offset t mac stype st)"

definition ptp_server_step :: "net_order \<Rightarrow> nat \<Rightarrow> ptp_event \<Rightarrow> u32 \<times> gptp_st \<Rightarrow> (nat \<times> ptp_reply) option \<times> u32 \<times> gptp_st" where
  "ptp_server_step net core_id ev s =
     (case s of (ptp_timeout, st) \<Rightarrow>
        (case ev of
           Ptp_packet buf ts tx_ts \<Rightarrow> (None, ptp_timeout, ptp_recv net buf ts tx_ts st)
         | Ptp_request i cmd now \<Rightarrow>
             let (r, st) = ptp_process_client_request now core_id cmd st in (map_option (Pair i) r, ptp_timeout, st)
         | Ptp_timeout env \<Rightarrow> (None, ptp_timeout + 10000, ptp_periodic net env ptp_timeout st)))"

section \<open>The clients\<close>

text \<open>A reply of another kind leaves \<open>info\<close> as it is: it cannot arrive.\<close>

definition ptp_get_requested_time_info :: "u32 \<Rightarrow> nat \<Rightarrow> ptp_reply \<Rightarrow> ptp_time_info \<Rightarrow> ptp_time_info" where
  "ptp_get_requested_time_info thiscore_now tile r info =
     (case r of
        Time_info othercore_now local_ts ptp_ts ptp_adjust inv_ptp_adjust server_core_id \<Rightarrow>
          \<lparr>ti_local_ts = (if server_core_id \<noteq> tile then local_ts - (othercore_now - thiscore_now) else local_ts),
           ti_ptp_ts = ptp_ts, ti_ptp_adjust = ptp_adjust, ti_inv_ptp_adjust = inv_ptp_adjust\<rparr>
      | _ \<Rightarrow> info)"

definition ptp_get_requested_time_info_mod64_use_timer :: "u32 \<Rightarrow> nat \<Rightarrow> ptp_reply \<Rightarrow> ptp_time_info_mod64 \<Rightarrow> ptp_time_info_mod64" where
  "ptp_get_requested_time_info_mod64_use_timer thiscore_now tile r info =
     (case r of
        Time_info_mod64 othercore_now local_ts hi lo ptp_adjust inv_ptp_adjust server_core_id \<Rightarrow>
          \<lparr>tm_local_ts = (if server_core_id \<noteq> tile then local_ts - (othercore_now - thiscore_now - 3) else local_ts),
           tm_ptp_ts_hi = hi, tm_ptp_ts_lo = lo, tm_ptp_adjust = ptp_adjust, tm_inv_ptp_adjust = inv_ptp_adjust\<rparr>
      | _ \<Rightarrow> info)"

text \<open>A request and its answer, with the readings of the two counters.\<close>

definition ptp_get_time_info :: "u32 \<Rightarrow> nat \<Rightarrow> u32 \<Rightarrow> nat \<Rightarrow> gptp_st \<Rightarrow> ptp_time_info \<Rightarrow> ptp_time_info" where
  "ptp_get_time_info thiscore_now tile server_now server_tile st info =
     (case fst (ptp_process_client_request server_now server_tile PTP_GET_TIME_INFO st) of
        Some r \<Rightarrow> ptp_get_requested_time_info thiscore_now tile r info
      | None \<Rightarrow> info)"

definition ptp_get_time_info_mod64 :: "u32 \<Rightarrow> nat \<Rightarrow> u32 \<Rightarrow> nat \<Rightarrow> gptp_st \<Rightarrow> ptp_time_info_mod64 \<Rightarrow> ptp_time_info_mod64" where
  "ptp_get_time_info_mod64 thiscore_now tile server_now server_tile st info =
     (case fst (ptp_process_client_request server_now server_tile PTP_GET_TIME_INFO_MOD64 st) of
        Some r \<Rightarrow> ptp_get_requested_time_info_mod64_use_timer thiscore_now tile r info
      | None \<Rightarrow> info)"

end
