(* ===== verification/Ptp_Server_Proofs.thy ===== *)
theory Ptp_Server_Proofs
  imports Ptp_Server Gptp_Proofs
begin

text \<open>The threads on different tiles agree on the time.\<close>

lemma time_depends_on_difference:
  assumes "t - tm_local_ts i = t' - tm_local_ts j" "tm_ptp_ts_lo i = tm_ptp_ts_lo j" "tm_ptp_ts_hi i = tm_ptp_ts_hi j"
    "tm_ptp_adjust i = tm_ptp_adjust j"
  shows "local_timestamp_to_ptp_mod32 t i = local_timestamp_to_ptp_mod32 t' j"
    and "local_timestamp_to_ptp_mod64 t i = local_timestamp_to_ptp_mod64 t' j"
  using assms by (simp_all add: local_timestamp_to_ptp_mod32_def local_timestamp_to_ptp_mod64_def)

text \<open>
  C38. One time on all tiles. The counters of two tiles run at the same speed, \<open>a\<close> and \<open>b\<close> ahead of a common time;
  the client reads its own at \<open>g\<close>, and the server answers \<open>latency\<close> ticks later. What the client computes for
  the instant \<open>x\<close> from the time information is what the server itself computes for an instant that is later by the
  latency less 3 ticks: the same time, in both resolutions, when the latency is the 3 ticks the code allows for. On the
  tile of the server the information is exact whatever the latency.
\<close>
theorem ptp_time_on_two_tiles:
  assumes client: "this_now = g + b" and other: "other_now = g + latency + a"
    and i: "i = ptp_get_time_info_mod64 this_now tile other_now server_tile st info"
    and j: "j = ptp_get_local_time_info_mod64 st"
  shows "(tile \<noteq> server_tile \<longrightarrow>
      local_timestamp_to_ptp_mod32 (x + b) i = local_timestamp_to_ptp_mod32 (x + (latency - 3) + a) j \<and>
      local_timestamp_to_ptp_mod64 (x + b) i = local_timestamp_to_ptp_mod64 (x + (latency - 3) + a) j) \<and>
    (tile = server_tile \<longrightarrow> i = j)"
proof -
  obtain hi lo where r: "ptp_get_reference_ptp_ts_mod_64 (ptp_reference_ptp_ts st) = (hi, lo)" by force
  have j': "j = \<lparr>tm_local_ts = ptp_reference_local_ts st, tm_ptp_ts_hi = hi, tm_ptp_ts_lo = lo,
      tm_ptp_adjust = g_ptp_adjust st, tm_inv_ptp_adjust = g_inv_ptp_adjust st\<rparr>"
    by (simp add: j ptp_get_local_time_info_mod64_def r)
  have i': "i = \<lparr>tm_local_ts = (if server_tile \<noteq> tile then ptp_reference_local_ts st - (other_now - this_now - 3)
        else ptp_reference_local_ts st), tm_ptp_ts_hi = hi, tm_ptp_ts_lo = lo,
      tm_ptp_adjust = g_ptp_adjust st, tm_inv_ptp_adjust = g_inv_ptp_adjust st\<rparr>"
    by (simp add: i ptp_get_time_info_mod64_def ptp_process_client_request_def r ptp_get_requested_time_info_mod64_use_timer_def)
  show ?thesis
  proof (intro conjI impI)
    assume t: "tile \<noteq> server_tile"
    have d: "x + b - tm_local_ts i = x + (latency - 3) + a - tm_local_ts j"
      using t by (simp add: i' j' client other)
    show "local_timestamp_to_ptp_mod32 (x + b) i = local_timestamp_to_ptp_mod32 (x + (latency - 3) + a) j"
      by (rule time_depends_on_difference(1) [OF d]) (simp_all add: i' j')
    show "local_timestamp_to_ptp_mod64 (x + b) i = local_timestamp_to_ptp_mod64 (x + (latency - 3) + a) j"
      by (rule time_depends_on_difference(2) [OF d]) (simp_all add: i' j')
  next
    assume "tile = server_tile"
    then show "i = j" by (simp add: i' j')
  qed
qed

definition no_time_info :: ptp_time_info_mod64 where
  "no_time_info = \<lparr>tm_local_ts = 0, tm_ptp_ts_hi = 0, tm_ptp_ts_lo = 0, tm_ptp_adjust = 0, tm_inv_ptp_adjust = 0\<rparr>"

theorem ptp_time_on_two_tiles_witness:
  "local_timestamp_to_ptp_mod32 5200 (ptp_get_time_info_mod64 1200 1 1103 0 gptp_example no_time_info) =
     local_timestamp_to_ptp_mod32 5100 (ptp_get_local_time_info_mod64 gptp_example)"
proof -
  have "(1200 :: u32) = 1000 + 200" "(1103 :: u32) = 1000 + 3 + 100" by simp_all
  from ptp_time_on_two_tiles [OF this refl refl, where tile = 1 and server_tile = 0 and st = gptp_example and
      info = no_time_info and x = 5000]
  show ?thesis by simp
qed

end
