(* ===== verification/Media_Clock_Client.thy ===== *)
theory Media_Clock_Client
  imports Media_Clock_Proofs Avb_Api
begin

text \<open>
  The clients of the media clock server: the control thread (\<open>avb_media_clock.xc\<close>), whose calls are commands with
  their answers, and the listener (\<open>media_clock_client.xc\<close>), which announces a FIFO by three bytes. The view that the
  control API has of the clocks is a projection of the state of the server.
\<close>

section \<open>The control thread\<close>

definition media_clock_set_rate :: "nat \<Rightarrow> int \<Rightarrow> media_clock_t list \<Rightarrow> media_clock_t list" where
  "media_clock_set_rate k rate = media_clock_command (MEDIA_CLOCK_SET_RATE k (word_of_int rate))"

definition media_clock_get_rate :: "nat \<Rightarrow> media_clock_t list \<Rightarrow> int option" where
  "media_clock_get_rate k = media_clock_answer (MEDIA_CLOCK_GET_RATE k)"

text \<open>Only the two types of the enumeration are sent.\<close>

definition clock_type_of :: "int \<Rightarrow> media_clock_type_t" where
  "clock_type_of x = (if x = 0 then INPUT_STREAM_DERIVED else LOCAL_CLOCK)"

definition media_clock_set_type :: "nat \<Rightarrow> int \<Rightarrow> media_clock_t list \<Rightarrow> media_clock_t list" where
  "media_clock_set_type k ty = media_clock_command (MEDIA_CLOCK_SET_TYPE k (clock_type_of ty))"

definition media_clock_get_type :: "nat \<Rightarrow> media_clock_t list \<Rightarrow> int option" where
  "media_clock_get_type k = media_clock_answer (MEDIA_CLOCK_GET_TYPE k)"

definition media_clock_set_source :: "nat \<Rightarrow> int \<Rightarrow> media_clock_t list \<Rightarrow> media_clock_t list" where
  "media_clock_set_source k x = media_clock_command (MEDIA_CLOCK_SET_SOURCE k x)"

definition media_clock_get_source :: "nat \<Rightarrow> media_clock_t list \<Rightarrow> int option" where
  "media_clock_get_source k = media_clock_answer (MEDIA_CLOCK_GET_SOURCE k)"

definition media_clock_set_state :: "nat \<Rightarrow> int \<Rightarrow> media_clock_t list \<Rightarrow> media_clock_t list" where
  "media_clock_set_state k state = media_clock_command (MEDIA_CLOCK_SET_STATE k (state = 1))"

definition media_clock_get_state :: "nat \<Rightarrow> media_clock_t list \<Rightarrow> int option" where
  "media_clock_get_state k = media_clock_answer (MEDIA_CLOCK_GET_STATE k)"

section \<open>The listener\<close>

datatype buf_ctl_notification = BUF_CTL_GOT_INFO | BUF_CTL_NEW_STREAM

text \<open>The bytes after the command; a handle is the address of a FIFO.\<close>

definition notify_bytes :: "int \<Rightarrow> u8 \<times> u8" where
  "notify_bytes fifo = (word_of_int (drop_bit 8 fifo), word_of_int (fifo AND 0xff))"

definition notify_buf_ctl_of_info :: "int \<Rightarrow> buf_ctl_notification \<times> u8 \<times> u8" where
  "notify_buf_ctl_of_info fifo = (BUF_CTL_GOT_INFO, notify_bytes fifo)"

definition notify_buf_ctl_of_new_stream :: "int \<Rightarrow> buf_ctl_notification \<times> u8 \<times> u8" where
  "notify_buf_ctl_of_new_stream fifo = (BUF_CTL_NEW_STREAM, notify_bytes fifo)"

section \<open>The view of the control API\<close>

definition clock_view :: "media_clock_t \<Rightarrow> media_clock" where
  "clock_view c = \<lparr>mc_active = mk_active c, mc_rate = sint (mk_rate c),
     mc_clock_type = (case mk_clock_type c of INPUT_STREAM_DERIVED \<Rightarrow> 0 | LOCAL_CLOCK \<Rightarrow> 1), mc_source = mk_source c\<rparr>"

lemma handle_of_bytes: "0x10000 \<le> fifo \<Longrightarrow> fifo < 0x20000 \<Longrightarrow> fifo_handle (fst (notify_bytes fifo)) (snd (notify_bytes fifo)) = fifo"
proof -
  assume f: "0x10000 \<le> fifo" "fifo < 0x20000"
  obtain r where r: "fifo = 0x10000 + r" "0 \<le> r" "r < 0x10000" 
  proof
    show "fifo = 0x10000 + (fifo - 0x10000)" "0 \<le> fifo - 0x10000" "fifo - 0x10000 < 0x10000" using f by auto
  qed
  have d: "(65536 + r) div 256 mod 256 = r div 256"
  proof -
    have "(r + 256 * 256) div 256 = 256 + r div 256" by (rule div_mult_self1) simp
    moreover have "0 \<le> r div 256" using r(2) by (simp add: pos_imp_zdiv_nonneg_iff)
    moreover have "r div 256 < 256" using r(3) zdiv_mono1 [of r 65535 256] by simp
    ultimately show ?thesis by (simp add: add.commute)
  qed
  have "uint (word_of_int (drop_bit 8 fifo) :: u8) = (65536 + r) div 256 mod 256"
    by (simp only: r(1) uint_word_of_int drop_bit_eq_div) simp
  then have "uint (word_of_int (drop_bit 8 fifo) :: u8) = r div 256" by (simp only: d)
  moreover have "fifo AND 0xff = take_bit 8 fifo" by (simp add: take_bit_eq_mask mask_eq_exp_minus_1)
  then have "uint (word_of_int (fifo AND 0xff) :: u8) = (r + 65536) mod 256"
    by (simp add: uint_word_of_int take_bit_eq_mod r(1) add.commute)
  moreover have "(r + 65536) mod 256 = r mod 256" using mod_mult_self1 [of r 256 256] by simp
  moreover have "or r 0x10000 = r + 0x10000"
  proof -
    have "and r 0x10000 = 0"
    proof -
      have "r = take_bit 16 r" using r by (simp add: take_bit_int_eq_self)
      then have "and r 0x10000 = and (take_bit 16 r) (push_bit 16 1)" by (simp add: push_bit_eq_mult)
      also have "\<dots> = 0" unfolding bit_eq_iff bit_and_iff bit_take_bit_iff bit_push_bit_iff by auto
      finally show ?thesis .
    qed
    then show ?thesis by (simp add: plus_and_or [of r, symmetric])
  qed
  ultimately show ?thesis by (simp add: fifo_handle_def notify_bytes_def r(1))
qed


section \<open>Notifications\<close>

lemma foldl_last_match:
  "(\<And>j. j < n \<Longrightarrow> P j \<longleftrightarrow> j = i) \<Longrightarrow> foldl (\<lambda>r j. if P j then int j else r) a [0..<n] = (if i < n then int i else a)"
  by (induction n) auto

lemma get_buf_info_nth:
  "distinct (map bi_fifo bs) \<Longrightarrow> i < length bs \<Longrightarrow> get_buf_info (bi_fifo (bs ! i)) bs = int i"
  using foldl_last_match [where n = "length bs" and P = "\<lambda>j. bi_fifo (bs ! j) = bi_fifo (bs ! i)" and i = i and a = "- 1"]
  by (auto simp: get_buf_info_def distinct_conv_nth)

text \<open>
  A notification finds its FIFO. The FIFOs have different addresses in the memory of the tile, which starts at 64 KB
  and is as large. When the listener announces a new stream on FIFO \<open>i\<close> by two bytes of its address, the
  server assigns the media clock to the buffer of that FIFO and to no other, and the table of FIFOs stays as it is, so that
  it is so again for the next announcement.
\<close>

theorem new_stream_reaches_buffer:
  assumes bs: "distinct (map bi_fifo bs)" "\<forall>b\<in>set bs. 0x10000 \<le> bi_fifo b \<and> bi_fifo b < 0x20000" and i: "i < length bs"
    and n: "(cmd, hi, lo) = notify_buf_ctl_of_new_stream (bi_fifo (bs ! i))"
  shows "cmd = BUF_CTL_NEW_STREAM \<and>
    (\<exists>bs'. media_clock_server_step pll N (Buf_ctl_new_stream hi lo clock) (bs, clks) = Some ([], bs', clks) \<and>
       bi_media_clock (bs' ! i) = clock \<and> map bi_fifo bs' = map bi_fifo bs \<and> (\<forall>j. j \<noteq> i \<longrightarrow> bs' ! j = bs ! j))"
proof -
  have "fifo_handle hi lo = bi_fifo (bs ! i)"
  proof -
    have "notify_bytes (bi_fifo (bs ! i)) = (hi, lo)" using n by (simp add: notify_buf_ctl_of_new_stream_def)
    then show ?thesis using handle_of_bytes [of "bi_fifo (bs ! i)"] bs(2) i by simp
  qed
  then have "get_buf_info (fifo_handle hi lo) bs = int i" using bs(1) i by (simp add: get_buf_info_nth)
  moreover have "map bi_fifo (bs[i := (bs ! i)\<lparr>bi_media_clock := clock\<rparr>]) = map bi_fifo bs"
    using i by (simp add: map_update list_update_same_conv)
  ultimately show ?thesis using n i by (simp add: media_clock_server_step_def notify_buf_ctl_of_new_stream_def)
qed

section \<open>The control API on the server\<close>

lemma modify_view:
  "k < length clks \<Longrightarrow> modify_nth k f (map clock_view clks) = map clock_view (clks[k := c]) \<longleftrightarrow> f (clock_view (clks ! k)) = clock_view c"
  by (auto simp: modify_nth_def map_update dest: arg_cong [where f = "\<lambda>xs. xs ! k"])

lemmas clock_api_defs =
  set_device_media_clock_rate_def get_device_media_clock_rate_def getset_device_media_clock_rate_def
  set_device_media_clock_source_def get_device_media_clock_source_def getset_device_media_clock_source_def
  set_device_media_clock_type_def get_device_media_clock_type_def getset_device_media_clock_type_def
  set_device_media_clock_state_def get_device_media_clock_state_def getset_device_media_clock_state_def
  getset_clock_def clock_access_def

lemmas clock_client_defs =
  media_clock_set_rate_def media_clock_get_rate_def media_clock_set_source_def media_clock_get_source_def
  media_clock_set_type_def media_clock_get_type_def media_clock_set_state_def media_clock_get_state_def
  media_clock_command_def media_clock_answer_def

text \<open>
  The control API is an image of the clock server. For a clock of the device, setting the rate, the source, the type or
  the state through the API is the command to the server, seen through the view that the API has of a clock, and a
  get function returns what the server answers.
\<close>

theorem clock_api_refined:
  assumes k: "k < length clks"
  shows "(- 2147483648 \<le> rate \<and> rate < 2147483648 \<longrightarrow>
      set_device_media_clock_rate k rate (True, map clock_view clks) =
        Some (True, map clock_view (media_clock_set_rate k rate clks))) \<and>
    set_device_media_clock_source k src (True, map clock_view clks) =
      Some (True, map clock_view (media_clock_set_source k src clks)) \<and>
    (ty = 0 \<or> ty = 1 \<longrightarrow> set_device_media_clock_type k ty (True, map clock_view clks) =
      Some (True, map clock_view (media_clock_set_type k ty clks))) \<and>
    set_device_media_clock_state k state (True, map clock_view clks) =
      Some (True, map clock_view (media_clock_set_state k state clks)) \<and>
    get_device_media_clock_rate k a (True, map clock_view clks) = media_clock_get_rate k clks \<and>
    get_device_media_clock_source k a (True, map clock_view clks) = media_clock_get_source k clks \<and>
    get_device_media_clock_type k a (True, map clock_view clks) = media_clock_get_type k clks \<and>
    get_device_media_clock_state k a (True, map clock_view clks) = media_clock_get_state k clks"
proof (intro conjI impI)
  assume "- 2147483648 \<le> rate \<and> rate < 2147483648"
  then have "sint (word_of_int rate :: u32) = rate" by (simp add: sint_sbintrunc' signed_take_bit_int_eq_self)
  then show "set_device_media_clock_rate k rate (True, map clock_view clks) =
      Some (True, map clock_view (media_clock_set_rate k rate clks))"
    using k by (simp add: clock_api_defs clock_client_defs modify_view) (simp add: clock_view_def)
next
  assume "ty = 0 \<or> ty = 1"
  then show "set_device_media_clock_type k ty (True, map clock_view clks) =
      Some (True, map clock_view (media_clock_set_type k ty clks))"
    using k by (auto simp: clock_api_defs clock_client_defs modify_view clock_type_of_def) (simp_all add: clock_view_def)
next
  show "set_device_media_clock_source k src (True, map clock_view clks) =
      Some (True, map clock_view (media_clock_set_source k src clks))"
    using k by (simp add: clock_api_defs clock_client_defs modify_view) (simp add: clock_view_def)
next
  show "set_device_media_clock_state k state (True, map clock_view clks) =
      Some (True, map clock_view (media_clock_set_state k state clks))"
    using k by (auto simp: clock_api_defs clock_client_defs modify_view) (simp_all add: clock_view_def)
qed (use k in \<open>simp_all add: clock_api_defs clock_client_defs clock_view_def\<close>)


definition example_buf :: "int \<Rightarrow> buf_info_t" where
  "example_buf f = \<lparr>bi_lock_count = 0, bi_prev_diff = 0, bi_stability_count = 0, bi_media_clock = 0, bi_fifo = f, bi_adjust = 0\<rparr>"

theorem new_stream_reaches_buffer_witness:
  "\<exists>bs'. media_clock_server_step False 10 (Buf_ctl_new_stream 0x12 0x34 7) (map example_buf [0x10100, 0x11234], []) =
     Some ([], bs', []) \<and> bi_media_clock (bs' ! 1) = 7"
proof -
  have "distinct (map bi_fifo (map example_buf [0x10100, 0x11234]))" by (simp add: example_buf_def)
  moreover have "\<forall>b\<in>set (map example_buf [0x10100, 0x11234]). 0x10000 \<le> bi_fifo b \<and> bi_fifo b < 0x20000"
    by (simp add: example_buf_def)
  moreover have "(BUF_CTL_NEW_STREAM, 0x12, 0x34) =
      notify_buf_ctl_of_new_stream (bi_fifo (map example_buf [0x10100, 0x11234] ! 1))"
    by (simp add: notify_buf_ctl_of_new_stream_def notify_bytes_def example_buf_def drop_bit_eq_div)
  ultimately show ?thesis using new_stream_reaches_buffer [where i = 1 and clock = 7 and clks = "[]" and N = 10 and pll = False]
    by fastforce
qed

theorem clock_api_refined_witness:
  "set_device_media_clock_rate 0 44100 (True, map clock_view [example_clock]) =
     Some (True, map clock_view (media_clock_set_rate 0 44100 [example_clock]))"
  using clock_api_refined [where k = 0 and clks = "[example_clock]" and rate = 44100] by simp

end
