(* ===== verification/Fifo_Handover.thy ===== *)
theory Fifo_Handover
  imports Audio_I2s_Proofs Talker_Proofs
begin

unbundle bit_operations_syntax

text \<open>
  The talker and the audio thread run at the same time on the enable words and on a FIFO. Their interleavings are a
  step relation. The audio thread takes the request word at the beginning of a sample period, serves the FIFO once
  in the period, and writes the indication at the end. The talker starts and stops its stream whenever a command tells
  it to, without looking at the indication, and reads packets while its stream is active and the indication is on; other
  talkers change the requests for their own FIFOs. \<open>media_input_fifo.h\<close> asks talkers to wait until the indication shows their
  last request before the next one. The code leaves that to the pace of the commands: \<open>spaced_step\<close> has the runs in
  which a number of sample periods end between two of them.
\<close>

section \<open>The interleavings\<close>

datatype fifo_op = Fed u32 u32 | Released

definition apply_op :: "fifo_op \<Rightarrow> ififo_t \<Rightarrow> ififo_t" where
  "apply_op p f =
     (case p of Fed w ts \<Rightarrow> media_input_fifo_push_sample (drop_bit 8 (bitrev w)) ts f | Released \<Rightarrow> media_input_fifo_release_packet f)"

text \<open>\<open>ho_pass\<close> is the request word of the sample period under way, and whether the FIFO has been served.
  Two histories, which no step reads: \<open>ho_since\<close> is what was done to the FIFO since the talker last started, \<open>ho_ended\<close>
  how many sample periods have ended since it last started or stopped.\<close>

record handover =
  ho_enable :: ififo_enable
  ho_fifo :: ififo_t
  ho_pass :: "(u32 \<times> bool) option"
  ho_stream :: talker_stream
  ho_since :: "fifo_op list"
  ho_ended :: nat

definition ho_ind :: "handover \<Rightarrow> u32" where
  "ho_ind s = media_input_fifo_enable_ind_state (ho_enable s) AND tk_fifo_mask (ho_stream s)"

inductive handover_step :: "nat \<Rightarrow> handover \<Rightarrow> handover \<Rightarrow> bool" for n where
  Period_begins: "ho_pass s = None \<Longrightarrow>
    handover_step n s (s\<lparr>ho_pass := Some (media_input_fifo_enable_req_state (ho_enable s), False)\<rparr>)"
| Period_feeds: "ho_pass s = Some (a, False) \<Longrightarrow>
    handover_step n s (s\<lparr>ho_pass := Some (a, True), ho_fifo := fed_fifo a ts n w (ho_fifo s),
      ho_since := ho_since s @ (if bit a n then [Fed w ts] else [])\<rparr>)"
| Period_ends: "ho_pass s = Some (a, True) \<Longrightarrow>
    handover_step n s (s\<lparr>ho_pass := None,
      ho_enable := media_input_fifo_update_enable_ind_state a 0xFFFFFFFF (ho_enable s), ho_ended := ho_ended s + 1\<rparr>)"
| Talker_starts: "tk_active (ho_stream s) = 1 \<Longrightarrow>
    start_stream (ho_stream s) (ho_enable s) = (st, en) \<Longrightarrow>
    handover_step n s (s\<lparr>ho_stream := st, ho_enable := en, ho_since := [], ho_ended := 0\<rparr>)"
| Talker_stops: "tk_active (ho_stream s) = 2 \<Longrightarrow>
    stop_stream (ho_stream s) (ho_enable s) = (st, en) \<Longrightarrow>
    handover_step n s (s\<lparr>ho_stream := st, ho_enable := en, ho_ended := 0\<rparr>)"
| Talker_reads: "tk_active (ho_stream s) = 2 \<Longrightarrow> ho_ind s \<noteq> 0 \<Longrightarrow> media_input_fifo_get_packet (ho_fifo s) = Some p \<Longrightarrow>
    handover_step n s (s\<lparr>ho_fifo := media_input_fifo_release_packet (ho_fifo s), ho_since := ho_since s @ [Released]\<rparr>)"
| Other_starts: "m AND tk_fifo_mask (ho_stream s) = 0 \<Longrightarrow>
    handover_step n s (s\<lparr>ho_enable := media_input_fifo_enable_fifos m (ho_enable s)\<rparr>)"
| Other_stops: "m AND tk_fifo_mask (ho_stream s) = 0 \<Longrightarrow>
    handover_step n s (s\<lparr>ho_enable := media_input_fifo_disable_fifos m (ho_enable s)\<rparr>)"

text \<open>The stream starts and stops only when at least \<open>gap\<close> sample periods have ended since the last time it did.\<close>

definition spaced_step :: "nat \<Rightarrow> nat \<Rightarrow> handover \<Rightarrow> handover \<Rightarrow> bool" where
  "spaced_step gap n s s' \<longleftrightarrow>
     handover_step n s s' \<and> (tk_active (ho_stream s') \<noteq> tk_active (ho_stream s) \<longrightarrow> gap \<le> ho_ended s)"

lemma spaced_handover: "(spaced_step gap n)\<^sup>*\<^sup>* s s' \<Longrightarrow> (handover_step n)\<^sup>*\<^sup>* s s'"
  by (induction rule: rtranclp_induct) (auto simp: spaced_step_def intro: rtranclp.rtrancl_into_rtrancl)

section \<open>Words and masks\<close>

definition agrees :: "bool \<Rightarrow> u32 \<Rightarrow> u32 \<Rightarrow> bool" where
  "agrees b m x \<longleftrightarrow> (\<forall>k. bit m k \<longrightarrow> bit x k = b)"

lemma agrees_off: "x AND m = 0 \<longleftrightarrow> agrees False m x"
proof -
  have "x AND m = 0 \<longleftrightarrow> (\<forall>k. \<not> bit (x AND m) k)" by (metis bit_0_eq bot_apply bot_bool_def bit_eqI)
  then show ?thesis by (auto simp: agrees_def bit_and_iff)
qed

lemma agrees_bit: "bit m n \<Longrightarrow> agrees b m x \<Longrightarrow> bit x n = b"
  by (simp add: agrees_def)

lemma agrees_on: "bit m n \<Longrightarrow> agrees b m x \<Longrightarrow> x AND m = 0 \<longleftrightarrow> \<not> b"
  by (cases b) (auto simp: agrees_off agrees_def)

lemma agrees_cong: "(\<And>k. bit m k \<Longrightarrow> bit x k = bit y k) \<Longrightarrow> agrees b m x = agrees b m y"
  by (simp add: agrees_def)

lemma agrees_request:
  "agrees True m (x OR m)" "agrees False m (x AND NOT m)"
  by (simp_all add: agrees_def bit_or_iff bit_and_iff bit_not_iff)

lemma agrees_other:
  assumes "y AND m = 0"
  shows "agrees b m (x OR y) = agrees b m x" and "agrees b m (x AND NOT y) = agrees b m x"
  using assms unfolding agrees_off by (intro agrees_cong; auto simp: agrees_def bit_or_iff bit_and_iff bit_not_iff dest: bit_imp_le_length)+

lemma indicate_all:
  assumes "en_lock e"
  shows "media_input_fifo_update_enable_ind_state a 0xFFFFFFFF e = e\<lparr>en_indication_state := a\<rparr>"
proof -
  have n: "NOT 0xFFFFFFFF = (0 :: u32)" by simp
  show ?thesis using assms unfolding media_input_fifo_update_enable_ind_state_def n by simp
qed

section \<open>Safety of the hand over\<close>

definition flushed :: "ififo_t \<Rightarrow> bool" where
  "flushed f \<longleftrightarrow> (\<exists>g. f = media_input_fifo_flush g)"

definition made_by :: "fifo_op list \<Rightarrow> ififo_t \<Rightarrow> bool" where
  "made_by ops f \<longleftrightarrow> (\<exists>g. f = fold apply_op ops (media_input_fifo_flush g))"

lemma made_by_Nil: "made_by [] f = flushed f"
  by (simp add: made_by_def flushed_def)

lemma made_by_snoc: "made_by ops f \<Longrightarrow> made_by (ops @ [p]) (apply_op p f)"
  by (auto simp: made_by_def)

lemma flushed_flush: "flushed (media_input_fifo_flush f)"
  by (auto simp: flushed_def)

text \<open>What the words say about the FIFO: whether it is requested, indicated, and what the period under way does with it.\<close>

definition shape :: "nat \<Rightarrow> handover \<Rightarrow> bool \<Rightarrow> bool \<Rightarrow> (bool \<times> bool) option \<Rightarrow> bool" where
  "shape n s on i p \<longleftrightarrow>
     (let m = tk_fifo_mask (ho_stream s)
      in en_lock (ho_enable s) \<and> bit m n \<and> tk_active (ho_stream s) = (if on then 2 else 1) \<and>
         agrees on m (en_request_state (ho_enable s)) \<and> agrees i m (en_indication_state (ho_enable s)) \<and>
         rel_option (\<lambda>(a, d) (b, d'). agrees b m a \<and> d = d') (ho_pass s) p)"

text \<open>And what follows for its content.\<close>

definition content :: "bool \<Rightarrow> bool \<Rightarrow> (bool \<times> bool) option \<Rightarrow> fifo_op list \<Rightarrow> ififo_t \<Rightarrow> bool" where
  "content on i p ops f \<longleftrightarrow>
     (\<forall>b d. p = Some (b, d) \<longrightarrow> (on = i \<longrightarrow> b = on) \<and> (\<not> b \<and> d \<longrightarrow> flushed f)) \<and>
     (on \<longrightarrow> made_by ops f) \<and>
     (\<not> i \<and> p \<noteq> Some (True, True) \<longrightarrow> flushed f \<and> (on \<longrightarrow> ops = []))"

text \<open>
  Once a sample period has ended since the last request, a period under way follows it, and once two have, so does the
  indication.
\<close>

definition settled :: "bool \<Rightarrow> bool \<Rightarrow> (bool \<times> bool) option \<Rightarrow> nat \<Rightarrow> bool" where
  "settled on i p k \<longleftrightarrow> (1 \<le> k \<longrightarrow> (\<forall>b d. p = Some (b, d) \<longrightarrow> b = on)) \<and> (2 \<le> k \<longrightarrow> i = on)"

definition handover_inv :: "nat \<Rightarrow> handover \<Rightarrow> bool" where
  "handover_inv n s \<longleftrightarrow> (\<exists>on i p. shape n s on i p \<and> content on i p (ho_since s) (ho_fifo s) \<and> settled on i p (ho_ended s))"

lemma ho_ind_shape: "shape n s on i p \<Longrightarrow> ho_ind s = 0 \<longleftrightarrow> \<not> i"
  using agrees_on by (auto simp: shape_def Let_def ho_ind_def media_input_fifo_enable_ind_state_def)

lemma handover_invI:
  "shape n s on i p \<Longrightarrow> content on i p (ho_since s) (ho_fifo s) \<Longrightarrow> settled on i p (ho_ended s) \<Longrightarrow> handover_inv n s"
  by (auto simp: handover_inv_def)

text \<open>What a step does to the words and to the FIFO.\<close>

lemma handover_cases:
  assumes step: "handover_step n s s'" and S: "shape n s on i p"
  obtains
    (begins) "p = None" "shape n s' on i (Some (on, False))" "ho_fifo s' = ho_fifo s" "ho_since s' = ho_since s" "ho_ended s' = ho_ended s"
  | (fed) w ts where "p = Some (True, False)" "shape n s' on i (Some (True, True))" "ho_fifo s' = apply_op (Fed w ts) (ho_fifo s)"
      "ho_since s' = ho_since s @ [Fed w ts]" "ho_ended s' = ho_ended s"
  | (flushes) "p = Some (False, False)" "shape n s' on i (Some (False, True))" "flushed (ho_fifo s')" "ho_since s' = ho_since s"
      "ho_ended s' = ho_ended s"
  | (ends) b where "p = Some (b, True)" "shape n s' on b None" "ho_fifo s' = ho_fifo s" "ho_since s' = ho_since s"
      "ho_ended s' = Suc (ho_ended s)"
  | (starts) "\<not> on" "shape n s' True i p" "tk_active (ho_stream s') \<noteq> tk_active (ho_stream s)" "ho_fifo s' = ho_fifo s" "ho_since s' = []"
      "ho_ended s' = 0"
  | (stops) "on" "shape n s' False i p" "tk_active (ho_stream s') \<noteq> tk_active (ho_stream s)" "ho_fifo s' = ho_fifo s" "ho_since s' = ho_since s"
      "ho_ended s' = 0"
  | (reads) "on" "i" "shape n s' on i p" "ho_fifo s' = apply_op Released (ho_fifo s)" "ho_since s' = ho_since s @ [Released]"
      "ho_ended s' = ho_ended s"
  | (others) "shape n s' on i p" "ho_fifo s' = ho_fifo s" "ho_since s' = ho_since s" "ho_ended s' = ho_ended s"
  using step
proof cases
  case Period_begins
  then have "p = None" using S by (auto simp: shape_def Let_def)
  moreover have "shape n s' on i (Some (on, False))"
    using S Period_begins by (simp add: shape_def Let_def media_input_fifo_enable_req_state_def)
  ultimately show thesis by (rule begins) (simp_all add: Period_begins)
next
  case (Period_feeds a w ts)
  then obtain b where p: "p = Some (b, False)" and b: "agrees b (tk_fifo_mask (ho_stream s)) a" "bit a n = b"
    using S agrees_bit by (auto simp: shape_def Let_def option_rel_Some1)
  have sh: "shape n s' on i (Some (b, True))" using S Period_feeds b p by (simp add: shape_def Let_def)
  show thesis
  proof (cases b)
    case True
    then show thesis using p sh Period_feeds b by (intro fed [of w ts]) (simp_all add: fed_fifo_bit apply_op_def)
  next
    case False
    then show thesis using p sh Period_feeds b by (intro flushes) (simp_all add: fed_fifo_bit flushed_flush)
  qed
next
  case (Period_ends a)
  then obtain b where p: "p = Some (b, True)" and b: "agrees b (tk_fifo_mask (ho_stream s)) a"
    using S by (auto simp: shape_def Let_def option_rel_Some1)
  have "en_lock (ho_enable s)" using S by (simp add: shape_def Let_def)
  then have "shape n s' on b None" using S Period_ends b by (simp add: shape_def Let_def indicate_all)
  with p show thesis by (rule ends) (simp_all add: Period_ends)
next
  case (Talker_starts st en)
  with S have off: "\<not> on" by (auto simp: shape_def Let_def split: if_splits)
  have "shape n s' True i p" "tk_active (ho_stream s') \<noteq> tk_active (ho_stream s)"
    using S off Talker_starts by (auto simp: shape_def Let_def start_stream_def media_input_fifo_enable_fifos_def agrees_request)
  with off show thesis by (rule starts) (simp_all add: Talker_starts)
next
  case (Talker_stops st en)
  with S have on: "on" by (auto simp: shape_def Let_def split: if_splits)
  have "shape n s' False i p" "tk_active (ho_stream s') \<noteq> tk_active (ho_stream s)"
    using S on Talker_stops by (auto simp: shape_def Let_def stop_stream_def media_input_fifo_disable_fifos_def agrees_request)
  with on show thesis by (rule stops) (simp_all add: Talker_stops)
next
  case (Talker_reads x)
  with S ho_ind_shape [OF S] have "on" "i" by (auto simp: shape_def Let_def split: if_splits)
  moreover have "shape n s' on i p" using S Talker_reads by (simp add: shape_def Let_def)
  ultimately show thesis by (rule reads) (simp_all add: Talker_reads apply_op_def)
next
  case (Other_starts m)
  then have "shape n s' on i p" using S by (simp add: shape_def Let_def media_input_fifo_enable_fifos_def agrees_other)
  then show thesis by (rule others) (simp_all add: Other_starts)
next
  case (Other_stops m)
  then have "shape n s' on i p" using S by (simp add: shape_def Let_def media_input_fifo_disable_fifos_def agrees_other)
  then show thesis by (rule others) (simp_all add: Other_stops)
qed

text \<open>Whatever the pace of the commands: two sample periods after the last one the FIFO of a stopped stream is flushed.\<close>

definition calm_inv :: "nat \<Rightarrow> handover \<Rightarrow> bool" where
  "calm_inv n s \<longleftrightarrow> (\<exists>on i p. shape n s on i p \<and> settled on i p (ho_ended s) \<and>
     (\<not> on \<and> (2 \<le> ho_ended s \<or> 1 \<le> ho_ended s \<and> (\<exists>b. p = Some (b, True))) \<longrightarrow> flushed (ho_fifo s)))"

lemma calm_invI:
  "shape n s on i p \<Longrightarrow> settled on i p (ho_ended s) \<Longrightarrow>
     (\<not> on \<Longrightarrow> 2 \<le> ho_ended s \<or> 1 \<le> ho_ended s \<and> (\<exists>b. p = Some (b, True)) \<Longrightarrow> flushed (ho_fifo s)) \<Longrightarrow> calm_inv n s"
  unfolding calm_inv_def by blast

lemma calm_preserves:
  assumes step: "handover_step n s s'" and inv: "calm_inv n s"
  shows "calm_inv n s'"
proof -
  obtain on i p where S: "shape n s on i p" and E: "settled on i p (ho_ended s)"
    and F: "\<not> on \<and> (2 \<le> ho_ended s \<or> 1 \<le> ho_ended s \<and> (\<exists>b. p = Some (b, True))) \<longrightarrow> flushed (ho_fifo s)"
    using inv unfolding calm_inv_def by blast
  from step S show ?thesis
  proof (cases rule: handover_cases)
    case begins
    then show ?thesis using E F by (intro calm_invI [of _ _ on i "Some (on, False)"]) (auto simp: settled_def)
  next
    case fed
    then show ?thesis using E F by (intro calm_invI [of _ _ on i "Some (True, True)"]) (auto simp: settled_def)
  next
    case flushes
    then show ?thesis using E by (intro calm_invI [of _ _ on i "Some (False, True)"]) (auto simp: settled_def)
  next
    case (ends b)
    then show ?thesis using E F by (intro calm_invI [of _ _ on b None]) (auto simp: settled_def)
  next
    case starts
    then show ?thesis by (intro calm_invI [of _ _ True i p]) (auto simp: settled_def)
  next
    case stops
    then show ?thesis by (intro calm_invI [of _ _ False i p]) (auto simp: settled_def)
  next
    case reads
    then show ?thesis using E by (intro calm_invI [of _ _ on i p]) (auto simp: settled_def)
  next
    case others
    then show ?thesis using E F by (intro calm_invI [of _ _ on i p]) (auto simp: settled_def)
  qed
qed

text \<open>With two sample periods between the commands, nothing of an earlier stream is in the FIFO either.\<close>

lemma handover_preserves:
  assumes step: "spaced_step 2 n s s'" and inv: "handover_inv n s"
  shows "handover_inv n s'"
proof -
  obtain on i p where S: "shape n s on i p" and C: "content on i p (ho_since s) (ho_fifo s)"
    and E: "settled on i p (ho_ended s)"
    using inv by (auto simp: handover_inv_def)
  have st: "handover_step n s s'" and calm: "tk_active (ho_stream s') \<noteq> tk_active (ho_stream s) \<longrightarrow> i = on"
    using step E by (auto simp: spaced_step_def settled_def)
  from st S show ?thesis
  proof (cases rule: handover_cases)
    case begins
    then show ?thesis using C E by (intro handover_invI [of _ _ on i "Some (on, False)"]) (auto simp: content_def settled_def)
  next
    case fed
    then show ?thesis using C E made_by_snoc
      by (intro handover_invI [of _ _ on i "Some (True, True)"]) (auto simp: content_def settled_def)
  next
    case flushes
    then show ?thesis using C E
      by (intro handover_invI [of _ _ on i "Some (False, True)"]) (auto simp: content_def settled_def made_by_Nil)
  next
    case (ends b)
    then have "content on b None (ho_since s') (ho_fifo s')" using C by (cases b; cases on; cases i) (auto simp: content_def)
    moreover have "settled on b None (ho_ended s')" using ends E by (auto simp: settled_def)
    ultimately show ?thesis using ends by (intro handover_invI)
  next
    case starts
    then have "\<not> i" using calm by simp
    then show ?thesis using starts C by (intro handover_invI [of _ _ True i p]) (auto simp: content_def settled_def made_by_Nil)
  next
    case stops
    then have "i" using calm by simp
    then show ?thesis using stops C by (intro handover_invI [of _ _ False i p]) (auto simp: content_def settled_def)
  next
    case reads
    then show ?thesis using C E made_by_snoc [where p = Released]
      by (intro handover_invI [of _ _ on i p]) (auto simp: content_def)
  next
    case others
    then show ?thesis using C E by (intro handover_invI [of _ _ on i p]) simp_all
  qed
qed

text \<open>The stream is stopped, the indication is off and the FIFO flushed.\<close>

definition handover_init :: "nat \<Rightarrow> handover \<Rightarrow> bool" where
  "handover_init n s \<longleftrightarrow> en_lock (ho_enable s) \<and> bit (tk_fifo_mask (ho_stream s)) n \<and> tk_active (ho_stream s) = 1 \<and>
     media_input_fifo_enable_req_state (ho_enable s) AND tk_fifo_mask (ho_stream s) = 0 \<and> ho_ind s = 0 \<and> ho_pass s = None \<and>
     (\<exists>g. ho_fifo s = media_input_fifo_flush g)"

lemma handover_init_inv: "handover_init n s \<Longrightarrow> handover_inv n s"
  by (rule handover_invI [where on = False and i = False and p = None])
    (auto simp: handover_init_def shape_def content_def settled_def flushed_def ho_ind_def agrees_off media_input_fifo_enable_req_state_def
      media_input_fifo_enable_ind_state_def Let_def)

lemma handover_init_calm: "handover_init n s \<Longrightarrow> calm_inv n s"
  using handover_init_inv [of n s]
  by (auto simp: calm_inv_def handover_init_def flushed_def handover_inv_def)

lemma calm_reach: "(handover_step n)\<^sup>*\<^sup>* s s' \<Longrightarrow> calm_inv n s \<Longrightarrow> calm_inv n s'"
  by (induction rule: rtranclp_induct) (auto intro: calm_preserves)

lemma handover_reach: "(spaced_step 2 n)\<^sup>*\<^sup>* s s' \<Longrightarrow> handover_inv n s \<Longrightarrow> handover_inv n s'"
  by (induction rule: rtranclp_induct) (auto intro: handover_preserves)

lemma empty_flushed: "flushed f \<Longrightarrow> media_input_fifo_empty f"
  by (auto simp: flushed_def media_input_fifo_empty_def media_input_fifo_flush_def)

lemma shape_reads:
  assumes "shape n s on i p"
  shows "tk_active (ho_stream s) = 2 \<longleftrightarrow> on" "tk_active (ho_stream s) = 1 \<longleftrightarrow> \<not> on"
    and "bit (media_input_fifo_enable_req_state (ho_enable s)) n = on"
    and "ho_pass s = Some (a, d) \<Longrightarrow> p = Some (bit a n, d)"
proof -
  show "tk_active (ho_stream s) = 2 \<longleftrightarrow> on" "tk_active (ho_stream s) = 1 \<longleftrightarrow> \<not> on"
    using assms by (auto simp: shape_def Let_def)
  show "bit (media_input_fifo_enable_req_state (ho_enable s)) n = on"
    using assms agrees_bit by (auto simp: shape_def Let_def media_input_fifo_enable_req_state_def)
  show "ho_pass s = Some (a, d) \<Longrightarrow> p = Some (bit a n, d)"
    using assms agrees_bit by (fastforce simp: shape_def Let_def option_rel_Some1)
qed

text \<open>
  C37. The hand over of a FIFO between the audio thread and a talker, beside other talkers. In every interleaving of the code
  and whatever the pace of the commands, once two sample periods have ended since the stream last started or stopped (at 48 kHz
  some 42 microseconds) the indication shows it: a started stream has its FIFO requested, and no period under way
  flushes it; that of a stopped stream is empty and no period under way feeds it, so that the talker can set it up again.
  When two periods end between any two commands, the talker that waits for the indication is safe at all times: while it may
  read packets the FIFO is not flushed under its hands, nor about to be; all that is in the FIFO was put there after its last
  start; and when a stopped stream is indicated as off, the FIFO is empty and not fed.
\<close>

theorem handover_safe:
  assumes init: "handover_init n s" and reach: "(handover_step n)\<^sup>*\<^sup>* s s'"
  shows "(2 \<le> ho_ended s' \<longrightarrow>
      (ho_ind s' \<noteq> 0 \<longleftrightarrow> tk_active (ho_stream s') = 2) \<and>
      (tk_active (ho_stream s') = 2 \<longrightarrow> bit (media_input_fifo_enable_req_state (ho_enable s')) n \<and>
         (\<forall>a d. ho_pass s' = Some (a, d) \<longrightarrow> bit a n)) \<and>
      (tk_active (ho_stream s') = 1 \<longrightarrow> media_input_fifo_empty (ho_fifo s') \<and>
         (\<forall>a d. ho_pass s' = Some (a, d) \<longrightarrow> \<not> bit a n))) \<and>
    ((spaced_step 2 n)\<^sup>*\<^sup>* s s' \<longrightarrow>
      (tk_active (ho_stream s') = 2 \<and> ho_ind s' \<noteq> 0 \<longrightarrow>
         (\<forall>a d. ho_pass s' = Some (a, d) \<longrightarrow> bit a n) \<and> bit (media_input_fifo_enable_req_state (ho_enable s')) n) \<and>
      (tk_active (ho_stream s') = 2 \<longrightarrow> (\<exists>g. ho_fifo s' = fold apply_op (ho_since s') (media_input_fifo_flush g))) \<and>
      (tk_active (ho_stream s') = 1 \<and> ho_ind s' = 0 \<longrightarrow>
         media_input_fifo_empty (ho_fifo s') \<and> (\<forall>a d. ho_pass s' = Some (a, d) \<longrightarrow> \<not> bit a n)))"
proof (intro conjI impI)
  obtain on i p where S: "shape n s' on i p" and E: "settled on i p (ho_ended s')"
    and F: "\<not> on \<and> 2 \<le> ho_ended s' \<longrightarrow> flushed (ho_fifo s')"
    using calm_reach [OF reach handover_init_calm [OF init]] unfolding calm_inv_def by blast
  note R = shape_reads [OF S]
  assume two: "2 \<le> ho_ended s'"
  then have i: "i = on" and pass: "ho_pass s' = Some (a, d) \<Longrightarrow> bit a n = on" for a d
    using E R(4) [of a d] by (auto simp: settled_def)
  show "ho_ind s' \<noteq> 0 \<longleftrightarrow> tk_active (ho_stream s') = 2" using R ho_ind_shape [OF S] i by simp
  show "bit (media_input_fifo_enable_req_state (ho_enable s')) n" "\<forall>a d. ho_pass s' = Some (a, d) \<longrightarrow> bit a n"
    if "tk_active (ho_stream s') = 2" using that R(1,3) pass by auto
  show "media_input_fifo_empty (ho_fifo s')" "\<forall>a d. ho_pass s' = Some (a, d) \<longrightarrow> \<not> bit a n"
    if "tk_active (ho_stream s') = 1" using that R(2) pass F two empty_flushed by auto
next
  assume "(spaced_step 2 n)\<^sup>*\<^sup>* s s'"
  then have "handover_inv n s'" by (rule handover_reach) (rule handover_init_inv [OF init])
  then obtain on i p where S: "shape n s' on i p" and C: "content on i p (ho_since s') (ho_fifo s')"
    unfolding handover_inv_def by blast
  note R = shape_reads [OF S] and I = ho_ind_shape [OF S]
  have pass: "ho_pass s' = Some (a, d) \<Longrightarrow> on = i \<Longrightarrow> bit a n = on" for a d
    using R(4) [of a d] C by (auto simp: content_def)
  show "\<forall>a d. ho_pass s' = Some (a, d) \<longrightarrow> bit a n" "bit (media_input_fifo_enable_req_state (ho_enable s')) n"
    if "tk_active (ho_stream s') = 2 \<and> ho_ind s' \<noteq> 0" using that R(1,3) I pass by auto
  show "\<exists>g. ho_fifo s' = fold apply_op (ho_since s') (media_input_fifo_flush g)" if "tk_active (ho_stream s') = 2"
    using that R(1) C by (auto simp: content_def made_by_def)
  show "media_input_fifo_empty (ho_fifo s')" "\<forall>a d. ho_pass s' = Some (a, d) \<longrightarrow> \<not> bit a n"
    if "tk_active (ho_stream s') = 1 \<and> ho_ind s' = 0"
    using that R(2) I C pass empty_flushed by (auto simp: content_def)
qed


section \<open>Examples\<close>

definition ho_state :: "int \<Rightarrow> u32 \<Rightarrow> u32 \<Rightarrow> (u32 \<times> bool) option \<Rightarrow> ififo_t \<Rightarrow> fifo_op list \<Rightarrow> nat \<Rightarrow> handover" where
  "ho_state active req ind pass f ops k =
     \<lparr>ho_enable = \<lparr>en_lock = True, en_request_state = req, en_indication_state = ind\<rparr>, ho_fifo = f, ho_pass = pass,
      ho_stream = example_talker\<lparr>tk_active := active\<rparr>, ho_since = ops, ho_ended = k\<rparr>"

text \<open>A FIFO at 8 kHz, where a packet is one sample.\<close>

definition ho_fifo0 :: ififo_t where
  "ho_fifo0 = snd (media_input_fifo_enable 0 8000 example_ififo)"

lemma ho_steps:
  "spaced_step c 0 (ho_state a r i None f ops k) (ho_state a r i (Some (r, False)) f ops k)"
  "spaced_step c 0 (ho_state a r i (Some (3, False)) f ops k)
     (ho_state a r i (Some (3, True)) (apply_op (Fed w ts) f) (ops @ [Fed w ts]) k)"
  "spaced_step c 0 (ho_state a r i (Some (x, True)) f ops k) (ho_state a r x None f ops (Suc k))"
  "c \<le> k \<Longrightarrow> spaced_step c 0 (ho_state 1 0 i p f ops k) (ho_state 2 3 i p f [] 0)"
  "c \<le> k \<Longrightarrow> spaced_step c 0 (ho_state 2 3 i p f ops k) (ho_state 1 0 i p f ops 0)"
proof -
  show "spaced_step c 0 (ho_state a r i None f ops k) (ho_state a r i (Some (r, False)) f ops k)"
    using Period_begins [of "ho_state a r i None f ops k" 0]
    by (simp add: spaced_step_def ho_state_def media_input_fifo_enable_req_state_def)
  show "spaced_step c 0 (ho_state a r i (Some (3, False)) f ops k)
     (ho_state a r i (Some (3, True)) (apply_op (Fed w ts) f) (ops @ [Fed w ts]) k)"
    using Period_feeds [of "ho_state a r i (Some (3, False)) f ops k" 3 0 w ts]
    by (simp add: spaced_step_def ho_state_def fed_fifo_bit apply_op_def)
  show "spaced_step c 0 (ho_state a r i (Some (x, True)) f ops k) (ho_state a r x None f ops (Suc k))"
    using Period_ends [of "ho_state a r i (Some (x, True)) f ops k" x 0] by (simp add: spaced_step_def ho_state_def indicate_all)
  show "c \<le> k \<Longrightarrow> spaced_step c 0 (ho_state 1 0 i p f ops k) (ho_state 2 3 i p f [] 0)"
    using Talker_starts [of "ho_state 1 0 i p f ops k" _ _ 0, OF _ surjective_pairing]
    by (simp add: spaced_step_def ho_state_def start_stream_def media_input_fifo_enable_fifos_def example_talker_def)
  show "c \<le> k \<Longrightarrow> spaced_step c 0 (ho_state 2 3 i p f ops k) (ho_state 1 0 i p f ops 0)"
    using Talker_stops [of "ho_state 2 3 i p f ops k" _ _ 0, OF _ surjective_pairing]
    by (simp add: spaced_step_def ho_state_def stop_stream_def media_input_fifo_disable_fifos_def example_talker_def)
qed

lemma ho_start: "handover_init 0 (ho_state 1 0 0 None ho_fifo0 [] 2)"
proof -
  have "ho_fifo0 = media_input_fifo_flush ho_fifo0" by (simp add: ho_fifo0_def media_input_fifo_enable_def media_input_fifo_flush_def Let_def)
  then show ?thesis
    by (auto simp: handover_init_def ho_state_def ho_ind_def example_talker_def media_input_fifo_enable_req_state_def
        media_input_fifo_enable_ind_state_def)
qed

text \<open>The stream starts, and a sample period passes.\<close>

lemma ho_running:
  assumes "c \<le> 2"
  shows "(spaced_step c 0)\<^sup>*\<^sup>* (ho_state 1 0 0 None ho_fifo0 [] 2) (ho_state 2 3 3 None (apply_op (Fed w ts) ho_fifo0) [Fed w ts] 1)"
proof -
  have 1: "spaced_step c 0 (ho_state 1 0 0 None ho_fifo0 [] 2) (ho_state 2 3 0 None ho_fifo0 [] 0)" by (rule ho_steps) (rule assms)
  have 2: "spaced_step c 0 (ho_state 2 3 0 None ho_fifo0 [] 0) (ho_state 2 3 0 (Some (3, False)) ho_fifo0 [] 0)" by (rule ho_steps)
  have 3: "spaced_step c 0 (ho_state 2 3 0 (Some (3, False)) ho_fifo0 [] 0) (ho_state 2 3 0 (Some (3, True)) (apply_op (Fed w ts) ho_fifo0) [Fed w ts] 0)"
    using ho_steps(2) [where ops = "[]"] by simp
  have 4: "spaced_step c 0 (ho_state 2 3 0 (Some (3, True)) (apply_op (Fed w ts) ho_fifo0) [Fed w ts] 0)
      (ho_state 2 3 3 None (apply_op (Fed w ts) ho_fifo0) [Fed w ts] 1)" using ho_steps(3) [where k = 0] by simp
  show ?thesis
    by (rule converse_rtranclp_into_rtranclp, rule 1, rule converse_rtranclp_into_rtranclp, rule 2,
        rule converse_rtranclp_into_rtranclp, rule 3, rule r_into_rtranclp, rule 4)
qed

theorem handover_safe_witness:
  "\<exists>g. apply_op (Fed 7 5) ho_fifo0 = fold apply_op [Fed 7 5] (media_input_fifo_flush g)"
  using handover_safe [OF ho_start spaced_handover [OF ho_running [of 2 7 5]]] ho_running [of 2 7 5]
  by (simp add: ho_state_def)

text \<open>
  One sample period between the commands is not enough: a stream that stops in a period and starts again after its end
  reads a packet from before its start, and its FIFO can be about to be flushed while it reads. The code has nothing
  that keeps the commands further apart.
\<close>

theorem handover_race:
  "\<exists>s s' s''. handover_init 0 s \<and> (spaced_step 1 0)\<^sup>*\<^sup>* s s' \<and> (spaced_step 1 0)\<^sup>*\<^sup>* s s'' \<and>
     tk_active (ho_stream s') = 2 \<and> ho_ind s' \<noteq> 0 \<and> ho_since s' = [] \<and>
     media_input_fifo_get_packet (ho_fifo s') = Some (5, 0, 2) \<and>
     tk_active (ho_stream s'') = 2 \<and> ho_ind s'' \<noteq> 0 \<and> ho_pass s'' = Some (0, False)"
proof -
  let ?f = "apply_op (Fed 7 5) ho_fifo0" and ?s = "ho_state 1 0 0 None ho_fifo0 [] 2"
  let ?g = "apply_op (Fed 8 6) ?f" and ?ops = "[Fed 7 5, Fed 8 6]"
  have 1: "spaced_step 1 0 (ho_state 2 3 3 None ?f [Fed 7 5] 1) (ho_state 2 3 3 (Some (3, False)) ?f [Fed 7 5] 1)" by (rule ho_steps)
  have 2: "spaced_step 1 0 (ho_state 2 3 3 (Some (3, False)) ?f [Fed 7 5] 1) (ho_state 1 0 3 (Some (3, False)) ?f [Fed 7 5] 0)"
    by (rule ho_steps) simp
  have 3: "spaced_step 1 0 (ho_state 1 0 3 (Some (3, False)) ?f [Fed 7 5] 0) (ho_state 1 0 3 (Some (3, True)) ?g ?ops 0)"
    using ho_steps(2) [where ops = "[Fed 7 5]"] by simp
  have 4: "spaced_step 1 0 (ho_state 1 0 3 (Some (3, True)) ?g ?ops 0) (ho_state 1 0 3 None ?g ?ops 1)"
    using ho_steps(3) [where k = 0] by simp
  have 5: "spaced_step 1 0 (ho_state 1 0 3 None ?g ?ops 1) (ho_state 2 3 3 None ?g [] 0)" by (rule ho_steps) simp
  have 6: "spaced_step 1 0 (ho_state 1 0 3 None ?g ?ops 1) (ho_state 1 0 3 (Some (0, False)) ?g ?ops 1)" by (rule ho_steps)
  have 7: "spaced_step 1 0 (ho_state 1 0 3 (Some (0, False)) ?g ?ops 1) (ho_state 2 3 3 (Some (0, False)) ?g [] 0)"
    by (rule ho_steps) simp
  have r: "(spaced_step 1 0)\<^sup>*\<^sup>* ?s (ho_state 1 0 3 None ?g ?ops 1)"
    using ho_running [of 1 7 5] 1 2 3 4 by (auto intro: rtranclp.rtrancl_into_rtrancl)
  have r1: "(spaced_step 1 0)\<^sup>*\<^sup>* ?s (ho_state 2 3 3 None ?g [] 0)" using r 5 by (rule rtranclp.rtrancl_into_rtrancl)
  have "(spaced_step 1 0)\<^sup>*\<^sup>* ?s (ho_state 1 0 3 (Some (0, False)) ?g ?ops 1)" using r 6 by (rule rtranclp.rtrancl_into_rtrancl)
  then have r2: "(spaced_step 1 0)\<^sup>*\<^sup>* ?s (ho_state 2 3 3 (Some (0, False)) ?g [] 0)" using 7 by (rule rtranclp.rtrancl_into_rtrancl)
  have ind: "ho_ind (ho_state 2 3 3 p ?g [] 0) \<noteq> 0" for p
    by (simp add: ho_ind_def ho_state_def example_talker_def media_input_fifo_enable_ind_state_def)
  have "media_input_fifo_get_packet ?g = Some (5, 0, 2)"
    by (simp add: apply_op_def ho_fifo0_def example_ififo_def media_input_fifo_enable_def syt_interval_of_rate_def Let_def
        media_input_fifo_push_sample_def ififo_end_packet_def put_bytes_def media_input_fifo_get_packet_def)
  with r1 r2 ind ho_start show ?thesis
    by (intro exI [of _ ?s] exI [of _ "ho_state 2 3 3 None ?g [] 0"] exI [of _ "ho_state 2 3 3 (Some (0, False)) ?g [] 0"])
      (simp add: ho_state_def)
qed

end
