(* ===== verification/Packet_Threads.thy ===== *)
theory Packet_Threads
  imports Avb_1722_Talker Avb_1722_Listener Ptp_Server_Proofs
begin

text \<open>
  The main loops of the packet threads: a talker (\<open>avb_1722_talker.xc\<close>), a listener (\<open>avb_1722_listener.xc\<close>), and one
  thread for both (\<open>avb_1722_talkerlistener.xc\<close>). An event is a case of the select statement with what it reads;
  which of the ready cases is taken is left open. A talker sends a request for the network time every
  half second, unless the last one is not answered yet.
\<close>

section \<open>The talker\<close>

datatype talker_event =
    Talker_cmd int talker_cmd
  | Talker_timer u32
  | Talker_time_info u32 ptp_reply
  | Talker_default u32

datatype talker_output = Talker_frame "u8 list" | Request_time_info

record talker_thread =
  tt_unit :: talker_unit
  tt_timeInfo :: ptp_time_info_mod64
  tt_t :: u32
  tt_pending_timeinfo :: bool

definition TIMEINFO_UPDATE_INTERVAL :: u32 where
  "TIMEINFO_UPDATE_INTERVAL = 50000000"

text \<open>\<open>now\<close> is read before the first answer, \<open>t\<close> after it.\<close>

definition avb_1722_talker_start :: "nat \<Rightarrow> u8 list \<Rightarrow> u32 \<Rightarrow> ptp_reply \<Rightarrow> u32 \<Rightarrow> talker_thread \<Rightarrow> talker_thread" where
  "avb_1722_talker_start tile mac now r t s =
     s\<lparr>tt_unit := avb_1722_talker_init mac (tt_unit s), tt_pending_timeinfo := False,
       tt_timeInfo := ptp_get_requested_time_info_mod64_use_timer now tile r (tt_timeInfo s),
       tt_t := t + TIMEINFO_UPDATE_INTERVAL\<rparr>"

definition talker_thread_step :: "nat \<Rightarrow> talker_event \<Rightarrow> talker_thread \<Rightarrow> (talker_output list \<times> talker_thread) option" where
  "talker_thread_step tile ev s =
     (case ev of
        Talker_cmd stack cmd \<Rightarrow> Some ([], s\<lparr>tt_unit := avb_1722_talker_handle_cmd stack cmd (tt_unit s)\<rparr>)
      | Talker_timer now \<Rightarrow>
          let s' = s\<lparr>tt_t := now + TIMEINFO_UPDATE_INTERVAL\<rparr>
          in Some (if \<not> tt_pending_timeinfo s then ([Request_time_info], s'\<lparr>tt_pending_timeinfo := True\<rparr>) else ([], s'))
      | Talker_time_info now r \<Rightarrow>
          Some ([], s\<lparr>tt_timeInfo := ptp_get_requested_time_info_mod64_use_timer now tile r (tt_timeInfo s),
                      tt_pending_timeinfo := False\<rparr>)
      | Talker_default now \<Rightarrow>
          map_option (\<lambda>(frame, u). (case frame of Some f \<Rightarrow> [Talker_frame f] | None \<Rightarrow> [], s\<lparr>tt_unit := u\<rparr>))
            (avb_1722_talker_send_packets (tt_timeInfo s) now (tt_unit s)))"

section \<open>The listener\<close>

text \<open>The value that the clock server sends first is the FIFO it asks about.\<close>

datatype listener_event =
    Listener_buf_ctl nat buf_ctl_cmd
  | Listener_packet u32 "u8 list" int
  | Listener_command listener_cmd

datatype listener_output = Fifo_message nat ofifo_msg | Listener_answered listener_answer

definition handle_buf_ctl :: "nat \<Rightarrow> buf_ctl_cmd \<Rightarrow> listener_unit \<Rightarrow> listener_output list \<times> listener_unit" where
  "handle_buf_ctl f cmd u =
     (let (msgs, notified, q) = media_output_fifo_handle_buf_ctl cmd (lu_notified_buf_ctl u) (lu_fifos u ! f)
      in (map (Fifo_message f) msgs, u\<lparr>lu_notified_buf_ctl := notified, lu_fifos := (lu_fifos u)[f := q]\<rparr>))"

definition listener_thread_step :: "listener_event \<Rightarrow> listener_unit \<Rightarrow> listener_output list \<times> listener_unit" where
  "listener_thread_step ev u =
     (case ev of
        Listener_buf_ctl f cmd \<Rightarrow> handle_buf_ctl f cmd u
      | Listener_packet stack b cnt \<Rightarrow>
          let (msgs, u) = avb_1722_listener_handle_packet stack b cnt u in (map (\<lambda>(f, m). Fifo_message f m) msgs, u)
      | Listener_command cmd \<Rightarrow> let (a, u) = avb_1722_listener_handle_cmd cmd u in ([Listener_answered a], u))"

section \<open>Both\<close>

datatype tl_event =
    TL_buf_ctl nat buf_ctl_cmd
  | TL_time_info u32 ptp_reply
  | TL_packet u32 "u8 list" int
  | TL_timer u32
  | TL_talker_cmd int talker_cmd
  | TL_listener_cmd listener_cmd
  | TL_default u32

record talkerlistener =
  tl_talker_state :: talker_unit
  tl_listener_state :: listener_unit
  tl_timeInfo :: ptp_time_info_mod64
  tl_t :: u32
  tl_pending_timeinfo :: bool

type_synonym tl_output = "talker_output + listener_output"

definition avb_1722_talkerlistener_start ::
  "nat \<Rightarrow> u8 list \<Rightarrow> u32 \<Rightarrow> u32 \<Rightarrow> ptp_reply \<Rightarrow> u32 \<Rightarrow> talkerlistener \<Rightarrow> talkerlistener" where
  "avb_1722_talkerlistener_start tile mac router_link now r t s =
     s\<lparr>tl_talker_state := avb_1722_talker_init mac (tl_talker_state s),
       tl_listener_state := avb_1722_listener_init router_link (tl_listener_state s),
       tl_timeInfo := ptp_get_requested_time_info_mod64_use_timer now tile r (tl_timeInfo s),
       tl_t := t + TIMEINFO_UPDATE_INTERVAL, tl_pending_timeinfo := False\<rparr>"

definition talkerlistener_step :: "nat \<Rightarrow> tl_event \<Rightarrow> talkerlistener \<Rightarrow> (tl_output list \<times> talkerlistener) option" where
  "talkerlistener_step tile ev s =
     (case ev of
        TL_buf_ctl f cmd \<Rightarrow>
          let (outs, u) = handle_buf_ctl f cmd (tl_listener_state s) in Some (map Inr outs, s\<lparr>tl_listener_state := u\<rparr>)
      | TL_time_info now r \<Rightarrow>
          Some ([], s\<lparr>tl_timeInfo := ptp_get_requested_time_info_mod64_use_timer now tile r (tl_timeInfo s),
                      tl_pending_timeinfo := False\<rparr>)
      | TL_packet stack b cnt \<Rightarrow>
          let (msgs, u) = avb_1722_listener_handle_packet stack b cnt (tl_listener_state s)
          in Some (map (\<lambda>(f, m). Inr (Fifo_message f m)) msgs, s\<lparr>tl_listener_state := u\<rparr>)
      | TL_timer now \<Rightarrow>
          let s' = s\<lparr>tl_t := now + TIMEINFO_UPDATE_INTERVAL\<rparr>
          in Some (if \<not> tl_pending_timeinfo s then ([Inl Request_time_info], s'\<lparr>tl_pending_timeinfo := True\<rparr>) else ([], s'))
      | TL_talker_cmd stack cmd \<Rightarrow>
          Some ([], s\<lparr>tl_talker_state := avb_1722_talker_handle_cmd stack cmd (tl_talker_state s)\<rparr>)
      | TL_listener_cmd cmd \<Rightarrow>
          let (a, u) = avb_1722_listener_handle_cmd cmd (tl_listener_state s)
          in Some ([Inr (Listener_answered a)], s\<lparr>tl_listener_state := u\<rparr>)
      | TL_default now \<Rightarrow>
          map_option (\<lambda>(frame, u). (case frame of Some f \<Rightarrow> [Inl (Talker_frame f)] | None \<Rightarrow> [], s\<lparr>tl_talker_state := u\<rparr>))
            (avb_1722_talker_send_packets (tl_timeInfo s) now (tl_talker_state s)))"

fun run_events :: "('e \<Rightarrow> 's \<Rightarrow> ('o list \<times> 's) option) \<Rightarrow> 'e list \<Rightarrow> 's \<Rightarrow> ('o list \<times> 's) option" where
  "run_events step [] s = Some ([], s)"
| "run_events step (e # es) s =
     (case step e s of None \<Rightarrow> None
      | Some (outs, s) \<Rightarrow> map_option (\<lambda>(outs', s). (outs @ outs', s)) (run_events step es s))"


section \<open>The thread for both is the two threads\<close>

fun talker_of :: "tl_event \<Rightarrow> talker_event option" where
  "talker_of (TL_time_info now r) = Some (Talker_time_info now r)"
| "talker_of (TL_timer now) = Some (Talker_timer now)"
| "talker_of (TL_talker_cmd stack cmd) = Some (Talker_cmd stack cmd)"
| "talker_of (TL_default now) = Some (Talker_default now)"
| "talker_of _ = None"

fun listener_of :: "tl_event \<Rightarrow> listener_event option" where
  "listener_of (TL_buf_ctl f cmd) = Some (Listener_buf_ctl f cmd)"
| "listener_of (TL_packet stack b cnt) = Some (Listener_packet stack b cnt)"
| "listener_of (TL_listener_cmd cmd) = Some (Listener_command cmd)"
| "listener_of _ = None"

fun lefts :: "('a + 'b) list \<Rightarrow> 'a list" where
  "lefts [] = []"
| "lefts (Inl x # xs) = x # lefts xs"
| "lefts (Inr y # xs) = lefts xs"

fun rights :: "('a + 'b) list \<Rightarrow> 'b list" where
  "rights [] = []"
| "rights (Inl x # xs) = rights xs"
| "rights (Inr y # xs) = y # rights xs"

lemma lefts_append [simp]: "lefts (xs @ ys) = lefts xs @ lefts ys"
  by (induction xs rule: lefts.induct) simp_all

lemma rights_append [simp]: "rights (xs @ ys) = rights xs @ rights ys"
  by (induction xs rule: rights.induct) simp_all

lemma lefts_Inr [simp]: "lefts (map Inr ys) = []" "rights (map Inr ys) = ys"
  by (induction ys) simp_all

lemma lefts_messages [simp]:
  "lefts (map (\<lambda>(f, m). Inr (Fifo_message f m)) ys) = []"
  "rights (map (\<lambda>(f, m). Inr (Fifo_message f m)) ys) = map (\<lambda>(f, m). Fifo_message f m) ys"
  by (induction ys) auto

definition talker_part :: "talkerlistener \<Rightarrow> talker_thread" where
  "talker_part s = \<lparr>tt_unit = tl_talker_state s, tt_timeInfo = tl_timeInfo s, tt_t = tl_t s,
     tt_pending_timeinfo = tl_pending_timeinfo s\<rparr>"

lemma tl_steps:
  "talkerlistener_step tile (TL_time_info now r) s =
     Some ([], s\<lparr>tl_timeInfo := ptp_get_requested_time_info_mod64_use_timer now tile r (tl_timeInfo s), tl_pending_timeinfo := False\<rparr>)"
  "talkerlistener_step tile (TL_timer now) s =
     Some (if tl_pending_timeinfo s then [] else [Inl Request_time_info],
           s\<lparr>tl_t := now + TIMEINFO_UPDATE_INTERVAL, tl_pending_timeinfo := True\<rparr>)"
  "talkerlistener_step tile (TL_talker_cmd stack cmd) s =
     Some ([], s\<lparr>tl_talker_state := avb_1722_talker_handle_cmd stack cmd (tl_talker_state s)\<rparr>)"
  "avb_1722_talker_send_packets (tl_timeInfo s) now (tl_talker_state s) = None \<Longrightarrow>
     talkerlistener_step tile (TL_default now) s = None"
  "avb_1722_talker_send_packets (tl_timeInfo s) now (tl_talker_state s) = Some (fr, u) \<Longrightarrow>
     talkerlistener_step tile (TL_default now) s =
       Some (case fr of Some f \<Rightarrow> [Inl (Talker_frame f)] | None \<Rightarrow> [], s\<lparr>tl_talker_state := u\<rparr>)"
  "handle_buf_ctl f bc (tl_listener_state s) = (fo, lu) \<Longrightarrow>
     talkerlistener_step tile (TL_buf_ctl f bc) s = Some (map Inr fo, s\<lparr>tl_listener_state := lu\<rparr>)"
  "avb_1722_listener_handle_packet w b cnt (tl_listener_state s) = (ms, lu) \<Longrightarrow>
     talkerlistener_step tile (TL_packet w b cnt) s =
       Some (map (\<lambda>(f, m). Inr (Fifo_message f m)) ms, s\<lparr>tl_listener_state := lu\<rparr>)"
  "avb_1722_listener_handle_cmd lc (tl_listener_state s) = (an, lu) \<Longrightarrow>
     talkerlistener_step tile (TL_listener_cmd lc) s = Some ([Inr (Listener_answered an)], s\<lparr>tl_listener_state := lu\<rparr>)"
  by (simp_all add: talkerlistener_step_def Let_def)

lemma step_talker_default:
  "talker_thread_step tile (Talker_default now) (talker_part s) =
     map_option (\<lambda>(outs, s'). (lefts outs, talker_part s')) (talkerlistener_step tile (TL_default now) s)"
proof (cases "avb_1722_talker_send_packets (tl_timeInfo s) now (tl_talker_state s)")
  case None
  then show ?thesis by (simp add: tl_steps(4) talker_thread_step_def talker_part_def)
next
  case (Some r)
  then obtain fr u where r: "avb_1722_talker_send_packets (tl_timeInfo s) now (tl_talker_state s) = Some (fr, u)" by (cases r) auto
  show ?thesis by (cases fr) (simp_all add: tl_steps(5) [OF r] r talker_thread_step_def talker_part_def)
qed

lemma step_talker:
  assumes "talker_of ev = Some e"
  shows "talker_thread_step tile e (talker_part s) =
      map_option (\<lambda>(outs, s'). (lefts outs, talker_part s')) (talkerlistener_step tile ev s)"
proof (cases ev)
  case (TL_default now)
  with assms show ?thesis using step_talker_default by auto
qed (use assms in \<open>auto simp: tl_steps talker_thread_step_def talker_part_def Let_def\<close>)

lemma step_talker_listener:
  assumes "talker_of ev = Some e" "talkerlistener_step tile ev s = Some (outs, s')"
  shows "rights outs = [] \<and> tl_listener_state s' = tl_listener_state s"
proof (cases ev)
  case (TL_default now)
  show ?thesis
  proof (cases "avb_1722_talker_send_packets (tl_timeInfo s) now (tl_talker_state s)")
    case None
    then show ?thesis using assms(2) TL_default by (simp add: tl_steps(4))
  next
    case (Some r)
    then obtain fr u where r: "avb_1722_talker_send_packets (tl_timeInfo s) now (tl_talker_state s) = Some (fr, u)" by (cases r) auto
    show ?thesis using assms(2) unfolding TL_default tl_steps(5) [OF r] by (cases fr) auto
  qed
qed (use assms in \<open>auto simp: tl_steps\<close>)

lemma step_listener:
  assumes "talker_of ev = None" "talkerlistener_step tile ev s = Some (outs, s')"
  obtains e where "listener_of ev = Some e"
    and "listener_thread_step e (tl_listener_state s) = (rights outs, tl_listener_state s')"
    and "lefts outs = []" "talker_part s' = talker_part s"
proof (cases ev)
  case (TL_buf_ctl f bc)
  obtain fo lu where r: "handle_buf_ctl f bc (tl_listener_state s) = (fo, lu)" by force
  show thesis
    by (rule that) (use assms(2) in \<open>auto simp: TL_buf_ctl tl_steps(6) [OF r] listener_thread_step_def r talker_part_def\<close>)
next
  case (TL_packet stack b cnt)
  obtain ms lu where r: "avb_1722_listener_handle_packet stack b cnt (tl_listener_state s) = (ms, lu)" by force
  show thesis
    by (rule that) (use assms(2) in \<open>auto simp: TL_packet tl_steps(7) [OF r] listener_thread_step_def r talker_part_def\<close>)
next
  case (TL_listener_cmd lc)
  obtain an lu where r: "avb_1722_listener_handle_cmd lc (tl_listener_state s) = (an, lu)" by force
  show thesis
    by (rule that) (use assms(2) in \<open>auto simp: TL_listener_cmd tl_steps(8) [OF r] listener_thread_step_def r talker_part_def\<close>)
qed (use assms(1) in simp_all)

lemma step_listener_total: "talker_of ev = None \<Longrightarrow> talkerlistener_step tile ev s \<noteq> None"
  by (cases ev) (simp_all add: talkerlistener_step_def Let_def split: prod.splits)

definition total :: "('e \<Rightarrow> 's \<Rightarrow> 'o list \<times> 's) \<Rightarrow> 'e \<Rightarrow> 's \<Rightarrow> ('o list \<times> 's) option" where
  "total step e s = Some (step e s)"

text \<open>
  C39. One thread for two. The thread that combines a talker and a listener does on any sequence of events what a
  talker thread does on its events and a listener thread on the others: the same frames and requests, the same
  answers and messages, in the same order, and the same states. It waits for ever only where the talker would.
\<close>

theorem talkerlistener_is_both:
  "case run_events (talkerlistener_step tile) evs s of
     None \<Rightarrow> run_events (talker_thread_step tile) (List.map_filter talker_of evs) (talker_part s) = None
   | Some (outs, s') \<Rightarrow>
       run_events (talker_thread_step tile) (List.map_filter talker_of evs) (talker_part s) = Some (lefts outs, talker_part s') \<and>
       run_events (total listener_thread_step) (List.map_filter listener_of evs) (tl_listener_state s) =
         Some (rights outs, tl_listener_state s')"
proof (induction evs arbitrary: s)
  case (Cons ev evs)
  show ?case
  proof (cases "talker_of ev")
    case None
    then obtain o1 s1 where s1: "talkerlistener_step tile ev s = Some (o1, s1)" using step_listener_total by fastforce
    from step_listener [OF None s1] obtain e where e: "listener_of ev = Some e"
      "listener_thread_step e (tl_listener_state s) = (rights o1, tl_listener_state s1)" "lefts o1 = []" "talker_part s1 = talker_part s" .
    have "total listener_thread_step e u = Some (listener_thread_step e u)" for u by (simp add: total_def)
    with e show ?thesis using Cons.IH [of s1] None s1 by (auto simp: map_filter_simps split: option.splits prod.splits)
  next
    case (Some e)
    then have l: "listener_of ev = None" by (cases ev) simp_all
    note T = step_talker [OF Some, of tile s]
    show ?thesis
    proof (cases "talkerlistener_step tile ev s")
      case None
      with T Some show ?thesis by (simp add: map_filter_simps)
    next
      case (Some r)
      then obtain o1 s1 where s1: "talkerlistener_step tile ev s = Some (o1, s1)" by (cases r) auto
      note step_talker_listener [OF \<open>talker_of ev = Some e\<close> s1]
      then show ?thesis using Cons.IH [of s1] T s1 l \<open>talker_of ev = Some e\<close> by (auto simp: map_filter_simps split: option.splits prod.splits)
    qed
  qed
qed (simp add: map_filter_simps)

section \<open>Requests for the time\<close>

text \<open>
  The packet thread with the gPTP thread. The server goes its own way: it receives packets, its periodic calls come,
  and it serves the requests of other clients. A request of the thread (client \<open>me\<close> of the server) waits until the
  server takes it; the server answers out of the state it has then and the thread reads the answer. \<open>sy_requests\<close>
  counts the requests under way; \<open>sy_answer\<close> records for the last answer the readings of the two counters and the
  state of the server, and nothing reads it.
\<close>

inductive server_moves :: "net_order \<Rightarrow> nat \<Rightarrow> u32 \<times> gptp_st \<Rightarrow> u32 \<times> gptp_st \<Rightarrow> bool" for net core_id where
  "ptp_server_step net core_id ev sv = (out, sv') \<Longrightarrow> server_moves net core_id sv sv'"

record timed_system =
  sy_thread :: talkerlistener
  sy_server :: "u32 \<times> gptp_st"
  sy_requests :: nat
  sy_answer :: "u32 \<times> u32 \<times> u32 \<times> gptp_st"

inductive timed_step :: "net_order \<Rightarrow> nat \<Rightarrow> nat \<Rightarrow> nat \<Rightarrow> timed_system \<Rightarrow> timed_system \<Rightarrow> bool" for net tile server_tile me where
  Thread: "(\<forall>now r. ev \<noteq> TL_time_info now r) \<Longrightarrow> talkerlistener_step tile ev (sy_thread y) = Some (outs, s') \<Longrightarrow>
    timed_step net tile server_tile me y
      (y\<lparr>sy_thread := s', sy_requests := sy_requests y + count_list outs (Inl Request_time_info)\<rparr>)"
| Server: "(\<forall>cmd now. ev \<noteq> Ptp_request me cmd now) \<Longrightarrow> ptp_server_step net server_tile ev (sy_server y) = (out, sv') \<Longrightarrow>
    timed_step net tile server_tile me y (y\<lparr>sy_server := sv'\<rparr>)"
| Answer: "sy_requests y = Suc k \<Longrightarrow>
    ptp_server_step net server_tile (Ptp_request me PTP_GET_TIME_INFO_MOD64 server_now) (sy_server y) = (Some (me, r), sv') \<Longrightarrow>
    talkerlistener_step tile (TL_time_info now r) (sy_thread y) = Some (outs, s') \<Longrightarrow>
    timed_step net tile server_tile me y
      (y\<lparr>sy_thread := s', sy_server := sv', sy_requests := k, sy_answer := (now, server_now, sy_server y)\<rparr>)"

text \<open>The time information of a server in state \<open>st\<close>, on a counter that reads \<open>now\<close> when the one of the server reads \<open>server_now\<close>.\<close>

definition server_time_info :: "nat \<Rightarrow> nat \<Rightarrow> u32 \<Rightarrow> u32 \<Rightarrow> gptp_st \<Rightarrow> ptp_time_info_mod64" where
  "server_time_info tile server_tile now server_now st =
     (ptp_get_local_time_info_mod64 st)\<lparr>tm_local_ts :=
        ptp_reference_local_ts st - (if server_tile = tile then 0 else server_now - now - 3)\<rparr>"

lemma server_answer:
  assumes "ptp_server_step net server_tile (Ptp_request me PTP_GET_TIME_INFO_MOD64 server_now) sv = (Some (i, r), sv')"
  shows "i = me" "sv' = sv" "ptp_get_requested_time_info_mod64_use_timer now tile r info = server_time_info tile server_tile now server_now (snd sv)"
  using assms by (auto simp: ptp_server_step_def ptp_process_client_request_def server_time_info_def Let_def
      ptp_get_requested_time_info_mod64_use_timer_def ptp_get_local_time_info_mod64_def split: prod.splits)

lemma server_answers:
  "\<exists>r. ptp_server_step net server_tile (Ptp_request me PTP_GET_TIME_INFO_MOD64 server_now) sv = (Some (me, r), sv)"
  by (cases sv) (simp add: ptp_server_step_def ptp_process_client_request_def Let_def case_prod_unfold)

text \<open>What holds of the packet thread and the server at all times, when the server was in state \<open>sv\<close> at first.\<close>

definition timed_inv :: "net_order \<Rightarrow> nat \<Rightarrow> nat \<Rightarrow> u32 \<times> gptp_st \<Rightarrow> timed_system \<Rightarrow> bool" where
  "timed_inv net tile server_tile sv y \<longleftrightarrow>
     sy_requests y = of_bool (tl_pending_timeinfo (sy_thread y)) \<and>
     (case sy_answer y of (now, server_now, sv') \<Rightarrow>
        tl_timeInfo (sy_thread y) = server_time_info tile server_tile now server_now (snd sv') \<and>
        (server_moves net server_tile)\<^sup>*\<^sup>* sv sv' \<and> (server_moves net server_tile)\<^sup>*\<^sup>* sv' (sy_server y))"

lemma request_event:
  assumes "talkerlistener_step tile ev s = Some (outs, s')" "\<And>now r. ev \<noteq> TL_time_info now r"
  shows "of_bool (tl_pending_timeinfo s') = of_bool (tl_pending_timeinfo s) + count_list outs (Inl Request_time_info) \<and>
    tl_timeInfo s' = tl_timeInfo s"
proof (cases "talker_of ev")
  case (Some e)
  show ?thesis
  proof (cases ev)
    case (TL_default now)
    show ?thesis
    proof (cases "avb_1722_talker_send_packets (tl_timeInfo s) now (tl_talker_state s)")
      case None
      then show ?thesis using assms(1) TL_default by (simp add: tl_steps(4))
    next
      case (Some r)
      then obtain fr u where r: "avb_1722_talker_send_packets (tl_timeInfo s) now (tl_talker_state s) = Some (fr, u)" by (cases r) auto
      show ?thesis using assms(1) unfolding TL_default tl_steps(5) [OF r] by (cases fr) auto
    qed
  qed (use assms Some in \<open>auto simp: tl_steps split: if_splits\<close>)
next
  case None
  from step_listener [OF None assms(1)] have l: "lefts outs = []" and t: "talker_part s' = talker_part s" by blast+
  have "count_list xs (Inl x) = count_list (lefts xs) x" for xs :: "tl_output list" and x
    by (induction xs rule: lefts.induct) auto
  with l t show ?thesis by (simp add: talker_part_def)
qed

lemma timed_step_inv:
  assumes "timed_step net tile server_tile me y z" "timed_inv net tile server_tile sv y"
  shows "timed_inv net tile server_tile sv z"
  using assms(1)
proof cases
  case (Thread ev outs s')
  have "of_bool (tl_pending_timeinfo s') = of_bool (tl_pending_timeinfo (sy_thread y)) + count_list outs (Inl Request_time_info) \<and>
      tl_timeInfo s' = tl_timeInfo (sy_thread y)"
    by (rule request_event [OF Thread(3)]) (use Thread(2) in blast)
  then show ?thesis using assms(2) by (simp add: Thread(1) timed_inv_def)
next
  case (Server ev out sv')
  have "server_moves net server_tile (sy_server y) sv'" using Server(3) by (rule server_moves.intros)
  then show ?thesis using assms(2) by (auto simp: Server(1) timed_inv_def intro: rtranclp.rtrancl_into_rtrancl)
next
  case (Answer k server_now r sv' now outs s')
  note a = server_answer [OF Answer(3)]
  have s': "s' = (sy_thread y)\<lparr>tl_timeInfo := server_time_info tile server_tile now server_now (snd (sy_server y)),
      tl_pending_timeinfo := False\<rparr>"
    using Answer(4) a(3) by (simp add: tl_steps)
  have "k = 0" using Answer(2) assms(2) by (cases "tl_pending_timeinfo (sy_thread y)") (simp_all add: timed_inv_def)
  moreover have "(server_moves net server_tile)\<^sup>*\<^sup>* sv (sy_server y)"
    using assms(2) by (auto simp: timed_inv_def intro: rtranclp_trans)
  ultimately show ?thesis by (simp add: Answer(1) timed_inv_def s' a(2))
qed

text \<open>
  C40. The network time of the packet thread. The thread starts with an answer of the gPTP thread and then runs beside it, in
  every interleaving of its own events with the packets, periodic calls and other requests of the server. At all times at
  most one request is under way, exactly when the thread remembers one. Its time information is the one that the server
  had to give at the last answer: the reference times and the rate of a state that the server has passed through since the
  start, with the local time moved by the difference of the two counters when the server runs on another tile. When the
  timer expires with no request under way one is sent, and while one is under way the server can answer it with what it
  knows at that moment.
\<close>

theorem one_time_request:
  assumes answer: "ptp_server_step net server_tile (Ptp_request me PTP_GET_TIME_INFO_MOD64 server_first) sv = (Some (me, r), sv')"
    and start: "sy_thread y = avb_1722_talkerlistener_start tile mac router_link first r t thread"
      "sy_server y = sv'" "sy_requests y = 0" "sy_answer y = (first, server_first, sv)"
    and reach: "(timed_step net tile server_tile me)\<^sup>*\<^sup>* y z" and s: "s = sy_thread z" and a: "sy_answer z = (now, server_now, asked)"
  shows "sy_requests z = of_bool (tl_pending_timeinfo s) \<and>
    tl_timeInfo s = (ptp_get_local_time_info_mod64 (snd asked))\<lparr>tm_local_ts :=
      ptp_reference_local_ts (snd asked) - (if server_tile = tile then 0 else server_now - now - 3)\<rparr> \<and>
    (server_moves net server_tile)\<^sup>*\<^sup>* sv asked \<and> (server_moves net server_tile)\<^sup>*\<^sup>* asked (sy_server z) \<and>
    (\<exists>outs s''. talkerlistener_step tile (TL_timer i) s = Some (outs, s'') \<and> tl_pending_timeinfo s'' \<and>
       (sy_requests z = 0 \<longrightarrow> outs = [Inl Request_time_info])) \<and>
    (sy_requests z = 1 \<longrightarrow> (\<exists>z'. timed_step net tile server_tile me z z' \<and> sy_requests z' = 0 \<and>
       \<not> tl_pending_timeinfo (sy_thread z') \<and> sy_answer z' = (i, j, sy_server z)))"
proof -
  note first = server_answer [OF answer]
  have "timed_inv net tile server_tile sv y"
    by (simp add: timed_inv_def start avb_1722_talkerlistener_start_def first)
  with reach have inv: "timed_inv net tile server_tile sv z"
    by (induction rule: rtranclp_induct) (auto intro: timed_step_inv)
  have "\<exists>z'. timed_step net tile server_tile me z z' \<and> sy_requests z' = 0 \<and>
      \<not> tl_pending_timeinfo (sy_thread z') \<and> sy_answer z' = (i, j, sy_server z)" if "sy_requests z = 1"
  proof -
    obtain q where q: "ptp_server_step net server_tile (Ptp_request me PTP_GET_TIME_INFO_MOD64 j) (sy_server z) = (Some (me, q), sy_server z)"
      using server_answers by blast
    have "sy_requests z = Suc 0" using that by simp
    note st = timed_step.Answer [OF this q tl_steps(1) [where now = i]]
    show ?thesis by (intro exI conjI, rule st) simp_all
  qed
  then show ?thesis using inv by (simp add: s a timed_inv_def server_time_info_def tl_steps)
qed

definition tl_example :: talkerlistener where
  "tl_example =
     \<lparr>tl_talker_state = \<lparr>tu_TxBuf = [], tu_streams = [], tu_max_active_avb_stream = - 1, tu_cur_avb_stream = 0,
        tu_mac_addr = [0, 0x22, 0x97, 0, 1, 2], tu_vlan = 2, tu_audioSampleType = 0,
        tu_enable = \<lparr>en_lock = True, en_request_state = 0, en_indication_state = 0\<rparr>, tu_fifos = []\<rparr>,
      tl_listener_state = \<lparr>lu_streams = [], lu_notified_buf_ctl = False, lu_router_link = 0, lu_fifos = []\<rparr>,
      tl_timeInfo = ptp_get_time_info_mod64 1200 1 1103 0 gptp_example no_time_info, tl_t = 0, tl_pending_timeinfo = False\<rparr>"

definition system_example :: timed_system where
  "system_example =
     \<lparr>sy_thread = avb_1722_talkerlistener_start 1 [0, 0x22, 0x97, 0, 1, 2] 0 1200
        (the (fst (ptp_process_client_request 1103 0 PTP_GET_TIME_INFO_MOD64 gptp_example))) 1200 tl_example,
      sy_server = (0, gptp_example), sy_requests = 0, sy_answer = (1200, 1103, (0, gptp_example))\<rparr>"

theorem one_time_request_witness:
  "\<exists>z. (timed_step net_example 1 0 3)\<^sup>*\<^sup>* system_example z \<and> sy_requests z = 1 \<and>
     (\<exists>z'. timed_step net_example 1 0 3 z z' \<and> sy_requests z' = 0 \<and> sy_answer z' = (9, 8, (0, gptp_example)))"
proof -
  obtain r where r: "fst (ptp_process_client_request 1103 0 PTP_GET_TIME_INFO_MOD64 gptp_example) = Some r"
    by (simp add: ptp_process_client_request_def Let_def case_prod_unfold)
  then have answer: "ptp_server_step net_example 0 (Ptp_request 3 PTP_GET_TIME_INFO_MOD64 1103) (0, gptp_example) =
      (Some (3, r), (0, gptp_example))"
    by (auto simp: ptp_server_step_def ptp_process_client_request_def Let_def case_prod_unfold)
  have p: "\<not> tl_pending_timeinfo (sy_thread system_example)"
    by (simp add: system_example_def avb_1722_talkerlistener_start_def)
  obtain s' where s': "talkerlistener_step 1 (TL_timer 7) (sy_thread system_example) = Some ([Inl Request_time_info], s')"
    using p by (simp add: tl_steps)
  obtain z where z: "z = system_example\<lparr>sy_thread := s', sy_requests := 1\<rparr>" by simp
  have step: "timed_step net_example 1 0 3 system_example z"
    using timed_step.Thread [OF _ s', of net_example 0 3] by (simp add: z system_example_def)
  have ans: "sy_answer z = (1200, 1103, (0, gptp_example))" by (simp add: z system_example_def)
  have y: "sy_thread system_example = avb_1722_talkerlistener_start 1 [0, 0x22, 0x97, 0, 1, 2] 0 1200 r 1200 tl_example"
    "sy_server system_example = (0, gptp_example)" "sy_requests system_example = 0"
    "sy_answer system_example = (1200, 1103, (0, gptp_example))"
    by (simp_all add: system_example_def r)
  note T = one_time_request [OF answer y r_into_rtranclp [of "timed_step net_example 1 0 3", OF step] refl ans, of 9 8]
  have "sy_requests z = 1" "sy_server z = (0, gptp_example)" by (simp_all add: z y)
  with T have "\<exists>z'. timed_step net_example 1 0 3 z z' \<and> sy_requests z' = 0 \<and> sy_answer z' = (9, 8, (0, gptp_example))" by metis
  then show ?thesis using step \<open>sy_requests z = 1\<close> by blast
qed

end
