(* ===== verification/Audio_Interfaces.thy ===== *)
theory Audio_Interfaces
  imports Audio_I2s_Proofs "HOL-Library.Signed_Division"
begin

unbundle bit_operations_syntax

text \<open>
  The other audio threads: TDM (\<open>tdm.xc\<close>), with its loop back, and the source of a test tone (\<open>synth.xc\<close>), which
  feed the input FIFOs as the I2S master does, and the registration of FIFOs (\<open>media_fifo.xc\<close>).
\<close>

section \<open>Registration\<close>

text \<open>What is sent: the tile, the clock, and the FIFOs after their number. The stream numbers that come back are not used.\<close>

definition media_ctl_register ::
  "nat \<Rightarrow> int \<Rightarrow> (int \<times> ififo_t) list \<Rightarrow> (int \<times> ofifo_t) list \<Rightarrow> int list \<times> (int \<times> ififo_t) list \<times> (int \<times> ofifo_t) list" where
  "media_ctl_register core_id clk_ctl_index input_fifos output_fifos =
     ([int core_id, clk_ctl_index, int (length input_fifos)] @ map fst input_fifos @
        [int (length output_fifos)] @ map fst output_fifos,
      map (\<lambda>(a, f). (a, media_input_fifo_init f)) input_fifos,
      map (\<lambda>(a, f). (a, media_output_fifo_init f)) output_fifos)"

section \<open>TDM\<close>

text \<open>One pair of data lines for all channels. The time of a port is counted in bit clocks.\<close>

datatype tdm_action = Tdm_setpt u32 | Tdm_dout_at u32 u32 | Tdm_dout u32 | Tdm_wck_at u32 u32

record tdm_st =
  td_ififos :: "ififo_t list"
  td_ofifos :: "ofifo_t list"
  td_enable :: ififo_enable
  td_t :: u32
  td_trace :: "tdm_action list"

definition tdm_act :: "tdm_action \<Rightarrow> tdm_st \<Rightarrow> tdm_st" where
  "tdm_act a st = st\<lparr>td_trace := td_trace st @ [a]\<rparr>"

definition CLOCKS_PER_CHANNEL :: u32 where "CLOCKS_PER_CHANNEL = 32"
definition TDM_NUM_CHANNELS :: u32 where "TDM_NUM_CHANNELS = 8"

text \<open>The samples of time 0 are thrown away; \<open>t\<close> is the time of the port when it is first read.\<close>

definition tdm_start :: "nat \<Rightarrow> u32 \<Rightarrow> tdm_st \<Rightarrow> tdm_st" where
  "tdm_start num_channels t st =
     (let (_, fs) = media_output_fifo_to_xc_channel num_channels 0 (td_ofifos st);
          t = t + 64
      in st\<lparr>td_ififos := map media_input_fifo_init (td_ififos st), td_ofifos := fs,
            td_trace := td_trace st @ [Tdm_setpt (t + CLOCKS_PER_CHANNEL + 2), Tdm_dout_at (t + CLOCKS_PER_CHANNEL) 0, Tdm_dout 0],
            td_t := t + (2 * CLOCKS_PER_CHANNEL + TDM_NUM_CHANNELS * CLOCKS_PER_CHANNEL)\<rparr>)"

definition tdm_wire :: "u32 \<Rightarrow> u32" where
  "tdm_wire x = bitrev (push_bit 8 x) AND 0xffffff"

text \<open>A channel: its sample goes out, and \<open>din n\<close> comes in for its FIFO.\<close>

definition tdm_channel :: "u32 \<Rightarrow> u32 \<Rightarrow> (nat \<Rightarrow> u32) \<Rightarrow> nat \<times> u32 \<Rightarrow> tdm_st \<Rightarrow> tdm_st" where
  "tdm_channel active timestamp din nx st =
     (let n = fst nx;
          st = tdm_act (Tdm_dout (tdm_wire (snd nx))) st;
          x = drop_bit 8 (bitrev (din n)) AND 0xffffff;
          f = td_ififos st ! n
      in st\<lparr>td_ififos := (td_ififos st)[n :=
           (if active AND push_bit n 1 \<noteq> 0 then media_input_fifo_push_sample x timestamp f else media_input_fifo_flush f)]\<rparr>)"

definition tdm_frame :: "nat \<Rightarrow> u32 \<Rightarrow> (nat \<Rightarrow> u32) \<Rightarrow> tdm_st \<Rightarrow> tdm_st" where
  "tdm_frame num_channels timestamp din st =
     (let active = media_input_fifo_enable_req_state (td_enable st);
          (samples, fs) = media_output_fifo_to_xc_channel num_channels timestamp (td_ofifos st);
          st = fold (tdm_channel active timestamp din) (zip [0..<num_channels] samples) (st\<lparr>td_ofifos := fs\<rparr>);
          t = td_t st + of_nat num_channels * CLOCKS_PER_CHANNEL;
          st = tdm_act (Tdm_wck_at t 1) (st\<lparr>td_t := t\<rparr>)
      in st\<lparr>td_enable := media_input_fifo_update_enable_ind_state active 0xFFFFFFFF (td_enable st)\<rparr>)"

text \<open>
  The loop back. The thread at the port turns every word that it is sent into a word of the line, and the words of the line into
  samples, of which it drops the first two. The other thread keeps six samples: \<open>x\<close>, uninitialised at first, with
  the places of the next sample to keep and to send.
\<close>

definition tdm_loopback_in :: "int \<Rightarrow> u32 \<Rightarrow> u32 option \<times> int" where
  "tdm_loopback_in first xin = (if first = 0 then (Some (bitrev xin), first) else (None, first - 1))"

definition tdm_loopback_step :: "u32 \<Rightarrow> u32 list \<times> nat \<times> nat \<Rightarrow> u32 \<times> u32 list \<times> nat \<times> nat" where
  "tdm_loopback_step sample s =
     (case s of (x, padc, pdac) \<Rightarrow>
        let x = x[padc := sample]
        in (x ! pdac, x, (padc + 1) * of_bool (padc \<noteq> 5), (pdac + 1) * of_bool (pdac \<noteq> 5)))"

fun tdm_loopback_steps :: "u32 list \<Rightarrow> u32 list \<times> nat \<times> nat \<Rightarrow> u32 list" where
  "tdm_loopback_steps [] s = []"
| "tdm_loopback_steps (a # as) s = (let (y, s) = tdm_loopback_step a s in y # tdm_loopback_steps as s)"

definition tdm_loopback :: "u32 list \<Rightarrow> u32 list \<Rightarrow> u32 list" where
  "tdm_loopback stack as = [0, 0, 0] @ tdm_loopback_steps as (stack, 5, 0)"

section \<open>The test tone\<close>

definition sine :: "u32 list" where
  "sine =
    [0x0100da, 0x0200b0, 0x02fe81, 0x03f94b, 0x04f011, 0x05e1da, 0x06cdb2, 0x07b2aa, 0x088fdb, 0x096466,
     0x0a2f74, 0x0af037, 0x0ba5ed, 0x0c4fde, 0x0ced5f, 0x0d7dd1, 0x0e00a1, 0x0e754b, 0x0edb5a, 0x0f3267,
     0x0f7a18, 0x0fb227, 0x0fda5b, 0x0ff28a, 0x0ffa9c, 0x0ff28a, 0x0fda5b, 0x0fb227, 0x0f7a18, 0x0f3267,
     0x0edb5a, 0x0e754b, 0x0e00a1, 0x0d7dd1, 0x0ced5f, 0x0c4fde, 0x0ba5ed, 0x0af037, 0x0a2f74, 0x096466,
     0x088fdb, 0x07b2aa, 0x06cdb2, 0x05e1da, 0x04f011, 0x03f94b, 0x02fe81, 0x0200b0, 0x0100da, 0x000000,
     0xfeff26, 0xfdff50, 0xfd017f, 0xfc06b5, 0xfb0fef, 0xfa1e26, 0xf9324e, 0xf84d56, 0xf77025, 0xf69b9a,
     0xf5d08c, 0xf50fc9, 0xf45a13, 0xf3b022, 0xf312a1, 0xf2822f, 0xf1ff5f, 0xf18ab5, 0xf124a6, 0xf0cd99,
     0xf085e8, 0xf04dd9, 0xf025a5, 0xf00d76, 0xf00564, 0xf00d76, 0xf025a5, 0xf04dd9, 0xf085e8, 0xf0cd99,
     0xf124a6, 0xf18ab5, 0xf1ff5f, 0xf2822f, 0xf312a1, 0xf3b022, 0xf45a13, 0xf50fc9, 0xf5d08c, 0xf69b9a,
     0xf77025, 0xf84d56, 0xf9324e, 0xfa1e26, 0xfb0fef, 0xfc06b5, 0xfd017f, 0xfdff50, 0xfeff26, 0x000000]"

definition SINE_TABLE_SIZE :: nat where "SINE_TABLE_SIZE = 100"

record synth_st =
  sy_i :: int
  sy_index :: nat
  sy_wordTime :: u32
  sy_wordLength :: u32
  sy_baseLength :: u32
  sy_lowBits :: u32
  sy_prevLowBits :: u32
  sy_step :: int
  sy_rand :: u32
  sy_count :: int
  sy_ififos :: "ififo_t list"
  sy_enable :: ififo_enable

definition synth_set_rate :: "u32 \<Rightarrow> u32 \<Rightarrow> synth_st \<Rightarrow> synth_st" where
  "synth_set_rate clk_cmd clk_arg st =
     (if clk_cmd = 1
      then st\<lparr>sy_wordLength := clk_arg, sy_baseLength := word_of_int (drop_bit 16 (sint clk_arg))\<rparr>
      else st)"

text \<open>The first command of the clock server is awaited, whatever it is; \<open>now\<close> is the time after it.\<close>

definition synth_start :: "int \<Rightarrow> u32 \<Rightarrow> u32 \<Rightarrow> u32 \<Rightarrow> synth_st \<Rightarrow> synth_st" where
  "synth_start period clk_cmd clk_arg now st =
     (let st = synth_set_rate clk_cmd clk_arg
            (st\<lparr>sy_i := 0, sy_index := 0, sy_lowBits := 0, sy_prevLowBits := 0, sy_rand := 646226, sy_count := 0,
                sy_ififos := map media_input_fifo_init (sy_ififos st)\<rparr>)
      in st\<lparr>sy_step := (2 * period) sdiv 100, sy_wordTime := now + sy_baseLength st\<rparr>)"

definition synth_sample :: "nat \<Rightarrow> u32" where
  "synth_sample index = word_of_int (drop_bit 10 (sint (push_bit 8 (sine ! index)))) AND 0xffffff"

definition synth_feed :: "nat \<Rightarrow> u32 \<Rightarrow> u32 \<Rightarrow> u32 \<Rightarrow> ififo_t list \<Rightarrow> ififo_t list" where
  "synth_feed num_channels active outData ts q =
     fold (\<lambda>i q. q[i := (if active AND push_bit i 1 \<noteq> 0 then media_input_fifo_push_sample outData ts (q ! i)
                         else media_input_fifo_flush (q ! i))]) [0..<num_channels] q"

definition synth_advance :: "synth_st \<Rightarrow> synth_st" where
  "synth_advance st =
     (if sy_i st + 1 = sy_step st
      then st\<lparr>sy_i := 0, sy_index := (if sy_index st + 1 \<ge> SINE_TABLE_SIZE then 0 else sy_index st + 1)\<rparr>
      else st\<lparr>sy_i := sy_i st + 1\<rparr>)"

definition synth_carry :: "synth_st \<Rightarrow> synth_st" where
  "synth_carry st =
     (let low = (sy_lowBits st + sy_wordLength st) AND 0xffff
      in st\<lparr>sy_lowBits := low, sy_prevLowBits := low,
            sy_wordTime := (if low < sy_prevLowBits st then sy_wordTime st + 1 else sy_wordTime st)\<rparr>)"

definition synth_tick :: "nat \<Rightarrow> synth_st \<Rightarrow> synth_st" where
  "synth_tick num_channels st =
     (let active = media_input_fifo_enable_req_state (sy_enable st);
          st = st\<lparr>sy_rand := 1664525 * sy_rand st + 1013904223, sy_wordTime := sy_wordTime st + sy_baseLength st\<rparr>;
          outData = (if sy_count st < 48000 then synth_sample (sy_index st) else 0);
          st = st\<lparr>sy_ififos := synth_feed num_channels active outData (sy_wordTime st) (sy_ififos st)\<rparr>;
          st = synth_carry (synth_advance st)
      in st\<lparr>sy_count := (if sy_count st + 1 = 96000 then 0 else sy_count st + 1),
            sy_enable := media_input_fifo_update_enable_ind_state active 0xFFFFFFFF (sy_enable st)\<rparr>)"

datatype synth_event = Synth_timer | Synth_clk_ctl u32 u32

definition synth_step :: "nat \<Rightarrow> synth_event \<Rightarrow> synth_st \<Rightarrow> synth_st" where
  "synth_step num_channels ev st =
     (case ev of Synth_timer \<Rightarrow> synth_tick num_channels st | Synth_clk_ctl cmd arg \<Rightarrow> synth_set_rate cmd arg st)"

end
