(* ===== verification/Audio_Interfaces_Proofs.thy ===== *)
theory Audio_Interfaces_Proofs
  imports Audio_Interfaces
begin

unbundle bit_operations_syntax

text \<open>The frames of TDM, the delay of its loop back, and the clock and the pitch of the test tone.\<close>

section \<open>TDM frames\<close>

lemma pull_channels_nth:
  "distinct is \<Longrightarrow>
     fst (pull_channels ts is fs) = map (\<lambda>i. fst (media_output_fifo_pull_sample ts (fs ! i))) is \<and>
     length (snd (pull_channels ts is fs)) = length fs \<and>
     (\<forall>n < length fs. snd (pull_channels ts is fs) ! n =
        (if n \<in> set is then snd (media_output_fifo_pull_sample ts (fs ! n)) else fs ! n))"
proof (induction "is" arbitrary: fs)
  case (Cons i "is")
  obtain x f where p: "media_output_fifo_pull_sample ts (fs ! i) = (x, f)" by force
  obtain xs fs' where r: "pull_channels ts is (fs[i := f]) = (xs, fs')" by force
  have "j \<in> set is \<Longrightarrow> fs[i := f] ! j = fs ! j" for j using Cons.prems by (cases "j = i") auto
  moreover have "i \<notin> set is" using Cons.prems by simp
  ultimately show ?case using Cons.IH [of "fs[i := f]"] Cons.prems by (auto simp: p r nth_list_update)
qed simp

lemma drop_mask: "drop_bit 8 (x :: u32) AND 0xffffff = drop_bit 8 x"
proof -
  have m: "(0xffffff :: u32) = mask 24" by (simp add: mask_eq_exp_minus_1)
  show ?thesis unfolding m take_bit_eq_mask [symmetric]
    by (rule bit_word_eqI) (auto simp: bit_take_bit_iff bit_drop_bit_eq dest: bit_imp_le_length)
qed

lemma tdm_wire_eq: "tdm_wire x = bitrev (push_bit 8 x)"
proof -
  have m: "(0xffffff :: u32) = mask 24" by (simp add: mask_eq_exp_minus_1)
  show ?thesis unfolding tdm_wire_def m take_bit_eq_mask [symmetric]
    by (rule bit_word_eqI) (auto simp: bit_take_bit_iff bit_wire)
qed

lemma tdm_channel_eq:
  "tdm_channel a ts din (n, x) st = st\<lparr>td_trace := td_trace st @ [Tdm_dout (bitrev (push_bit 8 x))],
     td_ififos := (td_ififos st)[n := fed_fifo a ts n (din n) (td_ififos st ! n)]\<rparr>"
  by (simp add: tdm_channel_def tdm_act_def Let_def tdm_wire_eq fed_fifo_def drop_mask)

lemma tdm_channels:
  assumes "m \<le> length (td_ififos st)"
    and "st' = fold (tdm_channel a ts din) (map (\<lambda>n. (n, g n)) [0..<m]) st"
  shows "td_trace st' = td_trace st @ map (\<lambda>n. Tdm_dout (bitrev (push_bit 8 (g n)))) [0..<m] \<and>
    td_ofifos st' = td_ofifos st \<and> td_enable st' = td_enable st \<and> td_t st' = td_t st \<and>
    length (td_ififos st') = length (td_ififos st) \<and>
    (\<forall>n. td_ififos st' ! n = (if n < m then fed_fifo a ts n (din n) (td_ififos st ! n) else td_ififos st ! n))"
  using assms
proof (induction m arbitrary: st')
  case (Suc m)
  let ?s = "fold (tdm_channel a ts din) (map (\<lambda>n. (n, g n)) [0..<m]) st"
  have "st' = tdm_channel a ts din (m, g m) ?s" using Suc.prems(2) by simp
  moreover have "m \<le> length (td_ififos st)" using Suc.prems(1) by simp
  note Suc.IH [OF this refl]
  ultimately show ?case
    using Suc.prems(1) by (auto simp: tdm_channel_eq nth_list_update less_Suc_eq)
qed simp

text \<open>
  A TDM frame. Every channel sends the 24 bits of its sample from the highest and then eight zeros, in the
  order of the channels; the word clock marks the end of the frame, 32 bit clocks for every channel after the last
  mark. The input FIFOs take the words of the line or are flushed, and the indication is the request at the
  beginning. With the line wired to itself, every enabled FIFO takes the sample that its channel sends.
\<close>

theorem tdm_frame_exact:
  assumes sizes: "num_channels \<le> length (td_ififos st)" "num_channels \<le> length (td_ofifos st)"
    and lock: "en_lock (td_enable st)"
    and st': "st' = tdm_frame num_channels ts din st"
    and sample: "sample = (\<lambda>n. fst (media_output_fifo_pull_sample ts (td_ofifos st ! n)))"
  shows "(\<exists>ws. td_trace st' = td_trace st @ map Tdm_dout ws @ [Tdm_wck_at (td_t st + of_nat num_channels * 32) 1] \<and>
       length ws = num_channels \<and> (\<forall>n < num_channels. \<forall>i. bit (ws ! n) i = (i < 24 \<and> bit (sample n) (23 - i))) \<and>
       (\<forall>n < num_channels. din n = ws ! n \<and> bit (en_request_state (td_enable st)) n \<longrightarrow>
          td_ififos st' ! n = media_input_fifo_push_sample (sample n AND 0xffffff) ts (td_ififos st ! n))) \<and>
    td_t st' = td_t st + of_nat num_channels * 32 \<and>
    media_input_fifo_enable_ind_state (td_enable st') = media_input_fifo_enable_req_state (td_enable st) \<and>
    (\<forall>n < num_channels. \<not> bit (en_request_state (td_enable st)) n \<longrightarrow> td_ififos st' ! n = media_input_fifo_flush (td_ififos st ! n))"
proof -
  let ?a = "en_request_state (td_enable st)"
  obtain xs fs where p: "pull_channels ts [0..<num_channels] (td_ofifos st) = (xs, fs)" by force
  have xs: "xs = map sample [0..<num_channels]"
    using pull_channels_nth [of "[0..<num_channels]" ts "td_ofifos st"] p sample by simp
  have z: "zip [0..<num_channels] xs = map (\<lambda>n. (n, sample n)) [0..<num_channels]"
    unfolding xs by (simp add: zip_map2 zip_same_conv_map)
  have "num_channels \<le> length (td_ififos (st\<lparr>td_ofifos := fs\<rparr>))" using sizes by simp
  note C = tdm_channels [OF this refl, of ?a ts din sample]
  let ?s = "fold (tdm_channel ?a ts din) (map (\<lambda>n. (n, sample n)) [0..<num_channels]) (st\<lparr>td_ofifos := fs\<rparr>)"
  have f: "st' = ?s\<lparr>td_t := td_t ?s + of_nat num_channels * 32,
      td_trace := td_trace ?s @ [Tdm_wck_at (td_t ?s + of_nat num_channels * 32) 1],
      td_enable := media_input_fifo_update_enable_ind_state ?a 0xFFFFFFFF (td_enable ?s)\<rparr>"
    by (simp add: st' tdm_frame_def media_output_fifo_to_xc_channel_def p z Let_def tdm_act_def CLOCKS_PER_CHANNEL_def
        media_input_fifo_enable_req_state_def)
  let ?ws = "map (\<lambda>n. bitrev (push_bit 8 (sample n))) [0..<num_channels]"
  have n: "NOT 0xFFFFFFFF = (0 :: u32)" by simp
  have e: "media_input_fifo_enable_ind_state (td_enable st') = ?a"
    using C lock unfolding f media_input_fifo_enable_ind_state_def media_input_fifo_update_enable_ind_state_def n by simp
  have i: "td_ififos st' ! k = (if bit ?a k then media_input_fifo_push_sample (drop_bit 8 (bitrev (din k))) ts (td_ififos st ! k)
      else media_input_fifo_flush (td_ififos st ! k))" if "k < num_channels" for k
    using C that by (simp add: f fed_fifo_bit)
  have "td_trace st' = td_trace st @ map Tdm_dout ?ws @ [Tdm_wck_at (td_t st + of_nat num_channels * 32) 1]"
    using C by (simp add: f comp_def)
  moreover have "bit (?ws ! k) b = (b < 24 \<and> bit (sample k) (23 - b))" if "k < num_channels" for k b
    using that by (simp add: bit_wire)
  moreover have "td_ififos st' ! k = media_input_fifo_push_sample (sample k AND 0xffffff) ts (td_ififos st ! k)"
    if "k < num_channels" "din k = ?ws ! k" "bit ?a k" for k
    using that by (simp add: i loopback_word)
  moreover have "td_t st' = td_t st + of_nat num_channels * 32" using C by (simp add: f)
  ultimately show ?thesis using i e
    by (intro conjI exI [of _ ?ws]) (simp_all add: media_input_fifo_enable_req_state_def)
qed


section \<open>The loop back\<close>

lemma tdm_loopback_pending:
  assumes "length x = 6" "length pend = 5" "\<forall>k < 5. x ! ((i + k) mod 6) = pend ! k"
  shows "tdm_loopback_steps as (x, (i + 5) mod 6, i mod 6) = take (length as) (pend @ as)"
  using assms
proof (induction as arbitrary: i x pend)
  case (Cons a as)
  let ?x = "x[(i + 5) mod 6 := a]"
  have wrap: "(j mod 6 + 1) * of_bool (j mod 6 \<noteq> 5) = Suc j mod 6" for j :: nat by (simp add: mod_Suc)
  have ne: "(i + k) mod 6 \<noteq> (i + 5) mod 6" if "k < 5" for k using that by presburger
  have "\<forall>k < 5. ?x ! ((Suc i + k) mod 6) = (tl pend @ [a]) ! k"
  proof (intro allI impI)
    fix k :: nat
    assume k: "k < 5"
    show "?x ! ((Suc i + k) mod 6) = (tl pend @ [a]) ! k"
    proof (cases "k = 4")
      case True
      then show ?thesis using Cons.prems(1,2) by (simp add: nth_append add.commute)
    next
      case False
      with k have "Suc k < 5" by simp
      then have "x ! ((Suc i + k) mod 6) = pend ! Suc k" using Cons.prems(3) by (auto dest!: spec [of _ "Suc k"])
      then show ?thesis using Cons.prems(1,2) k False ne [OF \<open>Suc k < 5\<close>] by (auto simp: nth_append nth_tl)
    qed
  qed
  from Cons.IH [OF _ _ this] Cons.prems(1,2)
  have "tdm_loopback_steps as (?x, (Suc i + 5) mod 6, Suc i mod 6) = take (length as) ((tl pend @ [a]) @ as)" by simp
  moreover have "?x ! (i mod 6) = hd pend" using Cons.prems ne [of 0] by (cases pend) (auto dest!: spec [of _ 0])
  moreover have "take (length (a # as)) (pend @ a # as) = hd pend # take (length as) ((tl pend @ [a]) @ as)"
    using Cons.prems(2) by (cases pend) simp_all
  moreover have "tdm_loopback_step a (x, (i + 5) mod 6, i mod 6) = (?x ! (i mod 6), ?x, (Suc i + 5) mod 6, Suc i mod 6)"
    using wrap [of i] wrap [of "i + 5"] by (simp add: tdm_loopback_step_def Let_def)
  ultimately show ?case by (simp only: tdm_loopback_steps.simps Let_def prod.case)
qed simp

text \<open>
  The TDM loop back delays by eight samples. What is sent is three zeros, then the first five words of an array that was never
  initialised, and from then on every received sample in its order.
\<close>

theorem tdm_loopback_delay:
  assumes "length stack = 6"
  shows "tdm_loopback stack as = take (3 + length as) ([0, 0, 0] @ take 5 stack @ as)"
proof -
  have "\<forall>k < 5. stack ! ((0 + k) mod 6) = take 5 stack ! k" using assms by simp
  moreover have "take (3 + length as) ([0, 0, 0] @ ys) = [0, 0, 0] @ take (length as) ys" for ys :: "u32 list"
    by (simp only: take_append) simp
  ultimately show ?thesis using tdm_loopback_pending [OF assms, of "take 5 stack" 0 as] assms by (simp add: tdm_loopback_def del: append_Cons)
qed

theorem tdm_loopback_delay_witness:
  "tdm_loopback [11, 12, 13, 14, 15, 16] [1, 2, 3, 4, 5, 6] = [0, 0, 0, 11, 12, 13, 14, 15, 1]"
  using tdm_loopback_delay [of "[11, 12, 13, 14, 15, 16]" "[1, 2, 3, 4, 5, 6]"] by simp

section \<open>The test tone\<close>

lemma synth_tick_fields:
  "sy_wordLength (synth_tick nc st) = sy_wordLength st" "sy_baseLength (synth_tick nc st) = sy_baseLength st"
  "sy_step (synth_tick nc st) = sy_step st"
  "sy_lowBits (synth_tick nc st) = (sy_lowBits st + sy_wordLength st) AND 0xffff"
  "sy_prevLowBits (synth_tick nc st) = (sy_lowBits st + sy_wordLength st) AND 0xffff"
  "sy_wordTime (synth_tick nc st) = sy_wordTime st + sy_baseLength st +
     of_bool ((sy_lowBits st + sy_wordLength st) AND 0xffff < sy_prevLowBits st)"
  "sy_i (synth_tick nc st) = (if sy_i st + 1 = sy_step st then 0 else sy_i st + 1)"
  "sy_index (synth_tick nc st) = (if sy_i st + 1 = sy_step st then (if sy_index st + 1 \<ge> 100 then 0 else sy_index st + 1) else sy_index st)"
  by (simp_all add: synth_tick_def synth_carry_def synth_advance_def SINE_TABLE_SIZE_def Let_def)

lemma carry_div:
  fixes a b m :: int
  assumes "0 < m"
  shows "(a + b) div m = a div m + b div m + of_bool ((a + b) mod m < a mod m)"
proof -
  have r: "0 \<le> a mod m" "a mod m < m" "0 \<le> b mod m" "b mod m < m" using assms by simp_all
  have "(a + b) div m = a div m + b div m + (a mod m + b mod m) div m" by (rule div_add1_eq)
  moreover have "(a + b) mod m = (a mod m + b mod m) mod m" by (simp add: mod_add_eq)
  moreover have "(a mod m + b mod m) div m = of_bool ((a mod m + b mod m) mod m < a mod m)"
  proof (cases "a mod m + b mod m < m")
    case True
    then show ?thesis using r by (simp add: div_pos_pos_trivial mod_pos_pos_trivial)
  next
    case False
    let ?u = "a mod m + b mod m"
    from False r have u: "m \<le> ?u" "0 \<le> ?u - m" "?u - m < m" by linarith+
    have "?u div m = (?u - m) div m + 1" using assms u(1) by (rule div_pos_geq)
    moreover have "(?u - m) div m = 0" using u(2,3) by (rule div_pos_pos_trivial)
    moreover have "?u mod m = (?u - m) mod m" using assms u(1) by (rule mod_pos_geq)
    moreover have "(?u - m) mod m = ?u - m" using u(2,3) by (rule mod_pos_pos_trivial)
    ultimately have "?u div m = 1" "?u mod m = ?u - m" by simp_all
    then show ?thesis using r False by simp
  qed
  ultimately show ?thesis by simp
qed


definition acc :: "u32 \<Rightarrow> nat \<Rightarrow> int" where
  "acc w n = int n * sint w"

lemma low_bits: "uint ((x :: u32) AND 0xffff) = uint x mod 65536"
proof -
  have m: "(0xffff :: u32) = mask 16" by (simp add: mask_eq_exp_minus_1)
  show ?thesis unfolding m take_bit_eq_mask [symmetric] unsigned_take_bit_eq by (simp add: take_bit_eq_mod)
qed

lemma uint_sint_mod: "uint (w :: u32) mod 65536 = sint w mod 65536"
proof -
  have "uint w = sint w mod 2 ^ 32" by (simp add: uint_sint take_bit_eq_mod)
  then show ?thesis by (simp add: mod_mod_cancel)
qed

lemma low_bits_step: "uint l = a mod 65536 \<Longrightarrow> uint (((l :: u32) + w) AND 0xffff) = (a + sint w) mod 65536"
proof -
  assume l: "uint l = a mod 65536"
  have "uint ((l + w) AND 0xffff) = ((uint l + uint w) mod 2 ^ 32) mod 65536" by (simp add: low_bits uint_word_ariths(1))
  also have "\<dots> = (uint l + uint w) mod 65536" by (simp add: mod_mod_cancel)
  also have "\<dots> = (a mod 65536 + sint w mod 65536) mod 65536" by (simp add: l uint_sint_mod [symmetric] mod_add_right_eq)
  finally show ?thesis by (simp add: mod_add_eq)
qed

lemma synth_ticks:
  assumes "st = (synth_tick nc ^^ n) (synth_start period 1 w now st0)"
  shows "sy_wordLength st = w \<and> sy_baseLength st = word_of_int (sint w div 65536) \<and>
    uint (sy_lowBits st) = acc w n mod 65536 \<and> sy_prevLowBits st = sy_lowBits st \<and>
    sy_wordTime st = now + word_of_int (sint w div 65536) + word_of_int (acc w n div 65536)"
  using assms
proof (induction n arbitrary: st)
  case 0
  then show ?case by (simp add: synth_start_def synth_set_rate_def Let_def acc_def drop_bit_eq_div)
next
  case (Suc n)
  let ?s = "(synth_tick nc ^^ n) (synth_start period 1 w now st0)"
  have st: "st = synth_tick nc ?s" using Suc.prems by simp
  note IH = Suc.IH [OF refl]
  have low: "uint (sy_lowBits st) = acc w (Suc n) mod 65536"
    using low_bits_step [of "sy_lowBits ?s" "acc w n" w] IH by (simp add: st synth_tick_fields acc_def algebra_simps)
  have "sy_lowBits st < sy_lowBits ?s \<longleftrightarrow> acc w (Suc n) mod 65536 < acc w n mod 65536"
    using low IH by (simp add: word_less_def)
  then have "sy_wordTime st = sy_wordTime ?s + word_of_int (sint w div 65536) + of_bool (acc w (Suc n) mod 65536 < acc w n mod 65536)"
    using IH by (simp add: st synth_tick_fields)
  moreover have "acc w (Suc n) div 65536 = acc w n div 65536 + sint w div 65536 + of_bool (acc w (Suc n) mod 65536 < acc w n mod 65536)"
    using carry_div [of 65536 "acc w n" "sint w"] by (simp add: acc_def algebra_simps)
  ultimately have "sy_wordTime st = now + word_of_int (sint w div 65536) + word_of_int (acc w (Suc n) div 65536)"
    using IH by (simp add: add.assoc)
  with low IH show ?case by (simp add: st synth_tick_fields)
qed

lemma next_div_mod:
  fixes d x :: int
  assumes "0 < d"
  shows "(x + 1) div d = (if x mod d + 1 = d then x div d + 1 else x div d)"
    and "(x + 1) mod d = (if x mod d + 1 = d then 0 else x mod d + 1)"
proof -
  have x: "x + 1 = d * (if x mod d + 1 = d then x div d + 1 else x div d) + (if x mod d + 1 = d then 0 else x mod d + 1)"
  proof (cases "x mod d + 1 = d")
    case True
    have "x + 1 = d * (x div d) + (x mod d + 1)" by simp
    also have "\<dots> = d * (x div d + 1)" unfolding True by (simp add: distrib_left)
    finally show ?thesis using True by simp
  qed simp
  have r: "0 \<le> (if x mod d + 1 = d then 0 else x mod d + 1)" "(if x mod d + 1 = d then 0 else x mod d + 1) < d"
    using assms pos_mod_bound [OF assms, of x] pos_mod_sign [OF assms, of x] by auto
  show "(x + 1) div d = (if x mod d + 1 = d then x div d + 1 else x div d)" by (rule int_div_pos_eq [OF x r])
  show "(x + 1) mod d = (if x mod d + 1 = d then 0 else x mod d + 1)" by (rule int_mod_pos_eq [OF x r])
qed

lemma synth_index:
  assumes "st = (synth_tick nc ^^ n) (synth_start period cmd w now st0)" "0 < (2 * period) sdiv 100"
  shows "sy_step st = (2 * period) sdiv 100 \<and> sy_i st = int n mod ((2 * period) sdiv 100) \<and>
    int (sy_index st) = int n div ((2 * period) sdiv 100) mod 100"
  using assms(1)
proof (induction n arbitrary: st)
  case 0
  then show ?case by (simp add: synth_start_def synth_set_rate_def Let_def)
next
  case (Suc n)
  let ?d = "(2 * period) sdiv 100" and ?s = "(synth_tick nc ^^ n) (synth_start period cmd w now st0)"
  have st: "st = synth_tick nc ?s" using Suc.prems by simp
  note IH = Suc.IH [OF refl]
  have i: "int (Suc n) = int n + 1" by simp
  have wrap: "int (if k + 1 \<ge> 100 then 0 else k + 1) = (int k + 1) mod 100" if "int k = a mod 100" for k and a :: int
  proof -
    have "int k < 100" using that by simp
    then show ?thesis by (cases "k = 99") auto
  qed
  show ?case
  proof (cases "int n mod ?d + 1 = ?d")
    case True
    have "int (sy_index st) = (int n div ?d mod 100 + 1) mod 100"
      using IH True wrap [of "sy_index ?s" "int n div ?d"] by (simp add: st synth_tick_fields)
    then show ?thesis using IH True unfolding i next_div_mod [OF assms(2)] by (simp add: st synth_tick_fields mod_add_left_eq)
  next
    case False
    then show ?thesis using IH unfolding i next_div_mod [OF assms(2)] by (simp add: st synth_tick_fields)
  qed
qed

text \<open>
  The test tone. The word length of the clock server has 16 fractional bits. After \<open>n\<close> samples the time of the next
  one is the start, the whole ticks of the first word, and the whole ticks of \<open>n\<close> words: the fractions are summed and
  none is lost, however long the tone plays. The table advances once in \<open>step\<close> samples, so that a period of the tone
  is 100 steps.
\<close>

theorem synth_exact:
  assumes "st = (synth_tick nc ^^ n) (synth_start period 1 w now st0)"
  shows "sy_wordTime st = now + word_of_int (sint w div 65536) + word_of_int (int n * sint w div 65536) \<and>
    ((0 < (2 * period) sdiv 100 \<longrightarrow> int (sy_index st) = int n div ((2 * period) sdiv 100) mod 100))"
  using synth_ticks [OF assms] synth_index [OF assms] by (simp add: acc_def)


definition synth_example :: synth_st where
  "synth_example = \<lparr>sy_i = 5, sy_index = 7, sy_wordTime = 0, sy_wordLength = 0, sy_baseLength = 0, sy_lowBits = 3,
     sy_prevLowBits = 2, sy_step = 0, sy_rand = 0, sy_count = 0, sy_ififos = [],
     sy_enable = \<lparr>en_lock = True, en_request_state = 0, en_indication_state = 0\<rparr>\<rparr>"

theorem synth_exact_witness:
  "sy_wordTime ((synth_tick 2 ^^ 48000) (synth_start 100 1 136533333 1000 synth_example)) = 100003082 \<and>
   sy_index ((synth_tick 2 ^^ 150) (synth_start 100 1 136533333 1000 synth_example)) = 75"
proof -
  have w: "sint (136533333 :: u32) = 136533333" by (simp add: sint_uint)
  have d: "(2 * 100) sdiv 100 = (2 :: int)" by (simp add: signed_divide_int_def)
  show ?thesis
    using synth_exact [OF refl, of 48000 2 100 136533333 1000 synth_example]
      synth_exact [OF refl, of 150 2 100 136533333 1000 synth_example] unfolding d w by simp
qed

definition tdm_example :: tdm_st where
  "tdm_example = \<lparr>td_ififos = [i2s_example_ififo], td_ofifos = [i2s_example_ofifo 0x123456],
     td_enable = \<lparr>en_lock = True, en_request_state = 1, en_indication_state = 0\<rparr>, td_t = 100, td_trace = []\<rparr>"

theorem tdm_frame_exact_witness:
  "td_t (tdm_frame 1 5 (\<lambda>_. 0) tdm_example) = 132 \<and>
   media_input_fifo_enable_ind_state (td_enable (tdm_frame 1 5 (\<lambda>_. 0) tdm_example)) = 1"
proof -
  have "1 \<le> length (td_ififos tdm_example)" "1 \<le> length (td_ofifos tdm_example)" "en_lock (td_enable tdm_example)"
    by (simp_all add: tdm_example_def)
  from tdm_frame_exact [OF this refl refl, of 5 "\<lambda>_. 0"] show ?thesis
    by (simp add: tdm_example_def media_input_fifo_enable_req_state_def)
qed

end
