(* ===== verification/Spec2Isabelle.thy ===== *)
theory Spec2Isabelle
  imports Maap Mrp_Roundtrip Srp_Proofs Acmp_Listener_Proofs Gptp_Proofs Media_Fifo_Proofs Endpoint_Proofs Registration_Proofs Delivery_Proofs Router_Proofs Media_Clock_Proofs
    Stream_Detect Avb_Util
    Audio_I2s_Proofs Avb_Api Video_Proofs Ptp_Server_Proofs Media_Clock_Client Fifo_Handover Packet_Threads Audio_Interfaces_Proofs
begin

text \<open>
  Verification library for the XMOS AVB endpoint (\<open>sw_avb\<close>): the control and the data plane of an audio device
  that reserves streams on a network, synchronises its clock with it, is discovered and connected by controllers, and
  carries audio between codecs and 1722 packets.

  \<^bold>\<open>The program.\<close> One control thread (\<open>avb.c\<close>, \<open>avb_1722_1.c\<close>, \<open>simple_demo_controller.c\<close>) polls the timers of the
  protocols and hands every received frame to one of them: MAAP for stream addresses, MRP (MSRP, MVRP and
  MMRP) for reservations, 1722.1 ADP, ACMP and AECP for discovery, connections and the entity model. A protocol that
  changes a stream calls the get/set functions of \<open>avb.c\<close>, which send commands to the talker and listener threads. In
  the data plane the I2S thread fills media input FIFOs and drains media output FIFOs; the 1722 talker makes
  packets of the former, the router in the MAC selects the listener of a received packet, and the listener fills the
  latter. The gPTP port keeps the network time, and the media clock server adjusts the FIFOs and the audio clock
  to the timestamps of a stream.

  \<^bold>\<open>Theories and sources.\<close> A module \<open>X\<close> of the repository is in \<open>src/X/src\<close>. A theory whose name ends in
  \<open>_Proofs\<close> holds the lemmas and properties of the theory before it.
  \<^item> \<open>Avb_Prelude\<close>: machine integers, searches in C arrays, byte buffers, the interfaces of codecs and state machines.
  \<^item> \<open>Misc_Timer\<close> (\<open>misc_timer.xc\<close>), \<open>Avb_Util\<close> (\<open>avb_util.c\<close>), \<open>Avb_1722_Common\<close> (\<open>avb_1722_common.c\<close>,
    \<open>avb_1722_1_common.c\<close>): timers, numbers as text, byte order, GUIDs, the 1722.1 control header.
  \<^item> \<open>Maap\<close> (\<open>avb_1722_maap.c\<close>): address allocation, with its properties.
  \<^item> \<open>Mrp_Machine\<close>, \<open>Mrp_Pdu\<close>, \<open>Mrp_Merge\<close>, \<open>Mrp_Sort\<close>, \<open>Mrp\<close> (\<open>avb_mrp.c\<close>, and the merge and match functions of
    \<open>avb_srp.c\<close>, \<open>avb_mvrp.c\<close>, \<open>avb_mmrp.c\<close>): the attribute machines, the frame under construction, the send and
    receive paths. \<open>Mrp_Messages\<close>, \<open>Mrp_Refine\<close> and \<open>Mrp_Roundtrip\<close> give frames their meaning as lists of messages.
  \<^item> \<open>Avb_State\<close>, \<open>Mvrp\<close>, \<open>Avb_Control\<close>, \<open>Mrp_Periodic\<close>, \<open>Media_Clocks\<close>, \<open>Avb_Init\<close>, \<open>Avb_Api\<close> (\<open>avb.c\<close>, \<open>avb_api.c\<close>,
    \<open>avb_mvrp.c\<close>, \<open>avb_mmrp.c\<close>, \<open>avb_srp.c\<close>): the control state as one record (\<open>avb_st\<close>: sources, sinks, channel
    maps, attributes, registration tables and the list of effects), and everything that changes it.
    \<open>Srp_Proofs\<close> and \<open>Registration_Proofs\<close> are about reservations and start-up.
  \<^item> \<open>Adp\<close>, \<open>Acmp_Types\<close>, \<open>Acmp\<close>, \<open>Aecp\<close> (\<open>avb_1722_1_adp.c\<close>, \<open>avb_1722_1_acmp.c\<close>, \<open>avb_1722_1_aecp.c\<close>): 1722.1.
    \<open>Slot_Table\<close> is the map that an array of slots stands for.
  \<^item> \<open>Gptp_Time\<close>, \<open>Gptp\<close> (\<open>gptp.c\<close>): time arithmetic and the port. \<open>Ptp_Server\<close> (\<open>gptp_server.xc\<close>,
    \<open>gptp_client.xc\<close>): the gPTP thread and time information for the other threads.
  \<^item> \<open>Endpoint\<close> (\<open>avb.c\<close>, \<open>avb_1722_1.c\<close>, \<open>simple_demo_controller.c\<close>): the control thread as a whole.
  \<^item> \<open>Media_Input_Fifo\<close>, \<open>Media_Output_Fifo\<close> (\<open>media_input_fifo.c\<close>, \<open>media_output_fifo.c\<close>), \<open>Audio_I2s\<close>
    (\<open>audio_i2s.h\<close>, \<open>media_output_fifo_support.xc\<close>), \<open>Audio_Interfaces\<close> (\<open>tdm.xc\<close>, \<open>synth.xc\<close>, \<open>media_fifo.xc\<close>):
    the FIFOs and the audio threads. \<open>Fifo_Handover\<close> is about the interleaving of the audio thread and a talker on
    the enable words.
  \<^item> \<open>Avb_1722_Header\<close>, \<open>Avb_1722_Talker\<close>, \<open>Avb_1722_Listener\<close>, \<open>Avb_1722_Router\<close>, \<open>Stream_Detect\<close>, \<open>Avb_1722_Video\<close>
    (the files of \<open>module_avb_1722\<close>, \<open>avb_stream_detect.c\<close>): packets, talker, listener, routing, the video build.
    \<open>Packet_Threads\<close> (\<open>avb_1722_talkerlistener.xc\<close>) has the main loops, for either direction and for both.
    \<open>Talker_Header_Proofs\<close>, \<open>Delivery_Proofs\<close> and \<open>Video_Proofs\<close> are about templates and end to end delivery.
  \<^item> \<open>Media_Clock\<close> (\<open>media_clock_support.c\<close>, \<open>media_clock_server.xc\<close>): clock recovery and FIFO control.
    \<open>Media_Clock_Client\<close> (\<open>avb_media_clock.xc\<close>, \<open>media_clock_client.xc\<close>): its clients.

  \<^bold>\<open>Conventions.\<close> A struct is a record whose fields have the prefix of the component, an enumeration or a command
  with its arguments a datatype, \<open>unsigned\<close> a 32-bit word; an \<open>int\<close> is an integer that is cut to its width where a
  computation can leave it. Static variables of a file are one record that is passed along. A frame or a word that
  leaves a thread is an element of a list in the result. A pointer into an array is an index, a null pointer \<open>None\<close>. A return
  value that reports failure, a division by zero and a read that waits for ever are \<open>None\<close>. The time is an argument.

  \<^bold>\<open>Interfaces.\<close> \<open>wire_codec\<close> (the three byte orders), \<open>event_machine\<close> and \<open>guarded_machine\<close> (MAAP, the ACMP talker and
  listener, acquisition), \<open>registration_table\<close> (VLANs and groups), \<open>slot_table\<close> (entities), \<open>bounded_queue\<close> (the
  output FIFO) and \<open>control_parameter\<close> (the parameters of streams and clocks) are locales; each is interpreted on
  the definitions of the component that provides it.

  \<^bold>\<open>What is shown.\<close> For the protocols: a handshake from command to response, with its retries and timeouts
  (\<open>listener_connects\<close>, \<open>listener_retries_once\<close>, \<open>talker_answers\<close>) and the talker's connections as a bag of listeners
  (\<open>talker_listener_bag\<close>), acquisition and defence of addresses
  (\<open>maap_acquires\<close>, \<open>maap_defends\<close>), the frame of a set of attributes replayed by its receiver
  (\<open>mrp_transmission_refines\<close>, \<open>mrp_frame_roundtrip\<close>), reservation from a listener to the talker
  (\<open>listener_ready_starts_talker\<close>, \<open>listener_leave_grace\<close>), discovery as a finite map with expiry
  (\<open>entity_database_map\<close>, \<open>entity_expiry\<close>), and the best master algorithm and the synchronisation of gPTP
  (\<open>bmca_selects_best\<close>, \<open>sync_transfers_time\<close>, \<open>pdelay_measures\<close>, \<open>master_failover\<close>), and the network time as every
  thread has it (\<open>ptp_time_on_two_tiles\<close>, \<open>one_time_request\<close>). For the data plane: the FIFOs as
  queues (\<open>ofifo_fifo_order\<close>, \<open>input_fifo_refines_queue\<close>), the talker, the listener and both together sample by
  sample (\<open>talker_packetises\<close>, \<open>listener_locks\<close>, \<open>talker_to_listener\<close>), routing (\<open>router_delivers\<close>), the I2S frames and
  the hand over of FIFOs (\<open>i2s_sample_period\<close>, \<open>i2s_masters_agree\<close>, \<open>i2s_fifo_handover\<close>) in every
  interleaving (\<open>handover_safe\<close>, and \<open>handover_race\<close> for commands that come too fast), one packet thread in place of
  two (\<open>talkerlistener_is_both\<close>), TDM and the test tone (\<open>tdm_frame_exact\<close>, \<open>synth_exact\<close>), and an audio clock that does
  not drift (\<open>clock_output_exact\<close>, \<open>buffer_compensation\<close>). Across components: start-up, connection requests,
  addresses and discovered listeners as they reach the streams (\<open>streams_own_their_attributes\<close>,
  \<open>connect_starts_reservation\<close>, \<open>addresses_reach_streams\<close>, \<open>new_listener_is_connected\<close>). Several of them also say
  where the code does not do what it means to; such a defect is part of the statement.

  \<^bold>\<open>Bounds.\<close> Loops are structural or have a measure. Three can run for ever on some states and are partial functions
  into \<open>option\<close>: the fill level of an input FIFO (which ends for every FIFO in use, \<open>input_fifo_fill_level\<close>), the refill
  of the hash table and \<open>qlog2\<close>. No definition has fuel. The streaming channel of the I2S threads has any capacity of at
  least a word, and a thread that waits for ever on it makes the run \<open>None\<close> (\<open>i2s_masters_agree\<close>). The loops that bring a FIFO pointer back into the buffer
  are computed with integers; the code's pointers are assumed not to overflow on the way.

  \<^bold>\<open>Configuration.\<close> The full MRP participant with MMRP, automatic control of talkers by SRP, AEM with generated
  clusters and maps, controller, talker and listener enabled, 61883-6 audio (and 61883-4 video in its own theory), no volume
  control, no debug output. Numbers of streams, channels and slots are the lengths of the arrays. The board's entity
  and descriptor tables, the type of the external PLL and the application hooks are arguments.

  \<^bold>\<open>Parameters.\<close> The random numbers of MAAP, the checksum instruction of the hash table, the values of
  uninitialised variables (\<open>stack\<close>), the times of ports and timers, and the input FIFO of the video build, of which the
  repository has no implementation.

  \<^bold>\<open>Not modelled.\<close> The Ethernet MAC, I2C and OTP modules are outside the repository, and with them the threads that only
  forward to them. The cases of the select loops are modelled, not the choice among
  those that are ready. The I2S slave is compiled out. The configuration of ports and clock blocks has no part in the model. The
  codecs and external clocks are sequences of register writes. Printing, the placement of threads and board files,
  headers with prototypes and comments only, and the test applications, which use an earlier interface, have no state.
\<close>

end
